(* ===== verification/Prelude.thy ===== *)
theory Prelude
  imports Complex_Main "HOL-Library.Sublist" "HOL-Library.AList"
begin

text \<open>
  Shared vocabulary of the development: Python values as they cross a JSON boundary, the
  string operations of the standard library that the sources use, results with an error value,
  and the generic lemmas on them.

  Strings are lists of 8-bit characters; case mapping is defined on ASCII letters, which is
  all that the identifiers, header names, units and key markers of the sources contain.
  A Python dictionary is an association list without repeated keys, in insertion order.
  Times returned by \<open>time.time()\<close> are reals, Unix seconds inside Nostr events are integers.
\<close>

named_theorems policy_simps \<open>unfolding rules of the policy component\<close>
named_theorems store_simps \<open>unfolding rules of the stateful stores\<close>
named_theorems auth_simps \<open>unfolding rules of the authentication component\<close>
named_theorems broker_simps \<open>unfolding rules of the broker component\<close>

subsection \<open>Results with an error value\<close>

text \<open>A computation that may raise is a value of \<open>'e + 'a\<close>: \<open>Inl\<close> is the exception.\<close>

definition ebind :: "'e + 'a \<Rightarrow> ('a \<Rightarrow> 'e + 'b) \<Rightarrow> 'e + 'b" where
  "ebind m f = (case m of Inl e \<Rightarrow> Inl e | Inr x \<Rightarrow> f x)"

definition guard :: "bool \<Rightarrow> 'e \<Rightarrow> 'e + unit" where
  "guard b e = (if b then Inr () else Inl e)"

fun emap :: "('a \<Rightarrow> 'e + 'b) \<Rightarrow> 'a list \<Rightarrow> 'e + 'b list" where
  "emap f [] = Inr []"
| "emap f (x # xs) = ebind (f x) (\<lambda>y. ebind (emap f xs) (\<lambda>ys. Inr (y # ys)))"

fun eall :: "('a \<Rightarrow> 'e + unit) \<Rightarrow> 'a list \<Rightarrow> 'e + unit" where
  "eall f [] = Inr ()"
| "eall f (x # xs) = ebind (f x) (\<lambda>_. eall f xs)"

fun is_ok :: "'e + 'a \<Rightarrow> bool" where
  "is_ok (Inl _) = False"
| "is_ok (Inr _) = True"

lemma ebind_simps [simp]:
  "ebind (Inl e) f = Inl e"
  "ebind (Inr x) f = f x"
  by (simp_all add: ebind_def)

lemma ebind_Inr [simp]: "ebind m f = Inr y \<longleftrightarrow> (\<exists>x. m = Inr x \<and> f x = Inr y)"
  by (cases m) auto

lemma ebind_Inl: "ebind m f = Inl e \<longleftrightarrow> m = Inl e \<or> (\<exists>x. m = Inr x \<and> f x = Inl e)"
  by (cases m) auto

lemma guard_Inr [simp]: "guard b e = Inr u \<longleftrightarrow> b"
  by (cases u) (simp add: guard_def)

lemma guard_Inl [simp]: "guard b e = Inl e' \<longleftrightarrow> \<not> b \<and> e' = e"
  by (auto simp: guard_def)

lemma guard_True [simp]: "guard True e = Inr ()"
  by (simp add: guard_def)

lemma guard_False [simp]: "guard False e = Inl e"
  by (simp add: guard_def)

lemma is_ok_iff: "is_ok r \<longleftrightarrow> (\<exists>x. r = Inr x)"
  by (cases r) auto

lemma eall_Inr [simp]: "eall f xs = Inr u \<longleftrightarrow> (\<forall>x \<in> set xs. f x = Inr ())"
  by (induction xs) (auto simp: unit_eq)

lemma emap_length: "emap f xs = Inr ys \<Longrightarrow> length ys = length xs"
  by (induction xs arbitrary: ys) auto

subsection \<open>Python values\<close>

text \<open>
  The values a JSON document, a parsed TOML document or a tool's keyword arguments hold.
  \<open>isinstance(v, int)\<close> is true of booleans too, and \<open>True == 1 == 1.0\<close>, as in Python.
\<close>

datatype json =
    JNull
  | JBool bool
  | JInt int
  | JFloat real
  | JStr string
  | JList "json list"
  | JObj "(string \<times> json) list"

type_synonym dict = "(string \<times> json) list"

fun is_str :: "json \<Rightarrow> bool" where
  "is_str (JStr _) = True"
| "is_str _ = False"

fun is_bool :: "json \<Rightarrow> bool" where
  "is_bool (JBool _) = True"
| "is_bool _ = False"

fun is_int :: "json \<Rightarrow> bool" where
  "is_int (JInt _) = True"
| "is_int (JBool _) = True"
| "is_int _ = False"

fun is_dict :: "json \<Rightarrow> bool" where
  "is_dict (JObj _) = True"
| "is_dict _ = False"

text \<open>\<open>bool(v)\<close>: what an \<open>if\<close>, \<open>not\<close>, \<open>or\<close> tests.\<close>

fun truthy :: "json \<Rightarrow> bool" where
  "truthy JNull = False"
| "truthy (JBool b) = b"
| "truthy (JInt i) = (i \<noteq> 0)"
| "truthy (JFloat r) = (r \<noteq> 0)"
| "truthy (JStr s) = (s \<noteq> [])"
| "truthy (JList xs) = (xs \<noteq> [])"
| "truthy (JObj d) = (d \<noteq> [])"

text \<open>\<open>v == n\<close> for an integer constant \<open>n\<close>.\<close>

fun eq_int :: "json \<Rightarrow> int \<Rightarrow> bool" where
  "eq_int (JInt i) n = (i = n)"
| "eq_int (JBool b) n = ((if b then 1 else 0) = n)"
| "eq_int (JFloat r) n = (r = of_int n)"
| "eq_int _ n = False"

text \<open>The characters of a string value.\<close>

fun text_of :: "json \<Rightarrow> string" where
  "text_of (JStr s) = s"
| "text_of _ = []"

text \<open>\<open>d.get(k)\<close>, \<open>d.get(k, default)\<close>, \<open>k in d\<close> and \<open>set(d)\<close>.\<close>

definition dget :: "dict \<Rightarrow> string \<Rightarrow> json" where
  "dget d k = (case map_of d k of None \<Rightarrow> JNull | Some v \<Rightarrow> v)"

definition dget_default :: "dict \<Rightarrow> string \<Rightarrow> json \<Rightarrow> json" where
  "dget_default d k v0 = (case map_of d k of None \<Rightarrow> v0 | Some v \<Rightarrow> v)"

definition dkeys :: "dict \<Rightarrow> string list" where
  "dkeys d = map fst d"

definition dhas :: "dict \<Rightarrow> string \<Rightarrow> bool" where
  "dhas d k = (k \<in> set (dkeys d))"

text \<open>\<open>d[k] = v\<close> keeps the position of an existing key; \<open>d.pop(k, None)\<close> removes it.\<close>

fun dset :: "dict \<Rightarrow> string \<Rightarrow> json \<Rightarrow> dict" where
  "dset [] k v = [(k, v)]"
| "dset ((k', v') # d) k v = (if k' = k then (k, v) # d else (k', v') # dset d k v)"

definition dpop :: "dict \<Rightarrow> string \<Rightarrow> dict" where
  "dpop d k = filter (\<lambda>p. fst p \<noteq> k) d"

lemma dget_Nil [simp]: "dget [] k = JNull"
  by (simp add: dget_def)

lemma dget_Cons [simp]: "dget ((k', v) # d) k = (if k = k' then v else dget d k)"
  by (simp add: dget_def)

lemma dget_default_Nil [simp]: "dget_default [] k v0 = v0"
  by (simp add: dget_default_def)

lemma dget_default_Cons [simp]:
  "dget_default ((k', v) # d) k v0 = (if k = k' then v else dget_default d k v0)"
  by (simp add: dget_default_def)

lemma dget_eq_default: "dget d k = dget_default d k JNull"
  by (simp add: dget_def dget_default_def)

lemma dhas_iff_map_of: "dhas d k \<longleftrightarrow> map_of d k \<noteq> None"
  by (auto simp: dhas_def dkeys_def map_of_eq_None_iff)

lemma dget_missing: "\<not> dhas d k \<Longrightarrow> dget d k = JNull"
  by (simp add: dhas_iff_map_of dget_def)

lemma map_of_dset [simp]: "map_of (dset d k v) = (map_of d)(k \<mapsto> v)"
  by (induction d k v rule: dset.induct) auto

lemma map_of_dpop [simp]: "map_of (dpop d k) = (map_of d)(k := None)"
  unfolding dpop_def by (induction d) auto

lemma dget_dset: "dget (dset d k v) k' = (if k' = k then v else dget d k')"
  by (simp add: dget_def)

lemma dget_dpop: "dget (dpop d k) k' = (if k' = k then JNull else dget d k')"
  by (simp add: dget_def)

lemma dkeys_dpop: "set (dkeys (dpop d k)) = set (dkeys d) - {k}"
  by (auto simp: dkeys_def dpop_def)

subsection \<open>Strings\<close>

definition starts_with :: "string \<Rightarrow> string \<Rightarrow> bool" where
  "starts_with s p = (take (length p) s = p)"

fun contains :: "string \<Rightarrow> string \<Rightarrow> bool" where
  "contains [] p = (p = [])"
| "contains (c # s) p = (starts_with (c # s) p \<or> contains s p)"

text \<open>Characters by code point: \<open>str.isspace\<close> and \<open>str.isdigit\<close> on 8-bit characters.
  The superscripts two, three and one are digits to \<open>isdigit\<close> and no digits to \<open>int\<close>.\<close>

definition code :: "char \<Rightarrow> nat" where
  "code c = of_char c"

lemma code_char_of: "n < 256 \<Longrightarrow> code (char_of (n :: nat)) = n"
  by (simp add: code_def)

definition is_space :: "char \<Rightarrow> bool" where
  "is_space c = (let n = code c in (9 \<le> n \<and> n \<le> 13) \<or> (28 \<le> n \<and> n \<le> 32) \<or> n = 133 \<or> n = 160)"

definition is_decimal :: "char \<Rightarrow> bool" where
  "is_decimal c = (48 \<le> code c \<and> code c \<le> 57)"

definition is_digit :: "char \<Rightarrow> bool" where
  "is_digit c = (is_decimal c \<or> code c = 178 \<or> code c = 179 \<or> code c = 185)"

definition is_upper :: "char \<Rightarrow> bool" where
  "is_upper c = (65 \<le> code c \<and> code c \<le> 90)"

definition is_lower :: "char \<Rightarrow> bool" where
  "is_lower c = (97 \<le> code c \<and> code c \<le> 122)"

definition is_letter :: "char \<Rightarrow> bool" where
  "is_letter c = (is_upper c \<or> is_lower c)"

definition lower_char :: "char \<Rightarrow> char" where
  "lower_char c = (if is_upper c then char_of (code c + 32) else c)"

definition upper_char :: "char \<Rightarrow> char" where
  "upper_char c = (if is_lower c then char_of (code c - 32) else c)"

definition str_lower :: "string \<Rightarrow> string" where
  "str_lower s = map lower_char s"

definition str_upper :: "string \<Rightarrow> string" where
  "str_upper s = map upper_char s"

definition str_strip :: "string \<Rightarrow> string" where
  "str_strip s = rev (dropWhile is_space (rev (dropWhile is_space s)))"

text \<open>\<open>s.partition(c)\<close> without the separator, and \<open>s.split(c)\<close>.\<close>

definition str_partition :: "string \<Rightarrow> char \<Rightarrow> string \<times> string" where
  "str_partition s c = (takeWhile (\<lambda>x. x \<noteq> c) s, drop 1 (dropWhile (\<lambda>x. x \<noteq> c) s))"

fun str_split_acc :: "char \<Rightarrow> string \<Rightarrow> string \<Rightarrow> string list" where
  "str_split_acc c acc [] = [rev acc]"
| "str_split_acc c acc (x # s) =
     (if x = c then rev acc # str_split_acc c [] s else str_split_acc c (x # acc) s)"

definition str_split :: "string \<Rightarrow> char \<Rightarrow> string list" where
  "str_split s c = str_split_acc c [] s"

text \<open>\<open>int(s)\<close>: surrounding white space, a sign, digits with single underscores between them.\<close>

fun decimal_value :: "nat \<Rightarrow> string \<Rightarrow> nat option" where
  "decimal_value n [] = Some n"
| "decimal_value n (c # s) =
     (if is_decimal c then decimal_value (10 * n + (code c - 48)) s
      else if c = CHR ''_'' \<and> s \<noteq> [] \<and> is_decimal (hd s) then decimal_value n s
      else None)"

definition parse_nat :: "string \<Rightarrow> nat option" where
  "parse_nat s = (case s of [] \<Rightarrow> None | c # _ \<Rightarrow> if is_decimal c then decimal_value 0 s else None)"

definition parse_int :: "string \<Rightarrow> int option" where
  "parse_int s = (case str_strip s of
      [] \<Rightarrow> None
    | c # t \<Rightarrow>
        (if c = CHR ''-'' then map_option (\<lambda>n. - int n) (parse_nat t)
         else if c = CHR ''+'' then map_option int (parse_nat t)
         else map_option int (parse_nat (c # t))))"

text \<open>\<open>str(n)\<close> of a natural number and of an integer.\<close>

fun show_nat :: "nat \<Rightarrow> string" where
  "show_nat n = (if n < 10 then [char_of (48 + n)] else show_nat (n div 10) @ [char_of (48 + n mod 10)])"

declare show_nat.simps [simp del]

definition show_int :: "int \<Rightarrow> string" where
  "show_int i = (if i < 0 then CHR ''-'' # show_nat (nat (- i)) else show_nat (nat i))"

lemma starts_with_Nil [simp]: "starts_with s []"
  by (simp add: starts_with_def)

lemma starts_with_iff: "starts_with s p \<longleftrightarrow> (\<exists>t. s = p @ t)"
  by (metis append_eq_conv_conj append_take_drop_id starts_with_def)

lemma contains_iff: "contains s p \<longleftrightarrow> (\<exists>a b. s = a @ p @ b)"
proof (induction s)
  case Nil
  then show ?case by simp
next
  case (Cons c s)
  show ?case
    unfolding contains.simps Cons.IH starts_with_iff
    by (metis append_Cons append_Nil list.inject neq_Nil_conv)
qed

lemma contains_refl [simp]: "contains s s"
  by (auto simp: contains_iff intro: exI [where x = "[]"])

subsection \<open>Exceptions\<close>

text \<open>
  An exception is its class and its message, \<open>str(exc)\<close>. \<open>is_value_error\<close> is the subclass
  relation that \<open>except ValueError\<close> tests: the classes the sources derive from \<open>ValueError\<close>.
\<close>

datatype exn_class =
    ValueError | KeyError | TypeError | RuntimeError | AttributeError
  | PolicyConfigError | PolicyViolation | ConfirmationError | PackageTestSessionError
  | LockedError | ScopeError | UnknownRoleError | IdentityConfigError | Bech32Error
  | NostrEventError | Nip98Error | ReplayError | DelegationError | RevocationConfigError
  | OwnerConfigError | RequestTooLargeError | BrokerProtocolError | ToolInputError
  | ConcordCryptoError | CredentialFileError | KeyLoadError | ServerIdentityError | NostrAuthLookupError
  | NostrAuthRelayLookupError | NoAppsToUpgradeError | RemoteUnavailable | ApprovalHelperError | GuestbookError | PendingSignatureError | ConcordInviteError | BridgeConfigError | AmbiguousChannelError
  | ConcordBundleError | ConcordInviteEventError | ConcordEnvelopeError | ConcordKeyError | ControlPlaneError
  | YunohostUnavailableError | ToolError | OtherError

datatype exn = Exn exn_class string

fun exn_cls :: "exn \<Rightarrow> exn_class" where
  "exn_cls (Exn c _) = c"

fun exn_msg :: "exn \<Rightarrow> string" where
  "exn_msg (Exn _ m) = m"

definition is_value_error :: "exn \<Rightarrow> bool" where
  "is_value_error e = (exn_cls e \<in>
     {ValueError, PolicyConfigError, ConfirmationError, PackageTestSessionError, UnknownRoleError,
      IdentityConfigError, Bech32Error, NostrEventError, Nip98Error, ReplayError, DelegationError,
      RevocationConfigError, OwnerConfigError, RequestTooLargeError, BrokerProtocolError, ToolInputError,
      ConcordCryptoError, CredentialFileError, KeyLoadError, NoAppsToUpgradeError, GuestbookError, PendingSignatureError, ConcordInviteError, AmbiguousChannelError, ConcordBundleError,
      ConcordInviteEventError, ConcordEnvelopeError, ConcordKeyError, ControlPlaneError, BridgeConfigError})"

text \<open>\<open>repr\<close> of a string of 8-bit characters and of a list of strings.\<close>

definition hex_digit :: "nat \<Rightarrow> char" where
  "hex_digit n = (if n < 10 then char_of (48 + n) else char_of (87 + n))"

definition is_printable :: "char \<Rightarrow> bool" where
  "is_printable c = (let n = code c in (32 \<le> n \<and> n \<le> 126) \<or> (161 \<le> n \<and> n \<noteq> 173))"

definition repr_char :: "char \<Rightarrow> char \<Rightarrow> string" where
  "repr_char q c =
     (if c = q \<or> code c = 92 then [char_of (92 :: nat), c]
      else if code c = 10 then [char_of (92 :: nat), CHR ''n'']
      else if code c = 13 then [char_of (92 :: nat), CHR ''r'']
      else if code c = 9 then [char_of (92 :: nat), CHR ''t'']
      else if is_printable c then [c]
      else [char_of (92 :: nat), CHR ''x'', hex_digit (code c div 16), hex_digit (code c mod 16)])"

definition py_repr :: "string \<Rightarrow> string" where
  "py_repr s =
     (let single = char_of (39 :: nat); double = char_of (34 :: nat);
          q = (if single \<in> set s \<and> double \<notin> set s then double else single)
      in [q] @ concat (map (repr_char q) s) @ [q])"

fun str_join :: "string \<Rightarrow> string list \<Rightarrow> string" where
  "str_join sep [] = []"
| "str_join sep [s] = s"
| "str_join sep (s # t # ss) = s @ sep @ str_join sep (t # ss)"

definition py_repr_list :: "string list \<Rightarrow> string" where
  "py_repr_list ss = ''['' @ str_join '', '' (map py_repr ss) @ '']''"

subsection \<open>Configuration files\<close>

text \<open>
  A TOML file as \<open>tomllib\<close> presents it: absent, not valid TOML (with the decoder's message),
  or a document. The parser itself is the standard library's; \<open>str(v)\<close> of a value that is no
  string, integer or boolean is a parameter \<open>fmt\<close>.
\<close>

datatype toml_file = TomlMissing | TomlMalformed string | TomlDoc dict

definition py_str :: "(json \<Rightarrow> string) \<Rightarrow> json \<Rightarrow> string" where
  "py_str fmt v = (case v of
      JStr s \<Rightarrow> s
    | JInt i \<Rightarrow> show_int i
    | JBool b \<Rightarrow> (if b then ''True'' else ''False'')
    | JNull \<Rightarrow> ''None''
    | _ \<Rightarrow> fmt v)"

text \<open>\<open>int(x)\<close> of a float truncates towards zero.\<close>

definition py_trunc :: "real \<Rightarrow> int" where
  "py_trunc r = (if r < 0 then \<lceil>r\<rceil> else \<lfloor>r\<rfloor>)"

lemma map_of_AList_update [simp]: "map_of (AList.update k v al) = (map_of al)(k \<mapsto> v)"
  by (simp add: update_conv')

text \<open>\<open>try: m except C as exc: raise f(exc)\<close>.\<close>

definition reraise :: "(exn \<Rightarrow> bool) \<Rightarrow> (exn \<Rightarrow> exn) \<Rightarrow> exn + 'a \<Rightarrow> exn + 'a" where
  "reraise P f m = (case m of Inl e \<Rightarrow> Inl (if P e then f e else e) | Inr x \<Rightarrow> Inr x)"

lemma reraise_Inr [simp]: "reraise P f m = Inr x \<longleftrightarrow> m = Inr x"
  by (cases m) (auto simp: reraise_def)

lemma reraise_Inl: "reraise P f m = Inl e \<longleftrightarrow> (\<exists>e'. m = Inl e' \<and> e = (if P e' then f e' else e'))"
  by (cases m) (auto simp: reraise_def)

lemma reraise_simps [simp]:
  "reraise P f (Inr x) = Inr x" "reraise P f (Inl e) = Inl (if P e then f e else e)"
  by (simp_all add: reraise_def)

subsection \<open>Dates\<close>

text \<open>A \<open>datetime\<close> with a time zone is an instant, Unix seconds; one without is a wall-clock
  reading, and comparing the two raises \<open>TypeError\<close>.\<close>

datatype py_datetime = Aware real | Naive real

subsection \<open>Conversions\<close>

text \<open>\<open>tuple(v)\<close> of a value, and \<open>repr(v)\<close>, which is \<open>str(v)\<close> on everything but strings.\<close>

fun py_tuple :: "json \<Rightarrow> exn + json list" where
  "py_tuple (JList xs) = Inr xs"
| "py_tuple (JStr s) = Inr (map (\<lambda>c. JStr [c]) s)"
| "py_tuple (JObj d) = Inr (map (JStr \<circ> fst) d)"
| "py_tuple _ = Inl (Exn TypeError ''object is not iterable'')"

fun py_repr_value :: "(json \<Rightarrow> string) \<Rightarrow> json \<Rightarrow> string" where
  "py_repr_value fmt (JStr s) = py_repr s"
| "py_repr_value fmt v = py_str fmt v"

text \<open>\<open>s.encode()\<close>: UTF-8 of a text of 8-bit characters.\<close>

definition utf8_char :: "char \<Rightarrow> string" where
  "utf8_char c = (let n = code c in if n < 128 then [c] else [char_of (192 + n div 64), char_of (128 + n mod 64)])"

definition utf8_encode :: "string \<Rightarrow> string" where
  "utf8_encode s = concat (map utf8_char s)"

text \<open>Mapping with an error: defined where every element is, with the images as the result.\<close>

lemma emap_Inr:
  "emap f xs = Inr ys \<longleftrightarrow> length ys = length xs \<and> (\<forall>i < length xs. f (xs ! i) = Inr (ys ! i))"
proof (induction xs arbitrary: ys)
  case (Cons x xs)
  show ?case
    by (cases ys) (auto simp: Cons.IH ebind_Inr nth_Cons split: nat.splits)
qed auto

lemma emap_set:
  assumes "emap f xs = Inr ys"
  shows "set ys = {y. \<exists>x \<in> set xs. f x = Inr y}"
  using assms by (auto simp: emap_Inr set_conv_nth)

lemma emap_defined: "(\<exists>ys. emap f xs = Inr ys) \<longleftrightarrow> (\<forall>x \<in> set xs. \<exists>y. f x = Inr y)"
proof (induction xs)
  case (Cons x xs)
  then show ?case by (auto simp: ebind_Inr)
qed simp

end
