(* ===== verification/Scopes.thy ===== *)
theory Scopes
  imports Prelude
begin

text \<open>
  The authorization primitive, \<open>policy/scopes.py\<close>: the closed enumeration of scopes with the
  string value of each member, the value lookup \<open>Scope(v)\<close> and the set of all scopes.
\<close>

datatype scope =
    SERVER_READ
  | DIAGNOSIS_READ
  | APPS_READ
  | APPS_INSTALL
  | APPS_UPGRADE
  | APPS_REMOVE
  | APPS_CONFIG_READ
  | APPS_CONFIG_WRITE
  | APPS_SETTING_READ
  | APPS_SETTING_WRITE
  | SERVICES_READ
  | SERVICES_RESTART
  | SERVICES_STOP
  | SERVICES_START
  | LOGS_READ
  | BACKUPS_READ
  | BACKUPS_CREATE
  | BACKUPS_RESTORE
  | BACKUPS_DELETE
  | USERS_READ
  | USERS_WRITE
  | USERS_DELETE
  | DOMAINS_READ
  | DOMAINS_WRITE
  | SYSTEM_UPDATE
  | SYSTEM_UPGRADE
  | SYSTEM_MIGRATE
  | SYSTEM_POWER
  | FIREWALL_READ
  | FIREWALL_WRITE
  | SETTINGS_READ
  | SETTINGS_WRITE
  | REGENCONF_READ
  | REGENCONF_WRITE
  | PACKAGES_INSPECT
  | PACKAGES_TEST
  | CATALOG_INSPECT
  | CATALOG_VERIFY
  | CATALOG_PUBLISH
  | ARMADA_WRITE
  | MEMORY_READ
  | MEMORY_WRITE
  | MEMORY_FEEDBACK
  | AUDIT_READ
  | OWNER_APPROVE

fun scope_value :: "scope \<Rightarrow> string" where
  "scope_value SERVER_READ = ''server.read''"
| "scope_value DIAGNOSIS_READ = ''diagnosis.read''"
| "scope_value APPS_READ = ''apps.read''"
| "scope_value APPS_INSTALL = ''apps.install''"
| "scope_value APPS_UPGRADE = ''apps.upgrade''"
| "scope_value APPS_REMOVE = ''apps.remove''"
| "scope_value APPS_CONFIG_READ = ''apps.config.read''"
| "scope_value APPS_CONFIG_WRITE = ''apps.config.write''"
| "scope_value APPS_SETTING_READ = ''apps.setting.read''"
| "scope_value APPS_SETTING_WRITE = ''apps.setting.write''"
| "scope_value SERVICES_READ = ''services.read''"
| "scope_value SERVICES_RESTART = ''services.restart''"
| "scope_value SERVICES_STOP = ''services.stop''"
| "scope_value SERVICES_START = ''services.start''"
| "scope_value LOGS_READ = ''logs.read''"
| "scope_value BACKUPS_READ = ''backups.read''"
| "scope_value BACKUPS_CREATE = ''backups.create''"
| "scope_value BACKUPS_RESTORE = ''backups.restore''"
| "scope_value BACKUPS_DELETE = ''backups.delete''"
| "scope_value USERS_READ = ''users.read''"
| "scope_value USERS_WRITE = ''users.write''"
| "scope_value USERS_DELETE = ''users.delete''"
| "scope_value DOMAINS_READ = ''domains.read''"
| "scope_value DOMAINS_WRITE = ''domains.write''"
| "scope_value SYSTEM_UPDATE = ''system.update''"
| "scope_value SYSTEM_UPGRADE = ''system.upgrade''"
| "scope_value SYSTEM_MIGRATE = ''system.migrate''"
| "scope_value SYSTEM_POWER = ''system.power''"
| "scope_value FIREWALL_READ = ''firewall.read''"
| "scope_value FIREWALL_WRITE = ''firewall.write''"
| "scope_value SETTINGS_READ = ''settings.read''"
| "scope_value SETTINGS_WRITE = ''settings.write''"
| "scope_value REGENCONF_READ = ''regenconf.read''"
| "scope_value REGENCONF_WRITE = ''regenconf.write''"
| "scope_value PACKAGES_INSPECT = ''packages.inspect''"
| "scope_value PACKAGES_TEST = ''packages.test''"
| "scope_value CATALOG_INSPECT = ''catalog.inspect''"
| "scope_value CATALOG_VERIFY = ''catalog.verify''"
| "scope_value CATALOG_PUBLISH = ''catalog.publish''"
| "scope_value ARMADA_WRITE = ''communications.armada.write''"
| "scope_value MEMORY_READ = ''memory.read''"
| "scope_value MEMORY_WRITE = ''memory.write''"
| "scope_value MEMORY_FEEDBACK = ''memory.feedback''"
| "scope_value AUDIT_READ = ''audit.read''"
| "scope_value OWNER_APPROVE = ''owner.approve''"

text \<open>The members in declaration order; \<open>ALL_SCOPES\<close> is their set.\<close>

definition scope_members :: "scope list" where
  "scope_members = [
     SERVER_READ,
     DIAGNOSIS_READ,
     APPS_READ,
     APPS_INSTALL,
     APPS_UPGRADE,
     APPS_REMOVE,
     APPS_CONFIG_READ,
     APPS_CONFIG_WRITE,
     APPS_SETTING_READ,
     APPS_SETTING_WRITE,
     SERVICES_READ,
     SERVICES_RESTART,
     SERVICES_STOP,
     SERVICES_START,
     LOGS_READ,
     BACKUPS_READ,
     BACKUPS_CREATE,
     BACKUPS_RESTORE,
     BACKUPS_DELETE,
     USERS_READ,
     USERS_WRITE,
     USERS_DELETE,
     DOMAINS_READ,
     DOMAINS_WRITE,
     SYSTEM_UPDATE,
     SYSTEM_UPGRADE,
     SYSTEM_MIGRATE,
     SYSTEM_POWER,
     FIREWALL_READ,
     FIREWALL_WRITE,
     SETTINGS_READ,
     SETTINGS_WRITE,
     REGENCONF_READ,
     REGENCONF_WRITE,
     PACKAGES_INSPECT,
     PACKAGES_TEST,
     CATALOG_INSPECT,
     CATALOG_VERIFY,
     CATALOG_PUBLISH,
     ARMADA_WRITE,
     MEMORY_READ,
     MEMORY_WRITE,
     MEMORY_FEEDBACK,
     AUDIT_READ,
     OWNER_APPROVE]"

definition ALL_SCOPES :: "scope set" where
  "ALL_SCOPES = set scope_members"

text \<open>\<open>Scope(v)\<close>: the member with this value, \<open>ValueError\<close> (\<open>None\<close>) if there is none.\<close>

definition scope_of_value :: "string \<Rightarrow> scope option" where
  "scope_of_value v = find (\<lambda>s. scope_value s = v) scope_members"

lemma scope_members_complete: "s \<in> set scope_members"
  by (cases s) (simp_all add: scope_members_def)

lemma ALL_SCOPES_UNIV: "ALL_SCOPES = UNIV"
  unfolding ALL_SCOPES_def using scope_members_complete by auto

instantiation scope :: finite
begin

instance
proof
  have "(UNIV :: scope set) = set scope_members"
    using scope_members_complete by auto
  then show "finite (UNIV :: scope set)"
    by (metis List.finite_set)
qed

end

lemma scope_values_distinct: "distinct (map scope_value scope_members)"
  by (simp add: scope_members_def)

lemma scope_value_inj: "scope_value s = scope_value t \<Longrightarrow> s = t"
  using scope_values_distinct scope_members_complete
  by (metis distinct_map inj_on_def)

lemma scope_of_value_Some: "scope_of_value v = Some s \<longleftrightarrow> scope_value s = v"
proof
  assume "scope_of_value v = Some s"
  then show "scope_value s = v"
    by (auto simp: scope_of_value_def find_Some_iff)
next
  assume v: "scope_value s = v"
  then have "find (\<lambda>t. scope_value t = v) scope_members \<noteq> None"
    using scope_members_complete by (auto simp: find_None_iff)
  then obtain t where t: "scope_of_value v = Some t"
    by (auto simp: scope_of_value_def)
  then have "scope_value t = v"
    by (auto simp: scope_of_value_def find_Some_iff)
  with v t show "scope_of_value v = Some s"
    using scope_value_inj by metis
qed

text \<open>
  Parsing the value of a scope gives that scope back, and only scope values parse, so the
  string form used in delegations and in the operation registry names a scope unambiguously.
\<close>

theorem scope_value_roundtrip:
  "scope_of_value (scope_value s) = Some s \<and>
   (scope_of_value v = None \<longleftrightarrow> v \<notin> range scope_value)"
  using scope_of_value_Some by (metis not_None_eq range_eqI rangeE)

end
