(* ===== verification/Operations.thy ===== *)
theory Operations
  imports Scopes
begin

text \<open>
  \<open>broker/operations.py\<close>: the closed registry of what the privileged helper can be asked to do. Each
  operation checks its arguments and makes one call of the adapter; here it maps the arguments to
  the exception it raises or to that call: the method, the positional and the keyword arguments,
  and, for two operations, the key under which the method's value is returned. A check that only
  raises is a value of \<open>exn + unit\<close>; \<open>steps\<close> runs checks in the order of the code.
\<close>

record adapter_call =
  ac_method :: string
  ac_args :: "json list"
  ac_kwargs :: dict
  ac_result_key :: "string option"

type_synonym operation_body = "dict \<Rightarrow> exn + adapter_call"

record broker_operation =
  bo_name :: string
  bo_required_scope :: string
  bo_invoke :: operation_body

subsection \<open>Argument checks\<close>

definition ensure :: "bool \<Rightarrow> string \<Rightarrow> exn + unit" where
  "ensure b msg = guard b (Exn ValueError msg)"

definition steps :: "(exn + unit) list \<Rightarrow> exn + unit" where
  "steps cs = eall id cs"

definition call_of :: "string \<Rightarrow> json list \<Rightarrow> dict \<Rightarrow> adapter_call" where
  "call_of meth args kwargs = \<lparr>ac_method = meth, ac_args = args, ac_kwargs = kwargs, ac_result_key = None\<rparr>"

definition calls :: "(exn + unit) list \<Rightarrow> adapter_call \<Rightarrow> exn + adapter_call" where
  "calls cs c = ebind (steps cs) (\<lambda>_. Inr c)"

text \<open>\<open>arguments[name]\<close>\<close>

definition dindex :: "dict \<Rightarrow> string \<Rightarrow> exn + json" where
  "dindex d k = (case map_of d k of None \<Rightarrow> Inl (Exn KeyError (py_repr k)) | Some v \<Rightarrow> Inr v)"

text \<open>A non-empty string of at most so many characters.\<close>

fun str_within :: "nat option \<Rightarrow> json \<Rightarrow> bool" where
  "str_within limit (JStr s) = (s \<noteq> [] \<and> (case limit of None \<Rightarrow> True | Some n \<Rightarrow> length s \<le> n))"
| "str_within limit _ = False"

definition require_str :: "dict \<Rightarrow> string \<Rightarrow> nat option \<Rightarrow> string \<Rightarrow> bool \<Rightarrow> exn + json" where
  "require_str arguments name max_len message required =
     (let v = dget arguments name
      in if v = JNull \<and> \<not> required then Inr JNull
         else if \<not> str_within max_len v then Inl (Exn ValueError message)
         else Inr v)"

definition require_bool :: "dict \<Rightarrow> string \<Rightarrow> json \<Rightarrow> string \<Rightarrow> bool \<Rightarrow> exn + json" where
  "require_bool arguments name dflt message optional =
     (let v = dget_default arguments name dflt
      in if v = JNull \<and> optional then Inr JNull
         else if \<not> is_bool v then Inl (Exn ValueError message)
         else Inr v)"

definition reject_unknown_keys :: "dict \<Rightarrow> string list \<Rightarrow> string \<Rightarrow> exn + unit" where
  "reject_unknown_keys arguments allowed message =
     ensure (list_all (\<lambda>k. k \<in> set allowed) (dkeys arguments)) message"

definition bounded_string :: "dict \<Rightarrow> string \<Rightarrow> nat \<Rightarrow> bool \<Rightarrow> exn + json" where
  "bounded_string arguments key limit required =
     (let v = dget arguments key
      in if v = JNull \<and> \<not> required then Inr JNull
         else if \<not> str_within (Some limit) v
         then Inl (Exn ValueError (key @ '' must be a non-empty string of at most '' @ show_nat limit @ '' characters''))
         else Inr v)"

text \<open>A check whose value is read again from the arguments.\<close>

definition must :: "exn + 'a \<Rightarrow> exn + unit" where
  "must m = ebind m (\<lambda>_. Inr ())"

definition need_str :: "dict \<Rightarrow> string \<Rightarrow> nat \<Rightarrow> string \<Rightarrow> exn + unit" where
  "need_str d name n msg = must (require_str d name (Some n) msg True)"

definition may_str :: "dict \<Rightarrow> string \<Rightarrow> nat \<Rightarrow> string \<Rightarrow> exn + unit" where
  "may_str d name n msg = must (require_str d name (Some n) msg False)"

definition need_bool :: "dict \<Rightarrow> string \<Rightarrow> bool \<Rightarrow> string \<Rightarrow> exn + unit" where
  "need_bool d name b msg = must (require_bool d name (JBool b) msg False)"

definition need_bounded :: "dict \<Rightarrow> string \<Rightarrow> nat \<Rightarrow> exn + unit" where
  "need_bounded d key limit = must (bounded_string d key limit True)"

definition may_bounded :: "dict \<Rightarrow> string \<Rightarrow> nat \<Rightarrow> exn + unit" where
  "may_bounded d key limit = must (bounded_string d key limit False)"

definition confirmation_id_ok :: "dict \<Rightarrow> exn + unit" where
  "confirmation_id_ok d = may_str d ''confirmation_id'' 128 ''confirmation_id must be a string''"

definition session_id_ok :: "dict \<Rightarrow> exn + unit" where
  "session_id_ok d = must (require_str d ''session_id'' None ''session_id is required'' True)"

definition no_arguments :: "dict \<Rightarrow> string \<Rightarrow> exn + unit" where
  "no_arguments d msg = ensure (d = []) msg"

text \<open>An \<open>int\<close> that is no \<open>bool\<close>, in a range; a string of at most so many characters; a list
  whose length and elements are constrained; a value that may be absent.\<close>

fun int_within :: "int \<Rightarrow> int \<Rightarrow> json \<Rightarrow> bool" where
  "int_within lo hi (JInt i) = (lo \<le> i \<and> i \<le> hi)"
| "int_within lo hi _ = False"

fun str_upto :: "nat \<Rightarrow> json \<Rightarrow> bool" where
  "str_upto n (JStr s) = (length s \<le> n)"
| "str_upto n _ = False"

fun list_where :: "nat \<Rightarrow> nat \<Rightarrow> (json \<Rightarrow> bool) \<Rightarrow> json \<Rightarrow> bool" where
  "list_where lo hi P (JList xs) = (lo \<le> length xs \<and> length xs \<le> hi \<and> list_all P xs)"
| "list_where lo hi P _ = False"

fun is_list_of :: "(json \<Rightarrow> bool) \<Rightarrow> json \<Rightarrow> bool" where
  "is_list_of P (JList xs) = list_all P xs"
| "is_list_of P _ = False"

definition none_or :: "(json \<Rightarrow> bool) \<Rightarrow> json \<Rightarrow> bool" where
  "none_or P v = (v = JNull \<or> P v)"

abbreviation cid_kw :: "dict \<Rightarrow> string \<times> json" where
  "cid_kw d \<equiv> (''confirmation_id'', dget d ''confirmation_id'')"

definition same_keys :: "dict \<Rightarrow> string list \<Rightarrow> bool" where
  "same_keys d ks = (list_all (\<lambda>k. k \<in> set ks) (dkeys d) \<and> list_all (dhas d) ks)"

lemma steps_Inr [simp]: "steps cs = Inr u \<longleftrightarrow> (\<forall>c \<in> set cs. c = Inr ())"
  by (cases u) (simp add: steps_def)

lemma calls_Inr [simp]: "calls cs c = Inr c' \<longleftrightarrow> (\<forall>x \<in> set cs. x = Inr ()) \<and> c' = c"
  by (auto simp: calls_def)

lemma ensure_Inr [simp]: "ensure b msg = Inr u \<longleftrightarrow> b"
  by (simp add: ensure_def)

lemma must_Inr [simp]: "must m = Inr u \<longleftrightarrow> (\<exists>x. m = Inr x)"
  by (cases u) (simp add: must_def)

lemma reject_unknown_keys_Inr [simp]:
  "reject_unknown_keys d ks msg = Inr u \<longleftrightarrow> set (dkeys d) \<subseteq> set ks"
  by (auto simp: reject_unknown_keys_def list_all_iff)

lemma call_of_simps [simp]:
  "ac_method (call_of m a k) = m" "ac_args (call_of m a k) = a" "ac_kwargs (call_of m a k) = k"
  "ac_result_key (call_of m a k) = None"
  by (simp_all add: call_of_def)

subsection \<open>Reading\<close>

definition no_args :: "string \<Rightarrow> operation_body" where
  "no_args meth d = calls [no_arguments d ''operation does not accept arguments''] (call_of meth [] [])"

definition service_status :: operation_body where
  "service_status d =
     (let names = dget_default d ''names'' (JList [])
      in calls [ensure (is_list_of (str_within None) names) ''names must be a list of non-empty strings'',
                ensure (list_where 0 128 (\<lambda>_. True) names) ''too many services'']
           (call_of ''service_status'' [names] []))"

definition apps_list :: operation_body where
  "apps_list d = calls [need_bool d ''full'' False ''full must be a boolean'']
     (call_of ''apps_list'' [] [(''full'', dget_default d ''full'' (JBool False))])"

definition app_info :: operation_body where
  "app_info d = calls
     [need_str d ''app'' 128 ''app must be a non-empty string'', need_bool d ''full'' False ''full must be a boolean'']
     (call_of ''app_info'' [dget d ''app''] [(''full'', dget_default d ''full'' (JBool False))])"

definition app_resources :: operation_body where
  "app_resources d = calls [need_str d ''app'' 128 ''app must be a non-empty string'']
     (call_of ''app_resources'' [dget d ''app''] [])"

definition app_config_get :: operation_body where
  "app_config_get d =
     (let key = dget_default d ''key'' (JStr []); full = dget_default d ''full'' (JBool False);
          export = dget_default d ''export'' (JBool False)
      in calls [need_str d ''app'' 128 ''app must be a non-empty string'',
                ensure (is_str key \<and> is_bool full \<and> is_bool export) ''invalid app config arguments'']
           (call_of ''app_config_get'' [dget d ''app''] [(''key'', key), (''full'', full), (''export'', export)]))"

definition app_setting_get :: operation_body where
  "app_setting_get d = calls
     [reject_unknown_keys d [''app'', ''key''] ''unknown app setting argument'',
      need_str d ''app'' 128 ''app must be a non-empty string'',
      need_str d ''key'' 512 ''key must be a non-empty bounded string'']
     (call_of ''app_setting_get'' [dget d ''app'', dget d ''key''] [])"

definition free_space :: operation_body where
  "free_space d =
     (let path = dget_default d ''path'' (JStr ''/'')
      in ebind (ensure (path \<in> {JStr ''/'', JStr ''/home'', JStr ''/var''})
                  ''path must be one of the supported filesystem roots'') (\<lambda>_.
           Inr \<lparr>ac_method = ''free_space_bytes'', ac_args = [path], ac_kwargs = [], ac_result_key = Some ''free_bytes''\<rparr>))"

definition backup_times :: operation_body where
  "backup_times d =
     ebind (no_arguments d ''operation does not accept arguments'') (\<lambda>_.
       Inr \<lparr>ac_method = ''backup_created_at_times'', ac_args = [], ac_kwargs = [], ac_result_key = Some ''created_at''\<rparr>)"

definition operations_list :: operation_body where
  "operations_list d = calls
     [ensure (none_or (int_within 1 1000) (dget d ''limit'')) ''limit must be between 1 and 1000'',
      need_bool d ''with_suboperations'' False ''with_suboperations must be a boolean'']
     (call_of ''operations_list'' [] [(''limit'', dget d ''limit''),
        (''with_suboperations'', dget_default d ''with_suboperations'' (JBool False))])"

definition operation_name :: operation_body where
  "operation_name d = calls [need_str d ''name'' 256 ''name must be a non-empty string'']
     (call_of ''operation_status'' [dget d ''name''] [])"

definition operation_logs :: operation_body where
  "operation_logs d = calls
     [need_str d ''name'' 256 ''name must be a non-empty string'',
      ensure (none_or (int_within 1 10000) (dget d ''tail_lines'')) ''tail_lines must be between 1 and 10000'']
     (call_of ''operation_logs'' [dget d ''name''] [(''tail_lines'', dget d ''tail_lines'')])"

definition domain_name :: operation_body where
  "domain_name d = calls [need_str d ''domain'' 253 ''domain must be a non-empty string'']
     (call_of ''domain_cert_info'' [dget d ''domain''] [])"

definition service_logs :: operation_body where
  "service_logs d =
     (let lines = dget_default d ''lines'' (JInt 200)
      in calls
        [need_str d ''service'' 128 ''service must be a non-empty string'',
         ensure (int_within 1 2000 lines) ''lines must be between 1 and 2000'',
         ensure (list_all (\<lambda>k. none_or is_str (dget d k)) [''since'', ''until'', ''priority'', ''grep''])
           ''service log filters must be strings'']
        (call_of ''service_logs'' [dget d ''service'']
          [(''lines'', lines), (''since'', dget d ''since''), (''until'', dget d ''until''),
           (''priority'', dget d ''priority''), (''grep'', dget d ''grep'')]))"

definition introspection_filters :: "dict \<Rightarrow> exn + unit" where
  "introspection_filters d = steps
     [ensure (list_all (\<lambda>k. none_or (str_upto 256) (dget d k)) [''since'', ''until'', ''priority'', ''grep''])
        ''introspection filters must be bounded strings'',
      ensure (int_within 1 2000 (dget_default d ''lines'' (JInt 200))) ''lines must be between 1 and 2000'']"

definition journal_query :: operation_body where
  "journal_query d = calls
     [reject_unknown_keys d [''units'', ''since'', ''until'', ''priority'', ''grep'', ''lines''] ''unknown journal query argument'',
      ensure (list_where 1 16 (str_within None) (dget d ''units'')) ''units must contain 1 to 16 non-empty names'',
      introspection_filters d]
     (call_of ''journal_query'' [dget d ''units'']
       [(''since'', dget d ''since''), (''until'', dget d ''until''), (''priority'', dget d ''priority''),
        (''grep'', dget d ''grep''), (''lines'', dget_default d ''lines'' (JInt 200))])"

definition absolute_path :: "json \<Rightarrow> bool" where
  "absolute_path v = (case v of JStr s \<Rightarrow> starts_with s ''/'' | _ \<Rightarrow> False)"

definition web_logs :: operation_body where
  "web_logs d = calls
     [reject_unknown_keys d [''host'', ''path'', ''status'', ''since'', ''until'', ''lines''] ''unknown web log argument'',
      ensure (none_or (str_within None) (dget d ''host'')) ''host must be a non-empty string'',
      ensure (none_or absolute_path (dget d ''path'')) ''path must be an absolute URL path'',
      ensure (none_or (int_within 100 599) (dget d ''status'')) ''status must be an HTTP status code'',
      introspection_filters d]
     (call_of ''web_logs'' []
       [(''host'', dget d ''host''), (''path'', dget d ''path''), (''status'', dget d ''status''),
        (''since'', dget d ''since''), (''until'', dget d ''until''), (''lines'', dget_default d ''lines'' (JInt 200))])"

definition system_snapshot :: operation_body where
  "system_snapshot d = calls [no_arguments d ''system snapshot does not accept arguments''] (call_of ''system_snapshot'' [] [])"

definition service_history :: operation_body where
  "service_history d =
     (let lines = dget_default d ''lines'' (JInt 50)
      in calls
        [reject_unknown_keys d [''names'', ''lines''] ''unknown service history argument'',
         ensure (list_where 1 32 (str_within None) (dget d ''names'')) ''names must contain 1 to 32 non-empty service names'',
         ensure (int_within 1 2000 lines) ''lines must be between 1 and 2000'']
        (call_of ''service_history'' [dget d ''names''] [(''lines'', lines)]))"

definition ssh_diagnose :: operation_body where
  "ssh_diagnose d =
     (let since = dget_default d ''since'' (JStr ''-24h''); lines = dget_default d ''lines'' (JInt 200)
      in calls
        [reject_unknown_keys d [''since'', ''lines''] ''unknown SSH diagnosis argument'',
         ensure (str_upto 256 since) ''since must be a bounded string'',
         ensure (int_within 1 2000 lines) ''lines must be between 1 and 2000'']
        (call_of ''ssh_diagnose'' [] [(''since'', since), (''lines'', lines)]))"

definition network_snapshot :: operation_body where
  "network_snapshot d = calls [no_arguments d ''network snapshot does not accept arguments''] (call_of ''network_snapshot'' [] [])"

text \<open>A number of seconds, an integer or a float, from a tenth to sixty; passed on as a float.\<close>

fun seconds_of :: "json \<Rightarrow> real option" where
  "seconds_of (JInt i) = Some (of_int i)"
| "seconds_of (JFloat r) = Some r"
| "seconds_of _ = None"

definition http_probe :: operation_body where
  "http_probe d = ebind (steps
     [reject_unknown_keys d [''url'', ''timeout_seconds''] ''unknown HTTP probe argument'',
      need_str d ''url'' 4096 ''url must be a bounded non-empty string'']) (\<lambda>_.
     case seconds_of (dget_default d ''timeout_seconds'' (JFloat 10)) of
       None \<Rightarrow> Inl (Exn ValueError ''timeout_seconds must be between 0.1 and 60'')
     | Some t \<Rightarrow>
         if 1 / 10 \<le> t \<and> t \<le> 60 then Inr (call_of ''http_probe'' [dget d ''url''] [(''timeout_seconds'', JFloat t)])
         else Inl (Exn ValueError ''timeout_seconds must be between 0.1 and 60''))"

definition incident_snapshot :: operation_body where
  "incident_snapshot d =
     (let since = dget_default d ''since'' (JStr ''-24h''); lines = dget_default d ''lines'' (JInt 100)
      in calls
        [reject_unknown_keys d [''since'', ''until'', ''lines''] ''unknown incident snapshot argument'',
         ensure (str_upto 256 since) ''since must be a bounded string'',
         ensure (none_or (str_upto 256) (dget d ''until'')) ''until must be a bounded string'',
         ensure (int_within 1 500 lines) ''lines must be between 1 and 500'']
        (call_of ''incident_snapshot'' [] [(''since'', since), (''until'', dget d ''until''), (''lines'', lines)]))"

definition updates_check :: operation_body where
  "updates_check d = calls [no_arguments d ''operation does not accept arguments''] (call_of ''updates_check'' [] [])"

definition updates_refresh :: operation_body where
  "updates_refresh d =
     (let target = dget_default d ''target'' (JStr ''apps'')
      in calls
        [reject_unknown_keys d [''target''] ''unknown updates refresh argument'',
         ensure (target \<in> {JStr ''system'', JStr ''apps'', JStr ''all''}) ''target must be one of: system, apps, all'']
        (call_of ''updates_refresh'' [] [(''target'', target)]))"

definition diagnosis_run :: operation_body where
  "diagnosis_run d = calls
     [reject_unknown_keys d [''categories'', ''force''] ''unknown diagnosis argument'',
      ensure (none_or (list_where 0 64 (str_within (Some 128))) (dget d ''categories''))
        ''categories must be a bounded list of non-empty strings'',
      need_bool d ''force'' False ''force must be a boolean'']
     (call_of ''diagnosis_run'' [] [(''categories'', dget d ''categories''), (''force'', dget_default d ''force'' (JBool False))])"

subsection \<open>Catalog and packages\<close>

definition source_ok :: "dict \<Rightarrow> exn + unit" where
  "source_ok d = need_str d ''source'' 8192 ''source must be a bounded non-empty string''"

definition ref_ok :: "dict \<Rightarrow> exn + unit" where
  "ref_ok d = may_str d ''ref'' 256 ''ref must be a bounded string''"

definition catalog_package_inspect :: operation_body where
  "catalog_package_inspect d = calls
     [reject_unknown_keys d [''source'', ''ref''] ''unknown catalog inspection argument'', source_ok d, ref_ok d]
     (call_of ''catalog_package_inspect'' [dget d ''source''] [(''ref'', dget d ''ref'')])"

definition catalog_verify :: operation_body where
  "catalog_verify d = calls
     [ensure (same_keys d [''event_or_naddr'']) ''event_or_naddr is required'',
      need_str d ''event_or_naddr'' 1000000 ''event_or_naddr must be a bounded non-empty string'']
     (call_of ''catalog_verify'' [dget d ''event_or_naddr''] [])"

definition validate_ci_result_arguments :: "dict \<Rightarrow> exn + unit" where
  "validate_ci_result_arguments d = steps
     [ensure (none_or is_dict (dget d ''ci_result'')) ''ci_result must be an object'',
      may_str d ''ci_provider'' 512 ''ci_provider must be a bounded string'',
      may_str d ''ci_ref'' 512 ''ci_ref must be a bounded string'']"

definition catalog_publish_plan :: operation_body where
  "catalog_publish_plan d = calls
     [reject_unknown_keys d [''source'', ''ref'', ''ci_result'', ''ci_provider'', ''ci_ref'']
        ''unknown catalog publish-plan argument'',
      source_ok d, ref_ok d, validate_ci_result_arguments d]
     (call_of ''catalog_publish_plan'' [dget d ''source'']
       [(''ref'', dget d ''ref''), (''ci_result'', dget d ''ci_result''), (''ci_provider'', dget d ''ci_provider''),
        (''ci_ref'', dget d ''ci_ref'')])"

definition catalog_publish :: operation_body where
  "catalog_publish d = calls
     [reject_unknown_keys d
        [''source'', ''ref'', ''confirmation_id'', ''plan_id'', ''ci_result'', ''ci_provider'', ''ci_ref'']
        ''unknown catalog publish argument'',
      source_ok d, ref_ok d, confirmation_id_ok d, may_str d ''plan_id'' 128 ''plan_id must be a string'',
      validate_ci_result_arguments d]
     (call_of ''catalog_publish'' []
       [(''source'', dget d ''source''), (''ref'', dget d ''ref''), cid_kw d, (''plan_id'', dget d ''plan_id''),
        (''ci_result'', dget d ''ci_result''), (''ci_provider'', dget d ''ci_provider''), (''ci_ref'', dget d ''ci_ref'')])"

definition package_source :: "string \<Rightarrow> dict \<Rightarrow> exn + unit" where
  "package_source operation d = steps
     [ensure (same_keys d [''source'']) (operation @ '' accepts only source''), source_ok d]"

definition package_inspect :: operation_body where
  "package_inspect d = calls [package_source ''package.inspect'' d] (call_of ''package_inspect'' [dget d ''source''] [])"

definition package_lint :: operation_body where
  "package_lint d = calls [package_source ''package.lint'' d] (call_of ''package_lint'' [dget d ''source''] [])"

definition package_run_tests :: operation_body where
  "package_run_tests d = calls
     [reject_unknown_keys d [''source'', ''app_id'', ''confirmation_id'', ''session_id''] ''unknown package test argument'',
      source_ok d, may_str d ''app_id'' 128 ''app_id must be a bounded string'', confirmation_id_ok d, session_id_ok d]
     (call_of ''package_run_tests'' [dget d ''source'']
       [(''app_id'', dget d ''app_id''), cid_kw d, (''session_id'', dget d ''session_id'')])"

definition package_install_test :: operation_body where
  "package_install_test d = ebind (steps
     [reject_unknown_keys d [''source'', ''label'', ''args'', ''session_id'', ''confirmation_id'']
        ''unknown package install-test argument'',
      source_ok d, may_str d ''label'' 8192 ''label must be a bounded string'',
      may_str d ''args'' 8192 ''args must be a bounded string'']) (\<lambda>_.
     ebind (dindex d ''session_id'') (\<lambda>session_id.
       Inr (call_of ''package_install_test'' [dget d ''source'']
         [(''label'', dget d ''label''), (''args'', dget d ''args''), (''session_id'', session_id), cid_kw d])))"

definition package_upgrade_test :: operation_body where
  "package_upgrade_test d = calls
     [ensure (same_keys d [''app'', ''source'', ''session_id'', ''confirmation_id'']) ''app and source are required'',
      need_str d ''app'' 128 ''app and source must be bounded non-empty strings'',
      need_str d ''source'' 8192 ''app and source must be bounded non-empty strings'', session_id_ok d]
     (call_of ''package_upgrade_test'' [dget d ''app'', dget d ''source''] [(''session_id'', dget d ''session_id''), cid_kw d])"

text \<open>Only the keys given second may occur, and those given third must.\<close>

definition keys_between :: "dict \<Rightarrow> string list \<Rightarrow> string list \<Rightarrow> bool" where
  "keys_between d allowed required = (list_all (\<lambda>k. k \<in> set allowed) (dkeys d) \<and> list_all (dhas d) required)"

definition package_backup_test :: operation_body where
  "package_backup_test d = calls
     [ensure (keys_between d [''app'', ''session_id'', ''confirmation_id''] [''app'']) ''app is required'',
      need_str d ''app'' 128 ''app must be a bounded non-empty string'', session_id_ok d]
     (call_of ''package_backup_test'' [dget d ''app''] [(''session_id'', dget d ''session_id''), cid_kw d])"

definition package_restore_test :: operation_body where
  "package_restore_test d = calls
     [ensure (keys_between d [''app'', ''archive_name'', ''session_id'', ''confirmation_id''] [''app'', ''archive_name''])
        ''app and archive_name are required'',
      ensure (str_within (Some 256) (dget d ''app'') \<and> str_within (Some 256) (dget d ''archive_name''))
        ''app and archive_name must be bounded non-empty strings'',
      session_id_ok d]
     (call_of ''package_restore_test'' [dget d ''app'', dget d ''archive_name'']
       [(''session_id'', dget d ''session_id''), cid_kw d])"

definition package_change_url_test :: operation_body where
  "package_change_url_test d = calls
     [ensure (keys_between d [''app'', ''domain'', ''path'', ''session_id'', ''confirmation_id''] [''app'', ''domain'', ''path''])
        ''app, domain, and path are required'',
      ensure (list_all (\<lambda>k. str_within (Some 8192) (dget d k)) (dkeys d))
        ''package change-url arguments must be bounded non-empty strings'',
      session_id_ok d]
     (call_of ''package_change_url_test'' [dget d ''app'', dget d ''domain'', dget d ''path'']
       [(''session_id'', dget d ''session_id''), cid_kw d])"

definition package_remove_test :: operation_body where
  "package_remove_test d = calls
     [reject_unknown_keys d [''app'', ''purge'', ''session_id'', ''confirmation_id''] ''unknown package remove-test argument'',
      need_str d ''app'' 128 ''app and purge are invalid'', need_bool d ''purge'' True ''app and purge are invalid'',
      session_id_ok d]
     (call_of ''package_remove_test'' [dget d ''app'']
       [(''purge'', dget_default d ''purge'' (JBool True)), (''session_id'', dget d ''session_id''), cid_kw d])"

subsection \<open>Workflows and lists\<close>

definition safe_upgrade :: operation_body where
  "safe_upgrade d = ebind (reject_unknown_keys d [''app'', ''confirmation_id''] ''app is required'') (\<lambda>_.
     ebind (dindex d ''app'') (\<lambda>app.
       calls [need_str d ''app'' 128 ''app must be a bounded non-empty string''] (call_of ''safe_upgrade'' [app] [])))"

definition repair_app :: operation_body where
  "repair_app d =
     (let strategy = dget_default d ''strategy'' (JStr ''conservative'')
      in calls
        [reject_unknown_keys d [''app'', ''strategy''] ''unknown repair argument'',
         need_str d ''app'' 128 ''app must be a bounded non-empty string'',
         ensure (strategy = JStr ''conservative'') ''only the conservative repair strategy is supported'']
        (call_of ''repair_app'' [dget d ''app''] [(''strategy'', strategy)]))"

definition diagnose_app :: operation_body where
  "diagnose_app d = calls
     [ensure (same_keys d [''app'']) ''app is required'', need_str d ''app'' 128 ''app must be a bounded non-empty string'']
     (call_of ''diagnose_app'' [dget d ''app''] [])"

definition migrations_list :: operation_body where
  "migrations_list d = calls
     [need_bool d ''pending'' False ''pending and done must be booleans'', need_bool d ''done'' False ''pending and done must be booleans'']
     (call_of ''migrations_list'' []
       [(''pending'', dget_default d ''pending'' (JBool False)), (''done'', dget_default d ''done'' (JBool False))])"

definition firewall_list :: operation_body where
  "firewall_list d =
     (let raw = dget_default d ''raw'' (JBool False); protocol = dget_default d ''protocol'' (JStr ''tcp'');
          forwarded = dget_default d ''forwarded'' (JBool False)
      in calls [ensure (is_bool raw \<and> is_bool forwarded \<and> is_str protocol) ''invalid firewall list arguments'']
           (call_of ''firewall_list'' [] [(''raw'', raw), (''protocol'', protocol), (''forwarded'', forwarded)]))"

fun int_or_str :: "json \<Rightarrow> bool" where
  "int_or_str (JInt _) = True"
| "int_or_str (JStr _) = True"
| "int_or_str _ = False"

definition firewall_is_open :: operation_body where
  "firewall_is_open d = calls
     [ensure (int_or_str (dget d ''port'') \<and> is_str (dget d ''protocol'')) ''port and protocol are required'']
     (call_of ''firewall_is_open'' [dget d ''port'', dget d ''protocol''] [])"

subsection \<open>Services and backups\<close>

definition service_names_ok :: "dict \<Rightarrow> exn + unit" where
  "service_names_ok d = ensure (list_where 1 16 (str_within None) (dget d ''names''))
     ''names must contain 1 to 16 non-empty service names''"

definition service_restart :: operation_body where
  "service_restart d = calls
     [reject_unknown_keys d [''names'', ''confirmation_id''] ''unknown service restart argument'',
      service_names_ok d, confirmation_id_ok d]
     (call_of ''service_restart'' [dget d ''names''] [cid_kw d])"

definition service_stop :: operation_body where
  "service_stop d = calls
     [reject_unknown_keys d [''names'', ''confirmation_id''] ''unknown service stop argument'',
      service_names_ok d, confirmation_id_ok d]
     (call_of ''service_stop'' [dget d ''names''] [cid_kw d])"

definition service_start :: operation_body where
  "service_start d = calls
     [reject_unknown_keys d [''names'', ''confirmation_id''] ''unknown service start argument'',
      service_names_ok d, confirmation_id_ok d]
     (call_of ''service_start'' [dget d ''names''] [cid_kw d])"

definition backup_create :: operation_body where
  "backup_create d = calls
     [reject_unknown_keys d [''name'', ''description'', ''apps'', ''system'', ''confirmation_id''] ''unknown backup argument'',
      ensure (none_or is_str (dget d ''name'')) ''name must be a string'',
      ensure (none_or is_str (dget d ''description'')) ''description must be a string'',
      ensure (none_or (list_where 0 128 is_str) (dget d ''apps'')) ''apps must be a list of strings'',
      ensure (none_or (list_where 0 128 is_str) (dget d ''system'')) ''system must be a list of strings'',
      confirmation_id_ok d]
     (call_of ''backup_create'' []
       [(''name'', dget d ''name''), (''description'', dget d ''description''), (''apps'', dget d ''apps''),
        (''system'', dget d ''system''), cid_kw d])"

definition archive_name_ok :: "dict \<Rightarrow> exn + unit" where
  "archive_name_ok d = need_str d ''name'' 256 ''name must be a non-empty string''"

definition backup_info :: operation_body where
  "backup_info d = calls
     [reject_unknown_keys d [''name'', ''with_details''] ''unknown backup info argument'', archive_name_ok d,
      need_bool d ''with_details'' False ''with_details must be a boolean'']
     (call_of ''backup_info'' [dget d ''name''] [(''with_details'', dget_default d ''with_details'' (JBool False))])"

definition is_path :: "json \<Rightarrow> bool" where
  "is_path v = (case v of
      JStr s \<Rightarrow> CHR ''/'' \<in> set s \<or> char_of (92 :: nat) \<in> set s \<or> s = ''.'' \<or> s = ''..''
    | _ \<Rightarrow> False)"

definition backup_delete :: operation_body where
  "backup_delete d = calls
     [reject_unknown_keys d [''name'', ''confirmation_id''] ''unknown backup delete argument'', archive_name_ok d,
      ensure (\<not> is_path (dget d ''name'')) ''name must be an archive name, not a path'', confirmation_id_ok d]
     (call_of ''backup_delete'' [dget d ''name''] [cid_kw d])"

definition backup_restore :: operation_body where
  "backup_restore d = calls
     [reject_unknown_keys d [''name'', ''apps'', ''system'', ''force'', ''confirmation_id''] ''unknown backup restore argument'',
      archive_name_ok d,
      ensure (none_or (list_where 0 128 (str_within None)) (dget d ''apps'')) ''apps must be a list of non-empty strings'',
      ensure (none_or (list_where 0 128 (str_within None)) (dget d ''system'')) ''system must be a list of non-empty strings'',
      need_bool d ''force'' False ''force must be a boolean'', confirmation_id_ok d]
     (call_of ''backup_restore'' [dget d ''name'']
       [(''apps'', dget d ''apps''), (''system'', dget d ''system''), (''force'', dget_default d ''force'' (JBool False)), cid_kw d])"

subsection \<open>Applications\<close>

definition app_install :: operation_body where
  "app_install d = calls
     [reject_unknown_keys d [''app'', ''label'', ''args'', ''force'', ''confirmation_id''] ''unknown app install argument'',
      need_str d ''app'' 128 ''app must be a non-empty string'',
      may_str d ''label'' 8192 ''label must be a string of at most 8192 characters'',
      may_str d ''args'' 8192 ''args must be a string of at most 8192 characters'',
      need_bool d ''force'' False ''force must be a boolean'', confirmation_id_ok d]
     (call_of ''app_install'' [dget d ''app'']
       [(''label'', dget d ''label''), (''args'', dget d ''args''), (''force'', dget_default d ''force'' (JBool False)), cid_kw d])"

fun is_list :: "json \<Rightarrow> bool" where
  "is_list (JList _) = True"
| "is_list _ = False"

definition app_upgrade :: operation_body where
  "app_upgrade d =
     (let app = dget d ''app''
      in calls
        [reject_unknown_keys d [''app'', ''force'', ''url'', ''confirmation_id''] ''unknown app upgrade argument'',
         ensure (app = JNull \<or> is_str app \<or> is_list_of (str_within None) app) ''app must be a string, a list of strings, or null'',
         ensure (is_str app \<longrightarrow> str_within (Some 128) app) ''app must be a non-empty string'',
         ensure (is_list app \<longrightarrow> list_where 1 128 (str_upto 128) app) ''app list must contain 1 to 128 bounded names'',
         need_bool d ''force'' False ''force must be a boolean'',
         ensure (none_or (str_upto 8192) (dget d ''url'')) ''url must be a string of at most 8192 characters'',
         confirmation_id_ok d]
        (call_of ''app_upgrade'' []
          [(''app'', app), (''force'', dget_default d ''force'' (JBool False)), (''url'', dget d ''url''), cid_kw d]))"

definition app_remove :: operation_body where
  "app_remove d = calls
     [reject_unknown_keys d [''app'', ''purge'', ''confirmation_id''] ''unknown app removal argument'',
      need_str d ''app'' 128 ''app must be a non-empty string'', need_bool d ''purge'' False ''purge must be a boolean'',
      confirmation_id_ok d]
     (call_of ''app_remove'' [dget d ''app''] [(''purge'', dget_default d ''purge'' (JBool False)), cid_kw d])"

definition app_change_url :: operation_body where
  "app_change_url d = calls
     [reject_unknown_keys d [''app'', ''domain'', ''path'', ''confirmation_id''] ''unknown app URL argument'',
      need_str d ''app'' 128 ''app must be a non-empty bounded string'',
      need_str d ''domain'' 253 ''domain must be a non-empty bounded string'',
      need_str d ''path'' 4096 ''path must be a non-empty bounded string'', confirmation_id_ok d]
     (call_of ''app_change_url'' [dget d ''app'', dget d ''domain'', dget d ''path''] [cid_kw d])"

definition app_config_set :: operation_body where
  "app_config_set d = calls
     [reject_unknown_keys d [''app'', ''key'', ''value'', ''confirmation_id''] ''unknown app config argument'',
      need_str d ''app'' 128 ''app must be a non-empty bounded string'',
      need_str d ''key'' 512 ''key must be a non-empty bounded string'',
      need_str d ''value'' 8192 ''value must be a non-empty bounded string'', confirmation_id_ok d]
     (call_of ''app_config_set'' [dget d ''app'', dget d ''key'', dget d ''value''] [cid_kw d])"

definition app_setting_set :: operation_body where
  "app_setting_set d = calls
     [reject_unknown_keys d [''app'', ''key'', ''value'', ''delete'', ''confirmation_id''] ''unknown app setting argument'',
      need_str d ''app'' 128 ''app must be a non-empty bounded string'',
      need_str d ''key'' 512 ''key must be a non-empty bounded string'',
      ensure (none_or (str_upto 8192) (dget d ''value'')) ''value must be a bounded string'',
      need_bool d ''delete'' False ''delete must be a boolean'', confirmation_id_ok d]
     (call_of ''app_setting_set'' [dget d ''app'', dget d ''key'']
       [(''value'', dget d ''value''), (''delete'', dget_default d ''delete'' (JBool False)), cid_kw d])"

subsection \<open>System and firewall\<close>

definition system_upgrade :: operation_body where
  "system_upgrade d = calls
     [reject_unknown_keys d [''confirmation_id''] ''unknown system upgrade argument'', confirmation_id_ok d]
     (call_of ''system_upgrade'' [] [cid_kw d])"

definition confirmation_only :: "string \<Rightarrow> operation_body" where
  "confirmation_only meth d = calls
     [reject_unknown_keys d [''confirmation_id''] ''unknown argument'', confirmation_id_ok d] (call_of meth [] [cid_kw d])"

definition MIGRATION_FLAGS :: "string list" where
  "MIGRATION_FLAGS = [''skip'', ''auto'', ''force_rerun'', ''accept_disclaimer'', ''skip_postmigrations'']"

definition migrations_run :: operation_body where
  "migrations_run d = calls
     [reject_unknown_keys d
        [''targets'', ''skip'', ''auto'', ''force_rerun'', ''accept_disclaimer'', ''skip_postmigrations'', ''confirmation_id'']
        ''unknown migration argument'',
      ensure (none_or (list_where 0 128 (str_within (Some 256))) (dget d ''targets''))
        ''targets must be a list of bounded non-empty strings'',
      steps (map (\<lambda>flag. need_bool d flag False ''migration flags must be booleans'') MIGRATION_FLAGS),
      confirmation_id_ok d]
     (call_of ''migrations_run'' []
       ((''targets'', dget d ''targets'') # map (\<lambda>flag. (flag, dget_default d flag (JBool False))) MIGRATION_FLAGS @ [cid_kw d]))"

text \<open>The parts of a port string: a part that is no digit string or out of range is bad, one that
  \<open>isdigit\<close> accepts and \<open>int\<close> does not is an error of its own.\<close>

fun port_parts_ok :: "string list \<Rightarrow> exn + bool" where
  "port_parts_ok [] = Inr True"
| "port_parts_ok (part # parts) =
     (if part = [] \<or> \<not> list_all is_digit part then Inr False
      else (case parse_int part of
          None \<Rightarrow> Inl (Exn ValueError (''invalid literal for int() with base 10: '' @ py_repr part))
        | Some n \<Rightarrow> if 1 \<le> n \<and> n \<le> 65535 then port_parts_ok parts else Inr False))"

definition port_string_ok :: "string \<Rightarrow> exn + unit" where
  "port_string_ok s =
     (if length s > 11 \<or> s = [] then Inl (Exn ValueError ''port must be a valid port or port range'')
      else ebind (port_parts_ok (str_split s (CHR ''-''))) (\<lambda>ok.
        ensure ok ''port must be a valid port or port range''))"

definition port_and_protocol :: "dict \<Rightarrow> exn + unit" where
  "port_and_protocol d =
     (let port = dget d ''port''; protocol = dget d ''protocol''
      in ebind (ensure (int_or_str port) ''port must be an integer or range string'') (\<lambda>_.
         ebind (case port of
             JInt i \<Rightarrow> ensure (1 \<le> i \<and> i \<le> 65535) ''port must be between 1 and 65535''
           | JStr s \<Rightarrow> port_string_ok s
           | _ \<Rightarrow> Inr ()) (\<lambda>_.
         case protocol of
           JList _ \<Rightarrow> Inl (Exn TypeError (''unhashable type: '' @ py_repr ''list''))
         | JObj _ \<Rightarrow> Inl (Exn TypeError (''unhashable type: '' @ py_repr ''dict''))
         | _ \<Rightarrow> ensure (protocol \<in> {JStr ''tcp'', JStr ''udp''}) ''protocol must be tcp or udp'')))"

definition firewall_open :: operation_body where
  "firewall_open d =
     (let comment = dget_default d ''comment'' (JStr [])
      in calls
        [reject_unknown_keys d [''port'', ''protocol'', ''comment'', ''upnp'', ''no_reload'', ''confirmation_id'']
           ''unknown firewall open argument'',
         port_and_protocol d,
         ensure (str_upto 1024 comment) ''comment must be a string of at most 1024 characters'',
         need_bool d ''upnp'' False ''upnp must be a boolean'',
         need_bool d ''no_reload'' False ''no_reload must be a boolean'', confirmation_id_ok d]
        (call_of ''firewall_open'' [dget d ''port'', dget d ''protocol'']
          [(''comment'', comment), (''upnp'', dget_default d ''upnp'' (JBool False)),
           (''no_reload'', dget_default d ''no_reload'' (JBool False)), cid_kw d]))"

definition firewall_close :: operation_body where
  "firewall_close d = calls
     [reject_unknown_keys d [''port'', ''protocol'', ''upnp_only'', ''no_reload'', ''confirmation_id'']
        ''unknown firewall close argument'',
      port_and_protocol d, need_bool d ''upnp_only'' False ''upnp_only must be a boolean'',
      need_bool d ''no_reload'' False ''no_reload must be a boolean'', confirmation_id_ok d]
     (call_of ''firewall_close'' [dget d ''port'', dget d ''protocol'']
       [(''upnp_only'', dget_default d ''upnp_only'' (JBool False)),
        (''no_reload'', dget_default d ''no_reload'' (JBool False)), cid_kw d])"

definition firewall_reload :: operation_body where
  "firewall_reload d = calls
     [reject_unknown_keys d [''skip_upnp'', ''confirmation_id''] ''unknown firewall reload argument'',
      need_bool d ''skip_upnp'' False ''skip_upnp must be a boolean'', confirmation_id_ok d]
     (call_of ''firewall_reload'' [] [(''skip_upnp'', dget_default d ''skip_upnp'' (JBool False)), cid_kw d])"

subsection \<open>Users, groups, permissions\<close>

definition user_create :: operation_body where
  "user_create d =
     (let quota = dget_default d ''mailbox_quota'' (JStr ''0'')
      in calls
        [reject_unknown_keys d
           [''username'', ''domain'', ''password'', ''fullname'', ''mailbox_quota'', ''admin'', ''confirmation_id'']
           ''unknown user create argument'',
         need_bounded d ''username'' 128, need_bounded d ''domain'' 253, need_bounded d ''password'' 4096,
         need_bounded d ''fullname'' 512,
         ensure (none_or (str_upto 64) quota) ''mailbox_quota must be a bounded string or null'',
         need_bool d ''admin'' False ''admin must be a boolean'', confirmation_id_ok d]
        (call_of ''user_create'' [dget d ''username'']
          [(''domain'', dget d ''domain''), (''password'', dget d ''password''), (''fullname'', dget d ''fullname''),
           (''mailbox_quota'', quota), (''admin'', dget_default d ''admin'' (JBool False)), cid_kw d]))"

definition USER_UPDATE_LISTS :: "string list" where
  "USER_UPDATE_LISTS = [''add_mailforward'', ''remove_mailforward'', ''add_mailalias'', ''remove_mailalias'']"

definition USER_UPDATE_VALUES :: "string list" where
  "USER_UPDATE_VALUES = [''mail'', ''change_password''] @ USER_UPDATE_LISTS @ [''mailbox_quota'', ''fullname'']"

definition user_update :: operation_body where
  "user_update d = calls
     [reject_unknown_keys d ([''username''] @ USER_UPDATE_VALUES @ [''confirmation_id'']) ''unknown user update argument'',
      need_bounded d ''username'' 128, may_bounded d ''mail'' 512, may_bounded d ''change_password'' 4096,
      may_bounded d ''mailbox_quota'' 64, may_bounded d ''fullname'' 512,
      steps (map (\<lambda>key. ensure (none_or (list_where 0 128 (str_within (Some 512))) (dget d key))
        (key @ '' must be a list of bounded non-empty strings'')) USER_UPDATE_LISTS),
      confirmation_id_ok d]
     (call_of ''user_update'' [dget d ''username''] (map (\<lambda>key. (key, dget d key)) USER_UPDATE_VALUES @ [cid_kw d]))"

definition user_delete :: operation_body where
  "user_delete d = calls
     [reject_unknown_keys d [''username'', ''purge'', ''confirmation_id''] ''unknown user delete argument'',
      need_bounded d ''username'' 128, need_bool d ''purge'' False ''purge must be a boolean'', confirmation_id_ok d]
     (call_of ''user_delete'' [dget d ''username''] [(''purge'', dget_default d ''purge'' (JBool False)), cid_kw d])"

definition group_args :: "dict \<Rightarrow> string list \<Rightarrow> exn + unit" where
  "group_args d keys = steps
     [reject_unknown_keys d keys ''unknown user group argument'', need_bounded d ''groupname'' 128, confirmation_id_ok d]"

definition group_create :: operation_body where
  "group_create d = calls [group_args d [''groupname'', ''confirmation_id'']]
     (call_of ''user_group_create'' [dget d ''groupname''] [cid_kw d])"

definition group_update :: operation_body where
  "group_update d = calls
     (group_args d [''groupname'', ''add'', ''remove'', ''confirmation_id''] #
      map (\<lambda>key. ensure (none_or (list_where 0 128 (str_within (Some 128))) (dget d key))
        (key @ '' must be a list of bounded non-empty usernames'')) [''add'', ''remove''])
     (call_of ''user_group_update'' [dget d ''groupname''] [(''add'', dget d ''add''), (''remove'', dget d ''remove''), cid_kw d])"

definition group_delete :: operation_body where
  "group_delete d = calls [group_args d [''groupname'', ''confirmation_id'']]
     (call_of ''user_group_delete'' [dget d ''groupname''] [cid_kw d])"

definition permission_change :: "string \<Rightarrow> operation_body" where
  "permission_change operation d = calls
     [reject_unknown_keys d [''permission'', ''names'', ''confirmation_id''] ''unknown user permission argument'',
      need_bounded d ''permission'' 256,
      ensure (list_where 1 128 (str_within (Some 128)) (dget d ''names''))
        ''names must contain 1 to 128 bounded non-empty users or groups'',
      confirmation_id_ok d]
     (call_of (if operation = ''add'' then ''user_permission_add'' else ''user_permission_remove'')
       [dget d ''permission'', dget d ''names''] [cid_kw d])"

definition permission_info :: operation_body where
  "permission_info d = calls
     [reject_unknown_keys d [''permission''] ''unknown user permission info argument'', need_bounded d ''permission'' 256]
     (call_of ''user_permission_info'' [dget d ''permission''] [])"

definition permission_update :: operation_body where
  "permission_update d = calls
     [reject_unknown_keys d [''permission'', ''label'', ''show_tile'', ''protected'', ''confirmation_id'']
        ''unknown user permission update argument'',
      need_bounded d ''permission'' 256, may_str d ''label'' 256 ''label must be a bounded non-empty string'',
      must (require_bool d ''show_tile'' JNull ''show_tile must be a boolean'' True),
      must (require_bool d ''protected'' JNull ''protected must be a boolean'' True), confirmation_id_ok d]
     (call_of ''user_permission_update'' [dget d ''permission'']
       [(''label'', dget d ''label''), (''show_tile'', dget d ''show_tile''), (''protected'', dget d ''protected''), cid_kw d])"

subsection \<open>Domains, settings, configuration\<close>

definition domain_add :: operation_body where
  "domain_add d = calls
     [reject_unknown_keys d [''domain'', ''install_letsencrypt_cert'', ''confirmation_id''] ''unknown domain add argument'',
      need_bounded d ''domain'' 253,
      need_bool d ''install_letsencrypt_cert'' False ''install_letsencrypt_cert must be a boolean'', confirmation_id_ok d]
     (call_of ''domain_add'' [dget d ''domain'']
       [(''install_letsencrypt_cert'', dget_default d ''install_letsencrypt_cert'' (JBool False)), cid_kw d])"

definition domain_remove :: operation_body where
  "domain_remove d = calls
     [reject_unknown_keys d [''domain'', ''remove_apps'', ''force'', ''confirmation_id''] ''unknown domain remove argument'',
      need_bounded d ''domain'' 253, need_bool d ''remove_apps'' False ''remove_apps and force must be booleans'',
      need_bool d ''force'' False ''remove_apps and force must be booleans'', confirmation_id_ok d]
     (call_of ''domain_remove'' [dget d ''domain'']
       [(''remove_apps'', dget_default d ''remove_apps'' (JBool False)),
        (''force'', dget_default d ''force'' (JBool False)), cid_kw d])"

definition domain_cert_install :: operation_body where
  "domain_cert_install d = calls
     [reject_unknown_keys d [''domain'', ''letsencrypt'', ''staging'', ''confirmation_id''] ''unknown domain certificate argument'',
      need_bounded d ''domain'' 253, need_bool d ''letsencrypt'' True ''letsencrypt and staging must be booleans'',
      need_bool d ''staging'' False ''letsencrypt and staging must be booleans'', confirmation_id_ok d]
     (call_of ''domain_cert_install'' [dget d ''domain'']
       [(''letsencrypt'', dget_default d ''letsencrypt'' (JBool True)),
        (''staging'', dget_default d ''staging'' (JBool False)), cid_kw d])"

definition domain_dns_suggest :: operation_body where
  "domain_dns_suggest d = calls
     [reject_unknown_keys d [''domain''] ''unknown domain dns suggest argument'', need_bounded d ''domain'' 253]
     (call_of ''domain_dns_suggest'' [dget d ''domain''] [])"

definition domain_dns_push_args :: "dict \<Rightarrow> string list \<Rightarrow> exn + unit" where
  "domain_dns_push_args d allowed = steps
     [reject_unknown_keys d allowed ''unknown domain dns push argument'', need_bounded d ''domain'' 253,
      need_bool d ''force'' False ''force and purge must be booleans'',
      need_bool d ''purge'' False ''force and purge must be booleans'']"

definition domain_dns_push_preview :: operation_body where
  "domain_dns_push_preview d = calls [domain_dns_push_args d [''domain'', ''force'', ''purge'']]
     (call_of ''domain_dns_push_preview'' [dget d ''domain'']
       [(''force'', dget_default d ''force'' (JBool False)), (''purge'', dget_default d ''purge'' (JBool False))])"

definition domain_dns_push :: operation_body where
  "domain_dns_push d = calls
     [domain_dns_push_args d [''domain'', ''force'', ''purge'', ''confirmation_id''], confirmation_id_ok d]
     (call_of ''domain_dns_push'' [dget d ''domain'']
       [(''force'', dget_default d ''force'' (JBool False)), (''purge'', dget_default d ''purge'' (JBool False)), cid_kw d])"

definition settings_list :: operation_body where
  "settings_list d = calls
     [reject_unknown_keys d [''full''] ''unknown settings list argument'', need_bool d ''full'' False ''full must be a boolean'']
     (call_of ''settings_list'' [] [(''full'', dget_default d ''full'' (JBool False))])"

definition settings_get :: operation_body where
  "settings_get d = calls
     [reject_unknown_keys d [''key'', ''full''] ''unknown settings get argument'', need_bounded d ''key'' 128,
      need_bool d ''full'' False ''full must be a boolean'']
     (call_of ''settings_get'' [dget d ''key''] [(''full'', dget_default d ''full'' (JBool False))])"

definition settings_set :: operation_body where
  "settings_set d = calls
     [reject_unknown_keys d [''key'', ''value'', ''confirmation_id''] ''unknown settings set argument'',
      need_bounded d ''key'' 128, ensure (str_upto 8192 (dget d ''value'')) ''value must be a bounded string'',
      confirmation_id_ok d]
     (call_of ''settings_set'' [dget d ''key'', dget d ''value''] [cid_kw d])"

definition names_list :: "dict \<Rightarrow> exn + unit" where
  "names_list d = ensure (none_or (is_list_of (str_upto 128)) (dget d ''names'')) ''names must be a list of bounded strings''"

definition regenconf_pending :: operation_body where
  "regenconf_pending d = calls
     [reject_unknown_keys d [''names'', ''with_diff''] ''unknown regenconf pending argument'',
      need_bool d ''with_diff'' False ''with_diff must be a boolean'', names_list d]
     (call_of ''regenconf_pending'' [] [(''names'', dget d ''names''), (''with_diff'', dget_default d ''with_diff'' (JBool False))])"

definition regenconf_apply :: operation_body where
  "regenconf_apply d = calls
     [reject_unknown_keys d [''names'', ''force'', ''confirmation_id''] ''unknown regenconf apply argument'',
      need_bool d ''force'' False ''force must be a boolean'', confirmation_id_ok d, names_list d]
     (call_of ''regenconf_apply'' []
       [(''names'', dget d ''names''), (''force'', dget_default d ''force'' (JBool False)), cid_kw d])"

subsection \<open>The registry\<close>

definition op_entry :: "string \<Rightarrow> string \<Rightarrow> operation_body \<Rightarrow> string \<times> broker_operation" where
  "op_entry name required_scope invoke =
     (name, \<lparr>bo_name = name, bo_required_scope = required_scope, bo_invoke = invoke\<rparr>)"

definition OPERATIONS :: "(string \<times> broker_operation) list" where
  "OPERATIONS =
    [op_entry ''server.info'' ''server.read'' (no_args ''server_info''),
     op_entry ''health.check'' ''diagnosis.read'' (no_args ''health_check''),
     op_entry ''diagnosis.run'' ''diagnosis.read'' diagnosis_run,
     op_entry ''catalog.package_inspect'' ''catalog.inspect'' catalog_package_inspect,
     op_entry ''catalog.verify'' ''catalog.verify'' catalog_verify,
     op_entry ''catalog.list'' ''catalog.inspect'' (no_args ''catalog_list''),
     op_entry ''catalog.publish_plan'' ''catalog.inspect'' catalog_publish_plan,
     op_entry ''catalog.publish'' ''catalog.publish'' catalog_publish,
     op_entry ''package.inspect'' ''packages.inspect'' package_inspect,
     op_entry ''package.lint'' ''packages.inspect'' package_lint,
     op_entry ''package.run_tests'' ''packages.test'' package_run_tests,
     op_entry ''package.install_test'' ''packages.test'' package_install_test,
     op_entry ''package.upgrade_test'' ''packages.test'' package_upgrade_test,
     op_entry ''package.backup_test'' ''packages.test'' package_backup_test,
     op_entry ''package.restore_test'' ''packages.test'' package_restore_test,
     op_entry ''package.change_url_test'' ''packages.test'' package_change_url_test,
     op_entry ''package.remove_test'' ''packages.test'' package_remove_test,
     op_entry ''safe.upgrade'' ''apps.upgrade'' safe_upgrade,
     op_entry ''repair.app'' ''services.restart'' repair_app,
     op_entry ''diagnose.app'' ''apps.read'' diagnose_app,
     op_entry ''validate.server'' ''server.read'' (no_args ''validate_server''),
     op_entry ''apps.list'' ''apps.read'' apps_list,
     op_entry ''app.info'' ''apps.read'' app_info,
     op_entry ''app.resources'' ''apps.read'' app_resources,
     op_entry ''app.config_get'' ''apps.config.read'' app_config_get,
     op_entry ''app.setting_get'' ''apps.setting.read'' app_setting_get,
     op_entry ''services.status'' ''services.read'' service_status,
     op_entry ''domains.list'' ''domains.read'' (no_args ''domains_list''),
     op_entry ''users.list'' ''users.read'' (no_args ''users_list''),
     op_entry ''backups.list'' ''backups.read'' (no_args ''backups_list''),
     op_entry ''backups.created_at'' ''backups.read'' backup_times,
     op_entry ''system.free_space'' ''server.read'' free_space,
     op_entry ''operations.list'' ''logs.read'' operations_list,
     op_entry ''operation.status'' ''logs.read'' operation_name,
     op_entry ''operation.logs'' ''logs.read'' operation_logs,
     op_entry ''domain.certificate_info'' ''domains.read'' domain_name,
     op_entry ''user.groups'' ''users.read'' (no_args ''user_group_list''),
     op_entry ''user.permissions'' ''users.read'' (no_args ''user_permission_list''),
     op_entry ''user.permission_info'' ''users.read'' permission_info,
     op_entry ''service.logs'' ''logs.read'' service_logs,
     op_entry ''journal.query'' ''logs.read'' journal_query,
     op_entry ''web.logs'' ''logs.read'' web_logs,
     op_entry ''system.snapshot'' ''server.read'' system_snapshot,
     op_entry ''service.history'' ''services.read'' service_history,
     op_entry ''ssh.diagnose'' ''diagnosis.read'' ssh_diagnose,
     op_entry ''network.snapshot'' ''server.read'' network_snapshot,
     op_entry ''http.probe'' ''diagnosis.read'' http_probe,
     op_entry ''incident.snapshot'' ''diagnosis.read'' incident_snapshot,
     op_entry ''updates.check'' ''system.update'' updates_check,
     op_entry ''updates.refresh'' ''system.update'' updates_refresh,
     op_entry ''migrations.list'' ''system.update'' migrations_list,
     op_entry ''migrations.state'' ''system.update'' (no_args ''migrations_state''),
     op_entry ''firewall.list'' ''firewall.read'' firewall_list,
     op_entry ''firewall.is_open'' ''firewall.read'' firewall_is_open,
     op_entry ''service.restart'' ''services.restart'' service_restart,
     op_entry ''service.stop'' ''services.stop'' service_stop,
     op_entry ''service.start'' ''services.start'' service_start,
     op_entry ''backup.create'' ''backups.create'' backup_create,
     op_entry ''backup.info'' ''backups.read'' backup_info,
     op_entry ''backup.delete'' ''backups.delete'' backup_delete,
     op_entry ''app.install'' ''apps.install'' app_install,
     op_entry ''app.upgrade'' ''apps.upgrade'' app_upgrade,
     op_entry ''app.remove'' ''apps.remove'' app_remove,
     op_entry ''app.change_url'' ''apps.upgrade'' app_change_url,
     op_entry ''app.config_set'' ''apps.config.write'' app_config_set,
     op_entry ''app.setting_set'' ''apps.setting.write'' app_setting_set,
     op_entry ''backup.restore'' ''backups.restore'' backup_restore,
     op_entry ''system.upgrade'' ''system.upgrade'' system_upgrade,
     op_entry ''system.reboot'' ''system.power'' (confirmation_only ''system_reboot''),
     op_entry ''system.shutdown'' ''system.power'' (confirmation_only ''system_shutdown''),
     op_entry ''migrations.run'' ''system.migrate'' migrations_run,
     op_entry ''firewall.open'' ''firewall.write'' firewall_open,
     op_entry ''firewall.close'' ''firewall.write'' firewall_close,
     op_entry ''firewall.reload'' ''firewall.write'' firewall_reload,
     op_entry ''user.create'' ''users.write'' user_create,
     op_entry ''user.update'' ''users.write'' user_update,
     op_entry ''user.delete'' ''users.delete'' user_delete,
     op_entry ''user.group_create'' ''users.write'' group_create,
     op_entry ''user.group_update'' ''users.write'' group_update,
     op_entry ''user.group_delete'' ''users.delete'' group_delete,
     op_entry ''user.permission_add'' ''users.write'' (permission_change ''add''),
     op_entry ''user.permission_remove'' ''users.write'' (permission_change ''remove''),
     op_entry ''user.permission_update'' ''users.write'' permission_update,
     op_entry ''domain.add'' ''domains.write'' domain_add,
     op_entry ''domain.remove'' ''domains.write'' domain_remove,
     op_entry ''domain.cert_install'' ''domains.write'' domain_cert_install,
     op_entry ''domain.dns_suggest'' ''domains.read'' domain_dns_suggest,
     op_entry ''domain.dns_push_preview'' ''domains.read'' domain_dns_push_preview,
     op_entry ''domain.dns_push'' ''domains.write'' domain_dns_push,
     op_entry ''settings.list'' ''settings.read'' settings_list,
     op_entry ''settings.get'' ''settings.read'' settings_get,
     op_entry ''settings.set'' ''settings.write'' settings_set,
     op_entry ''regenconf.pending'' ''regenconf.read'' regenconf_pending,
     op_entry ''regenconf.apply'' ''regenconf.write'' regenconf_apply]"

subsection \<open>What the registry fixes\<close>

text \<open>The parts of a call that are not values of arguments: the method, the number of positional
  arguments, the names of the keyword arguments and the key of the result.\<close>

definition call_shape :: "adapter_call \<Rightarrow> string \<times> nat \<times> string list \<times> string option" where
  "call_shape c = (ac_method c, length (ac_args c), map fst (ac_kwargs c), ac_result_key c)"

definition fixed_shape :: "operation_body \<Rightarrow> bool" where
  "fixed_shape body \<longleftrightarrow> (\<forall>d1 d2 c1 c2. body d1 = Inr c1 \<longrightarrow> body d2 = Inr c2 \<longrightarrow> call_shape c1 = call_shape c2)"

lemma callsD: "calls cs c = Inr c' \<Longrightarrow> c' = c"
  by simp

lemma call_shape_of [simp]: "call_shape (call_of m as ks) = (m, length as, map fst ks, None)"
  by (simp add: call_shape_def)

lemmas reading_defs = no_args_def service_status_def apps_list_def app_info_def app_resources_def app_config_get_def
  app_setting_get_def free_space_def backup_times_def operations_list_def operation_name_def
  operation_logs_def domain_name_def service_logs_def journal_query_def web_logs_def
  system_snapshot_def service_history_def ssh_diagnose_def network_snapshot_def http_probe_def
  incident_snapshot_def updates_check_def updates_refresh_def diagnosis_run_def

lemmas package_defs = catalog_package_inspect_def catalog_verify_def catalog_publish_plan_def catalog_publish_def
  package_inspect_def package_lint_def package_run_tests_def package_install_test_def
  package_upgrade_test_def package_backup_test_def package_restore_test_def
  package_change_url_test_def package_remove_test_def safe_upgrade_def repair_app_def
  diagnose_app_def migrations_list_def firewall_list_def firewall_is_open_def

lemmas app_defs = service_restart_def service_stop_def service_start_def backup_create_def backup_info_def
  backup_delete_def backup_restore_def app_install_def app_upgrade_def app_remove_def
  app_change_url_def app_config_set_def app_setting_set_def

lemmas admin_defs = system_upgrade_def confirmation_only_def migrations_run_def firewall_open_def
  firewall_close_def firewall_reload_def user_create_def user_update_def user_delete_def
  group_create_def group_update_def group_delete_def permission_change_def permission_info_def
  permission_update_def domain_add_def domain_remove_def domain_cert_install_def
  domain_dns_suggest_def domain_dns_push_preview_def domain_dns_push_def settings_list_def
  settings_get_def settings_set_def regenconf_pending_def regenconf_apply_def

lemma reading_fixed:
  "fixed_shape (no_args m)" "fixed_shape service_status" "fixed_shape apps_list" "fixed_shape app_info"
  "fixed_shape app_resources" "fixed_shape app_config_get" "fixed_shape app_setting_get"
  "fixed_shape free_space" "fixed_shape backup_times" "fixed_shape operations_list"
  "fixed_shape operation_name" "fixed_shape operation_logs" "fixed_shape domain_name"
  "fixed_shape service_logs" "fixed_shape journal_query" "fixed_shape web_logs"
  "fixed_shape system_snapshot" "fixed_shape service_history" "fixed_shape ssh_diagnose"
  "fixed_shape network_snapshot" "fixed_shape http_probe" "fixed_shape incident_snapshot"
  "fixed_shape updates_check" "fixed_shape updates_refresh" "fixed_shape diagnosis_run"
  by (auto simp: fixed_shape_def reading_defs Let_def call_shape_def
      dest!: callsD split: option.splits if_splits)

lemma package_fixed:
  "fixed_shape catalog_package_inspect" "fixed_shape catalog_verify" "fixed_shape catalog_publish_plan"
  "fixed_shape catalog_publish" "fixed_shape package_inspect" "fixed_shape package_lint"
  "fixed_shape package_run_tests" "fixed_shape package_install_test" "fixed_shape package_upgrade_test"
  "fixed_shape package_backup_test" "fixed_shape package_restore_test"
  "fixed_shape package_change_url_test" "fixed_shape package_remove_test" "fixed_shape safe_upgrade"
  "fixed_shape repair_app" "fixed_shape diagnose_app" "fixed_shape migrations_list"
  "fixed_shape firewall_list" "fixed_shape firewall_is_open"
  by (auto simp: fixed_shape_def package_defs Let_def call_shape_def
      dest!: callsD split: option.splits if_splits)

lemma app_fixed:
  "fixed_shape service_restart" "fixed_shape service_stop" "fixed_shape service_start"
  "fixed_shape backup_create" "fixed_shape backup_info" "fixed_shape backup_delete"
  "fixed_shape backup_restore" "fixed_shape app_install" "fixed_shape app_upgrade"
  "fixed_shape app_remove" "fixed_shape app_change_url" "fixed_shape app_config_set"
  "fixed_shape app_setting_set"
  by (auto simp: fixed_shape_def app_defs Let_def call_shape_def
      dest!: callsD split: option.splits if_splits)

lemma admin_fixed:
  "fixed_shape system_upgrade" "fixed_shape (confirmation_only m)" "fixed_shape migrations_run"
  "fixed_shape firewall_open" "fixed_shape firewall_close" "fixed_shape firewall_reload"
  "fixed_shape user_create" "fixed_shape user_update" "fixed_shape user_delete"
  "fixed_shape group_create" "fixed_shape group_update" "fixed_shape group_delete"
  "fixed_shape (permission_change m)" "fixed_shape permission_info" "fixed_shape permission_update"
  "fixed_shape domain_add" "fixed_shape domain_remove" "fixed_shape domain_cert_install"
  "fixed_shape domain_dns_suggest" "fixed_shape domain_dns_push_preview" "fixed_shape domain_dns_push"
  "fixed_shape settings_list" "fixed_shape settings_get" "fixed_shape settings_set"
  "fixed_shape regenconf_pending" "fixed_shape regenconf_apply"
  by (auto simp: fixed_shape_def admin_defs Let_def call_shape_def MIGRATION_FLAGS_def USER_UPDATE_VALUES_def USER_UPDATE_LISTS_def
      dest!: callsD split: option.splits if_splits)

lemma registry_names: "distinct (map fst OPERATIONS) \<and> list_all (\<lambda>(k, op). bo_name op = k) OPERATIONS"
  by (simp add: OPERATIONS_def op_entry_def)

lemma registry_scopes: "list_all (\<lambda>(k, op). bo_required_scope op \<in> set (map scope_value scope_members)) OPERATIONS"
  by (simp add: OPERATIONS_def op_entry_def scope_members_def)

lemma registry_fixed: "list_all (\<lambda>(k, op). fixed_shape (bo_invoke op)) OPERATIONS"
  by (simp add: OPERATIONS_def op_entry_def reading_fixed package_fixed app_fixed admin_fixed)

lemma registry_entry:
  assumes "map_of OPERATIONS name = Some operation"
  shows "bo_name operation = name" "\<exists>s. scope_of_value (bo_required_scope operation) = Some s"
    "fixed_shape (bo_invoke operation)"
proof -
  have mem: "(name, operation) \<in> set OPERATIONS" using assms by (rule map_of_SomeD)
  show "bo_name operation = name" using registry_names mem by (auto simp: list_all_iff)
  have "bo_required_scope operation \<in> scope_value ` set scope_members"
    using registry_scopes mem by (auto simp: list_all_iff)
  then show "\<exists>s. scope_of_value (bo_required_scope operation) = Some s"
    using scope_of_value_Some by auto
  show "fixed_shape (bo_invoke operation)" using registry_fixed mem by (auto simp: list_all_iff)
qed

text \<open>
  C38: the registry is closed. Every name is registered once, under its own name and with the value of
  an existing scope; and whatever arguments two callers send to one operation, if both are accepted
  the adapter receives the same method with as many positional and the same named arguments: no
  argument selects a method or adds a parameter.
\<close>

theorem registry_closed:
  assumes "map_of OPERATIONS name = Some operation"
    and "bo_invoke operation d1 = Inr c1" "bo_invoke operation d2 = Inr c2"
  shows "distinct (map fst OPERATIONS) \<and> bo_name operation = name \<and>
    scope_of_value (bo_required_scope operation) \<noteq> None \<and> call_shape c1 = call_shape c2"
  using registry_entry [OF assms(1)] registry_names assms(2,3) unfolding fixed_shape_def by blast

lemma OPERATIONS_app_remove:
  "map_of OPERATIONS ''app.remove'' = Some \<lparr>bo_name = ''app.remove'', bo_required_scope = ''apps.remove'', bo_invoke = app_remove\<rparr>"
  by (simp add: OPERATIONS_def op_entry_def)

lemma app_remove_accepts:
  "app_remove [(''app'', JStr ''wiki'')] =
     Inr (call_of ''app_remove'' [JStr ''wiki''] [(''purge'', JBool False), (''confirmation_id'', JNull)])"
  by (simp add: app_remove_def need_str_def need_bool_def confirmation_id_ok_def may_str_def require_str_def
      require_bool_def dkeys_def)

theorem registry_closed_witness:
  "bo_name \<lparr>bo_name = ''app.remove'', bo_required_scope = ''apps.remove'', bo_invoke = app_remove\<rparr> = ''app.remove''"
proof -
  have i: "bo_invoke \<lparr>bo_name = ''app.remove'', bo_required_scope = ''apps.remove'', bo_invoke = app_remove\<rparr>
    [(''app'', JStr ''wiki'')] = Inr (call_of ''app_remove'' [JStr ''wiki''] [(''purge'', JBool False), (''confirmation_id'', JNull)])"
    using app_remove_accepts by simp
  show ?thesis using registry_closed [OF OPERATIONS_app_remove i i] by blast
qed

subsection \<open>Ports\<close>

lemma str_split_acc_last: "c \<notin> set p \<Longrightarrow> str_split_acc c acc p = [rev acc @ p]"
  by (induction p arbitrary: acc) auto

lemma str_split_acc_step: "c \<notin> set p \<Longrightarrow> str_split_acc c acc (p @ c # s) = (rev acc @ p) # str_split_acc c [] s"
  by (induction p arbitrary: acc) auto

lemma str_split_join: "parts \<noteq> [] \<Longrightarrow> \<forall>p \<in> set parts. c \<notin> set p \<Longrightarrow> str_split (str_join [c] parts) c = parts"
proof (induction "[c]" parts rule: str_join.induct)
  case (3 s t ss)
  then show ?case by (simp add: str_split_def str_split_acc_step)
qed (auto simp: str_split_def str_split_acc_last)

lemma str_split_acc_nonempty: "str_split_acc c acc s \<noteq> []"
  by (induction c acc s rule: str_split_acc.induct) auto

lemma str_join_split_acc: "str_join [c] (str_split_acc c acc s) = rev acc @ s"
proof (induction c acc s rule: str_split_acc.induct)
  case (2 c acc x s)
  show ?case
  proof (cases "x = c")
    case True
    then show ?thesis using 2 str_split_acc_nonempty [of c "[]" s]
      by (cases "str_split_acc c [] s") auto
  qed (use 2 in simp)
qed simp

definition port_number :: "string \<Rightarrow> bool" where
  "port_number part \<longleftrightarrow> part \<noteq> [] \<and> list_all is_digit part \<and> (\<exists>n. parse_int part = Some n \<and> 1 \<le> n \<and> n \<le> 65535)"

lemma port_parts_ok_True: "port_parts_ok parts = Inr True \<longleftrightarrow> list_all port_number parts"
  by (induction parts rule: port_parts_ok.induct) (auto simp: port_number_def split: option.splits)

lemma port_number_no_dash: "port_number part \<Longrightarrow> CHR ''-'' \<notin> set part"
  by (auto simp: port_number_def list_all_iff is_digit_def is_decimal_def code_def)

lemma port_split:
  "list_all port_number (str_split s (CHR ''-'')) \<longleftrightarrow>
     (\<exists>parts. parts \<noteq> [] \<and> list_all port_number parts \<and> s = str_join ''-'' parts)"
proof
  assume l: "list_all port_number (str_split s (CHR ''-''))"
  show "\<exists>parts. parts \<noteq> [] \<and> list_all port_number parts \<and> s = str_join ''-'' parts"
    using l str_join_split_acc [of "CHR ''-''" "[]" s] str_split_acc_nonempty [of "CHR ''-''" "[]" s]
    by (intro exI [where x = "str_split s (CHR ''-'')"]) (simp add: str_split_def)
next
  assume "\<exists>parts. parts \<noteq> [] \<and> list_all port_number parts \<and> s = str_join ''-'' parts"
  then obtain parts where p: "parts \<noteq> []" "list_all port_number parts" "s = str_join ''-'' parts" by blast
  then have "str_split s (CHR ''-'') = parts"
    using str_split_join [of parts "CHR ''-''"] port_number_no_dash by (auto simp: list_all_iff)
  then show "list_all port_number (str_split s (CHR ''-''))" using p by simp
qed

text \<open>
  What the firewall operations accept as a port: an integer from 1 to 65535, or a text of at
  most eleven characters that is a sequence of such numbers separated by hyphens; the protocol is
  tcp or udp. Nothing limits the sequence to two numbers or orders them, so
  \<open>1-2-3\<close> and \<open>90-80\<close> pass as port ranges.
\<close>

theorem port_validation_exact:
  "(port_and_protocol d = Inr () \<longleftrightarrow>
     dget d ''protocol'' \<in> {JStr ''tcp'', JStr ''udp''} \<and>
     ((\<exists>i. dget d ''port'' = JInt i \<and> 1 \<le> i \<and> i \<le> 65535) \<or>
      (\<exists>s parts. dget d ''port'' = JStr s \<and> length s \<le> 11 \<and> parts \<noteq> [] \<and> list_all port_number parts \<and>
         s = str_join ''-'' parts))) \<and>
   port_and_protocol [(''port'', JStr ''1-2-3''), (''protocol'', JStr ''tcp'')] = Inr () \<and>
   port_and_protocol [(''port'', JStr ''90-80''), (''protocol'', JStr ''udp'')] = Inr ()"
proof -
  have s: "port_string_ok s = Inr () \<longleftrightarrow> length s \<le> 11 \<and>
      (\<exists>parts. parts \<noteq> [] \<and> list_all port_number parts \<and> s = str_join ''-'' parts)" for s
  proof -
    have "port_string_ok [] \<noteq> Inr ()" by (simp add: port_string_ok_def)
    moreover have "\<not> list_all port_number (str_split [] (CHR ''-''))"
      by (simp add: str_split_def port_number_def)
    ultimately show ?thesis
      unfolding port_split [symmetric] using port_parts_ok_True [of "str_split s (CHR ''-'')"]
      by (cases s) (auto simp: port_string_ok_def)
  qed
  have p: "port_and_protocol d = Inr () \<longleftrightarrow> dget d ''protocol'' \<in> {JStr ''tcp'', JStr ''udp''} \<and>
     ((\<exists>i. dget d ''port'' = JInt i \<and> 1 \<le> i \<and> i \<le> 65535) \<or>
      (\<exists>s. dget d ''port'' = JStr s \<and> port_string_ok s = Inr ()))" for d
    by (cases "dget d ''port''"; cases "dget d ''protocol''") (auto simp: port_and_protocol_def)
  have "port_string_ok ''1-2-3'' = Inr ()" "port_string_ok ''90-80'' = Inr ()"
    by (simp_all add: port_string_ok_def str_split_def is_digit_def is_decimal_def code_def parse_int_def
        str_strip_def is_space_def parse_nat_def)
  then have "port_and_protocol [(''port'', JStr ''1-2-3''), (''protocol'', JStr ''tcp'')] = Inr ()"
    "port_and_protocol [(''port'', JStr ''90-80''), (''protocol'', JStr ''udp'')] = Inr ()"
    unfolding p by simp_all
  then show ?thesis using p [of d] unfolding s by blast
qed

end
