(* ===== verification/Roles.thy ===== *)
theory Roles
  imports Scopes
begin

text \<open>
  \<open>policy/roles.py\<close>: the fixed role table and \<open>scopes_for_roles\<close>, the union of the scopes of a
  tuple of role names, which raises \<open>UnknownRoleError\<close> on a name the table does not define.
\<close>

definition ROLE_READONLY :: "scope set" where
  "ROLE_READONLY = {
     SERVER_READ, DIAGNOSIS_READ, SYSTEM_UPDATE, APPS_READ, SERVICES_READ, LOGS_READ,
     BACKUPS_READ, USERS_READ, DOMAINS_READ, PACKAGES_INSPECT, CATALOG_INSPECT,
     CATALOG_VERIFY, FIREWALL_READ, APPS_CONFIG_READ, APPS_SETTING_READ, SETTINGS_READ,
     REGENCONF_READ}"

definition ROLE_OPERATOR :: "scope set" where
  "ROLE_OPERATOR = ROLE_READONLY \<union>
     {SERVICES_RESTART, SERVICES_STOP, SERVICES_START, BACKUPS_CREATE}"

definition ROLE_APP_ADMIN :: "scope set" where
  "ROLE_APP_ADMIN = ROLE_OPERATOR \<union>
     {APPS_INSTALL, APPS_UPGRADE, APPS_REMOVE, APPS_CONFIG_WRITE, APPS_SETTING_WRITE,
      BACKUPS_RESTORE, BACKUPS_DELETE, DOMAINS_WRITE, USERS_WRITE, USERS_DELETE,
      SYSTEM_UPGRADE, AUDIT_READ, FIREWALL_WRITE, SYSTEM_MIGRATE, SETTINGS_WRITE,
      REGENCONF_WRITE, SYSTEM_POWER}"

definition ROLE_PACKAGE_DEVELOPER :: "scope set" where
  "ROLE_PACKAGE_DEVELOPER = ROLE_APP_ADMIN \<union>
     {PACKAGES_TEST, CATALOG_PUBLISH, ARMADA_WRITE, MEMORY_READ, MEMORY_WRITE, MEMORY_FEEDBACK}"

definition ROLE_ADMINISTRATOR :: "scope set" where
  "ROLE_ADMINISTRATOR = ALL_SCOPES"

definition ROLE_SCOPES :: "(string \<times> scope set) list" where
  "ROLE_SCOPES = [
     (''readonly'', ROLE_READONLY),
     (''operator'', ROLE_OPERATOR),
     (''app-admin'', ROLE_APP_ADMIN),
     (''package-developer'', ROLE_PACKAGE_DEVELOPER),
     (''administrator'', ROLE_ADMINISTRATOR)]"

definition unknown_role_error :: "string \<Rightarrow> exn" where
  "unknown_role_error role = Exn UnknownRoleError
     (''unknown role '' @ py_repr role @ ''; known roles: '' @
      py_repr_list [''administrator'', ''app-admin'', ''operator'', ''package-developer'', ''readonly''])"

text \<open>The loop: \<open>result\<close> accumulates, the first unknown role raises.\<close>

fun scopes_for_roles_from :: "scope set \<Rightarrow> string list \<Rightarrow> exn + scope set" where
  "scopes_for_roles_from result [] = Inr result"
| "scopes_for_roles_from result (role # roles) =
     (case map_of ROLE_SCOPES role of
        None \<Rightarrow> Inl (unknown_role_error role)
      | Some ss \<Rightarrow> scopes_for_roles_from (result \<union> ss) roles)"

definition scopes_for_roles :: "string list \<Rightarrow> exn + scope set" where
  "scopes_for_roles roles = scopes_for_roles_from {} roles"

definition known_roles :: "string list" where
  "known_roles = map fst ROLE_SCOPES"

definition role_scope_set :: "string \<Rightarrow> scope set" where
  "role_scope_set role = (case map_of ROLE_SCOPES role of None \<Rightarrow> {} | Some ss \<Rightarrow> ss)"

lemmas role_defs = ROLE_READONLY_def ROLE_OPERATOR_def ROLE_APP_ADMIN_def
  ROLE_PACKAGE_DEVELOPER_def ROLE_ADMINISTRATOR_def

lemma known_roles_lookup: "role \<in> set known_roles \<longleftrightarrow> map_of ROLE_SCOPES role \<noteq> None"
  by (auto simp: known_roles_def map_of_eq_None_iff)

lemma scopes_for_roles_from_eq:
  "scopes_for_roles_from acc roles =
     (if set roles \<subseteq> set known_roles
      then Inr (acc \<union> (\<Union>r \<in> set roles. role_scope_set r))
      else Inl (unknown_role_error (hd (filter (\<lambda>r. r \<notin> set known_roles) roles))))"
proof (induction roles arbitrary: acc)
  case Nil
  then show ?case by simp
next
  case (Cons role roles)
  then show ?case
    by (cases "map_of ROLE_SCOPES role")
       (auto simp: known_roles_lookup role_scope_set_def Un_assoc)
qed

lemma scopes_for_roles_Inr:
  "scopes_for_roles roles = Inr ss \<longleftrightarrow>
   set roles \<subseteq> set known_roles \<and> ss = (\<Union>r \<in> set roles. role_scope_set r)"
  by (auto simp: scopes_for_roles_def scopes_for_roles_from_eq)

text \<open>
  The effective scopes of an identity are exactly the union of the scopes of its roles, and
  the lookup fails if and only if some role name is not defined, naming such a role.
\<close>

theorem scopes_for_roles_correct:
  "scopes_for_roles roles =
     (if set roles \<subseteq> set known_roles
      then Inr (\<Union>r \<in> set roles. role_scope_set r)
      else Inl (unknown_role_error (hd (filter (\<lambda>r. r \<notin> set known_roles) roles))))"
  by (simp add: scopes_for_roles_def scopes_for_roles_from_eq)

text \<open>
  The roles form a strict chain below administrator, every role of the table contains every
  read scope of readonly, and of all roles only administrator may approve operations.
\<close>

theorem role_hierarchy:
  "ROLE_READONLY \<subset> ROLE_OPERATOR \<and> ROLE_OPERATOR \<subset> ROLE_APP_ADMIN \<and>
   ROLE_APP_ADMIN \<subset> ROLE_PACKAGE_DEVELOPER \<and> ROLE_PACKAGE_DEVELOPER \<subset> ROLE_ADMINISTRATOR \<and>
   {r. OWNER_APPROVE \<in> role_scope_set r} = {''administrator''}"
proof -
  have owner: "OWNER_APPROVE \<in> role_scope_set r \<longleftrightarrow> r = ''administrator''" for r
    by (auto simp: role_scope_set_def ROLE_SCOPES_def role_defs ALL_SCOPES_UNIV)
  have "ROLE_READONLY \<subset> ROLE_OPERATOR"
  proof
    show "ROLE_READONLY \<subseteq> ROLE_OPERATOR" by (auto simp: ROLE_OPERATOR_def)
    have "SERVICES_STOP \<in> ROLE_OPERATOR" by (simp add: ROLE_OPERATOR_def)
    moreover have "SERVICES_STOP \<notin> ROLE_READONLY" by (simp add: ROLE_READONLY_def)
    ultimately show "ROLE_READONLY \<noteq> ROLE_OPERATOR" by blast
  qed
  moreover have "ROLE_OPERATOR \<subset> ROLE_APP_ADMIN"
  proof
    show "ROLE_OPERATOR \<subseteq> ROLE_APP_ADMIN" by (auto simp: ROLE_APP_ADMIN_def)
    have "APPS_INSTALL \<in> ROLE_APP_ADMIN" by (simp add: ROLE_APP_ADMIN_def)
    moreover have "APPS_INSTALL \<notin> ROLE_OPERATOR" by (simp add: ROLE_OPERATOR_def ROLE_READONLY_def)
    ultimately show "ROLE_OPERATOR \<noteq> ROLE_APP_ADMIN" by blast
  qed
  moreover have "ROLE_APP_ADMIN \<subset> ROLE_PACKAGE_DEVELOPER"
  proof
    show "ROLE_APP_ADMIN \<subseteq> ROLE_PACKAGE_DEVELOPER" by (auto simp: ROLE_PACKAGE_DEVELOPER_def)
    have "PACKAGES_TEST \<in> ROLE_PACKAGE_DEVELOPER" by (simp add: ROLE_PACKAGE_DEVELOPER_def)
    moreover have "PACKAGES_TEST \<notin> ROLE_APP_ADMIN"
      by (simp add: ROLE_APP_ADMIN_def ROLE_OPERATOR_def ROLE_READONLY_def)
    ultimately show "ROLE_APP_ADMIN \<noteq> ROLE_PACKAGE_DEVELOPER" by blast
  qed
  moreover have "ROLE_PACKAGE_DEVELOPER \<subset> ROLE_ADMINISTRATOR"
  proof
    show "ROLE_PACKAGE_DEVELOPER \<subseteq> ROLE_ADMINISTRATOR"
      by (simp add: ROLE_ADMINISTRATOR_def ALL_SCOPES_UNIV)
    have "OWNER_APPROVE \<in> ROLE_ADMINISTRATOR" by (simp add: ROLE_ADMINISTRATOR_def ALL_SCOPES_UNIV)
    moreover have "OWNER_APPROVE \<notin> ROLE_PACKAGE_DEVELOPER" by (simp add: role_defs)
    ultimately show "ROLE_PACKAGE_DEVELOPER \<noteq> ROLE_ADMINISTRATOR" by blast
  qed
  ultimately show ?thesis using owner by blast
qed

end
