(* ===== verification/Nostr.thy ===== *)
theory Nostr
  imports Prelude "HOL-Library.List_Lexorder" "HOL-Library.Char_ord"
begin

text \<open>
  \<open>auth/nostr.py\<close>: the Nostr event model, its field validators, the NIP-01 event id and
  \<open>verify_event\<close>; and the standard library's \<open>json.dumps\<close>, which the event id and the
  confirmation hashes are computed over.

  The record \<open>libs\<close> holds what is not under \<open>src/\<close> or is a cryptographic primitive: SHA-256
  (hex digest of the encoded text), signature verification and key decoding of \<open>nostr_sdk\<close>,
  field coercion of \<open>pydantic\<close>, and the decoders \<open>json.loads\<close> (of a text, of bytes),
  \<open>base64.b64decode\<close> and \<open>datetime.fromisoformat\<close>; each returns the error's text or a value.
  They are parameters; what a property relies on is one of its hypotheses.
\<close>

subsection \<open>\<open>json.dumps\<close>\<close>

text \<open>How \<open>json.dumps\<close> writes: whether non-ASCII characters are escaped, and the separators.\<close>

record json_format =
  ensure_ascii :: bool
  item_separator :: string
  key_separator :: string

definition hex4 :: "nat \<Rightarrow> string" where
  "hex4 n = [hex_digit (n div 4096 mod 16), hex_digit (n div 256 mod 16),
             hex_digit (n div 16 mod 16), hex_digit (n mod 16)]"

definition json_escape :: "bool \<Rightarrow> char \<Rightarrow> string" where
  "json_escape ascii c =
     (let n = code c; bs = char_of (92 :: nat)
      in if n = 34 \<or> n = 92 then [bs, c]
         else if n = 10 then [bs, CHR ''n'']
         else if n = 13 then [bs, CHR ''r'']
         else if n = 9 then [bs, CHR ''t'']
         else if n = 12 then [bs, CHR ''f'']
         else if n = 8 then [bs, CHR ''b'']
         else if n < 32 \<or> (ascii \<and> 126 < n) then [bs, CHR ''u''] @ hex4 n
         else [c])"

definition json_string :: "bool \<Rightarrow> string \<Rightarrow> string" where
  "json_string ascii s = [char_of (34 :: nat)] @ concat (map (json_escape ascii) s) @ [char_of (34 :: nat)]"

text \<open>The text of a float, \<open>float.__repr__\<close>, is a parameter.\<close>

primrec json_text :: "(real \<Rightarrow> string) \<Rightarrow> json_format \<Rightarrow> json \<Rightarrow> string" where
  "json_text flt f JNull = ''null''"
| "json_text flt f (JBool b) = (if b then ''true'' else ''false'')"
| "json_text flt f (JInt i) = show_int i"
| "json_text flt f (JFloat r) = flt r"
| "json_text flt f (JStr s) = json_string (ensure_ascii f) s"
| "json_text flt f (JList xs) =
     ''['' @ str_join (item_separator f) (map (json_text flt f) xs) @ '']''"
| "json_text flt f (JObj d) =
     ''{'' @ str_join (item_separator f)
       (map (\<lambda>p. json_string (ensure_ascii f) (fst p) @ key_separator f @ snd p)
         (map (map_prod id (json_text flt f)) d)) @ ''}''"

text \<open>\<open>sort_keys=True\<close>: every object's members in the order of their keys.\<close>

primrec json_sorted :: "json \<Rightarrow> json" where
  "json_sorted JNull = JNull"
| "json_sorted (JBool b) = JBool b"
| "json_sorted (JInt i) = JInt i"
| "json_sorted (JFloat r) = JFloat r"
| "json_sorted (JStr s) = JStr s"
| "json_sorted (JList xs) = JList (map json_sorted xs)"
| "json_sorted (JObj d) = JObj (sort_key fst (map (map_prod id json_sorted) d))"

definition default_format :: json_format where
  "default_format = \<lparr>ensure_ascii = True, item_separator = '', '', key_separator = '': ''\<rparr>"

definition compact_format :: json_format where
  "compact_format = \<lparr>ensure_ascii = False, item_separator = '','', key_separator = '':''\<rparr>"

subsection \<open>Events\<close>

record nostr_event =
  ev_id :: string
  ev_pubkey :: string
  ev_created_at :: int
  ev_kind :: int
  ev_tags :: "string list list"
  ev_content :: string
  ev_sig :: string

record libs =
  sha256_hex :: "string \<Rightarrow> string"
  sha256_bytes :: "string \<Rightarrow> string"
  float_text :: "real \<Rightarrow> string"
  json_loads :: "string \<Rightarrow> string + json"
  json_loads_bytes :: "string \<Rightarrow> string + json"
  b64decode :: "string \<Rightarrow> string + string"
  pydantic_event :: "json \<Rightarrow> string + nostr_event"
  verify_signature :: "nostr_event \<Rightarrow> string + bool"
  npub_decode :: "string \<Rightarrow> string option"
  iso_datetime :: "string \<Rightarrow> string + py_datetime"

definition HEX32_LEN :: nat where "HEX32_LEN = 64"
definition HEX64_LEN :: nat where "HEX64_LEN = 128"

text \<open>\<open>bytes.fromhex\<close> succeeds: pairs of hexadecimal digits, white space allowed between pairs.\<close>

definition is_hex_digit :: "char \<Rightarrow> bool" where
  "is_hex_digit c = (is_decimal c \<or> (65 \<le> code c \<and> code c \<le> 70) \<or> (97 \<le> code c \<and> code c \<le> 102))"

definition is_ascii_space :: "char \<Rightarrow> bool" where
  "is_ascii_space c = ((9 \<le> code c \<and> code c \<le> 13) \<or> code c = 32)"

fun fromhex_ok :: "string \<Rightarrow> bool" where
  "fromhex_ok [] = True"
| "fromhex_ok [c] = is_ascii_space c"
| "fromhex_ok (c # d # s) =
     (if is_ascii_space c then fromhex_ok (d # s)
      else is_hex_digit c \<and> is_hex_digit d \<and> fromhex_ok s)"

definition is_hex :: "string \<Rightarrow> bool" where
  "is_hex v = (fromhex_ok v \<and> v = str_lower v)"

definition validate_hex32 :: "string \<Rightarrow> bool" where
  "validate_hex32 v = (length v = HEX32_LEN \<and> is_hex v)"

definition validate_sig_hex :: "string \<Rightarrow> bool" where
  "validate_sig_hex v = (length v = HEX64_LEN \<and> is_hex v)"

text \<open>\<open>NostrEvent.model_validate\<close>: the fields as \<open>pydantic\<close> coerces them, then the validators.\<close>

definition model_validate :: "libs \<Rightarrow> json \<Rightarrow> string + nostr_event" where
  "model_validate L raw =
     (case pydantic_event L raw of
        Inl msg \<Rightarrow> Inl msg
      | Inr e \<Rightarrow>
          if \<not> validate_hex32 (ev_id e) \<or> \<not> validate_hex32 (ev_pubkey e)
          then Inl ''expected 32-byte lowercase hex string''
          else if \<not> validate_sig_hex (ev_sig e)
          then Inl ''expected 64-byte lowercase hex string''
          else Inr e)"

text \<open>\<open>event.tag(name)\<close>: the first value of the first tag with this name.\<close>

fun tag_in :: "string list list \<Rightarrow> string \<Rightarrow> string option" where
  "tag_in [] name = None"
| "tag_in (t # tags) name =
     (case t of n # v # _ \<Rightarrow> (if n = name then Some v else tag_in tags name) | _ \<Rightarrow> tag_in tags name)"

definition event_tag :: "nostr_event \<Rightarrow> string \<Rightarrow> string option" where
  "event_tag e name = tag_in (ev_tags e) name"

definition event_serialization :: "libs \<Rightarrow> nostr_event \<Rightarrow> string" where
  "event_serialization L e = json_text (float_text L) compact_format
     (JList [JInt 0, JStr (ev_pubkey e), JInt (ev_created_at e), JInt (ev_kind e),
             JList (map (\<lambda>t. JList (map JStr t)) (ev_tags e)), JStr (ev_content e)])"

definition compute_event_id :: "libs \<Rightarrow> nostr_event \<Rightarrow> string" where
  "compute_event_id L e = sha256_hex L (event_serialization L e)"

definition verify_event :: "libs \<Rightarrow> nostr_event \<Rightarrow> exn + unit" where
  "verify_event L e =
     (let expected_id = compute_event_id L e
      in if ev_id e \<noteq> expected_id
         then Inl (Exn NostrEventError (''event id mismatch: got '' @ ev_id e @ '', computed '' @ expected_id))
         else (case verify_signature L e of
             Inl exc \<Rightarrow> Inl (Exn NostrEventError (''signature verification failed: '' @ exc))
           | Inr good \<Rightarrow>
               if \<not> good then Inl (Exn NostrEventError ''invalid schnorr signature'') else Inr ()))"

lemma verify_event_Inr [simp]:
  "verify_event L e = Inr u \<longleftrightarrow> ev_id e = compute_event_id L e \<and> verify_signature L e = Inr True"
  by (auto simp: verify_event_def Let_def split: sum.splits if_splits)

lemma verify_event_Inl: "verify_event L e = Inl x \<Longrightarrow> exn_cls x = NostrEventError"
  by (auto simp: verify_event_def Let_def split: sum.splits if_splits)

lemma model_validate_Inr:
  "model_validate L raw = Inr e \<longleftrightarrow>
     pydantic_event L raw = Inr e \<and> validate_hex32 (ev_id e) \<and> validate_hex32 (ev_pubkey e) \<and>
     validate_sig_hex (ev_sig e)"
  by (auto simp: model_validate_def split: sum.splits if_splits)

text \<open>The first tag of a name decides: prefixing tags of other names changes nothing.\<close>

lemma tag_in_append_other:
  "(\<forall>t \<in> set ts. length t < 2 \<or> hd t \<noteq> name) \<Longrightarrow> tag_in (ts @ tags) name = tag_in tags name"
  by (induction ts) (auto split: list.splits)

text \<open>A concrete instance of the parameters, on which the witnesses evaluate: a hash that is the
  identity, signatures that verify, a JSON decoder that knows \<open>null\<close>.\<close>

definition example_libs :: libs where
  "example_libs = \<lparr>sha256_hex = (\<lambda>s. s), sha256_bytes = (\<lambda>s. s),
     float_text = (\<lambda>_. ''0.0''), json_loads = (\<lambda>_. Inr JNull), json_loads_bytes = (\<lambda>_. Inr JNull),
     b64decode = Inr, pydantic_event = (\<lambda>_. Inl ''not an event''),
     verify_signature = (\<lambda>_. Inr True), npub_decode = (\<lambda>_. None),
     iso_datetime = (\<lambda>_. Inr (Naive 0))\<rparr>"

lemma example_libs_simps [simp]:
  "sha256_hex example_libs s = s" "sha256_bytes example_libs s = s"
  "json_loads_bytes example_libs s = Inr JNull" "iso_datetime example_libs s = Inr (Naive 0)"
  "json_loads example_libs s = Inr JNull"
  "b64decode example_libs s = Inr s" "verify_signature example_libs e = Inr True"
  "pydantic_event example_libs v = Inl ''not an event''" "npub_decode example_libs s = None"
  by (simp_all add: example_libs_def)

lemma valid_replicate:
  assumes "c \<in> {CHR ''a'', CHR ''b'', CHR ''c''}"
  shows "str_lower (replicate n c) = replicate n c" "validate_hex32 (replicate 64 c)" "validate_sig_hex (replicate 128 c)"
proof -
  have c: "is_hex_digit c" "\<not> is_ascii_space c" "lower_char c = c"
    using assms by (auto simp: is_hex_digit_def is_ascii_space_def is_decimal_def code_def lower_char_def is_upper_def)
  have "fromhex_ok (replicate (2 * n) c)" for n by (induction n) (simp_all add: c)
  from this [of 32] this [of 64] have "fromhex_ok (replicate 64 c)" "fromhex_ok (replicate 128 c)" by simp_all
  then show "str_lower (replicate n c) = replicate n c" "validate_hex32 (replicate 64 c)" "validate_sig_hex (replicate 128 c)"
    by (simp_all add: validate_hex32_def validate_sig_hex_def HEX32_LEN_def HEX64_LEN_def is_hex_def str_lower_def c(3))
qed

end
