(* ===== verification/Identity.thy ===== *)
theory Identity
  imports Roles Nostr
begin

text \<open>
  Who a public key is: \<open>auth/identity.py\<close> (\<open>identity.toml\<close> records, the static and the live store),
  \<open>auth/groups.py\<close> (roles from system groups), \<open>auth/owner.py\<close> (the one owner) and the key parsing
  of \<open>auth/npub.py\<close>. The content of \<open>identity.toml\<close> at the time of a call is an argument: a live
  store reads it again on every lookup.
\<close>

record identity_record =
  id_pubkey :: string
  id_name :: json
  id_roles :: "string list"
  id_scopes :: "scope set"
  id_expires :: "py_datetime option"
  id_armada_key_path :: "string option"

definition is_expired :: "real \<Rightarrow> identity_record \<Rightarrow> exn + bool" where
  "is_expired now r = (case id_expires r of
      None \<Rightarrow> Inr False
    | Some (Aware t) \<Rightarrow> Inr (now \<ge> t)
    | Some (Naive _) \<Rightarrow> Inl (Exn TypeError ''cannot compare offset-naive and offset-aware datetimes''))"

subsection \<open>Keys\<close>

definition npub_to_hex :: "libs \<Rightarrow> string \<Rightarrow> exn + string" where
  "npub_to_hex L npub =
     (if \<not> starts_with npub ''npub1'' then Inl (Exn Bech32Error (''not a valid npub: '' @ py_repr npub))
      else (case npub_decode L npub of
          None \<Rightarrow> Inl (Exn Bech32Error (''not a valid npub: '' @ py_repr npub))
        | Some hex \<Rightarrow> Inr hex))"

definition is_lower_hex :: "char \<Rightarrow> bool" where
  "is_lower_hex c = (is_decimal c \<or> (97 \<le> code c \<and> code c \<le> 102))"

definition is_pubkey_hex :: "string \<Rightarrow> bool" where
  "is_pubkey_hex s = (length s = 64 \<and> list_all is_lower_hex s)"

definition resolve_key_to_hex :: "libs \<Rightarrow> string \<Rightarrow> exn + string" where
  "resolve_key_to_hex L raw_key =
     (if starts_with raw_key ''nsec1''
      then Inl (Exn IdentityConfigError (''identity.toml key looks like an nsec (private key), not an npub/hex pubkey - '' @
             ''yunohost-mcp must never be given a private key''))
      else if starts_with raw_key ''npub1''
      then reraise (\<lambda>e. exn_cls e = Bech32Error) (\<lambda>e. Exn IdentityConfigError (exn_msg e)) (npub_to_hex L raw_key)
      else (let candidate = str_lower raw_key
            in if is_pubkey_hex candidate then Inr candidate
               else Inl (Exn IdentityConfigError
                 ''identity key must be an npub or 64-character hexadecimal public key'')))"

subsection \<open>\<open>identity.toml\<close>\<close>

text \<open>The roles of an entry as \<open>scopes_for_roles\<close> goes through them: names of known roles; any
  other hashable value is an unknown role, a list or a table is not hashable.\<close>

fun resolve_roles :: "(json \<Rightarrow> string) \<Rightarrow> json list \<Rightarrow> exn + string list" where
  "resolve_roles fmt [] = Inr []"
| "resolve_roles fmt (JStr role # vs) =
     (if role \<in> set known_roles then ebind (resolve_roles fmt vs) (\<lambda>roles. Inr (role # roles))
      else Inl (unknown_role_error role))"
| "resolve_roles fmt (JList _ # vs) = Inl (Exn TypeError ''unhashable type'')"
| "resolve_roles fmt (JObj _ # vs) = Inl (Exn TypeError ''unhashable type'')"
| "resolve_roles fmt (v # vs) = Inl (Exn UnknownRoleError
     (''unknown role '' @ py_repr_value fmt v @ ''; known roles: '' @
      py_repr_list [''administrator'', ''app-admin'', ''operator'', ''package-developer'', ''readonly'']))"

definition identity_error :: "string \<Rightarrow> string \<Rightarrow> string \<Rightarrow> exn" where
  "identity_error path raw_key msg =
     Exn IdentityConfigError (path @ '': identity '' @ py_repr raw_key @ '': '' @ msg)"

definition parse_expires :: "libs \<Rightarrow> json \<Rightarrow> exn + py_datetime option" where
  "parse_expires L expires_raw =
     (if \<not> truthy expires_raw then Inr None
      else (case expires_raw of
          JStr s \<Rightarrow> (case iso_datetime L s of
              Inl msg \<Rightarrow> Inl (Exn ValueError msg)
            | Inr d \<Rightarrow> Inr (Some d))
        | _ \<Rightarrow> Inl (Exn TypeError ''fromisoformat: argument must be str'')))"

definition load_record :: "libs \<Rightarrow> (json \<Rightarrow> string) \<Rightarrow> string \<Rightarrow> string \<Rightarrow> json \<Rightarrow> exn + identity_record" where
  "load_record L fmt path raw_key value =
     ebind (resolve_key_to_hex L raw_key) (\<lambda>pubkey.
       case value of
         JObj entry \<Rightarrow>
           ebind (py_tuple (dget_default entry ''roles'' (JList []))) (\<lambda>role_values.
           ebind (reraise (\<lambda>e. exn_cls e = UnknownRoleError) (\<lambda>e. identity_error path raw_key (exn_msg e))
                    (resolve_roles fmt role_values)) (\<lambda>roles.
           ebind (parse_expires L (dget entry ''expires'')) (\<lambda>expires.
             let armada = dget entry ''armada_key_path''
             in if armada \<noteq> JNull \<and> \<not> is_str armada
                then Inl (identity_error path raw_key ''armada_key_path must be a string path'')
                else Inr
                  \<lparr>id_pubkey = pubkey, id_name = dget_default entry ''name'' (JStr raw_key),
                   id_roles = roles, id_scopes = (\<Union>r \<in> set roles. role_scope_set r),
                   id_expires = expires,
                   id_armada_key_path = (case armada of JStr p \<Rightarrow> (if p \<noteq> [] then Some p else None) | _ \<Rightarrow> None)\<rparr>)))
       | _ \<Rightarrow> Inl (Exn AttributeError ''object has no attribute get''))"

type_synonym records = "(string \<times> identity_record) list"

fun load_entries :: "libs \<Rightarrow> (json \<Rightarrow> string) \<Rightarrow> string \<Rightarrow> records \<Rightarrow> dict \<Rightarrow> exn + records" where
  "load_entries L fmt path records [] = Inr records"
| "load_entries L fmt path records ((raw_key, value) # entries) =
     ebind (load_record L fmt path raw_key value) (\<lambda>r.
       load_entries L fmt path (AList.update (id_pubkey r) r records) entries)"

definition load_records :: "libs \<Rightarrow> (json \<Rightarrow> string) \<Rightarrow> string \<Rightarrow> toml_file \<Rightarrow> exn + records" where
  "load_records L fmt path file = (case file of
      TomlMissing \<Rightarrow> Inr []
    | TomlMalformed msg \<Rightarrow> Inl (Exn IdentityConfigError (path @ '': invalid TOML: '' @ msg))
    | TomlDoc data \<Rightarrow>
        (case dget_default data ''identity'' (JObj []) of
           JObj entries \<Rightarrow> load_entries L fmt path [] entries
         | _ \<Rightarrow> Inl (Exn AttributeError ''object has no attribute items'')))"

text \<open>\<open>IdentityStore\<close>: a fixed snapshot, or a path that is read again on every call.\<close>

datatype identity_store = StaticStore records | LiveStore string

definition current_records ::
  "libs \<Rightarrow> (json \<Rightarrow> string) \<Rightarrow> toml_file \<Rightarrow> identity_store \<Rightarrow> exn + records" where
  "current_records L fmt file store = (case store of
      StaticStore records \<Rightarrow> Inr records
    | LiveStore path \<Rightarrow>
        (case load_records L fmt path file of
           Inl e \<Rightarrow> if exn_cls e = IdentityConfigError then Inr [] else Inl e
         | Inr records \<Rightarrow> Inr records))"

definition identity_lookup ::
  "libs \<Rightarrow> (json \<Rightarrow> string) \<Rightarrow> toml_file \<Rightarrow> identity_store \<Rightarrow> string \<Rightarrow> exn + identity_record option" where
  "identity_lookup L fmt file store pubkey_hex =
     ebind (current_records L fmt file store) (\<lambda>records. Inr (map_of records pubkey_hex))"

definition pubkeys_with_role ::
  "libs \<Rightarrow> (json \<Rightarrow> string) \<Rightarrow> toml_file \<Rightarrow> identity_store \<Rightarrow> string \<Rightarrow> exn + string list" where
  "pubkeys_with_role L fmt file store role =
     ebind (current_records L fmt file store) (\<lambda>records.
       Inr (map fst (filter (\<lambda>p. role \<in> set (id_roles (snd p))) records)))"

subsection \<open>Roles from system groups\<close>

text \<open>The account database: \<open>pwd.getpwnam\<close> gives a primary group id, \<open>grp\<close> lists id, name, members.\<close>

record unix_accounts =
  passwd_gid :: "string \<Rightarrow> int option"
  unix_groups :: "(int \<times> string \<times> string list) list"

definition DEFAULT_GROUP_ROLES :: "(string \<times> string) list" where
  "DEFAULT_GROUP_ROLES =
     [(''yunohost-mcp-readonly'', ''readonly''),
      (''yunohost-mcp-operator'', ''operator''),
      (''yunohost-mcp-app-admin'', ''app-admin''),
      (''yunohost-mcp-package-developer'', ''package-developer''),
      (''yunohost-mcp-administrator'', ''administrator'')]"

definition groups_for_user :: "unix_accounts \<Rightarrow> string \<Rightarrow> string set" where
  "groups_for_user db username = (case passwd_gid db username of
      None \<Rightarrow> {}
    | Some gid \<Rightarrow>
        (case map_of (unix_groups db) gid of None \<Rightarrow> {} | Some (name, _) \<Rightarrow> {name}) \<union>
        set (map (\<lambda>(g, name, members). name)
          (filter (\<lambda>(g, name, members). username \<in> set members) (unix_groups db))))"

definition group_roles_init :: "(string \<times> string) list option \<Rightarrow> (string \<times> string) list" where
  "group_roles_init group_roles = (case group_roles of
      Some (p # ps) \<Rightarrow> p # ps
    | _ \<Rightarrow> DEFAULT_GROUP_ROLES)"

definition group_lookup ::
  "libs \<Rightarrow> unix_accounts \<Rightarrow> (string \<Rightarrow> exn + string option) \<Rightarrow> (string \<times> string) list \<Rightarrow> string \<Rightarrow>
     exn + identity_record option" where
  "group_lookup L db username_lookup group_roles pubkey_hex =
     (case resolve_key_to_hex L pubkey_hex of
        Inl e \<Rightarrow> if is_value_error e then Inr None else Inl e
      | Inr pubkey \<Rightarrow>
          ebind (username_lookup pubkey) (\<lambda>found.
            case found of
              None \<Rightarrow> Inr None
            | Some username \<Rightarrow>
                (let groups = groups_for_user db username;
                     roles = map snd (filter (\<lambda>p. fst p \<in> groups) group_roles)
                 in if roles = [] then Inr None
                    else ebind (scopes_for_roles roles) (\<lambda>ss.
                      Inr (Some \<lparr>id_pubkey = pubkey, id_name = JStr username, id_roles = roles,
                                 id_scopes = ss, id_expires = None, id_armada_key_path = None\<rparr>)))))"

subsection \<open>The owner\<close>

definition owner_to_hex :: "libs \<Rightarrow> string \<Rightarrow> exn + string" where
  "owner_to_hex L raw =
     (if starts_with raw ''nsec1''
      then Inl (Exn OwnerConfigError (''owner_npub looks like an nsec (private key), not an npub/hex pubkey - '' @
             ''yunohost-mcp must never be given a private key''))
      else if starts_with raw ''npub1''
      then reraise (\<lambda>e. exn_cls e = Bech32Error)
             (\<lambda>e. Exn OwnerConfigError (''owner_npub '' @ py_repr raw @ '' is not a valid npub: '' @ exn_msg e))
             (npub_to_hex L raw)
      else Inr (str_lower raw))"

text \<open>\<open>administrators\<close> is the call \<open>identity_store.pubkeys_with_role("administrator")\<close>.\<close>

definition resolve_owner_pubkey ::
  "libs \<Rightarrow> string option \<Rightarrow> (exn + string list) \<Rightarrow> exn + string option" where
  "resolve_owner_pubkey L owner_npub administrators =
     (case owner_npub of
        Some (c # cs) \<Rightarrow> ebind (owner_to_hex L (c # cs)) (\<lambda>hex. Inr (Some hex))
      | _ \<Rightarrow> ebind administrators (\<lambda>pubkeys.
               Inr (case pubkeys of [pubkey] \<Rightarrow> Some pubkey | _ \<Rightarrow> None)))"

subsection \<open>The request context\<close>

record authenticated_request =
  rq_pubkey :: string
  rq_event_id :: string
  rq_event_created_at :: int
  rq_identity :: "identity_record option"
  rq_authorization :: "string option"
  rq_method :: "string option"
  rq_url :: "string option"
  rq_body :: string
  rq_delegation :: "string option"

definition request_scopes :: "authenticated_request \<Rightarrow> scope set" where
  "request_scopes rq = (case rq_identity rq of Some r \<Rightarrow> id_scopes r | None \<Rightarrow> {})"

definition has_scope :: "authenticated_request \<Rightarrow> scope \<Rightarrow> bool" where
  "has_scope rq s = (s \<in> request_scopes rq)"

definition LOCAL_STDIO_IDENTITY :: identity_record where
  "LOCAL_STDIO_IDENTITY =
     \<lparr>id_pubkey = ''local-stdio'', id_name = JStr ''local stdio operator'', id_roles = [''administrator''],
      id_scopes = ALL_SCOPES, id_expires = None, id_armada_key_path = None\<rparr>"

definition LOCAL_STDIO_REQUEST :: authenticated_request where
  "LOCAL_STDIO_REQUEST =
     \<lparr>rq_pubkey = id_pubkey LOCAL_STDIO_IDENTITY, rq_event_id = [], rq_event_created_at = 0,
      rq_identity = Some LOCAL_STDIO_IDENTITY, rq_authorization = None, rq_method = None,
      rq_url = None, rq_body = [], rq_delegation = None\<rparr>"

definition require_current_request :: "authenticated_request option \<Rightarrow> exn + authenticated_request" where
  "require_current_request current = (case current of
      None \<Rightarrow> Inl (Exn RuntimeError ''no authenticated request in this context'')
    | Some rq \<Rightarrow> Inr rq)"

subsection \<open>Lemmas\<close>

lemma resolve_roles_Inr: "resolve_roles fmt vs = Inr roles \<Longrightarrow> vs = map JStr roles \<and> set roles \<subseteq> set known_roles"
proof (induction fmt vs arbitrary: roles rule: resolve_roles.induct)
  case (2 fmt role vs)
  then show ?case by (auto split: if_splits)
qed auto

lemma resolve_key_value_error: "resolve_key_to_hex L k = Inl e \<Longrightarrow> exn_cls e = IdentityConfigError"
  by (auto simp: resolve_key_to_hex_def npub_to_hex_def reraise_Inl Let_def split: if_splits option.splits)

lemma resolve_key_nsec: "starts_with k ''nsec1'' \<Longrightarrow> resolve_key_to_hex L k \<noteq> Inr pk"
  by (simp add: resolve_key_to_hex_def)

lemma resolve_key_form:
  "resolve_key_to_hex L k = Inr pk \<Longrightarrow>
     \<not> starts_with k ''nsec1'' \<and> (starts_with k ''npub1'' \<and> npub_decode L k = Some pk \<or> pk = str_lower k \<and> is_pubkey_hex pk)"
  by (auto simp: resolve_key_to_hex_def npub_to_hex_def Let_def split: if_splits sum.splits option.splits)

text \<open>What a loaded record is.\<close>

definition record_of :: "libs \<Rightarrow> string \<Rightarrow> dict \<Rightarrow> identity_record \<Rightarrow> bool" where
  "record_of L raw_key entry r \<longleftrightarrow>
     resolve_key_to_hex L raw_key = Inr (id_pubkey r) \<and>
     set (id_roles r) \<subseteq> set known_roles \<and> scopes_for_roles (id_roles r) = Inr (id_scopes r) \<and>
     py_tuple (dget_default entry ''roles'' (JList [])) = Inr (map JStr (id_roles r)) \<and>
     parse_expires L (dget entry ''expires'') = Inr (id_expires r)"

lemma load_record_Inr:
  assumes "load_record L fmt path raw_key v = Inr r"
  shows "\<exists>entry. v = JObj entry \<and> record_of L raw_key entry r"
proof -
  obtain entry where v: "v = JObj entry" using assms by (cases v) (auto simp: load_record_def)
  obtain pk vs roles ex where parts: "resolve_key_to_hex L raw_key = Inr pk"
      "py_tuple (dget_default entry ''roles'' (JList [])) = Inr vs" "resolve_roles fmt vs = Inr roles"
      "parse_expires L (dget entry ''expires'') = Inr ex"
      "id_pubkey r = pk" "id_roles r = roles" "id_expires r = ex"
      "id_scopes r = (\<Union>r \<in> set roles. role_scope_set r)"
    using assms v
    by (auto simp: load_record_def Let_def split: if_splits)
  then show ?thesis
    using v resolve_roles_Inr [OF parts(3)] by (auto simp: record_of_def scopes_for_roles_Inr)
qed

lemma load_entries_Inr:
  "load_entries L fmt path records entries = Inr records' \<Longrightarrow> map_of records' pk = Some r \<Longrightarrow>
     map_of records pk = Some r \<or>
     (\<exists>raw_key entry. (raw_key, JObj entry) \<in> set entries \<and> id_pubkey r = pk \<and> record_of L raw_key entry r)"
proof (induction entries arbitrary: records)
  case (Cons p entries)
  obtain raw_key v where p: "p = (raw_key, v)" by (cases p)
  then obtain q where q: "load_record L fmt path raw_key v = Inr q"
      "load_entries L fmt path (AList.update (id_pubkey q) q records) entries = Inr records'"
    using Cons.prems(1) by auto
  from Cons.IH [OF q(2) Cons.prems(2)] load_record_Inr [OF q(1)] show ?case
    by (auto simp: p split: if_splits)
qed auto

lemma load_records_Inr:
  assumes "load_records L fmt path file = Inr records" "map_of records pk = Some r"
  shows "\<exists>data entries raw_key entry. file = TomlDoc data \<and>
    dget_default data ''identity'' (JObj []) = JObj entries \<and> (raw_key, JObj entry) \<in> set entries \<and>
    id_pubkey r = pk \<and> record_of L raw_key entry r"
  using assms
  by (auto simp: load_records_def split: toml_file.splits json.splits dest!: load_entries_Inr)

lemma load_entries_bad:
  "(raw_key, v) \<in> set entries \<Longrightarrow> (\<And>r. load_record L fmt path raw_key v \<noteq> Inr r) \<Longrightarrow>
     load_entries L fmt path records entries \<noteq> Inr records'"
proof (induction entries arbitrary: records)
  case (Cons p entries)
  then show ?case by (cases p) auto
qed simp

subsection \<open>The interface of an identity backend\<close>

text \<open>The middleware only calls \<open>lookup\<close>. A backend promises that the scopes of a record are those of
  its roles.\<close>

locale identity_backend =
  fixes lookup :: "string \<Rightarrow> exn + identity_record option"
  assumes scopes_of_roles: "lookup pk = Inr (Some r) \<Longrightarrow> scopes_for_roles (id_roles r) = Inr (id_scopes r)"
begin

lemma scope_needs_role:
  "lookup pk = Inr (Some r) \<Longrightarrow> s \<in> id_scopes r \<Longrightarrow>
     \<exists>role \<in> set (id_roles r). role \<in> set known_roles \<and> s \<in> role_scope_set role"
  using scopes_of_roles [of pk r] by (auto simp: scopes_for_roles_Inr)

lemma no_roles_no_scopes: "lookup pk = Inr (Some r) \<Longrightarrow> id_roles r = [] \<Longrightarrow> id_scopes r = {}"
  using scopes_of_roles [of pk r] by (simp add: scopes_for_roles_Inr)

end

interpretation toml_backend: identity_backend "identity_lookup L fmt toml (LiveStore path)"
  for L fmt toml path
  by unfold_locales
     (auto simp: identity_lookup_def current_records_def record_of_def
      split: sum.splits if_splits dest!: load_records_Inr)

interpretation group_backend: identity_backend "group_lookup L db username_lookup group_roles"
  for L db username_lookup group_roles
  by unfold_locales
     (auto simp: group_lookup_def Let_def split: sum.splits if_splits option.splits)

subsection \<open>Properties\<close>

lemma live_lookup:
  "identity_lookup L fmt file (LiveStore path) pk =
     (case load_records L fmt path file of
        Inl e \<Rightarrow> (if exn_cls e = IdentityConfigError then Inr None else Inl e)
      | Inr records \<Rightarrow> Inr (map_of records pk))"
  by (simp add: identity_lookup_def current_records_def split: sum.split)

text \<open>
  C32: access comes from an entry of \<open>identity.toml\<close> and from nothing else. If the live store knows
  a public key, the file read by this very call parses and has an entry whose key, which is no
  private key, is this public key (as an npub or as 64 hexadecimal digits); all its roles are known
  and the scopes are exactly the union of their scopes.
\<close>

theorem identity_lookup_sound:
  assumes "identity_lookup L fmt file (LiveStore path) pk = Inr (Some r)"
  shows "\<exists>data entries raw_key entry. file = TomlDoc data \<and>
    dget_default data ''identity'' (JObj []) = JObj entries \<and> (raw_key, JObj entry) \<in> set entries \<and>
    \<not> starts_with raw_key ''nsec1'' \<and> id_pubkey r = pk \<and>
    (starts_with raw_key ''npub1'' \<and> npub_decode L raw_key = Some pk \<or> pk = str_lower raw_key \<and> is_pubkey_hex pk) \<and>
    py_tuple (dget_default entry ''roles'' (JList [])) = Inr (map JStr (id_roles r)) \<and>
    set (id_roles r) \<subseteq> set known_roles \<and> id_scopes r = (\<Union>role \<in> set (id_roles r). role_scope_set role)"
proof -
  obtain records where "load_records L fmt path file = Inr records" "map_of records pk = Some r"
    using assms by (auto simp: live_lookup split: sum.splits if_splits)
  from load_records_Inr [OF this] obtain data entries raw_key entry where
    e: "file = TomlDoc data" "dget_default data ''identity'' (JObj []) = JObj entries"
      "(raw_key, JObj entry) \<in> set entries" "id_pubkey r = pk" "record_of L raw_key entry r" by blast
  then show ?thesis
    using resolve_key_form [of L raw_key pk] by (force simp: record_of_def scopes_for_roles_Inr)
qed

definition example_key :: string where
  "example_key = replicate 64 CHR ''a''"

definition example_identities :: "string \<Rightarrow> toml_file" where
  "example_identities role = TomlDoc
     [(''identity'', JObj [(example_key, JObj [(''name'', JStr ''alice''), (''roles'', JList [JStr role])])])]"

lemma example_key_resolves: "resolve_key_to_hex L example_key = Inr example_key"
proof -
  have "\<not> starts_with example_key ''nsec1''" "\<not> starts_with example_key ''npub1''"
    by (simp_all add: starts_with_def example_key_def eval_nat_numeral)
  moreover have "str_lower example_key = example_key"
    by (simp add: example_key_def str_lower_def lower_char_def is_upper_def code_def)
  moreover have "is_pubkey_hex example_key"
    by (simp add: example_key_def is_pubkey_hex_def list_all_iff is_lower_hex_def code_def)
  ultimately show ?thesis
    by (simp add: resolve_key_to_hex_def Let_def)
qed

lemma example_lookup:
  "role \<in> set known_roles \<Longrightarrow>
   identity_lookup L fmt (example_identities role) (LiveStore path) example_key =
     Inr (Some \<lparr>id_pubkey = example_key, id_name = JStr ''alice'', id_roles = [role],
                id_scopes = role_scope_set role, id_expires = None, id_armada_key_path = None\<rparr>)"
  by (simp add: live_lookup example_identities_def load_records_def load_record_def example_key_resolves
      parse_expires_def)

theorem identity_lookup_sound_witness:
  "id_scopes (the (projr (identity_lookup example_libs (\<lambda>_. []) (example_identities ''operator'')
     (LiveStore ''identity.toml'') example_key))) = ROLE_OPERATOR"
proof -
  have known: "''operator'' \<in> set known_roles" by (simp add: known_roles_def ROLE_SCOPES_def)
  from identity_lookup_sound [OF example_lookup [OF known]] show ?thesis
    unfolding example_lookup [OF known]
    by (simp add: role_scope_set_def ROLE_SCOPES_def)
qed

lemma load_record_nsec: "starts_with raw_key ''nsec1'' \<Longrightarrow> load_record L fmt path raw_key v \<noteq> Inr r"
  by (simp add: load_record_def resolve_key_to_hex_def)

text \<open>
  Deny by default. The live store knows nobody while \<open>identity.toml\<close> is missing, is not valid
  TOML, or holds an entry the loader rejects with its own error - a private key, a key that is no
  public key, an unknown role; the next valid file takes effect at the next call.
\<close>

theorem identity_lookup_denies:
  "identity_lookup L fmt TomlMissing (LiveStore path) pk = Inr None \<and>
   identity_lookup L fmt (TomlMalformed msg) (LiveStore path) pk = Inr None \<and>
   (load_records L fmt path file = Inl (Exn IdentityConfigError why) \<longrightarrow>
      identity_lookup L fmt file (LiveStore path) pk = Inr None) \<and>
   ((raw_key, v) \<in> set entries \<and> starts_with raw_key ''nsec1'' \<longrightarrow>
      (\<forall>r. identity_lookup L fmt (TomlDoc [(''identity'', JObj entries)]) (LiveStore path) pk \<noteq> Inr (Some r)))"
proof -
  have "load_entries L fmt path [] entries \<noteq> Inr records"
    if "(raw_key, v) \<in> set entries" "starts_with raw_key ''nsec1''" for records
    by (rule load_entries_bad [OF that(1) load_record_nsec [OF that(2)]])
  then have load: "\<exists>e. load_records L fmt path (TomlDoc [(''identity'', JObj entries)]) = Inl e"
    if "(raw_key, v) \<in> set entries" "starts_with raw_key ''nsec1''"
    using that by (cases "load_entries L fmt path [] entries") (auto simp: load_records_def)
  have nsec: "identity_lookup L fmt (TomlDoc [(''identity'', JObj entries)]) (LiveStore path) pk \<noteq> Inr (Some r)"
    if "(raw_key, v) \<in> set entries" "starts_with raw_key ''nsec1''" for r
    using load [OF that] by (auto simp: live_lookup split: if_splits)
  have "identity_lookup L fmt TomlMissing (LiveStore path) pk = Inr None"
    "identity_lookup L fmt (TomlMalformed msg) (LiveStore path) pk = Inr None"
    "load_records L fmt path file = Inl (Exn IdentityConfigError why) \<Longrightarrow>
      identity_lookup L fmt file (LiveStore path) pk = Inr None"
    by (simp_all add: live_lookup load_records_def)
  with nsec show ?thesis by blast
qed

theorem identity_lookup_denies_witness:
  "\<forall>r. identity_lookup example_libs (\<lambda>_. []) (TomlDoc [(''identity'', JObj [(''nsec1abc'', JObj [])])])
     (LiveStore ''identity.toml'') ''p'' \<noteq> Inr (Some r)"
  using identity_lookup_denies [of example_libs "\<lambda>_. []" "''identity.toml''" "''p''" "[]" TomlMissing "[]"
      "''nsec1abc''" "JObj []" "[(''nsec1abc'', JObj [])]"]
  by (simp add: starts_with_def)

text \<open>
  One malformed date locks everybody out with a crash: the error of
  \<open>datetime.fromisoformat\<close> on an \<open>expires\<close> value is no \<open>IdentityConfigError\<close>, so it leaves the live
  store's handler and every lookup of every key raises it; and an \<open>expires\<close> without a time zone is
  accepted by the loader and then raises \<open>TypeError\<close> at every comparison with the clock.
\<close>

theorem bad_expiry_escapes:
  assumes "resolve_key_to_hex L raw_key = Inr pk" "iso_datetime L bad = Inl msg" "bad \<noteq> []"
    and "iso_datetime L naive = Inr (Naive w)" "naive \<noteq> []"
  shows "identity_lookup L fmt (TomlDoc [(''identity'', JObj [(raw_key, JObj [(''expires'', JStr bad)])])])
      (LiveStore path) anybody = Inl (Exn ValueError msg) \<and>
    (\<exists>r. identity_lookup L fmt (TomlDoc [(''identity'', JObj [(raw_key, JObj [(''expires'', JStr naive)])])])
        (LiveStore path) pk = Inr (Some r) \<and>
      is_expired now r = Inl (Exn TypeError ''cannot compare offset-naive and offset-aware datetimes''))"
  using assms by (auto simp: live_lookup load_records_def load_record_def parse_expires_def is_expired_def Let_def)

theorem bad_expiry_escapes_witness:
  "identity_lookup (example_libs\<lparr>iso_datetime := (\<lambda>s. if s = ''soon'' then Inl ''Invalid isoformat string'' else Inr (Naive 0))\<rparr>)
     (\<lambda>_. []) (TomlDoc [(''identity'', JObj [(example_key, JObj [(''expires'', JStr ''soon'')])])])
     (LiveStore ''identity.toml'') ''someone else'' = Inl (Exn ValueError ''Invalid isoformat string'')"
  using bad_expiry_escapes [OF example_key_resolves,
      of "example_libs\<lparr>iso_datetime := (\<lambda>s. if s = ''soon'' then Inl ''Invalid isoformat string'' else Inr (Naive 0))\<rparr>"
         "''soon''" "''Invalid isoformat string''" "''2026-01-01''" 0 "\<lambda>_. []" "''identity.toml''" "''someone else''"]
  by simp

text \<open>
  With the group backend, a key gets exactly the roles of the system groups its linked account
  belongs to, as primary group or as listed member, and no record without one; the scopes are those
  of these roles, and text that is no key resolves to nobody.
\<close>

theorem group_lookup_exact:
  "group_lookup L db username_lookup DEFAULT_GROUP_ROLES pubkey_hex = Inr (Some r) \<longleftrightarrow>
     (\<exists>username. resolve_key_to_hex L pubkey_hex = Inr (id_pubkey r) \<and>
        username_lookup (id_pubkey r) = Inr (Some username) \<and>
        id_roles r = map snd (filter (\<lambda>p. fst p \<in> groups_for_user db username) DEFAULT_GROUP_ROLES) \<and>
        id_roles r \<noteq> [] \<and> id_scopes r = (\<Union>role \<in> set (id_roles r). role_scope_set role) \<and>
        id_name r = JStr username \<and> id_expires r = None \<and> id_armada_key_path r = None)"
proof -
  have known: "set (map snd (filter P DEFAULT_GROUP_ROLES)) \<subseteq> set known_roles" for P
    by (auto simp: DEFAULT_GROUP_ROLES_def known_roles_def ROLE_SCOPES_def)
  have scopes: "scopes_for_roles (map snd (filter P DEFAULT_GROUP_ROLES)) = Inr s \<longleftrightarrow>
      s = (\<Union>role \<in> set (map snd (filter P DEFAULT_GROUP_ROLES)). role_scope_set role)" for P s
    using known unfolding scopes_for_roles_Inr by blast
  show ?thesis
    by (cases r) (auto simp: group_lookup_def Let_def scopes simp del: set_map split: sum.splits option.splits)
qed

text \<open>
  There is at most one owner. Without an explicit setting it is the sole administrator of the
  identity store, none or several mean no owner; a private key is never accepted as one. An explicit
  value that is neither an npub nor an nsec is lower-cased and taken as it is, valid key or not.
\<close>

theorem owner_resolution:
  "(resolve_owner_pubkey L None (Inr administrators) = Inr (Some pk) \<longleftrightarrow> administrators = [pk]) \<and>
   (length administrators \<noteq> 1 \<longrightarrow> resolve_owner_pubkey L None (Inr administrators) = Inr None) \<and>
   (starts_with raw ''nsec1'' \<longrightarrow> (\<forall>o_pk. resolve_owner_pubkey L (Some raw) admins \<noteq> Inr o_pk)) \<and>
   (raw \<noteq> [] \<and> \<not> starts_with raw ''nsec1'' \<and> \<not> starts_with raw ''npub1'' \<longrightarrow>
      resolve_owner_pubkey L (Some raw) admins = Inr (Some (str_lower raw)))"
  by (cases raw)
     (auto simp: resolve_owner_pubkey_def owner_to_hex_def starts_with_def split: list.splits)

theorem owner_resolution_witness:
  "resolve_owner_pubkey example_libs (Some ''bob'') (Inr []) = Inr (Some ''bob'') \<and>
   resolve_owner_pubkey example_libs None (Inr [''a'', ''b'']) = Inr None"
  using owner_resolution [of example_libs "[''a'', ''b'']" "''bob''" "''bob''" "Inr []"]
  by (simp add: starts_with_def str_lower_def lower_char_def is_upper_def code_def)

end
