(* ===== verification/Protocol.thy ===== *)
theory Protocol
  imports Identity
begin

text \<open>
  \<open>broker/protocol.py\<close> and \<open>broker/client.py\<close>: the request of the unprivileged frontend, its wire form
  (one line of JSON), the checks of the helper when it decodes a line, the checks of the client on
  the answer. A byte string is a list of 8-bit characters; text is encoded as UTF-8.
\<close>

definition PROTOCOL_VERSION :: int where "PROTOCOL_VERSION = 1"
definition MAX_MESSAGE_BYTES :: nat where "MAX_MESSAGE_BYTES = 1048576"

definition protocol_error :: "string \<Rightarrow> exn" where
  "protocol_error msg = Exn BrokerProtocolError msg"

record broker_request =
  br_request_id :: string
  br_operation :: string
  br_arguments :: dict
  br_authorization :: "string option"
  br_method :: "string option"
  br_url :: "string option"
  br_body_sha256 :: "string option"
  br_body_b64 :: "string option"
  br_delegation :: "string option"

subsection \<open>Wire form\<close>

definition json_optional :: "string option \<Rightarrow> json" where
  "json_optional s = (case s of None \<Rightarrow> JNull | Some t \<Rightarrow> JStr t)"

definition request_to_dict :: "broker_request \<Rightarrow> dict" where
  "request_to_dict r =
     [(''protocol'', JInt PROTOCOL_VERSION), (''request_id'', JStr (br_request_id r)),
      (''operation'', JStr (br_operation r)), (''arguments'', JObj (br_arguments r)),
      (''auth'', JObj
        [(''authorization'', json_optional (br_authorization r)), (''method'', json_optional (br_method r)),
         (''url'', json_optional (br_url r)), (''body_sha256'', json_optional (br_body_sha256 r)),
         (''body_b64'', json_optional (br_body_b64 r)), (''delegation'', json_optional (br_delegation r))])]"

definition line_feed :: char where "line_feed = char_of (10 :: nat)"

definition request_encode :: "libs \<Rightarrow> broker_request \<Rightarrow> exn + string" where
  "request_encode L r =
     (let raw = utf8_encode (json_text (float_text L) compact_format (JObj (request_to_dict r)))
      in if length raw > MAX_MESSAGE_BYTES
         then Inl (protocol_error ''broker request exceeds message limit'')
         else Inr (raw @ [line_feed]))"

subsection \<open>Decoding a request\<close>

definition optional_string :: "dict \<Rightarrow> string \<Rightarrow> exn + string option" where
  "optional_string d key = (case dget d key of
      JNull \<Rightarrow> Inr None
    | JStr s \<Rightarrow> Inr (Some s)
    | _ \<Rightarrow> Inl (protocol_error (''auth.'' @ key @ '' must be a string'')))"

definition only_keys :: "dict \<Rightarrow> string list \<Rightarrow> bool" where
  "only_keys d allowed = list_all (\<lambda>k. k \<in> set allowed) (dkeys d)"

fun short_id :: "json \<Rightarrow> bool" where
  "short_id (JStr s) = (s \<noteq> [] \<and> length s \<le> 128)"
| "short_id _ = False"

fun json_str :: "json \<Rightarrow> string" where
  "json_str (JStr s) = s"
| "json_str _ = []"

fun json_dict :: "json \<Rightarrow> dict" where
  "json_dict (JObj d) = d"
| "json_dict _ = []"

definition auth_of_dict :: "string \<Rightarrow> string \<Rightarrow> dict \<Rightarrow> dict \<Rightarrow> exn + broker_request" where
  "auth_of_dict request_id operation arguments auth =
     ebind (optional_string auth ''authorization'') (\<lambda>authorization.
     ebind (optional_string auth ''method'') (\<lambda>meth.
     ebind (optional_string auth ''url'') (\<lambda>url.
     ebind (optional_string auth ''body_sha256'') (\<lambda>body_sha256.
     ebind (optional_string auth ''body_b64'') (\<lambda>body_b64.
     ebind (optional_string auth ''delegation'') (\<lambda>delegation.
       Inr \<lparr>br_request_id = request_id, br_operation = operation, br_arguments = arguments,
            br_authorization = authorization, br_method = meth, br_url = url,
            br_body_sha256 = body_sha256, br_body_b64 = body_b64, br_delegation = delegation\<rparr>))))))"

definition request_from_dict :: "json \<Rightarrow> exn + broker_request" where
  "request_from_dict v =
     (let d = json_dict v; request_id = dget d ''request_id''; operation = dget d ''operation'';
          arguments = dget_default d ''arguments'' (JObj []);
          auth = (if truthy (dget d ''auth'') then dget d ''auth'' else JObj [])
      in ebind (guard (is_dict v \<and> eq_int (dget d ''protocol'') PROTOCOL_VERSION)
           (protocol_error ''unsupported or missing broker protocol version'')) (\<lambda>_.
         ebind (guard (only_keys d [''protocol'', ''request_id'', ''operation'', ''arguments'', ''auth''])
           (protocol_error ''unknown broker request field'')) (\<lambda>_.
         ebind (guard (short_id request_id) (protocol_error ''invalid request_id'')) (\<lambda>_.
         ebind (guard (short_id operation) (protocol_error ''invalid operation'')) (\<lambda>_.
         ebind (guard (is_dict arguments) (protocol_error ''arguments must be an object'')) (\<lambda>_.
         ebind (guard (is_dict auth) (protocol_error ''auth must be an object'')) (\<lambda>_.
         ebind (guard (only_keys (json_dict auth)
             [''authorization'', ''method'', ''url'', ''body_sha256'', ''body_b64'', ''delegation''])
           (protocol_error ''unknown auth field'')) (\<lambda>_.
         auth_of_dict (json_str request_id) (json_str operation) (json_dict arguments) (json_dict auth)))))))))"

definition decode_request :: "libs \<Rightarrow> string \<Rightarrow> exn + broker_request" where
  "decode_request L line =
     (if length line > MAX_MESSAGE_BYTES then Inl (protocol_error ''broker request exceeds message limit'')
      else (case json_loads_bytes L line of
          Inl exc \<Rightarrow> Inl (protocol_error ''invalid broker JSON'')
        | Inr v \<Rightarrow> request_from_dict v))"

definition decode_original_body :: "libs \<Rightarrow> broker_request \<Rightarrow> exn + string" where
  "decode_original_body L r =
     ebind (case br_body_b64 r of
         None \<Rightarrow> Inr []
       | Some b64 \<Rightarrow> (case b64decode L b64 of
             Inl exc \<Rightarrow> Inl (protocol_error ''auth.body_b64 is not valid base64'')
           | Inr body \<Rightarrow> Inr body)) (\<lambda>body.
       if br_body_sha256 r \<noteq> None \<and> br_body_sha256 r \<noteq> Some (sha256_bytes L body)
       then Inl (protocol_error ''auth.body_sha256 does not match auth.body_b64'') else Inr body)"

text \<open>The line a stream holds: up to and including the first line feed, at most so many bytes.\<close>

definition readline :: "nat \<Rightarrow> string \<Rightarrow> string" where
  "readline n bytes =
     take n (takeWhile (\<lambda>c. c \<noteq> line_feed) bytes @ take 1 (dropWhile (\<lambda>c. c \<noteq> line_feed) bytes))"

definition rstrip_line :: "string \<Rightarrow> string" where
  "rstrip_line s = rev (dropWhile (\<lambda>c. c = line_feed) (rev s))"

definition receive_request :: "libs \<Rightarrow> string \<Rightarrow> exn + broker_request" where
  "receive_request L bytes = decode_request L (rstrip_line (readline 1048577 bytes))"

subsection \<open>Responses\<close>

definition response_dict :: "string \<Rightarrow> exn + json \<Rightarrow> dict" where
  "response_dict request_id result =
     [(''protocol'', JInt PROTOCOL_VERSION), (''request_id'', JStr request_id)] @
     (case result of
        Inr v \<Rightarrow> [(''ok'', JBool True), (''result'', v)]
      | Inl e \<Rightarrow> [(''ok'', JBool False),
          (''error'', JStr (if exn_msg e = [] then ''broker operation failed'' else exn_msg e))])"

definition encode_response :: "libs \<Rightarrow> string \<Rightarrow> exn + json \<Rightarrow> exn + string" where
  "encode_response L request_id result =
     (let raw = utf8_encode (json_text (float_text L) compact_format (JObj (response_dict request_id result)))
      in if length raw > MAX_MESSAGE_BYTES
         then Inl (protocol_error ''broker response exceeds message limit'')
         else Inr (raw @ [line_feed]))"

subsection \<open>The client\<close>

definition client_error :: "string \<Rightarrow> exn" where
  "client_error msg = Exn YunohostUnavailableError msg"

text \<open>\<open>base64.b64encode\<close> is a parameter: the standard library's, as its inverse is.\<close>

definition client_request ::
  "libs \<Rightarrow> (string \<Rightarrow> string) \<Rightarrow> authenticated_request option \<Rightarrow> string \<Rightarrow> string \<Rightarrow> dict \<Rightarrow> exn + broker_request" where
  "client_request L b64encode current request_id operation arguments =
     ebind (require_current_request current) (\<lambda>rq.
       if rq_authorization rq \<in> {None, Some []} \<or> rq_method rq \<in> {None, Some []} \<or> rq_url rq \<in> {None, Some []}
       then Inl (client_error ''broker calls require an authenticated HTTP request'')
       else Inr \<lparr>br_request_id = request_id, br_operation = operation, br_arguments = arguments,
                 br_authorization = rq_authorization rq, br_method = rq_method rq, br_url = rq_url rq,
                 br_body_sha256 = Some (sha256_bytes L (rq_body rq)),
                 br_body_b64 = Some (b64encode (rq_body rq)), br_delegation = rq_delegation rq\<rparr>)"

text \<open>What \<open>recv\<close> returns, in order; an empty chunk, or the end of the list, is the end of the stream.\<close>

fun read_line :: "string \<Rightarrow> string list \<Rightarrow> exn + string" where
  "read_line bytes [] = Inr (rstrip_line bytes)"
| "read_line bytes (chunk # chunks) =
     (if bytes \<noteq> [] \<and> last bytes = line_feed then Inr (rstrip_line bytes)
      else if chunk = [] then Inr (rstrip_line bytes)
      else if length (bytes @ chunk) > 1048576
      then Inl (protocol_error ''broker response exceeds message limit'')
      else read_line (bytes @ chunk) chunks)"

definition check_response :: "(json \<Rightarrow> string) \<Rightarrow> string \<Rightarrow> json \<Rightarrow> exn + dict" where
  "check_response fmt request_id v = (case v of
      JObj d \<Rightarrow>
        (if \<not> eq_int (dget d ''protocol'') 1 \<or> dget d ''request_id'' \<noteq> JStr request_id
         then Inl (client_error ''broker response protocol or request_id mismatch'')
         else if \<not> truthy (dget d ''ok'')
         then Inl (client_error (py_str fmt (dget_default d ''error'' (JStr ''broker operation failed''))))
         else (case dget d ''result'' of
             JObj result \<Rightarrow> Inr result
           | _ \<Rightarrow> Inl (client_error ''broker result must be an object'')))
    | _ \<Rightarrow> Inl (Exn AttributeError ''object has no attribute get''))"

definition client_receive :: "libs \<Rightarrow> (json \<Rightarrow> string) \<Rightarrow> string \<Rightarrow> string list \<Rightarrow> exn + dict" where
  "client_receive L fmt request_id chunks =
     ebind (read_line [] chunks) (\<lambda>raw.
       case json_loads_bytes L raw of
         Inl exc \<Rightarrow> Inl (client_error ''broker returned invalid JSON'')
       | Inr v \<Rightarrow> check_response fmt request_id v)"

subsection \<open>Framing\<close>

text \<open>A message is one line: the text of a value holds no byte below the space, and its UTF-8 form neither.\<close>

definition no_control :: "string \<Rightarrow> bool" where
  "no_control s \<longleftrightarrow> list_all (\<lambda>c. 32 \<le> code c) s"

lemma no_control_simps [simp]:
  "no_control []" "no_control (c # s) \<longleftrightarrow> 32 \<le> code c \<and> no_control s" "no_control (s @ t) \<longleftrightarrow> no_control s \<and> no_control t"
  by (simp_all add: no_control_def)

lemma no_control_join: "no_control sep \<Longrightarrow> list_all no_control ss \<Longrightarrow> no_control (str_join sep ss)"
  by (induction sep ss rule: str_join.induct) auto

lemma no_control_hex: "n < 16 \<Longrightarrow> 32 \<le> code (hex_digit n)"
  by (auto simp: hex_digit_def code_char_of)

lemma no_control_escape: "no_control (json_escape ascii c)"
  by (auto simp: json_escape_def Let_def hex4_def no_control_hex [unfolded code_def] code_def)

lemma no_control_string: "no_control (json_string ascii s)"
proof -
  have "no_control (concat (map (json_escape ascii) s))"
    by (induction s) (simp_all add: no_control_escape)
  then show ?thesis by (simp add: json_string_def code_def)
qed

lemma no_control_show_nat: "no_control (show_nat n)"
proof (induction n rule: show_nat.induct)
  case (1 n)
  show ?case
    by (subst show_nat.simps) (use 1 in \<open>auto simp: code_char_of\<close>)
qed

lemma no_control_json:
  "\<forall>r. no_control (float_text L r) \<Longrightarrow> no_control (json_text (float_text L) compact_format v)"
proof (induction v)
  case (JInt i)
  then show ?case by (simp add: show_int_def no_control_show_nat code_def)
next
  case (JList vs)
  then have "no_control (str_join '','' (map (json_text (float_text L) compact_format) vs))"
    by (intro no_control_join) (auto simp: list_all_iff code_def)
  then show ?case by (simp add: compact_format_def code_def)
next
  case (JObj d)
  have "list_all no_control (map (\<lambda>p. json_string False (fst p) @ '':'' @ snd p)
      (map (map_prod id (json_text (float_text L) compact_format)) d))"
    using JObj no_control_string by (force simp: list_all_iff code_def)
  then have "no_control (str_join '','' (map (\<lambda>p. json_string False (fst p) @ '':'' @ snd p)
      (map (map_prod id (json_text (float_text L) compact_format)) d)))"
    by (intro no_control_join) (simp_all add: code_def)
  then show ?case by (simp add: compact_format_def code_def)
qed (simp_all add: compact_format_def no_control_string code_def)

lemma utf8_no_control: "no_control s \<Longrightarrow> no_control (utf8_encode s)"
proof (induction s)
  case (Cons c s)
  have "code c < 256" unfolding code_def by (cases c) (simp add: char.size)
  then have "no_control (utf8_char c)" using Cons.prems by (auto simp: utf8_char_def Let_def code_char_of)
  then show ?case using Cons by (simp add: utf8_encode_def)
qed (simp add: utf8_encode_def)

lemma no_control_line_feed: "no_control s \<Longrightarrow> line_feed \<notin> set s"
  by (induction s) (auto simp: line_feed_def code_def)

lemma rstrip_framed: "no_control raw \<Longrightarrow> rstrip_line (raw @ [line_feed]) = raw"
proof -
  assume n: "no_control raw"
  have "dropWhile (\<lambda>c. c = line_feed) (rev raw) = rev raw"
    using no_control_line_feed [OF n] by (cases "rev raw") (auto simp: rev_eq_Cons_iff)
  then show ?thesis by (simp add: rstrip_line_def)
qed

lemma readline_framed:
  assumes "no_control raw" "length raw < n"
  shows "readline n (raw @ [line_feed] @ later) = raw @ [line_feed]"
proof -
  have "takeWhile (\<lambda>c. c \<noteq> line_feed) (raw @ [line_feed] @ later) = raw"
    "dropWhile (\<lambda>c. c \<noteq> line_feed) (raw @ [line_feed] @ later) = [line_feed] @ later"
    using no_control_line_feed [OF assms(1)] by (auto simp: takeWhile_append dropWhile_append)
  then show ?thesis using assms(2) by (simp add: readline_def)
qed

subsection \<open>Decoding\<close>

lemma optional_string_Inr: "optional_string d k = Inr s \<longleftrightarrow> dget d k = json_optional s"
  by (cases s) (auto simp: optional_string_def json_optional_def split: json.splits)

lemma optional_string_Inl: "optional_string d k = Inl e \<Longrightarrow> exn_cls e = BrokerProtocolError"
  by (auto simp: optional_string_def protocol_error_def split: json.splits)

lemma short_id_iff: "short_id v \<longleftrightarrow> (\<exists>s. v = JStr s \<and> s \<noteq> [] \<and> length s \<le> 128)"
  by (cases v) auto

lemma is_dict_iff: "is_dict v \<longleftrightarrow> (\<exists>d. v = JObj d)"
  by (cases v) auto

lemma only_keys_iff: "only_keys d ks \<longleftrightarrow> set (dkeys d) \<subseteq> set ks"
  by (auto simp: only_keys_def list_all_iff)

lemma auth_of_dict_Inr:
  "auth_of_dict i opn args auth = Inr r \<longleftrightarrow>
     br_request_id r = i \<and> br_operation r = opn \<and> br_arguments r = args \<and>
     dget auth ''authorization'' = json_optional (br_authorization r) \<and> dget auth ''method'' = json_optional (br_method r) \<and>
     dget auth ''url'' = json_optional (br_url r) \<and> dget auth ''body_sha256'' = json_optional (br_body_sha256 r) \<and>
     dget auth ''body_b64'' = json_optional (br_body_b64 r) \<and> dget auth ''delegation'' = json_optional (br_delegation r)"
  by (cases r) (auto simp: auth_of_dict_def optional_string_Inr)

lemma auth_of_dict_Inl: "auth_of_dict i opn args auth = Inl e \<Longrightarrow> exn_cls e = BrokerProtocolError"
  by (auto simp: auth_of_dict_def ebind_Inl dest: optional_string_Inl)

lemma request_from_dict_Inl: "request_from_dict v = Inl e \<Longrightarrow> exn_cls e = BrokerProtocolError"
  by (auto simp: request_from_dict_def Let_def ebind_Inl protocol_error_def dest: auth_of_dict_Inl)

lemma to_from_dict:
  assumes "br_request_id r \<noteq> []" "length (br_request_id r) \<le> 128" "br_operation r \<noteq> []" "length (br_operation r) \<le> 128"
  shows "request_from_dict (JObj (request_to_dict r)) = Inr r"
proof -
  let ?auth = "[(''authorization'', json_optional (br_authorization r)), (''method'', json_optional (br_method r)),
         (''url'', json_optional (br_url r)), (''body_sha256'', json_optional (br_body_sha256 r)),
         (''body_b64'', json_optional (br_body_b64 r)), (''delegation'', json_optional (br_delegation r))]"
  have "auth_of_dict (br_request_id r) (br_operation r) (br_arguments r) ?auth = Inr r"
    by (simp add: auth_of_dict_Inr)
  then show ?thesis using assms
    by (simp add: request_from_dict_def request_to_dict_def only_keys_def dkeys_def PROTOCOL_VERSION_def)
qed

text \<open>
  The helper decodes exactly the requests of its protocol: an object with version 1 and no
  other field than the five, an id and an operation of 1 to 128 characters, an object of arguments,
  and an authentication object (or nothing, or an empty value) whose six fields are absent or
  strings. Everything else is rejected with a \<open>BrokerProtocolError\<close>, and by no other exception.
\<close>

theorem request_decoding_exact:
  "(request_from_dict v = Inr r \<longleftrightarrow>
     (\<exists>d auth. v = JObj d \<and> eq_int (dget d ''protocol'') 1 \<and>
        set (dkeys d) \<subseteq> {''protocol'', ''request_id'', ''operation'', ''arguments'', ''auth''} \<and>
        dget d ''request_id'' = JStr (br_request_id r) \<and> br_request_id r \<noteq> [] \<and> length (br_request_id r) \<le> 128 \<and>
        dget d ''operation'' = JStr (br_operation r) \<and> br_operation r \<noteq> [] \<and> length (br_operation r) \<le> 128 \<and>
        dget_default d ''arguments'' (JObj []) = JObj (br_arguments r) \<and>
        (dget d ''auth'' = JObj auth \<or> \<not> truthy (dget d ''auth'') \<and> auth = []) \<and>
        set (dkeys auth) \<subseteq> {''authorization'', ''method'', ''url'', ''body_sha256'', ''body_b64'', ''delegation''} \<and>
        dget auth ''authorization'' = json_optional (br_authorization r) \<and> dget auth ''method'' = json_optional (br_method r) \<and>
        dget auth ''url'' = json_optional (br_url r) \<and> dget auth ''body_sha256'' = json_optional (br_body_sha256 r) \<and>
        dget auth ''body_b64'' = json_optional (br_body_b64 r) \<and>
        dget auth ''delegation'' = json_optional (br_delegation r))) \<and>
   request_from_dict v \<in> range Inr \<union> Inl ` {e. exn_cls e = BrokerProtocolError}"
  (is "(_ \<longleftrightarrow> ?rhs) \<and> _")
proof (intro conjI iffI)
  assume f: "request_from_dict v = Inr r"
  then obtain d where v: "v = JObj d" by (cases v) (auto simp: request_from_dict_def)
  define auth where "auth = (if truthy (dget d ''auth'') then json_dict (dget d ''auth'') else [])"
  have "dget d ''auth'' = JObj auth \<or> \<not> truthy (dget d ''auth'') \<and> auth = []"
    using f by (auto simp: v auth_def request_from_dict_def Let_def is_dict_iff split: if_splits)
  moreover have keys: "set (dkeys auth) \<subseteq> {''authorization'', ''method'', ''url'', ''body_sha256'', ''body_b64'', ''delegation''}"
    and auth: "auth_of_dict (json_str (dget d ''request_id'')) (json_str (dget d ''operation''))
       (json_dict (dget_default d ''arguments'' (JObj []))) auth = Inr r"
    using f by (auto simp: v auth_def request_from_dict_def Let_def only_keys_iff)
  moreover have "eq_int (dget d ''protocol'') 1"
    "set (dkeys d) \<subseteq> {''protocol'', ''request_id'', ''operation'', ''arguments'', ''auth''}"
    using f by (auto simp: v request_from_dict_def Let_def only_keys_iff PROTOCOL_VERSION_def)
  moreover have "short_id (dget d ''request_id'')" "short_id (dget d ''operation'')"
    "is_dict (dget_default d ''arguments'' (JObj []))"
    using f by (auto simp: v request_from_dict_def Let_def)
  then have "dget d ''request_id'' = JStr (br_request_id r)" "br_request_id r \<noteq> []" "length (br_request_id r) \<le> 128"
    "dget d ''operation'' = JStr (br_operation r)" "br_operation r \<noteq> []" "length (br_operation r) \<le> 128"
    "dget_default d ''arguments'' (JObj []) = JObj (br_arguments r)"
    using auth unfolding short_id_iff is_dict_iff auth_of_dict_Inr by auto
  ultimately show ?rhs using v unfolding auth_of_dict_Inr by blast
next
  assume ?rhs
  then obtain d auth where r: "v = JObj d" "eq_int (dget d ''protocol'') 1"
    "set (dkeys d) \<subseteq> {''protocol'', ''request_id'', ''operation'', ''arguments'', ''auth''}"
    "dget d ''request_id'' = JStr (br_request_id r)" "br_request_id r \<noteq> []" "length (br_request_id r) \<le> 128"
    "dget d ''operation'' = JStr (br_operation r)" "br_operation r \<noteq> []" "length (br_operation r) \<le> 128"
    "dget_default d ''arguments'' (JObj []) = JObj (br_arguments r)"
    "dget d ''auth'' = JObj auth \<or> \<not> truthy (dget d ''auth'') \<and> auth = []"
    "set (dkeys auth) \<subseteq> {''authorization'', ''method'', ''url'', ''body_sha256'', ''body_b64'', ''delegation''}"
    "auth_of_dict (br_request_id r) (br_operation r) (br_arguments r) auth = Inr r"
    by (auto simp: auth_of_dict_Inr)
  have "(if truthy (dget d ''auth'') then dget d ''auth'' else JObj []) = JObj auth" using r(11) by auto
  then show "request_from_dict v = Inr r"
    using r by (simp add: request_from_dict_def Let_def only_keys_iff PROTOCOL_VERSION_def)
next
  show "request_from_dict v \<in> range Inr \<union> Inl ` {e. exn_cls e = BrokerProtocolError}"
    using request_from_dict_Inl [of v] by (cases "request_from_dict v") auto
qed

text \<open>
  A request survives the socket. What the client encodes is one line within the limit, and the
  helper, reading from the stream, finds exactly the request that was sent, whatever bytes follow
  it. The hypotheses are that \<open>json.loads\<close> reads back what \<open>json.dumps\<close> wrote for this request and
  that the text of a float holds no control character.
\<close>

theorem request_roundtrip:
  assumes "\<forall>f. no_control (float_text L f)"
    and "json_loads_bytes L (utf8_encode (json_text (float_text L) compact_format (JObj (request_to_dict r)))) =
           Inr (JObj (request_to_dict r))"
    and "br_request_id r \<noteq> []" "length (br_request_id r) \<le> 128" "br_operation r \<noteq> []" "length (br_operation r) \<le> 128"
    and "request_encode L r = Inr line"
  shows "receive_request L (line @ later) = Inr r \<and> length line \<le> 1048577 \<and> line_feed \<notin> set (butlast line)"
proof -
  define raw where "raw = utf8_encode (json_text (float_text L) compact_format (JObj (request_to_dict r)))"
  have line: "line = raw @ [line_feed]" "length raw \<le> 1048576"
    using assms(7) by (auto simp: request_encode_def raw_def Let_def MAX_MESSAGE_BYTES_def split: if_splits)
  have nc: "no_control raw" unfolding raw_def by (intro utf8_no_control no_control_json assms(1))
  have "receive_request L (line @ later) = decode_request L raw"
    using readline_framed [OF nc, of 1048577 later] line(2)
    by (simp add: receive_request_def line(1) rstrip_framed [OF nc])
  also have "\<dots> = Inr r"
    using assms(2) line(2) to_from_dict [OF assms(3-6)]
    by (simp add: decode_request_def raw_def MAX_MESSAGE_BYTES_def)
  finally show ?thesis using line no_control_line_feed [OF nc] by simp
qed

definition example_request :: broker_request where
  "example_request = \<lparr>br_request_id = ''r1'', br_operation = ''app.remove'', br_arguments = [(''app'', JStr ''wiki'')],
     br_authorization = Some ''nostr e'', br_method = Some ''POST'', br_url = Some ''https://h/mcp'',
     br_body_sha256 = None, br_body_b64 = None, br_delegation = None\<rparr>"

theorem request_roundtrip_witness:
  "\<exists>L line. request_encode L example_request = Inr line \<and> receive_request L line = Inr example_request"
proof -
  define L where "L = example_libs\<lparr>float_text := \<lambda>r. ''0'',
    json_loads_bytes := \<lambda>b. Inr (JObj (request_to_dict example_request))\<rparr>"
  have short: "length (utf8_encode (json_text (float_text L) compact_format (JObj (request_to_dict example_request)))) \<le> 1048576"
    by (simp add: L_def example_request_def request_to_dict_def json_optional_def PROTOCOL_VERSION_def compact_format_def
        json_string_def json_escape_def Let_def utf8_encode_def utf8_char_def code_def show_int_def show_nat.simps)
  then obtain line where l: "request_encode L example_request = Inr line"
    by (simp add: request_encode_def Let_def MAX_MESSAGE_BYTES_def)
  have "receive_request L (line @ []) = Inr example_request"
    using request_roundtrip [OF _ _ _ _ _ _ l, of "[]"]
    by (simp add: L_def example_request_def code_def)
  then show ?thesis using l by auto
qed

end
