(* ===== verification/Delegation.thy ===== *)
theory Delegation
  imports Identity
begin

text \<open>
  \<open>auth/revocation.py\<close> (the list of revoked delegation ids, static or live) and
  \<open>auth/delegation.py\<close> (the checks on a delegation event, and the clipping of what it grants to
  what its delegator holds). The content of \<open>revoked_delegations.toml\<close> at the time of a call is
  an argument. \<open>time.time()\<close> is truncated to seconds by the code.
\<close>

subsection \<open>Revocation\<close>

datatype revocation_store = StaticRevocations "string set" | LiveRevocations string

definition load_revoked_ids :: "string \<Rightarrow> toml_file \<Rightarrow> exn + string set" where
  "load_revoked_ids path file = (case file of
      TomlMissing \<Rightarrow> Inr {}
    | TomlMalformed msg \<Rightarrow> Inl (Exn RevocationConfigError (path @ '': invalid TOML: '' @ msg))
    | TomlDoc data \<Rightarrow>
        (case dget_default data ''revoked'' (JList []) of
           JList ids \<Rightarrow>
             if list_all is_str ids then Inr (set (concat (map (\<lambda>v. case v of JStr s \<Rightarrow> [s] | _ \<Rightarrow> []) ids)))
             else Inl (Exn RevocationConfigError (path @ '': '' @ py_repr ''revoked'' @ '' must be a list of event id strings''))
         | _ \<Rightarrow> Inl (Exn RevocationConfigError (path @ '': '' @ py_repr ''revoked'' @ '' must be a list of event id strings''))))"

definition is_revoked :: "toml_file \<Rightarrow> revocation_store \<Rightarrow> string \<Rightarrow> bool" where
  "is_revoked file store event_id = (case store of
      StaticRevocations ids \<Rightarrow> event_id \<in> ids
    | LiveRevocations path \<Rightarrow>
        (case load_revoked_ids path file of Inl _ \<Rightarrow> True | Inr ids \<Rightarrow> event_id \<in> ids))"

definition revocation_len :: "toml_file \<Rightarrow> revocation_store \<Rightarrow> nat" where
  "revocation_len file store = (case store of
      StaticRevocations ids \<Rightarrow> card ids
    | LiveRevocations path \<Rightarrow>
        (case load_revoked_ids path file of Inl _ \<Rightarrow> 0 | Inr ids \<Rightarrow> card ids))"

subsection \<open>Delegation events\<close>

definition DELEGATION_KIND :: int where "DELEGATION_KIND = 27236"
definition DEFAULT_MAX_LIFETIME_SECONDS :: int where "DEFAULT_MAX_LIFETIME_SECONDS = 30 * 24 * 3600"
definition CLOCK_SKEW_SECONDS :: int where "CLOCK_SKEW_SECONDS = 5 * 60"

record delegation_claim =
  dc_event_id :: string
  dc_delegator_pubkey :: string
  dc_delegate_pubkey :: string
  dc_requested_scopes :: "scope set"
  dc_server_pubkey :: string
  dc_expires_at :: int

definition delegation_error :: "string \<Rightarrow> exn" where
  "delegation_error msg = Exn DelegationError msg"

definition repr_tag :: "string option \<Rightarrow> string" where
  "repr_tag v = (case v of None \<Rightarrow> ''None'' | Some s \<Rightarrow> py_repr s)"

text \<open>The values of the \<open>scope\<close> tags, and the members they name.\<close>

fun tag_values :: "string \<Rightarrow> string list list \<Rightarrow> string list" where
  "tag_values name [] = []"
| "tag_values name ((n # v # rest) # tags) = (if n = name then v # tag_values name tags else tag_values name tags)"
| "tag_values name (_ # tags) = tag_values name tags"

fun parse_scopes :: "string list \<Rightarrow> exn + scope set" where
  "parse_scopes [] = Inr {}"
| "parse_scopes (v # vs) = (case scope_of_value v of
      None \<Rightarrow> Inl (delegation_error (''delegation names an unknown scope: '' @ py_repr v @ '' is not a valid Scope''))
    | Some s \<Rightarrow> ebind (parse_scopes vs) (\<lambda>ss. Inr (insert s ss)))"

definition verify_delegation_event ::
  "libs \<Rightarrow> nostr_event \<Rightarrow> string \<Rightarrow> string \<Rightarrow> (string \<Rightarrow> bool) \<Rightarrow> int \<Rightarrow> exn + delegation_claim" where
  "verify_delegation_event L event expected_delegate_pubkey server_pubkey_hex revoked now =
     ebind (guard (ev_kind event = DELEGATION_KIND)
       (delegation_error (''expected kind '' @ show_int DELEGATION_KIND @ '', got '' @ show_int (ev_kind event)))) (\<lambda>_.
     ebind (reraise (\<lambda>e. exn_cls e = NostrEventError) (\<lambda>e. delegation_error (exn_msg e)) (verify_event L event)) (\<lambda>_.
     ebind (guard (\<not> revoked (ev_id event))
       (delegation_error (''delegation '' @ ev_id event @ '' has been revoked''))) (\<lambda>_.
     ebind (guard (event_tag event ''p'' = Some expected_delegate_pubkey)
       (delegation_error (''delegation names delegate '' @ repr_tag (event_tag event ''p'') @
          '', does not match the requesting pubkey '' @ py_repr expected_delegate_pubkey))) (\<lambda>_.
     ebind (guard (event_tag event ''server'' = Some server_pubkey_hex)
       (delegation_error (''delegation targets server '' @ repr_tag (event_tag event ''server'') @
          '', not this server ('' @ py_repr server_pubkey_hex @ '')''))) (\<lambda>_.
     ebind (case event_tag event ''expiry'' of
         None \<Rightarrow> Inl (delegation_error (''delegation has no '' @ py_repr ''expiry'' @ '' tag - PLAN.md requires every delegation to expire''))
       | Some expiry_raw \<Rightarrow>
           (case parse_int expiry_raw of
              None \<Rightarrow> Inl (delegation_error (py_repr ''expiry'' @ '' tag is not a unix timestamp: '' @ py_repr expiry_raw))
            | Some n \<Rightarrow> Inr n)) (\<lambda>expires_at.
     ebind (guard (now < expires_at)
       (delegation_error (''delegation expired at '' @ show_int expires_at @ '' (now '' @ show_int now @ '')''))) (\<lambda>_.
     ebind (guard (ev_created_at event \<le> now + CLOCK_SKEW_SECONDS)
       (delegation_error ''delegation created_at is in the future'')) (\<lambda>_.
     ebind (guard (expires_at - now \<le> DEFAULT_MAX_LIFETIME_SECONDS)
       (delegation_error (''delegation lifetime ('' @ show_int (expires_at - now) @ ''s remaining) exceeds the maximum ('' @
          show_int DEFAULT_MAX_LIFETIME_SECONDS @ ''s) - issue a shorter-lived one''))) (\<lambda>_.
     ebind (guard (tag_values ''scope'' (ev_tags event) \<noteq> [])
       (delegation_error (''delegation grants no scopes ('' @ py_repr ''scope'' @ '' tags)''))) (\<lambda>_.
     ebind (parse_scopes (tag_values ''scope'' (ev_tags event))) (\<lambda>requested_scopes.
     Inr \<lparr>dc_event_id = ev_id event, dc_delegator_pubkey = ev_pubkey event,
          dc_delegate_pubkey = expected_delegate_pubkey, dc_requested_scopes = requested_scopes,
          dc_server_pubkey = server_pubkey_hex, dc_expires_at = expires_at\<rparr>)))))))))))"

text \<open>\<open>datetime.timestamp()\<close> of an expiry; a wall-clock one has raised in \<open>is_expired\<close> before.\<close>

fun datetime_seconds :: "py_datetime \<Rightarrow> real" where
  "datetime_seconds (Aware t) = t"
| "datetime_seconds (Naive w) = w"

definition resolve_delegated_identity ::
  "(json \<Rightarrow> string) \<Rightarrow> real \<Rightarrow> (string \<Rightarrow> exn + identity_record option) \<Rightarrow> delegation_claim \<Rightarrow> exn + identity_record" where
  "resolve_delegated_identity fmt now lookup claim =
     ebind (lookup (dc_delegator_pubkey claim)) (\<lambda>found.
       case found of
         None \<Rightarrow> Inl (delegation_error (''delegator '' @ py_repr (dc_delegator_pubkey claim) @ '' is not in identity.toml''))
       | Some delegator \<Rightarrow>
           ebind (is_expired now delegator) (\<lambda>expired.
           ebind (guard (\<not> expired)
             (delegation_error (''delegator '' @ py_repr (dc_delegator_pubkey claim) @ [char_of (39 :: nat)] @ ''s own identity has expired''))) (\<lambda>_.
             let effective_scopes = dc_requested_scopes claim \<inter> id_scopes delegator
             in if effective_scopes = {}
                then Inl (delegation_error (''delegator '' @ py_repr_value fmt (id_name delegator) @
                       '' does not currently hold any of the requested scopes''))
                else (let expires_at = (case id_expires delegator of
                            None \<Rightarrow> dc_expires_at claim
                          | Some d \<Rightarrow> min (dc_expires_at claim) (py_trunc (datetime_seconds d)))
                      in Inr \<lparr>id_pubkey = dc_delegate_pubkey claim,
                              id_name = JStr (py_str fmt (id_name delegator) @ '' (delegated)''),
                              id_roles = [], id_scopes = effective_scopes,
                              id_expires = Some (Aware (of_int expires_at)), id_armada_key_path = None\<rparr>))))"

subsection \<open>Lemmas\<close>

lemma parse_scopes_Inr:
  "parse_scopes vs = Inr ss \<longleftrightarrow> ss = {s. scope_value s \<in> set vs} \<and> (\<forall>v \<in> set vs. \<exists>s. scope_value s = v)"
proof (induction vs arbitrary: ss)
  case (Cons v vs)
  show ?case
  proof (cases "scope_of_value v")
    case None
    then show ?thesis by (auto simp: scope_of_value_Some [symmetric])
  next
    case (Some s)
    then have v: "v = scope_value s" by (simp add: scope_of_value_Some)
    have "insert s {t. scope_value t \<in> set vs} = {t. scope_value t \<in> set (v # vs)}"
      using scope_value_inj v by auto
    with Some Cons.IH show ?thesis by (auto simp: v)
  qed
qed auto

text \<open>What an accepted delegation event is.\<close>

definition delegation_accepted ::
  "libs \<Rightarrow> nostr_event \<Rightarrow> string \<Rightarrow> string \<Rightarrow> (string \<Rightarrow> bool) \<Rightarrow> int \<Rightarrow> delegation_claim \<Rightarrow> bool" where
  "delegation_accepted L e pk server revoked now c \<longleftrightarrow>
     ev_kind e = 27236 \<and> ev_id e = compute_event_id L e \<and> verify_signature L e = Inr True \<and>
     \<not> revoked (ev_id e) \<and> event_tag e ''p'' = Some pk \<and> event_tag e ''server'' = Some server \<and>
     (\<exists>raw. event_tag e ''expiry'' = Some raw \<and> parse_int raw = Some (dc_expires_at c)) \<and>
     now < dc_expires_at c \<and> dc_expires_at c \<le> now + 2592000 \<and> ev_created_at e \<le> now + 300 \<and>
     tag_values ''scope'' (ev_tags e) \<noteq> [] \<and> (\<forall>v \<in> set (tag_values ''scope'' (ev_tags e)). \<exists>s. scope_value s = v) \<and>
     dc_requested_scopes c = {s. scope_value s \<in> set (tag_values ''scope'' (ev_tags e))} \<and>
     dc_event_id c = ev_id e \<and> dc_delegator_pubkey c = ev_pubkey e \<and>
     dc_delegate_pubkey c = pk \<and> dc_server_pubkey c = server"

lemma verify_delegation_event_Inr:
  "verify_delegation_event L e pk server revoked now = Inr c \<longleftrightarrow> delegation_accepted L e pk server revoked now c"
  by (cases c)
     (auto simp: verify_delegation_event_def delegation_accepted_def DELEGATION_KIND_def parse_scopes_Inr
      CLOCK_SKEW_SECONDS_def DEFAULT_MAX_LIFETIME_SECONDS_def split: option.splits)

lemma verify_delegation_event_Inl:
  "verify_delegation_event L e pk server revoked now = Inl x \<Longrightarrow> exn_cls x = DelegationError"
proof -
  have scopes: "parse_scopes vs = Inl x \<Longrightarrow> exn_cls x = DelegationError" for vs
    by (induction vs) (auto simp: delegation_error_def ebind_Inl split: option.splits)
  show "verify_delegation_event L e pk server revoked now = Inl x \<Longrightarrow> exn_cls x = DelegationError"
    unfolding verify_delegation_event_def ebind_Inl
    by (auto simp: delegation_error_def reraise_Inl dest: verify_event_Inl scopes split: option.splits)
qed

lemma resolve_delegated_identity_Inr:
  "resolve_delegated_identity fmt now lookup c = Inr r \<longleftrightarrow>
     (\<exists>d. lookup (dc_delegator_pubkey c) = Inr (Some d) \<and> is_expired now d = Inr False \<and>
        dc_requested_scopes c \<inter> id_scopes d \<noteq> {} \<and>
        r = \<lparr>id_pubkey = dc_delegate_pubkey c, id_name = JStr (py_str fmt (id_name d) @ '' (delegated)''),
             id_roles = [], id_scopes = dc_requested_scopes c \<inter> id_scopes d,
             id_expires = Some (Aware (of_int (case id_expires d of None \<Rightarrow> dc_expires_at c
               | Some t \<Rightarrow> min (dc_expires_at c) (py_trunc (datetime_seconds t))))),
             id_armada_key_path = None\<rparr>)"
proof (cases "\<exists>d. lookup (dc_delegator_pubkey c) = Inr (Some d)")
  case False
  then show ?thesis
    by (cases "lookup (dc_delegator_pubkey c)") (auto simp: resolve_delegated_identity_def split: option.splits)
next
  case True
  then obtain d where d: "lookup (dc_delegator_pubkey c) = Inr (Some d)" ..
  show ?thesis
  proof (cases "is_expired now d")
    case (Inr expired)
    then show ?thesis
      using d by (cases expired) (auto simp: resolve_delegated_identity_def Let_def)
  qed (use d in \<open>simp add: resolve_delegated_identity_def\<close>)
qed

lemma is_expired_False: "is_expired now d = Inr False \<longleftrightarrow> (\<forall>x. id_expires d = Some x \<longrightarrow> (\<exists>t. x = Aware t \<and> now < t))"
  by (auto simp: is_expired_def split: option.splits py_datetime.splits)

lemma py_trunc_le: "0 \<le> t \<Longrightarrow> of_int (py_trunc t) \<le> t"
  by (simp add: py_trunc_def)

context identity_backend begin

lemma delegated_scope_held:
  assumes "resolve_delegated_identity fmt now lookup c = Inr r" "s \<in> id_scopes r"
  shows "\<exists>d role. lookup (dc_delegator_pubkey c) = Inr (Some d) \<and> is_expired now d = Inr False \<and>
    s \<in> dc_requested_scopes c \<and> role \<in> set (id_roles d) \<and> s \<in> role_scope_set role"
  using assms scope_needs_role unfolding resolve_delegated_identity_Inr by fastforce

end

subsection \<open>Properties\<close>

text \<open>
  C33: a delegation gives no more than its delegator has. If a delegation event is accepted for a
  public key and resolved, the event verifies and is signed by the delegator, is not revoked, names
  this key and this server; the delegator is itself in the identity store, unexpired; the resulting
  identity belongs to the presenting key, has no roles, and its scopes are those both named by the
  event and held by the delegator now, at least one; and it expires no later than the event says,
  than thirty days from now, and than the delegator's own access.
\<close>

theorem delegation_is_bounded:
  assumes "verify_delegation_event L e pk server revoked now = Inr c"
    and "resolve_delegated_identity fmt time lookup c = Inr r" and "0 \<le> time"
  shows "ev_id e = compute_event_id L e \<and> verify_signature L e = Inr True \<and> \<not> revoked (ev_id e) \<and>
    event_tag e ''p'' = Some pk \<and> event_tag e ''server'' = Some server \<and>
    id_pubkey r = pk \<and> id_roles r = [] \<and> id_scopes r \<noteq> {} \<and>
    (\<exists>d. lookup (ev_pubkey e) = Inr (Some d) \<and> is_expired time d = Inr False \<and>
       id_scopes r = {s \<in> id_scopes d. scope_value s \<in> set (tag_values ''scope'' (ev_tags e))} \<and>
       (\<exists>t. id_expires r = Some (Aware t) \<and> t \<le> of_int (dc_expires_at c) \<and>
          t \<le> of_int now + 30 * 24 * 3600 \<and> (\<forall>t'. id_expires d = Some (Aware t') \<longrightarrow> t \<le> t')))"
proof -
  have a: "delegation_accepted L e pk server revoked now c"
    using assms(1) by (simp add: verify_delegation_event_Inr)
  then have c: "dc_delegator_pubkey c = ev_pubkey e" "dc_delegate_pubkey c = pk"
    by (simp_all add: delegation_accepted_def)
  obtain d where d: "lookup (ev_pubkey e) = Inr (Some d)" "is_expired time d = Inr False"
      "dc_requested_scopes c \<inter> id_scopes d \<noteq> {}"
      "id_pubkey r = pk" "id_roles r = []" "id_scopes r = dc_requested_scopes c \<inter> id_scopes d"
      "id_expires r = Some (Aware (of_int (case id_expires d of None \<Rightarrow> dc_expires_at c
               | Some t \<Rightarrow> min (dc_expires_at c) (py_trunc (datetime_seconds t)))))"
    using assms(2) unfolding resolve_delegated_identity_Inr c by (elim exE conjE) (rule that, simp_all)
  let ?x = "case id_expires d of None \<Rightarrow> dc_expires_at c
               | Some t \<Rightarrow> min (dc_expires_at c) (py_trunc (datetime_seconds t))"
  have x: "?x \<le> dc_expires_at c" by (simp split: option.split)
  have cap: "dc_expires_at c \<le> now + 2592000" using a by (simp add: delegation_accepted_def)
  have "real_of_int ?x \<le> t'" if "id_expires d = Some (Aware t')" for t'
  proof -
    have "0 \<le> t'" using d(2) that assms(3) by (simp add: is_expired_False)
    then show ?thesis using that py_trunc_le [of t'] by (simp add: min_def)
  qed
  moreover have "real_of_int ?x \<le> of_int now + 30 * 24 * 3600"
    using x cap by linarith
  moreover have "real_of_int ?x \<le> of_int (dc_expires_at c)" using x by simp
  moreover have "id_scopes r = {s \<in> id_scopes d. scope_value s \<in> set (tag_values ''scope'' (ev_tags e))}"
    using a d(6) by (auto simp: delegation_accepted_def)
  ultimately show ?thesis
    using a d unfolding delegation_accepted_def by blast
qed

definition example_delegation :: nostr_event where
  "example_delegation =
     (let e = \<lparr>ev_id = [], ev_pubkey = ''boss'', ev_created_at = 0, ev_kind = 27236,
               ev_tags = [[''p'', ''agent''], [''server'', ''srv''], [''expiry'', ''1000''], [''scope'', ''apps.read''],
                          [''scope'', ''owner.approve'']],
               ev_content = [], ev_sig = []\<rparr>
      in e\<lparr>ev_id := compute_event_id example_libs e\<rparr>)"

definition example_boss :: identity_record where
  "example_boss = \<lparr>id_pubkey = ''boss'', id_name = JStr ''boss'', id_roles = [''readonly''],
     id_scopes = ROLE_READONLY, id_expires = Some (Aware 500), id_armada_key_path = None\<rparr>"

definition example_claim :: delegation_claim where
  "example_claim = \<lparr>dc_event_id = ev_id example_delegation, dc_delegator_pubkey = ''boss'', dc_delegate_pubkey = ''agent'',
     dc_requested_scopes = {APPS_READ, OWNER_APPROVE}, dc_server_pubkey = ''srv'', dc_expires_at = 1000\<rparr>"

lemma example_delegation_accepted:
  "verify_delegation_event example_libs example_delegation ''agent'' ''srv'' (\<lambda>_. False) 10 = Inr example_claim"
proof -
  have "parse_int ''1000'' = Some 1000"
    by (simp add: parse_int_def str_strip_def is_space_def code_def parse_nat_def is_decimal_def)
  moreover have "{s. scope_value s = ''apps.read'' \<or> scope_value s = ''owner.approve''} = {APPS_READ, OWNER_APPROVE}"
    using scope_value_inj [of _ APPS_READ] scope_value_inj [of _ OWNER_APPROVE] by auto
  moreover have "\<exists>s. scope_value s = ''apps.read''" "\<exists>s. scope_value s = ''owner.approve''"
    by (rule exI [where x = APPS_READ], simp) (rule exI [where x = OWNER_APPROVE], simp)
  ultimately show ?thesis
    unfolding verify_delegation_event_Inr
    by (simp add: delegation_accepted_def example_delegation_def example_claim_def event_tag_def Let_def
        compute_event_id_def event_serialization_def)
qed

theorem delegation_is_bounded_witness:
  "\<exists>r. resolve_delegated_identity (\<lambda>_. []) 10 (\<lambda>_. Inr (Some example_boss)) example_claim = Inr r \<and>
     id_scopes r \<subseteq> ROLE_READONLY \<and> id_scopes r \<noteq> {} \<and> OWNER_APPROVE \<notin> id_scopes r"
proof -
  have ex: "\<exists>r. resolve_delegated_identity (\<lambda>_. []) 10 (\<lambda>_. Inr (Some example_boss)) example_claim = Inr r"
    by (simp add: resolve_delegated_identity_Inr is_expired_def example_boss_def example_claim_def ROLE_READONLY_def)
  then obtain r where r: "resolve_delegated_identity (\<lambda>_. []) 10 (\<lambda>_. Inr (Some example_boss)) example_claim = Inr r" ..
  from delegation_is_bounded [OF example_delegation_accepted r] have "id_scopes r \<noteq> {}" "id_scopes r \<subseteq> ROLE_READONLY"
    by (auto simp: example_boss_def)
  moreover have "OWNER_APPROVE \<notin> ROLE_READONLY" by (simp add: ROLE_READONLY_def)
  ultimately show ?thesis using r by blast
qed

text \<open>
  Revocation takes effect at the next call and fails closed: with the live store a delegation is
  revoked exactly if the file read by this call lists it, or is not valid, or its list is no list or
  lists something that is no string; a missing file revokes nothing. The same malformed file has length zero.
\<close>

theorem live_revocation:
  "is_revoked (TomlMalformed msg) (LiveRevocations path) i \<and>
   \<not> is_revoked TomlMissing (LiveRevocations path) i \<and>
   (is_revoked (TomlDoc d) (LiveRevocations path) i \<longleftrightarrow>
      (case dget_default d ''revoked'' (JList []) of
         JList vs \<Rightarrow> if list_all is_str vs then JStr i \<in> set vs else True
       | _ \<Rightarrow> True)) \<and>
   revocation_len (TomlMalformed msg) (LiveRevocations path) = 0"
proof -
  have "i \<in> set (concat (map (\<lambda>v. case v of JStr s \<Rightarrow> [s] | _ \<Rightarrow> []) vs)) \<longleftrightarrow> JStr i \<in> set vs" for vs
    by (induction vs) (auto split: json.splits)
  then show ?thesis
    by (auto simp: is_revoked_def load_revoked_ids_def revocation_len_def split: json.splits)
qed

end
