(* ===== verification/Nip98.thy ===== *)
theory Nip98
  imports Nostr
begin

text \<open>
  \<open>auth/replay.py\<close>, the cache of used event ids, and \<open>auth/nip98.py\<close>, the verification of an
  \<open>Authorization: Nostr \<dots>\<close> header against one HTTP request. The wall clock (\<open>time.time()\<close>, seconds)
  and the monotonic clock that the cache uses are separate arguments. The cache is threaded through.
\<close>

subsection \<open>\<open>ReplayCache\<close>\<close>

record replay_cache =
  rc_ttl_seconds :: int
  rc_seen :: "(string \<times> real) list"

definition replay_init :: "int \<Rightarrow> replay_cache" where
  "replay_init ttl = \<lparr>rc_ttl_seconds = ttl, rc_seen = []\<rparr>"

definition DEFAULT_REPLAY_TTL :: int where "DEFAULT_REPLAY_TTL = 300"

definition replay_prune :: "real \<Rightarrow> replay_cache \<Rightarrow> replay_cache" where
  "replay_prune now c = c\<lparr>rc_seen := filter (\<lambda>p. \<not> snd p \<le> now) (rc_seen c)\<rparr>"

definition check_and_record :: "real \<Rightarrow> string \<Rightarrow> replay_cache \<Rightarrow> replay_cache \<times> (exn + unit)" where
  "check_and_record now event_id c =
     (let c' = replay_prune now c
      in if event_id \<in> fst ` set (rc_seen c')
         then (c', Inl (Exn ReplayError (''event id already used: '' @ event_id)))
         else (c'\<lparr>rc_seen := rc_seen c' @ [(event_id, now + of_int (rc_ttl_seconds c'))]\<rparr>, Inr ()))"

definition replay_len :: "replay_cache \<Rightarrow> nat" where
  "replay_len c = length (rc_seen c)"

subsection \<open>\<open>verify_nip98_request\<close>\<close>

definition NIP98_KIND :: int where "NIP98_KIND = 27235"
definition DEFAULT_CLOCK_SKEW_SECONDS :: int where "DEFAULT_CLOCK_SKEW_SECONDS = 60"

record nip98_identity =
  ni_pubkey :: string
  ni_event_id :: string
  ni_created_at :: int

definition nip98_error :: "string \<Rightarrow> exn" where
  "nip98_error msg = Exn Nip98Error msg"

definition repr_optional :: "string option \<Rightarrow> string" where
  "repr_optional v = (case v of None \<Rightarrow> ''None'' | Some s \<Rightarrow> py_repr s)"

text \<open>The header down to a model-validated event.\<close>

definition parse_authorization :: "libs \<Rightarrow> string option \<Rightarrow> exn + nostr_event" where
  "parse_authorization L authorization_header = (case authorization_header of
      None \<Rightarrow> Inl (nip98_error ''missing Authorization header'')
    | Some header \<Rightarrow>
        if header = [] then Inl (nip98_error ''missing Authorization header'')
        else (let (scheme, encoded) = str_partition header (CHR '' '')
              in if str_lower scheme \<noteq> ''nostr'' \<or> encoded = []
                 then Inl (nip98_error (''Authorization header must be '' @ py_repr ''Nostr <base64-event>''))
                 else (case b64decode L encoded of
                     Inl exc \<Rightarrow> Inl (nip98_error (''malformed NIP-98 event: '' @ exc))
                   | Inr decoded \<Rightarrow>
                       (case json_loads_bytes L decoded of
                          Inl exc \<Rightarrow> Inl (nip98_error (''malformed NIP-98 event: '' @ exc))
                        | Inr raw \<Rightarrow>
                            (case model_validate L raw of
                               Inl exc \<Rightarrow> Inl (nip98_error (''malformed NIP-98 event: '' @ exc))
                             | Inr event \<Rightarrow> Inr event)))))"

text \<open>The checks of the event against the request, in the order of the code.\<close>

definition check_event ::
  "libs \<Rightarrow> nostr_event \<Rightarrow> string \<Rightarrow> string \<Rightarrow> string \<Rightarrow> int \<Rightarrow> int \<Rightarrow> exn + unit" where
  "check_event L event meth url body clock_skew_seconds now =
     ebind (guard (ev_kind event = NIP98_KIND)
       (nip98_error (''expected kind '' @ show_int NIP98_KIND @ '', got '' @ show_int (ev_kind event)))) (\<lambda>_.
     ebind (guard (\<not> \<bar>now - ev_created_at event\<bar> > clock_skew_seconds)
       (nip98_error (''event timestamp '' @ show_int (ev_created_at event) @ '' outside '' @
          show_int clock_skew_seconds @ ''s clock skew of server time '' @ show_int now))) (\<lambda>_.
     ebind (guard (event_tag event ''u'' = Some url)
       (nip98_error (py_repr ''u'' @ '' tag '' @ repr_optional (event_tag event ''u'') @ '' does not match request url '' @ py_repr url))) (\<lambda>_.
     ebind (guard (map_option str_upper (event_tag event ''method'') = Some (str_upper meth))
       (nip98_error (py_repr ''method'' @ '' tag '' @ repr_optional (event_tag event ''method'') @
          '' does not match request method '' @ py_repr meth))) (\<lambda>_.
     ebind (guard (body = [] \<or> event_tag event ''payload'' = Some (sha256_bytes L body))
       (nip98_error (py_repr ''payload'' @ '' tag does not match sha256 of request body''))) (\<lambda>_.
     reraise (\<lambda>e. exn_cls e = NostrEventError) (\<lambda>e. nip98_error (exn_msg e)) (verify_event L event))))))"

definition verify_nip98_request ::
  "libs \<Rightarrow> string option \<Rightarrow> string \<Rightarrow> string \<Rightarrow> string \<Rightarrow> int \<Rightarrow> int \<Rightarrow> real \<Rightarrow> replay_cache \<Rightarrow>
     replay_cache \<times> (exn + nip98_identity)" where
  "verify_nip98_request L authorization_header meth url body clock_skew_seconds now tick cache =
     (case ebind (parse_authorization L authorization_header) (\<lambda>event.
             ebind (check_event L event meth url body clock_skew_seconds now) (\<lambda>_. Inr event)) of
        Inl e \<Rightarrow> (cache, Inl e)
      | Inr event \<Rightarrow>
          (case check_and_record tick (ev_id event) cache of
             (cache', Inl e) \<Rightarrow> (cache', Inl (nip98_error (exn_msg e)))
           | (cache', Inr _) \<Rightarrow>
               (cache', Inr \<lparr>ni_pubkey = ev_pubkey event, ni_event_id = ev_id event,
                             ni_created_at = ev_created_at event\<rparr>)))"

subsection \<open>Lemmas\<close>

lemma parse_authorization_Inr:
  "parse_authorization L h = Inr e \<longleftrightarrow>
     (\<exists>scheme encoded decoded raw. h = Some (scheme @ '' '' @ encoded) \<and> CHR '' '' \<notin> set scheme \<and>
        str_lower scheme = ''nostr'' \<and> encoded \<noteq> [] \<and> b64decode L encoded = Inr decoded \<and>
        json_loads_bytes L decoded = Inr raw \<and> model_validate L raw = Inr e)"
  (is "_ = ?rhs")
proof
  assume p: "parse_authorization L h = Inr e"
  then obtain header where h: "h = Some header" by (cases h) (auto simp: parse_authorization_def)
  define scheme where "scheme = takeWhile (\<lambda>x. x \<noteq> CHR '' '') header"
  define encoded where "encoded = drop 1 (dropWhile (\<lambda>x. x \<noteq> CHR '' '') header)"
  have enc: "encoded \<noteq> []" "str_lower scheme = ''nostr''"
    and rest: "\<exists>decoded raw. b64decode L encoded = Inr decoded \<and> json_loads_bytes L decoded = Inr raw \<and>
      model_validate L raw = Inr e"
    using p h by (auto simp: parse_authorization_def str_partition_def scheme_def encoded_def split: if_splits sum.splits)
  have "header = scheme @ '' '' @ encoded"
    using enc(1) hd_dropWhile [of "\<lambda>x. x \<noteq> CHR '' ''" header]
      takeWhile_dropWhile_id [of "\<lambda>x. x \<noteq> CHR '' ''" header]
    unfolding scheme_def encoded_def
    by (cases "dropWhile (\<lambda>x. x \<noteq> CHR '' '') header") auto
  moreover have "CHR '' '' \<notin> set scheme" unfolding scheme_def by (metis set_takeWhileD)
  ultimately show ?rhs using h enc rest by blast
next
  assume ?rhs
  then obtain scheme encoded decoded raw where r: "h = Some (scheme @ '' '' @ encoded)" "CHR '' '' \<notin> set scheme"
      "str_lower scheme = ''nostr''" "encoded \<noteq> []" "b64decode L encoded = Inr decoded"
      "json_loads_bytes L decoded = Inr raw" "model_validate L raw = Inr e" by blast
  have "takeWhile (\<lambda>x. x \<noteq> CHR '' '') (scheme @ '' '' @ encoded) = scheme"
    "dropWhile (\<lambda>x. x \<noteq> CHR '' '') (scheme @ '' '' @ encoded) = '' '' @ encoded"
    using r(2) by (auto simp: takeWhile_append dropWhile_append)
  with r show "parse_authorization L h = Inr e"
    by (simp add: parse_authorization_def str_partition_def)
qed

lemma check_event_Inr:
  "check_event L e meth url body skew now = Inr u \<longleftrightarrow>
     ev_kind e = 27235 \<and> \<bar>now - ev_created_at e\<bar> \<le> skew \<and> event_tag e ''u'' = Some url \<and>
     (\<exists>m. event_tag e ''method'' = Some m \<and> str_upper m = str_upper meth) \<and>
     (body = [] \<or> event_tag e ''payload'' = Some (sha256_bytes L body)) \<and>
     ev_id e = compute_event_id L e \<and> verify_signature L e = Inr True"
  by (cases u) (auto simp: check_event_def NIP98_KIND_def)

lemma parse_authorization_Inl: "parse_authorization L h = Inl x \<Longrightarrow> exn_cls x = Nip98Error"
  by (auto simp: parse_authorization_def nip98_error_def split: option.splits if_splits sum.splits prod.splits)

lemma check_event_Inl: "check_event L e meth url body skew now = Inl x \<Longrightarrow> exn_cls x = Nip98Error"
  unfolding check_event_def ebind_Inl
  by (auto simp: nip98_error_def reraise_Inl dest: verify_event_Inl)

lemma check_and_record_Inr:
  "snd (check_and_record now i c) = Inr u \<longleftrightarrow> (\<forall>t. (i, t) \<in> set (rc_seen c) \<longrightarrow> t \<le> now)"
  by (cases u) (auto simp: check_and_record_def replay_prune_def Let_def image_iff)

lemma verify_nip98_Inr:
  "snd (verify_nip98_request L h meth url body skew now tick c) = Inr n \<longleftrightarrow>
     (\<exists>e. parse_authorization L h = Inr e \<and> check_event L e meth url body skew now = Inr () \<and>
        snd (check_and_record tick (ev_id e) c) = Inr () \<and>
        n = \<lparr>ni_pubkey = ev_pubkey e, ni_event_id = ev_id e, ni_created_at = ev_created_at e\<rparr>)"
  by (auto simp: verify_nip98_request_def split: sum.splits prod.splits)

lemma verify_nip98_Inl: "snd (verify_nip98_request L h meth url body skew now tick c) = Inl x \<Longrightarrow> exn_cls x = Nip98Error"
  by (auto simp: verify_nip98_request_def ebind_Inl nip98_error_def split: sum.splits prod.splits
      dest: parse_authorization_Inl check_event_Inl)

subsection \<open>Runs of one server\<close>

text \<open>A call: the wall clock and the monotonic clock when it is handled, and the request.\<close>

record nip98_call =
  nc_time :: real
  nc_tick :: real
  nc_header :: "string option"
  nc_method :: string
  nc_url :: string
  nc_body :: string

definition handle_call :: "libs \<Rightarrow> int \<Rightarrow> replay_cache \<Rightarrow> nip98_call \<Rightarrow> replay_cache \<times> (exn + nip98_identity)" where
  "handle_call L skew cache c =
     verify_nip98_request L (nc_header c) (nc_method c) (nc_url c) (nc_body c) skew (py_trunc (nc_time c)) (nc_tick c) cache"

text \<open>The identities accepted in a run, each with its call.\<close>

fun accepted :: "libs \<Rightarrow> int \<Rightarrow> replay_cache \<Rightarrow> nip98_call list \<Rightarrow> (nip98_call \<times> nip98_identity) list" where
  "accepted L skew cache [] = []"
| "accepted L skew cache (c # cs) =
     (let (cache', r) = handle_call L skew cache c; rest = accepted L skew cache' cs
      in case r of Inl _ \<Rightarrow> rest | Inr n \<Rightarrow> (c, n) # rest)"

lemma accepted_Cons:
  "accepted L skew cache (c # cs) =
     (case snd (handle_call L skew cache c) of
        Inl _ \<Rightarrow> accepted L skew (fst (handle_call L skew cache c)) cs
      | Inr n \<Rightarrow> (c, n) # accepted L skew (fst (handle_call L skew cache c)) cs)"
  by (cases "handle_call L skew cache c") (simp add: Let_def split: sum.split)

declare accepted.simps(2) [simp del]

text \<open>Every id used at tick \<open>m\<close> is held until \<open>m\<close> plus the lifetime.\<close>

definition holds :: "replay_cache \<Rightarrow> real \<Rightarrow> (nip98_call \<times> nip98_identity) \<Rightarrow> bool" where
  "holds cache now a \<longleftrightarrow> nc_tick (fst a) + of_int (rc_ttl_seconds cache) > now \<longrightarrow>
     (ni_event_id (snd a), nc_tick (fst a) + of_int (rc_ttl_seconds cache)) \<in> set (rc_seen cache)"

lemma check_and_record_ttl [simp]: "rc_ttl_seconds (fst (check_and_record now i c)) = rc_ttl_seconds c"
  by (simp add: check_and_record_def replay_prune_def Let_def)

lemma handle_call_pair:
  "handle_call L skew cache c =
     (case ebind (parse_authorization L (nc_header c)) (\<lambda>e.
             ebind (check_event L e (nc_method c) (nc_url c) (nc_body c) skew (py_trunc (nc_time c))) (\<lambda>_. Inr e)) of
        Inl x \<Rightarrow> (cache, Inl x)
      | Inr e \<Rightarrow> (fst (check_and_record (nc_tick c) (ev_id e) cache),
          (case snd (check_and_record (nc_tick c) (ev_id e) cache) of
             Inl x \<Rightarrow> Inl (nip98_error (exn_msg x))
           | Inr _ \<Rightarrow> Inr \<lparr>ni_pubkey = ev_pubkey e, ni_event_id = ev_id e, ni_created_at = ev_created_at e\<rparr>)))"
  unfolding handle_call_def verify_nip98_request_def
  by (simp split: sum.split prod.split)

lemma handle_call_cases:
  obtains (rejected) x where "handle_call L skew cache c = (cache, Inl x)"
  | (checked) e :: nostr_event where "handle_call L skew cache c =
      (fst (check_and_record (nc_tick c) (ev_id e) cache),
       (case snd (check_and_record (nc_tick c) (ev_id e) cache) of
          Inl x \<Rightarrow> Inl (nip98_error (exn_msg x))
        | Inr _ \<Rightarrow> Inr \<lparr>ni_pubkey = ev_pubkey e, ni_event_id = ev_id e, ni_created_at = ev_created_at e\<rparr>))"
proof (cases "ebind (parse_authorization L (nc_header c)) (\<lambda>e.
    ebind (check_event L e (nc_method c) (nc_url c) (nc_body c) skew (py_trunc (nc_time c))) (\<lambda>_. Inr e))")
  case (Inl x)
  then show thesis by (rule_tac rejected) (simp only: handle_call_pair sum.case)
next
  case (Inr e)
  then show thesis by (rule_tac checked) (simp only: handle_call_pair sum.case)
qed

lemma handle_call_ttl [simp]: "rc_ttl_seconds (fst (handle_call L skew cache c)) = rc_ttl_seconds cache"
  by (cases rule: handle_call_cases [of L skew cache c]) simp_all

lemma check_and_record_seen:
  "t > now \<Longrightarrow> (i, t) \<in> set (rc_seen c) \<Longrightarrow> (i, t) \<in> set (rc_seen (fst (check_and_record now j c)))"
  by (auto simp: check_and_record_def replay_prune_def Let_def)

lemma handle_call_seen:
  "t > nc_tick c \<Longrightarrow> (i, t) \<in> set (rc_seen cache) \<Longrightarrow> (i, t) \<in> set (rc_seen (fst (handle_call L skew cache c)))"
  by (cases rule: handle_call_cases [of L skew cache c]) (simp_all add: check_and_record_seen)

lemma handle_call_records:
  assumes "snd (handle_call L skew cache c) = Inr n"
  shows "(ni_event_id n, nc_tick c + of_int (rc_ttl_seconds cache)) \<in> set (rc_seen (fst (handle_call L skew cache c)))"
proof (cases rule: handle_call_cases [of L skew cache c])
  case (checked e)
  with assms have "snd (check_and_record (nc_tick c) (ev_id e) cache) = Inr ()" "ni_event_id n = ev_id e"
    by (auto split: sum.splits)
  with checked show ?thesis
    by (auto simp: check_and_record_def replay_prune_def Let_def split: if_splits)
qed (use assms in simp)

lemma handle_call_fresh:
  "snd (handle_call L skew cache c) = Inr n \<Longrightarrow> (ni_event_id n, t) \<in> set (rc_seen cache) \<Longrightarrow> t \<le> nc_tick c"
  by (auto simp: handle_call_def verify_nip98_Inr check_and_record_Inr)

lemma holds_step:
  "holds cache now a \<Longrightarrow> now \<le> nc_tick c \<Longrightarrow> holds (fst (handle_call L skew cache c)) (nc_tick c) a"
  unfolding holds_def using handle_call_seen by fastforce

text \<open>Two uses of one id lie at least the lifetime apart.\<close>

lemma accepted_spacing:
  assumes "\<forall>a \<in> set prior. holds cache now a" "sorted (now # map nc_tick cs)"
    "sorted_wrt (\<lambda>a b. ni_event_id (snd a) = ni_event_id (snd b) \<longrightarrow>
       nc_tick (fst a) + of_int (rc_ttl_seconds cache) \<le> nc_tick (fst b)) prior"
  shows "sorted_wrt (\<lambda>a b. ni_event_id (snd a) = ni_event_id (snd b) \<longrightarrow>
       nc_tick (fst a) + of_int (rc_ttl_seconds cache) \<le> nc_tick (fst b)) (prior @ accepted L skew cache cs)"
  using assms
proof (induction cs arbitrary: prior cache now)
  case (Cons c cs)
  let ?cache = "fst (handle_call L skew cache c)"
  have later: "now \<le> nc_tick c" "sorted (nc_tick c # map nc_tick cs)" using Cons.prems(2) by auto
  have kept: "\<forall>a \<in> set prior. holds ?cache (nc_tick c) a"
    using Cons.prems(1) holds_step [OF _ later(1)] by blast
  show ?case
  proof (cases "snd (handle_call L skew cache c)")
    case (Inl e)
    then have "accepted L skew cache (c # cs) = accepted L skew ?cache cs"
      by (simp add: accepted_Cons)
    then show ?thesis
      using Cons.IH [OF kept later(2)] Cons.prems(3) by simp
  next
    case (Inr n)
    then have acc: "accepted L skew cache (c # cs) = (c, n) # accepted L skew ?cache cs"
      by (simp add: accepted_Cons)
    have "holds ?cache (nc_tick c) (c, n)"
      using handle_call_records [OF Inr] by (simp add: holds_def)
    then have kept': "\<forall>a \<in> set (prior @ [(c, n)]). holds ?cache (nc_tick c) a" using kept by simp
    have "nc_tick (fst a) + of_int (rc_ttl_seconds cache) \<le> nc_tick c"
      if "a \<in> set prior" "ni_event_id (snd a) = ni_event_id n" for a
    proof (rule ccontr)
      assume "\<not> ?thesis"
      then have "(ni_event_id n, nc_tick (fst a) + of_int (rc_ttl_seconds cache)) \<in> set (rc_seen cache)"
        using Cons.prems(1) that later(1) by (force simp: holds_def)
      with handle_call_fresh [OF Inr] \<open>\<not> ?thesis\<close> show False by auto
    qed
    then have "sorted_wrt (\<lambda>a b. ni_event_id (snd a) = ni_event_id (snd b) \<longrightarrow>
       nc_tick (fst a) + of_int (rc_ttl_seconds ?cache) \<le> nc_tick (fst b)) (prior @ [(c, n)])"
      using Cons.prems(3) by (simp add: sorted_wrt_append)
    from Cons.IH [OF kept' later(2) this] show ?thesis by (simp add: acc)
  qed
qed simp

lemma accepted_skew:
  "(c, n) \<in> set (accepted L skew cache cs) \<Longrightarrow> c \<in> set cs \<and> \<bar>py_trunc (nc_time c) - ni_created_at n\<bar> \<le> skew"
proof (induction cs arbitrary: cache)
  case (Cons c' cs)
  then show ?case
    by (auto simp: accepted_Cons handle_call_def verify_nip98_Inr check_event_Inr split: sum.splits)
qed simp

subsection \<open>Properties\<close>

text \<open>The event a header carries: scheme, one space, base64 of the JSON of a well-formed event.\<close>

definition header_event :: "libs \<Rightarrow> string option \<Rightarrow> nostr_event \<Rightarrow> bool" where
  "header_event L h e \<longleftrightarrow>
     (\<exists>scheme encoded decoded raw. h = Some (scheme @ '' '' @ encoded) \<and> CHR '' '' \<notin> set scheme \<and>
        str_lower scheme = ''nostr'' \<and> encoded \<noteq> [] \<and> b64decode L encoded = Inr decoded \<and>
        json_loads_bytes L decoded = Inr raw \<and> model_validate L raw = Inr e)"

text \<open>
  C6: a request is authenticated exactly if its header carries a well-formed
  event of kind 27235 that verifies, whose time is within the skew of the server's clock, whose tags
  name this URL, this method and the hash of this body, and whose id the cache does not hold; the
  result is its author. A request without a body needs no payload tag. Any failure is a
  \<open>Nip98Error\<close>.
\<close>

theorem nip98_binds_request:
  "(snd (verify_nip98_request L h meth url body skew now tick cache) = Inr n \<longleftrightarrow>
     (\<exists>e. header_event L h e \<and>
        (ev_kind e = 27235 \<and> \<bar>now - ev_created_at e\<bar> \<le> skew \<and> event_tag e ''u'' = Some url \<and>
         (\<exists>m. event_tag e ''method'' = Some m \<and> str_upper m = str_upper meth) \<and>
         (body = [] \<or> event_tag e ''payload'' = Some (sha256_bytes L body)) \<and>
         ev_id e = compute_event_id L e \<and> verify_signature L e = Inr True) \<and>
        (\<forall>t. (ev_id e, t) \<in> set (rc_seen cache) \<longrightarrow> t \<le> tick) \<and>
        n = \<lparr>ni_pubkey = ev_pubkey e, ni_event_id = ev_id e, ni_created_at = ev_created_at e\<rparr>)) \<and>
   (\<forall>x. snd (verify_nip98_request L h meth url body skew now tick cache) = Inl x \<longrightarrow> exn_cls x = Nip98Error)"
proof
  show "\<forall>x. snd (verify_nip98_request L h meth url body skew now tick cache) = Inl x \<longrightarrow> exn_cls x = Nip98Error"
    using verify_nip98_Inl by blast
qed (simp only: verify_nip98_Inr parse_authorization_Inr check_event_Inr check_and_record_Inr header_event_def)

definition example_http_event :: nostr_event where
  "example_http_event =
     \<lparr>ev_id = replicate 64 CHR ''a'', ev_pubkey = replicate 64 CHR ''a'', ev_created_at = 1000, ev_kind = 27235,
      ev_tags = [[''u'', ''https://h/mcp''], [''method'', ''POST''], [''payload'', ''body'']], ev_content = [],
      ev_sig = replicate 128 CHR ''c''\<rparr>"

definition example_http_libs :: libs where
  "example_http_libs = example_libs\<lparr>sha256_hex := (\<lambda>_. replicate 64 CHR ''a''),
     pydantic_event := (\<lambda>_. Inr example_http_event)\<rparr>"

lemma example_http_libs_simps:
  "b64decode example_http_libs s = Inr s" "json_loads_bytes example_http_libs s = Inr JNull"
  "pydantic_event example_http_libs v = Inr example_http_event" "sha256_bytes example_http_libs s = s"
  "verify_signature example_http_libs e = Inr True" "sha256_hex example_http_libs s = replicate 64 CHR ''a''"
  by (simp_all add: example_http_libs_def)

lemma fromhex_ok_pairs: "is_hex_digit c \<Longrightarrow> \<not> is_ascii_space c \<Longrightarrow> fromhex_ok (replicate (2 * n) c)"
  by (induction n) auto

lemma example_http_parses: "parse_authorization example_http_libs (Some ''nostr e'') = Inr example_http_event"
proof -
  have hex: "is_hex (replicate (2 * n) c)" if "c \<in> {CHR ''a'', CHR ''b'', CHR ''c''}" for n c
    using that fromhex_ok_pairs [of c n]
    by (auto simp: is_hex_def is_hex_digit_def is_ascii_space_def str_lower_def lower_char_def is_upper_def
        is_decimal_def code_def)
  have "validate_hex32 (ev_id example_http_event)" "validate_hex32 (ev_pubkey example_http_event)"
    "validate_sig_hex (ev_sig example_http_event)"
    using hex [of _ 32] hex [of _ 64]
    by (simp_all add: validate_hex32_def validate_sig_hex_def HEX32_LEN_def HEX64_LEN_def example_http_event_def)
  then have valid: "model_validate example_http_libs raw = Inr example_http_event" for raw
    by (simp add: model_validate_def example_http_libs_simps)
  have "str_lower ''nostr'' = ''nostr''"
    by (simp add: str_lower_def lower_char_def is_upper_def code_def)
  then show ?thesis
    unfolding parse_authorization_Inr
    by (intro exI [where x = "''nostr''"] exI [where x = "''e''"] exI [where x = "''e''"] exI [where x = JNull])
       (simp add: valid example_http_libs_simps)
qed

lemma example_http_checks:
  "\<bar>now - 1000\<bar> \<le> skew \<Longrightarrow>
     check_event example_http_libs example_http_event ''POST'' ''https://h/mcp'' ''body'' skew now = Inr ()"
  unfolding check_event_Inr
  by (simp add: example_http_event_def event_tag_def example_http_libs_simps compute_event_id_def)

definition example_http_call :: "real \<Rightarrow> nip98_call" where
  "example_http_call t = \<lparr>nc_time = t, nc_tick = t, nc_header = Some ''nostr e'', nc_method = ''POST'',
     nc_url = ''https://h/mcp'', nc_body = ''body''\<rparr>"

lemma distinct_if_differ: "sorted_wrt (\<lambda>a b. f a \<noteq> f b) xs \<Longrightarrow> distinct (map f xs)"
  by (induction xs) auto

text \<open>
  C7: no replay. If the lifetime of the cache exceeds twice the clock skew, the two clocks of the
  server advance together, and no two accepted events share an id without sharing their time (no
  hash collision), then over any sequence of requests no event id is accepted twice.
\<close>

theorem nip98_no_replay:
  assumes "sorted (map nc_tick calls)" and "\<forall>c \<in> set calls. nc_time c = nc_tick c + offset \<and> 0 \<le> nc_time c"
    and "2 * skew < rc_ttl_seconds cache" and "rc_seen cache = []"
    and "\<forall>a \<in> set (accepted L skew cache calls). \<forall>b \<in> set (accepted L skew cache calls).
      ni_event_id (snd a) = ni_event_id (snd b) \<longrightarrow> ni_created_at (snd a) = ni_created_at (snd b)"
  shows "distinct (map (ni_event_id \<circ> snd) (accepted L skew cache calls))"
proof -
  let ?acc = "accepted L skew cache calls"
  let ?P = "\<lambda>a b. ni_event_id (snd a) = ni_event_id (snd b) \<longrightarrow>
      nc_tick (fst a) + of_int (rc_ttl_seconds cache) \<le> nc_tick (fst b)"
  have spaced: "sorted_wrt ?P ?acc"
  proof (cases calls)
    case (Cons c cs)
    with assms(1) accepted_spacing [of "[]" cache "nc_tick c" calls L skew] show ?thesis by simp
  qed simp
  have near: "\<not> ?P a b" if "a \<in> set ?acc" "b \<in> set ?acc" "ni_event_id (snd a) = ni_event_id (snd b)" for a b
  proof -
    have a: "fst a \<in> set calls" "\<bar>py_trunc (nc_time (fst a)) - ni_created_at (snd a)\<bar> \<le> skew"
      and b: "fst b \<in> set calls" "\<bar>py_trunc (nc_time (fst b)) - ni_created_at (snd b)\<bar> \<le> skew"
      using that(1,2) accepted_skew [of "fst a" "snd a" L skew cache calls]
        accepted_skew [of "fst b" "snd b" L skew cache calls] by simp_all
    have same: "ni_created_at (snd a) = ni_created_at (snd b)" using assms(5) that by blast
    have "py_trunc (nc_time (fst b)) - py_trunc (nc_time (fst a)) \<le> 2 * skew"
      using a(2) b(2) same by linarith
    moreover have "nc_time (fst b) < py_trunc (nc_time (fst b)) + 1" "py_trunc (nc_time (fst a)) \<le> nc_time (fst a)"
      using assms(2) a(1) b(1) by (auto simp: py_trunc_def)
    moreover have "nc_tick (fst b) - nc_tick (fst a) = nc_time (fst b) - nc_time (fst a)"
      using assms(2) a(1) b(1) by auto
    ultimately show ?thesis using that(3) assms(3) by simp
  qed
  then have "sorted_wrt (\<lambda>a b. ni_event_id (snd a) \<noteq> ni_event_id (snd b)) ?acc"
    using spaced by (rule_tac sorted_wrt_mono_rel [where P = ?P]) blast+
  then show ?thesis using distinct_if_differ [of "ni_event_id \<circ> snd"] by simp
qed

theorem nip98_no_replay_witness:
  "distinct (map (ni_event_id \<circ> snd)
     (accepted example_http_libs 60 (replay_init 300) [example_http_call 1000, example_http_call 1001]))"
proof (rule nip98_no_replay [where offset = 0])
  let ?acc = "accepted example_http_libs 60 (replay_init 300) [example_http_call 1000, example_http_call 1001]"
  have "ni_created_at (snd a) = 1000" if "a \<in> set ?acc" for a
    using that
    by (auto simp: accepted_Cons handle_call_def verify_nip98_Inr example_http_call_def example_http_parses
        example_http_event_def split: sum.splits)
  then show "\<forall>a \<in> set ?acc. \<forall>b \<in> set ?acc. ni_event_id (snd a) = ni_event_id (snd b) \<longrightarrow>
      ni_created_at (snd a) = ni_created_at (snd b)" by simp
qed (simp_all add: example_http_call_def replay_init_def)

text \<open>
  The bound of the previous property is exact. With a lifetime of at most twice the skew, a
  request accepted at the earliest moment is accepted again, byte for byte, at the latest moment its
  event is still fresh. Nothing in the configuration relates the two settings.
\<close>

theorem nip98_replay_window:
  assumes "rc_ttl_seconds cache \<le> 2 * skew" "0 \<le> skew" "rc_seen cache = []"
    and "parse_authorization L h = Inr e" "check_event L e meth url body skew (ev_created_at e) = Inr ()"
  shows "map (ni_event_id \<circ> snd) (accepted L skew cache
      [\<lparr>nc_time = of_int (ev_created_at e - skew), nc_tick = t, nc_header = h, nc_method = meth, nc_url = url, nc_body = body\<rparr>,
       \<lparr>nc_time = of_int (ev_created_at e + skew), nc_tick = t + of_int (2 * skew), nc_header = h, nc_method = meth,
        nc_url = url, nc_body = body\<rparr>]) = [ev_id e, ev_id e]"
proof -
  have trunc: "py_trunc (of_int k) = k" for k by (simp add: py_trunc_def)
  have checks: "check_event L e meth url body skew (ev_created_at e - skew) = Inr ()"
    "check_event L e meth url body skew (ev_created_at e + skew) = Inr ()"
    using assms(2,5) by (simp_all add: check_event_Inr)
  let ?c = "\<lparr>nc_time = of_int (ev_created_at e - skew), nc_tick = t, nc_header = h, nc_method = meth, nc_url = url, nc_body = body\<rparr>"
  have first: "check_and_record t (ev_id e) cache =
      (cache\<lparr>rc_seen := [(ev_id e, t + of_int (rc_ttl_seconds cache))]\<rparr>, Inr ())"
    using assms(3) by (simp add: check_and_record_def replay_prune_def Let_def)
  have second: "check_and_record (t + 2 * of_int skew) (ev_id e) (cache\<lparr>rc_seen := [(ev_id e, t + of_int (rc_ttl_seconds cache))]\<rparr>)
      = (cache\<lparr>rc_seen := [(ev_id e, t + 2 * of_int skew + of_int (rc_ttl_seconds cache))]\<rparr>, Inr ())"
  proof -
    have "t + of_int (rc_ttl_seconds cache) \<le> t + 2 * of_int skew" using assms(1) by linarith
    then show ?thesis by (simp add: check_and_record_def replay_prune_def Let_def)
  qed
  show ?thesis
    by (simp add: accepted_Cons handle_call_def verify_nip98_request_def assms(4) checks first second trunc
        del: of_int_diff of_int_add)
qed

theorem nip98_replay_window_witness:
  "length (accepted example_http_libs 150 (replay_init 300) [example_http_call 850, example_http_call 1150]) = 2"
proof -
  have "map (ni_event_id \<circ> snd) (accepted example_http_libs 150 (replay_init 300) [example_http_call 850, example_http_call 1150])
      = [ev_id example_http_event, ev_id example_http_event]"
    using nip98_replay_window [of "replay_init 300" 150 example_http_libs "Some ''nostr e''" example_http_event
        "''POST''" "''https://h/mcp''" "''body''" 850] example_http_parses example_http_checks [of 1000 150]
    by (simp add: replay_init_def example_http_call_def) (simp add: example_http_event_def)
  from arg_cong [OF this, of length] show ?thesis by simp
qed

theorem nip98_binds_request_witness:
  "snd (verify_nip98_request example_http_libs (Some ''nostr e'') ''POST'' ''https://h/mcp'' ''body'' 60 1000 5 (replay_init 300)) =
     Inr \<lparr>ni_pubkey = ev_pubkey example_http_event, ni_event_id = ev_id example_http_event,
       ni_created_at = ev_created_at example_http_event\<rparr>"
proof -
  have "header_event example_http_libs (Some ''nostr e'') example_http_event"
    using example_http_parses by (simp only: parse_authorization_Inr header_event_def)
  moreover have "check_event example_http_libs example_http_event ''POST'' ''https://h/mcp'' ''body'' 60 1000 = Inr ()"
    by (rule example_http_checks) simp
  then show ?thesis
    by (intro nip98_binds_request [THEN conjunct1, THEN iffD2] exI [of _ example_http_event] conjI calculation)
      (simp_all only: check_event_Inr, simp_all add: replay_init_def)
qed

end
