(* ===== verification/Url.thy ===== *)
theory Url
  imports Prelude
begin

text \<open>
  \<open>urllib.parse.urlsplit\<close> of the standard library, as the middleware and the invite parsers use it.  The
  address inside brackets of a network location is not checked.
\<close>

text \<open>Scheme and network location as \<open>urlsplit\<close> finds them.\<close>

definition is_scheme_char :: "char \<Rightarrow> bool" where
  "is_scheme_char c = (is_letter c \<or> is_decimal c \<or> c \<in> {CHR ''+'', CHR ''-'', CHR ''.''})"

definition split_scheme :: "string \<Rightarrow> string \<times> string" where
  "split_scheme url =
     (let (head, rest) = (takeWhile (\<lambda>c. c \<noteq> CHR '':'') url, dropWhile (\<lambda>c. c \<noteq> CHR '':'') url)
      in if rest \<noteq> [] \<and> head \<noteq> [] \<and> is_letter (hd head) \<and> list_all is_scheme_char head
         then (str_lower head, drop 1 rest) else ([], url))"

definition split_netloc :: "string \<Rightarrow> string" where
  "split_netloc rest =
     (if starts_with rest ''//''
      then takeWhile (\<lambda>c. c \<notin> {CHR ''/'', CHR ''?'', CHR ''#''}) (drop 2 rest) else [])"

definition urlsplit :: "string \<Rightarrow> exn + string \<times> string" where
  "urlsplit url =
     (let cleaned = filter (\<lambda>c. code c \<notin> {9, 10, 13}) (dropWhile (\<lambda>c. code c \<le> 32) url);
          (scheme, rest) = split_scheme cleaned;
          netloc = split_netloc rest
      in if (CHR ''['' \<in> set netloc) \<noteq> (CHR '']'' \<in> set netloc)
         then Inl (Exn ValueError ''Invalid IPv6 URL'')
         else Inr (scheme, netloc))"

record split_url =
  url_scheme :: string
  url_netloc :: string
  url_path :: string
  url_query :: string
  url_fragment :: string

definition urlsplit_parts :: "string \<Rightarrow> exn + split_url" where
  "urlsplit_parts url =
     (let cleaned = filter (\<lambda>c. code c \<notin> {9, 10, 13}) (dropWhile (\<lambda>c. code c \<le> 32) url);
          (scheme, rest) = split_scheme cleaned; netloc = split_netloc rest;
          after = (if starts_with rest ''//'' then drop (2 + length netloc) rest else rest);
          (front, fragment) = str_partition after CHR ''#'';
          (path, query) = str_partition front CHR ''?''
      in if (CHR ''['' \<in> set netloc) \<noteq> (CHR '']'' \<in> set netloc)
         then Inl (Exn ValueError ''Invalid IPv6 URL'')
         else Inr \<lparr>url_scheme = scheme, url_netloc = netloc, url_path = path, url_query = query, url_fragment = fragment\<rparr>)"

end
