(* ===== verification/Middleware.thy ===== *)
theory Middleware
  imports Delegation Nip98 Url
begin

text \<open>
  \<open>auth/middleware.py\<close>: the constructor, the buffering of the request body, the reconstruction of
  the signed URL, the resolution of an identity (direct or delegated) and the handling of one ASGI
  call. Header bytes are decoded as latin-1, which is the identity on 8-bit characters. The
  semaphore and the time-out around the wrapped application are not modelled: the outcome
  \<open>Handled rq messages\<close> is the application being called with \<open>rq\<close> as the current request.
\<close>

record middleware =
  mw_replay_cache :: replay_cache
  mw_clock_skew_seconds :: int
  mw_exempt_paths :: "string set"
  mw_server_pubkey :: "string option"
  mw_revocation_store :: revocation_store
  mw_max_request_body_bytes :: int
  mw_public_base_url :: "string option"

definition str_rstrip_slash :: "string \<Rightarrow> string" where
  "str_rstrip_slash s = rev (dropWhile (\<lambda>c. c = CHR ''/'') (rev s))"

text \<open>
  \<open>x or default\<close> on an object with a \<open>__len__\<close>: the object counts as false when its length is
  zero at this moment. \<open>file\<close> is the revocation file as it is when the constructor runs.
\<close>

definition middleware_init ::
  "toml_file \<Rightarrow> replay_cache option \<Rightarrow> int \<Rightarrow> string set \<Rightarrow> string option \<Rightarrow> revocation_store option \<Rightarrow>
     int \<Rightarrow> string option \<Rightarrow> middleware" where
  "middleware_init file replay_cache clock_skew exempt_paths server_pubkey revocation_store max_body public_base_url =
     \<lparr>mw_replay_cache = (case replay_cache of
          Some c \<Rightarrow> (if replay_len c \<noteq> 0 then c else replay_init DEFAULT_REPLAY_TTL)
        | None \<Rightarrow> replay_init DEFAULT_REPLAY_TTL),
      mw_clock_skew_seconds = clock_skew, mw_exempt_paths = exempt_paths,
      mw_server_pubkey = server_pubkey,
      mw_revocation_store = (case revocation_store of
          Some s \<Rightarrow> (if revocation_len file s \<noteq> 0 then s else StaticRevocations {})
        | None \<Rightarrow> StaticRevocations {}),
      mw_max_request_body_bytes = max_body,
      mw_public_base_url = (case public_base_url of
          Some u \<Rightarrow> (if u \<noteq> [] then Some (str_rstrip_slash u) else None)
        | None \<Rightarrow> None)\<rparr>"

subsection \<open>The request body\<close>

text \<open>What \<open>receive\<close> returns, in order; when the list is exhausted \<open>receive\<close> does not return.\<close>

datatype asgi_message = HttpRequest string bool | HttpDisconnect

definition too_large :: "int \<Rightarrow> exn" where
  "too_large max_bytes = Exn RequestTooLargeError (''request body exceeds '' @ show_int max_bytes @ '' bytes'')"

fun buffer_body :: "int \<Rightarrow> string \<Rightarrow> asgi_message list \<Rightarrow> (exn + string \<times> asgi_message list) option" where
  "buffer_body max_bytes body [] = None"
| "buffer_body max_bytes body (HttpDisconnect # msgs) = Some (Inr (body, msgs))"
| "buffer_body max_bytes body (HttpRequest chunk more_body # msgs) =
     (let body' = body @ chunk
      in if int (length body') > max_bytes then Some (Inl (too_large max_bytes))
         else if more_body then buffer_body max_bytes body' msgs
         else Some (Inr (body', msgs)))"

text \<open>What the application receives instead: the whole body at once, then what is left.\<close>

definition replay_receive :: "string \<times> asgi_message list \<Rightarrow> asgi_message list" where
  "replay_receive b = HttpRequest (fst b) False # snd b"

subsection \<open>The URL\<close>

record http_scope =
  sc_type :: string
  sc_path :: string
  sc_method :: string
  sc_headers :: "(string \<times> string) list"
  sc_scheme :: "string option"
  sc_server :: "(string \<times> int option) option"
  sc_root_path :: "string option"
  sc_query_string :: "string option"

definition headers_of :: "http_scope \<Rightarrow> string \<rightharpoonup> string" where
  "headers_of sc = map_of (rev (map (map_prod str_lower id) (sc_headers sc)))"

definition or_empty :: "string option \<Rightarrow> string" where
  "or_empty s = (case s of None \<Rightarrow> [] | Some t \<Rightarrow> t)"

definition with_query :: "string \<Rightarrow> string \<Rightarrow> string" where
  "with_query url query = (if query \<noteq> [] then url @ ''?'' @ query else url)"

definition reconstruct_url :: "string option \<Rightarrow> http_scope \<Rightarrow> exn + string" where
  "reconstruct_url public_base_url sc =
     (let path = or_empty (sc_root_path sc) @ sc_path sc; query = or_empty (sc_query_string sc);
          host = headers_of sc ''host''
      in case public_base_url of
        Some (b # base) \<Rightarrow>
          ebind (urlsplit (b # base)) (\<lambda>(scheme, netloc).
            if scheme \<notin> {''http'', ''https''} \<or> netloc = []
            then Inl (Exn ValueError ''public_base_url must be an absolute HTTP(S) origin'')
            else if (case host of Some h \<Rightarrow> h \<noteq> [] \<and> str_lower h \<noteq> str_lower netloc | None \<Rightarrow> False)
            then Inl (Exn ValueError ''request Host does not match configured public_base_url'')
            else Inr (with_query (scheme @ ''://'' @ netloc @ path) query))
      | _ \<Rightarrow>
          (let scheme = (case sc_scheme sc of None \<Rightarrow> ''http'' | Some s \<Rightarrow> s);
               server = (case sc_server sc of None \<Rightarrow> (''localhost'', None) | Some s \<Rightarrow> s);
               authority = (case host of
                   Some (c # h) \<Rightarrow> c # h
                 | _ \<Rightarrow> (case snd server of None \<Rightarrow> fst server | Some port \<Rightarrow> fst server @ '':'' @ show_int port))
           in Inr (with_query (scheme @ ''://'' @ authority @ path) query)))"

subsection \<open>Identity and dispatch\<close>

text \<open>The delegation header down to an identity: every \<open>ValueError\<close> means no identity, any other
  exception leaves the handler.\<close>

definition delegated_identity ::
  "libs \<Rightarrow> (json \<Rightarrow> string) \<Rightarrow> (string \<Rightarrow> exn + identity_record option) \<Rightarrow> toml_file \<Rightarrow> real \<Rightarrow>
     revocation_store \<Rightarrow> string \<Rightarrow> string \<Rightarrow> string \<Rightarrow> exn + identity_record" where
  "delegated_identity L fmt lookup file now revocations server_pubkey pubkey header =
     (case b64decode L header of
        Inl exc \<Rightarrow> Inl (Exn ValueError exc)
      | Inr decoded \<Rightarrow>
          (case json_loads_bytes L decoded of
             Inl exc \<Rightarrow> Inl (Exn ValueError exc)
           | Inr raw \<Rightarrow>
               (case model_validate L raw of
                  Inl exc \<Rightarrow> Inl (Exn ValueError exc)
                | Inr event \<Rightarrow>
                    ebind (verify_delegation_event L event pubkey server_pubkey
                             (is_revoked file revocations) (py_trunc now)) (\<lambda>claim.
                      resolve_delegated_identity fmt now lookup claim))))"

definition resolve_identity ::
  "libs \<Rightarrow> (json \<Rightarrow> string) \<Rightarrow> (string \<Rightarrow> exn + identity_record option) \<Rightarrow> toml_file \<Rightarrow> real \<Rightarrow>
     middleware \<Rightarrow> string \<Rightarrow> (string \<rightharpoonup> string) \<Rightarrow> exn + identity_record option" where
  "resolve_identity L fmt lookup file now mw pubkey headers =
     ebind (lookup pubkey) (\<lambda>record.
     ebind (case record of None \<Rightarrow> Inr None
            | Some r \<Rightarrow> ebind (is_expired now r) (\<lambda>expired. Inr (if expired then None else Some r))) (\<lambda>direct.
     case direct of
       Some r \<Rightarrow> Inr (Some r)
     | None \<Rightarrow>
         (case (mw_server_pubkey mw, headers ''x-nostr-delegation'') of
            (Some server_pubkey, Some (c # header)) \<Rightarrow>
              (case delegated_identity L fmt lookup file now (mw_revocation_store mw) server_pubkey pubkey (c # header) of
                 Inl e \<Rightarrow> if is_value_error e then Inr None else Inl e
               | Inr r \<Rightarrow> Inr (Some r))
          | _ \<Rightarrow> Inr None)))"

datatype outcome =
    PassedThrough
  | Handled authenticated_request "asgi_message list"
  | Refused int string
  | Raised exn
  | Waiting

definition middleware_call ::
  "libs \<Rightarrow> (json \<Rightarrow> string) \<Rightarrow> (string \<Rightarrow> exn + identity_record option) \<Rightarrow> toml_file \<Rightarrow> real \<Rightarrow> real \<Rightarrow>
     http_scope \<Rightarrow> asgi_message list \<Rightarrow> middleware \<Rightarrow> middleware \<times> outcome" where
  "middleware_call L fmt lookup file now tick sc messages mw =
     (if sc_type sc \<noteq> ''http'' \<or> sc_path sc \<in> mw_exempt_paths mw then (mw, PassedThrough)
      else case buffer_body (mw_max_request_body_bytes mw) [] messages of
        None \<Rightarrow> (mw, Waiting)
      | Some (Inl e) \<Rightarrow> (mw, Refused 413 (exn_msg e))
      | Some (Inr (body, rest)) \<Rightarrow>
          (let headers = headers_of sc; authorization = headers ''authorization''
           in case reconstruct_url (mw_public_base_url mw) sc of
                Inl e \<Rightarrow> (mw, Refused 400 (exn_msg e))
              | Inr url \<Rightarrow>
                  (case verify_nip98_request L authorization (sc_method sc) url body
                          (mw_clock_skew_seconds mw) (py_trunc now) tick (mw_replay_cache mw) of
                     (cache, Inl e) \<Rightarrow> (mw\<lparr>mw_replay_cache := cache\<rparr>, Refused 401 (exn_msg e))
                   | (cache, Inr n) \<Rightarrow>
                       (mw\<lparr>mw_replay_cache := cache\<rparr>,
                        (case resolve_identity L fmt lookup file now mw (ni_pubkey n) headers of
                           Inl e \<Rightarrow> Raised e
                         | Inr None \<Rightarrow> Refused 403
                             ''pubkey is not in identity.toml, and no valid delegation was presented''
                         | Inr (Some r) \<Rightarrow> Handled
                             \<lparr>rq_pubkey = ni_pubkey n, rq_event_id = ni_event_id n,
                              rq_event_created_at = ni_created_at n, rq_identity = Some r,
                              rq_authorization = authorization, rq_method = Some (sc_method sc),
                              rq_url = Some url, rq_body = body,
                              rq_delegation = headers ''x-nostr-delegation''\<rparr>
                             (replay_receive (body, rest)))))))"

subsection \<open>Lemmas\<close>

text \<open>The two ways to an identity.\<close>

definition admitted ::
  "libs \<Rightarrow> (json \<Rightarrow> string) \<Rightarrow> (string \<Rightarrow> exn + identity_record option) \<Rightarrow> toml_file \<Rightarrow> real \<Rightarrow> middleware \<Rightarrow>
     string \<Rightarrow> string option \<Rightarrow> identity_record \<Rightarrow> bool" where
  "admitted L fmt lookup file now mw pubkey delegation r \<longleftrightarrow>
     lookup pubkey = Inr (Some r) \<and> is_expired now r = Inr False \<or>
     (\<exists>server header decoded raw e c. mw_server_pubkey mw = Some server \<and> delegation = Some header \<and>
        b64decode L header = Inr decoded \<and> json_loads_bytes L decoded = Inr raw \<and> model_validate L raw = Inr e \<and>
        verify_delegation_event L e pubkey server (is_revoked file (mw_revocation_store mw)) (py_trunc now) = Inr c \<and>
        resolve_delegated_identity fmt now lookup c = Inr r)"

lemma delegated_identity_Inr:
  "delegated_identity L fmt lookup file now revs server pubkey header = Inr r \<longleftrightarrow>
     (\<exists>decoded raw e c. b64decode L header = Inr decoded \<and> json_loads_bytes L decoded = Inr raw \<and>
        model_validate L raw = Inr e \<and>
        verify_delegation_event L e pubkey server (is_revoked file revs) (py_trunc now) = Inr c \<and>
        resolve_delegated_identity fmt now lookup c = Inr r)"
  by (auto simp: delegated_identity_def split: sum.splits)

lemma resolve_identity_admitted:
  assumes "resolve_identity L fmt lookup file now mw pubkey headers = Inr (Some r)"
  shows "admitted L fmt lookup file now mw pubkey (headers ''x-nostr-delegation'') r"
proof -
  obtain found direct where
    found: "lookup pubkey = Inr found" and
    direct: "(case found of None \<Rightarrow> Inr None
      | Some r \<Rightarrow> ebind (is_expired now r) (\<lambda>expired. Inr (if expired then None else Some r))) = Inr direct" and
    rest: "(case direct of Some r \<Rightarrow> Inr (Some r)
      | None \<Rightarrow> (case (mw_server_pubkey mw, headers ''x-nostr-delegation'') of
            (Some server_pubkey, Some (c # header)) \<Rightarrow>
              (case delegated_identity L fmt lookup file now (mw_revocation_store mw) server_pubkey pubkey (c # header) of
                 Inl e \<Rightarrow> if is_value_error e then Inr None else Inl e
               | Inr r \<Rightarrow> Inr (Some r))
          | _ \<Rightarrow> Inr None)) = Inr (Some r)"
    using assms unfolding resolve_identity_def ebind_Inr by blast
  show ?thesis
  proof (cases direct)
    case (Some q)
    then have "q = r" using rest by simp
    with Some direct found show ?thesis
      by (cases found) (auto simp: admitted_def split: if_splits)
  next
    case None
    then obtain server c header where d: "mw_server_pubkey mw = Some server"
        "headers ''x-nostr-delegation'' = Some (c # header)"
        "delegated_identity L fmt lookup file now (mw_revocation_store mw) server pubkey (c # header) = Inr r"
      using rest by (auto split: option.splits list.splits sum.splits if_splits)
    then show ?thesis unfolding delegated_identity_Inr admitted_def by blast
  qed
qed

lemma middleware_handled:
  assumes "snd (middleware_call L fmt lookup file now tick sc messages mw) = Handled rq app_messages"
  shows "sc_type sc = ''http'' \<and> sc_path sc \<notin> mw_exempt_paths mw \<and>
    (\<exists>body rest url n. buffer_body (mw_max_request_body_bytes mw) [] messages = Some (Inr (body, rest)) \<and>
       reconstruct_url (mw_public_base_url mw) sc = Inr url \<and>
       snd (verify_nip98_request L (headers_of sc ''authorization'') (sc_method sc) url body
         (mw_clock_skew_seconds mw) (py_trunc now) tick (mw_replay_cache mw)) = Inr n \<and>
       rq_pubkey rq = ni_pubkey n \<and> rq_event_id rq = ni_event_id n \<and> rq_event_created_at rq = ni_created_at n \<and>
       rq_authorization rq = headers_of sc ''authorization'' \<and> rq_method rq = Some (sc_method sc) \<and>
       rq_url rq = Some url \<and> rq_body rq = body \<and> rq_delegation rq = headers_of sc ''x-nostr-delegation'' \<and>
       app_messages = HttpRequest body False # rest \<and>
       (\<exists>r. rq_identity rq = Some r \<and>
          resolve_identity L fmt lookup file now mw (ni_pubkey n) (headers_of sc) = Inr (Some r)))"
  using assms
  by (auto simp: middleware_call_def replay_receive_def Let_def split: if_splits option.splits sum.splits prod.splits)

context identity_backend begin

lemma admitted_granted:
  assumes "admitted L fmt lookup file now mw pubkey delegation r" "s \<in> id_scopes r"
  shows "\<exists>pk d role. lookup pk = Inr (Some d) \<and> is_expired now d = Inr False \<and>
    role \<in> set (id_roles d) \<and> s \<in> role_scope_set role \<and> (pk = pubkey \<or>
    (\<exists>server header decoded raw e expiry n. mw_server_pubkey mw = Some server \<and> delegation = Some header \<and>
       b64decode L header = Inr decoded \<and> json_loads_bytes L decoded = Inr raw \<and> model_validate L raw = Inr e \<and>
       ev_kind e = 27236 \<and> ev_id e = compute_event_id L e \<and> verify_signature L e = Inr True \<and>
       \<not> is_revoked file (mw_revocation_store mw) (ev_id e) \<and> pk = ev_pubkey e \<and>
       event_tag e ''p'' = Some pubkey \<and> event_tag e ''server'' = Some server \<and>
       event_tag e ''expiry'' = Some expiry \<and> parse_int expiry = Some n \<and> py_trunc now < n \<and>
       scope_value s \<in> set (tag_values ''scope'' (ev_tags e))))"
  using assms(1) [unfolded admitted_def]
proof (elim disjE exE conjE)
  assume "lookup pubkey = Inr (Some r)" "is_expired now r = Inr False"
  with scope_needs_role assms(2) show ?thesis by blast
next
  fix server header decoded raw e c
  assume d: "mw_server_pubkey mw = Some server" "delegation = Some header" "b64decode L header = Inr decoded"
    "json_loads_bytes L decoded = Inr raw" "model_validate L raw = Inr e"
    "verify_delegation_event L e pubkey server (is_revoked file (mw_revocation_store mw)) (py_trunc now) = Inr c"
    "resolve_delegated_identity fmt now lookup c = Inr r"
  note accepted = d(6) [unfolded verify_delegation_event_Inr delegation_accepted_def]
  from delegated_scope_held [OF d(7) assms(2)] accepted obtain k role where "lookup (ev_pubkey e) = Inr (Some k)" "is_expired now k = Inr False"
    "role \<in> set (id_roles k)" "s \<in> role_scope_set role" "s \<in> dc_requested_scopes c" by metis
  with accepted d(1-5) show ?thesis by (intro exI [of _ "ev_pubkey e"] exI [of _ k] exI [of _ role]) auto
qed

end

subsection \<open>Properties\<close>

text \<open>
  C10: the gate. The wrapped application is called with a request context only for an HTTP call
  outside the exempt paths whose body fits the limit and whose header carries an event that verifies
  for this method, this URL and this body at this time and was not used before; the public key of
  the context is the event's author, the body the application receives is the body that was checked,
  and the identity is the author's own unexpired record or comes from an accepted delegation to the
  author.
\<close>

theorem middleware_gate:
  assumes "snd (middleware_call L fmt lookup file now tick sc messages mw) = Handled rq app_messages"
  shows "sc_type sc = ''http'' \<and> sc_path sc \<notin> mw_exempt_paths mw \<and>
    (\<exists>e url rest r. header_event L (headers_of sc ''authorization'') e \<and>
       reconstruct_url (mw_public_base_url mw) sc = Inr url \<and>
       buffer_body (mw_max_request_body_bytes mw) [] messages = Some (Inr (rq_body rq, rest)) \<and>
       app_messages = HttpRequest (rq_body rq) False # rest \<and>
       ev_kind e = 27235 \<and> ev_id e = compute_event_id L e \<and> verify_signature L e = Inr True \<and>
       event_tag e ''u'' = Some url \<and> \<bar>py_trunc now - ev_created_at e\<bar> \<le> mw_clock_skew_seconds mw \<and>
       (\<exists>m. event_tag e ''method'' = Some m \<and> str_upper m = str_upper (sc_method sc)) \<and>
       (rq_body rq = [] \<or> event_tag e ''payload'' = Some (sha256_bytes L (rq_body rq))) \<and>
       (\<forall>t. (ev_id e, t) \<in> set (rc_seen (mw_replay_cache mw)) \<longrightarrow> t \<le> tick) \<and>
       rq_pubkey rq = ev_pubkey e \<and> rq_identity rq = Some r \<and>
       admitted L fmt lookup file now mw (ev_pubkey e) (headers_of sc ''x-nostr-delegation'') r)"
proof -
  obtain body rest url n r where h: "sc_type sc = ''http''" "sc_path sc \<notin> mw_exempt_paths mw"
      "buffer_body (mw_max_request_body_bytes mw) [] messages = Some (Inr (body, rest))"
      "reconstruct_url (mw_public_base_url mw) sc = Inr url"
      "snd (verify_nip98_request L (headers_of sc ''authorization'') (sc_method sc) url body
         (mw_clock_skew_seconds mw) (py_trunc now) tick (mw_replay_cache mw)) = Inr n"
      "rq_pubkey rq = ni_pubkey n" "rq_body rq = body" "app_messages = HttpRequest body False # rest"
      "rq_identity rq = Some r" "resolve_identity L fmt lookup file now mw (ni_pubkey n) (headers_of sc) = Inr (Some r)"
    using middleware_handled [OF assms] by blast
  from h(5) obtain e where e: "parse_authorization L (headers_of sc ''authorization'') = Inr e"
      "check_event L e (sc_method sc) url body (mw_clock_skew_seconds mw) (py_trunc now) = Inr ()"
      "snd (check_and_record tick (ev_id e) (mw_replay_cache mw)) = Inr ()" "ni_pubkey n = ev_pubkey e"
    unfolding verify_nip98_Inr by auto
  have "header_event L (headers_of sc ''authorization'') e"
    using e(1) unfolding parse_authorization_Inr header_event_def .
  moreover have "admitted L fmt lookup file now mw (ev_pubkey e) (headers_of sc ''x-nostr-delegation'') r"
    using resolve_identity_admitted [OF h(10)] e(4) by simp
  moreover note e(2) [unfolded check_event_Inr] e(3) [unfolded check_and_record_Inr]
  ultimately have "header_event L (headers_of sc ''authorization'') e \<and>
       reconstruct_url (mw_public_base_url mw) sc = Inr url \<and>
       buffer_body (mw_max_request_body_bytes mw) [] messages = Some (Inr (rq_body rq, rest)) \<and>
       app_messages = HttpRequest (rq_body rq) False # rest \<and>
       ev_kind e = 27235 \<and> ev_id e = compute_event_id L e \<and> verify_signature L e = Inr True \<and>
       event_tag e ''u'' = Some url \<and> \<bar>py_trunc now - ev_created_at e\<bar> \<le> mw_clock_skew_seconds mw \<and>
       (\<exists>m. event_tag e ''method'' = Some m \<and> str_upper m = str_upper (sc_method sc)) \<and>
       (rq_body rq = [] \<or> event_tag e ''payload'' = Some (sha256_bytes L (rq_body rq))) \<and>
       (\<forall>t. (ev_id e, t) \<in> set (rc_seen (mw_replay_cache mw)) \<longrightarrow> t \<le> tick) \<and>
       rq_pubkey rq = ev_pubkey e \<and> rq_identity rq = Some r \<and>
       admitted L fmt lookup file now mw (ev_pubkey e) (headers_of sc ''x-nostr-delegation'') r"
    using h e(4) by simp
  with h(1,2) show ?thesis by blast
qed

definition example_scope :: http_scope where
  "example_scope = \<lparr>sc_type = ''http'', sc_path = ''/mcp'', sc_method = ''POST'',
     sc_headers = [(''authorization'', ''nostr e''), (''host'', ''h'')], sc_scheme = Some ''https'',
     sc_server = None, sc_root_path = None, sc_query_string = None\<rparr>"

definition example_middleware :: middleware where
  "example_middleware = middleware_init TomlMissing None 60 {} None None 1048576 None"

definition example_author :: identity_record where
  "example_author = \<lparr>id_pubkey = replicate 64 CHR ''a'', id_name = JStr ''alice'', id_roles = [], id_scopes = {},
     id_expires = None, id_armada_key_path = None\<rparr>"

definition example_handled :: authenticated_request where
  "example_handled = \<lparr>rq_pubkey = replicate 64 CHR ''a'', rq_event_id = replicate 64 CHR ''a'', rq_event_created_at = 1000,
     rq_identity = Some example_author, rq_authorization = Some ''nostr e'', rq_method = Some ''POST'',
     rq_url = Some ''https://h/mcp'', rq_body = ''body'', rq_delegation = None\<rparr>"

lemma example_headers:
  "headers_of example_scope ''authorization'' = Some ''nostr e''" "headers_of example_scope ''host'' = Some ''h''"
  "headers_of example_scope ''x-nostr-delegation'' = None"
  by (simp_all add: headers_of_def example_scope_def str_lower_def lower_char_def is_upper_def code_def)

lemma example_url: "reconstruct_url None example_scope = Inr ''https://h/mcp''"
  by (simp add: reconstruct_url_def Let_def example_headers)
     (simp add: example_scope_def or_empty_def with_query_def)

lemma example_call_identity:
  assumes "\<And>headers. resolve_identity example_http_libs (\<lambda>_. []) lookup TomlMissing 1000 example_middleware
      (replicate 64 CHR ''a'') headers = Inr (Some r)"
  shows "snd (middleware_call example_http_libs (\<lambda>_. []) lookup TomlMissing 1000 0 example_scope
     [HttpRequest ''body'' False] example_middleware)
    = Handled (example_handled\<lparr>rq_identity := Some r\<rparr>) [HttpRequest ''body'' False]"
proof -
  have "py_trunc 1000 = 1000" by (simp add: py_trunc_def)
  moreover have "check_and_record 0 (ev_id example_http_event) (replay_init 300) =
      ((replay_init 300)\<lparr>rc_seen := [(ev_id example_http_event, 300)]\<rparr>, Inr ())"
    by (simp add: check_and_record_def replay_prune_def replay_init_def)
  moreover have mw: "mw_exempt_paths example_middleware = {}" "mw_max_request_body_bytes example_middleware = 1048576"
    "mw_public_base_url example_middleware = None" "mw_clock_skew_seconds example_middleware = 60"
    "mw_replay_cache example_middleware = replay_init 300" "mw_server_pubkey example_middleware = None"
    by (simp_all add: example_middleware_def middleware_init_def DEFAULT_REPLAY_TTL_def)
  moreover note assms
  moreover have "sc_type example_scope = ''http''" "sc_method example_scope = ''POST''"
    by (simp_all add: example_scope_def)
  moreover have "ev_pubkey example_http_event = replicate 64 CHR ''a''" "ev_id example_http_event = replicate 64 CHR ''a''"
    "ev_created_at example_http_event = 1000"
    by (simp_all add: example_http_event_def)
  ultimately show ?thesis
    by (simp add: middleware_call_def example_headers example_url verify_nip98_request_def example_http_parses
        example_http_checks example_handled_def replay_receive_def Let_def)
qed

lemma example_call:
  "snd (middleware_call example_http_libs (\<lambda>_. []) (\<lambda>_. Inr (Some example_author)) TomlMissing 1000 0 example_scope
     [HttpRequest ''body'' False] example_middleware) = Handled example_handled [HttpRequest ''body'' False]"
proof -
  have "resolve_identity example_http_libs (\<lambda>_. []) (\<lambda>_. Inr (Some example_author)) TomlMissing 1000
      example_middleware pubkey headers = Inr (Some example_author)" for pubkey headers
    by (simp add: resolve_identity_def is_expired_def example_author_def)
  from example_call_identity [OF this] show ?thesis by (simp add: example_handled_def)
qed

theorem middleware_gate_witness:
  "\<exists>e. header_event example_http_libs (Some ''nostr e'') e \<and> ev_kind e = 27235 \<and> rq_pubkey example_handled = ev_pubkey e"
  using middleware_gate [OF example_call] by (auto simp: example_headers)

text \<open>
  C11: every scope a request carries was granted by the configuration, to its author or to whoever delegated to its author.
  With \<open>identity.toml\<close> read live, each scope of a handled request belongs to a role that an entry of the file, as read by this
  very call, gives to an unexpired public key.  This key is the author of the verified event that signs the request, whose key
  the request carries, or the author of a verified, unrevoked and unexpired delegation event, presented with the request, that
  names the author of the request, this server and this scope.
\<close>

theorem request_scopes_granted:
  assumes "snd (middleware_call L fmt (identity_lookup L fmt ids (LiveStore path)) file now tick sc messages mw)
      = Handled rq app_messages"
    and "has_scope rq s"
  shows "\<exists>e data entries raw_key entry d role. header_event L (headers_of sc ''authorization'') e \<and>
    ev_id e = compute_event_id L e \<and> verify_signature L e = Inr True \<and> rq_pubkey rq = ev_pubkey e \<and>
    ids = TomlDoc data \<and> dget_default data ''identity'' (JObj []) = JObj entries \<and> (raw_key, JObj entry) \<in> set entries \<and>
    resolve_key_to_hex L raw_key = Inr (id_pubkey d) \<and>
    py_tuple (dget_default entry ''roles'' (JList [])) = Inr (map JStr (id_roles d)) \<and>
    parse_expires L (dget entry ''expires'') = Inr (id_expires d) \<and> is_expired now d = Inr False \<and>
    role \<in> set (id_roles d) \<and> s \<in> role_scope_set role \<and>
    (id_pubkey d = ev_pubkey e \<or>
     (\<exists>server header decoded raw g expiry n. mw_server_pubkey mw = Some server \<and> headers_of sc ''x-nostr-delegation'' = Some header \<and>
        b64decode L header = Inr decoded \<and> json_loads_bytes L decoded = Inr raw \<and> model_validate L raw = Inr g \<and>
        ev_kind g = 27236 \<and> ev_id g = compute_event_id L g \<and> verify_signature L g = Inr True \<and>
        \<not> is_revoked file (mw_revocation_store mw) (ev_id g) \<and> id_pubkey d = ev_pubkey g \<and>
        event_tag g ''p'' = Some (ev_pubkey e) \<and> event_tag g ''server'' = Some server \<and>
        event_tag g ''expiry'' = Some expiry \<and> parse_int expiry = Some n \<and> py_trunc now < n \<and>
        scope_value s \<in> set (tag_values ''scope'' (ev_tags g))))"
proof -
  let ?lookup = "identity_lookup L fmt ids (LiveStore path)"
  from middleware_handled [OF assms(1)] obtain url body n r where h:
    "snd (verify_nip98_request L (headers_of sc ''authorization'') (sc_method sc) url body
       (mw_clock_skew_seconds mw) (py_trunc now) tick (mw_replay_cache mw)) = Inr n"
    "rq_pubkey rq = ni_pubkey n" "rq_identity rq = Some r"
    "resolve_identity L fmt ?lookup file now mw (ni_pubkey n) (headers_of sc) = Inr (Some r)" by blast
  from h(1) obtain e where "parse_authorization L (headers_of sc ''authorization'') = Inr e" "ni_pubkey n = ev_pubkey e"
    "check_event L e (sc_method sc) url body (mw_clock_skew_seconds mw) (py_trunc now) = Inr ()" by (auto simp: verify_nip98_Inr)
  then have e: "header_event L (headers_of sc ''authorization'') e" "ni_pubkey n = ev_pubkey e" "ev_id e = compute_event_id L e"
    "verify_signature L e = Inr True" by (simp_all add: parse_authorization_Inr header_event_def check_event_Inr)
  have "s \<in> id_scopes r" using assms(2) h(3) by (simp add: has_scope_def request_scopes_def)
  from toml_backend.admitted_granted [OF resolve_identity_admitted [OF h(4)] this, unfolded e(2)] obtain pk d role where d: "?lookup pk = Inr (Some d)" "is_expired now d = Inr False" "role \<in> set (id_roles d)" "s \<in> role_scope_set role" and
    pk: "pk = ev_pubkey e \<or> (\<exists>server header decoded raw g expiry n. mw_server_pubkey mw = Some server \<and>
        headers_of sc ''x-nostr-delegation'' = Some header \<and>
        b64decode L header = Inr decoded \<and> json_loads_bytes L decoded = Inr raw \<and> model_validate L raw = Inr g \<and>
        ev_kind g = 27236 \<and> ev_id g = compute_event_id L g \<and> verify_signature L g = Inr True \<and>
        \<not> is_revoked file (mw_revocation_store mw) (ev_id g) \<and> pk = ev_pubkey g \<and>
        event_tag g ''p'' = Some (ev_pubkey e) \<and> event_tag g ''server'' = Some server \<and>
        event_tag g ''expiry'' = Some expiry \<and> parse_int expiry = Some n \<and> py_trunc now < n \<and>
        scope_value s \<in> set (tag_values ''scope'' (ev_tags g)))" by blast
  from d(1) obtain records where "load_records L fmt path ids = Inr records" "map_of records pk = Some d"
    by (auto simp: live_lookup split: sum.splits if_splits)
  from load_records_Inr [OF this] obtain data entries raw_key entry where
    f: "ids = TomlDoc data" "dget_default data ''identity'' (JObj []) = JObj entries" "(raw_key, JObj entry) \<in> set entries"
      "id_pubkey d = pk" "record_of L raw_key entry d" by blast
  from pk [folded f(4)] d(2-4) e h(2) f(1-3) f(5) [unfolded record_of_def] show ?thesis by metis
qed

theorem request_scopes_granted_witness:
  "\<exists>data d role. example_identities ''operator'' = TomlDoc data \<and> id_pubkey d = replicate 64 CHR ''a'' \<and>
     is_expired 1000 d = Inr False \<and> role \<in> set (id_roles d) \<and> SERVICES_STOP \<in> role_scope_set role"
proof -
  let ?lookup = "identity_lookup example_http_libs (\<lambda>_. []) (example_identities ''operator'') (LiveStore ''identity.toml'')"
  let ?r = "\<lparr>id_pubkey = example_key, id_name = JStr ''alice'', id_roles = [''operator''],
      id_scopes = role_scope_set ''operator'', id_expires = None, id_armada_key_path = None\<rparr>"
  have known: "''operator'' \<in> set known_roles" by (simp add: known_roles_def ROLE_SCOPES_def)
  have lookup: "?lookup (replicate 64 CHR ''a'') = Inr (Some ?r)"
    using example_lookup [OF known] by (simp add: example_key_def)
  have "resolve_identity example_http_libs (\<lambda>_. []) ?lookup TomlMissing 1000 example_middleware
      (replicate 64 CHR ''a'') headers = Inr (Some ?r)" for headers
    by (simp add: resolve_identity_def lookup is_expired_def)
  then have call: "snd (middleware_call example_http_libs (\<lambda>_. []) ?lookup TomlMissing 1000 0 example_scope
      [HttpRequest ''body'' False] example_middleware)
      = Handled (example_handled\<lparr>rq_identity := Some ?r\<rparr>) [HttpRequest ''body'' False]"
    by (rule example_call_identity)
  have scope: "has_scope (example_handled\<lparr>rq_identity := Some ?r\<rparr>) SERVICES_STOP"
    by (simp add: has_scope_def request_scopes_def role_scope_set_def ROLE_SCOPES_def ROLE_OPERATOR_def)
  have "mw_server_pubkey example_middleware = None" by (simp add: example_middleware_def middleware_init_def)
  moreover have "rq_pubkey (example_handled\<lparr>rq_identity := Some ?r\<rparr>) = replicate 64 CHR ''a''" by (simp add: example_handled_def)
  ultimately show ?thesis using request_scopes_granted [OF call scope] by (elim exE conjE disjE) auto
qed

text \<open>
  An empty store handed to the constructor is dropped, because a store with a length counts as
  false while it is empty. The cache the frontend configures, always empty at start-up, is replaced by
  one with the default lifetime; and a live revocation store whose file is missing, empty or malformed
  at that moment is replaced by a store that never revokes anything, whatever the file says later.
\<close>

theorem empty_stores_are_dropped:
  "mw_replay_cache (middleware_init file (Some (replay_init ttl)) skew exempt server revs max_body base) = replay_init 300 \<and>
   (revocation_len file (LiveRevocations path) = 0 \<longrightarrow>
      \<not> is_revoked later (mw_revocation_store
          (middleware_init file cache skew exempt server (Some (LiveRevocations path)) max_body base)) i)"
  by (simp add: middleware_init_def replay_len_def replay_init_def DEFAULT_REPLAY_TTL_def is_revoked_def)

theorem empty_stores_are_dropped_witness:
  "is_revoked (TomlDoc [(''revoked'', JList [JStr ''d1''])]) (LiveRevocations ''r.toml'') ''d1'' \<and>
   \<not> is_revoked (TomlDoc [(''revoked'', JList [JStr ''d1''])]) (mw_revocation_store
      (middleware_init (TomlMalformed ''half written'') None 60 {} None (Some (LiveRevocations ''r.toml'')) 1048576 None)) ''d1''"
proof -
  have "revocation_len (TomlMalformed ''half written'') (LiveRevocations ''r.toml'') = 0"
    by (simp add: revocation_len_def load_revoked_ids_def)
  with empty_stores_are_dropped [of "TomlMalformed ''half written''"] show ?thesis
    by (simp add: is_revoked_def load_revoked_ids_def)
qed

end
