(* ===== verification/Ticket_Spec.thy ===== *)
theory Ticket_Spec
  imports Nostr
begin

text \<open>
  The contract of a confirmation store (\<open>policy/confirmation.py\<close>): tickets, the verification of
  an owner approval, the abstract store (a partial map from ids to a ticket and its in-flight
  mark) with one specification function per operation. The locale \<open>confirmation_store\<close>
  of theory \<open>Store_Contract\<close> proves every client fact once. Both concrete stores of
  the source are shown to refine this specification in theory \<open>Confirmation\<close>.
\<close>

record ticket =
  tk_id :: string
  tk_pubkey :: string
  tk_tool :: string
  tk_arguments_hash :: string
  tk_plan :: json
  tk_created_at :: real
  tk_expires_at :: real
  tk_operation_hash :: string
  tk_owner_approved_by :: "string option"

definition OWNER_APPROVAL_KIND :: int where
  "OWNER_APPROVAL_KIND = 24243"

definition hash_arguments :: "libs \<Rightarrow> dict \<Rightarrow> string" where
  "hash_arguments L arguments =
     sha256_hex L (json_text (float_text L) default_format (json_sorted (JObj arguments)))"

definition operation_hash :: "libs \<Rightarrow> string \<Rightarrow> string \<Rightarrow> string \<Rightarrow> dict \<Rightarrow> string" where
  "operation_hash L confirmation_id pubkey tool arguments =
     sha256_hex L (json_text (float_text L) default_format (json_sorted (JObj
       [(''confirmation_id'', JStr confirmation_id), (''requester_pubkey'', JStr pubkey),
        (''tool'', JStr tool), (''arguments'', JObj arguments)])))"

subsection \<open>Owner approvals\<close>

text \<open>What \<open>approve\<close> is given: an event, an object, a text, or anything else.\<close>

datatype approval_input =
    ApprovalEvent nostr_event
  | ApprovalDict dict
  | ApprovalText string
  | ApprovalOther

definition validate_approval :: "libs \<Rightarrow> json \<Rightarrow> exn + nostr_event" where
  "validate_approval L data =
     (case model_validate L data of
        Inl exc \<Rightarrow> Inl (Exn ConfirmationError (''malformed owner approval event: '' @ exc))
      | Inr e \<Rightarrow> Inr e)"

fun parse_owner_approval :: "libs \<Rightarrow> approval_input \<Rightarrow> exn + nostr_event" where
  "parse_owner_approval L (ApprovalEvent e) = Inr e"
| "parse_owner_approval L (ApprovalDict d) = validate_approval L (JObj d)"
| "parse_owner_approval L (ApprovalText s) =
     (case json_loads L s of
        Inl exc \<Rightarrow> Inl (Exn ConfirmationError (''owner approval must be JSON: '' @ exc))
      | Inr data \<Rightarrow> validate_approval L data)"
| "parse_owner_approval L ApprovalOther =
     Inl (Exn ConfirmationError ''owner approval must be a signed Nostr event (JSON string or object)'')"

definition verify_owner_approval ::
  "libs \<Rightarrow> nostr_event \<Rightarrow> string \<Rightarrow> string \<Rightarrow> string \<Rightarrow> exn + string" where
  "verify_owner_approval L event owner_pubkey confirmation_id op_hash =
     (case verify_event L event of
        Inl exc \<Rightarrow> Inl (Exn ConfirmationError (''owner approval signature invalid: '' @ exn_msg exc))
      | Inr _ \<Rightarrow>
          if ev_pubkey event \<noteq> owner_pubkey
          then Inl (Exn ConfirmationError (''owner approval is not signed by the configured owner - '' @
                 ''owner co-signing requires the exact configured owner identity to sign the approval''))
          else if ev_kind event \<noteq> OWNER_APPROVAL_KIND
          then Inl (Exn ConfirmationError ''owner approval must be a kind-24243 approval event'')
          else if event_tag event ''confirmation_id'' \<noteq> Some confirmation_id \<or>
                  event_tag event ''operation_hash'' \<noteq> Some op_hash
          then Inl (Exn ConfirmationError (''owner approval does not match this confirmation '' @
                 ''(confirmation_id/operation_hash mismatch)''))
          else Inr (ev_pubkey event))"

text \<open>The two calls as the stores make them.\<close>

definition check_approval ::
  "libs \<Rightarrow> approval_input \<Rightarrow> string \<Rightarrow> ticket \<Rightarrow> exn + string" where
  "check_approval L signed_approval owner_pubkey t =
     ebind (parse_owner_approval L signed_approval) (\<lambda>event.
       verify_owner_approval L event owner_pubkey (tk_id t) (tk_operation_hash t))"

text \<open>What an accepted approval is: an event of the owner, valid, of the approval kind, that
  names this ticket and this operation.\<close>

definition approval_event :: "libs \<Rightarrow> string \<Rightarrow> string \<Rightarrow> string \<Rightarrow> nostr_event \<Rightarrow> bool" where
  "approval_event L owner_pubkey confirmation_id op_hash e \<longleftrightarrow>
     ev_id e = compute_event_id L e \<and> verify_signature L e = Inr True \<and>
     ev_pubkey e = owner_pubkey \<and> ev_kind e = 24243 \<and>
     event_tag e ''confirmation_id'' = Some confirmation_id \<and>
     event_tag e ''operation_hash'' = Some op_hash"

lemma verify_owner_approval_Inr:
  "verify_owner_approval L e owner cid oh = Inr p \<longleftrightarrow> approval_event L owner cid oh e \<and> p = owner"
proof (cases "verify_event L e")
  case (Inl x)
  then have "\<not> approval_event L owner cid oh e"
    using verify_event_Inr [of L e "()"] by (auto simp: approval_event_def)
  with Inl show ?thesis by (simp add: verify_owner_approval_def)
next
  case (Inr u)
  then show ?thesis
    using verify_event_Inr [of L e u]
    by (auto simp: verify_owner_approval_def approval_event_def OWNER_APPROVAL_KIND_def Inr)
qed

lemma check_approval_Inr:
  "check_approval L a owner t = Inr p \<longleftrightarrow>
     (\<exists>e. parse_owner_approval L a = Inr e \<and>
          approval_event L owner (tk_id t) (tk_operation_hash t) e \<and> p = owner)"
  by (auto simp: check_approval_def verify_owner_approval_Inr)

lemma parse_owner_approval_Inl:
  "parse_owner_approval L a = Inl x \<Longrightarrow> exn_cls x = ConfirmationError"
  by (cases a) (auto simp: validate_approval_def split: sum.splits)

lemma verify_owner_approval_Inl:
  "verify_owner_approval L e owner cid oh = Inl x \<Longrightarrow> exn_cls x = ConfirmationError"
  by (cases "verify_event L e") (auto simp: verify_owner_approval_def split: if_splits)

lemma check_approval_Inl: "check_approval L a owner t = Inl x \<Longrightarrow> exn_cls x = ConfirmationError"
  by (auto simp: check_approval_def ebind_Inl
      dest: parse_owner_approval_Inl verify_owner_approval_Inl)

subsection \<open>The abstract store\<close>

text \<open>An id is absent, or bound to a ticket and a mark: claimed by a deferred consume or not.\<close>

type_synonym astore = "string \<rightharpoonup> ticket \<times> bool"

abbreviation confirmation_error :: "string \<Rightarrow> exn" where
  "confirmation_error msg \<equiv> Exn ConfirmationError msg"

definition unknown_id :: exn where
  "unknown_id = confirmation_error ''unknown or already-used confirmation_id''"
definition expired_id :: exn where
  "expired_id = confirmation_error ''confirmation has expired''"
definition consumed_id :: exn where
  "consumed_id = confirmation_error ''confirmation has already been consumed''"
definition other_identity :: exn where
  "other_identity = confirmation_error ''confirmation was issued to a different identity''"
definition other_tool :: exn where
  "other_tool = confirmation_error ''confirmation was issued for a different tool''"
definition other_arguments :: exn where
  "other_arguments = confirmation_error ''confirmation does not match these exact arguments''"
definition unapproved :: exn where
  "unapproved = confirmation_error
     ''this operation requires owner co-signature - use approve_operation() first''"

lemmas ticket_errors = unknown_id_def expired_id_def consumed_id_def other_identity_def
  other_tool_def other_arguments_def unapproved_def

lemma ticket_error_class [simp]:
  "exn_cls unknown_id = ConfirmationError" "exn_cls expired_id = ConfirmationError"
  "exn_cls consumed_id = ConfirmationError" "exn_cls other_identity = ConfirmationError"
  "exn_cls other_tool = ConfirmationError" "exn_cls other_arguments = ConfirmationError"
  "exn_cls unapproved = ConfirmationError"
  by (simp_all add: ticket_errors)

definition make_ticket ::
  "libs \<Rightarrow> real \<Rightarrow> int \<Rightarrow> string \<Rightarrow> string \<Rightarrow> string \<Rightarrow> dict \<Rightarrow> json \<Rightarrow> ticket" where
  "make_ticket L now ttl confirmation_id pubkey tool arguments plan =
     \<lparr>tk_id = confirmation_id, tk_pubkey = pubkey, tk_tool = tool,
      tk_arguments_hash = hash_arguments L arguments, tk_plan = plan,
      tk_created_at = now, tk_expires_at = now + of_int ttl,
      tk_operation_hash = operation_hash L confirmation_id pubkey tool arguments,
      tk_owner_approved_by = None\<rparr>"

definition spec_peek :: "real \<Rightarrow> string \<Rightarrow> astore \<Rightarrow> astore \<times> (exn + ticket)" where
  "spec_peek now cid a = (case a cid of
      None \<Rightarrow> (a, Inl unknown_id)
    | Some (t, claimed) \<Rightarrow>
        if now \<ge> tk_expires_at t then (a(cid := None), Inl expired_id)
        else if claimed then (a, Inl consumed_id)
        else (a, Inr t))"

definition spec_approve ::
  "libs \<Rightarrow> real \<Rightarrow> string \<Rightarrow> string \<Rightarrow> approval_input \<Rightarrow> astore \<Rightarrow> astore \<times> (exn + ticket)" where
  "spec_approve L now cid owner approval a = (case a cid of
      None \<Rightarrow> (a, Inl unknown_id)
    | Some (t, claimed) \<Rightarrow>
        if now \<ge> tk_expires_at t then (a(cid := None), Inl expired_id)
        else if claimed then (a, Inl consumed_id)
        else (case check_approval L approval owner t of
            Inl e \<Rightarrow> (a, Inl e)
          | Inr approver \<Rightarrow>
              (let t' = t\<lparr>tk_owner_approved_by := Some approver\<rparr> in (a(cid \<mapsto> (t', False)), Inr t'))))"

definition spec_consume ::
  "libs \<Rightarrow> real \<Rightarrow> string \<Rightarrow> string \<Rightarrow> string \<Rightarrow> dict \<Rightarrow> bool \<Rightarrow> bool \<Rightarrow> astore \<Rightarrow> astore \<times> (exn + ticket)" where
  "spec_consume L now cid pubkey tool arguments require_owner defer a = (case a cid of
      None \<Rightarrow> (a, Inl unknown_id)
    | Some (t, claimed) \<Rightarrow>
        if now \<ge> tk_expires_at t then (a(cid := None), Inl expired_id)
        else if tk_pubkey t \<noteq> pubkey then (a(cid := None), Inl other_identity)
        else if tk_tool t \<noteq> tool then (a(cid := None), Inl other_tool)
        else if tk_arguments_hash t \<noteq> hash_arguments L arguments then (a(cid := None), Inl other_arguments)
        else if require_owner \<and> tk_owner_approved_by t = None then (a, Inl unapproved)
        else if \<not> defer then (a(cid := None), Inr t)
        else if claimed then (a, Inl consumed_id)
        else (a(cid \<mapsto> (t, True)), Inr t))"

definition spec_finalize :: "string \<Rightarrow> astore \<Rightarrow> astore \<times> (exn + unit)" where
  "spec_finalize cid a = (case a cid of
      None \<Rightarrow> (a, Inl unknown_id)
    | Some _ \<Rightarrow> (a(cid := None), Inr ()))"

definition spec_revert :: "string \<Rightarrow> astore \<Rightarrow> astore \<times> (exn + unit)" where
  "spec_revert cid a = (case a cid of
      None \<Rightarrow> (a, Inl unknown_id)
    | Some (t, _) \<Rightarrow> (a(cid \<mapsto> (t, False)), Inr ()))"

lemmas spec_defs = spec_peek_def spec_approve_def spec_consume_def spec_finalize_def spec_revert_def

end
