(* ===== verification/Store_Contract.thy ===== *)
theory Store_Contract
  imports Ticket_Spec
begin

text \<open>
  The public method contract both confirmation stores implement, as a record of operations, the
  abstract store as one instance of it, and the locale \<open>confirmation_store\<close>: an implementation
  that refines the abstract store operation by operation. Facts about sequences of operations
  are proved once, on the abstract store, and carried to every implementation by simulation.
\<close>

record 'st store_api =
  api_create :: "real \<Rightarrow> string \<Rightarrow> string \<Rightarrow> string \<Rightarrow> dict \<Rightarrow> json \<Rightarrow> bool \<Rightarrow> 'st \<Rightarrow> 'st \<times> (exn + ticket)"
  api_approve :: "real \<Rightarrow> string \<Rightarrow> string \<Rightarrow> approval_input \<Rightarrow> 'st \<Rightarrow> 'st \<times> (exn + ticket)"
  api_peek :: "real \<Rightarrow> string \<Rightarrow> 'st \<Rightarrow> 'st \<times> (exn + ticket)"
  api_consume :: "real \<Rightarrow> string \<Rightarrow> string \<Rightarrow> string \<Rightarrow> dict \<Rightarrow> bool \<Rightarrow> bool \<Rightarrow> 'st \<Rightarrow> 'st \<times> (exn + ticket)"
  api_finalize :: "string \<Rightarrow> 'st \<Rightarrow> 'st \<times> (exn + unit)"
  api_revert :: "string \<Rightarrow> 'st \<Rightarrow> 'st \<times> (exn + unit)"

text \<open>
  One call on a store. The id of a new ticket is the \<open>uuid4\<close> drawn by the call; the time is the
  clock reading of the call.
\<close>

datatype store_call =
    Create real string string string dict json bool
  | Approve real string string approval_input
  | Peek real string
  | Consume real string string string dict bool bool
  | Finalize string
  | Revert string

fun call_id :: "store_call \<Rightarrow> string" where
  "call_id (Create _ cid _ _ _ _ _) = cid"
| "call_id (Approve _ cid _ _) = cid"
| "call_id (Peek _ cid) = cid"
| "call_id (Consume _ cid _ _ _ _ _) = cid"
| "call_id (Finalize cid) = cid"
| "call_id (Revert cid) = cid"

definition returning :: "'st \<times> (exn + 'a) \<Rightarrow> ('a \<Rightarrow> 'b) \<Rightarrow> 'st \<times> (exn + 'b)" where
  "returning r f = (fst r, map_sum id f (snd r))"

fun call_store :: "'st store_api \<Rightarrow> store_call \<Rightarrow> 'st \<Rightarrow> 'st \<times> (exn + ticket option)" where
  "call_store api (Create now cid pubkey tool args plan owner) st =
     returning (api_create api now cid pubkey tool args plan owner st) Some"
| "call_store api (Approve now cid owner approval) st =
     returning (api_approve api now cid owner approval st) Some"
| "call_store api (Peek now cid) st = returning (api_peek api now cid st) Some"
| "call_store api (Consume now cid pubkey tool args owner defer) st =
     returning (api_consume api now cid pubkey tool args owner defer st) Some"
| "call_store api (Finalize cid) st = returning (api_finalize api cid st) (\<lambda>_. None)"
| "call_store api (Revert cid) st = returning (api_revert api cid st) (\<lambda>_. None)"

fun run_store :: "'st store_api \<Rightarrow> store_call list \<Rightarrow> 'st \<Rightarrow> 'st" where
  "run_store api [] st = st"
| "run_store api (c # cs) st = run_store api cs (fst (call_store api c st))"

fun store_results :: "'st store_api \<Rightarrow> store_call list \<Rightarrow> 'st \<Rightarrow> (exn + ticket option) list" where
  "store_results api [] st = []"
| "store_results api (c # cs) st =
     snd (call_store api c st) # store_results api cs (fst (call_store api c st))"

definition lifetime :: "int \<Rightarrow> int \<Rightarrow> bool \<Rightarrow> int" where
  "lifetime ttl owner_ttl owner = (if owner then owner_ttl else ttl)"

definition spec_create ::
  "libs \<Rightarrow> int \<Rightarrow> int \<Rightarrow> real \<Rightarrow> string \<Rightarrow> string \<Rightarrow> string \<Rightarrow> dict \<Rightarrow> json \<Rightarrow> bool \<Rightarrow> astore \<Rightarrow> astore \<times> (exn + ticket)" where
  "spec_create L ttl owner_ttl now cid pubkey tool args plan owner a =
     (let t = make_ticket L now (lifetime ttl owner_ttl owner) cid pubkey tool args plan
      in (a(cid \<mapsto> (t, False)), Inr t))"

definition spec_api :: "libs \<Rightarrow> int \<Rightarrow> int \<Rightarrow> astore store_api" where
  "spec_api L ttl owner_ttl =
     \<lparr>api_create = spec_create L ttl owner_ttl, api_approve = spec_approve L, api_peek = spec_peek,
      api_consume = spec_consume L, api_finalize = spec_finalize, api_revert = spec_revert\<rparr>"

lemma spec_api_simps [simp]:
  "api_create (spec_api L ttl owner_ttl) = spec_create L ttl owner_ttl"
  "api_approve (spec_api L ttl owner_ttl) = spec_approve L"
  "api_peek (spec_api L ttl owner_ttl) = spec_peek"
  "api_consume (spec_api L ttl owner_ttl) = spec_consume L"
  "api_finalize (spec_api L ttl owner_ttl) = spec_finalize"
  "api_revert (spec_api L ttl owner_ttl) = spec_revert"
  by (simp_all add: spec_api_def)

lemma returning_simps [simp]:
  "fst (returning r f) = fst r"
  "snd (returning r f) = map_sum id f (snd r)"
  by (simp_all add: returning_def)

lemma map_sum_Inr_iff [simp]: "map_sum f g r = Inr y \<longleftrightarrow> (\<exists>x. r = Inr x \<and> y = g x)"
  by (cases r) auto

subsection \<open>Facts of the abstract store\<close>

text \<open>A successful consume: the ticket was there, for this very request, in time, and approved
  where an approval is required; afterwards it is gone or claimed.\<close>

lemma spec_consume_Inr:
  "snd (spec_consume L now cid pubkey tool args owner defer a) = Inr t \<longleftrightarrow>
     (\<exists>claimed. a cid = Some (t, claimed) \<and> now < tk_expires_at t \<and> tk_pubkey t = pubkey \<and>
        tk_tool t = tool \<and> tk_arguments_hash t = hash_arguments L args \<and>
        (owner \<longrightarrow> tk_owner_approved_by t \<noteq> None) \<and> (defer \<longrightarrow> \<not> claimed))"
  by (auto simp: spec_consume_def split: option.splits if_splits)

lemma spec_consume_state:
  "snd (spec_consume L now cid pubkey tool args owner defer a) = Inr t \<Longrightarrow>
     fst (spec_consume L now cid pubkey tool args owner defer a) =
       (if defer then a(cid \<mapsto> (t, True)) else a(cid := None))"
  by (auto simp: spec_consume_def split: option.splits if_splits)

lemma spec_consume_Inl:
  "snd (spec_consume L now cid pubkey tool args owner defer a) = Inl e \<Longrightarrow>
     exn_cls e = ConfirmationError \<and>
     (e = unapproved \<or> e = consumed_id \<or>
      fst (spec_consume L now cid pubkey tool args owner defer a) cid = None)"
  by (auto simp: spec_consume_def split: option.splits if_splits)

text \<open>A call changes no ticket but the one it names.\<close>

lemma spec_frame:
  "call_id c \<noteq> cid \<Longrightarrow> fst (call_store (spec_api L ttl owner_ttl) c a) cid = a cid"
  by (cases c) (auto simp: spec_defs spec_create_def Let_def split: option.splits if_splits sum.splits)

text \<open>A claimed ticket stays claimed, or goes, unless it is reverted or its id is created anew.\<close>

fun releases :: "string \<Rightarrow> store_call \<Rightarrow> bool" where
  "releases cid (Revert c) = (c = cid)"
| "releases cid (Create _ c _ _ _ _ _) = (c = cid)"
| "releases cid _ = False"

definition claimed_or_gone :: "astore \<Rightarrow> string \<Rightarrow> bool" where
  "claimed_or_gone a cid = (case a cid of None \<Rightarrow> True | Some (t, claimed) \<Rightarrow> claimed)"

lemma claimed_step:
  "claimed_or_gone a cid \<Longrightarrow> \<not> releases cid c \<Longrightarrow>
     claimed_or_gone (fst (call_store (spec_api L ttl owner_ttl) c a)) cid"
proof (cases "call_id c = cid")
  case False
  then show "claimed_or_gone a cid \<Longrightarrow> claimed_or_gone (fst (call_store (spec_api L ttl owner_ttl) c a)) cid"
    by (simp add: claimed_or_gone_def spec_frame)
next
  case True
  then show "claimed_or_gone a cid \<Longrightarrow> \<not> releases cid c \<Longrightarrow>
      claimed_or_gone (fst (call_store (spec_api L ttl owner_ttl) c a)) cid"
    by (cases c) (auto simp: claimed_or_gone_def spec_defs Let_def split: option.splits if_splits sum.splits)
qed

lemma claimed_run:
  "claimed_or_gone a cid \<Longrightarrow> \<forall>c \<in> set cs. \<not> releases cid c \<Longrightarrow>
     claimed_or_gone (run_store (spec_api L ttl owner_ttl) cs a) cid"
  by (induction cs arbitrary: a) (auto simp: claimed_step)

lemma claimed_blocks:
  assumes "claimed_or_gone a cid"
  shows "\<exists>e. snd (spec_consume L now cid pubkey tool args owner True a) = Inl e"
    "\<exists>e. snd (spec_peek now cid a) = Inl e"
    "\<exists>e. snd (spec_approve L now cid owner_pubkey approval a) = Inl e"
  using assms by (auto simp: claimed_or_gone_def spec_defs split: option.splits)

text \<open>Every approval recorded on a ticket comes from an accepted approval event.\<close>

definition approvals_from :: "libs \<Rightarrow> store_call list \<Rightarrow> astore \<Rightarrow> bool" where
  "approvals_from L cs a \<longleftrightarrow>
     (\<forall>cid t claimed p. a cid = Some (t, claimed) \<longrightarrow> tk_id t = cid \<and>
        (tk_owner_approved_by t = Some p \<longrightarrow>
          (\<exists>now approval e. Approve now cid p approval \<in> set cs \<and>
             parse_owner_approval L approval = Inr e \<and>
             approval_event L p cid (tk_operation_hash t) e)))"

lemma approvals_mono: "approvals_from L cs a \<Longrightarrow> set cs \<subseteq> set cs' \<Longrightarrow> approvals_from L cs' a"
  unfolding approvals_from_def by blast

lemma approvals_remove: "approvals_from L cs a \<Longrightarrow> approvals_from L cs (a(cid := None))"
  by (auto simp: approvals_from_def)

lemma approvals_mark:
  "approvals_from L cs a \<Longrightarrow> a cid = Some (t, m) \<Longrightarrow> approvals_from L cs (a(cid \<mapsto> (t, m')))"
  by (auto simp: approvals_from_def)

lemma approvals_create:
  "approvals_from L cs a \<Longrightarrow> approvals_from L cs (a(cid \<mapsto> (make_ticket L now ttl cid pk tool args plan, False)))"
  by (auto simp: approvals_from_def make_ticket_def)

lemma approvals_approve:
  assumes "approvals_from L cs a" "Approve now cid owner approval \<in> set cs"
  shows "approvals_from L cs (fst (spec_approve L now cid owner approval a))"
proof (cases "\<exists>t. snd (spec_approve L now cid owner approval a) = Inr t")
  case False
  then show ?thesis
    using assms approvals_remove
    by (auto simp: spec_approve_def Let_def split: option.splits if_splits sum.splits)
next
  case True
  then obtain t e where t: "a cid = Some (t, False)"
      "fst (spec_approve L now cid owner approval a) = a(cid \<mapsto> (t\<lparr>tk_owner_approved_by := Some owner\<rparr>, False))"
      "parse_owner_approval L approval = Inr e" "approval_event L owner (tk_id t) (tk_operation_hash t) e"
    by (auto simp: spec_approve_def check_approval_Inr Let_def split: option.splits if_splits sum.splits)
  with assms show ?thesis
    by (auto simp: approvals_from_def) (metis+)
qed

lemma approvals_step:
  assumes "approvals_from L cs a" "c \<in> set cs"
  shows "approvals_from L cs (fst (call_store (spec_api L ttl owner_ttl) c a))"
  using assms approvals_remove approvals_mark approvals_create approvals_approve
  by (cases c)
     (auto simp: spec_create_def spec_consume_def spec_peek_def spec_finalize_def spec_revert_def Let_def
      split: option.splits)

lemma approvals_run:
  "approvals_from L cs a \<Longrightarrow> set cs' \<subseteq> set cs \<Longrightarrow>
     approvals_from L cs (run_store (spec_api L ttl owner_ttl) cs' a)"
  by (induction cs' arbitrary: a) (auto simp: approvals_step)

lemma approvals_empty: "approvals_from L cs Map.empty"
  by (simp add: approvals_from_def)

subsection \<open>The interface\<close>

text \<open>An operation of an implementation refines an operation of the abstract store: same result,
  same abstract state, invariant kept.\<close>

definition refines ::
  "('st \<Rightarrow> bool) \<Rightarrow> ('st \<Rightarrow> astore) \<Rightarrow> ('st \<Rightarrow> 'st \<times> 'r) \<Rightarrow> (astore \<Rightarrow> astore \<times> 'r) \<Rightarrow> 'st \<Rightarrow> bool" where
  "refines good view f g st \<longleftrightarrow>
     good (fst (f st)) \<and> view (fst (f st)) = fst (g (view st)) \<and> snd (f st) = snd (g (view st))"

text \<open>Ids are drawn fresh: no \<open>Create\<close> of the run meets a store that knows its id.\<close>

fun fresh_call :: "('st \<Rightarrow> string \<Rightarrow> json \<Rightarrow> bool) \<Rightarrow> store_call \<Rightarrow> 'st \<Rightarrow> bool" where
  "fresh_call fresh (Create _ cid _ _ _ plan _) st = fresh st cid plan"
| "fresh_call fresh _ st = True"

fun fresh_run ::
  "'st store_api \<Rightarrow> ('st \<Rightarrow> string \<Rightarrow> json \<Rightarrow> bool) \<Rightarrow> store_call list \<Rightarrow> 'st \<Rightarrow> bool" where
  "fresh_run api fresh [] st = True"
| "fresh_run api fresh (c # cs) st =
     (fresh_call fresh c st \<and> fresh_run api fresh cs (fst (call_store api c st)))"

locale confirmation_store =
  fixes L :: libs
    and ttl :: int
    and owner_ttl :: int
    and api :: "'st store_api"
    and good :: "'st \<Rightarrow> bool"
    and view :: "'st \<Rightarrow> astore"
    and fresh :: "'st \<Rightarrow> string \<Rightarrow> json \<Rightarrow> bool"
  assumes create: "good st \<Longrightarrow> fresh st cid plan \<Longrightarrow>
      refines good view (api_create api now cid pubkey tool args plan owner)
        (spec_create L ttl owner_ttl now cid pubkey tool args plan owner) st"
    and approve: "good st \<Longrightarrow>
      refines good view (api_approve api now cid owner_pubkey approval) (spec_approve L now cid owner_pubkey approval) st"
    and peek: "good st \<Longrightarrow> refines good view (api_peek api now cid) (spec_peek now cid) st"
    and consume: "good st \<Longrightarrow>
      refines good view (api_consume api now cid pubkey tool args owner deferred)
        (spec_consume L now cid pubkey tool args owner deferred) st"
    and finalize: "good st \<Longrightarrow> refines good view (api_finalize api cid) (spec_finalize cid) st"
    and revert: "good st \<Longrightarrow> refines good view (api_revert api cid) (spec_revert cid) st"
begin

lemma call_refines:
  "good st \<Longrightarrow> fresh_call fresh c st \<Longrightarrow>
     refines good view (call_store api c) (call_store (spec_api L ttl owner_ttl) c) st"
  using create approve peek consume finalize revert
  by (cases c) (simp_all add: refines_def)

lemma run_refines:
  "good st \<Longrightarrow> fresh_run api fresh cs st \<Longrightarrow>
     good (run_store api cs st) \<and>
     view (run_store api cs st) = run_store (spec_api L ttl owner_ttl) cs (view st)"
proof (induction cs arbitrary: st)
  case (Cons c cs)
  then show ?case using call_refines [of st c] by (simp add: refines_def)
qed simp

lemma results_refine:
  "good st \<Longrightarrow> fresh_run api fresh cs st \<Longrightarrow>
     store_results api cs st = store_results (spec_api L ttl owner_ttl) cs (view st)"
proof (induction cs arbitrary: st)
  case (Cons c cs)
  then show ?case using call_refines [of st c] by (simp add: refines_def)
qed simp

lemma consume_burns:
  "good st \<Longrightarrow> snd (api_consume api now cid pubkey tool args owner deferred st) = Inl e \<Longrightarrow>
     e = unapproved \<or> e = consumed_id \<or>
     view (fst (api_consume api now cid pubkey tool args owner deferred st)) cid = None"
  using consume [of st now cid pubkey tool args owner deferred]
    spec_consume_Inl [of L now cid pubkey tool args owner deferred "view st" e]
  by (auto simp: refines_def)

lemma consume_binds:
  assumes "good st" "snd (api_consume api now cid pubkey tool args owner deferred st) = Inr t"
  shows "(\<exists>claimed. view st cid = Some (t, claimed) \<and> (deferred \<longrightarrow> \<not> claimed)) \<and> now < tk_expires_at t \<and>
    tk_pubkey t = pubkey \<and> tk_tool t = tool \<and> tk_arguments_hash t = hash_arguments L args \<and>
    (owner \<longrightarrow> tk_owner_approved_by t \<noteq> None)"
proof -
  have "snd (spec_consume L now cid pubkey tool args owner deferred (view st)) = Inr t"
    using assms consume by (simp add: refines_def)
  then show ?thesis unfolding spec_consume_Inr by blast
qed

lemma one_shot:
  assumes "good st" "snd (api_consume api now cid pubkey tool args owner deferred st) = Inr t"
    "fresh_run api fresh cs (fst (api_consume api now cid pubkey tool args owner deferred st))"
    "\<forall>c \<in> set cs. \<not> releases cid c"
    "st' = run_store api cs (fst (api_consume api now cid pubkey tool args owner deferred st))"
  shows "(\<exists>e. snd (api_consume api now' cid pubkey' tool' args' owner' True st') = Inl e) \<and>
    (\<exists>e. snd (api_peek api now' cid st') = Inl e) \<and>
    (\<exists>e. snd (api_approve api now' cid owner_pubkey approval st') = Inl e)"
proof -
  let ?st = "fst (api_consume api now cid pubkey tool args owner deferred st)"
  have step: "good ?st" "view ?st = fst (spec_consume L now cid pubkey tool args owner deferred (view st))"
    and ok: "snd (spec_consume L now cid pubkey tool args owner deferred (view st)) = Inr t"
    using assms(1,2) consume [of st now cid pubkey tool args owner deferred] by (auto simp: refines_def)
  then have "claimed_or_gone (view ?st) cid"
    using spec_consume_state [OF ok] by (simp add: claimed_or_gone_def)
  then have blocked: "good st'" "claimed_or_gone (view st') cid"
    using run_refines [OF step(1) assms(3)] claimed_run assms(4,5) by auto
  show ?thesis
    using claimed_blocks [OF blocked(2)] consume [OF blocked(1)] peek [OF blocked(1)] approve [OF blocked(1)]
    by (simp add: refines_def)
qed

lemma undeferred_ignores_mark:
  assumes "good st" "snd (api_consume api now cid pubkey tool args owner True st) = Inr t"
    "now' < tk_expires_at t"
  shows "snd (api_consume api now' cid pubkey tool args owner False
    (fst (api_consume api now cid pubkey tool args owner True st))) = Inr t"
proof -
  let ?st = "fst (api_consume api now cid pubkey tool args owner True st)"
  have ok: "snd (spec_consume L now cid pubkey tool args owner True (view st)) = Inr t"
    and good: "good ?st"
    and st: "view ?st = fst (spec_consume L now cid pubkey tool args owner True (view st))"
    using assms(1,2) consume [of st now cid pubkey tool args owner True] by (auto simp: refines_def)
  have "snd (spec_consume L now' cid pubkey tool args owner False (view ?st)) = Inr t"
    using ok assms(3) unfolding st spec_consume_state [OF ok] by (auto simp: spec_consume_Inr)
  then show ?thesis using consume [OF good] by (simp add: refines_def)
qed

lemma approval_provenance:
  assumes "good st" "view st = Map.empty" "fresh_run api fresh cs st"
    "snd (api_consume api now cid pubkey tool args True deferred (run_store api cs st)) = Inr t"
  shows "\<exists>p tm approval e. tk_owner_approved_by t = Some p \<and> Approve tm cid p approval \<in> set cs \<and>
    parse_owner_approval L approval = Inr e \<and> approval_event L p cid (tk_operation_hash t) e"
proof -
  have run: "good (run_store api cs st)" "approvals_from L cs (view (run_store api cs st))"
    using run_refines [OF assms(1,3)] approvals_run [OF approvals_empty order.refl] assms(2) by auto
  show ?thesis
    using consume_binds [OF run(1) assms(4)] run(2) unfolding approvals_from_def by blast
qed

end

text \<open>The abstract store implements its own contract.\<close>

interpretation abstract_store: confirmation_store L ttl owner_ttl "spec_api L ttl owner_ttl"
  "\<lambda>_. True" "\<lambda>a. a" "\<lambda>_ _ _. True" for L ttl owner_ttl
  by unfold_locales (simp_all add: refines_def)

end
