(* ===== verification/Confirmation.thy ===== *)
theory Confirmation
  imports Store_Contract
begin

text \<open>
  \<open>policy/confirmation.py\<close>: the in-memory \<open>ConfirmationStore\<close> (a dictionary of pending tickets
  and the set of in-flight ids) and the \<open>SQLiteConfirmationStore\<close> (one table row per ticket, the
  plan column holding JSON text, the mark in column \<open>consumed_at\<close>), each operation as the code
  writes it, their interpretation of the store contract, and the properties of both. A call reads
  the clock once; a SQLite call runs in one transaction, as \<open>BEGIN IMMEDIATE\<close> gives it, and is
  rolled back where it raises before a commit.
\<close>

subsection \<open>\<open>ConfirmationStore\<close>\<close>

record mem_store =
  ttl_seconds :: int
  owner_approval_ttl_seconds :: int
  pending :: "(string \<times> ticket) list"
  in_flight :: "string set"

definition mem_init :: "int \<Rightarrow> int option \<Rightarrow> mem_store" where
  "mem_init ttl owner_ttl =
     \<lparr>ttl_seconds = ttl,
      owner_approval_ttl_seconds = (case owner_ttl of Some o_ttl \<Rightarrow> o_ttl | None \<Rightarrow> ttl),
      pending = [], in_flight = {}\<rparr>"

definition mem_del :: "string \<Rightarrow> mem_store \<Rightarrow> mem_store" where
  "mem_del cid st = st\<lparr>pending := AList.delete cid (pending st)\<rparr>"

definition mem_create ::
  "libs \<Rightarrow> real \<Rightarrow> string \<Rightarrow> string \<Rightarrow> string \<Rightarrow> dict \<Rightarrow> json \<Rightarrow> bool \<Rightarrow> mem_store \<Rightarrow> mem_store \<times> (exn + ticket)" where
  "mem_create L now confirmation_id pubkey tool arguments plan require_owner_signature st =
     (let ttl = (if require_owner_signature then owner_approval_ttl_seconds st else ttl_seconds st);
          ticket = make_ticket L now ttl confirmation_id pubkey tool arguments plan
      in (st\<lparr>pending := AList.update (tk_id ticket) ticket (pending st)\<rparr>, Inr ticket))"

definition mem_approve ::
  "libs \<Rightarrow> real \<Rightarrow> string \<Rightarrow> string \<Rightarrow> approval_input \<Rightarrow> mem_store \<Rightarrow> mem_store \<times> (exn + ticket)" where
  "mem_approve L now confirmation_id owner_pubkey signed_approval st =
     (case map_of (pending st) confirmation_id of
        None \<Rightarrow> (st, Inl unknown_id)
      | Some ticket \<Rightarrow>
          if now \<ge> tk_expires_at ticket then (mem_del confirmation_id st, Inl expired_id)
          else if confirmation_id \<in> in_flight st then (st, Inl consumed_id)
          else (case check_approval L signed_approval owner_pubkey ticket of
              Inl e \<Rightarrow> (st, Inl e)
            | Inr approver \<Rightarrow>
                (let updated = ticket\<lparr>tk_owner_approved_by := Some approver\<rparr>
                 in (st\<lparr>pending := AList.update confirmation_id updated (pending st)\<rparr>, Inr updated))))"

definition mem_peek :: "real \<Rightarrow> string \<Rightarrow> mem_store \<Rightarrow> mem_store \<times> (exn + ticket)" where
  "mem_peek now confirmation_id st =
     (case map_of (pending st) confirmation_id of
        None \<Rightarrow> (st, Inl unknown_id)
      | Some ticket \<Rightarrow>
          if now \<ge> tk_expires_at ticket then (mem_del confirmation_id st, Inl expired_id)
          else if confirmation_id \<in> in_flight st then (st, Inl consumed_id)
          else (st, Inr ticket))"

definition mem_consume ::
  "libs \<Rightarrow> real \<Rightarrow> string \<Rightarrow> string \<Rightarrow> string \<Rightarrow> dict \<Rightarrow> bool \<Rightarrow> bool \<Rightarrow> mem_store \<Rightarrow> mem_store \<times> (exn + ticket)" where
  "mem_consume L now confirmation_id pubkey tool arguments require_owner_approval defer st =
     (case map_of (pending st) confirmation_id of
        None \<Rightarrow> (st, Inl unknown_id)
      | Some ticket \<Rightarrow>
          if now \<ge> tk_expires_at ticket then (mem_del confirmation_id st, Inl expired_id)
          else if tk_pubkey ticket \<noteq> pubkey then (mem_del confirmation_id st, Inl other_identity)
          else if tk_tool ticket \<noteq> tool then (mem_del confirmation_id st, Inl other_tool)
          else if tk_arguments_hash ticket \<noteq> hash_arguments L arguments
          then (mem_del confirmation_id st, Inl other_arguments)
          else if require_owner_approval \<and> tk_owner_approved_by ticket = None then (st, Inl unapproved)
          else if \<not> defer then (mem_del confirmation_id st, Inr ticket)
          else if confirmation_id \<in> in_flight st then (st, Inl consumed_id)
          else (st\<lparr>in_flight := insert confirmation_id (in_flight st)\<rparr>, Inr ticket))"

definition mem_finalize :: "string \<Rightarrow> mem_store \<Rightarrow> mem_store \<times> (exn + unit)" where
  "mem_finalize confirmation_id st =
     (case map_of (pending st) confirmation_id of
        None \<Rightarrow> (st, Inl unknown_id)
      | Some _ \<Rightarrow>
          (let st' = mem_del confirmation_id st
           in (st'\<lparr>in_flight := in_flight st' - {confirmation_id}\<rparr>, Inr ())))"

definition mem_revert :: "string \<Rightarrow> mem_store \<Rightarrow> mem_store \<times> (exn + unit)" where
  "mem_revert confirmation_id st =
     (case map_of (pending st) confirmation_id of
        None \<Rightarrow> (st, Inl unknown_id)
      | Some _ \<Rightarrow> (st\<lparr>in_flight := in_flight st - {confirmation_id}\<rparr>, Inr ()))"

definition mem_api :: "libs \<Rightarrow> mem_store store_api" where
  "mem_api L =
     \<lparr>api_create = mem_create L, api_approve = mem_approve L, api_peek = mem_peek,
      api_consume = mem_consume L, api_finalize = mem_finalize, api_revert = mem_revert\<rparr>"

subsection \<open>\<open>SQLiteConfirmationStore\<close>\<close>

text \<open>A row without its primary key; the table maps ids to rows.\<close>

record sql_row =
  row_pubkey :: string
  row_tool :: string
  row_arguments_hash :: string
  row_plan :: string
  row_created_at :: real
  row_expires_at :: real
  row_operation_hash :: string
  row_owner_approved_by :: "string option"
  row_consumed_at :: "real option"

record sql_store =
  sql_ttl_seconds :: int
  sql_owner_approval_ttl_seconds :: int
  confirmations :: "(string \<times> sql_row) list"

definition sql_init :: "int \<Rightarrow> int option \<Rightarrow> (string \<times> sql_row) list \<Rightarrow> sql_store" where
  "sql_init ttl owner_ttl table =
     \<lparr>sql_ttl_seconds = ttl,
      sql_owner_approval_ttl_seconds =
        (case owner_ttl of Some o_ttl \<Rightarrow> (if o_ttl \<noteq> 0 then o_ttl else ttl) | None \<Rightarrow> ttl),
      confirmations = table\<rparr>"

definition sql_row_of :: "libs \<Rightarrow> ticket \<Rightarrow> sql_row" where
  "sql_row_of L t =
     \<lparr>row_pubkey = tk_pubkey t, row_tool = tk_tool t, row_arguments_hash = tk_arguments_hash t,
      row_plan = json_text (float_text L) default_format (tk_plan t),
      row_created_at = tk_created_at t, row_expires_at = tk_expires_at t,
      row_operation_hash = tk_operation_hash t, row_owner_approved_by = tk_owner_approved_by t,
      row_consumed_at = None\<rparr>"

definition sql_get :: "libs \<Rightarrow> string \<Rightarrow> sql_store \<Rightarrow> exn + ticket" where
  "sql_get L confirmation_id st =
     (case map_of (confirmations st) confirmation_id of
        None \<Rightarrow> Inl unknown_id
      | Some row \<Rightarrow>
          (case json_loads L (row_plan row) of
             Inl exc \<Rightarrow> Inl (Exn ValueError exc)
           | Inr plan \<Rightarrow> Inr
               \<lparr>tk_id = confirmation_id, tk_pubkey = row_pubkey row, tk_tool = row_tool row,
                tk_arguments_hash = row_arguments_hash row, tk_plan = plan,
                tk_created_at = row_created_at row, tk_expires_at = row_expires_at row,
                tk_operation_hash = row_operation_hash row,
                tk_owner_approved_by = row_owner_approved_by row\<rparr>))"

definition sql_is_consumed :: "string \<Rightarrow> sql_store \<Rightarrow> bool" where
  "sql_is_consumed confirmation_id st =
     (case map_of (confirmations st) confirmation_id of
        None \<Rightarrow> False
      | Some row \<Rightarrow> row_consumed_at row \<noteq> None)"

definition sql_delete :: "string \<Rightarrow> sql_store \<Rightarrow> sql_store" where
  "sql_delete confirmation_id st =
     st\<lparr>confirmations := AList.delete confirmation_id (confirmations st)\<rparr>"

text \<open>\<open>UPDATE confirmations SET \<dots> WHERE id=?\<close>\<close>

definition sql_update :: "string \<Rightarrow> (sql_row \<Rightarrow> sql_row) \<Rightarrow> sql_store \<Rightarrow> sql_store" where
  "sql_update confirmation_id f st =
     (case map_of (confirmations st) confirmation_id of
        None \<Rightarrow> st
      | Some row \<Rightarrow> st\<lparr>confirmations := AList.update confirmation_id (f row) (confirmations st)\<rparr>)"

definition sql_create ::
  "libs \<Rightarrow> real \<Rightarrow> string \<Rightarrow> string \<Rightarrow> string \<Rightarrow> dict \<Rightarrow> json \<Rightarrow> bool \<Rightarrow> sql_store \<Rightarrow> sql_store \<times> (exn + ticket)" where
  "sql_create L now confirmation_id pubkey tool arguments plan require_owner_signature st =
     (let ttl = (if require_owner_signature then sql_owner_approval_ttl_seconds st else sql_ttl_seconds st);
          ticket = make_ticket L now ttl confirmation_id pubkey tool arguments plan
      in case map_of (confirmations st) confirmation_id of
           Some _ \<Rightarrow> (st, Inl (Exn OtherError ''UNIQUE constraint failed: confirmations.id''))
         | None \<Rightarrow> (st\<lparr>confirmations := confirmations st @ [(confirmation_id, sql_row_of L ticket)]\<rparr>, Inr ticket))"

text \<open>\<open>_check_live\<close> followed by the rest of the operation.\<close>

definition sql_live :: "real \<Rightarrow> ticket \<Rightarrow> sql_store \<Rightarrow> sql_store \<times> (exn + 'a) \<Rightarrow> sql_store \<times> (exn + 'a)" where
  "sql_live now ticket st rest =
     (if now \<ge> tk_expires_at ticket then (sql_delete (tk_id ticket) st, Inl expired_id) else rest)"

definition sql_approve ::
  "libs \<Rightarrow> real \<Rightarrow> string \<Rightarrow> string \<Rightarrow> approval_input \<Rightarrow> sql_store \<Rightarrow> sql_store \<times> (exn + ticket)" where
  "sql_approve L now confirmation_id owner_pubkey signed_approval st =
     (case sql_get L confirmation_id st of
        Inl e \<Rightarrow> (st, Inl e)
      | Inr ticket \<Rightarrow> sql_live now ticket st
          (if sql_is_consumed confirmation_id st then (st, Inl consumed_id)
           else (case check_approval L signed_approval owner_pubkey ticket of
               Inl e \<Rightarrow> (st, Inl e)
             | Inr approver \<Rightarrow>
                 (sql_update confirmation_id (\<lambda>r. r\<lparr>row_owner_approved_by := Some approver\<rparr>) st,
                  Inr (ticket\<lparr>tk_owner_approved_by := Some approver\<rparr>)))))"

definition sql_peek :: "libs \<Rightarrow> real \<Rightarrow> string \<Rightarrow> sql_store \<Rightarrow> sql_store \<times> (exn + ticket)" where
  "sql_peek L now confirmation_id st =
     (case sql_get L confirmation_id st of
        Inl e \<Rightarrow> (st, Inl e)
      | Inr ticket \<Rightarrow> sql_live now ticket st
          (if sql_is_consumed confirmation_id st then (st, Inl consumed_id) else (st, Inr ticket)))"

definition sql_consume ::
  "libs \<Rightarrow> real \<Rightarrow> string \<Rightarrow> string \<Rightarrow> string \<Rightarrow> dict \<Rightarrow> bool \<Rightarrow> bool \<Rightarrow> sql_store \<Rightarrow> sql_store \<times> (exn + ticket)" where
  "sql_consume L now confirmation_id pubkey tool arguments require_owner_approval defer st =
     (case sql_get L confirmation_id st of
        Inl e \<Rightarrow> (st, Inl e)
      | Inr ticket \<Rightarrow> sql_live now ticket st
          (if tk_pubkey ticket \<noteq> pubkey then (sql_delete confirmation_id st, Inl other_identity)
           else if tk_tool ticket \<noteq> tool then (sql_delete confirmation_id st, Inl other_tool)
           else if tk_arguments_hash ticket \<noteq> hash_arguments L arguments
           then (sql_delete confirmation_id st, Inl other_arguments)
           else if require_owner_approval \<and> tk_owner_approved_by ticket = None then (st, Inl unapproved)
           else if \<not> defer then (sql_delete confirmation_id st, Inr ticket)
           else if sql_is_consumed confirmation_id st then (st, Inl consumed_id)
           else (sql_update confirmation_id (\<lambda>r. r\<lparr>row_consumed_at := Some now\<rparr>) st, Inr ticket)))"

definition sql_finalize :: "string \<Rightarrow> sql_store \<Rightarrow> sql_store \<times> (exn + unit)" where
  "sql_finalize confirmation_id st =
     (case map_of (confirmations st) confirmation_id of
        None \<Rightarrow> (st, Inl unknown_id)
      | Some _ \<Rightarrow> (sql_delete confirmation_id st, Inr ()))"

definition sql_revert :: "string \<Rightarrow> sql_store \<Rightarrow> sql_store \<times> (exn + unit)" where
  "sql_revert confirmation_id st =
     (case map_of (confirmations st) confirmation_id of
        None \<Rightarrow> (st, Inl unknown_id)
      | Some _ \<Rightarrow> (sql_update confirmation_id (\<lambda>r. r\<lparr>row_consumed_at := None\<rparr>) st, Inr ()))"

definition sql_api :: "libs \<Rightarrow> sql_store store_api" where
  "sql_api L =
     \<lparr>api_create = sql_create L, api_approve = sql_approve L, api_peek = sql_peek L,
      api_consume = sql_consume L, api_finalize = sql_finalize, api_revert = sql_revert\<rparr>"

subsection \<open>Both stores implement the contract\<close>

definition mem_good :: "int \<Rightarrow> int \<Rightarrow> mem_store \<Rightarrow> bool" where
  "mem_good ttl owner_ttl st \<longleftrightarrow> ttl_seconds st = ttl \<and> owner_approval_ttl_seconds st = owner_ttl"

definition mem_view :: "mem_store \<Rightarrow> astore" where
  "mem_view st = (\<lambda>cid. map_option (\<lambda>t. (t, cid \<in> in_flight st)) (map_of (pending st) cid))"

definition mem_fresh :: "mem_store \<Rightarrow> string \<Rightarrow> json \<Rightarrow> bool" where
  "mem_fresh st cid plan \<longleftrightarrow> cid \<notin> in_flight st"

text \<open>Every stored plan is JSON text: what \<open>create\<close> wrote and \<open>json.loads\<close> reads.\<close>

definition sql_good :: "libs \<Rightarrow> int \<Rightarrow> int \<Rightarrow> sql_store \<Rightarrow> bool" where
  "sql_good L ttl owner_ttl st \<longleftrightarrow>
     sql_ttl_seconds st = ttl \<and> sql_owner_approval_ttl_seconds st = owner_ttl \<and>
     (\<forall>cid row. map_of (confirmations st) cid = Some row \<longrightarrow> is_ok (json_loads L (row_plan row)))"

definition row_view :: "libs \<Rightarrow> string \<Rightarrow> sql_row \<Rightarrow> (ticket \<times> bool) option" where
  "row_view L cid row = (case json_loads L (row_plan row) of
      Inl _ \<Rightarrow> None
    | Inr plan \<Rightarrow> Some
        (\<lparr>tk_id = cid, tk_pubkey = row_pubkey row, tk_tool = row_tool row,
          tk_arguments_hash = row_arguments_hash row, tk_plan = plan,
          tk_created_at = row_created_at row, tk_expires_at = row_expires_at row,
          tk_operation_hash = row_operation_hash row,
          tk_owner_approved_by = row_owner_approved_by row\<rparr>, row_consumed_at row \<noteq> None))"

definition sql_view :: "libs \<Rightarrow> sql_store \<Rightarrow> astore" where
  "sql_view L st = (\<lambda>cid. Option.bind (map_of (confirmations st) cid) (row_view L cid))"

definition sql_fresh :: "libs \<Rightarrow> sql_store \<Rightarrow> string \<Rightarrow> json \<Rightarrow> bool" where
  "sql_fresh L st cid plan \<longleftrightarrow> map_of (confirmations st) cid = None \<and>
     json_loads L (json_text (float_text L) default_format plan) = Inr plan"

lemma map_of_AList_delete [simp]: "map_of (AList.delete k al) = (map_of al)(k := None)"
  by (simp add: delete_conv')

lemmas mem_defs = mem_good_def mem_view_def mem_fresh_def mem_del_def mem_create_def mem_approve_def
  mem_peek_def mem_consume_def mem_finalize_def mem_revert_def mem_api_def

lemmas spec_ops = spec_defs spec_create_def lifetime_def refines_def

interpretation mem: confirmation_store L ttl owner_ttl "mem_api L" "mem_good ttl owner_ttl"
  mem_view mem_fresh for L ttl owner_ttl
  by unfold_locales
     (auto simp: mem_defs spec_ops Let_def make_ticket_def fun_eq_iff split: option.splits sum.splits)

text \<open>How a row reads as a ticket, and the effect of each statement on the abstract store.\<close>

lemma sql_good_row:
  "sql_good L ttl owner_ttl st \<Longrightarrow> map_of (confirmations st) cid = Some row \<Longrightarrow> \<exists>v. json_loads L (row_plan row) = Inr v"
  by (auto simp: sql_good_def is_ok_iff)

lemma sql_row_iff: "sql_good L ttl owner_ttl st \<Longrightarrow> sql_view L st cid = None \<longleftrightarrow> map_of (confirmations st) cid = None"
  by (auto simp: sql_view_def row_view_def dest!: sql_good_row split: bind_splits sum.splits)

lemma sql_get_missing: "sql_good L ttl owner_ttl st \<Longrightarrow> sql_view L st cid = None \<Longrightarrow> sql_get L cid st = Inl unknown_id"
  by (simp add: sql_row_iff) (simp add: sql_get_def)

lemma sql_get_present:
  "sql_view L st cid = Some (t, m) \<longleftrightarrow> sql_get L cid st = Inr t \<and> sql_is_consumed cid st = m"
  by (auto simp: sql_view_def row_view_def sql_get_def sql_is_consumed_def split: bind_splits option.splits sum.splits)

lemma sql_get_row: "sql_get L cid st = Inr t \<Longrightarrow> tk_id t = cid \<and> (\<exists>row. map_of (confirmations st) cid = Some row)"
  by (auto simp: sql_get_def split: option.splits sum.splits)

lemma sql_delete_refines:
  "sql_good L ttl owner_ttl st \<Longrightarrow>
     sql_good L ttl owner_ttl (sql_delete cid st) \<and> sql_view L (sql_delete cid st) = (sql_view L st)(cid := None)"
  by (auto simp: sql_good_def sql_delete_def sql_view_def fun_eq_iff)

lemma sql_mark_refines:
  "sql_good L ttl owner_ttl st \<Longrightarrow> sql_get L cid st = Inr t \<Longrightarrow>
     sql_good L ttl owner_ttl (sql_update cid (\<lambda>r. r\<lparr>row_consumed_at := w\<rparr>) st) \<and>
     sql_view L (sql_update cid (\<lambda>r. r\<lparr>row_consumed_at := w\<rparr>) st) = (sql_view L st)(cid \<mapsto> (t, w \<noteq> None))"
  by (auto simp: sql_good_def sql_update_def sql_view_def row_view_def sql_get_def fun_eq_iff
      split: option.splits sum.splits)

lemma sql_owner_refines:
  "sql_good L ttl owner_ttl st \<Longrightarrow> sql_get L cid st = Inr t \<Longrightarrow>
     sql_good L ttl owner_ttl (sql_update cid (\<lambda>r. r\<lparr>row_owner_approved_by := Some p\<rparr>) st) \<and>
     sql_view L (sql_update cid (\<lambda>r. r\<lparr>row_owner_approved_by := Some p\<rparr>) st) =
       (sql_view L st)(cid \<mapsto> (t\<lparr>tk_owner_approved_by := Some p\<rparr>, sql_is_consumed cid st))"
  by (auto simp: sql_good_def sql_update_def sql_view_def row_view_def sql_get_def sql_is_consumed_def fun_eq_iff
      split: option.splits sum.splits)

lemma sql_insert_refines:
  "sql_good L ttl owner_ttl st \<Longrightarrow> sql_fresh L st cid (tk_plan t) \<Longrightarrow> tk_id t = cid \<Longrightarrow>
     sql_good L ttl owner_ttl (st\<lparr>confirmations := confirmations st @ [(cid, sql_row_of L t)]\<rparr>) \<and>
     sql_view L (st\<lparr>confirmations := confirmations st @ [(cid, sql_row_of L t)]\<rparr>) = (sql_view L st)(cid \<mapsto> (t, False))"
  by (cases t) (auto simp: sql_good_def sql_fresh_def sql_row_of_def sql_view_def row_view_def
      fun_eq_iff map_add_def split: if_splits option.splits)

lemma sql_consume_refines:
  assumes "sql_good L ttl owner_ttl st"
  shows "refines (sql_good L ttl owner_ttl) (sql_view L)
    (sql_consume L now cid pubkey tool args owner deferred)
    (spec_consume L now cid pubkey tool args owner deferred) st"
proof (cases "sql_view L st cid")
  case None
  with assms show ?thesis by (simp add: refines_def sql_consume_def spec_consume_def sql_get_missing)
next
  case (Some tm)
  then obtain t m where t: "sql_view L st cid = Some (t, m)" by (cases tm) simp
  then have g: "sql_get L cid st = Inr t" "sql_is_consumed cid st = m" by (simp_all add: sql_get_present)
  note sql_get_row [OF g(1)]
  then show ?thesis
    using assms t g sql_delete_refines [OF assms, of cid] sql_mark_refines [OF assms g(1)]
    by (auto simp: refines_def sql_consume_def spec_consume_def sql_live_def)
qed

interpretation sql: confirmation_store L ttl owner_ttl "sql_api L" "sql_good L ttl owner_ttl"
  "sql_view L" "sql_fresh L" for L ttl owner_ttl
proof unfold_locales
  fix st :: sql_store
  assume good: "sql_good L ttl owner_ttl st"
  show "refines (sql_good L ttl owner_ttl) (sql_view L) (api_consume (sql_api L) now cid pubkey tool args owner deferred)
      (spec_consume L now cid pubkey tool args owner deferred) st" for now cid pubkey tool args owner deferred
    using sql_consume_refines [OF good] by (simp add: sql_api_def)
  show "refines (sql_good L ttl owner_ttl) (sql_view L) (api_create (sql_api L) now cid pubkey tool args plan owner)
      (spec_create L ttl owner_ttl now cid pubkey tool args plan owner) st"
    if "sql_fresh L st cid plan" for now cid pubkey tool args plan owner
    using that good sql_insert_refines [OF good, of cid "make_ticket L now (lifetime ttl owner_ttl owner) cid pubkey tool args plan"]
    by (auto simp: refines_def sql_api_def sql_create_def spec_create_def lifetime_def sql_good_def sql_fresh_def
        make_ticket_def Let_def)
  show "refines (sql_good L ttl owner_ttl) (sql_view L) (api_peek (sql_api L) now cid) (spec_peek now cid) st" for now cid
    using sql_get_missing [OF good, of cid] sql_delete_refines [OF good, of cid] good
    by (cases "sql_view L st cid")
       (auto simp: refines_def sql_api_def sql_peek_def spec_peek_def sql_live_def sql_get_present dest: sql_get_row)
  show "refines (sql_good L ttl owner_ttl) (sql_view L) (api_approve (sql_api L) now cid owner_pubkey approval)
      (spec_approve L now cid owner_pubkey approval) st" for now cid owner_pubkey approval
    using sql_get_missing [OF good, of cid] sql_delete_refines [OF good, of cid] sql_owner_refines [OF good, of cid] good
    by (cases "sql_view L st cid")
       (auto simp: refines_def sql_api_def sql_approve_def spec_approve_def sql_live_def sql_get_present Let_def
        split: sum.splits dest: sql_get_row)
  show "refines (sql_good L ttl owner_ttl) (sql_view L) (api_finalize (sql_api L) cid) (spec_finalize cid) st" for cid
    using sql_row_iff [OF good, of cid] sql_delete_refines [OF good, of cid] good
    by (auto simp: refines_def sql_api_def sql_finalize_def spec_finalize_def split: option.splits)
  show "refines (sql_good L ttl owner_ttl) (sql_view L) (api_revert (sql_api L) cid) (spec_revert cid) st" for cid
    using sql_row_iff [OF good, of cid] sql_mark_refines [OF good, of cid _ None] good
    by (auto simp: refines_def sql_api_def sql_revert_def spec_revert_def sql_get_present
        dest: sql_get_row split: option.splits)
qed

subsection \<open>Properties\<close>

lemma mem_init_good: "mem_good ttl (case owner_ttl of Some o_ttl \<Rightarrow> o_ttl | None \<Rightarrow> ttl) (mem_init ttl owner_ttl)"
  by (simp add: mem_good_def mem_init_def)

lemma mem_init_view: "mem_view (mem_init ttl owner_ttl) = Map.empty"
  by (simp add: mem_view_def mem_init_def fun_eq_iff)

lemma sql_init_good:
  "owner_ttl \<noteq> Some 0 \<Longrightarrow>
     sql_good L ttl (case owner_ttl of Some o_ttl \<Rightarrow> o_ttl | None \<Rightarrow> ttl) (sql_init ttl owner_ttl [])"
  by (simp add: sql_good_def sql_init_def split: option.splits)

lemma sql_init_good_ex: "\<exists>t. sql_good L ttl t (sql_init ttl owner_ttl [])"
  by (simp add: sql_good_def sql_init_def)

lemma sql_init_view: "sql_view L (sql_init ttl owner_ttl []) = Map.empty"
  by (simp add: sql_view_def sql_init_def fun_eq_iff)

lemma sql_reachable_good:
  "fresh_run (sql_api L) (sql_fresh L) calls (sql_init ttl owner_ttl []) \<Longrightarrow>
     \<exists>t. sql_good L ttl t (run_store (sql_api L) calls (sql_init ttl owner_ttl []))"
  using sql_init_good_ex sql.run_refines by blast

lemma sql_api_simps [simp]:
  "api_create (sql_api L) = sql_create L" "api_approve (sql_api L) = sql_approve L"
  "api_peek (sql_api L) = sql_peek L" "api_consume (sql_api L) = sql_consume L"
  "api_finalize (sql_api L) = sql_finalize" "api_revert (sql_api L) = sql_revert"
  by (simp_all add: sql_api_def)

lemma mem_api_simps [simp]:
  "api_create (mem_api L) = mem_create L" "api_approve (mem_api L) = mem_approve L"
  "api_peek (mem_api L) = mem_peek" "api_consume (mem_api L) = mem_consume L"
  "api_finalize (mem_api L) = mem_finalize" "api_revert (mem_api L) = mem_revert"
  by (simp_all add: mem_api_def)

text \<open>A short life of one ticket, for the witnesses: created, approved by the owner, claimed.\<close>

definition example_create :: store_call where
  "example_create = Create 0 ''c1'' ''agent'' ''apps.remove'' [] JNull True"

definition example_ticket :: ticket where
  "example_ticket = make_ticket example_libs 0 900 ''c1'' ''agent'' ''apps.remove'' [] JNull"

definition example_approval :: nostr_event where
  "example_approval =
     (let e = \<lparr>ev_id = [], ev_pubkey = ''owner'', ev_created_at = 1, ev_kind = 24243,
               ev_tags = [[''confirmation_id'', ''c1''], [''operation_hash'', tk_operation_hash example_ticket]],
               ev_content = [], ev_sig = []\<rparr>
      in e\<lparr>ev_id := compute_event_id example_libs e\<rparr>)"

definition example_approve :: store_call where
  "example_approve = Approve 1 ''c1'' ''owner'' (ApprovalEvent example_approval)"

lemma example_event:
  "approval_event example_libs ''owner'' ''c1'' (tk_operation_hash example_ticket) example_approval"
  by (simp add: approval_event_def example_approval_def compute_event_id_def event_serialization_def
      event_tag_def Let_def)

lemma example_sql_created:
  "call_store (sql_api example_libs) example_create (sql_init 300 (Some 900) []) =
     (sql_init 300 (Some 900) [(''c1'', sql_row_of example_libs example_ticket)], Inr (Some example_ticket))"
  by (simp add: example_create_def sql_create_def sql_init_def example_ticket_def returning_def Let_def)

lemma example_fresh:
  "sql_fresh example_libs (sql_init 300 (Some 900) []) ''c1'' JNull"
  by (simp add: sql_fresh_def sql_init_def)

lemma example_sql_approved:
  "call_store (sql_api example_libs) example_approve
     (sql_init 300 (Some 900) [(''c1'', sql_row_of example_libs example_ticket)]) =
   (sql_init 300 (Some 900)
      [(''c1'', (sql_row_of example_libs example_ticket)\<lparr>row_owner_approved_by := Some ''owner''\<rparr>)],
    Inr (Some (example_ticket\<lparr>tk_owner_approved_by := Some ''owner''\<rparr>)))"
proof -
  have "check_approval example_libs (ApprovalEvent example_approval) ''owner'' example_ticket = Inr ''owner''"
    using example_event by (simp add: check_approval_Inr) (simp add: example_ticket_def make_ticket_def)
  then show ?thesis
    by (simp add: example_approve_def sql_approve_def sql_init_def sql_get_def sql_live_def sql_is_consumed_def
        sql_update_def sql_row_of_def returning_def example_ticket_def make_ticket_def)
qed

text \<open>
  C8: the two stores are interchangeable, as \<open>SQLiteConfirmationStore\<close>'s documentation
  promises: with the same lifetimes and ids drawn fresh, every sequence of calls returns the same
  tickets and the same errors from both, and they are those of the abstract store. (An owner
  lifetime of zero is the exception.)
\<close>

theorem stores_interchangeable:
  assumes "owner_ttl \<noteq> Some 0"
    and "fresh_run (mem_api L) mem_fresh calls (mem_init ttl owner_ttl)"
    and "fresh_run (sql_api L) (sql_fresh L) calls (sql_init ttl owner_ttl [])"
  shows "store_results (mem_api L) calls (mem_init ttl owner_ttl) =
      store_results (sql_api L) calls (sql_init ttl owner_ttl []) \<and>
    store_results (sql_api L) calls (sql_init ttl owner_ttl []) =
      store_results (spec_api L ttl (case owner_ttl of Some o_ttl \<Rightarrow> o_ttl | None \<Rightarrow> ttl)) calls Map.empty"
  using mem.results_refine [OF mem_init_good assms(2)] sql.results_refine [OF sql_init_good [OF assms(1)] assms(3)]
  by (simp add: mem_init_view sql_init_view)

theorem stores_interchangeable_witness:
  "store_results (mem_api example_libs) [example_create, example_approve] (mem_init 300 (Some 900)) =
     [Inr (Some example_ticket), Inr (Some (example_ticket\<lparr>tk_owner_approved_by := Some ''owner''\<rparr>))]"
proof -
  have "fresh_run (sql_api example_libs) (sql_fresh example_libs) [example_create, example_approve] (sql_init 300 (Some 900) [])"
    using example_fresh by (simp add: example_create_def example_approve_def)
  moreover have "fresh_run (mem_api example_libs) mem_fresh [example_create, example_approve] (mem_init 300 (Some 900))"
    by (simp add: example_create_def example_approve_def mem_fresh_def mem_init_def)
  ultimately show ?thesis
    using stores_interchangeable [of "Some 900" example_libs "[example_create, example_approve]" 300]
    by (simp add: example_sql_created example_sql_approved)
qed

text \<open>
  A consume of the SQLite store succeeds only for a ticket that is stored under this id, was
  issued to this identity for this tool, has the hash of these exact arguments, has not expired,
  and carries an owner approval where one is required; a deferred one only if nobody holds the
  ticket. Any other attempt raises, and unless it only lacks the approval or the ticket is held,
  the ticket is deleted, so that ids cannot be guessed by repetition.
\<close>

theorem consume_binds_request:
  assumes "fresh_run (sql_api L) (sql_fresh L) calls (sql_init ttl owner_ttl [])"
    and "st = run_store (sql_api L) calls (sql_init ttl owner_ttl [])"
    and "sql_consume L now cid pubkey tool args owner deferred st = (st', r)"
  shows "(\<forall>t. r = Inr t \<longrightarrow>
      (\<exists>claimed. sql_view L st cid = Some (t, claimed) \<and> (deferred \<longrightarrow> \<not> claimed)) \<and>
      now < tk_expires_at t \<and> tk_pubkey t = pubkey \<and> tk_tool t = tool \<and>
      tk_arguments_hash t = hash_arguments L args \<and> (owner \<longrightarrow> tk_owner_approved_by t \<noteq> None)) \<and>
    (\<forall>e. r = Inl e \<longrightarrow> e = unapproved \<or> e = consumed_id \<or> sql_view L st' cid = None)"
proof -
  obtain t where "sql_good L ttl t st" using sql_reachable_good assms(1,2) by blast
  from sql.consume_binds [OF this] sql.consume_burns [OF this] show ?thesis
    using assms(3) by (metis fst_conv snd_conv sql_api_simps(4))
qed

theorem consume_binds_request_witness:
  "snd (sql_consume example_libs 5 ''c1'' ''intruder'' ''apps.remove'' [] False True
     (run_store (sql_api example_libs) [example_create] (sql_init 300 (Some 900) []))) = Inl other_identity \<and>
   sql_view example_libs (fst (sql_consume example_libs 5 ''c1'' ''intruder'' ''apps.remove'' [] False True
     (run_store (sql_api example_libs) [example_create] (sql_init 300 (Some 900) [])))) ''c1'' = None"
proof -
  let ?st = "run_store (sql_api example_libs) [example_create] (sql_init 300 (Some 900) [])"
  let ?r = "sql_consume example_libs 5 ''c1'' ''intruder'' ''apps.remove'' [] False True ?st"
  have other: "snd ?r = Inl other_identity"
    by (simp add: example_sql_created)
       (simp add: sql_consume_def sql_get_def sql_init_def sql_live_def sql_row_of_def example_ticket_def make_ticket_def)
  have "fresh_run (sql_api example_libs) (sql_fresh example_libs) [example_create] (sql_init 300 (Some 900) [])"
    using example_fresh by (simp add: example_create_def)
  from consume_binds_request [OF this refl, of 5 "''c1''" "''intruder''" "''apps.remove''" "[]" False True "fst ?r" "snd ?r"] other
  show ?thesis by (simp add: ticket_errors)
qed

text \<open>
  One approval executes once. After a successful consume of a ticket, and whatever calls
  follow that neither revert the ticket (its operation failed) nor draw its id anew, no deferred
  consume, no peek and no approval of it succeeds any more.
\<close>

theorem consume_one_shot:
  assumes "fresh_run (sql_api L) (sql_fresh L) calls (sql_init ttl owner_ttl [])"
    and "sql_consume L now cid pubkey tool args owner deferred
      (run_store (sql_api L) calls (sql_init ttl owner_ttl [])) = (st, Inr t)"
    and "fresh_run (sql_api L) (sql_fresh L) later st"
    and "\<forall>c \<in> set later. \<not> releases cid c"
    and "st' = run_store (sql_api L) later st"
  shows "(\<exists>e. snd (sql_consume L now' cid pubkey' tool' args' owner' True st') = Inl e) \<and>
    (\<exists>e. snd (sql_peek L now' cid st') = Inl e) \<and>
    (\<exists>e. snd (sql_approve L now' cid owner_pubkey approval st') = Inl e)"
proof -
  obtain t where "sql_good L ttl t (run_store (sql_api L) calls (sql_init ttl owner_ttl []))"
    using sql_reachable_good [OF assms(1)] by blast
  from sql.one_shot [OF this] show ?thesis
    using assms(2-5) by (metis fst_conv snd_conv sql_api_simps(2-4))
qed

theorem consume_one_shot_witness:
  "\<exists>e. snd (sql_consume example_libs 6 ''c1'' ''agent'' ''apps.remove'' [] False True
     (fst (sql_consume example_libs 5 ''c1'' ''agent'' ''apps.remove'' [] False True
       (run_store (sql_api example_libs) [example_create] (sql_init 300 (Some 900) []))))) = Inl e"
proof -
  let ?st = "run_store (sql_api example_libs) [example_create] (sql_init 300 (Some 900) [])"
  have ok: "snd (sql_consume example_libs 5 ''c1'' ''agent'' ''apps.remove'' [] False True ?st) = Inr example_ticket"
    by (simp add: example_sql_created)
       (simp add: sql_consume_def sql_get_def sql_init_def sql_live_def sql_row_of_def sql_is_consumed_def
          example_ticket_def make_ticket_def)
  have "fresh_run (sql_api example_libs) (sql_fresh example_libs) [example_create] (sql_init 300 (Some 900) [])"
    using example_fresh by (simp add: example_create_def)
  from consume_one_shot [OF this, of 5 "''c1''" "''agent''" "''apps.remove''" "[]" False True _ example_ticket "[]"] ok
  show ?thesis by (metis empty_iff empty_set fresh_run.simps(1) prod.collapse run_store.simps(1))
qed

text \<open>
  C9: an owner approval cannot be forged. If a consume that requires the owner's approval
  succeeds, then among the calls before it there is an \<open>approve\<close> of this ticket whose signed
  event verifies, was signed by the pubkey \<open>p\<close> that call was given as the configured owner, is of
  kind 24243 and names this ticket and its operation hash; and \<open>p\<close> is the recorded approver.
\<close>

theorem approval_needs_owner_event:
  assumes "fresh_run (sql_api L) (sql_fresh L) calls (sql_init ttl owner_ttl [])"
    and "snd (sql_consume L now cid pubkey tool args True deferred
      (run_store (sql_api L) calls (sql_init ttl owner_ttl []))) = Inr t"
  shows "\<exists>p tm approval e. tk_owner_approved_by t = Some p \<and> Approve tm cid p approval \<in> set calls \<and>
    parse_owner_approval L approval = Inr e \<and> ev_id e = compute_event_id L e \<and>
    verify_signature L e = Inr True \<and> ev_pubkey e = p \<and> ev_kind e = 24243 \<and>
    event_tag e ''confirmation_id'' = Some cid \<and> event_tag e ''operation_hash'' = Some (tk_operation_hash t)"
proof -
  obtain o_ttl where "sql_good L ttl o_ttl (sql_init ttl owner_ttl [])" using sql_init_good_ex by blast
  from sql.approval_provenance [OF this sql_init_view assms(1), of now cid pubkey tool args deferred t]
  show ?thesis using assms(2) unfolding approval_event_def sql_api_simps by blast
qed

theorem approval_needs_owner_event_witness:
  "\<exists>p tm approval. Approve tm ''c1'' p approval \<in> set [example_create, example_approve]"
proof -
  let ?st = "run_store (sql_api example_libs) [example_create, example_approve] (sql_init 300 (Some 900) [])"
  have ok: "snd (sql_consume example_libs 5 ''c1'' ''agent'' ''apps.remove'' [] True True ?st)
      = Inr (example_ticket\<lparr>tk_owner_approved_by := Some ''owner''\<rparr>)"
    by (simp add: example_sql_created example_sql_approved)
       (simp add: sql_consume_def sql_get_def sql_init_def sql_live_def sql_row_of_def sql_is_consumed_def
          example_ticket_def make_ticket_def)
  have "fresh_run (sql_api example_libs) (sql_fresh example_libs) [example_create, example_approve] (sql_init 300 (Some 900) [])"
    using example_fresh by (simp add: example_create_def example_approve_def)
  from approval_needs_owner_event [OF this ok] show ?thesis by blast
qed

text \<open>
  The claim of a deferred consume does not hold back a non-deferred one: the same request
  presented without \<open>defer\<close> before the expiry succeeds while the deferred operation is still
  running, in both stores. (The frontend's confirmation gate consumes without \<open>defer\<close> unless the
  broker takes the call; the one-shot property holds among deferred consumes.)
\<close>

theorem undeferred_consume_ignores_claim:
  assumes "now' < tk_expires_at t"
  shows "(snd (mem_consume L now cid pubkey tool args owner True mst) = Inr t \<longrightarrow>
      snd (mem_consume L now' cid pubkey tool args owner False
        (fst (mem_consume L now cid pubkey tool args owner True mst))) = Inr t) \<and>
    (sql_good L ttl owner_ttl sst \<and> snd (sql_consume L now cid pubkey tool args owner True sst) = Inr t \<longrightarrow>
      snd (sql_consume L now' cid pubkey tool args owner False
        (fst (sql_consume L now cid pubkey tool args owner True sst))) = Inr t)"
  using assms sql.undeferred_ignores_mark [of L ttl owner_ttl sst now cid pubkey tool args owner t now']
    mem.undeferred_ignores_mark [of "ttl_seconds mst" "owner_approval_ttl_seconds mst" mst L now cid pubkey tool args owner t now']
  by (auto simp: mem_good_def)

theorem undeferred_consume_ignores_claim_witness:
  "snd (mem_consume example_libs 6 ''c1'' ''agent'' ''apps.remove'' [] False False
     (fst (mem_consume example_libs 5 ''c1'' ''agent'' ''apps.remove'' [] False True
       (fst (call_store (mem_api example_libs) example_create (mem_init 300 (Some 900))))))) = Inr example_ticket"
proof -
  let ?st = "fst (call_store (mem_api example_libs) example_create (mem_init 300 (Some 900)))"
  have "snd (mem_consume example_libs 5 ''c1'' ''agent'' ''apps.remove'' [] False True ?st) = Inr example_ticket"
    by (simp add: example_create_def mem_create_def mem_consume_def mem_init_def example_ticket_def make_ticket_def Let_def)
  moreover have "6 < tk_expires_at example_ticket"
    by (simp add: example_ticket_def make_ticket_def)
  ultimately show ?thesis using undeferred_consume_ignores_claim by blast
qed

text \<open>
  An owner lifetime of zero seconds means two things: the in-memory store takes it as given,
  and every ticket awaiting the owner is born expired; the SQLite store reads zero as unset and
  uses the ordinary lifetime.
\<close>

theorem owner_ttl_zero_differs:
  "tk_expires_at (projr (snd (mem_create L now cid pubkey tool args plan True (mem_init ttl (Some 0))))) = now \<and>
   tk_expires_at (projr (snd (sql_create L now cid pubkey tool args plan True (sql_init ttl (Some 0) [])))) =
     now + of_int ttl \<and>
   snd (mem_peek now cid (fst (mem_create L now cid pubkey tool args plan True (mem_init ttl (Some 0))))) = Inl expired_id"
  by (simp add: mem_create_def mem_init_def mem_peek_def sql_create_def sql_init_def make_ticket_def Let_def)

end
