(* ===== verification/Rules.thy ===== *)
theory Rules
  imports Prelude
begin

text \<open>
  \<open>policy/rules.py\<close>: the policy rule of an operation, the argument-sensitive policy keys, the
  size and duration parsers, the built-in default policy, \<open>load_policy\<close> (defaults overridden
  field by field from \<open>policy.toml\<close>) and the two hard checks, free space and recent backup.
\<close>

record policy_rule =
  require_confirmation :: bool
  require_backup :: bool
  minimum_free_space_bytes :: "int option"
  max_backup_age_seconds :: "int option"
  require_owner_signature :: bool

text \<open>\<open>PolicyRule()\<close>\<close>

definition default_rule :: policy_rule where
  "default_rule = \<lparr>require_confirmation = False, require_backup = False,
     minimum_free_space_bytes = None, max_backup_age_seconds = None,
     require_owner_signature = False\<rparr>"

type_synonym policy = "(string \<times> policy_rule) list"

definition CONTROL_PLANE_APP_ID :: string where
  "CONTROL_PLANE_APP_ID = ''yunohost_mcp''"

subsection \<open>Policy keys that depend on the arguments\<close>

definition app_config_policy_key :: "dict \<Rightarrow> string" where
  "app_config_policy_key arguments =
     (if dget arguments ''app'' = JStr CONTROL_PLANE_APP_ID
      then ''apps.control_plane_config'' else ''apps.config'')"

definition app_setting_policy_key :: "dict \<Rightarrow> string" where
  "app_setting_policy_key arguments =
     (if dget arguments ''app'' = JStr CONTROL_PLANE_APP_ID
      then ''apps.control_plane_setting'' else ''apps.setting'')"

definition app_upgrade_policy_key :: "dict \<Rightarrow> string" where
  "app_upgrade_policy_key arguments =
     (let app = dget arguments ''app''
      in if app \<in> {JNull, JStr CONTROL_PLANE_APP_ID}
         then ''apps.control_plane_upgrade'' else ''apps.upgrade'')"

definition app_remove_policy_key :: "dict \<Rightarrow> string" where
  "app_remove_policy_key arguments =
     (if dget arguments ''app'' = JStr CONTROL_PLANE_APP_ID
      then ''apps.control_plane_remove'' else ''apps.remove'')"

definition app_change_url_policy_key :: "dict \<Rightarrow> string" where
  "app_change_url_policy_key arguments =
     (if dget arguments ''app'' = JStr CONTROL_PLANE_APP_ID
      then ''apps.control_plane_change_url'' else ''apps.change_url'')"

definition app_install_policy_key :: "dict \<Rightarrow> string" where
  "app_install_policy_key arguments =
     (let app = dget arguments ''app''
      in if app = JStr CONTROL_PLANE_APP_ID then ''apps.control_plane_install''
         else (case app of
             JStr s \<Rightarrow> if contains s ''yunohost_mcp'' then ''apps.control_plane_install'' else ''apps.install''
           | _ \<Rightarrow> ''apps.install''))"

definition user_create_policy_key :: "dict \<Rightarrow> string" where
  "user_create_policy_key arguments =
     (if dget_default arguments ''admin'' (JBool False) = JBool True
      then ''users.admin_access'' else ''users.write'')"

definition user_group_update_policy_key :: "dict \<Rightarrow> string" where
  "user_group_update_policy_key arguments =
     (if dget arguments ''groupname'' = JStr ''admins''
      then ''users.admin_access'' else ''users.write'')"

subsection \<open>Sizes and durations\<close>

text \<open>
  The pattern of both parsers, white space, digits, white space, letters, white space, matched
  against the whole string: the result is the digits and the unit. The classes are disjoint, so
  a greedy scan finds the only match.
\<close>

definition match_quantity :: "string \<Rightarrow> (string \<times> string) option" where
  "match_quantity value =
     (let s1 = dropWhile is_space value;
          number = takeWhile is_decimal s1;
          s2 = dropWhile is_space (dropWhile is_decimal s1);
          unit = takeWhile is_letter s2;
          rest = dropWhile is_letter s2
      in if number \<noteq> [] \<and> list_all is_space rest then Some (number, unit) else None)"

definition SIZE_UNITS :: "(string \<times> int) list" where
  "SIZE_UNITS = [('''', 1), (''B'', 1), (''KB'', 1000), (''MB'', 1000 ^ 2), (''GB'', 1000 ^ 3), (''TB'', 1000 ^ 4)]"

definition DURATION_UNITS :: "(string \<times> int) list" where
  "DURATION_UNITS = [(''s'', 1), (''m'', 60), (''h'', 3600), (''d'', 86400)]"

text \<open>\<open>int(number)\<close> of a run of decimal digits.\<close>

definition digits_int :: "string \<Rightarrow> int" where
  "digits_int number = foldl (\<lambda>n c. 10 * n + (int (code c) - 48)) 0 number"

definition parse_size :: "string \<Rightarrow> exn + int" where
  "parse_size value =
     (case match_quantity value of
        None \<Rightarrow> Inl (Exn PolicyConfigError
          (''not a size (e.g. '' @ py_repr ''2GB'' @ '', '' @ py_repr ''512MB'' @ ''): '' @ py_repr value))
      | Some (number, unit) \<Rightarrow>
          (case map_of SIZE_UNITS (str_upper unit) of
             None \<Rightarrow> Inl (Exn PolicyConfigError
               (''unknown size unit '' @ py_repr unit @ '' in '' @ py_repr value))
           | Some multiplier \<Rightarrow> Inr (digits_int number * multiplier)))"

definition parse_duration :: "string \<Rightarrow> exn + int" where
  "parse_duration value =
     (case match_quantity value of
        None \<Rightarrow> Inl (Exn PolicyConfigError
          (''not a duration (e.g. '' @ py_repr ''24h'' @ '', '' @ py_repr ''30m'' @ ''): '' @ py_repr value))
      | Some (number, unit0) \<Rightarrow>
          (let unit = (if str_lower unit0 = '''' then ''s'' else str_lower unit0)
           in case map_of DURATION_UNITS unit of
             None \<Rightarrow> Inl (Exn PolicyConfigError
               (''unknown duration unit '' @ py_repr unit @ '' in '' @ py_repr value))
           | Some multiplier \<Rightarrow> Inr (digits_int number * multiplier)))"

subsection \<open>The built-in policy\<close>

text \<open>\<open>_parse_size("2GB")\<close> and \<open>_parse_duration("24h")\<close> at module load; they do not raise.\<close>

definition quantity :: "exn + int \<Rightarrow> int option" where
  "quantity r = (case r of Inl _ \<Rightarrow> None | Inr n \<Rightarrow> Some n)"

definition DEFAULT_POLICY :: policy where
  "DEFAULT_POLICY = [
     (''catalog.publish'', default_rule\<lparr>require_confirmation := True, require_owner_signature := True\<rparr>),
     (''domains.write'', default_rule\<lparr>require_confirmation := True\<rparr>),
     (''domains.cert'', default_rule\<lparr>require_confirmation := True\<rparr>),
     (''domains.dns'', default_rule\<lparr>require_confirmation := True, require_owner_signature := True\<rparr>),
     (''packages.test'', default_rule\<lparr>require_confirmation := True, require_owner_signature := True\<rparr>),
     (''apps.upgrade'', default_rule\<lparr>require_backup := True, minimum_free_space_bytes := quantity (parse_size ''2GB'')\<rparr>),
     (''apps.control_plane_upgrade'', default_rule\<lparr>require_confirmation := True, require_backup := True, minimum_free_space_bytes := quantity (parse_size ''2GB''), require_owner_signature := True\<rparr>),
     (''apps.install'', default_rule\<lparr>require_confirmation := True, minimum_free_space_bytes := quantity (parse_size ''2GB'')\<rparr>),
     (''apps.control_plane_install'', default_rule\<lparr>require_confirmation := True, require_owner_signature := True\<rparr>),
     (''apps.control_plane_remove'', default_rule\<lparr>require_confirmation := True, require_backup := True, max_backup_age_seconds := quantity (parse_duration ''24h''), require_owner_signature := True\<rparr>),
     (''apps.remove'', default_rule\<lparr>require_confirmation := True, require_backup := True, max_backup_age_seconds := quantity (parse_duration ''24h'')\<rparr>),
     (''apps.change_url'', default_rule\<lparr>require_confirmation := True\<rparr>),
     (''apps.control_plane_change_url'', default_rule\<lparr>require_confirmation := True, require_owner_signature := True\<rparr>),
     (''apps.config'', default_rule\<lparr>require_confirmation := True\<rparr>),
     (''apps.control_plane_config'', default_rule\<lparr>require_confirmation := True, require_owner_signature := True\<rparr>),
     (''apps.setting'', default_rule\<lparr>require_confirmation := True\<rparr>),
     (''apps.control_plane_setting'', default_rule\<lparr>require_confirmation := True, require_owner_signature := True\<rparr>),
     (''services.stop'', default_rule\<lparr>require_confirmation := True\<rparr>),
     (''backups.restore'', default_rule\<lparr>require_confirmation := True, require_owner_signature := True\<rparr>),
     (''domains.remove'', default_rule\<lparr>require_confirmation := True, require_owner_signature := True\<rparr>),
     (''backups.delete'', default_rule\<lparr>require_confirmation := True, require_owner_signature := True\<rparr>),
     (''system.upgrade'', default_rule\<lparr>require_confirmation := True, require_owner_signature := True\<rparr>),
     (''system.migrate'', default_rule\<lparr>require_confirmation := True, require_owner_signature := True\<rparr>),
     (''users.write'', default_rule\<lparr>require_confirmation := True\<rparr>),
     (''users.admin_access'', default_rule\<lparr>require_confirmation := True, require_owner_signature := True\<rparr>),
     (''users.delete'', default_rule\<lparr>require_confirmation := True, require_owner_signature := True\<rparr>),
     (''users.permissions'', default_rule\<lparr>require_confirmation := True, require_owner_signature := True\<rparr>),
     (''firewall.write'', default_rule\<lparr>require_confirmation := True, require_owner_signature := True\<rparr>),
     (''settings.write'', default_rule\<lparr>require_confirmation := True, require_owner_signature := True\<rparr>),
     (''regenconf.write'', default_rule\<lparr>require_confirmation := True, require_owner_signature := True\<rparr>),
     (''system.power'', default_rule\<lparr>require_confirmation := True, require_owner_signature := True\<rparr>),
     (''audit.read'', default_rule\<lparr>require_confirmation := True, require_owner_signature := True\<rparr>)]"

definition policy_get :: "policy \<Rightarrow> string \<Rightarrow> policy_rule" where
  "policy_get rules key = (case map_of rules key of None \<Rightarrow> default_rule | Some r \<Rightarrow> r)"

subsection \<open>\<open>policy.toml\<close>\<close>

text \<open>
  \<open>in\<close> and indexing on a section that is no table behave as Python's: a string tests for a
  substring and a list for an element, both then fail to be indexed by a string.
\<close>

definition entry_has :: "json \<Rightarrow> string \<Rightarrow> exn + bool" where
  "entry_has entry k = (case entry of
      JObj d \<Rightarrow> Inr (dhas d k)
    | JStr s \<Rightarrow> Inr (contains s k)
    | JList xs \<Rightarrow> Inr (JStr k \<in> set xs)
    | _ \<Rightarrow> Inl (Exn TypeError ''argument is not iterable''))"

definition entry_item :: "json \<Rightarrow> string \<Rightarrow> exn + json" where
  "entry_item entry k = (case entry of
      JObj d \<Rightarrow> (case map_of d k of None \<Rightarrow> Inl (Exn KeyError (py_repr k)) | Some v \<Rightarrow> Inr v)
    | _ \<Rightarrow> Inl (Exn TypeError ''indices must be integers''))"

text \<open>One \<open>if name in entry: overrides[field] = conv(entry[name])\<close>.\<close>

definition override ::
  "json \<Rightarrow> string \<Rightarrow> (json \<Rightarrow> exn + 'a) \<Rightarrow> 'a \<Rightarrow> exn + 'a" where
  "override entry k conv base =
     ebind (entry_has entry k) (\<lambda>present.
       if present then ebind (entry_item entry k) conv else Inr base)"

definition override_rule :: "(json \<Rightarrow> string) \<Rightarrow> policy_rule \<Rightarrow> json \<Rightarrow> exn + policy_rule" where
  "override_rule fmt base entry =
     ebind (override entry ''require_confirmation'' (\<lambda>v. Inr (truthy v)) (require_confirmation base)) (\<lambda>confirmation.
     ebind (override entry ''require_backup'' (\<lambda>v. Inr (truthy v)) (require_backup base)) (\<lambda>backup.
     ebind (override entry ''minimum_free_space''
              (\<lambda>v. ebind (parse_size (py_str fmt v)) (\<lambda>n. Inr (Some n))) (minimum_free_space_bytes base)) (\<lambda>space.
     ebind (override entry ''max_backup_age''
              (\<lambda>v. ebind (parse_duration (py_str fmt v)) (\<lambda>n. Inr (Some n))) (max_backup_age_seconds base)) (\<lambda>age.
     ebind (override entry ''require_owner_signature'' (\<lambda>v. Inr (truthy v)) (require_owner_signature base)) (\<lambda>owner.
     Inr \<lparr>require_confirmation = confirmation, require_backup = backup,
          minimum_free_space_bytes = space, max_backup_age_seconds = age,
          require_owner_signature = owner\<rparr>)))))"

fun load_sections :: "(json \<Rightarrow> string) \<Rightarrow> policy \<Rightarrow> dict \<Rightarrow> exn + policy" where
  "load_sections fmt rules [] = Inr rules"
| "load_sections fmt rules ((key, entry) # sections) =
     ebind (override_rule fmt (policy_get rules key) entry) (\<lambda>r.
       load_sections fmt (AList.update key r rules) sections)"

definition load_policy :: "(json \<Rightarrow> string) \<Rightarrow> string \<Rightarrow> toml_file \<Rightarrow> exn + policy" where
  "load_policy fmt path file = (case file of
      TomlMissing \<Rightarrow> Inr DEFAULT_POLICY
    | TomlMalformed msg \<Rightarrow> Inl (Exn PolicyConfigError (path @ '': invalid TOML: '' @ msg))
    | TomlDoc data \<Rightarrow>
        (case dget_default data ''policy'' (JObj []) of
           JObj sections \<Rightarrow> load_sections fmt DEFAULT_POLICY sections
         | _ \<Rightarrow> Inl (Exn AttributeError ''object has no attribute items'')))"

subsection \<open>Hard checks\<close>

definition check_free_space :: "policy_rule \<Rightarrow> int \<Rightarrow> exn + unit" where
  "check_free_space rule free_bytes =
     (case minimum_free_space_bytes rule of
        None \<Rightarrow> Inr ()
      | Some minimum \<Rightarrow>
          if free_bytes < minimum
          then Inl (Exn PolicyViolation (''only '' @ show_int free_bytes @
                 '' bytes free, policy requires at least '' @ show_int minimum))
          else Inr ())"

definition check_recent_backup :: "policy_rule \<Rightarrow> (string \<times> real) list \<Rightarrow> real \<Rightarrow> exn + unit" where
  "check_recent_backup rule archive_created_at now =
     (if \<not> require_backup rule then Inr ()
      else if archive_created_at = []
      then Inl (Exn PolicyViolation ''policy requires a recent backup, but no backup archives exist'')
      else let newest = Max (set (map snd archive_created_at))
           in case max_backup_age_seconds rule of
                None \<Rightarrow> Inr ()
              | Some age \<Rightarrow>
                  if now - newest > of_int age
                  then Inl (Exn PolicyViolation (''newest backup is '' @ show_int (py_trunc (now - newest)) @
                         ''s old, policy requires one within '' @ show_int age @ ''s''))
                  else Inr ())"

subsection \<open>Lemmas\<close>

lemma char_class_disjoint:
  "is_space c \<Longrightarrow> \<not> is_decimal c"
  "is_space c \<Longrightarrow> \<not> is_letter c"
  "is_decimal c \<Longrightarrow> \<not> is_letter c"
  by (auto simp: is_space_def is_decimal_def is_letter_def is_upper_def is_lower_def Let_def)

lemma takeWhile_run: "list_all P xs \<Longrightarrow> takeWhile P (xs @ ys) = xs @ takeWhile P ys"
  by (induction xs) auto

lemma dropWhile_run: "list_all P xs \<Longrightarrow> dropWhile P (xs @ ys) = dropWhile P ys"
  by (induction xs) auto

lemma run_stops:
  "list_all Q xs \<Longrightarrow> (\<And>c. Q c \<Longrightarrow> \<not> P c) \<Longrightarrow> xs \<noteq> [] \<Longrightarrow>
     takeWhile P (xs @ ys) = [] \<and> dropWhile P (xs @ ys) = xs @ ys"
  by (cases xs) auto

lemma list_all_takeWhile: "list_all P (takeWhile P xs)"
  by (simp add: list_all_iff) (meson set_takeWhileD)

lemma match_quantity_complete:
  assumes "list_all is_space w1" "list_all is_decimal number" "number \<noteq> []"
    "list_all is_space w2" "list_all is_letter unit" "list_all is_space w3"
  shows "match_quantity (w1 @ number @ w2 @ unit @ w3) = Some (number, unit)"
proof -
  have s1: "dropWhile is_space (w1 @ number @ w2 @ unit @ w3) = number @ w2 @ unit @ w3"
    using assms run_stops [of is_decimal number is_space] char_class_disjoint(1)
    by (simp add: dropWhile_run) blast
  have tail: "takeWhile is_decimal (w2 @ unit @ w3) = [] \<and> dropWhile is_decimal (w2 @ unit @ w3) = w2 @ unit @ w3"
    if "list_all is_space w2" "list_all is_letter unit" "list_all is_space w3" for w2 unit w3
    using that by (cases w2; cases unit; cases w3) (auto dest: char_class_disjoint)
  have letters: "dropWhile is_space (unit @ w3) = (if unit = [] then [] else unit @ w3)"
    using assms(5,6) dropWhile_run [of is_space w3 "[]"]
    by (cases unit) (auto dest: char_class_disjoint)
  have rest: "takeWhile is_letter w3 = [] \<and> dropWhile is_letter w3 = w3"
    using assms(6) by (cases w3) (auto dest: char_class_disjoint)
  show ?thesis
    using assms tail [OF assms(4-6)] letters rest
    by (simp add: match_quantity_def Let_def s1 takeWhile_run dropWhile_run)
qed

lemma match_quantity_sound:
  assumes "match_quantity value = Some (number, unit)"
  shows "\<exists>w1 w2 w3. value = w1 @ number @ w2 @ unit @ w3 \<and> number \<noteq> [] \<and>
    list_all is_space w1 \<and> list_all is_decimal number \<and> list_all is_space w2 \<and>
    list_all is_letter unit \<and> list_all is_space w3"
proof -
  define s1 where "s1 = dropWhile is_space value"
  define s2 where "s2 = dropWhile is_space (dropWhile is_decimal s1)"
  have number: "number = takeWhile is_decimal s1" "number \<noteq> []"
    and unit: "unit = takeWhile is_letter s2"
    and rest: "list_all is_space (dropWhile is_letter s2)"
    using assms by (auto simp: match_quantity_def Let_def s1_def s2_def split: if_splits)
  have "value = takeWhile is_space value @ s1" by (simp add: s1_def)
  moreover have "s1 = number @ takeWhile is_space (dropWhile is_decimal s1) @ s2"
    by (simp add: number s2_def)
  moreover have "s2 = unit @ dropWhile is_letter s2" by (simp add: unit)
  ultimately show ?thesis
    using number rest unit
    by (intro exI [where x = "takeWhile is_space value"]
          exI [where x = "takeWhile is_space (dropWhile is_decimal s1)"]
          exI [where x = "dropWhile is_letter s2"])
       (metis append.assoc list_all_takeWhile)
qed

lemma digits_int_snoc: "digits_int (xs @ [c]) = 10 * digits_int xs + (int (code c) - 48)"
  by (simp add: digits_int_def)

lemma show_nat_digits: "list_all is_decimal (show_nat n) \<and> show_nat n \<noteq> [] \<and> digits_int (show_nat n) = int n"
proof (induction n rule: show_nat.induct)
  case (1 n)
  show ?case
  proof (cases "n < 10")
    case True
    then show ?thesis
      by (simp add: show_nat.simps [of n] is_decimal_def code_char_of digits_int_def)
  next
    case False
    have "is_decimal (char_of (48 + n mod 10))"
      by (simp add: is_decimal_def code_char_of)
    moreover have "int (code (char_of (48 + n mod 10))) - 48 = int (n mod 10)"
      by (simp add: code_char_of)
    ultimately show ?thesis
      using False 1 by (simp add: show_nat.simps [of n] digits_int_snoc) presburger
  qed
qed

text \<open>The language of the source's pattern, as a specification: what \<open>fullmatch\<close> accepts with
  the groups \<open>number\<close> and \<open>unit\<close>.\<close>

definition quantity_form :: "string \<Rightarrow> string \<Rightarrow> string \<Rightarrow> bool" where
  "quantity_form value number unit \<longleftrightarrow>
     (\<exists>w1 w2 w3. value = w1 @ number @ w2 @ unit @ w3 \<and> number \<noteq> [] \<and>
       list_all is_space (w1 @ w2 @ w3) \<and> list_all is_decimal number \<and> list_all is_letter unit)"

lemma match_quantity_iff: "match_quantity value = Some (number, unit) \<longleftrightarrow> quantity_form value number unit"
proof
  show "match_quantity value = Some (number, unit) \<Longrightarrow> quantity_form value number unit"
    using match_quantity_sound unfolding quantity_form_def list_all_append by blast
  show "quantity_form value number unit \<Longrightarrow> match_quantity value = Some (number, unit)"
    by (auto simp: quantity_form_def intro!: match_quantity_complete)
qed

lemma parse_size_Inr:
  "parse_size value = Inr k \<longleftrightarrow>
     (\<exists>number unit m. quantity_form value number unit \<and>
        map_of SIZE_UNITS (str_upper unit) = Some m \<and> k = digits_int number * m)"
  by (auto simp: parse_size_def match_quantity_iff [symmetric] split: option.splits)

lemma parse_duration_Inr:
  "parse_duration value = Inr k \<longleftrightarrow>
     (\<exists>number unit m. quantity_form value number unit \<and>
        map_of DURATION_UNITS (if unit = [] then ''s'' else str_lower unit) = Some m \<and>
        k = digits_int number * m)"
  by (auto simp: parse_duration_def match_quantity_iff [symmetric] str_lower_def Let_def
      split: option.splits if_splits)

text \<open>
  The size and duration parsers accept exactly the pattern of the source, decimal digits and
  a known unit with any spacing around them, and return the number times the unit; in particular
  printing a number with spacing and a unit and parsing it back gives the product.
\<close>

theorem parse_quantities_correct:
  "(parse_size value = Inr k \<longleftrightarrow>
     (\<exists>number unit m. quantity_form value number unit \<and>
        map_of SIZE_UNITS (str_upper unit) = Some m \<and> k = digits_int number * m)) \<and>
   (parse_duration value = Inr d \<longleftrightarrow>
     (\<exists>number unit m. quantity_form value number unit \<and>
        map_of DURATION_UNITS (if unit = [] then ''s'' else str_lower unit) = Some m \<and>
        d = digits_int number * m)) \<and>
   parse_size ('' '' @ show_nat n @ '' GB'') = Inr (int n * 1000 ^ 3) \<and>
   parse_duration (show_nat n @ ''h'') = Inr (int n * 3600)"
proof -
  have gb: "quantity_form ('' '' @ show_nat n @ '' GB'') (show_nat n) ''GB''"
    unfolding quantity_form_def
    by (rule exI [where x = "'' ''"], rule exI [where x = "'' ''"], rule exI [where x = "[]"])
       (simp add: show_nat_digits is_space_def is_letter_def is_upper_def is_lower_def code_def)
  have h: "quantity_form (show_nat n @ ''h'') (show_nat n) ''h''"
    unfolding quantity_form_def
    by (rule exI [where x = "[]"], rule exI [where x = "[]"], rule exI [where x = "[]"])
       (simp add: show_nat_digits is_letter_def is_upper_def is_lower_def code_def)
  have "map_of SIZE_UNITS (str_upper ''GB'') = Some (1000 ^ 3)"
    by (simp add: SIZE_UNITS_def str_upper_def upper_char_def is_lower_def code_def)
  then have size: "parse_size ('' '' @ show_nat n @ '' GB'') = Inr (int n * 1000 ^ 3)"
    using gb show_nat_digits parse_size_Inr by metis
  have "map_of DURATION_UNITS (str_lower ''h'') = Some 3600"
    by (simp add: DURATION_UNITS_def str_lower_def lower_char_def is_upper_def code_def)
  then have duration: "parse_duration (show_nat n @ ''h'') = Inr (int n * 3600)"
    unfolding parse_duration_Inr using h show_nat_digits
    by (intro exI [where x = "show_nat n"] exI [where x = "[CHR 0x68]"] exI [where x = "3600 :: int"]) simp
  show ?thesis
    by (intro conjI) (rule parse_size_Inr, rule parse_duration_Inr, rule size, rule duration)
qed

subsection \<open>The policy file\<close>

text \<open>What a section sets: its value for a field of the rule, or the base value.\<close>

lemma override_table:
  "override (JObj d) k conv base =
     (case map_of d k of None \<Rightarrow> Inr base | Some v \<Rightarrow> conv v)"
  by (auto simp: override_def entry_has_def entry_item_def dhas_iff_map_of split: option.split)

lemma load_sections_other:
  "load_sections fmt rules sections = Inr rules' \<Longrightarrow> key \<notin> fst ` set sections \<Longrightarrow>
   map_of rules' key = map_of rules key"
  by (induction fmt rules sections rule: load_sections.induct) auto

lemma load_sections_key:
  "load_sections fmt rules sections = Inr rules' \<Longrightarrow> distinct (map fst sections) \<Longrightarrow>
   map_of sections key = Some entry \<Longrightarrow>
   override_rule fmt (policy_get rules key) entry = Inr (policy_get rules' key)"
proof (induction fmt rules sections rule: load_sections.induct)
  case (1 fmt rules)
  then show ?case by simp
next
  case (2 fmt rules k e sections)
  then obtain r where r: "override_rule fmt (policy_get rules k) e = Inr r"
    and rest: "load_sections fmt (AList.update k r rules) sections = Inr rules'"
    by auto
  show ?case
  proof (cases "key = k")
    case True
    then have "key \<notin> fst ` set sections" using 2 by simp
    with rest have "map_of rules' key = Some r"
      using load_sections_other True by fastforce
    with True r 2 show ?thesis by (simp add: policy_get_def)
  next
    case False
    with 2 r rest show ?thesis by (auto simp: policy_get_def)
  qed
qed

lemma override_rule_table:
  "override_rule fmt base (JObj d) = Inr r \<Longrightarrow>
   require_confirmation r = (case map_of d ''require_confirmation'' of
       None \<Rightarrow> require_confirmation base | Some v \<Rightarrow> truthy v) \<and>
   require_backup r = (case map_of d ''require_backup'' of
       None \<Rightarrow> require_backup base | Some v \<Rightarrow> truthy v) \<and>
   require_owner_signature r = (case map_of d ''require_owner_signature'' of
       None \<Rightarrow> require_owner_signature base | Some v \<Rightarrow> truthy v) \<and>
   (map_of d ''minimum_free_space'' = None \<longrightarrow> minimum_free_space_bytes r = minimum_free_space_bytes base) \<and>
   (map_of d ''max_backup_age'' = None \<longrightarrow> max_backup_age_seconds r = max_backup_age_seconds base)"
  by (auto simp: override_rule_def override_table split: option.splits)

text \<open>
  \<open>policy.toml\<close> overrides only what it sets. A missing file gives the defaults; whenever a
  document loads, a key without a section keeps its default rule, and a section keeps every
  safeguard of the rule it refines except the fields it names.
\<close>

theorem load_policy_floor:
  assumes "load_policy fmt path (TomlDoc data) = Inr rules"
    and "dget_default data ''policy'' (JObj []) = JObj sections"
    and "distinct (map fst sections)"
  shows "load_policy fmt path TomlMissing = Inr DEFAULT_POLICY \<and>
    (key \<notin> fst ` set sections \<longrightarrow> map_of rules key = map_of DEFAULT_POLICY key) \<and>
    (\<forall>d. map_of sections key = Some (JObj d) \<longrightarrow>
      (let base = policy_get DEFAULT_POLICY key; r = policy_get rules key in
       require_confirmation r = (case map_of d ''require_confirmation'' of
           None \<Rightarrow> require_confirmation base | Some v \<Rightarrow> truthy v) \<and>
       require_backup r = (case map_of d ''require_backup'' of
           None \<Rightarrow> require_backup base | Some v \<Rightarrow> truthy v) \<and>
       require_owner_signature r = (case map_of d ''require_owner_signature'' of
           None \<Rightarrow> require_owner_signature base | Some v \<Rightarrow> truthy v) \<and>
       (map_of d ''minimum_free_space'' = None \<longrightarrow>
          minimum_free_space_bytes r = minimum_free_space_bytes base) \<and>
       (map_of d ''max_backup_age'' = None \<longrightarrow>
          max_backup_age_seconds r = max_backup_age_seconds base)))"
proof -
  have rules: "load_sections fmt DEFAULT_POLICY sections = Inr rules"
    using assms by (simp add: load_policy_def)
  show ?thesis
    using load_sections_other [OF rules] load_sections_key [OF rules assms(3), THEN override_rule_table]
    by (simp add: load_policy_def Let_def)
qed

theorem load_policy_floor_witness:
  "map_of DEFAULT_POLICY ''services.stop'' =
     map_of (case load_policy (\<lambda>_. '''') ''p'' (TomlDoc [(''policy'', JObj [(''apps.remove'',
        JObj [(''require_backup'', JBool False)])])]) of Inr r \<Rightarrow> r) ''services.stop''"
proof -
  let ?sections = "[(''apps.remove'', JObj [(''require_backup'', JBool False)])]"
  obtain r where r: "override_rule (\<lambda>_. '''') (policy_get DEFAULT_POLICY ''apps.remove'')
      (JObj [(''require_backup'', JBool False)]) = Inr r"
    by (simp add: override_rule_def override_table)
  then have l: "load_policy (\<lambda>_. '''') ''p'' (TomlDoc [(''policy'', JObj ?sections)]) =
      Inr (AList.update ''apps.remove'' r DEFAULT_POLICY)"
    by (simp add: load_policy_def)
  show ?thesis
    using load_policy_floor [OF l, of ?sections "''services.stop''"] l by simp
qed

subsection \<open>The hard checks and the control plane\<close>

lemma newest_le:
  "archives \<noteq> [] \<Longrightarrow> now - Max (snd ` set archives) \<le> r \<longleftrightarrow> (\<exists>a \<in> set archives. now - snd a \<le> r)"
  for now r :: real
proof -
  assume "archives \<noteq> []"
  then have "now - r \<le> Max (snd ` set archives) \<longleftrightarrow> (\<exists>c \<in> snd ` set archives. now - r \<le> c)"
    by (intro Max_ge_iff) auto
  then show ?thesis by (auto simp: algebra_simps)
qed

lemma check_recent_backup_ok:
  "check_recent_backup rule archives now = Inr () \<longleftrightarrow>
     \<not> require_backup rule \<or>
     archives \<noteq> [] \<and>
     (case max_backup_age_seconds rule of None \<Rightarrow> True
      | Some age \<Rightarrow> \<exists>a \<in> set archives. now - snd a \<le> of_int age)"
  by (cases "archives = []")
     (simp_all add: check_recent_backup_def newest_le [symmetric] not_less split: option.split)

text \<open>
  The hard checks pass exactly when the rule's requirement is met: enough free bytes, and,
  when a backup is required, some archive exists and one of them is no older than the allowed
  age; every failure is a \<open>PolicyViolation\<close>.
\<close>

theorem hard_checks_exact:
  "(check_free_space rule free = Inr () \<longleftrightarrow>
      (case minimum_free_space_bytes rule of None \<Rightarrow> True | Some m \<Rightarrow> m \<le> free)) \<and>
   (check_recent_backup rule archives now = Inr () \<longleftrightarrow>
      \<not> (require_backup rule \<and>
         (archives = [] \<or>
          (case max_backup_age_seconds rule of None \<Rightarrow> False
           | Some age \<Rightarrow> \<not> (\<exists>a \<in> set archives. now - snd a \<le> of_int age))))) \<and>
   {e. check_free_space rule free = Inl e \<or> check_recent_backup rule archives now = Inl e} \<subseteq>
     {e. exn_cls e = PolicyViolation}"
proof -
  have "check_free_space rule free = Inr () \<longleftrightarrow>
      (case minimum_free_space_bytes rule of None \<Rightarrow> True | Some m \<Rightarrow> m \<le> free)"
    by (auto simp: check_free_space_def split: option.splits)
  moreover have "check_recent_backup rule archives now = Inr () \<longleftrightarrow>
      \<not> (require_backup rule \<and>
         (archives = [] \<or>
          (case max_backup_age_seconds rule of None \<Rightarrow> False
           | Some age \<Rightarrow> \<not> (\<exists>a \<in> set archives. now - snd a \<le> of_int age))))"
    unfolding check_recent_backup_ok by (auto split: option.splits)
  moreover have "exn_cls e = PolicyViolation"
    if "check_free_space rule free = Inl e \<or> check_recent_backup rule archives now = Inl e" for e
    using that by (auto simp: check_free_space_def check_recent_backup_def Let_def
        split: option.splits if_splits)
  ultimately show ?thesis by blast
qed

definition control_plane_keys :: "string list" where
  "control_plane_keys = [''apps.control_plane_config'', ''apps.control_plane_setting'',
     ''apps.control_plane_upgrade'', ''apps.control_plane_remove'',
     ''apps.control_plane_change_url'', ''apps.control_plane_install'']"

definition owner_gated :: "policy \<Rightarrow> string \<Rightarrow> bool" where
  "owner_gated rules key \<longleftrightarrow>
     require_confirmation (policy_get rules key) \<and> require_owner_signature (policy_get rules key)"

lemmas policy_key_defs = app_config_policy_key_def app_setting_policy_key_def
  app_upgrade_policy_key_def app_remove_policy_key_def app_change_url_policy_key_def
  app_install_policy_key_def

lemma control_plane_keys_gated: "\<forall>key \<in> set control_plane_keys. owner_gated DEFAULT_POLICY key"
  by (simp add: control_plane_keys_def owner_gated_def policy_get_def DEFAULT_POLICY_def)

text \<open>
  Under the default policy every operation whose \<open>app\<close> argument is this server's own package
  (or an upgrade of all apps, or an installation whose source text names the package id) is
  routed to a rule that requires a confirmation and the owner's signature.
\<close>

theorem control_plane_owner_gated:
  assumes "dget arguments ''app'' = JStr CONTROL_PLANE_APP_ID"
    and "dget upgrade_all ''app'' = JNull"
    and "dget install ''app'' = JStr source" and "contains source ''yunohost_mcp''"
  shows "owner_gated DEFAULT_POLICY (app_config_policy_key arguments) \<and>
    owner_gated DEFAULT_POLICY (app_setting_policy_key arguments) \<and>
    owner_gated DEFAULT_POLICY (app_upgrade_policy_key arguments) \<and>
    owner_gated DEFAULT_POLICY (app_upgrade_policy_key upgrade_all) \<and>
    owner_gated DEFAULT_POLICY (app_remove_policy_key arguments) \<and>
    owner_gated DEFAULT_POLICY (app_change_url_policy_key arguments) \<and>
    owner_gated DEFAULT_POLICY (app_install_policy_key arguments) \<and>
    owner_gated DEFAULT_POLICY (app_install_policy_key install)"
  using assms control_plane_keys_gated
  by (auto simp: policy_key_defs control_plane_keys_def Let_def)

theorem control_plane_owner_gated_witness:
  "owner_gated DEFAULT_POLICY (app_remove_policy_key [(''app'', JStr ''yunohost_mcp'')])"
  using control_plane_owner_gated [of "[(''app'', JStr ''yunohost_mcp'')]" "[]"
      "[(''app'', JStr ''yunohost_mcp'')]" "''yunohost_mcp''"]
  by (simp add: CONTROL_PLANE_APP_ID_def)

text \<open>
  The routing has two gaps. An upgrade that names the package in a list of apps, a form the
  broker's own argument check accepts, gets the ordinary \<open>apps.upgrade\<close> rule, which asks for no
  confirmation and no owner; and an installation from a source that spells the package with a
  hyphen, as the package's own repository does, gets the ordinary \<open>apps.install\<close> rule.
\<close>

theorem control_plane_routing_gaps:
  "app_upgrade_policy_key [(''app'', JList [JStr CONTROL_PLANE_APP_ID])] = ''apps.upgrade'' \<and>
   \<not> require_confirmation (policy_get DEFAULT_POLICY ''apps.upgrade'') \<and>
   app_install_policy_key [(''app'', JStr ''https://github.com/imattau/yunohost-mcp_ynh'')] = ''apps.install'' \<and>
   \<not> owner_gated DEFAULT_POLICY ''apps.install''"
  by (simp add: app_upgrade_policy_key_def app_install_policy_key_def CONTROL_PLANE_APP_ID_def
      policy_get_def DEFAULT_POLICY_def default_rule_def owner_gated_def starts_with_def)

end
