(* ===== verification/Package_Sessions.thy ===== *)
theory Package_Sessions
  imports Nostr
begin

text \<open>
  \<open>policy/package_sessions.py\<close>: the table of short-lived, identity-bound package-test sessions.
  The connection is in autocommit mode, so a row deleted before an exception stays deleted. Ids are
  drawn by the caller's \<open>uuid4\<close>; times are readings of the clock.
\<close>

record package_session =
  ps_session_id :: string
  ps_pubkey :: string
  ps_source :: string
  ps_source_hash :: string
  ps_app_id :: string
  ps_created_at :: real
  ps_expires_at :: real

record session_store =
  ss_ttl_seconds :: int
  ss_sessions :: "package_session list"

definition session_error :: "string \<Rightarrow> exn" where
  "session_error msg = Exn PackageTestSessionError msg"

definition source_hash :: "libs \<Rightarrow> string \<Rightarrow> string" where
  "source_hash L source = sha256_hex L source"

definition session_create ::
  "libs \<Rightarrow> real \<Rightarrow> string \<Rightarrow> string \<Rightarrow> string \<Rightarrow> string \<Rightarrow> session_store \<Rightarrow> session_store \<times> (exn + package_session)" where
  "session_create L now session_id pubkey source app_id st =
     (let session = \<lparr>ps_session_id = session_id, ps_pubkey = pubkey, ps_source = source,
            ps_source_hash = source_hash L source, ps_app_id = app_id, ps_created_at = now,
            ps_expires_at = now + of_int (ss_ttl_seconds st)\<rparr>
      in if list_ex (\<lambda>s. ps_session_id s = session_id) (ss_sessions st)
         then (st, Inl (Exn OtherError ''UNIQUE constraint failed: package_test_sessions.id''))
         else (st\<lparr>ss_sessions := ss_sessions st @ [session]\<rparr>, Inr session))"

text \<open>The source and the application are compared as they come in the request: absent (\<open>None\<close>), a
  string, or any other value.\<close>

fun session_text :: "json \<Rightarrow> string" where
  "session_text (JStr s) = s"
| "session_text _ = []"

definition session_get ::
  "libs \<Rightarrow> real \<Rightarrow> string \<Rightarrow> string \<Rightarrow> json \<Rightarrow> json \<Rightarrow> session_store \<Rightarrow>
     session_store \<times> (exn + package_session)" where
  "session_get L now session_id pubkey source app_id st =
     (case find (\<lambda>s. ps_session_id s = session_id) (ss_sessions st) of
        None \<Rightarrow> (st, Inl (session_error ''unknown package-test session''))
      | Some session \<Rightarrow>
          if now \<ge> ps_expires_at session
          then (st\<lparr>ss_sessions := filter (\<lambda>s. ps_session_id s \<noteq> session_id) (ss_sessions st)\<rparr>,
                Inl (session_error ''package-test session has expired''))
          else if ps_pubkey session \<noteq> pubkey
          then (st, Inl (session_error ''package-test session belongs to a different identity''))
          else if source \<noteq> JNull \<and> (source \<noteq> JStr (ps_source session) \<or>
                    source_hash L (session_text source) \<noteq> ps_source_hash session)
          then (st, Inl (session_error ''package-test source does not match the prepared session''))
          else if app_id \<noteq> JNull \<and> app_id \<noteq> JStr (ps_app_id session)
          then (st, Inl (session_error ''package-test app does not match the prepared session''))
          else (st, Inr session))"

definition session_delete :: "string \<Rightarrow> string \<Rightarrow> session_store \<Rightarrow> session_store" where
  "session_delete session_id pubkey st =
     st\<lparr>ss_sessions := filter (\<lambda>s. \<not> (ps_session_id s = session_id \<and> ps_pubkey s = pubkey)) (ss_sessions st)\<rparr>"

text \<open>Ids are unique and every stored hash is the hash of the stored source.\<close>

definition sessions_ok :: "libs \<Rightarrow> session_store \<Rightarrow> bool" where
  "sessions_ok L st \<longleftrightarrow> distinct (map ps_session_id (ss_sessions st)) \<and>
     (\<forall>s \<in> set (ss_sessions st). ps_source_hash s = source_hash L (ps_source s))"

lemma session_create_ok: "sessions_ok L st \<Longrightarrow> sessions_ok L (fst (session_create L now i pk src app st))"
  by (auto simp: sessions_ok_def session_create_def Let_def list_ex_iff)

lemma session_get_ok: "sessions_ok L st \<Longrightarrow> sessions_ok L (fst (session_get L now i pk src app st))"
  by (auto simp: sessions_ok_def session_get_def distinct_map_filter split: option.split)

lemma session_delete_ok: "sessions_ok L st \<Longrightarrow> sessions_ok L (session_delete i pk st)"
  by (auto simp: sessions_ok_def session_delete_def distinct_map_filter)

lemma find_unique:
  "distinct (map f xs) \<Longrightarrow> find (\<lambda>x. f x = k) xs = Some x \<longleftrightarrow> x \<in> set xs \<and> f x = k"
  by (induction xs) (auto simp: image_iff)

lemma session_get_Inr:
  assumes "sessions_ok L st"
  shows "snd (session_get L now i pk src app st) = Inr s \<longleftrightarrow>
    s \<in> set (ss_sessions st) \<and> ps_session_id s = i \<and> now < ps_expires_at s \<and> ps_pubkey s = pk \<and>
    (src = JNull \<or> src = JStr (ps_source s)) \<and> (app = JNull \<or> app = JStr (ps_app_id s))"
proof (cases "find (\<lambda>x. ps_session_id x = i) (ss_sessions st)")
  case None
  then have "\<not> (\<exists>x. x \<in> set (ss_sessions st) \<and> ps_session_id x = i)" unfolding find_None_iff .
  moreover have "snd (session_get L now i pk src app st) \<noteq> Inr s" by (simp add: session_get_def None)
  ultimately show ?thesis by blast
next
  case (Some x)
  have x: "x = y \<longleftrightarrow> y \<in> set (ss_sessions st) \<and> ps_session_id y = i" for y
    using Some find_unique [of ps_session_id "ss_sessions st" i y] assms by (auto simp: sessions_ok_def)
  have h: "ps_source_hash x = source_hash L (ps_source x)" using assms x by (auto simp: sessions_ok_def)
  have "s \<in> set (ss_sessions st) \<and> ps_session_id s = i \<longleftrightarrow> x = s" using x by blast
  moreover have "snd (session_get L now i pk src app st) = Inr s \<longleftrightarrow>
    x = s \<and> now < ps_expires_at s \<and> ps_pubkey s = pk \<and>
    (src = JNull \<or> src = JStr (ps_source s)) \<and> (app = JNull \<or> app = JStr (ps_app_id s))"
    using h by (auto simp: session_get_def Some)
  ultimately show ?thesis by blast
qed

text \<open>
  A session is usable exactly by the identity it was prepared for, before it expires, for its own
  source and application: the lookup returns a stored session if and only if all of these agree;
  deleting is bound to the identity as well, and every operation keeps ids unique and hashes true.
\<close>

theorem session_lookup_exact:
  assumes "sessions_ok L st"
  shows "(snd (session_get L now i pk src app st) = Inr s \<longleftrightarrow>
      s \<in> set (ss_sessions st) \<and> ps_session_id s = i \<and> now < ps_expires_at s \<and> ps_pubkey s = pk \<and>
      (src = JNull \<or> src = JStr (ps_source s)) \<and> (app = JNull \<or> app = JStr (ps_app_id s))) \<and>
    (\<forall>s. s \<in> set (ss_sessions (session_delete i pk st)) \<longleftrightarrow>
       s \<in> set (ss_sessions st) \<and> \<not> (ps_session_id s = i \<and> ps_pubkey s = pk)) \<and>
    sessions_ok L (fst (session_create L now i pk source app_id st)) \<and>
    sessions_ok L (fst (session_get L now i pk src app st)) \<and> sessions_ok L (session_delete i pk st)"
  using session_get_Inr [OF assms] session_create_ok [OF assms] session_get_ok [OF assms] session_delete_ok [OF assms]
  by (auto simp: session_delete_def)

theorem session_lookup_exact_witness:
  "\<exists>e. snd (session_get example_libs 10 ''s1'' ''mallory'' JNull JNull
     (fst (session_create example_libs 0 ''s1'' ''alice'' ''https://git/app'' ''app'' \<lparr>ss_ttl_seconds = 1800, ss_sessions = []\<rparr>))) = Inl e"
proof -
  let ?st = "fst (session_create example_libs 0 ''s1'' ''alice'' ''https://git/app'' ''app'' \<lparr>ss_ttl_seconds = 1800, ss_sessions = []\<rparr>)"
  have "sessions_ok example_libs \<lparr>ss_ttl_seconds = 1800, ss_sessions = []\<rparr>" by (simp add: sessions_ok_def)
  then have ok: "sessions_ok example_libs ?st" by (rule session_create_ok)
  have "\<forall>s \<in> set (ss_sessions ?st). ps_pubkey s = ''alice''" by (simp add: session_create_def Let_def)
  then have "snd (session_get example_libs 10 ''s1'' ''mallory'' JNull JNull ?st) \<noteq> Inr s" for s
    using session_lookup_exact [OF ok, of 10 "''s1''" "''mallory''" JNull JNull s] by auto
  then show ?thesis by (metis old.sum.exhaust)
qed

end
