(* ===== verification/Redaction.thy ===== *)
theory Redaction
  imports Prelude
begin

text \<open>
  \<open>redaction.py\<close>: the structured pass over dictionaries and lists that every tool response and
  every audit entry goes through. (\<open>redact_text\<close>, the regular expressions over free text, is not
  modelled.)
\<close>

definition SENSITIVE_KEY_MARKERS :: "string list" where
  "SENSITIVE_KEY_MARKERS =
     [''password'', ''passwd'', ''pwd'', ''secret'', ''token'', ''private_key'', ''privkey'', ''nsec'',
      ''api_key'', ''apikey'', ''session'', ''cookie'', ''authorization'']"

definition REDACTED :: string where
  "REDACTED = ''[REDACTED]''"

definition is_sensitive_key :: "string \<Rightarrow> bool" where
  "is_sensitive_key key = list_ex (\<lambda>marker. contains (str_lower key) marker) SENSITIVE_KEY_MARKERS"

primrec redact :: "json \<Rightarrow> json" where
  "redact JNull = JNull"
| "redact (JBool b) = JBool b"
| "redact (JInt i) = JInt i"
| "redact (JFloat r) = JFloat r"
| "redact (JStr s) = JStr s"
| "redact (JList vs) = JList (map redact vs)"
| "redact (JObj d) = JObj (map (\<lambda>p. (fst p, if is_sensitive_key (fst p) then JStr REDACTED else snd p))
     (map (map_prod id redact) d))"

definition redact_response :: "exn + json \<Rightarrow> exn + json" where
  "redact_response r = (case r of
      Inl e \<Rightarrow> Inl e
    | Inr v \<Rightarrow> Inr (case v of JObj d \<Rightarrow> redact v | JList vs \<Rightarrow> redact v | _ \<Rightarrow> v))"

text \<open>A value shows no secret: below every sensitive key, at any depth, there is the mark.\<close>

primrec shows_no_secret :: "json \<Rightarrow> bool" where
  "shows_no_secret JNull = True"
| "shows_no_secret (JBool b) = True"
| "shows_no_secret (JInt i) = True"
| "shows_no_secret (JFloat r) = True"
| "shows_no_secret (JStr s) = True"
| "shows_no_secret (JList vs) = list_all (\<lambda>b. b) (map shows_no_secret vs)"
| "shows_no_secret (JObj d) =
     (list_all (\<lambda>p. is_sensitive_key (fst p) \<longrightarrow> snd p = JStr REDACTED) d \<and>
      list_all snd (map (map_prod id shows_no_secret) d))"

text \<open>The shape of a value without anything under a sensitive key.\<close>

primrec without_secrets :: "json \<Rightarrow> json" where
  "without_secrets JNull = JNull"
| "without_secrets (JBool b) = JBool b"
| "without_secrets (JInt i) = JInt i"
| "without_secrets (JFloat r) = JFloat r"
| "without_secrets (JStr s) = JStr s"
| "without_secrets (JList vs) = JList (map without_secrets vs)"
| "without_secrets (JObj d) = JObj (map (\<lambda>p. (fst p, if is_sensitive_key (fst p) then JNull else snd p))
     (map (map_prod id without_secrets) d))"

lemma redact_shows_no_secret: "shows_no_secret (redact v)"
  by (induction v) (auto simp: list_all_iff)

lemma redact_idem: "redact (redact v) = redact v"
  by (induction v) auto

lemma redact_without_secrets: "without_secrets (redact v) = without_secrets v"
  by (induction v) auto

lemma map_determined:
  "map f xs = map f ys \<Longrightarrow> (\<And>x y. x \<in> set xs \<Longrightarrow> f x = f y \<Longrightarrow> g x = g y) \<Longrightarrow> map g xs = map g ys"
proof (induction xs arbitrary: ys)
  case (Cons x xs)
  then obtain y ys' where ys: "ys = y # ys'" by (cases ys) auto
  have "map g xs = map g ys'" by (rule Cons.IH) (use Cons.prems ys in simp_all)
  moreover have "g x = g y" using Cons.prems ys by simp
  ultimately show ?case by (simp add: ys)
qed simp

lemma redact_determined: "without_secrets v = without_secrets w \<Longrightarrow> redact v = redact w"
proof (induction v arbitrary: w)
  case (JList vs)
  then obtain ws where w: "w = JList ws" "map without_secrets vs = map without_secrets ws"
    by (cases w) auto
  have "map redact vs = map redact ws"
    by (rule map_determined [OF w(2)]) (rule JList.IH)
  with w show ?case by simp
next
  case (JObj d)
  then obtain e where w: "w = JObj e"
    "map (\<lambda>p. (fst p, if is_sensitive_key (fst p) then JNull else without_secrets (snd p))) d =
     map (\<lambda>p. (fst p, if is_sensitive_key (fst p) then JNull else without_secrets (snd p))) e"
    by (cases w) (simp_all add: comp_def cong: if_cong)
  have "map (\<lambda>p. (fst p, if is_sensitive_key (fst p) then JStr REDACTED else redact (snd p))) d =
     map (\<lambda>p. (fst p, if is_sensitive_key (fst p) then JStr REDACTED else redact (snd p))) e"
  proof (rule map_determined [OF w(2)])
    fix p q :: "string \<times> json"
    assume p: "p \<in> set d" and eq: "(fst p, if is_sensitive_key (fst p) then JNull else without_secrets (snd p)) =
      (fst q, if is_sensitive_key (fst q) then JNull else without_secrets (snd q))"
    show "(fst p, if is_sensitive_key (fst p) then JStr REDACTED else redact (snd p)) =
      (fst q, if is_sensitive_key (fst q) then JStr REDACTED else redact (snd q))"
    proof (cases "is_sensitive_key (fst p)")
      case False
      then have "redact (snd p) = redact (snd q)"
        using JObj.IH [of p "snd p" "snd q"] p eq by (cases p) auto
      with False eq show ?thesis by auto
    qed (use eq in auto)
  qed
  with w(1) show ?case by (simp add: comp_def cong: if_cong)
qed (case_tac w; simp)+

text \<open>
  What \<open>redact\<close> returns has the mark under every sensitive key at every depth, keeps everything
  else, depends on nothing that was under a sensitive key (two values that differ only there are
  redacted to the same value), and redacting again changes nothing.
\<close>

theorem redact_correct:
  "shows_no_secret (redact v) \<and> without_secrets (redact v) = without_secrets v \<and>
   (redact v = redact w \<longleftrightarrow> without_secrets v = without_secrets w) \<and> redact (redact v) = redact v"
  using redact_determined redact_without_secrets redact_shows_no_secret redact_idem by metis

end
