(* ===== verification/Audit_Log.thy ===== *)
theory Audit_Log
  imports Redaction Nostr
begin

text \<open>
  \<open>audit/log.py\<close>: the hash-chained audit trail, one JSON object per line. A file is absent or a
  text; \<open>record\<close> reads the last hash from the tail, then appends one line, and the two steps are
  separate definitions because nothing locks them together. The file holds what \<open>json.dumps\<close>
  writes, ASCII text, so decoding its bytes is the identity; the symbolic-link guard, the
  permissions and the creation of directories are not modelled.
\<close>

definition GENESIS_HASH :: string where
  "GENESIS_HASH = replicate 64 CHR ''0''"

definition MAX_READ_BYTES :: nat where "MAX_READ_BYTES = 64 * 1024 * 1024"
definition TAIL_WINDOW :: nat where "TAIL_WINDOW = 2 ^ 20"

type_synonym audit_file = "string option"

subsection \<open>Reading\<close>

definition is_line_break :: "char \<Rightarrow> bool" where
  "is_line_break c = (code c \<in> {10, 11, 12, 13, 28, 29, 30, 133})"

fun splitlines_acc :: "string \<Rightarrow> string \<Rightarrow> string list" where
  "splitlines_acc acc [] = (if acc = [] then [] else [rev acc])"
| "splitlines_acc acc (c # s) =
     (if code c = 13 \<and> s \<noteq> [] \<and> code (hd s) = 10 then rev acc # splitlines_acc [] (tl s)
      else if is_line_break c then rev acc # splitlines_acc [] s
      else splitlines_acc (c # acc) s)"

definition splitlines :: "string \<Rightarrow> string list" where
  "splitlines s = splitlines_acc [] s"

text \<open>The last \<open>n\<close> characters, and the JSON values of the lines that are JSON.\<close>

definition tail_of :: "nat \<Rightarrow> string \<Rightarrow> string" where
  "tail_of n s = drop (length s - n) s"

fun json_lines :: "libs \<Rightarrow> string list \<Rightarrow> json list" where
  "json_lines L [] = []"
| "json_lines L (line # rest) =
     (let s = str_strip line
      in if s = [] then json_lines L rest
         else (case json_loads L s of Inl _ \<Rightarrow> json_lines L rest | Inr v \<Rightarrow> v # json_lines L rest))"

definition read_all :: "libs \<Rightarrow> audit_file \<Rightarrow> json list" where
  "read_all L file = (case file of None \<Rightarrow> []
    | Some data \<Rightarrow> json_lines L (splitlines (if length data > MAX_READ_BYTES then tail_of MAX_READ_BYTES data else data)))"

text \<open>\<open>entry.get(k)\<close>: a line may be JSON and no object.\<close>

fun entry_get :: "json \<Rightarrow> string \<Rightarrow> exn + json" where
  "entry_get (JObj d) k = Inr (dget d k)"
| "entry_get v k = Inl (Exn AttributeError ''object has no attribute get'')"

fun first_hash :: "json list \<Rightarrow> exn + string option" where
  "first_hash [] = Inr None"
| "first_hash (entry # entries) =
     ebind (entry_get entry ''entry_hash'') (\<lambda>value.
       case value of JStr (c # h) \<Rightarrow> Inr (Some (c # h)) | _ \<Rightarrow> first_hash entries)"

definition last_entry_hash :: "libs \<Rightarrow> audit_file \<Rightarrow> exn + string option" where
  "last_entry_hash L file = (case file of None \<Rightarrow> Inr None
    | Some data \<Rightarrow> first_hash (json_lines L (rev (splitlines (tail_of (min (length data) TAIL_WINDOW) data)))))"

subsection \<open>\<open>record\<close>\<close>

record audit_fields =
  af_tool :: string
  af_arguments :: json
  af_caller_pubkey :: string
  af_decision :: string
  af_result :: string
  af_yunohost_operation :: json
  af_error :: json
  af_approved_by :: json
  af_request_id :: "string option"
  af_execution_context :: "string option"

definition optional_entry :: "string \<Rightarrow> string option \<Rightarrow> dict" where
  "optional_entry k v = (case v of None \<Rightarrow> [] | Some s \<Rightarrow> [(k, JStr s)])"

definition audit_payload :: "real \<Rightarrow> string \<Rightarrow> audit_fields \<Rightarrow> string \<Rightarrow> dict" where
  "audit_payload now audit_id f prev_hash =
     [(''audit_id'', JStr audit_id), (''timestamp'', JFloat now), (''caller'', JStr (af_caller_pubkey f)),
      (''tool'', JStr (af_tool f)), (''arguments'', redact (af_arguments f)), (''decision'', JStr (af_decision f)),
      (''yunohost_operation'', af_yunohost_operation f), (''result'', JStr (af_result f)),
      (''error'', af_error f), (''approved_by'', af_approved_by f)] @
     optional_entry ''request_id'' (af_request_id f) @
     optional_entry ''execution_context'' (af_execution_context f) @
     [(''prev_hash'', JStr prev_hash)]"

definition entry_digest :: "libs \<Rightarrow> dict \<Rightarrow> string" where
  "entry_digest L d = sha256_hex L (json_text (float_text L) default_format (json_sorted (JObj d)))"

definition audit_entry :: "libs \<Rightarrow> real \<Rightarrow> string \<Rightarrow> audit_fields \<Rightarrow> string \<Rightarrow> dict" where
  "audit_entry L now audit_id f prev_hash =
     (let payload = audit_payload now audit_id f prev_hash
      in payload @ [(''entry_hash'', JStr (entry_digest L payload))])"

definition entry_line :: "libs \<Rightarrow> dict \<Rightarrow> string" where
  "entry_line L d = json_text (float_text L) default_format (JObj d)"

text \<open>The two steps: compute the line from the file as it is read, append it to the file as it is.\<close>

definition audit_line :: "libs \<Rightarrow> real \<Rightarrow> string \<Rightarrow> audit_fields \<Rightarrow> audit_file \<Rightarrow> exn + string" where
  "audit_line L now audit_id f file =
     ebind (last_entry_hash L file) (\<lambda>last.
       Inr (entry_line L (audit_entry L now audit_id f (case last of None \<Rightarrow> GENESIS_HASH | Some h \<Rightarrow> h)) @ [char_of (10 :: nat)]))"

definition audit_append :: "string \<Rightarrow> audit_file \<Rightarrow> audit_file" where
  "audit_append line file = Some ((case file of None \<Rightarrow> [] | Some data \<Rightarrow> data) @ line)"

definition audit_record :: "libs \<Rightarrow> real \<Rightarrow> string \<Rightarrow> audit_fields \<Rightarrow> audit_file \<Rightarrow> exn + audit_file" where
  "audit_record L now audit_id f file = ebind (audit_line L now audit_id f file) (\<lambda>line. Inr (audit_append line file))"

subsection \<open>\<open>list\<close>, \<open>get\<close>, \<open>verify\<close>\<close>

definition py_prefix :: "int \<Rightarrow> 'a list \<Rightarrow> 'a list" where
  "py_prefix n xs = (if 0 \<le> n then take (nat n) xs else take (length xs - nat (- n)) xs)"

definition audit_list :: "libs \<Rightarrow> int option \<Rightarrow> audit_file \<Rightarrow> json list" where
  "audit_list L limit file = (case limit of
      None \<Rightarrow> rev (read_all L file) | Some n \<Rightarrow> py_prefix n (rev (read_all L file)))"

fun find_audit_id :: "string \<Rightarrow> json list \<Rightarrow> exn + json option" where
  "find_audit_id audit_id [] = Inr None"
| "find_audit_id audit_id (entry # entries) =
     ebind (entry_get entry ''audit_id'') (\<lambda>v.
       if v = JStr audit_id then Inr (Some entry) else find_audit_id audit_id entries)"

definition audit_get :: "libs \<Rightarrow> string \<Rightarrow> audit_file \<Rightarrow> exn + json option" where
  "audit_get L audit_id file = find_audit_id audit_id (read_all L file)"

definition problem :: "nat \<Rightarrow> string \<Rightarrow> string" where
  "problem index msg = ''line '' @ show_nat (Suc index) @ '': '' @ msg"

fun verify_entries :: "libs \<Rightarrow> nat \<Rightarrow> string \<Rightarrow> json list \<Rightarrow> exn + string list" where
  "verify_entries L index expected_prev [] = Inr []"
| "verify_entries L index expected_prev (entry # entries) =
     ebind (entry_get entry ''entry_hash'') (\<lambda>stored_hash.
     ebind (entry_get entry ''prev_hash'') (\<lambda>prev_hash.
       let p1 = (if prev_hash \<noteq> JStr expected_prev
                 then [problem index (''prev_hash mismatch (expected '' @ expected_prev @ '')'')] else [])
       in case (stored_hash, entry) of
            (JStr stored, JObj d) \<Rightarrow>
              (let p2 = (if stored \<noteq> entry_digest L (dpop d ''entry_hash'')
                         then [problem index ''entry_hash does not match content''] else [])
               in ebind (verify_entries L (Suc index) stored entries) (\<lambda>ps. Inr (p1 @ p2 @ ps)))
          | _ \<Rightarrow> ebind (verify_entries L (Suc index) expected_prev entries) (\<lambda>ps.
                   Inr (p1 @ [problem index ''missing entry_hash''] @ ps))))"

definition audit_verify :: "libs \<Rightarrow> audit_file \<Rightarrow> exn + string list" where
  "audit_verify L file = verify_entries L 0 GENESIS_HASH (read_all L file)"

subsection \<open>Lines\<close>

definition newline :: char where "newline = char_of (10 :: nat)"

definition printable :: "char \<Rightarrow> bool" where
  "printable c \<longleftrightarrow> 32 \<le> code c \<and> code c \<le> 126"

definition plain_floats :: "libs \<Rightarrow> bool" where
  "plain_floats L \<longleftrightarrow> (\<forall>r. list_all printable (float_text L r))"

lemma code_newline [simp]: "code newline = 10"
  by (simp add: newline_def code_def)

lemma printable_literal [simp]:
  "printable (CHR ''-'')" "printable (CHR '','')" "printable (CHR '':'')" "printable (CHR '' '')" "printable (CHR ''['')"
  "printable (CHR '']'')" "printable (CHR ''{'')" "printable (CHR ''}'')" "printable (CHR ''n'')" "printable (CHR ''u'')"
  "printable (CHR ''l'')" "printable (CHR ''t'')" "printable (CHR ''r'')" "printable (CHR ''e'')" "printable (CHR ''f'')"
  "printable (CHR ''a'')" "printable (CHR ''s'')" "printable (CHR ''b'')"
  by (simp_all add: printable_def code_def)

lemma printable_char_of: "32 \<le> n \<Longrightarrow> n \<le> 126 \<Longrightarrow> printable (char_of (n :: nat))"
  by (simp add: printable_def code_def)

lemma printable_hex: "n < 16 \<Longrightarrow> printable (hex_digit n)"
  by (simp add: hex_digit_def printable_char_of)

lemma printable_escape: "list_all printable (json_escape True c)"
proof -
  have "printable c" if "32 \<le> code c" "code c \<le> 126" using that by (simp add: printable_def)
  then show ?thesis
    by (auto simp: json_escape_def Let_def printable_char_of hex4_def printable_hex)
qed

lemma printable_string: "list_all printable (json_string True s)"
  using printable_escape by (induction s) (simp_all add: json_string_def printable_char_of)

lemma printable_show_nat: "list_all printable (show_nat n)"
proof (induction n rule: show_nat.induct)
  case (1 n)
  show ?case
  proof (cases "n < 10")
    case True
    then show ?thesis by (subst show_nat.simps) (simp add: printable_char_of)
  next
    case False
    then show ?thesis by (subst show_nat.simps) (simp add: printable_char_of 1)
  qed
qed

lemma printable_join:
  "list_all printable sep \<Longrightarrow> list_all (list_all printable) ss \<Longrightarrow> list_all printable (str_join sep ss)"
  by (induction sep ss rule: str_join.induct) auto

lemma printable_json: "plain_floats L \<Longrightarrow> list_all printable (json_text (float_text L) default_format v)"
proof (induction v)
  case (JInt i)
  then show ?case by (simp add: show_int_def printable_show_nat)
next
  case (JList vs)
  then have "list_all printable (str_join '', '' (map (json_text (float_text L) default_format) vs))"
    by (intro printable_join) (auto simp: list_all_iff)
  then show ?case by (simp add: default_format_def)
next
  case (JObj d)
  have "list_all (list_all printable) (map (\<lambda>p. json_string True (fst p) @ '': '' @ snd p)
      (map (map_prod id (json_text (float_text L) default_format)) d))"
    using JObj printable_string by (force simp: list_all_iff)
  then have "list_all printable (str_join '', '' (map (\<lambda>p. json_string True (fst p) @ '': '' @ snd p)
      (map (map_prod id (json_text (float_text L) default_format)) d)))"
    by (intro printable_join) simp_all
  then show ?case by (simp add: default_format_def)
qed (simp_all add: default_format_def printable_string plain_floats_def)

text \<open>A text of printable characters and newlines splits at the newlines.\<close>

definition plain :: "string \<Rightarrow> bool" where
  "plain s \<longleftrightarrow> list_all (\<lambda>c. printable c \<or> c = newline) s"

lemma code_newline_iff: "code c = 10 \<longleftrightarrow> c = newline"
proof -
  have "code c = code newline \<longleftrightarrow> c = newline" by (simp add: code_def)
  then show ?thesis by simp
qed

lemma plain_append [simp]: "plain (s @ t) \<longleftrightarrow> plain s \<and> plain t"
  by (simp add: plain_def)

lemma printable_plain: "list_all printable s \<Longrightarrow> plain s"
  by (simp add: plain_def list_all_iff)

lemma printable_no_break: "printable c \<Longrightarrow> \<not> is_line_break c \<and> code c \<noteq> 13"
  by (auto simp: printable_def is_line_break_def)

lemma splitlines_line:
  "list_all printable l \<Longrightarrow> splitlines_acc acc (l @ newline # s) = (rev acc @ l) # splitlines_acc [] s"
  by (induction l arbitrary: acc) (auto simp: is_line_break_def dest: printable_no_break)

lemma splitlines_cut:
  "plain s \<Longrightarrow> splitlines_acc acc (s @ newline # u) = splitlines_acc acc (s @ [newline]) @ splitlines_acc [] u"
proof (induction s arbitrary: acc)
  case Nil
  then show ?case by (simp add: is_line_break_def)
next
  case (Cons c s)
  then show ?case by (auto simp: plain_def is_line_break_def dest: printable_no_break)
qed

definition log_text :: "string list \<Rightarrow> string" where
  "log_text ls = concat (map (\<lambda>l. l @ [newline]) ls)"

lemma log_text_simps [simp]:
  "log_text [] = []" "log_text (ls @ [l]) = log_text ls @ l @ [newline]"
  "log_text (l # ls) = l @ newline # log_text ls"
  by (simp_all add: log_text_def)

lemma splitlines_log: "list_all (list_all printable) ls \<Longrightarrow> splitlines (log_text ls) = ls"
  by (induction ls) (simp_all add: splitlines_def splitlines_line)

text \<open>The last line of a window that contains it.\<close>

lemma splitlines_tail:
  assumes "list_all (list_all printable) ls" "list_all printable l" "length l < n"
  shows "\<exists>X. splitlines (tail_of n (log_text (ls @ [l]))) = X @ [l]"
proof -
  have plain: "plain (log_text ls)"
    using assms(1) by (induction ls) (auto simp: plain_def list_all_iff)
  let ?k = "length (log_text (ls @ [l])) - n"
  have t: "tail_of n (log_text (ls @ [l])) = drop ?k (log_text ls) @ l @ [newline]"
    using assms(3) by (simp add: tail_of_def)
  show ?thesis
  proof (cases "drop ?k (log_text ls) = []")
    case True
    then show ?thesis using t splitlines_line [OF assms(2), of "[]" "[]"] by (simp add: splitlines_def)
  next
    case False
    then have "ls \<noteq> []" by auto
    then have "last (log_text ls) = newline" by (cases ls rule: rev_cases) simp_all
    then obtain s where s: "drop ?k (log_text ls) = s @ [newline]"
      using False by (metis append_butlast_last_id last_drop drop_eq_Nil2 not_le_imp_less)
    moreover have "plain s"
      using plain s by (metis append_take_drop_id plain_append)
    ultimately show ?thesis
      using t splitlines_cut [of s "[]" "l @ [newline]"] splitlines_line [OF assms(2), of "[]" "[]"]
      by (simp add: splitlines_def)
  qed
qed

lemma strip_line: "\<not> is_space (hd s) \<Longrightarrow> \<not> is_space (last s) \<Longrightarrow> s \<noteq> [] \<Longrightarrow> str_strip s = s"
proof -
  assume a: "\<not> is_space (hd s)" "\<not> is_space (last s)" "s \<noteq> []"
  then have "dropWhile is_space s = s" by (cases s) auto
  moreover have "dropWhile is_space (rev s) = rev s"
    using a by (cases s rule: rev_cases) auto
  ultimately show "str_strip s = s" by (simp add: str_strip_def)
qed

subsection \<open>The log of a run\<close>

text \<open>A line that reads back as its entry and fits the tail window.\<close>

definition readable :: "libs \<Rightarrow> dict \<Rightarrow> bool" where
  "readable L d \<longleftrightarrow> json_loads L (entry_line L d) = Inr (JObj d) \<and> length (entry_line L d) < TAIL_WINDOW"

definition log_of :: "libs \<Rightarrow> dict list \<Rightarrow> audit_file" where
  "log_of L ds = (if ds = [] then None else Some (log_text (map (entry_line L) ds)))"

lemma entry_line_strip: "str_strip (entry_line L d) = entry_line L d \<and> entry_line L d \<noteq> []"
proof -
  obtain m where m: "entry_line L d = CHR ''{'' # m @ ''}''" by (simp add: entry_line_def)
  have "str_strip (CHR ''{'' # m @ ''}'') = CHR ''{'' # m @ ''}''"
    by (rule strip_line) (simp_all add: is_space_def code_def)
  with m show ?thesis by simp
qed

lemma entry_lines_printable: "plain_floats L \<Longrightarrow> list_all (list_all printable) (map (entry_line L) ds)"
  using printable_json [of L] by (induction ds) (simp_all add: entry_line_def del: json_text.simps)

lemma json_lines_entries: "\<forall>d \<in> set ds. readable L d \<Longrightarrow> json_lines L (map (entry_line L) ds) = map JObj ds"
  by (induction ds) (simp_all add: entry_line_strip readable_def)

lemma json_lines_append: "json_lines L (xs @ ys) = json_lines L xs @ json_lines L ys"
  by (induction xs) (auto simp: Let_def split: sum.split)

lemma read_all_log:
  assumes "plain_floats L" "\<forall>d \<in> set ds. readable L d" "length (log_text (map (entry_line L) ds)) \<le> MAX_READ_BYTES"
  shows "read_all L (log_of L ds) = map JObj ds"
  using assms json_lines_entries [OF assms(2)] splitlines_log [OF entry_lines_printable [OF assms(1)], of ds]
  by (simp add: read_all_def log_of_def)

lemma last_entry_hash_log:
  assumes "plain_floats L" "readable L d" "dget d ''entry_hash'' = JStr h" "h \<noteq> []"
  shows "last_entry_hash L (log_of L (ds @ [d])) = Inr (Some h)"
proof -
  let ?text = "log_text (map (entry_line L) ds @ [entry_line L d])"
  have "length (entry_line L d) < TAIL_WINDOW" using assms(2) by (simp add: readable_def)
  then have fits: "length (entry_line L d) < min (length ?text) TAIL_WINDOW" by simp
  obtain X where "splitlines (tail_of (min (length ?text) TAIL_WINDOW) ?text) = X @ [entry_line L d]"
    using splitlines_tail [OF entry_lines_printable [OF assms(1)] _ fits, of ds] entry_lines_printable [OF assms(1), of "[d]"]
    by auto
  with assms(2-4) show ?thesis
    by (cases h) (simp_all add: last_entry_hash_def log_of_def entry_line_strip readable_def)
qed

text \<open>The entries a sequence of calls writes, and the file it leaves.\<close>

type_synonym audit_call = "real \<times> string \<times> audit_fields"

fun chain :: "libs \<Rightarrow> string \<Rightarrow> audit_call list \<Rightarrow> dict list" where
  "chain L prev [] = []"
| "chain L prev ((now, audit_id, f) # calls) =
     audit_entry L now audit_id f prev # chain L (entry_digest L (audit_payload now audit_id f prev)) calls"

fun audit_run :: "libs \<Rightarrow> audit_call list \<Rightarrow> audit_file \<Rightarrow> exn + audit_file" where
  "audit_run L [] file = Inr file"
| "audit_run L ((now, audit_id, f) # calls) file = ebind (audit_record L now audit_id f file) (audit_run L calls)"

lemma payload_keys: "dget (audit_payload now i f prev) ''entry_hash'' = JNull"
  "dget (audit_payload now i f prev @ d) ''prev_hash'' = JStr prev"
  by (auto simp: audit_payload_def optional_entry_def dget_def map_add_def split: option.split)

lemma entry_keys: "dget (audit_entry L now i f prev) ''entry_hash'' = JStr (entry_digest L (audit_payload now i f prev))"
  "dget (audit_entry L now i f prev) ''prev_hash'' = JStr prev"
  "dpop (audit_entry L now i f prev) ''entry_hash'' = audit_payload now i f prev"
  by (auto simp: audit_entry_def audit_payload_def optional_entry_def dget_def dpop_def Let_def map_add_def
      split: option.split)

lemma audit_record_log:
  assumes "plain_floats L" "\<forall>s. sha256_hex L s \<noteq> []"
    "ds = [] \<and> prev = GENESIS_HASH \<or> (\<exists>ds' d. ds = ds' @ [d] \<and> readable L d \<and> dget d ''entry_hash'' = JStr prev \<and> prev \<noteq> [])"
  shows "audit_record L now i f (log_of L ds) = Inr (log_of L (ds @ [audit_entry L now i f prev]))"
proof -
  have "(case last_entry_hash L (log_of L ds) of Inl e \<Rightarrow> False | Inr h \<Rightarrow>
      (case h of None \<Rightarrow> GENESIS_HASH | Some h \<Rightarrow> h) = prev)"
    using assms(3) last_entry_hash_log [OF assms(1)] by (auto simp: last_entry_hash_def log_of_def)
  then show ?thesis
    by (auto simp: audit_record_def audit_line_def audit_append_def log_of_def newline_def split: sum.splits)
qed

lemma audit_run_log:
  assumes "plain_floats L" "\<forall>s. sha256_hex L s \<noteq> []" "\<forall>d \<in> set (chain L prev calls). readable L d"
    "ds = [] \<and> prev = GENESIS_HASH \<or> (\<exists>ds' d. ds = ds' @ [d] \<and> readable L d \<and> dget d ''entry_hash'' = JStr prev \<and> prev \<noteq> [])"
  shows "audit_run L calls (log_of L ds) = Inr (log_of L (ds @ chain L prev calls))"
  using assms(3,4)
proof (induction calls arbitrary: ds prev)
  case (Cons c calls)
  obtain now i f where c: "c = (now, i, f)" by (cases c)
  let ?e = "audit_entry L now i f prev" and ?h = "entry_digest L (audit_payload now i f prev)"
  have "audit_run L calls (log_of L (ds @ [?e])) = Inr (log_of L ((ds @ [?e]) @ chain L ?h calls))"
    using Cons.prems(1) assms(2) entry_keys(1) by (intro Cons.IH) (auto simp: c entry_digest_def)
  then show ?case using audit_record_log [OF assms(1,2) Cons.prems(2)] by (simp add: c)
qed simp

lemma verify_chain: "verify_entries L n prev (map JObj (chain L prev calls)) = Inr []"
proof (induction calls arbitrary: n prev)
  case (Cons c calls)
  then show ?case by (cases c) (simp add: entry_keys)
qed simp

subsection \<open>Tampering\<close>

definition content :: "dict \<Rightarrow> dict" where
  "content d = dpop d ''entry_hash''"

definition end_hash :: "libs \<Rightarrow> string \<Rightarrow> dict list \<Rightarrow> string" where
  "end_hash L prev ds = (if ds = [] then prev else entry_digest L (content (last ds)))"

lemma verify_Cons:
  "verify_entries L n prev (JObj d # es) = Inr [] \<longleftrightarrow>
     dget d ''prev_hash'' = JStr prev \<and> dget d ''entry_hash'' = JStr (entry_digest L (content d)) \<and>
     verify_entries L (Suc n) (entry_digest L (content d)) es = Inr []"
  by (cases "dget d ''entry_hash''") (auto simp: content_def Let_def)

lemma verify_snoc:
  "verify_entries L n prev (map JObj (ds @ [d])) = Inr [] \<longleftrightarrow>
     verify_entries L n prev (map JObj ds) = Inr [] \<and> dget d ''prev_hash'' = JStr (end_hash L prev ds) \<and>
     dget d ''entry_hash'' = JStr (entry_digest L (content d))"
proof (induction ds arbitrary: n prev)
  case Nil
  show ?case using verify_Cons [of L n prev d "[]"] by (simp add: end_hash_def)
next
  case (Cons e ds)
  have "end_hash L (entry_digest L (content e)) ds = end_hash L prev (e # ds)"
    by (simp add: end_hash_def)
  then show ?case using Cons.IH by (auto simp: verify_Cons simp del: verify_entries.simps)
qed

lemma map_of_sort_key: "map_of (sort_key fst xs) k = map_of (xs :: (string \<times> 'a) list) k"
proof -
  have first: "map_of ys k = (case filter (\<lambda>p. fst p = k) ys of [] \<Rightarrow> None | p # _ \<Rightarrow> Some (snd p))" for ys :: "(string \<times> 'a) list"
    by (induction ys) auto
  have "filter (\<lambda>p. fst p = k) (sort_key fst xs) = filter (\<lambda>p. fst p = k) xs"
    using sort_key_stable [of fst k xs] by (simp add: eq_commute)
  then show ?thesis using first [of "sort_key fst xs"] first [of xs] by simp
qed

lemma json_sorted_str: "json_sorted v = JStr s \<longleftrightarrow> v = JStr s"
  by (cases v) auto

lemma sorted_dget:
  assumes "json_sorted (JObj x) = json_sorted (JObj y)" "dget x k = JStr s"
  shows "dget y k = JStr s"
proof -
  have "map_option json_sorted (map_of x k) = map_option json_sorted (map_of y k)"
    using assms(1) map_of_sort_key [of "map (map_prod id json_sorted) x" k]
      map_of_sort_key [of "map (map_prod id json_sorted) y" k]
    by (simp add: map_prod_def case_prod_beta' map_of_map [unfolded case_prod_beta'])
  moreover have "map_of x k = Some (JStr s)"
    using assms(2) by (simp add: dget_def split: option.splits)
  ultimately have "map_option json_sorted (map_of y k) = Some (JStr s)" by simp
  then show ?thesis by (auto simp: dget_def json_sorted_str)
qed

text \<open>The digest binds the content, on the entries of two logs, and is never the genesis value.\<close>

definition digests_bind :: "libs \<Rightarrow> dict list \<Rightarrow> bool" where
  "digests_bind L ds \<longleftrightarrow>
     (\<forall>d \<in> set ds. entry_digest L (content d) \<noteq> GENESIS_HASH \<and>
        (\<forall>e \<in> set ds. entry_digest L (content d) = entry_digest L (content e) \<longrightarrow>
           json_sorted (JObj (content d)) = json_sorted (JObj (content e))))"

lemma digests_not_genesis: "digests_bind L ds \<Longrightarrow> d \<in> set ds \<Longrightarrow> entry_digest L (content d) \<noteq> GENESIS_HASH"
  by (simp add: digests_bind_def)

lemma digests_bindD:
  "digests_bind L ds \<Longrightarrow> d \<in> set ds \<Longrightarrow> e \<in> set ds \<Longrightarrow> entry_digest L (content d) = entry_digest L (content e) \<Longrightarrow>
     json_sorted (JObj (content d)) = json_sorted (JObj (content e))"
  unfolding digests_bind_def by blast

lemma digests_bind_subset: "digests_bind L ds \<Longrightarrow> set es \<subseteq> set ds \<Longrightarrow> digests_bind L es"
  unfolding digests_bind_def by blast

lemma chain_unique:
  assumes "verify_entries L n GENESIS_HASH (map JObj ds) = Inr []" "verify_entries L m GENESIS_HASH (map JObj es) = Inr []"
    "end_hash L GENESIS_HASH ds = end_hash L GENESIS_HASH es" "digests_bind L (ds @ es)"
  shows "map (json_sorted \<circ> JObj \<circ> content) ds = map (json_sorted \<circ> JObj \<circ> content) es"
  using assms
proof (induction ds arbitrary: es rule: rev_induct)
  case Nil
  have "es = []"
  proof (rule ccontr)
    assume "es \<noteq> []"
    then have "entry_digest L (content (last es)) \<noteq> GENESIS_HASH"
      using Nil.prems(4) \<open>es \<noteq> []\<close> by (intro digests_not_genesis [of L es]) simp_all
    with Nil.prems(3) \<open>es \<noteq> []\<close> show False by (simp add: end_hash_def)
  qed
  then show ?case by simp
next
  case (snoc d ds)
  have "es \<noteq> []"
    using snoc.prems(3) digests_not_genesis [OF snoc.prems(4), of d] by (auto simp: end_hash_def)
  then obtain es' e where es: "es = es' @ [e]" by (cases es rule: rev_cases) auto
  have "entry_digest L (content d) = entry_digest L (content e)"
    using snoc.prems(3) by (simp add: end_hash_def es)
  then have eq: "json_sorted (JObj (content d)) = json_sorted (JObj (content e))"
    by (intro digests_bindD [OF snoc.prems(4)]) (simp_all add: es)
  have "dget (content d) ''prev_hash'' = JStr (end_hash L GENESIS_HASH ds)"
    "dget (content e) ''prev_hash'' = JStr (end_hash L GENESIS_HASH es')"
    using snoc.prems(1,2) unfolding es verify_snoc by (simp_all add: content_def dget_dpop)
  with sorted_dget [OF eq] have "end_hash L GENESIS_HASH ds = end_hash L GENESIS_HASH es'" by simp
  moreover have "digests_bind L (ds @ es')" by (rule digests_bind_subset [OF snoc.prems(4)]) (auto simp: es)
  ultimately have "map (json_sorted \<circ> JObj \<circ> content) ds = map (json_sorted \<circ> JObj \<circ> content) es'"
    using snoc.prems(1,2) unfolding es verify_snoc by (intro snoc.IH) simp_all
  with eq show ?case by (simp add: es o_def del: json_sorted.simps)
qed

subsection \<open>Properties\<close>

lemma intact:
  assumes "plain_floats L" "\<forall>s. sha256_hex L s \<noteq> []" "\<forall>d \<in> set (chain L GENESIS_HASH calls). readable L d"
    "length (log_text (map (entry_line L) (chain L GENESIS_HASH calls))) \<le> MAX_READ_BYTES"
  shows "\<exists>file. audit_run L calls None = Inr file \<and> audit_verify L file = Inr [] \<and>
    read_all L file = map JObj (chain L GENESIS_HASH calls)"
proof -
  have "audit_run L calls None = Inr (log_of L (chain L GENESIS_HASH calls))"
    using audit_run_log [OF assms(1-3), of "[]"] by (simp add: log_of_def)
  then show ?thesis
    using read_all_log [OF assms(1,3,4)] by (simp add: audit_verify_def verify_chain)
qed

text \<open>
  C34: the trail of undisturbed calls is complete and verifies. Starting without a file, any sequence
  of records whose lines read back, fit the tail window and stay within the read limit leaves a file
  that \<open>verify\<close> finds intact and \<open>list\<close> returns newest first: one entry per call, with the call's id
  and caller, its arguments redacted.
\<close>

theorem audit_trail_intact:
  assumes "plain_floats L" "\<forall>s. sha256_hex L s \<noteq> []" "\<forall>d \<in> set (chain L GENESIS_HASH calls). readable L d"
    and "length (log_text (map (entry_line L) (chain L GENESIS_HASH calls))) \<le> MAX_READ_BYTES"
  shows "\<exists>file. audit_run L calls None = Inr file \<and> audit_verify L file = Inr [] \<and>
    audit_list L None file = rev (map JObj (chain L GENESIS_HASH calls)) \<and>
    map (\<lambda>d. (dget d ''audit_id'', dget d ''caller'', dget d ''arguments'')) (chain L GENESIS_HASH calls) =
      map (\<lambda>(now, i, f). (JStr i, JStr (af_caller_pubkey f), redact (af_arguments f))) calls"
proof -
  have "map (\<lambda>d. (dget d ''audit_id'', dget d ''caller'', dget d ''arguments'')) (chain L prev calls) =
      map (\<lambda>(now, i, f). (JStr i, JStr (af_caller_pubkey f), redact (af_arguments f))) calls" for prev
    by (induction L prev calls rule: chain.induct) (simp_all add: audit_entry_def audit_payload_def Let_def)
  with intact [OF assms] show ?thesis by (auto simp: audit_list_def)
qed

definition example_fields :: "string \<Rightarrow> audit_fields" where
  "example_fields tool = \<lparr>af_tool = tool, af_arguments = JObj [(''app'', JStr ''x''), (''password'', JStr ''p'')],
     af_caller_pubkey = ''agent'', af_decision = ''allowed'', af_result = ''success'', af_yunohost_operation = JNull,
     af_error = JNull, af_approved_by = JNull, af_request_id = None, af_execution_context = None\<rparr>"

text \<open>A world in which the one line written is the line read.\<close>

definition example_entry :: dict where
  "example_entry = audit_entry (example_libs\<lparr>sha256_hex := (\<lambda>_. ''h'')\<rparr>) 0 ''m1'' (example_fields ''app_remove'') GENESIS_HASH"

definition example_audit_libs :: libs where
  "example_audit_libs = example_libs\<lparr>sha256_hex := (\<lambda>_. ''h''), json_loads := (\<lambda>_. Inr (JObj example_entry))\<rparr>"

lemma example_entry_eq: "audit_entry example_audit_libs 0 ''m1'' (example_fields ''app_remove'') GENESIS_HASH = example_entry"
  by (simp add: example_entry_def audit_entry_def entry_digest_def example_audit_libs_def Let_def)

lemma example_chain: "chain example_audit_libs GENESIS_HASH [(0, ''m1'', example_fields ''app_remove'')] = [example_entry]"
  by (simp add: example_entry_eq)

lemma length_json_string: "length (json_string True s) \<le> 6 * length s + 2"
proof -
  have "length (json_escape True c) \<le> 6" for c
    by (simp add: json_escape_def Let_def hex4_def)
  then have "length (concat (map (json_escape True) s)) \<le> 6 * length s"
    by (induction s) (simp, fastforce simp: add_mono)
  then show ?thesis by (simp add: json_string_def)
qed

lemma example_fits: "length (entry_line example_audit_libs example_entry) < 3000"
proof -
  have e: "example_entry = [(''audit_id'', JStr ''m1''), (''timestamp'', JFloat 0), (''caller'', JStr ''agent''),
     (''tool'', JStr ''app_remove''), (''arguments'', JObj [(''app'', JStr ''x''), (''password'', JStr REDACTED)]),
     (''decision'', JStr ''allowed''), (''yunohost_operation'', JNull), (''result'', JStr ''success''),
     (''error'', JNull), (''approved_by'', JNull), (''prev_hash'', JStr GENESIS_HASH), (''entry_hash'', JStr ''h'')]"
    by (simp add: example_entry_def audit_entry_def audit_payload_def example_fields_def entry_digest_def
        optional_entry_def is_sensitive_key_def SENSITIVE_KEY_MARKERS_def str_lower_def lower_char_def is_upper_def
        code_def starts_with_def Let_def)
  show ?thesis
    unfolding e entry_line_def
    using length_json_string [of REDACTED] length_json_string [of GENESIS_HASH]
      length_json_string [of "''audit_id''"] length_json_string [of "''m1''"] length_json_string 
      [of "''timestamp''"] length_json_string [of "''caller''"] length_json_string [of "''agent''"] length_json_string
      [of "''tool''"] length_json_string [of "''app_remove''"] length_json_string [of "''arguments''"]
      length_json_string [of "''app''"] length_json_string [of "''x''"] length_json_string [of "''password''"]
      length_json_string [of "''decision''"] length_json_string [of "''allowed''"] length_json_string 
      [of "''yunohost_operation''"] length_json_string [of "''result''"] length_json_string [of "''success''"]
      length_json_string [of "''error''"] length_json_string [of "''approved_by''"] length_json_string 
      [of "''prev_hash''"] length_json_string [of "''entry_hash''"] length_json_string [of "''h''"]
    by (simp add: default_format_def example_audit_libs_def example_libs_def REDACTED_def GENESIS_HASH_def)
qed

lemma example_readable: "readable example_audit_libs example_entry" "plain_floats example_audit_libs"
  "sha256_hex example_audit_libs s = ''h''" "entry_digest example_audit_libs d = ''h''"
proof -
  have "json_loads example_audit_libs s = Inr (JObj example_entry)" for s
    by (simp add: example_audit_libs_def)
  then show "readable example_audit_libs example_entry"
    using example_fits by (simp add: readable_def TAIL_WINDOW_def)
qed (simp_all add: plain_floats_def example_audit_libs_def example_libs_def printable_def code_def entry_digest_def)

theorem audit_trail_intact_witness:
  "\<exists>file. audit_run example_audit_libs [(0, ''m1'', example_fields ''app_remove'')] None = Inr file \<and>
     audit_verify example_audit_libs file = Inr []"
  using audit_trail_intact [OF example_readable(2), of "[(0, ''m1'', example_fields ''app_remove'')]"]
    example_fits example_readable
  by (auto simp: example_entry_eq MAX_READ_BYTES_def)

text \<open>
  C35: tampering shows. Two logs that both verify and end in the same hash have the same entries,
  up to the order of the keys inside them, provided the digest binds the content on the entries at
  hand. So a log cannot be edited, reordered or cut in the middle and still verify up to an unchanged
  last entry.
\<close>

theorem audit_tamper_evident:
  assumes "verify_entries L 0 GENESIS_HASH (map JObj ds) = Inr []" "verify_entries L 0 GENESIS_HASH (map JObj es) = Inr []"
    and "ds \<noteq> []" "es \<noteq> []" "dget (last ds) ''entry_hash'' = dget (last es) ''entry_hash''"
    and "digests_bind L (ds @ es)"
  shows "map (json_sorted \<circ> JObj \<circ> content) ds = map (json_sorted \<circ> JObj \<circ> content) es"
proof -
  obtain ds' d es' e where s: "ds = ds' @ [d]" "es = es' @ [e]"
    using assms(3,4) by (metis rev_exhaust)
  have "dget d ''entry_hash'' = JStr (entry_digest L (content d))" "dget e ''entry_hash'' = JStr (entry_digest L (content e))"
    using assms(1,2) unfolding s verify_snoc by simp_all
  then have "end_hash L GENESIS_HASH ds = end_hash L GENESIS_HASH es"
    using assms(5) by (simp add: s end_hash_def)
  from chain_unique [OF assms(1,2) this assms(6)] show ?thesis .
qed

theorem audit_tamper_evident_witness:
  "verify_entries example_audit_libs 0 GENESIS_HASH [JObj example_entry] = Inr [] \<and>
   map (json_sorted \<circ> JObj \<circ> content) [example_entry] = map (json_sorted \<circ> JObj \<circ> content) [example_entry]"
proof -
  have v: "verify_entries example_audit_libs 0 GENESIS_HASH (map JObj [example_entry]) = Inr []"
    using verify_chain [of example_audit_libs 0 GENESIS_HASH "[(0, ''m1'', example_fields ''app_remove'')]"]
    unfolding example_chain .
  have "entry_digest example_audit_libs d = ''h''" for d by (simp add: entry_digest_def example_audit_libs_def)
  then have "digests_bind example_audit_libs ([example_entry] @ [example_entry])"
    by (simp add: digests_bind_def GENESIS_HASH_def eval_nat_numeral)
  from audit_tamper_evident [OF v v _ _ _ this] v show ?thesis by simp
qed

lemma chain_prefix: "\<exists>X. chain L prev (calls @ later) = chain L prev calls @ X"
proof (induction calls arbitrary: prev)
  case (Cons c calls)
  then show ?case by (cases c) auto
qed simp

text \<open>
  What the chain does not show: a log cut after any of its entries, even before the first,
  verifies like the whole log, although the documentation promises that truncation is detected.
\<close>

theorem audit_truncation_undetected:
  assumes "plain_floats L" "\<forall>s. sha256_hex L s \<noteq> []" "\<forall>d \<in> set (chain L GENESIS_HASH (calls @ later)). readable L d"
    and "length (log_text (map (entry_line L) (chain L GENESIS_HASH (calls @ later)))) \<le> MAX_READ_BYTES"
  shows "\<exists>whole cut. audit_run L (calls @ later) None = Inr whole \<and> audit_run L calls None = Inr cut \<and>
    audit_verify L whole = Inr [] \<and> audit_verify L cut = Inr []"
proof -
  let ?ds = "chain L GENESIS_HASH calls"
  obtain X where X: "chain L GENESIS_HASH (calls @ later) = ?ds @ X" using chain_prefix by blast
  have cut: "\<forall>d \<in> set ?ds. readable L d" "length (log_text (map (entry_line L) ?ds)) \<le> MAX_READ_BYTES"
    using assms(3,4) unfolding X by (auto simp: log_text_def)
  show ?thesis
    using intact [OF assms] intact [OF assms(1,2) cut] by blast
qed

theorem audit_truncation_undetected_witness:
  "\<exists>whole. audit_run example_audit_libs [(0, ''m1'', example_fields ''app_remove'')] None = Inr whole \<and>
     audit_verify example_audit_libs whole = Inr [] \<and> audit_verify example_audit_libs None = Inr []"
  using audit_truncation_undetected [OF example_readable(2), of "[]" "[(0, ''m1'', example_fields ''app_remove'')]"]
    example_fits example_readable
  by (auto simp: example_entry_eq MAX_READ_BYTES_def)

text \<open>
  What the chain shows wrongly: two writers that read the same tail before either appends -
  nothing excludes it, entries are recorded outside the write lock - leave a log that \<open>verify\<close>
  reports as tampered with although every entry is genuine.
\<close>

theorem audit_race_reported:
  assumes "plain_floats L" "\<forall>s. sha256_hex L s \<noteq> GENESIS_HASH"
    and "readable L (audit_entry L now1 i1 f1 GENESIS_HASH)" "readable L (audit_entry L now2 i2 f2 GENESIS_HASH)"
    and "audit_line L now1 i1 f1 None = Inr line1" "audit_line L now2 i2 f2 None = Inr line2"
    and "length line1 + length line2 \<le> MAX_READ_BYTES"
  shows "audit_verify L (audit_append line2 (audit_append line1 None)) =
    Inr [problem 1 (''prev_hash mismatch (expected '' @ entry_digest L (audit_payload now1 i1 f1 GENESIS_HASH) @ '')'')]"
proof -
  let ?e = "audit_entry L now1 i1 f1 GENESIS_HASH" and ?e' = "audit_entry L now2 i2 f2 GENESIS_HASH"
  have lines: "line1 = entry_line L ?e @ [newline]" "line2 = entry_line L ?e' @ [newline]"
    using assms(5,6) by (auto simp: audit_line_def last_entry_hash_def newline_def)
  have two: "audit_append line2 (audit_append line1 None) = log_of L [?e, ?e']"
    by (simp add: audit_append_def log_of_def lines)
  have "read_all L (log_of L [?e, ?e']) = map JObj [?e, ?e']"
    using assms(3,4,7) by (intro read_all_log [OF assms(1)]) (simp_all add: lines)
  moreover have "GENESIS_HASH \<noteq> entry_digest L d" for d
    using assms(2) by (simp add: entry_digest_def eq_commute [of GENESIS_HASH])
  ultimately show ?thesis
    by (simp add: two audit_verify_def entry_keys)
qed

theorem audit_race_reported_witness:
  "\<exists>line. audit_line example_audit_libs 0 ''m1'' (example_fields ''app_remove'') None = Inr line \<and>
     audit_verify example_audit_libs (audit_append line (audit_append line None)) \<noteq> Inr []"
proof -
  obtain line where line: "audit_line example_audit_libs 0 ''m1'' (example_fields ''app_remove'') None = Inr line"
      "line = entry_line example_audit_libs example_entry @ [newline]"
    by (simp add: audit_line_def last_entry_hash_def example_entry_eq newline_def)
  have "\<forall>s. sha256_hex example_audit_libs s \<noteq> GENESIS_HASH"
    by (simp add: example_readable GENESIS_HASH_def eval_nat_numeral)
  from audit_race_reported [OF example_readable(2) this _ _ line(1) line(1)] example_readable(1) example_fits line
  show ?thesis by (simp add: example_entry_eq MAX_READ_BYTES_def)
qed

end
