(* ===== verification/Broker.thy ===== *)
theory Broker
  imports Operations Protocol Middleware Confirmation Rules Package_Sessions Audit_Log
begin

text \<open>
  \<open>broker/helper.py\<close>: the root-side helper. \<open>handle\<close> is one connection: the peer check, decoding, the
  registry, authentication and authorization of the original request, the policy with the deferred
  consumption of the ticket, the package-test session, the adapter's call, finalizing or reverting
  the ticket, the response, and the audit entry that is written on every way out. The adapter, the
  socket, the clocks and the files are the environment of a connection.
\<close>

subsection \<open>Tables\<close>

definition POLICY_NAME_BY_OPERATION :: "(string \<times> string) list" where
  "POLICY_NAME_BY_OPERATION =
    [(''app.upgrade'', ''apps.upgrade''),
     (''app.remove'', ''apps.remove''),
     (''app.change_url'', ''apps.change_url''),
     (''app.config_set'', ''apps.config''),
     (''app.setting_set'', ''apps.setting''),
     (''backup.restore'', ''backups.restore''),
     (''system.upgrade'', ''system.upgrade''),
     (''migrations.run'', ''system.migrate''),
     (''firewall.open'', ''firewall.write''),
     (''firewall.close'', ''firewall.write''),
     (''firewall.reload'', ''firewall.write''),
     (''user.create'', ''users.write''),
     (''user.update'', ''users.write''),
     (''user.delete'', ''users.delete''),
     (''user.group_create'', ''users.write''),
     (''user.group_update'', ''users.write''),
     (''user.group_delete'', ''users.delete''),
     (''user.permission_add'', ''users.permissions''),
     (''user.permission_remove'', ''users.permissions''),
     (''user.permission_update'', ''users.permissions''),
     (''domain.add'', ''domains.write''),
     (''domain.cert_install'', ''domains.cert''),
     (''domain.dns_push'', ''domains.dns''),
     (''domain.remove'', ''domains.remove''),
     (''app.install'', ''apps.install''),
     (''backup.create'', ''backups.create''),
     (''backup.delete'', ''backups.delete''),
     (''service.restart'', ''services.restart''),
     (''service.stop'', ''services.stop''),
     (''system.reboot'', ''system.power''),
     (''system.shutdown'', ''system.power''),
     (''settings.set'', ''settings.write''),
     (''regenconf.apply'', ''regenconf.write''),
     (''catalog.publish'', ''catalog.publish''),
     (''package.run_tests'', ''packages.test''),
     (''package.install_test'', ''packages.test''),
     (''package.upgrade_test'', ''packages.test''),
     (''package.backup_test'', ''packages.test''),
     (''package.restore_test'', ''packages.test''),
     (''package.change_url_test'', ''packages.test''),
     (''package.remove_test'', ''packages.test''),
     (''safe.upgrade'', ''apps.upgrade'')]"

definition CONFIRMATION_ARGUMENT_KEYS :: "(string \<times> string list) list" where
  "CONFIRMATION_ARGUMENT_KEYS =
    [(''app.upgrade'', [''app'', ''force'', ''url'']),
     (''safe.upgrade'', [''app'']),
     (''app.remove'', [''app'', ''purge'']),
     (''app.change_url'', [''app'', ''domain'', ''path'']),
     (''app.config_set'', [''app'', ''key'', ''value'']),
     (''app.setting_set'', [''app'', ''key'', ''value'', ''delete'']),
     (''backup.restore'', [''name'', ''apps'', ''system'', ''force'']),
     (''system.upgrade'', []),
     (''migrations.run'', [''targets'', ''skip'', ''auto'', ''force_rerun'', ''accept_disclaimer'', ''skip_postmigrations'']),
     (''firewall.open'', [''port'', ''protocol'', ''comment'', ''upnp'', ''no_reload'']),
     (''firewall.close'', [''port'', ''protocol'', ''upnp_only'', ''no_reload'']),
     (''firewall.reload'', [''skip_upnp'']),
     (''user.create'', [''username'', ''domain'', ''password'', ''fullname'', ''mailbox_quota'', ''admin'']),
     (''user.update'', [''username'', ''mail'', ''change_password'', ''add_mailforward'', ''remove_mailforward'', ''add_mailalias'', ''remove_mailalias'', ''mailbox_quota'', ''fullname'']),
     (''user.delete'', [''username'', ''purge'']),
     (''user.group_create'', [''groupname'']),
     (''user.group_update'', [''groupname'', ''add'', ''remove'']),
     (''user.group_delete'', [''groupname'']),
     (''user.permission_add'', [''permission'', ''names'']),
     (''user.permission_remove'', [''permission'', ''names'']),
     (''user.permission_update'', [''permission'', ''label'', ''show_tile'', ''protected'']),
     (''domain.add'', [''domain'', ''install_letsencrypt_cert'']),
     (''domain.cert_install'', [''domain'', ''letsencrypt'', ''staging'']),
     (''domain.dns_push'', [''domain'', ''force'', ''purge'']),
     (''domain.remove'', [''domain'', ''remove_apps'', ''force'']),
     (''app.install'', [''app'', ''label'', ''args'', ''force'']),
     (''backup.create'', [''name'', ''description'', ''apps'', ''system'']),
     (''backup.delete'', [''name'']),
     (''service.restart'', [''names'']),
     (''service.stop'', [''names'']),
     (''system.reboot'', []),
     (''system.shutdown'', []),
     (''settings.set'', [''key'', ''value'']),
     (''regenconf.apply'', [''names'', ''force'']),
     (''catalog.publish'', [''plan_id'']),
     (''package.run_tests'', [''source'', ''app_id'']),
     (''package.install_test'', [''source'', ''session_id'', ''label'', ''args'']),
     (''package.upgrade_test'', [''app'', ''source'', ''session_id'']),
     (''package.backup_test'', [''app'', ''session_id'']),
     (''package.restore_test'', [''app'', ''archive_name'', ''session_id'']),
     (''package.change_url_test'', [''app'', ''domain'', ''path'', ''session_id'']),
     (''package.remove_test'', [''app'', ''purge'', ''session_id''])]"

definition policy_name_for_operation :: "string \<Rightarrow> dict \<Rightarrow> string option" where
  "policy_name_for_operation op_name arguments =
     (if op_name = ''app.upgrade'' then Some (app_upgrade_policy_key arguments)
      else if op_name = ''safe.upgrade'' then Some (app_upgrade_policy_key arguments)
      else if op_name = ''app.config_set'' then Some (app_config_policy_key arguments)
      else if op_name = ''app.setting_set'' then Some (app_setting_policy_key arguments)
      else if op_name = ''app.remove'' then Some (app_remove_policy_key arguments)
      else if op_name = ''app.change_url'' then Some (app_change_url_policy_key arguments)
      else if op_name = ''app.install'' then Some (app_install_policy_key arguments)
      else if op_name = ''user.create'' \<and> dget_default arguments ''admin'' (JBool False) = JBool True
      then Some ''users.admin_access''
      else if op_name = ''user.group_update'' \<and> dget arguments ''groupname'' = JStr ''admins''
      then Some ''users.admin_access''
      else map_of POLICY_NAME_BY_OPERATION op_name)"

subsection \<open>State and environment\<close>

text \<open>The server's state; \<open>bk_calls\<close> logs the calls the adapter received.\<close>

record broker =
  bk_allowed_uid :: int
  bk_replay_cache :: replay_cache
  bk_server_pubkey :: string
  bk_revocations :: revocation_store
  bk_confirmations :: "sql_store option"
  bk_sessions :: session_store
  bk_policy :: policy
  bk_audit :: audit_file
  bk_calls :: "adapter_call list"

record broker_env =
  be_libs :: libs
  be_fmt :: "json \<Rightarrow> string"
  be_lookup :: "string \<Rightarrow> exn + identity_record option"
  be_revocation_file :: toml_file
  be_now :: real
  be_tick :: real
  be_audit_id :: string
  be_free_space :: "exn + int"
  be_backup_times :: "exn + (string \<times> real) list"
  be_adapter :: "adapter_call \<Rightarrow> exn + json"
  be_sendall :: "string \<Rightarrow> exn + unit"
  be_redact_text :: "string \<Rightarrow> string"
  be_type_name :: "exn \<Rightarrow> string"

text \<open>The handler's local variables, and the lines it has sent.\<close>

record connection =
  cn_server :: broker
  cn_request_id :: string
  cn_operation :: string
  cn_caller :: string
  cn_decision :: string
  cn_result :: string
  cn_error :: json
  cn_operation_id :: json
  cn_confirmation :: "string option"
  cn_arguments :: dict
  cn_sent :: "string list"

definition connection_init :: "broker \<Rightarrow> connection" where
  "connection_init bk =
     \<lparr>cn_server = bk, cn_request_id = ''unknown'', cn_operation = ''unknown'', cn_caller = ''unknown'',
      cn_decision = ''denied'', cn_result = ''error'', cn_error = JNull, cn_operation_id = JNull,
      cn_confirmation = None, cn_arguments = [], cn_sent = []\<rparr>"

subsection \<open>Authorization\<close>

definition broker_middleware :: "broker_env \<Rightarrow> broker \<Rightarrow> middleware" where
  "broker_middleware env bk =
     middleware_init (be_revocation_file env) None 60 {} (Some (bk_server_pubkey bk)) (Some (bk_revocations bk)) 1048576 None"

definition broker_headers :: "broker_request \<Rightarrow> string \<rightharpoonup> string" where
  "broker_headers r = (case br_delegation r of
      Some (c # s) \<Rightarrow> [''x-nostr-delegation'' \<mapsto> c # s]
    | _ \<Rightarrow> Map.empty)"

definition authorize_request ::
  "broker_env \<Rightarrow> broker_request \<Rightarrow> broker \<Rightarrow> broker \<times> (exn + authenticated_request)" where
  "authorize_request env r bk =
     (case (br_authorization r, br_method r, br_url r) of
        (Some (a # authorization), Some (m # meth), Some (u # url)) \<Rightarrow>
          (case decode_original_body (be_libs env) r of
             Inl e \<Rightarrow> (bk, Inl e)
           | Inr body \<Rightarrow>
               (case verify_nip98_request (be_libs env) (br_authorization r) (m # meth) (u # url) body
                       DEFAULT_CLOCK_SKEW_SECONDS (py_trunc (be_now env)) (be_tick env) (bk_replay_cache bk) of
                  (cache, Inl e) \<Rightarrow>
                    (bk\<lparr>bk_replay_cache := cache\<rparr>,
                     Inl (protocol_error (''NIP-98 authentication failed: '' @ exn_msg e)))
                | (cache, Inr n) \<Rightarrow>
                    (bk\<lparr>bk_replay_cache := cache\<rparr>,
                     ebind (resolve_identity (be_libs env) (be_fmt env) (be_lookup env) (be_revocation_file env)
                              (be_now env) (broker_middleware env bk) (ni_pubkey n) (broker_headers r)) (\<lambda>record.
                       case record of
                         None \<Rightarrow> Inl (protocol_error ''pubkey is not authorized'')
                       | Some identity \<Rightarrow> Inr
                           \<lparr>rq_pubkey = ni_pubkey n, rq_event_id = ni_event_id n,
                            rq_event_created_at = ni_created_at n, rq_identity = Some identity,
                            rq_authorization = None, rq_method = None, rq_url = None, rq_body = [],
                            rq_delegation = None\<rparr>))))
      | _ \<Rightarrow> (bk, Inl (protocol_error ''complete original request authentication is required'')))"

subsection \<open>Policy and sessions\<close>

text \<open>\<open>not store\<close>: there is no store, or its \<open>__len__\<close> is zero.\<close>

definition store_is_false :: "sql_store option \<Rightarrow> bool" where
  "store_is_false s = (case s of None \<Rightarrow> True | Some st \<Rightarrow> confirmations st = [])"

definition hard_checks :: "broker_env \<Rightarrow> string \<Rightarrow> policy_rule \<Rightarrow> exn + unit" where
  "hard_checks env op_name rule =
     ebind (be_free_space env) (\<lambda>free. ebind (check_free_space rule free) (\<lambda>_.
       if op_name = ''safe.upgrade'' then Inr ()
       else ebind (be_backup_times env) (\<lambda>times. check_recent_backup rule times (be_now env))))"

definition bound_arguments :: "string list \<Rightarrow> dict \<Rightarrow> dict" where
  "bound_arguments keys arguments = map (\<lambda>k. (k, dget arguments k)) keys"

definition check_operation_policy ::
  "broker_env \<Rightarrow> dict \<Rightarrow> string \<Rightarrow> string \<Rightarrow> broker \<Rightarrow> broker \<times> (exn + string option)" where
  "check_operation_policy env arguments op_name pubkey bk =
     (case policy_name_for_operation op_name arguments of
        None \<Rightarrow> (bk, Inr None)
      | Some policy_name \<Rightarrow>
          (case map_of (bk_policy bk) policy_name of
             None \<Rightarrow> (bk, Inr None)
           | Some rule \<Rightarrow>
               (case hard_checks env op_name rule of
                  Inl e \<Rightarrow> (bk, Inl e)
                | Inr _ \<Rightarrow>
                    if \<not> require_confirmation rule then (bk, Inr None)
                    else (case (dget arguments ''confirmation_id'', bk_confirmations bk) of
                        (JStr confirmation_id, Some store) \<Rightarrow>
                          if store_is_false (bk_confirmations bk)
                          then (bk, Inl (protocol_error ''confirmation is required for this operation''))
                          else (case map_of CONFIRMATION_ARGUMENT_KEYS op_name of
                              None \<Rightarrow> (bk, Inl (protocol_error
                                (''no confirmation argument binding for '' @ py_repr op_name)))
                            | Some keys \<Rightarrow>
                                (let (store', r) = sql_consume (be_libs env) (be_now env) confirmation_id pubkey
                                       policy_name (bound_arguments keys arguments) (require_owner_signature rule) True store
                                 in (bk\<lparr>bk_confirmations := Some store'\<rparr>,
                                     case r of
                                       Inl e \<Rightarrow> Inl (if exn_cls e = ConfirmationError
                                         then protocol_error (''invalid confirmation: '' @ exn_msg e) else e)
                                     | Inr _ \<Rightarrow> Inr (Some confirmation_id))))
                      | _ \<Rightarrow> (bk, Inl (protocol_error ''confirmation is required for this operation''))))))"

definition py_or :: "json \<Rightarrow> json \<Rightarrow> json" where
  "py_or a b = (if truthy a then a else b)"

definition check_package_test_session ::
  "broker_env \<Rightarrow> broker_request \<Rightarrow> string \<Rightarrow> broker \<Rightarrow> broker \<times> (exn + unit)" where
  "check_package_test_session env r pubkey bk =
     (let arguments = br_arguments r
      in if \<not> starts_with (br_operation r) ''package.'' \<or> br_operation r \<in> {''package.inspect'', ''package.lint''}
         then (bk, Inr ())
         else (case dget arguments ''session_id'' of
             JStr (c # session_id) \<Rightarrow>
               (let (sessions, got) = session_get (be_libs env) (be_now env) (c # session_id) pubkey
                      (dget arguments ''source'') (py_or (dget arguments ''app'') (dget arguments ''app_id''))
                      (bk_sessions bk)
                in (bk\<lparr>bk_sessions := sessions\<rparr>,
                    case got of
                      Inl e \<Rightarrow> Inl (if exn_cls e = PackageTestSessionError then protocol_error (exn_msg e) else e)
                    | Inr _ \<Rightarrow> Inr ()))
           | _ \<Rightarrow> (bk, Inl (protocol_error ''package-test session_id is required''))))"

subsection \<open>The handler\<close>

definition send :: "broker_env \<Rightarrow> exn + json \<Rightarrow> connection \<Rightarrow> connection \<times> (exn + unit)" where
  "send env r cn =
     (case encode_response (be_libs env) (cn_request_id cn) r of
        Inl e \<Rightarrow> (cn, Inl e)
      | Inr line \<Rightarrow>
          (case be_sendall env line of
             Inl e \<Rightarrow> (cn, Inl e)
           | Inr _ \<Rightarrow> (cn\<lparr>cn_sent := cn_sent cn @ [line]\<rparr>, Inr ())))"

text \<open>A step on the server's state within the connection, and what follows if it does not raise.\<close>

definition on_server :: "(broker \<Rightarrow> broker \<times> (exn + 'a)) \<Rightarrow> ('a \<Rightarrow> connection \<Rightarrow> connection \<times> (exn + 'b)) \<Rightarrow>
    connection \<Rightarrow> connection \<times> (exn + 'b)" where
  "on_server f k cn =
     (case f (cn_server cn) of
        (bk, Inl e) \<Rightarrow> (cn\<lparr>cn_server := bk\<rparr>, Inl e)
      | (bk, Inr x) \<Rightarrow> k x (cn\<lparr>cn_server := bk\<rparr>))"

definition raising :: "exn + 'a \<Rightarrow> ('a \<Rightarrow> connection \<Rightarrow> connection \<times> (exn + 'b)) \<Rightarrow> connection \<Rightarrow> connection \<times> (exn + 'b)" where
  "raising m k cn = (case m of Inl e \<Rightarrow> (cn, Inl e) | Inr x \<Rightarrow> k x cn)"

definition required_scope :: "broker_operation \<Rightarrow> exn + scope" where
  "required_scope operation = (case scope_of_value (bo_required_scope operation) of
      None \<Rightarrow> Inl (Exn ValueError (py_repr (bo_required_scope operation) @ '' is not a valid Scope''))
    | Some s \<Rightarrow> Inr s)"

definition adapter_result :: "adapter_call \<Rightarrow> json \<Rightarrow> json" where
  "adapter_result c v = (case ac_result_key c of None \<Rightarrow> v | Some k \<Rightarrow> JObj [(k, v)])"

text \<open>\<open>operation.invoke\<close>: the argument checks, then the one call of the adapter.\<close>

definition invoke :: "broker_env \<Rightarrow> broker_operation \<Rightarrow> dict \<Rightarrow> broker \<Rightarrow> broker \<times> (exn + json)" where
  "invoke env operation arguments bk =
     (case bo_invoke operation arguments of
        Inl e \<Rightarrow> (bk, Inl e)
      | Inr c \<Rightarrow>
          (bk\<lparr>bk_calls := bk_calls bk @ [c]\<rparr>,
           case be_adapter env c of Inl e \<Rightarrow> Inl e | Inr v \<Rightarrow> Inr (adapter_result c v)))"

definition finalize :: "string option \<Rightarrow> broker \<Rightarrow> broker \<times> (exn + unit)" where
  "finalize confirmation bk =
     (case (confirmation, bk_confirmations bk) of
        (Some cid, Some store) \<Rightarrow>
          (let (store', r) = sql_finalize cid store in (bk\<lparr>bk_confirmations := Some store'\<rparr>, r))
      | _ \<Rightarrow> (bk, Inr ()))"

definition revert_confirmation :: "string option \<Rightarrow> broker \<Rightarrow> broker" where
  "revert_confirmation confirmation bk =
     (case (confirmation, bk_confirmations bk) of
        (Some cid, Some store) \<Rightarrow> bk\<lparr>bk_confirmations := Some (fst (sql_revert cid store))\<rparr>
      | _ \<Rightarrow> bk)"

definition operation_id_of :: "json \<Rightarrow> json" where
  "operation_id_of v = (case v of JObj d \<Rightarrow> dget d ''operation_id'' | _ \<Rightarrow> JNull)"

text \<open>The invocation, the ticket's finalization, the answer.\<close>

definition run_operation ::
  "broker_env \<Rightarrow> broker_request \<Rightarrow> broker_operation \<Rightarrow> string option \<Rightarrow> connection \<Rightarrow> connection \<times> (exn + unit)" where
  "run_operation env r operation confirmation =
     on_server (invoke env operation (br_arguments r)) (\<lambda>result.
     on_server (finalize confirmation) (\<lambda>_ cn.
     send env (Inr result) (cn\<lparr>cn_result := ''success'', cn_operation_id := operation_id_of result\<rparr>)))"

text \<open>The policy with the ticket, the package-test session.\<close>

definition checked_operation ::
  "broker_env \<Rightarrow> broker_request \<Rightarrow> broker_operation \<Rightarrow> string \<Rightarrow> connection \<Rightarrow> connection \<times> (exn + unit)" where
  "checked_operation env r operation pubkey =
     on_server (check_operation_policy env (br_arguments r) (bo_name operation) pubkey) (\<lambda>confirmation cn.
     on_server (check_package_test_session env r pubkey) (\<lambda>_ cn.
     run_operation env r operation confirmation (cn\<lparr>cn_decision := ''allowed''\<rparr>))
     (cn\<lparr>cn_confirmation := confirmation\<rparr>))"

text \<open>The authentication and the scope.\<close>

definition execute_request ::
  "broker_env \<Rightarrow> broker_request \<Rightarrow> broker_operation \<Rightarrow> connection \<Rightarrow> connection \<times> (exn + unit)" where
  "execute_request env r operation =
     on_server (authorize_request env r) (\<lambda>rq cn.
     raising (required_scope operation) (\<lambda>s.
     raising (guard (has_scope rq s) (protocol_error ''caller lacks the required operation scope'')) (\<lambda>_.
     checked_operation env r operation (rq_pubkey rq)))
     (cn\<lparr>cn_caller := rq_pubkey rq\<rparr>))"

definition handle_try :: "broker_env \<Rightarrow> int \<Rightarrow> string \<Rightarrow> connection \<Rightarrow> connection \<times> (exn + unit)" where
  "handle_try env peer_uid bytes cn =
     (if peer_uid \<noteq> bk_allowed_uid (cn_server cn)
      then send env (Inl (protocol_error ''forbidden peer'')) cn
      else raising (receive_request (be_libs env) bytes) (\<lambda>r cn.
        let cn' = cn\<lparr>cn_request_id := br_request_id r, cn_operation := br_operation r, cn_arguments := br_arguments r\<rparr>
        in case map_of OPERATIONS (br_operation r) of
             None \<Rightarrow> (cn', Inl (protocol_error ''unsupported operation''))
           | Some operation \<Rightarrow> execute_request env r operation cn') cn)"

definition format_internal_broker_error :: "broker_env \<Rightarrow> exn \<Rightarrow> string" where
  "format_internal_broker_error env e =
     (let detail0 = str_strip (be_redact_text env (exn_msg e));
          detail = (if length detail0 > 1000 then take 1000 detail0 @ ''...'' else detail0)
      in ''internal broker error'' @
         (if detail = [] then [] else '' ('' @ be_type_name env e @ '': '' @ detail @ '')''))"

definition handle_error :: "broker_env \<Rightarrow> exn \<Rightarrow> connection \<Rightarrow> connection \<times> (exn + unit)" where
  "handle_error env e cn =
     (let error = (if is_value_error e \<or> exn_cls e = YunohostUnavailableError then exn_msg e
                   else format_internal_broker_error env e);
          cn' = cn\<lparr>cn_error := JStr error, cn_server := revert_confirmation (cn_confirmation cn) (cn_server cn)\<rparr>
      in send env (Inl (Exn (exn_cls e) error)) cn')"

definition connection_fields :: "connection \<Rightarrow> audit_fields" where
  "connection_fields cn =
     \<lparr>af_tool = cn_operation cn, af_arguments = JObj (cn_arguments cn), af_caller_pubkey = cn_caller cn,
      af_decision = cn_decision cn, af_result = cn_result cn, af_yunohost_operation = cn_operation_id cn,
      af_error = cn_error cn, af_approved_by = JNull,
      af_request_id = (if cn_request_id cn \<noteq> ''unknown'' then Some (cn_request_id cn) else None),
      af_execution_context = Some ''broker''\<rparr>"

definition audit_connection :: "broker_env \<Rightarrow> connection \<Rightarrow> connection" where
  "audit_connection env cn =
     (case audit_record (be_libs env) (be_now env) (be_audit_id env) (connection_fields cn) (bk_audit (cn_server cn)) of
        Inl _ \<Rightarrow> cn
      | Inr entries \<Rightarrow> cn\<lparr>cn_server := (cn_server cn)\<lparr>bk_audit := entries\<rparr>\<rparr>)"

definition handle_connection :: "broker_env \<Rightarrow> int \<Rightarrow> string \<Rightarrow> broker \<Rightarrow> connection \<times> (exn + unit)" where
  "handle_connection env peer_uid bytes bk =
     (case handle_try env peer_uid bytes (connection_init bk) of
        (cn, Inr _) \<Rightarrow> (audit_connection env cn, Inr ())
      | (cn, Inl e) \<Rightarrow> (let (cn', r) = handle_error env e cn in (audit_connection env cn', r)))"

definition handle :: "broker_env \<Rightarrow> int \<Rightarrow> string \<Rightarrow> broker \<Rightarrow> broker" where
  "handle env peer_uid bytes bk = cn_server (fst (handle_connection env peer_uid bytes bk))"

subsection \<open>Frames\<close>

lemma on_server_alt:
  "on_server f k cn = (case snd (f (cn_server cn)) of
     Inl e \<Rightarrow> (cn\<lparr>cn_server := fst (f (cn_server cn))\<rparr>, Inl e)
   | Inr x \<Rightarrow> k x (cn\<lparr>cn_server := fst (f (cn_server cn))\<rparr>))"
  by (simp add: on_server_def split: prod.split sum.split)

lemma authorize_frame:
  "fst (authorize_request env r bk) = bk\<lparr>bk_replay_cache := bk_replay_cache (fst (authorize_request env r bk))\<rparr>"
  by (simp add: authorize_request_def split: option.split list.split sum.split prod.split)

lemma policy_frame:
  "fst (check_operation_policy env arguments name pk bk) =
     bk\<lparr>bk_confirmations := bk_confirmations (fst (check_operation_policy env arguments name pk bk))\<rparr>"
  by (simp add: check_operation_policy_def Let_def split: option.split json.split sum.split prod.split)

lemma session_frame:
  "fst (check_package_test_session env r pk bk) =
     bk\<lparr>bk_sessions := bk_sessions (fst (check_package_test_session env r pk bk))\<rparr>"
  by (simp add: check_package_test_session_def Let_def split: json.split list.split prod.split)

lemma authorize_keeps [simp]:
  "bk_confirmations (fst (authorize_request env r bk)) = bk_confirmations bk"
  "bk_calls (fst (authorize_request env r bk)) = bk_calls bk"
  "bk_policy (fst (authorize_request env r bk)) = bk_policy bk"
  "bk_sessions (fst (authorize_request env r bk)) = bk_sessions bk"
  "bk_audit (fst (authorize_request env r bk)) = bk_audit bk"
  "bk_allowed_uid (fst (authorize_request env r bk)) = bk_allowed_uid bk"
  by (subst authorize_frame, simp)+

lemma policy_keeps [simp]:
  "bk_replay_cache (fst (check_operation_policy env arguments name pk bk)) = bk_replay_cache bk"
  "bk_calls (fst (check_operation_policy env arguments name pk bk)) = bk_calls bk"
  "bk_policy (fst (check_operation_policy env arguments name pk bk)) = bk_policy bk"
  "bk_sessions (fst (check_operation_policy env arguments name pk bk)) = bk_sessions bk"
  "bk_audit (fst (check_operation_policy env arguments name pk bk)) = bk_audit bk"
  by (subst policy_frame, simp)+

lemma session_keeps [simp]:
  "bk_confirmations (fst (check_package_test_session env r pk bk)) = bk_confirmations bk"
  "bk_calls (fst (check_package_test_session env r pk bk)) = bk_calls bk"
  "bk_policy (fst (check_package_test_session env r pk bk)) = bk_policy bk"
  "bk_audit (fst (check_package_test_session env r pk bk)) = bk_audit bk"
  by (subst session_frame, simp)+

lemma invoke_keeps [simp]:
  "bk_confirmations (fst (invoke env op args bk)) = bk_confirmations bk"
  "bk_audit (fst (invoke env op args bk)) = bk_audit bk"
  by (simp_all add: invoke_def split: sum.split)

lemma finalize_keeps [simp]:
  "bk_calls (fst (finalize c bk)) = bk_calls bk" "bk_audit (fst (finalize c bk)) = bk_audit bk"
  by (simp_all add: finalize_def Let_def split: option.split prod.split)

lemma revert_keeps [simp]:
  "bk_calls (revert_confirmation c bk) = bk_calls bk" "bk_audit (revert_confirmation c bk) = bk_audit bk"
  "bk_replay_cache (revert_confirmation c bk) = bk_replay_cache bk"
  by (simp_all add: revert_confirmation_def split: option.split)

lemma send_keeps [simp]:
  "cn_server (fst (send env v cn)) = cn_server cn" "cn_result (fst (send env v cn)) = cn_result cn"
  "cn_confirmation (fst (send env v cn)) = cn_confirmation cn" "cn_decision (fst (send env v cn)) = cn_decision cn"
  "cn_caller (fst (send env v cn)) = cn_caller cn" "cn_request_id (fst (send env v cn)) = cn_request_id cn"
  "cn_operation (fst (send env v cn)) = cn_operation cn" "cn_arguments (fst (send env v cn)) = cn_arguments cn"
  "cn_error (fst (send env v cn)) = cn_error cn" "cn_operation_id (fst (send env v cn)) = cn_operation_id cn"
  by (simp_all add: send_def split: sum.split)

lemma audit_keeps [simp]:
  "cn_result (audit_connection env cn) = cn_result cn" "cn_confirmation (audit_connection env cn) = cn_confirmation cn"
  "cn_sent (audit_connection env cn) = cn_sent cn" "cn_decision (audit_connection env cn) = cn_decision cn"
  "cn_caller (audit_connection env cn) = cn_caller cn"
  "bk_calls (cn_server (audit_connection env cn)) = bk_calls (cn_server cn)"
  "bk_confirmations (cn_server (audit_connection env cn)) = bk_confirmations (cn_server cn)"
  "bk_replay_cache (cn_server (audit_connection env cn)) = bk_replay_cache (cn_server cn)"
  "connection_fields (audit_connection env cn) = connection_fields cn"
  by (simp_all add: audit_connection_def connection_fields_def split: sum.split)

lemma handle_error_keeps [simp]:
  "cn_result (fst (handle_error env e cn)) = cn_result cn" "cn_confirmation (fst (handle_error env e cn)) = cn_confirmation cn"
  "cn_decision (fst (handle_error env e cn)) = cn_decision cn" "cn_caller (fst (handle_error env e cn)) = cn_caller cn"
  "cn_server (fst (handle_error env e cn)) = revert_confirmation (cn_confirmation cn) (cn_server cn)"
  by (simp_all add: handle_error_def Let_def)

text \<open>The handler's result, whichever way out it takes.\<close>

lemma handle_connection_alt:
  "fst (handle_connection env uid bytes bk) =
     (let p = handle_try env uid bytes (connection_init bk)
      in audit_connection env (case snd p of Inl e \<Rightarrow> fst (handle_error env e (fst p)) | Inr _ \<Rightarrow> fst p))"
  by (simp add: handle_connection_def Let_def split: prod.split sum.split)

subsection \<open>What an executed call went through\<close>

lemma run_operation_keeps [simp]:
  "cn_confirmation (fst (run_operation env r op conf cn)) = cn_confirmation cn"
  "cn_decision (fst (run_operation env r op conf cn)) = cn_decision cn"
  "cn_caller (fst (run_operation env r op conf cn)) = cn_caller cn"
  "bk_audit (cn_server (fst (run_operation env r op conf cn))) = bk_audit (cn_server cn)"
  by (simp_all add: run_operation_def on_server_alt split: sum.split)

lemma run_operation_calls:
  "bk_calls (cn_server (fst (run_operation env r op conf cn))) =
     bk_calls (cn_server cn) @ (case bo_invoke op (br_arguments r) of Inl e \<Rightarrow> [] | Inr c \<Rightarrow> [c])"
  by (simp add: run_operation_def on_server_alt invoke_def split: sum.split)

text \<open>Everything that lies between a request and its execution.\<close>

definition cleared ::
  "broker_env \<Rightarrow> broker_request \<Rightarrow> broker_operation \<Rightarrow> string \<Rightarrow> string option \<Rightarrow> broker \<Rightarrow> bool" where
  "cleared env r operation pubkey confirmation bk \<longleftrightarrow>
     snd (check_operation_policy env (br_arguments r) (bo_name operation) pubkey bk) = Inr confirmation \<and>
     snd (check_package_test_session env r pubkey
       (fst (check_operation_policy env (br_arguments r) (bo_name operation) pubkey bk))) = Inr ()"

lemma checked_operation_cases:
  obtains (refused) e bk confirmation where "checked_operation env r operation pubkey cn =
        (cn\<lparr>cn_server := bk, cn_confirmation := confirmation\<rparr>, Inl e)"
      "bk_calls bk = bk_calls (cn_server cn)" "bk_audit bk = bk_audit (cn_server cn)"
      "bk_confirmations bk = bk_confirmations (fst (check_operation_policy env (br_arguments r) (bo_name operation) pubkey (cn_server cn)))"
      "confirmation = (case snd (check_operation_policy env (br_arguments r) (bo_name operation) pubkey (cn_server cn)) of
         Inl _ \<Rightarrow> cn_confirmation cn | Inr c \<Rightarrow> c)"
  | (cleared) bk confirmation where "cleared env r operation pubkey confirmation (cn_server cn)"
      "checked_operation env r operation pubkey cn = run_operation env r operation confirmation
         (cn\<lparr>cn_confirmation := confirmation, cn_server := bk, cn_decision := ''allowed''\<rparr>)"
      "bk_calls bk = bk_calls (cn_server cn)" "bk_audit bk = bk_audit (cn_server cn)"
      "bk_confirmations bk = bk_confirmations (fst (check_operation_policy env (br_arguments r) (bo_name operation) pubkey (cn_server cn)))"
proof (cases "snd (check_operation_policy env (br_arguments r) (bo_name operation) pubkey (cn_server cn))")
  case (Inl e)
  let ?bk = "fst (check_operation_policy env (br_arguments r) (bo_name operation) pubkey (cn_server cn))"
  have "checked_operation env r operation pubkey cn = (cn\<lparr>cn_server := ?bk, cn_confirmation := cn_confirmation cn\<rparr>, Inl e)"
    by (simp add: checked_operation_def on_server_alt Inl)
  then show thesis by (rule refused) (simp_all add: Inl)
next
  case conf: (Inr confirmation)
  let ?bk1 = "fst (check_operation_policy env (br_arguments r) (bo_name operation) pubkey (cn_server cn))"
  let ?bk = "fst (check_package_test_session env r pubkey ?bk1)"
  show thesis
  proof (cases "snd (check_package_test_session env r pubkey ?bk1)")
    case (Inl e)
    have "checked_operation env r operation pubkey cn = (cn\<lparr>cn_server := ?bk, cn_confirmation := confirmation\<rparr>, Inl e)"
      by (simp add: checked_operation_def on_server_alt Inl conf)
    then show thesis by (rule refused) (simp_all add: conf)
  next
    case (Inr u)
    have "checked_operation env r operation pubkey cn = run_operation env r operation confirmation
         (cn\<lparr>cn_confirmation := confirmation, cn_server := ?bk, cn_decision := ''allowed''\<rparr>)"
      by (simp add: checked_operation_def on_server_alt Inr conf)
    then show thesis
      by (rule cleared [where bk = ?bk and confirmation = confirmation, rotated]) (simp_all add: cleared_def Inr conf)
  qed
qed

text \<open>Before that point nothing is claimed.\<close>

lemma handle_try_cases:
  obtains (refused) e bk where "snd (handle_try env uid bytes (connection_init bk0)) = Inl e"
      "cn_server (fst (handle_try env uid bytes (connection_init bk0))) = bk"
      "bk_calls bk = bk_calls bk0" "bk_audit bk = bk_audit bk0" "bk_confirmations bk = bk_confirmations bk0"
      "cn_confirmation (fst (handle_try env uid bytes (connection_init bk0))) = None"
      "cn_decision (fst (handle_try env uid bytes (connection_init bk0))) = ''denied''"
      "cn_result (fst (handle_try env uid bytes (connection_init bk0))) = ''error''"
  | (forbidden) "uid \<noteq> bk_allowed_uid bk0"
      "handle_try env uid bytes (connection_init bk0) = send env (Inl (protocol_error ''forbidden peer'')) (connection_init bk0)"
  | (checked) r operation rq s cn where "uid = bk_allowed_uid bk0" "receive_request (be_libs env) bytes = Inr r"
      "map_of OPERATIONS (br_operation r) = Some operation" "snd (authorize_request env r bk0) = Inr rq"
      "required_scope operation = Inr s" "has_scope rq s"
      "handle_try env uid bytes (connection_init bk0) = checked_operation env r operation (rq_pubkey rq) cn"
      "cn_server cn = fst (authorize_request env r bk0)" "cn_confirmation cn = None" "cn_result cn = ''error''"
      "cn_decision cn = ''denied''" "cn_caller cn = rq_pubkey rq" "cn_sent cn = []"
proof (cases "uid = bk_allowed_uid bk0")
  case False
  then show thesis by (intro forbidden) (simp_all add: handle_try_def connection_init_def)
next
  case True
  show thesis
  proof (cases "receive_request (be_libs env) bytes")
    case (Inl e)
    then show thesis using True by (intro refused) (auto simp: handle_try_def raising_def connection_init_def)
  next
    case req: (Inr r)
    define cn where "cn = (connection_init bk0)\<lparr>cn_request_id := br_request_id r, cn_operation := br_operation r, cn_arguments := br_arguments r\<rparr>"
    show thesis
    proof (cases "map_of OPERATIONS (br_operation r)")
      case None
      then show thesis using True req by (intro refused) (auto simp: handle_try_def raising_def connection_init_def Let_def)
    next
      case (Some operation)
      have tried: "handle_try env uid bytes (connection_init bk0) = execute_request env r operation cn"
        using True req Some by (simp add: handle_try_def raising_def connection_init_def Let_def cn_def)
      have cn: "cn_server cn = bk0" "cn_confirmation cn = None" "cn_result cn = ''error''" "cn_decision cn = ''denied''" "cn_sent cn = []"
        by (simp_all add: cn_def connection_init_def)
      show thesis
      proof (cases "snd (authorize_request env r bk0)")
        case (Inl e)
        show thesis
          by (rule refused [OF _ refl]) (simp_all add: tried execute_request_def on_server_alt cn Inl)
      next
        case (Inr rq)
        show thesis
        proof (cases "\<exists>s. required_scope operation = Inr s \<and> has_scope rq s")
          case False
          obtain e where e: "execute_request env r operation cn =
              (cn\<lparr>cn_server := fst (authorize_request env r bk0), cn_caller := rq_pubkey rq\<rparr>, Inl e)"
            using False by (cases "required_scope operation")
              (auto simp: execute_request_def on_server_alt cn Inr raising_def guard_def)
          show thesis by (rule refused [OF _ refl]) (simp_all add: tried e cn)
        next
          case scope: True
          then obtain s where s: "required_scope operation = Inr s" "has_scope rq s" by blast
          have "handle_try env uid bytes (connection_init bk0) = checked_operation env r operation (rq_pubkey rq)
              (cn\<lparr>cn_server := fst (authorize_request env r bk0), cn_caller := rq_pubkey rq\<rparr>)"
            by (simp add: tried execute_request_def on_server_alt cn raising_def guard_def s Inr)
          then show thesis
            by (rule checked [OF True req Some Inr s]) (simp_all add: cn)
        qed
      qed
    qed
  qed
qed

end
