(* ===== verification/Broker_Gate.thy ===== *)
theory Broker_Gate
  imports Broker
begin

text \<open>
  What one connection of the privileged broker may do.  The lemmas follow a request through
  \<^verbatim>\<open>src/yunohost_mcp/broker/helper.py\<close>: authentication, the policy decision, the confirmation
  ticket it presents, the package session, the run, and what becomes of the ticket afterwards.
  The claims state that an operation runs only after all of them, how the ticket table changes,
  and that no ticket pays for two runs.
\<close>

text \<open>An authenticated request: an event that verifies for the original method, URL and body and was
  not used before, and an identity admitted for its author.\<close>

definition authentic :: "broker_env \<Rightarrow> broker_request \<Rightarrow> broker \<Rightarrow> authenticated_request \<Rightarrow> bool" where
  "authentic env r bk rq \<longleftrightarrow>
     (\<exists>e url meth body identity. header_event (be_libs env) (br_authorization r) e \<and>
        br_url r = Some url \<and> br_method r = Some meth \<and> decode_original_body (be_libs env) r = Inr body \<and>
        ev_kind e = 27235 \<and> \<bar>py_trunc (be_now env) - ev_created_at e\<bar> \<le> 60 \<and>
        event_tag e ''u'' = Some url \<and> (\<exists>m. event_tag e ''method'' = Some m \<and> str_upper m = str_upper meth) \<and>
        (body = [] \<or> event_tag e ''payload'' = Some (sha256_bytes (be_libs env) body)) \<and>
        ev_id e = compute_event_id (be_libs env) e \<and> verify_signature (be_libs env) e = Inr True \<and>
        (\<forall>t. (ev_id e, t) \<in> set (rc_seen (bk_replay_cache bk)) \<longrightarrow> t \<le> be_tick env) \<and>
        rq_pubkey rq = ev_pubkey e \<and> rq_event_id rq = ev_id e \<and> rq_identity rq = Some identity \<and>
        admitted (be_libs env) (be_fmt env) (be_lookup env) (be_revocation_file env) (be_now env)
          (broker_middleware env bk) (ev_pubkey e) (broker_headers r ''x-nostr-delegation'') identity)"

lemma authorize_authentic:
  assumes "snd (authorize_request env r bk) = Inr rq"
  shows "authentic env r bk rq"
proof -
  obtain h meth url body n identity where
    v: "br_authorization r = Some h" "br_method r = Some meth" "br_url r = Some url"
      "decode_original_body (be_libs env) r = Inr body"
      "snd (verify_nip98_request (be_libs env) (br_authorization r) meth url body
         DEFAULT_CLOCK_SKEW_SECONDS (py_trunc (be_now env)) (be_tick env) (bk_replay_cache bk)) = Inr n"
      "resolve_identity (be_libs env) (be_fmt env) (be_lookup env) (be_revocation_file env)
         (be_now env) (broker_middleware env bk) (ni_pubkey n) (broker_headers r) = Inr (Some identity)"
      "rq_pubkey rq = ni_pubkey n" "rq_event_id rq = ni_event_id n" "rq_identity rq = Some identity"
    using assms
    by (auto simp: authorize_request_def split: option.splits list.splits sum.splits prod.splits)
  from v(5) obtain e where e: "header_event (be_libs env) (br_authorization r) e"
      "check_event (be_libs env) e meth url body 60 (py_trunc (be_now env)) = Inr ()"
      "snd (check_and_record (be_tick env) (ev_id e) (bk_replay_cache bk)) = Inr ()"
      "ni_pubkey n = ev_pubkey e" "ni_event_id n = ev_id e"
    unfolding verify_nip98_Inr DEFAULT_CLOCK_SKEW_SECONDS_def header_event_def parse_authorization_Inr [symmetric]
    by auto
  then show ?thesis
    using v resolve_identity_admitted [OF v(6)]
    unfolding authentic_def check_event_Inr check_and_record_Inr by (metis (no_types, lifting))
qed

subsection \<open>The policy step\<close>

definition tickets :: "libs \<Rightarrow> broker \<Rightarrow> astore" where
  "tickets L bk = (case bk_confirmations bk of None \<Rightarrow> Map.empty | Some store \<Rightarrow> sql_view L store)"

definition store_good :: "libs \<Rightarrow> broker \<Rightarrow> bool" where
  "store_good L bk \<longleftrightarrow> (\<forall>store. bk_confirmations bk = Some store \<longrightarrow> (\<exists>ttl owner_ttl. sql_good L ttl owner_ttl store))"

lemma tickets_cong: "bk_confirmations bk = bk_confirmations bk' \<Longrightarrow> tickets L bk = tickets L bk'"
  by (simp add: tickets_def)

lemma store_good_cong: "bk_confirmations bk = bk_confirmations bk' \<Longrightarrow> store_good L bk = store_good L bk'"
  by (simp add: store_good_def)

text \<open>The ticket that lets a request through, in the state it is in before.\<close>

definition presents ::
  "broker_env \<Rightarrow> broker \<Rightarrow> string \<Rightarrow> dict \<Rightarrow> string \<Rightarrow> string \<Rightarrow> policy_rule \<Rightarrow> string \<Rightarrow> bool" where
  "presents env bk name arguments pubkey policy_name rule cid \<longleftrightarrow>
     dget arguments ''confirmation_id'' = JStr cid \<and>
     (\<exists>t keys. map_of CONFIRMATION_ARGUMENT_KEYS name = Some keys \<and> tickets (be_libs env) bk cid = Some (t, False) \<and>
        be_now env < tk_expires_at t \<and> tk_pubkey t = pubkey \<and> tk_tool t = policy_name \<and>
        tk_arguments_hash t = hash_arguments (be_libs env) (bound_arguments keys arguments) \<and>
        (require_owner_signature rule \<longrightarrow> tk_owner_approved_by t \<noteq> None))"

lemma spec_consume_error_state:
  "snd (spec_consume L now cid pubkey tool args owner True a) = Inl e \<Longrightarrow>
     fst (spec_consume L now cid pubkey tool args owner True a) \<in> {a, a(cid := None)}"
  by (auto simp: spec_consume_def split: option.splits if_splits)

lemma policy_cases:
  assumes "store_good (be_libs env) bk"
  obtains (unconfirmed) "snd (check_operation_policy env arguments name pk bk) = Inr None"
      "fst (check_operation_policy env arguments name pk bk) = bk"
      "\<forall>pn rule. policy_name_for_operation name arguments = Some pn \<longrightarrow> map_of (bk_policy bk) pn = Some rule \<longrightarrow>
         hard_checks env name rule = Inr () \<and> \<not> require_confirmation rule"
  | (claimed) pn rule cid t where "snd (check_operation_policy env arguments name pk bk) = Inr (Some cid)"
      "policy_name_for_operation name arguments = Some pn" "map_of (bk_policy bk) pn = Some rule"
      "hard_checks env name rule = Inr ()" "require_confirmation rule"
      "presents env bk name arguments pk pn rule cid" "tickets (be_libs env) bk cid = Some (t, False)"
      "tickets (be_libs env) (fst (check_operation_policy env arguments name pk bk)) = (tickets (be_libs env) bk)(cid \<mapsto> (t, True))"
      "store_good (be_libs env) (fst (check_operation_policy env arguments name pk bk))"
  | (refused) e where "snd (check_operation_policy env arguments name pk bk) = Inl e"
      "\<exists>cid. tickets (be_libs env) (fst (check_operation_policy env arguments name pk bk)) \<in> {tickets (be_libs env) bk, (tickets (be_libs env) bk)(cid := None)}"
      "store_good (be_libs env) (fst (check_operation_policy env arguments name pk bk))"
proof (cases "\<exists>pn rule. policy_name_for_operation name arguments = Some pn \<and> map_of (bk_policy bk) pn = Some rule")
  case False
  then have "check_operation_policy env arguments name pk bk = (bk, Inr None)"
    by (auto simp: check_operation_policy_def split: option.splits)
  then show thesis using False by (intro unconfirmed) auto
next
  case True
  then obtain pn rule where p: "policy_name_for_operation name arguments = Some pn" "map_of (bk_policy bk) pn = Some rule"
    by blast
  show thesis
  proof (cases "hard_checks env name rule")
    case (Inl e)
    then have "check_operation_policy env arguments name pk bk = (bk, Inl e)"
      by (simp add: check_operation_policy_def p)
    then show thesis using assms by (intro refused) auto
  next
    case hard: (Inr u)
    show thesis
    proof (cases "require_confirmation rule")
      case False
      then have "check_operation_policy env arguments name pk bk = (bk, Inr None)"
        by (simp add: check_operation_policy_def p hard)
      then show thesis using p hard False by (intro unconfirmed) auto
    next
      case req: True
      show thesis
      proof (cases "\<exists>cid store keys. dget arguments ''confirmation_id'' = JStr cid \<and> bk_confirmations bk = Some store \<and>
          \<not> store_is_false (Some store) \<and> map_of CONFIRMATION_ARGUMENT_KEYS name = Some keys")
        case False
        then have "\<exists>e. check_operation_policy env arguments name pk bk = (bk, Inl e)"
          by (auto simp: check_operation_policy_def p hard req split: json.split option.split)
        then show thesis using assms by (auto intro: refused)
      next
        case True
        then obtain cid store keys where k: "dget arguments ''confirmation_id'' = JStr cid" "bk_confirmations bk = Some store"
            "\<not> store_is_false (Some store)" "map_of CONFIRMATION_ARGUMENT_KEYS name = Some keys" by blast
        obtain ttl owner_ttl where good: "sql_good (be_libs env) ttl owner_ttl store"
          using assms k(2) by (auto simp: store_good_def)
        let ?args = "bound_arguments keys arguments"
        let ?c = "sql_consume (be_libs env) (be_now env) cid pk pn ?args (require_owner_signature rule) True store"
        let ?s = "spec_consume (be_libs env) (be_now env) cid pk pn ?args (require_owner_signature rule) True (sql_view (be_libs env) store)"
        have ref: "sql_good (be_libs env) ttl owner_ttl (fst ?c)" "sql_view (be_libs env) (fst ?c) = fst ?s" "snd ?c = snd ?s"
          using sql.consume [OF good, of "be_now env" cid pk pn ?args "require_owner_signature rule" True]
          by (auto simp: refines_def)
        have step: "fst (check_operation_policy env arguments name pk bk) = bk\<lparr>bk_confirmations := Some (fst ?c)\<rparr>"
          by (simp add: check_operation_policy_def p hard req k Let_def split: prod.split)
        have view: "tickets (be_libs env) (fst (check_operation_policy env arguments name pk bk)) = fst ?s"
          "tickets (be_libs env) bk = sql_view (be_libs env) store"
          using ref k(2) by (simp_all add: step tickets_def)
        have good': "store_good (be_libs env) (fst (check_operation_policy env arguments name pk bk))"
          using ref(1) by (auto simp: step store_good_def)
        show thesis
        proof (cases "snd ?s")
          case (Inl e)
          then obtain store' where c: "?c = (store', Inl e)" using ref(3) by (metis prod.collapse)
          have "\<exists>e. snd (check_operation_policy env arguments name pk bk) = Inl e"
            by (simp add: check_operation_policy_def p hard req k c)
          moreover have "tickets (be_libs env) (fst (check_operation_policy env arguments name pk bk)) \<in> {tickets (be_libs env) bk, (tickets (be_libs env) bk)(cid := None)}"
            using spec_consume_error_state [OF Inl] unfolding view .
          ultimately show thesis using refused good' by blast
        next
          case (Inr t)
          then obtain store' where c: "?c = (store', Inr t)" using ref(3) by (metis prod.collapse)
          have res: "snd (check_operation_policy env arguments name pk bk) = Inr (Some cid)"
            by (simp add: check_operation_policy_def p hard req k c)
          have t: "sql_view (be_libs env) store cid = Some (t, False)" "be_now env < tk_expires_at t" "tk_pubkey t = pk" "tk_tool t = pn"
            "tk_arguments_hash t = hash_arguments (be_libs env) ?args" "require_owner_signature rule \<longrightarrow> tk_owner_approved_by t \<noteq> None"
            using Inr unfolding spec_consume_Inr by auto
          have "presents env bk name arguments pk pn rule cid"
            using t k by (auto simp: presents_def view)
          moreover have "tickets (be_libs env) (fst (check_operation_policy env arguments name pk bk)) = (tickets (be_libs env) bk)(cid \<mapsto> (t, True))"
            unfolding view using spec_consume_state [OF Inr] by simp
          ultimately show thesis using res p hard req t(1) good' by (intro claimed) (auto simp: view)
        qed
      qed
    qed
  qed
qed

subsection \<open>The whole connection\<close>

text \<open>What the policy requires of a request, in the state before it.\<close>

definition policy_satisfied :: "broker_env \<Rightarrow> broker \<Rightarrow> broker_request \<Rightarrow> string \<Rightarrow> bool" where
  "policy_satisfied env bk r pubkey \<longleftrightarrow>
     (\<forall>policy_name rule. policy_name_for_operation (br_operation r) (br_arguments r) = Some policy_name \<longrightarrow>
        map_of (bk_policy bk) policy_name = Some rule \<longrightarrow>
        hard_checks env (br_operation r) rule = Inr () \<and>
        (require_confirmation rule \<longrightarrow>
          (\<exists>cid. presents env bk (br_operation r) (br_arguments r) pubkey policy_name rule cid)))"

definition session_satisfied :: "broker_env \<Rightarrow> broker \<Rightarrow> broker_request \<Rightarrow> string \<Rightarrow> bool" where
  "session_satisfied env bk r pubkey \<longleftrightarrow>
     (starts_with (br_operation r) ''package.'' \<and> br_operation r \<notin> {''package.inspect'', ''package.lint''} \<longrightarrow>
        (\<exists>session_id s. dget (br_arguments r) ''session_id'' = JStr session_id \<and>
           snd (session_get (be_libs env) (be_now env) session_id pubkey (dget (br_arguments r) ''source'')
             (py_or (dget (br_arguments r) ''app'') (dget (br_arguments r) ''app_id'')) (bk_sessions bk)) = Inr s))"

lemma authorize_tickets [simp]: "tickets L (fst (authorize_request env r bk)) = tickets L bk"
  by (rule tickets_cong) simp

lemma authorize_store_good [simp]: "store_good L (fst (authorize_request env r bk)) = store_good L bk"
  by (rule store_good_cong) simp

lemma presents_authorize [simp]:
  "presents env (fst (authorize_request env' r bk)) name args pk pn rule cid = presents env bk name args pk pn rule cid"
  unfolding presents_def using tickets_cong [OF authorize_keeps(1)] by metis

lemma cleared_session:
  assumes "cleared env r operation pubkey confirmation bk"
  shows "session_satisfied env bk r pubkey"
proof -
  let ?bk = "fst (check_operation_policy env (br_arguments r) (bo_name operation) pubkey bk)"
  have "snd (check_package_test_session env r pubkey ?bk) = Inr ()" "bk_sessions ?bk = bk_sessions bk"
    using assms by (simp_all add: cleared_def)
  then show ?thesis
    by (auto simp: session_satisfied_def check_package_test_session_def Let_def
        split: if_splits json.splits list.splits prod.splits sum.splits)
qed

text \<open>The ticket at the end of an operation that was cleared.\<close>

lemma finalize_result:
  assumes "store_good (be_libs env) bk" "confirmation = None \<or> (\<exists>cid t. confirmation = Some cid \<and> tickets (be_libs env) bk cid = Some t)"
  shows "snd (finalize confirmation bk) = Inr ()"
    "tickets (be_libs env) (fst (finalize confirmation bk)) =
       (case confirmation of None \<Rightarrow> tickets (be_libs env) bk | Some cid \<Rightarrow> (tickets (be_libs env) bk)(cid := None))"
    "store_good (be_libs env) (fst (finalize confirmation bk))"
proof -
  have "snd (finalize confirmation bk) = Inr () \<and> tickets (be_libs env) (fst (finalize confirmation bk)) =
       (case confirmation of None \<Rightarrow> tickets (be_libs env) bk | Some cid \<Rightarrow> (tickets (be_libs env) bk)(cid := None)) \<and>
    store_good (be_libs env) (fst (finalize confirmation bk))"
  proof (cases confirmation)
    case None
    then show ?thesis using assms by (simp add: finalize_def)
  next
    case (Some cid)
    then obtain t where t: "tickets (be_libs env) bk cid = Some t" using assms(2) by auto
    then obtain store where s: "bk_confirmations bk = Some store" by (auto simp: tickets_def split: option.splits)
    then obtain ttl owner_ttl where good: "sql_good (be_libs env) ttl owner_ttl store"
      using assms(1) by (auto simp: store_good_def)
    have ref: "sql_good (be_libs env) ttl owner_ttl (fst (sql_finalize cid store))"
      "sql_view (be_libs env) (fst (sql_finalize cid store)) = fst (spec_finalize cid (sql_view (be_libs env) store))"
      "snd (sql_finalize cid store) = snd (spec_finalize cid (sql_view (be_libs env) store))"
      using sql.finalize [OF good, of cid] by (auto simp: refines_def)
    have f: "finalize confirmation bk = (bk\<lparr>bk_confirmations := Some (fst (sql_finalize cid store))\<rparr>, snd (sql_finalize cid store))"
      by (simp add: finalize_def Some s Let_def split: prod.split)
    show ?thesis
      using ref t unfolding f by (auto simp: Some s tickets_def spec_finalize_def store_good_def)
  qed
  then show "snd (finalize confirmation bk) = Inr ()"
    "tickets (be_libs env) (fst (finalize confirmation bk)) =
       (case confirmation of None \<Rightarrow> tickets (be_libs env) bk | Some cid \<Rightarrow> (tickets (be_libs env) bk)(cid := None))"
    "store_good (be_libs env) (fst (finalize confirmation bk))" by blast+
qed

lemma revert_result:
  assumes "store_good (be_libs env) bk"
  shows "tickets (be_libs env) (revert_confirmation confirmation bk) =
      (case confirmation of None \<Rightarrow> tickets (be_libs env) bk
       | Some cid \<Rightarrow> (case tickets (be_libs env) bk cid of None \<Rightarrow> tickets (be_libs env) bk | Some (t, _) \<Rightarrow> (tickets (be_libs env) bk)(cid \<mapsto> (t, False)))) \<and>
    store_good (be_libs env) (revert_confirmation confirmation bk)"
proof (cases confirmation)
  case None
  then show ?thesis using assms by (simp add: revert_confirmation_def)
next
  case (Some cid)
  show ?thesis
  proof (cases "bk_confirmations bk")
    case None
    then show ?thesis using assms by (simp add: revert_confirmation_def Some tickets_def)
  next
    case s: (Some store)
    then obtain ttl owner_ttl where good: "sql_good (be_libs env) ttl owner_ttl store"
      using assms(1) by (auto simp: store_good_def)
    have "sql_good (be_libs env) ttl owner_ttl (fst (sql_revert cid store))"
      "sql_view (be_libs env) (fst (sql_revert cid store)) = fst (spec_revert cid (sql_view (be_libs env) store))"
      using sql.revert [OF good, of cid] by (auto simp: refines_def)
    then show ?thesis
      by (auto simp: revert_confirmation_def Some s tickets_def spec_revert_def store_good_def split: option.split)
  qed
qed

lemma run_operation_tickets:
  assumes "store_good (be_libs env) (cn_server cn)"
    "confirmation = None \<or> (\<exists>cid t. confirmation = Some cid \<and> tickets (be_libs env) (cn_server cn) cid = Some t)"
    "cn_result cn = ''error''"
  obtains (failed) e where "snd (run_operation env r operation confirmation cn) = Inl e"
      "cn_result (fst (run_operation env r operation confirmation cn)) = ''error''"
      "tickets (be_libs env) (cn_server (fst (run_operation env r operation confirmation cn))) = tickets (be_libs env) (cn_server cn)"
      "store_good (be_libs env) (cn_server (fst (run_operation env r operation confirmation cn)))"
  | (succeeded) "cn_result (fst (run_operation env r operation confirmation cn)) = ''success''"
      "tickets (be_libs env) (cn_server (fst (run_operation env r operation confirmation cn))) =
         (case confirmation of None \<Rightarrow> tickets (be_libs env) (cn_server cn) | Some cid \<Rightarrow> (tickets (be_libs env) (cn_server cn))(cid := None))"
      "store_good (be_libs env) (cn_server (fst (run_operation env r operation confirmation cn)))"
proof -
  let ?bk = "fst (invoke env operation (br_arguments r) (cn_server cn))"
  have same: "tickets (be_libs env) ?bk = tickets (be_libs env) (cn_server cn)" "store_good (be_libs env) ?bk"
    using assms(1) tickets_cong [OF invoke_keeps(1)] store_good_cong [OF invoke_keeps(1)] by blast+
  show thesis
  proof (cases "snd (invoke env operation (br_arguments r) (cn_server cn))")
    case (Inl e)
    then have "run_operation env r operation confirmation cn = (cn\<lparr>cn_server := ?bk\<rparr>, Inl e)"
      by (simp add: run_operation_def on_server_alt)
    then show thesis using same assms(3) by (intro failed) simp_all
  next
    case (Inr v)
    have pre: "confirmation = None \<or> (\<exists>cid t. confirmation = Some cid \<and> tickets (be_libs env) ?bk cid = Some t)"
      using assms(2) same(1) by simp
    note fin = finalize_result [OF same(2) pre]
    have "fst (run_operation env r operation confirmation cn) = fst (send env (Inr v)
        (cn\<lparr>cn_server := fst (finalize confirmation ?bk), cn_result := ''success'', cn_operation_id := operation_id_of v\<rparr>))"
      by (simp add: run_operation_def on_server_alt Inr fin(1))
    then show thesis using fin(2) [unfolded same(1)] fin(3) by (intro succeeded) simp_all
  qed
qed

text \<open>Where the ticket of a connection ends: claimed for the operation, spent by its success, given
  given_back by its failure.\<close>

lemma handle_tickets:
  assumes "store_good (be_libs env) bk" "handle_connection env uid bytes bk = (cn, out)"
  shows "store_good (be_libs env) (cn_server cn) \<and>
    (case cn_confirmation cn of
       None \<Rightarrow> (\<exists>cid. tickets (be_libs env) (cn_server cn) \<in> {tickets (be_libs env) bk, (tickets (be_libs env) bk)(cid := None)})
     | Some cid \<Rightarrow> (\<exists>t. tickets (be_libs env) bk cid = Some (t, False) \<and> be_now env < tk_expires_at t) \<and>
         tickets (be_libs env) (cn_server cn) =
           (if cn_result cn = ''success'' then (tickets (be_libs env) bk)(cid := None) else tickets (be_libs env) bk))"
proof -
  let ?p = "handle_try env uid bytes (connection_init bk)"
  have cn: "cn = audit_connection env (case snd ?p of Inl e \<Rightarrow> fst (handle_error env e (fst ?p)) | Inr _ \<Rightarrow> fst ?p)"
    using assms(2) handle_connection_alt [of env uid bytes bk] by (simp add: Let_def)
  define end_state where "end_state = (case snd ?p of Inl e \<Rightarrow> revert_confirmation (cn_confirmation (fst ?p)) (cn_server (fst ?p))
      | Inr _ \<Rightarrow> cn_server (fst ?p))"
  have st: "tickets (be_libs env) (cn_server cn) = tickets (be_libs env) end_state" "store_good (be_libs env) (cn_server cn) = store_good (be_libs env) end_state"
    "cn_confirmation cn = cn_confirmation (fst ?p)" "cn_result cn = cn_result (fst ?p)"
    unfolding cn end_state_def
    by (auto split: sum.split intro!: tickets_cong store_good_cong)
  show ?thesis
  proof (cases rule: handle_try_cases [of env uid bytes bk])
    case (refused e bk')
    then have "end_state = bk'" by (simp add: end_state_def revert_confirmation_def)
    then show ?thesis
      using refused assms(1) st tickets_cong [of bk' bk] store_good_cong [of bk' bk] by simp
  next
    case forbidden
    then have "cn_confirmation (fst ?p) = None" "cn_server (fst ?p) = bk" by (simp_all add: connection_init_def)
    moreover from this have "end_state = bk"
      by (simp add: end_state_def revert_confirmation_def split: sum.split)
    ultimately show ?thesis using assms(1) st by simp
  next
    case (checked r operation rq s cn0)
    have base: "store_good (be_libs env) (cn_server cn0)" "tickets (be_libs env) (cn_server cn0) = tickets (be_libs env) bk"
      using assms(1) checked(8) by simp_all
    show ?thesis
    proof (cases rule: checked_operation_cases [of env r operation "rq_pubkey rq" cn0])
      case ref: (refused e bk' conf)
      have tried: "?p = (cn0\<lparr>cn_server := bk', cn_confirmation := conf\<rparr>, Inl e)" using checked(7) ref(1) by simp
      have e: "end_state = revert_confirmation conf bk'" by (simp add: end_state_def tried)
      let ?bk1 = "fst (check_operation_policy env (br_arguments r) (bo_name operation) (rq_pubkey rq) (cn_server cn0))"
      have b: "tickets (be_libs env) bk' = tickets (be_libs env) ?bk1" "store_good (be_libs env) bk' = store_good (be_libs env) ?bk1"
        using tickets_cong [OF ref(4)] store_good_cong [OF ref(4)] by auto
      from base(1) show ?thesis
      proof (cases rule: policy_cases [where arguments = "br_arguments r" and name = "bo_name operation" and pk = "rq_pubkey rq"])
        case unconfirmed
        then have "conf = None" "store_good (be_libs env) bk'" "tickets (be_libs env) bk' = tickets (be_libs env) bk" using ref(5) b base by simp_all
        then show ?thesis using st by (simp add: e tried revert_confirmation_def)
      next
        case (claimed pn rule cid t)
        then have c: "conf = Some cid" "store_good (be_libs env) bk'" "tickets (be_libs env) bk' = (tickets (be_libs env) bk)(cid \<mapsto> (t, True))"
          "tickets (be_libs env) bk cid = Some (t, False)" using ref(5) b base by simp_all
        have "(tickets (be_libs env) bk)(cid \<mapsto> (t, False)) = tickets (be_libs env) bk" using c(4) by auto
        then have "tickets (be_libs env) end_state = tickets (be_libs env) bk" "store_good (be_libs env) end_state"
          using revert_result [OF c(2), of conf] by (simp_all add: e c)
        moreover have "be_now env < tk_expires_at t"
          using claimed(6,7) by (auto simp: presents_def)
        ultimately show ?thesis
          using st checked(10) c(1,4) by (simp add: tried)
      next
        case (refused e')
        then have "conf = None" using ref(5) checked(9) by simp
        then show ?thesis using st refused(2,3) b base by (simp add: e tried revert_confirmation_def)
      qed
    next
      case clr: (cleared bk' conf)
      let ?cn = "cn0\<lparr>cn_confirmation := conf, cn_server := bk', cn_decision := ''allowed''\<rparr>"
      let ?bk1 = "fst (check_operation_policy env (br_arguments r) (bo_name operation) (rq_pubkey rq) (cn_server cn0))"
      have tried: "?p = run_operation env r operation conf ?cn" using checked(7) clr(2) by simp
      have b: "tickets (be_libs env) bk' = tickets (be_libs env) ?bk1" "store_good (be_libs env) bk' = store_good (be_libs env) ?bk1"
        using tickets_cong [OF clr(5)] store_good_cong [OF clr(5)] by auto
      have ok: "snd (check_operation_policy env (br_arguments r) (bo_name operation) (rq_pubkey rq) (cn_server cn0)) = Inr conf"
        using clr(1) by (simp add: cleared_def)
      from base(1) have "store_good (be_libs env) bk' \<and> (conf = None \<and> tickets (be_libs env) bk' = tickets (be_libs env) bk \<or>
          (\<exists>cid t. conf = Some cid \<and> tickets (be_libs env) bk cid = Some (t, False) \<and> be_now env < tk_expires_at t \<and>
             tickets (be_libs env) bk' = (tickets (be_libs env) bk)(cid \<mapsto> (t, True))))"
      proof (cases rule: policy_cases [where arguments = "br_arguments r" and name = "bo_name operation" and pk = "rq_pubkey rq"])
        case unconfirmed
        then show ?thesis using ok b base by simp
      next
        case (claimed pn rule cid t)
        then show ?thesis using ok b base by (auto simp: presents_def)
      next
        case (refused e')
        then show ?thesis using ok by simp
      qed
      then have pre: "store_good (be_libs env) (cn_server ?cn)"
          "conf = None \<or> (\<exists>cid t. conf = Some cid \<and> tickets (be_libs env) (cn_server ?cn) cid = Some t)"
          "cn_result ?cn = ''error''"
        and conf: "conf = None \<and> tickets (be_libs env) bk' = tickets (be_libs env) bk \<or>
          (\<exists>cid t. conf = Some cid \<and> tickets (be_libs env) bk cid = Some (t, False) \<and> be_now env < tk_expires_at t \<and>
             tickets (be_libs env) bk' = (tickets (be_libs env) bk)(cid \<mapsto> (t, True)))"
        using checked(10) by auto
      from pre show ?thesis
      proof (cases rule: run_operation_tickets [where r = r and operation = operation])
        case (failed e)
        then have es: "end_state = revert_confirmation conf (cn_server (fst ?p))"
          by (simp add: end_state_def tried)
        have "store_good (be_libs env) (cn_server (fst ?p))" "tickets (be_libs env) (cn_server (fst ?p)) = tickets (be_libs env) bk'"
          using failed by (simp_all add: tried)
        note given_back = revert_result [OF this(1), of conf] this
        from conf show ?thesis
        proof
          assume "conf = None \<and> tickets (be_libs env) bk' = tickets (be_libs env) bk"
          then show ?thesis using given_back st by (simp add: es tried)
        next
          assume "\<exists>cid t. conf = Some cid \<and> tickets (be_libs env) bk cid = Some (t, False) \<and> be_now env < tk_expires_at t \<and>
             tickets (be_libs env) bk' = (tickets (be_libs env) bk)(cid \<mapsto> (t, True))"
          then obtain cid t where c: "conf = Some cid" "tickets (be_libs env) bk cid = Some (t, False)" "be_now env < tk_expires_at t"
            "tickets (be_libs env) bk' = (tickets (be_libs env) bk)(cid \<mapsto> (t, True))" by blast
          have "(tickets (be_libs env) bk)(cid \<mapsto> (t, False)) = tickets (be_libs env) bk" using c(2) by auto
          then show ?thesis using given_back st failed(2) c by (simp add: es tried)
        qed
      next
        case succeeded
        then have "end_state = cn_server (fst ?p) \<or> end_state = revert_confirmation conf (cn_server (fst ?p))"
          by (auto simp: end_state_def tried split: sum.split)
        moreover have fin: "store_good (be_libs env) (cn_server (fst ?p))"
          "tickets (be_libs env) (cn_server (fst ?p)) = (case conf of None \<Rightarrow> tickets (be_libs env) bk' | Some cid \<Rightarrow> (tickets (be_libs env) bk')(cid := None))"
          using succeeded by (cases conf; simp add: tried)+
        ultimately have "store_good (be_libs env) end_state \<and> tickets (be_libs env) end_state = tickets (be_libs env) (cn_server (fst ?p))"
          using revert_result [OF fin(1), of conf] by (auto split: option.splits)
        then show ?thesis using conf fin(2) st succeeded(1) by (auto simp: tried)
      qed
    qed
  qed
qed

subsection \<open>Properties\<close>

lemma handle_calls_eq:
  assumes "handle_connection env uid bytes bk = (cn, out)"
  shows "bk_calls (cn_server cn) = bk_calls (cn_server (fst (handle_try env uid bytes (connection_init bk)))) \<and>
    cn_decision cn = cn_decision (fst (handle_try env uid bytes (connection_init bk))) \<and>
    cn_caller cn = cn_caller (fst (handle_try env uid bytes (connection_init bk)))"
proof -
  let ?p = "handle_try env uid bytes (connection_init bk)"
  have cn: "cn = audit_connection env (case snd ?p of Inl e \<Rightarrow> fst (handle_error env e (fst ?p)) | Inr _ \<Rightarrow> fst ?p)"
    using assms handle_connection_alt [of env uid bytes bk] by (simp add: Let_def)
  show ?thesis unfolding cn by (auto split: sum.split)
qed

lemma gate_passed:
  assumes "store_good (be_libs env) bk" and "handle_connection env uid bytes bk = (cn, out)"
    and "bk_calls (cn_server cn) \<noteq> bk_calls bk"
  shows "\<exists>r operation rq s c. uid = bk_allowed_uid bk \<and> receive_request (be_libs env) bytes = Inr r \<and>
    map_of OPERATIONS (br_operation r) = Some operation \<and> authentic env r bk rq \<and>
    required_scope operation = Inr s \<and> has_scope rq s \<and>
    policy_satisfied env bk r (rq_pubkey rq) \<and> session_satisfied env bk r (rq_pubkey rq) \<and>
    bo_invoke operation (br_arguments r) = Inr c \<and> bk_calls (cn_server cn) = bk_calls bk @ [c] \<and>
    cn_decision cn = ''allowed'' \<and> cn_caller cn = rq_pubkey rq"
proof (cases rule: handle_try_cases [of env uid bytes bk])
  case (checked r operation rq s cn0)
  note name = registry_entry(1) [OF checked(3)]
  show ?thesis
  proof (cases rule: checked_operation_cases [of env r operation "rq_pubkey rq" cn0])
    case refused
    then show ?thesis using assms(3) handle_calls_eq [OF assms(2)] checked(7,8) by simp
  next
    case clr: (cleared bk' conf)
    have "bk_calls (cn_server cn) = bk_calls bk @ (case bo_invoke operation (br_arguments r) of Inl e \<Rightarrow> [] | Inr c \<Rightarrow> [c])"
      "cn_decision cn = ''allowed''" "cn_caller cn = rq_pubkey rq"
      using handle_calls_eq [OF assms(2)] checked(7,8,12) clr(2,3) run_operation_calls by simp_all
    moreover from this obtain c where "bo_invoke operation (br_arguments r) = Inr c"
      using assms(3) by (cases "bo_invoke operation (br_arguments r)") auto
    moreover have "session_satisfied env bk r (rq_pubkey rq)"
      using cleared_session [OF clr(1)] checked(8) by (simp add: session_satisfied_def)
    moreover have "store_good (be_libs env) (cn_server cn0)" using assms(1) checked(8) by simp
    then have "policy_satisfied env bk r (rq_pubkey rq)"
    proof (cases rule: policy_cases [where arguments = "br_arguments r" and name = "bo_name operation" and pk = "rq_pubkey rq"])
      case unconfirmed
      then show ?thesis using checked(8) name by (simp add: policy_satisfied_def)
    next
      case claimed
      then show ?thesis using checked(8) name by (auto simp: policy_satisfied_def)
    next
      case refused
      then show ?thesis using clr(1) by (simp add: cleared_def)
    qed
    ultimately show ?thesis
      using checked authorize_authentic [OF checked(4)] by auto
  qed
qed (use assms(3) handle_calls_eq [OF assms(2)] in \<open>simp_all add: connection_init_def\<close>)

text \<open>
  C1: the privileged gate. If a connection makes the helper call the adapter, then it makes exactly
  one call, the peer is the configured user, the line decodes to a request for a registered operation,
  the original request authenticates for its author by itself (a fresh, valid event for its URL, its
  method and its body, and an identity the helper's own configuration admits), the identity has the
  operation's scope, the hard checks of the policy hold now, a required confirmation is a live,
  unclaimed ticket of this caller for this policy key with the hash of these bound arguments, approved
  by the owner where the rule asks for it, a package test has a session of this caller, and the call
  is the one the operation makes of the arguments. The audit entry names the caller as allowed.
\<close>

theorem broker_gate:
  assumes "store_good (be_libs env) bk" and "handle_connection env uid bytes bk = (cn, out)"
    and "bk_calls (cn_server cn) \<noteq> bk_calls bk"
  shows "\<exists>r operation rq s c. uid = bk_allowed_uid bk \<and> receive_request (be_libs env) bytes = Inr r \<and>
    map_of OPERATIONS (br_operation r) = Some operation \<and> authentic env r bk rq \<and>
    required_scope operation = Inr s \<and> has_scope rq s \<and>
    policy_satisfied env bk r (rq_pubkey rq) \<and> session_satisfied env bk r (rq_pubkey rq) \<and>
    bo_invoke operation (br_arguments r) = Inr c \<and> bk_calls (cn_server cn) = bk_calls bk @ [c] \<and>
    cn_decision cn = ''allowed'' \<and> cn_caller cn = rq_pubkey rq"
  using assms by (rule gate_passed)

text \<open>
  C3: where tickets end. A connection claims at most one ticket, a live one that nobody held. If the
  operation succeeds the ticket is gone; if anything fails after the claim - the package session, the
  argument check, the adapter - every ticket is exactly as it was before the connection. A connection
  that claims none changes at most one ticket, by deleting it (expired, or presented for the wrong
  request).
\<close>

theorem broker_ticket_accounting:
  assumes "store_good (be_libs env) bk" "handle_connection env uid bytes bk = (cn, out)"
  shows "case cn_confirmation cn of
       None \<Rightarrow> (\<exists>cid. tickets (be_libs env) (cn_server cn) \<in> {tickets (be_libs env) bk, (tickets (be_libs env) bk)(cid := None)})
     | Some cid \<Rightarrow> (\<exists>t. tickets (be_libs env) bk cid = Some (t, False) \<and> be_now env < tk_expires_at t) \<and>
         tickets (be_libs env) (cn_server cn) =
           (if cn_result cn = ''success'' then (tickets (be_libs env) bk)(cid := None) else tickets (be_libs env) bk)"
  using handle_tickets [OF assms] by blast

subsection \<open>Runs\<close>

text \<open>The helper serves connections while the frontend works on the same store.\<close>

datatype broker_event =
    Connection broker_env int string
  | Frontend store_call

definition frontend_step :: "libs \<Rightarrow> store_call \<Rightarrow> broker \<Rightarrow> broker" where
  "frontend_step L c bk = bk\<lparr>bk_confirmations := map_option (\<lambda>st. fst (call_store (sql_api L) c st)) (bk_confirmations bk)\<rparr>"

definition spent :: "connection \<Rightarrow> string list" where
  "spent cn = (case cn_confirmation cn of
      Some cid \<Rightarrow> if cn_result cn = ''success'' then [cid] else []
    | None \<Rightarrow> [])"

fun spent_run :: "libs \<Rightarrow> broker_event list \<Rightarrow> broker \<Rightarrow> string list" where
  "spent_run L [] bk = []"
| "spent_run L (Connection env uid bytes # es) bk =
     (let cn = fst (handle_connection env uid bytes bk) in spent cn @ spent_run L es (cn_server cn))"
| "spent_run L (Frontend c # es) bk = spent_run L es (frontend_step L c bk)"

fun created :: "broker_event list \<Rightarrow> string list" where
  "created [] = []"
| "created (Frontend (Create now cid pubkey tool args plan owner) # es) = cid # created es"
| "created (e # es) = created es"

fun event_ok :: "libs \<Rightarrow> broker_event \<Rightarrow> bool" where
  "event_ok L (Connection env uid bytes) = (be_libs env = L)"
| "event_ok L (Frontend (Create now cid pubkey tool args plan owner)) =
     (json_loads L (json_text (float_text L) default_format plan) = Inr plan)"
| "event_ok L (Frontend c) = True"

lemma spec_call_dom:
  "fst (call_store (spec_api L ttl owner_ttl) c a) cid \<noteq> None \<Longrightarrow>
     a cid \<noteq> None \<or> (\<exists>now pubkey tool args plan owner. c = Create now cid pubkey tool args plan owner)"
  by (cases c) (auto simp: spec_defs spec_create_def Let_def split: option.splits if_splits sum.splits)

lemma frontend_tickets:
  assumes "store_good L bk" "event_ok L (Frontend c)"
    "\<forall>now cid pubkey tool args plan owner. c = Create now cid pubkey tool args plan owner \<longrightarrow> tickets L bk cid = None"
  shows "store_good L (frontend_step L c bk)"
    "tickets L (frontend_step L c bk) cid \<noteq> None \<Longrightarrow> tickets L bk cid \<noteq> None \<or> cid \<in> set (created [Frontend c])"
proof -
  have "store_good L (frontend_step L c bk) \<and>
    (tickets L (frontend_step L c bk) cid \<noteq> None \<longrightarrow> tickets L bk cid \<noteq> None \<or> cid \<in> set (created [Frontend c]))"
  proof (cases "bk_confirmations bk")
    case None
    then show ?thesis using assms(1) by (simp add: frontend_step_def store_good_def tickets_def)
  next
    case (Some st)
    then obtain ttl owner_ttl where good: "sql_good L ttl owner_ttl st" using assms(1) by (auto simp: store_good_def)
    have "fresh_call (sql_fresh L) c st"
      using assms(2,3) sql_row_iff [OF good] by (cases c) (auto simp: sql_fresh_def tickets_def Some)
    from sql.call_refines [OF good this] have
      ref: "sql_good L ttl owner_ttl (fst (call_store (sql_api L) c st))"
        "sql_view L (fst (call_store (sql_api L) c st)) = fst (call_store (spec_api L ttl owner_ttl) c (sql_view L st))"
      by (auto simp: refines_def)
    then show ?thesis
      using spec_call_dom [of L ttl owner_ttl c "sql_view L st" cid]
      by (auto simp: frontend_step_def Some store_good_def tickets_def)
  qed
  then show "store_good L (frontend_step L c bk)"
    "tickets L (frontend_step L c bk) cid \<noteq> None \<Longrightarrow> tickets L bk cid \<noteq> None \<or> cid \<in> set (created [Frontend c])" by blast+
qed

lemma created_Cons: "created (e # es) = created [e] @ created es"
proof (cases e)
  case (Frontend c)
  then show ?thesis by (cases c) auto
qed simp

lemma spent_once:
  assumes "store_good L bk" "\<forall>e \<in> set es. event_ok L e" "distinct (created es)"
    "\<forall>cid \<in> set (created es). tickets L bk cid = None \<and> cid \<notin> S" "\<forall>cid \<in> S. tickets L bk cid = None"
  shows "distinct (spent_run L es bk) \<and> set (spent_run L es bk) \<inter> S = {}"
  using assms
proof (induction es arbitrary: bk S)
  case (Cons e es)
  have created: "set (created es) \<subseteq> set (created (e # es))" "distinct (created es)"
    using Cons.prems(3) created_Cons [of e es] by auto
  show ?case
  proof (cases e)
    case (Connection env uid bytes)
    obtain cn out where cn: "handle_connection env uid bytes bk = (cn, out)" by (cases "handle_connection env uid bytes bk")
    have L: "be_libs env = L" using Cons.prems(2) Connection by simp
    note acc = handle_tickets [OF Cons.prems(1) [folded L] cn, unfolded L]
    have dom: "tickets L bk cid = None \<Longrightarrow> tickets L (cn_server cn) cid = None" for cid
      using acc by (auto split: option.splits if_splits)
    let ?S = "S \<union> set (spent cn)"
    have spent: "spent cn = [] \<or> (\<exists>cid t. spent cn = [cid] \<and> tickets L bk cid = Some (t, False) \<and> tickets L (cn_server cn) cid = None)"
      using acc by (auto simp: spent_def split: option.splits)
    have "distinct (spent_run L es (cn_server cn)) \<and> set (spent_run L es (cn_server cn)) \<inter> ?S = {}"
    proof (rule Cons.IH)
      show "store_good L (cn_server cn)" using acc by blast
      show "\<forall>cid \<in> set (created es). tickets L (cn_server cn) cid = None \<and> cid \<notin> ?S"
        using Cons.prems(4) created(1) dom spent by fastforce
      show "\<forall>cid \<in> ?S. tickets L (cn_server cn) cid = None"
        using Cons.prems(5) dom spent by auto
    qed (use Cons.prems(2) created(2) in simp_all)
    moreover have "distinct (spent cn) \<and> set (spent cn) \<inter> S = {}"
      using spent Cons.prems(5) by auto
    ultimately show ?thesis by (auto simp: Connection cn Let_def)
  next
    case (Frontend c)
    have ok: "event_ok L (Frontend c)" using Cons.prems(2) Frontend by simp
    have fresh: "\<forall>now cid pubkey tool args plan owner. c = Create now cid pubkey tool args plan owner \<longrightarrow> tickets L bk cid = None"
      using Cons.prems(4) by (auto simp: Frontend)
    note ft = frontend_tickets [OF Cons.prems(1) ok fresh]
    have gone: "tickets L (frontend_step L c bk) cid = None"
      if "tickets L bk cid = None" "cid \<notin> set (created [Frontend c])" for cid
      using ft(2) [of cid] that by blast
    have sep: "set (created [Frontend c]) \<inter> set (created es) = {}" "set (created [Frontend c]) \<inter> S = {}"
      using Cons.prems(3,4) created_Cons [of e es] by (auto simp: Frontend)
    have "distinct (spent_run L es (frontend_step L c bk)) \<and> set (spent_run L es (frontend_step L c bk)) \<inter> S = {}"
    proof (rule Cons.IH [OF ft(1)])
      show "\<forall>cid \<in> set (created es). tickets L (frontend_step L c bk) cid = None \<and> cid \<notin> S"
        using Cons.prems(4) created(1) gone sep(1) by blast
      show "\<forall>cid \<in> S. tickets L (frontend_step L c bk) cid = None"
        using Cons.prems(5) gone sep(2) by blast
    qed (use Cons.prems(2) created(2) in simp_all)
    then show ?thesis by (simp add: Frontend)
  qed
qed simp

text \<open>
  C2: one confirmation, one privileged success. Over any sequence of connections to the helper,
  interleaved with any calls of the frontend on the shared store - new tickets, approvals, peeks, even
  finalizing and reverting - no confirmation id is spent by two successful operations, as long as
  ids are not drawn twice.
\<close>

theorem confirmation_spent_once:
  assumes "store_good L bk" and "\<forall>e \<in> set es. event_ok L e"
    and "distinct (created es)" and "\<forall>cid \<in> set (created es). tickets L bk cid = None"
  shows "distinct (spent_run L es bk)"
  using spent_once [OF assms(1-3), of "{}"] assms(4) by simp

subsection \<open>An example\<close>

text \<open>A confirmed reboot: the caller has the scope, the ticket is for this caller and this policy key.\<close>

definition reboot_request :: broker_request where
  "reboot_request = \<lparr>br_request_id = ''r1'', br_operation = ''system.reboot'',
     br_arguments = [(''confirmation_id'', JStr ''c1'')], br_authorization = Some ''nostr e'',
     br_method = Some ''POST'', br_url = Some ''https://h/mcp'', br_body_sha256 = None,
     br_body_b64 = Some ''body'', br_delegation = None\<rparr>"

definition broker_libs :: libs where
  "broker_libs = example_http_libs\<lparr>json_loads_bytes := (\<lambda>s. if s = ''line'' then Inr (JObj (request_to_dict reboot_request)) else Inr JNull)\<rparr>"

definition reboot_operator :: identity_record where
  "reboot_operator = example_author\<lparr>id_scopes := {SYSTEM_POWER}\<rparr>"

definition reboot_rule :: policy_rule where
  "reboot_rule = default_rule\<lparr>require_confirmation := True\<rparr>"

definition reboot_ticket :: ticket where
  "reboot_ticket = make_ticket broker_libs 900 300 ''c1'' (replicate 64 CHR ''a'') ''system.power'' [] JNull"

definition reboot_env :: broker_env where
  "reboot_env = \<lparr>be_libs = broker_libs, be_fmt = (\<lambda>_. []), be_lookup = (\<lambda>_. Inr (Some reboot_operator)),
     be_revocation_file = TomlMissing, be_now = 1000, be_tick = 0, be_audit_id = ''m1'',
     be_free_space = Inr 1000000, be_backup_times = Inr [], be_adapter = (\<lambda>_. Inr (JObj [])),
     be_sendall = (\<lambda>_. Inr ()), be_redact_text = id, be_type_name = (\<lambda>_. ''Exception'')\<rparr>"

definition reboot_broker :: broker where
  "reboot_broker = \<lparr>bk_allowed_uid = 990, bk_replay_cache = replay_init 300, bk_server_pubkey = ''server'',
     bk_revocations = StaticRevocations {},
     bk_confirmations = Some (sql_init 300 (Some 900) [(''c1'', sql_row_of broker_libs reboot_ticket)]),
     bk_sessions = \<lparr>ss_ttl_seconds = 1800, ss_sessions = []\<rparr>, bk_policy = [(''system.power'', reboot_rule)],
     bk_audit = None, bk_calls = []\<rparr>"

lemma broker_libs_simps [simp]:
  "sha256_hex broker_libs s = replicate 64 CHR ''a''" "sha256_bytes broker_libs s = s" "b64decode broker_libs s = Inr s"
  "json_loads broker_libs s = Inr JNull" "verify_signature broker_libs e = Inr True"
  "pydantic_event broker_libs v = Inr example_http_event"
  "json_loads_bytes broker_libs s = (if s = ''line'' then Inr (JObj (request_to_dict reboot_request)) else Inr JNull)"
  by (simp_all add: broker_libs_def example_http_libs_def)

lemma reboot_env_simps [simp]:
  "be_libs reboot_env = broker_libs" "be_lookup reboot_env = (\<lambda>_. Inr (Some reboot_operator))" "be_now reboot_env = 1000"
  "be_tick reboot_env = 0" "be_free_space reboot_env = Inr 1000000" "be_backup_times reboot_env = Inr []"
  "be_adapter reboot_env = (\<lambda>_. Inr (JObj []))" "be_sendall reboot_env = (\<lambda>_. Inr ())"
  by (simp_all add: reboot_env_def)

lemma reboot_received: "receive_request broker_libs (''line'' @ [line_feed]) = Inr reboot_request"
proof -
  have "request_from_dict (JObj (request_to_dict reboot_request)) = Inr reboot_request"
    by (rule to_from_dict) (simp_all add: reboot_request_def)
  moreover have nc: "no_control ''line''" by (simp add: code_def)
  moreover have "readline 1048577 (''line'' @ [line_feed]) = ''line'' @ [line_feed]"
    using readline_framed [OF nc, of 1048577 "[]"] by simp
  ultimately show ?thesis
    using rstrip_framed [OF nc] by (simp add: receive_request_def decode_request_def MAX_MESSAGE_BYTES_def)
qed

lemma reboot_verified:
  "verify_nip98_request broker_libs (Some ''nostr e'') ''POST'' ''https://h/mcp'' ''body'' 60 1000 0 (replay_init 300) =
     ((replay_init 300)\<lparr>rc_seen := [(replicate 64 CHR ''a'', 300)]\<rparr>,
      Inr \<lparr>ni_pubkey = replicate 64 CHR ''a'', ni_event_id = replicate 64 CHR ''a'', ni_created_at = 1000\<rparr>)"
proof -
  have "parse_authorization example_http_libs (Some ''nostr e'') = parse_authorization broker_libs (Some ''nostr e'')"
    by (simp add: parse_authorization_def str_partition_def model_validate_def example_http_libs_simps)
  then have "parse_authorization broker_libs (Some ''nostr e'') = Inr example_http_event"
    using example_http_parses by simp
  moreover have "check_event broker_libs example_http_event ''POST'' ''https://h/mcp'' ''body'' 60 1000 = Inr ()"
    unfolding check_event_Inr by (simp add: example_http_event_def event_tag_def compute_event_id_def)
  moreover have "check_and_record 0 (replicate 64 CHR ''a'') (replay_init 300) =
      ((replay_init 300)\<lparr>rc_seen := [(replicate 64 CHR ''a'', 300)]\<rparr>, Inr ())"
    by (simp add: check_and_record_def replay_prune_def replay_init_def)
  ultimately show ?thesis
    by (simp add: verify_nip98_request_def) (simp add: example_http_event_def)
qed

definition reboot_caller :: authenticated_request where
  "reboot_caller = \<lparr>rq_pubkey = replicate 64 CHR ''a'', rq_event_id = replicate 64 CHR ''a'', rq_event_created_at = 1000,
     rq_identity = Some reboot_operator, rq_authorization = None, rq_method = None, rq_url = None, rq_body = [],
     rq_delegation = None\<rparr>"

lemma reboot_authorized: "snd (authorize_request reboot_env reboot_request reboot_broker) = Inr reboot_caller"
proof -
  have "resolve_identity broker_libs fmt (\<lambda>_. Inr (Some reboot_operator)) revoked now mw pubkey headers = Inr (Some reboot_operator)"
    for fmt revoked now mw pubkey headers
    by (simp add: resolve_identity_def is_expired_def reboot_operator_def example_author_def)
  moreover have "py_trunc 1000 = 1000" by (simp add: py_trunc_def)
  moreover have "bk_replay_cache reboot_broker = replay_init 300" by (simp add: reboot_broker_def)
  ultimately show ?thesis
    by (simp add: authorize_request_def reboot_request_def decode_original_body_def reboot_verified
        DEFAULT_CLOCK_SKEW_SECONDS_def reboot_caller_def)
qed

lemma reboot_good: "store_good broker_libs reboot_broker"
  by (simp add: store_good_def reboot_broker_def sql_good_def sql_init_def)

lemma reboot_tickets: "tickets broker_libs reboot_broker = [''c1'' \<mapsto> (reboot_ticket, False)]"
proof
  fix cid
  show "tickets broker_libs reboot_broker cid = [''c1'' \<mapsto> (reboot_ticket, False)] cid"
    by (simp add: tickets_def reboot_broker_def sql_view_def sql_init_def row_view_def sql_row_of_def reboot_ticket_def make_ticket_def)
qed

lemma OPERATIONS_reboot:
  "map_of OPERATIONS ''system.reboot'' = Some \<lparr>bo_name = ''system.reboot'', bo_required_scope = ''system.power'',
     bo_invoke = confirmation_only ''system_reboot''\<rparr>"
  by (simp add: OPERATIONS_def op_entry_def)

lemma reboot_call:
  "confirmation_only ''system_reboot'' (br_arguments reboot_request) =
     Inr (call_of ''system_reboot'' [] [(''confirmation_id'', JStr ''c1'')])"
  by (simp add: confirmation_only_def reboot_request_def dkeys_def confirmation_id_ok_def may_str_def require_str_def)

lemma reboot_policy:
  assumes "bk_policy bk = [(''system.power'', reboot_rule)]" "bk_confirmations bk = bk_confirmations reboot_broker"
  shows "snd (check_operation_policy reboot_env (br_arguments reboot_request) ''system.reboot'' (replicate 64 CHR ''a'') bk) = Inr (Some ''c1'')"
proof -
  have "hard_checks reboot_env ''system.reboot'' reboot_rule = Inr ()"
    by (simp add: hard_checks_def check_free_space_def check_recent_backup_def reboot_rule_def default_rule_def)
  moreover have "policy_name_for_operation ''system.reboot'' (br_arguments reboot_request) = Some ''system.power''"
    by (simp add: policy_name_for_operation_def POLICY_NAME_BY_OPERATION_def)
  moreover have "map_of CONFIRMATION_ARGUMENT_KEYS ''system.reboot'' = Some []"
    by (simp add: CONFIRMATION_ARGUMENT_KEYS_def)
  moreover have "\<exists>st. sql_consume broker_libs 1000 ''c1'' (replicate 64 CHR ''a'') ''system.power'' [] False True
      (sql_init 300 (Some 900) [(''c1'', sql_row_of broker_libs reboot_ticket)]) = (st, Inr reboot_ticket)"
    by (simp add: sql_consume_def sql_get_def sql_init_def sql_row_of_def sql_live_def sql_is_consumed_def
        reboot_ticket_def make_ticket_def)
  moreover have "br_arguments reboot_request = [(''confirmation_id'', JStr ''c1'')]" by (simp add: reboot_request_def)
  moreover have "require_confirmation reboot_rule" "\<not> require_owner_signature reboot_rule"
    by (simp_all add: reboot_rule_def default_rule_def)
  moreover have "bk_confirmations reboot_broker = Some (sql_init 300 (Some 900) [(''c1'', sql_row_of broker_libs reboot_ticket)])"
    "store_is_false (Some (sql_init 300 (Some 900) [(''c1'', sql_row_of broker_libs reboot_ticket)])) = False"
    by (simp_all add: reboot_broker_def store_is_false_def sql_init_def)
  ultimately show ?thesis
    using assms by (auto simp: check_operation_policy_def bound_arguments_def)
qed

lemma reboot_runs:
  "\<exists>cn. fst (handle_connection reboot_env 990 (''line'' @ [line_feed]) reboot_broker) = cn \<and>
     bk_calls (cn_server cn) = [call_of ''system_reboot'' [] [(''confirmation_id'', JStr ''c1'')]] \<and>
     cn_confirmation cn = Some ''c1'' \<and> cn_result cn = ''success''"
proof -
  let ?op = "\<lparr>bo_name = ''system.reboot'', bo_required_scope = ''system.power'', bo_invoke = confirmation_only ''system_reboot''\<rparr>"
  let ?bk = "fst (authorize_request reboot_env reboot_request reboot_broker)"
  define cn0 where "cn0 = (connection_init reboot_broker)\<lparr>cn_request_id := br_request_id reboot_request,
     cn_operation := br_operation reboot_request, cn_arguments := br_arguments reboot_request\<rparr>"
  have scope: "required_scope ?op = Inr SYSTEM_POWER" "has_scope reboot_caller SYSTEM_POWER"
    using scope_of_value_Some [of "''system.power''" SYSTEM_POWER]
    by (simp_all add: required_scope_def has_scope_def request_scopes_def reboot_caller_def reboot_operator_def)
  have "br_operation reboot_request = ''system.reboot''" by (simp add: reboot_request_def)
  then have tried: "handle_try reboot_env 990 (''line'' @ [line_feed]) (connection_init reboot_broker) =
      checked_operation reboot_env reboot_request ?op (replicate 64 CHR ''a'')
        (cn0\<lparr>cn_server := ?bk, cn_caller := replicate 64 CHR ''a''\<rparr>)"
    using reboot_received scope OPERATIONS_reboot reboot_authorized
    by (simp add: handle_try_def raising_def connection_init_def Let_def cn0_def execute_request_def on_server_alt
        guard_def reboot_caller_def) (simp add: reboot_broker_def)
  have pol: "snd (check_operation_policy reboot_env (br_arguments reboot_request) ''system.reboot'' (replicate 64 CHR ''a'') ?bk) = Inr (Some ''c1'')"
    by (rule reboot_policy) (simp_all add: reboot_broker_def)
  have "\<not> starts_with ''system.reboot'' ''package.''" by (simp add: starts_with_def)
  then have ses: "snd (check_package_test_session reboot_env reboot_request pk bk) = Inr ()" for pk bk
    by (simp add: check_package_test_session_def reboot_request_def)
  let ?bk1 = "fst (check_operation_policy reboot_env (br_arguments reboot_request) ''system.reboot'' (replicate 64 CHR ''a'') ?bk)"
  let ?bk2 = "fst (check_package_test_session reboot_env reboot_request (replicate 64 CHR ''a'') ?bk1)"
  let ?cn2 = "cn0\<lparr>cn_caller := replicate 64 CHR ''a'', cn_confirmation := Some ''c1'', cn_server := ?bk2, cn_decision := ''allowed''\<rparr>"
  have try2: "handle_try reboot_env 990 (''line'' @ [line_feed]) (connection_init reboot_broker) =
      run_operation reboot_env reboot_request ?op (Some ''c1'') ?cn2"
    using pol ses unfolding tried by (simp add: checked_operation_def on_server_alt)
  have good: "store_good broker_libs ?bk" "tickets broker_libs ?bk = [''c1'' \<mapsto> (reboot_ticket, False)]"
    using reboot_good reboot_tickets by simp_all
  have "store_good broker_libs ?bk1 \<and> tickets broker_libs ?bk1 ''c1'' = Some (reboot_ticket, True)"
    using policy_cases [of reboot_env ?bk "br_arguments reboot_request" "''system.reboot''" "replicate 64 CHR ''a''"
        "store_good broker_libs ?bk1 \<and> tickets broker_libs ?bk1 ''c1'' = Some (reboot_ticket, True)"] good pol
    by (auto split: if_splits)
  then have pre: "store_good broker_libs ?bk2" "tickets broker_libs ?bk2 ''c1'' = Some (reboot_ticket, True)"
    using store_good_cong [OF session_keeps(1)] tickets_cong [OF session_keeps(1)] by metis+
  have inv: "snd (invoke reboot_env ?op (br_arguments reboot_request) ?bk2) = Inr (JObj [])"
    using reboot_call by (simp add: invoke_def adapter_result_def)
  let ?bk3 = "fst (invoke reboot_env ?op (br_arguments reboot_request) ?bk2)"
  have "store_good broker_libs ?bk3" "tickets broker_libs ?bk3 ''c1'' = Some (reboot_ticket, True)"
    using pre store_good_cong [OF invoke_keeps(1)] tickets_cong [OF invoke_keeps(1)] by metis+
  then have fin: "snd (finalize (Some ''c1'') ?bk3) = Inr ()"
    by (intro finalize_result(1) [where env = reboot_env] disjI2 exI conjI) (simp_all only: reboot_env_simps)
  obtain res where res: "run_operation reboot_env reboot_request ?op (Some ''c1'') ?cn2 = res" by blast
  have facts: "cn_result (fst res) = ''success''" "cn_confirmation (fst res) = Some ''c1''"
    using inv fin unfolding res [symmetric] by (simp_all add: run_operation_def on_server_alt)
  have calls: "bk_calls (cn_server (fst res)) = [call_of ''system_reboot'' [] [(''confirmation_id'', JStr ''c1'')]]"
    using run_operation_calls [of reboot_env reboot_request ?op "Some ''c1''" ?cn2] reboot_call
    unfolding res by (simp add: reboot_broker_def)
  show ?thesis
    unfolding handle_connection_alt Let_def try2 res
    using facts calls by (auto split: sum.split)
qed

theorem broker_gate_witness:
  "\<exists>rq c. authentic reboot_env reboot_request reboot_broker rq \<and> policy_satisfied reboot_env reboot_broker reboot_request (rq_pubkey rq) \<and>
     bk_calls (cn_server (fst (handle_connection reboot_env 990 (''line'' @ [line_feed]) reboot_broker))) = [c]"
proof -
  obtain cn out where cn: "handle_connection reboot_env 990 (''line'' @ [line_feed]) reboot_broker = (cn, out)" by fastforce
  then have "bk_calls (cn_server cn) \<noteq> bk_calls reboot_broker" using reboot_runs by (simp add: reboot_broker_def)
  from broker_gate [OF _ cn this] reboot_good reboot_received cn show ?thesis
    by (auto simp: reboot_broker_def)
qed

theorem broker_ticket_accounting_witness:
  "tickets broker_libs (cn_server (fst (handle_connection reboot_env 990 (''line'' @ [line_feed]) reboot_broker))) = Map.empty"
proof -
  obtain cn out where cn: "handle_connection reboot_env 990 (''line'' @ [line_feed]) reboot_broker = (cn, out)" by fastforce
  then have "cn_confirmation cn = Some ''c1''" "cn_result cn = ''success''" using reboot_runs by simp_all
  with broker_ticket_accounting [OF _ cn] reboot_good cn show ?thesis by (simp add: reboot_tickets fun_eq_iff)
qed

theorem confirmation_spent_once_witness:
  "spent_run broker_libs [Connection reboot_env 990 (''line'' @ [line_feed]), Connection reboot_env 990 (''line'' @ [line_feed])]
     reboot_broker \<noteq> [''c1'', ''c1''] \<and>
   ''c1'' \<in> set (spent_run broker_libs [Connection reboot_env 990 (''line'' @ [line_feed]),
     Connection reboot_env 990 (''line'' @ [line_feed])] reboot_broker)"
proof -
  let ?es = "[Connection reboot_env 990 (''line'' @ [line_feed]), Connection reboot_env 990 (''line'' @ [line_feed])]"
  have "distinct (spent_run broker_libs ?es reboot_broker)"
    by (rule confirmation_spent_once) (simp_all add: reboot_good)
  moreover have "''c1'' \<in> set (spent_run broker_libs ?es reboot_broker)"
    using reboot_runs by (simp add: Let_def spent_def)
  ultimately show ?thesis by (metis distinct_length_2_or_more)
qed

end
