(* ===== verification/Enforcement.thy ===== *)
theory Enforcement
  imports Rules Confirmation Identity
begin

text \<open>
  \<open>policy/enforcement.py\<close>: the decorators a tool handler is wrapped in. \<open>require_scope\<close> lets a call
  through if the identity of the current request has the scope; \<open>require_confirmation\<close> is a gate
  that either runs the handler, or answers with a confirmation ticket, or raises; it works on any
  store with the contract's operations. \<open>translate_known_errors\<close> turns expected errors into
  \<open>ToolError\<close>. The hooks are reported by the calls they receive.
\<close>

subsection \<open>\<open>require_scope\<close>\<close>

definition scope_error :: "(json \<Rightarrow> string) \<Rightarrow> scope \<Rightarrow> authenticated_request \<Rightarrow> exn" where
  "scope_error fmt s rq =
     (let who = (case rq_identity rq of Some r \<Rightarrow> py_repr_value fmt (id_name r) | None \<Rightarrow> py_repr (rq_pubkey rq))
      in Exn ScopeError (who @ '' lacks required scope '' @ py_repr (scope_value s)))"

text \<open>The denial hook's calls, and the outcome; \<open>run\<close> is the wrapped handler.\<close>

definition require_scope ::
  "(json \<Rightarrow> string) \<Rightarrow> string \<Rightarrow> scope \<Rightarrow> authenticated_request option \<Rightarrow> (unit \<Rightarrow> exn + 'r) \<Rightarrow>
     (string \<times> scope) list \<times> (exn + 'r)" where
  "require_scope fmt fn_name s current run =
     (case require_current_request current of
        Inl e \<Rightarrow> ([], Inl e)
      | Inr rq \<Rightarrow> if \<not> has_scope rq s then ([(fn_name, s)], Inl (scope_error fmt s rq)) else ([], run ()))"

definition is_known_expected :: "exn \<Rightarrow> bool" where
  "is_known_expected e = (exn_cls e \<in>
     {ScopeError, PolicyViolation, ConfirmationError, OwnerConfigError, ToolInputError, YunohostUnavailableError, NoAppsToUpgradeError})"

definition translate_known_errors :: "exn + 'r \<Rightarrow> exn + 'r" where
  "translate_known_errors r = reraise is_known_expected (\<lambda>e. Exn ToolError (exn_msg e)) r"

subsection \<open>\<open>require_confirmation\<close>\<close>

text \<open>What the decorator is given besides the store: the key resolver, the policy, the hard checks,
  the plan builder, and whether the broker takes the execution.\<close>

record confirmation_gate =
  cg_policy_key :: "dict \<Rightarrow> exn + string"
  cg_policy :: policy
  cg_checks :: "(policy_rule \<Rightarrow> exn + unit) option"
  cg_plan_builder :: "(dict \<Rightarrow> exn + json) option"
  cg_defer_to_broker :: bool

text \<open>The answer: run the handler with these arguments (and remember the ticket for the audit
  entry), or return a confirmation response for a new ticket.\<close>

datatype gate_result = Run dict "ticket option" | Respond json ticket

definition confirmation_arg :: "dict \<Rightarrow> string" where
  "confirmation_arg kwargs = (case dget kwargs ''confirmation_id'' of JStr s \<Rightarrow> s | _ \<Rightarrow> [])"

definition confirmation_response :: "json \<Rightarrow> ticket \<Rightarrow> bool \<Rightarrow> json" where
  "confirmation_response plan t owner = JObj
     ([(''confirmation_required'', JBool True), (''operation_plan'', plan),
       (''confirmation_id'', JStr (tk_id t)), (''operation_hash'', JStr (tk_operation_hash t)),
       (''expires_at'', JFloat (tk_expires_at t)), (''owner_signature_required'', JBool owner)] @
      (if owner then [(''next_step'', JStr
         (''Owner co-signature required - do not wait for a human to report back. Poll approval_status('' @
          py_repr (tk_id t) @ '') periodically until it returns approved: true (or the ticket expires), '' @
          ''then retry this exact call with confirmation_id set.''))] else []))"

definition frontend_check ::
  "libs \<Rightarrow> policy_rule \<Rightarrow> string \<Rightarrow> string \<Rightarrow> dict \<Rightarrow> ticket \<Rightarrow> exn + ticket" where
  "frontend_check L rule pubkey key args t =
     (if tk_pubkey t \<noteq> pubkey \<or> tk_tool t \<noteq> key
      then Inl (confirmation_error ''confirmation does not match this request'')
      else if tk_arguments_hash t \<noteq> hash_arguments L args
      then Inl (confirmation_error ''confirmation does not match this request arguments'')
      else if require_owner_signature rule \<and> tk_owner_approved_by t = None
      then Inl (confirmation_error ''owner approval is required before execution'')
      else Inr t)"

text \<open>Present the ticket: peek and compare if the broker consumes it later, else consume it now.\<close>

definition present_ticket ::
  "libs \<Rightarrow> 'st store_api \<Rightarrow> real \<Rightarrow> confirmation_gate \<Rightarrow> policy_rule \<Rightarrow> string \<Rightarrow> string \<Rightarrow> string \<Rightarrow> dict \<Rightarrow>
     'st \<Rightarrow> 'st \<times> (exn + ticket)" where
  "present_ticket L api now g rule cid pubkey key args st =
     (if cid \<noteq> [] \<and> cg_defer_to_broker g
      then (case api_peek api now cid st of
              (st', Inl e) \<Rightarrow> (st', Inl e)
            | (st', Inr t) \<Rightarrow> (st', frontend_check L rule pubkey key args t))
      else api_consume api now cid pubkey key args (require_owner_signature rule) False st)"

definition issue_ticket ::
  "'st store_api \<Rightarrow> real \<Rightarrow> string \<Rightarrow> confirmation_gate \<Rightarrow> policy_rule \<Rightarrow> string \<Rightarrow> string \<Rightarrow> dict \<Rightarrow>
     'st \<Rightarrow> 'st \<times> (exn + gate_result)" where
  "issue_ticket api now new_id g rule pubkey key args st =
     (case (case cg_plan_builder g of
              Some build \<Rightarrow> build args
            | None \<Rightarrow> Inr (JObj [(''tool'', JStr key), (''arguments'', JObj args)])) of
        Inl e \<Rightarrow> (st, Inl e)
      | Inr plan \<Rightarrow>
          (case api_create api now new_id pubkey key args plan (require_owner_signature rule) st of
             (st', Inl e) \<Rightarrow> (st', Inl e)
           | (st', Inr t) \<Rightarrow> (st', Inr (Respond (confirmation_response plan t (require_owner_signature rule)) t))))"

definition require_confirmation_gate ::
  "libs \<Rightarrow> 'st store_api \<Rightarrow> real \<Rightarrow> string \<Rightarrow> confirmation_gate \<Rightarrow> authenticated_request option \<Rightarrow> dict \<Rightarrow>
     'st \<Rightarrow> 'st \<times> (exn + gate_result)" where
  "require_confirmation_gate L api now new_id g current kwargs0 st =
     (let confirmation_id = dget kwargs0 ''confirmation_id''; cid = confirmation_arg kwargs0;
          kwargs = dpop kwargs0 ''confirmation_id'';
          final = (if confirmation_id = JNull then kwargs else dset kwargs ''confirmation_id'' confirmation_id)
      in case ebind (require_current_request current) (\<lambda>rq.
              ebind (cg_policy_key g kwargs) (\<lambda>key.
                let rule = policy_get (cg_policy g) key
                in ebind (case cg_checks g of None \<Rightarrow> Inr () | Some checks \<Rightarrow> checks rule) (\<lambda>_. Inr (rq, key, rule)))) of
           Inl e \<Rightarrow> (st, Inl e)
         | Inr (rq, key, rule) \<Rightarrow>
             if \<not> require_confirmation rule then (st, Inr (Run final None))
             else (case present_ticket L api now g rule cid (rq_pubkey rq) key kwargs st of
                 (st', Inr t) \<Rightarrow> (st', Inr (Run final (Some t)))
               | (st', Inl e) \<Rightarrow>
                   if exn_cls e \<noteq> ConfirmationError \<or> cid \<noteq> [] then (st', Inl e)
                   else issue_ticket api now new_id g rule (rq_pubkey rq) key kwargs st'))"

subsection \<open>Lemmas\<close>

text \<open>A gate whose rule asks for a confirmation, up to the point where the store is used.\<close>

definition gated :: "confirmation_gate \<Rightarrow> authenticated_request option \<Rightarrow> dict \<Rightarrow> authenticated_request \<Rightarrow> string \<Rightarrow> policy_rule \<Rightarrow> bool" where
  "gated g current kwargs rq key rule \<longleftrightarrow>
     current = Some rq \<and> cg_policy_key g (dpop kwargs ''confirmation_id'') = Inr key \<and>
     rule = policy_get (cg_policy g) key \<and>
     (case cg_checks g of None \<Rightarrow> True | Some checks \<Rightarrow> checks rule = Inr ()) \<and> require_confirmation rule"

lemma gate_gated:
  assumes "gated g current kwargs rq key rule"
  shows "require_confirmation_gate L api now new_id g current kwargs st =
    (let args = dpop kwargs ''confirmation_id''; cid = confirmation_arg kwargs
     in case present_ticket L api now g rule cid (rq_pubkey rq) key args st of
       (st', Inr t) \<Rightarrow> (st', Inr (Run (if dget kwargs ''confirmation_id'' = JNull then args
          else dset args ''confirmation_id'' (dget kwargs ''confirmation_id'')) (Some t)))
     | (st', Inl e) \<Rightarrow> if exn_cls e \<noteq> ConfirmationError \<or> cid \<noteq> [] then (st', Inl e)
         else issue_ticket api now new_id g rule (rq_pubkey rq) key args st')"
  using assms
  by (auto simp: gated_def require_confirmation_gate_def require_current_request_def Let_def split: option.splits)

lemma issue_ticket_not_run: "snd (issue_ticket api now new_id g rule pubkey key args st) \<noteq> Inr (Run a t)"
  by (auto simp: issue_ticket_def split: sum.splits prod.splits)

lemma gate_Run:
  assumes "gated g current kwargs rq key rule"
    "require_confirmation_gate L api now new_id g current kwargs st = (st', Inr (Run args' tk))"
  shows "\<exists>t. present_ticket L api now g rule (confirmation_arg kwargs) (rq_pubkey rq) key
      (dpop kwargs ''confirmation_id'') st = (st', Inr t) \<and> tk = Some t \<and>
    args' = (if dget kwargs ''confirmation_id'' = JNull then dpop kwargs ''confirmation_id''
      else dset (dpop kwargs ''confirmation_id'') ''confirmation_id'' (dget kwargs ''confirmation_id''))"
proof -
  let ?p = "present_ticket L api now g rule (confirmation_arg kwargs) (rq_pubkey rq) key (dpop kwargs ''confirmation_id'') st"
  obtain st1 r where p: "?p = (st1, r)" by (cases ?p)
  show ?thesis
  proof (cases r)
    case (Inl e)
    then show ?thesis
      using assms(2) p issue_ticket_not_run [of api now new_id g rule "rq_pubkey rq" key _ st1 args' tk]
      by (simp add: gate_gated [OF assms(1)] Let_def split: if_splits) (metis snd_conv)
  next
    case (Inr t)
    then show ?thesis using assms(2) p by (simp add: gate_gated [OF assms(1)] Let_def)
  qed
qed

context confirmation_store begin

lemma present_valid:
  assumes "good st" "snd (present_ticket L api now g rule cid pubkey key args st) = Inr t"
  shows "(\<exists>claimed. view st cid = Some (t, claimed) \<and> (cid \<noteq> [] \<and> cg_defer_to_broker g \<longrightarrow> \<not> claimed)) \<and>
    now < tk_expires_at t \<and> tk_pubkey t = pubkey \<and> tk_tool t = key \<and> tk_arguments_hash t = hash_arguments L args \<and>
    (require_owner_signature rule \<longrightarrow> tk_owner_approved_by t \<noteq> None)"
proof (cases "cid \<noteq> [] \<and> cg_defer_to_broker g")
  case True
  with assms(2) have peeked: "snd (api_peek api now cid st) = Inr t" and check: "frontend_check L rule pubkey key args t = Inr t"
    by (auto simp: present_ticket_def frontend_check_def split: prod.splits sum.splits if_splits)
  have "snd (spec_peek now cid (view st)) = Inr t"
    using peeked peek [OF assms(1)] by (simp add: refines_def)
  then have "view st cid = Some (t, False)" "now < tk_expires_at t"
    by (auto simp: spec_peek_def split: option.splits if_splits)
  with check show ?thesis by (auto simp: frontend_check_def split: if_splits)
next
  case False
  then have "snd (api_consume api now cid pubkey key args (require_owner_signature rule) False st) = Inr t"
    using assms(2) by (simp add: present_ticket_def split: if_splits)
  from consume_binds [OF assms(1) this] False show ?thesis by blast
qed

lemma gate_run:
  assumes "good st" "view st [] = None" "gated g current kwargs rq key rule"
    "snd (require_confirmation_gate L api now new_id g current kwargs st) = Inr (Run args' tk)"
  shows "\<exists>t claimed. tk = Some t \<and> dget kwargs ''confirmation_id'' = JStr (confirmation_arg kwargs) \<and>
    view st (confirmation_arg kwargs) = Some (t, claimed) \<and> (cg_defer_to_broker g \<longrightarrow> \<not> claimed) \<and>
    now < tk_expires_at t \<and> tk_pubkey t = rq_pubkey rq \<and> tk_tool t = key \<and>
    tk_arguments_hash t = hash_arguments L (dpop kwargs ''confirmation_id'') \<and>
    (require_owner_signature rule \<longrightarrow> tk_owner_approved_by t \<noteq> None) \<and>
    args' = dset (dpop kwargs ''confirmation_id'') ''confirmation_id'' (JStr (confirmation_arg kwargs))"
proof -
  let ?cid = "confirmation_arg kwargs" and ?args = "dpop kwargs ''confirmation_id''"
  obtain t where t: "snd (present_ticket L api now g rule ?cid (rq_pubkey rq) key ?args st) = Inr t" "tk = Some t"
      "args' = (if dget kwargs ''confirmation_id'' = JNull then ?args
         else dset ?args ''confirmation_id'' (dget kwargs ''confirmation_id''))"
  proof -
    obtain st' where "require_confirmation_gate L api now new_id g current kwargs st = (st', Inr (Run args' tk))"
      using assms(4) by (cases "require_confirmation_gate L api now new_id g current kwargs st") simp
    from gate_Run [OF assms(3) this] obtain t where
      "present_ticket L api now g rule ?cid (rq_pubkey rq) key ?args st = (st', Inr t)" "tk = Some t"
      "args' = (if dget kwargs ''confirmation_id'' = JNull then ?args
         else dset ?args ''confirmation_id'' (dget kwargs ''confirmation_id''))" by blast
    then show thesis by (intro that) simp_all
  qed
  note v = present_valid [OF assms(1) t(1)]
  with assms(2) have "?cid \<noteq> []" by auto
  then have "dget kwargs ''confirmation_id'' = JStr ?cid"
    by (auto simp: confirmation_arg_def split: json.splits)
  with v t \<open>?cid \<noteq> []\<close> show ?thesis by auto
qed

lemma gate_consumes:
  assumes "good st" "view st [] = None" "gated g current kwargs rq key rule" "\<not> cg_defer_to_broker g"
    "require_confirmation_gate L api now new_id g current kwargs st = (st', Inr (Run args' tk))"
  shows "view st' (confirmation_arg kwargs) = None"
proof -
  let ?cid = "confirmation_arg kwargs" and ?args = "dpop kwargs ''confirmation_id''"
  let ?r = "api_consume api now ?cid (rq_pubkey rq) key ?args (require_owner_signature rule) False st"
  obtain t where r: "snd ?r = Inr t" "st' = fst ?r"
  proof -
    from gate_Run [OF assms(3,5)] obtain t where
      "present_ticket L api now g rule ?cid (rq_pubkey rq) key ?args st = (st', Inr t)" by blast
    then have "?r = (st', Inr t)" using assms(4) by (simp add: present_ticket_def)
    then show thesis by (intro that) simp_all
  qed
  have "snd (spec_consume L now ?cid (rq_pubkey rq) key ?args (require_owner_signature rule) False (view st)) = Inr t"
    using r(1) consume [OF assms(1)] by (simp add: refines_def)
  from spec_consume_state [OF this] show ?thesis
    using r(2) consume [OF assms(1)] by (simp add: refines_def)
qed

end

subsection \<open>Properties\<close>

text \<open>
  A handler behind \<open>require_scope\<close> runs if and only if there is a current request whose identity
  has the scope; otherwise it is not run, a request without the scope gets a \<open>ScopeError\<close> and is
  reported to the denial hook exactly once, and without a request context the call fails.
\<close>

theorem require_scope_exact:
  "(snd (require_scope fmt name s current run) = Inr v \<longleftrightarrow>
      (\<exists>rq r. current = Some rq \<and> rq_identity rq = Some r \<and> s \<in> id_scopes r \<and> run () = Inr v)) \<and>
   (\<forall>rq. current = Some rq \<and> s \<notin> request_scopes rq \<longrightarrow>
      fst (require_scope fmt name s current run) = [(name, s)] \<and>
      (\<exists>msg. snd (require_scope fmt name s current run) = Inl (Exn ScopeError msg))) \<and>
   (current = None \<longrightarrow> (\<exists>msg. require_scope fmt name s current run = ([], Inl (Exn RuntimeError msg))))"
  by (auto simp: require_scope_def require_current_request_def has_scope_def request_scopes_def scope_error_def
      Let_def split: option.splits)

theorem require_scope_exact_witness:
  "snd (require_scope (\<lambda>_. []) ''apps_list'' APPS_READ (Some LOCAL_STDIO_REQUEST) (\<lambda>_. Inr JNull)) = Inr JNull \<and>
   fst (require_scope (\<lambda>_. []) ''apps_list'' APPS_READ
     (Some (LOCAL_STDIO_REQUEST\<lparr>rq_identity := None\<rparr>)) (\<lambda>_. Inr JNull)) = [(''apps_list'', APPS_READ)]"
proof -
  have "APPS_READ \<in> id_scopes LOCAL_STDIO_IDENTITY" by (simp add: LOCAL_STDIO_IDENTITY_def ALL_SCOPES_UNIV)
  moreover have "rq_identity LOCAL_STDIO_REQUEST = Some LOCAL_STDIO_IDENTITY" by (simp add: LOCAL_STDIO_REQUEST_def)
  ultimately have "snd (require_scope (\<lambda>_. []) ''apps_list'' APPS_READ (Some LOCAL_STDIO_REQUEST) (\<lambda>_. Inr JNull)) = Inr JNull"
    using require_scope_exact [of "\<lambda>_. []" "''apps_list''" APPS_READ "Some LOCAL_STDIO_REQUEST" "\<lambda>_. Inr JNull" JNull] by blast
  moreover have "APPS_READ \<notin> request_scopes (LOCAL_STDIO_REQUEST\<lparr>rq_identity := None\<rparr>)" by (simp add: request_scopes_def)
  ultimately show ?thesis
    using require_scope_exact [of "\<lambda>_. []" "''apps_list''" APPS_READ "Some (LOCAL_STDIO_REQUEST\<lparr>rq_identity := None\<rparr>)"
        "\<lambda>_. Inr JNull" JNull] by blast
qed

text \<open>
  On the frontend, a handler whose policy rule asks for a confirmation runs only when the call
  presents the id of a ticket of the shared store that was issued to the same public key for the same
  policy key, has the hash of the same arguments, has not expired, and carries an owner approval
  where the rule asks for one; when the broker executes, nobody holds the ticket and the handler gets
  the id; when the frontend executes, the ticket is gone afterwards.
\<close>

theorem confirmation_gate_sound:
  assumes "sql_good L ttl owner_ttl st" "sql_view L st [] = None" "gated g current kwargs rq key rule"
    and "require_confirmation_gate L (sql_api L) now new_id g current kwargs st = (st', Inr (Run args' tk))"
  shows "(\<exists>t claimed. tk = Some t \<and> sql_view L st (confirmation_arg kwargs) = Some (t, claimed) \<and>
      (cg_defer_to_broker g \<longrightarrow> \<not> claimed) \<and> now < tk_expires_at t \<and> tk_pubkey t = rq_pubkey rq \<and> tk_tool t = key \<and>
      tk_arguments_hash t = hash_arguments L (dpop kwargs ''confirmation_id'') \<and>
      (require_owner_signature rule \<longrightarrow> tk_owner_approved_by t \<noteq> None)) \<and>
    dget args' ''confirmation_id'' = JStr (confirmation_arg kwargs) \<and>
    (\<not> cg_defer_to_broker g \<longrightarrow> sql_view L st' (confirmation_arg kwargs) = None)"
  using sql.gate_run [OF assms(1-3), of now new_id args' tk] sql.gate_consumes [OF assms(1-3) _ assms(4)] assms(4)
  by (auto simp: dget_dset)

definition example_gate :: confirmation_gate where
  "example_gate = \<lparr>cg_policy_key = (\<lambda>_. Inr ''apps.remove''), cg_policy = DEFAULT_POLICY, cg_checks = None,
     cg_plan_builder = None, cg_defer_to_broker = False\<rparr>"

theorem confirmation_gate_sound_witness:
  "sql_view example_libs (fst (require_confirmation_gate example_libs (sql_api example_libs) 5 ''c2'' example_gate
     (Some (LOCAL_STDIO_REQUEST\<lparr>rq_pubkey := ''agent''\<rparr>)) [(''confirmation_id'', JStr ''c1'')]
     (run_store (sql_api example_libs) [example_create, example_approve] (sql_init 300 (Some 900) [])))) ''c1'' = None"
proof -
  let ?rq = "LOCAL_STDIO_REQUEST\<lparr>rq_pubkey := ''agent''\<rparr>" and ?kw = "[(''confirmation_id'', JStr ''c1'')]"
  let ?st = "run_store (sql_api example_libs) [example_create, example_approve] (sql_init 300 (Some 900) [])"
  let ?g = "require_confirmation_gate example_libs (sql_api example_libs) 5 ''c2'' example_gate (Some ?rq) ?kw ?st"
  have st: "?st = sql_init 300 (Some 900)
      [(''c1'', (sql_row_of example_libs example_ticket)\<lparr>row_owner_approved_by := Some ''owner''\<rparr>)]"
    by (simp add: example_sql_created example_sql_approved)
  have gated: "gated example_gate (Some ?rq) ?kw ?rq ''apps.remove'' (policy_get DEFAULT_POLICY ''apps.remove'')"
    by (simp add: gated_def example_gate_def policy_get_def DEFAULT_POLICY_def default_rule_def dpop_def)
  have "snd (present_ticket example_libs (sql_api example_libs) 5 example_gate rule ''c1'' ''agent'' ''apps.remove'' [] ?st) =
      Inr (example_ticket\<lparr>tk_owner_approved_by := Some ''owner''\<rparr>)" for rule
    unfolding st
    by (simp add: present_ticket_def example_gate_def sql_consume_def sql_get_def sql_init_def sql_live_def sql_row_of_def
        example_ticket_def make_ticket_def)
  then obtain st1 where p: "present_ticket example_libs (sql_api example_libs) 5 example_gate
      (policy_get DEFAULT_POLICY ''apps.remove'') ''c1'' ''agent'' ''apps.remove'' [] ?st =
      (st1, Inr (example_ticket\<lparr>tk_owner_approved_by := Some ''owner''\<rparr>))"
    by (metis prod.collapse)
  have run: "\<exists>st' args tk. ?g = (st', Inr (Run args tk))"
    unfolding gate_gated [OF gated] using p by (simp add: confirmation_arg_def dpop_def)
  then obtain st' args tk where run: "?g = (st', Inr (Run args tk))" by blast
  have "sql_good example_libs 300 900 ?st" unfolding st
    by (simp add: sql_good_def sql_init_def)
  moreover have "sql_view example_libs ?st [] = None" unfolding st
    by (simp add: sql_view_def sql_init_def)
  moreover have "\<not> cg_defer_to_broker example_gate" "confirmation_arg ?kw = ''c1''"
    by (simp_all add: example_gate_def confirmation_arg_def)
  ultimately have "sql_view example_libs st' ''c1'' = None"
    using confirmation_gate_sound [OF _ _ gated run] by metis
  then show ?thesis unfolding run fst_conv .
qed

end
