(* ===== verification/Write_Tools.thy ===== *)
theory Write_Tools
  imports Enforcement Audit_Log
begin

text \<open>
  A write tool of the frontend as \<open>server.py\<close> stacks its decorators: \<open>require_scope\<close> outside
  \<open>audited_write\<close> (\<open>audit/decorator.py\<close>: the write lock of \<open>policy/locks.py\<close>, one audit entry per
  call) outside \<open>require_confirmation\<close> outside the handler's body. The world holds what the
  decorators share; \<open>w_system\<close> is what the body acts on, and \<open>w_calls\<close> logs the body's runs.
\<close>

record ('st, 'sys) world =
  w_locked :: bool
  w_audit :: audit_file
  w_ticket :: "ticket option"
  w_store :: 'st
  w_system :: 'sys
  w_calls :: "dict list"

type_synonym ('st, 'sys, 'r) action = "('st, 'sys) world \<Rightarrow> ('st, 'sys) world \<times> (exn + 'r)"

text \<open>The consumed ticket of the running call: \<open>set_consumed_ticket\<close>, \<open>pop_consumed_ticket\<close>.\<close>

definition set_consumed_ticket :: "ticket \<Rightarrow> ('st, 'sys) world \<Rightarrow> ('st, 'sys) world" where
  "set_consumed_ticket t w = w\<lparr>w_ticket := Some t\<rparr>"

definition pop_consumed_ticket :: "('st, 'sys) world \<Rightarrow> ('st, 'sys) world \<times> ticket option" where
  "pop_consumed_ticket w = (w\<lparr>w_ticket := None\<rparr>, w_ticket w)"

subsection \<open>\<open>WriteLock.locked\<close>\<close>

definition lock_held :: exn where
  "lock_held = Exn LockedError ''another write operation is already in progress; try again shortly''"

definition locked :: "('st, 'sys, 'r) action \<Rightarrow> ('st, 'sys, 'r) action" where
  "locked run w =
     (if w_locked w then (w, Inl lock_held)
      else (let (w', r) = run (w\<lparr>w_locked := True\<rparr>) in (w'\<lparr>w_locked := False\<rparr>, r)))"

subsection \<open>\<open>audited_write\<close>\<close>

text \<open>The outcome and the operation id an entry reports for a result.\<close>

fun audit_outcome :: "exn + json \<Rightarrow> string \<times> json \<times> json" where
  "audit_outcome (Inl e) = ((if exn_cls e = LockedError then ''locked'' else ''error''), JNull, JStr (exn_msg e))"
| "audit_outcome (Inr (JObj d)) =
     (if truthy (dget d ''confirmation_required'') then (''confirmation_pending'', JNull, JNull)
      else (''success'', dget d ''operation_id'', JNull))"
| "audit_outcome (Inr _) = (''success'', JNull, JNull)"

definition optional_str :: "string option \<Rightarrow> json" where
  "optional_str s = (case s of None \<Rightarrow> JNull | Some t \<Rightarrow> JStr t)"

definition write_fields ::
  "string \<Rightarrow> (dict \<Rightarrow> json) option \<Rightarrow> authenticated_request \<Rightarrow> dict \<Rightarrow> exn + json \<Rightarrow> ticket option \<Rightarrow> audit_fields" where
  "write_fields tool_name sanitizer rq kwargs r tk =
     (let (outcome, operation_id, error) = audit_outcome r
      in \<lparr>af_tool = tool_name,
          af_arguments = (case sanitizer of None \<Rightarrow> JObj kwargs | Some f \<Rightarrow> f kwargs),
          af_caller_pubkey = rq_pubkey rq, af_decision = ''allowed'', af_result = outcome,
          af_yunohost_operation = operation_id, af_error = error,
          af_approved_by = (case tk of None \<Rightarrow> JNull | Some t \<Rightarrow> optional_str (tk_owner_approved_by t)),
          af_request_id = None, af_execution_context = None\<rparr>)"

definition audited_write ::
  "libs \<Rightarrow> real \<Rightarrow> string \<Rightarrow> string \<Rightarrow> (dict \<Rightarrow> json) option \<Rightarrow> authenticated_request option \<Rightarrow>
     (dict \<Rightarrow> ('st, 'sys, json) action) \<Rightarrow> dict \<Rightarrow> ('st, 'sys, json) action" where
  "audited_write L now audit_id tool_name sanitizer current fn kwargs w =
     (case require_current_request current of
        Inl e \<Rightarrow> (w, Inl e)
      | Inr rq \<Rightarrow>
          (let (w1, r) = locked (fn kwargs) w;
               (w2, tk) = pop_consumed_ticket w1
           in case audit_record L now audit_id (write_fields tool_name sanitizer rq kwargs r tk) (w_audit w2) of
                Inl e \<Rightarrow> (w2, Inl e)
              | Inr file \<Rightarrow> (w2\<lparr>w_audit := file\<rparr>, r)))"

subsection \<open>The stack\<close>

text \<open>\<open>require_confirmation\<close> around the body: the body runs on the system with the final arguments.\<close>

definition confirmed ::
  "libs \<Rightarrow> 'st store_api \<Rightarrow> real \<Rightarrow> string \<Rightarrow> confirmation_gate \<Rightarrow> authenticated_request option \<Rightarrow>
     (dict \<Rightarrow> 'sys \<Rightarrow> 'sys \<times> (exn + json)) \<Rightarrow> dict \<Rightarrow> ('st, 'sys, json) action" where
  "confirmed L api now new_id g current body kwargs w =
     (case require_confirmation_gate L api now new_id g current kwargs (w_store w) of
        (st, Inl e) \<Rightarrow> (w\<lparr>w_store := st\<rparr>, Inl e)
      | (st, Inr (Respond response t)) \<Rightarrow> (w\<lparr>w_store := st\<rparr>, Inr response)
      | (st, Inr (Run args tk)) \<Rightarrow>
          (let w1 = (case tk of None \<Rightarrow> w\<lparr>w_store := st\<rparr> | Some t \<Rightarrow> set_consumed_ticket t (w\<lparr>w_store := st\<rparr>));
               (sys, r) = body args (w_system w1)
           in (w1\<lparr>w_system := sys, w_calls := w_calls w1 @ [args]\<rparr>, r)))"

definition scoped ::
  "(json \<Rightarrow> string) \<Rightarrow> scope \<Rightarrow> authenticated_request option \<Rightarrow> ('st, 'sys, json) action \<Rightarrow> ('st, 'sys, json) action" where
  "scoped fmt s current run w =
     (case require_current_request current of
        Inl e \<Rightarrow> (w, Inl e)
      | Inr rq \<Rightarrow> if has_scope rq s then run w else (w, Inl (scope_error fmt s rq)))"

definition write_tool ::
  "libs \<Rightarrow> (json \<Rightarrow> string) \<Rightarrow> 'st store_api \<Rightarrow> real \<Rightarrow> string \<Rightarrow> string \<Rightarrow> scope \<Rightarrow> string \<Rightarrow> (dict \<Rightarrow> json) option \<Rightarrow>
     confirmation_gate \<Rightarrow> authenticated_request option \<Rightarrow> (dict \<Rightarrow> 'sys \<Rightarrow> 'sys \<times> (exn + json)) \<Rightarrow> dict \<Rightarrow>
     ('st, 'sys, json) action" where
  "write_tool L fmt api now new_id audit_id s tool_name sanitizer g current body kwargs w =
     (let (w', r) = scoped fmt s current
            (audited_write L now audit_id tool_name sanitizer current
               (confirmed L api now new_id g current body) kwargs) w
      in (w', redact_response (translate_known_errors r)))"

subsection \<open>Lemmas\<close>

lemma confirmed_calls:
  "w_calls (fst (confirmed L api now new_id g current body kwargs w)) =
     (case snd (require_confirmation_gate L api now new_id g current kwargs (w_store w)) of
        Inr (Run args tk) \<Rightarrow> w_calls w @ [args] | _ \<Rightarrow> w_calls w)"
  by (auto simp: confirmed_def set_consumed_ticket_def Let_def split: prod.splits sum.splits gate_result.splits option.splits)

lemma confirmed_audit [simp]:
  "w_audit (fst (confirmed L api now new_id g current body kwargs w)) = w_audit w"
  by (auto simp: confirmed_def set_consumed_ticket_def Let_def split: prod.splits sum.splits gate_result.splits option.splits)

lemma confirmed_ticket:
  "w_ticket (fst (confirmed L api now new_id g current body kwargs w)) =
     (case snd (require_confirmation_gate L api now new_id g current kwargs (w_store w)) of
        Inr (Run args (Some t)) \<Rightarrow> Some t | _ \<Rightarrow> w_ticket w)"
  by (auto simp: confirmed_def set_consumed_ticket_def Let_def split: prod.splits sum.splits gate_result.splits option.splits)

lemma audited_write_cases:
  "audited_write L now i tool sanitizer (Some rq) fn kwargs w =
    (let w1 = fst (locked (fn kwargs) w); r = snd (locked (fn kwargs) w); f = write_fields tool sanitizer rq kwargs r (w_ticket w1)
     in case audit_record L now i f (w_audit w1) of
          Inl e \<Rightarrow> (w1\<lparr>w_ticket := None\<rparr>, Inl e)
        | Inr entries \<Rightarrow> (w1\<lparr>w_ticket := None, w_audit := entries\<rparr>, r))"
  by (simp add: audited_write_def require_current_request_def pop_consumed_ticket_def Let_def split: prod.split sum.split)

lemma locked_calls: "w_calls (fst (locked run w)) = (if w_locked w then w_calls w else w_calls (fst (run (w\<lparr>w_locked := True\<rparr>))))"
  by (simp add: locked_def split: prod.split)

lemma audited_calls:
  "w_calls (fst (audited_write L now i tool sanitizer current fn kwargs w)) =
     (if current = None \<or> w_locked w then w_calls w else w_calls (fst (fn kwargs (w\<lparr>w_locked := True\<rparr>))))"
proof (cases current)
  case None
  then show ?thesis by (simp add: audited_write_def require_current_request_def)
next
  case (Some rq)
  then show ?thesis
    by (simp add: Some audited_write_cases locked_calls Let_def split: sum.split)
qed

lemma write_tool_calls:
  "w_calls (fst (write_tool L fmt api now new_id i s tool sanitizer g current body kwargs w)) =
     (case current of None \<Rightarrow> w_calls w
      | Some rq \<Rightarrow>
          if \<not> has_scope rq s \<or> w_locked w then w_calls w
          else (case snd (require_confirmation_gate L api now new_id g current kwargs (w_store w)) of
                  Inr (Run args tk) \<Rightarrow> w_calls w @ [args] | _ \<Rightarrow> w_calls w))"
proof (cases current)
  case None
  then show ?thesis by (simp add: write_tool_def scoped_def require_current_request_def)
next
  case (Some rq)
  let ?a = "audited_write L now i tool sanitizer current (confirmed L api now new_id g current body) kwargs w"
  have "w_calls (fst (write_tool L fmt api now new_id i s tool sanitizer g current body kwargs w)) =
      (if has_scope rq s then w_calls (fst ?a) else w_calls w)"
    by (simp add: Some write_tool_def scoped_def require_current_request_def split: prod.split)
  then show ?thesis unfolding audited_calls confirmed_calls
    by (simp add: Some split: sum.split gate_result.split)
qed

lemma record_appends:
  "audit_record L now i f file = (case last_entry_hash L file of
     Inl x \<Rightarrow> Inl x
   | Inr prev \<Rightarrow> Inr (audit_append (entry_line L (audit_entry L now i f (case prev of None \<Rightarrow> GENESIS_HASH | Some h \<Rightarrow> h)) @ [char_of (10 :: nat)]) file))"
  by (simp add: audit_record_def audit_line_def split: sum.split)

lemma entry_fields:
  "dget (audit_entry L now i f prev) ''audit_id'' = JStr i" "dget (audit_entry L now i f prev) ''caller'' = JStr (af_caller_pubkey f)"
  "dget (audit_entry L now i f prev) ''tool'' = JStr (af_tool f)" "dget (audit_entry L now i f prev) ''arguments'' = redact (af_arguments f)"
  "dget (audit_entry L now i f prev) ''decision'' = JStr (af_decision f)" "dget (audit_entry L now i f prev) ''result'' = JStr (af_result f)"
  "dget (audit_entry L now i f prev) ''error'' = af_error f" "dget (audit_entry L now i f prev) ''approved_by'' = af_approved_by f"
  "dget (audit_entry L now i f prev) ''yunohost_operation'' = af_yunohost_operation f"
  by (simp_all add: audit_entry_def audit_payload_def dget_def Let_def)

text \<open>What the wrapped call did, by the answer of the gate.\<close>

lemma confirmed_outcome:
  "confirmed L api now new_id g current body kwargs w =
     (let p = require_confirmation_gate L api now new_id g current kwargs (w_store w); w1 = w\<lparr>w_store := fst p\<rparr>
      in case snd p of
        Inl e \<Rightarrow> (w1, Inl e)
      | Inr (Respond response t) \<Rightarrow> (w1, Inr response)
      | Inr (Run args tk) \<Rightarrow> (w1\<lparr>w_ticket := (case tk of None \<Rightarrow> w_ticket w | Some t \<Rightarrow> Some t), w_system := fst (body args (w_system w)),
          w_calls := w_calls w @ [args]\<rparr>, snd (body args (w_system w))))"
  by (simp add: confirmed_def set_consumed_ticket_def Let_def split: prod.split sum.split gate_result.split option.split)

lemma gate_responds:
  assumes "require_confirmation_gate L api now new_id g current kwargs st = (st', Inr (Respond response t))"
  shows "\<exists>plan owner. response = confirmation_response plan t owner"
  using assms by (auto simp: require_confirmation_gate_def issue_ticket_def Let_def split: sum.splits prod.splits if_splits)

lemma pending_response: "audit_outcome (Inr (confirmation_response plan t owner)) = (''confirmation_pending'', JNull, JNull)"
  by (simp add: confirmation_response_def)

lemma locked_alt:
  "locked run w = (if w_locked w then (w, Inl lock_held)
     else ((fst (run (w\<lparr>w_locked := True\<rparr>)))\<lparr>w_locked := False\<rparr>, snd (run (w\<lparr>w_locked := True\<rparr>))))"
  by (simp add: locked_def split: prod.split)

lemma audited_write_alt:
  "audited_write L now i tool sanitizer (Some rq) fn kwargs w =
    (let w1 = fst (locked (fn kwargs) w); r = snd (locked (fn kwargs) w)
     in case last_entry_hash L (w_audit w1) of
          Inl e \<Rightarrow> (w1\<lparr>w_ticket := None\<rparr>, Inl e)
        | Inr prev \<Rightarrow> (w1\<lparr>w_ticket := None, w_audit := audit_append (entry_line L (audit_entry L now i
            (write_fields tool sanitizer rq kwargs r (w_ticket w1)) (case prev of None \<Rightarrow> GENESIS_HASH | Some h \<Rightarrow> h)) @ [char_of (10 :: nat)]) (w_audit w1)\<rparr>, r))"
  by (simp add: audited_write_cases record_appends Let_def split: sum.split)

text \<open>The log has grown by exactly one entry, chained to the last one, with these contents.\<close>

definition one_entry ::
  "libs \<Rightarrow> string \<Rightarrow> string \<Rightarrow> string \<Rightarrow> json \<Rightarrow> string option \<Rightarrow> audit_file \<Rightarrow> audit_file \<Rightarrow> string \<Rightarrow> json \<Rightarrow> json \<Rightarrow> json \<Rightarrow> bool" where
  "one_entry L audit_id caller tool arguments prev file file' outcome error operation approver \<longleftrightarrow>
     (\<exists>e. file' = audit_append (entry_line L e @ [char_of (10 :: nat)]) file \<and>
        dget e ''prev_hash'' = JStr (case prev of None \<Rightarrow> GENESIS_HASH | Some h \<Rightarrow> h) \<and>
        dget e ''audit_id'' = JStr audit_id \<and> dget e ''caller'' = JStr caller \<and> dget e ''tool'' = JStr tool \<and>
        dget e ''arguments'' = redact arguments \<and> dget e ''decision'' = JStr ''allowed'' \<and> dget e ''result'' = JStr outcome \<and>
        dget e ''error'' = error \<and> dget e ''yunohost_operation'' = operation \<and> dget e ''approved_by'' = approver)"

lemma written_entry:
  assumes "audit_outcome x = (outcome, operation, error)"
    and "approver = (case Option.bind tk tk_owner_approved_by of None \<Rightarrow> JNull | Some owner \<Rightarrow> JStr owner)"
  shows "one_entry L i (rq_pubkey rq) tool (case sanitizer of None \<Rightarrow> JObj kwargs | Some f \<Rightarrow> f kwargs) prev file
    (audit_append (entry_line L (audit_entry L now i (write_fields tool sanitizer rq kwargs x tk)
      (case prev of None \<Rightarrow> GENESIS_HASH | Some h \<Rightarrow> h)) @ [char_of (10 :: nat)]) file) outcome error operation approver"
  using assms unfolding one_entry_def
  by (intro exI [of _ "audit_entry L now i (write_fields tool sanitizer rq kwargs x tk) (case prev of None \<Rightarrow> GENESIS_HASH | Some h \<Rightarrow> h)"])
    (auto simp: entry_fields entry_keys write_fields_def optional_str_def split: option.split)

subsection \<open>Properties\<close>

text \<open>
  C36: every authorized write is accounted for.  Whatever becomes of the call of a write tool by a caller with its scope - the
  lock is taken, the gate refuses or asks for a confirmation, the body runs and fails or succeeds - the log grows by exactly one
  entry, under the tool's name and the public key of the caller, with the arguments as its sanitiser leaves them, with the
  outcome and the error of this very call, and with the owner who approved the ticket that this call presented, where there is
  one; the body ran exactly if the gate let it and no other write held the lock, and the lock and the memory of the ticket are
  afterwards as before.  (Where the end of the log cannot be read the call fails, after its work, and the log is unchanged.)
\<close>

theorem audited_write_accounts:
  assumes "has_scope rq s" "w_ticket w = None"
    and "write_tool L fmt api now new_id i s tool sanitizer g (Some rq) body kwargs w = (w', r)"
  shows "let gate = snd (require_confirmation_gate L api now new_id g (Some rq) kwargs (w_store w));
        failed = (\<lambda>x. if exn_cls x = LockedError then ''locked'' else ''error'');
        asks = (\<lambda>v. \<exists>d. v = JObj d \<and> truthy (dget d ''confirmation_required''));
        recorded = (\<lambda>prev. one_entry L i (rq_pubkey rq) tool (case sanitizer of None \<Rightarrow> JObj kwargs | Some f \<Rightarrow> f kwargs) prev
          (w_audit w) (w_audit w'))
    in w_locked w' = w_locked w \<and> w_ticket w' = None \<and>
      (case last_entry_hash L (w_audit w) of
         Inl x \<Rightarrow> w_audit w' = w_audit w \<and> \<not> is_ok r
       | Inr prev \<Rightarrow>
           if w_locked w then recorded prev ''locked'' (JStr (exn_msg lock_held)) JNull JNull \<and> w_calls w' = w_calls w \<and>
             w_system w' = w_system w \<and> w_store w' = w_store w \<and> r = Inl lock_held
           else (case gate of
               Inl x \<Rightarrow> recorded prev (failed x) (JStr (exn_msg x)) JNull JNull \<and> w_calls w' = w_calls w \<and>
                 w_system w' = w_system w \<and> \<not> is_ok r
             | Inr (Respond response t) \<Rightarrow> recorded prev ''confirmation_pending'' JNull JNull JNull \<and> w_calls w' = w_calls w \<and>
                 w_system w' = w_system w \<and> is_ok r
             | Inr (Run args tk) \<Rightarrow> w_calls w' = w_calls w @ [args] \<and> w_system w' = fst (body args (w_system w)) \<and>
                 (let approver = (case Option.bind tk tk_owner_approved_by of None \<Rightarrow> JNull | Some owner \<Rightarrow> JStr owner)
                  in case snd (body args (w_system w)) of
                      Inl x \<Rightarrow> recorded prev (failed x) (JStr (exn_msg x)) JNull approver \<and> \<not> is_ok r
                    | Inr v \<Rightarrow> recorded prev (if asks v then ''confirmation_pending'' else ''success'') JNull
                        (case v of JObj d \<Rightarrow> if asks v then JNull else dget d ''operation_id'' | _ \<Rightarrow> JNull) approver \<and> is_ok r)))"
proof -
  let ?p = "require_confirmation_gate L api now new_id g (Some rq) kwargs (w_store w)"
  let ?fn = "confirmed L api now new_id g (Some rq) body kwargs"
  let ?w1 = "fst (locked ?fn w)" and ?r1 = "snd (locked ?fn w)"
  have tool: "w' = fst (audited_write L now i tool sanitizer (Some rq) (confirmed L api now new_id g (Some rq) body) kwargs w)"
    "r = redact_response (translate_known_errors (snd (audited_write L now i tool sanitizer (Some rq) (confirmed L api now new_id g (Some rq) body) kwargs w)))"
    using assms(1,3) by (simp_all add: write_tool_def scoped_def require_current_request_def split: prod.splits)
  have ok: "is_ok (redact_response (translate_known_errors x)) = is_ok x" for x
    by (cases x) (simp_all add: redact_response_def translate_known_errors_def reraise_def)
  have held: "redact_response (translate_known_errors (Inl lock_held)) = Inl lock_held"
    by (simp add: redact_response_def translate_known_errors_def reraise_def lock_held_def is_known_expected_def)
  note alt = tool [unfolded audited_write_alt locked_alt Let_def confirmed_outcome]
  show ?thesis
  proof (cases "last_entry_hash L (w_audit w)")
    case (Inl x)
    with alt ok show ?thesis
      by (cases "w_locked w"; cases "snd ?p") (auto simp: Let_def split: gate_result.splits)
  next
    case prev: (Inr prev)
    show ?thesis
    proof (cases "w_locked w")
      case True
      with alt prev held assms(2) show ?thesis by (simp add: Let_def) (rule written_entry, simp_all add: lock_held_def)
    next
      case False
      note run = False alt [unfolded if_not_P [OF False]] prev ok assms(2)
      show ?thesis
      proof (cases "snd ?p")
        case (Inl x)
        with run show ?thesis by (auto simp: Let_def intro!: written_entry)
      next
        case (Inr decision)
        show ?thesis
        proof (cases decision)
          case (Respond response t)
          with Inr gate_responds [of L api now new_id g "Some rq" kwargs "w_store w" "fst ?p" response t] obtain plan owner where
            "response = confirmation_response plan t owner" by (auto simp: prod_eq_iff)
          with run Inr Respond pending_response show ?thesis by (auto simp: Let_def intro!: written_entry)
        next
          case (Run args tk)
          show ?thesis
          proof (cases "snd (body args (w_system w))")
            case (Inl x)
            with run \<open>snd ?p = Inr decision\<close> Run show ?thesis
              by (cases tk) (auto simp: Let_def intro!: written_entry)
          next
            case (Inr v)
            with run \<open>snd ?p = Inr decision\<close> Run show ?thesis
              by (cases tk; cases v) (auto simp: Let_def intro!: written_entry)
          qed
        qed
      qed
    qed
  qed
qed

definition example_world :: "(sql_store, unit) world" where
  "example_world = \<lparr>w_locked = False, w_audit = None, w_ticket = None,
     w_store = run_store (sql_api example_libs) [example_create, example_approve] (sql_init 300 (Some 900) []),
     w_system = (), w_calls = []\<rparr>"

theorem audited_write_accounts_witness:
  "\<exists>prev file. last_entry_hash example_libs None = Inr prev \<and>
     one_entry example_libs ''m1'' ''local-stdio'' ''app_remove'' (JObj []) prev None file ''success'' JNull JNull JNull \<and>
     file = w_audit (fst (write_tool example_libs (\<lambda>_. []) (sql_api example_libs) 5 ''c2'' ''m1'' APPS_REMOVE ''app_remove'' None
       (example_gate\<lparr>cg_policy := [(''apps.remove'', default_rule)]\<rparr>) (Some LOCAL_STDIO_REQUEST) (\<lambda>args sys. (sys, Inr JNull)) [] example_world))"
proof -
  let ?g = "example_gate\<lparr>cg_policy := [(''apps.remove'', default_rule)]\<rparr>"
  obtain w' r where run: "write_tool example_libs (\<lambda>_. []) (sql_api example_libs) 5 ''c2'' ''m1'' APPS_REMOVE ''app_remove'' None
       ?g (Some LOCAL_STDIO_REQUEST) (\<lambda>args sys. (sys, Inr JNull)) [] example_world = (w', r)" by (metis surj_pair)
  have scope: "has_scope LOCAL_STDIO_REQUEST APPS_REMOVE"
    by (simp add: has_scope_def request_scopes_def LOCAL_STDIO_REQUEST_def LOCAL_STDIO_IDENTITY_def ALL_SCOPES_UNIV)
  have caller: "rq_pubkey LOCAL_STDIO_REQUEST = ''local-stdio''" by (simp add: LOCAL_STDIO_REQUEST_def LOCAL_STDIO_IDENTITY_def)
  have world: "w_ticket example_world = None" "w_audit example_world = None" "\<not> w_locked example_world" by (simp_all add: example_world_def)
  have gate: "require_confirmation_gate example_libs (sql_api example_libs) 5 ''c2'' ?g (Some LOCAL_STDIO_REQUEST) [] st = (st, Inr (Run [] None))" for st
    by (simp add: require_confirmation_gate_def example_gate_def require_current_request_def policy_get_def default_rule_def dpop_def Let_def)
  from audited_write_accounts [OF scope world(1) run] show ?thesis unfolding run
    by (simp add: Let_def gate world caller last_entry_hash_def)
qed

text \<open>
  From request to effect. With the SQLite store, the body of a write tool runs at most once per
  call, and only if there is a current request whose identity has the tool's scope, no other write
  is in flight, the hard checks pass, and - where the policy rule of this call asks for a
  confirmation - the call presents a live ticket for this key, this policy key and these arguments,
  approved by the owner where the rule demands it.
\<close>

theorem write_tool_guarded:
  assumes "sql_good L ttl owner_ttl (w_store w)" "sql_view L (w_store w) [] = None"
    and "write_tool L fmt (sql_api L) now new_id i s tool sanitizer g current body kwargs w = (w', r)"
    and "w_calls w' \<noteq> w_calls w"
  shows "\<exists>rq key rule args.
    current = Some rq \<and> has_scope rq s \<and> \<not> w_locked w \<and> w_calls w' = w_calls w @ [args] \<and>
    cg_policy_key g (dpop kwargs ''confirmation_id'') = Inr key \<and> rule = policy_get (cg_policy g) key \<and>
    (case cg_checks g of None \<Rightarrow> True | Some checks \<Rightarrow> checks rule = Inr ()) \<and>
    (require_confirmation rule \<longrightarrow>
      (\<exists>t claimed. sql_view L (w_store w) (confirmation_arg kwargs) = Some (t, claimed) \<and> now < tk_expires_at t \<and>
         tk_pubkey t = rq_pubkey rq \<and> tk_tool t = key \<and>
         tk_arguments_hash t = hash_arguments L (dpop kwargs ''confirmation_id'') \<and>
         (require_owner_signature rule \<longrightarrow> tk_owner_approved_by t \<noteq> None)))"
proof -
  obtain rq args tk where run: "current = Some rq" "has_scope rq s" "\<not> w_locked w" "w_calls w' = w_calls w @ [args]"
      "snd (require_confirmation_gate L (sql_api L) now new_id g current kwargs (w_store w)) = Inr (Run args tk)"
    using assms(4) write_tool_calls [of L fmt "sql_api L" now new_id i s tool sanitizer g current body kwargs w]
    unfolding assms(3) by (auto split: option.splits sum.splits gate_result.splits if_splits)
  obtain key rule where key: "cg_policy_key g (dpop kwargs ''confirmation_id'') = Inr key" "rule = policy_get (cg_policy g) key"
      "(case cg_checks g of None \<Rightarrow> True | Some checks \<Rightarrow> checks rule = Inr ())"
    using run(1,5)
    by (auto simp: require_confirmation_gate_def require_current_request_def Let_def split: sum.splits option.splits)
  show ?thesis
  proof (cases "require_confirmation rule")
    case True
    then have "gated g current kwargs rq key rule" using run(1) key by (simp add: gated_def split: option.splits)
    from sql.gate_run [OF assms(1,2) this run(5)] show ?thesis using run key by blast
  qed (use run key in blast)
qed

theorem write_tool_guarded_witness:
  "w_calls (fst (write_tool example_libs (\<lambda>_. []) (sql_api example_libs) 5 ''c2'' ''m1'' APPS_REMOVE ''app_remove'' None
     example_gate (Some LOCAL_STDIO_REQUEST) (\<lambda>args sys. (sys, Inr JNull)) [(''confirmation_id'', JStr ''c1'')] example_world)) = []"
proof -
  let ?r = "write_tool example_libs (\<lambda>_. []) (sql_api example_libs) 5 ''c2'' ''m1'' APPS_REMOVE ''app_remove'' None
     example_gate (Some LOCAL_STDIO_REQUEST) (\<lambda>args sys. (sys, Inr JNull)) [(''confirmation_id'', JStr ''c1'')] example_world"
  have store: "w_store example_world = sql_init 300 (Some 900)
      [(''c1'', (sql_row_of example_libs example_ticket)\<lparr>row_owner_approved_by := Some ''owner''\<rparr>)]"
    by (simp add: example_world_def example_sql_created example_sql_approved)
  have "sql_good example_libs 300 900 (w_store example_world)" "sql_view example_libs (w_store example_world) [] = None"
    unfolding store by (simp_all add: sql_good_def sql_view_def sql_init_def)
  moreover have "sql_view example_libs (w_store example_world) ''c1'' = Some (t, m) \<Longrightarrow> tk_pubkey t = ''agent''" for t m
    unfolding store by (auto simp: sql_view_def row_view_def sql_init_def sql_row_of_def example_ticket_def make_ticket_def)
  moreover have "require_confirmation (policy_get (cg_policy example_gate) ''apps.remove'')"
    by (simp add: example_gate_def policy_get_def DEFAULT_POLICY_def default_rule_def)
  moreover have "cg_policy_key example_gate args = Inr ''apps.remove''" for args by (simp add: example_gate_def)
  moreover have "confirmation_arg [(''confirmation_id'', JStr ''c1'')] = ''c1''" by (simp add: confirmation_arg_def)
  moreover have "rq_pubkey LOCAL_STDIO_REQUEST = ''local-stdio''"
    by (simp add: LOCAL_STDIO_REQUEST_def LOCAL_STDIO_IDENTITY_def)
  moreover have "w_calls example_world = []" by (simp add: example_world_def)
  ultimately show ?thesis
    using write_tool_guarded [of example_libs 300 900 example_world "\<lambda>_. []" 5 "''c2''" "''m1''" APPS_REMOVE "''app_remove''"
        None example_gate "Some LOCAL_STDIO_REQUEST" "\<lambda>args sys. (sys, Inr JNull)" "[(''confirmation_id'', JStr ''c1'')]"
        "fst ?r" "snd ?r"]
    by (cases "w_calls (fst ?r) = []") auto
qed

end
