(* ===== verification/Concord_Json.thy ===== *)
theory Concord_Json
  imports Nostr
begin

text \<open>
  What the Concord modules share: how Python tests and reads the values of a decoded JSON event (tags as
  nested lists, \<open>isdigit\<close> and \<open>int\<close>, membership in a set literal), unsigned events, and bytes.
\<close>

subsection \<open>Tags and texts\<close>

text \<open>The tags of a rumor that are lists, and those of one name with a minimal length.\<close>

fun tag_rows :: "json \<Rightarrow> json list list" where
  "tag_rows (JList ts) = concat (map (\<lambda>t. case t of JList xs \<Rightarrow> [xs] | _ \<Rightarrow> []) ts)"
| "tag_rows _ = []"

definition tags_named :: "nat \<Rightarrow> string \<Rightarrow> json \<Rightarrow> json list list" where
  "tags_named n name tags = filter (\<lambda>t. n \<le> length t \<and> t \<noteq> [] \<and> hd t = JStr name) (tag_rows tags)"

definition isdigit :: "string \<Rightarrow> bool" where
  "isdigit s = (s \<noteq> [] \<and> list_all is_digit s)"

fun digit_text :: "json \<Rightarrow> bool" where
  "digit_text (JStr s) = isdigit s"
| "digit_text _ = False"

text \<open>\<open>int\<close> of a text that \<open>isdigit\<close> accepts fails on superscripts.\<close>

definition int_of_text :: "string \<Rightarrow> exn + int" where
  "int_of_text s = (case parse_int s of
      None \<Rightarrow> Inl (Exn ValueError (''invalid literal for int() with base 10: '' @ py_repr s))
    | Some i \<Rightarrow> Inr i)"

text \<open>\<open>v in {k, ...}\<close> for a set of integers and for a set of texts: lists and dictionaries have no hash.\<close>

definition hashable :: "json \<Rightarrow> exn + unit" where
  "hashable v = (case v of
      JList _ \<Rightarrow> Inl (Exn TypeError ''unhashable type: list'')
    | JObj _ \<Rightarrow> Inl (Exn TypeError ''unhashable type: dict'')
    | _ \<Rightarrow> Inr ())"

definition in_ints :: "json \<Rightarrow> int list \<Rightarrow> exn + bool" where
  "in_ints v ks = ebind (hashable v) (\<lambda>_. Inr (list_ex (eq_int v) ks))"

definition in_texts :: "json \<Rightarrow> string list \<Rightarrow> exn + bool" where
  "in_texts v ks = ebind (hashable v) (\<lambda>_. Inr (v \<in> set (map JStr ks)))"

fun text_of_length :: "nat \<Rightarrow> json \<Rightarrow> bool" where
  "text_of_length n (JStr s) = (length s = n)"
| "text_of_length n _ = False"

fun int_value :: "json \<Rightarrow> int" where
  "int_value (JInt i) = i"
| "int_value (JBool b) = (if b then 1 else 0)"
| "int_value _ = 0"

fun text_or_none :: "json \<Rightarrow> string option" where
  "text_or_none (JStr s) = Some s"
| "text_or_none _ = None"

text \<open>\<open>_tag\<close>: the first tag of a name whose value is a text.\<close>

definition tag_text :: "json \<Rightarrow> string \<Rightarrow> string option" where
  "tag_text tags name =
     (case filter is_str (map (\<lambda>t. t ! 1) (tags_named 2 name tags)) of JStr s # _ \<Rightarrow> Some s | _ \<Rightarrow> None)"

subsection \<open>Bytes\<close>

definition hex_value :: "char \<Rightarrow> nat" where
  "hex_value c = (let n = code c in if n \<le> 57 then n - 48 else if n \<le> 70 then n - 55 else n - 87)"

text \<open>\<open>bytes.fromhex\<close>, with \<open>None\<close> for its \<open>ValueError\<close>.\<close>

fun fromhex :: "string \<Rightarrow> string option" where
  "fromhex [] = Some []"
| "fromhex [c] = (if is_ascii_space c then Some [] else None)"
| "fromhex (c # d # s) =
     (if is_ascii_space c then fromhex (d # s)
      else if is_hex_digit c \<and> is_hex_digit d
      then map_option ((#) (char_of (16 * hex_value c + hex_value d))) (fromhex s)
      else None)"

lemma fromhex_defined: "fromhex s \<noteq> None \<longleftrightarrow> fromhex_ok s"
  by (induction s rule: fromhex.induct) auto

text \<open>\<open>n.to_bytes(k, 'big')\<close> of a number below \<open>256 ^ k\<close>.\<close>

fun to_bytes :: "nat \<Rightarrow> nat \<Rightarrow> string" where
  "to_bytes 0 n = []"
| "to_bytes (Suc k) n = to_bytes k (n div 256) @ [char_of (n mod 256)]"

lemma length_to_bytes [simp]: "length (to_bytes k n) = k"
  by (induction k n rule: to_bytes.induct) auto

lemma to_bytes_inj: "n < 256 ^ k \<Longrightarrow> m < 256 ^ k \<Longrightarrow> to_bytes k n = to_bytes k m \<Longrightarrow> n = m"
proof (induction k arbitrary: n m)
  case (Suc k)
  from Suc.prems have eq: "to_bytes k (n div 256) = to_bytes k (m div 256)" and
    low: "(char_of (n mod 256) :: char) = char_of (m mod 256)" by simp_all
  have "n mod 256 = m mod 256" using arg_cong [OF low, of "of_char :: char \<Rightarrow> nat"] by simp
  moreover have "n div 256 = m div 256"
    using Suc.prems(1,2) by (intro Suc.IH [OF _ _ eq]) (simp_all add: less_mult_imp_div_less mult.commute)
  ultimately show ?case by (metis div_mult_mod_eq)
qed simp

end
