(* ===== verification/Concord_Control.thy ===== *)
theory Concord_Control
  imports Concord_Json
begin

unbundle bit_operations_syntax

text \<open>
  \<^verbatim>\<open>src/yunohost_mcp/concord_control.py\<close>: the Control Plane of a Concord community.  Role and Grant editions
  (\<open>vsk\<close> 1 and 3) form chains by predecessor hash; the roster is the authority that reaches outward
  from the owner's editions; channel editions (\<open>vsk\<close> 2) fold to the list of channels.
\<close>

subsection \<open>Editions\<close>

definition MANAGE_ROLES :: int where "MANAGE_ROLES = 1"
definition MANAGE_CHANNELS :: int where "MANAGE_CHANNELS = 2"

record channel_edition =
  ce_channel_id :: string
  ce_version :: int
  ce_previous :: "string option"
  ce_hash :: string
  ce_event_id :: string
  ce_name :: string
  ce_private :: bool
  ce_deleted :: bool

record roster_edition =
  re_event_id :: string
  re_actor :: string
  re_entity_id :: string
  re_version :: int
  re_previous :: "string option"
  re_hash :: string
  re_vsk :: string
  re_content :: dict
  re_event :: dict

record roster_member =
  rm_position :: int
  rm_permissions :: int

definition value_error :: "string \<Rightarrow> exn" where
  "value_error msg = Exn ValueError msg"

definition length_prefixed :: "string \<Rightarrow> string" where
  "length_prefixed bytes = to_bytes 8 (length bytes) @ bytes"

definition edition_preimage :: "string \<Rightarrow> int \<Rightarrow> string \<Rightarrow> string \<Rightarrow> string" where
  "edition_preimage entity version previous_bytes content =
     length_prefixed ''vector-community/v1/edition'' @ entity @ to_bytes 8 (nat version) @ previous_bytes @
     length_prefixed (utf8_encode content)"

definition edition_hash :: "libs \<Rightarrow> string \<Rightarrow> int \<Rightarrow> string option \<Rightarrow> string \<Rightarrow> exn + string" where
  "edition_hash L channel_id version previous content =
     (case fromhex channel_id of
        None \<Rightarrow> Inl (value_error ''channel_id must be lowercase 32-byte hex'')
      | Some entity_id \<Rightarrow>
          ebind (guard (length entity_id = 32 \<and> channel_id = str_lower channel_id)
            (value_error ''channel_id must be lowercase 32-byte hex'')) (\<lambda>_.
          ebind (guard (0 < version \<and> version \<le> 18446744073709551615)
            (value_error ''edition version must fit a positive unsigned 64-bit integer'')) (\<lambda>_.
          ebind (case previous of
              None \<Rightarrow> Inr (char_of (0 :: nat) # replicate 32 (char_of (0 :: nat)))
            | Some p \<Rightarrow>
                (case fromhex p of
                   None \<Rightarrow> Inl (value_error ''previous edition hash must be 32-byte hex'')
                 | Some bytes \<Rightarrow>
                     if length bytes = 32 then Inr (char_of (1 :: nat) # bytes)
                     else Inl (value_error ''previous edition hash must be 32-byte hex''))) (\<lambda>previous_bytes.
          Inr (sha256_bytes L (edition_preimage entity_id version previous_bytes content))))))"

definition parse_roster_edition :: "libs \<Rightarrow> json \<Rightarrow> roster_edition option" where
  "parse_roster_edition L event =
     (case event of
        JObj d \<Rightarrow>
          if \<not> eq_int (dget d ''kind'') 3308 then None
          else (let tags = dget d ''tags''; previous = tag_text tags ''ep'' in
            case (text_or_none (dget d ''id''), text_or_none (dget d ''pubkey''), tag_text tags ''eid'',
                  tag_text tags ''ev'', tag_text tags ''vsk'', text_or_none (dget d ''content'')) of
              (Some event_id, Some actor, Some entity_id, Some version_text, Some vsk, Some content_text) \<Rightarrow>
                if length event_id \<noteq> 64 \<or> length actor \<noteq> 64 \<or> length entity_id \<noteq> 64 then None
                else (case (fromhex (actor @ entity_id), parse_int version_text, json_loads L content_text) of
                    (Some _, Some version, Inr content) \<Rightarrow>
                      (case (edition_hash L entity_id version previous content_text, content) of
                         (Inr digest, JObj c) \<Rightarrow>
                           if version \<le> 0 then None
                           else Some \<lparr>re_event_id = event_id, re_actor = actor, re_entity_id = entity_id,
                             re_version = version, re_previous = previous, re_hash = digest, re_vsk = vsk,
                             re_content = c, re_event = d\<rparr>
                       | _ \<Rightarrow> None)
                  | _ \<Rightarrow> None)
            | _ \<Rightarrow> None)
      | _ \<Rightarrow> None)"

definition parse_edition :: "libs \<Rightarrow> json \<Rightarrow> channel_edition option" where
  "parse_edition L event =
     (case event of
        JObj d \<Rightarrow>
          if \<not> eq_int (dget d ''kind'') 3308 \<or> \<not> text_of_length 64 (dget d ''id'') then None
          else (let tags = dget d ''tags''; previous = tag_text tags ''ep'' in
            if tag_text tags ''vsk'' \<noteq> Some ''2'' then None
            else (case (tag_text tags ''eid'', tag_text tags ''ev'', text_or_none (dget d ''content'')) of
              (Some channel_id, Some version_text, Some content) \<Rightarrow>
                (case parse_int version_text of
                   None \<Rightarrow> None
                 | Some version \<Rightarrow>
                     if show_int version \<noteq> version_text \<or> version \<le> 0 then None
                     else if fromhex channel_id = None \<or> length channel_id \<noteq> 64 \<or> channel_id \<noteq> str_lower channel_id then None
                     else (case json_loads L content of
                         Inr (JObj state) \<Rightarrow>
                           (case dget state ''name'' of
                              JStr name \<Rightarrow>
                                if 64 < length (utf8_encode name) then None
                                else (case edition_hash L channel_id version previous content of
                                    Inl _ \<Rightarrow> None
                                  | Inr digest \<Rightarrow> Some \<lparr>ce_channel_id = channel_id, ce_version = version,
                                      ce_previous = previous, ce_hash = digest, ce_event_id = text_of (dget d ''id''),
                                      ce_name = name, ce_private = (dget state ''private'' = JBool True),
                                      ce_deleted = (dget state ''deleted'' = JBool True)\<rparr>)
                            | _ \<Rightarrow> None)
                       | _ \<Rightarrow> None))
            | _ \<Rightarrow> None))
      | _ \<Rightarrow> None)"

subsection \<open>Chains\<close>

text \<open>First occurrences, in order: the keys of a dictionary filled by \<open>setdefault\<close>.\<close>

definition firsts :: "'a list \<Rightarrow> 'a list" where
  "firsts xs = rev (remdups (rev xs))"

text \<open>The versions of one entity, ascending; \<open>chosen\<close> holds the selected edition of each version.\<close>

definition versions_of :: "('e \<Rightarrow> int) \<Rightarrow> 'e list \<Rightarrow> int list" where
  "versions_of ver es = sort (remdups (map ver es))"

definition follows :: "roster_edition \<Rightarrow> int \<Rightarrow> (int \<times> roster_edition) list \<Rightarrow> bool" where
  "follows candidate version chosen =
     ((version = 1 \<and> re_previous candidate = None) \<or>
      (case map_of chosen (version - 1) of
         None \<Rightarrow> False | Some previous \<Rightarrow> re_previous candidate = Some (re_hash previous)))"

fun choose_roster :: "roster_edition list \<Rightarrow> int list \<Rightarrow> (int \<times> roster_edition) list \<Rightarrow> (int \<times> roster_edition) list" where
  "choose_roster es [] chosen = chosen"
| "choose_roster es (v # vs) chosen =
     (case find (\<lambda>e. follows e v chosen) (sort_key re_event_id (filter (\<lambda>e. re_version e = v) es)) of
        None \<Rightarrow> choose_roster es vs chosen
      | Some e \<Rightarrow> choose_roster es vs ((v, e) # chosen))"

definition newest_version :: "(int \<times> 'e) list \<Rightarrow> 'e option" where
  "newest_version chosen = (if chosen = [] then None else map_of chosen (Max (fst ` set chosen)))"

type_synonym heads = "((string \<times> string) \<times> roster_edition) list"

definition roster_key :: "roster_edition \<Rightarrow> string \<times> string" where
  "roster_key e = (re_vsk e, re_entity_id e)"

definition is_roster :: "roster_edition \<Rightarrow> bool" where
  "is_roster e = (re_vsk e \<in> {''1'', ''3''})"

definition select_roster_heads :: "roster_edition list \<Rightarrow> string set \<Rightarrow> heads" where
  "select_roster_heads editions accepted =
     (let es = filter (\<lambda>e. re_event_id e \<in> accepted \<and> is_roster e) editions
      in concat (map (\<lambda>key.
           let own = filter (\<lambda>e. roster_key e = key) es
           in case newest_version (choose_roster own (versions_of re_version own) []) of
                None \<Rightarrow> [] | Some e \<Rightarrow> [(key, e)])
         (firsts (map roster_key es))))"

subsection \<open>Members and grants\<close>

text \<open>\<open>int(value)\<close> of a JSON value, with \<open>None\<close> for \<open>TypeError\<close> and \<open>ValueError\<close>.\<close>

fun int_of_json :: "json \<Rightarrow> int option" where
  "int_of_json (JInt i) = Some i"
| "int_of_json (JBool b) = Some (if b then 1 else 0)"
| "int_of_json (JFloat r) = Some (py_trunc r)"
| "int_of_json (JStr s) = parse_int s"
| "int_of_json _ = None"

fun permission_bits :: "int \<Rightarrow> json list \<Rightarrow> int option" where
  "permission_bits acc [] = Some acc"
| "permission_bits acc (v # vs) = (case int_of_json v of None \<Rightarrow> None | Some i \<Rightarrow> permission_bits (acc OR i) vs)"

definition roles_of :: "heads \<Rightarrow> (string \<times> dict) list" where
  "roles_of heads = map (\<lambda>(key, e). (snd key, re_content e)) (filter (\<lambda>(key, e). fst key = ''1'') heads)"

definition grants_of :: "heads \<Rightarrow> (string \<times> roster_edition) list" where
  "grants_of heads = map (\<lambda>(key, e). (snd key, e)) (filter (\<lambda>(key, e). fst key = ''3'') heads)"

definition granted_roles :: "(string \<times> dict) list \<Rightarrow> json list \<Rightarrow> dict list" where
  "granted_roles roles role_ids =
     concat (map (\<lambda>i. case i of JStr r \<Rightarrow> (case map_of roles r of None \<Rightarrow> [] | Some c \<Rightarrow> [c]) | _ \<Rightarrow> []) role_ids)"

definition granted_member :: "(string \<times> dict) list \<Rightarrow> dict \<Rightarrow> (string \<times> roster_member) option" where
  "granted_member roles content =
     (case (dget content ''member'', dget content ''role_ids'') of
        (JStr member, JList role_ids) \<Rightarrow>
          (let states = granted_roles roles role_ids;
               positions = map int_value (filter is_int (map (\<lambda>c. dget c ''position'') states))
           in if length member \<noteq> 64 \<or> states = [] \<or> positions = [] then None
              else map_option (\<lambda>bits. (member, \<lparr>rm_position = Min (set positions), rm_permissions = bits\<rparr>))
                     (permission_bits 0 (map (\<lambda>c. dget_default c ''permissions'' (JStr ''0'')) states)))
      | _ \<Rightarrow> None)"

definition roster_members :: "heads \<Rightarrow> string \<Rightarrow> (string \<times> roster_member) list" where
  "roster_members heads owner =
     fold (\<lambda>(entity, e) members.
         case granted_member (roles_of heads) (re_content e) of
           None \<Rightarrow> members | Some (member, rm) \<Rightarrow> AList.update member rm members)
       (grants_of heads) [(owner, \<lparr>rm_position = 0, rm_permissions = MANAGE_ROLES OR MANAGE_CHANNELS\<rparr>)]"

definition vac_tag :: "json \<Rightarrow> string list" where
  "vac_tag tags = (case tags_named 1 ''vac'' tags of
      [] \<Rightarrow> [] | t # _ \<Rightarrow> map text_of (filter is_str (take 3 (drop 1 t))))"

definition has_current_grant_citation :: "roster_edition \<Rightarrow> (string \<times> roster_edition) list \<Rightarrow> exn + bool" where
  "has_current_grant_citation edition grants =
     (case vac_tag (dget (re_event edition) ''tags'') of
        [g, v, h] \<Rightarrow>
          if \<not> isdigit v then Inr False
          else (case map_of grants g of
              None \<Rightarrow> Inr False
            | Some grant \<Rightarrow> ebind (int_of_text v) (\<lambda>n.
                Inr (re_version grant = n \<and> re_hash grant = h \<and> dget (re_content grant) ''member'' = JStr (re_actor edition))))
      | _ \<Rightarrow> Inr False)"

subsection \<open>The roster\<close>

text \<open>One edition that is not accepted yet, against the roster that the accepted ones give.\<close>

definition above :: "roster_member \<Rightarrow> json \<Rightarrow> bool" where
  "above actor position = (is_int position \<and> rm_position actor < int_value position)"

definition admits_grant :: "heads \<Rightarrow> (string \<times> roster_member) list \<Rightarrow> roster_member \<Rightarrow> dict \<Rightarrow> exn + bool" where
  "admits_grant heads members actor content =
     (case dget content ''role_ids'' of
        JList role_ids \<Rightarrow>
          (let positions = map (\<lambda>c. dget c ''position'') (granted_roles (roles_of heads) role_ids)
           in if positions \<noteq> [] \<and> list_all (above actor) positions then Inr True
              else if role_ids = [] then
                (let target = dget content ''member'' in
                 ebind (hashable target) (\<lambda>_. Inr (case target of
                     JStr m \<Rightarrow> (case map_of members m of None \<Rightarrow> False | Some rank \<Rightarrow> rm_position actor < rm_position rank)
                   | _ \<Rightarrow> False)))
              else Inr False)
      | _ \<Rightarrow> Inr False)"

definition admits :: "string \<Rightarrow> heads \<Rightarrow> string set \<Rightarrow> roster_edition \<Rightarrow> exn + bool" where
  "admits owner heads accepted e =
     (let members = roster_members heads owner in
      if re_event_id e \<in> accepted \<or> \<not> is_roster e then Inr False
      else (case map_of members (re_actor e) of
          None \<Rightarrow> Inr False
        | Some actor \<Rightarrow>
            if rm_permissions actor AND MANAGE_ROLES = 0 then Inr False
            else ebind (if re_actor e \<noteq> owner then has_current_grant_citation e (grants_of heads) else Inr True) (\<lambda>cited.
              if \<not> cited then Inr False
              else if re_vsk e = ''1'' then Inr (above actor (dget (re_content e) ''position''))
              else admits_grant heads members actor (re_content e))))"

fun expand_roster :: "string \<Rightarrow> roster_edition list \<Rightarrow> nat \<Rightarrow> string set \<Rightarrow> exn + string set" where
  "expand_roster owner parsed 0 accepted = Inr accepted"
| "expand_roster owner parsed (Suc n) accepted =
     (let heads = select_roster_heads parsed accepted in
      ebind (emap (\<lambda>e. ebind (admits owner heads accepted e) (\<lambda>yes. Inr (if yes then [re_event_id e] else []))) parsed) (\<lambda>ids.
        let additions = set (concat ids)
        in if additions - accepted = {} then Inr accepted
           else expand_roster owner parsed n (accepted \<union> additions)))"

record roster =
  ro_owner :: string
  ro_members :: "(string \<times> roster_member) list"
  ro_grants :: "(string \<times> roster_edition) list"

definition parse_roster :: "libs \<Rightarrow> json list \<Rightarrow> roster_edition list" where
  "parse_roster L events = concat (map (\<lambda>event. case parse_roster_edition L event of None \<Rightarrow> [] | Some e \<Rightarrow> [e]) events)"

definition owner_editions :: "string \<Rightarrow> roster_edition list \<Rightarrow> string set" where
  "owner_editions owner parsed = set (map re_event_id (filter (\<lambda>e. re_actor e = owner \<and> is_roster e) parsed))"

definition build_roster :: "libs \<Rightarrow> json list \<Rightarrow> string \<Rightarrow> nat \<Rightarrow> exn + roster" where
  "build_roster L events owner max_iterations =
     ebind (guard (length owner = 64 \<and> owner = str_lower owner) (value_error ''owner must be lowercase 32-byte hex'')) (\<lambda>_.
       let parsed = parse_roster L events in
       ebind (expand_roster owner parsed max_iterations (owner_editions owner parsed)) (\<lambda>accepted.
         let heads = select_roster_heads parsed accepted
         in Inr \<lparr>ro_owner = owner, ro_members = roster_members heads owner, ro_grants = grants_of heads\<rparr>))"

definition authorized :: "libs \<Rightarrow> roster \<Rightarrow> json \<Rightarrow> exn + bool" where
  "authorized L roster event =
     (case parse_roster_edition L event of
        None \<Rightarrow> Inr False
      | Some e \<Rightarrow>
          if re_vsk e \<noteq> ''2'' then Inr False
          else if re_actor e = ro_owner roster then Inr True
          else (case map_of (ro_members roster) (re_actor e) of
              None \<Rightarrow> Inr False
            | Some member \<Rightarrow>
                if rm_permissions member AND MANAGE_CHANNELS = 0 then Inr False
                else has_current_grant_citation e (ro_grants roster)))"

subsection \<open>Channels\<close>

fun choose_channel :: "channel_edition list \<Rightarrow> int list \<Rightarrow> (int \<times> channel_edition) list \<Rightarrow> (int \<times> channel_edition) list" where
  "choose_channel es [] chosen = chosen"
| "choose_channel es (v # vs) chosen =
     (case sort_key ce_event_id (filter (\<lambda>e. ce_version e = v) es) of
        [] \<Rightarrow> choose_channel es vs chosen
      | candidate # _ \<Rightarrow>
          if (if v = 1 then ce_previous candidate = None
              else (case map_of chosen (v - 1) of None \<Rightarrow> False | Some p \<Rightarrow> ce_previous candidate = Some (ce_hash p)))
          then choose_channel es vs ((v, candidate) # chosen) else choose_channel es vs chosen)"

definition channel_head :: "channel_edition list \<Rightarrow> string \<Rightarrow> channel_edition option" where
  "channel_head editions channel_id =
     (let own = filter (\<lambda>e. ce_channel_id e = channel_id) editions
      in newest_version (choose_channel own (versions_of ce_version own) []))"

definition channel_dict :: "channel_edition \<Rightarrow> dict" where
  "channel_dict e =
     [(''id'', JStr (ce_channel_id e)), (''name'', JStr (ce_name e)), (''private'', JBool (ce_private e)),
      (''deleted'', JBool (ce_deleted e)), (''version'', JInt (ce_version e)), (''edition_hash'', JStr (ce_hash e))]"

definition fold_editions :: "channel_edition list \<Rightarrow> channel_edition list" where
  "fold_editions editions =
     filter (\<lambda>e. \<not> ce_deleted e) (sort_key ce_channel_id
       (concat (map (\<lambda>c. case channel_head editions c of None \<Rightarrow> [] | Some e \<Rightarrow> [e])
         (firsts (map ce_channel_id editions)))))"

definition fold_channel_metadata :: "libs \<Rightarrow> (json \<Rightarrow> exn + bool) option \<Rightarrow> json list \<Rightarrow> exn + dict list" where
  "fold_channel_metadata L authorize events =
     ebind (emap (\<lambda>event.
         ebind (case authorize of None \<Rightarrow> Inr True | Some ok \<Rightarrow> ok event) (\<lambda>accepted.
           Inr (if accepted then (case parse_edition L event of None \<Rightarrow> [] | Some e \<Rightarrow> [e]) else []))) events) (\<lambda>editions.
       Inr (map channel_dict (fold_editions (concat editions))))"

subsection \<open>The hashed bytes of an edition\<close>

lemma utf8_char_cases:
  "(utf8_char c = [c] \<and> code c < 128) \<or>
   (\<exists>b. utf8_char c = [char_of (192 + code c div 64), b] \<and> b = char_of (128 + code c mod 64) \<and> 128 \<le> code c)"
  by (simp add: utf8_char_def Let_def not_less)

lemma utf8_char_append:
  assumes "utf8_char c @ xs = utf8_char d @ ys"
  shows "c = d \<and> xs = ys"
proof -
  have small: "code c < 256" for c :: char by (simp add: code_def)
  have head: "code (char_of (192 + code c div 64)) = 192 + code c div 64" for c
  proof -
    have "192 + code c div 64 < 256" using small [of c] by linarith
    then show ?thesis by (simp add: code_def)
  qed
  have tail: "code (char_of (128 + code c mod 64)) = 128 + code c mod 64" for c
    by (simp add: code_def)
  have inj: "c = d" if "code c = code d" for c d using that by (simp add: code_def)
  show ?thesis
  proof (cases "code c < 128")
    case True
    with assms head [of d] show ?thesis by (auto simp: utf8_char_def Let_def split: if_splits)
  next
    case False
    with assms head [of c] have d: "128 \<le> code d" by (auto simp: utf8_char_def Let_def split: if_splits)
    with False assms have eqs: "char_of (192 + code c div 64) = (char_of (192 + code d div 64) :: char)"
      "char_of (128 + code c mod 64) = (char_of (128 + code d mod 64) :: char)" "xs = ys"
      by (simp_all add: utf8_char_def Let_def)
    then have "code c div 64 = code d div 64" "code c mod 64 = code d mod 64"
      using head [of c] head [of d] tail [of c] tail [of d] by (metis add_left_cancel)+
    then have "code c = code d" by (metis div_mult_mod_eq)
    with eqs(3) inj show ?thesis by blast
  qed
qed

lemma utf8_encode_inj: "utf8_encode s = utf8_encode t \<Longrightarrow> s = t"
proof (induction s arbitrary: t)
  case Nil
  then show ?case
    using utf8_char_cases [of "hd t"] by (cases t) (auto simp: utf8_encode_def)
next
  case (Cons c s)
  show ?case
  proof (cases t)
    case Nil
    with Cons.prems utf8_char_cases [of c] show ?thesis by (auto simp: utf8_encode_def)
  next
    case (Cons d t')
    with Cons.prems have "utf8_char c @ utf8_encode s = utf8_char d @ utf8_encode t'" by (simp add: utf8_encode_def)
    from utf8_char_append [OF this] Cons.IH Cons show ?thesis by blast
  qed
qed

text \<open>
  An edition hash binds everything it covers. Two editions hash the same bytes only if entity,
  version, predecessor and content are the same: no field can flow into its neighbour.
\<close>

theorem edition_preimage_injective:
  assumes "length entity = 32" "length entity' = 32" "length previous = 33" "length previous' = 33"
    and "0 < version" "version \<le> 18446744073709551615" "0 < version'" "version' \<le> 18446744073709551615"
    and "edition_preimage entity version previous content = edition_preimage entity' version' previous' content'"
  shows "entity = entity' \<and> version = version' \<and> previous = previous' \<and> content = content'"
proof -
  have parts: "entity = entity'" "to_bytes 8 (nat version) = to_bytes 8 (nat version')" "previous = previous'"
    "utf8_encode content = utf8_encode content'"
    using assms(1-4,9) by (simp_all add: edition_preimage_def length_prefixed_def)
  have "nat version < 256 ^ 8" "nat version' < 256 ^ 8" using assms(5-8) by simp_all
  with parts(2) have "nat version = nat version'" by (intro to_bytes_inj [of _ 8])
  with assms(5,7) have "version = version'" by simp
  with parts utf8_encode_inj show ?thesis by blast
qed

theorem edition_preimage_injective_witness:
  "edition_preimage (replicate 32 CHR ''e'') 1 (replicate 33 CHR ''p'') ''x'' \<noteq>
   edition_preimage (replicate 32 CHR ''e'') 2 (replicate 33 CHR ''p'') ''x''"
  using edition_preimage_injective [of "replicate 32 CHR ''e''" "replicate 32 CHR ''e''" "replicate 33 CHR ''p''"
      "replicate 33 CHR ''p''" 1 2 "''x''" "''x''"] by auto

end
