(* ===== verification/Concord_Channels.thy ===== *)
theory Concord_Channels
  imports Concord_Control
begin

text \<open>
  What the fold of channel editions (\<^verbatim>\<open>src/yunohost_mcp/concord_control.py\<close>) computes: the reference of an
  intact chain, the equivalence of the fold with it, and that the order of delivery does not matter.
\<close>

subsection \<open>Channel chains\<close>

text \<open>
  The reference: an edition is intact if it has the lowest id of its version and is a first version
  without predecessor, or names the hash of the intact edition one version below.
\<close>

definition lowest :: "channel_edition set \<Rightarrow> channel_edition \<Rightarrow> bool" where
  "lowest E e \<longleftrightarrow> e \<in> E \<and> (\<forall>e' \<in> E. ce_channel_id e' = ce_channel_id e \<longrightarrow> ce_version e' = ce_version e \<longrightarrow>
     ce_event_id e \<le> ce_event_id e')"

inductive intact :: "channel_edition set \<Rightarrow> channel_edition \<Rightarrow> bool" for E where
  first: "lowest E e \<Longrightarrow> ce_version e = 1 \<Longrightarrow> ce_previous e = None \<Longrightarrow> intact E e"
| successor: "intact E p \<Longrightarrow> lowest E e \<Longrightarrow> ce_version e \<noteq> 1 \<Longrightarrow> ce_channel_id e = ce_channel_id p \<Longrightarrow>
    ce_version e = ce_version p + 1 \<Longrightarrow> ce_previous e = Some (ce_hash p) \<Longrightarrow> intact E e"

lemma intact_lowest: "intact E e \<Longrightarrow> lowest E e"
  by (cases rule: intact.cases) auto

lemma lowest_unique:
  assumes "inj_on ce_event_id E" "lowest E a" "lowest E b" "ce_channel_id a = ce_channel_id b" "ce_version a = ce_version b"
  shows "a = b"
proof -
  have "ce_event_id a = ce_event_id b" using assms(2-5) by (auto simp: lowest_def intro: antisym)
  with assms(1-3) show ?thesis by (auto simp: lowest_def dest: inj_onD)
qed

lemma sorted_sort_key_hd:
  assumes "sort_key f xs = x # ys"
  shows "x \<in> set xs \<and> (\<forall>y \<in> set xs. f x \<le> f y)"
proof -
  have "sorted (map f (x # ys))" using assms by (metis sorted_sort_key)
  moreover have "set xs = set (x # ys)" using assms by (metis set_sort)
  ultimately show ?thesis by auto
qed

lemma choose_channel_spec:
  assumes "inj_on ce_event_id (set es)" "\<forall>e \<in> set es. ce_channel_id e = c"
    and "sorted_wrt (<) (us @ vs)" "set (us @ vs) = ce_version ` set es"
    and "\<And>v e. map_of chosen v = Some e \<longleftrightarrow> v \<in> set us \<and> intact (set es) e \<and> ce_version e = v"
  shows "map_of (choose_channel es vs chosen) v = Some e \<longleftrightarrow> intact (set es) e \<and> ce_version e = v"
  using assms(3-5)
proof (induction vs arbitrary: us chosen)
  case Nil
  have "v \<in> set us" if "intact (set es) e" "ce_version e = v"
    using Nil.prems(2) intact_lowest [OF that(1)] that(2) by (auto simp: lowest_def)
  with Nil.prems(3) show ?case by auto
next
  case (Cons v' vs)
  let ?xs = "filter (\<lambda>e. ce_version e = v') es"
  have "v' \<in> ce_version ` set es" unfolding Cons.prems(2) [symmetric] by simp
  then have "?xs \<noteq> []" by (auto simp: filter_empty_conv)
  then obtain x ys where sorted: "sort_key ce_event_id ?xs = x # ys"
    by (metis list.exhaust sort_key_simps(1) set_empty set_sort)
  have x: "x \<in> set es" "ce_version x = v'" "\<forall>y \<in> set es. ce_version y = v' \<longrightarrow> ce_event_id x \<le> ce_event_id y"
    using sorted_sort_key_hd [OF sorted] by auto
  then have low: "lowest (set es) x" using assms(2) by (auto simp: lowest_def)
  let ?ok = "if v' = 1 then ce_previous x = None
    else (case map_of chosen (v' - 1) of None \<Rightarrow> False | Some p \<Rightarrow> ce_previous x = Some (ce_hash p))"
  have below: "w \<in> set us" if "w = v' - 1" "w \<in> ce_version ` set es" for w
  proof -
    have "w \<in> set (us @ v' # vs)" using that(2) unfolding Cons.prems(2) .
    with that(1) Cons.prems(1) show ?thesis by (auto simp: sorted_wrt_append)
  qed
  have ok: "?ok \<longleftrightarrow> intact (set es) x"
  proof (cases "v' = 1")
    case True
    then show ?thesis using low x(2) by (auto intro: intact.first elim: intact.cases)
  next
    case False
    have "intact (set es) x \<longleftrightarrow> (\<exists>p. map_of chosen (v' - 1) = Some p \<and> ce_previous x = Some (ce_hash p))"
    proof
      assume "intact (set es) x"
      then obtain p where p: "intact (set es) p" "ce_version x = ce_version p + 1" "ce_previous x = Some (ce_hash p)"
        using False x(2) by (cases rule: intact.cases) auto
      then have "ce_version p \<in> set us" using below x(2) intact_lowest [OF p(1)] by (auto simp: lowest_def)
      with p x(2) Cons.prems(3) show "\<exists>p. map_of chosen (v' - 1) = Some p \<and> ce_previous x = Some (ce_hash p)" by auto
    next
      assume "\<exists>p. map_of chosen (v' - 1) = Some p \<and> ce_previous x = Some (ce_hash p)"
      then obtain p where p: "intact (set es) p" "ce_version p = v' - 1" "ce_previous x = Some (ce_hash p)"
        using Cons.prems(3) by blast
      have "ce_channel_id p = ce_channel_id x"
        using assms(2) x(1) intact_lowest [OF p(1)] by (auto simp: lowest_def)
      with p low x(2) False show "intact (set es) x" by (rule_tac intact.successor [of _ p]) auto
    qed
    moreover have "?ok \<longleftrightarrow> (\<exists>p. map_of chosen (v' - 1) = Some p \<and> ce_previous x = Some (ce_hash p))"
      using False by (cases "map_of chosen (v' - 1)") simp_all
    ultimately show ?thesis by simp
  qed
  have new: "map_of (if ?ok then (v', x) # chosen else chosen) w = Some e \<longleftrightarrow>
      w \<in> set (us @ [v']) \<and> intact (set es) e \<and> ce_version e = w" for w e
  proof -
    have "e = x" if "intact (set es) e" "ce_version e = v'"
      using lowest_unique [OF assms(1) intact_lowest [OF that(1)] low] that(2) x(1,2) assms(2) intact_lowest [OF that(1)]
      by (auto simp: lowest_def)
    moreover have "v' \<notin> set us" using Cons.prems(1) by (auto simp: sorted_wrt_append)
    ultimately show ?thesis using ok x(2) Cons.prems(3) by auto
  qed
  have "choose_channel es (v' # vs) chosen = choose_channel es vs (if ?ok then (v', x) # chosen else chosen)"
    by (simp add: sorted)
  then show ?case
    using Cons.IH [of "us @ [v']" "if ?ok then (v', x) # chosen else chosen"] Cons.prems(1,2) new by simp
qed

lemma versions_of_sorted: "sorted_wrt (<) (versions_of f xs) \<and> set (versions_of f xs) = f ` set xs"
  by (simp add: versions_of_def strict_sorted_iff)

lemma newest_version_Some:
  assumes "\<And>v e. map_of chosen v = Some e \<longleftrightarrow> P e \<and> ver e = v"
  shows "newest_version chosen = Some e \<longleftrightarrow> P e \<and> (\<forall>e'. P e' \<longrightarrow> ver e' \<le> ver e)"
proof -
  have dom: "fst ` set chosen = ver ` {e. P e}"
    using assms by (force simp: dom_map_of_conv_image_fst [symmetric])
  show ?thesis
  proof (cases "chosen = []")
    case True
    with assms show ?thesis by (auto simp: newest_version_def)
  next
    case False
    let ?m = "Max (fst ` set chosen)"
    have fin: "finite (ver ` {e. P e})" "ver ` {e. P e} \<noteq> {}" using False dom [symmetric] by auto
    have "newest_version chosen = Some e \<longleftrightarrow> P e \<and> ver e = ?m" using False assms by (auto simp: newest_version_def)
    also have "\<dots> \<longleftrightarrow> P e \<and> (\<forall>e'. P e' \<longrightarrow> ver e' \<le> ver e)"
      unfolding dom using fin by (auto simp: Max_ge intro: antisym Max_eqI [symmetric])
    finally show ?thesis .
  qed
qed

lemma intact_own:
  assumes "ce_channel_id e = c"
  shows "intact {e \<in> E. ce_channel_id e = c} e \<longleftrightarrow> intact E e"
proof
  assume "intact {e \<in> E. ce_channel_id e = c} e"
  then show "intact E e"
  proof induction
    case (first e)
    then show ?case by (intro intact.first) (auto simp: lowest_def)
  next
    case (successor p e)
    then show ?case by (rule_tac intact.successor [of _ p]) (auto simp: lowest_def)
  qed
next
  assume "intact E e"
  then show "intact {e \<in> E. ce_channel_id e = c} e" using assms
  proof induction
    case (first e)
    then show ?case by (intro intact.first) (auto simp: lowest_def)
  next
    case (successor p e)
    then show ?case by (rule_tac intact.successor [of _ p]) (auto simp: lowest_def)
  qed
qed

definition top_edition :: "channel_edition set \<Rightarrow> channel_edition \<Rightarrow> bool" where
  "top_edition E e \<longleftrightarrow> intact E e \<and>
     (\<forall>e'. intact E e' \<longrightarrow> ce_channel_id e' = ce_channel_id e \<longrightarrow> ce_version e' \<le> ce_version e)"

lemma channel_head_spec:
  assumes "inj_on ce_event_id (set editions)"
  shows "channel_head editions c = Some e \<longleftrightarrow> top_edition (set editions) e \<and> ce_channel_id e = c"
proof -
  let ?own = "filter (\<lambda>e. ce_channel_id e = c) editions"
  have own: "set ?own = {e \<in> set editions. ce_channel_id e = c}" by auto
  have "channel_head editions c = newest_version (choose_channel ?own (versions_of ce_version ?own) [])"
    by (simp add: channel_head_def Let_def)
  also have "\<dots> = Some e \<longleftrightarrow> intact (set ?own) e \<and> (\<forall>e'. intact (set ?own) e' \<longrightarrow> ce_version e' \<le> ce_version e)"
    using versions_of_sorted [of ce_version ?own] assms
    by (intro newest_version_Some choose_channel_spec [where us = "[]" and c = c]) (auto intro: inj_on_subset)
  also have "\<dots> \<longleftrightarrow> top_edition (set editions) e \<and> ce_channel_id e = c"
  proof -
    have "intact (set ?own) e' \<longleftrightarrow> intact (set editions) e' \<and> ce_channel_id e' = c" for e'
      using intact_lowest [of "set ?own" e'] intact_own [of e' c "set editions"]
      unfolding own by (auto simp: lowest_def)
    then show ?thesis by (auto simp: top_edition_def)
  qed
  finally show ?thesis .
qed

lemma firsts_set [simp]: "set (firsts xs) = set xs" and firsts_distinct [simp]: "distinct (firsts xs)"
  by (simp_all add: firsts_def)

lemma distinct_concat_keys:
  assumes "distinct cs" "\<And>c e. head c = Some e \<Longrightarrow> key e = c"
  shows "distinct (map key (concat (map (\<lambda>c. case head c of None \<Rightarrow> [] | Some e \<Rightarrow> [e]) cs)))"
proof -
  have "map key (concat (map (\<lambda>c. case head c of None \<Rightarrow> [] | Some e \<Rightarrow> [e]) cs)) = filter (\<lambda>c. head c \<noteq> None) cs"
    using assms(2) by (induction cs) (auto split: option.splits)
  with assms(1) show ?thesis by simp
qed

lemma distinct_filter_keys: "distinct (map f xs) \<Longrightarrow> distinct (map f (filter P xs))"
  by (induction xs) auto

lemma sorted_filter_keys: "sorted (map f xs) \<Longrightarrow> sorted (map f (filter P xs))"
  by (induction xs) auto

lemma fold_editions_spec:
  assumes "inj_on ce_event_id (set editions)"
  shows "set (fold_editions editions) = {e. top_edition (set editions) e \<and> \<not> ce_deleted e}"
    and "sorted (map ce_channel_id (fold_editions editions))" "distinct (map ce_channel_id (fold_editions editions))"
proof -
  let ?heads = "concat (map (\<lambda>c. case channel_head editions c of None \<Rightarrow> [] | Some e \<Rightarrow> [e]) (firsts (map ce_channel_id editions)))"
  note head = channel_head_spec [OF assms]
  have "e \<in> set ?heads \<longleftrightarrow> top_edition (set editions) e" for e
  proof
    assume "e \<in> set ?heads"
    then show "top_edition (set editions) e" by (auto split: option.splits dest: head [THEN iffD1, OF sym])
  next
    assume top: "top_edition (set editions) e"
    then have "e \<in> set editions" using intact_lowest [of "set editions" e] by (simp add: top_edition_def lowest_def)
    moreover have "channel_head editions (ce_channel_id e) = Some e" using top by (simp add: head)
    ultimately show "e \<in> set ?heads" by (force simp: image_iff)
  qed
  then show "set (fold_editions editions) = {e. top_edition (set editions) e \<and> \<not> ce_deleted e}"
    by (auto simp: fold_editions_def)
  show "sorted (map ce_channel_id (fold_editions editions))"
    unfolding fold_editions_def by (intro sorted_filter_keys sorted_sort_key)
  have "distinct (map ce_channel_id ?heads)"
    by (intro distinct_concat_keys firsts_distinct) (simp add: head)
  then have "distinct (map ce_channel_id (sort_key ce_channel_id ?heads))"
    by (simp add: distinct_map)
  then show "distinct (map ce_channel_id (fold_editions editions))"
    unfolding fold_editions_def by (rule distinct_filter_keys)
qed

lemma fold_editions_set:
  assumes "inj_on ce_event_id (set xs)" "set xs = set ys"
  shows "fold_editions xs = fold_editions ys"
proof (rule map_sorted_distinct_set_unique [of ce_channel_id])
  note x = fold_editions_spec [OF assms(1)] and y = fold_editions_spec [OF assms(1) [unfolded assms(2)]]
  show eq: "set (fold_editions xs) = set (fold_editions ys)" using x(1) y(1) assms(2) by simp
  show "inj_on ce_channel_id (set (fold_editions xs) \<union> set (fold_editions ys))"
    using x(3) eq by (simp add: distinct_map)
qed (use fold_editions_spec [OF assms(1)] fold_editions_spec [OF assms(1) [unfolded assms(2)]] in simp_all)

definition accepts :: "(json \<Rightarrow> exn + bool) option \<Rightarrow> json \<Rightarrow> bool" where
  "accepts authorize event = (case authorize of None \<Rightarrow> True | Some ok \<Rightarrow> ok event = Inr True)"

definition accepted_editions :: "libs \<Rightarrow> (json \<Rightarrow> exn + bool) option \<Rightarrow> json list \<Rightarrow> channel_edition set" where
  "accepted_editions L authorize events =
     {e. \<exists>event \<in> set events. accepts authorize event \<and> parse_edition L event = Some e}"

lemma fold_channel_metadata_Inr:
  assumes "fold_channel_metadata L authorize events = Inr channels"
  obtains es where "channels = map channel_dict (fold_editions es)" "set es = accepted_editions L authorize events"
proof -
  let ?ok = "\<lambda>event. case authorize of None \<Rightarrow> Inr True | Some ok \<Rightarrow> ok event"
  let ?f = "\<lambda>event. ebind (?ok event) (\<lambda>accepted.
    Inr (if accepted then (case parse_edition L event of None \<Rightarrow> [] | Some e \<Rightarrow> [e]) else []))"
  obtain es where es: "emap ?f events = Inr es" "channels = map channel_dict (fold_editions (concat es))"
    using assms by (auto simp: fold_channel_metadata_def)
  have one: "(\<exists>l. ?f event = Inr l \<and> e \<in> set l) \<longleftrightarrow> accepts authorize event \<and> parse_edition L event = Some e" for event e
    by (cases authorize) (auto simp: accepts_def split: option.splits)
  have "set (concat es) = {e. \<exists>event \<in> set events. \<exists>l. ?f event = Inr l \<and> e \<in> set l}"
    using emap_set [OF es(1)] by (simp del: ebind_Inr) blast
  also have "\<dots> = accepted_editions L authorize events" unfolding one accepted_editions_def ..
  finally show thesis using es(2) by (intro that)
qed

lemma fold_channel_metadata_defined:
  "(\<exists>channels. fold_channel_metadata L authorize events = Inr channels) \<longleftrightarrow>
     (\<forall>event \<in> set events. \<forall>ok. authorize = Some ok \<longrightarrow> (\<exists>b. ok event = Inr b))"
proof -
  let ?ok = "\<lambda>event. case authorize of None \<Rightarrow> Inr True | Some ok \<Rightarrow> ok event"
  let ?f = "\<lambda>event. ebind (?ok event) (\<lambda>accepted.
    Inr (if accepted then (case parse_edition L event of None \<Rightarrow> [] | Some e \<Rightarrow> [e]) else []))"
  have one: "(\<exists>l. ?f event = Inr l) \<longleftrightarrow> (\<forall>ok. authorize = Some ok \<longrightarrow> (\<exists>b. ok event = Inr b))" for event
    by (cases authorize) auto
  have "(\<exists>channels. fold_channel_metadata L authorize events = Inr channels) \<longleftrightarrow> (\<exists>es. emap ?f events = Inr es)"
    by (simp add: fold_channel_metadata_def)
  also have "\<dots> \<longleftrightarrow> (\<forall>event \<in> set events. \<forall>ok. authorize = Some ok \<longrightarrow> (\<exists>b. ok event = Inr b))"
    unfolding emap_defined one ..
  finally show ?thesis .
qed

text \<open>
  The channel list is the specification's. Its entries are, once each and sorted by id, the channels
  whose highest intact edition among the accepted events is not a deletion: the chain of
  predecessor hashes reaches a first version, and every link has the lowest id of its version.
\<close>

theorem channel_fold_reference:
  assumes "fold_channel_metadata L authorize events = Inr channels"
    and "inj_on ce_event_id (accepted_editions L authorize events)"
  shows "\<exists>es. channels = map channel_dict es \<and>
    set es = {e. top_edition (accepted_editions L authorize events) e \<and> \<not> ce_deleted e} \<and>
    sorted (map ce_channel_id es) \<and> distinct (map ce_channel_id es)"
proof -
  obtain es where es: "channels = map channel_dict (fold_editions es)" "set es = accepted_editions L authorize events"
    using assms(1) by (rule fold_channel_metadata_Inr)
  then show ?thesis using fold_editions_spec [of es] assms(2) by auto
qed

text \<open>
  The channel list does not depend on the order in which relays deliver the events, nor on
  repetitions: the same events give the same list, field by field.
\<close>

theorem channel_fold_order_independent:
  assumes "fold_channel_metadata L authorize events = Inr channels" "set events = set events'"
    and "inj_on ce_event_id (accepted_editions L authorize events)"
  shows "fold_channel_metadata L authorize events' = Inr channels"
proof -
  have "\<exists>channels. fold_channel_metadata L authorize events = Inr channels" using assms(1) by blast
  then have "\<exists>channels'. fold_channel_metadata L authorize events' = Inr channels'"
    unfolding fold_channel_metadata_defined assms(2) .
  then obtain channels' where c: "fold_channel_metadata L authorize events' = Inr channels'" ..
  obtain es where es: "channels = map channel_dict (fold_editions es)" "set es = accepted_editions L authorize events"
    using assms(1) by (rule fold_channel_metadata_Inr)
  obtain es' where es': "channels' = map channel_dict (fold_editions es')" "set es' = accepted_editions L authorize events'"
    using c by (rule fold_channel_metadata_Inr)
  have "set es = set es'" using es(2) es'(2) assms(2) by (simp add: accepted_editions_def)
  with assms(3) es(2) have "fold_editions es = fold_editions es'" by (intro fold_editions_set) simp_all
  with c es es' show ?thesis by simp
qed

subsection \<open>An example\<close>

text \<open>Control Plane events whose predecessor hashes are one constant.\<close>

definition control_libs :: libs where
  "control_libs = example_libs\<lparr>sha256_bytes := (\<lambda>_. ''h''), json_loads := (\<lambda>s.
     if s = ''role'' then Inr (JObj [(''position'', JInt 1), (''permissions'', JStr ''3'')])
     else if s = ''grant'' then Inr (JObj [(''member'', JStr (replicate 64 CHR ''b'')), (''role_ids'', JList [JStr (replicate 64 CHR ''d'')])])
     else Inr (JObj [(''name'', JStr ''general'')]))\<rparr>"

lemma control_json [simp]:
  "json_loads control_libs ''role'' = Inr (JObj [(''position'', JInt 1), (''permissions'', JStr ''3'')])"
  "json_loads control_libs ''grant'' =
     Inr (JObj [(''member'', JStr (replicate 64 CHR ''b'')), (''role_ids'', JList [JStr (replicate 64 CHR ''d'')])])"
  "json_loads control_libs ''channel'' = Inr (JObj [(''name'', JStr ''general'')])"
  by (simp_all add: control_libs_def)

definition control_event :: "char \<Rightarrow> char \<Rightarrow> string \<Rightarrow> char \<Rightarrow> json list \<Rightarrow> string \<Rightarrow> dict" where
  "control_event i actor vsk entity tags content =
     [(''id'', JStr (replicate 64 i)), (''pubkey'', JStr (replicate 64 actor)), (''kind'', JInt 3308),
      (''tags'', JList ([JList [JStr ''vsk'', JStr vsk], JList [JStr ''eid'', JStr (replicate 64 entity)],
        JList [JStr ''ev'', JStr ''1'']] @ tags)), (''content'', JStr content)]"

lemma fromhex_replicate:
  assumes "c \<in> set ''abcde''"
  shows "\<exists>b. fromhex (replicate (2 * n) c @ s) = map_option ((@) b) (fromhex s) \<and> length b = n"
proof (induction n)
  case (Suc n)
  then obtain b where "fromhex (replicate (2 * n) c @ s) = map_option ((@) b) (fromhex s)" "length b = n" by blast
  then show ?case using assms
    by (intro exI [of _ "char_of (16 * hex_value c + hex_value c) # b"])
      (auto simp: is_hex_digit_def is_decimal_def is_ascii_space_def code_def option.map_comp comp_def)
qed (intro exI [of _ "[]"], simp add: option.map_ident)

lemma fromhex_64: "c \<in> set ''abcde'' \<Longrightarrow> \<exists>b. fromhex (replicate 64 c) = Some b \<and> length b = 32"
  using fromhex_replicate [of c 32 "[]"] by simp

lemma lower_64: "c \<in> set ''abcde'' \<Longrightarrow> str_lower (replicate 64 c) = replicate 64 c"
  by (auto simp: str_lower_def lower_char_def is_upper_def code_def)

lemma fromhex_pair: "a \<in> set ''abcde'' \<Longrightarrow> c \<in> set ''abcde'' \<Longrightarrow> fromhex (replicate 64 a @ replicate 64 c) \<noteq> None"
  using fromhex_replicate [of a 32 "replicate 64 c"] fromhex_64 [of c] by auto

lemma parse_int_one: "parse_int ''1'' = Some 1"
  by (simp add: parse_int_def str_strip_def is_space_def parse_nat_def is_decimal_def code_def)

lemma control_hash: "c \<in> set ''abcde'' \<Longrightarrow> edition_hash control_libs (replicate 64 c) 1 None content = Inr ''h''"
  using fromhex_64 [of c] lower_64 [of c] by (auto simp: edition_hash_def control_libs_def)

lemma control_parses:
  assumes "actor \<in> set ''abcde''" "entity \<in> set ''abcde''" "json_loads control_libs content = Inr (JObj c)"
    and "tag_text (dget (control_event i actor vsk entity tags content) ''tags'') ''ep'' = None"
  shows "parse_roster_edition control_libs (JObj (control_event i actor vsk entity tags content)) =
    Some \<lparr>re_event_id = replicate 64 i, re_actor = replicate 64 actor, re_entity_id = replicate 64 entity, re_version = 1,
      re_previous = None, re_hash = ''h'', re_vsk = vsk, re_content = c, re_event = control_event i actor vsk entity tags content\<rparr>"
proof -
  let ?d = "control_event i actor vsk entity tags content"
  have "tag_text (dget ?d ''tags'') ''eid'' = Some (replicate 64 entity)" "tag_text (dget ?d ''tags'') ''ev'' = Some ''1''"
    "tag_text (dget ?d ''tags'') ''vsk'' = Some vsk"
    by (simp_all add: control_event_def tag_text_def tags_named_def)
  moreover have "dget ?d ''id'' = JStr (replicate 64 i)" "dget ?d ''pubkey'' = JStr (replicate 64 actor)"
    "eq_int (dget ?d ''kind'') 3308" "dget ?d ''content'' = JStr content"
    by (simp_all add: control_event_def)
  moreover obtain b where "fromhex (replicate 64 actor @ replicate 64 entity) = Some b"
    using fromhex_pair [OF assms(1,2)] by blast
  ultimately show ?thesis
    using assms(3,4) control_hash [OF assms(2), of content]
    by (simp add: parse_roster_edition_def Let_def parse_int_one)
qed

definition channel_event :: dict where
  "channel_event = control_event CHR ''x'' CHR ''a'' ''2'' CHR ''c'' [] ''channel''"

lemma utf8_short: "list_all (\<lambda>c. code c < 128) s \<Longrightarrow> utf8_encode s = s"
  by (induction s) (simp_all add: utf8_encode_def utf8_char_def)

definition example_channel :: channel_edition where
  "example_channel = \<lparr>ce_channel_id = replicate 64 CHR ''c'', ce_version = 1, ce_previous = None, ce_hash = ''h'',
     ce_event_id = replicate 64 CHR ''x'', ce_name = ''general'', ce_private = False, ce_deleted = False\<rparr>"

lemma example_channel_parsed: "parse_edition control_libs (JObj channel_event) = Some example_channel"
proof -
  have tags: "tag_text (dget channel_event ''tags'') ''vsk'' = Some ''2''" "tag_text (dget channel_event ''tags'') ''ep'' = None"
    "tag_text (dget channel_event ''tags'') ''eid'' = Some (replicate 64 CHR ''c'')" "tag_text (dget channel_event ''tags'') ''ev'' = Some ''1''"
    by (simp_all add: channel_event_def control_event_def tag_text_def tags_named_def)
  moreover have "eq_int (dget channel_event ''kind'') 3308" "dget channel_event ''id'' = JStr (replicate 64 CHR ''x'')"
    "dget channel_event ''content'' = JStr ''channel''" by (simp_all add: channel_event_def control_event_def)
  moreover have "show_int 1 = ''1''" by (simp add: show_int_def show_nat.simps char_of_def bit_0)
  moreover have "length (utf8_encode ''general'') = 7" by (simp add: utf8_short code_def)
  moreover have "fromhex (replicate 64 CHR ''c'') \<noteq> None" using fromhex_64 [of "CHR ''c''"] by auto
  ultimately show ?thesis
    using control_hash [of "CHR ''c''" "''channel''"] lower_64 [of "CHR ''c''"]
    by (simp add: parse_edition_def Let_def parse_int_one example_channel_def)
qed

lemma example_folded: "fold_channel_metadata control_libs None [JObj channel_event] = Inr [channel_dict example_channel]"
  by (simp add: fold_channel_metadata_def example_channel_parsed fold_editions_def firsts_def channel_head_def Let_def
      versions_of_def newest_version_def example_channel_def)

lemma example_accepted: "accepted_editions control_libs None [JObj channel_event] = {example_channel}"
  by (auto simp: accepted_editions_def accepts_def example_channel_parsed)

theorem channel_fold_reference_witness:
  "\<exists>es. [channel_dict example_channel] = map channel_dict es \<and> set es = {e. top_edition {example_channel} e \<and> \<not> ce_deleted e} \<and>
     sorted (map ce_channel_id es) \<and> distinct (map ce_channel_id es)"
proof -
  have "inj_on ce_event_id (accepted_editions control_libs None [JObj channel_event])" by (simp add: example_accepted)
  from channel_fold_reference [OF example_folded this] show ?thesis unfolding example_accepted .
qed

theorem channel_fold_order_independent_witness:
  "fold_channel_metadata control_libs None [JObj channel_event, JObj channel_event] = Inr [channel_dict example_channel]"
  by (rule channel_fold_order_independent [OF example_folded]) (simp_all add: example_accepted)

end
