(* ===== verification/Concord_Roster.thy ===== *)
theory Concord_Roster
  imports Concord_Channels
begin

text \<open>
  The authority of the Control Plane (\<^verbatim>\<open>src/yunohost_mcp/concord_control.py\<close>): every accepted edition goes
  back to the owner through cited grants, ranks stay below the owner's, and when the rounds of the
  loop are enough.
\<close>

subsection \<open>Authority\<close>

lemma find_member: "find P xs = Some x \<Longrightarrow> x \<in> set xs"
  by (induction xs) (auto split: if_splits)

lemma select_roster_heads_sound:
  assumes "(key, e) \<in> set (select_roster_heads editions accepted)"
  shows "e \<in> set editions \<and> re_event_id e \<in> accepted \<and> is_roster e \<and> roster_key e = key"
proof -
  have chosen: "(v, e) \<in> set (choose_roster es vs chosen) \<Longrightarrow> e \<in> set es \<or> (v, e) \<in> set chosen" for es vs chosen v e
  proof (induction vs arbitrary: chosen)
    case (Cons v' vs)
    show ?case
    proof (cases "find (\<lambda>e. follows e v' chosen) (sort_key re_event_id (filter (\<lambda>e. re_version e = v') es))")
      case None
      with Cons show ?thesis by simp
    next
      case (Some x)
      from find_member [OF this] have "x \<in> set es" by simp
      with Some Cons.IH [of "(v', x) # chosen"] Cons.prems show ?thesis by auto
    qed
  qed simp
  let ?es = "filter (\<lambda>e. re_event_id e \<in> accepted \<and> is_roster e) editions"
  let ?own = "filter (\<lambda>e. roster_key e = key) ?es"
  from assms have "newest_version (choose_roster ?own (versions_of re_version ?own) []) = Some e"
    by (auto simp: select_roster_heads_def Let_def split: option.splits)
  then have "\<exists>v. (v, e) \<in> set (choose_roster ?own (versions_of re_version ?own) [])"
    by (auto simp: newest_version_def dest: map_of_SomeD split: if_splits)
  with chosen have "e \<in> set ?own" by fastforce
  then show ?thesis by simp
qed

lemma roles_of_sound:
  "(entity, c) \<in> set (roles_of heads) \<Longrightarrow> \<exists>e. ((''1'', entity), e) \<in> set heads \<and> c = re_content e"
  by (auto simp: roles_of_def)

lemma grants_of_sound: "(entity, e) \<in> set (grants_of heads) \<Longrightarrow> ((''3'', entity), e) \<in> set heads"
  by (auto simp: grants_of_def)

text \<open>Where a member of the roster comes from: it is the owner, or a grant gives it.\<close>

lemma roster_members_sound:
  assumes "map_of (roster_members heads owner) m = Some rm"
  shows "(m = owner \<and> rm = \<lparr>rm_position = 0, rm_permissions = 3\<rparr>) \<or>
    (\<exists>entity e. (entity, e) \<in> set (grants_of heads) \<and> granted_member (roles_of heads) (re_content e) = Some (m, rm))"
proof -
  have "map_of (fold (\<lambda>(entity, e) members. case granted_member roles (re_content e) of
          None \<Rightarrow> members | Some (member, rm) \<Rightarrow> AList.update member rm members) grants start) m = Some rm \<Longrightarrow>
      map_of start m = Some rm \<or> (\<exists>entity e. (entity, e) \<in> set grants \<and> granted_member roles (re_content e) = Some (m, rm))"
    for grants :: "(string \<times> roster_edition) list" and roles start
  proof (induction grants arbitrary: start)
    case (Cons g grants)
    obtain entity e where g: "g = (entity, e)" by fastforce
    from Cons.IH Cons.prems show ?case
      unfolding g by (fastforce simp: AList.update_conv' split: option.splits if_splits)
  qed simp
  from this [OF assms [unfolded roster_members_def]] show ?thesis
    by (auto simp: MANAGE_ROLES_def MANAGE_CHANNELS_def split: if_splits)
qed

lemma expand_roster_induct:
  assumes "expand_roster owner parsed n accepted = Inr final" "P accepted"
    and "\<And>acc adds. P acc \<Longrightarrow>
      adds = {re_event_id e | e. e \<in> set parsed \<and> admits owner (select_roster_heads parsed acc) acc e = Inr True} \<Longrightarrow> P (acc \<union> adds)"
  shows "P final"
  using assms(1,2)
proof (induction n arbitrary: accepted)
  case (Suc n)
  let ?heads = "select_roster_heads parsed accepted"
  let ?f = "\<lambda>e. ebind (admits owner ?heads accepted e) (\<lambda>yes. Inr (if yes then [re_event_id e] else []))"
  from Suc.prems(1) obtain ids where ids: "emap ?f parsed = Inr ids"
    and rest: "(if set (concat ids) - accepted = {} then Inr accepted
      else expand_roster owner parsed n (accepted \<union> set (concat ids))) = Inr final"
    by (simp only: expand_roster.simps Let_def ebind_Inr) blast
  have one: "(\<exists>l. ?f e = Inr l \<and> i \<in> set l) \<longleftrightarrow> admits owner ?heads accepted e = Inr True \<and> i = re_event_id e" for e i
    by auto
  have "set (concat ids) = {i. \<exists>e \<in> set parsed. \<exists>l. ?f e = Inr l \<and> i \<in> set l}"
    using emap_set [OF ids] by (simp del: ebind_Inr) blast
  also have "\<dots> = {re_event_id e | e. e \<in> set parsed \<and> admits owner ?heads accepted e = Inr True}"
    unfolding one by blast
  finally have "P (accepted \<union> set (concat ids))" by (rule assms(3) [OF Suc.prems(2)])
  with rest Suc show ?case by (auto split: if_splits)
qed simp

lemma granted_rolesD: "c \<in> set (granted_roles roles ids) \<Longrightarrow> \<exists>r. (r, c) \<in> set roles"
  by (auto simp: granted_roles_def split: json.splits option.splits dest!: map_of_SomeD [OF sym])

lemma granted_member_sound:
  assumes "granted_member roles content = Some (m, rm)"
  shows "dget content ''member'' = JStr m"
    and "\<exists>r c. (r, c) \<in> set roles \<and> is_int (dget c ''position'') \<and> rm_position rm = int_value (dget c ''position'')"
proof -
  from assms obtain role_ids states positions where facts: "dget content ''member'' = JStr m"
      "states = granted_roles roles role_ids"
      "positions = map int_value (filter is_int (map (\<lambda>c. dget c ''position'') states))"
      "positions \<noteq> []" "rm_position rm = Min (set positions)"
    by (auto simp: granted_member_def Let_def split: json.splits if_splits)
  show "dget content ''member'' = JStr m" by (rule facts)
  have "rm_position rm \<in> set positions" using facts(4,5) Min_in [of "set positions"] by simp
  then obtain c where "c \<in> set states" "is_int (dget c ''position'')" "rm_position rm = int_value (dget c ''position'')"
    using facts(3) by auto
  with facts(2) granted_rolesD show "\<exists>r c. (r, c) \<in> set roles \<and> is_int (dget c ''position'') \<and> rm_position rm = int_value (dget c ''position'')"
    by blast
qed

text \<open>A citation names a grant of this roster by entity, version and hash, and the grant names the author.\<close>

definition cites :: "roster_edition \<Rightarrow> roster_edition \<Rightarrow> bool" where
  "cites e g \<longleftrightarrow> (\<exists>v. vac_tag (dget (re_event e) ''tags'') = [re_entity_id g, v, re_hash g] \<and> parse_int v = Some (re_version g)) \<and>
     re_vsk g = ''3'' \<and> dget (re_content g) ''member'' = JStr (re_actor e)"

lemma citation_sound:
  assumes "has_current_grant_citation e (grants_of (select_roster_heads parsed accepted)) = Inr True"
  obtains g where "g \<in> set parsed" "re_event_id g \<in> accepted" "is_roster g" "cites e g"
proof -
  let ?grants = "grants_of (select_roster_heads parsed accepted)"
  from assms obtain a v h g where g: "vac_tag (dget (re_event e) ''tags'') = [a, v, h]" "map_of ?grants a = Some g"
      "int_of_text v = Inr (re_version g)" "re_hash g = h" "dget (re_content g) ''member'' = JStr (re_actor e)"
    by (auto simp: has_current_grant_citation_def split: list.splits option.splits if_splits)
  from g(2) have head: "((''3'', a), g) \<in> set (select_roster_heads parsed accepted)"
    by (intro grants_of_sound map_of_SomeD)
  note sound = select_roster_heads_sound [OF head]
  have "parse_int v = Some (re_version g)" using g(3) by (auto simp: int_of_text_def split: option.splits)
  with sound g have "cites e g" by (auto simp: cites_def roster_key_def)
  with sound show thesis by (intro that) auto
qed

lemma admits_cases:
  assumes "admits owner heads accepted e = Inr True"
  obtains actor where "is_roster e" "map_of (roster_members heads owner) (re_actor e) = Some actor"
    "rm_permissions actor AND MANAGE_ROLES \<noteq> 0"
    "re_actor e \<noteq> owner \<Longrightarrow> has_current_grant_citation e (grants_of heads) = Inr True"
    "re_vsk e = ''1'' \<Longrightarrow> above actor (dget (re_content e) ''position'')"
  using assms
  by (auto simp: admits_def Let_def split: if_splits option.splits)

subsection \<open>Every authority leads back to the owner\<close>

inductive rooted :: "string \<Rightarrow> roster_edition set \<Rightarrow> roster_edition \<Rightarrow> bool" for owner E where
  owned: "e \<in> E \<Longrightarrow> is_roster e \<Longrightarrow> re_actor e = owner \<Longrightarrow> rooted owner E e"
| granted: "e \<in> E \<Longrightarrow> is_roster e \<Longrightarrow> rooted owner E g \<Longrightarrow> cites e g \<Longrightarrow> rooted owner E e"

lemma accepted_rooted:
  assumes "expand_roster owner parsed n (owner_editions owner parsed) = Inr final" "inj_on re_event_id (set parsed)"
  shows "\<forall>e \<in> set parsed. re_event_id e \<in> final \<longrightarrow> is_roster e \<longrightarrow> rooted owner (set parsed) e"
proof (rule expand_roster_induct [OF assms(1)])
  have "re_actor e = owner" if "e \<in> set parsed" "re_event_id e \<in> owner_editions owner parsed" for e
    using that assms(2) by (auto simp: owner_editions_def dest: inj_onD)
  then show "\<forall>e \<in> set parsed. re_event_id e \<in> owner_editions owner parsed \<longrightarrow> is_roster e \<longrightarrow> rooted owner (set parsed) e"
    by (auto intro: rooted.owned)
next
  fix acc adds
  assume old: "\<forall>e \<in> set parsed. re_event_id e \<in> acc \<longrightarrow> is_roster e \<longrightarrow> rooted owner (set parsed) e"
    and adds: "adds = {re_event_id e | e. e \<in> set parsed \<and> admits owner (select_roster_heads parsed acc) acc e = Inr True}"
  have "rooted owner (set parsed) e" if "e \<in> set parsed" "admits owner (select_roster_heads parsed acc) acc e = Inr True" for e
  proof (cases "re_actor e = owner")
    case True
    with that show ?thesis by (auto elim: admits_cases intro: rooted.owned)
  next
    case False
    from that(2) show ?thesis
    proof (rule admits_cases)
      assume roster: "is_roster e"
        and "re_actor e \<noteq> owner \<Longrightarrow> has_current_grant_citation e (grants_of (select_roster_heads parsed acc)) = Inr True"
      with False have "has_current_grant_citation e (grants_of (select_roster_heads parsed acc)) = Inr True" by blast
      then obtain g where "g \<in> set parsed" "re_event_id g \<in> acc" "is_roster g" "cites e g" by (rule citation_sound)
      with old roster that(1) show ?thesis by (blast intro: rooted.granted)
    qed
  qed
  then show "\<forall>e \<in> set parsed. re_event_id e \<in> acc \<union> adds \<longrightarrow> is_roster e \<longrightarrow> rooted owner (set parsed) e"
    using old adds assms(2) by (auto dest: inj_onD)
qed

lemma build_roster_Inr:
  assumes "build_roster L events owner n = Inr roster"
  obtains final where "expand_roster owner (parse_roster L events) n (owner_editions owner (parse_roster L events)) = Inr final"
    "ro_owner roster = owner" "ro_members roster = roster_members (select_roster_heads (parse_roster L events) final) owner"
    "ro_grants roster = grants_of (select_roster_heads (parse_roster L events) final)"
  using assms by (auto simp: build_roster_def Let_def)

text \<open>
  C39: who may edit a channel. A channel edition is authorized only if its author is the owner, or it
  cites, by version and hash, a grant to its author that goes back to the owner through an
  unbroken chain of cited grants, and the roster gives the author the channel permission.
\<close>

theorem channel_authority_rooted:
  assumes "build_roster L events owner n = Inr roster" "authorized L roster event = Inr True"
    and "inj_on re_event_id (set (parse_roster L events))"
  shows "\<exists>e. parse_roster_edition L event = Some e \<and> re_vsk e = ''2'' \<and>
    (if re_actor e = owner then True
     else (\<exists>g. rooted owner (set (parse_roster L events)) g \<and> cites e g) \<and>
       (\<exists>member. map_of (ro_members roster) (re_actor e) = Some member \<and> rm_permissions member AND MANAGE_CHANNELS \<noteq> 0))"
proof -
  let ?parsed = "parse_roster L events"
  obtain final where final: "expand_roster owner ?parsed n (owner_editions owner ?parsed) = Inr final"
      "ro_owner roster = owner" "ro_grants roster = grants_of (select_roster_heads ?parsed final)"
    using assms(1) by (rule build_roster_Inr)
  from assms(2) obtain e where e: "parse_roster_edition L event = Some e" "re_vsk e = ''2''"
    and rest: "re_actor e \<noteq> owner \<Longrightarrow> \<exists>member. map_of (ro_members roster) (re_actor e) = Some member \<and>
      rm_permissions member AND MANAGE_CHANNELS \<noteq> 0 \<and> has_current_grant_citation e (ro_grants roster) = Inr True"
    using final(2) by (auto simp: authorized_def split: option.splits if_splits)
  show ?thesis
  proof (cases "re_actor e = owner")
    case True
    with e show ?thesis by auto
  next
    case False
    with rest obtain member where member: "map_of (ro_members roster) (re_actor e) = Some member"
      "rm_permissions member AND MANAGE_CHANNELS \<noteq> 0" "has_current_grant_citation e (ro_grants roster) = Inr True" by blast
    from member(3) [unfolded final(3)] obtain g where "g \<in> set ?parsed" "re_event_id g \<in> final" "is_roster g" "cites e g"
      by (rule citation_sound)
    with accepted_rooted [OF final(1) assms(3)] have "rooted owner (set ?parsed) g" "cites e g" by blast+
    with e member False show ?thesis by auto
  qed
qed

subsection \<open>Ranks\<close>

definition positive_role :: "roster_edition \<Rightarrow> bool" where
  "positive_role e \<longleftrightarrow> (re_vsk e = ''1'' \<longrightarrow> is_int (dget (re_content e) ''position'') \<longrightarrow>
     0 < int_value (dget (re_content e) ''position''))"

lemma members_positive:
  assumes "\<forall>e \<in> set parsed. re_event_id e \<in> acc \<longrightarrow> positive_role e"
    and "map_of (roster_members (select_roster_heads parsed acc) owner) m = Some rm"
  shows "(m = owner \<and> rm_position rm = 0) \<or>
    0 < rm_position rm \<and> (\<exists>g \<in> set parsed. re_event_id g \<in> acc \<and> re_vsk g = ''3'' \<and> dget (re_content g) ''member'' = JStr m)"
  using roster_members_sound [OF assms(2)]
proof
  assume "\<exists>entity e. (entity, e) \<in> set (grants_of (select_roster_heads parsed acc)) \<and>
    granted_member (roles_of (select_roster_heads parsed acc)) (re_content e) = Some (m, rm)"
  then obtain entity g where g: "(entity, g) \<in> set (grants_of (select_roster_heads parsed acc))"
    "granted_member (roles_of (select_roster_heads parsed acc)) (re_content g) = Some (m, rm)" by blast
  from granted_member_sound(2) [OF g(2)] obtain r c where c: "(r, c) \<in> set (roles_of (select_roster_heads parsed acc))"
    "is_int (dget c ''position'')" "rm_position rm = int_value (dget c ''position'')" by blast
  from roles_of_sound [OF c(1)] obtain e where e: "((''1'', r), e) \<in> set (select_roster_heads parsed acc)" "c = re_content e" by blast
  from select_roster_heads_sound [OF e(1)] assms(1) have "positive_role e" "re_vsk e = ''1''" by (auto simp: roster_key_def)
  with c e(2) have "0 < rm_position rm" by (simp add: positive_role_def)
  moreover from select_roster_heads_sound [OF grants_of_sound [OF g(1)]] granted_member_sound(1) [OF g(2)]
  have "g \<in> set parsed" "re_event_id g \<in> acc" "re_vsk g = ''3''" "dget (re_content g) ''member'' = JStr m"
    by (auto simp: roster_key_def)
  ultimately show ?thesis by blast
qed simp

lemma accepted_positive:
  assumes "expand_roster owner parsed n (owner_editions owner parsed) = Inr final" "inj_on re_event_id (set parsed)"
    and "\<forall>e \<in> set parsed. re_actor e = owner \<longrightarrow> positive_role e"
  shows "\<forall>e \<in> set parsed. re_event_id e \<in> final \<longrightarrow> positive_role e"
proof (rule expand_roster_induct [OF assms(1)])
  show "\<forall>e \<in> set parsed. re_event_id e \<in> owner_editions owner parsed \<longrightarrow> positive_role e"
    using assms(2,3) by (auto simp: owner_editions_def dest: inj_onD)
next
  fix acc adds
  assume old: "\<forall>e \<in> set parsed. re_event_id e \<in> acc \<longrightarrow> positive_role e"
    and adds: "adds = {re_event_id e | e. e \<in> set parsed \<and> admits owner (select_roster_heads parsed acc) acc e = Inr True}"
  have "positive_role e" if "e \<in> set parsed" "admits owner (select_roster_heads parsed acc) acc e = Inr True" for e
    using that(2)
  proof (rule admits_cases)
    fix actor
    assume "map_of (roster_members (select_roster_heads parsed acc) owner) (re_actor e) = Some actor"
      and above: "re_vsk e = ''1'' \<Longrightarrow> above actor (dget (re_content e) ''position'')"
    with members_positive [OF old] have "0 \<le> rm_position actor" by fastforce
    with above show "positive_role e" by (auto simp: positive_role_def above_def)
  qed
  then show "\<forall>e \<in> set parsed. re_event_id e \<in> acc \<union> adds \<longrightarrow> positive_role e"
    using old adds assms(2) by (auto dest: inj_onD)
qed

text \<open>
  Nobody reaches the owner's rank. If the owner's own roles have positive positions, then every
  member of the final roster other than the owner has a positive position, whatever the others
  publish, and holds it by an accepted grant.
\<close>

theorem roster_rank_below_owner:
  assumes "build_roster L events owner n = Inr roster" "inj_on re_event_id (set (parse_roster L events))"
    and "\<forall>e \<in> set (parse_roster L events). re_actor e = owner \<longrightarrow> positive_role e"
    and "map_of (ro_members roster) m = Some rm" "m \<noteq> owner"
  shows "0 < rm_position rm \<and> (\<exists>g. rooted owner (set (parse_roster L events)) g \<and> re_vsk g = ''3'' \<and>
    dget (re_content g) ''member'' = JStr m)"
proof -
  let ?parsed = "parse_roster L events"
  obtain final where final: "expand_roster owner ?parsed n (owner_editions owner ?parsed) = Inr final"
      "ro_members roster = roster_members (select_roster_heads ?parsed final) owner"
    using assms(1) by (rule build_roster_Inr)
  from members_positive [OF accepted_positive [OF final(1) assms(2,3)] assms(4) [unfolded final(2)]] assms(5)
  obtain g where g: "0 < rm_position rm" "g \<in> set ?parsed" "re_event_id g \<in> final" "re_vsk g = ''3''"
      "dget (re_content g) ''member'' = JStr m" by blast
  moreover from g(4) have "is_roster g" by (simp add: is_roster_def)
  ultimately show ?thesis using accepted_rooted [OF final(1) assms(2)] by blast
qed

subsection \<open>Rounds\<close>

text \<open>
  C40: the rounds are enough when they are as many as the editions: then the roster is closed, no further
  edition would be admitted. The default of 128 rounds gives no such promise for a longer chain
  of grants: the loop stops without a sign and the later editions count as unauthorized.
\<close>

theorem roster_closed:
  assumes "expand_roster owner parsed n accepted = Inr final" "card (re_event_id ` set parsed - accepted) \<le> n"
    and "e \<in> set parsed"
  shows "admits owner (select_roster_heads parsed final) final e \<noteq> Inr True"
  using assms(1,2)
proof (induction n arbitrary: accepted)
  case 0
  then have "re_event_id e \<in> final" using assms(3) by auto
  then show ?case by (simp add: admits_def Let_def)
next
  case (Suc n)
  let ?heads = "select_roster_heads parsed accepted"
  let ?f = "\<lambda>e. ebind (admits owner ?heads accepted e) (\<lambda>yes. Inr (if yes then [re_event_id e] else []))"
  from Suc.prems(1) obtain ids where ids: "emap ?f parsed = Inr ids"
    and rest: "(if set (concat ids) - accepted = {} then Inr accepted
      else expand_roster owner parsed n (accepted \<union> set (concat ids))) = Inr final"
    by (simp only: expand_roster.simps Let_def ebind_Inr) blast
  have new: "re_event_id e \<in> set (concat ids)" if "e \<in> set parsed" "admits owner ?heads accepted e = Inr True" for e
    using emap_set [OF ids] that by force
  show ?case
  proof (cases "set (concat ids) - accepted = {}")
    case True
    with rest have "final = accepted" by simp
    moreover have "admits owner ?heads accepted e \<noteq> Inr True"
    proof
      assume yes: "admits owner ?heads accepted e = Inr True"
      then have "re_event_id e \<notin> accepted" by (auto simp: admits_def Let_def split: if_splits)
      with new [OF assms(3) yes] True show False by blast
    qed
    ultimately show ?thesis by simp
  next
    case False
    have "set (concat ids) \<subseteq> re_event_id ` set parsed"
      using emap_set [OF ids] by (auto split: if_splits)
    with False have "re_event_id ` set parsed - (accepted \<union> set (concat ids)) \<subset> re_event_id ` set parsed - accepted" by blast
    then have "card (re_event_id ` set parsed - (accepted \<union> set (concat ids))) < card (re_event_id ` set parsed - accepted)"
      by (intro psubset_card_mono) auto
    with Suc.prems(2) rest False show ?thesis by (intro Suc.IH) auto
  qed
qed

subsection \<open>An example\<close>

text \<open>The owner defines a role and grants it to a member, who edits a channel and cites the grant.\<close>

definition control_events :: "json list" where
  "control_events = [JObj (control_event CHR ''r'' CHR ''a'' ''1'' CHR ''d'' [] ''role''),
     JObj (control_event CHR ''g'' CHR ''a'' ''3'' CHR ''e'' [] ''grant'')]"

definition role_edition :: roster_edition where
  "role_edition = \<lparr>re_event_id = replicate 64 CHR ''r'', re_actor = replicate 64 CHR ''a'', re_entity_id = replicate 64 CHR ''d'',
     re_version = 1, re_previous = None, re_hash = ''h'', re_vsk = ''1'',
     re_content = [(''position'', JInt 1), (''permissions'', JStr ''3'')],
     re_event = control_event CHR ''r'' CHR ''a'' ''1'' CHR ''d'' [] ''role''\<rparr>"

definition grant_edition :: roster_edition where
  "grant_edition = \<lparr>re_event_id = replicate 64 CHR ''g'', re_actor = replicate 64 CHR ''a'', re_entity_id = replicate 64 CHR ''e'',
     re_version = 1, re_previous = None, re_hash = ''h'', re_vsk = ''3'',
     re_content = [(''member'', JStr (replicate 64 CHR ''b'')), (''role_ids'', JList [JStr (replicate 64 CHR ''d'')])],
     re_event = control_event CHR ''g'' CHR ''a'' ''3'' CHR ''e'' [] ''grant''\<rparr>"

lemma control_plain: "tag_text (dget (control_event i actor vsk entity [] content) ''tags'') ''ep'' = None"
  by (simp add: control_event_def tag_text_def tags_named_def)

lemma control_parsed: "parse_roster control_libs control_events = [role_edition, grant_edition]"
  using control_parses [of "CHR ''a''" "CHR ''d''" "''role''" _ "CHR ''r''" "''1''" "[]"]
    control_parses [of "CHR ''a''" "CHR ''e''" "''grant''" _ "CHR ''g''" "''3''" "[]"]
  by (simp add: parse_roster_def control_events_def control_plain role_edition_def grant_edition_def)

definition bob_edit :: dict where
  "bob_edit = control_event CHR ''x'' CHR ''b'' ''2'' CHR ''c''
     [JList [JStr ''vac'', JStr (replicate 64 CHR ''e''), JStr ''1'', JStr ''h'']] ''channel''"


lemma bob_parsed: "parse_roster_edition control_libs (JObj bob_edit) = Some
  \<lparr>re_event_id = replicate 64 CHR ''x'', re_actor = replicate 64 CHR ''b'', re_entity_id = replicate 64 CHR ''c'',
   re_version = 1, re_previous = None, re_hash = ''h'', re_vsk = ''2'', re_content = [(''name'', JStr ''general'')], re_event = bob_edit\<rparr>"
  unfolding bob_edit_def
  by (rule control_parses) (simp_all add: control_event_def tag_text_def tags_named_def)

lemma editions_simps [simp]:
  "re_vsk role_edition = ''1''" "re_vsk grant_edition = ''3''" "is_roster role_edition" "is_roster grant_edition"
  "re_event_id role_edition = replicate 64 CHR ''r''" "re_event_id grant_edition = replicate 64 CHR ''g''"
  "re_actor role_edition = replicate 64 CHR ''a''" "re_actor grant_edition = replicate 64 CHR ''a''"
  "roster_key role_edition = (''1'', replicate 64 CHR ''d'')" "roster_key grant_edition = (''3'', replicate 64 CHR ''e'')"
  "re_version role_edition = 1" "re_version grant_edition = 1" "re_previous role_edition = None" "re_previous grant_edition = None"
  "re_hash grant_edition = ''h''" "re_content role_edition = [(''position'', JInt 1), (''permissions'', JStr ''3'')]"
  "re_content grant_edition = [(''member'', JStr (replicate 64 CHR ''b'')), (''role_ids'', JList [JStr (replicate 64 CHR ''d'')])]"
  by (simp_all add: role_edition_def grant_edition_def is_roster_def roster_key_def)

lemma rep64 [simp]: "replicate 64 c = replicate 64 d \<longleftrightarrow> c = d"
  by (auto simp: replicate_eq_replicate)

lemma example_heads:
  assumes "replicate 64 CHR ''r'' \<in> acc" "replicate 64 CHR ''g'' \<in> acc"
  shows "select_roster_heads [role_edition, grant_edition] acc =
    [((''1'', replicate 64 CHR ''d''), role_edition), ((''3'', replicate 64 CHR ''e''), grant_edition)]"
  using assms by (simp add: select_roster_heads_def firsts_def Let_def versions_of_def follows_def newest_version_def)

lemma example_owned: "owner_editions (replicate 64 CHR ''a'') [role_edition, grant_edition] = {replicate 64 CHR ''r'', replicate 64 CHR ''g''}"
  by (simp add: owner_editions_def)

lemma example_expand:
  "expand_roster owner [role_edition, grant_edition] n {replicate 64 CHR ''r'', replicate 64 CHR ''g''} =
     Inr {replicate 64 CHR ''r'', replicate 64 CHR ''g''}"
  by (cases n) (simp_all add: admits_def Let_def)

lemma parse_int_three: "parse_int ''3'' = Some 3"
  by (simp add: parse_int_def str_strip_def is_space_def parse_nat_def is_decimal_def code_def)

lemma example_members:
  "roster_members [((''1'', replicate 64 CHR ''d''), role_edition), ((''3'', replicate 64 CHR ''e''), grant_edition)] (replicate 64 CHR ''a'') =
    [(replicate 64 CHR ''a'', \<lparr>rm_position = 0, rm_permissions = 3\<rparr>), (replicate 64 CHR ''b'', \<lparr>rm_position = 1, rm_permissions = 3\<rparr>)]"
  by (simp add: roster_members_def grants_of_def roles_of_def granted_member_def granted_roles_def Let_def
      MANAGE_ROLES_def MANAGE_CHANNELS_def parse_int_three)

definition example_roster :: roster where
  "example_roster = \<lparr>ro_owner = replicate 64 CHR ''a'',
     ro_members = [(replicate 64 CHR ''a'', \<lparr>rm_position = 0, rm_permissions = 3\<rparr>), (replicate 64 CHR ''b'', \<lparr>rm_position = 1, rm_permissions = 3\<rparr>)],
     ro_grants = [(replicate 64 CHR ''e'', grant_edition)]\<rparr>"

lemma example_built: "build_roster control_libs control_events (replicate 64 CHR ''a'') 128 = Inr example_roster"
  using lower_64 [of "CHR ''a''"]
  by (simp add: build_roster_def control_parsed example_owned example_expand example_heads example_members example_roster_def)
    (simp add: grants_of_def)

lemma example_ids: "inj_on re_event_id (set (parse_roster control_libs control_events))"
  by (simp add: control_parsed inj_on_def)

lemma example_authorized: "authorized control_libs example_roster (JObj bob_edit) = Inr True"
proof -
  have "vac_tag (dget bob_edit ''tags'') = [replicate 64 CHR ''e'', ''1'', ''h'']"
    by (simp add: bob_edit_def control_event_def vac_tag_def tags_named_def)
  moreover have "isdigit ''1''" by (simp add: isdigit_def is_digit_def is_decimal_def code_def)
  ultimately show ?thesis
    by (simp add: authorized_def bob_parsed example_roster_def has_current_grant_citation_def int_of_text_def parse_int_one
        MANAGE_CHANNELS_def)
qed

theorem channel_authority_rooted_witness:
  "\<exists>g. rooted (replicate 64 CHR ''a'') (set (parse_roster control_libs control_events)) g \<and>
     dget (re_content g) ''member'' = JStr (replicate 64 CHR ''b'')"
  using channel_authority_rooted [OF example_built example_authorized example_ids]
  by (auto simp: bob_parsed cites_def)

theorem roster_rank_below_owner_witness:
  "(0 :: int) < 1 \<and> (\<exists>g. rooted (replicate 64 CHR ''a'') (set (parse_roster control_libs control_events)) g \<and> re_vsk g = ''3'')"
proof -
  have "map_of (ro_members example_roster) (replicate 64 CHR ''b'') = Some \<lparr>rm_position = 1, rm_permissions = 3\<rparr>"
    by (simp add: example_roster_def)
  moreover have "\<forall>e \<in> set (parse_roster control_libs control_events). re_actor e = replicate 64 CHR ''a'' \<longrightarrow> positive_role e"
    by (simp add: control_parsed positive_role_def)
  ultimately show ?thesis
    using roster_rank_below_owner [OF example_built example_ids, of "replicate 64 CHR ''b''"] by auto
qed

theorem roster_closed_witness:
  "admits (replicate 64 CHR ''a'') (select_roster_heads [role_edition, grant_edition] {replicate 64 CHR ''r'', replicate 64 CHR ''g''})
     {replicate 64 CHR ''r'', replicate 64 CHR ''g''} grant_edition \<noteq> Inr True"
  by (rule roster_closed [OF example_expand [of _ 0]]) simp_all

end
