(* ===== verification/Concord_Guestbook.thy ===== *)
theory Concord_Guestbook
  imports Concord_Json
begin

text \<open>
  \<^verbatim>\<open>src/yunohost_mcp/concord_guestbook.py\<close>: the membership state of a Concord community.  A Guestbook wrap
  is two signed events around an unsigned rumor; \<open>decode_guestbook_wrap\<close> opens one, \<open>fold_guestbook\<close>
  reduces rumors to the latest state of each member.  Decryption with the stream key and the coercion
  of an unsigned event are parameters.
\<close>

subsection \<open>Rumors\<close>

record unsigned_event =
  un_id :: string
  un_pubkey :: string
  un_created_at :: int
  un_kind :: int
  un_tags :: "string list list"
  un_content :: string

text \<open>\<open>compute_event_id\<close> reads the same fields of an unsigned event.\<close>

definition unsigned_event_id :: "libs \<Rightarrow> unsigned_event \<Rightarrow> string" where
  "unsigned_event_id L u = compute_event_id L
     \<lparr>ev_id = un_id u, ev_pubkey = un_pubkey u, ev_created_at = un_created_at u, ev_kind = un_kind u,
      ev_tags = un_tags u, ev_content = un_content u, ev_sig = []\<rparr>"

definition unsigned_dump :: "unsigned_event \<Rightarrow> dict" where
  "unsigned_dump u =
     [(''id'', JStr (un_id u)), (''pubkey'', JStr (un_pubkey u)), (''created_at'', JInt (un_created_at u)),
      (''kind'', JInt (un_kind u)), (''tags'', JList (map (\<lambda>t. JList (map JStr t)) (un_tags u))),
      (''content'', JStr (un_content u))]"

record stream_libs =
  decrypt_self :: "string \<Rightarrow> string + string"
  stream_pubkey :: string
  pydantic_unsigned :: "json \<Rightarrow> string + unsigned_event"

definition guestbook_error :: "string \<Rightarrow> exn" where
  "guestbook_error msg = Exn GuestbookError msg"

text \<open>An event inside a ciphertext: decryption, JSON and validation, any failure as one text.\<close>

definition open_layer :: "libs \<Rightarrow> stream_libs \<Rightarrow> (json \<Rightarrow> string + 'a) \<Rightarrow> string \<Rightarrow> exn + 'a" where
  "open_layer L S validate content =
     (case decrypt_self S content of
        Inl _ \<Rightarrow> Inl (guestbook_error ''invalid Guestbook wrap'')
      | Inr text \<Rightarrow>
          (case json_loads L text of
             Inl _ \<Rightarrow> Inl (guestbook_error ''invalid Guestbook wrap'')
           | Inr raw \<Rightarrow>
               (case validate raw of
                  Inl _ \<Rightarrow> Inl (guestbook_error ''invalid Guestbook wrap'')
                | Inr x \<Rightarrow> Inr x)))"

definition verify_layer :: "libs \<Rightarrow> nostr_event \<Rightarrow> exn + unit" where
  "verify_layer L e = (case verify_event L e of
      Inl _ \<Rightarrow> Inl (guestbook_error ''invalid Guestbook wrap'') | Inr _ \<Rightarrow> Inr ())"

definition decode_guestbook_wrap :: "libs \<Rightarrow> stream_libs \<Rightarrow> json \<Rightarrow> exn + dict" where
  "decode_guestbook_wrap L S wrap =
     (case model_validate L wrap of
        Inl _ \<Rightarrow> Inl (guestbook_error ''invalid Guestbook wrap'')
      | Inr outer \<Rightarrow>
          ebind (guard (ev_kind outer = 1059 \<and> ev_pubkey outer = stream_pubkey S)
            (guestbook_error ''unexpected Guestbook stream event'')) (\<lambda>_.
          ebind (verify_layer L outer) (\<lambda>_.
          ebind (open_layer L S (model_validate L) (ev_content outer)) (\<lambda>seal.
          ebind (guard (ev_kind seal = 20013) (guestbook_error ''Guestbook requires an encrypted seal'')) (\<lambda>_.
          ebind (verify_layer L seal) (\<lambda>_.
          ebind (open_layer L S (pydantic_unsigned S) (ev_content seal)) (\<lambda>rumor.
          ebind (guard (un_pubkey rumor = ev_pubkey seal \<and> un_id rumor = unsigned_event_id L rumor)
            (guestbook_error ''Guestbook seal does not bind its rumor'')) (\<lambda>_.
          ebind (guard (un_kind rumor \<in> {3306, 3309, 3312})
            (guestbook_error ''unsupported Guestbook rumor kind'')) (\<lambda>_.
          Inr (unsigned_dump rumor))))))))))"

subsection \<open>The fold\<close>

definition millisecond :: "dict \<Rightarrow> exn + int option" where
  "millisecond rumor =
     (case map (\<lambda>t. t ! 1) (tags_named 2 ''ms'' (dget rumor ''tags'')) of
        [] \<Rightarrow> Inr (Some 0)
      | [JStr s] \<Rightarrow>
          if \<not> isdigit s then Inr None
          else ebind (int_of_text s) (\<lambda>v. Inr (if 0 \<le> v \<and> v \<le> 999 then Some v else None))
      | _ \<Rightarrow> Inr None)"

record guestbook_state =
  gs_member :: string
  gs_status :: string
  gs_timestamp_ms :: int
  gs_rumor_id :: string

text \<open>The members that an accepted snapshot lists; \<open>None\<close> stands for \<open>continue\<close>.\<close>

definition snapshot_members :: "libs \<Rightarrow> (dict \<Rightarrow> bool) option \<Rightarrow> dict \<Rightarrow> string list option" where
  "snapshot_members L authorize_snapshot rumor =
     (case authorize_snapshot of
        None \<Rightarrow> None
      | Some authorized \<Rightarrow>
          if \<not> authorized rumor then None
          else (case dget_default rumor ''content'' (JStr []) of
              JStr text \<Rightarrow>
                (case json_loads L text of
                   Inr (JList vs) \<Rightarrow>
                     if list_all (text_of_length 64) vs then
                       (case tags_named 4 ''snap'' (dget rumor ''tags'') of
                          [tag] \<Rightarrow> if list_all digit_text (take 2 (drop 2 tag)) then Some (map text_of vs) else None
                        | _ \<Rightarrow> None)
                     else None
                 | _ \<Rightarrow> None)
            | _ \<Rightarrow> None))"

definition kick_target :: "(dict \<Rightarrow> bool) option \<Rightarrow> dict \<Rightarrow> string option" where
  "kick_target authorize_kick rumor =
     (case authorize_kick of
        None \<Rightarrow> None
      | Some authorized \<Rightarrow>
          if \<not> authorized rumor then None
          else (case filter is_str (map (\<lambda>t. t ! 1) (tags_named 2 ''p'' (dget rumor ''tags''))) of
              [JStr m] \<Rightarrow> Some m
            | _ \<Rightarrow> None))"

text \<open>What one rumor proposes: who the change is about, from the kind of the rumor.\<close>

definition rumor_subjects ::
  "libs \<Rightarrow> (dict \<Rightarrow> bool) option \<Rightarrow> (dict \<Rightarrow> bool) option \<Rightarrow> dict \<Rightarrow> (json \<times> string list) option" where
  "rumor_subjects L authorize_kick authorize_snapshot rumor =
     (let kind = dget rumor ''kind''
      in if eq_int kind 3312 then
           map_option (\<lambda>ms. (JStr (if ms = [] then replicate 64 CHR ''0'' else hd ms), ms))
             (snapshot_members L authorize_snapshot rumor)
         else if eq_int kind 3309 then
           map_option (\<lambda>m. (JStr m, [])) (kick_target authorize_kick rumor)
         else Some (dget rumor ''pubkey'', []))"

definition rumor_states ::
  "libs \<Rightarrow> (dict \<Rightarrow> bool) option \<Rightarrow> (dict \<Rightarrow> bool) option \<Rightarrow> int \<Rightarrow> dict \<Rightarrow> exn + guestbook_state list" where
  "rumor_states L authorize_kick authorize_snapshot latest rumor =
     ebind (in_ints (dget rumor ''kind'') [3306, 3309, 3312]) (\<lambda>known.
     case (if known then rumor_subjects L authorize_kick authorize_snapshot rumor else None) of
       None \<Rightarrow> Inr []
     | Some (member, snapshot) \<Rightarrow>
         (let kind = dget rumor ''kind''; rumor_id = dget rumor ''id''; content = dget rumor ''content'';
              created_at = dget rumor ''created_at''
          in ebind (millisecond rumor) (\<lambda>ms.
             if \<not> text_of_length 64 member \<or> \<not> text_of_length 64 rumor_id then Inr []
             else ebind (if eq_int kind 3306 then in_texts content [''join'', ''leave''] else Inr True) (\<lambda>content_ok.
               case ms of
                 None \<Rightarrow> Inr []
               | Some m \<Rightarrow>
                   if \<not> content_ok \<or> (eq_int kind 3309 \<and> content \<noteq> JStr []) \<or> \<not> is_int created_at then Inr []
                   else (let timestamp_ms = int_value created_at * 1000 + m
                     in if latest < timestamp_ms then Inr []
                        else if eq_int kind 3312 then
                          Inr (map (\<lambda>s. \<lparr>gs_member = s, gs_status = ''join'', gs_timestamp_ms = timestamp_ms,
                                         gs_rumor_id = text_of rumor_id\<rparr>) snapshot)
                        else Inr [\<lparr>gs_member = text_of member,
                                   gs_status = (if eq_int kind 3309 then ''leave'' else text_of content),
                                   gs_timestamp_ms = timestamp_ms, gs_rumor_id = text_of rumor_id\<rparr>])))))"

definition newer :: "guestbook_state \<Rightarrow> guestbook_state \<Rightarrow> bool" where
  "newer a b = (gs_timestamp_ms b < gs_timestamp_ms a \<or>
     (gs_timestamp_ms a = gs_timestamp_ms b \<and> gs_rumor_id b < gs_rumor_id a))"

definition keep_newest :: "guestbook_state \<Rightarrow> (string \<times> guestbook_state) list \<Rightarrow> (string \<times> guestbook_state) list" where
  "keep_newest candidate states =
     (case map_of states (gs_member candidate) of
        None \<Rightarrow> AList.update (gs_member candidate) candidate states
      | Some current \<Rightarrow>
          if newer candidate current then AList.update (gs_member candidate) candidate states else states)"

definition fold_guestbook ::
  "libs \<Rightarrow> int \<Rightarrow> int \<Rightarrow> (dict \<Rightarrow> bool) option \<Rightarrow> (dict \<Rightarrow> bool) option \<Rightarrow> string list \<Rightarrow> json list \<Rightarrow>
     exn + (string \<times> guestbook_state) list" where
  "fold_guestbook L now_ms future_skew_ms authorize_kick authorize_snapshot banned_members rumors =
     (if future_skew_ms < 0 then Inl (Exn ValueError ''future_skew_ms must not be negative'')
      else ebind (emap (\<lambda>rumor. case rumor of
               JObj d \<Rightarrow> rumor_states L authorize_kick authorize_snapshot (now_ms + future_skew_ms) d
             | _ \<Rightarrow> Inr []) rumors) (\<lambda>candidates.
           Inr (filter (\<lambda>p. fst p \<notin> set banned_members) (fold keep_newest (concat candidates) []))))"

subsection \<open>The newest candidate wins\<close>

lemma newer_irrefl [simp]: "\<not> newer a a"
  by (simp add: newer_def)

lemma newer_trans: "newer a b \<Longrightarrow> newer b c \<Longrightarrow> newer a c"
  by (auto simp: newer_def)

lemma newer_total: "\<not> newer a b \<Longrightarrow> \<not> newer b a \<Longrightarrow>
    gs_timestamp_ms a = gs_timestamp_ms b \<and> gs_rumor_id a = gs_rumor_id b"
  by (auto simp: newer_def)

lemma not_newer_trans: "\<not> newer a b \<Longrightarrow> newer c b \<Longrightarrow> \<not> newer a c"
  using newer_trans newer_total by blast

lemma keep_newest_lookup:
  "map_of (keep_newest c states) = (map_of states)(gs_member c \<mapsto>
     (case map_of states (gs_member c) of None \<Rightarrow> c | Some current \<Rightarrow> if newer c current then c else current))"
  by (auto simp: keep_newest_def AList.update_conv' fun_eq_iff split: option.splits)

definition newest :: "guestbook_state list \<Rightarrow> string \<Rightarrow> guestbook_state \<Rightarrow> bool" where
  "newest cs m c \<longleftrightarrow> c \<in> set cs \<and> gs_member c = m \<and> (\<forall>c' \<in> set cs. gs_member c' = m \<longrightarrow> \<not> newer c' c)"

lemma fold_newest:
  "case map_of (fold keep_newest cs []) m of
     None \<Rightarrow> \<forall>c \<in> set cs. gs_member c \<noteq> m
   | Some c \<Rightarrow> newest cs m c"
proof (induction cs rule: rev_induct)
  case (snoc c cs)
  show ?case
  proof (cases "gs_member c = m")
    case True
    with snoc show ?thesis
      by (auto simp: keep_newest_lookup newest_def split: option.splits dest: not_newer_trans newer_trans)
  next
    case False
    with snoc show ?thesis by (auto simp: keep_newest_lookup newest_def split: option.splits)
  qed
qed simp

lemma newest_unique:
  assumes "newest cs m c" "newest cs' m c'" "set cs = set cs'"
    and "\<forall>a \<in> set cs. \<forall>b \<in> set cs. gs_member a = gs_member b \<longrightarrow> gs_rumor_id a = gs_rumor_id b \<longrightarrow> a = b"
  shows "c = c'"
proof -
  have "\<not> newer c c'" "\<not> newer c' c" using assms(1-3) by (auto simp: newest_def)
  with assms show ?thesis using newer_total by (auto simp: newest_def)
qed

lemma fold_newest_set:
  assumes "set cs = set cs'"
    and "\<forall>a \<in> set cs. \<forall>b \<in> set cs. gs_member a = gs_member b \<longrightarrow> gs_rumor_id a = gs_rumor_id b \<longrightarrow> a = b"
  shows "map_of (fold keep_newest cs []) = map_of (fold keep_newest cs' [])"
proof
  fix m
  show "map_of (fold keep_newest cs []) m = map_of (fold keep_newest cs' []) m"
    using fold_newest [of cs m] fold_newest [of cs' m] assms newest_unique [of cs m _ cs']
    by (auto simp: newest_def split: option.splits)
qed

subsection \<open>What a rumor may change\<close>

text \<open>The states that a set of rumors proposes, and the rumor that speaks for a state.\<close>

definition proposed ::
  "libs \<Rightarrow> (dict \<Rightarrow> bool) option \<Rightarrow> (dict \<Rightarrow> bool) option \<Rightarrow> int \<Rightarrow> json list \<Rightarrow> guestbook_state set" where
  "proposed L kick snap latest rumors =
     {s. \<exists>d ss. JObj d \<in> set rumors \<and> rumor_states L kick snap latest d = Inr ss \<and> s \<in> set ss}"

definition speaks_for ::
  "libs \<Rightarrow> (dict \<Rightarrow> bool) option \<Rightarrow> (dict \<Rightarrow> bool) option \<Rightarrow> dict \<Rightarrow> guestbook_state \<Rightarrow> bool" where
  "speaks_for L kick snap d s \<longleftrightarrow>
     dget d ''id'' = JStr (gs_rumor_id s) \<and>
     (if eq_int (dget d ''kind'') 3306 then
        dget d ''pubkey'' = JStr (gs_member s) \<and> dget d ''content'' = JStr (gs_status s) \<and>
        gs_status s \<in> {''join'', ''leave''}
      else if eq_int (dget d ''kind'') 3309 then
        (\<exists>authorized. kick = Some authorized \<and> authorized d) \<and> kick_target kick d = Some (gs_member s) \<and>
        gs_status s = ''leave''
      else (\<exists>authorized. snap = Some authorized \<and> authorized d) \<and>
        (\<exists>ms. snapshot_members L snap d = Some ms \<and> gs_member s \<in> set ms) \<and> gs_status s = ''join'')"

lemma text_of_length_iff: "text_of_length n v \<longleftrightarrow> (\<exists>s. v = JStr s \<and> length s = n)"
  by (cases v) auto

lemma in_texts_Inr: "in_texts v ks = Inr b \<Longrightarrow> b = (v \<in> set (map JStr ks))"
  by (simp add: in_texts_def)

lemma eq_int_unique: "eq_int v a \<Longrightarrow> eq_int v b \<Longrightarrow> a = b"
  by (cases v) auto

lemma kick_authorized: "kick_target kick d = Some m \<Longrightarrow> \<exists>authorized. kick = Some authorized \<and> authorized d"
  by (auto simp: kick_target_def split: option.splits if_splits)

lemma snapshot_authorized: "snapshot_members L snap d = Some ms \<Longrightarrow> \<exists>authorized. snap = Some authorized \<and> authorized d"
  by (auto simp: snapshot_members_def split: option.splits if_splits)

lemma eq_int_kinds:
  "\<not> (eq_int v 3306 \<and> eq_int v 3312)" "\<not> (eq_int v 3309 \<and> eq_int v 3312)" "\<not> (eq_int v 3306 \<and> eq_int v 3309)"
  using eq_int_unique by fastforce+

text \<open>A rumor proposes something: it is of a known kind, has a subject, an id and a time.\<close>

lemma rumor_states_cases:
  assumes "rumor_states L kick snap latest d = Inr ss" "s \<in> set ss"
  obtains member snapshot ts rid where
    "list_ex (eq_int (dget d ''kind'')) [3306, 3309, 3312]"
    "rumor_subjects L kick snap d = Some (JStr member, snapshot)" "dget d ''id'' = JStr rid" "ts \<le> latest"
    "eq_int (dget d ''kind'') 3306 \<Longrightarrow> dget d ''content'' \<in> {JStr ''join'', JStr ''leave''}"
    "ss = (if eq_int (dget d ''kind'') 3312
       then map (\<lambda>m. \<lparr>gs_member = m, gs_status = ''join'', gs_timestamp_ms = ts, gs_rumor_id = rid\<rparr>) snapshot
       else [\<lparr>gs_member = member, gs_status = (if eq_int (dget d ''kind'') 3309 then ''leave'' else text_of (dget d ''content'')),
              gs_timestamp_ms = ts, gs_rumor_id = rid\<rparr>])"
proof -
  let ?kind = "dget d ''kind''" and ?ct = "dget d ''content''"
  from assms obtain known where known: "in_ints ?kind [3306, 3309, 3312] = Inr known"
    by (auto simp: rumor_states_def)
  with assms obtain member' snapshot where subject: "known" "rumor_subjects L kick snap d = Some (member', snapshot)"
    by (auto simp: rumor_states_def split: if_splits option.splits)
  with assms known obtain ms where ms: "millisecond d = Inr ms"
    by (auto simp: rumor_states_def Let_def)
  with assms known subject obtain member rid where texts: "member' = JStr member" "length member = 64"
      "dget d ''id'' = JStr rid" "length rid = 64"
    by (auto simp: rumor_states_def Let_def text_of_length_iff split: if_splits)
  with assms known subject ms obtain ok where ok:
      "(if eq_int ?kind 3306 then in_texts ?ct [''join'', ''leave''] else Inr True) = Inr ok"
    by (auto simp: rumor_states_def Let_def)
  from assms known subject ms texts ok obtain m where some: "ms = Some m"
    by (cases ms) (auto simp: rumor_states_def Let_def)
  have "ok" using assms known subject ms texts ok some by (cases ok) (auto simp: rumor_states_def Let_def)
  note m = some this
  define ts where "ts = int_value (dget d ''created_at'') * 1000 + m"
  have ss: "ts \<le> latest" "ss = (if eq_int ?kind 3312
       then map (\<lambda>x. \<lparr>gs_member = x, gs_status = ''join'', gs_timestamp_ms = ts, gs_rumor_id = rid\<rparr>) snapshot
       else [\<lparr>gs_member = member, gs_status = (if eq_int ?kind 3309 then ''leave'' else text_of ?ct),
              gs_timestamp_ms = ts, gs_rumor_id = rid\<rparr>])"
    using assms known subject ms texts ok m
    by (auto simp: rumor_states_def Let_def ts_def simp flip: not_less split: if_splits)
  show thesis
  proof (rule that [where member = member and snapshot = snapshot and ts = ts and rid = rid])
    show "list_ex (eq_int ?kind) [3306, 3309, 3312]" using known subject(1) by (auto simp: in_ints_def)
    show "eq_int ?kind 3306 \<Longrightarrow> ?ct \<in> {JStr ''join'', JStr ''leave''}"
      using ok m(2) by (auto dest: in_texts_Inr)
  qed (use subject texts ss in simp_all)
qed

lemma rumor_states_bound:
  assumes "rumor_states L kick snap latest d = Inr ss" "s \<in> set ss"
  shows "gs_timestamp_ms s \<le> latest"
  using assms(2) by (rule_tac rumor_states_cases [OF assms]) (auto split: if_splits)

lemma rumor_states_speaks:
  assumes "rumor_states L kick snap latest d = Inr ss" "s \<in> set ss"
  shows "speaks_for L kick snap d s"
proof (rule rumor_states_cases [OF assms])
  fix member snapshot ts rid
  assume facts: "list_ex (eq_int (dget d ''kind'')) [3306, 3309, 3312]"
    "rumor_subjects L kick snap d = Some (JStr member, snapshot)" "dget d ''id'' = JStr rid"
    "eq_int (dget d ''kind'') 3306 \<Longrightarrow> dget d ''content'' \<in> {JStr ''join'', JStr ''leave''}"
    "ss = (if eq_int (dget d ''kind'') 3312
       then map (\<lambda>m. \<lparr>gs_member = m, gs_status = ''join'', gs_timestamp_ms = ts, gs_rumor_id = rid\<rparr>) snapshot
       else [\<lparr>gs_member = member, gs_status = (if eq_int (dget d ''kind'') 3309 then ''leave'' else text_of (dget d ''content'')),
              gs_timestamp_ms = ts, gs_rumor_id = rid\<rparr>])"
  note kinds = eq_int_kinds [of "dget d ''kind''"]
  consider "eq_int (dget d ''kind'') 3306" | "eq_int (dget d ''kind'') 3309" | "eq_int (dget d ''kind'') 3312"
    using facts(1) by auto
  then show "speaks_for L kick snap d s"
  proof cases
    case 1
    with facts kinds assms(2) show ?thesis by (auto simp: speaks_for_def rumor_subjects_def)
  next
    case 2
    with facts kinds assms(2) show ?thesis
      by (auto simp: speaks_for_def rumor_subjects_def dest: kick_authorized)
  next
    case 3
    with facts kinds assms(2) show ?thesis
      by (auto simp: speaks_for_def rumor_subjects_def dest: snapshot_authorized)
  qed
qed

lemma rumor_states_same:
  assumes "rumor_states L kick snap latest d = Inr ss" "a \<in> set ss" "b \<in> set ss" "gs_member a = gs_member b"
  shows "a = b"
  using assms(2-4) by (rule_tac rumor_states_cases [OF assms(1,2)]) (auto split: if_splits)

lemma fold_guestbook_Inr:
  assumes "fold_guestbook L now skew kick snap banned rumors = Inr states"
  obtains cs where "set (concat cs) = proposed L kick snap (now + skew) rumors"
    "states = filter (\<lambda>p. fst p \<notin> set banned) (fold keep_newest (concat cs) [])"
proof -
  let ?f = "\<lambda>rumor. case rumor of JObj d \<Rightarrow> rumor_states L kick snap (now + skew) d | _ \<Rightarrow> Inr []"
  obtain cs where cs: "emap ?f rumors = Inr cs"
    and states: "states = filter (\<lambda>p. fst p \<notin> set banned) (fold keep_newest (concat cs) [])"
    using assms by (auto simp: fold_guestbook_def split: if_splits)
  have object: "?f x = Inr l \<and> s \<in> set l \<longleftrightarrow> (\<exists>d. x = JObj d \<and> rumor_states L kick snap (now + skew) d = Inr l \<and> s \<in> set l)"
    for x l s by (cases x) auto
  have "set (concat cs) = {s. \<exists>l. s \<in> set l \<and> l \<in> set cs}" by auto
  also have "\<dots> = {s. \<exists>l. \<exists>x \<in> set rumors. ?f x = Inr l \<and> s \<in> set l}" unfolding emap_set [OF cs] by blast
  also have "\<dots> = proposed L kick snap (now + skew) rumors" unfolding object proposed_def by blast
  finally have "set (concat cs) = proposed L kick snap (now + skew) rumors" .
  then show thesis using states by (rule that)
qed

lemma fold_guestbook_defined:
  "(\<exists>states. fold_guestbook L now skew kick snap banned rumors = Inr states) \<longleftrightarrow>
     0 \<le> skew \<and> (\<forall>d. JObj d \<in> set rumors \<longrightarrow> (\<exists>ss. rumor_states L kick snap (now + skew) d = Inr ss))"
proof -
  let ?f = "\<lambda>rumor. case rumor of JObj d \<Rightarrow> rumor_states L kick snap (now + skew) d | _ \<Rightarrow> Inr []"
  have "(\<exists>cs. emap ?f rumors = Inr cs) \<longleftrightarrow>
      (\<forall>d. JObj d \<in> set rumors \<longrightarrow> (\<exists>ss. rumor_states L kick snap (now + skew) d = Inr ss))"
  proof -
    have object: "(\<exists>y. ?f x = Inr y) \<longleftrightarrow> (\<forall>d. x = JObj d \<longrightarrow> (\<exists>ss. rumor_states L kick snap (now + skew) d = Inr ss))" for x
      by (cases x) auto
    show ?thesis unfolding emap_defined object by blast
  qed
  then show ?thesis by (simp add: fold_guestbook_def)
qed

lemma map_of_filter_keys: "map_of (filter (\<lambda>p. fst p \<notin> B) xs) k = (if k \<in> B then None else map_of xs k)"
  by (induction xs) auto

lemma fold_guestbook_lookup:
  assumes "fold_guestbook L now skew kick snap banned rumors = Inr states" "map_of states m = Some s"
  obtains d ss where "m \<notin> set banned" "gs_member s = m" "JObj d \<in> set rumors"
    "rumor_states L kick snap (now + skew) d = Inr ss" "s \<in> set ss"
    "\<forall>s' \<in> proposed L kick snap (now + skew) rumors. gs_member s' = m \<longrightarrow> \<not> newer s' s"
proof -
  obtain cs where cs: "set (concat cs) = proposed L kick snap (now + skew) rumors"
    and states: "states = filter (\<lambda>p. fst p \<notin> set banned) (fold keep_newest (concat cs) [])"
    using assms(1) by (rule fold_guestbook_Inr)
  from assms(2) have m: "m \<notin> set banned" "map_of (fold keep_newest (concat cs) []) m = Some s"
    unfolding states map_of_filter_keys by (auto split: if_splits)
  with fold_newest [of "concat cs" m] have best: "newest (concat cs) m s" by simp
  then have "s \<in> proposed L kick snap (now + skew) rumors" unfolding cs [symmetric] by (simp add: newest_def)
  then obtain d ss where "JObj d \<in> set rumors" "rumor_states L kick snap (now + skew) d = Inr ss" "s \<in> set ss"
    by (auto simp: proposed_def)
  then show thesis using m best unfolding newest_def cs by (intro that) simp_all
qed

subsection \<open>Properties\<close>

text \<open>
  Who is in the Guestbook. If the fold gives a member a state, the member is not banned, the state
  is not later than the clock allows, some rumor of the input speaks for it - a join or leave by the
  member itself, an authorized kick of the member, an authorized snapshot that lists it - and no
  other accepted rumor about this member is newer.
\<close>

theorem guestbook_state_justified:
  assumes "fold_guestbook L now_ms skew kick snap banned rumors = Inr states" "map_of states m = Some s"
  shows "m \<notin> set banned \<and> gs_member s = m \<and> gs_timestamp_ms s \<le> now_ms + skew \<and>
    (\<exists>d. JObj d \<in> set rumors \<and> speaks_for L kick snap d s) \<and>
    (\<forall>s' \<in> proposed L kick snap (now_ms + skew) rumors. gs_member s' = m \<longrightarrow> \<not> newer s' s)"
proof -
  obtain d ss where d: "m \<notin> set banned" "gs_member s = m" "JObj d \<in> set rumors"
      "rumor_states L kick snap (now_ms + skew) d = Inr ss" "s \<in> set ss"
    and newest: "\<forall>s' \<in> proposed L kick snap (now_ms + skew) rumors. gs_member s' = m \<longrightarrow> \<not> newer s' s"
    using assms by (rule fold_guestbook_lookup)
  have "speaks_for L kick snap d s" "gs_timestamp_ms s \<le> now_ms + skew"
    using d(4,5) by (rule rumor_states_speaks, rule rumor_states_bound)
  with d newest show ?thesis by blast
qed

text \<open>
  Relays may deliver in any order and repeat themselves. Two inputs with the same rumors, whatever
  their order and multiplicity, fold to the same states, provided that rumors with the same id are
  the same rumor, which the hash of the content ensures.
\<close>

theorem guestbook_order_independent:
  assumes "\<forall>d d'. JObj d \<in> set rumors \<longrightarrow> JObj d' \<in> set rumors \<longrightarrow> dget d ''id'' = dget d' ''id'' \<longrightarrow> d = d'"
    and "set rumors = set rumors'" "fold_guestbook L now_ms skew kick snap banned rumors = Inr states"
  shows "\<exists>states'. fold_guestbook L now_ms skew kick snap banned rumors' = Inr states' \<and> map_of states' = map_of states"
proof -
  obtain cs where cs: "set (concat cs) = proposed L kick snap (now_ms + skew) rumors"
      "states = filter (\<lambda>p. fst p \<notin> set banned) (fold keep_newest (concat cs) [])"
    using assms(3) by (rule fold_guestbook_Inr)
  have "\<exists>states'. fold_guestbook L now_ms skew kick snap banned rumors' = Inr states'"
    using assms(2,3) fold_guestbook_defined [of L now_ms skew kick snap banned rumors]
    unfolding fold_guestbook_defined [of L now_ms skew kick snap banned rumors'] by auto
  then obtain states' where states': "fold_guestbook L now_ms skew kick snap banned rumors' = Inr states'" ..
  obtain cs' where cs': "set (concat cs') = proposed L kick snap (now_ms + skew) rumors'"
      "states' = filter (\<lambda>p. fst p \<notin> set banned) (fold keep_newest (concat cs') [])"
    using states' by (rule fold_guestbook_Inr)
  have "a = b" if "a \<in> set (concat cs)" "b \<in> set (concat cs)" "gs_member a = gs_member b" "gs_rumor_id a = gs_rumor_id b" for a b
  proof -
    from that(1,2) cs(1) obtain d d' ss ss' where
      d: "JObj d \<in> set rumors" "rumor_states L kick snap (now_ms + skew) d = Inr ss" "a \<in> set ss" and
      d': "JObj d' \<in> set rumors" "rumor_states L kick snap (now_ms + skew) d' = Inr ss'" "b \<in> set ss'"
      unfolding proposed_def by blast
    have "dget d ''id'' = dget d' ''id''"
      using rumor_states_speaks [OF d(2,3)] rumor_states_speaks [OF d'(2,3)] that(4) by (simp add: speaks_for_def)
    with assms(1) d(1) d'(1) have "d = d'" by blast
    with d d' that(3) show ?thesis using rumor_states_same [of L kick snap "now_ms + skew" d ss a b] by simp
  qed
  moreover have "set (concat cs) = set (concat cs')" unfolding cs(1) cs'(1) proposed_def assms(2) ..
  ultimately have "map_of (fold keep_newest (concat cs) []) = map_of (fold keep_newest (concat cs') [])"
    by (intro fold_newest_set) blast+
  then have "map_of states' = map_of states" unfolding cs(2) cs'(2) by (simp add: fun_eq_iff map_of_filter_keys)
  with states' show ?thesis by blast
qed

lemma decode_wrap_Inr:
  assumes "decode_guestbook_wrap L S wrap = Inr d"
  obtains seal rumor where "ev_kind seal = 20013" "verify_event L seal = Inr ()"
    "open_layer L S (pydantic_unsigned S) (ev_content seal) = Inr rumor" "d = unsigned_dump rumor"
    "un_pubkey rumor = ev_pubkey seal" "un_id rumor = unsigned_event_id L rumor"
proof -
  have layer: "verify_layer L e = Inr u \<Longrightarrow> verify_event L e = Inr ()" for e u
    by (auto simp: verify_layer_def split: sum.splits)
  from assms layer show thesis
    by (auto simp: decode_guestbook_wrap_def intro: that split: sum.splits)
qed

lemma dump_simps [simp]:
  "dget (unsigned_dump u) ''pubkey'' = JStr (un_pubkey u)" "dget (unsigned_dump u) ''id'' = JStr (un_id u)"
  "dget (unsigned_dump u) ''content'' = JStr (un_content u)" "dget (unsigned_dump u) ''kind'' = JInt (un_kind u)"
  by (simp_all add: unsigned_dump_def)

text \<open>Who a folded state of decoded wraps goes back to.\<close>

lemma folded_self_signed:
  assumes "\<forall>r \<in> set rumors. \<exists>wrap d. decode_guestbook_wrap L S wrap = Inr d \<and> r = JObj d"
    and "fold_guestbook L now_ms skew None None banned rumors = Inr states" "map_of states m = Some s"
  shows "\<exists>seal rumor. ev_pubkey seal = m \<and> ev_kind seal = 20013 \<and> verify_event L seal = Inr () \<and>
    open_layer L S (pydantic_unsigned S) (ev_content seal) = Inr rumor \<and> un_pubkey rumor = m \<and>
    un_id rumor = unsigned_event_id L rumor \<and> s = \<lparr>gs_member = m, gs_status = un_content rumor,
      gs_timestamp_ms = gs_timestamp_ms s, gs_rumor_id = un_id rumor\<rparr>"
proof -
  obtain d ss where d: "gs_member s = m" "JObj d \<in> set rumors"
      "rumor_states L None None (now_ms + skew) d = Inr ss" "s \<in> set ss"
    using assms(2,3) by (rule fold_guestbook_lookup)
  have speaks: "speaks_for L None None d s" using d(3,4) by (rule rumor_states_speaks)
  from assms(1) d(2) obtain wrap where "decode_guestbook_wrap L S wrap = Inr d" by blast
  then obtain seal rumor where seal: "ev_kind seal = 20013" "verify_event L seal = Inr ()"
    "open_layer L S (pydantic_unsigned S) (ev_content seal) = Inr rumor" "d = unsigned_dump rumor"
    "un_pubkey rumor = ev_pubkey seal" "un_id rumor = unsigned_event_id L rumor"
    by (rule decode_wrap_Inr)
  have "un_pubkey rumor = m" "un_content rumor = gs_status s" "un_id rumor = gs_rumor_id s"
    using speaks d(1) unfolding seal(4) by (auto simp: speaks_for_def split: if_splits)
  with seal d(1) show ?thesis by (intro exI [of _ seal] exI [of _ rumor]) simp
qed

text \<open>
  Nobody joins or leaves for somebody else. Folding decoded wraps without an authority for kicks and
  snapshots, as the check after a join does, every state of a member is the content of a rumor
  inside a seal whose signature by that member verifies, and the rumor's id is its hash.
\<close>

theorem guestbook_self_signed:
  assumes "\<forall>r \<in> set rumors. \<exists>wrap d. decode_guestbook_wrap L S wrap = Inr d \<and> r = JObj d"
    and "fold_guestbook L now_ms skew None None banned rumors = Inr states" "map_of states m = Some s"
  shows "\<exists>seal rumor. ev_pubkey seal = m \<and> ev_kind seal = 20013 \<and> verify_event L seal = Inr () \<and>
    open_layer L S (pydantic_unsigned S) (ev_content seal) = Inr rumor \<and> un_pubkey rumor = m \<and>
    un_id rumor = unsigned_event_id L rumor \<and> s = \<lparr>gs_member = m, gs_status = un_content rumor,
      gs_timestamp_ms = gs_timestamp_ms s, gs_rumor_id = un_id rumor\<rparr>"
  using assms by (rule folded_self_signed)

subsection \<open>An example\<close>

definition alice :: string where "alice = replicate 64 CHR ''a''"

definition example_rumor :: "string \<Rightarrow> int \<Rightarrow> string \<Rightarrow> unsigned_event" where
  "example_rumor i t what = \<lparr>un_id = i, un_pubkey = alice, un_created_at = t, un_kind = 3306, un_tags = [], un_content = what\<rparr>"

definition example_state :: "string \<Rightarrow> int \<Rightarrow> string \<Rightarrow> guestbook_state" where
  "example_state i t what = \<lparr>gs_member = alice, gs_status = what, gs_timestamp_ms = t * 1000, gs_rumor_id = i\<rparr>"

lemma example_rumor_states:
  assumes "length i = 64" "what \<in> {''join'', ''leave''}" "t * 1000 \<le> latest"
  shows "rumor_states L kick snap latest (unsigned_dump (example_rumor i t what)) = Inr [example_state i t what]"
  using assms by (auto simp: rumor_states_def rumor_subjects_def unsigned_dump_def example_rumor_def example_state_def
      in_ints_def in_texts_def hashable_def millisecond_def tags_named_def alice_def)

definition bob_id :: string where "bob_id = replicate 64 CHR ''b''"

definition example_rumors :: "json list" where
  "example_rumors = [JObj (unsigned_dump (example_rumor alice 1 ''join'')), JObj (unsigned_dump (example_rumor bob_id 2 ''leave''))]"

lemma example_lengths [simp]: "length alice = 64" "length bob_id = 64" "alice \<noteq> bob_id" "bob_id \<noteq> alice"
  by (simp_all add: alice_def bob_id_def eval_nat_numeral)

lemma example_fold:
  "fold_guestbook L 5000 0 None None [] example_rumors = Inr [(alice, example_state bob_id 2 ''leave'')]"
  by (simp add: fold_guestbook_def example_rumors_def example_rumor_states keep_newest_def newer_def)
    (simp add: example_state_def)

theorem guestbook_state_justified_witness:
  "\<exists>d. JObj d \<in> set example_rumors \<and> speaks_for example_libs None None d (example_state bob_id 2 ''leave'')"
  using guestbook_state_justified [OF example_fold [of example_libs], of alice "example_state bob_id 2 ''leave''"] by auto

theorem guestbook_order_independent_witness:
  "\<exists>states'. fold_guestbook example_libs 5000 0 None None [] (rev example_rumors @ example_rumors) = Inr states' \<and>
     map_of states' = [alice \<mapsto> example_state bob_id 2 ''leave'']"
proof -
  have "\<exists>states'. fold_guestbook example_libs 5000 0 None None [] (rev example_rumors @ example_rumors) = Inr states' \<and>
      map_of states' = map_of [(alice, example_state bob_id 2 ''leave'')]"
    by (rule guestbook_order_independent [OF _ _ example_fold])
      (auto simp: example_rumors_def example_rumor_def)
  then show ?thesis by simp
qed

definition example_seal :: nostr_event where
  "example_seal = \<lparr>ev_id = alice, ev_pubkey = alice, ev_created_at = 1, ev_kind = 20013, ev_tags = [], ev_content = ''seal'',
     ev_sig = replicate 128 CHR ''c''\<rparr>"

definition guestbook_libs :: libs where
  "guestbook_libs = example_libs\<lparr>sha256_hex := (\<lambda>_. alice),
     pydantic_event := (\<lambda>v. if v = JBool True then Inr (example_seal\<lparr>ev_kind := 1059\<rparr>) else Inr example_seal)\<rparr>"

definition example_stream :: stream_libs where
  "example_stream = \<lparr>decrypt_self = Inr, stream_pubkey = alice, pydantic_unsigned = (\<lambda>_. Inr (example_rumor alice 1 ''join''))\<rparr>"

lemma guestbook_hex: "fromhex_ok (replicate (2 * n) CHR ''a'')" "fromhex_ok (replicate (2 * n) CHR ''c'')"
  by (induction n) (auto simp: is_ascii_space_def is_hex_digit_def code_def is_decimal_def)

lemma example_decodes: "decode_guestbook_wrap guestbook_libs example_stream (JBool True) =
  Inr (unsigned_dump (example_rumor alice 1 ''join''))"
proof -
  have "is_hex alice" "is_hex (replicate 128 CHR ''c'')"
    using guestbook_hex(1) [of 32] guestbook_hex(2) [of 64]
    by (simp_all add: is_hex_def alice_def str_lower_def lower_char_def is_upper_def code_def)
  then have "model_validate guestbook_libs v = pydantic_event guestbook_libs v" for v
    by (simp add: model_validate_def guestbook_libs_def example_seal_def validate_hex32_def validate_sig_hex_def
        HEX32_LEN_def HEX64_LEN_def)
  then show ?thesis
    by (simp add: decode_guestbook_wrap_def open_layer_def verify_layer_def guestbook_libs_def example_stream_def
        example_seal_def example_rumor_def unsigned_event_id_def compute_event_id_def verify_event_def)
qed

theorem guestbook_self_signed_witness:
  "\<exists>seal. ev_pubkey seal = alice \<and> ev_kind seal = 20013 \<and> verify_event guestbook_libs seal = Inr ()"
proof -
  let ?r = "[JObj (unsigned_dump (example_rumor alice 1 ''join''))]"
  have folded: "fold_guestbook guestbook_libs 5000 0 None None [] ?r = Inr [(alice, example_state alice 1 ''join'')]"
    by (simp add: fold_guestbook_def example_rumor_states keep_newest_def) (simp add: example_state_def)
  have "\<forall>r \<in> set ?r. \<exists>wrap d. decode_guestbook_wrap guestbook_libs example_stream wrap = Inr d \<and> r = JObj d"
    using example_decodes by auto
  from guestbook_self_signed [OF this folded, of alice] show ?thesis by auto
qed

text \<open>
  One rumor stops the fold. A join or leave whose \<open>ms\<close> tag is a superscript digit passes \<open>isdigit\<close>
  and fails in \<open>int\<close>: with it in the input the fold raises, whatever the other rumors are, and
  the caller, which skips rumors that do not decode, does not catch this.
\<close>

theorem guestbook_superscript_escapes:
  assumes "un_kind u = 3306" "un_tags u = [[''ms'', [char_of (178 :: nat)]]]" "JObj (unsigned_dump u) \<in> set rumors"
  shows "\<exists>e. fold_guestbook L now_ms skew kick snap banned rumors = Inl e"
proof -
  let ?c = "char_of (178 :: nat) :: char"
  have "code ?c = 178" by (simp add: code_def)
  then have digit: "isdigit [?c]" "parse_int [?c] = None"
    by (simp_all add: isdigit_def is_digit_def parse_int_def str_strip_def is_space_def parse_nat_def is_decimal_def)
  have "millisecond (unsigned_dump u) = Inl (Exn ValueError (''invalid literal for int() with base 10: '' @ py_repr [?c]))"
    using digit assms(2) by (simp add: millisecond_def unsigned_dump_def tags_named_def int_of_text_def)
  then have "\<not> (\<exists>ss. rumor_states L kick snap (now_ms + skew) (unsigned_dump u) = Inr ss)"
    using assms(1) by (simp add: rumor_states_def rumor_subjects_def in_ints_def hashable_def)
  then have "\<not> (\<exists>states. fold_guestbook L now_ms skew kick snap banned rumors = Inr states)"
    unfolding fold_guestbook_defined using assms(3) by blast
  then show ?thesis by (cases "fold_guestbook L now_ms skew kick snap banned rumors") auto
qed

theorem guestbook_superscript_escapes_witness:
  "\<exists>e. fold_guestbook example_libs 5000 0 None None []
     (example_rumors @ [JObj (unsigned_dump ((example_rumor alice 1 ''join'')\<lparr>un_tags := [[''ms'', [char_of (178 :: nat)]]]\<rparr>))]) = Inl e"
  by (rule guestbook_superscript_escapes [of "(example_rumor alice 1 ''join'')\<lparr>un_tags := [[''ms'', [char_of (178 :: nat)]]]\<rparr>"])
    (simp_all add: example_rumor_def)

end
