(* ===== verification/Concord_Drafts.thy ===== *)
theory Concord_Drafts
  imports Concord_Guestbook Confirmation
begin

text \<open>
  \<^verbatim>\<open>src/yunohost_mcp/concord_pending_signature.py\<close>: drafts that wait for a signature.  A draft is a row of a
  table; \<open>consume\<close> reads the row, deletes it, and only then checks it.  The connection is in
  autocommit mode, so the read and the deletion are two steps that another process can separate.
\<close>

record pending_signature =
  pd_draft_id :: string
  pd_pubkey :: string
  pd_purpose :: string
  pd_rumor :: json
  pd_seal_template :: json
  pd_stream_key :: json
  pd_context :: json
  pd_created_at :: real
  pd_expires_at :: real

record pending_row =
  pr_pubkey :: string
  pr_purpose :: string
  pr_rumor :: string
  pr_seal_template :: string
  pr_stream_key :: string
  pr_context :: string
  pr_created_at :: real
  pr_expires_at :: real

record pending_store =
  ps_ttl_seconds :: int
  ps_rows :: "(string \<times> pending_row) list"

definition pending_error :: "string \<Rightarrow> exn" where
  "pending_error msg = Exn PendingSignatureError msg"

definition dumps :: "libs \<Rightarrow> json \<Rightarrow> string" where
  "dumps L v = json_text (float_text L) default_format v"

definition pending_create ::
  "libs \<Rightarrow> real \<Rightarrow> string \<Rightarrow> string \<Rightarrow> string \<Rightarrow> dict \<Rightarrow> dict \<Rightarrow> dict \<Rightarrow> dict \<Rightarrow> pending_store \<Rightarrow>
     pending_store \<times> pending_signature" where
  "pending_create L now draft_id pubkey purpose rumor seal_template stream_key ctxt st =
     (let pending = \<lparr>pd_draft_id = draft_id, pd_pubkey = pubkey, pd_purpose = purpose, pd_rumor = JObj rumor,
            pd_seal_template = JObj seal_template, pd_stream_key = JObj stream_key, pd_context = JObj ctxt,
            pd_created_at = now, pd_expires_at = now + of_int (ps_ttl_seconds st)\<rparr>;
          row = \<lparr>pr_pubkey = pubkey, pr_purpose = purpose, pr_rumor = dumps L (JObj rumor),
            pr_seal_template = dumps L (JObj seal_template), pr_stream_key = dumps L (JObj stream_key),
            pr_context = dumps L (JObj ctxt), pr_created_at = now, pr_expires_at = now + of_int (ps_ttl_seconds st)\<rparr>
      in (st\<lparr>ps_rows := ps_rows st @ [(draft_id, row)]\<rparr>, pending))"

text \<open>The two statements of \<open>consume\<close> and the checks that follow them.\<close>

definition pending_select :: "string \<Rightarrow> pending_store \<Rightarrow> pending_row option" where
  "pending_select draft_id st = map_of (ps_rows st) draft_id"

definition pending_delete :: "string \<Rightarrow> pending_store \<Rightarrow> pending_store" where
  "pending_delete draft_id st = st\<lparr>ps_rows := filter (\<lambda>p. fst p \<noteq> draft_id) (ps_rows st)\<rparr>"

definition loads :: "libs \<Rightarrow> string \<Rightarrow> exn + json" where
  "loads L text = (case json_loads L text of Inl msg \<Rightarrow> Inl (Exn ValueError msg) | Inr v \<Rightarrow> Inr v)"

definition pending_check :: "libs \<Rightarrow> real \<Rightarrow> string \<Rightarrow> string \<Rightarrow> string \<Rightarrow> pending_row \<Rightarrow> exn + pending_signature" where
  "pending_check L now draft_id pubkey purpose row =
     ebind (guard (now < pr_expires_at row) (pending_error ''pending signature draft has expired'')) (\<lambda>_.
     ebind (guard (pr_pubkey row = pubkey) (pending_error ''pending signature draft belongs to a different identity'')) (\<lambda>_.
     ebind (guard (pr_purpose row = purpose) (pending_error ''pending signature draft is for a different operation'')) (\<lambda>_.
     ebind (loads L (pr_rumor row)) (\<lambda>rumor. ebind (loads L (pr_seal_template row)) (\<lambda>seal_template.
     ebind (loads L (pr_stream_key row)) (\<lambda>stream_key. ebind (loads L (pr_context row)) (\<lambda>ctxt.
     Inr \<lparr>pd_draft_id = draft_id, pd_pubkey = pr_pubkey row, pd_purpose = pr_purpose row, pd_rumor = rumor,
       pd_seal_template = seal_template, pd_stream_key = stream_key, pd_context = ctxt,
       pd_created_at = pr_created_at row, pd_expires_at = pr_expires_at row\<rparr>)))))))"

definition pending_consume ::
  "libs \<Rightarrow> real \<Rightarrow> string \<Rightarrow> string \<Rightarrow> string \<Rightarrow> pending_store \<Rightarrow> pending_store \<times> (exn + pending_signature)" where
  "pending_consume L now draft_id pubkey purpose st =
     (case pending_select draft_id st of
        None \<Rightarrow> (st, Inl (pending_error ''unknown pending signature draft''))
      | Some row \<Rightarrow> (pending_delete draft_id st, pending_check L now draft_id pubkey purpose row))"

subsection \<open>One submission\<close>

text \<open>The texts that the database keeps are read back as the values that were written.\<close>

definition reads_back :: "libs \<Rightarrow> json \<Rightarrow> bool" where
  "reads_back L v \<longleftrightarrow> json_loads L (dumps L v) = Inr v"

lemma pending_select_create:
  assumes "pending_select draft_id st = None"
  shows "pending_select i (fst (pending_create L now draft_id pubkey purpose rumor seal stream_key ctxt st)) =
    (if i = draft_id then Some \<lparr>pr_pubkey = pubkey, pr_purpose = purpose, pr_rumor = dumps L (JObj rumor),
            pr_seal_template = dumps L (JObj seal), pr_stream_key = dumps L (JObj stream_key),
            pr_context = dumps L (JObj ctxt), pr_created_at = now, pr_expires_at = now + of_int (ps_ttl_seconds st)\<rparr>
     else pending_select i st)"
proof -
  have "map_of (xs @ [(k, v)]) i = (case map_of xs i of None \<Rightarrow> if i = k then Some v else None | Some w \<Rightarrow> Some w)"
    for xs :: "(string \<times> pending_row) list" and k v
    by (induction xs) auto
  with assms show ?thesis by (auto simp: pending_select_def pending_create_def Let_def split: option.splits)
qed

lemma pending_select_delete: "pending_select i (pending_delete d st) = (if i = d then None else pending_select i st)"
proof -
  have "map_of (filter (\<lambda>p. fst p \<noteq> d) xs) i = (if i = d then None else map_of xs i)" for xs :: "(string \<times> pending_row) list"
    by (induction xs) auto
  then show ?thesis by (simp add: pending_select_def pending_delete_def)
qed

text \<open>
  A draft comes back to its author, for its purpose, in its time, and as it was. Consuming a created
  draft succeeds exactly for the public key and the purpose it was created with and before it
  expires, returns what was stored, and in every case, failures included, the draft is gone.
\<close>

theorem draft_returns_to_author:
  assumes "pending_select draft_id st = None"
    and "reads_back L (JObj rumor)" "reads_back L (JObj seal)" "reads_back L (JObj stream_key)" "reads_back L (JObj ctxt)"
    and "pending_create L now draft_id pubkey purpose rumor seal stream_key ctxt st = (st1, issued)"
    and "pending_consume L later draft_id pubkey' purpose' st1 = (st2, r)"
  shows "r = (if pd_expires_at issued \<le> later then Inl (pending_error ''pending signature draft has expired'')
      else if pubkey' \<noteq> pubkey then Inl (pending_error ''pending signature draft belongs to a different identity'')
      else if purpose' \<noteq> purpose then Inl (pending_error ''pending signature draft is for a different operation'')
      else Inr issued) \<and>
    pending_select draft_id st2 = None \<and> pd_expires_at issued = now + of_int (ps_ttl_seconds st)"
proof -
  have "st1 = fst (pending_create L now draft_id pubkey purpose rumor seal stream_key ctxt st)"
    "issued = snd (pending_create L now draft_id pubkey purpose rumor seal stream_key ctxt st)"
    using assms(6) by simp_all
  with assms(7) show ?thesis
    using assms(2-5) pending_select_create [OF assms(1), of draft_id]
    by (auto simp: pending_consume_def pending_check_def pending_select_delete pending_create_def Let_def loads_def
        reads_back_def guard_def not_le split: if_splits)
qed

subsection \<open>Sequences\<close>

datatype pending_event =
    Draft real string string string dict dict dict dict
  | Submit real string string string

fun pending_step :: "libs \<Rightarrow> pending_event \<Rightarrow> pending_store \<Rightarrow> pending_store \<times> string option" where
  "pending_step L (Draft now i pubkey purpose rumor seal stream_key ctxt) st =
     (fst (pending_create L now i pubkey purpose rumor seal stream_key ctxt st), None)"
| "pending_step L (Submit now i pubkey purpose) st =
     (let (st', r) = pending_consume L now i pubkey purpose st
      in (st', case r of Inl _ \<Rightarrow> None | Inr _ \<Rightarrow> Some i))"

fun submitted :: "libs \<Rightarrow> pending_event list \<Rightarrow> pending_store \<Rightarrow> string list" where
  "submitted L [] st = []"
| "submitted L (e # es) st =
     (let (st', i) = pending_step L e st
      in (case i of None \<Rightarrow> [] | Some d \<Rightarrow> [d]) @ submitted L es st')"

fun drafted :: "pending_event list \<Rightarrow> string list" where
  "drafted [] = []"
| "drafted (Draft _ i _ _ _ _ _ _ # es) = i # drafted es"
| "drafted (Submit _ _ _ _ # es) = drafted es"

definition pending_ids :: "pending_store \<Rightarrow> string set" where
  "pending_ids st = {i. pending_select i st \<noteq> None}"

lemma consume_ids:
  assumes "pending_consume L now i pubkey purpose st = (st', r)"
  shows "pending_ids st' = pending_ids st - {i}" "r = Inr p \<Longrightarrow> i \<in> pending_ids st"
  using assms by (auto simp: pending_consume_def pending_ids_def pending_select_delete split: option.splits if_splits)

lemma submitted_once:
  "distinct (drafted es) \<Longrightarrow> set (drafted es) \<inter> pending_ids st = {} \<Longrightarrow>
     distinct (submitted L es st) \<and> set (submitted L es st) \<subseteq> pending_ids st \<union> set (drafted es)"
proof (induction es arbitrary: st)
  case (Cons e es)
  show ?case
  proof (cases e)
    case (Draft now i pubkey purpose rumor seal stream_key ctxt)
    let ?st = "fst (pending_create L now i pubkey purpose rumor seal stream_key ctxt st)"
    have new: "pending_select i st = None" using Cons.prems(2) Draft by (auto simp: pending_ids_def)
    have "pending_ids ?st = insert i (pending_ids st)"
      by (auto simp: pending_ids_def pending_select_create [OF new])
    with Cons.prems Draft Cons.IH [of ?st] show ?thesis by auto
  next
    case (Submit now i pubkey purpose)
    obtain st' r where c: "pending_consume L now i pubkey purpose st = (st', r)" by fastforce
    note ids = consume_ids [OF c]
    have "distinct (submitted L es st') \<and> set (submitted L es st') \<subseteq> pending_ids st' \<union> set (drafted es)"
      using Cons.prems Submit ids(1) by (intro Cons.IH) auto
    with Cons.prems Submit c ids show ?thesis by (cases r) auto
  qed
qed simp

text \<open>
  A draft is submitted at most once, whatever is drafted and submitted in whatever order, as long as
  each call runs by itself and draft ids are not reused.
\<close>

theorem draft_submitted_once:
  assumes "distinct (drafted es)"
  shows "distinct (submitted L es \<lparr>ps_ttl_seconds = ttl, ps_rows = []\<rparr>) \<and>
    set (submitted L es \<lparr>ps_ttl_seconds = ttl, ps_rows = []\<rparr>) \<subseteq> set (drafted es)"
  using submitted_once [OF assms, of "\<lparr>ps_ttl_seconds = ttl, ps_rows = []\<rparr>" L] by (simp add: pending_ids_def pending_select_def)

subsection \<open>Two processes\<close>

text \<open>The statements of several submitters, one after the other: each remembers the row it read.\<close>

datatype statement = Select nat | Delete nat

fun statements ::
  "(nat \<Rightarrow> string) \<Rightarrow> statement list \<Rightarrow> pending_store \<times> (nat \<Rightarrow> pending_row option) \<Rightarrow>
     pending_store \<times> (nat \<Rightarrow> pending_row option)" where
  "statements draft [] s = s"
| "statements draft (Select c # ss) (st, seen) = statements draft ss (st, seen(c := pending_select (draft c) st))"
| "statements draft (Delete c # ss) (st, seen) =
     statements draft ss (if seen c = None then st else pending_delete (draft c) st, seen)"

definition submit_outcome ::
  "libs \<Rightarrow> real \<Rightarrow> string \<Rightarrow> string \<Rightarrow> string \<Rightarrow> pending_row option \<Rightarrow> exn + pending_signature" where
  "submit_outcome L now draft_id pubkey purpose row =
     (case row of None \<Rightarrow> Inl (pending_error ''unknown pending signature draft'')
      | Some r \<Rightarrow> pending_check L now draft_id pubkey purpose r)"

text \<open>
  Two processes can submit the same draft. If both read the row before either deletes it, both
  checks see the same row, and whatever lets one succeed lets the other succeed; only when one
  call runs after the other does the second fail.
\<close>

theorem draft_submit_race:
  assumes "pending_select d st = Some row" "pending_check L now d pubkey purpose row = Inr p"
  shows "(let (st', seen) = statements (\<lambda>_. d) [Select 0, Select 1, Delete 0, Delete 1] (st, \<lambda>_. None)
      in map (\<lambda>c. submit_outcome L now d pubkey purpose (seen c)) [0, 1] = [Inr p, Inr p] \<and> pending_select d st' = None) \<and>
    (let (st', seen) = statements (\<lambda>_. d) [Select 0, Delete 0, Select 1, Delete 1] (st, \<lambda>_. None)
      in map (\<lambda>c. submit_outcome L now d pubkey purpose (seen c)) [0, 1] =
        [snd (pending_consume L now d pubkey purpose st),
         snd (pending_consume L now d pubkey purpose (fst (pending_consume L now d pubkey purpose st)))])"
  using assms by (simp add: submit_outcome_def pending_select_delete pending_consume_def)

subsection \<open>An example\<close>

definition draft_libs :: libs where
  "draft_libs = example_libs\<lparr>json_loads := (\<lambda>_. Inr (JObj []))\<rparr>"

lemma draft_libs_reads: "reads_back draft_libs (JObj [])"
  by (simp add: reads_back_def draft_libs_def)

theorem draft_returns_to_author_witness:
  "snd (pending_consume draft_libs 10 ''d'' ''mallory'' ''armada_join''
     (fst (pending_create draft_libs 0 ''d'' ''alice'' ''armada_join'' [] [] [] [] \<lparr>ps_ttl_seconds = 300, ps_rows = []\<rparr>))) =
   Inl (pending_error ''pending signature draft belongs to a different identity'')"
proof -
  let ?st = "\<lparr>ps_ttl_seconds = 300, ps_rows = []\<rparr>"
  have new: "pending_select ''d'' ?st = None" by (simp add: pending_select_def)
  obtain st1 issued where c: "pending_create draft_libs 0 ''d'' ''alice'' ''armada_join'' [] [] [] [] ?st = (st1, issued)" by fastforce
  obtain st2 r where s: "pending_consume draft_libs 10 ''d'' ''mallory'' ''armada_join'' st1 = (st2, r)" by fastforce
  have "pd_expires_at issued = 300" "r = Inl (pending_error ''pending signature draft belongs to a different identity'')"
    using draft_returns_to_author [OF new draft_libs_reads draft_libs_reads draft_libs_reads draft_libs_reads c s] by simp_all
  with c s show ?thesis by simp
qed

theorem draft_submitted_once_witness:
  "distinct (submitted draft_libs [Draft 0 ''d'' ''alice'' ''join'' [] [] [] [], Submit 1 ''d'' ''alice'' ''join'', Submit 2 ''d'' ''alice'' ''join'']
     \<lparr>ps_ttl_seconds = 300, ps_rows = []\<rparr>)"
  using draft_submitted_once [of "[Draft 0 ''d'' ''alice'' ''join'' [] [] [] [], Submit 1 ''d'' ''alice'' ''join'', Submit 2 ''d'' ''alice'' ''join'']"]
  by simp

theorem draft_submit_race_witness:
  "\<exists>p st' seen. statements (\<lambda>_. ''d'') [Select 0, Select 1, Delete 0, Delete 1]
      (fst (pending_create draft_libs 0 ''d'' ''alice'' ''join'' [] [] [] [] \<lparr>ps_ttl_seconds = 300, ps_rows = []\<rparr>), \<lambda>_. None) = (st', seen) \<and>
    submit_outcome draft_libs 1 ''d'' ''alice'' ''join'' (seen 0) = Inr p \<and> submit_outcome draft_libs 1 ''d'' ''alice'' ''join'' (seen 1) = Inr p"
proof -
  let ?st = "fst (pending_create draft_libs 0 ''d'' ''alice'' ''join'' [] [] [] [] \<lparr>ps_ttl_seconds = 300, ps_rows = []\<rparr>)"
  have "pending_select ''d'' \<lparr>ps_ttl_seconds = 300, ps_rows = []\<rparr> = None" by (simp add: pending_select_def)
  from pending_select_create [OF this]
  obtain row where row: "pending_select ''d'' ?st = Some row" and
    fields: "pr_pubkey row = ''alice''" "pr_purpose row = ''join''" "pr_expires_at row = 300" by simp
  have "loads draft_libs s = Inr (JObj [])" for s by (simp add: loads_def draft_libs_def)
  then have "\<exists>p. pending_check draft_libs 1 ''d'' ''alice'' ''join'' row = Inr p"
    by (simp add: pending_check_def fields guard_def)
  then obtain p where p: "pending_check draft_libs 1 ''d'' ''alice'' ''join'' row = Inr p" ..
  obtain st' seen where s: "statements (\<lambda>_. ''d'') [Select 0, Select 1, Delete 0, Delete 1] (?st, \<lambda>_. None) = (st', seen)" by fastforce
  from draft_submit_race [OF row p] s show ?thesis by auto
qed

end
