(* ===== verification/Concord_Transport.thy ===== *)
theory Concord_Transport
  imports Concord_Json
begin

text \<open>
  \<^verbatim>\<open>src/yunohost_mcp/concord_transport.py\<close>: bounded fetching of events from several relays, and publication.
  What a relay does is a parameter: it fails, it runs into the deadline, or it returns events.  The
  fetch is compared with a reference: the first copies of everything returned, cut at the limit.
\<close>

subsection \<open>Events and relays\<close>

text \<open>
  What a fetch returns: an event of the SDK with its JSON text, a dictionary, or another object with the
  value of its attribute \<open>id\<close> where that is a text. The attribute \<open>id\<close> of an SDK event is a method.
\<close>

datatype fetched_event = Sdk_Event string | Dict_Event dict | Other_Event "string option"

definition transport_event_id :: "fetched_event \<Rightarrow> string option" where
  "transport_event_id e =
     (let value = (case e of Sdk_Event _ \<Rightarrow> None | Dict_Event d \<Rightarrow> text_or_none (dget d ''id'') | Other_Event i \<Rightarrow> i)
      in case value of Some s \<Rightarrow> if s = [] then None else Some s | None \<Rightarrow> None)"

definition value_err :: "string \<Rightarrow> exn" where
  "value_err msg = Exn ValueError msg"

definition normalize_relays :: "string list \<Rightarrow> exn + string list" where
  "normalize_relays relays =
     (let relay_values = rev (remdups (rev (filter (\<lambda>r. r \<noteq> []) (map str_strip relays))))
      in ebind (guard (relay_values \<noteq> []) (value_err ''at least one non-empty Concord relay is required'')) (\<lambda>_.
         Inr relay_values))"

record publish_result =
  pub_event_id :: string
  pub_relays :: "string list"

definition publish_signed_event ::
  "(nostr_event \<Rightarrow> string list \<Rightarrow> exn + unit) \<Rightarrow> real \<Rightarrow> nostr_event \<Rightarrow> string list \<Rightarrow> exn + publish_result" where
  "publish_signed_event send timeout event relays =
     ebind (guard (relays \<noteq> []) (value_err ''at least one Concord relay is required'')) (\<lambda>_.
     ebind (guard (0 < timeout) (value_err ''timeout_seconds must be positive'')) (\<lambda>_.
     ebind (normalize_relays relays) (\<lambda>relay_values.
     ebind (send event relay_values) (\<lambda>_.
     Inr \<lparr>pub_event_id = ev_id event, pub_relays = relay_values\<rparr>))))"

subsection \<open>Fetching\<close>

record fetch_request =
  rq_author :: string
  rq_kind :: int
  rq_limit :: nat
  rq_identifier :: "string option"

datatype relay_reply = Relay_Failed | Relay_Deadline | Relay_Events "fetched_event list"

record relay_libs =
  author_ok :: "string \<Rightarrow> bool"
  reply :: "fetch_request \<Rightarrow> string \<Rightarrow> relay_reply"

text \<open>The inner loop: whether the limit was reached is the third component.\<close>

fun add_events ::
  "nat \<Rightarrow> fetched_event list \<Rightarrow> fetched_event list \<times> string list \<Rightarrow> fetched_event list \<times> string list \<times> bool" where
  "add_events limit [] (events, seen) = (events, seen, False)"
| "add_events limit (e # es) (events, seen) =
     (case transport_event_id e of
        Some i \<Rightarrow>
          if i \<in> set seen then add_events limit es (events, seen)
          else if limit \<le> length (events @ [e]) then (events @ [e], i # seen, True)
          else add_events limit es (events @ [e], i # seen)
      | None \<Rightarrow>
          if limit \<le> length (events @ [e]) then (events @ [e], seen, True)
          else add_events limit es (events @ [e], seen))"

fun fetch_relays ::
  "nat \<Rightarrow> string \<Rightarrow> relay_reply list \<Rightarrow> fetched_event list \<times> string list \<times> nat \<Rightarrow> exn + fetched_event list" where
  "fetch_relays limit label [] (events, seen, failures) =
     (if events \<noteq> [] then Inr events
      else if 0 < failures then Inl (value_err (''unable to fetch '' @ label @ '' from configured relays''))
      else Inr events)"
| "fetch_relays limit label (Relay_Failed # rs) (events, seen, failures) =
     fetch_relays limit label rs (events, seen, Suc failures)"
| "fetch_relays limit label (Relay_Deadline # rs) (events, seen, failures) =
     Inl (value_err (''timed out fetching '' @ label))"
| "fetch_relays limit label (Relay_Events es # rs) (events, seen, failures) =
     (case add_events limit es (events, seen) of
        (events', seen', full) \<Rightarrow>
          if full then Inr (take limit events') else fetch_relays limit label rs (events', seen', failures))"

definition fetch_events ::
  "relay_libs \<Rightarrow> string \<Rightarrow> string list \<Rightarrow> int \<Rightarrow> nat \<Rightarrow> string option \<Rightarrow> real \<Rightarrow> string \<Rightarrow> string \<Rightarrow> exn + fetched_event list" where
  "fetch_events N pubkey_hex relays kind limit identifier timeout pubkey_label fetch_label =
     ebind (guard (length pubkey_hex = 64) (value_err (pubkey_label @ '' public key must be 32-byte lowercase hex''))) (\<lambda>_.
     ebind (guard (0 < limit) (value_err ''max_events must be positive'')) (\<lambda>_.
     ebind (guard (0 < timeout) (value_err ''timeout_seconds must be positive'')) (\<lambda>_.
     ebind (normalize_relays relays) (\<lambda>relay_values.
     ebind (guard (author_ok N pubkey_hex) (value_err (pubkey_label @ '' public key must be valid lowercase hex''))) (\<lambda>_.
     let request = \<lparr>rq_author = pubkey_hex, rq_kind = kind, rq_limit = limit, rq_identifier = identifier\<rparr>
     in fetch_relays limit fetch_label (map (reply N request) relay_values) ([], [], 0))))))"

definition fetch_control_events :: "relay_libs \<Rightarrow> real \<Rightarrow> string \<Rightarrow> string list \<Rightarrow> exn + fetched_event list" where
  "fetch_control_events N timeout pubkey relays =
     fetch_events N pubkey relays 1059 64 None timeout ''control'' ''Concord control events''"

definition fetch_invite_events :: "relay_libs \<Rightarrow> real \<Rightarrow> string \<Rightarrow> string list \<Rightarrow> exn + fetched_event list" where
  "fetch_invite_events N timeout pubkey relays =
     fetch_events N pubkey relays 33301 1 (Some []) timeout ''link signer'' ''Concord invite events''"

definition fetch_guestbook_events :: "relay_libs \<Rightarrow> real \<Rightarrow> string \<Rightarrow> string list \<Rightarrow> exn + fetched_event list" where
  "fetch_guestbook_events N timeout pubkey relays =
     fetch_events N pubkey relays 1059 64 None timeout ''guestbook'' ''Concord guestbook events''"

subsection \<open>The reference\<close>

text \<open>Every event without a known id, and the first event of each id.\<close>

fun first_copies :: "string list \<Rightarrow> fetched_event list \<Rightarrow> fetched_event list" where
  "first_copies seen [] = []"
| "first_copies seen (e # es) =
     (case transport_event_id e of
        Some i \<Rightarrow> if i \<in> set seen then first_copies seen es else e # first_copies (i # seen) es
      | None \<Rightarrow> e # first_copies seen es)"

fun ids_after :: "string list \<Rightarrow> fetched_event list \<Rightarrow> string list" where
  "ids_after seen [] = seen"
| "ids_after seen (e # es) =
     (case transport_event_id e of
        Some i \<Rightarrow> if i \<in> set seen then ids_after seen es else ids_after (i # seen) es
      | None \<Rightarrow> ids_after seen es)"

fun reply_events :: "relay_reply \<Rightarrow> fetched_event list" where
  "reply_events (Relay_Events es) = es"
| "reply_events _ = []"

lemma add_events_reference:
  "length events < limit \<Longrightarrow>
     (if limit \<le> length (events @ first_copies seen es)
      then \<exists>events' seen'. add_events limit es (events, seen) = (events', seen', True) \<and>
        take limit events' = take limit (events @ first_copies seen es)
      else add_events limit es (events, seen) = (events @ first_copies seen es, ids_after seen es, False))"
proof (induction es arbitrary: events seen)
  case (Cons e es)
  show ?case
  proof (cases "transport_event_id e")
    case None
    show ?thesis
    proof (cases "limit \<le> length (events @ [e])")
      case True
      with Cons.prems have "limit = Suc (length events)" by simp
      with None show ?thesis by simp
    next
      case False
      with Cons.IH [of "events @ [e]" seen] None show ?thesis by (auto simp del: take_append split: if_split_asm)
    qed
  next
    case (Some i)
    show ?thesis
    proof (cases "i \<in> set seen")
      case True
      with Cons.IH [of events seen] Cons.prems Some show ?thesis by (auto simp del: take_append split: if_split_asm)
    next
      case new: False
      show ?thesis
      proof (cases "limit \<le> length (events @ [e])")
        case True
        with Cons.prems have "limit = Suc (length events)" by simp
        with Some new show ?thesis by simp
      next
        case False
        with Cons.IH [of "events @ [e]" "i # seen"] Some new show ?thesis by (auto simp del: take_append split: if_split_asm)
      qed
    qed
  qed
qed simp

lemma first_copies_append: "first_copies seen (xs @ ys) = first_copies seen xs @ first_copies (ids_after seen xs) ys"
  by (induction seen xs rule: first_copies.induct) (auto split: option.splits)

lemma fetch_relays_reference:
  "Relay_Deadline \<notin> set rs \<Longrightarrow> length events < limit \<Longrightarrow>
     fetch_relays limit label rs (events, seen, failures) =
       (let found = events @ first_copies seen (concat (map reply_events rs))
        in if found = [] \<and> (0 < failures \<or> Relay_Failed \<in> set rs)
           then Inl (value_err (''unable to fetch '' @ label @ '' from configured relays''))
           else Inr (take limit found))"
proof (induction rs arbitrary: events seen failures)
  case (Cons r rs)
  show ?case
  proof (cases r)
    case (Relay_Events es)
    show ?thesis
    proof (cases "limit \<le> length (events @ first_copies seen es)")
      case True
      with Cons.prems Relay_Events add_events_reference [of events limit seen es] show ?thesis
        by (auto simp: Let_def first_copies_append)
    next
      case False
      with Cons.prems add_events_reference [of events limit seen es]
      have "add_events limit es (events, seen) = (events @ first_copies seen es, ids_after seen es, False)" by simp
      with Cons.IH [of "events @ first_copies seen es" "ids_after seen es" failures] Cons.prems False Relay_Events
      show ?thesis by (simp add: Let_def first_copies_append)
    qed
  qed (use Cons in \<open>auto simp: Let_def\<close>)
qed (auto simp: Let_def)

text \<open>
  A fetch is the first copies of what the relays returned, cut at the limit. For valid arguments and
  as long as no relay runs into the deadline, the result is independent of how events are spread over
  relays: the events of all relays in their order, each known id once, at most the limit; it is an error
  exactly when nothing at all came back and some relay failed.
\<close>

theorem fetch_is_bounded_union:
  assumes "length pubkey = 64" "0 < limit" "0 < timeout" "author_ok N pubkey" "normalize_relays relays = Inr rs"
    and "request = \<lparr>rq_author = pubkey, rq_kind = kind, rq_limit = limit, rq_identifier = identifier\<rparr>"
    and "Relay_Deadline \<notin> set (map (reply N request) rs)"
  shows "fetch_events N pubkey relays kind limit identifier timeout pubkey_label fetch_label =
    (let found = first_copies [] (concat (map (\<lambda>r. reply_events (reply N request r)) rs))
     in if found = [] \<and> Relay_Failed \<in> set (map (reply N request) rs)
        then Inl (value_err (''unable to fetch '' @ fetch_label @ '' from configured relays''))
        else Inr (take limit found))"
  using fetch_relays_reference [OF assms(7), of "[]" limit fetch_label "[]" 0] assms
  by (simp add: fetch_events_def Let_def comp_def)

lemma first_copies_ids:
  "distinct (List.map_filter transport_event_id (first_copies seen es)) \<and>
     set (List.map_filter transport_event_id (first_copies seen es)) \<inter> set seen = {}"
  by (induction seen es rule: first_copies.induct) (auto simp: map_filter_simps split: option.splits)

lemma first_copies_sdk: "list_all (\<lambda>e. transport_event_id e = None) es \<Longrightarrow> first_copies seen es = es"
  by (induction es) auto

text \<open>
  Copies of SDK events crowd out other events. The attribute \<open>id\<close> of an SDK event is a method and
  no text, so nothing recognises a copy: what comes back is everything the relays returned, copies
  included, up to the limit.
\<close>

theorem fetch_keeps_sdk_copies:
  assumes "length pubkey = 64" "0 < limit" "0 < timeout" "author_ok N pubkey" "normalize_relays relays = Inr rs"
    and "request = \<lparr>rq_author = pubkey, rq_kind = kind, rq_limit = limit, rq_identifier = identifier\<rparr>"
    and "Relay_Deadline \<notin> set (map (reply N request) rs)"
    and "\<forall>r \<in> set rs. \<exists>texts. reply_events (reply N request r) = map Sdk_Event texts"
    and "found = concat (map (\<lambda>r. reply_events (reply N request r)) rs)" "found \<noteq> []"
  shows "fetch_events N pubkey relays kind limit identifier timeout pubkey_label fetch_label = Inr (take limit found)"
proof -
  have "list_all (\<lambda>e. transport_event_id e = None) found"
  proof -
    have "list_all (\<lambda>e. transport_event_id e = None) (map Sdk_Event ts)" for ts
      by (simp add: list_all_iff transport_event_id_def)
    with assms(8,9) show ?thesis by (fastforce simp: list_all_iff)
  qed
  then have "first_copies [] found = found" by (rule first_copies_sdk)
  with fetch_is_bounded_union [OF assms(1-7), of pubkey_label fetch_label] assms(9,10) show ?thesis by (simp add: Let_def)
qed

definition example_relays :: relay_libs where
  "example_relays = \<lparr>author_ok = (\<lambda>_. True), reply = (\<lambda>_ r.
     if r = ''wss://one'' then Relay_Events [Sdk_Event ''a'', Dict_Event [(''id'', JStr ''x'')]]
     else if r = ''wss://two'' then Relay_Events [Sdk_Event ''a'', Dict_Event [(''id'', JStr ''x'')], Sdk_Event ''b'']
     else Relay_Failed)\<rparr>"

definition sdk_relays :: relay_libs where
  "sdk_relays = \<lparr>author_ok = (\<lambda>_. True), reply = (\<lambda>_ r.
     if r = ''wss://two'' then Relay_Events [Sdk_Event ''a'', Sdk_Event ''b''] else Relay_Events [Sdk_Event ''a''])\<rparr>"

lemma example_normalized: "normalize_relays [''wss://one'', '' wss://two '', ''wss://one'', ''wss://three''] =
    Inr [''wss://one'', ''wss://two'', ''wss://three'']" "normalize_relays [''wss://one'', ''wss://two''] = Inr [''wss://one'', ''wss://two'']"
  by code_simp+

theorem fetch_is_bounded_union_witness:
  "fetch_events example_relays (replicate 64 CHR ''a'') [''wss://one'', '' wss://two '', ''wss://one'', ''wss://three''] 1059 64 None 30 ''invite'' ''invite'' =
     Inr [Sdk_Event ''a'', Dict_Event [(''id'', JStr ''x'')], Sdk_Event ''a'', Sdk_Event ''b'']"
  by (subst fetch_is_bounded_union [OF _ _ _ _ example_normalized(1) refl])
    (simp_all add: example_relays_def Let_def transport_event_id_def)

theorem fetch_keeps_sdk_copies_witness:
  "fetch_events sdk_relays (replicate 64 CHR ''a'') [''wss://one'', ''wss://two''] 1059 2 None 30 ''invite'' ''invite'' =
     Inr [Sdk_Event ''a'', Sdk_Event ''a'']"
  by (subst fetch_keeps_sdk_copies [OF _ _ _ _ example_normalized(2) refl _ _ refl])
    (simp_all add: sdk_relays_def, auto intro: exI [of _ "[''a'', ''b'']"] exI [of _ "[''a'']"])

end
