(* ===== verification/Concord_Keys.thy ===== *)
theory Concord_Keys
  imports Concord_Control
begin

text \<open>
  \<^verbatim>\<open>src/yunohost_mcp/concord_keys.py\<close>: derivation of the key of a Concord stream.  HKDF and the public key
  of a secret are parameters; what is modelled is the information string, the validation, and the
  retries until the seed is a scalar of the curve.
\<close>

definition CURVE_ORDER :: nat where
  "CURVE_ORDER = 0xFFFFFFFFFFFFFFFFFFFFFFFFFFFFFFFEBAAEDCE6AF48A03BBFD25E8CD0364141"

record group_key =
  gk_secret :: string
  gk_pubkey :: string

record key_libs =
  hkdf :: "string \<Rightarrow> string \<Rightarrow> string"
  public_key_of :: "string \<Rightarrow> string"

definition key_error :: "string \<Rightarrow> exn" where
  "key_error msg = Exn ConcordKeyError msg"

definition validate_inputs :: "string \<Rightarrow> string \<Rightarrow> int option \<Rightarrow> exn + unit" where
  "validate_inputs secret identifier epoch =
     ebind (guard (length secret = 32) (key_error ''CORD secret must be exactly 32 bytes'')) (\<lambda>_.
     ebind (guard (length identifier = 32) (key_error ''CORD identifier must be exactly 32 bytes'')) (\<lambda>_.
     guard (case epoch of None \<Rightarrow> True | Some n \<Rightarrow> 0 \<le> n \<and> n \<le> 18446744073709551615)
       (key_error ''CORD epoch must fit an unsigned 64-bit integer'')))"

definition seed_info :: "string \<Rightarrow> string \<Rightarrow> int option \<Rightarrow> nat option \<Rightarrow> string" where
  "seed_info label identifier epoch counter =
     utf8_encode label @ [char_of (0 :: nat)] @ identifier @
     (case epoch of None \<Rightarrow> [] | Some n \<Rightarrow> to_bytes 8 (nat n)) @
     (case counter of None \<Rightarrow> [] | Some k \<Rightarrow> [char_of k])"

definition derive_seed :: "key_libs \<Rightarrow> string \<Rightarrow> string \<Rightarrow> string \<Rightarrow> int option \<Rightarrow> nat option \<Rightarrow> string" where
  "derive_seed K secret label identifier epoch counter = hkdf K (seed_info label identifier epoch counter) secret"

text \<open>\<open>int.from_bytes(seed, 'big')\<close>.\<close>

definition from_bytes :: "string \<Rightarrow> nat" where
  "from_bytes s = foldl (\<lambda>n c. 256 * n + code c) 0 s"

definition valid_scalar :: "string \<Rightarrow> bool" where
  "valid_scalar seed = (0 < from_bytes seed \<and> from_bytes seed < CURVE_ORDER)"

definition derive_group_key :: "key_libs \<Rightarrow> string \<Rightarrow> string \<Rightarrow> string \<Rightarrow> int option \<Rightarrow> exn + group_key" where
  "derive_group_key K secret label identifier epoch =
     ebind (validate_inputs secret identifier epoch) (\<lambda>_.
     ebind (guard (label \<noteq> []) (key_error ''CORD label must not be empty'')) (\<lambda>_.
     case find valid_scalar (map (derive_seed K secret label identifier epoch) (None # map Some [0..<256])) of
       None \<Rightarrow> Inl (key_error ''CORD scalar normalization exhausted its retry counter'')
     | Some seed \<Rightarrow> Inr \<lparr>gk_secret = seed, gk_pubkey = public_key_of K seed\<rparr>))"

lemma to_bytes_8_inj:
  "0 \<le> n \<Longrightarrow> n \<le> 18446744073709551615 \<Longrightarrow> 0 \<le> m \<Longrightarrow> m \<le> 18446744073709551615 \<Longrightarrow>
     to_bytes 8 (nat n) = to_bytes 8 (nat m) \<Longrightarrow> n = m"
  using to_bytes_inj [of "nat n" 8 "nat m"] by (simp add: nat_less_iff eq_nat_nat_iff)

lemma label_no_nul: "list_all (\<lambda>c. c \<noteq> char_of (0 :: nat)) s \<Longrightarrow> char_of (0 :: nat) \<notin> set s"
  by (induction s) auto

lemma zero_not_in_utf8: "char_of (0 :: nat) \<notin> set s \<Longrightarrow> char_of (0 :: nat) \<notin> set (utf8_encode s)"
proof (induction s)
  case (Cons c s)
  have "code c < 256" by (simp add: code_def)
  then have "192 + code c div 64 < 256" "128 + code c mod 64 < 256" by linarith+
  then have "char_of (0 :: nat) \<noteq> (char_of (192 + code c div 64) :: char)" "char_of (0 :: nat) \<noteq> (char_of (128 + code c mod 64) :: char)"
    by (simp_all add: char_of_eq_iff)
  with Cons show ?case by (auto simp: utf8_encode_def utf8_char_def Let_def)
qed (simp add: utf8_encode_def)

lemma split_at_first:
  assumes "x \<notin> set a" "x \<notin> set b" "a @ x # s = b @ x # t"
  shows "a = b \<and> s = t"
  using assms
proof (induction a arbitrary: b)
  case Nil
  then show ?case by (cases b) auto
next
  case (Cons c a)
  then show ?case by (cases b) auto
qed

text \<open>
  Streams do not share keys by accident. Two derivations hand the same information to HKDF only if
  label, identifier, epoch and retry counter are the same, for labels without a NUL character: no
  label, identifier or counter can be read as part of its neighbour.
\<close>

theorem seed_info_injective:
  assumes "char_of (0 :: nat) \<notin> set label" "char_of (0 :: nat) \<notin> set label'"
    and "validate_inputs secret identifier epoch = Inr ()" "validate_inputs secret' identifier' epoch' = Inr ()"
    and "\<forall>k \<in> set_option counter \<union> set_option counter'. k < 256"
    and "seed_info label identifier epoch counter = seed_info label' identifier' epoch' counter'"
  shows "label = label' \<and> identifier = identifier' \<and> epoch = epoch' \<and> counter = counter'"
proof -
  let ?rest = "\<lambda>i e c. i @ (case e of None \<Rightarrow> [] | Some n \<Rightarrow> to_bytes 8 (nat n)) @ (case c of None \<Rightarrow> [] | Some k \<Rightarrow> [char_of (k :: nat)])"
  have "utf8_encode label = utf8_encode label' \<and> ?rest identifier epoch counter = ?rest identifier' epoch' counter'"
    using assms(6) zero_not_in_utf8 [OF assms(1)] zero_not_in_utf8 [OF assms(2)]
    by (intro split_at_first) (simp_all add: seed_info_def)
  then have label: "label = label'" and rest: "?rest identifier epoch counter = ?rest identifier' epoch' counter'"
    using utf8_encode_inj by blast+
  have ids: "length identifier = 32" "length identifier' = 32" using assms(3,4) by (simp_all add: validate_inputs_def)
  with rest have i: "identifier = identifier'"
    and tail: "(case epoch of None \<Rightarrow> [] | Some n \<Rightarrow> to_bytes 8 (nat n)) @ (case counter of None \<Rightarrow> [] | Some k \<Rightarrow> [char_of k]) =
      (case epoch' of None \<Rightarrow> [] | Some n \<Rightarrow> to_bytes 8 (nat n)) @ (case counter' of None \<Rightarrow> [] | Some k \<Rightarrow> [char_of k :: char])"
    by simp_all
  have chars: "k = k'" if "char_of k = (char_of k' :: char)" "k < 256" "k' < 256" for k k' :: nat
    using arg_cong [OF that(1), of "of_char :: char \<Rightarrow> nat"] that(2,3) by simp
  have nonempty: "to_bytes 8 n \<noteq> []" for n using length_to_bytes [of 8 n] by fastforce
  from arg_cong [OF tail, of length] have "(epoch = None) = (epoch' = None)" "(counter = None) = (counter' = None)"
    by (auto simp: nonempty split: option.splits)
  with tail assms(3-5) have "epoch = epoch' \<and> counter = counter'"
    by (auto simp: validate_inputs_def split: option.splits intro: to_bytes_8_inj chars)
  with label i show ?thesis by blast
qed

theorem seed_info_injective_witness:
  "seed_info ''concord/guestbook'' (replicate 32 CHR ''i'') (Some 1) None \<noteq>
   seed_info ''concord/control'' (replicate 32 CHR ''i'') (Some 1) None"
proof
  assume same: "seed_info ''concord/guestbook'' (replicate 32 CHR ''i'') (Some 1) None =
    seed_info ''concord/control'' (replicate 32 CHR ''i'') (Some 1) None"
  have "char_of (0 :: nat) \<notin> set ''concord/guestbook''" "char_of (0 :: nat) \<notin> set ''concord/control''"
    by (rule label_no_nul, code_simp)+
  moreover have "validate_inputs (replicate 32 CHR ''s'') (replicate 32 CHR ''i'') (Some 1) = Inr ()"
    by (simp add: validate_inputs_def)
  ultimately have "''concord/guestbook'' = ''concord/control''"
    using seed_info_injective [OF _ _ _ _ _ same, of "replicate 32 CHR ''s''" "replicate 32 CHR ''s''"]
    by simp
  then show False by simp
qed

lemma find_some_in: "find P xs = Some x \<Longrightarrow> P x \<and> x \<in> set xs"
  by (induction xs) (auto split: if_splits)

text \<open>What a derivation returns is a scalar of the curve: the first of at most 257 attempts.\<close>

lemma derive_group_key_sound:
  assumes "derive_group_key K secret label identifier epoch = Inr g"
  shows "valid_scalar (gk_secret g) \<and> gk_pubkey g = public_key_of K (gk_secret g) \<and>
    (\<exists>counter. gk_secret g = derive_seed K secret label identifier epoch counter)"
proof -
  let ?seeds = "map (derive_seed K secret label identifier epoch) (None # map Some [0..<256])"
  from assms obtain seed where "find valid_scalar ?seeds = Some seed" "g = \<lparr>gk_secret = seed, gk_pubkey = public_key_of K seed\<rparr>"
    by (auto simp: derive_group_key_def simp del: upt_Suc list.map split: option.splits)
  moreover from this(1) have "valid_scalar seed" "seed \<in> set ?seeds"
    using find_some_in by fast+
  ultimately show ?thesis by auto
qed

end
