(* ===== verification/Concord_Envelope.thy ===== *)
theory Concord_Envelope
  imports Concord_Keys Concord_Guestbook
begin

text \<open>
  \<^verbatim>\<open>src/yunohost_mcp/concord_envelope.py\<close>, \<^verbatim>\<open>concord_membership.py\<close>, \<^verbatim>\<open>concord_crypto.py\<close> and
  \<open>sign_event\<close> of \<^verbatim>\<open>auth/nostr.py\<close>: the three layers of a Concord message (rumor, seal, wrap) and the split of
  their construction at the author's one signature.  Keys, signatures and NIP-44 of \<open>nostr_sdk\<close> and the JSON
  encoder of \<open>pydantic\<close> are parameters.
\<close>

subsection \<open>Signing\<close>

text \<open>\<open>Keys\<close> is a secret text; \<open>sign\<close> is the event builder, with the id and signature it reports.\<close>

record sign_libs =
  key_of_bytes :: "string \<Rightarrow> string + string"
  key_pubkey :: "string \<Rightarrow> string"
  sign :: "string \<Rightarrow> int \<Rightarrow> string list list \<Rightarrow> string \<Rightarrow> int \<Rightarrow> string + string \<times> string"

definition sdk_error :: "string + 'a \<Rightarrow> exn + 'a" where
  "sdk_error r = (case r of Inl msg \<Rightarrow> Inl (Exn OtherError msg) | Inr x \<Rightarrow> Inr x)"

definition sign_event ::
  "sign_libs \<Rightarrow> real \<Rightarrow> string \<Rightarrow> string \<Rightarrow> int \<Rightarrow> string list list \<Rightarrow> string \<Rightarrow> int option \<Rightarrow> exn + nostr_event" where
  "sign_event G now private_key pubkey kind tags content created_at =
     (let t_at = (case created_at of None \<Rightarrow> py_trunc now | Some t \<Rightarrow> t)
      in ebind (guard (key_pubkey G private_key = str_lower pubkey)
           (Exn NostrEventError ''private key does not match the supplied public key'')) (\<lambda>_.
         ebind (sdk_error (sign G private_key kind tags content t_at)) (\<lambda>(id, sig).
         ebind (guard (validate_hex32 id \<and> validate_hex32 pubkey) (Exn ValueError ''expected 32-byte lowercase hex string'')) (\<lambda>_.
         ebind (guard (validate_sig_hex sig) (Exn ValueError ''expected 64-byte lowercase hex string'')) (\<lambda>_.
         Inr \<lparr>ev_id = id, ev_pubkey = pubkey, ev_created_at = t_at, ev_kind = kind, ev_tags = tags,
              ev_content = content, ev_sig = sig\<rparr>)))))"

subsection \<open>Encryption\<close>

text \<open>The \<open>n\<close>-th encryption of a text: NIP-44 draws a fresh nonce each time.\<close>

record crypto_libs =
  key_material :: "group_key \<Rightarrow> bool"
  nip44_encrypt :: "group_key \<Rightarrow> nat \<Rightarrow> string \<Rightarrow> string + string"
  nip44_decrypt :: "group_key \<Rightarrow> string \<Rightarrow> string + string"
  dump_json_unsigned :: "unsigned_event \<Rightarrow> string"
  dump_json_event :: "nostr_event \<Rightarrow> string"

definition crypto_error :: "string \<Rightarrow> exn" where
  "crypto_error msg = Exn ConcordCryptoError msg"

definition self_conversation_encryptor :: "crypto_libs \<Rightarrow> group_key \<Rightarrow> exn + (nat \<Rightarrow> string \<Rightarrow> exn + string)" where
  "self_conversation_encryptor C stream_key =
     (if \<not> key_material C stream_key then Inl (crypto_error ''invalid Concord stream key material'')
      else Inr (\<lambda>n content. case nip44_encrypt C stream_key n content of
          Inl _ \<Rightarrow> Inl (crypto_error ''NIP-44 encryption failed'')
        | Inr text \<Rightarrow> Inr text))"

definition decrypt_self_conversation :: "crypto_libs \<Rightarrow> group_key \<Rightarrow> string \<Rightarrow> exn + string" where
  "decrypt_self_conversation C stream_key payload =
     (if \<not> key_material C stream_key then Inl (crypto_error ''NIP-44 decryption failed'')
      else case nip44_decrypt C stream_key payload of
          Inl _ \<Rightarrow> Inl (crypto_error ''NIP-44 decryption failed'')
        | Inr text \<Rightarrow> Inr text)"

subsection \<open>Templates\<close>

record seal_template =
  tm_pubkey :: string
  tm_kind :: int
  tm_tags :: "string list list"
  tm_content :: string
  tm_created_at :: int

definition seal_matches :: "seal_template \<Rightarrow> nostr_event \<Rightarrow> bool" where
  "seal_matches t event =
     (ev_pubkey event = tm_pubkey t \<and> ev_kind event = tm_kind t \<and> ev_tags event = tm_tags t \<and>
      ev_content event = tm_content t \<and> ev_created_at event = tm_created_at t)"

record concord_envelope =
  ce_rumor :: unsigned_event
  ce_seal :: nostr_event
  ce_wrap :: nostr_event

definition event_dump :: "nostr_event \<Rightarrow> dict" where
  "event_dump e =
     [(''id'', JStr (ev_id e)), (''pubkey'', JStr (ev_pubkey e)), (''created_at'', JInt (ev_created_at e)),
      (''kind'', JInt (ev_kind e)), (''tags'', JList (map (\<lambda>t. JList (map JStr t)) (ev_tags e))),
      (''content'', JStr (ev_content e)), (''sig'', JStr (ev_sig e))]"

definition compact_json :: "libs \<Rightarrow> dict \<Rightarrow> string" where
  "compact_json L d = json_text (float_text L) compact_format (JObj d)"

definition with_id :: "libs \<Rightarrow> unsigned_event \<Rightarrow> unsigned_event" where
  "with_id L u = u\<lparr>un_id := unsigned_event_id L u\<rparr>"

definition build_chat_rumor_and_seal_template ::
  "libs \<Rightarrow> string \<Rightarrow> string \<Rightarrow> int \<Rightarrow> string \<Rightarrow> (string \<Rightarrow> exn + string) \<Rightarrow> int \<Rightarrow> int \<Rightarrow>
     exn + unsigned_event \<times> seal_template" where
  "build_chat_rumor_and_seal_template L author_pubkey channel_id epoch text encrypt created_at ms =
     ebind (guard (channel_id \<noteq> []) (Exn ValueError ''channel_id must not be empty'')) (\<lambda>_.
     ebind (guard (0 \<le> epoch) (Exn ValueError ''epoch must not be negative'')) (\<lambda>_.
     ebind (guard (0 \<le> ms \<and> ms \<le> 999) (Exn ValueError ''millisecond must be between 0 and 999'')) (\<lambda>_.
     let rumor = with_id L \<lparr>un_id = replicate 64 CHR ''0'', un_pubkey = author_pubkey, un_created_at = created_at,
           un_kind = 9,
           un_tags = [[''channel'', channel_id], [''epoch'', show_int epoch], [''ms'', show_int ms]],
           un_content = text\<rparr>
     in ebind (encrypt (compact_json L (unsigned_dump rumor))) (\<lambda>content.
        Inr (rumor, \<lparr>tm_pubkey = author_pubkey, tm_kind = 20013, tm_tags = [], tm_content = content,
                     tm_created_at = created_at\<rparr>)))))"

definition envelope_error :: "string \<Rightarrow> exn" where
  "envelope_error msg = Exn ConcordEnvelopeError msg"

text \<open>The wrap around a seal, signed by the stream's own key.\<close>

definition sign_wrap ::
  "sign_libs \<Rightarrow> real \<Rightarrow> group_key \<Rightarrow> string \<Rightarrow> exn + string \<Rightarrow> int \<Rightarrow> exn + nostr_event" where
  "sign_wrap G now key ephemeral_pubkey content created_at =
     ebind (sdk_error (key_of_bytes G (gk_secret key))) (\<lambda>private_key.
     ebind content (\<lambda>text.
     sign_event G now private_key (gk_pubkey key) 1059 [[''p'', ephemeral_pubkey]] text (Some created_at)))"

definition finish_chat_envelope ::
  "libs \<Rightarrow> sign_libs \<Rightarrow> real \<Rightarrow> unsigned_event \<Rightarrow> seal_template \<Rightarrow> nostr_event \<Rightarrow> group_key \<Rightarrow> string \<Rightarrow>
     (string \<Rightarrow> exn + string) \<Rightarrow> int \<Rightarrow> exn + concord_envelope" where
  "finish_chat_envelope L G now rumor template signed_seal stream_key ephemeral_pubkey encrypt created_at =
     ebind (guard (seal_matches template signed_seal)
       (envelope_error ''signed seal does not match the issued template'')) (\<lambda>_.
     ebind (verify_event L signed_seal) (\<lambda>_.
     ebind (sign_wrap G now stream_key ephemeral_pubkey (encrypt (compact_json L (event_dump signed_seal))) created_at) (\<lambda>wrap.
     Inr \<lparr>ce_rumor = rumor, ce_seal = signed_seal, ce_wrap = wrap\<rparr>)))"

definition sign_template :: "sign_libs \<Rightarrow> real \<Rightarrow> string \<Rightarrow> seal_template \<Rightarrow> exn + nostr_event" where
  "sign_template G now key t =
     sign_event G now key (tm_pubkey t) (tm_kind t) (tm_tags t) (tm_content t) (Some (tm_created_at t))"

definition build_chat_envelope ::
  "libs \<Rightarrow> sign_libs \<Rightarrow> real \<Rightarrow> string \<Rightarrow> group_key \<Rightarrow> string \<Rightarrow> int \<Rightarrow> string \<Rightarrow> (nat \<Rightarrow> string \<Rightarrow> exn + string) \<Rightarrow>
     string \<Rightarrow> int \<Rightarrow> int \<Rightarrow> exn + concord_envelope" where
  "build_chat_envelope L G now author_key stream_key channel_id epoch text encrypt ephemeral_pubkey created_at ms =
     ebind (build_chat_rumor_and_seal_template L (key_pubkey G author_key) channel_id epoch text (encrypt 0) created_at ms)
       (\<lambda>(rumor, template).
     ebind (sign_template G now author_key template) (\<lambda>signed_seal.
     finish_chat_envelope L G now rumor template signed_seal stream_key ephemeral_pubkey (encrypt 1) created_at))"

subsection \<open>Joining\<close>

definition build_join_rumor_and_seal_template ::
  "libs \<Rightarrow> crypto_libs \<Rightarrow> key_libs \<Rightarrow> string \<Rightarrow> string \<Rightarrow> string \<Rightarrow> int \<Rightarrow> int \<Rightarrow> int \<Rightarrow> string option \<Rightarrow> string option \<Rightarrow>
     exn + unsigned_event \<times> seal_template \<times> group_key" where
  "build_join_rumor_and_seal_template L C K bot_pubkey community_root community_id epoch created_at ms invite_creator invite_label =
     ebind (guard (length community_root = 32 \<and> length community_id = 32)
       (Exn ValueError ''community_root and community_id must be 32 bytes'')) (\<lambda>_.
     ebind (guard (0 \<le> epoch \<and> 0 \<le> ms \<and> ms \<le> 999) (Exn ValueError ''invalid epoch or millisecond'')) (\<lambda>_.
     ebind (case invite_creator of None \<Rightarrow> Inr []
       | Some creator \<Rightarrow> ebind (guard (length creator = 64) (Exn ValueError ''invite creator must be 32-byte hex'')) (\<lambda>_.
           Inr [[''invite'', creator, case invite_label of None \<Rightarrow> [] | Some l \<Rightarrow> l]])) (\<lambda>invite.
     let rumor = with_id L \<lparr>un_id = replicate 64 CHR ''0'', un_pubkey = bot_pubkey, un_created_at = created_at,
           un_kind = 3306, un_tags = [''ms'', show_int ms] # invite, un_content = ''join''\<rparr>
     in ebind (derive_group_key K community_root ''concord/guestbook'' community_id (Some epoch)) (\<lambda>guestbook_key.
        ebind (self_conversation_encryptor C guestbook_key) (\<lambda>encrypt.
        ebind (encrypt 0 (dump_json_unsigned C rumor)) (\<lambda>content.
        Inr (rumor, \<lparr>tm_pubkey = bot_pubkey, tm_kind = 20013, tm_tags = [], tm_content = content,
                     tm_created_at = created_at\<rparr>, guestbook_key)))))))"

definition finish_join_envelope ::
  "libs \<Rightarrow> crypto_libs \<Rightarrow> sign_libs \<Rightarrow> real \<Rightarrow> unsigned_event \<Rightarrow> seal_template \<Rightarrow> nostr_event \<Rightarrow> group_key \<Rightarrow> string \<Rightarrow> int \<Rightarrow>
     exn + unsigned_event \<times> nostr_event \<times> nostr_event" where
  "finish_join_envelope L C G now rumor template signed_seal guestbook_key ephemeral_pubkey created_at =
     ebind (guard (seal_matches template signed_seal)
       (envelope_error ''signed seal does not match the issued template'')) (\<lambda>_.
     ebind (verify_event L signed_seal) (\<lambda>_.
     ebind (self_conversation_encryptor C guestbook_key) (\<lambda>encrypt.
     ebind (sign_wrap G now guestbook_key ephemeral_pubkey (encrypt 1 (dump_json_event C signed_seal)) created_at) (\<lambda>wrap.
     Inr (rumor, signed_seal, wrap)))))"

definition build_join_envelope ::
  "libs \<Rightarrow> crypto_libs \<Rightarrow> key_libs \<Rightarrow> sign_libs \<Rightarrow> real \<Rightarrow> string \<Rightarrow> string \<Rightarrow> string \<Rightarrow> int \<Rightarrow> string \<Rightarrow> int \<Rightarrow> int \<Rightarrow>
     string option \<Rightarrow> string option \<Rightarrow> exn + unsigned_event \<times> nostr_event \<times> nostr_event" where
  "build_join_envelope L C K G now bot_key community_root community_id epoch ephemeral_pubkey created_at ms invite_creator invite_label =
     ebind (build_join_rumor_and_seal_template L C K (key_pubkey G bot_key) community_root community_id epoch created_at ms
              invite_creator invite_label) (\<lambda>(rumor, template, guestbook_key).
     ebind (sign_template G now bot_key template) (\<lambda>signed_seal.
     finish_join_envelope L C G now rumor template signed_seal guestbook_key ephemeral_pubkey created_at))"

subsection \<open>The author's signature\<close>

lemma sign_event_Inr:
  assumes "sign_event G now k p kind tags content (Some t) = Inr e"
  shows "key_pubkey G k = p \<and> validate_hex32 p \<and> validate_hex32 (ev_id e) \<and> validate_sig_hex (ev_sig e) \<and>
    sign G k kind tags content t = Inr (ev_id e, ev_sig e) \<and>
    e = \<lparr>ev_id = ev_id e, ev_pubkey = p, ev_created_at = t, ev_kind = kind, ev_tags = tags, ev_content = content, ev_sig = ev_sig e\<rparr>"
  using assms by (auto simp: sign_event_def sdk_error_def validate_hex32_def is_hex_def Let_def split: sum.splits)

lemma sign_wrap_Inr:
  assumes "sign_wrap G now key eph content t = Inr w"
  obtains c where "content = Inr c" "ev_kind w = 1059" "ev_pubkey w = gk_pubkey key" "ev_tags w = [[''p'', eph]]"
    "ev_created_at w = t" "ev_content w = c"
proof -
  from assms obtain k c where "content = Inr c" and
    "sign_event G now k (gk_pubkey key) 1059 [[''p'', eph]] c (Some t) = Inr w"
    by (auto simp: sign_wrap_def)
  from that this(1) sign_event_Inr [OF this(2)] show thesis by (metis nostr_event.select_convs)
qed

text \<open>
  A message goes out only with its author's signature on exactly what was issued. Finishing a chat
  envelope gives a wrap only for a seal that agrees with the template in public key, kind, tags,
  content and time and whose id and signature verify; the wrap carries the encryption of that seal, under
  the stream's own key. A seal that differs raises ConcordEnvelopeError, a seal that does not verify
  NostrEventError.
\<close>

theorem chat_requires_author:
  assumes "finish_chat_envelope L G now rumor template seal key eph encrypt t = r"
  shows "(\<not> seal_matches template seal \<longrightarrow> (\<exists>m. r = Inl (Exn ConcordEnvelopeError m))) \<and>
    (seal_matches template seal \<longrightarrow> verify_event L seal \<noteq> Inr () \<longrightarrow> (\<exists>m. r = Inl (Exn NostrEventError m))) \<and>
    (\<forall>e. r = Inr e \<longrightarrow> ce_rumor e = rumor \<and> ce_seal e = seal \<and> seal_matches template seal \<and>
      ev_id seal = compute_event_id L seal \<and> verify_signature L seal = Inr True \<and>
      ev_kind (ce_wrap e) = 1059 \<and> ev_pubkey (ce_wrap e) = gk_pubkey key \<and> ev_tags (ce_wrap e) = [[''p'', eph]] \<and>
      ev_created_at (ce_wrap e) = t \<and> encrypt (compact_json L (event_dump seal)) = Inr (ev_content (ce_wrap e)))"
proof (intro conjI allI impI)
  show "\<exists>m. r = Inl (Exn ConcordEnvelopeError m)" if "\<not> seal_matches template seal"
    using assms that by (auto simp: finish_chat_envelope_def envelope_error_def)
  show "\<exists>m. r = Inl (Exn NostrEventError m)" if "seal_matches template seal" "verify_event L seal \<noteq> Inr ()"
  proof -
    from that(2) obtain x where x: "verify_event L seal = Inl x" by (cases "verify_event L seal") auto
    with verify_event_Inl [OF x] assms that(1) show ?thesis by (cases x) (auto simp: finish_chat_envelope_def)
  qed
next
  fix e
  assume "r = Inr e"
  with assms obtain w where seal: "seal_matches template seal" "ev_id seal = compute_event_id L seal" "verify_signature L seal = Inr True"
    and w: "sign_wrap G now key eph (encrypt (compact_json L (event_dump seal))) t = Inr w"
    and e: "e = \<lparr>ce_rumor = rumor, ce_seal = seal, ce_wrap = w\<rparr>"
    by (auto simp: finish_chat_envelope_def)
  from w obtain c where "encrypt (compact_json L (event_dump seal)) = Inr c" "ev_kind w = 1059" "ev_pubkey w = gk_pubkey key"
    "ev_tags w = [[''p'', eph]]" "ev_created_at w = t" "ev_content w = c" by (rule sign_wrap_Inr)
  with seal e show "ce_rumor e = rumor" "ce_seal e = seal" "seal_matches template seal" "ev_id seal = compute_event_id L seal"
    "verify_signature L seal = Inr True" "ev_kind (ce_wrap e) = 1059" "ev_pubkey (ce_wrap e) = gk_pubkey key"
    "ev_tags (ce_wrap e) = [[''p'', eph]]" "ev_created_at (ce_wrap e) = t"
    "encrypt (compact_json L (event_dump seal)) = Inr (ev_content (ce_wrap e))" by simp_all
qed

text \<open>The same for a join, with the JSON text that \<open>pydantic\<close> writes.\<close>

lemma finish_join_Inr:
  assumes "finish_join_envelope L C G now rumor template seal key eph t = Inr (r, s, w)"
  obtains c where "r = rumor" "s = seal" "seal_matches template seal" "verify_event L seal = Inr ()" "key_material C key"
    "nip44_encrypt C key 1 (dump_json_event C seal) = Inr c"
    "sign_wrap G now key eph (Inr c) t = Inr w"
proof -
  from assms have m: "key_material C key"
    by (auto simp: finish_join_envelope_def self_conversation_encryptor_def split: if_splits)
  show thesis
  proof (cases "nip44_encrypt C key 1 (dump_json_event C seal)")
    case (Inl _)
    with assms m show ?thesis by (auto simp: finish_join_envelope_def self_conversation_encryptor_def sign_wrap_def)
  next
    case (Inr c)
    with assms m show ?thesis by (intro that [of c]) (auto simp: finish_join_envelope_def self_conversation_encryptor_def)
  qed
qed

subsection \<open>Numbers in tags\<close>

lemma decimal_char: "n < 10 \<Longrightarrow> is_decimal (char_of (48 + n)) \<and> code (char_of (48 + n)) = 48 + n"
  by (auto simp: is_decimal_def code_def take_bit_eq_mod)

lemma decimal_value_append:
  "list_all is_decimal s \<Longrightarrow> decimal_value m (s @ t) = decimal_value (foldl (\<lambda>n c. 10 * n + (code c - 48)) m s) t"
  by (induction s arbitrary: m) auto

lemma show_nat_decimal: "list_all is_decimal (show_nat n) \<and> show_nat n \<noteq> [] \<and> foldl (\<lambda>n c. 10 * n + (code c - 48)) 0 (show_nat n) = n"
proof (induction n rule: show_nat.induct)
  case (1 n)
  show ?case
  proof (cases "n < 10")
    case True
    then show ?thesis using decimal_char [of n] by (simp add: show_nat.simps [of n])
  next
    case False
    then show ?thesis using 1 decimal_char [of "n mod 10"] by (simp add: show_nat.simps [of n])
  qed
qed

lemma parse_nat_show: "parse_nat (show_nat n) = Some n"
proof -
  have "decimal_value 0 (show_nat n @ []) = Some n" using show_nat_decimal [of n] by (subst decimal_value_append) auto
  then show ?thesis using show_nat_decimal [of n] by (cases "show_nat n") (auto simp: parse_nat_def)
qed

lemma decimal_no_space: "is_decimal c \<Longrightarrow> \<not> is_space c \<and> is_digit c \<and> c \<noteq> CHR ''-'' \<and> c \<noteq> CHR ''+''"
  by (auto simp: is_decimal_def is_space_def is_digit_def code_def Let_def)

lemma strip_no_space: "list_all (\<lambda>c. \<not> is_space c) s \<Longrightarrow> str_strip s = s"
proof -
  have *: "dropWhile is_space s = s" if "list_all (\<lambda>c. \<not> is_space c) s" for s
    using that by (cases s) auto
  assume "list_all (\<lambda>c. \<not> is_space c) s"
  moreover from this have "list_all (\<lambda>c. \<not> is_space c) (rev s)" by (simp add: list_all_iff)
  ultimately show ?thesis by (simp add: str_strip_def *)
qed

lemma parse_int_show_nat: "0 \<le> i \<Longrightarrow> parse_int (show_int i) = Some i \<and> isdigit (show_int i)"
proof -
  assume i: "0 \<le> i"
  let ?s = "show_nat (nat i)"
  have d: "list_all is_decimal ?s" "?s \<noteq> []" using show_nat_decimal by auto
  from d(1) have "list_all (\<lambda>c. \<not> is_space c \<and> is_digit c \<and> c \<noteq> CHR ''-'' \<and> c \<noteq> CHR ''+'') ?s"
    by (rule list.pred_mono_strong) (rule decimal_no_space)
  moreover from this have "str_strip ?s = ?s" by (intro strip_no_space) (simp add: list_all_iff)
  ultimately show ?thesis using i d(2) parse_nat_show [of "nat i"]
    by (cases ?s) (auto simp: parse_int_def show_int_def isdigit_def list_all_iff)
qed

subsection \<open>A join is seen\<close>

definition guestbook_stream :: "crypto_libs \<Rightarrow> group_key \<Rightarrow> (json \<Rightarrow> string + unsigned_event) \<Rightarrow> stream_libs" where
  "guestbook_stream C key coerce =
     \<lparr>decrypt_self = (\<lambda>p. case decrypt_self_conversation C key p of Inl e \<Rightarrow> Inl (exn_msg e) | Inr s \<Rightarrow> Inr s),
      stream_pubkey = gk_pubkey key, pydantic_unsigned = coerce\<rparr>"

text \<open>The SDK reports the NIP-01 id of what it signs, and a signature that verifies.\<close>

definition faithful_signer :: "libs \<Rightarrow> sign_libs \<Rightarrow> bool" where
  "faithful_signer L G \<longleftrightarrow> (\<forall>k kind tags content t id sig. sign G k kind tags content t = Inr (id, sig) \<longrightarrow>
     verify_event L \<lparr>ev_id = id, ev_pubkey = key_pubkey G k, ev_created_at = t, ev_kind = kind, ev_tags = tags,
       ev_content = content, ev_sig = sig\<rparr> = Inr ())"

lemma signed_verifies:
  assumes "faithful_signer L G" "sign_event G now k p kind tags content (Some t) = Inr e"
  shows "verify_event L e = Inr ()"
proof -
  note s = sign_event_Inr [OF assms(2)]
  from s have "sign G k kind tags content t = Inr (ev_id e, ev_sig e)" by blast
  with assms(1) have "verify_event L \<lparr>ev_id = ev_id e, ev_pubkey = key_pubkey G k, ev_created_at = t, ev_kind = kind,
       ev_tags = tags, ev_content = content, ev_sig = ev_sig e\<rparr> = Inr ()" unfolding faithful_signer_def by blast
  moreover have "e = \<lparr>ev_id = ev_id e, ev_pubkey = key_pubkey G k, ev_created_at = t, ev_kind = kind,
       ev_tags = tags, ev_content = content, ev_sig = ev_sig e\<rparr>" using s by metis
  ultimately show ?thesis by simp
qed

lemma signed_valid:
  assumes "sign_event G now k p kind tags content (Some t) = Inr e" "pydantic_event L raw = Inr e"
  shows "model_validate L raw = Inr e"
proof -
  have "ev_pubkey e = p" using sign_event_Inr [OF assms(1)] by (metis nostr_event.select_convs(2))
  with sign_event_Inr [OF assms(1)] assms(2) show ?thesis by (simp add: model_validate_Inr)
qed

lemma build_template_Inr:
  assumes "build_join_rumor_and_seal_template L C K p r cid epoch t ms creator label = Inr (rumor, template, key)"
  obtains invite c where "0 \<le> ms" "ms \<le> 999" "derive_group_key K r ''concord/guestbook'' cid (Some epoch) = Inr key"
    "key_material C key" "nip44_encrypt C key 0 (dump_json_unsigned C rumor) = Inr c"
    "invite = [] \<or> (\<exists>x y. invite = [[''invite'', x, y]])"
    "rumor = with_id L \<lparr>un_id = replicate 64 CHR ''0'', un_pubkey = p, un_created_at = t,
           un_kind = 3306, un_tags = [''ms'', show_int ms] # invite, un_content = ''join''\<rparr>"
    "template = \<lparr>tm_pubkey = p, tm_kind = 20013, tm_tags = [], tm_content = c, tm_created_at = t\<rparr>"
proof -
  from assms obtain invite encrypt c where
    a: "0 \<le> ms" "ms \<le> 999" "derive_group_key K r ''concord/guestbook'' cid (Some epoch) = Inr key"
      "self_conversation_encryptor C key = Inr encrypt"
      "(case creator of None \<Rightarrow> Inr []
       | Some creator \<Rightarrow> ebind (guard (length creator = 64) (Exn ValueError ''invite creator must be 32-byte hex'')) (\<lambda>_.
           Inr [[''invite'', creator, case label of None \<Rightarrow> [] | Some l \<Rightarrow> l]])) = Inr invite" and
    b: "rumor = with_id L \<lparr>un_id = replicate 64 CHR ''0'', un_pubkey = p, un_created_at = t,
           un_kind = 3306, un_tags = [''ms'', show_int ms] # invite, un_content = ''join''\<rparr>"
      "encrypt 0 (dump_json_unsigned C rumor) = Inr c"
      "template = \<lparr>tm_pubkey = p, tm_kind = 20013, tm_tags = [], tm_content = c, tm_created_at = t\<rparr>"
    by (auto simp: build_join_rumor_and_seal_template_def Let_def)
  have "invite = [] \<or> (\<exists>x y. invite = [[''invite'', x, y]])" using a(5) by (auto split: option.splits)
  moreover have "key_material C key" "nip44_encrypt C key 0 (dump_json_unsigned C rumor) = Inr c"
    using a(4) b(2) by (auto simp: self_conversation_encryptor_def split: if_splits sum.splits)
  ultimately show thesis using a b that by blast
qed

text \<open>What the fold makes of a join rumor.\<close>

lemma fold_join:
  assumes "rumor = with_id L \<lparr>un_id = i, un_pubkey = p, un_created_at = t, un_kind = 3306,
      un_tags = [''ms'', show_int ms] # invite, un_content = ''join''\<rparr>"
    and "invite = [] \<or> (\<exists>x y. invite = [[''invite'', x, y]])" "0 \<le> ms" "ms \<le> 999"
    and "length p = 64" "length (un_id rumor) = 64" "0 \<le> skew" "t * 1000 + ms \<le> now_ms + skew"
  shows "fold_guestbook L now_ms skew None None [] [JObj (unsigned_dump rumor)] =
    Inr [(p, \<lparr>gs_member = p, gs_status = ''join'', gs_timestamp_ms = t * 1000 + ms, gs_rumor_id = un_id rumor\<rparr>)]"
proof -
  let ?d = "unsigned_dump rumor"
  have d: "dget ?d ''kind'' = JInt 3306" "dget ?d ''pubkey'' = JStr p" "dget ?d ''id'' = JStr (un_id rumor)"
    "dget ?d ''content'' = JStr ''join''" "dget ?d ''created_at'' = JInt t"
    "dget ?d ''tags'' = JList (map (\<lambda>t. JList (map JStr t)) ([''ms'', show_int ms] # invite))"
    using assms(1) by (simp_all add: unsigned_dump_def with_id_def)
  have "tags_named 2 ''ms'' (dget ?d ''tags'') = [[JStr ''ms'', JStr (show_int ms)]]"
    using assms(2) by (auto simp: d tags_named_def)
  moreover have fields: "un_kind rumor = 3306" "un_pubkey rumor = p" "un_content rumor = ''join''" "un_created_at rumor = t"
    using assms(1) by (simp_all add: with_id_def)
  ultimately have "millisecond ?d = Inr (Some ms)"
    using parse_int_show_nat [OF assms(3)] assms(3,4) by (simp add: millisecond_def int_of_text_def)
  then have "rumor_states L None None (now_ms + skew) ?d =
      Inr [\<lparr>gs_member = p, gs_status = ''join'', gs_timestamp_ms = t * 1000 + ms, gs_rumor_id = un_id rumor\<rparr>]"
    using assms(5,6,8) by (simp add: rumor_states_def rumor_subjects_def in_ints_def in_texts_def hashable_def fields d Let_def)
  then show ?thesis using assms(7) by (simp add: fold_guestbook_def keep_newest_def)
qed

text \<open>
  Joining works. The wrap of a join that was built is accepted by the reader that holds the same
  guestbook key, and gives back the rumor; unless its time is too far ahead, the fold of it makes
  the bot a member from that time on. What is assumed is that the SDK signs what it is given, that
  decryption undoes encryption, and that the JSON texts are read back.
\<close>

theorem join_is_seen:
  assumes "faithful_signer L G" "\<forall>s. length (sha256_hex L s) = 64"
    and "build_join_envelope L C K G now bot_key r cid epoch eph t ms creator label = Inr (rumor, seal, wrap)"
    and "derive_group_key K r ''concord/guestbook'' cid (Some epoch) = Inr key"
    and "\<forall>n s c. nip44_encrypt C key n s = Inr c \<longrightarrow> nip44_decrypt C key c = Inr s"
    and "json_loads L (dump_json_unsigned C rumor) = Inr raw_rumor" "coerce raw_rumor = Inr rumor"
    and "json_loads L (dump_json_event C seal) = Inr raw_seal" "pydantic_event L raw_seal = Inr seal"
    and "pydantic_event L (JObj (event_dump wrap)) = Inr wrap"
  shows "decode_guestbook_wrap L (guestbook_stream C key coerce) (JObj (event_dump wrap)) = Inr (unsigned_dump rumor) \<and>
    (0 \<le> skew \<longrightarrow> t * 1000 + ms \<le> now_ms + skew \<longrightarrow>
       fold_guestbook L now_ms skew None None [] [JObj (unsigned_dump rumor)] =
         Inr [(key_pubkey G bot_key, \<lparr>gs_member = key_pubkey G bot_key, gs_status = ''join'',
           gs_timestamp_ms = t * 1000 + ms, gs_rumor_id = un_id rumor\<rparr>)])"
proof -
  let ?p = "key_pubkey G bot_key" and ?S = "guestbook_stream C key coerce"
  from assms(3) obtain template key' where
    b: "build_join_rumor_and_seal_template L C K ?p r cid epoch t ms creator label = Inr (rumor, template, key')"
      "sign_template G now bot_key template = Inr seal"
      "finish_join_envelope L C G now rumor template seal key' eph t = Inr (rumor, seal, wrap)"
    by (auto simp: build_join_envelope_def finish_join_envelope_def)
  from b(1) obtain invite c where
    r: "0 \<le> ms" "ms \<le> 999" "derive_group_key K r ''concord/guestbook'' cid (Some epoch) = Inr key'"
      "nip44_encrypt C key' 0 (dump_json_unsigned C rumor) = Inr c" "invite = [] \<or> (\<exists>x y. invite = [[''invite'', x, y]])"
      "rumor = with_id L \<lparr>un_id = replicate 64 CHR ''0'', un_pubkey = ?p, un_created_at = t,
           un_kind = 3306, un_tags = [''ms'', show_int ms] # invite, un_content = ''join''\<rparr>"
      "template = \<lparr>tm_pubkey = ?p, tm_kind = 20013, tm_tags = [], tm_content = c, tm_created_at = t\<rparr>"
    by (rule build_template_Inr) blast
  have key: "key' = key" using assms(4) r(3) by simp
  from b(3) obtain cw where
    f: "verify_event L seal = Inr ()" "key_material C key" "nip44_encrypt C key 1 (dump_json_event C seal) = Inr cw"
      "sign_wrap G now key eph (Inr cw) t = Inr wrap"
    unfolding key by (rule finish_join_Inr) blast
  from f(4) obtain k where sw: "sign_event G now k (gk_pubkey key) 1059 [[''p'', eph]] cw (Some t) = Inr wrap"
    by (auto simp: sign_wrap_def)
  have ss: "sign_event G now bot_key ?p 20013 [] c (Some t) = Inr seal" using b(2) r(7) by (simp add: sign_template_def)
  have wrap: "ev_kind wrap = 1059" "ev_pubkey wrap = gk_pubkey key" "ev_content wrap = cw"
    using sign_event_Inr [OF sw] by (metis nostr_event.select_convs)+
  have seal: "ev_kind seal = 20013" "ev_pubkey seal = ?p" "ev_content seal = c" "length ?p = 64"
    using sign_event_Inr [OF ss] by (metis nostr_event.select_convs validate_hex32_def HEX32_LEN_def)+
  have layers: "open_layer L ?S (model_validate L) cw = Inr seal" "open_layer L ?S coerce c = Inr rumor"
    using assms(5-8) f(2,3) r(4) key signed_valid [OF ss assms(9)]
    by (simp_all add: open_layer_def guestbook_stream_def decrypt_self_conversation_def)
  have id: "un_id rumor = unsigned_event_id L rumor" "un_pubkey rumor = ?p" "un_kind rumor = 3306" "length (un_id rumor) = 64"
    using r(6) assms(2) by (simp_all add: with_id_def unsigned_event_id_def compute_event_id_def event_serialization_def)
  have verified: "verify_layer L wrap = Inr ()" "verify_layer L seal = Inr ()"
    using signed_verifies [OF assms(1) sw] f(1) by (simp_all add: verify_layer_def del: verify_event_Inr)
  have "decode_guestbook_wrap L ?S (JObj (event_dump wrap)) = Inr (unsigned_dump rumor)"
    using signed_valid [OF sw assms(10)] verified layers wrap seal id
    by (simp add: decode_guestbook_wrap_def guestbook_stream_def)
  with fold_join [OF r(6,5,1,2) seal(4) id(4)] show ?thesis by blast
qed

subsection \<open>An example\<close>

definition example_id :: string where "example_id = replicate 64 CHR ''a''"
definition example_pk :: string where "example_pk = replicate 64 CHR ''c''"
definition example_sig :: string where "example_sig = replicate 128 CHR ''b''"

definition joining_signer :: sign_libs where
  "joining_signer = \<lparr>key_of_bytes = Inr, key_pubkey = (\<lambda>_. example_pk),
     sign = (\<lambda>_ _ _ _ _. Inr (example_id, example_sig))\<rparr>"

definition joining_crypto :: crypto_libs where
  "joining_crypto = \<lparr>key_material = (\<lambda>_. True), nip44_encrypt = (\<lambda>_ _. Inr), nip44_decrypt = (\<lambda>_. Inr),
     dump_json_unsigned = (\<lambda>_. ''rumor''), dump_json_event = (\<lambda>_. ''seal'')\<rparr>"

definition joining_keys :: key_libs where
  "joining_keys = \<lparr>hkdf = (\<lambda>_ _. replicate 31 CHR 0x00 @ [CHR 0x01]), public_key_of = (\<lambda>_. example_pk)\<rparr>"

definition joining_key :: group_key where
  "joining_key = \<lparr>gk_secret = replicate 31 CHR 0x00 @ [CHR 0x01], gk_pubkey = example_pk\<rparr>"

definition joining_rumor :: unsigned_event where
  "joining_rumor = \<lparr>un_id = example_id, un_pubkey = example_pk, un_created_at = 100, un_kind = 3306,
     un_tags = [[''ms'', ''7'']], un_content = ''join''\<rparr>"

definition joining_seal :: nostr_event where
  "joining_seal = \<lparr>ev_id = example_id, ev_pubkey = example_pk, ev_created_at = 100, ev_kind = 20013, ev_tags = [],
     ev_content = ''rumor'', ev_sig = example_sig\<rparr>"

definition joining_wrap :: nostr_event where
  "joining_wrap = \<lparr>ev_id = example_id, ev_pubkey = example_pk, ev_created_at = 100, ev_kind = 1059, ev_tags = [[''p'', ''eph'']],
     ev_content = ''seal'', ev_sig = example_sig\<rparr>"

definition joining_libs :: libs where
  "joining_libs = example_libs\<lparr>sha256_hex := (\<lambda>_. example_id), json_loads := (\<lambda>s. Inr (JStr s)),
     pydantic_event := (\<lambda>v. case v of JStr _ \<Rightarrow> Inr joining_seal | _ \<Rightarrow> Inr joining_wrap)\<rparr>"

lemma joining_id: "compute_event_id joining_libs e = example_id"
  by (simp add: compute_event_id_def joining_libs_def)

lemma joining_hex: "validate_hex32 example_id" "validate_hex32 example_pk" "validate_sig_hex example_sig" "str_lower example_pk = example_pk"
  by (simp_all add: example_id_def example_pk_def example_sig_def valid_replicate)

lemma joining_verifies: "verify_signature joining_libs e = Inr True"
  by (simp add: joining_libs_def)

lemma joining_faithful: "faithful_signer joining_libs joining_signer"
  by (simp add: faithful_signer_def joining_signer_def joining_id joining_verifies)

lemma joining_sign:
  "sign_event joining_signer now k example_pk kind tags content (Some t) =
     Inr \<lparr>ev_id = example_id, ev_pubkey = example_pk, ev_created_at = t, ev_kind = kind, ev_tags = tags,
          ev_content = content, ev_sig = example_sig\<rparr>"
  by (simp add: sign_event_def joining_signer_def joining_hex sdk_error_def Let_def)

lemma joining_derive:
  assumes "length r = 32" "length cid = 32" "label \<noteq> []"
  shows "derive_group_key joining_keys r label cid (Some 0) = Inr joining_key"
proof -
  have "from_bytes (replicate n CHR 0x00 @ [CHR 0x01]) = 1" for n
    by (induction n) (simp_all add: from_bytes_def code_def)
  then have "valid_scalar (replicate 31 CHR 0x00 @ [CHR 0x01])" by (simp add: valid_scalar_def CURVE_ORDER_def)
  then have "find valid_scalar (map (derive_seed joining_keys r label cid (Some 0)) (None # xs)) =
    Some (replicate 31 CHR 0x00 @ [CHR 0x01])" for xs
    by (simp add: derive_seed_def joining_keys_def)
  moreover have "validate_inputs r cid (Some 0) = Inr ()" using assms by (simp add: validate_inputs_def)
  ultimately show ?thesis
    using assms(3) unfolding derive_group_key_def by (simp only: ebind_simps) (simp add: joining_key_def joining_keys_def)
qed

lemma joining_built:
  "build_join_envelope joining_libs joining_crypto joining_keys joining_signer 0 ''k'' (replicate 32 CHR ''r'')
     (replicate 32 CHR ''i'') 0 ''eph'' 100 7 None None = Inr (joining_rumor, joining_seal, joining_wrap)"
proof -
  have "show_int 7 = ''7''" by code_simp
  then have t: "build_join_rumor_and_seal_template joining_libs joining_crypto joining_keys example_pk (replicate 32 CHR ''r'')
     (replicate 32 CHR ''i'') 0 100 7 None None = Inr (joining_rumor,
       \<lparr>tm_pubkey = example_pk, tm_kind = 20013, tm_tags = [], tm_content = ''rumor'', tm_created_at = 100\<rparr>, joining_key)"
    by (simp add: build_join_rumor_and_seal_template_def joining_derive with_id_def unsigned_event_id_def joining_id
        joining_rumor_def self_conversation_encryptor_def joining_crypto_def Let_def)
  have k: "key_pubkey joining_signer k = example_pk" "key_of_bytes joining_signer s = Inr s" for k s by (simp_all add: joining_signer_def)
  show ?thesis
    by (simp add: build_join_envelope_def k t sign_template_def joining_sign finish_join_envelope_def flip: joining_seal_def)
      (simp add: seal_matches_def joining_seal_def self_conversation_encryptor_def joining_crypto_def joining_id joining_verifies
        sign_wrap_def k joining_key_def sdk_error_def joining_sign joining_wrap_def)
qed

theorem join_is_seen_witness:
  "fold_guestbook joining_libs 100000 300000 None None [] [JObj (unsigned_dump joining_rumor)] =
     Inr [(example_pk, \<lparr>gs_member = example_pk, gs_status = ''join'', gs_timestamp_ms = 100007, gs_rumor_id = example_id\<rparr>)]"
proof -
  have libs: "\<forall>s. length (sha256_hex joining_libs s) = 64" "json_loads joining_libs s = Inr (JStr s)"
    "pydantic_event joining_libs (JStr s) = Inr joining_seal" "pydantic_event joining_libs (JObj d) = Inr joining_wrap" for s d
    by (simp_all add: joining_libs_def example_id_def)
  have enc: "\<forall>n s c. nip44_encrypt joining_crypto joining_key n s = Inr c \<longrightarrow> nip44_decrypt joining_crypto joining_key c = Inr s"
    by (simp add: joining_crypto_def)
  have "fold_guestbook joining_libs 100000 300000 None None [] [JObj (unsigned_dump joining_rumor)] =
     Inr [(key_pubkey joining_signer ''k'', \<lparr>gs_member = key_pubkey joining_signer ''k'', gs_status = ''join'',
       gs_timestamp_ms = 100 * 1000 + 7, gs_rumor_id = un_id joining_rumor\<rparr>)]"
    using join_is_seen [OF joining_faithful libs(1) joining_built joining_derive enc libs(2) _ libs(2) libs(3) libs(4),
        of "\<lambda>_. Inr joining_rumor" 300000 100000] by simp
  then show ?thesis by (simp add: joining_signer_def joining_rumor_def)
qed

theorem chat_requires_author_witness:
  "\<exists>m. finish_chat_envelope joining_libs joining_signer 0 joining_rumor
     \<lparr>tm_pubkey = example_pk, tm_kind = 20013, tm_tags = [], tm_content = ''another rumor'', tm_created_at = 100\<rparr>
     joining_seal joining_key ''eph'' Inr 100 = Inl (Exn ConcordEnvelopeError m)"
proof -
  let ?t = "\<lparr>tm_pubkey = example_pk, tm_kind = 20013, tm_tags = [], tm_content = ''another rumor'', tm_created_at = 100\<rparr>"
  have "\<not> seal_matches ?t joining_seal" by (simp add: seal_matches_def joining_seal_def)
  with chat_requires_author [OF refl, of ?t joining_seal joining_libs joining_signer 0 joining_rumor joining_key "''eph''" Inr 100]
  show ?thesis by blast
qed

end
