(* ===== verification/Concord_Bundle.thy ===== *)
theory Concord_Bundle
  imports Concord_Json Url
begin

text \<open>
  \<^verbatim>\<open>src/yunohost_mcp/concord_bundle.py\<close>: the validation of a decrypted community invite.  The lemmas say what
  a validated bundle guarantees, and exactly when a field that should be 32 bytes is 32 bytes.
\<close>

subsection \<open>Fields\<close>

record channel_grant =
  cg_id :: string
  cg_name :: string
  cg_epoch :: int
  cg_private :: bool
  cg_key :: "string option"

record invite_bundle =
  ib_community_id :: string
  ib_owner :: string
  ib_control_pk :: "string option"
  ib_root_epoch :: int
  ib_relays :: "string list"
  ib_channels :: "channel_grant list"
  ib_expires_at :: "int option"
  ib_community_root :: string
  ib_owner_salt :: string

definition bundle_error :: "string \<Rightarrow> exn" where
  "bundle_error msg = Exn ConcordBundleError msg"

text \<open>\<open>bytes.hex\<close>.\<close>

definition hex_of :: "string \<Rightarrow> string" where
  "hex_of bytes = concat (map (\<lambda>c. [hex_digit (code c div 16), hex_digit (code c mod 16)]) bytes)"

fun hex_bytes :: "string \<Rightarrow> json \<Rightarrow> exn + string" where
  "hex_bytes label (JStr s) =
     (if length s \<noteq> 64 \<or> s \<noteq> str_lower s then Inl (bundle_error (label @ '' must be lowercase 32-byte hex''))
      else case fromhex s of
          None \<Rightarrow> Inl (bundle_error (label @ '' must be lowercase 32-byte hex''))
        | Some bytes \<Rightarrow> Inr bytes)"
| "hex_bytes label _ = Inl (bundle_error (label @ '' must be lowercase 32-byte hex''))"

fun bundle_epoch :: "string \<Rightarrow> json \<Rightarrow> exn + int" where
  "bundle_epoch label (JInt i) =
     (if 0 \<le> i \<and> i \<le> 18446744073709551615 then Inr i
      else Inl (bundle_error (label @ '' must be an unsigned 64-bit integer'')))"
| "bundle_epoch label _ = Inl (bundle_error (label @ '' must be an unsigned 64-bit integer''))"

definition bundle_relay :: "string \<Rightarrow> exn + unit" where
  "bundle_relay relay =
     ebind (urlsplit_parts relay) (\<lambda>u.
     guard (url_scheme u \<in> {''ws'', ''wss''} \<and> url_netloc u \<noteq> [] \<and> url_query u = [] \<and> url_fragment u = [])
       (bundle_error ''invite relays must be absolute ws(s) URLs without query or fragment''))"

definition bundle_relays :: "nat \<Rightarrow> json \<Rightarrow> exn + string list" where
  "bundle_relays max_relays v =
     (case v of
        JList rs \<Rightarrow>
          if length rs \<le> max_relays \<and> list_all (\<lambda>r. is_str r \<and> truthy r) rs
          then ebind (eall bundle_relay (map text_of rs)) (\<lambda>_. Inr (map text_of rs))
          else Inl (bundle_error ''invite relays must be a bounded list of non-empty strings'')
      | _ \<Rightarrow> Inl (bundle_error ''invite relays must be a bounded list of non-empty strings''))"

definition bundle_expiry :: "int \<Rightarrow> json \<Rightarrow> exn + int option" where
  "bundle_expiry now_ms v =
     (case v of
        JNull \<Rightarrow> Inr None
      | JInt t \<Rightarrow>
          if t < 0 then Inl (bundle_error ''invite expires_at must be a non-negative Unix millisecond timestamp'')
          else if t \<le> now_ms then Inl (bundle_error ''Concord invite has expired'')
          else Inr (Some t)
      | _ \<Rightarrow> Inl (bundle_error ''invite expires_at must be a non-negative Unix millisecond timestamp''))"

fun optional_hex :: "string \<Rightarrow> json \<Rightarrow> exn + string option" where
  "optional_hex label JNull = Inr None"
| "optional_hex label v = ebind (hex_bytes label v) (\<lambda>b. Inr (Some b))"

definition channel_name_ok :: "json \<Rightarrow> bool" where
  "channel_name_ok v = (is_str v \<and> truthy v \<and> length (utf8_encode (text_of v)) \<le> 64)"

fun bundle_channels :: "string list \<Rightarrow> json list \<Rightarrow> exn + channel_grant list" where
  "bundle_channels seen [] = Inr []"
| "bundle_channels seen (JObj d # cs) =
     ebind (hex_bytes ''channel id'' (dget d ''id'')) (\<lambda>id.
     ebind (guard (hex_of id \<notin> set seen) (bundle_error ''invite contains duplicate channel IDs'')) (\<lambda>_.
     ebind (guard (channel_name_ok (dget d ''name''))
       (bundle_error ''channel name must be non-empty and at most 64 UTF-8 bytes'')) (\<lambda>_.
     ebind (optional_hex ''channel key'' (dget d ''key'')) (\<lambda>key.
     ebind (bundle_epoch ''channel epoch'' (dget d ''epoch'')) (\<lambda>epoch.
     ebind (bundle_channels (hex_of id # seen) cs) (\<lambda>grants.
     Inr (\<lparr>cg_id = hex_of id, cg_name = text_of (dget d ''name''), cg_epoch = epoch, cg_private = (key \<noteq> None),
           cg_key = key\<rparr> # grants)))))))"
| "bundle_channels seen (_ # cs) = Inl (bundle_error ''invite channel entries must be objects'')"

definition validate_invite_bundle :: "libs \<Rightarrow> nat \<Rightarrow> nat \<Rightarrow> int \<Rightarrow> json \<Rightarrow> exn + invite_bundle" where
  "validate_invite_bundle L max_channels max_relays now_ms bundle =
     (case bundle of
        JObj d \<Rightarrow>
          ebind (guard (0 < max_channels \<and> 0 < max_relays) (Exn ValueError ''bundle bounds must be positive'')) (\<lambda>_.
          ebind (hex_bytes ''community_id'' (dget d ''community_id'')) (\<lambda>community_id.
          ebind (hex_bytes ''owner'' (dget d ''owner'')) (\<lambda>owner.
          ebind (hex_bytes ''owner_salt'' (dget d ''owner_salt'')) (\<lambda>owner_salt.
          ebind (guard (hex_of community_id = sha256_bytes L (''concord/community'' @ owner @ owner_salt))
            (bundle_error ''community_id does not match owner and owner_salt'')) (\<lambda>_.
          ebind (hex_bytes ''community_root'' (dget d ''community_root'')) (\<lambda>community_root.
          ebind (bundle_epoch ''root_epoch'' (dget d ''root_epoch'')) (\<lambda>root_epoch.
          ebind (optional_hex ''control_pk'' (dget d ''control_pk'')) (\<lambda>control_pk.
          ebind (bundle_relays max_relays (dget d ''relays'')) (\<lambda>relays.
          ebind (bundle_expiry now_ms (dget d ''expires_at'')) (\<lambda>expires_at.
          ebind (case dget d ''channels'' of
              JList cs \<Rightarrow> if length cs \<le> max_channels then bundle_channels [] cs
                else Inl (bundle_error ''invite channels exceed the configured bound'')
            | _ \<Rightarrow> Inl (bundle_error ''invite channels exceed the configured bound'')) (\<lambda>channels.
          Inr \<lparr>ib_community_id = hex_of community_id, ib_owner = hex_of owner, ib_control_pk = map_option hex_of control_pk,
               ib_root_epoch = root_epoch, ib_relays = relays, ib_channels = channels, ib_expires_at = expires_at,
               ib_community_root = community_root, ib_owner_salt = owner_salt\<rparr>)))))))))))
      | _ \<Rightarrow> Inl (bundle_error ''invite bundle must be an object''))"

subsection \<open>Thirty-two bytes\<close>

lemma digit_no_space: "is_hex_digit c \<Longrightarrow> \<not> is_ascii_space c"
  by (auto simp: is_hex_digit_def is_ascii_space_def is_decimal_def)

lemma fromhex_length: "fromhex s = Some b \<Longrightarrow> 2 * length b \<le> length s \<and> (2 * length b = length s \<longleftrightarrow> list_all is_hex_digit s)"
proof (induction s arbitrary: b rule: fromhex.induct)
  case (3 c d s)
  show ?case
  proof (cases "is_ascii_space c")
    case True
    with 3 show ?thesis by (auto dest: digit_no_space)
  next
    case False
    with 3 show ?thesis by (auto split: if_splits)
  qed
qed (auto split: if_splits dest: digit_no_space)

lemma hex_bytes_length:
  assumes "hex_bytes label v = Inr b"
  shows "length b \<le> 32 \<and> (length b = 32 \<longleftrightarrow> list_all is_hex_digit (text_of v))"
proof -
  from assms obtain s where "v = JStr s" "length s = 64" "fromhex s = Some b"
    by (cases v) (auto split: if_splits option.splits)
  with fromhex_length [of s b] show ?thesis by auto
qed

lemma length_hex_of [simp]: "length (hex_of b) = 2 * length b"
  by (induction b) (auto simp: hex_of_def)

lemma hex_digit_inj: "hex_digit m = hex_digit n \<Longrightarrow> m < 16 \<Longrightarrow> n < 16 \<Longrightarrow> m = n"
  by (auto simp: hex_digit_def char_of_eq_iff take_bit_eq_mod split: if_splits)

lemma code_less: "code c < 256"
  by (simp add: code_def)

lemma code_inj: "code c = code d \<Longrightarrow> c = d"
  by (simp add: code_def)

lemma hex_of_inj: "hex_of a = hex_of b \<Longrightarrow> a = b"
proof (induction a arbitrary: b)
  case Nil
  then show ?case by (cases b) (auto simp: hex_of_def)
next
  case (Cons c a)
  then obtain d b' where b: "b = d # b'" by (cases b) (auto simp: hex_of_def)
  with Cons.prems have "hex_digit (code c div 16) = hex_digit (code d div 16)" "hex_digit (code c mod 16) = hex_digit (code d mod 16)"
    and rest: "hex_of a = hex_of b'" by (auto simp: hex_of_def)
  then have "code c div 16 = code d div 16" "code c mod 16 = code d mod 16"
    using code_less [of c] code_less [of d] by (auto intro!: hex_digit_inj)
  then have "code c = code d" by (metis div_mult_mod_eq)
  then have "c = d" by (rule code_inj)
  with Cons.IH [OF rest] b show ?case by simp
qed

subsection \<open>What a validated bundle guarantees\<close>

definition relay_ok :: "string \<Rightarrow> bool" where
  "relay_ok r \<longleftrightarrow> (\<exists>u. urlsplit_parts r = Inr u \<and> url_scheme u \<in> {''ws'', ''wss''} \<and> url_netloc u \<noteq> [] \<and>
     url_query u = [] \<and> url_fragment u = [])"

definition grant_ok :: "channel_grant \<Rightarrow> bool" where
  "grant_ok g \<longleftrightarrow> cg_private g = (cg_key g \<noteq> None) \<and> cg_name g \<noteq> [] \<and> length (utf8_encode (cg_name g)) \<le> 64 \<and>
     0 \<le> cg_epoch g \<and> cg_epoch g \<le> 18446744073709551615"

lemma bundle_epoch_Inr: "bundle_epoch label v = Inr i \<Longrightarrow> 0 \<le> i \<and> i \<le> 18446744073709551615"
  by (cases v) (auto split: if_splits)

lemma bundle_relays_Inr: "bundle_relays n v = Inr rs \<Longrightarrow> length rs \<le> n \<and> list_all relay_ok rs"
  by (auto simp: bundle_relays_def bundle_relay_def relay_ok_def list_all_iff split: json.splits if_splits)

lemma bundle_expiry_Inr: "bundle_expiry now v = Inr (Some t) \<Longrightarrow> now < t"
  by (auto simp: bundle_expiry_def split: json.splits if_splits)

lemma channel_name_text: "channel_name_ok v \<Longrightarrow> text_of v \<noteq> [] \<and> length (utf8_encode (text_of v)) \<le> 64"
  by (cases v) (auto simp: channel_name_ok_def)

lemma bundle_channels_Inr:
  "bundle_channels seen chs = Inr gs \<Longrightarrow>
     length gs = length chs \<and> distinct (map cg_id gs) \<and> set (map cg_id gs) \<inter> set seen = {} \<and> list_all grant_ok gs"
proof (induction seen chs arbitrary: gs rule: bundle_channels.induct)
  case (2 seen d chs)
  then obtain id key epoch grants where
    head: "hex_of id \<notin> set seen" "channel_name_ok (dget d ''name'')" "bundle_epoch ''channel epoch'' (dget d ''epoch'') = Inr epoch"
    and id: "hex_bytes ''channel id'' (dget d ''id'') = Inr id" and key: "optional_hex ''channel key'' (dget d ''key'') = Inr key"
    and rest: "bundle_channels (hex_of id # seen) chs = Inr grants"
    and gs: "gs = \<lparr>cg_id = hex_of id, cg_name = text_of (dget d ''name''), cg_epoch = epoch, cg_private = (key \<noteq> None),
           cg_key = key\<rparr> # grants"
    by auto
  from 2(1) [OF rest]
  have "length grants = length chs \<and> distinct (map cg_id grants) \<and> set (map cg_id grants) \<inter> set (hex_of id # seen) = {} \<and>
    list_all grant_ok grants" by simp
  moreover have "grant_ok (hd gs)"
    using gs bundle_epoch_Inr [OF head(3)] channel_name_text [OF head(2)] by (simp add: grant_ok_def)
  ultimately show ?case using head(1) gs by auto
qed auto

text \<open>The steps of the validation that a validated bundle has passed.\<close>

lemma validate_invite_bundleE:
  assumes "validate_invite_bundle L max_channels max_relays now_ms bundle = Inr b"
  obtains d owner chs where
    "bundle = JObj d" "hex_bytes ''owner'' (dget d ''owner'') = Inr owner" "ib_owner b = hex_of owner"
    "hex_bytes ''owner_salt'' (dget d ''owner_salt'') = Inr (ib_owner_salt b)"
    "ib_community_id b = sha256_bytes L (''concord/community'' @ owner @ ib_owner_salt b)"
    "hex_bytes ''community_root'' (dget d ''community_root'') = Inr (ib_community_root b)"
    "bundle_epoch ''root_epoch'' (dget d ''root_epoch'') = Inr (ib_root_epoch b)"
    "bundle_relays max_relays (dget d ''relays'') = Inr (ib_relays b)"
    "bundle_expiry now_ms (dget d ''expires_at'') = Inr (ib_expires_at b)"
    "dget d ''channels'' = JList chs" "length chs \<le> max_channels" "bundle_channels [] chs = Inr (ib_channels b)"
proof -
  obtain d where d: "bundle = JObj d" using assms by (cases "bundle") (auto simp: validate_invite_bundle_def)
  obtain chs where chs: "dget d ''channels'' = JList chs" "length chs \<le> max_channels"
    using assms d by (cases "dget d ''channels''") (auto simp: validate_invite_bundle_def split: if_splits)
  from assms chs obtain cid owner salt r e pk rs ex gs where
    steps: "hex_bytes ''owner'' (dget d ''owner'') = Inr owner" "hex_bytes ''owner_salt'' (dget d ''owner_salt'') = Inr salt"
      "hex_of cid = sha256_bytes L (''concord/community'' @ owner @ salt)"
      "hex_bytes ''community_root'' (dget d ''community_root'') = Inr r" "bundle_epoch ''root_epoch'' (dget d ''root_epoch'') = Inr e"
      "bundle_relays max_relays (dget d ''relays'') = Inr rs" "bundle_expiry now_ms (dget d ''expires_at'') = Inr ex"
      "bundle_channels [] chs = Inr gs" and
    b: "b = \<lparr>ib_community_id = hex_of cid, ib_owner = hex_of owner, ib_control_pk = map_option hex_of pk,
               ib_root_epoch = e, ib_relays = rs, ib_channels = gs, ib_expires_at = ex,
               ib_community_root = r, ib_owner_salt = salt\<rparr>"
    by (auto simp: validate_invite_bundle_def d)
  show thesis
    by (rule that [OF d _ _ _ _ _ _ _ _ chs]) (use steps b in simp_all)
qed

text \<open>
  What a joined community rests on was checked. A validated invite names the owner and salt whose
  hash is its community id; its relays are at most the bound, absolute WebSocket URLs without
  query or fragment; its channels are at most the bound, with distinct ids and bounded names, private
  exactly when they carry a key; every epoch fits 64 bits; and it has not expired.
\<close>

theorem bundle_sound:
  assumes "validate_invite_bundle L max_channels max_relays now_ms bundle = Inr b"
  shows "(\<exists>owner. ib_owner b = hex_of owner \<and>
      ib_community_id b = sha256_bytes L (''concord/community'' @ owner @ ib_owner_salt b)) \<and>
    length (ib_relays b) \<le> max_relays \<and> list_all relay_ok (ib_relays b) \<and>
    length (ib_channels b) \<le> max_channels \<and> distinct (map cg_id (ib_channels b)) \<and> list_all grant_ok (ib_channels b) \<and>
    0 \<le> ib_root_epoch b \<and> ib_root_epoch b \<le> 18446744073709551615 \<and>
    (case ib_expires_at b of None \<Rightarrow> True | Some t \<Rightarrow> now_ms < t)"
proof -
  from assms obtain d owner chs where v: "ib_owner b = hex_of owner"
    "ib_community_id b = sha256_bytes L (''concord/community'' @ owner @ ib_owner_salt b)"
    "bundle_epoch ''root_epoch'' (dget d ''root_epoch'') = Inr (ib_root_epoch b)"
    "bundle_relays max_relays (dget d ''relays'') = Inr (ib_relays b)"
    "bundle_expiry now_ms (dget d ''expires_at'') = Inr (ib_expires_at b)"
    "length chs \<le> max_channels" "bundle_channels [] chs = Inr (ib_channels b)"
    by (rule validate_invite_bundleE)
  show ?thesis
    using v(1,2,6) bundle_epoch_Inr [OF v(3)] bundle_relays_Inr [OF v(4)] bundle_channels_Inr [OF v(7)]
      bundle_expiry_Inr v(5) by (auto split: option.splits)
qed

text \<open>
  Nobody else can claim a community. As long as nobody has found a second text with the hash that is
  its id, every validated invite to a community whose owner and salt are full 32-byte values names
  that owner and that salt, whatever the rest of the invite says.
\<close>

theorem bundle_owner_bound:
  assumes "\<forall>x y. sha256_bytes L x = ib_community_id b \<longrightarrow> sha256_bytes L y = ib_community_id b \<longrightarrow> x = y"
    and "validate_invite_bundle L mc mr now_ms bundle = Inr b" "validate_invite_bundle L mc' mr' now_ms' bundle' = Inr b'"
    and "length (ib_owner b) = 64" "length (ib_owner_salt b) = 32" "ib_community_id b' = ib_community_id b"
  shows "ib_owner b' = ib_owner b \<and> ib_owner_salt b' = ib_owner_salt b"
proof -
  from assms(2) obtain owner where o: "ib_owner b = hex_of owner"
    "ib_community_id b = sha256_bytes L (''concord/community'' @ owner @ ib_owner_salt b)"
    by (rule validate_invite_bundleE)
  from assms(3) obtain d' owner' where o': "hex_bytes ''owner'' (dget d' ''owner'') = Inr owner'" "ib_owner b' = hex_of owner'"
    "hex_bytes ''owner_salt'' (dget d' ''owner_salt'') = Inr (ib_owner_salt b')"
    "ib_community_id b' = sha256_bytes L (''concord/community'' @ owner' @ ib_owner_salt b')"
    by (rule validate_invite_bundleE)
  have same: "owner @ ib_owner_salt b = owner' @ ib_owner_salt b'"
    using assms(1) [rule_format, OF o(2) [symmetric], of "''concord/community'' @ owner' @ ib_owner_salt b'"] o'(4) assms(6) by simp
  moreover have "length owner = 32" using assms(4) o(1) by simp
  moreover have "length owner' \<le> 32" "length (ib_owner_salt b') \<le> 32"
    using hex_bytes_length [OF o'(1)] hex_bytes_length [OF o'(3)] by simp_all
  moreover from arg_cong [OF same, of length] have "32 + 32 = length owner' + length (ib_owner_salt b')"
    using \<open>length owner = 32\<close> assms(5) by simp
  ultimately have "length owner' = length owner" by simp
  with same o(1) o'(2) show ?thesis by simp
qed

text \<open>
  A secret of a validated invite can be short. \<open>bytes.fromhex\<close> skips white space between digits, and
  the length test counts characters: the community root has 32 bytes exactly when the text has
  no white space, and otherwise fewer, down to none.
\<close>

theorem bundle_root_length:
  assumes "validate_invite_bundle L mc mr now_ms (JObj d) = Inr b"
  shows "length (ib_community_root b) \<le> 32 \<and>
    (length (ib_community_root b) = 32 \<longleftrightarrow> list_all is_hex_digit (text_of (dget d ''community_root'')))"
proof -
  from assms obtain d' where "JObj d = JObj d'" "hex_bytes ''community_root'' (dget d' ''community_root'') = Inr (ib_community_root b)"
    by (rule validate_invite_bundleE)
  with hex_bytes_length show ?thesis by auto
qed

subsection \<open>An example\<close>

text \<open>A hash with one interesting value.\<close>

definition example_preimage :: string where
  "example_preimage = ''concord/community'' @ replicate 64 (char_of (0xbb :: nat))"

definition bundle_libs :: libs where
  "bundle_libs = example_libs\<lparr>sha256_bytes := (\<lambda>s. if s = example_preimage then replicate 64 CHR ''a'' else [])\<rparr>"

definition example_invite :: "string \<Rightarrow> json" where
  "example_invite r = JObj
     [(''community_id'', JStr (replicate 64 CHR ''a'')), (''owner'', JStr (replicate 64 CHR ''b'')),
      (''owner_salt'', JStr (replicate 64 CHR ''b'')), (''community_root'', JStr r), (''root_epoch'', JInt 0),
      (''relays'', JList [JStr ''wss://relay.example'']), (''channels'', JList [])]"

lemma fromhex_pairs: "is_hex_digit c \<Longrightarrow> fromhex (replicate (2 * n) c) = Some (replicate n (char_of (17 * hex_value c)))"
  by (induction n) (auto dest: digit_no_space)

lemma hex_bytes_pairs:
  assumes "c \<in> {CHR ''a'', CHR ''b'', CHR ''c''}"
  shows "hex_bytes label (JStr (replicate 64 c)) = Inr (replicate 32 (char_of (17 * hex_value c)))"
proof -
  have "is_hex_digit c" "lower_char c = c"
    using assms by (auto simp: is_hex_digit_def is_decimal_def lower_char_def is_upper_def code_def)
  with fromhex_pairs [of c 32] show ?thesis by (simp add: str_lower_def)
qed

lemma hex_of_pairs:
  "hex_digit (code c div 16) = d \<Longrightarrow> hex_digit (code c mod 16) = d \<Longrightarrow> hex_of (replicate n c) = replicate (2 * n) d"
  by (induction n) (simp_all add: hex_of_def)

lemma hex_bytes_blank: "hex_bytes label (JStr (replicate 64 CHR '' '')) = Inr []"
proof -
  have "fromhex (replicate n CHR '' '') = Some []" for n
  proof (induction n)
    case (Suc n)
    then show ?case by (cases n) (simp_all add: is_ascii_space_def code_def)
  qed simp
  then show ?thesis by (simp add: str_lower_def lower_char_def is_upper_def code_def)
qed

lemma relay_example: "bundle_relay ''wss://relay.example'' = Inr ()"
  by code_simp

lemma example_invite_valid:
  assumes "hex_bytes ''community_root'' (JStr r) = Inr bytes"
  shows "\<exists>b. validate_invite_bundle bundle_libs 256 5 0 (example_invite r) = Inr b \<and> ib_community_root b = bytes \<and>
    ib_owner b = hex_of (replicate 32 (char_of (0xbb :: nat))) \<and> ib_owner_salt b = replicate 32 (char_of (0xbb :: nat)) \<and>
    ib_community_id b = replicate 64 CHR ''a''"
proof -
  have hex: "hex_bytes l (JStr (replicate 64 CHR ''a'')) = Inr (replicate 32 (char_of (0xaa :: nat)))"
    "hex_bytes l (JStr (replicate 64 CHR ''b'')) = Inr (replicate 32 (char_of (0xbb :: nat)))" for l
    using hex_bytes_pairs [of "CHR ''a''" l] hex_bytes_pairs [of "CHR ''b''" l] by (simp_all add: hex_value_def code_def)
  have id: "hex_of (replicate 32 (char_of (0xaa :: nat))) = replicate 64 CHR ''a''"
  proof -
    have "hex_digit 10 = CHR ''a''" by code_simp
    then show ?thesis using hex_of_pairs [of "char_of (0xaa :: nat)" "CHR ''a''" 32] by (simp add: code_def)
  qed
  have hash: "sha256_bytes bundle_libs (''concord/community'' @ replicate 32 (char_of (0xbb :: nat)) @ replicate 32 (char_of (0xbb :: nat))) =
    replicate 64 CHR ''a''"
    by (simp add: bundle_libs_def example_preimage_def flip: replicate_add)
  show ?thesis
    by (simp del: hex_bytes.simps add: validate_invite_bundle_def example_invite_def hex id hash [unfolded append.simps] assms bundle_relays_def relay_example
        bundle_expiry_def)
qed

theorem bundle_sound_witness:
  "\<exists>b. validate_invite_bundle bundle_libs 256 5 0 (example_invite (replicate 64 CHR ''c'')) = Inr b \<and>
    list_all relay_ok (ib_relays b)"
proof -
  from example_invite_valid [OF hex_bytes_pairs [of "CHR ''c''"]] obtain b where
    b: "validate_invite_bundle bundle_libs 256 5 0 (example_invite (replicate 64 CHR ''c'')) = Inr b" by auto
  with bundle_sound [OF b] show ?thesis by blast
qed

theorem bundle_owner_bound_witness:
  "\<exists>b b'. validate_invite_bundle bundle_libs 256 5 0 (example_invite (replicate 64 CHR ''c'')) = Inr b \<and>
    validate_invite_bundle bundle_libs 256 5 0 (example_invite (replicate 64 CHR ''a'')) = Inr b' \<and>
    ib_community_root b \<noteq> ib_community_root b' \<and> ib_owner b' = ib_owner b"
proof -
  from example_invite_valid [OF hex_bytes_pairs [of "CHR ''c''"]] obtain b where
    b: "validate_invite_bundle bundle_libs 256 5 0 (example_invite (replicate 64 CHR ''c'')) = Inr b"
      "ib_community_root b = replicate 32 (char_of (17 * hex_value (CHR ''c'')))"
      "ib_owner b = hex_of (replicate 32 (char_of (0xbb :: nat)))" "ib_owner_salt b = replicate 32 (char_of (0xbb :: nat))"
      "ib_community_id b = replicate 64 CHR ''a''" by auto
  from example_invite_valid [OF hex_bytes_pairs [of "CHR ''a''"]] obtain b' where
    b': "validate_invite_bundle bundle_libs 256 5 0 (example_invite (replicate 64 CHR ''a'')) = Inr b'"
      "ib_community_root b' = replicate 32 (char_of (17 * hex_value (CHR ''a'')))"
      "ib_community_id b' = replicate 64 CHR ''a''" by auto
  have "\<forall>x y. sha256_bytes bundle_libs x = ib_community_id b \<longrightarrow> sha256_bytes bundle_libs y = ib_community_id b \<longrightarrow> x = y"
    by (simp add: bundle_libs_def b(5))
  from bundle_owner_bound [OF this b(1) b'(1)] b b' show ?thesis by (auto simp: hex_value_def code_def)
qed

theorem bundle_root_length_witness:
  "\<exists>b. validate_invite_bundle bundle_libs 256 5 0 (example_invite (replicate 64 CHR '' '')) = Inr b \<and>
    ib_community_root b = []"
proof -
  from example_invite_valid [OF hex_bytes_blank] obtain b where
    b: "validate_invite_bundle bundle_libs 256 5 0 (example_invite (replicate 64 CHR '' '')) = Inr b" "ib_community_root b = []" by auto
  from bundle_root_length [OF b(1) [unfolded example_invite_def]] b show ?thesis by blast
qed

end
