(* ===== verification/Concord_Reader.thy ===== *)
theory Concord_Reader
  imports Concord_Transport Concord_Envelope Concord_Bundle
begin

text \<open>
  Reading what other members published: \<^verbatim>\<open>src/yunohost_mcp/concord_control_crypto.py\<close> opens one Control Plane
  wrap, \<^verbatim>\<open>concord_control_reader.py\<close> fetches and opens all of them, and \<^verbatim>\<open>concord_join.py\<close> publishes a join and
  looks for it in the Guestbook.
\<close>

subsection \<open>Control Plane wraps\<close>

definition control_error :: "string \<Rightarrow> exn" where
  "control_error msg = Exn ControlPlaneError msg"

text \<open>Inside the \<open>try\<close>, every failure that is no \<open>ControlPlaneError\<close> becomes one.\<close>

definition control_step :: "'e + 'a \<Rightarrow> exn + 'a" where
  "control_step r = (case r of Inl _ \<Rightarrow> Inl (control_error ''invalid Control Plane wrap'') | Inr x \<Rightarrow> Inr x)"

definition decode_control_wrap ::
  "libs \<Rightarrow> (json \<Rightarrow> string + unsigned_event) \<Rightarrow> string \<Rightarrow> (string \<Rightarrow> exn + string) \<Rightarrow> json \<Rightarrow> exn + dict" where
  "decode_control_wrap L coerce expected_stream_pubkey decrypt wrap =
     ebind (control_step (model_validate L wrap)) (\<lambda>outer.
     ebind (guard (ev_kind outer = 1059 \<and> ev_pubkey outer = expected_stream_pubkey)
       (control_error ''unexpected Control Plane stream event'')) (\<lambda>_.
     ebind (control_step (verify_event L outer)) (\<lambda>_.
     ebind (control_step (decrypt (ev_content outer))) (\<lambda>plaintext.
     ebind (control_step (json_loads L plaintext)) (\<lambda>raw_seal.
     ebind (control_step (model_validate L raw_seal)) (\<lambda>seal.
     ebind (guard (ev_kind seal = 20014) (control_error ''Control Plane requires a plaintext seal'')) (\<lambda>_.
     ebind (control_step (verify_event L seal)) (\<lambda>_.
     ebind (control_step (json_loads L (ev_content seal))) (\<lambda>raw_rumor.
     ebind (control_step (coerce raw_rumor)) (\<lambda>rumor.
     ebind (guard (un_pubkey rumor = ev_pubkey seal \<and> un_kind rumor = 3308)
       (control_error ''Control Plane seal does not bind its rumor'')) (\<lambda>_.
     ebind (guard (un_id rumor = unsigned_event_id L rumor)
       (control_error ''Control Plane rumor id does not match its content'')) (\<lambda>_.
     Inr (unsigned_dump rumor)))))))))))))"

text \<open>The dictionaries among fetched events; the text of an SDK event must decode.\<close>

fun event_dict :: "libs \<Rightarrow> fetched_event \<Rightarrow> exn + dict option" where
  "event_dict L (Sdk_Event s) = (case json_loads L s of
      Inl msg \<Rightarrow> Inl (value_err msg) | Inr (JObj d) \<Rightarrow> Inr (Some d) | Inr _ \<Rightarrow> Inr None)"
| "event_dict L (Dict_Event d) = Inr (Some d)"
| "event_dict L (Other_Event i) = Inr None"

definition community_stream :: "key_libs \<Rightarrow> invite_bundle \<Rightarrow> string \<Rightarrow> exn + group_key" where
  "community_stream K b label =
     (case fromhex (ib_community_id b) of
        None \<Rightarrow> Inl (value_err ''non-hexadecimal number found in fromhex() arg'')
      | Some identifier \<Rightarrow> derive_group_key K (ib_community_root b) label identifier (Some (ib_root_epoch b)))"

fun decode_all :: "libs \<Rightarrow> (dict \<Rightarrow> exn + dict) \<Rightarrow> fetched_event list \<Rightarrow> exn + dict list" where
  "decode_all L decode [] = Inr []"
| "decode_all L decode (e # es) =
     ebind (event_dict L e) (\<lambda>d.
     case d of
       None \<Rightarrow> decode_all L decode es
     | Some event \<Rightarrow> ebind (decode event) (\<lambda>rumor. ebind (decode_all L decode es) (\<lambda>rumors. Inr (rumor # rumors))))"

definition load_control_rumors ::
  "libs \<Rightarrow> crypto_libs \<Rightarrow> key_libs \<Rightarrow> (json \<Rightarrow> string + unsigned_event) \<Rightarrow> (string \<Rightarrow> string list \<Rightarrow> exn + fetched_event list) \<Rightarrow>
     invite_bundle \<Rightarrow> exn + dict list" where
  "load_control_rumors L C K coerce fetcher b =
     ebind (community_stream K b ''concord/control'') (\<lambda>read_key.
     let expected_stream = (case ib_control_pk b of Some pk \<Rightarrow> if pk = [] then gk_pubkey read_key else pk
                            | None \<Rightarrow> gk_pubkey read_key)
     in ebind (fetcher expected_stream (ib_relays b)) (\<lambda>events.
        decode_all L (\<lambda>d. decode_control_wrap L coerce expected_stream (decrypt_self_conversation C read_key) (JObj d)) events))"

subsection \<open>Joins\<close>

record join_publish_result =
  jp_status :: string
  jp_community_id :: string
  jp_publication :: publish_result
  jp_verified :: bool

fun join_event_id :: "libs \<Rightarrow> fetched_event \<Rightarrow> string option" where
  "join_event_id L (Dict_Event d) = text_or_none (dget d ''id'')"
| "join_event_id L (Sdk_Event s) = (case json_loads L s of Inr (JObj d) \<Rightarrow> text_or_none (dget d ''id'') | _ \<Rightarrow> None)"
| "join_event_id L (Other_Event i) = i"

text \<open>The rumors of the events that decode; another error than \<open>GuestbookError\<close> would not be skipped.\<close>

fun guestbook_rumors :: "libs \<Rightarrow> stream_libs \<Rightarrow> fetched_event list \<Rightarrow> exn + json list" where
  "guestbook_rumors L S [] = Inr []"
| "guestbook_rumors L S (e # es) =
     (case event_dict L e of
        Inr (Some d) \<Rightarrow>
          (case decode_guestbook_wrap L S (JObj d) of
             Inr rumor \<Rightarrow> ebind (guestbook_rumors L S es) (\<lambda>rs. Inr (JObj rumor # rs))
           | Inl x \<Rightarrow> if exn_cls x = GuestbookError then guestbook_rumors L S es else Inl x)
      | _ \<Rightarrow> guestbook_rumors L S es)"

definition verify_join_publication ::
  "libs \<Rightarrow> crypto_libs \<Rightarrow> (json \<Rightarrow> string + unsigned_event) \<Rightarrow> int \<Rightarrow> (string \<Rightarrow> string list \<Rightarrow> exn + fetched_event list) \<Rightarrow>
     group_key \<Rightarrow> string \<Rightarrow> string list \<Rightarrow> string \<Rightarrow> publish_result \<Rightarrow> exn + join_publish_result" where
  "verify_join_publication L C coerce now_ms fetcher guestbook_key community_id relays author_pubkey publication =
     (case fetcher (gk_pubkey guestbook_key) relays of
        Inl _ \<Rightarrow> Inr \<lparr>jp_status = ''published_unverified'', jp_community_id = community_id, jp_publication = publication, jp_verified = False\<rparr>
      | Inr events \<Rightarrow>
          (let exact_event_seen = list_ex (\<lambda>e. join_event_id L e = Some (pub_event_id publication)) events
           in ebind (guestbook_rumors L (guestbook_stream C guestbook_key coerce) events) (\<lambda>rumors.
              ebind (fold_guestbook L now_ms 3600000 None None [] rumors) (\<lambda>states.
              let verified = exact_event_seen \<and> (case map_of states author_pubkey of
                    Some current \<Rightarrow> gs_status current = ''join'' | None \<Rightarrow> False)
              in Inr \<lparr>jp_status = (if verified then ''published'' else ''published_unverified''), jp_community_id = community_id,
                      jp_publication = publication, jp_verified = verified\<rparr>))))"

definition publish_join ::
  "libs \<Rightarrow> crypto_libs \<Rightarrow> key_libs \<Rightarrow> sign_libs \<Rightarrow> (json \<Rightarrow> string + unsigned_event) \<Rightarrow> real \<Rightarrow> int \<Rightarrow>
     (nostr_event \<Rightarrow> string list \<Rightarrow> exn + publish_result) \<Rightarrow> (string \<Rightarrow> string list \<Rightarrow> exn + fetched_event list) \<Rightarrow>
     invite_bundle \<Rightarrow> string \<Rightarrow> string \<Rightarrow> int \<Rightarrow> int \<Rightarrow> exn + join_publish_result" where
  "publish_join L C K G coerce now now_ms publisher fetcher b bot_key ephemeral_pubkey created_at ms =
     (case fromhex (ib_community_id b) of
        None \<Rightarrow> Inl (value_err ''non-hexadecimal number found in fromhex() arg'')
      | Some identifier \<Rightarrow>
          ebind (build_join_envelope L C K G now bot_key (ib_community_root b) identifier (ib_root_epoch b) ephemeral_pubkey
                   created_at ms None None) (\<lambda>(rumor, seal, wrap).
          ebind (publisher wrap (ib_relays b)) (\<lambda>publication.
          ebind (derive_group_key K (ib_community_root b) ''concord/guestbook'' identifier (Some (ib_root_epoch b))) (\<lambda>guestbook_key.
          verify_join_publication L C coerce now_ms fetcher guestbook_key (ib_community_id b) (ib_relays b)
            (key_pubkey G bot_key) publication))))"

subsection \<open>What is read was written by its author\<close>

lemma control_step_Inr [simp]: "control_step r = Inr x \<longleftrightarrow> r = Inr x"
  by (cases r) (simp_all add: control_step_def)

lemma control_step_Inl: "control_step r = Inl e \<Longrightarrow> exn_cls e = ControlPlaneError"
  by (cases r) (auto simp: control_step_def control_error_def)

lemma decode_control_Inr:
  assumes "decode_control_wrap L coerce stream decrypt wrap = Inr r"
  obtains outer seal rumor plaintext raw raw' where
    "model_validate L wrap = Inr outer" "ev_kind outer = 1059" "ev_pubkey outer = stream" "verify_event L outer = Inr ()"
    "decrypt (ev_content outer) = Inr plaintext" "json_loads L plaintext = Inr raw" "model_validate L raw = Inr seal"
    "ev_kind seal = 20014" "verify_event L seal = Inr ()" "json_loads L (ev_content seal) = Inr raw'" "coerce raw' = Inr rumor"
    "un_pubkey rumor = ev_pubkey seal" "un_kind rumor = 3308" "un_id rumor = unsigned_event_id L rumor" "r = unsigned_dump rumor"
proof -
  from assms show thesis by (auto simp: decode_control_wrap_def intro: that)
qed

lemma guard_error: "guard c (Exn k m) = Inl e \<Longrightarrow> exn_cls e = k"
  by (auto simp: guard_def split: if_splits)

lemma decode_control_Inl:
  assumes "decode_control_wrap L coerce stream decrypt wrap = Inl e"
  shows "exn_cls e = ControlPlaneError"
  using assms by (auto simp: decode_control_wrap_def ebind_Inl control_error_def dest!: control_step_Inl)

lemma decode_all_exact:
  "(\<exists>rumors. decode_all L decode es = Inr rumors) \<longleftrightarrow>
     (\<forall>e \<in> set es. \<exists>d. event_dict L e = Inr d \<and> (\<forall>w. d = Some w \<longrightarrow> (\<exists>r. decode w = Inr r)))"
proof (induction es)
  case (Cons e es)
  show ?case
  proof (cases "event_dict L e")
    case (Inr d)
    with Cons.IH show ?thesis by (cases d) auto
  qed auto
qed simp

lemma decode_all_sound: "decode_all L decode es = Inr rumors \<Longrightarrow> r \<in> set rumors \<Longrightarrow> \<exists>w. decode w = Inr r"
  by (induction es arbitrary: rumors) (auto split: option.splits, blast)

definition control_stream :: "invite_bundle \<Rightarrow> group_key \<Rightarrow> string" where
  "control_stream b read_key = (case ib_control_pk b of Some pk \<Rightarrow> if pk = [] then gk_pubkey read_key else pk
                            | None \<Rightarrow> gk_pubkey read_key)"

text \<open>
  Control state is read only from signed editions, and from all of them or none. Every rumor that a load
  returns was signed by its own author, under a seal of kind 20014 whose signature verifies, and
  carries the id of its content; and the load succeeds exactly when every fetched event can be read.
\<close>

theorem control_rumors_authentic:
  assumes "community_stream K b ''concord/control'' = Inr read_key"
    and "fetcher (control_stream b read_key) (ib_relays b) = Inr events"
    and "load_control_rumors L C K coerce fetcher b = result"
  shows "(\<forall>rumors. result = Inr rumors \<longrightarrow> (\<forall>r \<in> set rumors. \<exists>seal u. r = unsigned_dump u \<and> ev_kind seal = 20014 \<and>
      ev_pubkey seal = un_pubkey u \<and> verify_event L seal = Inr () \<and> un_kind u = 3308 \<and> un_id u = unsigned_event_id L u)) \<and>
    ((\<exists>rumors. result = Inr rumors) \<longleftrightarrow> (\<forall>e \<in> set events. \<exists>d. event_dict L e = Inr d \<and>
      (\<forall>w. d = Some w \<longrightarrow> (\<exists>r. decode_control_wrap L coerce (control_stream b read_key)
         (decrypt_self_conversation C read_key) (JObj w) = Inr r))))"
proof -
  let ?decode = "\<lambda>w. decode_control_wrap L coerce (control_stream b read_key) (decrypt_self_conversation C read_key) (JObj w)"
  have result: "result = decode_all L ?decode events"
    using assms by (simp add: load_control_rumors_def Let_def flip: control_stream_def)
  have "\<exists>seal u. r = unsigned_dump u \<and> ev_kind seal = 20014 \<and> ev_pubkey seal = un_pubkey u \<and> verify_event L seal = Inr () \<and>
      un_kind u = 3308 \<and> un_id u = unsigned_event_id L u" if "result = Inr rumors" "r \<in> set rumors" for r rumors
  proof -
    from that decode_all_sound [of L ?decode events rumors r] obtain w where "?decode w = Inr r" unfolding result by blast
    then obtain seal u where "ev_kind seal = 20014" "verify_event L seal = Inr ()" "un_pubkey u = ev_pubkey seal"
      "un_kind u = 3308" "un_id u = unsigned_event_id L u" "r = unsigned_dump u" by (rule decode_control_Inr)
    then show ?thesis by (intro exI [of _ seal] exI [of _ u]) simp
  qed
  with decode_all_exact [of L ?decode events] show ?thesis unfolding result by blast
qed

subsection \<open>A join that is reported as published\<close>

lemma guestbook_rumors_decoded:
  "guestbook_rumors L S es = Inr rumors \<Longrightarrow> \<forall>r \<in> set rumors. \<exists>wrap d. decode_guestbook_wrap L S wrap = Inr d \<and> r = JObj d"
  by (induction es arbitrary: rumors) (auto split: sum.splits option.splits if_splits, blast)

text \<open>
  A join is reported as published only if it is there. The status \<open>published\<close> means that the relays
  returned the event that was sent, and a Guestbook in which the newest state of the author is a join
  that the author signed.
\<close>

theorem published_join_sound:
  assumes "verify_join_publication L C coerce now_ms fetcher key cid relays author publication = Inr r" "jp_status r = ''published''"
  shows "jp_verified r \<and> jp_publication r = publication \<and> (\<exists>events e seal rumor. fetcher (gk_pubkey key) relays = Inr events \<and>
    e \<in> set events \<and> join_event_id L e = Some (pub_event_id publication) \<and>
    ev_pubkey seal = author \<and> verify_event L seal = Inr () \<and> un_pubkey rumor = author \<and> un_content rumor = ''join'' \<and>
    un_id rumor = unsigned_event_id L rumor)"
proof -
  let ?S = "guestbook_stream C key coerce"
  from assms obtain events where e: "fetcher (gk_pubkey key) relays = Inr events"
    by (auto simp: verify_join_publication_def split: sum.splits)
  with assms obtain rumors states where f: "guestbook_rumors L ?S events = Inr rumors"
    "fold_guestbook L now_ms 3600000 None None [] rumors = Inr states"
    by (auto simp: verify_join_publication_def Let_def)
  with assms e have v: "jp_verified r" "jp_publication r = publication"
      "list_ex (\<lambda>e. join_event_id L e = Some (pub_event_id publication)) events"
      "case map_of states author of Some current \<Rightarrow> gs_status current = ''join'' | None \<Rightarrow> False"
    by (auto simp: verify_join_publication_def Let_def split: if_splits)
  then obtain s where s: "map_of states author = Some s" "gs_status s = ''join''" by (auto split: option.splits)
  from folded_self_signed [OF guestbook_rumors_decoded [OF f(1)] f(2) s(1)] obtain seal rumor where
    "ev_pubkey seal = author" "verify_event L seal = Inr ()" "un_pubkey rumor = author" "un_id rumor = unsigned_event_id L rumor"
    "s = \<lparr>gs_member = author, gs_status = un_content rumor, gs_timestamp_ms = gs_timestamp_ms s, gs_rumor_id = un_id rumor\<rparr>"
    by blast
  moreover from this(5) s(2) have "un_content rumor = ''join''" by (metis guestbook_state.select_convs(2))
  moreover from v(3) obtain e where "e \<in> set events" "join_event_id L e = Some (pub_event_id publication)" by (auto simp: list_ex_iff)
  ultimately show ?thesis using v(1,2) e by blast
qed

subsection \<open>An example\<close>

lemma joining_decodes:
  "decode_guestbook_wrap joining_libs (guestbook_stream joining_crypto joining_key (\<lambda>_. Inr joining_rumor)) (JObj d) =
     Inr (unsigned_dump joining_rumor)"
proof -
  have v: "verify_layer joining_libs joining_wrap = Inr ()" "verify_layer joining_libs joining_seal = Inr ()"
    by (simp_all add: verify_layer_def verify_event_def joining_id joining_verifies Let_def)
      (simp_all add: joining_wrap_def joining_seal_def)
  have m: "model_validate joining_libs (JObj d) = Inr joining_wrap" "model_validate joining_libs (JStr s) = Inr joining_seal" for s
    by (simp_all add: model_validate_Inr, simp_all add: joining_libs_def joining_wrap_def joining_seal_def joining_hex)
  have layers: "open_layer joining_libs (guestbook_stream joining_crypto joining_key (\<lambda>_. Inr joining_rumor)) f s =
      (case f (JStr s) of Inl _ \<Rightarrow> Inl (guestbook_error ''invalid Guestbook wrap'') | Inr x \<Rightarrow> Inr x)" for f :: "json \<Rightarrow> string + 'x" and s
    by (simp add: open_layer_def guestbook_stream_def decrypt_self_conversation_def joining_crypto_def joining_libs_def)
  have "un_id joining_rumor = unsigned_event_id joining_libs joining_rumor"
    by (simp add: unsigned_event_id_def joining_id) (simp add: joining_rumor_def)
  then show ?thesis
    by (simp add: decode_guestbook_wrap_def m v layers)
      (simp add: guestbook_stream_def joining_wrap_def joining_seal_def joining_rumor_def joining_key_def)
qed

lemma joining_folds:
  "fold_guestbook joining_libs 100000 3600000 None None [] [JObj (unsigned_dump joining_rumor)] =
     Inr [(example_pk, \<lparr>gs_member = example_pk, gs_status = ''join'', gs_timestamp_ms = 100 * 1000 + 7, gs_rumor_id = un_id joining_rumor\<rparr>)]"
proof (rule fold_join [where i = example_id])
  have "show_int 7 = ''7''" by code_simp
  then show "joining_rumor = with_id joining_libs \<lparr>un_id = example_id, un_pubkey = example_pk, un_created_at = 100, un_kind = 3306,
      un_tags = [''ms'', show_int 7] # [], un_content = ''join''\<rparr>"
    by (simp add: with_id_def unsigned_event_id_def joining_id) (simp add: joining_rumor_def)
qed (simp_all add: example_pk_def joining_rumor_def example_id_def)

theorem published_join_sound_witness:
  "\<exists>r (seal :: nostr_event). verify_join_publication joining_libs joining_crypto (\<lambda>_. Inr joining_rumor) 100000
     (\<lambda>_ _. Inr [Dict_Event (event_dump joining_wrap)]) joining_key ''community'' [''wss://relay''] example_pk
     \<lparr>pub_event_id = example_id, pub_relays = [''wss://relay'']\<rparr> = Inr r \<and> jp_verified r \<and> ev_pubkey seal = example_pk"
proof -
  let ?f = "\<lambda>_ _. Inr [Dict_Event (event_dump joining_wrap)]" and ?p = "\<lparr>pub_event_id = example_id, pub_relays = [''wss://relay'']\<rparr>"
  let ?r = "\<lparr>jp_status = ''published'', jp_community_id = ''community'', jp_publication = ?p, jp_verified = True\<rparr>"
  have "dget (event_dump joining_wrap) ''id'' = JStr example_id" by (simp add: event_dump_def joining_wrap_def)
  then have r: "verify_join_publication joining_libs joining_crypto (\<lambda>_. Inr joining_rumor) 100000 ?f joining_key ''community''
      [''wss://relay''] example_pk ?p = Inr ?r"
    by (simp add: verify_join_publication_def joining_decodes joining_folds)
  have "jp_status ?r = ''published''" by simp
  from published_join_sound [OF r this] obtain seal :: nostr_event where "ev_pubkey seal = example_pk" by blast
  with r show ?thesis by (intro exI [of _ ?r] exI [of _ seal]) simp
qed

definition control_rumor :: unsigned_event where
  "control_rumor = joining_rumor\<lparr>un_kind := 3308\<rparr>"

definition reading_libs :: libs where
  "reading_libs = joining_libs\<lparr>pydantic_event := (\<lambda>v. case v of
     JStr _ \<Rightarrow> Inr (joining_seal\<lparr>ev_kind := 20014\<rparr>) | JObj [] \<Rightarrow> Inl ''no event'' | _ \<Rightarrow> Inr joining_wrap)\<rparr>"

definition reading_bundle :: invite_bundle where
  "reading_bundle = \<lparr>ib_community_id = replicate 64 CHR ''a'', ib_owner = [], ib_control_pk = None, ib_root_epoch = 0,
     ib_relays = [''wss://relay''], ib_channels = [], ib_expires_at = None, ib_community_root = replicate 32 CHR ''r'', ib_owner_salt = []\<rparr>"

theorem control_rumors_authentic_witness:
  "\<not> (\<exists>rumors. load_control_rumors reading_libs joining_crypto joining_keys (\<lambda>_. Inr control_rumor)
     (\<lambda>_ _. Inr [Dict_Event (event_dump joining_wrap), Dict_Event []]) reading_bundle = Inr rumors)"
proof -
  have f: "fromhex (replicate 64 CHR ''a'') = Some (replicate 32 (char_of (17 * hex_value CHR ''a'')))"
    using fromhex_pairs [of "CHR ''a''" 32] by (simp add: is_hex_digit_def code_def)
  have s: "community_stream joining_keys reading_bundle ''concord/control'' = Inr joining_key"
    by (simp add: community_stream_def reading_bundle_def f joining_derive)
  have "\<not> (\<exists>r. decode_control_wrap reading_libs (\<lambda>_. Inr control_rumor) stream decrypt (JObj []) = Inr r)" for stream decrypt
    by (simp add: decode_control_wrap_def model_validate_def control_step_def) (simp add: reading_libs_def)
  with control_rumors_authentic [OF s, of "\<lambda>_ _. Inr [Dict_Event (event_dump joining_wrap), Dict_Event []]" _ reading_libs joining_crypto
      "\<lambda>_. Inr control_rumor"] show ?thesis by simp
qed

end
