(* ===== verification/Concord_Invites.thy ===== *)
theory Concord_Invites
  imports Concord_Transport Concord_Bundle Concord_Keys
begin

text \<open>
  \<^verbatim>\<open>src/yunohost_mcp/concord_invites.py\<close> and \<^verbatim>\<open>concord_invite_event.py\<close>: from a shareable invite link to a
  validated bundle.  The link's fragment and the padding of the encrypted bundle are parsed byte by
  byte; HKDF, HMAC, ChaCha20 and the bech32 decoder are parameters, as are the decoders of base64 and UTF-8.
\<close>

record invite_libs =
  urlsafe_b64 :: "string \<Rightarrow> string + string"
  b64_strict :: "string \<Rightarrow> string + string"
  utf8_decode :: "string \<Rightarrow> string option"
  invite_hkdf :: "string \<Rightarrow> string \<Rightarrow> string"
  hkdf_expand :: "string \<Rightarrow> string \<Rightarrow> string"
  hmac_sha256 :: "string \<Rightarrow> string \<Rightarrow> string"
  chacha20 :: "string \<Rightarrow> string \<Rightarrow> string \<Rightarrow> string"
  naddr_decode :: "string \<Rightarrow> string + string \<times> int \<times> string"

definition invite_error :: "string \<Rightarrow> exn" where
  "invite_error msg = Exn ConcordInviteError msg"

subsection \<open>The link\<close>

record invite_reference =
  ir_naddr :: string
  ir_fragment :: string

definition is_b64url :: "char \<Rightarrow> bool" where
  "is_b64url c = (is_letter c \<or> is_decimal c \<or> c = CHR ''_'' \<or> c = CHR ''-'')"

definition rstrip_char :: "char \<Rightarrow> string \<Rightarrow> string" where
  "rstrip_char c s = rev (dropWhile (\<lambda>x. x = c) (rev s))"

definition parse_invite_url :: "nat \<Rightarrow> string \<Rightarrow> exn + invite_reference" where
  "parse_invite_url max_fragment_chars value =
     ebind (guard (value \<noteq> []) (invite_error ''invite URL must be a non-empty string'')) (\<lambda>_.
     ebind (guard (0 < max_fragment_chars) (value_err ''max_fragment_chars must be positive'')) (\<lambda>_.
     ebind (urlsplit_parts value) (\<lambda>parsed.
     let parts = str_split (rstrip_char CHR ''/'' (url_path parsed)) CHR ''/''; n = length parts
     in ebind (guard (url_scheme parsed \<in> {''http'', ''https''} \<and> url_netloc parsed \<noteq> [])
          (invite_error ''invite URL must be an absolute HTTP(S) URL'')) (\<lambda>_.
        ebind (guard (2 \<le> n \<and> parts ! (n - 2) = ''invite'' \<and> starts_with (parts ! (n - 1)) ''naddr1'')
          (invite_error ''invite URL must contain an naddr after /invite/'')) (\<lambda>_.
        ebind (guard (url_query parsed = []) (invite_error ''invite URL must not contain a query string'')) (\<lambda>_.
        ebind (guard (url_fragment parsed \<noteq> [] \<and> length (url_fragment parsed) \<le> max_fragment_chars)
          (invite_error ''invite URL must contain a bounded fragment'')) (\<lambda>_.
        ebind (guard (list_all is_b64url (url_fragment parsed)) (invite_error ''invite fragment must be unpadded base64url'')) (\<lambda>_.
        Inr \<lparr>ir_naddr = parts ! (n - 1), ir_fragment = url_fragment parsed\<rparr>))))))))"

subsection \<open>The fragment\<close>

record invite_fragment =
  if_version :: nat
  if_relays :: "string list"
  if_token :: string

definition RELAY_DICTIONARY :: "(nat \<times> string) list" where
  "RELAY_DICTIONARY =
     [(1, ''wss://jskitty.com/nostr''), (2, ''wss://asia.vectorapp.io/nostr''),
      (3, ''wss://nostr.computingcache.com''), (4, ''wss://relay.damus.io'')]"

definition is_ws :: "string \<Rightarrow> bool" where
  "is_ws relay = (starts_with relay ''wss://'' \<or> starts_with relay ''ws://'')"

text \<open>The relay entries: the first argument counts the entries still to read, the second is what is left.\<close>

fun relay_entries :: "(string \<Rightarrow> string option) \<Rightarrow> nat \<Rightarrow> string \<Rightarrow> exn + string list \<times> string" where
  "relay_entries utf8 0 raw = Inr ([], raw)"
| "relay_entries utf8 (Suc n) raw =
     (case raw of
        [] \<Rightarrow> Inl (invite_error ''invite fragment relay data is truncated'')
      | c # rest \<Rightarrow>
          (case map_of RELAY_DICTIONARY (code c) of
             Some relay \<Rightarrow> ebind (relay_entries utf8 n rest) (\<lambda>(relays, left). Inr (relay # relays, left))
           | None \<Rightarrow>
               (case rest of
                  [] \<Rightarrow> Inl (invite_error ''invite fragment contains an unknown relay entry'')
                | k # rest' \<Rightarrow>
                    if code c \<noteq> 0 \<and> code c \<noteq> 255 then Inl (invite_error ''invite fragment contains an unknown relay entry'')
                    else if length rest' < code k then Inl (invite_error ''invite fragment relay data is truncated'')
                    else (case utf8 (take (code k) rest') of
                        None \<Rightarrow> Inl (invite_error ''invite fragment relay is not UTF-8'')
                      | Some value \<Rightarrow>
                          (let relay = (if code c = 0 then ''wss://'' @ value else value)
                           in if \<not> is_ws relay then Inl (invite_error ''invite fragment relay must use ws(s)'')
                              else ebind (relay_entries utf8 n (drop (code k) rest')) (\<lambda>(relays, left).
                                Inr (relay # relays, left)))))))"

definition decode_fragment_bytes :: "(string \<Rightarrow> string option) \<Rightarrow> nat \<Rightarrow> string \<Rightarrow> exn + invite_fragment" where
  "decode_fragment_bytes utf8 max_relays raw =
     ebind (guard (18 \<le> length raw \<and> code (raw ! 0) = 4) (invite_error ''unsupported Concord invite fragment version'')) (\<lambda>_.
     let stock_relays = odd (code (raw ! 1)); body = drop 2 raw
     in ebind (if stock_relays then Inr (map snd RELAY_DICTIONARY, body)
           else if max_relays < code (hd body) then Inl (invite_error ''invite fragment contains too many bootstrap relays'')
           else relay_entries utf8 (code (hd body)) (tl body)) (\<lambda>(relays, left).
        ebind (guard (\<not> (\<not> stock_relays \<and> max_relays < length relays) \<and> length left = 16)
          (invite_error ''invite fragment has invalid token or relay length'')) (\<lambda>_.
        Inr \<lparr>if_version = code (raw ! 0), if_relays = relays, if_token = left\<rparr>)))"

definition decode_invite_fragment :: "invite_libs \<Rightarrow> nat \<Rightarrow> string \<Rightarrow> exn + invite_fragment" where
  "decode_invite_fragment I max_relays fragment =
     ebind (guard (fragment \<noteq> [] \<and> list_all is_b64url fragment) (invite_error ''invite fragment must be unpadded base64url'')) (\<lambda>_.
     ebind (guard (0 < max_relays) (value_err ''max_relays must be positive'')) (\<lambda>_.
     case urlsafe_b64 I (fragment @ replicate ((4 - length fragment mod 4) mod 4) CHR ''='') of
       Inl _ \<Rightarrow> Inl (invite_error ''invite fragment is not valid base64url'')
     | Inr raw \<Rightarrow> decode_fragment_bytes (utf8_decode I) max_relays raw))"

subsection \<open>The bundle\<close>

definition derive_invite_bundle_key :: "invite_libs \<Rightarrow> string \<Rightarrow> exn + string" where
  "derive_invite_bundle_key I token =
     ebind (guard (length token = 16) (invite_error ''invite token must be exactly 16 bytes'')) (\<lambda>_.
     Inr (invite_hkdf I (''concord/invite-key'' @ [char_of (0 :: nat)] @ replicate 32 (char_of (0 :: nat))) token))"

fun bit_length :: "nat \<Rightarrow> nat" where
  "bit_length n = (if n = 0 then 0 else Suc (bit_length (n div 2)))"

declare bit_length.simps [simp del]

definition padded_len :: "nat \<Rightarrow> nat" where
  "padded_len len =
     (if len \<le> 32 then 32
      else (let next_power = 2 ^ bit_length (len - 1);
                chunk = (if next_power \<le> 256 then 32 else next_power div 8)
            in chunk * ((len - 1) div chunk + 1)))"

text \<open>The padding of NIP-44: a two-byte length, the text, and as much filling as the length calls for.\<close>

definition nip44_unpad :: "string \<Rightarrow> exn + string" where
  "nip44_unpad padded =
     ebind (guard (2 \<le> length padded) (value_err ''invalid NIP-44 padding'')) (\<lambda>_.
     let len = from_bytes (take 2 padded)
     in ebind (guard (len \<noteq> 0 \<and> len \<le> length padded - 2) (value_err ''invalid NIP-44 padding'')) (\<lambda>_.
        ebind (guard (length padded = 2 + padded_len len) (value_err ''invalid NIP-44 padding'')) (\<lambda>_.
        Inr (take len (drop 2 padded)))))"

definition decrypt_raw_nip44 :: "invite_libs \<Rightarrow> string \<Rightarrow> string \<Rightarrow> exn + string" where
  "decrypt_raw_nip44 I ciphertext conversation_key =
     (case b64_strict I ciphertext of
        Inl msg \<Rightarrow> Inl (value_err msg)
      | Inr raw \<Rightarrow>
          ebind (guard (67 \<le> length raw \<and> code (raw ! 0) = 2) (value_err ''invalid NIP-44 payload'')) (\<lambda>_.
          let nonce = take 32 (drop 1 raw); body = take (length raw - 65) (drop 33 raw); mac = drop (length raw - 32) raw;
              expanded = hkdf_expand I nonce conversation_key;
              chacha_key = take 32 expanded; chacha_nonce = take 12 (drop 32 expanded); hmac_key = drop 44 expanded
          in ebind (guard (mac = hmac_sha256 I hmac_key (nonce @ body)) (value_err ''NIP-44 payload authentication failed'')) (\<lambda>_.
             ebind (nip44_unpad (chacha20 I chacha_key (replicate 4 (char_of (0 :: nat)) @ chacha_nonce) body)) (\<lambda>bytes.
             case utf8_decode I bytes of None \<Rightarrow> Inl (value_err ''invalid start byte'') | Some s \<Rightarrow> Inr s))))"

definition decrypt_invite_bundle :: "libs \<Rightarrow> invite_libs \<Rightarrow> int \<Rightarrow> string \<Rightarrow> string \<Rightarrow> exn + invite_bundle" where
  "decrypt_invite_bundle L I now_ms ciphertext token =
     ebind (guard (ciphertext \<noteq> []) (invite_error ''invite bundle ciphertext must be non-empty'')) (\<lambda>_.
     reraise (\<lambda>e. exn_cls e \<noteq> ConcordInviteError) (\<lambda>_. invite_error ''invite bundle decryption or validation failed'')
       (ebind (derive_invite_bundle_key I token) (\<lambda>bundle_key.
        ebind (decrypt_raw_nip44 I ciphertext bundle_key) (\<lambda>plaintext.
        case json_loads L plaintext of
          Inl msg \<Rightarrow> Inl (value_err msg)
        | Inr raw \<Rightarrow> validate_invite_bundle L 256 5 now_ms raw))))"

subsection \<open>The event\<close>

record invite_coordinate =
  ic_author :: string
  ic_kind :: int
  ic_identifier :: string

definition invite_event_error :: "string \<Rightarrow> exn" where
  "invite_event_error msg = Exn ConcordInviteEventError msg"

definition decode_invite_naddr :: "invite_libs \<Rightarrow> string \<Rightarrow> exn + invite_coordinate" where
  "decode_invite_naddr I value =
     (case naddr_decode I value of
        Inl _ \<Rightarrow> Inl (invite_event_error ''invalid Concord invite naddr'')
      | Inr (author, kind, identifier) \<Rightarrow>
          ebind (guard (identifier = [] \<and> kind = 33301) (invite_event_error ''Concord invite naddr has the wrong coordinate shape'')) (\<lambda>_.
          Inr \<lparr>ic_author = author, ic_kind = kind, ic_identifier = identifier\<rparr>))"

definition extract_invite_ciphertext :: "libs \<Rightarrow> string \<Rightarrow> json \<Rightarrow> exn + string" where
  "extract_invite_ciphertext L expected_author event =
     reraise (\<lambda>e. exn_cls e \<noteq> ConcordInviteEventError) (\<lambda>_. invite_event_error ''invalid Concord invite event'')
       (case model_validate L event of
          Inl msg \<Rightarrow> Inl (value_err msg)
        | Inr parsed \<Rightarrow>
            ebind (guard (ev_kind parsed = 33301 \<and> ev_pubkey parsed = expected_author)
              (invite_event_error ''unexpected Concord invite event'')) (\<lambda>_.
            ebind (verify_event L parsed) (\<lambda>_.
            ebind (guard (event_tag parsed ''d'' = Some []) (invite_event_error ''invite event must use an empty d coordinate'')) (\<lambda>_.
            ebind (guard (event_tag parsed ''vsk'' \<noteq> Some ''9'') (invite_event_error ''Concord invite has been revoked'')) (\<lambda>_.
            ebind (guard (event_tag parsed ''vsk'' = Some ''6'') (invite_event_error ''invite event is not a live CORD-05 bundle'')) (\<lambda>_.
            ebind (guard (ev_content parsed \<noteq> []) (invite_event_error ''invite event has empty bundle content'')) (\<lambda>_.
            Inr (ev_content parsed))))))))"

definition load_invite_bundle ::
  "libs \<Rightarrow> invite_libs \<Rightarrow> (string \<Rightarrow> string list \<Rightarrow> exn + fetched_event list) \<Rightarrow> int \<Rightarrow> string \<Rightarrow> exn + invite_bundle" where
  "load_invite_bundle L I fetcher now_ms invite_url =
     ebind (parse_invite_url 4096 invite_url) (\<lambda>reference.
     ebind (decode_invite_fragment I 3 (ir_fragment reference)) (\<lambda>fragment.
     ebind (decode_invite_naddr I (ir_naddr reference)) (\<lambda>coordinate.
     ebind (guard (if_relays fragment \<noteq> []) (invite_error ''invite fragment has no bootstrap relays'')) (\<lambda>_.
     ebind (fetcher (ic_author coordinate) (if_relays fragment)) (\<lambda>events.
     case events of
       [] \<Rightarrow> Inl (invite_error ''no invite bundle event was found'')
     | e # _ \<Rightarrow>
         ebind (case e of
             Sdk_Event txt \<Rightarrow> (case json_loads L txt of
                 Inl _ \<Rightarrow> Inl (invite_error ''fetched invite event is not valid JSON'')
               | Inr v \<Rightarrow> Inr v)
           | Dict_Event d \<Rightarrow> Inr (JObj d)
           | Other_Event _ \<Rightarrow> Inr JNull) (\<lambda>event.
         ebind (guard (is_dict event) (invite_error ''fetched invite event has an unsupported shape'')) (\<lambda>_.
         ebind (extract_invite_ciphertext L (ic_author coordinate) event) (\<lambda>ciphertext.
         decrypt_invite_bundle L I now_ms ciphertext (if_token fragment)))))))))"

subsection \<open>Padding\<close>

lemma padded_len_ge: "len \<le> padded_len len"
proof (cases "len \<le> 32")
  case False
  define p where "p = bit_length (len - 1)"
  define chunk :: nat where "chunk = (if 2 ^ p \<le> (256 :: nat) then 32 else 2 ^ p div 8)"
  have "0 < chunk" by (simp add: chunk_def div_greater_zero_iff)
  then have "len - 1 < chunk * ((len - 1) div chunk + 1)" using dividend_less_times_div [of chunk "len - 1"] by simp
  then have "len \<le> chunk * ((len - 1) div chunk + 1)" by linarith
  moreover have "padded_len len = chunk * ((len - 1) div chunk + 1)"
    using False by (simp only: padded_len_def Let_def chunk_def p_def if_False)
  ultimately show ?thesis by simp
qed (simp add: padded_len_def)

lemma two_bytes: "from_bytes [a, b] = 256 * code a + code b"
  by (simp add: from_bytes_def)

lemma code_char: "char_of (code c) = c"
  by (simp add: code_def)

lemma from_to_bytes_2: "n < 65536 \<Longrightarrow> from_bytes (to_bytes 2 n) = n"
proof -
  assume "n < 65536"
  then have "n div 256 < 256" by (simp add: less_mult_imp_div_less)
  moreover have "code (char_of m) = m mod 256" for m by (simp add: code_def take_bit_eq_mod)
  ultimately show ?thesis by (simp add: numeral_2_eq_2 two_bytes)
qed

lemma to_from_bytes_2: "to_bytes 2 (from_bytes [a, b]) = [a, b]"
proof -
  have "(256 * code a + code b) div 256 = code a" "(256 * code a + code b) mod 256 = code b"
    using code_less [of b] by simp_all
  then show ?thesis using code_less [of a] by (simp add: numeral_2_eq_2 two_bytes code_char)
qed

text \<open>
  Unpadding accepts exactly the padded texts. It returns a text if and only if what it is given is
  the two-byte length of that text, the text itself, of 1 to 65535 bytes, and as many more bytes as
  the length calls for; so one plaintext of each length is cut at one place only.
\<close>

theorem nip44_unpad_exact:
  "nip44_unpad padded = Inr msg \<longleftrightarrow>
     (\<exists>filling. padded = to_bytes 2 (length msg) @ msg @ filling \<and> 0 < length msg \<and> length msg < 65536 \<and>
        length msg + length filling = padded_len (length msg))" (is "?l = ?r")
proof
  assume l: ?l
  then have two: "2 \<le> length padded" by (auto simp: nip44_unpad_def)
  then obtain a b rest where p: "padded = a # b # rest" by (metis Suc_le_length_iff numeral_2_eq_2)
  define len where "len = from_bytes [a, b]"
  have len: "0 < len" "len \<le> length rest" "length rest = padded_len len" "msg = take len rest" "len < 65536"
    using l code_less [of a] code_less [of b] by (auto simp: nip44_unpad_def p len_def Let_def two_bytes)
  show ?r
  proof (intro exI [of _ "drop len rest"] conjI)
    show "padded = to_bytes 2 (length msg) @ msg @ drop len rest"
      using len to_from_bytes_2 [of a b] by (simp add: p len_def)
  qed (use len in simp_all)
next
  assume ?r
  then obtain filling where f: "padded = to_bytes 2 (length msg) @ msg @ filling" "0 < length msg" "length msg < 65536"
    "length msg + length filling = padded_len (length msg)" by blast
  then have "from_bytes (take 2 padded) = length msg" by (simp add: from_to_bytes_2)
  with f show ?l by (simp add: nip44_unpad_def Let_def)
qed

subsection \<open>Relay entries\<close>

text \<open>The entries of a fragment, their bytes, and the addresses they stand for.\<close>

datatype bootstrap = Stock nat | Wss string | Full string

fun entry_bytes :: "bootstrap \<Rightarrow> string" where
  "entry_bytes (Stock n) = [char_of n]"
| "entry_bytes (Wss b) = [char_of (0 :: nat), char_of (length b)] @ b"
| "entry_bytes (Full b) = [char_of (255 :: nat), char_of (length b)] @ b"

fun entry_relay :: "(string \<Rightarrow> string option) \<Rightarrow> bootstrap \<Rightarrow> string option" where
  "entry_relay utf8 (Stock n) = map_of RELAY_DICTIONARY n"
| "entry_relay utf8 (Wss b) = map_option ((@) ''wss://'') (utf8 b)"
| "entry_relay utf8 (Full b) = (case utf8 b of Some v \<Rightarrow> if is_ws v then Some v else None | None \<Rightarrow> None)"

fun entry_fits :: "bootstrap \<Rightarrow> bool" where
  "entry_fits (Stock n) = True"
| "entry_fits (Wss b) = (length b < 256)"
| "entry_fits (Full b) = (length b < 256)"

lemma dictionary_codes: "map_of RELAY_DICTIONARY n = Some r \<Longrightarrow> 1 \<le> n \<and> n \<le> 4"
  by (auto simp: RELAY_DICTIONARY_def split: if_splits)

lemma is_ws_wss: "is_ws (''wss://'' @ v)"
  by (simp add: is_ws_def starts_with_def)

text \<open>Reading one entry is inverse to writing it.\<close>

lemma entry_read:
  "entry_relay utf8 e = Some r \<Longrightarrow> entry_fits e \<Longrightarrow>
     relay_entries utf8 (Suc n) (entry_bytes e @ rest) =
       ebind (relay_entries utf8 n rest) (\<lambda>(relays, left). Inr (r # relays, left))"
proof (cases e)
  case (Stock k)
  assume "entry_relay utf8 e = Some r"
  with Stock have "map_of RELAY_DICTIONARY k = Some r" by simp
  with dictionary_codes [OF this] Stock show ?thesis by (simp add: code_char_of)
next
  case (Wss b)
  assume "entry_relay utf8 e = Some r" "entry_fits e"
  with Wss obtain v where "utf8 b = Some v" "r = ''wss://'' @ v" "length b < 256" by auto
  moreover have "map_of RELAY_DICTIONARY 0 = None" by (simp add: RELAY_DICTIONARY_def)
  ultimately show ?thesis using Wss is_ws_wss [of v] by (simp add: code_char_of del: append.simps) (simp add: code_char_of)
next
  case (Full b)
  assume "entry_relay utf8 e = Some r" "entry_fits e"
  with Full have "utf8 b = Some r" "is_ws r" "length b < 256" by (auto split: option.splits if_splits)
  moreover have "map_of RELAY_DICTIONARY 255 = None" by (simp add: RELAY_DICTIONARY_def)
  ultimately show ?thesis using Full by (simp add: code_char_of)
qed

lemma entry_write:
  assumes "relay_entries utf8 (Suc n) raw = Inr (relays, left)"
  obtains e r relays' rest where "raw = entry_bytes e @ rest" "relays = r # relays'" "entry_relay utf8 e = Some r" "entry_fits e"
    "relay_entries utf8 n rest = Inr (relays', left)"
proof -
  from assms obtain c rest where raw: "raw = c # rest" by (cases raw) auto
  show thesis
  proof (cases "map_of RELAY_DICTIONARY (code c)")
    case (Some r)
    with assms raw that [of "Stock (code c)" rest r] show ?thesis by (auto simp: code_char)
  next
    case None
    with assms raw obtain k rest' where r: "rest = k # rest'" by (cases rest) auto
    with assms raw None have c: "code c = 0 \<or> code c = 255" and k: "code k \<le> length rest'"
      by (auto split: if_splits)
    with assms raw None r obtain v where v: "utf8 (take (code k) rest') = Some v"
      by (cases "utf8 (take (code k) rest')") (auto split: if_splits)
    let ?relay = "if code c = 0 then ''wss://'' @ v else v"
    from assms raw None r c k v obtain relays' where
      w: "is_ws ?relay" "relays = ?relay # relays'" "relay_entries utf8 n (drop (code k) rest') = Inr (relays', left)"
      by (auto simp: Let_def split: if_splits)
    have b: "rest' = take (code k) rest' @ drop (code k) rest'" "length (take (code k) rest') = code k" using k by simp_all
    from c show ?thesis
    proof
      assume "code c = 0"
      then have "c = char_of (0 :: nat)" by (metis code_char)
      with raw r b w v code_less [of k] \<open>code c = 0\<close> show ?thesis
        by (intro that [of "Wss (take (code k) rest')" "drop (code k) rest'" "''wss://'' @ v" relays']) (simp_all add: code_char)
    next
      assume "code c = 255"
      then have "c = char_of (255 :: nat)" by (metis code_char)
      with raw r b w v code_less [of k] \<open>code c = 255\<close> show ?thesis
        by (intro that [of "Full (take (code k) rest')" "drop (code k) rest'" v relays']) (simp_all add: code_char)
    qed
  qed
qed

lemma relay_entries_exact:
  "relay_entries utf8 n raw = Inr (relays, left) \<longleftrightarrow>
     (\<exists>es. length es = n \<and> raw = concat (map entry_bytes es) @ left \<and> map (entry_relay utf8) es = map Some relays \<and>
        list_all entry_fits es)"
proof (induction n arbitrary: raw relays)
  case (Suc n)
  show ?case
  proof
    assume "relay_entries utf8 (Suc n) raw = Inr (relays, left)"
    then obtain e r relays' rest where e: "raw = entry_bytes e @ rest" "relays = r # relays'" "entry_relay utf8 e = Some r"
      "entry_fits e" "relay_entries utf8 n rest = Inr (relays', left)" by (rule entry_write)
    from e(5) Suc.IH obtain es where "length es = n" "rest = concat (map entry_bytes es) @ left"
      "map (entry_relay utf8) es = map Some relays'" "list_all entry_fits es" by blast
    with e show "\<exists>es. length es = Suc n \<and> raw = concat (map entry_bytes es) @ left \<and>
      map (entry_relay utf8) es = map Some relays \<and> list_all entry_fits es"
      by (intro exI [of _ "e # es"]) simp
  next
    assume "\<exists>es. length es = Suc n \<and> raw = concat (map entry_bytes es) @ left \<and>
      map (entry_relay utf8) es = map Some relays \<and> list_all entry_fits es"
    then obtain e es where es: "length es = n" "raw = entry_bytes e @ concat (map entry_bytes es) @ left"
      "entry_relay utf8 e # map (entry_relay utf8) es = map Some relays" "entry_fits e" "list_all entry_fits es"
      by (auto simp: length_Suc_conv)
    then obtain r relays' where r: "relays = r # relays'" "entry_relay utf8 e = Some r" "map (entry_relay utf8) es = map Some relays'"
      by (cases relays) auto
    with es Suc.IH have "relay_entries utf8 n (concat (map entry_bytes es) @ left) = Inr (relays', left)" by blast
    with es(2,4) r(1) entry_read [OF r(2) es(4)] show "relay_entries utf8 (Suc n) raw = Inr (relays, left)" by simp
  qed
qed auto

text \<open>
  A fragment is exactly its fields. Decoding succeeds if and only if the bytes are version 4, a byte of
  flags, and a 16-byte token; in between comes nothing where the flags call for the stock relays,
  and otherwise a count within the bound and that many entries, each of which names a WebSocket
  address. No byte is ignored, and the token starts where the last entry ends.
\<close>

theorem fragment_exact:
  "decode_fragment_bytes utf8 max_relays raw = Inr f \<longleftrightarrow>
     (\<exists>flags token. length token = 16 \<and> if_version f = 4 \<and> if_token f = token \<and>
        (if odd (code flags) then raw = [char_of (4 :: nat), flags] @ token \<and> if_relays f = map snd RELAY_DICTIONARY
         else \<exists>es. length es \<le> max_relays \<and> length es < 256 \<and> list_all entry_fits es \<and>
           map (entry_relay utf8) es = map Some (if_relays f) \<and>
           raw = [char_of (4 :: nat), flags, char_of (length es)] @ concat (map entry_bytes es) @ token))" (is "?l = ?r")
proof
  assume l: ?l
  then have "18 \<le> length raw" "code (raw ! 0) = 4" by (auto simp: decode_fragment_bytes_def)
  then obtain v flags count body where raw: "raw = v # flags # count # body"
    by (cases raw; cases "tl raw"; cases "tl (tl raw)") auto
  then have v: "v = char_of (4 :: nat)" using \<open>code (raw ! 0) = 4\<close> by (metis code_char nth_Cons_0)
  show ?r
  proof (cases "odd (code flags)")
    case True
    with l raw have "f = \<lparr>if_version = 4, if_relays = map snd RELAY_DICTIONARY, if_token = count # body\<rparr>" "length (count # body) = 16"
      by (auto simp: decode_fragment_bytes_def Let_def)
    with True raw v show ?thesis by (intro exI [of _ flags] exI [of _ "count # body"]) simp
  next
    case False
    with l raw obtain relays token where e: "code count \<le> max_relays" "relay_entries utf8 (code count) body = Inr (relays, token)"
      "length token = 16" "f = \<lparr>if_version = 4, if_relays = relays, if_token = token\<rparr>"
      by (auto simp: decode_fragment_bytes_def Let_def split: if_splits)
    from e(2) obtain es where "length es = code count" "body = concat (map entry_bytes es) @ token"
      "map (entry_relay utf8) es = map Some relays" "list_all entry_fits es" unfolding relay_entries_exact by blast
    with e False raw v code_less [of count] show ?thesis
      by (intro exI [of _ flags] exI [of _ token]) (auto intro!: exI [of _ es] simp: code_char)
  qed
next
  assume ?r
  then obtain flags token where t: "length token = 16" "if_version f = 4" "if_token f = token" and
    b: "if odd (code flags) then raw = [char_of (4 :: nat), flags] @ token \<and> if_relays f = map snd RELAY_DICTIONARY
         else \<exists>es. length es \<le> max_relays \<and> length es < 256 \<and> list_all entry_fits es \<and>
           map (entry_relay utf8) es = map Some (if_relays f) \<and>
           raw = [char_of (4 :: nat), flags, char_of (length es)] @ concat (map entry_bytes es) @ token" by blast
  have f: "f = \<lparr>if_version = 4, if_relays = if_relays f, if_token = token\<rparr>" using t by simp
  show ?l
  proof (cases "odd (code flags)")
    case True
    with b t f show ?thesis by (simp add: decode_fragment_bytes_def Let_def code_char_of)
  next
    case False
    with b obtain es where es: "length es \<le> max_relays" "length es < 256" "list_all entry_fits es"
      "map (entry_relay utf8) es = map Some (if_relays f)"
      "raw = [char_of (4 :: nat), flags, char_of (length es)] @ concat (map entry_bytes es) @ token" by auto
    then have "relay_entries utf8 (length es) (concat (map entry_bytes es) @ token) = Inr (if_relays f, token)"
      unfolding relay_entries_exact by blast
    moreover have "length (if_relays f) = length es" using arg_cong [OF es(4), of length] by simp
    ultimately show ?thesis using es False t f by (simp add: decode_fragment_bytes_def Let_def code_char_of)
  qed
qed

subsection \<open>Where a bundle comes from\<close>

lemma extract_Inr:
  assumes "extract_invite_ciphertext L author raw = Inr c"
  obtains event where "model_validate L raw = Inr event" "ev_pubkey event = author" "ev_kind event = 33301"
    "verify_event L event = Inr ()" "event_tag event ''d'' = Some []" "event_tag event ''vsk'' = Some ''6''" "ev_content event = c"
    "c \<noteq> []"
  using assms by (auto simp: extract_invite_ciphertext_def split: sum.splits)

lemma extract_Inl: "extract_invite_ciphertext L author raw = Inl e \<Longrightarrow> exn_cls e = ConcordInviteEventError"
  by (auto simp: extract_invite_ciphertext_def reraise_Inl invite_event_error_def split: if_splits)

lemma decrypt_bundle_Inr:
  assumes "decrypt_invite_bundle L I now_ms c token = Inr b"
  obtains key plaintext raw where "derive_invite_bundle_key I token = Inr key" "decrypt_raw_nip44 I c key = Inr plaintext"
    "json_loads L plaintext = Inr raw" "validate_invite_bundle L 256 5 now_ms raw = Inr b"
proof -
  from assms obtain key plaintext where d: "derive_invite_bundle_key I token = Inr key" "decrypt_raw_nip44 I c key = Inr plaintext"
    "(case json_loads L plaintext of Inl msg \<Rightarrow> Inl (value_err msg)
        | Inr raw \<Rightarrow> validate_invite_bundle L 256 5 now_ms raw) = Inr b"
    by (auto simp: decrypt_invite_bundle_def)
  then show thesis by (cases "json_loads L plaintext") (auto intro: that)
qed

lemma decrypt_bundle_Inl: "decrypt_invite_bundle L I now_ms c token = Inl e \<Longrightarrow> exn_cls e = ConcordInviteError"
  by (auto simp: decrypt_invite_bundle_def reraise_Inl ebind_Inl invite_error_def split: if_splits)

definition fetched_json :: "libs \<Rightarrow> fetched_event \<Rightarrow> json \<Rightarrow> bool" where
  "fetched_json L e v \<longleftrightarrow> (case e of Sdk_Event s \<Rightarrow> json_loads L s = Inr v | Dict_Event d \<Rightarrow> v = JObj d | Other_Event _ \<Rightarrow> False)"

text \<open>
  A bundle comes from the author of the link. Whatever the relays return, a bundle is loaded only from
  an event of the key that the link names, of kind 33301, with a valid id and signature, an empty
  coordinate and the live marker; its content was decrypted and authenticated with the key derived from
  the token in the link's fragment, and what came out passed the validation.
\<close>

theorem load_invite_authentic:
  assumes "load_invite_bundle L I fetcher now_ms url = Inr b"
  shows "\<exists>reference fragment author e more raw event key plaintext bundle.
    parse_invite_url 4096 url = Inr reference \<and> decode_invite_fragment I 3 (ir_fragment reference) = Inr fragment \<and>
    naddr_decode I (ir_naddr reference) = Inr (author, 33301, []) \<and>
    fetcher author (if_relays fragment) = Inr (e # more) \<and> fetched_json L e raw \<and> model_validate L raw = Inr event \<and>
    ev_pubkey event = author \<and> ev_kind event = 33301 \<and> ev_id event = compute_event_id L event \<and>
    verify_signature L event = Inr True \<and> event_tag event ''d'' = Some [] \<and> event_tag event ''vsk'' = Some ''6'' \<and>
    derive_invite_bundle_key I (if_token fragment) = Inr key \<and> decrypt_raw_nip44 I (ev_content event) key = Inr plaintext \<and>
    json_loads L plaintext = Inr bundle \<and> validate_invite_bundle L 256 5 now_ms bundle = Inr b"
proof -
  from assms obtain reference fragment coordinate events where
    s: "parse_invite_url 4096 url = Inr reference" "decode_invite_fragment I 3 (ir_fragment reference) = Inr fragment"
      "decode_invite_naddr I (ir_naddr reference) = Inr coordinate" "fetcher (ic_author coordinate) (if_relays fragment) = Inr events"
    by (auto simp: load_invite_bundle_def)
  from s(3) have n: "naddr_decode I (ir_naddr reference) = Inr (ic_author coordinate, 33301, [])"
    by (auto simp: decode_invite_naddr_def split: sum.splits prod.splits)
  from assms s obtain e more where e: "events = e # more" by (cases events) (auto simp: load_invite_bundle_def)
  with assms s obtain raw c where
    r: "(case e of
             Sdk_Event txt \<Rightarrow> (case json_loads L txt of
                 Inl _ \<Rightarrow> Inl (invite_error ''fetched invite event is not valid JSON'')
               | Inr v \<Rightarrow> Inr v)
           | Dict_Event d \<Rightarrow> Inr (JObj d)
           | Other_Event _ \<Rightarrow> Inr JNull) = Inr raw" "is_dict raw" and
    c: "extract_invite_ciphertext L (ic_author coordinate) raw = Inr c" and
    d: "decrypt_invite_bundle L I now_ms c (if_token fragment) = Inr b"
    by (auto simp: load_invite_bundle_def)
  from r have raw: "fetched_json L e raw" by (auto simp: fetched_json_def split: fetched_event.splits sum.splits)
  from c obtain event where v: "model_validate L raw = Inr event" "ev_pubkey event = ic_author coordinate" "ev_kind event = 33301"
    "verify_event L event = Inr ()" "event_tag event ''d'' = Some []" "event_tag event ''vsk'' = Some ''6''" "ev_content event = c"
    by (rule extract_Inr)
  from d obtain key plaintext inv where p: "derive_invite_bundle_key I (if_token fragment) = Inr key"
    "decrypt_raw_nip44 I c key = Inr plaintext" "json_loads L plaintext = Inr inv"
    "validate_invite_bundle L 256 5 now_ms inv = Inr b" by (rule decrypt_bundle_Inr)
  have f: "fetcher (ic_author coordinate) (if_relays fragment) = Inr (e # more)" using s(4) e by simp
  have w: "ev_id event = compute_event_id L event" "verify_signature L event = Inr True" using v(4) by simp_all
  show ?thesis
    using s(1,2) n f raw v(1-3,5-7) w p by blast
qed

subsection \<open>An example\<close>

definition invite_event :: nostr_event where
  "invite_event = \<lparr>ev_id = replicate 64 CHR ''a'', ev_pubkey = replicate 64 CHR ''c'', ev_created_at = 0, ev_kind = 33301,
     ev_tags = [[''d'', []], [''vsk'', ''6'']], ev_content = ''sealed'', ev_sig = replicate 128 CHR ''b''\<rparr>"

definition inviting_libs :: libs where
  "inviting_libs = bundle_libs\<lparr>sha256_hex := (\<lambda>_. replicate 64 CHR ''a''), pydantic_event := (\<lambda>_. Inr invite_event),
     json_loads := (\<lambda>_. Inr (example_invite (replicate 64 CHR ''c'')))\<rparr>"

definition inviting_token :: string where "inviting_token = replicate 16 CHR ''t''"

definition inviting_crypto :: invite_libs where
  "inviting_crypto = \<lparr>urlsafe_b64 = (\<lambda>_. Inr ([CHR 0x04, CHR 0x01] @ inviting_token)),
     b64_strict = (\<lambda>_. Inr (CHR 0x02 # replicate 98 CHR 0x00)), utf8_decode = Some, invite_hkdf = (\<lambda>_ s. s),
     hkdf_expand = (\<lambda>_ _. []), hmac_sha256 = (\<lambda>_ _. replicate 32 CHR 0x00),
     chacha20 = (\<lambda>_ _ _. [CHR 0x00, CHR 0x02] @ ''{}'' @ replicate 30 CHR 0x00),
     naddr_decode = (\<lambda>_. Inr (replicate 64 CHR ''c'', 33301, []))\<rparr>"

lemma invite_url_parses:
  "parse_invite_url 4096 ''https://armada.example/invite/naddr1xyz#QUJD'' = Inr \<lparr>ir_naddr = ''naddr1xyz'', ir_fragment = ''QUJD''\<rparr>"
  by code_simp

lemma inviting_fragment:
  "decode_invite_fragment inviting_crypto 3 ''QUJD'' =
     Inr \<lparr>if_version = 4, if_relays = map snd RELAY_DICTIONARY, if_token = inviting_token\<rparr>"
proof -
  have "list_all is_b64url ''QUJD''" by code_simp
  then show ?thesis
    by (simp add: decode_invite_fragment_def inviting_crypto_def decode_fragment_bytes_def inviting_token_def code_def Let_def)
qed

lemma inviting_plaintext: "decrypt_raw_nip44 inviting_crypto ''sealed'' key = Inr ''{}''"
proof -
  have "nip44_unpad ([CHR 0x00, CHR 0x02] @ ''{}'' @ replicate 30 CHR 0x00) = Inr ''{}''"
  proof -
    have "to_bytes 2 (Suc (Suc 0)) = [CHR 0x00, CHR 0x02]" by code_simp
    then show ?thesis unfolding nip44_unpad_exact
      by (intro exI [of _ "replicate 30 CHR 0x00"]) (simp add: padded_len_def)
  qed
  then show ?thesis by (simp add: decrypt_raw_nip44_def inviting_crypto_def code_def Let_def)
qed

lemma inviting_loads:
  "\<exists>b. load_invite_bundle inviting_libs inviting_crypto (\<lambda>_ _. Inr [Dict_Event []]) 0
     ''https://armada.example/invite/naddr1xyz#QUJD'' = Inr b"
proof -
  have hex: "validate_hex32 (replicate 64 CHR ''a'')" "validate_hex32 (replicate 64 CHR ''c'')" "validate_sig_hex (replicate 128 CHR ''b'')"
    by code_simp+
  have id: "compute_event_id inviting_libs e = replicate 64 CHR ''a''" "verify_signature inviting_libs e = Inr True" for e
    by (simp_all add: compute_event_id_def inviting_libs_def bundle_libs_def)
  have "model_validate inviting_libs v = Inr invite_event" for v
    by (simp add: model_validate_Inr) (simp add: inviting_libs_def invite_event_def hex)
  then have c: "extract_invite_ciphertext inviting_libs (replicate 64 CHR ''c'') (JObj []) = Inr ''sealed''"
    by (simp add: extract_invite_ciphertext_def id) (simp add: invite_event_def event_tag_def id)
  obtain b where b: "validate_invite_bundle bundle_libs 256 5 0 (example_invite (replicate 64 CHR ''c'')) = Inr b"
    using example_invite_valid [OF hex_bytes_pairs [of "CHR ''c''"]] by auto
  have same: "sha256_bytes inviting_libs = sha256_bytes bundle_libs" by (simp add: inviting_libs_def)
  have "validate_invite_bundle inviting_libs 256 5 0 v = validate_invite_bundle bundle_libs 256 5 0 v" for v
    unfolding validate_invite_bundle_def same ..
  with b have "validate_invite_bundle inviting_libs 256 5 0 (example_invite (replicate 64 CHR ''c'')) = Inr b" by simp
  moreover have "json_loads inviting_libs ''{}'' = Inr (example_invite (replicate 64 CHR ''c''))" by (simp add: inviting_libs_def)
  ultimately have "decrypt_invite_bundle inviting_libs inviting_crypto 0 ''sealed'' inviting_token = Inr b"
    by (simp add: decrypt_invite_bundle_def inviting_plaintext derive_invite_bundle_key_def inviting_token_def)
  then show ?thesis
    by (simp add: load_invite_bundle_def invite_url_parses inviting_fragment decode_invite_naddr_def RELAY_DICTIONARY_def c)
      (simp add: inviting_crypto_def c)
qed

theorem load_invite_authentic_witness:
  "\<exists>b event. load_invite_bundle inviting_libs inviting_crypto (\<lambda>_ _. Inr [Dict_Event []]) 0
     ''https://armada.example/invite/naddr1xyz#QUJD'' = Inr b \<and> ev_kind event = 33301 \<and> verify_signature inviting_libs event = Inr True"
proof -
  obtain b where b: "load_invite_bundle inviting_libs inviting_crypto (\<lambda>_ _. Inr [Dict_Event []]) 0
     ''https://armada.example/invite/naddr1xyz#QUJD'' = Inr b" using inviting_loads by blast
  from load_invite_authentic [OF b] b show ?thesis by blast
qed

end
