(* ===== verification/Concord_Routing.thy ===== *)
theory Concord_Routing
  imports Concord_Reader Concord_Invites Concord_Roster "HOL-Library.Multiset"
begin

text \<open>
  Announcing a published package: \<^verbatim>\<open>src/yunohost_mcp/concord_routing.py\<close> finds the channel of a repository,
  \<^verbatim>\<open>concord_announcements.py\<close> words the announcement, \<^verbatim>\<open>concord_announcement_publish.py\<close> decides which key
  encrypts it and \<^verbatim>\<open>concord_delivery.py\<close> remembers what was delivered.
\<close>

subsection \<open>Channels of a repository\<close>

text \<open>\<open>str.casefold\<close> of 8-bit characters. The micro sign folds to a letter outside them that nothing else
  folds to, and stands for itself.\<close>

definition fold_char :: "char \<Rightarrow> string" where
  "fold_char c = (let n = code c in
     if n = 223 then ''ss''
     else if is_upper c \<or> (192 \<le> n \<and> n \<le> 222 \<and> n \<noteq> 215) then [char_of (n + 32)] else [c])"

definition casefold :: "string \<Rightarrow> string" where
  "casefold s = concat (map fold_char s)"

definition py_either :: "json \<Rightarrow> json \<Rightarrow> json" where
  "py_either a b = (if truthy a then a else b)"

definition nonblank :: "json \<Rightarrow> bool" where
  "nonblank v = (is_str v \<and> str_strip (text_of v) \<noteq> [])"

record channel_match =
  cm_repository_name :: string
  cm_channel_id :: string
  cm_channel_name :: string
  cm_private :: bool

fun normalize_channel :: "json \<Rightarrow> dict list" where
  "normalize_channel (JObj d) =
     (let channel_id = py_either (dget d ''channel_id'') (dget d ''id''); name = py_either (dget d ''name'') (dget d ''channel_name'')
      in if nonblank channel_id \<and> nonblank name
         then [[(''id'', JStr (str_strip (text_of channel_id))), (''name'', JStr (str_strip (text_of name))),
                (''private'', JBool (truthy (dget_default d ''private'' (JBool False)))),
                (''deleted'', JBool (dget d ''deleted'' = JBool True))]]
         else [])"
| "normalize_channel _ = []"

definition normalize_channel_list :: "json \<Rightarrow> dict list" where
  "normalize_channel_list payload =
     (case (case payload of JObj d \<Rightarrow> dget_default d ''channels'' (JList []) | v \<Rightarrow> v) of
        JList vs \<Rightarrow> concat (map normalize_channel vs)
      | _ \<Rightarrow> [])"

text \<open>\<open>PurePosixPath(path).name\<close>: the last component; empty components and single dots are dropped.\<close>

definition path_name :: "string \<Rightarrow> string" where
  "path_name path = (case filter (\<lambda>p. p \<noteq> [] \<and> p \<noteq> ''.'') (str_split path CHR ''/'') of [] \<Rightarrow> [] | ps \<Rightarrow> last ps)"

definition without_git :: "string \<Rightarrow> string" where
  "without_git name = (if 4 \<le> length name \<and> drop (length name - 4) name = ''.git'' then take (length name - 4) name else name)"

definition repository_name :: "string \<Rightarrow> exn + string" where
  "repository_name source =
     (let value = str_strip source
      in ebind (guard (value \<noteq> []) (value_err ''repository source must not be empty'')) (\<lambda>_.
         ebind (if contains value ''://'' then ebind (urlsplit_parts value) (\<lambda>u. Inr (url_path u)) else Inr value) (\<lambda>path.
         let name = without_git (path_name (rstrip_char CHR ''/'' path))
         in ebind (guard (name \<noteq> [] \<and> name \<notin> {''.'', ''..''}) (value_err ''repository source does not contain a repository name'')) (\<lambda>_.
            Inr name))))"

text \<open>The match that one entry of the list gives.\<close>

definition channel_candidate :: "string \<Rightarrow> string \<Rightarrow> json \<Rightarrow> channel_match list" where
  "channel_candidate requested target_key channel =
     (case channel of
        JObj d \<Rightarrow>
          (let channel_id = py_either (dget d ''id'') (dget d ''channel_id''); name = dget d ''name'' in
           if dget d ''deleted'' = JBool True \<or> \<not> nonblank name \<or> \<not> nonblank channel_id then []
           else if casefold (str_strip (text_of name)) \<noteq> target_key then []
           else [\<lparr>cm_repository_name = requested, cm_channel_id = str_strip (text_of channel_id),
                  cm_channel_name = str_strip (text_of name), cm_private = truthy (dget_default d ''private'' (JBool False))\<rparr>])
      | _ \<Rightarrow> [])"

definition alias_target :: "(string \<times> string) list \<Rightarrow> string \<Rightarrow> string" where
  "alias_target aliases requested =
     (let found = (case map_of aliases requested of Some a \<Rightarrow> Some a | None \<Rightarrow> map_of aliases (casefold requested))
      in case found of Some a \<Rightarrow> if a = [] then requested else a | None \<Rightarrow> requested)"

definition match_repository_channel :: "string \<Rightarrow> json list \<Rightarrow> (string \<times> string) list \<Rightarrow> exn + channel_match option" where
  "match_repository_channel repo_name channels aliases =
     (let requested = str_strip repo_name
      in ebind (guard (requested \<noteq> []) (value_err ''repository name must not be empty'')) (\<lambda>_.
         case concat (map (channel_candidate requested (casefold (str_strip (alias_target aliases requested)))) channels) of
           [] \<Rightarrow> Inr None
         | [m] \<Rightarrow> Inr (Some m)
         | _ \<Rightarrow> Inl (Exn AmbiguousChannelError (''multiple active Concord channels match repository '' @ py_repr requested))))"

definition match_source_channel :: "string \<Rightarrow> json list \<Rightarrow> (string \<times> string) list \<Rightarrow> exn + channel_match option" where
  "match_source_channel source channels aliases =
     ebind (repository_name source) (\<lambda>name. match_repository_channel name channels aliases)"

subsection \<open>Announcements\<close>

record announcement_draft =
  ad_idempotency_key :: string
  ad_repository_name :: string
  ad_app_id :: "string option"
  ad_version :: "string option"
  ad_catalogue_reference :: "string option"
  ad_text :: string

record announcement_preparation =
  ap_draft :: announcement_draft
  ap_channel :: "channel_match option"
  ap_status :: string
  ap_reason :: "string option"

fun first_tag_value :: "string \<Rightarrow> json list \<Rightarrow> json" where
  "first_tag_value name [] = JNull"
| "first_tag_value name (JList (k # v # _) # tags) =
     (if k = JStr name then (if is_str v \<and> truthy v then v else JNull) else first_tag_value name tags)"
| "first_tag_value name (_ # tags) = first_tag_value name tags"

definition event_value :: "dict \<Rightarrow> string \<Rightarrow> exn + json" where
  "event_value result name =
     (case dget result ''event'' of
        JObj event \<Rightarrow> ebind (py_tuple (dget_default event ''tags'' (JList []))) (\<lambda>tags. Inr (first_tag_value name tags))
      | _ \<Rightarrow> Inr JNull)"

text \<open>\<open>publication.get(key) or _event_value(publication, tag)\<close>: the second is not evaluated when the first is true.\<close>

definition value_or_tag :: "dict \<Rightarrow> string \<Rightarrow> string \<Rightarrow> exn + json" where
  "value_or_tag publication key tag =
     (if truthy (dget publication key) then Inr (dget publication key) else event_value publication tag)"

definition build_announcement_draft :: "libs \<Rightarrow> (json \<Rightarrow> string) \<Rightarrow> string \<Rightarrow> dict \<Rightarrow> exn + announcement_draft" where
  "build_announcement_draft L fmt source publication =
     ebind (repository_name source) (\<lambda>repo.
     ebind (value_or_tag publication ''app_id'' ''d'') (\<lambda>app_id.
     ebind (value_or_tag publication ''version'' ''version'') (\<lambda>version.
     let naddr = (case dget publication ''naddr'' of JStr s \<Rightarrow> if s = [] then None else Some s | _ \<Rightarrow> None);
         event_id = (case dget publication ''event'' of JObj e \<Rightarrow> dget e ''id'' | _ \<Rightarrow> JNull);
         identity = (if truthy event_id then py_str fmt event_id
                     else case naddr of Some n \<Rightarrow> n
                       | None \<Rightarrow> repo @ '':'' @ py_str fmt (py_either app_id (JStr [])) @ '':'' @ py_str fmt (py_either version (JStr [])));
         digest = take 32 (sha256_hex L (repo @ [char_of (0 :: nat)] @ identity));
         package = str_join '' '' (map text_of (filter (\<lambda>p. is_str p \<and> truthy p) [app_id, version]));
         text = ''Published '' @ (if package = [] then repo else package) @ '' to the YunoHost catalogue'' @
           (case naddr of None \<Rightarrow> [] | Some n \<Rightarrow> '': '' @ n)
     in Inr \<lparr>ad_idempotency_key = ''catalogue:'' @ digest, ad_repository_name = repo, ad_app_id = text_or_none app_id,
             ad_version = text_or_none version, ad_catalogue_reference = naddr, ad_text = text\<rparr>)))"

definition prepare_announcement ::
  "libs \<Rightarrow> (json \<Rightarrow> string) \<Rightarrow> string \<Rightarrow> dict \<Rightarrow> json \<Rightarrow> (string \<times> string) list \<Rightarrow> exn + announcement_preparation" where
  "prepare_announcement L fmt source publication channel_payload aliases =
     ebind (build_announcement_draft L fmt source publication) (\<lambda>draft.
     case match_source_channel source (map JObj (normalize_channel_list channel_payload)) aliases of
       Inl e \<Rightarrow> if exn_cls e = AmbiguousChannelError
         then Inr \<lparr>ap_draft = draft, ap_channel = None, ap_status = ''ambiguous_channel'', ap_reason = Some (exn_msg e)\<rparr> else Inl e
     | Inr None \<Rightarrow> Inr \<lparr>ap_draft = draft, ap_channel = None, ap_status = ''no_matching_channel'',
         ap_reason = Some (''no active Concord channel matches repository '' @ py_repr (ad_repository_name draft))\<rparr>
     | Inr (Some channel) \<Rightarrow> Inr \<lparr>ap_draft = draft, ap_channel = Some channel, ap_status = ''ready'', ap_reason = None\<rparr>)"

subsection \<open>Deliveries\<close>

record delivery_record =
  dr_idempotency_key :: string
  dr_event_id :: string
  dr_recorded_at :: int

type_synonym delivery_store = "delivery_record list"

definition delivery_get :: "string \<Rightarrow> delivery_store \<Rightarrow> delivery_record option" where
  "delivery_get key st = find (\<lambda>r. dr_idempotency_key r = key) st"

definition deliver_record :: "real \<Rightarrow> string \<Rightarrow> string \<Rightarrow> delivery_store \<Rightarrow> delivery_store \<times> delivery_record" where
  "deliver_record now key event_id st =
     (let row = \<lparr>dr_idempotency_key = key, dr_event_id = event_id, dr_recorded_at = py_trunc now\<rparr>;
          st' = (if delivery_get key st = None then st @ [row] else st)
      in (st', case delivery_get key st' of Some r \<Rightarrow> r | None \<Rightarrow> row))"

subsection \<open>Keys and envelopes\<close>

record announcement_result =
  an_status :: string
  an_draft :: announcement_draft
  an_publication :: "publish_result option"
  an_reason :: "string option"

record prepared_envelope =
  pe_rumor :: unsigned_event
  pe_seal_template :: seal_template
  pe_stream_key :: group_key
  pe_draft :: announcement_draft
  pe_relays :: "string list"

definition fromhex_exn :: "string \<Rightarrow> exn + string" where
  "fromhex_exn s = (case fromhex s of
      None \<Rightarrow> Inl (value_err ''non-hexadecimal number found in fromhex() arg'') | Some b \<Rightarrow> Inr b)"

text \<open>The stream key and the epoch of a channel; \<open>None\<close> for a private channel without a key in the invite.\<close>

definition channel_stream_key ::
  "key_libs \<Rightarrow> invite_bundle \<Rightarrow> channel_match \<Rightarrow> exn + (group_key \<times> int) option" where
  "channel_stream_key K b channel =
     (let grant = find (\<lambda>g. cg_id g = cm_channel_id channel) (ib_channels b) in
      if cm_private channel then
        (case grant of
           None \<Rightarrow> Inr None
         | Some g \<Rightarrow>
             (case cg_key g of
                None \<Rightarrow> Inr None
              | Some key \<Rightarrow> ebind (fromhex_exn (cg_id g)) (\<lambda>identifier.
                  ebind (derive_group_key K key ''concord/channel'' identifier (Some (cg_epoch g))) (\<lambda>k. Inr (Some (k, cg_epoch g))))))
      else ebind (fromhex_exn (cm_channel_id channel)) (\<lambda>identifier.
        ebind (derive_group_key K (ib_community_root b) ''concord/channel'' identifier (Some (ib_root_epoch b))) (\<lambda>k.
        Inr (Some (k, ib_root_epoch b)))))"

definition prepare_announcement_envelope ::
  "libs \<Rightarrow> crypto_libs \<Rightarrow> key_libs \<Rightarrow> (json \<Rightarrow> string) \<Rightarrow> string \<Rightarrow> dict \<Rightarrow> invite_bundle \<Rightarrow> json list \<Rightarrow> string \<Rightarrow> int \<Rightarrow> int \<Rightarrow>
     exn + (announcement_result + prepared_envelope)" where
  "prepare_announcement_envelope L C K fmt source publication b control_rumors author_pubkey created_at ms =
     ebind (build_announcement_draft L fmt source publication) (\<lambda>draft.
     ebind (build_roster L control_rumors (ib_owner b) 128) (\<lambda>roster.
     ebind (fold_channel_metadata L (Some (authorized L roster)) control_rumors) (\<lambda>channels.
     ebind (prepare_announcement L fmt source publication (JList (map JObj channels)) []) (\<lambda>prepared.
     case ap_channel prepared of
       None \<Rightarrow> Inr (Inl \<lparr>an_status = ap_status prepared, an_draft = draft, an_publication = None, an_reason = ap_reason prepared\<rparr>)
     | Some channel \<Rightarrow>
         ebind (channel_stream_key K b channel) (\<lambda>key.
         case key of
           None \<Rightarrow> Inr (Inl \<lparr>an_status = ''missing_channel_key'', an_draft = draft, an_publication = None,
             an_reason = Some (''bot has no key for private channel '' @ py_repr (cm_channel_id channel))\<rparr>)
         | Some (stream_key, epoch) \<Rightarrow>
             ebind (self_conversation_encryptor C stream_key) (\<lambda>encrypt.
             ebind (build_chat_rumor_and_seal_template L author_pubkey (cm_channel_id channel) epoch (ad_text draft) (encrypt 0)
                      created_at ms) (\<lambda>(rumor, template).
             Inr (Inr \<lparr>pe_rumor = rumor, pe_seal_template = template, pe_stream_key = stream_key, pe_draft = draft,
                        pe_relays = ib_relays b\<rparr>))))))))"

definition finish_announcement_envelope ::
  "libs \<Rightarrow> crypto_libs \<Rightarrow> sign_libs \<Rightarrow> real \<Rightarrow> (nostr_event \<Rightarrow> string list \<Rightarrow> exn + publish_result) \<Rightarrow> string \<Rightarrow> prepared_envelope \<Rightarrow>
     nostr_event \<Rightarrow> exn + announcement_result" where
  "finish_announcement_envelope L C G now publisher ephemeral_pubkey prepared signed_seal =
     ebind (self_conversation_encryptor C (pe_stream_key prepared)) (\<lambda>encrypt.
     ebind (finish_chat_envelope L G now (pe_rumor prepared) (pe_seal_template prepared) signed_seal (pe_stream_key prepared)
              ephemeral_pubkey (encrypt 1) (tm_created_at (pe_seal_template prepared))) (\<lambda>envelope.
     ebind (publisher (ce_wrap envelope) (pe_relays prepared)) (\<lambda>published.
     Inr \<lparr>an_status = ''published'', an_draft = pe_draft prepared, an_publication = Some published, an_reason = None\<rparr>)))"

definition publish_package_announcement ::
  "libs \<Rightarrow> crypto_libs \<Rightarrow> key_libs \<Rightarrow> sign_libs \<Rightarrow> (json \<Rightarrow> string) \<Rightarrow> real \<Rightarrow> (nostr_event \<Rightarrow> string list \<Rightarrow> exn + publish_result) \<Rightarrow>
     string \<Rightarrow> string \<Rightarrow> dict \<Rightarrow> invite_bundle \<Rightarrow> json list \<Rightarrow> string \<Rightarrow> int \<Rightarrow> int \<Rightarrow> exn + announcement_result" where
  "publish_package_announcement L C K G fmt now publisher ephemeral_pubkey source publication b control_rumors bot_key created_at ms =
     ebind (prepare_announcement_envelope L C K fmt source publication b control_rumors (key_pubkey G bot_key) created_at ms) (\<lambda>r.
     case r of
       Inl result \<Rightarrow> Inr result
     | Inr prepared \<Rightarrow>
         ebind (sign_template G now bot_key (pe_seal_template prepared)) (\<lambda>signed_seal.
         finish_announcement_envelope L C G now publisher ephemeral_pubkey prepared signed_seal))"

subsection \<open>Routing\<close>

text \<open>
  Routing finds the one channel or says that it does not. The outcome depends on the channels as a
  collection, not on their order: with exactly one active channel of the name it is that channel, with
  none it is none, with several it is an error that names the repository.
\<close>

theorem routing_order_independent:
  assumes "mset channels = mset channels'"
  shows "match_repository_channel repo channels aliases = match_repository_channel repo channels' aliases"
proof -
  define f where "f = channel_candidate (str_strip repo) (casefold (str_strip (alias_target aliases (str_strip repo))))"
  define g where "g xs = ebind (guard (str_strip repo \<noteq> []) (value_err ''repository name must not be empty'')) (\<lambda>_.
    case xs of [] \<Rightarrow> Inr None | [m] \<Rightarrow> Inr (Some m)
    | _ \<Rightarrow> Inl (Exn AmbiguousChannelError (''multiple active Concord channels match repository '' @ py_repr (str_strip repo))))"
    for xs :: "channel_match list"
  have G: "match_repository_channel repo cs aliases = g (concat (map f cs))" for cs
    by (simp add: match_repository_channel_def f_def g_def Let_def)
  have "mset (concat (map f xs)) = sum_mset (image_mset (\<lambda>c. mset (f c)) (mset xs))" for xs
    by (induction xs) simp_all
  with assms have m: "mset (concat (map f channels)) = mset (concat (map f channels'))" by simp
  have eq: "g xs = g ys" if "mset xs = mset ys" for xs ys
  proof (cases "length xs \<le> 1")
    case True
    with that mset_eq_length [OF that] have "xs = ys" by (cases xs; cases ys) auto
    then show ?thesis by simp
  next
    case False
    have two: "\<exists>z z' zs'. zs = z # z' # zs'" if "\<not> length zs \<le> 1" for zs :: "channel_match list"
      using that by (cases zs; cases "tl zs") simp_all
    from two [OF False] obtain x x' xs' where x: "xs = x # x' # xs'" by blast
    from False mset_eq_length [OF that] have "\<not> length ys \<le> 1" by simp
    from two [OF this] obtain y y' ys' where y: "ys = y # y' # ys'" by blast
    note x y
    then show ?thesis by (simp add: g_def)
  qed
  show ?thesis unfolding G by (rule eq [OF m])
qed

lemma match_repository_Some:
  assumes "match_repository_channel repo channels aliases = Inr (Some m)"
  shows "\<exists>d. JObj d \<in> set channels \<and> dget d ''deleted'' \<noteq> JBool True \<and>
    cm_channel_id m = str_strip (text_of (py_either (dget d ''id'') (dget d ''channel_id''))) \<and>
    cm_private m = truthy (dget_default d ''private'' (JBool False)) \<and>
    casefold (cm_channel_name m) = casefold (str_strip (alias_target aliases (str_strip repo)))"
proof -
  let ?k = "casefold (str_strip (alias_target aliases (str_strip repo)))"
  let ?c = "concat (map (channel_candidate (str_strip repo) ?k) channels)"
  have "?c = [m]" using assms by (auto simp: match_repository_channel_def Let_def split: list.splits)
  then have "m \<in> set ?c" by simp
  then obtain c where c: "c \<in> set channels" "m \<in> set (channel_candidate (str_strip repo) ?k c)" by auto
  then obtain d where d: "c = JObj d" by (cases c) (auto simp: channel_candidate_def)
  from c(2) d have "m = \<lparr>cm_repository_name = str_strip repo,
      cm_channel_id = str_strip (text_of (py_either (dget d ''id'') (dget d ''channel_id''))),
      cm_channel_name = str_strip (text_of (dget d ''name'')), cm_private = truthy (dget_default d ''private'' (JBool False))\<rparr>"
    "dget d ''deleted'' \<noteq> JBool True" "casefold (str_strip (text_of (dget d ''name''))) = ?k"
    by (auto simp: channel_candidate_def Let_def split: if_splits)
  with c(1) d show ?thesis by (intro exI [of _ d]) simp
qed

subsection \<open>Which key encrypts an announcement\<close>

lemma encryptor_Inr:
  assumes "self_conversation_encryptor C key = Inr encrypt" "encrypt n s = Inr c"
  shows "nip44_encrypt C key n s = Inr c"
  using assms by (auto simp: self_conversation_encryptor_def split: if_splits sum.splits)

lemma build_chat_Inr:
  assumes "build_chat_rumor_and_seal_template L author channel epoch txt encrypt t ms = Inr (rumor, template)"
  shows "un_pubkey rumor = author \<and> un_content rumor = txt \<and>
    un_tags rumor = [[''channel'', channel], [''epoch'', show_int epoch], [''ms'', show_int ms]] \<and> un_kind rumor = 9 \<and>
    tm_pubkey template = author \<and> tm_kind template = 20013 \<and> tm_tags template = [] \<and>
    encrypt (compact_json L (unsigned_dump rumor)) = Inr (tm_content template)"
  using assms by (auto simp: build_chat_rumor_and_seal_template_def Let_def with_id_def)

lemma prepare_announcement_channel:
  assumes "prepare_announcement L fmt source publication payload aliases = Inr prep" "ap_channel prep = Some channel"
  shows "match_source_channel source (map JObj (normalize_channel_list payload)) aliases = Inr (Some channel)"
proof -
  let ?m = "match_source_channel source (map JObj (normalize_channel_list payload)) aliases"
  from assms(1) obtain draft where d: "(case ?m of
       Inl e \<Rightarrow> if exn_cls e = AmbiguousChannelError
         then Inr \<lparr>ap_draft = draft, ap_channel = None, ap_status = ''ambiguous_channel'', ap_reason = Some (exn_msg e)\<rparr> else Inl e
     | Inr None \<Rightarrow> Inr \<lparr>ap_draft = draft, ap_channel = None, ap_status = ''no_matching_channel'',
         ap_reason = Some (''no active Concord channel matches repository '' @ py_repr (ad_repository_name draft))\<rparr>
     | Inr (Some channel) \<Rightarrow> Inr \<lparr>ap_draft = draft, ap_channel = Some channel, ap_status = ''ready'', ap_reason = None\<rparr>) = Inr prep"
    unfolding prepare_announcement_def by (cases "build_announcement_draft L fmt source publication") simp_all
  show ?thesis
  proof (cases ?m)
    case (Inl e)
    with d assms(2) show ?thesis by (cases "exn_cls e = AmbiguousChannelError") auto
  next
    case (Inr r)
    with d assms(2) show ?thesis by (cases r) auto
  qed
qed

text \<open>
  A private channel's announcement is encrypted for that channel only. Whatever is prepared goes to a
  channel of the authorized fold, under the caller's key as author; if the channel is private, the key
  that encrypts it comes from the invite's grant for that very channel and the grant's epoch, and
  never from the community's root; if it is public, it comes from the community's root.
\<close>

theorem announcement_key_scope:
  assumes "prepare_announcement_envelope L C K fmt source publication b rumors author t ms = Inr (Inr p)"
  shows "\<exists>roster channels channel epoch cid secret.
    build_roster L rumors (ib_owner b) 128 = Inr roster \<and> fold_channel_metadata L (Some (authorized L roster)) rumors = Inr channels \<and>
    match_source_channel source (map JObj (normalize_channel_list (JList (map JObj channels)))) [] = Inr (Some channel) \<and>
    derive_group_key K secret ''concord/channel'' cid (Some epoch) = Inr (pe_stream_key p) \<and>
    (if cm_private channel
     then \<exists>g \<in> set (ib_channels b). cg_id g = cm_channel_id channel \<and> cg_key g = Some secret \<and> cg_epoch g = epoch \<and>
       fromhex (cg_id g) = Some cid
     else secret = ib_community_root b \<and> epoch = ib_root_epoch b \<and> fromhex (cm_channel_id channel) = Some cid) \<and>
    un_pubkey (pe_rumor p) = author \<and> tm_pubkey (pe_seal_template p) = author \<and>
    take 2 (un_tags (pe_rumor p)) = [[''channel'', cm_channel_id channel], [''epoch'', show_int epoch]] \<and>
    nip44_encrypt C (pe_stream_key p) 0 (compact_json L (unsigned_dump (pe_rumor p))) = Inr (tm_content (pe_seal_template p))"
proof -
  from assms obtain draft roster channels prep channel where
    s: "build_announcement_draft L fmt source publication = Inr draft" "build_roster L rumors (ib_owner b) 128 = Inr roster"
      "fold_channel_metadata L (Some (authorized L roster)) rumors = Inr channels"
      "prepare_announcement L fmt source publication (JList (map JObj channels)) [] = Inr prep" "ap_channel prep = Some channel"
    by (auto simp: prepare_announcement_envelope_def split: option.splits)
  with assms obtain key epoch where k: "channel_stream_key K b channel = Inr (Some (key, epoch))"
    by (auto simp: prepare_announcement_envelope_def split: option.splits)
  with assms s obtain encrypt rumor template where
    e: "self_conversation_encryptor C key = Inr encrypt"
      "build_chat_rumor_and_seal_template L author (cm_channel_id channel) epoch (ad_text draft) (encrypt 0) t ms = Inr (rumor, template)"
      "p = \<lparr>pe_rumor = rumor, pe_seal_template = template, pe_stream_key = key, pe_draft = draft, pe_relays = ib_relays b\<rparr>"
    by (auto simp: prepare_announcement_envelope_def)
  have m: "match_source_channel source (map JObj (normalize_channel_list (JList (map JObj channels)))) [] = Inr (Some channel)"
    using prepare_announcement_channel [OF s(4,5)] .
  have "\<exists>cid secret. derive_group_key K secret ''concord/channel'' cid (Some epoch) = Inr key \<and>
    (if cm_private channel
     then \<exists>g \<in> set (ib_channels b). cg_id g = cm_channel_id channel \<and> cg_key g = Some secret \<and> cg_epoch g = epoch \<and>
       fromhex (cg_id g) = Some cid
     else secret = ib_community_root b \<and> epoch = ib_root_epoch b \<and> fromhex (cm_channel_id channel) = Some cid)"
  proof (cases "cm_private channel")
    case True
    with k obtain g secret cid where
      "find (\<lambda>g. cg_id g = cm_channel_id channel) (ib_channels b) = Some g" "cg_key g = Some secret" "fromhex (cg_id g) = Some cid"
      "derive_group_key K secret ''concord/channel'' cid (Some (cg_epoch g)) = Inr key" "cg_epoch g = epoch"
      by (auto simp: channel_stream_key_def fromhex_exn_def Let_def split: option.splits)
    with True find_some_in [of "\<lambda>g. cg_id g = cm_channel_id channel" "ib_channels b" g] show ?thesis
      by (intro exI [of _ cid] exI [of _ secret]) auto
  next
    case False
    with k show ?thesis by (auto simp: channel_stream_key_def fromhex_exn_def Let_def split: option.splits)
  qed
  moreover have "nip44_encrypt C key 0 (compact_json L (unsigned_dump rumor)) = Inr (tm_content template)"
    using build_chat_Inr [OF e(2)] encryptor_Inr [OF e(1)] by blast
  ultimately show ?thesis using s(2,3) m build_chat_Inr [OF e(2)] unfolding e(3) by fastforce
qed

subsection \<open>Deliveries\<close>

lemma deliver_record_get:
  "delivery_get key' (fst (deliver_record now key event_id st)) =
     (if key' = key \<and> delivery_get key st = None
      then Some \<lparr>dr_idempotency_key = key, dr_event_id = event_id, dr_recorded_at = py_trunc now\<rparr> else delivery_get key' st)"
proof -
  have "find P (xs @ [x]) = (case find P xs of None \<Rightarrow> if P x then Some x else None | Some y \<Rightarrow> Some y)" for P and x :: delivery_record and xs
    by (induction xs) auto
  then show ?thesis by (auto simp: deliver_record_def delivery_get_def Let_def split: option.splits)
qed

lemma delivery_get_key: "delivery_get key st = Some r \<Longrightarrow> dr_idempotency_key r = key"
  by (auto simp: delivery_get_def dest: find_some_in)

subsection \<open>An example\<close>

theorem routing_order_independent_witness:
  "match_repository_channel ''general'' [JNull, JObj (channel_dict example_channel)] [] =
   match_repository_channel ''general'' [JObj (channel_dict example_channel), JNull] []"
  by (rule routing_order_independent) simp

definition announcing_bundle :: invite_bundle where
  "announcing_bundle = reading_bundle\<lparr>ib_owner := replicate 64 CHR ''a''\<rparr>"

lemma announcing_parsed: "parse_roster_edition control_libs (JObj channel_event) = Some
  \<lparr>re_event_id = replicate 64 CHR ''x'', re_actor = replicate 64 CHR ''a'', re_entity_id = replicate 64 CHR ''c'',
   re_version = 1, re_previous = None, re_hash = ''h'', re_vsk = ''2'', re_content = [(''name'', JStr ''general'')], re_event = channel_event\<rparr>"
  unfolding channel_event_def by (rule control_parses) (simp_all add: control_event_def tag_text_def tags_named_def)

definition announcing_roster :: roster where
  "announcing_roster = \<lparr>ro_owner = replicate 64 CHR ''a'',
     ro_members = [(replicate 64 CHR ''a'', \<lparr>rm_position = 0, rm_permissions = 3\<rparr>)], ro_grants = []\<rparr>"

lemma announcing_built: "build_roster control_libs [JObj channel_event] (replicate 64 CHR ''a'') 128 = Inr announcing_roster"
proof -
  have heads: "select_roster_heads es {} = []" for es by (simp add: select_roster_heads_def firsts_def Let_def)
  have expand: "expand_roster owner es n {} = Inr {}" if "\<forall>e \<in> set es. \<not> is_roster e" for owner es n
  proof -
    have "emap (\<lambda>e. ebind (admits owner (select_roster_heads es {}) {} e) (\<lambda>yes. Inr (if yes then [re_event_id e] else []))) xs =
      Inr (map (\<lambda>_. []) xs)" if "\<forall>e \<in> set xs. \<not> is_roster e" for xs
      using that by (induction xs) (simp_all add: admits_def Let_def)
    with \<open>\<forall>e \<in> set es. \<not> is_roster e\<close> have "emap (\<lambda>e. ebind (admits owner (select_roster_heads es {}) {} e)
      (\<lambda>yes. Inr (if yes then [re_event_id e] else []))) es = Inr (map (\<lambda>_. []) es)" by blast
    then show ?thesis by (cases n) (auto simp: Let_def)
  qed
  have "roster_members [] (replicate 64 CHR ''a'') = [(replicate 64 CHR ''a'', \<lparr>rm_position = 0, rm_permissions = 3\<rparr>)]"
    by (simp add: roster_members_def grants_of_def MANAGE_ROLES_def MANAGE_CHANNELS_def)
  moreover have "\<forall>e \<in> set (parse_roster control_libs [JObj channel_event]). \<not> is_roster e"
    by (simp add: parse_roster_def announcing_parsed is_roster_def)
  moreover from this have "owner_editions (replicate 64 CHR ''a'') (parse_roster control_libs [JObj channel_event]) = {}"
    by (auto simp: owner_editions_def)
  ultimately show ?thesis
    using lower_64 [of "CHR ''a''"] expand
    by (simp add: build_roster_def heads grants_of_def announcing_roster_def Let_def)
qed

lemma announcing_folded:
  "fold_channel_metadata control_libs (Some (authorized control_libs announcing_roster)) [JObj channel_event] =
     Inr [channel_dict example_channel]"
proof -
  have "authorized control_libs announcing_roster (JObj channel_event) = Inr True"
    by (simp add: authorized_def announcing_parsed) (simp add: announcing_roster_def)
  with example_folded show ?thesis by (simp add: fold_channel_metadata_def example_channel_parsed)
qed

lemma announcing_matched:
  "match_source_channel ''general'' (map JObj (normalize_channel_list (JList [JObj (channel_dict example_channel)]))) [] =
     Inr (Some \<lparr>cm_repository_name = ''general'', cm_channel_id = replicate 64 CHR ''c'', cm_channel_name = ''general'', cm_private = False\<rparr>)"
proof -
  have "str_strip ''general'' = ''general''" by code_simp
  moreover have "casefold ''general'' = ''general''" by code_simp
  moreover have "repository_name ''general'' = Inr ''general''" by code_simp
  moreover have "str_strip (replicate 64 CHR ''c'') = replicate 64 CHR ''c''" by code_simp
  ultimately show ?thesis
    by (simp add: match_source_channel_def match_repository_channel_def channel_candidate_def channel_dict_def example_channel_def
       normalize_channel_list_def py_either_def nonblank_def alias_target_def Let_def)
qed

lemma announcing_key:
  "channel_stream_key joining_keys announcing_bundle
     \<lparr>cm_repository_name = ''general'', cm_channel_id = replicate 64 CHR ''c'', cm_channel_name = ''general'', cm_private = False\<rparr> =
     Inr (Some (joining_key, 0))"
proof -
  obtain bytes where "fromhex (replicate 64 CHR ''c'') = Some bytes" "length bytes = 32" using fromhex_64 [of "CHR ''c''"] by auto
  then show ?thesis
    by (simp add: channel_stream_key_def announcing_bundle_def reading_bundle_def fromhex_exn_def joining_derive)
qed

theorem announcement_key_scope_witness:
  "\<exists>p. prepare_announcement_envelope control_libs joining_crypto joining_keys (\<lambda>_. []) ''general'' [] announcing_bundle
       [JObj channel_event] example_pk 100 7 = Inr (Inr p) \<and>
     take 2 (un_tags (pe_rumor p)) = [[''channel'', replicate 64 CHR ''c''], [''epoch'', ''0'']]"
proof -
  let ?run = "prepare_announcement_envelope control_libs joining_crypto joining_keys (\<lambda>_. []) ''general'' [] announcing_bundle
    [JObj channel_event] example_pk 100 7"
  let ?m = "\<lparr>cm_repository_name = ''general'', cm_channel_id = replicate 64 CHR ''c'', cm_channel_name = ''general'', cm_private = False\<rparr>"
  have repo: "repository_name ''general'' = Inr ''general''" by code_simp
  have "\<exists>d. build_announcement_draft control_libs (\<lambda>_. []) ''general'' [] = Inr d"
    by (simp add: build_announcement_draft_def repo value_or_tag_def event_value_def Let_def)
  then obtain d where d: "build_announcement_draft control_libs (\<lambda>_. []) ''general'' [] = Inr d" ..
  have r: "prepare_announcement control_libs (\<lambda>_. []) ''general'' [] (JList [JObj (channel_dict example_channel)]) [] =
     Inr \<lparr>ap_draft = d, ap_channel = Some ?m, ap_status = ''ready'', ap_reason = None\<rparr>"
    by (simp add: prepare_announcement_def d announcing_matched)
  have "ib_owner announcing_bundle = replicate 64 CHR ''a''" by (simp add: announcing_bundle_def)
  moreover have "\<exists>rumor template. build_chat_rumor_and_seal_template control_libs example_pk (replicate 64 CHR ''c'') 0 (ad_text d)
      Inr 100 7 = Inr (rumor, template)"
    by (simp add: build_chat_rumor_and_seal_template_def Let_def)
  ultimately obtain p where p: "?run = Inr (Inr p)"
    by (auto simp: prepare_announcement_envelope_def d announcing_built announcing_folded r announcing_key
        self_conversation_encryptor_def joining_crypto_def)
  from announcement_key_scope [OF p] obtain roster channels channel epoch where
    c: "build_roster control_libs [JObj channel_event] (ib_owner announcing_bundle) 128 = Inr roster"
      "fold_channel_metadata control_libs (Some (authorized control_libs roster)) [JObj channel_event] = Inr channels"
      "match_source_channel ''general'' (map JObj (normalize_channel_list (JList (map JObj channels)))) [] = Inr (Some channel)"
      "\<not> cm_private channel \<longrightarrow> epoch = ib_root_epoch announcing_bundle"
      "take 2 (un_tags (pe_rumor p)) = [[''channel'', cm_channel_id channel], [''epoch'', show_int epoch]]"
    by (metis (no_types, lifting))
  have "roster = announcing_roster" using c(1) announcing_built by (simp add: announcing_bundle_def)
  with c(2) have "channels = [channel_dict example_channel]" by (simp add: announcing_folded)
  with c(3) have m: "channel = ?m" by (simp add: announcing_matched)
  have "show_int 0 = ''0''" by code_simp
  with c(4,5) have "take 2 (un_tags (pe_rumor p)) = [[''channel'', replicate 64 CHR ''c''], [''epoch'', ''0'']]"
    by (simp add: m announcing_bundle_def reading_bundle_def)
  with p show ?thesis by blast
qed

end
