(* ===== verification/Adapter.thy ===== *)
theory Adapter
  imports Broker
begin

text \<open>
  The adapter, \<^verbatim>\<open>src/yunohost_mcp/yunohost/adapter.py\<close>: one method per operation, each of which sends the
  operation to the privileged broker when one is configured, answers canned data in fake mode, and
  otherwise calls YunoHost.  YunoHost is a parameter: a step on a system state of any type.
\<close>

subsection \<open>Steps\<close>

type_synonym ('y, 'a) step = "'y \<Rightarrow> 'y \<times> (exn + 'a)"

definition ret :: "exn + 'a \<Rightarrow> ('y, 'a) step" where
  "ret r s = (s, r)"

definition and_then :: "('y, 'a) step \<Rightarrow> ('a \<Rightarrow> ('y, 'b) step) \<Rightarrow> ('y, 'b) step" where
  "and_then m k s = (case m s of (s', Inl e) \<Rightarrow> (s', Inl e) | (s', Inr x) \<Rightarrow> k x s')"

text \<open>\<open>try: m except ... as exc: handler\<close>, where the handler takes the exceptions it is for.\<close>

definition catching :: "('y, 'a) step \<Rightarrow> (exn \<Rightarrow> ('y, 'a) step option) \<Rightarrow> ('y, 'a) step" where
  "catching m handler s =
     (case m s of (s', Inr x) \<Rightarrow> (s', Inr x)
      | (s', Inl e) \<Rightarrow> (case handler e of None \<Rightarrow> (s', Inl e) | Some h \<Rightarrow> h s'))"

definition answer :: "dict \<Rightarrow> ('y, json) step" where
  "answer d = ret (Inr (JObj d))"

text \<open>\<open>{**first, **value}\<close>\<close>

definition spread :: "dict \<Rightarrow> json \<Rightarrow> ('y, json) step" where
  "spread first v = ret (case v of JObj d \<Rightarrow> Inr (JObj (fold (\<lambda>(k, x) acc. dset acc k x) d first))
     | _ \<Rightarrow> Inl (Exn TypeError ''object is not a mapping''))"

text \<open>\<open>value.get(key, default)\<close> and \<open>value[key]\<close> of a value that is to be a dictionary.\<close>

definition get_or :: "json \<Rightarrow> string \<Rightarrow> json \<Rightarrow> exn + json" where
  "get_or v key dflt = (case v of JObj d \<Rightarrow> Inr (dget_default d key dflt)
     | _ \<Rightarrow> Inl (Exn AttributeError ''object has no attribute get''))"

subsection \<open>The environment\<close>

record yunohost_call =
  yc_module :: string
  yc_function :: string
  yc_args :: "json list"
  yc_kwargs :: dict

record process_output =
  po_returncode :: int
  po_stdout :: string
  po_stderr :: string

text \<open>The configured broker, fake mode, the functions of YunoHost called in this process and through
  the system's interpreter (the interface, then the call), the failure context, text redaction, the
  configured tail of a log, the free disk space, the clock, which exceptions are a \<open>YunohostError\<close>, and the HTTP probe.\<close>

record 'y adapter_env =
  ad_broker :: "(string \<Rightarrow> dict \<Rightarrow> ('y, json) step) option"
  ad_fake :: bool
  ad_libs :: libs
  ad_fmt :: "json \<Rightarrow> string"
  ad_import :: "yunohost_call \<Rightarrow> ('y, json) step"
  ad_interpreter :: "string \<Rightarrow> yunohost_call \<Rightarrow> ('y, process_output) step"
  ad_failure_context :: "'y \<Rightarrow> string"
  ad_redact_text :: "string \<Rightarrow> string"
  ad_log_tail :: int
  ad_disk_free :: "string \<Rightarrow> ('y, int) step"
  ad_now_ns :: "'y \<Rightarrow> int"
  ad_yunohost_error :: "exn \<Rightarrow> bool"
  ad_probe :: "string \<Rightarrow> ('y, json) step"

type_synonym 'y adapter_method = "'y adapter_env \<Rightarrow> dict \<Rightarrow> ('y, json) step"

definition in_process :: "'y adapter_env \<Rightarrow> string \<Rightarrow> string \<Rightarrow> json list \<Rightarrow> dict \<Rightarrow> ('y, json) step" where
  "in_process A m f args kwargs = ad_import A \<lparr>yc_module = m, yc_function = f, yc_args = args, yc_kwargs = kwargs\<rparr>"

definition last_chars :: "nat \<Rightarrow> string \<Rightarrow> string" where
  "last_chars n s = drop (length s - n) s"

definition system_python ::
  "'y adapter_env \<Rightarrow> string \<Rightarrow> string \<Rightarrow> string \<Rightarrow> dict \<Rightarrow> ('y, json) step" where
  "system_python A interface m f kwargs =
     and_then (ad_interpreter A interface \<lparr>yc_module = m, yc_function = f, yc_args = [], yc_kwargs = kwargs\<rparr>) (\<lambda>out s.
       if po_returncode out \<noteq> 0 then
         (let failure = ad_failure_context A s
          in (s, Inl (Exn YunohostUnavailableError
               (m @ ''.'' @ f @ '' failed in the system-python subprocess (exit '' @ show_int (po_returncode out) @ ''): '' @
                last_chars 4000 (po_stderr out) @
                (if failure = [] then []
                 else [char_of (10 :: nat)] @ ''Recent YunoHost operation context:'' @ [char_of (10 :: nat)] @ failure)))))
       else (case json_loads (ad_libs A) (po_stdout out) of
           Inl _ \<Rightarrow> (s, Inl (Exn YunohostUnavailableError
             (m @ ''.'' @ f @ '' produced non-JSON output from the system-python subprocess: '' @ last_chars 2000 (po_stdout out))))
         | Inr v \<Rightarrow> (s, Inr v)))"

text \<open>The newest entry of the operation log; every failure to read it is \<open>None\<close>.\<close>

definition latest_operation_id :: "'y adapter_env \<Rightarrow> ('y, json) step" where
  "latest_operation_id A =
     catching (and_then (in_process A ''yunohost.log'' ''log_list'' [] [(''limit'', JInt 1)]) (\<lambda>v.
        and_then (ret (get_or v ''operation'' (JList []))) (\<lambda>operations.
        ret (case operations of
            JList (JObj d # _) \<Rightarrow> (case map_of d ''name'' of None \<Rightarrow> Inl (Exn KeyError ''name'') | Some n \<Rightarrow> Inr n)
          | v \<Rightarrow> if truthy v then Inl (Exn TypeError ''not an operation list'') else Inr JNull))))
       (\<lambda>_. Some (ret (Inr JNull)))"

text \<open>The arguments that go to the broker: the named parameters with their values.\<close>

definition sent :: "dict \<Rightarrow> string list \<Rightarrow> dict" where
  "sent b ks = map (\<lambda>k. (k, dget b k)) ks"

definition dispatch ::
  "'y adapter_env \<Rightarrow> string \<Rightarrow> dict \<Rightarrow> dict \<Rightarrow> ('y, json) step \<Rightarrow> ('y, json) step" where
  "dispatch A op arguments fake run =
     (case ad_broker A of
        Some call \<Rightarrow> call op arguments
      | None \<Rightarrow> if ad_fake A then answer fake else run)"

definition checked :: "exn + unit \<Rightarrow> ('y, json) step \<Rightarrow> ('y, json) step" where
  "checked c m = and_then (ret c) (\<lambda>_. m)"

subsection \<open>What several methods use\<close>

text \<open>\<open>int(value)\<close> of a JSON number or text.\<close>

definition as_int :: "json \<Rightarrow> exn + json" where
  "as_int v = (case v of
      JInt i \<Rightarrow> Inr (JInt i)
    | JBool x \<Rightarrow> Inr (JInt (if x then 1 else 0))
    | JFloat r \<Rightarrow> Inr (JInt (py_trunc r))
    | JStr s \<Rightarrow> (case parse_int s of Some i \<Rightarrow> Inr (JInt i)
        | None \<Rightarrow> Inl (Exn ValueError (''invalid literal for int() with base 10: '' @ py_repr s)))
    | _ \<Rightarrow> Inl (Exn TypeError ''int() argument must be a string or a number''))"

text \<open>\<open>next((a for a in apps if a.get("id") == app), None)\<close>, and a field of what it found.\<close>

fun first_with_id :: "json \<Rightarrow> json list \<Rightarrow> exn + dict option" where
  "first_with_id app [] = Inr None"
| "first_with_id app (a # rest) =
     ebind (get_or a ''id'' JNull) (\<lambda>i.
       if i = app then Inr (Some (case a of JObj d \<Rightarrow> d | _ \<Rightarrow> [])) else first_with_id app rest)"

definition match_field :: "dict option \<Rightarrow> string \<Rightarrow> json" where
  "match_field match k = (case match of None \<Rightarrow> JNull | Some d \<Rightarrow> dget d k)"

text \<open>\<open>certificate_status(...).get("certificates", {}).get(domain, {})\<close>, the CA that was asked for, and the
  ACME error to report: a certificate that is in place overrides the exception, one that is not
  is an error without an exception.\<close>

definition certificate_of :: "json \<Rightarrow> json \<Rightarrow> ('y, json) step" where
  "certificate_of status domain =
     ret (ebind (get_or status ''certificates'' (JObj [])) (\<lambda>certificates. get_or certificates (text_of domain) (JObj [])))"

definition requested_ca :: "dict \<Rightarrow> json" where
  "requested_ca b = JStr (if truthy (dget b ''letsencrypt'') then ''letsencrypt'' else ''selfsigned'')"

definition acme_outcome :: "'y adapter_env \<Rightarrow> bool \<Rightarrow> json \<Rightarrow> json \<Rightarrow> exn + json" where
  "acme_outcome A letsencrypt certificate raised =
     (if \<not> letsencrypt then Inr raised
      else ebind (get_or certificate ''CA_type'' JNull) (\<lambda>ca.
        if raised \<noteq> JNull then Inr (if ca = JStr ''letsencrypt'' then JNull else raised)
        else if ca = JStr ''letsencrypt'' then Inr JNull
        else ebind (get_or certificate ''CA_type'' (JStr ''unknown'')) (\<lambda>shown.
          Inr (JStr (''certificate_install() returned without raising, but the certificate is still '' @
            py_repr_value (ad_fmt A) shown @ ''. YunoHost'' @ [char_of (39 :: nat)] @ ''s certmanager silently skips '' @
            ''a domain that fails its pre-ACME readiness check '' @
            ''(yunohost.certificate._check_domain_is_ready_for_ACME) instead of raising - most '' @
            ''commonly because no diagnosis result yet exists for that domain'' @ [char_of (39 :: nat)] @ ''s '' @
            [char_of (39 :: nat)] @ ''DNS records'' @ [char_of (39 :: nat)] @ '' and '' @ [char_of (39 :: nat)] @ ''Web'' @
            [char_of (39 :: nat)] @ '' categories (always true right after domain_add). Run diagnosis_run for '' @
            ''those categories (or wait for the next scheduled diagnosis) and retry.'')))))"

text \<open>\<open>sorted(set(resources.keys()) - known_types)\<close>.\<close>

definition unknown_keys :: "json \<Rightarrow> json \<Rightarrow> exn + json" where
  "unknown_keys resources known =
     (case (resources, known) of
        (JObj r, JObj k) \<Rightarrow> Inr (JList (map JStr (sort (remdups (filter (\<lambda>x. x \<notin> set (dkeys k)) (dkeys r))))))
      | _ \<Rightarrow> Inl (Exn AttributeError ''object has no attribute keys''))"

subsection \<open>Calling a method\<close>

text \<open>A signature: the parameters that may be given by position, then the keyword-only ones, each with
  its default. \<open>bind_arguments\<close> is Python's binding of one call.\<close>

record signature =
  sg_params :: "(string \<times> json option) list"
  sg_keyword_only :: "(string \<times> json option) list"

definition sg_names :: "signature \<Rightarrow> string list" where
  "sg_names sg = map fst (sg_params sg @ sg_keyword_only sg)"

definition bind_arguments :: "signature \<Rightarrow> json list \<Rightarrow> dict \<Rightarrow> exn + dict" where
  "bind_arguments sg args kwargs =
     (let given = zip (map fst (sg_params sg)) args
      in ebind (guard (length args \<le> length (sg_params sg)) (Exn TypeError ''too many positional arguments'')) (\<lambda>_.
         ebind (guard (list_all (\<lambda>k. k \<in> set (sg_names sg)) (dkeys kwargs)) (Exn TypeError ''unexpected keyword argument'')) (\<lambda>_.
         ebind (guard (list_all (\<lambda>k. k \<notin> set (map fst given)) (dkeys kwargs)) (Exn TypeError ''multiple values for argument'')) (\<lambda>_.
         emap (\<lambda>(k, dflt).
             case map_of (given @ kwargs) k of
               Some v \<Rightarrow> Inr (k, v)
             | None \<Rightarrow> (case dflt of Some v \<Rightarrow> Inr (k, v) | None \<Rightarrow> Inl (Exn TypeError ''missing required argument'')))
           (sg_params sg @ sg_keyword_only sg)))))"

end
