(* ===== verification/Adapter_Reads.thy ===== *)
theory Adapter_Reads
  imports Adapter
begin

text \<open>
  The methods of the adapter that read, in the order of \<^verbatim>\<open>yunohost/adapter.py\<close> within each group.  An attribute of a
  module that is no function is read by \<open>in_process\<close> with no arguments.
\<close>

definition adapter_server_info :: "'y adapter_method" where
  "adapter_server_info A b = dispatch A ''server.info'' []
       [(''fake'', JBool True), (''yunohost'', JObj [(''version'', JStr ''12.0.0''), (''repo'', JStr ''stable'')]),
          (''moulinette'', JObj [(''version'', JStr ''12.0.0''), (''repo'', JStr ''stable'')]),
          (''ssowat'', JObj [(''version'', JStr ''12.0.0''), (''repo'', JStr ''stable'')])]
       (and_then (in_process A ''yunohost.tools'' ''tools_versions'' [] []) (\<lambda>found.
        spread [(''fake'', JBool False)] found))"

definition adapter_health_check :: "'y adapter_method" where
  "adapter_health_check A b = dispatch A ''health.check'' []
       [(''fake'', JBool True), (''categories'', JList [JObj [(''id'', JStr ''ip''), (''status'', JStr ''SUCCESS''),
          (''summary'', JStr ''IPv4 and IPv6 reachable'')], JObj [(''id'', JStr ''dnsrecords''),
          (''status'', JStr ''SUCCESS''), (''summary'', JStr ''DNS records look good'')], JObj [(''id'',
          JStr ''services''), (''status'', JStr ''SUCCESS''), (''summary'', JStr ''All services running'')]])]
       (and_then (in_process A ''yunohost.diagnosis'' ''diagnosis_show'' [] []) (\<lambda>found.
        spread [(''fake'', JBool False)] found))"

definition adapter_diagnosis_get :: "'y adapter_method" where
  "adapter_diagnosis_get A b = adapter_health_check A []"

definition adapter_diagnosis_run :: "'y adapter_method" where
  "adapter_diagnosis_run A b = dispatch A ''diagnosis.run'' (sent b [''categories'', ''force''])
       [(''fake'', JBool True), (''categories_run'', py_or (dget b ''categories'') (JList [JStr ''ip'',
          JStr ''dnsrecords'', JStr ''services'']))]
       (and_then (system_python A ''cli'' ''yunohost.diagnosis'' ''diagnosis_run'' [(''categories'', py_or
          (dget b ''categories'') (JList [])), (''force'', dget b ''force'')]) (\<lambda>result.
        and_then (latest_operation_id A) (\<lambda>op.
        spread [(''fake'', JBool False), (''operation_id'', op)] (py_or result (JObj [])))))"

definition adapter_services_list :: "'y adapter_method" where
  "adapter_services_list A b =
     (case ad_broker A of
        Some call \<Rightarrow> and_then (call ''services.status'' [(''names'', JList [])]) (\<lambda>brokered.
          and_then (ret (get_or brokered ''services'' brokered)) (\<lambda>services. answer [(''services'', services)]))
      | None \<Rightarrow>
          if ad_fake A then answer [(''fake'', JBool True), (''services'', JObj
            [(''nginx'', JObj [(''status'', JStr ''running''), (''start_on_boot'', JStr ''enabled'')]),
             (''yunohost-api'', JObj [(''status'', JStr ''running''), (''start_on_boot'', JStr ''enabled'')])])]
          else and_then (in_process A ''yunohost.service'' ''service_status'' [JList []] []) (\<lambda>found.
            answer [(''fake'', JBool False), (''services'', found)]))"

definition adapter_service_status :: "'y adapter_method" where
  "adapter_service_status A b = dispatch A ''services.status'' (sent b [''names''])
       [(''fake'', JBool True), (''services'', JObj (map (\<lambda>name. (text_of name, JObj [(''status'',
          JStr ''running'')]))
          (case dget b ''names'' of JList names \<Rightarrow> names | _ \<Rightarrow> [])))]
       (and_then (in_process A ''yunohost.service'' ''service_status'' [dget b ''names''] []) (\<lambda>found.
        answer [(''fake'', JBool False), (''services'', found)]))"

definition adapter_operations_list :: "'y adapter_method" where
  "adapter_operations_list A b = dispatch A ''operations.list'' (sent b [''limit'', ''with_suboperations''])
       [(''fake'', JBool True), (''operation'', JList [JObj [(''name'', JStr ''20260901-120000-app_install''),
          (''description'', JStr ''Install nextcloud''), (''success'', JBool True),
          (''started_at'', JStr ''2026-09-01T12:00:00'')]])]
       (and_then (in_process A ''yunohost.log'' ''log_list'' [] [(''limit'', dget b ''limit''),
          (''with_suboperations'', dget b ''with_suboperations'')]) (\<lambda>found.
        spread [(''fake'', JBool False)] found))"

definition adapter_operation_logs :: "'y adapter_method" where
  "adapter_operation_logs A b = dispatch A ''operation.logs'' (sent b [''name'', ''tail_lines''])
       [(''fake'', JBool True), (''name'', dget b ''name''), (''success'', JBool True),
          (''started_at'', JStr ''2026-09-01T12:00:00''),
        (''log'', JStr (''fake log content for '' @ text_of (dget b ''name'')))]
       (and_then (in_process A ''yunohost.log'' ''log_show'' [dget b ''name'']
          [(''number'', if dget b ''tail_lines'' \<noteq> JNull then dget b ''tail_lines'' else JInt (ad_log_tail A))])
             (\<lambda>result.
        and_then (ret (get_or result ''logs'' JNull)) (\<lambda>logs.
        and_then (case logs of
            JList lines \<Rightarrow> spread (case result of JObj d \<Rightarrow> d | _ \<Rightarrow> [])
              (JObj [(''logs'', JList (map (\<lambda>line. case line of JStr s \<Rightarrow> JStr
                 (ad_redact_text A s) | v \<Rightarrow> v) lines))])
          | _ \<Rightarrow> ret (Inr result)) (\<lambda>shown.
        spread [(''fake'', JBool False)] shown))))"

definition adapter_operation_status :: "'y adapter_method" where
  "adapter_operation_status A b =
     (case ad_broker A of
        Some call \<Rightarrow> call ''operation.status'' (sent b [''name''])
      | None \<Rightarrow> adapter_operation_logs A [(''name'', dget b ''name''), (''tail_lines'', JNull)])"

definition adapter_free_space_bytes :: "'y adapter_method" where
  "adapter_free_space_bytes A b =
     (case ad_broker A of
        Some call \<Rightarrow> and_then (call ''system.free_space'' (sent b [''path''])) (\<lambda>brokered.
          ret (case brokered of
              JObj d \<Rightarrow> (case map_of d ''free_bytes'' of
                  None \<Rightarrow> Inl (Exn KeyError (py_repr ''free_bytes''))
                | Some v \<Rightarrow> as_int v)
            | _ \<Rightarrow> Inl (Exn TypeError ''not subscriptable'')))
      | None \<Rightarrow> if ad_fake A then ret (Inr (JInt 100000000000))
          else and_then (ad_disk_free A (text_of (dget b ''path''))) (\<lambda>n. ret (Inr (JInt n))))"

definition adapter_updates_check :: "'y adapter_method" where
  "adapter_updates_check A b = dispatch A ''updates.check'' []
       [(''fake'', JBool True), (''apps'', JList [JObj [(''id'', JStr ''nextcloud''),
          (''current_version'', JStr ''28.0.1~ynh1''), (''new_version'', JStr ''28.0.2~ynh1'')]]), (''system'', JList [])]
       (and_then (in_process A ''yunohost.tools'' ''tools_update_norefresh'' [] []) (\<lambda>found.
        spread [(''fake'', JBool False)] found))"

definition adapter_plan_app_upgrade :: "'y adapter_method" where
  "adapter_plan_app_upgrade A b =
     and_then (adapter_updates_check A []) (\<lambda>updates.
     and_then (ret (get_or updates ''apps'' (JList []))) (\<lambda>apps.
     and_then (ret (first_with_id (dget b ''app'') (case apps of JList xs \<Rightarrow> xs | _ \<Rightarrow> [])))
        (\<lambda>match.
     and_then (ret (get_or updates ''fake'' (JBool False))) (\<lambda>fake.
     answer [(''fake'', fake), (''app'', dget b ''app''), (''upgradable'', JBool (match \<noteq> None)),
       (''current_version'', match_field match ''current_version''),
          (''target_version'', match_field match ''new_version'')]))))"

definition adapter_updates_refresh :: "'y adapter_method" where
  "adapter_updates_refresh A b = checked (guard (dget b ''target'' \<in> {JStr ''system'', JStr ''apps'', JStr ''all''})
        (Exn ToolInputError (''target must be one of '' @ py_repr_list [''all'', ''apps'', ''system''] @ '', got ''
           @ py_repr_value (ad_fmt A) (dget b ''target''))))
      (dispatch A ''updates.refresh'' (sent b [''target''])
       [(''fake'', JBool True), (''target'', dget b ''target''), (''apps'', JList [JObj [(''id'', JStr ''nextcloud''),
          (''current_version'', JStr ''28.0.1~ynh1''), (''new_version'', JStr ''28.0.2~ynh1'')]]), (''system'', JList [])]
       (and_then (system_python A ''api'' ''yunohost.tools'' ''tools_update'' [(''target'', dget b ''target'')])
          (\<lambda>result.
        spread [(''fake'', JBool False), (''target'', dget b ''target'')] (result))))"

definition adapter_migrations_list :: "'y adapter_method" where
  "adapter_migrations_list A b = dispatch A ''migrations.list'' (sent b [''pending'', ''done''])
       [(''fake'', JBool True), (''migrations'', JList [])]
       (and_then (in_process A ''yunohost.tools'' ''tools_migrations_list'' [] [(''pending'', dget b ''pending''),
          (''done'', dget b ''done'')]) (\<lambda>found.
        spread [(''fake'', JBool False)] found))"

definition adapter_migrations_state :: "'y adapter_method" where
  "adapter_migrations_state A b = dispatch A ''migrations.state'' []
       [(''fake'', JBool True), (''migrations'', JObj [])]
       (and_then (in_process A ''yunohost.tools'' ''tools_migrations_state'' [] []) (\<lambda>found.
        spread [(''fake'', JBool False)] found))"

definition adapter_settings_list :: "'y adapter_method" where
  "adapter_settings_list A b = dispatch A ''settings.list'' (sent b [''full''])
       [(''fake'', JBool True), (''settings'', JObj [])]
       (and_then (system_python A ''api'' ''yunohost.settings'' ''settings_list'' [(''full'', dget b ''full'')])
          (\<lambda>result.
        answer [(''fake'', JBool False), (''settings'', result)]))"

definition adapter_settings_get :: "'y adapter_method" where
  "adapter_settings_get A b = dispatch A ''settings.get'' (sent b [''key'', ''full''])
       [(''fake'', JBool True), (''key'', dget b ''key''), (''value'', JNull)]
       (and_then (system_python A ''api'' ''yunohost.settings'' ''settings_get'' [(''key'', dget b ''key''),
          (''full'', dget b ''full'')]) (\<lambda>got.
        answer [(''fake'', JBool False), (''key'', dget b ''key''), (''value'', got)]))"

definition adapter_regenconf_pending :: "'y adapter_method" where
  "adapter_regenconf_pending A b = dispatch A ''regenconf.pending'' (sent b [''names'', ''with_diff''])
       [(''fake'', JBool True), (''pending'', JObj [])]
       (and_then (system_python A ''api'' ''yunohost.regenconf'' ''regen_conf'' [(''names'', py_or (dget b ''names'')
          (JList [])), (''with_diff'', dget b ''with_diff''), (''list_pending'', JBool True)]) (\<lambda>result.
        answer [(''fake'', JBool False), (''pending'', result)]))"

definition adapter_firewall_list :: "'y adapter_method" where
  "adapter_firewall_list A b = dispatch A ''firewall.list'' (sent b [''raw'', ''protocol'', ''forwarded''])
       (dset [(''fake'', JBool True)] (text_of (dget b ''protocol'')) (JList []))
       (and_then (in_process A ''yunohost.firewall'' ''firewall_list'' [] [(''raw'', dget b ''raw''),
          (''protocol'', dget b ''protocol''),
          (''forwarded'', dget b ''forwarded'')]) (\<lambda>found.
        spread [(''fake'', JBool False)] found))"

definition adapter_firewall_is_open :: "'y adapter_method" where
  "adapter_firewall_is_open A b = dispatch A ''firewall.is_open'' (sent b [''port'', ''protocol''])
       [(''fake'', JBool True), (''port'', dget b ''port''), (''protocol'', dget b ''protocol''), (''open'', JBool False)]
       (and_then (in_process A ''yunohost.firewall'' ''firewall_is_open'' [dget b ''port'', dget b ''protocol''] [])
          (\<lambda>found.
        answer [(''fake'', JBool False), (''port'', dget b ''port''), (''protocol'', dget b ''protocol''),
           (''open'', found)]))"

definition adapter_apps_list :: "'y adapter_method" where
  "adapter_apps_list A b = dispatch A ''apps.list'' (sent b [''full''])
       [(''fake'', JBool True), (''apps'', JList [JObj ([(''id'', JStr ''nextcloud''), (''name'', JStr ''Nextcloud''),
          (''version'', JStr ''28.0.1~ynh1'')] @
          (if truthy (dget b ''full'') then [(''description'', JStr ''Self-hosted productivity platform'')] else []))])]
       (and_then (in_process A ''yunohost.app'' ''app_list'' [] [(''full'', dget b ''full'')]) (\<lambda>found.
        spread [(''fake'', JBool False)] found))"

definition adapter_app_info :: "'y adapter_method" where
  "adapter_app_info A b = dispatch A ''app.info'' (sent b [''app'', ''full''])
       ([(''fake'', JBool True), (''id'', dget b ''app''), (''name'', dget b ''app''), (''version'', JStr ''1.0~ynh1''),
         (''upgradable'', JBool False)] @
        (if truthy (dget b ''full'') then
          [(''settings'', JObj [(''domain'', JStr ''example.com''),
              (''path'', JStr (''/'' @ py_str (ad_fmt A) (dget b ''app''))),
              (''_permissions'', JObj [(py_str (ad_fmt A) (dget b ''app'') @ ''.main'',
                 JObj [(''allowed'', JList [JStr ''all_users''])])])]),
           (''manifest'', JObj [(''id'', dget b ''app''), (''version'', JStr ''1.0~ynh1'')])]
         else []))
       (and_then (in_process A ''yunohost.app'' ''app_info'' [dget b ''app''] [(''full'', dget b ''full'')])
          (\<lambda>found.
        spread [(''fake'', JBool False)] found))"

definition adapter_app_resources :: "'y adapter_method" where
  "adapter_app_resources A b =
     (case ad_broker A of
        Some call \<Rightarrow> call ''app.resources'' (sent b [''app''])
      | None \<Rightarrow>
          and_then (adapter_app_info A [(''app'', dget b ''app''), (''full'', JBool True)]) (\<lambda>info.
          and_then (ret (get_or info ''manifest'' JNull)) (\<lambda>found.
          and_then (ret (get_or (py_or found (JObj [])) ''resources'' JNull)) (\<lambda>resources.
          and_then (if resources = JNull then ret (get_or info ''resources'' (JObj [])) else ret (Inr resources))
             (\<lambda>listed.
          answer [(''fake'', JBool (ad_fake A)), (''app'', dget b ''app''), (''resources'', listed)])))))"

definition adapter_app_config_get :: "'y adapter_method" where
  "adapter_app_config_get A b = dispatch A ''app.config_get'' (sent b [''app'', ''key'', ''full'', ''export''])
       [(''fake'', JBool True), (''app'', dget b ''app''), (''key'', dget b ''key''), (''config'', JObj [])]
       (and_then (system_python A ''api'' ''yunohost.app'' ''app_config_get'' [(''app'', dget b ''app''),
          (''key'', dget b ''key''), (''full'', dget b ''full''), (''export'', dget b ''export'')]) (\<lambda>result.
        answer [(''fake'', JBool False), (''app'', dget b ''app''), (''key'', dget b ''key''), (''config'', result)]))"

definition adapter_app_setting_get :: "'y adapter_method" where
  "adapter_app_setting_get A b = dispatch A ''app.setting_get'' (sent b [''app'', ''key''])
       [(''fake'', JBool True), (''app'', dget b ''app''), (''key'', dget b ''key''), (''value'', JNull)]
       (and_then (in_process A ''yunohost.app'' ''app_setting'' [dget b ''app'', dget b ''key''] []) (\<lambda>found.
        answer [(''fake'', JBool False), (''app'', dget b ''app''), (''key'', dget b ''key''), (''value'', found)]))"

definition adapter_domains_list :: "'y adapter_method" where
  "adapter_domains_list A b = dispatch A ''domains.list'' []
       [(''fake'', JBool True), (''domains'', JList [JStr ''example.com'']), (''main'', JStr ''example.com'')]
       (and_then (system_python A ''api'' ''yunohost.domain'' ''domain_list'' []) (\<lambda>found.
        spread [(''fake'', JBool False)] found))"

definition adapter_domain_cert_info :: "'y adapter_method" where
  "adapter_domain_cert_info A b = dispatch A ''domain.certificate_info'' (sent b [''domain''])
       [(''fake'', JBool True), (''domain'', dget b ''domain''), (''certificate'', JObj [(''CA_name'', JStr ''Fake CA''),
          (''CA_type'', JStr ''selfsigned''), (''validity'', JInt 3650), (''style'', JStr ''warning''),
             (''summary'', JStr ''selfsigned''),
          (''ACME_eligible'', JBool True), (''has_wildcards'', JBool False)])]
       (and_then (in_process A ''yunohost.certificate'' ''certificate_status'' [JList [dget b ''domain'']] [(''full'',
          JBool True)]) (\<lambda>status.
        and_then (certificate_of status (dget b ''domain'')) (\<lambda>certificate.
        answer [(''fake'', JBool False), (''domain'', dget b ''domain''), (''certificate'', certificate)])))"

definition adapter_domain_dns_suggest :: "'y adapter_method" where
  "adapter_domain_dns_suggest A b = dispatch A ''domain.dns_suggest'' (sent b [''domain''])
       [(''fake'', JBool True), (''domain'', dget b ''domain''),
          (''dns_conf'', JStr (''; Basic ipv4/ipv6 records'' @ [char_of (10 :: nat)] @ ''@ 3600 IN A 203.0.113.1''))]
       (and_then (system_python A ''api'' ''yunohost.dns'' ''domain_dns_suggest'' [(''domain'', dget b ''domain'')])
          (\<lambda>dns_conf.
        answer [(''fake'', JBool False), (''domain'', dget b ''domain''), (''dns_conf'', dns_conf)]))"

definition adapter_domain_dns_push_preview :: "'y adapter_method" where
  "adapter_domain_dns_push_preview A b = dispatch A ''domain.dns_push_preview'' (sent b [''domain'', ''force'', ''purge''])
       [(''fake'', JBool True), (''domain'', dget b ''domain''), (''changes'', JObj [(''create'', JList []),
          (''update'', JList []), (''delete'', JList []), (''unchanged'', JList [])])]
       (and_then (system_python A ''api'' ''yunohost.dns'' ''domain_dns_push'' [(''domain'', dget b ''domain''),
          (''dry_run'', JBool True), (''force'', dget b ''force''), (''purge'', dget b ''purge'')]) (\<lambda>diff.
        answer [(''fake'', JBool False), (''domain'', dget b ''domain''), (''changes'', diff)]))"

definition adapter_users_list :: "'y adapter_method" where
  "adapter_users_list A b = dispatch A ''users.list'' []
       [(''fake'', JBool True), (''users'', JObj [(''alice'', JObj [(''fullname'', JStr ''Alice Example''),
          (''mail'', JStr ''alice@example.com'')])])]
       (and_then (system_python A ''api'' ''yunohost.user'' ''user_list'' []) (\<lambda>found.
        spread [(''fake'', JBool False)] found))"

definition adapter_user_group_list :: "'y adapter_method" where
  "adapter_user_group_list A b = dispatch A ''user.groups'' []
       [(''fake'', JBool True), (''groups'', JObj [(''all_users'', JObj [(''members'', JList [JStr ''alice''])])])]
       (and_then (system_python A ''api'' ''yunohost.user'' ''user_group_list'' []) (\<lambda>found.
        spread [(''fake'', JBool False)] found))"

definition adapter_user_permission_list :: "'y adapter_method" where
  "adapter_user_permission_list A b = dispatch A ''user.permissions'' []
       [(''fake'', JBool True), (''permissions'', JObj [(''myapp.main'', JObj [(''allowed'', JList
          [JStr ''all_users''])])])]
       (and_then (system_python A ''api'' ''yunohost.user'' ''user_permission_list'' [(''full'', JBool True)])
          (\<lambda>found.
        spread [(''fake'', JBool False)] found))"

definition adapter_user_permission_info :: "'y adapter_method" where
  "adapter_user_permission_info A b = dispatch A ''user.permission_info'' (sent b [''permission''])
       [(''fake'', JBool True), (''permission'', dget b ''permission''),
          (''info'', JObj [(''allowed'', JList [JStr ''all_users''])])]
       (and_then (system_python A ''api'' ''yunohost.user'' ''user_permission_info'' [(''permission'',
          dget b ''permission'')]) (\<lambda>found.
        answer [(''fake'', JBool False), (''permission'', dget b ''permission''), (''info'', found)]))"

definition adapter_backups_list :: "'y adapter_method" where
  "adapter_backups_list A b = dispatch A ''backups.list'' []
       [(''fake'', JBool True), (''archives'', JList [JStr ''20260901-000000''])]
       (and_then (in_process A ''yunohost.backup'' ''backup_list'' [] []) (\<lambda>found.
        spread [(''fake'', JBool False)] found))"

definition adapter_backup_info :: "'y adapter_method" where
  "adapter_backup_info A b = dispatch A ''backup.info'' (sent b [''name'', ''with_details''])
       [(''fake'', JBool True), (''name'', dget b ''name''),
          (''path'', JStr (''/home/yunohost.backup/archives/'' @ py_str (ad_fmt A) (dget b ''name'') @ ''.tar.gz'')),
          (''size'', JInt 0)]
       (and_then (in_process A ''yunohost.backup'' ''backup_info'' [dget b ''name''] [(''with_details'',
          dget b ''with_details'')]) (\<lambda>found.
        spread [(''fake'', JBool False), (''name'', dget b ''name'')] found))"

definition adapter_package_inspect :: "'y adapter_method" where
  "adapter_package_inspect A b = dispatch A ''package.inspect'' (sent b [''source''])
       [(''fake'', JBool True), (''id'', JStr ''example''), (''packaging_format'', JInt 2),
        (''resources'', JObj [(''system_user'', JObj []), (''install_dir'', JObj []), (''permissions'', JObj [])]),
        (''unknown_resource_types'', JList [])]
       (and_then (system_python A ''api'' ''yunohost.app'' ''app_manifest'' [(''app'', dget b ''source'')])
          (\<lambda>manifest.
        and_then (ret (get_or manifest ''resources'' (JObj []))) (\<lambda>resources.
        and_then (catching
            (and_then (in_process A ''yunohost.utils.resources'' ''AppResourceClassesByType'' [] []) (\<lambda>known.
              ret (unknown_keys resources known)))
            (\<lambda>e. if exn_cls e = YunohostUnavailableError then Some (ret (Inr (JList []))) else None))
               (\<lambda>unknown.
        and_then (spread [(''fake'', JBool False)] manifest) (\<lambda>merged.
        spread (case merged of JObj d \<Rightarrow> d | _ \<Rightarrow> []) (JObj [(''unknown_resource_types'',
           unknown)]))))))"

end
