(* ===== verification/Adapter_Writes.thy ===== *)
theory Adapter_Writes
  imports Adapter_Reads
begin

text \<open>
  The methods of the adapter that change the system.
\<close>

definition adapter_app_config_set :: "'y adapter_method" where
  "adapter_app_config_set A b = dispatch A ''app.config_set'' (sent b [''app'', ''key'', ''value'', ''confirmation_id''])
       [(''fake'', JBool True), (''operation_id'', JStr ''20260903-000000-app_config_set''), (''app'', dget b ''app''),
          (''key'', dget b ''key''), (''value'', dget b ''value'')]
       (and_then (system_python A ''api'' ''yunohost.app'' ''app_config_set'' [(''app'', dget b ''app''),
          (''key'', dget b ''key''), (''value'', dget b ''value'')]) (\<lambda>_.
        and_then (latest_operation_id A) (\<lambda>op.
        answer [(''fake'', JBool False), (''operation_id'', op), (''app'', dget b ''app''), (''key'', dget b ''key''),
           (''value'', dget b ''value'')])))"

definition adapter_app_setting_set :: "'y adapter_method" where
  "adapter_app_setting_set A b =
     checked (guard ((dget b ''value'' = JNull) \<noteq> (\<not> truthy (dget b ''delete'')))
        (Exn ValueError ''exactly one of value or delete=True must be given''))
      (dispatch A ''app.setting_set'' (sent b [''app'', ''key'', ''value'', ''delete'', ''confirmation_id''])
       [(''fake'', JBool True), (''app'', dget b ''app''), (''key'', dget b ''key''), (''value'', dget b ''value''),
        (''deleted'', dget b ''delete'')]
       (and_then (if truthy (dget b ''delete'')
            then in_process A ''yunohost.app'' ''app_setting'' [dget b ''app'', dget b ''key''] [(''delete'', JBool True)]
            else in_process A ''yunohost.app'' ''app_setting'' [dget b ''app'', dget b ''key'', dget b ''value''] [])
               (\<lambda>_.
        answer [(''fake'', JBool False), (''app'', dget b ''app''), (''key'', dget b ''key''),
           (''value'', dget b ''value''),
          (''deleted'', dget b ''delete'')])))"

definition adapter_user_create :: "'y adapter_method" where
  "adapter_user_create A b = dispatch A ''user.create'' (sent b [''username'', ''domain'', ''password'', ''fullname'',
     ''mailbox_quota'', ''admin'', ''confirmation_id''])
       [(''fake'', JBool True), (''operation_id'', JStr ''20260903-000000-user_create''),
          (''username'', dget b ''username'')]
       (and_then (in_process A ''yunohost.user'' ''user_create'' [] [(''username'', dget b ''username''),
          (''domain'', dget b ''domain''), (''password'', dget b ''password''), (''fullname'', dget b ''fullname''),
          (''mailbox_quota'', dget b ''mailbox_quota''), (''admin'', dget b ''admin'')]) (\<lambda>result.
        and_then (latest_operation_id A) (\<lambda>op.
        answer [(''fake'', JBool False), (''operation_id'', op), (''username'', dget b ''username''),
           (''result'', result)])))"

definition adapter_user_update :: "'y adapter_method" where
  "adapter_user_update A b = dispatch A ''user.update'' (sent b [''username'', ''mail'', ''change_password'',
     ''add_mailforward'', ''remove_mailforward'', ''add_mailalias'', ''remove_mailalias'', ''mailbox_quota'', ''fullname'',
     ''confirmation_id''])
       [(''fake'', JBool True), (''operation_id'', JStr ''20260903-000000-user_update''),
          (''username'', dget b ''username'')]
       (and_then (in_process A ''yunohost.user'' ''user_update'' [] [(''username'', dget b ''username''),
          (''mail'', dget b ''mail''), (''change_password'', dget b ''change_password''),
          (''add_mailforward'', dget b ''add_mailforward''), (''remove_mailforward'', dget b ''remove_mailforward''),
          (''add_mailalias'', dget b ''add_mailalias''), (''remove_mailalias'', dget b ''remove_mailalias''),
          (''mailbox_quota'', dget b ''mailbox_quota''), (''fullname'', dget b ''fullname'')]) (\<lambda>result.
        and_then (latest_operation_id A) (\<lambda>op.
        answer [(''fake'', JBool False), (''operation_id'', op), (''username'', dget b ''username''),
           (''result'', result)])))"

definition adapter_user_delete :: "'y adapter_method" where
  "adapter_user_delete A b = dispatch A ''user.delete'' (sent b [''username'', ''purge'', ''confirmation_id''])
       [(''fake'', JBool True), (''operation_id'', JStr ''20260903-000000-user_delete''),
          (''username'', dget b ''username'')]
       (and_then (system_python A ''api'' ''yunohost.user'' ''user_delete'' [(''username'', dget b ''username''),
          (''purge'', dget b ''purge'')]) (\<lambda>result.
        and_then (latest_operation_id A) (\<lambda>op.
        answer [(''fake'', JBool False), (''operation_id'', op), (''username'', dget b ''username''),
           (''result'', result)])))"

definition adapter_user_group_create :: "'y adapter_method" where
  "adapter_user_group_create A b = dispatch A ''user.group_create'' (sent b [''groupname'', ''confirmation_id''])
       [(''fake'', JBool True), (''operation_id'', JStr ''20260903-000000-user_group_create''),
          (''groupname'', dget b ''groupname'')]
       (and_then (in_process A ''yunohost.user'' ''user_group_create'' [] [(''groupname'', dget b ''groupname'')])
          (\<lambda>result.
        and_then (latest_operation_id A) (\<lambda>op.
        answer [(''fake'', JBool False), (''operation_id'', op), (''groupname'', dget b ''groupname''),
           (''result'', result)])))"

definition adapter_user_group_update :: "'y adapter_method" where
  "adapter_user_group_update A b = dispatch A ''user.group_update'' (sent b [''groupname'', ''add'', ''remove'',
     ''confirmation_id''])
       [(''fake'', JBool True), (''operation_id'', JStr ''20260903-000000-user_group_update''),
          (''groupname'', dget b ''groupname'')]
       (and_then (in_process A ''yunohost.user'' ''user_group_update'' [] [(''groupname'', dget b ''groupname''),
          (''add'', dget b ''add''), (''remove'', dget b ''remove'')]) (\<lambda>result.
        and_then (latest_operation_id A) (\<lambda>op.
        answer [(''fake'', JBool False), (''operation_id'', op), (''groupname'', dget b ''groupname''),
           (''result'', result)])))"

definition adapter_user_group_delete :: "'y adapter_method" where
  "adapter_user_group_delete A b = dispatch A ''user.group_delete'' (sent b [''groupname'', ''confirmation_id''])
       [(''fake'', JBool True), (''operation_id'', JStr ''20260903-000000-user_group_delete''),
          (''groupname'', dget b ''groupname'')]
       (and_then (in_process A ''yunohost.user'' ''user_group_delete'' [] [(''groupname'', dget b ''groupname'')])
          (\<lambda>_.
        and_then (latest_operation_id A) (\<lambda>op.
        answer [(''fake'', JBool False), (''operation_id'', op), (''groupname'', dget b ''groupname'')])))"

definition adapter_user_permission_add :: "'y adapter_method" where
  "adapter_user_permission_add A b = dispatch A ''user.permission_add'' (sent b [''permission'', ''names'',
     ''confirmation_id''])
       [(''fake'', JBool True), (''permission'', dget b ''permission''), (''names'', dget b ''names'')]
       (and_then (system_python A ''api'' ''yunohost.user'' ''user_permission_add'' [(''permission'',
          dget b ''permission''), (''names'', dget b ''names'')]) (\<lambda>result.
        answer [(''fake'', JBool False), (''permission'', dget b ''permission''), (''result'', result)]))"

definition adapter_user_permission_remove :: "'y adapter_method" where
  "adapter_user_permission_remove A b = dispatch A ''user.permission_remove'' (sent b [''permission'', ''names'',
     ''confirmation_id''])
       [(''fake'', JBool True), (''permission'', dget b ''permission''), (''names'', dget b ''names'')]
       (and_then (system_python A ''api'' ''yunohost.user'' ''user_permission_remove'' [(''permission'',
          dget b ''permission''), (''names'', dget b ''names'')]) (\<lambda>result.
        answer [(''fake'', JBool False), (''permission'', dget b ''permission''), (''result'', result)]))"

definition adapter_user_permission_update :: "'y adapter_method" where
  "adapter_user_permission_update A b =
     dispatch A ''user.permission_update'' (sent b [''permission'', ''label'', ''show_tile'', ''protected'',
        ''confirmation_id''])
       [(''fake'', JBool True), (''permission'', dget b ''permission''), (''label'', dget b ''label''),
          (''show_tile'', dget b ''show_tile''), (''protected'', dget b ''protected'')]
       (checked (guard (dget b ''protected'' = JNull) (Exn ValueError
          (''protected cannot be changed via user_permission_update on this YunoHost version - it is only settable '' @
           ''via user_permission_add/user_permission_remove, alongside a names change'')))
       (and_then (system_python A ''api'' ''yunohost.user'' ''user_permission_update''
          [(''permission'', dget b ''permission''), (''label'', dget b ''label''),
             (''show_tile'', dget b ''show_tile'')]) (\<lambda>result.
        answer [(''fake'', JBool False), (''permission'', dget b ''permission''), (''result'', result)])))"

definition adapter_domain_add :: "'y adapter_method" where
  "adapter_domain_add A b = dispatch A ''domain.add'' (sent b [''domain'', ''install_letsencrypt_cert'',
     ''confirmation_id''])
       [(''fake'', JBool True), (''operation_id'', JStr ''20260903-000000-domain_add''), (''domain'', dget b ''domain''),
        (''certificate'', JObj [(''CA_type'', JStr (if truthy
           (dget b ''install_letsencrypt_cert'') then ''letsencrypt'' else ''selfsigned''))])]
       (and_then (system_python A ''api'' ''yunohost.domain'' ''domain_add'' [(''domain'', dget b ''domain''),
          (''ignore_dyndns'', JBool True),
          (''install_letsencrypt_cert'', dget b ''install_letsencrypt_cert'')]) (\<lambda>_.
        and_then (in_process A ''yunohost.certificate'' ''certificate_status'' [JList [dget b ''domain'']] [])
           (\<lambda>status.
        and_then (certificate_of status (dget b ''domain'')) (\<lambda>certificate.
        and_then (latest_operation_id A) (\<lambda>op.
        answer [(''fake'', JBool False), (''operation_id'', op), (''domain'', dget b ''domain''),
           (''certificate'', certificate)])))))"

definition adapter_domain_cert_install :: "'y adapter_method" where
  "adapter_domain_cert_install A b =
     checked (guard (\<not> truthy (dget b ''staging'')) (Exn ToolInputError
        (''staging ACME issuance is not supported by this YunoHost version '' @
         ''(certmanager only has the production Let'' @ [char_of (39 :: nat)]
            @ ''s Encrypt endpoint configured); call with staging=False'')))
      (dispatch A ''domain.cert_install'' (sent b [''domain'', ''letsencrypt'', ''staging'', ''confirmation_id''])
       [(''fake'', JBool True), (''operation_id'', JStr ''20260903-000000-domain_cert_install''),
          (''domain'', dget b ''domain''),
        (''requested'', requested_ca b), (''acme_error'', JNull), (''certificate'', JObj [(''CA_type'', requested_ca b)])]
       (and_then (catching
            (and_then (in_process A ''yunohost.certificate'' ''certificate_install'' [JList [dget b ''domain'']]
               [(''force'', JBool True), (''self_signed'', JBool (\<not> truthy (dget b ''letsencrypt'')))])
                  (\<lambda>_. ret (Inr JNull)))
            (\<lambda>e. if ad_yunohost_error A e then Some (ret (Inr (JStr (exn_msg e)))) else None)) (\<lambda>raised.
        and_then (in_process A ''yunohost.certificate'' ''certificate_status'' [JList [dget b ''domain'']] [(''full'',
           JBool True)]) (\<lambda>status.
        and_then (certificate_of status (dget b ''domain'')) (\<lambda>certificate.
        and_then (ret (acme_outcome A (truthy (dget b ''letsencrypt'')) certificate raised)) (\<lambda>acme_error.
        and_then (latest_operation_id A) (\<lambda>op.
        answer [(''fake'', JBool False), (''operation_id'', op), (''domain'', dget b ''domain''),
           (''requested'', requested_ca b),
          (''acme_error'', acme_error), (''certificate'', certificate)])))))))"

definition adapter_domain_dns_push :: "'y adapter_method" where
  "adapter_domain_dns_push A b = dispatch A ''domain.dns_push'' (sent b [''domain'', ''force'', ''purge'',
     ''confirmation_id''])
       [(''fake'', JBool True), (''operation_id'', JStr ''20260903-000000-domain_dns_push''),
          (''domain'', dget b ''domain''), (''result'', JObj [])]
       (and_then (system_python A ''api'' ''yunohost.dns'' ''domain_dns_push'' [(''domain'', dget b ''domain''),
          (''dry_run'', JBool False), (''force'', dget b ''force''), (''purge'', dget b ''purge'')]) (\<lambda>result.
        and_then (latest_operation_id A) (\<lambda>op.
        answer [(''fake'', JBool False), (''operation_id'', op), (''domain'', dget b ''domain''), (''result'', result)])))"

definition adapter_domain_remove :: "'y adapter_method" where
  "adapter_domain_remove A b = dispatch A ''domain.remove'' (sent b [''domain'', ''remove_apps'', ''force'',
     ''confirmation_id''])
       [(''fake'', JBool True), (''operation_id'', JStr ''20260903-000000-domain_remove''),
          (''domain'', dget b ''domain''), (''remove_apps'', dget b ''remove_apps'')]
       (and_then (system_python A ''api'' ''yunohost.domain'' ''domain_remove'' [(''domain'', dget b ''domain''),
          (''remove_apps'', dget b ''remove_apps''), (''force'', dget b ''force''),
          (''ignore_dyndns'', JBool True)]) (\<lambda>_.
        and_then (latest_operation_id A) (\<lambda>op.
        answer [(''fake'', JBool False), (''operation_id'', op), (''domain'', dget b ''domain''),
           (''remove_apps'', dget b ''remove_apps'')])))"

definition adapter_service_restart :: "'y adapter_method" where
  "adapter_service_restart A b = dispatch A ''service.restart'' (sent b [''names'', ''confirmation_id''])
       [(''fake'', JBool True), (''restarted'', dget b ''names'')]
       (and_then (in_process A ''yunohost.service'' ''service_restart'' [dget b ''names''] []) (\<lambda>_.
        answer [(''fake'', JBool False), (''restarted'', dget b ''names'')]))"

definition adapter_service_stop :: "'y adapter_method" where
  "adapter_service_stop A b = dispatch A ''service.stop'' (sent b [''names'', ''confirmation_id''])
       [(''fake'', JBool True), (''stopped'', dget b ''names'')]
       (and_then (in_process A ''yunohost.service'' ''service_stop'' [dget b ''names''] []) (\<lambda>_.
        answer [(''fake'', JBool False), (''stopped'', dget b ''names'')]))"

definition adapter_service_start :: "'y adapter_method" where
  "adapter_service_start A b = dispatch A ''service.start'' (sent b [''names'', ''confirmation_id''])
       [(''fake'', JBool True), (''started'', dget b ''names'')]
       (and_then (system_python A ''cli'' ''yunohost.service'' ''service_start'' [(''names'', dget b ''names'')])
          (\<lambda>_.
        answer [(''fake'', JBool False), (''started'', dget b ''names'')]))"

definition adapter_backup_create :: "'y adapter_method" where
  "adapter_backup_create A b =
     dispatch A ''backup.create'' (sent b [''name'', ''description'', ''apps'', ''system'', ''confirmation_id''])
       [(''fake'', JBool True), (''operation_id'', JStr ''20260903-000000-backup_create''),
        (''name'', py_or (dget b ''name'') (JStr ''fake-backup''))]
       (and_then (system_python A ''api'' ''yunohost.backup'' ''backup_create'' [(''name'', dget b ''name''),
          (''description'', dget b ''description''), (''apps'', py_or (dget b ''apps'') (JList [])),
          (''system'', py_or (dget b ''system'') (JList []))]) (\<lambda>result.
        and_then (latest_operation_id A) (\<lambda>op.
        answer [(''fake'', JBool False), (''operation_id'', op),
          (''name'', case result of JObj d \<Rightarrow> dget_default d ''name''
             (dget b ''name'') | _ \<Rightarrow> dget b ''name''), (''result'', result)])))"

definition adapter_backup_delete :: "'y adapter_method" where
  "adapter_backup_delete A b = dispatch A ''backup.delete'' (sent b [''name'', ''confirmation_id''])
       [(''fake'', JBool True), (''name'', dget b ''name''), (''deleted'', JBool True)]
       (and_then (system_python A ''api'' ''yunohost.backup'' ''backup_delete'' [(''name'', dget b ''name'')])
          (\<lambda>result.
        answer [(''fake'', JBool False), (''name'', dget b ''name''), (''deleted'', JBool True), (''result'', result)]))"

definition adapter_app_install :: "'y adapter_method" where
  "adapter_app_install A b = dispatch A ''app.install'' (sent b [''app'', ''label'', ''args'', ''force'',
     ''confirmation_id''])
       [(''fake'', JBool True), (''operation_id'', JStr ''20260903-000000-app_install''), (''app'', dget b ''app'')]
       (and_then (system_python A ''api'' ''yunohost.app'' ''app_install'' [(''app'', dget b ''app''),
          (''label'', dget b ''label''), (''args'', dget b ''args''), (''force'', dget b ''force'')]) (\<lambda>result.
        and_then (latest_operation_id A) (\<lambda>op.
        answer [(''fake'', JBool False), (''operation_id'', op), (''result'', result)])))"

definition adapter_app_upgrade :: "'y adapter_method" where
  "adapter_app_upgrade A b = dispatch A ''app.upgrade'' (sent b [''app'', ''force'', ''url'', ''confirmation_id''])
       [(''fake'', JBool True), (''app'', dget b ''app''), (''file'', dget b ''file''), (''url'', dget b ''url''),
          (''result'', JStr ''success'')]
       (and_then (catching
          (system_python A ''api'' ''yunohost.app'' ''app_upgrade'' [(''app'', py_or (dget b ''app'') (JList [])),
             (''force'', dget b ''force''),
             (''file'', dget b ''file''), (''url'', dget b ''url'')])
          (\<lambda>e. if exn_cls e \<noteq> YunohostUnavailableError then None
            else Some (ret (Inl (if contains (str_lower (exn_msg e)) ''no apps can be upgraded''
              then Exn NoAppsToUpgradeError ''nothing to upgrade'' else e))))) (\<lambda>result.
        answer [(''fake'', JBool False), (''app'', dget b ''app''), (''result'', result)]))"

definition adapter_app_remove :: "'y adapter_method" where
  "adapter_app_remove A b = dispatch A ''app.remove'' (sent b [''app'', ''purge'', ''confirmation_id''])
       [(''fake'', JBool True), (''operation_id'', JStr ''20260903-000000-app_remove''), (''app'', dget b ''app''),
          (''purged'', dget b ''purge'')]
       (and_then (system_python A ''cli'' ''yunohost.app'' ''app_remove'' [(''app'', dget b ''app''),
          (''purge'', dget b ''purge'')]) (\<lambda>result.
        and_then (latest_operation_id A) (\<lambda>op.
        answer [(''fake'', JBool False), (''operation_id'', op), (''app'', dget b ''app''), (''result'', result)])))"

definition adapter_app_change_url :: "'y adapter_method" where
  "adapter_app_change_url A b = dispatch A ''app.change_url'' (sent b [''app'', ''domain'', ''path'', ''confirmation_id''])
       [(''fake'', JBool True), (''operation_id'', JStr ''20260903-000000-app_change_url''), (''app'', dget b ''app''),
          (''domain'', dget b ''domain''), (''path'', dget b ''path'')]
       (and_then (system_python A ''api'' ''yunohost.app'' ''app_change_url'' [(''app'', dget b ''app''),
          (''domain'', dget b ''domain''), (''path'', dget b ''path'')]) (\<lambda>_.
        and_then (latest_operation_id A) (\<lambda>op.
        answer [(''fake'', JBool False), (''operation_id'', op), (''app'', dget b ''app''),
           (''domain'', dget b ''domain''), (''path'', dget b ''path'')])))"

definition adapter_backup_restore :: "'y adapter_method" where
  "adapter_backup_restore A b = dispatch A ''backup.restore'' (sent b [''name'', ''apps'', ''system'', ''force'',
     ''confirmation_id''])
       [(''fake'', JBool True), (''name'', dget b ''name''), (''apps'', py_or (dget b ''apps'') (JList [])),
          (''system'', py_or (dget b ''system'') (JList []))]
       (and_then (system_python A ''api'' ''yunohost.backup'' ''backup_restore'' [(''name'', dget b ''name''),
          (''system'', py_or (dget b ''system'') (JList [])), (''apps'', py_or (dget b ''apps'') (JList [])),
          (''force'', dget b ''force'')]) (\<lambda>result.
        answer [(''fake'', JBool False), (''name'', dget b ''name''), (''result'', result)]))"

definition adapter_system_upgrade :: "'y adapter_method" where
  "adapter_system_upgrade A b = dispatch A ''system.upgrade'' (sent b [''confirmation_id''])
       [(''fake'', JBool True), (''operation_id'', JStr ''20260903-000000-tools_upgrade''), (''result'', JStr ''success'')]
       (and_then (in_process A ''yunohost.tools'' ''tools_upgrade'' [] [(''target'', JStr ''system'')]) (\<lambda>result.
        and_then (latest_operation_id A) (\<lambda>op.
        answer [(''fake'', JBool False), (''operation_id'', op), (''result'', result)])))"

definition adapter_system_reboot :: "'y adapter_method" where
  "adapter_system_reboot A b = dispatch A ''system.reboot'' (sent b [''confirmation_id''])
       [(''fake'', JBool True), (''operation_id'', JStr ''20260903-000000-tools_reboot''), (''rebooting'', JBool True)]
       (and_then (in_process A ''yunohost.tools'' ''tools_reboot'' [] [(''force'', JBool True)]) (\<lambda>_.
        and_then (latest_operation_id A) (\<lambda>op.
        answer [(''fake'', JBool False), (''operation_id'', op), (''rebooting'', JBool True)])))"

definition adapter_system_shutdown :: "'y adapter_method" where
  "adapter_system_shutdown A b = dispatch A ''system.shutdown'' (sent b [''confirmation_id''])
       [(''fake'', JBool True), (''operation_id'', JStr ''20260903-000000-tools_shutdown''),
          (''shutting_down'', JBool True)]
       (and_then (in_process A ''yunohost.tools'' ''tools_shutdown'' [] [(''force'', JBool True)]) (\<lambda>_.
        and_then (latest_operation_id A) (\<lambda>op.
        answer [(''fake'', JBool False), (''operation_id'', op), (''shutting_down'', JBool True)])))"

definition adapter_migrations_run :: "'y adapter_method" where
  "adapter_migrations_run A b = dispatch A ''migrations.run'' (sent b [''targets'', ''skip'', ''auto'', ''force_rerun'',
     ''accept_disclaimer'', ''skip_postmigrations'', ''confirmation_id''])
       [(''fake'', JBool True), (''targets'', py_or (dget b ''targets'') (JList [])), (''state'', JObj [])]
       (and_then (in_process A ''yunohost.tools'' ''tools_migrations_run'' [] [(''targets'', py_or (dget b ''targets'')
          (JList [])), (''skip'', dget b ''skip''), (''auto'', dget b ''auto''), (''force_rerun'', dget b ''force_rerun''),
          (''accept_disclaimer'', dget b ''accept_disclaimer''),
          (''skip_postmigrations'', dget b ''skip_postmigrations'')]) (\<lambda>_.
        and_then (in_process A ''yunohost.tools'' ''tools_migrations_state'' [] []) (\<lambda>found.
        answer [(''fake'', JBool False), (''targets'', py_or (dget b ''targets'') (JList [])), (''state'', found)])))"

definition adapter_firewall_open :: "'y adapter_method" where
  "adapter_firewall_open A b = dispatch A ''firewall.open'' (sent b [''port'', ''protocol'', ''comment'', ''upnp'',
     ''no_reload'', ''confirmation_id''])
       [(''fake'', JBool True), (''port'', dget b ''port''), (''protocol'', dget b ''protocol'')]
       (and_then (system_python A ''api'' ''yunohost.firewall'' ''firewall_open'' [(''port'', dget b ''port''),
          (''protocol'', dget b ''protocol''), (''comment'', dget b ''comment''), (''upnp'', dget b ''upnp''),
          (''no_reload'', dget b ''no_reload'')]) (\<lambda>_.
        answer [(''fake'', JBool False), (''port'', dget b ''port''), (''protocol'', dget b ''protocol'')]))"

definition adapter_firewall_close :: "'y adapter_method" where
  "adapter_firewall_close A b = dispatch A ''firewall.close'' (sent b [''port'', ''protocol'', ''upnp_only'',
     ''no_reload'', ''confirmation_id''])
       [(''fake'', JBool True), (''port'', dget b ''port''), (''protocol'', dget b ''protocol'')]
       (and_then (system_python A ''api'' ''yunohost.firewall'' ''firewall_close'' [(''port'', dget b ''port''),
          (''protocol'', dget b ''protocol''), (''upnp_only'', dget b ''upnp_only''),
          (''no_reload'', dget b ''no_reload'')]) (\<lambda>_.
        answer [(''fake'', JBool False), (''port'', dget b ''port''), (''protocol'', dget b ''protocol'')]))"

definition adapter_firewall_reload :: "'y adapter_method" where
  "adapter_firewall_reload A b = dispatch A ''firewall.reload'' (sent b [''skip_upnp'', ''confirmation_id''])
       [(''fake'', JBool True), (''reloaded'', JBool True)]
       (and_then (system_python A ''api'' ''yunohost.firewall'' ''firewall_reload'' [(''skip_upnp'',
          dget b ''skip_upnp'')]) (\<lambda>_.
        answer [(''fake'', JBool False), (''reloaded'', JBool True)]))"

definition adapter_settings_set :: "'y adapter_method" where
  "adapter_settings_set A b = dispatch A ''settings.set'' (sent b [''key'', ''value'', ''confirmation_id''])
       [(''fake'', JBool True), (''key'', dget b ''key''), (''value'', dget b ''value'')]
       (and_then (system_python A ''api'' ''yunohost.settings'' ''settings_set'' [(''key'', dget b ''key''),
          (''value'', dget b ''value'')]) (\<lambda>_.
        and_then (system_python A ''api'' ''yunohost.settings'' ''settings_get'' [(''key'', dget b ''key''),
           (''full'', JBool False)]) (\<lambda>new_value.
        answer [(''fake'', JBool False), (''key'', dget b ''key''), (''value'', new_value)])))"

definition adapter_regenconf_apply :: "'y adapter_method" where
  "adapter_regenconf_apply A b = dispatch A ''regenconf.apply'' (sent b [''names'', ''force'', ''confirmation_id''])
       [(''fake'', JBool True), (''applied'', JObj [])]
       (and_then (system_python A ''api'' ''yunohost.regenconf'' ''regen_conf'' [(''names'', py_or (dget b ''names'')
          (JList [])), (''force'', dget b ''force'')]) (\<lambda>result.
        answer [(''fake'', JBool False), (''applied'', result)]))"

end
