(* ===== verification/Adapter_Workflows.thy ===== *)
theory Adapter_Workflows
  imports Adapter_Writes
begin

text \<open>
  The methods of the adapter that call other methods of it: the package-test steps and the cycle that
  runs them, and the composite workflows.  Each of them is one operation of the broker.
\<close>

subsection \<open>Package tests\<close>

definition adapter_package_install_test :: "'y adapter_method" where
  "adapter_package_install_test A b =
     (case ad_broker A of
        Some call \<Rightarrow> call ''package.install_test'' (sent b [''source'', ''label'', ''args'', ''session_id'', ''confirmation_id''])
      | None \<Rightarrow> adapter_app_install A [(''app'', dget b ''source''), (''label'', dget b ''label''), (''args'', dget b ''args''),
          (''force'', JBool True), (''confirmation_id'', JNull)])"

definition adapter_package_upgrade_test :: "'y adapter_method" where
  "adapter_package_upgrade_test A b =
     (case ad_broker A of
        Some call \<Rightarrow> call ''package.upgrade_test'' (sent b [''app'', ''source'', ''session_id'', ''confirmation_id''])
      | None \<Rightarrow> adapter_app_upgrade A [(''app'', dget b ''app''), (''force'', JBool True), (''file'', dget b ''source''),
          (''url'', JNull), (''confirmation_id'', JNull)])"

definition adapter_package_backup_test :: "'y adapter_method" where
  "adapter_package_backup_test A b s =
     (case ad_broker A of
        Some call \<Rightarrow> call ''package.backup_test'' (sent b [''app'', ''session_id'', ''confirmation_id'']) s
      | None \<Rightarrow> adapter_backup_create A
          [(''name'', JStr (''package-test-'' @ py_str (ad_fmt A) (dget b ''app'') @ ''-'' @ show_int (ad_now_ns A s))),
           (''description'', JNull), (''apps'', JList [dget b ''app'']), (''system'', JNull), (''confirmation_id'', JNull)] s)"

definition adapter_package_restore_test :: "'y adapter_method" where
  "adapter_package_restore_test A b =
     (case ad_broker A of
        Some call \<Rightarrow> call ''package.restore_test'' (sent b [''app'', ''archive_name'', ''session_id'', ''confirmation_id''])
      | None \<Rightarrow> adapter_backup_restore A [(''name'', dget b ''archive_name''), (''apps'', JList [dget b ''app'']),
          (''system'', JNull), (''force'', JBool True), (''confirmation_id'', JNull)])"

definition adapter_package_change_url_test :: "'y adapter_method" where
  "adapter_package_change_url_test A b =
     (case ad_broker A of
        Some call \<Rightarrow> call ''package.change_url_test'' (sent b [''app'', ''domain'', ''path'', ''session_id'', ''confirmation_id''])
      | None \<Rightarrow> adapter_app_change_url A [(''app'', dget b ''app''), (''domain'', dget b ''domain''), (''path'', dget b ''path''),
          (''confirmation_id'', JNull)])"

definition adapter_package_remove_test :: "'y adapter_method" where
  "adapter_package_remove_test A b =
     (case ad_broker A of
        Some call \<Rightarrow> call ''package.remove_test'' (sent b [''app'', ''purge'', ''session_id'', ''confirmation_id''])
      | None \<Rightarrow> adapter_app_remove A [(''app'', dget b ''app''), (''purge'', dget b ''purge''), (''confirmation_id'', JNull)])"

text \<open>\<open>run_step\<close>: the report so far, the system, and the value if the step passed.\<close>

record step_report =
  sr_step :: string
  sr_outcome :: "string + json"

definition passed :: "step_report \<Rightarrow> bool" where
  "passed r = (case sr_outcome r of Inl _ \<Rightarrow> False | Inr _ \<Rightarrow> True)"

definition run_step :: "string \<Rightarrow> ('y, json) step \<Rightarrow> step_report list \<times> 'y \<Rightarrow> (step_report list \<times> 'y) \<times> json option" where
  "run_step name m st =
     (case m (snd st) of
        (s, Inl e) \<Rightarrow> ((fst st @ [\<lparr>sr_step = name, sr_outcome = Inl (exn_msg e)\<rparr>], s), None)
      | (s, Inr v) \<Rightarrow> ((fst st @ [\<lparr>sr_step = name, sr_outcome = Inr v\<rparr>], s), Some v))"

definition report_json :: "step_report \<Rightarrow> json" where
  "report_json r = (case sr_outcome r of
      Inl e \<Rightarrow> JObj [(''step'', JStr (sr_step r)), (''passed'', JBool False), (''error'', JStr e)]
    | Inr v \<Rightarrow> JObj [(''step'', JStr (sr_step r)), (''passed'', JBool True), (''result'', v)])"

record cycle_result =
  cy_steps :: "step_report list"
  cy_passed :: bool

text \<open>The cycle for one app id: the report, or the exception that leaves it after the cleanup.\<close>

definition package_cycle :: "'y adapter_env \<Rightarrow> dict \<Rightarrow> json \<Rightarrow> 'y \<Rightarrow> 'y \<times> (exn + cycle_result)" where
  "package_cycle A b app s =
     (let kw = [(''session_id'', dget b ''session_id''), (''confirmation_id'', dget b ''confirmation_id'')];
          remove = adapter_package_remove_test A ([(''app'', app), (''purge'', JBool True)] @ kw);
          (st1, install) = run_step ''install''
            (adapter_package_install_test A ([(''source'', dget b ''source''), (''label'', JNull), (''args'', JNull)] @ kw)) ([], s)
      in if install = None then (snd st1, Inr \<lparr>cy_steps = fst st1, cy_passed = False\<rparr>)
         else (let (st2, backup) = run_step ''backup'' (adapter_package_backup_test A ([(''app'', app)] @ kw)) st1
               in case (case backup of None \<Rightarrow> Inr JNull | Some v \<Rightarrow> get_or v ''name'' JNull) of
                    Inl e \<Rightarrow> (let (st3, _) = run_step ''cleanup_remove'' remove st2 in (snd st3, Inl e))
                  | Inr archive \<Rightarrow>
                      (let (st3, removed) = run_step ''remove'' remove st2;
                           attempted = (backup \<noteq> None \<and> removed \<noteq> None \<and> truthy archive);
                           (st4, restored) = (if attempted
                              then run_step ''restore'' (adapter_package_restore_test A
                                ([(''app'', app), (''archive_name'', archive)] @ kw)) st3
                              else (st3, None));
                           (st5, _) = (if removed = None \<or> (attempted \<and> restored = None) \<or> restored \<noteq> None
                              then run_step ''cleanup_remove'' remove st4 else (st4, None))
                       in (snd st5, Inr \<lparr>cy_steps = fst st5, cy_passed = list_all passed (fst st5)\<rparr>))))"

definition adapter_package_run_tests :: "'y adapter_method" where
  "adapter_package_run_tests A b =
     (case ad_broker A of
        Some call \<Rightarrow> call ''package.run_tests'' (sent b [''source'', ''app_id'', ''confirmation_id'', ''session_id''])
      | None \<Rightarrow>
          and_then (if truthy (dget b ''app_id'') then ret (Inr (dget b ''app_id''))
            else and_then (adapter_package_inspect A [(''source'', dget b ''source'')]) (\<lambda>manifest.
              ret (ebind (get_or manifest ''id'' JNull) (\<lambda>i. Inr (py_or i (dget b ''source'')))))) (\<lambda>found.
          and_then (package_cycle A b (case found of JList (x # _) \<Rightarrow> x | v \<Rightarrow> v)) (\<lambda>r.
          answer [(''fake'', JBool (ad_fake A)), (''passed'', JBool (cy_passed r)), (''steps'', JList (map report_json (cy_steps r)))])))"

subsection \<open>Composite workflows\<close>

definition mentions :: "'y adapter_env \<Rightarrow> string \<Rightarrow> json \<Rightarrow> exn + bool" where
  "mentions A app operation =
     ebind (get_or operation ''name'' (JStr [])) (\<lambda>n.
       if contains (py_str (ad_fmt A) n) app then Inr True
       else ebind (get_or operation ''description'' (JStr [])) (\<lambda>d. Inr (contains (py_str (ad_fmt A) d) app)))"

definition adapter_diagnose_app :: "'y adapter_method" where
  "adapter_diagnose_app A b =
     (case ad_broker A of
        Some call \<Rightarrow> call ''diagnose.app'' (sent b [''app''])
      | None \<Rightarrow>
          and_then (adapter_app_info A [(''app'', dget b ''app''), (''full'', JBool True)]) (\<lambda>info.
          and_then (adapter_health_check A []) (\<lambda>diagnosis.
          and_then (adapter_operations_list A [(''limit'', JInt 20), (''with_suboperations'', JBool False)]) (\<lambda>operations.
          and_then (ret (ebind (get_or operations ''operation'' (JList [])) py_tuple)) (\<lambda>listed.
          and_then (ret (emap (\<lambda>x. ebind (mentions A (text_of (dget b ''app'')) x) (\<lambda>yes. Inr (if yes then [x] else []))) listed)) (\<lambda>related.
          and_then (ret (get_or info ''fake'' (JBool False))) (\<lambda>fake.
          answer [(''fake'', fake), (''app'', dget b ''app''), (''app_info'', info), (''diagnosis'', diagnosis),
            (''related_operations'', JList (concat related))])))))))"

definition adapter_validate_server :: "'y adapter_method" where
  "adapter_validate_server A b =
     (case ad_broker A of
        Some call \<Rightarrow> call ''validate.server'' []
      | None \<Rightarrow>
          and_then (adapter_server_info A []) (\<lambda>server.
          and_then (ret (get_or server ''fake'' (JBool False))) (\<lambda>fake.
          and_then (adapter_health_check A []) (\<lambda>diagnosis.
          and_then (adapter_updates_check A []) (\<lambda>updates.
          and_then (adapter_services_list A []) (\<lambda>services.
          and_then (adapter_backups_list A []) (\<lambda>backups.
          answer [(''fake'', fake), (''server'', server), (''diagnosis'', diagnosis), (''updates'', updates),
            (''services'', services), (''backups'', backups)])))))))"

definition test_http_endpoint :: "'y adapter_env \<Rightarrow> string \<Rightarrow> ('y, json) step" where
  "test_http_endpoint A url =
     (if ad_fake A then answer [(''fake'', JBool True), (''url'', JStr url), (''reachable'', JBool True),
        (''status_code'', JInt 200), (''error'', JNull)]
      else ad_probe A url)"

record upgrade_report =
  ug_steps :: "step_report list"
  ug_passed :: bool
  ug_url :: "json option"

text \<open>The address to probe after the upgrade, from the settings of the app's information.\<close>

definition upgraded_url :: "'y adapter_env \<Rightarrow> json option \<Rightarrow> exn + string option" where
  "upgraded_url A info =
     ebind (get_or (case info of None \<Rightarrow> JObj [] | Some v \<Rightarrow> py_or v (JObj [])) ''settings'' JNull) (\<lambda>found.
     let settings = py_or found (JObj []) in
     ebind (get_or settings ''domain'' JNull) (\<lambda>domain.
     ebind (get_or settings ''path'' JNull) (\<lambda>path.
     Inr (if truthy domain \<and> path \<noteq> JNull
       then Some (''https://'' @ py_str (ad_fmt A) domain @ py_str (ad_fmt A) path) else None))))"

definition safety_backup :: "'y adapter_env \<Rightarrow> json \<Rightarrow> ('y, json) step" where
  "safety_backup A app = adapter_backup_create A
     [(''name'', JStr (''safe-upgrade-'' @ py_str (ad_fmt A) app)),
      (''description'', JStr (''Safety backup before upgrading '' @ py_str (ad_fmt A) app)),
      (''apps'', JList [app]), (''system'', JNull), (''confirmation_id'', JNull)]"

definition plain_upgrade :: "'y adapter_env \<Rightarrow> json \<Rightarrow> ('y, json) step" where
  "plain_upgrade A app = adapter_app_upgrade A
     [(''app'', app), (''force'', JBool False), (''file'', JNull), (''url'', JNull), (''confirmation_id'', JNull)]"

definition safe_workflow :: "'y adapter_env \<Rightarrow> json \<Rightarrow> 'y \<Rightarrow> 'y \<times> (exn + upgrade_report)" where
  "safe_workflow A app s =
     (let info = adapter_app_info A [(''app'', app), (''full'', JBool True)];
          stop = (\<lambda>st. (snd st, Inr \<lparr>ug_steps = fst st, ug_passed = False, ug_url = None\<rparr>));
          (st1, _) = run_step ''pre_diagnosis'' (adapter_health_check A []) ([], s);
          (st2, inspected) = run_step ''inspect_app'' info st1
      in if inspected = None then stop st2
         else (let (st3, backup) = run_step ''backup'' (safety_backup A app) st2
               in if backup = None then stop st3
                  else (let (st4, upgraded) = run_step ''upgrade'' (plain_upgrade A app) st3
                        in if upgraded = None then stop st4
                           else (let (st5, after) = run_step ''check_app'' info st4
                                 in case upgraded_url A after of
                                      Inl e \<Rightarrow> (snd st5, Inl e)
                                    | Inr url \<Rightarrow>
                                        (let st6 = (case url of None \<Rightarrow> st5
                                               | Some u \<Rightarrow> fst (run_step ''test_http_endpoint'' (test_http_endpoint A u) st5));
                                             (st7, _) = run_step ''post_diagnosis'' (adapter_health_check A []) st6
                                         in (snd st7, Inr \<lparr>ug_steps = fst st7, ug_passed = list_all passed (fst st7),
                                               ug_url = Some (case url of None \<Rightarrow> JNull | Some u \<Rightarrow> JStr u)\<rparr>))))))"

definition adapter_safe_upgrade :: "'y adapter_method" where
  "adapter_safe_upgrade A b =
     (case ad_broker A of
        Some call \<Rightarrow> call ''safe.upgrade'' (sent b [''app'', ''confirmation_id''])
      | None \<Rightarrow>
          and_then (safe_workflow A (dget b ''app'')) (\<lambda>r.
          answer ([(''fake'', JBool (ad_fake A)), (''app'', dget b ''app''), (''passed'', JBool (ug_passed r))] @
            (case ug_url r of None \<Rightarrow> [] | Some u \<Rightarrow> [(''url_tested'', u)]) @
            [(''steps'', JList (map report_json (ug_steps r)))])))"

text \<open>The services an app declares: the keys of a table, the texts of a list; a falsy list of declarations
  leaves the service named like the app.\<close>

definition declared_in :: "'y adapter_env \<Rightarrow> json \<Rightarrow> string list" where
  "declared_in A container = (case container of
      JObj d \<Rightarrow> dkeys d
    | JList xs \<Rightarrow> map text_of (filter is_str xs)
    | _ \<Rightarrow> [])"

definition is_app_id :: "json \<Rightarrow> bool" where
  "is_app_id app = (is_str app \<and> str_strip (text_of app) \<noteq> [] \<and> \<not> list_ex is_space (text_of app))"

definition repair_candidates :: "'y adapter_env \<Rightarrow> string \<Rightarrow> json \<Rightarrow> exn + string list" where
  "repair_candidates A app info =
     ebind (get_or info ''services'' JNull) (\<lambda>own.
     ebind (get_or info ''manifest'' (JObj [])) (\<lambda>manifest.
     ebind (get_or manifest ''services'' JNull) (\<lambda>declared.
     let names = declared_in A own @ declared_in A declared in Inr (if names = [] then [app] else names))))"

definition diagnosis_of :: "json \<Rightarrow> json" where
  "diagnosis_of report = (case report of JObj d \<Rightarrow> dget d ''diagnosis'' | _ \<Rightarrow> JNull)"

definition adapter_repair_app :: "'y adapter_method" where
  "adapter_repair_app A b =
     (case ad_broker A of
        Some call \<Rightarrow> call ''repair.app'' (sent b [''app'', ''strategy''])
      | None \<Rightarrow>
          checked (ebind (guard (dget b ''strategy'' = JStr ''conservative'') (Exn ToolInputError
              (''unknown repair strategy '' @ py_repr_value (ad_fmt A) (dget b ''strategy'') @
               ''; only '' @ py_repr ''conservative'' @ '' is implemented''))) (\<lambda>_.
            guard (is_app_id (dget b ''app'')) (Exn ToolInputError ''app must be a non-empty app id'')))
          (and_then (adapter_diagnose_app A [(''app'', dget b ''app'')]) (\<lambda>before.
           and_then (adapter_services_list A []) (\<lambda>known.
           and_then (ret (ebind (get_or known ''services'' (JObj [])) py_tuple)) (\<lambda>services.
           and_then (adapter_app_info A [(''app'', dget b ''app''), (''full'', JBool True)]) (\<lambda>info.
           and_then (ret (repair_candidates A (text_of (dget b ''app'')) info)) (\<lambda>candidates.
           let matching = filter (\<lambda>x. x \<in> set (map JStr candidates)) services in
           and_then (if matching = [] then ret (Inr JNull)
             else adapter_service_restart A [(''names'', JList matching), (''confirmation_id'', JNull)]) (\<lambda>_.
           and_then (adapter_diagnose_app A [(''app'', dget b ''app'')]) (\<lambda>after.
           and_then (ret (get_or before ''fake'' (JBool False))) (\<lambda>fake.
           answer [(''fake'', fake), (''app'', dget b ''app''), (''strategy'', dget b ''strategy''),
             (''restarted_services'', JList matching), (''diagnosis_before'', diagnosis_of before),
             (''diagnosis_after'', diagnosis_of after)]))))))))))"

subsection \<open>Lemmas\<close>

lemma run_step_alt:
  "run_step name m st =
     ((fst st @ [\<lparr>sr_step = name, sr_outcome = map_sum exn_msg id (snd (m (snd st)))\<rparr>], fst (m (snd st))),
      case snd (m (snd st)) of Inl _ \<Rightarrow> None | Inr v \<Rightarrow> Some v)"
  by (simp add: run_step_def split: prod.split sum.split)

lemma passed_outcome [simp]: "passed \<lparr>sr_step = name, sr_outcome = x\<rparr> = is_ok x"
  by (cases x) (simp_all add: passed_def)

lemma is_ok_map_sum [simp]: "is_ok (map_sum f g x) = is_ok x"
  by (cases x) simp_all

definition step_trace :: "step_report list \<Rightarrow> (string \<times> bool) list" where
  "step_trace reports = map (\<lambda>x. (sr_step x, passed x)) reports"

lemma step_trace_simps [simp]:
  "step_trace [] = []" "step_trace (x # xs) = (sr_step x, passed x) # step_trace xs" "step_trace (xs @ ys) = step_trace xs @ step_trace ys"
  by (simp_all add: step_trace_def)

lemma trace_passed: "list_all passed xs = list_all snd (step_trace xs)"
  by (simp add: step_trace_def list_all_iff)

lemma and_then_alt: "and_then m k s = (case snd (m s) of Inl e \<Rightarrow> (fst (m s), Inl e) | Inr x \<Rightarrow> k x (fst (m s)))"
  by (simp add: and_then_def split: prod.split sum.split)

lemma ret_simps: "fst (ret r s) = s" "snd (ret r s) = r"
  by (simp_all add: ret_def)

lemma and_then_split:
  assumes "and_then m k s = (s', r)"
  obtains (stopped) e where "m s = (s', Inl e)" "r = Inl e"
  | (went_on) s1 x where "m s = (s1, Inr x)" "k x s1 = (s', r)"
  using assms by (auto simp: and_then_def split: prod.splits sum.splits)

lemma and_thenE:
  assumes "and_then m k s = (s', Inr v)"
  obtains x s1 where "m s = (s1, Inr x)" "k x s1 = (s', Inr v)"
  using assms by (auto simp: and_then_def split: prod.splits sum.splits)

text \<open>The part of a repair that changes something, and what it reports.\<close>

lemma repair_finish:
  assumes "and_then (if names = [] then ret (Inr JNull) else restart names) (\<lambda>_. and_then diagnose (\<lambda>after.
      and_then (ret r) (\<lambda>fake. answer (report fake after)))) s = (s', res)"
    and "\<And>fake after. dget (report fake after) ''restarted_services'' = JList names"
  shows "(if names = [] then s' = fst (diagnose s)
      else s' = fst (restart names s) \<and> \<not> is_ok res \<or> s' = fst (diagnose (fst (restart names s)))) \<and>
    (\<forall>v. res = Inr v \<longrightarrow> (\<exists>d. v = JObj d \<and> dget d ''restarted_services'' = JList names))"
  using assms by (cases "snd (restart names s)") (auto simp: and_then_alt ret_simps answer_def ret_def is_ok_iff split: if_splits sum.splits)

lemma candidates_exact:
  assumes "repair_candidates A app info = Inr candidates"
  shows "\<exists>own manifest declared. get_or info ''services'' JNull = Inr own \<and> get_or info ''manifest'' (JObj []) = Inr manifest \<and>
    get_or manifest ''services'' JNull = Inr declared \<and>
    set candidates = set (declared_in A own) \<union> set (declared_in A declared) \<union>
      (if declared_in A own = [] \<and> declared_in A declared = [] then {app} else {})"
proof -
  from assms obtain own manifest declared where c: "get_or info ''services'' JNull = Inr own" "get_or info ''manifest'' (JObj []) = Inr manifest"
    "get_or manifest ''services'' JNull = Inr declared"
    "candidates = (if declared_in A own @ declared_in A declared = [] then [app] else declared_in A own @ declared_in A declared)"
    unfolding repair_candidates_def ebind_Inr Let_def by blast
  from c(4) have "set candidates = set (declared_in A own) \<union> set (declared_in A declared) \<union>
      (if declared_in A own = [] \<and> declared_in A declared = [] then {app} else {})" by simp
  with c(1-3) show ?thesis by blast
qed

subsection \<open>Properties\<close>

text \<open>
  C30: the test cycle cleans up after itself, whether it reports or raises.  If the candidate could not be installed, nothing
  else is done and the report says so.  Once it was installed, the last thing the cycle does to the server is a removal of the
  app - also when an answer it cannot read makes it raise after the backup - so that, if that removal succeeds, the app is gone
  when the cycle ends, given that a successful removal leaves the app uninstalled.  A report ends with this removal, and says
  passed only if it succeeded.
\<close>

theorem package_cycle_cleans_up:
  fixes installed :: "'y \<Rightarrow> bool"
  assumes "package_cycle A b app s = (s', res)"
    and "\<And>kw t t' v. adapter_package_remove_test A ([(''app'', app), (''purge'', JBool True)] @ kw) t = (t', Inr v) \<Longrightarrow> \<not> installed t'"
  shows "let kw = [(''session_id'', dget b ''session_id''), (''confirmation_id'', dget b ''confirmation_id'')];
        install = adapter_package_install_test A ([(''source'', dget b ''source''), (''label'', JNull), (''args'', JNull)] @ kw);
        backup = adapter_package_backup_test A ([(''app'', app)] @ kw);
        remove = adapter_package_remove_test A ([(''app'', app), (''purge'', JBool True)] @ kw)
    in if \<not> is_ok (snd (install s))
       then s' = fst (install s) \<and> (\<exists>r. res = Inr r \<and> step_trace (cy_steps r) = [(''install'', False)] \<and> \<not> cy_passed r)
       else \<exists>t. s' = fst (remove t) \<and> (is_ok (snd (remove t)) \<longrightarrow> \<not> installed s') \<and>
         (case res of
            Inl e \<Rightarrow> t = fst (backup (fst (install s)))
          | Inr r \<Rightarrow> last (step_trace (cy_steps r)) \<in> {(''remove'', is_ok (snd (remove t))), (''cleanup_remove'', is_ok (snd (remove t)))} \<and>
              (cy_passed r \<longrightarrow> is_ok (snd (remove t))))"
proof -
  define kw where "kw = [(''session_id'', dget b ''session_id''), (''confirmation_id'', dget b ''confirmation_id'')]"
  define install where "install = adapter_package_install_test A ([(''source'', dget b ''source''), (''label'', JNull), (''args'', JNull)] @ kw)"
  define backup where "backup = adapter_package_backup_test A ([(''app'', app)] @ kw)"
  define remove where "remove = adapter_package_remove_test A ([(''app'', app), (''purge'', JBool True)] @ kw)"
  have gone: "\<not> installed (fst (remove t))" if "is_ok (snd (remove t))" for t
    using that assms(2) [of kw t "fst (remove t)"] unfolding remove_def by (auto simp: is_ok_iff prod_eq_iff)
  note run = assms(1) [unfolded package_cycle_def Let_def, folded kw_def, folded install_def backup_def remove_def, unfolded run_step_alt prod.case fst_conv snd_conv]
  have "if \<not> is_ok (snd (install s))
       then s' = fst (install s) \<and> (\<exists>r. res = Inr r \<and> step_trace (cy_steps r) = [(''install'', False)] \<and> \<not> cy_passed r)
       else \<exists>t. s' = fst (remove t) \<and> (is_ok (snd (remove t)) \<longrightarrow> \<not> installed s') \<and>
         (case res of
            Inl e \<Rightarrow> t = fst (backup (fst (install s)))
          | Inr r \<Rightarrow> last (step_trace (cy_steps r)) \<in> {(''remove'', is_ok (snd (remove t))), (''cleanup_remove'', is_ok (snd (remove t)))} \<and>
              (cy_passed r \<longrightarrow> is_ok (snd (remove t))))"
  proof (cases "snd (install s)")
    case (Inl e)
    then show ?thesis using run by auto
  next
    case (Inr v)
    let ?s1 = "fst (install s)"
    let ?s2 = "fst (backup ?s1)"
    show ?thesis
    proof (cases "case (case snd (backup ?s1) of Inl _ \<Rightarrow> None | Inr v \<Rightarrow> Some v) of None \<Rightarrow> Inr JNull | Some v \<Rightarrow> get_or v ''name'' JNull")
      case (Inl e)
      with run Inr gone show ?thesis by auto
    next
      case ar: (Inr archive)
      let ?s3 = "fst (remove ?s2)"
      show ?thesis
      proof (cases "snd (remove ?s2)")
        case rm: (Inl e)
        show ?thesis
          using run [unfolded ar sum.case] Inr rm gone by (intro if_not_P [THEN iffD2]) (auto intro!: exI [of _ ?s3])
      next
        case rm: (Inr u)
        show ?thesis using run [unfolded ar sum.case] Inr rm gone by (auto split: if_splits)
      qed
    qed
  qed
  then show ?thesis unfolding Let_def install_def backup_def remove_def kw_def .
qed

text \<open>
  C29: an upgrade happens only on top of a fresh backup.  The look at the app, the backup and the upgrade are obeyed: where one of
  them fails, the report stops there as a failure and the system is as the failed step left it, so without a backup no upgrade is
  tried and a failed upgrade is the last thing that touches the system.  After an upgrade on the system that the backup left, the
  app is looked at again, its address, where it has one, is probed and the server is diagnosed, whatever these find, and the
  report has every step and passes exactly if all of them passed - or the workflow raises because it cannot read the app's
  settings, after the second look and with nothing done since.  The diagnosis at the start is reported and not obeyed.
\<close>

theorem safe_upgrade_order:
  assumes "safe_workflow A app s = (s', res)"
  shows "let info = adapter_app_info A [(''app'', app), (''full'', JBool True)]; health = adapter_health_check A [];
        s1 = fst (health s); s2 = fst (info s1); s3 = fst (safety_backup A app s2); s4 = fst (plain_upgrade A app s3); s5 = fst (info s4);
        diagnosed = (''pre_diagnosis'', is_ok (snd (health s)));
        begun = [diagnosed, (''inspect_app'', True), (''backup'', True)];
        stopped = (\<lambda>t. \<exists>r. res = Inr r \<and> step_trace (ug_steps r) = t \<and> \<not> ug_passed r)
    in if \<not> is_ok (snd (info s1)) then s' = s2 \<and> stopped [diagnosed, (''inspect_app'', False)]
       else if \<not> is_ok (snd (safety_backup A app s2)) then s' = s3 \<and> stopped [diagnosed, (''inspect_app'', True), (''backup'', False)]
       else if \<not> is_ok (snd (plain_upgrade A app s3)) then s' = s4 \<and> stopped (begun @ [(''upgrade'', False)])
       else (case upgraded_url A (case snd (info s4) of Inl _ \<Rightarrow> None | Inr v \<Rightarrow> Some v) of
           Inl e \<Rightarrow> res = Inl e \<and> s' = s5
         | Inr url \<Rightarrow> \<exists>r probe. res = Inr r \<and> ug_passed r = list_all snd (step_trace (ug_steps r)) \<and>
            probe = (case url of None \<Rightarrow> ret (Inr JNull) | Some u \<Rightarrow> test_http_endpoint A u) \<and> s' = fst (health (fst (probe s5))) \<and>
            step_trace (ug_steps r) = begun @ [(''upgrade'', True), (''check_app'', is_ok (snd (info s4)))] @
              (if url = None then [] else [(''test_http_endpoint'', is_ok (snd (probe s5)))]) @
              [(''post_diagnosis'', is_ok (snd (health (fst (probe s5)))))])"
proof -
  define info where "info = adapter_app_info A [(''app'', app), (''full'', JBool True)]"
  define health where "health = adapter_health_check A []"
  note run = assms [unfolded safe_workflow_def Let_def, folded info_def health_def, unfolded run_step_alt prod.case fst_conv snd_conv]
  let ?s1 = "fst (health s)"
  let ?s3 = "fst (safety_backup A app (fst (info ?s1)))"
  let ?s4 = "fst (plain_upgrade A app ?s3)"
  show ?thesis
  proof (cases "is_ok (snd (info ?s1)) \<and> is_ok (snd (safety_backup A app (fst (info ?s1)))) \<and> is_ok (snd (plain_upgrade A app ?s3))")
    case False
    with run show ?thesis unfolding info_def [symmetric] health_def [symmetric] Let_def
      by (auto simp: is_ok_iff split: sum.splits)
  next
    case True
    then obtain v1 v2 v3 where ok: "snd (info ?s1) = Inr v1" "snd (safety_backup A app (fst (info ?s1))) = Inr v2"
      "snd (plain_upgrade A app ?s3) = Inr v3" by (auto simp: is_ok_iff)
    let ?after = "case snd (info ?s4) of Inl _ \<Rightarrow> None | Inr v \<Rightarrow> Some v"
    show ?thesis
    proof (cases "upgraded_url A ?after")
      case (Inl e)
      with run ok True show ?thesis unfolding info_def [symmetric] health_def [symmetric] Let_def by simp
    next
      case (Inr url)
      with run ok True show ?thesis unfolding info_def [symmetric] health_def [symmetric] Let_def
        by (cases url) (auto simp: ret_def trace_passed)
    qed
  qed
qed

text \<open>
  C31: \<open>repair_app\<close> is bounded, and its report is true.  An unknown strategy or an app id that is not one word changes nothing.
  Otherwise all that a repair does to the system, whether it returns or raises, is to diagnose the app, to look at the services
  and at the app, then at most one restart - of exactly the services that are reported, all of them listed by YunoHost and
  declared by the app's own information, or named exactly like the app where it declares none - and to diagnose the app again;
  where it raises before the restart, nothing was restarted.
\<close>

theorem repair_app_bounded:
  assumes "ad_broker A = None" "adapter_repair_app A b s = (s', res)"
  shows "let app = dget b ''app''; diagnose = adapter_diagnose_app A [(''app'', app)]; list = adapter_services_list A [];
        info = adapter_app_info A [(''app'', app), (''full'', JBool True)];
        restart = (\<lambda>names. adapter_service_restart A [(''names'', JList names), (''confirmation_id'', JNull)]);
        s1 = fst (diagnose s); s2 = fst (list s1); s3 = fst (info s2)
    in if dget b ''strategy'' \<noteq> JStr ''conservative'' \<or> \<not> is_app_id app then s' = s \<and> (\<exists>msg. res = Inl (Exn ToolInputError msg))
       else (s' \<in> {s1, s2, s3} \<and> \<not> is_ok res) \<or>
         (\<exists>known listed services found own manifest declared names. snd (list s1) = Inr known \<and> snd (info s2) = Inr found \<and>
            get_or known ''services'' (JObj []) = Inr listed \<and> py_tuple listed = Inr services \<and>
            get_or found ''services'' JNull = Inr own \<and> get_or found ''manifest'' (JObj []) = Inr manifest \<and>
            get_or manifest ''services'' JNull = Inr declared \<and>
            names = filter (\<lambda>x. \<exists>n. x = JStr n \<and> (n \<in> set (declared_in A own) \<union> set (declared_in A declared) \<or>
              declared_in A own = [] \<and> declared_in A declared = [] \<and> n = text_of app)) services \<and>
            (if names = [] then s' = fst (diagnose s3)
             else s' = fst (restart names s3) \<and> \<not> is_ok res \<or> s' = fst (diagnose (fst (restart names s3)))) \<and>
            (\<forall>v. res = Inr v \<longrightarrow> (\<exists>d. v = JObj d \<and> dget d ''restarted_services'' = JList names)))"
proof -
  define app where "app = dget b ''app''"
  define diagnose where "diagnose = adapter_diagnose_app A [(''app'', app)]"
  define list where "list = adapter_services_list A []"
  define info where "info = adapter_app_info A [(''app'', app), (''full'', JBool True)]"
  define restart where "restart = (\<lambda>names. adapter_service_restart A [(''names'', JList names), (''confirmation_id'', JNull)])"
  define report where "report = (\<lambda>before names fake after. [(''fake'', fake), (''app'', app), (''strategy'', dget b ''strategy''),
    (''restarted_services'', JList names), (''diagnosis_before'', diagnosis_of before), (''diagnosis_after'', diagnosis_of after)])"
  note run = assms(2) [unfolded adapter_repair_app_def assms(1) option.case, folded app_def, folded diagnose_def list_def info_def, folded restart_def report_def]
  show ?thesis
  proof (cases "dget b ''strategy'' \<noteq> JStr ''conservative'' \<or> \<not> is_app_id app")
    case True
    then have "\<exists>msg. adapter_repair_app A b s = (s, Inl (Exn ToolInputError msg))"
      by (cases "dget b ''strategy'' = JStr ''conservative''")
         (simp_all add: adapter_repair_app_def assms(1) checked_def and_then_alt ret_simps guard_def app_def)
    with True show ?thesis using assms(2) by (auto simp: Let_def app_def)
  next
    case False
    then have go: "dget b ''strategy'' = JStr ''conservative''" "is_app_id app" by auto
    let ?s1 = "fst (diagnose s)"
    let ?s2 = "fst (list ?s1)"
    let ?s3 = "fst (info ?s2)"
    define tail where "tail = (\<lambda>before services candidates.
      let names = filter (\<lambda>x. x \<in> set (map JStr candidates)) services in
      and_then (if names = [] then ret (Inr JNull) else restart names) (\<lambda>_. and_then diagnose (\<lambda>after.
      and_then (ret (get_or before ''fake'' (JBool False))) (\<lambda>fake. answer (report before names fake after)))))"
    have run': "and_then diagnose (\<lambda>before. and_then list (\<lambda>known.
        and_then (ret (ebind (get_or known ''services'' (JObj [])) py_tuple)) (\<lambda>services. and_then info (\<lambda>found.
        and_then (ret (repair_candidates A (text_of app) found)) (\<lambda>candidates. tail before services candidates))))) s = (s', res)"
      using run go unfolding tail_def report_def restart_def Let_def by (simp add: checked_def and_then_alt [of "ret _"] ret_simps guard_def)
    show ?thesis
    proof (cases "\<exists>before known services found candidates. snd (diagnose s) = Inr before \<and> snd (list ?s1) = Inr known \<and>
        ebind (get_or known ''services'' (JObj [])) py_tuple = Inr services \<and> snd (info ?s2) = Inr found \<and>
        repair_candidates A (text_of app) found = Inr candidates")
      case none: False
      from run' none have "s' \<in> {?s1, ?s2, ?s3} \<and> \<not> is_ok res"
        by (auto simp: and_then_alt ret_simps is_ok_iff split: sum.splits)
      with False show ?thesis unfolding Let_def app_def diagnose_def list_def info_def by simp
    next
      case True
      then obtain before known services found candidates where
        r: "snd (diagnose s) = Inr before" "snd (list ?s1) = Inr known" "ebind (get_or known ''services'' (JObj [])) py_tuple = Inr services"
          "snd (info ?s2) = Inr found" "repair_candidates A (text_of app) found = Inr candidates" by blast
      from r(3) obtain listed where listed: "get_or known ''services'' (JObj []) = Inr listed" "py_tuple listed = Inr services"
        by (auto simp: ebind_Inr)
      define names where "names = filter (\<lambda>x. x \<in> set (map JStr candidates)) services"
      from run' r have "tail before services candidates ?s3 = (s', res)" by (simp add: and_then_alt ret_simps)
      then have finish: "(if names = [] then s' = fst (diagnose ?s3)
          else s' = fst (restart names ?s3) \<and> \<not> is_ok res \<or> s' = fst (diagnose (fst (restart names ?s3)))) \<and>
        (\<forall>v. res = Inr v \<longrightarrow> (\<exists>d. v = JObj d \<and> dget d ''restarted_services'' = JList names))"
        unfolding tail_def Let_def names_def [symmetric] by (rule repair_finish) (simp add: report_def)
      from candidates_exact [OF r(5)] obtain own manifest declared where
        c: "get_or found ''services'' JNull = Inr own" "get_or found ''manifest'' (JObj []) = Inr manifest"
          "get_or manifest ''services'' JNull = Inr declared"
        and "set candidates = set (declared_in A own) \<union> set (declared_in A declared) \<union>
          (if declared_in A own = [] \<and> declared_in A declared = [] then {text_of app} else {})" by blast
      then have names: "names = filter (\<lambda>x. \<exists>n. x = JStr n \<and> (n \<in> set (declared_in A own) \<union> set (declared_in A declared) \<or>
              declared_in A own = [] \<and> declared_in A declared = [] \<and> n = text_of app)) services"
        unfolding names_def by (intro filter_cong) (auto split: if_splits)
      show ?thesis
        unfolding Let_def app_def [symmetric] diagnose_def [symmetric] list_def [symmetric] info_def [symmetric] if_not_P [OF False]
        by (intro disjI2 exI conjI) (rule r(2,4) listed c names finish [unfolded restart_def, THEN conjunct1] finish [THEN conjunct2])+
    qed
  qed
qed

subsection \<open>A small server\<close>

text \<open>One app that is installed or not; it declares the service \<open>web\<close>, which exists.\<close>

definition demo_adapter :: "bool adapter_env" where
  "demo_adapter = \<lparr>ad_broker = None, ad_fake = False, ad_libs = example_libs, ad_fmt = (\<lambda>_. []),
     ad_import = (\<lambda>c s. (s, Inr (JObj (
        if yc_function c = ''service_status'' then [(''web'', JNull), (''mail'', JNull)]
        else if yc_function c = ''app_info'' then [(''services'', JList [JStr ''web''])] else [])))),
     ad_interpreter = (\<lambda>_ c s. (
        if yc_function c \<in> {''app_install'', ''backup_restore''} then True else if yc_function c = ''app_remove'' then False else s,
        Inr \<lparr>po_returncode = 0, po_stdout = [], po_stderr = []\<rparr>)),
     ad_failure_context = (\<lambda>_. []), ad_redact_text = id, ad_log_tail = 100, ad_disk_free = (\<lambda>_ s. (s, Inr 0)),
     ad_now_ns = (\<lambda>_. 7), ad_yunohost_error = (\<lambda>_. False), ad_probe = (\<lambda>_ s. (s, Inr JNull))\<rparr>"

lemma demo_broker [simp]: "ad_broker demo_adapter = None" "ad_fake demo_adapter = False" "ad_fmt demo_adapter = (\<lambda>_. [])"
  by (simp_all add: demo_adapter_def)

lemma demo_python [simp]:
  "system_python demo_adapter i m f kwargs s =
     (if f \<in> {''app_install'', ''backup_restore''} then True else if f = ''app_remove'' then False else s, Inr JNull)"
  by (simp add: system_python_def demo_adapter_def and_then_def)

lemma demo_import [simp]:
  "in_process demo_adapter m f args kwargs s = (s, Inr (JObj (
        if f = ''service_status'' then [(''web'', JNull), (''mail'', JNull)]
        else if f = ''app_info'' then [(''services'', JList [JStr ''web''])] else [])))"
  by (simp add: in_process_def demo_adapter_def)

lemma demo_latest [simp]: "latest_operation_id demo_adapter s = (s, Inr JNull)"
  by (simp add: latest_operation_id_def catching_def and_then_def ret_def get_or_def)

lemmas demo_methods = adapter_package_install_test_def adapter_package_remove_test_def adapter_package_backup_test_def
  adapter_package_restore_test_def adapter_app_install_def adapter_app_remove_def adapter_backup_create_def adapter_backup_restore_def
  adapter_app_upgrade_def adapter_app_info_def adapter_health_check_def dispatch_def and_then_def answer_def ret_def spread_def catching_def

theorem package_cycle_cleans_up_witness:
  "\<exists>r. package_cycle demo_adapter [] (JStr ''wiki'') False = (False, Inr r) \<and> cy_passed r \<and> length (cy_steps r) = 5"
proof -
  let ?run = "package_cycle demo_adapter [] (JStr ''wiki'') False"
  have "\<exists>s' r. ?run = (s', Inr r) \<and> length (cy_steps r) = 5 \<and> cy_passed r"
    by (rule exI [of _ False]) (simp add: package_cycle_def run_step_def demo_methods passed_def get_or_def Let_def)
  then obtain s' r where run: "?run = (s', Inr r)" and shape: "length (cy_steps r) = 5" "cy_passed r" by blast
  from package_cycle_cleans_up [OF run, of "\<lambda>s. s"] shape have "\<not> s'"
    by (simp add: demo_methods Let_def split: if_splits)
  with run shape show ?thesis by simp
qed

theorem safe_upgrade_order_witness:
  "\<exists>r. safe_workflow demo_adapter (JStr ''wiki'') True = (True, Inr r) \<and> ug_passed r = list_all snd (step_trace (ug_steps r)) \<and>
     map fst (step_trace (ug_steps r)) = [''pre_diagnosis'', ''inspect_app'', ''backup'', ''upgrade'', ''check_app'', ''post_diagnosis'']"
proof -
  obtain s' res where run: "safe_workflow demo_adapter (JStr ''wiki'') True = (s', res)" by (metis surj_pair)
  from safe_upgrade_order [OF run] run show ?thesis
    by (simp add: safety_backup_def plain_upgrade_def demo_methods upgraded_url_def get_or_def py_or_def Let_def split: if_splits) auto
qed

theorem repair_app_bounded_witness:
  "\<exists>s' d. adapter_repair_app demo_adapter [(''app'', JStr ''wiki''), (''strategy'', JStr ''conservative'')] True = (s', Inr (JObj d)) \<and>
     dget d ''restarted_services'' = JList [JStr ''web'']"
proof -
  let ?b = "[(''app'', JStr ''wiki''), (''strategy'', JStr ''conservative'')]"
  have info: "adapter_app_info demo_adapter [(''app'', JStr ''wiki''), (''full'', JBool True)] s =
      (s, Inr (JObj [(''fake'', JBool False), (''services'', JList [JStr ''web''])]))" for s
    by (simp add: demo_methods)
  have services: "adapter_services_list demo_adapter [] s =
      (s, Inr (JObj [(''fake'', JBool False), (''services'', JObj [(''web'', JNull), (''mail'', JNull)])]))" for s
    by (simp add: adapter_services_list_def demo_methods)
  have diagnosed: "\<exists>d. adapter_diagnose_app demo_adapter [(''app'', JStr ''wiki'')] s = (s, Inr (JObj d))" for s
    by (simp add: adapter_diagnose_app_def info and_then_def) (simp add: adapter_health_check_def adapter_operations_list_def demo_methods get_or_def)
  have word: "is_app_id (JStr ''wiki'')" by code_simp
  have "\<exists>s' v. adapter_repair_app demo_adapter ?b True = (s', Inr v)"
    using diagnosed [of True] info services word
    by (auto simp: adapter_repair_app_def checked_def and_then_def ret_def repair_candidates_def declared_in_def get_or_def
        adapter_service_restart_def dispatch_def answer_def Let_def)
  then obtain s' v where r: "adapter_repair_app demo_adapter ?b True = (s', Inr v)" by blast
  show ?thesis
    using repair_app_bounded [OF demo_broker(1) r] r word
    by (auto simp: info services declared_in_def get_or_def Let_def)
qed

end
