(* ===== verification/Adapter_Dispatch.thy ===== *)
theory Adapter_Dispatch
  imports Adapter_Workflows
begin

text \<open>
  The adapter as a whole: the signature of every modelled method, the table that \<open>call_method\<close> looks
  methods up in, the set of methods that broker mode keeps (\<open>__post_init__\<close>), and the privileged side
  of a broker operation, which runs one method without a broker.
\<close>

subsection \<open>Signatures\<close>

definition sig_server_info :: signature where
  "sig_server_info = \<lparr>sg_params = [], sg_keyword_only = []\<rparr>"

definition sig_health_check :: signature where
  "sig_health_check = \<lparr>sg_params = [], sg_keyword_only = []\<rparr>"

definition sig_diagnosis_get :: signature where
  "sig_diagnosis_get = \<lparr>sg_params = [], sg_keyword_only = []\<rparr>"

definition sig_diagnosis_run :: signature where
  "sig_diagnosis_run = \<lparr>sg_params = [(''categories'', Some (JNull)),
     (''force'', Some (JBool False))], sg_keyword_only = []\<rparr>"

definition sig_services_list :: signature where
  "sig_services_list = \<lparr>sg_params = [], sg_keyword_only = []\<rparr>"

definition sig_service_status :: signature where
  "sig_service_status = \<lparr>sg_params = [(''names'', None)], sg_keyword_only = []\<rparr>"

definition sig_operations_list :: signature where
  "sig_operations_list = \<lparr>sg_params = [(''limit'', Some (JNull)),
     (''with_suboperations'', Some (JBool False))], sg_keyword_only = []\<rparr>"

definition sig_operation_logs :: signature where
  "sig_operation_logs = \<lparr>sg_params = [(''name'', None),
     (''tail_lines'', Some (JNull))], sg_keyword_only = []\<rparr>"

definition sig_operation_status :: signature where
  "sig_operation_status = \<lparr>sg_params = [(''name'', None)], sg_keyword_only = []\<rparr>"

definition sig_free_space_bytes :: signature where
  "sig_free_space_bytes = \<lparr>sg_params = [(''path'', Some (JStr ''/''))], sg_keyword_only = []\<rparr>"

definition sig_updates_check :: signature where
  "sig_updates_check = \<lparr>sg_params = [], sg_keyword_only = []\<rparr>"

definition sig_plan_app_upgrade :: signature where
  "sig_plan_app_upgrade = \<lparr>sg_params = [(''app'', None)], sg_keyword_only = []\<rparr>"

definition sig_updates_refresh :: signature where
  "sig_updates_refresh = \<lparr>sg_params = [(''target'', Some (JStr ''apps''))], sg_keyword_only = []\<rparr>"

definition sig_migrations_list :: signature where
  "sig_migrations_list = \<lparr>sg_params = [(''pending'', Some (JBool False)),
     (''done'', Some (JBool False))], sg_keyword_only = []\<rparr>"

definition sig_migrations_state :: signature where
  "sig_migrations_state = \<lparr>sg_params = [], sg_keyword_only = []\<rparr>"

definition sig_settings_list :: signature where
  "sig_settings_list = \<lparr>sg_params = [(''full'', Some (JBool False))], sg_keyword_only = []\<rparr>"

definition sig_settings_get :: signature where
  "sig_settings_get = \<lparr>sg_params = [(''key'', None), (''full'', Some (JBool False))], sg_keyword_only = []\<rparr>"

definition sig_regenconf_pending :: signature where
  "sig_regenconf_pending = \<lparr>sg_params = [(''names'', Some (JNull)),
     (''with_diff'', Some (JBool False))], sg_keyword_only = []\<rparr>"

definition sig_firewall_list :: signature where
  "sig_firewall_list = \<lparr>sg_params = [(''raw'', Some (JBool False)), (''protocol'', Some (JStr ''tcp'')),
     (''forwarded'', Some (JBool False))], sg_keyword_only = []\<rparr>"

definition sig_firewall_is_open :: signature where
  "sig_firewall_is_open = \<lparr>sg_params = [(''port'', None), (''protocol'', None)], sg_keyword_only = []\<rparr>"

definition sig_apps_list :: signature where
  "sig_apps_list = \<lparr>sg_params = [(''full'', Some (JBool False))], sg_keyword_only = []\<rparr>"

definition sig_app_info :: signature where
  "sig_app_info = \<lparr>sg_params = [(''app'', None), (''full'', Some (JBool False))], sg_keyword_only = []\<rparr>"

definition sig_app_resources :: signature where
  "sig_app_resources = \<lparr>sg_params = [(''app'', None)], sg_keyword_only = []\<rparr>"

definition sig_app_config_get :: signature where
  "sig_app_config_get = \<lparr>sg_params = [(''app'', None), (''key'', Some (JStr [])), (''full'', Some (JBool False)),
     (''export'', Some (JBool False))], sg_keyword_only = []\<rparr>"

definition sig_app_setting_get :: signature where
  "sig_app_setting_get = \<lparr>sg_params = [(''app'', None), (''key'', None)], sg_keyword_only = []\<rparr>"

definition sig_domains_list :: signature where
  "sig_domains_list = \<lparr>sg_params = [], sg_keyword_only = []\<rparr>"

definition sig_domain_cert_info :: signature where
  "sig_domain_cert_info = \<lparr>sg_params = [(''domain'', None)], sg_keyword_only = []\<rparr>"

definition sig_domain_dns_suggest :: signature where
  "sig_domain_dns_suggest = \<lparr>sg_params = [(''domain'', None)], sg_keyword_only = []\<rparr>"

definition sig_domain_dns_push_preview :: signature where
  "sig_domain_dns_push_preview = \<lparr>sg_params = [(''domain'', None), (''force'', Some (JBool False)),
     (''purge'', Some (JBool False))], sg_keyword_only = []\<rparr>"

definition sig_users_list :: signature where
  "sig_users_list = \<lparr>sg_params = [], sg_keyword_only = []\<rparr>"

definition sig_user_group_list :: signature where
  "sig_user_group_list = \<lparr>sg_params = [], sg_keyword_only = []\<rparr>"

definition sig_user_permission_list :: signature where
  "sig_user_permission_list = \<lparr>sg_params = [], sg_keyword_only = []\<rparr>"

definition sig_user_permission_info :: signature where
  "sig_user_permission_info = \<lparr>sg_params = [(''permission'', None)], sg_keyword_only = []\<rparr>"

definition sig_backups_list :: signature where
  "sig_backups_list = \<lparr>sg_params = [], sg_keyword_only = []\<rparr>"

definition sig_backup_info :: signature where
  "sig_backup_info = \<lparr>sg_params = [(''name'', None),
     (''with_details'', Some (JBool False))], sg_keyword_only = []\<rparr>"

definition sig_package_inspect :: signature where
  "sig_package_inspect = \<lparr>sg_params = [(''source'', None)], sg_keyword_only = []\<rparr>"

definition sig_app_config_set :: signature where
  "sig_app_config_set = \<lparr>sg_params = [(''app'', None), (''key'', None), (''value'', None),
     (''confirmation_id'', Some (JNull))], sg_keyword_only = []\<rparr>"

definition sig_app_setting_set :: signature where
  "sig_app_setting_set = \<lparr>sg_params = [(''app'', None), (''key'', None), (''value'', Some (JNull)),
     (''delete'', Some (JBool False)), (''confirmation_id'', Some (JNull))], sg_keyword_only = []\<rparr>"

definition sig_user_create :: signature where
  "sig_user_create = \<lparr>sg_params = [(''username'', None), (''domain'', None), (''password'', None),
     (''fullname'', None), (''mailbox_quota'', Some (JStr ''0'')), (''admin'', Some (JBool False)),
     (''confirmation_id'', Some (JNull))], sg_keyword_only = []\<rparr>"

definition sig_user_update :: signature where
  "sig_user_update = \<lparr>sg_params = [(''username'', None), (''mail'', Some (JNull)),
     (''change_password'', Some (JNull)), (''add_mailforward'', Some (JNull)), (''remove_mailforward'', Some (JNull)),
     (''add_mailalias'', Some (JNull)), (''remove_mailalias'', Some (JNull)), (''mailbox_quota'', Some (JNull)),
     (''fullname'', Some (JNull)), (''confirmation_id'', Some (JNull))], sg_keyword_only = []\<rparr>"

definition sig_user_delete :: signature where
  "sig_user_delete = \<lparr>sg_params = [(''username'', None), (''purge'', Some (JBool False)),
     (''confirmation_id'', Some (JNull))], sg_keyword_only = []\<rparr>"

definition sig_user_group_create :: signature where
  "sig_user_group_create = \<lparr>sg_params = [(''groupname'', None),
     (''confirmation_id'', Some (JNull))], sg_keyword_only = []\<rparr>"

definition sig_user_group_update :: signature where
  "sig_user_group_update = \<lparr>sg_params = [(''groupname'', None), (''add'', Some (JNull)), (''remove'', Some (JNull)),
     (''confirmation_id'', Some (JNull))], sg_keyword_only = []\<rparr>"

definition sig_user_group_delete :: signature where
  "sig_user_group_delete = \<lparr>sg_params = [(''groupname'', None),
     (''confirmation_id'', Some (JNull))], sg_keyword_only = []\<rparr>"

definition sig_user_permission_add :: signature where
  "sig_user_permission_add = \<lparr>sg_params = [(''permission'', None), (''names'', None),
     (''confirmation_id'', Some (JNull))], sg_keyword_only = []\<rparr>"

definition sig_user_permission_remove :: signature where
  "sig_user_permission_remove = \<lparr>sg_params = [(''permission'', None), (''names'', None),
     (''confirmation_id'', Some (JNull))], sg_keyword_only = []\<rparr>"

definition sig_user_permission_update :: signature where
  "sig_user_permission_update = \<lparr>sg_params = [(''permission'', None), (''label'', Some (JNull)),
     (''show_tile'', Some (JNull)), (''protected'', Some (JNull)),
     (''confirmation_id'', Some (JNull))], sg_keyword_only = []\<rparr>"

definition sig_domain_add :: signature where
  "sig_domain_add = \<lparr>sg_params = [(''domain'', None), (''install_letsencrypt_cert'', Some (JBool False)),
     (''confirmation_id'', Some (JNull))], sg_keyword_only = []\<rparr>"

definition sig_domain_cert_install :: signature where
  "sig_domain_cert_install = \<lparr>sg_params = [(''domain'', None), (''letsencrypt'', Some (JBool True)),
     (''staging'', Some (JBool False)), (''confirmation_id'', Some (JNull))], sg_keyword_only = []\<rparr>"

definition sig_domain_dns_push :: signature where
  "sig_domain_dns_push = \<lparr>sg_params = [(''domain'', None), (''force'', Some (JBool False)),
     (''purge'', Some (JBool False)), (''confirmation_id'', Some (JNull))], sg_keyword_only = []\<rparr>"

definition sig_domain_remove :: signature where
  "sig_domain_remove = \<lparr>sg_params = [(''domain'', None), (''remove_apps'', Some (JBool False)),
     (''force'', Some (JBool False)), (''confirmation_id'', Some (JNull))], sg_keyword_only = []\<rparr>"

definition sig_service_restart :: signature where
  "sig_service_restart = \<lparr>sg_params = [(''names'', None),
     (''confirmation_id'', Some (JNull))], sg_keyword_only = []\<rparr>"

definition sig_service_stop :: signature where
  "sig_service_stop = \<lparr>sg_params = [(''names'', None),
     (''confirmation_id'', Some (JNull))], sg_keyword_only = []\<rparr>"

definition sig_service_start :: signature where
  "sig_service_start = \<lparr>sg_params = [(''names'', None),
     (''confirmation_id'', Some (JNull))], sg_keyword_only = []\<rparr>"

definition sig_backup_create :: signature where
  "sig_backup_create = \<lparr>sg_params = [(''name'', Some (JNull)), (''description'', Some (JNull)),
     (''apps'', Some (JNull)), (''system'', Some (JNull)),
     (''confirmation_id'', Some (JNull))], sg_keyword_only = []\<rparr>"

definition sig_backup_delete :: signature where
  "sig_backup_delete = \<lparr>sg_params = [(''name'', None),
     (''confirmation_id'', Some (JNull))], sg_keyword_only = []\<rparr>"

definition sig_app_install :: signature where
  "sig_app_install = \<lparr>sg_params = [(''app'', None), (''label'', Some (JNull)), (''args'', Some (JNull)),
     (''force'', Some (JBool False)), (''confirmation_id'', Some (JNull))], sg_keyword_only = []\<rparr>"

definition sig_app_upgrade :: signature where
  "sig_app_upgrade = \<lparr>sg_params = [(''app'', Some (JNull)), (''force'', Some (JBool False)),
     (''file'', Some (JNull)), (''url'', Some (JNull)), (''confirmation_id'', Some (JNull))], sg_keyword_only = []\<rparr>"

definition sig_app_remove :: signature where
  "sig_app_remove = \<lparr>sg_params = [(''app'', None), (''purge'', Some (JBool False)),
     (''confirmation_id'', Some (JNull))], sg_keyword_only = []\<rparr>"

definition sig_app_change_url :: signature where
  "sig_app_change_url = \<lparr>sg_params = [(''app'', None), (''domain'', None), (''path'', None),
     (''confirmation_id'', Some (JNull))], sg_keyword_only = []\<rparr>"

definition sig_backup_restore :: signature where
  "sig_backup_restore = \<lparr>sg_params = [(''name'', None), (''apps'', Some (JNull)), (''system'', Some (JNull)),
     (''force'', Some (JBool False)), (''confirmation_id'', Some (JNull))], sg_keyword_only = []\<rparr>"

definition sig_system_upgrade :: signature where
  "sig_system_upgrade = \<lparr>sg_params = [(''confirmation_id'', Some (JNull))], sg_keyword_only = []\<rparr>"

definition sig_system_reboot :: signature where
  "sig_system_reboot = \<lparr>sg_params = [(''confirmation_id'', Some (JNull))], sg_keyword_only = []\<rparr>"

definition sig_system_shutdown :: signature where
  "sig_system_shutdown = \<lparr>sg_params = [(''confirmation_id'', Some (JNull))], sg_keyword_only = []\<rparr>"

definition sig_migrations_run :: signature where
  "sig_migrations_run = \<lparr>sg_params = [(''targets'', Some (JNull)), (''skip'', Some (JBool False)),
     (''auto'', Some (JBool False)), (''force_rerun'', Some (JBool False)), (''accept_disclaimer'', Some (JBool False)),
     (''skip_postmigrations'', Some (JBool False)), (''confirmation_id'', Some (JNull))], sg_keyword_only = []\<rparr>"

definition sig_firewall_open :: signature where
  "sig_firewall_open = \<lparr>sg_params = [(''port'', None), (''protocol'', None), (''comment'', Some (JStr [])),
     (''upnp'', Some (JBool False)), (''no_reload'', Some (JBool False)),
     (''confirmation_id'', Some (JNull))], sg_keyword_only = []\<rparr>"

definition sig_firewall_close :: signature where
  "sig_firewall_close = \<lparr>sg_params = [(''port'', None), (''protocol'', None), (''upnp_only'', Some (JBool False)),
     (''no_reload'', Some (JBool False)), (''confirmation_id'', Some (JNull))], sg_keyword_only = []\<rparr>"

definition sig_firewall_reload :: signature where
  "sig_firewall_reload = \<lparr>sg_params = [(''skip_upnp'', Some (JBool False)),
     (''confirmation_id'', Some (JNull))], sg_keyword_only = []\<rparr>"

definition sig_settings_set :: signature where
  "sig_settings_set = \<lparr>sg_params = [(''key'', None), (''value'', None),
     (''confirmation_id'', Some (JNull))], sg_keyword_only = []\<rparr>"

definition sig_regenconf_apply :: signature where
  "sig_regenconf_apply = \<lparr>sg_params = [(''names'', Some (JNull)), (''force'', Some (JBool False)),
     (''confirmation_id'', Some (JNull))], sg_keyword_only = []\<rparr>"

definition sig_package_install_test :: signature where
  "sig_package_install_test = \<lparr>sg_params = [(''source'', None), (''label'', Some (JNull)),
     (''args'', Some (JNull))], sg_keyword_only = [(''session_id'', Some (JNull)),
     (''confirmation_id'', Some (JNull))]\<rparr>"

definition sig_package_upgrade_test :: signature where
  "sig_package_upgrade_test = \<lparr>sg_params = [(''app'', None),
     (''source'', None)], sg_keyword_only = [(''session_id'', Some (JNull)), (''confirmation_id'', Some (JNull))]\<rparr>"

definition sig_package_backup_test :: signature where
  "sig_package_backup_test = \<lparr>sg_params = [(''app'', None)], sg_keyword_only = [(''session_id'', Some (JNull)),
     (''confirmation_id'', Some (JNull))]\<rparr>"

definition sig_package_restore_test :: signature where
  "sig_package_restore_test = \<lparr>sg_params = [(''app'', None),
     (''archive_name'', None)], sg_keyword_only = [(''session_id'', Some (JNull)),
     (''confirmation_id'', Some (JNull))]\<rparr>"

definition sig_package_change_url_test :: signature where
  "sig_package_change_url_test = \<lparr>sg_params = [(''app'', None), (''domain'', None),
     (''path'', None)], sg_keyword_only = [(''session_id'', Some (JNull)), (''confirmation_id'', Some (JNull))]\<rparr>"

definition sig_package_remove_test :: signature where
  "sig_package_remove_test = \<lparr>sg_params = [(''app'', None),
     (''purge'', Some (JBool True))], sg_keyword_only = [(''session_id'', Some (JNull)),
     (''confirmation_id'', Some (JNull))]\<rparr>"

definition sig_package_run_tests :: signature where
  "sig_package_run_tests = \<lparr>sg_params = [(''source'', None), (''app_id'', Some (JNull)),
     (''confirmation_id'', Some (JNull)), (''session_id'', Some (JNull))], sg_keyword_only = []\<rparr>"

definition sig_diagnose_app :: signature where
  "sig_diagnose_app = \<lparr>sg_params = [(''app'', None)], sg_keyword_only = []\<rparr>"

definition sig_validate_server :: signature where
  "sig_validate_server = \<lparr>sg_params = [], sg_keyword_only = []\<rparr>"

definition sig_safe_upgrade :: signature where
  "sig_safe_upgrade = \<lparr>sg_params = [(''app'', None),
     (''confirmation_id'', Some (JNull))], sg_keyword_only = []\<rparr>"

definition sig_repair_app :: signature where
  "sig_repair_app = \<lparr>sg_params = [(''app'', None),
     (''strategy'', Some (JStr ''conservative''))], sg_keyword_only = []\<rparr>"


subsection \<open>Method calls\<close>

definition BROKERED_METHODS :: "string list" where
  "BROKERED_METHODS =
   [''server_info'', ''health_check'', ''diagnosis_run'', ''catalog_package_inspect'', ''catalog_verify'',
    ''catalog_list'', ''catalog_publish_plan'', ''catalog_publish'', ''package_inspect'', ''package_lint'',
    ''package_run_tests'', ''package_install_test'', ''package_upgrade_test'', ''package_backup_test'',
    ''package_restore_test'', ''package_change_url_test'', ''package_remove_test'', ''safe_upgrade'', ''repair_app'',
    ''apps_list'', ''app_info'', ''app_resources'', ''app_config_get'', ''app_install'', ''app_upgrade'', ''app_remove'',
    ''app_change_url'', ''app_config_set'', ''app_setting_get'', ''app_setting_set'', ''backup_restore'',
    ''system_upgrade'', ''migrations_run'', ''firewall_open'', ''firewall_close'', ''firewall_reload'', ''user_create'',
    ''user_update'', ''user_delete'', ''user_group_create'', ''user_group_update'', ''user_group_delete'',
    ''user_permission_add'', ''user_permission_remove'', ''domain_add'', ''domain_cert_install'', ''diagnosis_get'',
    ''plan_app_upgrade'', ''diagnose_app'', ''validate_server'', ''domain_cert_info'', ''services_list'',
    ''service_status'', ''service_logs'', ''journal_query'', ''web_logs'', ''system_snapshot'', ''service_history'',
    ''ssh_diagnose'', ''network_snapshot'', ''http_probe'', ''incident_snapshot'', ''service_restart'', ''service_stop'',
    ''service_start'', ''domains_list'', ''users_list'', ''backups_list'', ''backup_create'', ''backup_delete'',
    ''backup_created_at_times'', ''free_space_bytes'', ''user_group_list'', ''user_permission_list'',
    ''operations_list'', ''operation_status'', ''operation_logs'', ''updates_check'', ''updates_refresh'',
    ''migrations_list'', ''migrations_state'', ''firewall_list'', ''firewall_is_open'', ''settings_list'',
    ''settings_get'', ''settings_set'', ''regenconf_pending'', ''regenconf_apply'', ''domain_dns_suggest'',
    ''domain_dns_push_preview'', ''domain_dns_push'', ''domain_remove'', ''user_permission_info'',
    ''user_permission_update'', ''backup_info'', ''system_reboot'', ''system_shutdown'', ''test_http_endpoint'',
    ''memory_get'', ''memory_list_contexts'', ''memory_recall'', ''memory_context'', ''memory_thread'', ''memory_store'',
    ''memory_feedback'']"

definition METHODS :: "(string \<times> signature \<times> 'y adapter_method) list" where
  "METHODS =
   [(''server_info'', sig_server_info, adapter_server_info), (''health_check'', sig_health_check, adapter_health_check),
     (''diagnosis_get'', sig_diagnosis_get, adapter_diagnosis_get),
     (''diagnosis_run'', sig_diagnosis_run, adapter_diagnosis_run),
     (''services_list'', sig_services_list, adapter_services_list),
     (''service_status'', sig_service_status, adapter_service_status),
     (''operations_list'', sig_operations_list, adapter_operations_list),
     (''operation_logs'', sig_operation_logs, adapter_operation_logs),
     (''operation_status'', sig_operation_status, adapter_operation_status),
     (''free_space_bytes'', sig_free_space_bytes, adapter_free_space_bytes),
     (''updates_check'', sig_updates_check, adapter_updates_check),
     (''plan_app_upgrade'', sig_plan_app_upgrade, adapter_plan_app_upgrade),
     (''updates_refresh'', sig_updates_refresh, adapter_updates_refresh),
     (''migrations_list'', sig_migrations_list, adapter_migrations_list),
     (''migrations_state'', sig_migrations_state, adapter_migrations_state),
     (''settings_list'', sig_settings_list, adapter_settings_list),
     (''settings_get'', sig_settings_get, adapter_settings_get),
     (''regenconf_pending'', sig_regenconf_pending, adapter_regenconf_pending),
     (''firewall_list'', sig_firewall_list, adapter_firewall_list),
     (''firewall_is_open'', sig_firewall_is_open, adapter_firewall_is_open),
     (''apps_list'', sig_apps_list, adapter_apps_list), (''app_info'', sig_app_info, adapter_app_info),
     (''app_resources'', sig_app_resources, adapter_app_resources),
     (''app_config_get'', sig_app_config_get, adapter_app_config_get),
     (''app_setting_get'', sig_app_setting_get, adapter_app_setting_get),
     (''domains_list'', sig_domains_list, adapter_domains_list),
     (''domain_cert_info'', sig_domain_cert_info, adapter_domain_cert_info),
     (''domain_dns_suggest'', sig_domain_dns_suggest, adapter_domain_dns_suggest),
     (''domain_dns_push_preview'', sig_domain_dns_push_preview, adapter_domain_dns_push_preview),
     (''users_list'', sig_users_list, adapter_users_list),
     (''user_group_list'', sig_user_group_list, adapter_user_group_list),
     (''user_permission_list'', sig_user_permission_list, adapter_user_permission_list),
     (''user_permission_info'', sig_user_permission_info, adapter_user_permission_info),
     (''backups_list'', sig_backups_list, adapter_backups_list), (''backup_info'', sig_backup_info, adapter_backup_info),
     (''package_inspect'', sig_package_inspect, adapter_package_inspect),
     (''app_config_set'', sig_app_config_set, adapter_app_config_set),
     (''app_setting_set'', sig_app_setting_set, adapter_app_setting_set),
     (''user_create'', sig_user_create, adapter_user_create), (''user_update'', sig_user_update, adapter_user_update),
     (''user_delete'', sig_user_delete, adapter_user_delete),
     (''user_group_create'', sig_user_group_create, adapter_user_group_create),
     (''user_group_update'', sig_user_group_update, adapter_user_group_update),
     (''user_group_delete'', sig_user_group_delete, adapter_user_group_delete),
     (''user_permission_add'', sig_user_permission_add, adapter_user_permission_add),
     (''user_permission_remove'', sig_user_permission_remove, adapter_user_permission_remove),
     (''user_permission_update'', sig_user_permission_update, adapter_user_permission_update),
     (''domain_add'', sig_domain_add, adapter_domain_add),
     (''domain_cert_install'', sig_domain_cert_install, adapter_domain_cert_install),
     (''domain_dns_push'', sig_domain_dns_push, adapter_domain_dns_push),
     (''domain_remove'', sig_domain_remove, adapter_domain_remove),
     (''service_restart'', sig_service_restart, adapter_service_restart),
     (''service_stop'', sig_service_stop, adapter_service_stop),
     (''service_start'', sig_service_start, adapter_service_start),
     (''backup_create'', sig_backup_create, adapter_backup_create),
     (''backup_delete'', sig_backup_delete, adapter_backup_delete),
     (''app_install'', sig_app_install, adapter_app_install), (''app_upgrade'', sig_app_upgrade, adapter_app_upgrade),
     (''app_remove'', sig_app_remove, adapter_app_remove),
     (''app_change_url'', sig_app_change_url, adapter_app_change_url),
     (''backup_restore'', sig_backup_restore, adapter_backup_restore),
     (''system_upgrade'', sig_system_upgrade, adapter_system_upgrade),
     (''system_reboot'', sig_system_reboot, adapter_system_reboot),
     (''system_shutdown'', sig_system_shutdown, adapter_system_shutdown),
     (''migrations_run'', sig_migrations_run, adapter_migrations_run),
     (''firewall_open'', sig_firewall_open, adapter_firewall_open),
     (''firewall_close'', sig_firewall_close, adapter_firewall_close),
     (''firewall_reload'', sig_firewall_reload, adapter_firewall_reload),
     (''settings_set'', sig_settings_set, adapter_settings_set),
     (''regenconf_apply'', sig_regenconf_apply, adapter_regenconf_apply),
     (''package_install_test'', sig_package_install_test, adapter_package_install_test),
     (''package_upgrade_test'', sig_package_upgrade_test, adapter_package_upgrade_test),
     (''package_backup_test'', sig_package_backup_test, adapter_package_backup_test),
     (''package_restore_test'', sig_package_restore_test, adapter_package_restore_test),
     (''package_change_url_test'', sig_package_change_url_test, adapter_package_change_url_test),
     (''package_remove_test'', sig_package_remove_test, adapter_package_remove_test),
     (''package_run_tests'', sig_package_run_tests, adapter_package_run_tests),
     (''diagnose_app'', sig_diagnose_app, adapter_diagnose_app),
     (''validate_server'', sig_validate_server, adapter_validate_server),
     (''safe_upgrade'', sig_safe_upgrade, adapter_safe_upgrade), (''repair_app'', sig_repair_app, adapter_repair_app)]"

text \<open>A call \<open>adapter.method(*args, **kwargs)\<close>.\<close>

definition call_method :: "'y adapter_env \<Rightarrow> adapter_call \<Rightarrow> ('y, json) step" where
  "call_method A c =
     (if ad_broker A \<noteq> None \<and> ac_method c \<notin> set BROKERED_METHODS
      then ret (Inl (Exn YunohostUnavailableError (''adapter operation '' @ py_repr (ac_method c) @
        '' is not yet available through the privileged broker'')))
      else (case map_of METHODS (ac_method c) of
          None \<Rightarrow> ret (Inl (Exn AttributeError (''no method '' @ py_repr (ac_method c))))
        | Some (sg, body) \<Rightarrow> and_then (ret (bind_arguments sg (ac_args c) (ac_kwargs c))) (\<lambda>b. body A b)))"

text \<open>What the helper does with an accepted request: the registered operation checks the arguments and
  makes one call of an adapter that has no broker.\<close>

definition root_invoke :: "'y adapter_env \<Rightarrow> string \<Rightarrow> dict \<Rightarrow> ('y, json) step" where
  "root_invoke A op arguments =
     (case map_of OPERATIONS op of
        None \<Rightarrow> ret (Inl (protocol_error ''unsupported operation''))
      | Some operation \<Rightarrow>
          and_then (ret (bo_invoke operation arguments)) (\<lambda>c.
          and_then (call_method (A\<lparr>ad_broker := None\<rparr>) c) (\<lambda>v. ret (Inr (adapter_result c v)))))"

end
