(* ===== verification/Server_Tools.thy ===== *)
theory Server_Tools
  imports Write_Tools Adapter_Dispatch Package_Sessions
begin

text \<open>
  The tools of \<open>server.py\<close> that make one call of the adapter: each with its parameters, the scope it asks
  for, the action it is audited under, its confirmation gate, and the call.  \<open>run_tool\<close> stacks the
  decorators as the file does.
\<close>

subsection \<open>Tools and the server around them\<close>

datatype hard_check = UpgradeChecks | RemoveChecks

record tool_gate =
  tg_policy_key :: "dict \<Rightarrow> exn + string"
  tg_checks :: "hard_check option"
  tg_defer :: bool
  tg_plan :: "(dict \<Rightarrow> exn + json) option"

record decoration =
  tl_name :: string
  tl_params :: "(string \<times> json option) list"
  tl_scope :: "scope option"
  tl_audit :: "string option"
  tl_sanitizer :: "(dict \<Rightarrow> json) option"
  tl_gate :: "tool_gate option"

text \<open>A tool whose body is one call of the adapter.\<close>

record tool = decoration +
  tl_call :: "dict \<Rightarrow> exn + adapter_call"

text \<open>What the tools act on besides the confirmations, the audit log and the lock of \<open>world\<close>: the system behind
  the adapter, the package-test sessions, and the two stores of plans.\<close>

record 'y frontend =
  fr_system :: 'y
  fr_sessions :: session_store
  fr_plans :: mem_store
  fr_catalog_plans :: mem_store

record ('st, 'y) server_env =
  se_adapter :: "'y adapter_env"
  se_libs :: libs
  se_fmt :: "json \<Rightarrow> string"
  se_api :: "'st store_api"
  se_policy :: policy
  se_now :: real
  se_backup_times :: "'y \<Rightarrow> exn + (string \<times> real) list"

definition defer_to_broker :: "('st, 'y) server_env \<Rightarrow> bool" where
  "defer_to_broker E = (ad_broker (se_adapter E) \<noteq> None)"

text \<open>The hard checks in front of an upgrade and of a removal; with a broker they are the broker's.\<close>

definition check_apps_upgrade :: "('st, 'y) server_env \<Rightarrow> 'y \<Rightarrow> policy_rule \<Rightarrow> exn + unit" where
  "check_apps_upgrade E y rule =
     (if defer_to_broker E then Inr ()
      else ebind (snd (adapter_free_space_bytes (se_adapter E) [(''path'', JStr ''/'')] y)) (\<lambda>free.
           ebind (case free of JInt n \<Rightarrow> check_free_space rule n | _ \<Rightarrow> Inl (Exn TypeError ''free space is not a number'')) (\<lambda>_.
           ebind (se_backup_times E y) (\<lambda>times. check_recent_backup rule times (se_now E)))))"

definition check_apps_remove :: "('st, 'y) server_env \<Rightarrow> 'y \<Rightarrow> policy_rule \<Rightarrow> exn + unit" where
  "check_apps_remove E y rule =
     (if defer_to_broker E then Inr ()
      else ebind (se_backup_times E y) (\<lambda>times. check_recent_backup rule times (se_now E)))"

definition run_check :: "('st, 'y) server_env \<Rightarrow> 'y \<Rightarrow> hard_check \<Rightarrow> policy_rule \<Rightarrow> exn + unit" where
  "run_check E y c = (case c of UpgradeChecks \<Rightarrow> check_apps_upgrade E y | RemoveChecks \<Rightarrow> check_apps_remove E y)"

definition gate_of :: "('st, 'y) server_env \<Rightarrow> 'y \<Rightarrow> tool_gate \<Rightarrow> confirmation_gate" where
  "gate_of E y g = \<lparr>cg_policy_key = tg_policy_key g, cg_policy = se_policy E,
     cg_checks = map_option (run_check E y) (tg_checks g), cg_plan_builder = tg_plan g,
     cg_defer_to_broker = (tg_defer g \<and> defer_to_broker E)\<rparr>"

text \<open>A call of the adapter as a step of the frontend.\<close>

definition run_adapter :: "'y adapter_env \<Rightarrow> adapter_call \<Rightarrow> ('y frontend, json) step" where
  "run_adapter A c fr = (case call_method A c (fr_system fr) of (y, r) \<Rightarrow> (fr\<lparr>fr_system := y\<rparr>, r))"

text \<open>The decorators around a body: \<open>redact_response\<close> and \<open>translate_known_errors\<close> outside
  \<open>require_scope\<close> outside \<open>audited_write\<close> outside \<open>require_confirmation\<close>, those of them the tool has.\<close>

definition plain_body :: "(dict \<Rightarrow> 'sys \<Rightarrow> 'sys \<times> (exn + json)) \<Rightarrow> dict \<Rightarrow> ('st, 'sys, json) action" where
  "plain_body body kwargs w = (let (sys, r) = body kwargs (w_system w) in (w\<lparr>w_system := sys, w_calls := w_calls w @ [kwargs]\<rparr>, r))"

definition decorated ::
  "('st, 'y) server_env \<Rightarrow> 'a decoration_scheme \<Rightarrow> string \<Rightarrow> string \<Rightarrow> authenticated_request option \<Rightarrow>
     (dict \<Rightarrow> ('y frontend, json) step) \<Rightarrow> dict \<Rightarrow> ('st, 'y frontend, json) action" where
  "decorated E T new_id audit_id current body kwargs w =
     (let gated = (case tl_gate T of None \<Rightarrow> plain_body body
            | Some g \<Rightarrow> confirmed (se_libs E) (se_api E) (se_now E) new_id (gate_of E (fr_system (w_system w)) g) current body);
          audited = (case tl_audit T of None \<Rightarrow> gated kwargs
            | Some action \<Rightarrow> audited_write (se_libs E) (se_now E) audit_id action (tl_sanitizer T) current gated kwargs);
          (w', r) = (case tl_scope T of None \<Rightarrow> audited | Some s \<Rightarrow> scoped (se_fmt E) s current audited) w
      in (w', redact_response (translate_known_errors r)))"

text \<open>The decorators of a tool without a confirmation gate, over any system.\<close>

definition ungated ::
  "libs \<Rightarrow> (json \<Rightarrow> string) \<Rightarrow> real \<Rightarrow> 'a decoration_scheme \<Rightarrow> string \<Rightarrow> authenticated_request option \<Rightarrow>
     (dict \<Rightarrow> ('sys, json) step) \<Rightarrow> dict \<Rightarrow> ('st, 'sys, json) action" where
  "ungated L fmt now T audit_id current body k w =
     (let audited = (case tl_audit T of None \<Rightarrow> plain_body body k
            | Some name \<Rightarrow> audited_write L now audit_id name (tl_sanitizer T) current (plain_body body) k);
          (w', r) = (case tl_scope T of None \<Rightarrow> audited | Some s \<Rightarrow> scoped fmt s current audited) w
      in (w', redact_response (translate_known_errors r)))"

text \<open>The body runs exactly when the caller has the scope and, for a tool that is audited, the lock is free.\<close>

lemma ungated_system:
  assumes "tl_scope T = Some s"
  shows "w_system (fst (ungated L fmt now T audit_id current body k w)) =
    (case current of None \<Rightarrow> w_system w
     | Some rq \<Rightarrow> if has_scope rq s \<and> (tl_audit T = None \<or> \<not> w_locked w) then fst (body k (w_system w)) else w_system w)"
  by (auto simp: ungated_def assms scoped_def require_current_request_def audited_write_def locked_def plain_body_def pop_consumed_ticket_def
      Let_def split_beta split: option.split sum.split)

definition tool_body :: "('st, 'y) server_env \<Rightarrow> tool \<Rightarrow> dict \<Rightarrow> ('y frontend, json) step" where
  "tool_body E T kwargs = and_then (ret (tl_call T kwargs)) (run_adapter (se_adapter E))"

definition run_tool ::
  "('st, 'y) server_env \<Rightarrow> tool \<Rightarrow> string \<Rightarrow> string \<Rightarrow> authenticated_request option \<Rightarrow> dict \<Rightarrow> ('st, 'y frontend, json) action" where
  "run_tool E T new_id audit_id current kwargs = decorated E T new_id audit_id current (tool_body E T) kwargs"

subsection \<open>Tools that read\<close>

definition tool_server_info :: tool where
  "tool_server_info = \<lparr>tl_name = ''server_info'', tl_params = [],
    tl_scope = Some SERVER_READ, tl_audit = None, tl_sanitizer = None, tl_gate = None,
    tl_call = (\<lambda>k. Inr (call_of ''server_info'' [] []))\<rparr>"


definition tool_health_check :: tool where
  "tool_health_check = \<lparr>tl_name = ''health_check'', tl_params = [],
    tl_scope = Some DIAGNOSIS_READ, tl_audit = None, tl_sanitizer = None, tl_gate = None,
    tl_call = (\<lambda>k. Inr (call_of ''health_check'' [] []))\<rparr>"


definition tool_apps_list :: tool where
  "tool_apps_list = \<lparr>tl_name = ''apps_list'', tl_params = [(''full'', Some (JBool False))],
    tl_scope = Some APPS_READ, tl_audit = None, tl_sanitizer = None, tl_gate = None,
    tl_call = (\<lambda>k. Inr (call_of ''apps_list'' [] [(''full'', dget k ''full'')]))\<rparr>"


definition tool_app_info :: tool where
  "tool_app_info = \<lparr>tl_name = ''app_info'', tl_params = [(''app'', None), (''full'', Some (JBool False))],
    tl_scope = Some APPS_READ, tl_audit = None, tl_sanitizer = None, tl_gate = None,
    tl_call = (\<lambda>k. Inr (call_of ''app_info'' [dget k ''app''] [(''full'', dget k ''full'')]))\<rparr>"


definition tool_app_resources :: tool where
  "tool_app_resources = \<lparr>tl_name = ''app_resources'', tl_params = [(''app'', None)],
    tl_scope = Some APPS_READ, tl_audit = None, tl_sanitizer = None, tl_gate = None,
    tl_call = (\<lambda>k. Inr (call_of ''app_resources'' [dget k ''app''] []))\<rparr>"


definition tool_app_config_get :: tool where
  "tool_app_config_get = \<lparr>tl_name = ''app_config_get'', tl_params = [(''app'', None),
     (''key'', Some (JStr [])), (''full'', Some (JBool False)), (''export'', Some (JBool False))],
    tl_scope = Some APPS_CONFIG_READ, tl_audit = None, tl_sanitizer = None, tl_gate = None,
    tl_call = (\<lambda>k. Inr (call_of ''app_config_get'' [dget k ''app''] [(''key'', dget k ''key''),
       (''full'', dget k ''full''), (''export'', dget k ''export'')]))\<rparr>"


definition tool_app_setting_get :: tool where
  "tool_app_setting_get = \<lparr>tl_name = ''app_setting_get'', tl_params = [(''app'', None), (''key'', None)],
    tl_scope = Some APPS_SETTING_READ, tl_audit = None, tl_sanitizer = None, tl_gate = None,
    tl_call = (\<lambda>k. Inr (call_of ''app_setting_get'' [dget k ''app'', dget k ''key''] []))\<rparr>"


definition tool_diagnosis_run :: tool where
  "tool_diagnosis_run = \<lparr>tl_name = ''diagnosis_run'', tl_params = [(''categories'', Some (JNull)),
     (''force'', Some (JBool False))],
    tl_scope = Some DIAGNOSIS_READ, tl_audit = None, tl_sanitizer = None, tl_gate = None,
    tl_call = (\<lambda>k. Inr (call_of ''diagnosis_run'' [] [(''categories'', dget k ''categories''),
       (''force'', dget k ''force'')]))\<rparr>"


definition tool_diagnosis_get :: tool where
  "tool_diagnosis_get = \<lparr>tl_name = ''diagnosis_get'', tl_params = [],
    tl_scope = Some DIAGNOSIS_READ, tl_audit = None, tl_sanitizer = None, tl_gate = None,
    tl_call = (\<lambda>k. Inr (call_of ''diagnosis_get'' [] []))\<rparr>"


definition tool_services_list :: tool where
  "tool_services_list = \<lparr>tl_name = ''services_list'', tl_params = [],
    tl_scope = Some SERVICES_READ, tl_audit = None, tl_sanitizer = None, tl_gate = None,
    tl_call = (\<lambda>k. Inr (call_of ''services_list'' [] []))\<rparr>"


definition tool_service_status :: tool where
  "tool_service_status = \<lparr>tl_name = ''service_status'', tl_params = [(''names'', None)],
    tl_scope = Some SERVICES_READ, tl_audit = None, tl_sanitizer = None, tl_gate = None,
    tl_call = (\<lambda>k. Inr (call_of ''service_status'' [dget k ''names''] []))\<rparr>"


definition tool_domains_list :: tool where
  "tool_domains_list = \<lparr>tl_name = ''domains_list'', tl_params = [],
    tl_scope = Some DOMAINS_READ, tl_audit = None, tl_sanitizer = None, tl_gate = None,
    tl_call = (\<lambda>k. Inr (call_of ''domains_list'' [] []))\<rparr>"


definition tool_domain_cert_info :: tool where
  "tool_domain_cert_info = \<lparr>tl_name = ''domain_cert_info'', tl_params = [(''domain'', None)],
    tl_scope = Some DOMAINS_READ, tl_audit = None, tl_sanitizer = None, tl_gate = None,
    tl_call = (\<lambda>k. Inr (call_of ''domain_cert_info'' [dget k ''domain''] []))\<rparr>"


definition tool_domain_dns_suggest :: tool where
  "tool_domain_dns_suggest = \<lparr>tl_name = ''domain_dns_suggest'', tl_params = [(''domain'', None)],
    tl_scope = Some DOMAINS_READ, tl_audit = None, tl_sanitizer = None, tl_gate = None,
    tl_call = (\<lambda>k. Inr (call_of ''domain_dns_suggest'' [dget k ''domain''] []))\<rparr>"


definition tool_domain_dns_push_preview :: tool where
  "tool_domain_dns_push_preview = \<lparr>tl_name = ''domain_dns_push_preview'', tl_params = [(''domain'', None),
     (''force'', Some (JBool False)), (''purge'', Some (JBool False))],
    tl_scope = Some DOMAINS_READ, tl_audit = None, tl_sanitizer = None, tl_gate = None,
    tl_call = (\<lambda>k. Inr (call_of ''domain_dns_push_preview'' [dget k ''domain''] [(''force'',
       dget k ''force''), (''purge'', dget k ''purge'')]))\<rparr>"


definition tool_users_list :: tool where
  "tool_users_list = \<lparr>tl_name = ''users_list'', tl_params = [],
    tl_scope = Some USERS_READ, tl_audit = None, tl_sanitizer = None, tl_gate = None,
    tl_call = (\<lambda>k. Inr (call_of ''users_list'' [] []))\<rparr>"


definition tool_user_group_list :: tool where
  "tool_user_group_list = \<lparr>tl_name = ''user_group_list'', tl_params = [],
    tl_scope = Some USERS_READ, tl_audit = None, tl_sanitizer = None, tl_gate = None,
    tl_call = (\<lambda>k. Inr (call_of ''user_group_list'' [] []))\<rparr>"


definition tool_user_permission_list :: tool where
  "tool_user_permission_list = \<lparr>tl_name = ''user_permission_list'', tl_params = [],
    tl_scope = Some USERS_READ, tl_audit = None, tl_sanitizer = None, tl_gate = None,
    tl_call = (\<lambda>k. Inr (call_of ''user_permission_list'' [] []))\<rparr>"


definition tool_user_permission_info :: tool where
  "tool_user_permission_info = \<lparr>tl_name = ''user_permission_info'', tl_params = [(''permission'', None)],
    tl_scope = Some USERS_READ, tl_audit = None, tl_sanitizer = None, tl_gate = None,
    tl_call = (\<lambda>k. Inr (call_of ''user_permission_info'' [dget k ''permission''] []))\<rparr>"


definition tool_backups_list :: tool where
  "tool_backups_list = \<lparr>tl_name = ''backups_list'', tl_params = [],
    tl_scope = Some BACKUPS_READ, tl_audit = None, tl_sanitizer = None, tl_gate = None,
    tl_call = (\<lambda>k. Inr (call_of ''backups_list'' [] []))\<rparr>"


definition tool_backup_info :: tool where
  "tool_backup_info = \<lparr>tl_name = ''backup_info'', tl_params = [(''name'', None),
     (''with_details'', Some (JBool False))],
    tl_scope = Some BACKUPS_READ, tl_audit = None, tl_sanitizer = None, tl_gate = None,
    tl_call = (\<lambda>k. Inr (call_of ''backup_info'' [dget k ''name''] [(''with_details'',
       dget k ''with_details'')]))\<rparr>"


definition tool_operations_list :: tool where
  "tool_operations_list = \<lparr>tl_name = ''operations_list'', tl_params = [(''limit'', Some (JNull)),
     (''with_suboperations'', Some (JBool False))],
    tl_scope = Some LOGS_READ, tl_audit = None, tl_sanitizer = None, tl_gate = None,
    tl_call = (\<lambda>k. Inr (call_of ''operations_list'' [] [(''limit'', dget k ''limit''),
       (''with_suboperations'', dget k ''with_suboperations'')]))\<rparr>"


definition tool_operation_status :: tool where
  "tool_operation_status = \<lparr>tl_name = ''operation_status'', tl_params = [(''name'', None)],
    tl_scope = Some LOGS_READ, tl_audit = None, tl_sanitizer = None, tl_gate = None,
    tl_call = (\<lambda>k. Inr (call_of ''operation_status'' [dget k ''name''] []))\<rparr>"


definition tool_operation_logs :: tool where
  "tool_operation_logs = \<lparr>tl_name = ''operation_logs'', tl_params = [(''name'', None),
     (''tail_lines'', Some (JNull))],
    tl_scope = Some LOGS_READ, tl_audit = None, tl_sanitizer = None, tl_gate = None,
    tl_call = (\<lambda>k. Inr (call_of ''operation_logs'' [dget k ''name''] [(''tail_lines'',
       dget k ''tail_lines'')]))\<rparr>"


definition tool_updates_check :: tool where
  "tool_updates_check = \<lparr>tl_name = ''updates_check'', tl_params = [],
    tl_scope = Some APPS_READ, tl_audit = None, tl_sanitizer = None, tl_gate = None,
    tl_call = (\<lambda>k. Inr (call_of ''updates_check'' [] []))\<rparr>"


definition tool_updates_refresh :: tool where
  "tool_updates_refresh = \<lparr>tl_name = ''updates_refresh'', tl_params = [(''target'', Some (JStr ''apps''))],
    tl_scope = Some SYSTEM_UPDATE, tl_audit = None, tl_sanitizer = None, tl_gate = None,
    tl_call = (\<lambda>k. Inr (call_of ''updates_refresh'' [] [(''target'', dget k ''target'')]))\<rparr>"


definition tool_migrations_list :: tool where
  "tool_migrations_list = \<lparr>tl_name = ''migrations_list'', tl_params = [(''pending'', Some (JBool False)),
     (''done'', Some (JBool False))],
    tl_scope = Some SYSTEM_UPDATE, tl_audit = None, tl_sanitizer = None, tl_gate = None,
    tl_call = (\<lambda>k. Inr (call_of ''migrations_list'' [] [(''pending'', dget k ''pending''),
       (''done'', dget k ''done'')]))\<rparr>"


definition tool_migrations_state :: tool where
  "tool_migrations_state = \<lparr>tl_name = ''migrations_state'', tl_params = [],
    tl_scope = Some SYSTEM_UPDATE, tl_audit = None, tl_sanitizer = None, tl_gate = None,
    tl_call = (\<lambda>k. Inr (call_of ''migrations_state'' [] []))\<rparr>"


definition tool_firewall_list :: tool where
  "tool_firewall_list = \<lparr>tl_name = ''firewall_list'', tl_params = [(''raw'', Some (JBool False)),
     (''protocol'', Some (JStr ''tcp'')), (''forwarded'', Some (JBool False))],
    tl_scope = Some FIREWALL_READ, tl_audit = None, tl_sanitizer = None, tl_gate = None,
    tl_call = (\<lambda>k. Inr (call_of ''firewall_list'' [] [(''raw'', dget k ''raw''),
       (''protocol'', dget k ''protocol''), (''forwarded'', dget k ''forwarded'')]))\<rparr>"


definition tool_firewall_is_open :: tool where
  "tool_firewall_is_open = \<lparr>tl_name = ''firewall_is_open'', tl_params = [(''port'', None),
     (''protocol'', None)],
    tl_scope = Some FIREWALL_READ, tl_audit = None, tl_sanitizer = None, tl_gate = None,
    tl_call = (\<lambda>k. Inr (call_of ''firewall_is_open'' [dget k ''port'', dget k ''protocol''] []))\<rparr>"


definition tool_settings_list :: tool where
  "tool_settings_list = \<lparr>tl_name = ''settings_list'', tl_params = [(''full'', Some (JBool False))],
    tl_scope = Some SETTINGS_READ, tl_audit = None, tl_sanitizer = None, tl_gate = None,
    tl_call = (\<lambda>k. Inr (call_of ''settings_list'' [] [(''full'', dget k ''full'')]))\<rparr>"


definition tool_settings_get :: tool where
  "tool_settings_get = \<lparr>tl_name = ''settings_get'', tl_params = [(''key'', None),
     (''full'', Some (JBool False))],
    tl_scope = Some SETTINGS_READ, tl_audit = None, tl_sanitizer = None, tl_gate = None,
    tl_call = (\<lambda>k. Inr (call_of ''settings_get'' [dget k ''key''] [(''full'', dget k ''full'')]))\<rparr>"


definition tool_regenconf_pending :: tool where
  "tool_regenconf_pending = \<lparr>tl_name = ''regenconf_pending'', tl_params = [(''names'', Some (JNull)),
     (''with_diff'', Some (JBool False))],
    tl_scope = Some REGENCONF_READ, tl_audit = None, tl_sanitizer = None, tl_gate = None,
    tl_call = (\<lambda>k. Inr (call_of ''regenconf_pending'' [] [(''names'', dget k ''names''),
       (''with_diff'', dget k ''with_diff'')]))\<rparr>"


definition tool_package_inspect :: tool where
  "tool_package_inspect = \<lparr>tl_name = ''package_inspect'', tl_params = [(''source'', None)],
    tl_scope = Some PACKAGES_INSPECT, tl_audit = None, tl_sanitizer = None, tl_gate = None,
    tl_call = (\<lambda>k. Inr (call_of ''package_inspect'' [dget k ''source''] []))\<rparr>"


definition tool_package_logs :: tool where
  "tool_package_logs = \<lparr>tl_name = ''package_logs'', tl_params = [(''operation'', None),
     (''tail_lines'', Some (JNull))],
    tl_scope = Some PACKAGES_INSPECT, tl_audit = None, tl_sanitizer = None, tl_gate = None,
    tl_call = (\<lambda>k. Inr (call_of ''operation_logs'' [dget k ''operation''] [(''tail_lines'',
       dget k ''tail_lines'')]))\<rparr>"


definition tool_diagnose_app :: tool where
  "tool_diagnose_app = \<lparr>tl_name = ''diagnose_app'', tl_params = [(''app'', None)],
    tl_scope = Some APPS_READ, tl_audit = None, tl_sanitizer = None, tl_gate = None,
    tl_call = (\<lambda>k. Inr (call_of ''diagnose_app'' [dget k ''app''] []))\<rparr>"


definition tool_validate_server :: tool where
  "tool_validate_server = \<lparr>tl_name = ''validate_server'', tl_params = [],
    tl_scope = Some SERVER_READ, tl_audit = None, tl_sanitizer = None, tl_gate = None,
    tl_call = (\<lambda>k. Inr (call_of ''validate_server'' [] []))\<rparr>"


subsection \<open>Plans and what the audit log keeps\<close>

definition control_plane_audit_arguments :: "dict \<Rightarrow> json" where
  "control_plane_audit_arguments arguments =
     (let v = dget arguments ''value''; hidden = JObj (dset arguments ''value'' (JStr REDACTED))
      in if dget arguments ''app'' = JStr CONTROL_PLANE_APP_ID then if v \<noteq> JNull then hidden else JObj arguments
         else if is_str v \<and> is_sensitive_key (text_of (py_or (dget arguments ''key'') (JStr []))) then hidden
         else JObj arguments)"

definition app_config_plan :: "dict \<Rightarrow> exn + json" where
  "app_config_plan k =
     (let own = (dget k ''app'' = JStr CONTROL_PLANE_APP_ID)
      in Inr (JObj [(''action'', JStr ''set app config''), (''app'', dget k ''app''), (''key'', dget k ''key''),
           (''value'', if \<not> is_sensitive_key (text_of (dget k ''key'')) \<and> \<not> own then dget k ''value'' else JStr REDACTED),
           (''warning'', JStr (if own
              then ''This changes the YunoHost MCP control plane and requires the configured owner'' @ [CHR 0x27] @
                   ''s co-signature.''
              else ''Applies immediately and typically restarts the app'' @ [CHR 0x27] @ ''s service. '' @
                   ''Call app_config_get(app, full=True) first to confirm this is the exact key you mean.''))]))"

definition app_setting_plan :: "dict \<Rightarrow> exn + json" where
  "app_setting_plan k =
     (let own = (dget k ''app'' = JStr CONTROL_PLANE_APP_ID)
      in Inr (JObj [(''action'', JStr (if truthy (dget_default k ''delete'' (JBool False)) then ''delete app setting'' else ''set app setting'')),
           (''app'', dget k ''app''), (''key'', dget k ''key''),
           (''value'', if \<not> is_sensitive_key (text_of (dget k ''key'')) \<and> \<not> own then dget_default k ''value'' JNull else JStr REDACTED),
           (''warning'', JStr (if own
              then ''This changes the YunoHost MCP control plane, including potentially its pinned owner identity, '' @
                   ''and requires the configured owner'' @ [CHR 0x27] @ ''s co-signature.''
              else ''There is no schema behind these keys the way app_config_get(full=True) provides for '' @
                   ''config-panel options. Call app_setting_get first to confirm the current value and that this '' @
                   ''is the exact key you mean.''))]))"

definition validate_backup_archive_name :: "json \<Rightarrow> exn + unit" where
  "validate_backup_archive_name n =
     ebind (guard (str_within (Some 256) n) (Exn ToolInputError ''name must be a non-empty string'')) (\<lambda>_.
       guard (CHR ''/'' \<notin> set (text_of n) \<and> char_of (92 :: nat) \<notin> set (text_of n) \<and> text_of n \<notin> {''.'', ''..''})
         (Exn ToolInputError ''name must be an archive name, not a path''))"

definition backup_delete_plan :: "dict \<Rightarrow> exn + json" where
  "backup_delete_plan k =
     ebind (validate_backup_archive_name (dget k ''name'')) (\<lambda>_.
       Inr (JObj [(''action'', JStr ''delete backup archive''), (''name'', dget k ''name''),
         (''warning'', JStr ''This permanently deletes the named backup archive and cannot be undone.'')]))"

subsection \<open>Tools that change the system\<close>

definition tool_domain_add :: tool where
  "tool_domain_add = \<lparr>tl_name = ''domain_add'', tl_params = [(''domain'', None),
     (''install_letsencrypt_cert'', Some (JBool False)), (''confirmation_id'', Some (JNull))],
    tl_scope = Some DOMAINS_WRITE, tl_audit = Some ''domains.write'', tl_sanitizer = None, tl_gate =
      Some \<lparr>tg_policy_key = (\<lambda>_. Inr ''domains.write''), tg_checks = None, tg_defer = True,
        tg_plan = Some (\<lambda>k. Inr (JObj [(''action'', JStr ''add domain''), (''domain'', dget k ''domain''),
           (''install_letsencrypt_cert'', dget_default k ''install_letsencrypt_cert'' (JBool False)),
           (''warning'', JStr ((''This is externally visible (DNS/nginx/mail config) and, with install_letsencrypt_cert=true, '' @
              ''contacts Let'') @ [CHR 0x27] @ ''s Encrypt.''))]))\<rparr>,
    tl_call = (\<lambda>k. Inr (call_of ''domain_add'' [dget k ''domain''] [(''install_letsencrypt_cert'',
       dget k ''install_letsencrypt_cert''), (''confirmation_id'', dget k ''confirmation_id'')]))\<rparr>"


definition tool_domain_cert_install :: tool where
  "tool_domain_cert_install = \<lparr>tl_name = ''domain_cert_install'', tl_params = [(''domain'', None),
     (''letsencrypt'', Some (JBool True)), (''staging'', Some (JBool False)), (''confirmation_id'', Some (JNull))],
    tl_scope = Some DOMAINS_WRITE, tl_audit = Some ''domains.cert'', tl_sanitizer = None, tl_gate =
      Some \<lparr>tg_policy_key = (\<lambda>_. Inr ''domains.cert''), tg_checks = None, tg_defer = True,
        tg_plan = Some (\<lambda>k. Inr (JObj [(''action'', JStr ''install certificate''),
           (''domain'', dget k ''domain''), (''requested'',
           (if truthy (dget_default k ''letsencrypt''
           (JBool True)) then JStr ''letsencrypt'' else JStr ''selfsigned'')),
           (''staging'', dget_default k ''staging'' (JBool False)),
           (''warning'', JStr ((''Issues/renews the certificate in place on an existing domain (no remove-and-recreate); with '' @
              ''letsencrypt=true this contacts Let'') @ [CHR 0x27] @ ''s Encrypt'' @ [CHR 0x27] @
              ''s production endpoint and fails if the domain'' @ [CHR 0x27] @ ''s DNS/reachability isn'' @
              [CHR 0x27] @ ''t ACME-ready.''))]))\<rparr>,
    tl_call = (\<lambda>k. Inr (call_of ''domain_cert_install'' [dget k ''domain''] [(''letsencrypt'',
       dget k ''letsencrypt''), (''staging'', dget k ''staging''),
       (''confirmation_id'', dget k ''confirmation_id'')]))\<rparr>"


definition tool_domain_dns_push :: tool where
  "tool_domain_dns_push = \<lparr>tl_name = ''domain_dns_push'', tl_params = [(''domain'', None),
     (''force'', Some (JBool False)), (''purge'', Some (JBool False)), (''confirmation_id'', Some (JNull))],
    tl_scope = Some DOMAINS_WRITE, tl_audit = Some ''domains.dns'', tl_sanitizer = None, tl_gate =
      Some \<lparr>tg_policy_key = (\<lambda>_. Inr ''domains.dns''), tg_checks = None, tg_defer = True,
        tg_plan = Some (\<lambda>k. Inr (JObj [(''action'', JStr ''push DNS records to registrar''),
           (''domain'', dget k ''domain''), (''force'', dget_default k ''force'' (JBool False)),
           (''purge'', dget_default k ''purge'' (JBool False)),
           (''warning'', JStr (''Requires this domain to already have a DNS registrar configured, or fails cleanly. force=true '' @
              ''additionally touches records not created by YunoHost; purge=true deletes every YunoHost-managed '' @
              ''record instead of syncing them - almost always paired with removing the domain itself, not a '' @
              ''normal sync. Externally visible once applied.''))]))\<rparr>,
    tl_call = (\<lambda>k. Inr (call_of ''domain_dns_push'' [dget k ''domain''] [(''force'', dget k ''force''),
       (''purge'', dget k ''purge''), (''confirmation_id'', dget k ''confirmation_id'')]))\<rparr>"


definition tool_domain_remove :: tool where
  "tool_domain_remove = \<lparr>tl_name = ''domain_remove'', tl_params = [(''domain'', None),
     (''remove_apps'', Some (JBool False)), (''force'', Some (JBool False)), (''confirmation_id'', Some (JNull))],
    tl_scope = Some DOMAINS_WRITE, tl_audit = Some ''domains.remove'', tl_sanitizer = None, tl_gate =
      Some \<lparr>tg_policy_key = (\<lambda>_. Inr ''domains.remove''), tg_checks = None, tg_defer = True,
        tg_plan = Some (\<lambda>k. Inr (JObj [(''action'', JStr ''remove domain''), (''domain'', dget k ''domain''),
           (''remove_apps'', dget_default k ''remove_apps'' (JBool False)),
           (''warning'', JStr (''Irreversible: deletes the domain'' @ [CHR 0x27]
           @ (''s LDAP entry, certs, and DNS/nginx/mail config. remove_apps=true additionally removes every app '' @
              ''installed on this domain (each app'') @ [CHR 0x27] @
              (''s own removal, with its own data loss) in the same call - list them first (apps_list) and '' @
              ''confirm that'') @ [CHR 0x27] @
              ''s really intended. Fails cleanly instead if apps remain installed and remove_apps=false.''))]))\<rparr>,
    tl_call = (\<lambda>k. Inr (call_of ''domain_remove'' [dget k ''domain''] [(''remove_apps'',
       dget k ''remove_apps''), (''force'', dget k ''force''),
       (''confirmation_id'', dget k ''confirmation_id'')]))\<rparr>"


definition tool_user_create :: tool where
  "tool_user_create = \<lparr>tl_name = ''user_create'', tl_params = [(''username'', None), (''domain'', None),
     (''password'', None), (''fullname'', None), (''mailbox_quota'', Some (JStr ''0'')),
     (''admin'', Some (JBool False)), (''confirmation_id'', Some (JNull))],
    tl_scope = Some USERS_WRITE, tl_audit = Some ''users.write'', tl_sanitizer = None, tl_gate =
      Some \<lparr>tg_policy_key = (\<lambda>k. Inr (user_create_policy_key k)), tg_checks = None, tg_defer = True,
        tg_plan = Some (\<lambda>k. Inr (JObj [(''action'', JStr ''create user''),
           (''username'', dget k ''username''), (''domain'', dget k ''domain''),
           (''fullname'', dget_default k ''fullname'' (JNull)), (''admin'', dget_default k ''admin'' (JBool False)),
           (''mailbox_quota'', dget_default k ''mailbox_quota'' (JStr ''0''))]))\<rparr>,
    tl_call = (\<lambda>k. Inr (call_of ''user_create'' [dget k ''username''] [(''domain'', dget k ''domain''),
       (''password'', dget k ''password''), (''fullname'', dget k ''fullname''),
       (''mailbox_quota'', dget k ''mailbox_quota''), (''admin'', dget k ''admin''),
       (''confirmation_id'', dget k ''confirmation_id'')]))\<rparr>"


definition tool_user_update :: tool where
  "tool_user_update = \<lparr>tl_name = ''user_update'', tl_params = [(''username'', None), (''mail'', Some (JNull)),
     (''change_password'', Some (JNull)), (''add_mailforward'', Some (JNull)),
     (''remove_mailforward'', Some (JNull)), (''add_mailalias'', Some (JNull)), (''remove_mailalias'', Some (JNull)),
     (''mailbox_quota'', Some (JNull)), (''fullname'', Some (JNull)), (''confirmation_id'', Some (JNull))],
    tl_scope = Some USERS_WRITE, tl_audit = Some ''users.write'', tl_sanitizer = None, tl_gate =
      Some \<lparr>tg_policy_key = (\<lambda>_. Inr ''users.write''), tg_checks = None, tg_defer = True,
        tg_plan = Some (\<lambda>k. Inr (JObj [(''action'', JStr ''update user''),
           (''username'', dget k ''username''),
        (''changing_password'', JBool (dget_default k ''change_password'' (JNull) \<noteq> JNull)),
        (''fields'', JList (map JStr (sort (map fst (filter (\<lambda>(f, v). f \<notin> {''username'',
           ''change_password''} \<and> v \<noteq> JNull) k)))))]))\<rparr>,
    tl_call = (\<lambda>k. Inr (call_of ''user_update'' [dget k ''username''] [(''mail'', dget k ''mail''),
       (''change_password'', dget k ''change_password''), (''add_mailforward'', dget k ''add_mailforward''),
       (''remove_mailforward'', dget k ''remove_mailforward''), (''add_mailalias'', dget k ''add_mailalias''),
       (''remove_mailalias'', dget k ''remove_mailalias''), (''mailbox_quota'', dget k ''mailbox_quota''),
       (''fullname'', dget k ''fullname''), (''confirmation_id'', dget k ''confirmation_id'')]))\<rparr>"


definition tool_user_delete :: tool where
  "tool_user_delete = \<lparr>tl_name = ''user_delete'', tl_params = [(''username'', None),
     (''purge'', Some (JBool False)), (''confirmation_id'', Some (JNull))],
    tl_scope = Some USERS_DELETE, tl_audit = Some ''users.delete'', tl_sanitizer = None, tl_gate =
      Some \<lparr>tg_policy_key = (\<lambda>_. Inr ''users.delete''), tg_checks = None, tg_defer = True,
        tg_plan = Some (\<lambda>k. Inr (JObj [(''action'', JStr ''delete user''),
           (''username'', dget k ''username''), (''purge'', dget_default k ''purge'' (JBool False)),
           (''warning'', JStr (''Irreversible. purge=true also deletes the user'' @ [CHR 0x27]
           @ ''s mailbox/home directory.''))]))\<rparr>,
    tl_call = (\<lambda>k. Inr (call_of ''user_delete'' [dget k ''username''] [(''purge'', dget k ''purge''),
       (''confirmation_id'', dget k ''confirmation_id'')]))\<rparr>"


definition tool_user_group_create :: tool where
  "tool_user_group_create = \<lparr>tl_name = ''user_group_create'', tl_params = [(''groupname'', None),
     (''confirmation_id'', Some (JNull))],
    tl_scope = Some USERS_WRITE, tl_audit = Some ''users.write'', tl_sanitizer = None, tl_gate =
      Some \<lparr>tg_policy_key = (\<lambda>_. Inr ''users.write''), tg_checks = None, tg_defer = True,
        tg_plan = Some (\<lambda>k. Inr (JObj [(''action'', JStr ''create group''),
           (''groupname'', dget k ''groupname'')]))\<rparr>,
    tl_call = (\<lambda>k. Inr (call_of ''user_group_create'' [dget k ''groupname''] [(''confirmation_id'',
       dget k ''confirmation_id'')]))\<rparr>"


definition tool_user_group_update :: tool where
  "tool_user_group_update = \<lparr>tl_name = ''user_group_update'', tl_params = [(''groupname'', None),
     (''add'', Some (JNull)), (''remove'', Some (JNull)), (''confirmation_id'', Some (JNull))],
    tl_scope = Some USERS_WRITE, tl_audit = Some ''users.write'', tl_sanitizer = None, tl_gate =
      Some \<lparr>tg_policy_key = (\<lambda>k. Inr (user_group_update_policy_key k)), tg_checks = None,
         tg_defer = True,
        tg_plan = Some (\<lambda>k. Inr (JObj [(''action'', JStr ''update group''),
           (''groupname'', dget k ''groupname''), (''add'', dget_default k ''add'' (JNull)),
           (''remove'', dget_default k ''remove'' (JNull))]))\<rparr>,
    tl_call = (\<lambda>k. Inr (call_of ''user_group_update'' [dget k ''groupname''] [(''add'', dget k ''add''),
       (''remove'', dget k ''remove''), (''confirmation_id'', dget k ''confirmation_id'')]))\<rparr>"


definition tool_user_group_delete :: tool where
  "tool_user_group_delete = \<lparr>tl_name = ''user_group_delete'', tl_params = [(''groupname'', None),
     (''confirmation_id'', Some (JNull))],
    tl_scope = Some USERS_DELETE, tl_audit = Some ''users.delete'', tl_sanitizer = None, tl_gate =
      Some \<lparr>tg_policy_key = (\<lambda>_. Inr ''users.delete''), tg_checks = None, tg_defer = True,
        tg_plan = Some (\<lambda>k. Inr (JObj [(''action'', JStr ''delete group''),
           (''groupname'', dget k ''groupname''),
           (''warning'', JStr ''Irreversible. Any permissions granted to this group are revoked.'')]))\<rparr>,
    tl_call = (\<lambda>k. Inr (call_of ''user_group_delete'' [dget k ''groupname''] [(''confirmation_id'',
       dget k ''confirmation_id'')]))\<rparr>"


definition tool_user_permission_add :: tool where
  "tool_user_permission_add = \<lparr>tl_name = ''user_permission_add'', tl_params = [(''permission'', None),
     (''names'', None), (''confirmation_id'', Some (JNull))],
    tl_scope = Some USERS_WRITE, tl_audit = Some ''users.permissions'', tl_sanitizer = None, tl_gate =
      Some \<lparr>tg_policy_key = (\<lambda>_. Inr ''users.permissions''), tg_checks = None, tg_defer = True,
        tg_plan = Some (\<lambda>k. Inr (JObj [(''action'', JStr ''grant permission''),
           (''permission'', dget k ''permission''), (''names'', dget k ''names'')]))\<rparr>,
    tl_call = (\<lambda>k. Inr (call_of ''user_permission_add'' [dget k ''permission'', dget k ''names'']
       [(''confirmation_id'', dget k ''confirmation_id'')]))\<rparr>"


definition tool_user_permission_remove :: tool where
  "tool_user_permission_remove = \<lparr>tl_name = ''user_permission_remove'', tl_params = [(''permission'', None),
     (''names'', None), (''confirmation_id'', Some (JNull))],
    tl_scope = Some USERS_WRITE, tl_audit = Some ''users.permissions'', tl_sanitizer = None, tl_gate =
      Some \<lparr>tg_policy_key = (\<lambda>_. Inr ''users.permissions''), tg_checks = None, tg_defer = True,
        tg_plan = Some (\<lambda>k. Inr (JObj [(''action'', JStr ''revoke permission''),
           (''permission'', dget k ''permission''), (''names'', dget k ''names'')]))\<rparr>,
    tl_call = (\<lambda>k. Inr (call_of ''user_permission_remove'' [dget k ''permission'', dget k ''names'']
       [(''confirmation_id'', dget k ''confirmation_id'')]))\<rparr>"


definition tool_user_permission_update :: tool where
  "tool_user_permission_update = \<lparr>tl_name = ''user_permission_update'', tl_params = [(''permission'', None),
     (''label'', Some (JNull)), (''show_tile'', Some (JNull)), (''protected'', Some (JNull)),
     (''confirmation_id'', Some (JNull))],
    tl_scope = Some USERS_WRITE, tl_audit = Some ''users.permissions'', tl_sanitizer = None, tl_gate =
      Some \<lparr>tg_policy_key = (\<lambda>_. Inr ''users.permissions''), tg_checks = None, tg_defer = True,
        tg_plan = Some (\<lambda>k. Inr (JObj [(''action'', JStr ''update permission''),
           (''permission'', dget k ''permission''), (''label'', dget_default k ''label'' (JNull)),
           (''show_tile'', dget_default k ''show_tile'' (JNull)),
           (''protected'', dget_default k ''protected'' (JNull)),
           (''warning'', JStr (''protected=true bypasses SSO auth entirely for this permission'' @ [char_of
           (39 :: nat)] @ (''s URL(s) if set false, or requires it even for otherwise-public apps if set true - double check '' @
              ''which direction is intended before confirming.'')))]))\<rparr>,
    tl_call = (\<lambda>k. Inr (call_of ''user_permission_update'' [dget k ''permission''] [(''label'',
       dget k ''label''), (''show_tile'', dget k ''show_tile''), (''protected'', dget k ''protected''),
       (''confirmation_id'', dget k ''confirmation_id'')]))\<rparr>"


definition tool_service_restart :: tool where
  "tool_service_restart = \<lparr>tl_name = ''service_restart'', tl_params = [(''names'', None),
     (''confirmation_id'', Some (JNull))],
    tl_scope = Some SERVICES_RESTART, tl_audit = Some ''services.restart'', tl_sanitizer = None, tl_gate =
      Some \<lparr>tg_policy_key = (\<lambda>_. Inr ''services.restart''), tg_checks = None, tg_defer = True,
        tg_plan = Some (\<lambda>k. Inr (JObj [(''action'', JStr ''restart services''),
           (''services'', dget k ''names''), (''warning'',
           JStr ''Restarting services can interrupt applications and network access.'')]))\<rparr>,
    tl_call = (\<lambda>k. Inr (call_of ''service_restart'' [dget k ''names''] [(''confirmation_id'',
       dget k ''confirmation_id'')]))\<rparr>"


definition tool_service_stop :: tool where
  "tool_service_stop = \<lparr>tl_name = ''service_stop'', tl_params = [(''names'', None),
     (''confirmation_id'', Some (JNull))],
    tl_scope = Some SERVICES_STOP, tl_audit = Some ''services.stop'', tl_sanitizer = None, tl_gate =
      Some \<lparr>tg_policy_key = (\<lambda>_. Inr ''services.stop''), tg_checks = None, tg_defer = True,
        tg_plan = Some (\<lambda>k. Inr (JObj [(''action'', JStr ''stop services''),
           (''services'', dget k ''names''), (''warning'',
           JStr ''Unlike restart this is not atomic - the service stays down until service_start is called.'')]))\<rparr>,
    tl_call = (\<lambda>k. Inr (call_of ''service_stop'' [dget k ''names''] [(''confirmation_id'',
       dget k ''confirmation_id'')]))\<rparr>"


definition tool_service_start :: tool where
  "tool_service_start = \<lparr>tl_name = ''service_start'', tl_params = [(''names'', None),
     (''confirmation_id'', Some (JNull))],
    tl_scope = Some SERVICES_START, tl_audit = Some ''services.start'', tl_sanitizer = None, tl_gate =
      Some \<lparr>tg_policy_key = (\<lambda>_. Inr ''services.start''), tg_checks = None, tg_defer = True,
        tg_plan = None\<rparr>,
    tl_call = (\<lambda>k. Inr (call_of ''service_start'' [dget k ''names''] [(''confirmation_id'',
       dget k ''confirmation_id'')]))\<rparr>"


definition tool_backup_create :: tool where
  "tool_backup_create = \<lparr>tl_name = ''backup_create'', tl_params = [(''name'', Some (JNull)),
     (''description'', Some (JNull)), (''apps'', Some (JNull)), (''system'', Some (JNull)),
     (''confirmation_id'', Some (JNull))],
    tl_scope = Some BACKUPS_CREATE, tl_audit = Some ''backups.create'', tl_sanitizer = None, tl_gate =
      Some \<lparr>tg_policy_key = (\<lambda>_. Inr ''backups.create''), tg_checks = None, tg_defer = True,
        tg_plan = Some (\<lambda>k. Inr (JObj [(''action'', JStr ''create backup''),
           (''name'', dget_default k ''name'' (JNull)), (''description'', dget_default k ''description'' (JNull)),
           (''apps'', py_or (dget_default k ''apps'' (JNull)) (JList [])),
           (''system'', py_or (dget_default k ''system'' (JNull)) (JList []))]))\<rparr>,
    tl_call = (\<lambda>k. Inr (call_of ''backup_create'' [] [(''name'', dget k ''name''),
       (''description'', dget k ''description''), (''apps'', dget k ''apps''), (''system'', dget k ''system''),
       (''confirmation_id'', dget k ''confirmation_id'')]))\<rparr>"


definition tool_backup_delete :: tool where
  "tool_backup_delete = \<lparr>tl_name = ''backup_delete'', tl_params = [(''name'', None),
     (''confirmation_id'', Some (JNull))],
    tl_scope = Some BACKUPS_DELETE, tl_audit = Some ''backups.delete'', tl_sanitizer = None, tl_gate =
      Some \<lparr>tg_policy_key = (\<lambda>_. Inr ''backups.delete''), tg_checks = None, tg_defer = True,
        tg_plan = Some backup_delete_plan\<rparr>,
    tl_call = (\<lambda>k. ebind (validate_backup_archive_name (dget k ''name'')) (\<lambda>_. Inr
       (call_of ''backup_delete'' [dget k ''name''] [(''confirmation_id'', dget k ''confirmation_id'')])))\<rparr>"


definition tool_app_install :: tool where
  "tool_app_install = \<lparr>tl_name = ''app_install'', tl_params = [(''app'', None), (''label'', Some (JNull)),
     (''args'', Some (JNull)), (''force'', Some (JBool False)), (''confirmation_id'', Some (JNull))],
    tl_scope = Some APPS_INSTALL, tl_audit = Some ''apps.install'', tl_sanitizer = None, tl_gate =
      Some \<lparr>tg_policy_key = (\<lambda>k. Inr (app_install_policy_key k)), tg_checks = None, tg_defer = True,
        tg_plan = Some (\<lambda>k. Inr (JObj [(''action'', JStr ''install app''), (''app'', dget k ''app''),
           (''label'', dget_default k ''label'' (JNull)), (''force'', dget_default k ''force'' (JBool False)),
           (''has_custom_args'', JBool (dget_default k ''args'' (JNull) \<noteq> JNull)),
           (''warning'', JStr (''App installation runs the app'' @ [CHR 0x27]
           @ ''s installation scripts with YunoHost privileges.''))]))\<rparr>,
    tl_call = (\<lambda>k. Inr (call_of ''app_install'' [dget k ''app''] [(''label'', dget k ''label''),
       (''args'', dget k ''args''), (''force'', dget k ''force''),
       (''confirmation_id'', dget k ''confirmation_id'')]))\<rparr>"


definition tool_app_upgrade :: tool where
  "tool_app_upgrade = \<lparr>tl_name = ''app_upgrade'', tl_params = [(''app'', Some (JNull)),
     (''force'', Some (JBool False)), (''url'', Some (JNull)), (''confirmation_id'', Some (JNull))],
    tl_scope = Some APPS_UPGRADE, tl_audit = Some ''apps.upgrade'', tl_sanitizer = None, tl_gate =
      Some \<lparr>tg_policy_key = (\<lambda>k. Inr (app_upgrade_policy_key k)), tg_checks = Some UpgradeChecks,
         tg_defer = True,
        tg_plan = None\<rparr>,
    tl_call = (\<lambda>k. Inr (call_of ''app_upgrade'' [] [(''app'', dget k ''app''), (''force'', dget k ''force''),
       (''url'', dget k ''url''), (''confirmation_id'', dget k ''confirmation_id'')]))\<rparr>"


definition tool_app_remove :: tool where
  "tool_app_remove = \<lparr>tl_name = ''app_remove'', tl_params = [(''app'', None), (''purge'', Some (JBool False)),
     (''confirmation_id'', Some (JNull))],
    tl_scope = Some APPS_REMOVE, tl_audit = Some ''apps.remove'', tl_sanitizer = None, tl_gate =
      Some \<lparr>tg_policy_key = (\<lambda>k. Inr (app_remove_policy_key k)), tg_checks = Some RemoveChecks,
         tg_defer = True,
        tg_plan = Some (\<lambda>k. Inr (JObj [(''action'', JStr ''remove app''), (''app'', dget k ''app''),
           (''purge_data'', dget_default k ''purge'' (JBool False)),
           (''warning'', JStr (''This removes the app'' @ (if truthy (dget_default k ''purge''
           (JBool False)) then '' and all its data'' else ''; data may remain unless purge=true'')
           @ ''. This cannot be undone by yunohost-mcp.''))]))\<rparr>,
    tl_call = (\<lambda>k. Inr (call_of ''app_remove'' [dget k ''app''] [(''purge'', dget k ''purge''),
       (''confirmation_id'', dget k ''confirmation_id'')]))\<rparr>"


definition tool_app_change_url :: tool where
  "tool_app_change_url = \<lparr>tl_name = ''app_change_url'', tl_params = [(''app'', None), (''domain'', None),
     (''path'', None), (''confirmation_id'', Some (JNull))],
    tl_scope = Some APPS_UPGRADE, tl_audit = Some ''apps.change_url'', tl_sanitizer = None, tl_gate =
      Some \<lparr>tg_policy_key = (\<lambda>k. Inr (app_change_url_policy_key k)), tg_checks = None, tg_defer = True,
        tg_plan = Some (\<lambda>k. Inr (JObj [(''action'', JStr ''change app url''), (''app'', dget k ''app''),
           (''new_domain'', dget k ''domain''), (''new_path'', dget k ''path''),
           (''warning'', JStr (''Requires the app'' @ [CHR 0x27]
           @ ''s own change_url script; some apps don'' @ [CHR 0x27]
           @ (''t ship one (app_change_url_no_script) or bake their install path into a built asset that a '' @
              ''plain change_url won'') @ [CHR 0x27] @
              ''t rebuild - check the package before relying on this.''))]))\<rparr>,
    tl_call = (\<lambda>k. Inr (call_of ''app_change_url'' [dget k ''app''] [(''domain'', dget k ''domain''),
       (''path'', dget k ''path''), (''confirmation_id'', dget k ''confirmation_id'')]))\<rparr>"


definition tool_app_config_set :: tool where
  "tool_app_config_set = \<lparr>tl_name = ''app_config_set'', tl_params = [(''app'', None), (''key'', None),
     (''value'', None), (''confirmation_id'', Some (JNull))],
    tl_scope = Some APPS_CONFIG_WRITE, tl_audit = Some ''apps.config'',
       tl_sanitizer = Some control_plane_audit_arguments, tl_gate =
      Some \<lparr>tg_policy_key = (\<lambda>k. Inr (app_config_policy_key k)), tg_checks = None, tg_defer = True,
        tg_plan = Some app_config_plan\<rparr>,
    tl_call = (\<lambda>k. Inr (call_of ''app_config_set'' [dget k ''app''] [(''key'', dget k ''key''),
       (''value'', dget k ''value''), (''confirmation_id'', dget k ''confirmation_id'')]))\<rparr>"


definition tool_app_setting_set :: tool where
  "tool_app_setting_set = \<lparr>tl_name = ''app_setting_set'', tl_params = [(''app'', None), (''key'', None),
     (''value'', Some (JNull)), (''delete'', Some (JBool False)), (''confirmation_id'', Some (JNull))],
    tl_scope = Some APPS_SETTING_WRITE, tl_audit = Some ''apps.setting'',
       tl_sanitizer = Some control_plane_audit_arguments, tl_gate =
      Some \<lparr>tg_policy_key = (\<lambda>k. Inr (app_setting_policy_key k)), tg_checks = None, tg_defer = True,
        tg_plan = Some app_setting_plan\<rparr>,
    tl_call = (\<lambda>k. Inr (call_of ''app_setting_set'' [dget k ''app'', dget k ''key''] [(''value'',
       dget k ''value''), (''delete'', dget k ''delete''),
       (''confirmation_id'', dget k ''confirmation_id'')]))\<rparr>"


definition tool_backup_restore :: tool where
  "tool_backup_restore = \<lparr>tl_name = ''backup_restore'', tl_params = [(''name'', None),
     (''apps'', Some (JNull)), (''system'', Some (JNull)), (''force'', Some (JBool False)),
     (''confirmation_id'', Some (JNull))],
    tl_scope = Some BACKUPS_RESTORE, tl_audit = Some ''backups.restore'', tl_sanitizer = None, tl_gate =
      Some \<lparr>tg_policy_key = (\<lambda>_. Inr ''backups.restore''), tg_checks = None, tg_defer = True,
        tg_plan = Some (\<lambda>k. Inr (JObj [(''action'', JStr ''restore backup''), (''name'', dget k ''name''),
           (''apps'', py_or (dget_default k ''apps'' (JNull)) (JList [])),
           (''system'', py_or (dget_default k ''system'' (JNull)) (JList [])),
           (''warning'', JStr (''This overwrites current state with the archive'' @ [CHR 0x27]
           @ ''s contents.''))]))\<rparr>,
    tl_call = (\<lambda>k. Inr (call_of ''backup_restore'' [dget k ''name''] [(''apps'', dget k ''apps''),
       (''system'', dget k ''system''), (''force'', dget k ''force''),
       (''confirmation_id'', dget k ''confirmation_id'')]))\<rparr>"


definition tool_system_upgrade :: tool where
  "tool_system_upgrade = \<lparr>tl_name = ''system_upgrade'', tl_params = [(''confirmation_id'', Some (JNull))],
    tl_scope = Some SYSTEM_UPGRADE, tl_audit = Some ''system.upgrade'', tl_sanitizer = None, tl_gate =
      Some \<lparr>tg_policy_key = (\<lambda>_. Inr ''system.upgrade''), tg_checks = None, tg_defer = True,
        tg_plan = Some (\<lambda>_. Inr (JObj [(''action'', JStr ''upgrade system packages''),
           (''warning'', JStr ''This upgrades OS-level packages and may restart services.'')]))\<rparr>,
    tl_call = (\<lambda>k. Inr (call_of ''system_upgrade'' [] [(''confirmation_id'',
       dget k ''confirmation_id'')]))\<rparr>"


definition tool_system_reboot :: tool where
  "tool_system_reboot = \<lparr>tl_name = ''system_reboot'', tl_params = [(''confirmation_id'', Some (JNull))],
    tl_scope = Some SYSTEM_POWER, tl_audit = Some ''system.power'', tl_sanitizer = None, tl_gate =
      Some \<lparr>tg_policy_key = (\<lambda>_. Inr ''system.power''), tg_checks = None, tg_defer = True,
        tg_plan = Some (\<lambda>_. Inr (JObj [(''action'', JStr ''reboot server''),
           (''warning'', JStr (''Drops every in-flight connection and operation immediately. The server comes back up on its own '' @
              ''(unlike system_shutdown) once hardware/hypervisor boot completes - this call itself will not '' @
              ''see that happen, the connection is cut first.''))]))\<rparr>,
    tl_call = (\<lambda>k. Inr (call_of ''system_reboot'' [] [(''confirmation_id'',
       dget k ''confirmation_id'')]))\<rparr>"


definition tool_system_shutdown :: tool where
  "tool_system_shutdown = \<lparr>tl_name = ''system_shutdown'', tl_params = [(''confirmation_id'', Some (JNull))],
    tl_scope = Some SYSTEM_POWER, tl_audit = Some ''system.power'', tl_sanitizer = None, tl_gate =
      Some \<lparr>tg_policy_key = (\<lambda>_. Inr ''system.power''), tg_checks = None, tg_defer = True,
        tg_plan = Some (\<lambda>_. Inr (JObj [(''action'', JStr ''shut down server''),
           (''warning'', JStr (''Powers the host off (systemctl poweroff) and does NOT come back up on its own - unlike '' @
              ''system_reboot, this needs someone with physical or remote-power access to turn it back on. '' @
              ''Confirm this is really intended, not a reboot.''))]))\<rparr>,
    tl_call = (\<lambda>k. Inr (call_of ''system_shutdown'' [] [(''confirmation_id'',
       dget k ''confirmation_id'')]))\<rparr>"


definition tool_migrations_run :: tool where
  "tool_migrations_run = \<lparr>tl_name = ''migrations_run'', tl_params = [(''targets'', Some (JNull)),
     (''skip'', Some (JBool False)), (''auto'', Some (JBool False)), (''force_rerun'', Some (JBool False)),
     (''accept_disclaimer'', Some (JBool False)), (''skip_postmigrations'', Some (JBool False)),
     (''confirmation_id'', Some (JNull))],
    tl_scope = Some SYSTEM_MIGRATE, tl_audit = Some ''system.migrate'', tl_sanitizer = None, tl_gate =
      Some \<lparr>tg_policy_key = (\<lambda>_. Inr ''system.migrate''), tg_checks = None, tg_defer = True,
        tg_plan = Some (\<lambda>k. Inr (JObj [(''action'', JStr ''run migrations''),
           (''targets'', py_or (dget_default k ''targets'' (JNull)) (JList [])),
           (''skip'', dget_default k ''skip'' (JBool False)), (''auto'', dget_default k ''auto'' (JBool False)),
           (''force_rerun'', dget_default k ''force_rerun'' (JBool False)),
           (''warning'', JStr (''Migrations can make irreversible OS/schema-level changes. Read each target'' @
           [CHR 0x27] @ (''s disclaimer (migrations_list) first - a migration with one is skipped unless '' @
              ''accept_disclaimer=true, and that flag only applies to the first migration in the run.'')))]))\<rparr>,
    tl_call = (\<lambda>k. Inr (call_of ''migrations_run'' [] [(''targets'', dget k ''targets''),
       (''skip'', dget k ''skip''), (''auto'', dget k ''auto''), (''force_rerun'', dget k ''force_rerun''),
       (''accept_disclaimer'', dget k ''accept_disclaimer''),
       (''skip_postmigrations'', dget k ''skip_postmigrations''),
       (''confirmation_id'', dget k ''confirmation_id'')]))\<rparr>"


definition tool_firewall_open :: tool where
  "tool_firewall_open = \<lparr>tl_name = ''firewall_open'', tl_params = [(''port'', None), (''protocol'', None),
     (''comment'', Some (JStr [])), (''upnp'', Some (JBool False)), (''no_reload'', Some (JBool False)),
     (''confirmation_id'', Some (JNull))],
    tl_scope = Some FIREWALL_WRITE, tl_audit = Some ''firewall.write'', tl_sanitizer = None, tl_gate =
      Some \<lparr>tg_policy_key = (\<lambda>_. Inr ''firewall.write''), tg_checks = None, tg_defer = True,
        tg_plan = Some (\<lambda>k. Inr (JObj [(''action'', JStr ''open firewall port''),
           (''port'', dget k ''port''), (''protocol'', dget k ''protocol''),
           (''comment'', dget_default k ''comment'' (JStr [])),
           (''warning'', JStr ((''Externally visible and reachable once reloaded. Verify this is actually the port intended - '' @
              ''opening the wrong one exposes a service that wasn'') @ [CHR 0x27] @
              ''t meant to be public.''))]))\<rparr>,
    tl_call = (\<lambda>k. Inr (call_of ''firewall_open'' [dget k ''port'', dget k ''protocol''] [(''comment'',
       dget k ''comment''), (''upnp'', dget k ''upnp''), (''no_reload'', dget k ''no_reload''),
       (''confirmation_id'', dget k ''confirmation_id'')]))\<rparr>"


definition tool_firewall_close :: tool where
  "tool_firewall_close = \<lparr>tl_name = ''firewall_close'', tl_params = [(''port'', None), (''protocol'', None),
     (''upnp_only'', Some (JBool False)), (''no_reload'', Some (JBool False)), (''confirmation_id'', Some (JNull))],
    tl_scope = Some FIREWALL_WRITE, tl_audit = Some ''firewall.write'', tl_sanitizer = None, tl_gate =
      Some \<lparr>tg_policy_key = (\<lambda>_. Inr ''firewall.write''), tg_checks = None, tg_defer = True,
        tg_plan = Some (\<lambda>k. Inr (JObj [(''action'', JStr ''close firewall port''),
           (''port'', dget k ''port''), (''protocol'', dget k ''protocol''),
           (''upnp_only'', dget_default k ''upnp_only'' (JBool False)),
           (''warning'', JStr (''Closing the wrong port (22/80/443, in particular) can lock the admin out of this server with no '' @
              ''MCP-level undo. Double-check port and protocol before confirming.''))]))\<rparr>,
    tl_call = (\<lambda>k. Inr (call_of ''firewall_close'' [dget k ''port'', dget k ''protocol''] [(''upnp_only'',
       dget k ''upnp_only''), (''no_reload'', dget k ''no_reload''),
       (''confirmation_id'', dget k ''confirmation_id'')]))\<rparr>"


definition tool_firewall_reload :: tool where
  "tool_firewall_reload = \<lparr>tl_name = ''firewall_reload'', tl_params = [(''skip_upnp'', Some (JBool False)),
     (''confirmation_id'', Some (JNull))],
    tl_scope = Some FIREWALL_WRITE, tl_audit = Some ''firewall.write'', tl_sanitizer = None, tl_gate =
      Some \<lparr>tg_policy_key = (\<lambda>_. Inr ''firewall.write''), tg_checks = None, tg_defer = True,
        tg_plan = Some (\<lambda>k. Inr (JObj [(''action'', JStr ''reload firewall rules''),
           (''skip_upnp'', dget_default k ''skip_upnp'' (JBool False)),
           (''warning'', JStr (''Re-applies the full current rule set immediately - if it was left in an inconsistent state '' @
              ''(e.g. a port closed but not yet reloaded), this is when it takes effect.''))]))\<rparr>,
    tl_call = (\<lambda>k. Inr (call_of ''firewall_reload'' [] [(''skip_upnp'', dget k ''skip_upnp''),
       (''confirmation_id'', dget k ''confirmation_id'')]))\<rparr>"


definition tool_settings_set :: tool where
  "tool_settings_set = \<lparr>tl_name = ''settings_set'', tl_params = [(''key'', None), (''value'', None),
     (''confirmation_id'', Some (JNull))],
    tl_scope = Some SETTINGS_WRITE, tl_audit = Some ''settings.write'', tl_sanitizer = None, tl_gate =
      Some \<lparr>tg_policy_key = (\<lambda>_. Inr ''settings.write''), tg_checks = None, tg_defer = True,
        tg_plan = Some (\<lambda>k. Inr (JObj [(''action'', JStr ''set global setting''), (''key'', dget k ''key''),
           (''value'', dget k ''value''), (''warning'',
           JStr (''Global settings apply server-wide immediately (e.g. SSO behavior, auth policy) - same risk tier '' @
              ''as firewall_open/close.''))]))\<rparr>,
    tl_call = (\<lambda>k. Inr (call_of ''settings_set'' [dget k ''key'', dget k ''value''] [(''confirmation_id'',
       dget k ''confirmation_id'')]))\<rparr>"


definition tool_regenconf_apply :: tool where
  "tool_regenconf_apply = \<lparr>tl_name = ''regenconf_apply'', tl_params = [(''names'', Some (JNull)),
     (''force'', Some (JBool False)), (''confirmation_id'', Some (JNull))],
    tl_scope = Some REGENCONF_WRITE, tl_audit = Some ''regenconf.write'', tl_sanitizer = None, tl_gate =
      Some \<lparr>tg_policy_key = (\<lambda>_. Inr ''regenconf.write''), tg_checks = None, tg_defer = True,
        tg_plan = Some (\<lambda>k. Inr (JObj [(''action'', JStr ''apply pending config regeneration''),
           (''names'', py_or (dget_default k ''names'' (JNull)) (JList [])),
           (''force'', dget_default k ''force'' (JBool False)),
           (''warning'', JStr (''Rewrites system-service config files (nginx, ssowat, mysql, ...) in place. force=true '' @
              ''additionally overwrites any file manually edited outside YunoHost - check regenconf_pending '' @
              ''first to see what would change.''))]))\<rparr>,
    tl_call = (\<lambda>k. Inr (call_of ''regenconf_apply'' [] [(''names'', dget k ''names''),
       (''force'', dget k ''force''), (''confirmation_id'', dget k ''confirmation_id'')]))\<rparr>"


definition tool_repair_app :: tool where
  "tool_repair_app = \<lparr>tl_name = ''repair_app'', tl_params = [(''app'', None),
     (''strategy'', Some (JStr ''conservative''))],
    tl_scope = Some SERVICES_RESTART, tl_audit = Some ''services.restart'', tl_sanitizer = None, tl_gate = None,
    tl_call = (\<lambda>k. Inr (call_of ''repair_app'' [dget k ''app''] [(''strategy'',
       dget k ''strategy'')]))\<rparr>"


definition READ_TOOLS :: "tool list" where
  "READ_TOOLS =
   [tool_server_info, tool_health_check, tool_apps_list, tool_app_info, tool_app_resources, tool_app_config_get,
    tool_app_setting_get, tool_diagnosis_run, tool_diagnosis_get, tool_services_list, tool_service_status,
    tool_domains_list, tool_domain_cert_info, tool_domain_dns_suggest, tool_domain_dns_push_preview, tool_users_list,
    tool_user_group_list, tool_user_permission_list, tool_user_permission_info, tool_backups_list, tool_backup_info,
    tool_operations_list, tool_operation_status, tool_operation_logs, tool_updates_check, tool_updates_refresh,
    tool_migrations_list, tool_migrations_state, tool_firewall_list, tool_firewall_is_open, tool_settings_list,
    tool_settings_get, tool_regenconf_pending, tool_package_inspect, tool_package_logs, tool_diagnose_app,
    tool_validate_server]"

definition WRITE_TOOLS :: "tool list" where
  "WRITE_TOOLS =
   [tool_domain_add, tool_domain_cert_install, tool_domain_dns_push, tool_domain_remove, tool_user_create,
    tool_user_update, tool_user_delete, tool_user_group_create, tool_user_group_update, tool_user_group_delete,
    tool_user_permission_add, tool_user_permission_remove, tool_user_permission_update, tool_service_restart,
    tool_service_stop, tool_service_start, tool_backup_create, tool_backup_delete, tool_app_install,
    tool_app_upgrade, tool_app_remove, tool_app_change_url, tool_app_config_set, tool_app_setting_set,
    tool_backup_restore, tool_system_upgrade, tool_system_reboot, tool_system_shutdown, tool_migrations_run,
    tool_firewall_open, tool_firewall_close, tool_firewall_reload, tool_settings_set, tool_regenconf_apply,
    tool_repair_app]"

end
