(* ===== verification/Adapter_Transparency.thy ===== *)
theory Adapter_Transparency
  imports Adapter_Dispatch
begin

text \<open>
  Broker mode does not change what the adapter does.  \<open>in_front A\<close> is the adapter of the MCP server, whose
  broker runs the requests it accepts on \<open>at_root A\<close>, the adapter of the privileged helper.  Every method
  hands the broker all its arguments under the names that the registered operation reads, and the operation
  calls the same method with them.
\<close>

definition at_root :: "'y adapter_env \<Rightarrow> 'y adapter_env" where
  "at_root A = A\<lparr>ad_broker := None\<rparr>"

definition in_front :: "'y adapter_env \<Rightarrow> 'y adapter_env" where
  "in_front A = A\<lparr>ad_broker := Some (root_invoke A)\<rparr>"

lemma sides [simp]:
  "ad_broker (at_root A) = None" "ad_broker (in_front A) = Some (root_invoke A)"
  "ad_fake (at_root A) = ad_fake A" "ad_fmt (at_root A) = ad_fmt A" "ad_fmt (in_front A) = ad_fmt A"
  by (simp_all add: at_root_def in_front_def)

lemma ret_apply [simp]: "ret r s = (s, r)"
  by (simp add: ret_def)

lemma and_then_ret [simp]: "and_then (ret (Inl e)) k = ret (Inl e)" "and_then (ret (Inr x)) k = k x"
  by (simp_all add: and_then_def fun_eq_iff)

text \<open>A refusal: the broker's own check of the arguments of some operation raised.\<close>

definition refusal :: "exn \<Rightarrow> bool" where
  "refusal e \<longleftrightarrow> (\<exists>op operation req. map_of OPERATIONS op = Some operation \<and> bo_invoke operation req = Inl e)"

definition transparent :: "signature \<Rightarrow> 'y adapter_method \<Rightarrow> bool" where
  "transparent sg body \<longleftrightarrow> (\<forall>A b s. b = sent b (sg_names sg) \<longrightarrow>
     (\<exists>e. refusal e \<and> body (in_front A) b s = (s, Inl e)) \<or> body (in_front A) b s = body (at_root A) b s)"

text \<open>The operation \<open>op\<close> turns the request \<open>req\<close> into the call of the method \<open>name\<close> with the arguments \<open>b\<close>.\<close>

definition forwards :: "string \<Rightarrow> dict \<Rightarrow> string \<Rightarrow> signature \<Rightarrow> dict \<Rightarrow> bool" where
  "forwards op req name sg b \<longleftrightarrow>
     (\<exists>operation. map_of OPERATIONS op = Some operation \<and>
       (\<forall>c. bo_invoke operation req = Inr c \<longrightarrow>
          ac_method c = name \<and> ac_result_key c = None \<and> bind_arguments sg (ac_args c) (ac_kwargs c) = Inr b))"

lemma root_invoke_forwards:
  assumes "forwards op req name sg b" "map_of METHODS name = Some (sg, body)"
  shows "(\<exists>e. refusal e \<and> root_invoke A op req s = (s, Inl e)) \<or> root_invoke A op req s = body (at_root A) b s"
proof -
  obtain operation where o: "map_of OPERATIONS op = Some operation"
    "\<And>c. bo_invoke operation req = Inr c \<Longrightarrow> ac_method c = name \<and> ac_result_key c = None \<and> bind_arguments sg (ac_args c) (ac_kwargs c) = Inr b"
    using assms(1) by (auto simp: forwards_def)
  show ?thesis
  proof (cases "bo_invoke operation req")
    case (Inl e)
    with o(1) have "refusal e" by (auto simp: refusal_def)
    moreover have "root_invoke A op req s = (s, Inl e)" using o(1) Inl by (simp add: root_invoke_def)
    ultimately show ?thesis by blast
  next
    case (Inr c)
    from o(2) [OF this] assms(2) o(1) Inr show ?thesis
      by (auto simp: root_invoke_def at_root_def call_method_def and_then_def adapter_result_def ret_def split: prod.splits sum.splits)
  qed
qed

lemma transparentI:
  assumes "\<And>A b. body (in_front A) b = root_invoke A op (req b)"
    and "\<And>b. forwards op (req b) name sg (sent b (sg_names sg))" "map_of METHODS name = Some (sg, body)"
  shows "transparent sg body"
proof -
  have "(\<exists>e. refusal e \<and> body (in_front A) b s = (s, Inl e)) \<or> body (in_front A) b s = body (at_root A) b s"
    if "b = sent b (sg_names sg)" for A b s
    using root_invoke_forwards [OF assms(2) [of b] assms(3), of A s] that unfolding assms(1) by metis
  then show ?thesis by (simp add: transparent_def)
qed

text \<open>A method that checks its arguments before it asks the broker.\<close>

lemma transparent_checkedI:
  assumes "\<And>A b. body (in_front A) b = checked (check A b) (root_invoke A op (req b))"
    and "\<And>A b. body (at_root A) b = checked (check A b) (run A b)"
    and "\<And>b. forwards op (req b) name sg (sent b (sg_names sg))" "map_of METHODS name = Some (sg, body)"
  shows "transparent sg body"
proof -
  have "(\<exists>e. refusal e \<and> body (in_front A) b s = (s, Inl e)) \<or> body (in_front A) b s = body (at_root A) b s"
    if "b = sent b (sg_names sg)" for A b s
  proof (cases "check A b")
    case (Inl e)
    then show ?thesis by (simp add: assms(1,2) checked_def)
  next
    case (Inr u)
    then have "body (in_front A) b s = root_invoke A op (req b) s" by (simp add: assms(1) checked_def)
    then show ?thesis using root_invoke_forwards [OF assms(3) [of b] assms(4), of A s] that by metis
  qed
  then show ?thesis by (simp add: transparent_def)
qed

subsection \<open>What reaches the registered operations\<close>

lemma calls_eq: "calls cs c = Inr c' \<Longrightarrow> c' = c" by simp

lemma sent_get: "dget (sent b ks) k = (if k \<in> set ks then dget b k else JNull)"
  by (induction ks) (auto simp: sent_def)

lemma sent_get_default: "dget_default (sent b ks) k x = (if k \<in> set ks then dget b k else x)"
  by (induction ks) (auto simp: sent_def)

lemma sent_index: "dindex (sent b ks) k = (if k \<in> set ks then Inr (dget b k) else Inl (Exn KeyError (py_repr k)))"
  by (induction ks) (auto simp: sent_def dindex_def)

lemma operation_at:
  assumes "n < length OPERATIONS" "OPERATIONS ! n = op_entry k sc f"
  shows "map_of OPERATIONS k = Some (snd (op_entry k sc f))"
proof -
  have "fst (op_entry k sc f) = k" by (simp add: op_entry_def)
  then have "(k, snd (op_entry k sc f)) \<in> set OPERATIONS"
    using nth_mem [OF assms(1)] unfolding assms(2) by (metis prod.collapse)
  with registry_names show ?thesis by simp
qed

lemma forwardsI:
  assumes "map_of OPERATIONS op = Some (snd (op_entry op scope_name f))"
    and "\<And>c. f req = Inr c \<Longrightarrow> c = call_of name args kwargs"
    and "bind_arguments sg args kwargs = Inr b"
  shows "forwards op req name sg b"
  using assms by (auto simp: forwards_def op_entry_def)

lemma method_at:
  fixes body :: "'y adapter_method"
  assumes "distinct (map fst (METHODS :: (string \<times> signature \<times> 'y adapter_method) list))"
    and "n < length (METHODS :: (string \<times> signature \<times> 'y adapter_method) list)" "METHODS ! n = (name, sg, body)"
  shows "map_of METHODS name = Some (sg, body)"
proof -
  have "(name, sg, body) \<in> set METHODS" using nth_mem [OF assms(2)] assms(3) by simp
  with assms(1) show ?thesis by (rule map_of_is_SomeI)
qed

lemma method_names: "distinct (map fst METHODS)"
  by (simp add: METHODS_def)

lemma dkeys_Cons [simp]: "dkeys ((k, v) # d) = k # dkeys d" "dkeys [] = []"
  by (simp_all add: dkeys_def)

lemma to_server_info: "map_of OPERATIONS ''server.info'' = Some (snd (op_entry ''server.info'' ''server.read'' (no_args ''server_info'')))"
  by (rule operation_at [where n = 0]) (simp_all add: OPERATIONS_def)

lemma forwards_server_info: "forwards ''server.info'' [] ''server_info'' sig_server_info
     (sent b (sg_names sig_server_info))"
  apply (rule forwardsI [OF to_server_info])
   apply (unfold no_args_def Let_def sent_index MIGRATION_FLAGS_def USER_UPDATE_VALUES_def USER_UPDATE_LISTS_def)[1]
   apply (erule calls_eq)
  apply (simp add: sig_server_info_def sg_names_def bind_arguments_def sent_get sent_get_default)
  apply (simp add: sent_def)?
  done

lemma transparent_server_info: "transparent sig_server_info adapter_server_info"
  by (rule transparentI [OF _ forwards_server_info method_at [OF method_names, where n = 0]])
    (simp_all add: adapter_server_info_def dispatch_def METHODS_def fun_eq_iff)

lemma to_health_check: "map_of OPERATIONS ''health.check'' = Some (snd (op_entry ''health.check'' ''diagnosis.read'' (no_args ''health_check'')))"
  by (rule operation_at [where n = 1]) (simp_all add: OPERATIONS_def)

lemma forwards_health_check: "forwards ''health.check'' [] ''health_check'' sig_health_check
     (sent b (sg_names sig_health_check))"
  apply (rule forwardsI [OF to_health_check])
   apply (unfold no_args_def Let_def sent_index MIGRATION_FLAGS_def USER_UPDATE_VALUES_def USER_UPDATE_LISTS_def)[1]
   apply (erule calls_eq)
  apply (simp add: sig_health_check_def sg_names_def bind_arguments_def sent_get sent_get_default)
  apply (simp add: sent_def)?
  done

lemma transparent_health_check: "transparent sig_health_check adapter_health_check"
  by (rule transparentI [OF _ forwards_health_check method_at [OF method_names, where n = 1]])
    (simp_all add: adapter_health_check_def dispatch_def METHODS_def fun_eq_iff)

lemma to_diagnosis_run: "map_of OPERATIONS ''diagnosis.run'' = Some (snd (op_entry ''diagnosis.run'' ''diagnosis.read'' diagnosis_run))"
  by (rule operation_at [where n = 2]) (simp_all add: OPERATIONS_def)

lemma forwards_diagnosis_run: "forwards ''diagnosis.run'' (sent b [''categories'', ''force'']) ''diagnosis_run'' sig_diagnosis_run
     (sent b (sg_names sig_diagnosis_run))"
  apply (rule forwardsI [OF to_diagnosis_run])
   apply (unfold diagnosis_run_def Let_def sent_index MIGRATION_FLAGS_def USER_UPDATE_VALUES_def USER_UPDATE_LISTS_def)[1]
   apply (erule calls_eq)
  apply (simp add: sig_diagnosis_run_def sg_names_def bind_arguments_def sent_get sent_get_default)
  apply (simp add: sent_def)?
  done

lemma transparent_diagnosis_run: "transparent sig_diagnosis_run adapter_diagnosis_run"
  by (rule transparentI [OF _ forwards_diagnosis_run method_at [OF method_names, where n = 3]])
    (simp_all add: adapter_diagnosis_run_def dispatch_def METHODS_def fun_eq_iff)

lemma to_service_status: "map_of OPERATIONS ''services.status'' = Some (snd (op_entry ''services.status'' ''services.read'' service_status))"
  by (rule operation_at [where n = 26]) (simp_all add: OPERATIONS_def)

lemma forwards_service_status: "forwards ''services.status'' (sent b [''names'']) ''service_status'' sig_service_status
     (sent b (sg_names sig_service_status))"
  apply (rule forwardsI [OF to_service_status])
   apply (unfold service_status_def Let_def sent_index MIGRATION_FLAGS_def USER_UPDATE_VALUES_def USER_UPDATE_LISTS_def)[1]
   apply (erule calls_eq)
  apply (simp add: sig_service_status_def sg_names_def bind_arguments_def sent_get sent_get_default)
  apply (simp add: sent_def)?
  done

lemma transparent_service_status: "transparent sig_service_status adapter_service_status"
  by (rule transparentI [OF _ forwards_service_status method_at [OF method_names, where n = 5]])
    (simp_all add: adapter_service_status_def dispatch_def METHODS_def fun_eq_iff)

lemma to_operations_list: "map_of OPERATIONS ''operations.list'' = Some (snd (op_entry ''operations.list'' ''logs.read'' operations_list))"
  by (rule operation_at [where n = 32]) (simp_all add: OPERATIONS_def)

lemma forwards_operations_list: "forwards ''operations.list'' (sent b [''limit'', ''with_suboperations'']) ''operations_list'' sig_operations_list
     (sent b (sg_names sig_operations_list))"
  apply (rule forwardsI [OF to_operations_list])
   apply (unfold operations_list_def Let_def sent_index MIGRATION_FLAGS_def USER_UPDATE_VALUES_def USER_UPDATE_LISTS_def)[1]
   apply (erule calls_eq)
  apply (simp add: sig_operations_list_def sg_names_def bind_arguments_def sent_get sent_get_default)
  apply (simp add: sent_def)?
  done

lemma transparent_operations_list: "transparent sig_operations_list adapter_operations_list"
  by (rule transparentI [OF _ forwards_operations_list method_at [OF method_names, where n = 6]])
    (simp_all add: adapter_operations_list_def dispatch_def METHODS_def fun_eq_iff)

lemma to_operation_logs: "map_of OPERATIONS ''operation.logs'' = Some (snd (op_entry ''operation.logs'' ''logs.read'' operation_logs))"
  by (rule operation_at [where n = 34]) (simp_all add: OPERATIONS_def)

lemma forwards_operation_logs: "forwards ''operation.logs'' (sent b [''name'', ''tail_lines'']) ''operation_logs'' sig_operation_logs
     (sent b (sg_names sig_operation_logs))"
  apply (rule forwardsI [OF to_operation_logs])
   apply (unfold operation_logs_def Let_def sent_index MIGRATION_FLAGS_def USER_UPDATE_VALUES_def USER_UPDATE_LISTS_def)[1]
   apply (erule calls_eq)
  apply (simp add: sig_operation_logs_def sg_names_def bind_arguments_def sent_get sent_get_default)
  apply (simp add: sent_def)?
  done

lemma transparent_operation_logs: "transparent sig_operation_logs adapter_operation_logs"
  by (rule transparentI [OF _ forwards_operation_logs method_at [OF method_names, where n = 7]])
    (simp_all add: adapter_operation_logs_def dispatch_def METHODS_def fun_eq_iff)

lemma to_operation_status: "map_of OPERATIONS ''operation.status'' = Some (snd (op_entry ''operation.status'' ''logs.read'' operation_name))"
  by (rule operation_at [where n = 33]) (simp_all add: OPERATIONS_def)

lemma forwards_operation_status: "forwards ''operation.status'' (sent b [''name'']) ''operation_status'' sig_operation_status
     (sent b (sg_names sig_operation_status))"
  apply (rule forwardsI [OF to_operation_status])
   apply (unfold operation_name_def Let_def sent_index MIGRATION_FLAGS_def USER_UPDATE_VALUES_def USER_UPDATE_LISTS_def)[1]
   apply (erule calls_eq)
  apply (simp add: sig_operation_status_def sg_names_def bind_arguments_def sent_get sent_get_default)
  apply (simp add: sent_def)?
  done

lemma transparent_operation_status: "transparent sig_operation_status adapter_operation_status"
  by (rule transparentI [OF _ forwards_operation_status method_at [OF method_names, where n = 8]])
    (simp_all add: adapter_operation_status_def dispatch_def METHODS_def fun_eq_iff)

lemma to_updates_check: "map_of OPERATIONS ''updates.check'' = Some (snd (op_entry ''updates.check'' ''system.update'' updates_check))"
  by (rule operation_at [where n = 48]) (simp_all add: OPERATIONS_def)

lemma forwards_updates_check: "forwards ''updates.check'' [] ''updates_check'' sig_updates_check
     (sent b (sg_names sig_updates_check))"
  apply (rule forwardsI [OF to_updates_check])
   apply (unfold updates_check_def Let_def sent_index MIGRATION_FLAGS_def USER_UPDATE_VALUES_def USER_UPDATE_LISTS_def)[1]
   apply (erule calls_eq)
  apply (simp add: sig_updates_check_def sg_names_def bind_arguments_def sent_get sent_get_default)
  apply (simp add: sent_def)?
  done

lemma transparent_updates_check: "transparent sig_updates_check adapter_updates_check"
  by (rule transparentI [OF _ forwards_updates_check method_at [OF method_names, where n = 10]])
    (simp_all add: adapter_updates_check_def dispatch_def METHODS_def fun_eq_iff)

lemma to_updates_refresh: "map_of OPERATIONS ''updates.refresh'' = Some (snd (op_entry ''updates.refresh'' ''system.update'' updates_refresh))"
  by (rule operation_at [where n = 49]) (simp_all add: OPERATIONS_def)

lemma forwards_updates_refresh: "forwards ''updates.refresh'' (sent b [''target'']) ''updates_refresh'' sig_updates_refresh
     (sent b (sg_names sig_updates_refresh))"
  apply (rule forwardsI [OF to_updates_refresh])
   apply (unfold updates_refresh_def Let_def sent_index MIGRATION_FLAGS_def USER_UPDATE_VALUES_def USER_UPDATE_LISTS_def)[1]
   apply (erule calls_eq)
  apply (simp add: sig_updates_refresh_def sg_names_def bind_arguments_def sent_get sent_get_default)
  apply (simp add: sent_def)?
  done

lemma transparent_updates_refresh: "transparent sig_updates_refresh adapter_updates_refresh"
  apply (rule transparent_checkedI [OF _ _ forwards_updates_refresh method_at [OF method_names, where n = 12]])
     apply ((unfold adapter_updates_refresh_def dispatch_def sides option.case)[1], rule refl)+
   apply (simp_all add: METHODS_def)
  done

lemma to_migrations_list: "map_of OPERATIONS ''migrations.list'' = Some (snd (op_entry ''migrations.list'' ''system.update'' migrations_list))"
  by (rule operation_at [where n = 50]) (simp_all add: OPERATIONS_def)

lemma forwards_migrations_list: "forwards ''migrations.list'' (sent b [''pending'', ''done'']) ''migrations_list'' sig_migrations_list
     (sent b (sg_names sig_migrations_list))"
  apply (rule forwardsI [OF to_migrations_list])
   apply (unfold migrations_list_def Let_def sent_index MIGRATION_FLAGS_def USER_UPDATE_VALUES_def USER_UPDATE_LISTS_def)[1]
   apply (erule calls_eq)
  apply (simp add: sig_migrations_list_def sg_names_def bind_arguments_def sent_get sent_get_default)
  apply (simp add: sent_def)?
  done

lemma transparent_migrations_list: "transparent sig_migrations_list adapter_migrations_list"
  by (rule transparentI [OF _ forwards_migrations_list method_at [OF method_names, where n = 13]])
    (simp_all add: adapter_migrations_list_def dispatch_def METHODS_def fun_eq_iff)

lemma to_migrations_state: "map_of OPERATIONS ''migrations.state'' = Some (snd (op_entry ''migrations.state'' ''system.update'' (no_args ''migrations_state'')))"
  by (rule operation_at [where n = 51]) (simp_all add: OPERATIONS_def)

lemma forwards_migrations_state: "forwards ''migrations.state'' [] ''migrations_state'' sig_migrations_state
     (sent b (sg_names sig_migrations_state))"
  apply (rule forwardsI [OF to_migrations_state])
   apply (unfold no_args_def Let_def sent_index MIGRATION_FLAGS_def USER_UPDATE_VALUES_def USER_UPDATE_LISTS_def)[1]
   apply (erule calls_eq)
  apply (simp add: sig_migrations_state_def sg_names_def bind_arguments_def sent_get sent_get_default)
  apply (simp add: sent_def)?
  done

lemma transparent_migrations_state: "transparent sig_migrations_state adapter_migrations_state"
  by (rule transparentI [OF _ forwards_migrations_state method_at [OF method_names, where n = 14]])
    (simp_all add: adapter_migrations_state_def dispatch_def METHODS_def fun_eq_iff)

lemma to_settings_list: "map_of OPERATIONS ''settings.list'' = Some (snd (op_entry ''settings.list'' ''settings.read'' settings_list))"
  by (rule operation_at [where n = 89]) (simp_all add: OPERATIONS_def)

lemma forwards_settings_list: "forwards ''settings.list'' (sent b [''full'']) ''settings_list'' sig_settings_list
     (sent b (sg_names sig_settings_list))"
  apply (rule forwardsI [OF to_settings_list])
   apply (unfold settings_list_def Let_def sent_index MIGRATION_FLAGS_def USER_UPDATE_VALUES_def USER_UPDATE_LISTS_def)[1]
   apply (erule calls_eq)
  apply (simp add: sig_settings_list_def sg_names_def bind_arguments_def sent_get sent_get_default)
  apply (simp add: sent_def)?
  done

lemma transparent_settings_list: "transparent sig_settings_list adapter_settings_list"
  by (rule transparentI [OF _ forwards_settings_list method_at [OF method_names, where n = 15]])
    (simp_all add: adapter_settings_list_def dispatch_def METHODS_def fun_eq_iff)

lemma to_settings_get: "map_of OPERATIONS ''settings.get'' = Some (snd (op_entry ''settings.get'' ''settings.read'' settings_get))"
  by (rule operation_at [where n = 90]) (simp_all add: OPERATIONS_def)

lemma forwards_settings_get: "forwards ''settings.get'' (sent b [''key'', ''full'']) ''settings_get'' sig_settings_get
     (sent b (sg_names sig_settings_get))"
  apply (rule forwardsI [OF to_settings_get])
   apply (unfold settings_get_def Let_def sent_index MIGRATION_FLAGS_def USER_UPDATE_VALUES_def USER_UPDATE_LISTS_def)[1]
   apply (erule calls_eq)
  apply (simp add: sig_settings_get_def sg_names_def bind_arguments_def sent_get sent_get_default)
  apply (simp add: sent_def)?
  done

lemma transparent_settings_get: "transparent sig_settings_get adapter_settings_get"
  by (rule transparentI [OF _ forwards_settings_get method_at [OF method_names, where n = 16]])
    (simp_all add: adapter_settings_get_def dispatch_def METHODS_def fun_eq_iff)

lemma to_regenconf_pending: "map_of OPERATIONS ''regenconf.pending'' = Some (snd (op_entry ''regenconf.pending'' ''regenconf.read'' regenconf_pending))"
  by (rule operation_at [where n = 92]) (simp_all add: OPERATIONS_def)

lemma forwards_regenconf_pending: "forwards ''regenconf.pending'' (sent b [''names'', ''with_diff'']) ''regenconf_pending'' sig_regenconf_pending
     (sent b (sg_names sig_regenconf_pending))"
  apply (rule forwardsI [OF to_regenconf_pending])
   apply (unfold regenconf_pending_def Let_def sent_index MIGRATION_FLAGS_def USER_UPDATE_VALUES_def USER_UPDATE_LISTS_def)[1]
   apply (erule calls_eq)
  apply (simp add: sig_regenconf_pending_def sg_names_def bind_arguments_def sent_get sent_get_default)
  apply (simp add: sent_def)?
  done

lemma transparent_regenconf_pending: "transparent sig_regenconf_pending adapter_regenconf_pending"
  by (rule transparentI [OF _ forwards_regenconf_pending method_at [OF method_names, where n = 17]])
    (simp_all add: adapter_regenconf_pending_def dispatch_def METHODS_def fun_eq_iff)

lemma to_firewall_list: "map_of OPERATIONS ''firewall.list'' = Some (snd (op_entry ''firewall.list'' ''firewall.read'' firewall_list))"
  by (rule operation_at [where n = 52]) (simp_all add: OPERATIONS_def)

lemma forwards_firewall_list: "forwards ''firewall.list'' (sent b [''raw'', ''protocol'', ''forwarded'']) ''firewall_list'' sig_firewall_list
     (sent b (sg_names sig_firewall_list))"
  apply (rule forwardsI [OF to_firewall_list])
   apply (unfold firewall_list_def Let_def sent_index MIGRATION_FLAGS_def USER_UPDATE_VALUES_def USER_UPDATE_LISTS_def)[1]
   apply (erule calls_eq)
  apply (simp add: sig_firewall_list_def sg_names_def bind_arguments_def sent_get sent_get_default)
  apply (simp add: sent_def)?
  done

lemma transparent_firewall_list: "transparent sig_firewall_list adapter_firewall_list"
  by (rule transparentI [OF _ forwards_firewall_list method_at [OF method_names, where n = 18]])
    (simp_all add: adapter_firewall_list_def dispatch_def METHODS_def fun_eq_iff)

lemma to_firewall_is_open: "map_of OPERATIONS ''firewall.is_open'' = Some (snd (op_entry ''firewall.is_open'' ''firewall.read'' firewall_is_open))"
  by (rule operation_at [where n = 53]) (simp_all add: OPERATIONS_def)

lemma forwards_firewall_is_open: "forwards ''firewall.is_open'' (sent b [''port'', ''protocol'']) ''firewall_is_open'' sig_firewall_is_open
     (sent b (sg_names sig_firewall_is_open))"
  apply (rule forwardsI [OF to_firewall_is_open])
   apply (unfold firewall_is_open_def Let_def sent_index MIGRATION_FLAGS_def USER_UPDATE_VALUES_def USER_UPDATE_LISTS_def)[1]
   apply (erule calls_eq)
  apply (simp add: sig_firewall_is_open_def sg_names_def bind_arguments_def sent_get sent_get_default)
  apply (simp add: sent_def)?
  done

lemma transparent_firewall_is_open: "transparent sig_firewall_is_open adapter_firewall_is_open"
  by (rule transparentI [OF _ forwards_firewall_is_open method_at [OF method_names, where n = 19]])
    (simp_all add: adapter_firewall_is_open_def dispatch_def METHODS_def fun_eq_iff)

lemma to_apps_list: "map_of OPERATIONS ''apps.list'' = Some (snd (op_entry ''apps.list'' ''apps.read'' apps_list))"
  by (rule operation_at [where n = 21]) (simp_all add: OPERATIONS_def)

lemma forwards_apps_list: "forwards ''apps.list'' (sent b [''full'']) ''apps_list'' sig_apps_list
     (sent b (sg_names sig_apps_list))"
  apply (rule forwardsI [OF to_apps_list])
   apply (unfold apps_list_def Let_def sent_index MIGRATION_FLAGS_def USER_UPDATE_VALUES_def USER_UPDATE_LISTS_def)[1]
   apply (erule calls_eq)
  apply (simp add: sig_apps_list_def sg_names_def bind_arguments_def sent_get sent_get_default)
  apply (simp add: sent_def)?
  done

lemma transparent_apps_list: "transparent sig_apps_list adapter_apps_list"
  by (rule transparentI [OF _ forwards_apps_list method_at [OF method_names, where n = 20]])
    (simp_all add: adapter_apps_list_def dispatch_def METHODS_def fun_eq_iff)

lemma to_app_info: "map_of OPERATIONS ''app.info'' = Some (snd (op_entry ''app.info'' ''apps.read'' app_info))"
  by (rule operation_at [where n = 22]) (simp_all add: OPERATIONS_def)

lemma forwards_app_info: "forwards ''app.info'' (sent b [''app'', ''full'']) ''app_info'' sig_app_info
     (sent b (sg_names sig_app_info))"
  apply (rule forwardsI [OF to_app_info])
   apply (unfold app_info_def Let_def sent_index MIGRATION_FLAGS_def USER_UPDATE_VALUES_def USER_UPDATE_LISTS_def)[1]
   apply (erule calls_eq)
  apply (simp add: sig_app_info_def sg_names_def bind_arguments_def sent_get sent_get_default)
  apply (simp add: sent_def)?
  done

lemma transparent_app_info: "transparent sig_app_info adapter_app_info"
  by (rule transparentI [OF _ forwards_app_info method_at [OF method_names, where n = 21]])
    (simp_all add: adapter_app_info_def dispatch_def METHODS_def fun_eq_iff)

lemma to_app_resources: "map_of OPERATIONS ''app.resources'' = Some (snd (op_entry ''app.resources'' ''apps.read'' app_resources))"
  by (rule operation_at [where n = 23]) (simp_all add: OPERATIONS_def)

lemma forwards_app_resources: "forwards ''app.resources'' (sent b [''app'']) ''app_resources'' sig_app_resources
     (sent b (sg_names sig_app_resources))"
  apply (rule forwardsI [OF to_app_resources])
   apply (unfold app_resources_def Let_def sent_index MIGRATION_FLAGS_def USER_UPDATE_VALUES_def USER_UPDATE_LISTS_def)[1]
   apply (erule calls_eq)
  apply (simp add: sig_app_resources_def sg_names_def bind_arguments_def sent_get sent_get_default)
  apply (simp add: sent_def)?
  done

lemma transparent_app_resources: "transparent sig_app_resources adapter_app_resources"
  by (rule transparentI [OF _ forwards_app_resources method_at [OF method_names, where n = 22]])
    (simp_all add: adapter_app_resources_def dispatch_def METHODS_def fun_eq_iff)

lemma to_app_config_get: "map_of OPERATIONS ''app.config_get'' = Some (snd (op_entry ''app.config_get'' ''apps.config.read'' app_config_get))"
  by (rule operation_at [where n = 24]) (simp_all add: OPERATIONS_def)

lemma forwards_app_config_get: "forwards ''app.config_get'' (sent b [''app'', ''key'', ''full'', ''export'']) ''app_config_get'' sig_app_config_get
     (sent b (sg_names sig_app_config_get))"
  apply (rule forwardsI [OF to_app_config_get])
   apply (unfold app_config_get_def Let_def sent_index MIGRATION_FLAGS_def USER_UPDATE_VALUES_def USER_UPDATE_LISTS_def)[1]
   apply (erule calls_eq)
  apply (simp add: sig_app_config_get_def sg_names_def bind_arguments_def sent_get sent_get_default)
  apply (simp add: sent_def)?
  done

lemma transparent_app_config_get: "transparent sig_app_config_get adapter_app_config_get"
  by (rule transparentI [OF _ forwards_app_config_get method_at [OF method_names, where n = 23]])
    (simp_all add: adapter_app_config_get_def dispatch_def METHODS_def fun_eq_iff)

lemma to_app_setting_get: "map_of OPERATIONS ''app.setting_get'' = Some (snd (op_entry ''app.setting_get'' ''apps.setting.read'' app_setting_get))"
  by (rule operation_at [where n = 25]) (simp_all add: OPERATIONS_def)

lemma forwards_app_setting_get: "forwards ''app.setting_get'' (sent b [''app'', ''key'']) ''app_setting_get'' sig_app_setting_get
     (sent b (sg_names sig_app_setting_get))"
  apply (rule forwardsI [OF to_app_setting_get])
   apply (unfold app_setting_get_def Let_def sent_index MIGRATION_FLAGS_def USER_UPDATE_VALUES_def USER_UPDATE_LISTS_def)[1]
   apply (erule calls_eq)
  apply (simp add: sig_app_setting_get_def sg_names_def bind_arguments_def sent_get sent_get_default)
  apply (simp add: sent_def)?
  done

lemma transparent_app_setting_get: "transparent sig_app_setting_get adapter_app_setting_get"
  by (rule transparentI [OF _ forwards_app_setting_get method_at [OF method_names, where n = 24]])
    (simp_all add: adapter_app_setting_get_def dispatch_def METHODS_def fun_eq_iff)

lemma to_domains_list: "map_of OPERATIONS ''domains.list'' = Some (snd (op_entry ''domains.list'' ''domains.read'' (no_args ''domains_list'')))"
  by (rule operation_at [where n = 27]) (simp_all add: OPERATIONS_def)

lemma forwards_domains_list: "forwards ''domains.list'' [] ''domains_list'' sig_domains_list
     (sent b (sg_names sig_domains_list))"
  apply (rule forwardsI [OF to_domains_list])
   apply (unfold no_args_def Let_def sent_index MIGRATION_FLAGS_def USER_UPDATE_VALUES_def USER_UPDATE_LISTS_def)[1]
   apply (erule calls_eq)
  apply (simp add: sig_domains_list_def sg_names_def bind_arguments_def sent_get sent_get_default)
  apply (simp add: sent_def)?
  done

lemma transparent_domains_list: "transparent sig_domains_list adapter_domains_list"
  by (rule transparentI [OF _ forwards_domains_list method_at [OF method_names, where n = 25]])
    (simp_all add: adapter_domains_list_def dispatch_def METHODS_def fun_eq_iff)

lemma to_domain_cert_info: "map_of OPERATIONS ''domain.certificate_info'' = Some (snd (op_entry ''domain.certificate_info'' ''domains.read'' domain_name))"
  by (rule operation_at [where n = 35]) (simp_all add: OPERATIONS_def)

lemma forwards_domain_cert_info: "forwards ''domain.certificate_info'' (sent b [''domain'']) ''domain_cert_info'' sig_domain_cert_info
     (sent b (sg_names sig_domain_cert_info))"
  apply (rule forwardsI [OF to_domain_cert_info])
   apply (unfold domain_name_def Let_def sent_index MIGRATION_FLAGS_def USER_UPDATE_VALUES_def USER_UPDATE_LISTS_def)[1]
   apply (erule calls_eq)
  apply (simp add: sig_domain_cert_info_def sg_names_def bind_arguments_def sent_get sent_get_default)
  apply (simp add: sent_def)?
  done

lemma transparent_domain_cert_info: "transparent sig_domain_cert_info adapter_domain_cert_info"
  by (rule transparentI [OF _ forwards_domain_cert_info method_at [OF method_names, where n = 26]])
    (simp_all add: adapter_domain_cert_info_def dispatch_def METHODS_def fun_eq_iff)

lemma to_domain_dns_suggest: "map_of OPERATIONS ''domain.dns_suggest'' = Some (snd (op_entry ''domain.dns_suggest'' ''domains.read'' domain_dns_suggest))"
  by (rule operation_at [where n = 86]) (simp_all add: OPERATIONS_def)

lemma forwards_domain_dns_suggest: "forwards ''domain.dns_suggest'' (sent b [''domain'']) ''domain_dns_suggest'' sig_domain_dns_suggest
     (sent b (sg_names sig_domain_dns_suggest))"
  apply (rule forwardsI [OF to_domain_dns_suggest])
   apply (unfold domain_dns_suggest_def Let_def sent_index MIGRATION_FLAGS_def USER_UPDATE_VALUES_def USER_UPDATE_LISTS_def)[1]
   apply (erule calls_eq)
  apply (simp add: sig_domain_dns_suggest_def sg_names_def bind_arguments_def sent_get sent_get_default)
  apply (simp add: sent_def)?
  done

lemma transparent_domain_dns_suggest: "transparent sig_domain_dns_suggest adapter_domain_dns_suggest"
  by (rule transparentI [OF _ forwards_domain_dns_suggest method_at [OF method_names, where n = 27]])
    (simp_all add: adapter_domain_dns_suggest_def dispatch_def METHODS_def fun_eq_iff)

lemma to_domain_dns_push_preview: "map_of OPERATIONS ''domain.dns_push_preview'' = Some (snd (op_entry ''domain.dns_push_preview'' ''domains.read'' domain_dns_push_preview))"
  by (rule operation_at [where n = 87]) (simp_all add: OPERATIONS_def)

lemma forwards_domain_dns_push_preview: "forwards ''domain.dns_push_preview'' (sent b [''domain'', ''force'', ''purge'']) ''domain_dns_push_preview'' sig_domain_dns_push_preview
     (sent b (sg_names sig_domain_dns_push_preview))"
  apply (rule forwardsI [OF to_domain_dns_push_preview])
   apply (unfold domain_dns_push_preview_def Let_def sent_index MIGRATION_FLAGS_def USER_UPDATE_VALUES_def USER_UPDATE_LISTS_def)[1]
   apply (erule calls_eq)
  apply (simp add: sig_domain_dns_push_preview_def sg_names_def bind_arguments_def sent_get sent_get_default)
  apply (simp add: sent_def)?
  done

lemma transparent_domain_dns_push_preview: "transparent sig_domain_dns_push_preview adapter_domain_dns_push_preview"
  by (rule transparentI [OF _ forwards_domain_dns_push_preview method_at [OF method_names, where n = 28]])
    (simp_all add: adapter_domain_dns_push_preview_def dispatch_def METHODS_def fun_eq_iff)

lemma to_users_list: "map_of OPERATIONS ''users.list'' = Some (snd (op_entry ''users.list'' ''users.read'' (no_args ''users_list'')))"
  by (rule operation_at [where n = 28]) (simp_all add: OPERATIONS_def)

lemma forwards_users_list: "forwards ''users.list'' [] ''users_list'' sig_users_list
     (sent b (sg_names sig_users_list))"
  apply (rule forwardsI [OF to_users_list])
   apply (unfold no_args_def Let_def sent_index MIGRATION_FLAGS_def USER_UPDATE_VALUES_def USER_UPDATE_LISTS_def)[1]
   apply (erule calls_eq)
  apply (simp add: sig_users_list_def sg_names_def bind_arguments_def sent_get sent_get_default)
  apply (simp add: sent_def)?
  done

lemma transparent_users_list: "transparent sig_users_list adapter_users_list"
  by (rule transparentI [OF _ forwards_users_list method_at [OF method_names, where n = 29]])
    (simp_all add: adapter_users_list_def dispatch_def METHODS_def fun_eq_iff)

lemma to_user_group_list: "map_of OPERATIONS ''user.groups'' = Some (snd (op_entry ''user.groups'' ''users.read'' (no_args ''user_group_list'')))"
  by (rule operation_at [where n = 36]) (simp_all add: OPERATIONS_def)

lemma forwards_user_group_list: "forwards ''user.groups'' [] ''user_group_list'' sig_user_group_list
     (sent b (sg_names sig_user_group_list))"
  apply (rule forwardsI [OF to_user_group_list])
   apply (unfold no_args_def Let_def sent_index MIGRATION_FLAGS_def USER_UPDATE_VALUES_def USER_UPDATE_LISTS_def)[1]
   apply (erule calls_eq)
  apply (simp add: sig_user_group_list_def sg_names_def bind_arguments_def sent_get sent_get_default)
  apply (simp add: sent_def)?
  done

lemma transparent_user_group_list: "transparent sig_user_group_list adapter_user_group_list"
  by (rule transparentI [OF _ forwards_user_group_list method_at [OF method_names, where n = 30]])
    (simp_all add: adapter_user_group_list_def dispatch_def METHODS_def fun_eq_iff)

lemma to_user_permission_list: "map_of OPERATIONS ''user.permissions'' = Some (snd (op_entry ''user.permissions'' ''users.read'' (no_args ''user_permission_list'')))"
  by (rule operation_at [where n = 37]) (simp_all add: OPERATIONS_def)

lemma forwards_user_permission_list: "forwards ''user.permissions'' [] ''user_permission_list'' sig_user_permission_list
     (sent b (sg_names sig_user_permission_list))"
  apply (rule forwardsI [OF to_user_permission_list])
   apply (unfold no_args_def Let_def sent_index MIGRATION_FLAGS_def USER_UPDATE_VALUES_def USER_UPDATE_LISTS_def)[1]
   apply (erule calls_eq)
  apply (simp add: sig_user_permission_list_def sg_names_def bind_arguments_def sent_get sent_get_default)
  apply (simp add: sent_def)?
  done

lemma transparent_user_permission_list: "transparent sig_user_permission_list adapter_user_permission_list"
  by (rule transparentI [OF _ forwards_user_permission_list method_at [OF method_names, where n = 31]])
    (simp_all add: adapter_user_permission_list_def dispatch_def METHODS_def fun_eq_iff)

lemma to_user_permission_info: "map_of OPERATIONS ''user.permission_info'' = Some (snd (op_entry ''user.permission_info'' ''users.read'' permission_info))"
  by (rule operation_at [where n = 38]) (simp_all add: OPERATIONS_def)

lemma forwards_user_permission_info: "forwards ''user.permission_info'' (sent b [''permission'']) ''user_permission_info'' sig_user_permission_info
     (sent b (sg_names sig_user_permission_info))"
  apply (rule forwardsI [OF to_user_permission_info])
   apply (unfold permission_info_def Let_def sent_index MIGRATION_FLAGS_def USER_UPDATE_VALUES_def USER_UPDATE_LISTS_def)[1]
   apply (erule calls_eq)
  apply (simp add: sig_user_permission_info_def sg_names_def bind_arguments_def sent_get sent_get_default)
  apply (simp add: sent_def)?
  done

lemma transparent_user_permission_info: "transparent sig_user_permission_info adapter_user_permission_info"
  by (rule transparentI [OF _ forwards_user_permission_info method_at [OF method_names, where n = 32]])
    (simp_all add: adapter_user_permission_info_def dispatch_def METHODS_def fun_eq_iff)

lemma to_backups_list: "map_of OPERATIONS ''backups.list'' = Some (snd (op_entry ''backups.list'' ''backups.read'' (no_args ''backups_list'')))"
  by (rule operation_at [where n = 29]) (simp_all add: OPERATIONS_def)

lemma forwards_backups_list: "forwards ''backups.list'' [] ''backups_list'' sig_backups_list
     (sent b (sg_names sig_backups_list))"
  apply (rule forwardsI [OF to_backups_list])
   apply (unfold no_args_def Let_def sent_index MIGRATION_FLAGS_def USER_UPDATE_VALUES_def USER_UPDATE_LISTS_def)[1]
   apply (erule calls_eq)
  apply (simp add: sig_backups_list_def sg_names_def bind_arguments_def sent_get sent_get_default)
  apply (simp add: sent_def)?
  done

lemma transparent_backups_list: "transparent sig_backups_list adapter_backups_list"
  by (rule transparentI [OF _ forwards_backups_list method_at [OF method_names, where n = 33]])
    (simp_all add: adapter_backups_list_def dispatch_def METHODS_def fun_eq_iff)

lemma to_backup_info: "map_of OPERATIONS ''backup.info'' = Some (snd (op_entry ''backup.info'' ''backups.read'' backup_info))"
  by (rule operation_at [where n = 58]) (simp_all add: OPERATIONS_def)

lemma forwards_backup_info: "forwards ''backup.info'' (sent b [''name'', ''with_details'']) ''backup_info'' sig_backup_info
     (sent b (sg_names sig_backup_info))"
  apply (rule forwardsI [OF to_backup_info])
   apply (unfold backup_info_def Let_def sent_index MIGRATION_FLAGS_def USER_UPDATE_VALUES_def USER_UPDATE_LISTS_def)[1]
   apply (erule calls_eq)
  apply (simp add: sig_backup_info_def sg_names_def bind_arguments_def sent_get sent_get_default)
  apply (simp add: sent_def)?
  done

lemma transparent_backup_info: "transparent sig_backup_info adapter_backup_info"
  by (rule transparentI [OF _ forwards_backup_info method_at [OF method_names, where n = 34]])
    (simp_all add: adapter_backup_info_def dispatch_def METHODS_def fun_eq_iff)

lemma to_package_inspect: "map_of OPERATIONS ''package.inspect'' = Some (snd (op_entry ''package.inspect'' ''packages.inspect'' package_inspect))"
  by (rule operation_at [where n = 8]) (simp_all add: OPERATIONS_def)

lemma forwards_package_inspect: "forwards ''package.inspect'' (sent b [''source'']) ''package_inspect'' sig_package_inspect
     (sent b (sg_names sig_package_inspect))"
  apply (rule forwardsI [OF to_package_inspect])
   apply (unfold package_inspect_def Let_def sent_index MIGRATION_FLAGS_def USER_UPDATE_VALUES_def USER_UPDATE_LISTS_def)[1]
   apply (erule calls_eq)
  apply (simp add: sig_package_inspect_def sg_names_def bind_arguments_def sent_get sent_get_default)
  apply (simp add: sent_def)?
  done

lemma transparent_package_inspect: "transparent sig_package_inspect adapter_package_inspect"
  by (rule transparentI [OF _ forwards_package_inspect method_at [OF method_names, where n = 35]])
    (simp_all add: adapter_package_inspect_def dispatch_def METHODS_def fun_eq_iff)

lemma to_app_config_set: "map_of OPERATIONS ''app.config_set'' = Some (snd (op_entry ''app.config_set'' ''apps.config.write'' app_config_set))"
  by (rule operation_at [where n = 64]) (simp_all add: OPERATIONS_def)

lemma forwards_app_config_set: "forwards ''app.config_set'' (sent b [''app'', ''key'', ''value'', ''confirmation_id'']) ''app_config_set'' sig_app_config_set
     (sent b (sg_names sig_app_config_set))"
  apply (rule forwardsI [OF to_app_config_set])
   apply (unfold app_config_set_def Let_def sent_index MIGRATION_FLAGS_def USER_UPDATE_VALUES_def USER_UPDATE_LISTS_def)[1]
   apply (erule calls_eq)
  apply (simp add: sig_app_config_set_def sg_names_def bind_arguments_def sent_get sent_get_default)
  apply (simp add: sent_def)?
  done

lemma transparent_app_config_set: "transparent sig_app_config_set adapter_app_config_set"
  by (rule transparentI [OF _ forwards_app_config_set method_at [OF method_names, where n = 36]])
    (simp_all add: adapter_app_config_set_def dispatch_def METHODS_def fun_eq_iff)

lemma to_app_setting_set: "map_of OPERATIONS ''app.setting_set'' = Some (snd (op_entry ''app.setting_set'' ''apps.setting.write'' app_setting_set))"
  by (rule operation_at [where n = 65]) (simp_all add: OPERATIONS_def)

lemma forwards_app_setting_set: "forwards ''app.setting_set'' (sent b [''app'', ''key'', ''value'', ''delete'', ''confirmation_id'']) ''app_setting_set'' sig_app_setting_set
     (sent b (sg_names sig_app_setting_set))"
  apply (rule forwardsI [OF to_app_setting_set])
   apply (unfold app_setting_set_def Let_def sent_index MIGRATION_FLAGS_def USER_UPDATE_VALUES_def USER_UPDATE_LISTS_def)[1]
   apply (erule calls_eq)
  apply (simp add: sig_app_setting_set_def sg_names_def bind_arguments_def sent_get sent_get_default)
  apply (simp add: sent_def)?
  done

lemma transparent_app_setting_set: "transparent sig_app_setting_set adapter_app_setting_set"
  apply (rule transparent_checkedI [OF _ _ forwards_app_setting_set method_at [OF method_names, where n = 37]])
     apply ((unfold adapter_app_setting_set_def dispatch_def sides option.case)[1], rule refl)+
   apply (simp_all add: METHODS_def)
  done

lemma to_user_create: "map_of OPERATIONS ''user.create'' = Some (snd (op_entry ''user.create'' ''users.write'' user_create))"
  by (rule operation_at [where n = 74]) (simp_all add: OPERATIONS_def)

lemma forwards_user_create: "forwards ''user.create'' (sent b [''username'', ''domain'', ''password'', ''fullname'', ''mailbox_quota'', ''admin'', ''confirmation_id'']) ''user_create'' sig_user_create
     (sent b (sg_names sig_user_create))"
  apply (rule forwardsI [OF to_user_create])
   apply (unfold user_create_def Let_def sent_index MIGRATION_FLAGS_def USER_UPDATE_VALUES_def USER_UPDATE_LISTS_def)[1]
   apply (erule calls_eq)
  apply (simp add: sig_user_create_def sg_names_def bind_arguments_def sent_get sent_get_default)
  apply (simp add: sent_def)?
  done

lemma transparent_user_create: "transparent sig_user_create adapter_user_create"
  by (rule transparentI [OF _ forwards_user_create method_at [OF method_names, where n = 38]])
    (simp_all add: adapter_user_create_def dispatch_def METHODS_def fun_eq_iff)

lemma to_user_update: "map_of OPERATIONS ''user.update'' = Some (snd (op_entry ''user.update'' ''users.write'' user_update))"
  by (rule operation_at [where n = 75]) (simp_all add: OPERATIONS_def)

lemma forwards_user_update: "forwards ''user.update'' (sent b [''username'', ''mail'', ''change_password'', ''add_mailforward'', ''remove_mailforward'', ''add_mailalias'', ''remove_mailalias'', ''mailbox_quota'', ''fullname'', ''confirmation_id'']) ''user_update'' sig_user_update
     (sent b (sg_names sig_user_update))"
  apply (rule forwardsI [OF to_user_update])
   apply (unfold user_update_def Let_def sent_index MIGRATION_FLAGS_def USER_UPDATE_VALUES_def USER_UPDATE_LISTS_def)[1]
   apply (erule calls_eq)
  apply (simp add: sig_user_update_def sg_names_def bind_arguments_def sent_get sent_get_default)
  apply (simp add: sent_def)?
  done

lemma transparent_user_update: "transparent sig_user_update adapter_user_update"
  by (rule transparentI [OF _ forwards_user_update method_at [OF method_names, where n = 39]])
    (simp_all add: adapter_user_update_def dispatch_def METHODS_def fun_eq_iff)

lemma to_user_delete: "map_of OPERATIONS ''user.delete'' = Some (snd (op_entry ''user.delete'' ''users.delete'' user_delete))"
  by (rule operation_at [where n = 76]) (simp_all add: OPERATIONS_def)

lemma forwards_user_delete: "forwards ''user.delete'' (sent b [''username'', ''purge'', ''confirmation_id'']) ''user_delete'' sig_user_delete
     (sent b (sg_names sig_user_delete))"
  apply (rule forwardsI [OF to_user_delete])
   apply (unfold user_delete_def Let_def sent_index MIGRATION_FLAGS_def USER_UPDATE_VALUES_def USER_UPDATE_LISTS_def)[1]
   apply (erule calls_eq)
  apply (simp add: sig_user_delete_def sg_names_def bind_arguments_def sent_get sent_get_default)
  apply (simp add: sent_def)?
  done

lemma transparent_user_delete: "transparent sig_user_delete adapter_user_delete"
  by (rule transparentI [OF _ forwards_user_delete method_at [OF method_names, where n = 40]])
    (simp_all add: adapter_user_delete_def dispatch_def METHODS_def fun_eq_iff)

lemma to_user_group_create: "map_of OPERATIONS ''user.group_create'' = Some (snd (op_entry ''user.group_create'' ''users.write'' group_create))"
  by (rule operation_at [where n = 77]) (simp_all add: OPERATIONS_def)

lemma forwards_user_group_create: "forwards ''user.group_create'' (sent b [''groupname'', ''confirmation_id'']) ''user_group_create'' sig_user_group_create
     (sent b (sg_names sig_user_group_create))"
  apply (rule forwardsI [OF to_user_group_create])
   apply (unfold group_create_def Let_def sent_index MIGRATION_FLAGS_def USER_UPDATE_VALUES_def USER_UPDATE_LISTS_def)[1]
   apply (erule calls_eq)
  apply (simp add: sig_user_group_create_def sg_names_def bind_arguments_def sent_get sent_get_default)
  apply (simp add: sent_def)?
  done

lemma transparent_user_group_create: "transparent sig_user_group_create adapter_user_group_create"
  by (rule transparentI [OF _ forwards_user_group_create method_at [OF method_names, where n = 41]])
    (simp_all add: adapter_user_group_create_def dispatch_def METHODS_def fun_eq_iff)

lemma to_user_group_update: "map_of OPERATIONS ''user.group_update'' = Some (snd (op_entry ''user.group_update'' ''users.write'' group_update))"
  by (rule operation_at [where n = 78]) (simp_all add: OPERATIONS_def)

lemma forwards_user_group_update: "forwards ''user.group_update'' (sent b [''groupname'', ''add'', ''remove'', ''confirmation_id'']) ''user_group_update'' sig_user_group_update
     (sent b (sg_names sig_user_group_update))"
  apply (rule forwardsI [OF to_user_group_update])
   apply (unfold group_update_def Let_def sent_index MIGRATION_FLAGS_def USER_UPDATE_VALUES_def USER_UPDATE_LISTS_def)[1]
   apply (erule calls_eq)
  apply (simp add: sig_user_group_update_def sg_names_def bind_arguments_def sent_get sent_get_default)
  apply (simp add: sent_def)?
  done

lemma transparent_user_group_update: "transparent sig_user_group_update adapter_user_group_update"
  by (rule transparentI [OF _ forwards_user_group_update method_at [OF method_names, where n = 42]])
    (simp_all add: adapter_user_group_update_def dispatch_def METHODS_def fun_eq_iff)

lemma to_user_group_delete: "map_of OPERATIONS ''user.group_delete'' = Some (snd (op_entry ''user.group_delete'' ''users.delete'' group_delete))"
  by (rule operation_at [where n = 79]) (simp_all add: OPERATIONS_def)

lemma forwards_user_group_delete: "forwards ''user.group_delete'' (sent b [''groupname'', ''confirmation_id'']) ''user_group_delete'' sig_user_group_delete
     (sent b (sg_names sig_user_group_delete))"
  apply (rule forwardsI [OF to_user_group_delete])
   apply (unfold group_delete_def Let_def sent_index MIGRATION_FLAGS_def USER_UPDATE_VALUES_def USER_UPDATE_LISTS_def)[1]
   apply (erule calls_eq)
  apply (simp add: sig_user_group_delete_def sg_names_def bind_arguments_def sent_get sent_get_default)
  apply (simp add: sent_def)?
  done

lemma transparent_user_group_delete: "transparent sig_user_group_delete adapter_user_group_delete"
  by (rule transparentI [OF _ forwards_user_group_delete method_at [OF method_names, where n = 43]])
    (simp_all add: adapter_user_group_delete_def dispatch_def METHODS_def fun_eq_iff)

lemma to_user_permission_add: "map_of OPERATIONS ''user.permission_add'' = Some (snd (op_entry ''user.permission_add'' ''users.write'' (permission_change ''add'')))"
  by (rule operation_at [where n = 80]) (simp_all add: OPERATIONS_def)

lemma forwards_user_permission_add: "forwards ''user.permission_add'' (sent b [''permission'', ''names'', ''confirmation_id'']) ''user_permission_add'' sig_user_permission_add
     (sent b (sg_names sig_user_permission_add))"
  apply (rule forwardsI [OF to_user_permission_add])
   apply (unfold permission_change_def Let_def sent_index MIGRATION_FLAGS_def USER_UPDATE_VALUES_def USER_UPDATE_LISTS_def)[1]
   apply (drule calls_eq, simp)
  apply (simp add: sig_user_permission_add_def sg_names_def bind_arguments_def sent_get sent_get_default)
  apply (simp add: sent_def)?
  done

lemma transparent_user_permission_add: "transparent sig_user_permission_add adapter_user_permission_add"
  by (rule transparentI [OF _ forwards_user_permission_add method_at [OF method_names, where n = 44]])
    (simp_all add: adapter_user_permission_add_def dispatch_def METHODS_def fun_eq_iff)

lemma to_user_permission_remove: "map_of OPERATIONS ''user.permission_remove'' = Some (snd (op_entry ''user.permission_remove'' ''users.write'' (permission_change ''remove'')))"
  by (rule operation_at [where n = 81]) (simp_all add: OPERATIONS_def)

lemma forwards_user_permission_remove: "forwards ''user.permission_remove'' (sent b [''permission'', ''names'', ''confirmation_id'']) ''user_permission_remove'' sig_user_permission_remove
     (sent b (sg_names sig_user_permission_remove))"
  apply (rule forwardsI [OF to_user_permission_remove])
   apply (unfold permission_change_def Let_def sent_index MIGRATION_FLAGS_def USER_UPDATE_VALUES_def USER_UPDATE_LISTS_def)[1]
   apply (drule calls_eq, simp)
  apply (simp add: sig_user_permission_remove_def sg_names_def bind_arguments_def sent_get sent_get_default)
  apply (simp add: sent_def)?
  done

lemma transparent_user_permission_remove: "transparent sig_user_permission_remove adapter_user_permission_remove"
  by (rule transparentI [OF _ forwards_user_permission_remove method_at [OF method_names, where n = 45]])
    (simp_all add: adapter_user_permission_remove_def dispatch_def METHODS_def fun_eq_iff)

lemma to_user_permission_update: "map_of OPERATIONS ''user.permission_update'' = Some (snd (op_entry ''user.permission_update'' ''users.write'' permission_update))"
  by (rule operation_at [where n = 82]) (simp_all add: OPERATIONS_def)

lemma forwards_user_permission_update: "forwards ''user.permission_update'' (sent b [''permission'', ''label'', ''show_tile'', ''protected'', ''confirmation_id'']) ''user_permission_update'' sig_user_permission_update
     (sent b (sg_names sig_user_permission_update))"
  apply (rule forwardsI [OF to_user_permission_update])
   apply (unfold permission_update_def Let_def sent_index MIGRATION_FLAGS_def USER_UPDATE_VALUES_def USER_UPDATE_LISTS_def)[1]
   apply (erule calls_eq)
  apply (simp add: sig_user_permission_update_def sg_names_def bind_arguments_def sent_get sent_get_default)
  apply (simp add: sent_def)?
  done

lemma transparent_user_permission_update: "transparent sig_user_permission_update adapter_user_permission_update"
  by (rule transparentI [OF _ forwards_user_permission_update method_at [OF method_names, where n = 46]])
    (simp_all add: adapter_user_permission_update_def dispatch_def METHODS_def fun_eq_iff)

lemma to_domain_add: "map_of OPERATIONS ''domain.add'' = Some (snd (op_entry ''domain.add'' ''domains.write'' domain_add))"
  by (rule operation_at [where n = 83]) (simp_all add: OPERATIONS_def)

lemma forwards_domain_add: "forwards ''domain.add'' (sent b [''domain'', ''install_letsencrypt_cert'', ''confirmation_id'']) ''domain_add'' sig_domain_add
     (sent b (sg_names sig_domain_add))"
  apply (rule forwardsI [OF to_domain_add])
   apply (unfold domain_add_def Let_def sent_index MIGRATION_FLAGS_def USER_UPDATE_VALUES_def USER_UPDATE_LISTS_def)[1]
   apply (erule calls_eq)
  apply (simp add: sig_domain_add_def sg_names_def bind_arguments_def sent_get sent_get_default)
  apply (simp add: sent_def)?
  done

lemma transparent_domain_add: "transparent sig_domain_add adapter_domain_add"
  by (rule transparentI [OF _ forwards_domain_add method_at [OF method_names, where n = 47]])
    (simp_all add: adapter_domain_add_def dispatch_def METHODS_def fun_eq_iff)

lemma to_domain_cert_install: "map_of OPERATIONS ''domain.cert_install'' = Some (snd (op_entry ''domain.cert_install'' ''domains.write'' domain_cert_install))"
  by (rule operation_at [where n = 85]) (simp_all add: OPERATIONS_def)

lemma forwards_domain_cert_install: "forwards ''domain.cert_install'' (sent b [''domain'', ''letsencrypt'', ''staging'', ''confirmation_id'']) ''domain_cert_install'' sig_domain_cert_install
     (sent b (sg_names sig_domain_cert_install))"
  apply (rule forwardsI [OF to_domain_cert_install])
   apply (unfold domain_cert_install_def Let_def sent_index MIGRATION_FLAGS_def USER_UPDATE_VALUES_def USER_UPDATE_LISTS_def)[1]
   apply (erule calls_eq)
  apply (simp add: sig_domain_cert_install_def sg_names_def bind_arguments_def sent_get sent_get_default)
  apply (simp add: sent_def)?
  done

lemma transparent_domain_cert_install: "transparent sig_domain_cert_install adapter_domain_cert_install"
  apply (rule transparent_checkedI [OF _ _ forwards_domain_cert_install method_at [OF method_names, where n = 48]])
     apply ((unfold adapter_domain_cert_install_def dispatch_def sides option.case)[1], rule refl)+
   apply (simp_all add: METHODS_def)
  done

lemma to_domain_dns_push: "map_of OPERATIONS ''domain.dns_push'' = Some (snd (op_entry ''domain.dns_push'' ''domains.write'' domain_dns_push))"
  by (rule operation_at [where n = 88]) (simp_all add: OPERATIONS_def)

lemma forwards_domain_dns_push: "forwards ''domain.dns_push'' (sent b [''domain'', ''force'', ''purge'', ''confirmation_id'']) ''domain_dns_push'' sig_domain_dns_push
     (sent b (sg_names sig_domain_dns_push))"
  apply (rule forwardsI [OF to_domain_dns_push])
   apply (unfold domain_dns_push_def Let_def sent_index MIGRATION_FLAGS_def USER_UPDATE_VALUES_def USER_UPDATE_LISTS_def)[1]
   apply (erule calls_eq)
  apply (simp add: sig_domain_dns_push_def sg_names_def bind_arguments_def sent_get sent_get_default)
  apply (simp add: sent_def)?
  done

lemma transparent_domain_dns_push: "transparent sig_domain_dns_push adapter_domain_dns_push"
  by (rule transparentI [OF _ forwards_domain_dns_push method_at [OF method_names, where n = 49]])
    (simp_all add: adapter_domain_dns_push_def dispatch_def METHODS_def fun_eq_iff)

lemma to_domain_remove: "map_of OPERATIONS ''domain.remove'' = Some (snd (op_entry ''domain.remove'' ''domains.write'' domain_remove))"
  by (rule operation_at [where n = 84]) (simp_all add: OPERATIONS_def)

lemma forwards_domain_remove: "forwards ''domain.remove'' (sent b [''domain'', ''remove_apps'', ''force'', ''confirmation_id'']) ''domain_remove'' sig_domain_remove
     (sent b (sg_names sig_domain_remove))"
  apply (rule forwardsI [OF to_domain_remove])
   apply (unfold domain_remove_def Let_def sent_index MIGRATION_FLAGS_def USER_UPDATE_VALUES_def USER_UPDATE_LISTS_def)[1]
   apply (erule calls_eq)
  apply (simp add: sig_domain_remove_def sg_names_def bind_arguments_def sent_get sent_get_default)
  apply (simp add: sent_def)?
  done

lemma transparent_domain_remove: "transparent sig_domain_remove adapter_domain_remove"
  by (rule transparentI [OF _ forwards_domain_remove method_at [OF method_names, where n = 50]])
    (simp_all add: adapter_domain_remove_def dispatch_def METHODS_def fun_eq_iff)

lemma to_service_restart: "map_of OPERATIONS ''service.restart'' = Some (snd (op_entry ''service.restart'' ''services.restart'' service_restart))"
  by (rule operation_at [where n = 54]) (simp_all add: OPERATIONS_def)

lemma forwards_service_restart: "forwards ''service.restart'' (sent b [''names'', ''confirmation_id'']) ''service_restart'' sig_service_restart
     (sent b (sg_names sig_service_restart))"
  apply (rule forwardsI [OF to_service_restart])
   apply (unfold service_restart_def Let_def sent_index MIGRATION_FLAGS_def USER_UPDATE_VALUES_def USER_UPDATE_LISTS_def)[1]
   apply (erule calls_eq)
  apply (simp add: sig_service_restart_def sg_names_def bind_arguments_def sent_get sent_get_default)
  apply (simp add: sent_def)?
  done

lemma transparent_service_restart: "transparent sig_service_restart adapter_service_restart"
  by (rule transparentI [OF _ forwards_service_restart method_at [OF method_names, where n = 51]])
    (simp_all add: adapter_service_restart_def dispatch_def METHODS_def fun_eq_iff)

lemma to_service_stop: "map_of OPERATIONS ''service.stop'' = Some (snd (op_entry ''service.stop'' ''services.stop'' service_stop))"
  by (rule operation_at [where n = 55]) (simp_all add: OPERATIONS_def)

lemma forwards_service_stop: "forwards ''service.stop'' (sent b [''names'', ''confirmation_id'']) ''service_stop'' sig_service_stop
     (sent b (sg_names sig_service_stop))"
  apply (rule forwardsI [OF to_service_stop])
   apply (unfold service_stop_def Let_def sent_index MIGRATION_FLAGS_def USER_UPDATE_VALUES_def USER_UPDATE_LISTS_def)[1]
   apply (erule calls_eq)
  apply (simp add: sig_service_stop_def sg_names_def bind_arguments_def sent_get sent_get_default)
  apply (simp add: sent_def)?
  done

lemma transparent_service_stop: "transparent sig_service_stop adapter_service_stop"
  by (rule transparentI [OF _ forwards_service_stop method_at [OF method_names, where n = 52]])
    (simp_all add: adapter_service_stop_def dispatch_def METHODS_def fun_eq_iff)

lemma to_service_start: "map_of OPERATIONS ''service.start'' = Some (snd (op_entry ''service.start'' ''services.start'' service_start))"
  by (rule operation_at [where n = 56]) (simp_all add: OPERATIONS_def)

lemma forwards_service_start: "forwards ''service.start'' (sent b [''names'', ''confirmation_id'']) ''service_start'' sig_service_start
     (sent b (sg_names sig_service_start))"
  apply (rule forwardsI [OF to_service_start])
   apply (unfold service_start_def Let_def sent_index MIGRATION_FLAGS_def USER_UPDATE_VALUES_def USER_UPDATE_LISTS_def)[1]
   apply (erule calls_eq)
  apply (simp add: sig_service_start_def sg_names_def bind_arguments_def sent_get sent_get_default)
  apply (simp add: sent_def)?
  done

lemma transparent_service_start: "transparent sig_service_start adapter_service_start"
  by (rule transparentI [OF _ forwards_service_start method_at [OF method_names, where n = 53]])
    (simp_all add: adapter_service_start_def dispatch_def METHODS_def fun_eq_iff)

lemma to_backup_create: "map_of OPERATIONS ''backup.create'' = Some (snd (op_entry ''backup.create'' ''backups.create'' backup_create))"
  by (rule operation_at [where n = 57]) (simp_all add: OPERATIONS_def)

lemma forwards_backup_create: "forwards ''backup.create'' (sent b [''name'', ''description'', ''apps'', ''system'', ''confirmation_id'']) ''backup_create'' sig_backup_create
     (sent b (sg_names sig_backup_create))"
  apply (rule forwardsI [OF to_backup_create])
   apply (unfold backup_create_def Let_def sent_index MIGRATION_FLAGS_def USER_UPDATE_VALUES_def USER_UPDATE_LISTS_def)[1]
   apply (erule calls_eq)
  apply (simp add: sig_backup_create_def sg_names_def bind_arguments_def sent_get sent_get_default)
  apply (simp add: sent_def)?
  done

lemma transparent_backup_create: "transparent sig_backup_create adapter_backup_create"
  by (rule transparentI [OF _ forwards_backup_create method_at [OF method_names, where n = 54]])
    (simp_all add: adapter_backup_create_def dispatch_def METHODS_def fun_eq_iff)

lemma to_backup_delete: "map_of OPERATIONS ''backup.delete'' = Some (snd (op_entry ''backup.delete'' ''backups.delete'' backup_delete))"
  by (rule operation_at [where n = 59]) (simp_all add: OPERATIONS_def)

lemma forwards_backup_delete: "forwards ''backup.delete'' (sent b [''name'', ''confirmation_id'']) ''backup_delete'' sig_backup_delete
     (sent b (sg_names sig_backup_delete))"
  apply (rule forwardsI [OF to_backup_delete])
   apply (unfold backup_delete_def Let_def sent_index MIGRATION_FLAGS_def USER_UPDATE_VALUES_def USER_UPDATE_LISTS_def)[1]
   apply (erule calls_eq)
  apply (simp add: sig_backup_delete_def sg_names_def bind_arguments_def sent_get sent_get_default)
  apply (simp add: sent_def)?
  done

lemma transparent_backup_delete: "transparent sig_backup_delete adapter_backup_delete"
  by (rule transparentI [OF _ forwards_backup_delete method_at [OF method_names, where n = 55]])
    (simp_all add: adapter_backup_delete_def dispatch_def METHODS_def fun_eq_iff)

lemma to_app_install: "map_of OPERATIONS ''app.install'' = Some (snd (op_entry ''app.install'' ''apps.install'' app_install))"
  by (rule operation_at [where n = 60]) (simp_all add: OPERATIONS_def)

lemma forwards_app_install: "forwards ''app.install'' (sent b [''app'', ''label'', ''args'', ''force'', ''confirmation_id'']) ''app_install'' sig_app_install
     (sent b (sg_names sig_app_install))"
  apply (rule forwardsI [OF to_app_install])
   apply (unfold app_install_def Let_def sent_index MIGRATION_FLAGS_def USER_UPDATE_VALUES_def USER_UPDATE_LISTS_def)[1]
   apply (erule calls_eq)
  apply (simp add: sig_app_install_def sg_names_def bind_arguments_def sent_get sent_get_default)
  apply (simp add: sent_def)?
  done

lemma transparent_app_install: "transparent sig_app_install adapter_app_install"
  by (rule transparentI [OF _ forwards_app_install method_at [OF method_names, where n = 56]])
    (simp_all add: adapter_app_install_def dispatch_def METHODS_def fun_eq_iff)

lemma to_app_upgrade: "map_of OPERATIONS ''app.upgrade'' = Some (snd (op_entry ''app.upgrade'' ''apps.upgrade'' app_upgrade))"
  by (rule operation_at [where n = 61]) (simp_all add: OPERATIONS_def)

lemma forwards_app_upgrade: "forwards ''app.upgrade'' (sent b [''app'', ''force'', ''url'', ''confirmation_id'']) ''app_upgrade'' sig_app_upgrade
     (map (\<lambda>k. (k, if k = ''file'' then JNull else dget b k)) (sg_names sig_app_upgrade))"
  apply (rule forwardsI [OF to_app_upgrade])
   apply (unfold app_upgrade_def Let_def sent_index MIGRATION_FLAGS_def USER_UPDATE_VALUES_def USER_UPDATE_LISTS_def)[1]
   apply (erule calls_eq)
  apply (simp add: sig_app_upgrade_def sg_names_def bind_arguments_def sent_get sent_get_default)
  apply (simp add: sent_def)?
  done

lemma to_app_remove: "map_of OPERATIONS ''app.remove'' = Some (snd (op_entry ''app.remove'' ''apps.remove'' app_remove))"
  by (rule operation_at [where n = 62]) (simp_all add: OPERATIONS_def)

lemma forwards_app_remove: "forwards ''app.remove'' (sent b [''app'', ''purge'', ''confirmation_id'']) ''app_remove'' sig_app_remove
     (sent b (sg_names sig_app_remove))"
  apply (rule forwardsI [OF to_app_remove])
   apply (unfold app_remove_def Let_def sent_index MIGRATION_FLAGS_def USER_UPDATE_VALUES_def USER_UPDATE_LISTS_def)[1]
   apply (erule calls_eq)
  apply (simp add: sig_app_remove_def sg_names_def bind_arguments_def sent_get sent_get_default)
  apply (simp add: sent_def)?
  done

lemma transparent_app_remove: "transparent sig_app_remove adapter_app_remove"
  by (rule transparentI [OF _ forwards_app_remove method_at [OF method_names, where n = 58]])
    (simp_all add: adapter_app_remove_def dispatch_def METHODS_def fun_eq_iff)

lemma to_app_change_url: "map_of OPERATIONS ''app.change_url'' = Some (snd (op_entry ''app.change_url'' ''apps.upgrade'' app_change_url))"
  by (rule operation_at [where n = 63]) (simp_all add: OPERATIONS_def)

lemma forwards_app_change_url: "forwards ''app.change_url'' (sent b [''app'', ''domain'', ''path'', ''confirmation_id'']) ''app_change_url'' sig_app_change_url
     (sent b (sg_names sig_app_change_url))"
  apply (rule forwardsI [OF to_app_change_url])
   apply (unfold app_change_url_def Let_def sent_index MIGRATION_FLAGS_def USER_UPDATE_VALUES_def USER_UPDATE_LISTS_def)[1]
   apply (erule calls_eq)
  apply (simp add: sig_app_change_url_def sg_names_def bind_arguments_def sent_get sent_get_default)
  apply (simp add: sent_def)?
  done

lemma transparent_app_change_url: "transparent sig_app_change_url adapter_app_change_url"
  by (rule transparentI [OF _ forwards_app_change_url method_at [OF method_names, where n = 59]])
    (simp_all add: adapter_app_change_url_def dispatch_def METHODS_def fun_eq_iff)

lemma to_backup_restore: "map_of OPERATIONS ''backup.restore'' = Some (snd (op_entry ''backup.restore'' ''backups.restore'' backup_restore))"
  by (rule operation_at [where n = 66]) (simp_all add: OPERATIONS_def)

lemma forwards_backup_restore: "forwards ''backup.restore'' (sent b [''name'', ''apps'', ''system'', ''force'', ''confirmation_id'']) ''backup_restore'' sig_backup_restore
     (sent b (sg_names sig_backup_restore))"
  apply (rule forwardsI [OF to_backup_restore])
   apply (unfold backup_restore_def Let_def sent_index MIGRATION_FLAGS_def USER_UPDATE_VALUES_def USER_UPDATE_LISTS_def)[1]
   apply (erule calls_eq)
  apply (simp add: sig_backup_restore_def sg_names_def bind_arguments_def sent_get sent_get_default)
  apply (simp add: sent_def)?
  done

lemma transparent_backup_restore: "transparent sig_backup_restore adapter_backup_restore"
  by (rule transparentI [OF _ forwards_backup_restore method_at [OF method_names, where n = 60]])
    (simp_all add: adapter_backup_restore_def dispatch_def METHODS_def fun_eq_iff)

lemma to_system_upgrade: "map_of OPERATIONS ''system.upgrade'' = Some (snd (op_entry ''system.upgrade'' ''system.upgrade'' system_upgrade))"
  by (rule operation_at [where n = 67]) (simp_all add: OPERATIONS_def)

lemma forwards_system_upgrade: "forwards ''system.upgrade'' (sent b [''confirmation_id'']) ''system_upgrade'' sig_system_upgrade
     (sent b (sg_names sig_system_upgrade))"
  apply (rule forwardsI [OF to_system_upgrade])
   apply (unfold system_upgrade_def Let_def sent_index MIGRATION_FLAGS_def USER_UPDATE_VALUES_def USER_UPDATE_LISTS_def)[1]
   apply (erule calls_eq)
  apply (simp add: sig_system_upgrade_def sg_names_def bind_arguments_def sent_get sent_get_default)
  apply (simp add: sent_def)?
  done

lemma transparent_system_upgrade: "transparent sig_system_upgrade adapter_system_upgrade"
  by (rule transparentI [OF _ forwards_system_upgrade method_at [OF method_names, where n = 61]])
    (simp_all add: adapter_system_upgrade_def dispatch_def METHODS_def fun_eq_iff)

lemma to_system_reboot: "map_of OPERATIONS ''system.reboot'' = Some (snd (op_entry ''system.reboot'' ''system.power'' (confirmation_only ''system_reboot'')))"
  by (rule operation_at [where n = 68]) (simp_all add: OPERATIONS_def)

lemma forwards_system_reboot: "forwards ''system.reboot'' (sent b [''confirmation_id'']) ''system_reboot'' sig_system_reboot
     (sent b (sg_names sig_system_reboot))"
  apply (rule forwardsI [OF to_system_reboot])
   apply (unfold confirmation_only_def Let_def sent_index MIGRATION_FLAGS_def USER_UPDATE_VALUES_def USER_UPDATE_LISTS_def)[1]
   apply (erule calls_eq)
  apply (simp add: sig_system_reboot_def sg_names_def bind_arguments_def sent_get sent_get_default)
  apply (simp add: sent_def)?
  done

lemma transparent_system_reboot: "transparent sig_system_reboot adapter_system_reboot"
  by (rule transparentI [OF _ forwards_system_reboot method_at [OF method_names, where n = 62]])
    (simp_all add: adapter_system_reboot_def dispatch_def METHODS_def fun_eq_iff)

lemma to_system_shutdown: "map_of OPERATIONS ''system.shutdown'' = Some (snd (op_entry ''system.shutdown'' ''system.power'' (confirmation_only ''system_shutdown'')))"
  by (rule operation_at [where n = 69]) (simp_all add: OPERATIONS_def)

lemma forwards_system_shutdown: "forwards ''system.shutdown'' (sent b [''confirmation_id'']) ''system_shutdown'' sig_system_shutdown
     (sent b (sg_names sig_system_shutdown))"
  apply (rule forwardsI [OF to_system_shutdown])
   apply (unfold confirmation_only_def Let_def sent_index MIGRATION_FLAGS_def USER_UPDATE_VALUES_def USER_UPDATE_LISTS_def)[1]
   apply (erule calls_eq)
  apply (simp add: sig_system_shutdown_def sg_names_def bind_arguments_def sent_get sent_get_default)
  apply (simp add: sent_def)?
  done

lemma transparent_system_shutdown: "transparent sig_system_shutdown adapter_system_shutdown"
  by (rule transparentI [OF _ forwards_system_shutdown method_at [OF method_names, where n = 63]])
    (simp_all add: adapter_system_shutdown_def dispatch_def METHODS_def fun_eq_iff)

lemma to_migrations_run: "map_of OPERATIONS ''migrations.run'' = Some (snd (op_entry ''migrations.run'' ''system.migrate'' migrations_run))"
  by (rule operation_at [where n = 70]) (simp_all add: OPERATIONS_def)

lemma forwards_migrations_run: "forwards ''migrations.run'' (sent b [''targets'', ''skip'', ''auto'', ''force_rerun'', ''accept_disclaimer'', ''skip_postmigrations'', ''confirmation_id'']) ''migrations_run'' sig_migrations_run
     (sent b (sg_names sig_migrations_run))"
  apply (rule forwardsI [OF to_migrations_run])
   apply (unfold migrations_run_def Let_def sent_index MIGRATION_FLAGS_def USER_UPDATE_VALUES_def USER_UPDATE_LISTS_def)[1]
   apply (erule calls_eq)
  apply (simp add: sig_migrations_run_def sg_names_def bind_arguments_def sent_get sent_get_default)
  apply (simp add: sent_def)?
  done

lemma transparent_migrations_run: "transparent sig_migrations_run adapter_migrations_run"
  by (rule transparentI [OF _ forwards_migrations_run method_at [OF method_names, where n = 64]])
    (simp_all add: adapter_migrations_run_def dispatch_def METHODS_def fun_eq_iff)

lemma to_firewall_open: "map_of OPERATIONS ''firewall.open'' = Some (snd (op_entry ''firewall.open'' ''firewall.write'' firewall_open))"
  by (rule operation_at [where n = 71]) (simp_all add: OPERATIONS_def)

lemma forwards_firewall_open: "forwards ''firewall.open'' (sent b [''port'', ''protocol'', ''comment'', ''upnp'', ''no_reload'', ''confirmation_id'']) ''firewall_open'' sig_firewall_open
     (sent b (sg_names sig_firewall_open))"
  apply (rule forwardsI [OF to_firewall_open])
   apply (unfold firewall_open_def Let_def sent_index MIGRATION_FLAGS_def USER_UPDATE_VALUES_def USER_UPDATE_LISTS_def)[1]
   apply (erule calls_eq)
  apply (simp add: sig_firewall_open_def sg_names_def bind_arguments_def sent_get sent_get_default)
  apply (simp add: sent_def)?
  done

lemma transparent_firewall_open: "transparent sig_firewall_open adapter_firewall_open"
  by (rule transparentI [OF _ forwards_firewall_open method_at [OF method_names, where n = 65]])
    (simp_all add: adapter_firewall_open_def dispatch_def METHODS_def fun_eq_iff)

lemma to_firewall_close: "map_of OPERATIONS ''firewall.close'' = Some (snd (op_entry ''firewall.close'' ''firewall.write'' firewall_close))"
  by (rule operation_at [where n = 72]) (simp_all add: OPERATIONS_def)

lemma forwards_firewall_close: "forwards ''firewall.close'' (sent b [''port'', ''protocol'', ''upnp_only'', ''no_reload'', ''confirmation_id'']) ''firewall_close'' sig_firewall_close
     (sent b (sg_names sig_firewall_close))"
  apply (rule forwardsI [OF to_firewall_close])
   apply (unfold firewall_close_def Let_def sent_index MIGRATION_FLAGS_def USER_UPDATE_VALUES_def USER_UPDATE_LISTS_def)[1]
   apply (erule calls_eq)
  apply (simp add: sig_firewall_close_def sg_names_def bind_arguments_def sent_get sent_get_default)
  apply (simp add: sent_def)?
  done

lemma transparent_firewall_close: "transparent sig_firewall_close adapter_firewall_close"
  by (rule transparentI [OF _ forwards_firewall_close method_at [OF method_names, where n = 66]])
    (simp_all add: adapter_firewall_close_def dispatch_def METHODS_def fun_eq_iff)

lemma to_firewall_reload: "map_of OPERATIONS ''firewall.reload'' = Some (snd (op_entry ''firewall.reload'' ''firewall.write'' firewall_reload))"
  by (rule operation_at [where n = 73]) (simp_all add: OPERATIONS_def)

lemma forwards_firewall_reload: "forwards ''firewall.reload'' (sent b [''skip_upnp'', ''confirmation_id'']) ''firewall_reload'' sig_firewall_reload
     (sent b (sg_names sig_firewall_reload))"
  apply (rule forwardsI [OF to_firewall_reload])
   apply (unfold firewall_reload_def Let_def sent_index MIGRATION_FLAGS_def USER_UPDATE_VALUES_def USER_UPDATE_LISTS_def)[1]
   apply (erule calls_eq)
  apply (simp add: sig_firewall_reload_def sg_names_def bind_arguments_def sent_get sent_get_default)
  apply (simp add: sent_def)?
  done

lemma transparent_firewall_reload: "transparent sig_firewall_reload adapter_firewall_reload"
  by (rule transparentI [OF _ forwards_firewall_reload method_at [OF method_names, where n = 67]])
    (simp_all add: adapter_firewall_reload_def dispatch_def METHODS_def fun_eq_iff)

lemma to_settings_set: "map_of OPERATIONS ''settings.set'' = Some (snd (op_entry ''settings.set'' ''settings.write'' settings_set))"
  by (rule operation_at [where n = 91]) (simp_all add: OPERATIONS_def)

lemma forwards_settings_set: "forwards ''settings.set'' (sent b [''key'', ''value'', ''confirmation_id'']) ''settings_set'' sig_settings_set
     (sent b (sg_names sig_settings_set))"
  apply (rule forwardsI [OF to_settings_set])
   apply (unfold settings_set_def Let_def sent_index MIGRATION_FLAGS_def USER_UPDATE_VALUES_def USER_UPDATE_LISTS_def)[1]
   apply (erule calls_eq)
  apply (simp add: sig_settings_set_def sg_names_def bind_arguments_def sent_get sent_get_default)
  apply (simp add: sent_def)?
  done

lemma transparent_settings_set: "transparent sig_settings_set adapter_settings_set"
  by (rule transparentI [OF _ forwards_settings_set method_at [OF method_names, where n = 68]])
    (simp_all add: adapter_settings_set_def dispatch_def METHODS_def fun_eq_iff)

lemma to_regenconf_apply: "map_of OPERATIONS ''regenconf.apply'' = Some (snd (op_entry ''regenconf.apply'' ''regenconf.write'' regenconf_apply))"
  by (rule operation_at [where n = 93]) (simp_all add: OPERATIONS_def)

lemma forwards_regenconf_apply: "forwards ''regenconf.apply'' (sent b [''names'', ''force'', ''confirmation_id'']) ''regenconf_apply'' sig_regenconf_apply
     (sent b (sg_names sig_regenconf_apply))"
  apply (rule forwardsI [OF to_regenconf_apply])
   apply (unfold regenconf_apply_def Let_def sent_index MIGRATION_FLAGS_def USER_UPDATE_VALUES_def USER_UPDATE_LISTS_def)[1]
   apply (erule calls_eq)
  apply (simp add: sig_regenconf_apply_def sg_names_def bind_arguments_def sent_get sent_get_default)
  apply (simp add: sent_def)?
  done

lemma transparent_regenconf_apply: "transparent sig_regenconf_apply adapter_regenconf_apply"
  by (rule transparentI [OF _ forwards_regenconf_apply method_at [OF method_names, where n = 69]])
    (simp_all add: adapter_regenconf_apply_def dispatch_def METHODS_def fun_eq_iff)

lemma to_package_install_test: "map_of OPERATIONS ''package.install_test'' = Some (snd (op_entry ''package.install_test'' ''packages.test'' package_install_test))"
  by (rule operation_at [where n = 11]) (simp_all add: OPERATIONS_def)

lemma forwards_package_install_test: "forwards ''package.install_test'' (sent b [''source'', ''label'', ''args'', ''session_id'', ''confirmation_id'']) ''package_install_test'' sig_package_install_test
     (sent b (sg_names sig_package_install_test))"
  apply (rule forwardsI [OF to_package_install_test])
   apply (unfold package_install_test_def Let_def sent_index MIGRATION_FLAGS_def USER_UPDATE_VALUES_def USER_UPDATE_LISTS_def)[1]
   apply (auto simp: ebind_def split: sum.splits)
  apply (simp add: sig_package_install_test_def sg_names_def bind_arguments_def sent_get sent_get_default)
  apply (simp add: sent_def)?
  done

lemma transparent_package_install_test: "transparent sig_package_install_test adapter_package_install_test"
  by (rule transparentI [OF _ forwards_package_install_test method_at [OF method_names, where n = 70]])
    (simp_all add: adapter_package_install_test_def dispatch_def METHODS_def fun_eq_iff)

lemma to_package_upgrade_test: "map_of OPERATIONS ''package.upgrade_test'' = Some (snd (op_entry ''package.upgrade_test'' ''packages.test'' package_upgrade_test))"
  by (rule operation_at [where n = 12]) (simp_all add: OPERATIONS_def)

lemma forwards_package_upgrade_test: "forwards ''package.upgrade_test'' (sent b [''app'', ''source'', ''session_id'', ''confirmation_id'']) ''package_upgrade_test'' sig_package_upgrade_test
     (sent b (sg_names sig_package_upgrade_test))"
  apply (rule forwardsI [OF to_package_upgrade_test])
   apply (unfold package_upgrade_test_def Let_def sent_index MIGRATION_FLAGS_def USER_UPDATE_VALUES_def USER_UPDATE_LISTS_def)[1]
   apply (erule calls_eq)
  apply (simp add: sig_package_upgrade_test_def sg_names_def bind_arguments_def sent_get sent_get_default)
  apply (simp add: sent_def)?
  done

lemma transparent_package_upgrade_test: "transparent sig_package_upgrade_test adapter_package_upgrade_test"
  by (rule transparentI [OF _ forwards_package_upgrade_test method_at [OF method_names, where n = 71]])
    (simp_all add: adapter_package_upgrade_test_def dispatch_def METHODS_def fun_eq_iff)

lemma to_package_backup_test: "map_of OPERATIONS ''package.backup_test'' = Some (snd (op_entry ''package.backup_test'' ''packages.test'' package_backup_test))"
  by (rule operation_at [where n = 13]) (simp_all add: OPERATIONS_def)

lemma forwards_package_backup_test: "forwards ''package.backup_test'' (sent b [''app'', ''session_id'', ''confirmation_id'']) ''package_backup_test'' sig_package_backup_test
     (sent b (sg_names sig_package_backup_test))"
  apply (rule forwardsI [OF to_package_backup_test])
   apply (unfold package_backup_test_def Let_def sent_index MIGRATION_FLAGS_def USER_UPDATE_VALUES_def USER_UPDATE_LISTS_def)[1]
   apply (erule calls_eq)
  apply (simp add: sig_package_backup_test_def sg_names_def bind_arguments_def sent_get sent_get_default)
  apply (simp add: sent_def)?
  done

lemma transparent_package_backup_test: "transparent sig_package_backup_test adapter_package_backup_test"
  by (rule transparentI [OF _ forwards_package_backup_test method_at [OF method_names, where n = 72]])
    (simp_all add: adapter_package_backup_test_def dispatch_def METHODS_def fun_eq_iff)

lemma to_package_restore_test: "map_of OPERATIONS ''package.restore_test'' = Some (snd (op_entry ''package.restore_test'' ''packages.test'' package_restore_test))"
  by (rule operation_at [where n = 14]) (simp_all add: OPERATIONS_def)

lemma forwards_package_restore_test: "forwards ''package.restore_test'' (sent b [''app'', ''archive_name'', ''session_id'', ''confirmation_id'']) ''package_restore_test'' sig_package_restore_test
     (sent b (sg_names sig_package_restore_test))"
  apply (rule forwardsI [OF to_package_restore_test])
   apply (unfold package_restore_test_def Let_def sent_index MIGRATION_FLAGS_def USER_UPDATE_VALUES_def USER_UPDATE_LISTS_def)[1]
   apply (erule calls_eq)
  apply (simp add: sig_package_restore_test_def sg_names_def bind_arguments_def sent_get sent_get_default)
  apply (simp add: sent_def)?
  done

lemma transparent_package_restore_test: "transparent sig_package_restore_test adapter_package_restore_test"
  by (rule transparentI [OF _ forwards_package_restore_test method_at [OF method_names, where n = 73]])
    (simp_all add: adapter_package_restore_test_def dispatch_def METHODS_def fun_eq_iff)

lemma to_package_change_url_test: "map_of OPERATIONS ''package.change_url_test'' = Some (snd (op_entry ''package.change_url_test'' ''packages.test'' package_change_url_test))"
  by (rule operation_at [where n = 15]) (simp_all add: OPERATIONS_def)

lemma forwards_package_change_url_test: "forwards ''package.change_url_test'' (sent b [''app'', ''domain'', ''path'', ''session_id'', ''confirmation_id'']) ''package_change_url_test'' sig_package_change_url_test
     (sent b (sg_names sig_package_change_url_test))"
  apply (rule forwardsI [OF to_package_change_url_test])
   apply (unfold package_change_url_test_def Let_def sent_index MIGRATION_FLAGS_def USER_UPDATE_VALUES_def USER_UPDATE_LISTS_def)[1]
   apply (erule calls_eq)
  apply (simp add: sig_package_change_url_test_def sg_names_def bind_arguments_def sent_get sent_get_default)
  apply (simp add: sent_def)?
  done

lemma transparent_package_change_url_test: "transparent sig_package_change_url_test adapter_package_change_url_test"
  by (rule transparentI [OF _ forwards_package_change_url_test method_at [OF method_names, where n = 74]])
    (simp_all add: adapter_package_change_url_test_def dispatch_def METHODS_def fun_eq_iff)

lemma to_package_remove_test: "map_of OPERATIONS ''package.remove_test'' = Some (snd (op_entry ''package.remove_test'' ''packages.test'' package_remove_test))"
  by (rule operation_at [where n = 16]) (simp_all add: OPERATIONS_def)

lemma forwards_package_remove_test: "forwards ''package.remove_test'' (sent b [''app'', ''purge'', ''session_id'', ''confirmation_id'']) ''package_remove_test'' sig_package_remove_test
     (sent b (sg_names sig_package_remove_test))"
  apply (rule forwardsI [OF to_package_remove_test])
   apply (unfold package_remove_test_def Let_def sent_index MIGRATION_FLAGS_def USER_UPDATE_VALUES_def USER_UPDATE_LISTS_def)[1]
   apply (erule calls_eq)
  apply (simp add: sig_package_remove_test_def sg_names_def bind_arguments_def sent_get sent_get_default)
  apply (simp add: sent_def)?
  done

lemma transparent_package_remove_test: "transparent sig_package_remove_test adapter_package_remove_test"
  by (rule transparentI [OF _ forwards_package_remove_test method_at [OF method_names, where n = 75]])
    (simp_all add: adapter_package_remove_test_def dispatch_def METHODS_def fun_eq_iff)

lemma to_package_run_tests: "map_of OPERATIONS ''package.run_tests'' = Some (snd (op_entry ''package.run_tests'' ''packages.test'' package_run_tests))"
  by (rule operation_at [where n = 10]) (simp_all add: OPERATIONS_def)

lemma forwards_package_run_tests: "forwards ''package.run_tests'' (sent b [''source'', ''app_id'', ''confirmation_id'', ''session_id'']) ''package_run_tests'' sig_package_run_tests
     (sent b (sg_names sig_package_run_tests))"
  apply (rule forwardsI [OF to_package_run_tests])
   apply (unfold package_run_tests_def Let_def sent_index MIGRATION_FLAGS_def USER_UPDATE_VALUES_def USER_UPDATE_LISTS_def)[1]
   apply (erule calls_eq)
  apply (simp add: sig_package_run_tests_def sg_names_def bind_arguments_def sent_get sent_get_default)
  apply (simp add: sent_def)?
  done

lemma transparent_package_run_tests: "transparent sig_package_run_tests adapter_package_run_tests"
  by (rule transparentI [OF _ forwards_package_run_tests method_at [OF method_names, where n = 76]])
    (simp_all add: adapter_package_run_tests_def dispatch_def METHODS_def fun_eq_iff)

lemma to_diagnose_app: "map_of OPERATIONS ''diagnose.app'' = Some (snd (op_entry ''diagnose.app'' ''apps.read'' diagnose_app))"
  by (rule operation_at [where n = 19]) (simp_all add: OPERATIONS_def)

lemma forwards_diagnose_app: "forwards ''diagnose.app'' (sent b [''app'']) ''diagnose_app'' sig_diagnose_app
     (sent b (sg_names sig_diagnose_app))"
  apply (rule forwardsI [OF to_diagnose_app])
   apply (unfold diagnose_app_def Let_def sent_index MIGRATION_FLAGS_def USER_UPDATE_VALUES_def USER_UPDATE_LISTS_def)[1]
   apply (erule calls_eq)
  apply (simp add: sig_diagnose_app_def sg_names_def bind_arguments_def sent_get sent_get_default)
  apply (simp add: sent_def)?
  done

lemma transparent_diagnose_app: "transparent sig_diagnose_app adapter_diagnose_app"
  by (rule transparentI [OF _ forwards_diagnose_app method_at [OF method_names, where n = 77]])
    (simp_all add: adapter_diagnose_app_def dispatch_def METHODS_def fun_eq_iff)

lemma to_validate_server: "map_of OPERATIONS ''validate.server'' = Some (snd (op_entry ''validate.server'' ''server.read'' (no_args ''validate_server'')))"
  by (rule operation_at [where n = 20]) (simp_all add: OPERATIONS_def)

lemma forwards_validate_server: "forwards ''validate.server'' [] ''validate_server'' sig_validate_server
     (sent b (sg_names sig_validate_server))"
  apply (rule forwardsI [OF to_validate_server])
   apply (unfold no_args_def Let_def sent_index MIGRATION_FLAGS_def USER_UPDATE_VALUES_def USER_UPDATE_LISTS_def)[1]
   apply (erule calls_eq)
  apply (simp add: sig_validate_server_def sg_names_def bind_arguments_def sent_get sent_get_default)
  apply (simp add: sent_def)?
  done

lemma transparent_validate_server: "transparent sig_validate_server adapter_validate_server"
  by (rule transparentI [OF _ forwards_validate_server method_at [OF method_names, where n = 78]])
    (simp_all add: adapter_validate_server_def dispatch_def METHODS_def fun_eq_iff)

lemma to_safe_upgrade: "map_of OPERATIONS ''safe.upgrade'' = Some (snd (op_entry ''safe.upgrade'' ''apps.upgrade'' safe_upgrade))"
  by (rule operation_at [where n = 17]) (simp_all add: OPERATIONS_def)

lemma forwards_safe_upgrade: "forwards ''safe.upgrade'' (sent b [''app'', ''confirmation_id'']) ''safe_upgrade'' sig_safe_upgrade
     ([(''app'', dget b ''app''), (''confirmation_id'', JNull)])"
  apply (rule forwardsI [OF to_safe_upgrade])
   apply (unfold safe_upgrade_def Let_def sent_index MIGRATION_FLAGS_def USER_UPDATE_VALUES_def USER_UPDATE_LISTS_def)[1]
   apply (auto simp: ebind_def split: sum.splits)
  apply (simp add: sig_safe_upgrade_def sg_names_def bind_arguments_def sent_get sent_get_default)
  apply (simp add: sent_def)?
  done

lemma to_repair_app: "map_of OPERATIONS ''repair.app'' = Some (snd (op_entry ''repair.app'' ''services.restart'' repair_app))"
  by (rule operation_at [where n = 18]) (simp_all add: OPERATIONS_def)

lemma forwards_repair_app: "forwards ''repair.app'' (sent b [''app'', ''strategy'']) ''repair_app'' sig_repair_app
     (sent b (sg_names sig_repair_app))"
  apply (rule forwardsI [OF to_repair_app])
   apply (unfold repair_app_def Let_def sent_index MIGRATION_FLAGS_def USER_UPDATE_VALUES_def USER_UPDATE_LISTS_def)[1]
   apply (erule calls_eq)
  apply (simp add: sig_repair_app_def sg_names_def bind_arguments_def sent_get sent_get_default)
  apply (simp add: sent_def)?
  done

lemma transparent_repair_app: "transparent sig_repair_app adapter_repair_app"
  by (rule transparentI [OF _ forwards_repair_app method_at [OF method_names, where n = 80]])
    (simp_all add: adapter_repair_app_def dispatch_def METHODS_def fun_eq_iff)

subsection \<open>The other methods\<close>

lemma transparent_then:
  assumes "(\<exists>e. refusal e \<and> m s = (s, Inl e)) \<or> m s = m' s"
  shows "(\<exists>e. refusal e \<and> and_then m k s = (s, Inl e)) \<or> and_then m k s = and_then m' k s"
  using assms by (auto simp: and_then_def)

lemma transparentD:
  "transparent sg body \<Longrightarrow> b = sent b (sg_names sg) \<Longrightarrow>
     (\<exists>e. refusal e \<and> body (in_front A) b s = (s, Inl e)) \<or> body (in_front A) b s = body (at_root A) b s"
  by (simp add: transparent_def)

lemma transparent_diagnosis_get: "transparent sig_diagnosis_get (adapter_diagnosis_get :: 'y adapter_method)"
proof -
  have "transparent sig_health_check (adapter_health_check :: 'y adapter_method)" by (rule transparent_health_check)
  then show ?thesis
    by (simp add: transparent_def adapter_diagnosis_get_def sig_health_check_def sig_diagnosis_get_def sg_names_def sent_def)
qed

lemma transparent_plan_app_upgrade: "transparent sig_plan_app_upgrade (adapter_plan_app_upgrade :: 'y adapter_method)"
proof -
  have "(\<exists>e. refusal e \<and> adapter_updates_check (in_front A) [] s = (s, Inl e)) \<or>
      adapter_updates_check (in_front A) [] s = adapter_updates_check (at_root A) [] s" for A :: "'y adapter_env" and s
    by (rule transparentD [OF transparent_updates_check]) (simp add: sig_updates_check_def sg_names_def sent_def)
  then show ?thesis unfolding transparent_def adapter_plan_app_upgrade_def by (intro allI impI transparent_then)
qed

lemma transparent_safe_upgrade: "transparent sig_safe_upgrade (adapter_safe_upgrade :: 'y adapter_method)"
proof -
  have "(\<exists>e. refusal e \<and> adapter_safe_upgrade (in_front A) b s = (s, Inl e)) \<or>
      adapter_safe_upgrade (in_front A) b s = adapter_safe_upgrade (at_root A) b s" for A :: "'y adapter_env" and b s
  proof -
    have "map_of METHODS ''safe_upgrade'' = Some (sig_safe_upgrade, adapter_safe_upgrade :: 'y adapter_method)"
      by (rule method_at [OF method_names, where n = 79]) (simp_all add: METHODS_def)
    from root_invoke_forwards [OF forwards_safe_upgrade this, where A = A and s = s] show ?thesis
      by (simp add: adapter_safe_upgrade_def)
  qed
  then show ?thesis by (simp add: transparent_def)
qed

lemma app_upgrade_front:
  assumes "b = sent b (sg_names sig_app_upgrade)" "dget b ''file'' = JNull"
  shows "(\<exists>e. refusal e \<and> adapter_app_upgrade (in_front A) b s = (s, Inl e)) \<or>
    adapter_app_upgrade (in_front A) b s = adapter_app_upgrade (at_root A) b s"
proof -
  have m: "map_of METHODS ''app_upgrade'' = Some (sig_app_upgrade, adapter_app_upgrade)"
    by (rule method_at [OF method_names, where n = 57]) (simp_all add: METHODS_def)
  have "map (\<lambda>k. (k, if k = ''file'' then JNull else dget b k)) (sg_names sig_app_upgrade) = sent b (sg_names sig_app_upgrade)"
    using assms(2) by (simp add: sent_def)
  also have "\<dots> = b" by (rule assms(1) [symmetric])
  finally have "forwards ''app.upgrade'' (sent b [''app'', ''force'', ''url'', ''confirmation_id'']) ''app_upgrade'' sig_app_upgrade b"
    using forwards_app_upgrade [of b] by simp
  from root_invoke_forwards [OF this m, where A = A and s = s]
  show ?thesis by (simp add: adapter_app_upgrade_def [of "in_front A"] dispatch_def)
qed

lemma to_free_space: "map_of OPERATIONS ''system.free_space'' = Some (snd (op_entry ''system.free_space'' ''server.read'' free_space))"
  by (rule operation_at [where n = 31]) (simp_all add: OPERATIONS_def)

lemma free_space_root:
  "adapter_free_space_bytes (at_root A) b s = (s', Inr v) \<Longrightarrow> \<exists>i. v = JInt i"
  by (auto simp: adapter_free_space_bytes_def ret_def and_then_def split: if_splits prod.splits sum.splits)

lemma transparent_free_space_bytes: "transparent sig_free_space_bytes (adapter_free_space_bytes :: 'y adapter_method)"
proof -
  have "(\<exists>e. refusal e \<and> adapter_free_space_bytes (in_front A) b s = (s, Inl e)) \<or>
      adapter_free_space_bytes (in_front A) b s = adapter_free_space_bytes (at_root A) b s"
    if "b = sent b (sg_names sig_free_space_bytes)" for A :: "'y adapter_env" and b s
  proof -
    let ?req = "sent b [''path'']"
    have m: "map_of METHODS ''free_space_bytes'' = Some (sig_free_space_bytes, adapter_free_space_bytes :: 'y adapter_method)"
      by (rule method_at [OF method_names, where n = 9]) (simp_all add: METHODS_def)
    show ?thesis
    proof (cases "free_space ?req")
      case (Inl e)
      then have "refusal e" unfolding refusal_def by (intro exI conjI) (rule to_free_space, simp add: op_entry_def)
      with Inl show ?thesis
        by (intro disjI1 exI [of _ e])
          (simp add: adapter_free_space_bytes_def root_invoke_def to_free_space op_entry_def and_then_def ret_def)
    next
      case (Inr c)
      have c: "c = \<lparr>ac_method = ''free_space_bytes'', ac_args = [dget b ''path''], ac_kwargs = [], ac_result_key = Some ''free_bytes''\<rparr>"
        using Inr by (auto simp: free_space_def Let_def sent_get_default)
      have "bind_arguments sig_free_space_bytes [dget b ''path''] [] = Inr (sent b (sg_names sig_free_space_bytes))"
        by (simp add: bind_arguments_def sig_free_space_bytes_def sg_names_def sent_def)
      then have r: "root_invoke A ''system.free_space'' ?req s =
          and_then (adapter_free_space_bytes (at_root A) b) (\<lambda>v. ret (Inr (JObj [(''free_bytes'', v)]))) s"
        using Inr that m by (simp add: root_invoke_def to_free_space op_entry_def c call_method_def at_root_def adapter_result_def)
      have "adapter_free_space_bytes (in_front A) b s = adapter_free_space_bytes (at_root A) b s"
        using free_space_root [of A b s]
        by (simp add: adapter_free_space_bytes_def [of "in_front A"] r [unfolded and_then_def] and_then_def as_int_def ret_def
            split: prod.splits sum.splits) (auto simp: ret_def and_then_def)
      then show ?thesis ..
    qed
  qed
  then show ?thesis by (simp add: transparent_def)
qed

subsection \<open>Every method\<close>

lemma all_transparent:
  "list_all (\<lambda>(k, sg, body). k \<in> {''services_list'', ''app_upgrade''} \<or> transparent sg body) METHODS"
  by (simp add: METHODS_def transparent_server_info transparent_health_check transparent_diagnosis_get transparent_diagnosis_run
    transparent_service_status transparent_operations_list transparent_operation_logs transparent_operation_status
    transparent_free_space_bytes transparent_updates_check transparent_plan_app_upgrade transparent_updates_refresh
    transparent_migrations_list transparent_migrations_state transparent_settings_list transparent_settings_get
    transparent_regenconf_pending transparent_firewall_list transparent_firewall_is_open transparent_apps_list
    transparent_app_info transparent_app_resources transparent_app_config_get transparent_app_setting_get
    transparent_domains_list transparent_domain_cert_info transparent_domain_dns_suggest transparent_domain_dns_push_preview
    transparent_users_list transparent_user_group_list transparent_user_permission_list transparent_user_permission_info
    transparent_backups_list transparent_backup_info transparent_package_inspect transparent_app_config_set
    transparent_app_setting_set transparent_user_create transparent_user_update transparent_user_delete
    transparent_user_group_create transparent_user_group_update transparent_user_group_delete transparent_user_permission_add
    transparent_user_permission_remove transparent_user_permission_update transparent_domain_add
    transparent_domain_cert_install transparent_domain_dns_push transparent_domain_remove transparent_service_restart
    transparent_service_stop transparent_service_start transparent_backup_create transparent_backup_delete
    transparent_app_install transparent_app_remove transparent_app_change_url transparent_backup_restore
    transparent_system_upgrade transparent_system_reboot transparent_system_shutdown transparent_migrations_run
    transparent_firewall_open transparent_firewall_close transparent_firewall_reload transparent_settings_set
    transparent_regenconf_apply transparent_package_install_test transparent_package_upgrade_test
    transparent_package_backup_test transparent_package_restore_test transparent_package_change_url_test
    transparent_package_remove_test transparent_package_run_tests transparent_diagnose_app transparent_validate_server
    transparent_safe_upgrade transparent_repair_app)

lemma signatures_distinct: "list_all (\<lambda>(k, sg, body). distinct (sg_names sg)) METHODS"
  by (simp add: METHODS_def sg_names_def sig_server_info_def sig_health_check_def sig_diagnosis_get_def sig_diagnosis_run_def sig_services_list_def
    sig_service_status_def sig_operations_list_def sig_operation_logs_def sig_operation_status_def
    sig_free_space_bytes_def sig_updates_check_def sig_plan_app_upgrade_def sig_updates_refresh_def
    sig_migrations_list_def sig_migrations_state_def sig_settings_list_def sig_settings_get_def
    sig_regenconf_pending_def sig_firewall_list_def sig_firewall_is_open_def sig_apps_list_def
    sig_app_info_def sig_app_resources_def sig_app_config_get_def sig_app_setting_get_def sig_domains_list_def
    sig_domain_cert_info_def sig_domain_dns_suggest_def sig_domain_dns_push_preview_def sig_users_list_def
    sig_user_group_list_def sig_user_permission_list_def sig_user_permission_info_def sig_backups_list_def
    sig_backup_info_def sig_package_inspect_def sig_app_config_set_def sig_app_setting_set_def
    sig_user_create_def sig_user_update_def sig_user_delete_def sig_user_group_create_def sig_user_group_update_def
    sig_user_group_delete_def sig_user_permission_add_def sig_user_permission_remove_def sig_user_permission_update_def
    sig_domain_add_def sig_domain_cert_install_def sig_domain_dns_push_def sig_domain_remove_def
    sig_service_restart_def sig_service_stop_def sig_service_start_def sig_backup_create_def sig_backup_delete_def
    sig_app_install_def sig_app_upgrade_def sig_app_remove_def sig_app_change_url_def sig_backup_restore_def
    sig_system_upgrade_def sig_system_reboot_def sig_system_shutdown_def sig_migrations_run_def
    sig_firewall_open_def sig_firewall_close_def sig_firewall_reload_def sig_settings_set_def sig_regenconf_apply_def
    sig_package_install_test_def sig_package_upgrade_test_def sig_package_backup_test_def sig_package_restore_test_def
    sig_package_change_url_test_def sig_package_remove_test_def sig_package_run_tests_def sig_diagnose_app_def
    sig_validate_server_def sig_safe_upgrade_def sig_repair_app_def)

lemma bind_arguments_sent:
  assumes "bind_arguments sg args kwargs = Inr b" "distinct (sg_names sg)"
  shows "b = sent b (sg_names sg)"
proof -
  have "emap (\<lambda>(k, dflt). case m k of Some v \<Rightarrow> Inr (k, v)
      | None \<Rightarrow> (case dflt of Some v \<Rightarrow> Inr (k, v) | None \<Rightarrow> Inl (Exn TypeError ''missing required argument''))) ps = Inr b \<Longrightarrow>
    map fst b = map fst ps" for m :: "string \<Rightarrow> json option" and ps
    by (induction ps arbitrary: b) (auto split: option.splits)
  with assms(1) have names: "map fst b = sg_names sg"
    by (auto simp: bind_arguments_def sg_names_def Let_def simp del: emap.simps)
  have "distinct (map fst d) \<Longrightarrow> map (\<lambda>k. (k, dget d k)) (map fst d) = d" for d :: dict
    unfolding map_map comp_def by (rule map_idI) (auto simp: dget_def)
  from this [of b] assms(2) show ?thesis by (simp add: names sent_def)
qed

text \<open>
  C14: broker mode is transparent. For every modelled method but two, a call through the broker either
  is refused by the broker's argument checks, leaving the system untouched, or gives the value, the
  error and the system that the same call gives without a broker. (\<open>services_list\<close> answers without the
  \<open>fake\<close> field; \<open>app_upgrade\<close> loses a local \<open>file\<close>, and is transparent without one.)
\<close>

theorem broker_transparent:
  assumes "ac_method c \<in> dom (map_of (METHODS :: (string \<times> signature \<times> 'y adapter_method) list))"
    and "ac_method c \<in> set BROKERED_METHODS" "ac_method c \<noteq> ''services_list''"
    and "ac_method c = ''app_upgrade'' \<Longrightarrow> \<forall>b. bind_arguments sig_app_upgrade (ac_args c) (ac_kwargs c) = Inr b \<longrightarrow> dget b ''file'' = JNull"
  shows "(\<exists>e. refusal e \<and> call_method (in_front A) c s = (s, Inl e)) \<or>
    call_method (in_front A) c s = call_method (at_root (A :: 'y adapter_env)) c s"
proof -
  obtain sg and body :: "'y adapter_method" where m: "map_of METHODS (ac_method c) = Some (sg, body)" using assms(1) by auto
  then have in_table: "(ac_method c, sg, body) \<in> set METHODS" by (rule map_of_SomeD)
  show ?thesis
  proof (cases "bind_arguments sg (ac_args c) (ac_kwargs c)")
    case (Inl e)
    with m assms(2) show ?thesis by (simp add: call_method_def)
  next
    case (Inr b)
    from in_table signatures_distinct have "distinct (sg_names sg)" by (auto simp: list_all_iff)
    with Inr have b: "b = sent b (sg_names sg)" by (rule bind_arguments_sent)
    have "(\<exists>e. refusal e \<and> body (in_front A) b s = (s, Inl e)) \<or> body (in_front A) b s = body (at_root A) b s"
    proof (cases "ac_method c = ''app_upgrade''")
      case True
      have "map_of METHODS ''app_upgrade'' = Some (sig_app_upgrade, adapter_app_upgrade :: 'y adapter_method)"
        by (rule method_at [OF method_names, where n = 57]) (simp_all add: METHODS_def)
      with m True have "sg = sig_app_upgrade" "body = adapter_app_upgrade" by simp_all
      with app_upgrade_front b assms(4) [OF True] Inr show ?thesis by metis
    next
      case False
      with in_table all_transparent assms(3) have "transparent sg body" by (fastforce simp: list_all_iff)
      from transparentD [OF this b] show ?thesis .
    qed
    with m assms(2) Inr show ?thesis by (simp add: call_method_def)
  qed
qed

theorem broker_transparent_witness:
  "call_method (in_front demo_adapter) (call_of ''app_remove'' [JStr ''wiki''] []) True =
     call_method (at_root demo_adapter) (call_of ''app_remove'' [JStr ''wiki''] []) True \<and>
   fst (call_method (in_front demo_adapter) (call_of ''app_remove'' [JStr ''wiki''] []) True) = False"
proof -
  let ?c = "call_of ''app_remove'' [JStr ''wiki''] []"
  have m: "map_of METHODS ''app_remove'' = Some (sig_app_remove, adapter_app_remove :: bool adapter_method)"
    by (rule method_at [OF method_names, where n = 58]) (simp_all add: METHODS_def)
  have b: "''app_remove'' \<in> set BROKERED_METHODS" by (simp add: BROKERED_METHODS_def)
  have bound: "bind_arguments sig_app_remove [JStr ''wiki''] [] =
      Inr [(''app'', JStr ''wiki''), (''purge'', JBool False), (''confirmation_id'', JNull)]"
    by (simp add: bind_arguments_def sig_app_remove_def sg_names_def)
  have same: "at_root demo_adapter = demo_adapter" "demo_adapter\<lparr>ad_broker := None\<rparr> = demo_adapter"
    by (simp_all add: at_root_def demo_adapter_def)
  have root: "\<exists>v. adapter_app_remove demo_adapter b s = (False, Inr v)" for b s
    by (simp add: demo_methods)
  have "app_remove [(''app'', JStr ''wiki''), (''purge'', JBool False), (''confirmation_id'', JNull)] =
      Inr (call_of ''app_remove'' [JStr ''wiki''] [(''purge'', JBool False), (''confirmation_id'', JNull)])"
    by code_simp
  then have accepted: "\<exists>v. root_invoke demo_adapter ''app.remove''
      [(''app'', JStr ''wiki''), (''purge'', JBool False), (''confirmation_id'', JNull)] True = (False, Inr v)"
    using m root [of "[(''app'', JStr ''wiki''), (''purge'', JBool False), (''confirmation_id'', JNull)]" True]
    by (auto simp: root_invoke_def to_app_remove op_entry_def call_method_def same adapter_result_def and_then_def
        bind_arguments_def sig_app_remove_def sg_names_def)
  then have front: "\<exists>v. call_method (in_front demo_adapter) ?c True = (False, Inr v)"
    using m b by (simp add: call_method_def bound adapter_app_remove_def [of "in_front demo_adapter"] dispatch_def sent_def)
  have "ac_method ?c \<in> dom (map_of (METHODS :: (string \<times> signature \<times> bool adapter_method) list))" using m by auto
  from broker_transparent [OF this, of demo_adapter True] b front show ?thesis by auto
qed

end
