(* ===== verification/Server_Gates.thy ===== *)
theory Server_Gates
  imports Server_Tools Adapter_Transparency Broker_Gate "HOL-Library.Multiset"
begin

text \<open>
  The two gates of a brokered call.  A tool checks scope and confirmation in the MCP server, and the broker
  checks them again for the operation that the adapter requests.  \<open>requests\<close> is what a tool sends to the
  broker; the theorems compare the two checks.
\<close>

subsection \<open>What a tool asks the broker for\<close>

definition record_request :: "string \<Rightarrow> dict \<Rightarrow> ((string \<times> dict) list, json) step" where
  "record_request op req seen = (seen @ [(op, req)], Inl (Exn YunohostUnavailableError ''recorded''))"

definition requests :: "(string \<times> dict) list adapter_env \<Rightarrow> tool \<Rightarrow> dict \<Rightarrow> (string \<times> dict) list" where
  "requests A T kwargs = (case tl_call T kwargs of Inl _ \<Rightarrow> []
     | Inr c \<Rightarrow> fst (call_method (A\<lparr>ad_broker := Some record_request\<rparr>) c []))"

definition asks :: "tool \<Rightarrow> string \<Rightarrow> (dict \<Rightarrow> dict) \<Rightarrow> bool" where
  "asks T op req \<longleftrightarrow> (\<forall>A kw. set (requests A T kw) \<subseteq> {(op, req kw)})"

lemma record_simps [simp]: "fst (record_request op req seen) = seen @ [(op, req)]" "fst (and_then (record_request op req) k seen) = seen @ [(op, req)]"
  by (simp_all add: record_request_def and_then_def)

lemma checked_record: "set (fst (checked c (record_request op req) [])) \<subseteq> {(op, req)}"
  by (cases c) (simp_all add: checked_def)

text \<open>One call of a method that the table has and the broker serves.\<close>

lemma asksI:
  fixes body :: "(string \<times> dict) list adapter_method"
  assumes "\<And>kw. tl_call T kw = Inr (c kw) \<or> (\<exists>e. tl_call T kw = Inl e)" "\<And>kw. ac_method (c kw) = name"
    and "map_of METHODS name = Some (sg, body)"
    and "\<And>kw. bind_arguments sg (ac_args (c kw)) (ac_kwargs (c kw)) = Inr (b kw)"
    and "\<And>A kw. set (fst (body (A\<lparr>ad_broker := Some record_request\<rparr>) (b kw) [])) \<subseteq> {(op, req kw)}"
  shows "asks T op req"
proof -
  have "set (requests A T kw) \<subseteq> {(op, req kw)}" for A kw
    using assms(1) [of kw] assms(5) [of A kw]
    by (auto simp: requests_def call_method_def assms(2,3,4))
  then show ?thesis by (simp add: asks_def)
qed


lemma method_server_info: "map_of METHODS ''server_info'' = Some (sig_server_info, adapter_server_info)"
  by (rule method_at [OF method_names, where n = 0]) (simp_all add: METHODS_def)

lemma method_health_check: "map_of METHODS ''health_check'' = Some (sig_health_check, adapter_health_check)"
  by (rule method_at [OF method_names, where n = 1]) (simp_all add: METHODS_def)

lemma method_diagnosis_get: "map_of METHODS ''diagnosis_get'' = Some (sig_diagnosis_get, adapter_diagnosis_get)"
  by (rule method_at [OF method_names, where n = 2]) (simp_all add: METHODS_def)

lemma method_diagnosis_run: "map_of METHODS ''diagnosis_run'' = Some (sig_diagnosis_run, adapter_diagnosis_run)"
  by (rule method_at [OF method_names, where n = 3]) (simp_all add: METHODS_def)

lemma method_services_list: "map_of METHODS ''services_list'' = Some (sig_services_list, adapter_services_list)"
  by (rule method_at [OF method_names, where n = 4]) (simp_all add: METHODS_def)

lemma method_service_status: "map_of METHODS ''service_status'' = Some (sig_service_status, adapter_service_status)"
  by (rule method_at [OF method_names, where n = 5]) (simp_all add: METHODS_def)

lemma method_operations_list: "map_of METHODS ''operations_list'' = Some (sig_operations_list, adapter_operations_list)"
  by (rule method_at [OF method_names, where n = 6]) (simp_all add: METHODS_def)

lemma method_operation_logs: "map_of METHODS ''operation_logs'' = Some (sig_operation_logs, adapter_operation_logs)"
  by (rule method_at [OF method_names, where n = 7]) (simp_all add: METHODS_def)

lemma method_operation_status: "map_of METHODS ''operation_status'' = Some (sig_operation_status, adapter_operation_status)"
  by (rule method_at [OF method_names, where n = 8]) (simp_all add: METHODS_def)

lemma method_updates_check: "map_of METHODS ''updates_check'' = Some (sig_updates_check, adapter_updates_check)"
  by (rule method_at [OF method_names, where n = 10]) (simp_all add: METHODS_def)

lemma method_updates_refresh: "map_of METHODS ''updates_refresh'' = Some (sig_updates_refresh, adapter_updates_refresh)"
  by (rule method_at [OF method_names, where n = 12]) (simp_all add: METHODS_def)

lemma method_migrations_list: "map_of METHODS ''migrations_list'' = Some (sig_migrations_list, adapter_migrations_list)"
  by (rule method_at [OF method_names, where n = 13]) (simp_all add: METHODS_def)

lemma method_migrations_state: "map_of METHODS ''migrations_state'' = Some (sig_migrations_state, adapter_migrations_state)"
  by (rule method_at [OF method_names, where n = 14]) (simp_all add: METHODS_def)

lemma method_settings_list: "map_of METHODS ''settings_list'' = Some (sig_settings_list, adapter_settings_list)"
  by (rule method_at [OF method_names, where n = 15]) (simp_all add: METHODS_def)

lemma method_settings_get: "map_of METHODS ''settings_get'' = Some (sig_settings_get, adapter_settings_get)"
  by (rule method_at [OF method_names, where n = 16]) (simp_all add: METHODS_def)

lemma method_regenconf_pending: "map_of METHODS ''regenconf_pending'' = Some (sig_regenconf_pending, adapter_regenconf_pending)"
  by (rule method_at [OF method_names, where n = 17]) (simp_all add: METHODS_def)

lemma method_firewall_list: "map_of METHODS ''firewall_list'' = Some (sig_firewall_list, adapter_firewall_list)"
  by (rule method_at [OF method_names, where n = 18]) (simp_all add: METHODS_def)

lemma method_firewall_is_open: "map_of METHODS ''firewall_is_open'' = Some (sig_firewall_is_open, adapter_firewall_is_open)"
  by (rule method_at [OF method_names, where n = 19]) (simp_all add: METHODS_def)

lemma method_apps_list: "map_of METHODS ''apps_list'' = Some (sig_apps_list, adapter_apps_list)"
  by (rule method_at [OF method_names, where n = 20]) (simp_all add: METHODS_def)

lemma method_app_info: "map_of METHODS ''app_info'' = Some (sig_app_info, adapter_app_info)"
  by (rule method_at [OF method_names, where n = 21]) (simp_all add: METHODS_def)

lemma method_app_resources: "map_of METHODS ''app_resources'' = Some (sig_app_resources, adapter_app_resources)"
  by (rule method_at [OF method_names, where n = 22]) (simp_all add: METHODS_def)

lemma method_app_config_get: "map_of METHODS ''app_config_get'' = Some (sig_app_config_get, adapter_app_config_get)"
  by (rule method_at [OF method_names, where n = 23]) (simp_all add: METHODS_def)

lemma method_app_setting_get: "map_of METHODS ''app_setting_get'' = Some (sig_app_setting_get, adapter_app_setting_get)"
  by (rule method_at [OF method_names, where n = 24]) (simp_all add: METHODS_def)

lemma method_domains_list: "map_of METHODS ''domains_list'' = Some (sig_domains_list, adapter_domains_list)"
  by (rule method_at [OF method_names, where n = 25]) (simp_all add: METHODS_def)

lemma method_domain_cert_info: "map_of METHODS ''domain_cert_info'' = Some (sig_domain_cert_info, adapter_domain_cert_info)"
  by (rule method_at [OF method_names, where n = 26]) (simp_all add: METHODS_def)

lemma method_domain_dns_suggest: "map_of METHODS ''domain_dns_suggest'' = Some (sig_domain_dns_suggest, adapter_domain_dns_suggest)"
  by (rule method_at [OF method_names, where n = 27]) (simp_all add: METHODS_def)

lemma method_domain_dns_push_preview: "map_of METHODS ''domain_dns_push_preview'' = Some (sig_domain_dns_push_preview, adapter_domain_dns_push_preview)"
  by (rule method_at [OF method_names, where n = 28]) (simp_all add: METHODS_def)

lemma method_users_list: "map_of METHODS ''users_list'' = Some (sig_users_list, adapter_users_list)"
  by (rule method_at [OF method_names, where n = 29]) (simp_all add: METHODS_def)

lemma method_user_group_list: "map_of METHODS ''user_group_list'' = Some (sig_user_group_list, adapter_user_group_list)"
  by (rule method_at [OF method_names, where n = 30]) (simp_all add: METHODS_def)

lemma method_user_permission_list: "map_of METHODS ''user_permission_list'' = Some (sig_user_permission_list, adapter_user_permission_list)"
  by (rule method_at [OF method_names, where n = 31]) (simp_all add: METHODS_def)

lemma method_user_permission_info: "map_of METHODS ''user_permission_info'' = Some (sig_user_permission_info, adapter_user_permission_info)"
  by (rule method_at [OF method_names, where n = 32]) (simp_all add: METHODS_def)

lemma method_backups_list: "map_of METHODS ''backups_list'' = Some (sig_backups_list, adapter_backups_list)"
  by (rule method_at [OF method_names, where n = 33]) (simp_all add: METHODS_def)

lemma method_backup_info: "map_of METHODS ''backup_info'' = Some (sig_backup_info, adapter_backup_info)"
  by (rule method_at [OF method_names, where n = 34]) (simp_all add: METHODS_def)

lemma method_package_inspect: "map_of METHODS ''package_inspect'' = Some (sig_package_inspect, adapter_package_inspect)"
  by (rule method_at [OF method_names, where n = 35]) (simp_all add: METHODS_def)

lemma method_app_config_set: "map_of METHODS ''app_config_set'' = Some (sig_app_config_set, adapter_app_config_set)"
  by (rule method_at [OF method_names, where n = 36]) (simp_all add: METHODS_def)

lemma method_app_setting_set: "map_of METHODS ''app_setting_set'' = Some (sig_app_setting_set, adapter_app_setting_set)"
  by (rule method_at [OF method_names, where n = 37]) (simp_all add: METHODS_def)

lemma method_user_create: "map_of METHODS ''user_create'' = Some (sig_user_create, adapter_user_create)"
  by (rule method_at [OF method_names, where n = 38]) (simp_all add: METHODS_def)

lemma method_user_update: "map_of METHODS ''user_update'' = Some (sig_user_update, adapter_user_update)"
  by (rule method_at [OF method_names, where n = 39]) (simp_all add: METHODS_def)

lemma method_user_delete: "map_of METHODS ''user_delete'' = Some (sig_user_delete, adapter_user_delete)"
  by (rule method_at [OF method_names, where n = 40]) (simp_all add: METHODS_def)

lemma method_user_group_create: "map_of METHODS ''user_group_create'' = Some (sig_user_group_create, adapter_user_group_create)"
  by (rule method_at [OF method_names, where n = 41]) (simp_all add: METHODS_def)

lemma method_user_group_update: "map_of METHODS ''user_group_update'' = Some (sig_user_group_update, adapter_user_group_update)"
  by (rule method_at [OF method_names, where n = 42]) (simp_all add: METHODS_def)

lemma method_user_group_delete: "map_of METHODS ''user_group_delete'' = Some (sig_user_group_delete, adapter_user_group_delete)"
  by (rule method_at [OF method_names, where n = 43]) (simp_all add: METHODS_def)

lemma method_user_permission_add: "map_of METHODS ''user_permission_add'' = Some (sig_user_permission_add, adapter_user_permission_add)"
  by (rule method_at [OF method_names, where n = 44]) (simp_all add: METHODS_def)

lemma method_user_permission_remove: "map_of METHODS ''user_permission_remove'' = Some (sig_user_permission_remove, adapter_user_permission_remove)"
  by (rule method_at [OF method_names, where n = 45]) (simp_all add: METHODS_def)

lemma method_user_permission_update: "map_of METHODS ''user_permission_update'' = Some (sig_user_permission_update, adapter_user_permission_update)"
  by (rule method_at [OF method_names, where n = 46]) (simp_all add: METHODS_def)

lemma method_domain_add: "map_of METHODS ''domain_add'' = Some (sig_domain_add, adapter_domain_add)"
  by (rule method_at [OF method_names, where n = 47]) (simp_all add: METHODS_def)

lemma method_domain_cert_install: "map_of METHODS ''domain_cert_install'' = Some (sig_domain_cert_install, adapter_domain_cert_install)"
  by (rule method_at [OF method_names, where n = 48]) (simp_all add: METHODS_def)

lemma method_domain_dns_push: "map_of METHODS ''domain_dns_push'' = Some (sig_domain_dns_push, adapter_domain_dns_push)"
  by (rule method_at [OF method_names, where n = 49]) (simp_all add: METHODS_def)

lemma method_domain_remove: "map_of METHODS ''domain_remove'' = Some (sig_domain_remove, adapter_domain_remove)"
  by (rule method_at [OF method_names, where n = 50]) (simp_all add: METHODS_def)

lemma method_service_restart: "map_of METHODS ''service_restart'' = Some (sig_service_restart, adapter_service_restart)"
  by (rule method_at [OF method_names, where n = 51]) (simp_all add: METHODS_def)

lemma method_service_stop: "map_of METHODS ''service_stop'' = Some (sig_service_stop, adapter_service_stop)"
  by (rule method_at [OF method_names, where n = 52]) (simp_all add: METHODS_def)

lemma method_service_start: "map_of METHODS ''service_start'' = Some (sig_service_start, adapter_service_start)"
  by (rule method_at [OF method_names, where n = 53]) (simp_all add: METHODS_def)

lemma method_backup_create: "map_of METHODS ''backup_create'' = Some (sig_backup_create, adapter_backup_create)"
  by (rule method_at [OF method_names, where n = 54]) (simp_all add: METHODS_def)

lemma method_backup_delete: "map_of METHODS ''backup_delete'' = Some (sig_backup_delete, adapter_backup_delete)"
  by (rule method_at [OF method_names, where n = 55]) (simp_all add: METHODS_def)

lemma method_app_install: "map_of METHODS ''app_install'' = Some (sig_app_install, adapter_app_install)"
  by (rule method_at [OF method_names, where n = 56]) (simp_all add: METHODS_def)

lemma method_app_upgrade: "map_of METHODS ''app_upgrade'' = Some (sig_app_upgrade, adapter_app_upgrade)"
  by (rule method_at [OF method_names, where n = 57]) (simp_all add: METHODS_def)

lemma method_app_remove: "map_of METHODS ''app_remove'' = Some (sig_app_remove, adapter_app_remove)"
  by (rule method_at [OF method_names, where n = 58]) (simp_all add: METHODS_def)

lemma method_app_change_url: "map_of METHODS ''app_change_url'' = Some (sig_app_change_url, adapter_app_change_url)"
  by (rule method_at [OF method_names, where n = 59]) (simp_all add: METHODS_def)

lemma method_backup_restore: "map_of METHODS ''backup_restore'' = Some (sig_backup_restore, adapter_backup_restore)"
  by (rule method_at [OF method_names, where n = 60]) (simp_all add: METHODS_def)

lemma method_system_upgrade: "map_of METHODS ''system_upgrade'' = Some (sig_system_upgrade, adapter_system_upgrade)"
  by (rule method_at [OF method_names, where n = 61]) (simp_all add: METHODS_def)

lemma method_system_reboot: "map_of METHODS ''system_reboot'' = Some (sig_system_reboot, adapter_system_reboot)"
  by (rule method_at [OF method_names, where n = 62]) (simp_all add: METHODS_def)

lemma method_system_shutdown: "map_of METHODS ''system_shutdown'' = Some (sig_system_shutdown, adapter_system_shutdown)"
  by (rule method_at [OF method_names, where n = 63]) (simp_all add: METHODS_def)

lemma method_migrations_run: "map_of METHODS ''migrations_run'' = Some (sig_migrations_run, adapter_migrations_run)"
  by (rule method_at [OF method_names, where n = 64]) (simp_all add: METHODS_def)

lemma method_firewall_open: "map_of METHODS ''firewall_open'' = Some (sig_firewall_open, adapter_firewall_open)"
  by (rule method_at [OF method_names, where n = 65]) (simp_all add: METHODS_def)

lemma method_firewall_close: "map_of METHODS ''firewall_close'' = Some (sig_firewall_close, adapter_firewall_close)"
  by (rule method_at [OF method_names, where n = 66]) (simp_all add: METHODS_def)

lemma method_firewall_reload: "map_of METHODS ''firewall_reload'' = Some (sig_firewall_reload, adapter_firewall_reload)"
  by (rule method_at [OF method_names, where n = 67]) (simp_all add: METHODS_def)

lemma method_settings_set: "map_of METHODS ''settings_set'' = Some (sig_settings_set, adapter_settings_set)"
  by (rule method_at [OF method_names, where n = 68]) (simp_all add: METHODS_def)

lemma method_regenconf_apply: "map_of METHODS ''regenconf_apply'' = Some (sig_regenconf_apply, adapter_regenconf_apply)"
  by (rule method_at [OF method_names, where n = 69]) (simp_all add: METHODS_def)

lemma method_diagnose_app: "map_of METHODS ''diagnose_app'' = Some (sig_diagnose_app, adapter_diagnose_app)"
  by (rule method_at [OF method_names, where n = 77]) (simp_all add: METHODS_def)

lemma method_validate_server: "map_of METHODS ''validate_server'' = Some (sig_validate_server, adapter_validate_server)"
  by (rule method_at [OF method_names, where n = 78]) (simp_all add: METHODS_def)

lemma method_repair_app: "map_of METHODS ''repair_app'' = Some (sig_repair_app, adapter_repair_app)"
  by (rule method_at [OF method_names, where n = 80]) (simp_all add: METHODS_def)

lemma asks_server_info: "asks tool_server_info ''server.info'' (\<lambda>kw. [])"
  apply (rule asksI [OF _ _ method_server_info, where c = "\<lambda>kw. call_of ''server_info'' []
     []" and b = "\<lambda>kw. []"])
     apply (simp_all add: tool_server_info_def sig_server_info_def sg_names_def bind_arguments_def adapter_server_info_def dispatch_def sent_def checked_record)
  done

lemma asks_health_check: "asks tool_health_check ''health.check'' (\<lambda>kw. [])"
  apply (rule asksI [OF _ _ method_health_check, where c = "\<lambda>kw. call_of ''health_check'' []
     []" and b = "\<lambda>kw. []"])
     apply (simp_all add: tool_health_check_def sig_health_check_def sg_names_def bind_arguments_def adapter_health_check_def dispatch_def sent_def checked_record)
  done

lemma asks_apps_list: "asks tool_apps_list ''apps.list'' (\<lambda>kw. [(''full'', dget kw ''full'')])"
  apply (rule asksI [OF _ _ method_apps_list, where c = "\<lambda>kw. call_of ''apps_list'' [] [(''full'',
     dget kw ''full'')]" and b = "\<lambda>kw. [(''full'', dget kw ''full'')]"])
     apply (simp_all add: tool_apps_list_def sig_apps_list_def sg_names_def bind_arguments_def adapter_apps_list_def dispatch_def sent_def checked_record)
  done

lemma asks_app_info: "asks tool_app_info ''app.info'' (\<lambda>kw. [(''app'', dget kw ''app''),
   (''full'', dget kw ''full'')])"
  apply (rule asksI [OF _ _ method_app_info, where c = "\<lambda>kw. call_of ''app_info'' [dget kw ''app'']
     [(''full'', dget kw ''full'')]" and b = "\<lambda>kw. [(''app'', dget kw ''app''),
     (''full'', dget kw ''full'')]"])
     apply (simp_all add: tool_app_info_def sig_app_info_def sg_names_def bind_arguments_def adapter_app_info_def dispatch_def sent_def checked_record)
  done

lemma asks_app_resources: "asks tool_app_resources ''app.resources'' (\<lambda>kw. [(''app'', dget kw ''app'')])"
  apply (rule asksI [OF _ _ method_app_resources, where c = "\<lambda>kw. call_of ''app_resources''
     [dget kw ''app''] []" and b = "\<lambda>kw. [(''app'', dget kw ''app'')]"])
     apply (simp_all add: tool_app_resources_def sig_app_resources_def sg_names_def bind_arguments_def adapter_app_resources_def dispatch_def sent_def checked_record)
  done

lemma asks_app_config_get: "asks tool_app_config_get ''app.config_get'' (\<lambda>kw. [(''app'', dget kw ''app''),
   (''key'', dget kw ''key''), (''full'', dget kw ''full''), (''export'', dget kw ''export'')])"
  apply (rule asksI [OF _ _ method_app_config_get, where c = "\<lambda>kw. call_of ''app_config_get''
     [dget kw ''app''] [(''key'', dget kw ''key''), (''full'', dget kw ''full''),
     (''export'', dget kw ''export'')]" and b = "\<lambda>kw. [(''app'', dget kw ''app''),
     (''key'', dget kw ''key''), (''full'', dget kw ''full''), (''export'', dget kw ''export'')]"])
     apply (simp_all add: tool_app_config_get_def sig_app_config_get_def sg_names_def bind_arguments_def adapter_app_config_get_def dispatch_def sent_def checked_record)
  done

lemma asks_app_setting_get: "asks tool_app_setting_get ''app.setting_get'' (\<lambda>kw. [(''app'',
   dget kw ''app''), (''key'', dget kw ''key'')])"
  apply (rule asksI [OF _ _ method_app_setting_get, where c = "\<lambda>kw. call_of ''app_setting_get''
     [dget kw ''app'', dget kw ''key''] []" and b = "\<lambda>kw. [(''app'', dget kw ''app''),
     (''key'', dget kw ''key'')]"])
     apply (simp_all add: tool_app_setting_get_def sig_app_setting_get_def sg_names_def bind_arguments_def adapter_app_setting_get_def dispatch_def sent_def checked_record)
  done

lemma asks_diagnosis_run: "asks tool_diagnosis_run ''diagnosis.run'' (\<lambda>kw. [(''categories'',
   dget kw ''categories''), (''force'', dget kw ''force'')])"
  apply (rule asksI [OF _ _ method_diagnosis_run, where c = "\<lambda>kw. call_of ''diagnosis_run'' []
     [(''categories'', dget kw ''categories''),
     (''force'', dget kw ''force'')]" and b = "\<lambda>kw. [(''categories'', dget kw ''categories''),
     (''force'', dget kw ''force'')]"])
     apply (simp_all add: tool_diagnosis_run_def sig_diagnosis_run_def sg_names_def bind_arguments_def adapter_diagnosis_run_def dispatch_def sent_def checked_record)
  done

lemma asks_diagnosis_get: "asks tool_diagnosis_get ''health.check'' (\<lambda>kw. [])"
  apply (rule asksI [OF _ _ method_diagnosis_get, where c = "\<lambda>kw. call_of ''diagnosis_get'' []
     []" and b = "\<lambda>kw. []"])
     apply (simp_all add: tool_diagnosis_get_def sig_diagnosis_get_def sg_names_def bind_arguments_def adapter_diagnosis_get_def adapter_health_check_def dispatch_def sent_def checked_record)
  done

lemma asks_services_list: "asks tool_services_list ''services.status'' (\<lambda>kw. [(''names'', JList [])])"
  apply (rule asksI [OF _ _ method_services_list, where c = "\<lambda>kw. call_of ''services_list'' []
     []" and b = "\<lambda>kw. []"])
     apply (simp_all add: tool_services_list_def sig_services_list_def sg_names_def bind_arguments_def adapter_services_list_def dispatch_def sent_def checked_record)
  done

lemma asks_service_status: "asks tool_service_status ''services.status'' (\<lambda>kw. [(''names'',
   dget kw ''names'')])"
  apply (rule asksI [OF _ _ method_service_status, where c = "\<lambda>kw. call_of ''service_status''
     [dget kw ''names''] []" and b = "\<lambda>kw. [(''names'', dget kw ''names'')]"])
     apply (simp_all add: tool_service_status_def sig_service_status_def sg_names_def bind_arguments_def adapter_service_status_def dispatch_def sent_def checked_record)
  done

lemma asks_domains_list: "asks tool_domains_list ''domains.list'' (\<lambda>kw. [])"
  apply (rule asksI [OF _ _ method_domains_list, where c = "\<lambda>kw. call_of ''domains_list'' []
     []" and b = "\<lambda>kw. []"])
     apply (simp_all add: tool_domains_list_def sig_domains_list_def sg_names_def bind_arguments_def adapter_domains_list_def dispatch_def sent_def checked_record)
  done

lemma asks_domain_cert_info: "asks tool_domain_cert_info ''domain.certificate_info'' (\<lambda>kw. [(''domain'',
   dget kw ''domain'')])"
  apply (rule asksI [OF _ _ method_domain_cert_info, where c = "\<lambda>kw. call_of ''domain_cert_info''
     [dget kw ''domain''] []" and b = "\<lambda>kw. [(''domain'', dget kw ''domain'')]"])
     apply (simp_all add: tool_domain_cert_info_def sig_domain_cert_info_def sg_names_def bind_arguments_def adapter_domain_cert_info_def dispatch_def sent_def checked_record)
  done

lemma asks_domain_dns_suggest: "asks tool_domain_dns_suggest ''domain.dns_suggest'' (\<lambda>kw. [(''domain'',
   dget kw ''domain'')])"
  apply (rule asksI [OF _ _ method_domain_dns_suggest, where c = "\<lambda>kw. call_of ''domain_dns_suggest''
     [dget kw ''domain''] []" and b = "\<lambda>kw. [(''domain'', dget kw ''domain'')]"])
     apply (simp_all add: tool_domain_dns_suggest_def sig_domain_dns_suggest_def sg_names_def bind_arguments_def adapter_domain_dns_suggest_def dispatch_def sent_def checked_record)
  done

lemma asks_domain_dns_push_preview: "asks tool_domain_dns_push_preview ''domain.dns_push_preview'' (\<lambda>kw.
   [(''domain'', dget kw ''domain''), (''force'', dget kw ''force''), (''purge'', dget kw ''purge'')])"
  apply (rule asksI [OF _ _ method_domain_dns_push_preview,
     where c = "\<lambda>kw. call_of ''domain_dns_push_preview'' [dget kw ''domain''] [(''force'',
     dget kw ''force''), (''purge'', dget kw ''purge'')]" and b = "\<lambda>kw. [(''domain'', dget kw ''domain''),
     (''force'', dget kw ''force''), (''purge'', dget kw ''purge'')]"])
     apply (simp_all add: tool_domain_dns_push_preview_def sig_domain_dns_push_preview_def sg_names_def bind_arguments_def adapter_domain_dns_push_preview_def dispatch_def sent_def checked_record)
  done

lemma asks_users_list: "asks tool_users_list ''users.list'' (\<lambda>kw. [])"
  apply (rule asksI [OF _ _ method_users_list, where c = "\<lambda>kw. call_of ''users_list'' []
     []" and b = "\<lambda>kw. []"])
     apply (simp_all add: tool_users_list_def sig_users_list_def sg_names_def bind_arguments_def adapter_users_list_def dispatch_def sent_def checked_record)
  done

lemma asks_user_group_list: "asks tool_user_group_list ''user.groups'' (\<lambda>kw. [])"
  apply (rule asksI [OF _ _ method_user_group_list, where c = "\<lambda>kw. call_of ''user_group_list'' []
     []" and b = "\<lambda>kw. []"])
     apply (simp_all add: tool_user_group_list_def sig_user_group_list_def sg_names_def bind_arguments_def adapter_user_group_list_def dispatch_def sent_def checked_record)
  done

lemma asks_user_permission_list: "asks tool_user_permission_list ''user.permissions'' (\<lambda>kw. [])"
  apply (rule asksI [OF _ _ method_user_permission_list, where c = "\<lambda>kw. call_of ''user_permission_list''
     [] []" and b = "\<lambda>kw. []"])
     apply (simp_all add: tool_user_permission_list_def sig_user_permission_list_def sg_names_def bind_arguments_def adapter_user_permission_list_def dispatch_def sent_def checked_record)
  done

lemma asks_user_permission_info: "asks tool_user_permission_info ''user.permission_info'' (\<lambda>kw.
   [(''permission'', dget kw ''permission'')])"
  apply (rule asksI [OF _ _ method_user_permission_info, where c = "\<lambda>kw. call_of ''user_permission_info''
     [dget kw ''permission''] []" and b = "\<lambda>kw. [(''permission'', dget kw ''permission'')]"])
     apply (simp_all add: tool_user_permission_info_def sig_user_permission_info_def sg_names_def bind_arguments_def adapter_user_permission_info_def dispatch_def sent_def checked_record)
  done

lemma asks_backups_list: "asks tool_backups_list ''backups.list'' (\<lambda>kw. [])"
  apply (rule asksI [OF _ _ method_backups_list, where c = "\<lambda>kw. call_of ''backups_list'' []
     []" and b = "\<lambda>kw. []"])
     apply (simp_all add: tool_backups_list_def sig_backups_list_def sg_names_def bind_arguments_def adapter_backups_list_def dispatch_def sent_def checked_record)
  done

lemma asks_backup_info: "asks tool_backup_info ''backup.info'' (\<lambda>kw. [(''name'', dget kw ''name''),
   (''with_details'', dget kw ''with_details'')])"
  apply (rule asksI [OF _ _ method_backup_info, where c = "\<lambda>kw. call_of ''backup_info'' [dget kw ''name'']
     [(''with_details'', dget kw ''with_details'')]" and b = "\<lambda>kw. [(''name'', dget kw ''name''),
     (''with_details'', dget kw ''with_details'')]"])
     apply (simp_all add: tool_backup_info_def sig_backup_info_def sg_names_def bind_arguments_def adapter_backup_info_def dispatch_def sent_def checked_record)
  done

lemma asks_operations_list: "asks tool_operations_list ''operations.list'' (\<lambda>kw. [(''limit'',
   dget kw ''limit''), (''with_suboperations'', dget kw ''with_suboperations'')])"
  apply (rule asksI [OF _ _ method_operations_list, where c = "\<lambda>kw. call_of ''operations_list'' []
     [(''limit'', dget kw ''limit''), (''with_suboperations'',
     dget kw ''with_suboperations'')]" and b = "\<lambda>kw. [(''limit'', dget kw ''limit''),
     (''with_suboperations'', dget kw ''with_suboperations'')]"])
     apply (simp_all add: tool_operations_list_def sig_operations_list_def sg_names_def bind_arguments_def adapter_operations_list_def dispatch_def sent_def checked_record)
  done

lemma asks_operation_status: "asks tool_operation_status ''operation.status'' (\<lambda>kw. [(''name'',
   dget kw ''name'')])"
  apply (rule asksI [OF _ _ method_operation_status, where c = "\<lambda>kw. call_of ''operation_status''
     [dget kw ''name''] []" and b = "\<lambda>kw. [(''name'', dget kw ''name'')]"])
     apply (simp_all add: tool_operation_status_def sig_operation_status_def sg_names_def bind_arguments_def adapter_operation_status_def dispatch_def sent_def checked_record)
  done

lemma asks_operation_logs: "asks tool_operation_logs ''operation.logs'' (\<lambda>kw. [(''name'',
   dget kw ''name''), (''tail_lines'', dget kw ''tail_lines'')])"
  apply (rule asksI [OF _ _ method_operation_logs, where c = "\<lambda>kw. call_of ''operation_logs''
     [dget kw ''name''] [(''tail_lines'', dget kw ''tail_lines'')]" and b = "\<lambda>kw. [(''name'',
     dget kw ''name''), (''tail_lines'', dget kw ''tail_lines'')]"])
     apply (simp_all add: tool_operation_logs_def sig_operation_logs_def sg_names_def bind_arguments_def adapter_operation_logs_def dispatch_def sent_def checked_record)
  done

lemma asks_updates_check: "asks tool_updates_check ''updates.check'' (\<lambda>kw. [])"
  apply (rule asksI [OF _ _ method_updates_check, where c = "\<lambda>kw. call_of ''updates_check'' []
     []" and b = "\<lambda>kw. []"])
     apply (simp_all add: tool_updates_check_def sig_updates_check_def sg_names_def bind_arguments_def adapter_updates_check_def dispatch_def sent_def checked_record)
  done

lemma asks_updates_refresh: "asks tool_updates_refresh ''updates.refresh'' (\<lambda>kw. [(''target'',
   dget kw ''target'')])"
  apply (rule asksI [OF _ _ method_updates_refresh, where c = "\<lambda>kw. call_of ''updates_refresh'' []
     [(''target'', dget kw ''target'')]" and b = "\<lambda>kw. [(''target'', dget kw ''target'')]"])
     apply (simp_all add: tool_updates_refresh_def sig_updates_refresh_def sg_names_def bind_arguments_def adapter_updates_refresh_def dispatch_def sent_def checked_record)
  done

lemma asks_migrations_list: "asks tool_migrations_list ''migrations.list'' (\<lambda>kw. [(''pending'',
   dget kw ''pending''), (''done'', dget kw ''done'')])"
  apply (rule asksI [OF _ _ method_migrations_list, where c = "\<lambda>kw. call_of ''migrations_list'' []
     [(''pending'', dget kw ''pending''), (''done'', dget kw ''done'')]" and b = "\<lambda>kw. [(''pending'',
     dget kw ''pending''), (''done'', dget kw ''done'')]"])
     apply (simp_all add: tool_migrations_list_def sig_migrations_list_def sg_names_def bind_arguments_def adapter_migrations_list_def dispatch_def sent_def checked_record)
  done

lemma asks_migrations_state: "asks tool_migrations_state ''migrations.state'' (\<lambda>kw. [])"
  apply (rule asksI [OF _ _ method_migrations_state, where c = "\<lambda>kw. call_of ''migrations_state'' []
     []" and b = "\<lambda>kw. []"])
     apply (simp_all add: tool_migrations_state_def sig_migrations_state_def sg_names_def bind_arguments_def adapter_migrations_state_def dispatch_def sent_def checked_record)
  done

lemma asks_firewall_list: "asks tool_firewall_list ''firewall.list'' (\<lambda>kw. [(''raw'', dget kw ''raw''),
   (''protocol'', dget kw ''protocol''), (''forwarded'', dget kw ''forwarded'')])"
  apply (rule asksI [OF _ _ method_firewall_list, where c = "\<lambda>kw. call_of ''firewall_list'' [] [(''raw'',
     dget kw ''raw''), (''protocol'', dget kw ''protocol''),
     (''forwarded'', dget kw ''forwarded'')]" and b = "\<lambda>kw. [(''raw'', dget kw ''raw''),
     (''protocol'', dget kw ''protocol''), (''forwarded'', dget kw ''forwarded'')]"])
     apply (simp_all add: tool_firewall_list_def sig_firewall_list_def sg_names_def bind_arguments_def adapter_firewall_list_def dispatch_def sent_def checked_record)
  done

lemma asks_firewall_is_open: "asks tool_firewall_is_open ''firewall.is_open'' (\<lambda>kw. [(''port'',
   dget kw ''port''), (''protocol'', dget kw ''protocol'')])"
  apply (rule asksI [OF _ _ method_firewall_is_open, where c = "\<lambda>kw. call_of ''firewall_is_open''
     [dget kw ''port'', dget kw ''protocol''] []" and b = "\<lambda>kw. [(''port'', dget kw ''port''),
     (''protocol'', dget kw ''protocol'')]"])
     apply (simp_all add: tool_firewall_is_open_def sig_firewall_is_open_def sg_names_def bind_arguments_def adapter_firewall_is_open_def dispatch_def sent_def checked_record)
  done

lemma asks_settings_list: "asks tool_settings_list ''settings.list'' (\<lambda>kw. [(''full'', dget kw ''full'')])"
  apply (rule asksI [OF _ _ method_settings_list, where c = "\<lambda>kw. call_of ''settings_list'' [] [(''full'',
     dget kw ''full'')]" and b = "\<lambda>kw. [(''full'', dget kw ''full'')]"])
     apply (simp_all add: tool_settings_list_def sig_settings_list_def sg_names_def bind_arguments_def adapter_settings_list_def dispatch_def sent_def checked_record)
  done

lemma asks_settings_get: "asks tool_settings_get ''settings.get'' (\<lambda>kw. [(''key'', dget kw ''key''),
   (''full'', dget kw ''full'')])"
  apply (rule asksI [OF _ _ method_settings_get, where c = "\<lambda>kw. call_of ''settings_get'' [dget kw ''key'']
     [(''full'', dget kw ''full'')]" and b = "\<lambda>kw. [(''key'', dget kw ''key''),
     (''full'', dget kw ''full'')]"])
     apply (simp_all add: tool_settings_get_def sig_settings_get_def sg_names_def bind_arguments_def adapter_settings_get_def dispatch_def sent_def checked_record)
  done

lemma asks_regenconf_pending: "asks tool_regenconf_pending ''regenconf.pending'' (\<lambda>kw. [(''names'',
   dget kw ''names''), (''with_diff'', dget kw ''with_diff'')])"
  apply (rule asksI [OF _ _ method_regenconf_pending, where c = "\<lambda>kw. call_of ''regenconf_pending'' []
     [(''names'', dget kw ''names''), (''with_diff'', dget kw ''with_diff'')]" and b = "\<lambda>kw. [(''names'',
     dget kw ''names''), (''with_diff'', dget kw ''with_diff'')]"])
     apply (simp_all add: tool_regenconf_pending_def sig_regenconf_pending_def sg_names_def bind_arguments_def adapter_regenconf_pending_def dispatch_def sent_def checked_record)
  done

lemma asks_package_inspect: "asks tool_package_inspect ''package.inspect'' (\<lambda>kw. [(''source'',
   dget kw ''source'')])"
  apply (rule asksI [OF _ _ method_package_inspect, where c = "\<lambda>kw. call_of ''package_inspect''
     [dget kw ''source''] []" and b = "\<lambda>kw. [(''source'', dget kw ''source'')]"])
     apply (simp_all add: tool_package_inspect_def sig_package_inspect_def sg_names_def bind_arguments_def adapter_package_inspect_def dispatch_def sent_def checked_record)
  done

lemma asks_package_logs: "asks tool_package_logs ''operation.logs'' (\<lambda>kw. [(''name'',
   dget kw ''operation''), (''tail_lines'', dget kw ''tail_lines'')])"
  apply (rule asksI [OF _ _ method_operation_logs, where c = "\<lambda>kw. call_of ''operation_logs''
     [dget kw ''operation''] [(''tail_lines'', dget kw ''tail_lines'')]" and b = "\<lambda>kw. [(''name'',
     dget kw ''operation''), (''tail_lines'', dget kw ''tail_lines'')]"])
     apply (simp_all add: tool_package_logs_def sig_operation_logs_def sg_names_def bind_arguments_def adapter_operation_logs_def dispatch_def sent_def checked_record)
  done

lemma asks_diagnose_app: "asks tool_diagnose_app ''diagnose.app'' (\<lambda>kw. [(''app'', dget kw ''app'')])"
  apply (rule asksI [OF _ _ method_diagnose_app, where c = "\<lambda>kw. call_of ''diagnose_app'' [dget kw ''app'']
     []" and b = "\<lambda>kw. [(''app'', dget kw ''app'')]"])
     apply (simp_all add: tool_diagnose_app_def sig_diagnose_app_def sg_names_def bind_arguments_def adapter_diagnose_app_def dispatch_def sent_def checked_record)
  done

lemma asks_validate_server: "asks tool_validate_server ''validate.server'' (\<lambda>kw. [])"
  apply (rule asksI [OF _ _ method_validate_server, where c = "\<lambda>kw. call_of ''validate_server'' []
     []" and b = "\<lambda>kw. []"])
     apply (simp_all add: tool_validate_server_def sig_validate_server_def sg_names_def bind_arguments_def adapter_validate_server_def dispatch_def sent_def checked_record)
  done

lemma asks_domain_add: "asks tool_domain_add ''domain.add'' (\<lambda>kw. [(''domain'', dget kw ''domain''),
   (''install_letsencrypt_cert'', dget kw ''install_letsencrypt_cert''),
   (''confirmation_id'', dget kw ''confirmation_id'')])"
  apply (rule asksI [OF _ _ method_domain_add, where c = "\<lambda>kw. call_of ''domain_add'' [dget kw ''domain'']
     [(''install_letsencrypt_cert'', dget kw ''install_letsencrypt_cert''),
     (''confirmation_id'', dget kw ''confirmation_id'')]" and b = "\<lambda>kw. [(''domain'', dget kw ''domain''),
     (''install_letsencrypt_cert'', dget kw ''install_letsencrypt_cert''),
     (''confirmation_id'', dget kw ''confirmation_id'')]"])
     apply (simp_all add: tool_domain_add_def sig_domain_add_def sg_names_def bind_arguments_def adapter_domain_add_def dispatch_def sent_def checked_record)
  done

lemma asks_domain_cert_install: "asks tool_domain_cert_install ''domain.cert_install'' (\<lambda>kw. [(''domain'',
   dget kw ''domain''), (''letsencrypt'', dget kw ''letsencrypt''), (''staging'', dget kw ''staging''),
   (''confirmation_id'', dget kw ''confirmation_id'')])"
  apply (rule asksI [OF _ _ method_domain_cert_install, where c = "\<lambda>kw. call_of ''domain_cert_install''
     [dget kw ''domain''] [(''letsencrypt'', dget kw ''letsencrypt''), (''staging'', dget kw ''staging''),
     (''confirmation_id'', dget kw ''confirmation_id'')]" and b = "\<lambda>kw. [(''domain'', dget kw ''domain''),
     (''letsencrypt'', dget kw ''letsencrypt''), (''staging'', dget kw ''staging''),
     (''confirmation_id'', dget kw ''confirmation_id'')]"])
     apply (simp_all add: tool_domain_cert_install_def sig_domain_cert_install_def sg_names_def bind_arguments_def adapter_domain_cert_install_def dispatch_def sent_def checked_record)
  done

lemma asks_domain_dns_push: "asks tool_domain_dns_push ''domain.dns_push'' (\<lambda>kw. [(''domain'',
   dget kw ''domain''), (''force'', dget kw ''force''), (''purge'', dget kw ''purge''),
   (''confirmation_id'', dget kw ''confirmation_id'')])"
  apply (rule asksI [OF _ _ method_domain_dns_push, where c = "\<lambda>kw. call_of ''domain_dns_push''
     [dget kw ''domain''] [(''force'', dget kw ''force''), (''purge'', dget kw ''purge''),
     (''confirmation_id'', dget kw ''confirmation_id'')]" and b = "\<lambda>kw. [(''domain'', dget kw ''domain''),
     (''force'', dget kw ''force''), (''purge'', dget kw ''purge''),
     (''confirmation_id'', dget kw ''confirmation_id'')]"])
     apply (simp_all add: tool_domain_dns_push_def sig_domain_dns_push_def sg_names_def bind_arguments_def adapter_domain_dns_push_def dispatch_def sent_def checked_record)
  done

lemma asks_domain_remove: "asks tool_domain_remove ''domain.remove'' (\<lambda>kw. [(''domain'',
   dget kw ''domain''), (''remove_apps'', dget kw ''remove_apps''), (''force'', dget kw ''force''),
   (''confirmation_id'', dget kw ''confirmation_id'')])"
  apply (rule asksI [OF _ _ method_domain_remove, where c = "\<lambda>kw. call_of ''domain_remove''
     [dget kw ''domain''] [(''remove_apps'', dget kw ''remove_apps''), (''force'', dget kw ''force''),
     (''confirmation_id'', dget kw ''confirmation_id'')]" and b = "\<lambda>kw. [(''domain'', dget kw ''domain''),
     (''remove_apps'', dget kw ''remove_apps''), (''force'', dget kw ''force''),
     (''confirmation_id'', dget kw ''confirmation_id'')]"])
     apply (simp_all add: tool_domain_remove_def sig_domain_remove_def sg_names_def bind_arguments_def adapter_domain_remove_def dispatch_def sent_def checked_record)
  done

lemma asks_user_create: "asks tool_user_create ''user.create'' (\<lambda>kw. [(''username'', dget kw ''username''),
   (''domain'', dget kw ''domain''), (''password'', dget kw ''password''), (''fullname'', dget kw ''fullname''),
   (''mailbox_quota'', dget kw ''mailbox_quota''), (''admin'', dget kw ''admin''),
   (''confirmation_id'', dget kw ''confirmation_id'')])"
  apply (rule asksI [OF _ _ method_user_create, where c = "\<lambda>kw. call_of ''user_create''
     [dget kw ''username''] [(''domain'', dget kw ''domain''), (''password'', dget kw ''password''),
     (''fullname'', dget kw ''fullname''), (''mailbox_quota'', dget kw ''mailbox_quota''),
     (''admin'', dget kw ''admin''), (''confirmation_id'', dget kw ''confirmation_id'')]" and b = "\<lambda>kw.
     [(''username'', dget kw ''username''), (''domain'', dget kw ''domain''), (''password'', dget kw ''password''),
     (''fullname'', dget kw ''fullname''), (''mailbox_quota'', dget kw ''mailbox_quota''),
     (''admin'', dget kw ''admin''), (''confirmation_id'', dget kw ''confirmation_id'')]"])
     apply (simp_all add: tool_user_create_def sig_user_create_def sg_names_def bind_arguments_def adapter_user_create_def dispatch_def sent_def checked_record)
  done

lemma asks_user_update: "asks tool_user_update ''user.update'' (\<lambda>kw. [(''username'', dget kw ''username''),
   (''mail'', dget kw ''mail''), (''change_password'', dget kw ''change_password''),
   (''add_mailforward'', dget kw ''add_mailforward''), (''remove_mailforward'', dget kw ''remove_mailforward''),
   (''add_mailalias'', dget kw ''add_mailalias''), (''remove_mailalias'', dget kw ''remove_mailalias''),
   (''mailbox_quota'', dget kw ''mailbox_quota''), (''fullname'', dget kw ''fullname''),
   (''confirmation_id'', dget kw ''confirmation_id'')])"
  apply (rule asksI [OF _ _ method_user_update, where c = "\<lambda>kw. call_of ''user_update''
     [dget kw ''username''] [(''mail'', dget kw ''mail''), (''change_password'', dget kw ''change_password''),
     (''add_mailforward'', dget kw ''add_mailforward''), (''remove_mailforward'', dget kw ''remove_mailforward''),
     (''add_mailalias'', dget kw ''add_mailalias''), (''remove_mailalias'', dget kw ''remove_mailalias''),
     (''mailbox_quota'', dget kw ''mailbox_quota''), (''fullname'', dget kw ''fullname''),
     (''confirmation_id'', dget kw ''confirmation_id'')]" and b = "\<lambda>kw. [(''username'',
     dget kw ''username''), (''mail'', dget kw ''mail''), (''change_password'', dget kw ''change_password''),
     (''add_mailforward'', dget kw ''add_mailforward''), (''remove_mailforward'', dget kw ''remove_mailforward''),
     (''add_mailalias'', dget kw ''add_mailalias''), (''remove_mailalias'', dget kw ''remove_mailalias''),
     (''mailbox_quota'', dget kw ''mailbox_quota''), (''fullname'', dget kw ''fullname''),
     (''confirmation_id'', dget kw ''confirmation_id'')]"])
     apply (simp_all add: tool_user_update_def sig_user_update_def sg_names_def bind_arguments_def adapter_user_update_def dispatch_def sent_def checked_record)
  done

lemma asks_user_delete: "asks tool_user_delete ''user.delete'' (\<lambda>kw. [(''username'', dget kw ''username''),
   (''purge'', dget kw ''purge''), (''confirmation_id'', dget kw ''confirmation_id'')])"
  apply (rule asksI [OF _ _ method_user_delete, where c = "\<lambda>kw. call_of ''user_delete''
     [dget kw ''username''] [(''purge'', dget kw ''purge''),
     (''confirmation_id'', dget kw ''confirmation_id'')]" and b = "\<lambda>kw. [(''username'',
     dget kw ''username''), (''purge'', dget kw ''purge''), (''confirmation_id'', dget kw ''confirmation_id'')]"])
     apply (simp_all add: tool_user_delete_def sig_user_delete_def sg_names_def bind_arguments_def adapter_user_delete_def dispatch_def sent_def checked_record)
  done

lemma asks_user_group_create: "asks tool_user_group_create ''user.group_create'' (\<lambda>kw. [(''groupname'',
   dget kw ''groupname''), (''confirmation_id'', dget kw ''confirmation_id'')])"
  apply (rule asksI [OF _ _ method_user_group_create, where c = "\<lambda>kw. call_of ''user_group_create''
     [dget kw ''groupname''] [(''confirmation_id'', dget kw ''confirmation_id'')]" and b = "\<lambda>kw.
     [(''groupname'', dget kw ''groupname''), (''confirmation_id'', dget kw ''confirmation_id'')]"])
     apply (simp_all add: tool_user_group_create_def sig_user_group_create_def sg_names_def bind_arguments_def adapter_user_group_create_def dispatch_def sent_def checked_record)
  done

lemma asks_user_group_update: "asks tool_user_group_update ''user.group_update'' (\<lambda>kw. [(''groupname'',
   dget kw ''groupname''), (''add'', dget kw ''add''), (''remove'', dget kw ''remove''),
   (''confirmation_id'', dget kw ''confirmation_id'')])"
  apply (rule asksI [OF _ _ method_user_group_update, where c = "\<lambda>kw. call_of ''user_group_update''
     [dget kw ''groupname''] [(''add'', dget kw ''add''), (''remove'', dget kw ''remove''),
     (''confirmation_id'', dget kw ''confirmation_id'')]" and b = "\<lambda>kw. [(''groupname'',
     dget kw ''groupname''), (''add'', dget kw ''add''), (''remove'', dget kw ''remove''),
     (''confirmation_id'', dget kw ''confirmation_id'')]"])
     apply (simp_all add: tool_user_group_update_def sig_user_group_update_def sg_names_def bind_arguments_def adapter_user_group_update_def dispatch_def sent_def checked_record)
  done

lemma asks_user_group_delete: "asks tool_user_group_delete ''user.group_delete'' (\<lambda>kw. [(''groupname'',
   dget kw ''groupname''), (''confirmation_id'', dget kw ''confirmation_id'')])"
  apply (rule asksI [OF _ _ method_user_group_delete, where c = "\<lambda>kw. call_of ''user_group_delete''
     [dget kw ''groupname''] [(''confirmation_id'', dget kw ''confirmation_id'')]" and b = "\<lambda>kw.
     [(''groupname'', dget kw ''groupname''), (''confirmation_id'', dget kw ''confirmation_id'')]"])
     apply (simp_all add: tool_user_group_delete_def sig_user_group_delete_def sg_names_def bind_arguments_def adapter_user_group_delete_def dispatch_def sent_def checked_record)
  done

lemma asks_user_permission_add: "asks tool_user_permission_add ''user.permission_add'' (\<lambda>kw.
   [(''permission'', dget kw ''permission''), (''names'', dget kw ''names''),
   (''confirmation_id'', dget kw ''confirmation_id'')])"
  apply (rule asksI [OF _ _ method_user_permission_add, where c = "\<lambda>kw. call_of ''user_permission_add''
     [dget kw ''permission'', dget kw ''names''] [(''confirmation_id'',
     dget kw ''confirmation_id'')]" and b = "\<lambda>kw. [(''permission'', dget kw ''permission''),
     (''names'', dget kw ''names''), (''confirmation_id'', dget kw ''confirmation_id'')]"])
     apply (simp_all add: tool_user_permission_add_def sig_user_permission_add_def sg_names_def bind_arguments_def adapter_user_permission_add_def dispatch_def sent_def checked_record)
  done

lemma asks_user_permission_remove: "asks tool_user_permission_remove ''user.permission_remove'' (\<lambda>kw.
   [(''permission'', dget kw ''permission''), (''names'', dget kw ''names''),
   (''confirmation_id'', dget kw ''confirmation_id'')])"
  apply (rule asksI [OF _ _ method_user_permission_remove,
     where c = "\<lambda>kw. call_of ''user_permission_remove'' [dget kw ''permission'', dget kw ''names'']
     [(''confirmation_id'', dget kw ''confirmation_id'')]" and b = "\<lambda>kw. [(''permission'',
     dget kw ''permission''), (''names'', dget kw ''names''), (''confirmation_id'', dget kw ''confirmation_id'')]"])
     apply (simp_all add: tool_user_permission_remove_def sig_user_permission_remove_def sg_names_def bind_arguments_def adapter_user_permission_remove_def dispatch_def sent_def checked_record)
  done

lemma asks_user_permission_update: "asks tool_user_permission_update ''user.permission_update'' (\<lambda>kw.
   [(''permission'', dget kw ''permission''), (''label'', dget kw ''label''),
   (''show_tile'', dget kw ''show_tile''), (''protected'', dget kw ''protected''),
   (''confirmation_id'', dget kw ''confirmation_id'')])"
  apply (rule asksI [OF _ _ method_user_permission_update,
     where c = "\<lambda>kw. call_of ''user_permission_update'' [dget kw ''permission''] [(''label'',
     dget kw ''label''), (''show_tile'', dget kw ''show_tile''), (''protected'', dget kw ''protected''),
     (''confirmation_id'', dget kw ''confirmation_id'')]" and b = "\<lambda>kw. [(''permission'',
     dget kw ''permission''), (''label'', dget kw ''label''), (''show_tile'', dget kw ''show_tile''),
     (''protected'', dget kw ''protected''), (''confirmation_id'', dget kw ''confirmation_id'')]"])
     apply (simp_all add: tool_user_permission_update_def sig_user_permission_update_def sg_names_def bind_arguments_def adapter_user_permission_update_def dispatch_def sent_def checked_record)
  done

lemma asks_service_restart: "asks tool_service_restart ''service.restart'' (\<lambda>kw. [(''names'',
   dget kw ''names''), (''confirmation_id'', dget kw ''confirmation_id'')])"
  apply (rule asksI [OF _ _ method_service_restart, where c = "\<lambda>kw. call_of ''service_restart''
     [dget kw ''names''] [(''confirmation_id'', dget kw ''confirmation_id'')]" and b = "\<lambda>kw. [(''names'',
     dget kw ''names''), (''confirmation_id'', dget kw ''confirmation_id'')]"])
     apply (simp_all add: tool_service_restart_def sig_service_restart_def sg_names_def bind_arguments_def adapter_service_restart_def dispatch_def sent_def checked_record)
  done

lemma asks_service_stop: "asks tool_service_stop ''service.stop'' (\<lambda>kw. [(''names'', dget kw ''names''),
   (''confirmation_id'', dget kw ''confirmation_id'')])"
  apply (rule asksI [OF _ _ method_service_stop, where c = "\<lambda>kw. call_of ''service_stop''
     [dget kw ''names''] [(''confirmation_id'', dget kw ''confirmation_id'')]" and b = "\<lambda>kw. [(''names'',
     dget kw ''names''), (''confirmation_id'', dget kw ''confirmation_id'')]"])
     apply (simp_all add: tool_service_stop_def sig_service_stop_def sg_names_def bind_arguments_def adapter_service_stop_def dispatch_def sent_def checked_record)
  done

lemma asks_service_start: "asks tool_service_start ''service.start'' (\<lambda>kw. [(''names'', dget kw ''names''),
   (''confirmation_id'', dget kw ''confirmation_id'')])"
  apply (rule asksI [OF _ _ method_service_start, where c = "\<lambda>kw. call_of ''service_start''
     [dget kw ''names''] [(''confirmation_id'', dget kw ''confirmation_id'')]" and b = "\<lambda>kw. [(''names'',
     dget kw ''names''), (''confirmation_id'', dget kw ''confirmation_id'')]"])
     apply (simp_all add: tool_service_start_def sig_service_start_def sg_names_def bind_arguments_def adapter_service_start_def dispatch_def sent_def checked_record)
  done

lemma asks_backup_create: "asks tool_backup_create ''backup.create'' (\<lambda>kw. [(''name'', dget kw ''name''),
   (''description'', dget kw ''description''), (''apps'', dget kw ''apps''), (''system'', dget kw ''system''),
   (''confirmation_id'', dget kw ''confirmation_id'')])"
  apply (rule asksI [OF _ _ method_backup_create, where c = "\<lambda>kw. call_of ''backup_create'' [] [(''name'',
     dget kw ''name''), (''description'', dget kw ''description''), (''apps'', dget kw ''apps''),
     (''system'', dget kw ''system''), (''confirmation_id'', dget kw ''confirmation_id'')]" and b = "\<lambda>kw.
     [(''name'', dget kw ''name''), (''description'', dget kw ''description''), (''apps'', dget kw ''apps''),
     (''system'', dget kw ''system''), (''confirmation_id'', dget kw ''confirmation_id'')]"])
     apply (simp_all add: tool_backup_create_def sig_backup_create_def sg_names_def bind_arguments_def adapter_backup_create_def dispatch_def sent_def checked_record)
  done

lemma asks_backup_delete: "asks tool_backup_delete ''backup.delete'' (\<lambda>kw. [(''name'', dget kw ''name''),
   (''confirmation_id'', dget kw ''confirmation_id'')])"
  apply (rule asksI [OF _ _ method_backup_delete, where c = "\<lambda>kw. call_of ''backup_delete''
     [dget kw ''name''] [(''confirmation_id'', dget kw ''confirmation_id'')]" and b = "\<lambda>kw. [(''name'',
     dget kw ''name''), (''confirmation_id'', dget kw ''confirmation_id'')]"])
     apply (fastforce simp: tool_backup_delete_def ebind_def split: sum.splits)
    apply (simp_all add: tool_backup_delete_def sig_backup_delete_def sg_names_def bind_arguments_def adapter_backup_delete_def dispatch_def sent_def checked_record)
  done

lemma asks_app_install: "asks tool_app_install ''app.install'' (\<lambda>kw. [(''app'', dget kw ''app''),
   (''label'', dget kw ''label''), (''args'', dget kw ''args''), (''force'', dget kw ''force''),
   (''confirmation_id'', dget kw ''confirmation_id'')])"
  apply (rule asksI [OF _ _ method_app_install, where c = "\<lambda>kw. call_of ''app_install'' [dget kw ''app'']
     [(''label'', dget kw ''label''), (''args'', dget kw ''args''), (''force'', dget kw ''force''),
     (''confirmation_id'', dget kw ''confirmation_id'')]" and b = "\<lambda>kw. [(''app'', dget kw ''app''),
     (''label'', dget kw ''label''), (''args'', dget kw ''args''), (''force'', dget kw ''force''),
     (''confirmation_id'', dget kw ''confirmation_id'')]"])
     apply (simp_all add: tool_app_install_def sig_app_install_def sg_names_def bind_arguments_def adapter_app_install_def dispatch_def sent_def checked_record)
  done

lemma asks_app_upgrade: "asks tool_app_upgrade ''app.upgrade'' (\<lambda>kw. [(''app'', dget kw ''app''),
   (''force'', dget kw ''force''), (''url'', dget kw ''url''), (''confirmation_id'', dget kw ''confirmation_id'')])"
  apply (rule asksI [OF _ _ method_app_upgrade, where c = "\<lambda>kw. call_of ''app_upgrade'' [] [(''app'',
     dget kw ''app''), (''force'', dget kw ''force''), (''url'', dget kw ''url''),
     (''confirmation_id'', dget kw ''confirmation_id'')]" and b = "\<lambda>kw. [(''app'', dget kw ''app''),
     (''force'', dget kw ''force''), (''file'', JNull), (''url'', dget kw ''url''),
     (''confirmation_id'', dget kw ''confirmation_id'')]"])
     apply (simp_all add: tool_app_upgrade_def sig_app_upgrade_def sg_names_def bind_arguments_def adapter_app_upgrade_def dispatch_def sent_def checked_record)
  done

lemma asks_app_remove: "asks tool_app_remove ''app.remove'' (\<lambda>kw. [(''app'', dget kw ''app''),
   (''purge'', dget kw ''purge''), (''confirmation_id'', dget kw ''confirmation_id'')])"
  apply (rule asksI [OF _ _ method_app_remove, where c = "\<lambda>kw. call_of ''app_remove'' [dget kw ''app'']
     [(''purge'', dget kw ''purge''), (''confirmation_id'', dget kw ''confirmation_id'')]" and b = "\<lambda>kw.
     [(''app'', dget kw ''app''), (''purge'', dget kw ''purge''),
     (''confirmation_id'', dget kw ''confirmation_id'')]"])
     apply (simp_all add: tool_app_remove_def sig_app_remove_def sg_names_def bind_arguments_def adapter_app_remove_def dispatch_def sent_def checked_record)
  done

lemma asks_app_change_url: "asks tool_app_change_url ''app.change_url'' (\<lambda>kw. [(''app'', dget kw ''app''),
   (''domain'', dget kw ''domain''), (''path'', dget kw ''path''),
   (''confirmation_id'', dget kw ''confirmation_id'')])"
  apply (rule asksI [OF _ _ method_app_change_url, where c = "\<lambda>kw. call_of ''app_change_url''
     [dget kw ''app''] [(''domain'', dget kw ''domain''), (''path'', dget kw ''path''),
     (''confirmation_id'', dget kw ''confirmation_id'')]" and b = "\<lambda>kw. [(''app'', dget kw ''app''),
     (''domain'', dget kw ''domain''), (''path'', dget kw ''path''),
     (''confirmation_id'', dget kw ''confirmation_id'')]"])
     apply (simp_all add: tool_app_change_url_def sig_app_change_url_def sg_names_def bind_arguments_def adapter_app_change_url_def dispatch_def sent_def checked_record)
  done

lemma asks_app_config_set: "asks tool_app_config_set ''app.config_set'' (\<lambda>kw. [(''app'', dget kw ''app''),
   (''key'', dget kw ''key''), (''value'', dget kw ''value''), (''confirmation_id'', dget kw ''confirmation_id'')])"
  apply (rule asksI [OF _ _ method_app_config_set, where c = "\<lambda>kw. call_of ''app_config_set''
     [dget kw ''app''] [(''key'', dget kw ''key''), (''value'', dget kw ''value''),
     (''confirmation_id'', dget kw ''confirmation_id'')]" and b = "\<lambda>kw. [(''app'', dget kw ''app''),
     (''key'', dget kw ''key''), (''value'', dget kw ''value''),
     (''confirmation_id'', dget kw ''confirmation_id'')]"])
     apply (simp_all add: tool_app_config_set_def sig_app_config_set_def sg_names_def bind_arguments_def adapter_app_config_set_def dispatch_def sent_def checked_record)
  done

lemma asks_app_setting_set: "asks tool_app_setting_set ''app.setting_set'' (\<lambda>kw. [(''app'',
   dget kw ''app''), (''key'', dget kw ''key''), (''value'', dget kw ''value''), (''delete'', dget kw ''delete''),
   (''confirmation_id'', dget kw ''confirmation_id'')])"
  apply (rule asksI [OF _ _ method_app_setting_set, where c = "\<lambda>kw. call_of ''app_setting_set''
     [dget kw ''app'', dget kw ''key''] [(''value'', dget kw ''value''), (''delete'', dget kw ''delete''),
     (''confirmation_id'', dget kw ''confirmation_id'')]" and b = "\<lambda>kw. [(''app'', dget kw ''app''),
     (''key'', dget kw ''key''), (''value'', dget kw ''value''), (''delete'', dget kw ''delete''),
     (''confirmation_id'', dget kw ''confirmation_id'')]"])
     apply (simp_all add: tool_app_setting_set_def sig_app_setting_set_def sg_names_def bind_arguments_def adapter_app_setting_set_def dispatch_def sent_def checked_record)
  done

lemma asks_backup_restore: "asks tool_backup_restore ''backup.restore'' (\<lambda>kw. [(''name'',
   dget kw ''name''), (''apps'', dget kw ''apps''), (''system'', dget kw ''system''),
   (''force'', dget kw ''force''), (''confirmation_id'', dget kw ''confirmation_id'')])"
  apply (rule asksI [OF _ _ method_backup_restore, where c = "\<lambda>kw. call_of ''backup_restore''
     [dget kw ''name''] [(''apps'', dget kw ''apps''), (''system'', dget kw ''system''),
     (''force'', dget kw ''force''), (''confirmation_id'', dget kw ''confirmation_id'')]" and b = "\<lambda>kw.
     [(''name'', dget kw ''name''), (''apps'', dget kw ''apps''), (''system'', dget kw ''system''),
     (''force'', dget kw ''force''), (''confirmation_id'', dget kw ''confirmation_id'')]"])
     apply (simp_all add: tool_backup_restore_def sig_backup_restore_def sg_names_def bind_arguments_def adapter_backup_restore_def dispatch_def sent_def checked_record)
  done

lemma asks_system_upgrade: "asks tool_system_upgrade ''system.upgrade'' (\<lambda>kw. [(''confirmation_id'',
   dget kw ''confirmation_id'')])"
  apply (rule asksI [OF _ _ method_system_upgrade, where c = "\<lambda>kw. call_of ''system_upgrade'' []
     [(''confirmation_id'', dget kw ''confirmation_id'')]" and b = "\<lambda>kw. [(''confirmation_id'',
     dget kw ''confirmation_id'')]"])
     apply (simp_all add: tool_system_upgrade_def sig_system_upgrade_def sg_names_def bind_arguments_def adapter_system_upgrade_def dispatch_def sent_def checked_record)
  done

lemma asks_system_reboot: "asks tool_system_reboot ''system.reboot'' (\<lambda>kw. [(''confirmation_id'',
   dget kw ''confirmation_id'')])"
  apply (rule asksI [OF _ _ method_system_reboot, where c = "\<lambda>kw. call_of ''system_reboot'' []
     [(''confirmation_id'', dget kw ''confirmation_id'')]" and b = "\<lambda>kw. [(''confirmation_id'',
     dget kw ''confirmation_id'')]"])
     apply (simp_all add: tool_system_reboot_def sig_system_reboot_def sg_names_def bind_arguments_def adapter_system_reboot_def dispatch_def sent_def checked_record)
  done

lemma asks_system_shutdown: "asks tool_system_shutdown ''system.shutdown'' (\<lambda>kw. [(''confirmation_id'',
   dget kw ''confirmation_id'')])"
  apply (rule asksI [OF _ _ method_system_shutdown, where c = "\<lambda>kw. call_of ''system_shutdown'' []
     [(''confirmation_id'', dget kw ''confirmation_id'')]" and b = "\<lambda>kw. [(''confirmation_id'',
     dget kw ''confirmation_id'')]"])
     apply (simp_all add: tool_system_shutdown_def sig_system_shutdown_def sg_names_def bind_arguments_def adapter_system_shutdown_def dispatch_def sent_def checked_record)
  done

lemma asks_migrations_run: "asks tool_migrations_run ''migrations.run'' (\<lambda>kw. [(''targets'',
   dget kw ''targets''), (''skip'', dget kw ''skip''), (''auto'', dget kw ''auto''),
   (''force_rerun'', dget kw ''force_rerun''), (''accept_disclaimer'', dget kw ''accept_disclaimer''),
   (''skip_postmigrations'', dget kw ''skip_postmigrations''), (''confirmation_id'', dget kw ''confirmation_id'')])"
  apply (rule asksI [OF _ _ method_migrations_run, where c = "\<lambda>kw. call_of ''migrations_run'' []
     [(''targets'', dget kw ''targets''), (''skip'', dget kw ''skip''), (''auto'', dget kw ''auto''),
     (''force_rerun'', dget kw ''force_rerun''), (''accept_disclaimer'', dget kw ''accept_disclaimer''),
     (''skip_postmigrations'', dget kw ''skip_postmigrations''),
     (''confirmation_id'', dget kw ''confirmation_id'')]" and b = "\<lambda>kw. [(''targets'',
     dget kw ''targets''), (''skip'', dget kw ''skip''), (''auto'', dget kw ''auto''),
     (''force_rerun'', dget kw ''force_rerun''), (''accept_disclaimer'', dget kw ''accept_disclaimer''),
     (''skip_postmigrations'', dget kw ''skip_postmigrations''),
     (''confirmation_id'', dget kw ''confirmation_id'')]"])
     apply (simp_all add: tool_migrations_run_def sig_migrations_run_def sg_names_def bind_arguments_def adapter_migrations_run_def dispatch_def sent_def checked_record)
  done

lemma asks_firewall_open: "asks tool_firewall_open ''firewall.open'' (\<lambda>kw. [(''port'', dget kw ''port''),
   (''protocol'', dget kw ''protocol''), (''comment'', dget kw ''comment''), (''upnp'', dget kw ''upnp''),
   (''no_reload'', dget kw ''no_reload''), (''confirmation_id'', dget kw ''confirmation_id'')])"
  apply (rule asksI [OF _ _ method_firewall_open, where c = "\<lambda>kw. call_of ''firewall_open''
     [dget kw ''port'', dget kw ''protocol''] [(''comment'', dget kw ''comment''), (''upnp'', dget kw ''upnp''),
     (''no_reload'', dget kw ''no_reload''), (''confirmation_id'',
     dget kw ''confirmation_id'')]" and b = "\<lambda>kw. [(''port'', dget kw ''port''),
     (''protocol'', dget kw ''protocol''), (''comment'', dget kw ''comment''), (''upnp'', dget kw ''upnp''),
     (''no_reload'', dget kw ''no_reload''), (''confirmation_id'', dget kw ''confirmation_id'')]"])
     apply (simp_all add: tool_firewall_open_def sig_firewall_open_def sg_names_def bind_arguments_def adapter_firewall_open_def dispatch_def sent_def checked_record)
  done

lemma asks_firewall_close: "asks tool_firewall_close ''firewall.close'' (\<lambda>kw. [(''port'',
   dget kw ''port''), (''protocol'', dget kw ''protocol''), (''upnp_only'', dget kw ''upnp_only''),
   (''no_reload'', dget kw ''no_reload''), (''confirmation_id'', dget kw ''confirmation_id'')])"
  apply (rule asksI [OF _ _ method_firewall_close, where c = "\<lambda>kw. call_of ''firewall_close''
     [dget kw ''port'', dget kw ''protocol''] [(''upnp_only'', dget kw ''upnp_only''),
     (''no_reload'', dget kw ''no_reload''), (''confirmation_id'',
     dget kw ''confirmation_id'')]" and b = "\<lambda>kw. [(''port'', dget kw ''port''),
     (''protocol'', dget kw ''protocol''), (''upnp_only'', dget kw ''upnp_only''),
     (''no_reload'', dget kw ''no_reload''), (''confirmation_id'', dget kw ''confirmation_id'')]"])
     apply (simp_all add: tool_firewall_close_def sig_firewall_close_def sg_names_def bind_arguments_def adapter_firewall_close_def dispatch_def sent_def checked_record)
  done

lemma asks_firewall_reload: "asks tool_firewall_reload ''firewall.reload'' (\<lambda>kw. [(''skip_upnp'',
   dget kw ''skip_upnp''), (''confirmation_id'', dget kw ''confirmation_id'')])"
  apply (rule asksI [OF _ _ method_firewall_reload, where c = "\<lambda>kw. call_of ''firewall_reload'' []
     [(''skip_upnp'', dget kw ''skip_upnp''), (''confirmation_id'',
     dget kw ''confirmation_id'')]" and b = "\<lambda>kw. [(''skip_upnp'', dget kw ''skip_upnp''),
     (''confirmation_id'', dget kw ''confirmation_id'')]"])
     apply (simp_all add: tool_firewall_reload_def sig_firewall_reload_def sg_names_def bind_arguments_def adapter_firewall_reload_def dispatch_def sent_def checked_record)
  done

lemma asks_settings_set: "asks tool_settings_set ''settings.set'' (\<lambda>kw. [(''key'', dget kw ''key''),
   (''value'', dget kw ''value''), (''confirmation_id'', dget kw ''confirmation_id'')])"
  apply (rule asksI [OF _ _ method_settings_set, where c = "\<lambda>kw. call_of ''settings_set'' [dget kw ''key'',
     dget kw ''value''] [(''confirmation_id'', dget kw ''confirmation_id'')]" and b = "\<lambda>kw. [(''key'',
     dget kw ''key''), (''value'', dget kw ''value''), (''confirmation_id'', dget kw ''confirmation_id'')]"])
     apply (simp_all add: tool_settings_set_def sig_settings_set_def sg_names_def bind_arguments_def adapter_settings_set_def dispatch_def sent_def checked_record)
  done

lemma asks_regenconf_apply: "asks tool_regenconf_apply ''regenconf.apply'' (\<lambda>kw. [(''names'',
   dget kw ''names''), (''force'', dget kw ''force''), (''confirmation_id'', dget kw ''confirmation_id'')])"
  apply (rule asksI [OF _ _ method_regenconf_apply, where c = "\<lambda>kw. call_of ''regenconf_apply'' []
     [(''names'', dget kw ''names''), (''force'', dget kw ''force''),
     (''confirmation_id'', dget kw ''confirmation_id'')]" and b = "\<lambda>kw. [(''names'', dget kw ''names''),
     (''force'', dget kw ''force''), (''confirmation_id'', dget kw ''confirmation_id'')]"])
     apply (simp_all add: tool_regenconf_apply_def sig_regenconf_apply_def sg_names_def bind_arguments_def adapter_regenconf_apply_def dispatch_def sent_def checked_record)
  done

lemma asks_repair_app: "asks tool_repair_app ''repair.app'' (\<lambda>kw. [(''app'', dget kw ''app''),
   (''strategy'', dget kw ''strategy'')])"
  apply (rule asksI [OF _ _ method_repair_app, where c = "\<lambda>kw. call_of ''repair_app'' [dget kw ''app'']
     [(''strategy'', dget kw ''strategy'')]" and b = "\<lambda>kw. [(''app'', dget kw ''app''),
     (''strategy'', dget kw ''strategy'')]"])
     apply (simp_all add: tool_repair_app_def sig_repair_app_def sg_names_def bind_arguments_def adapter_repair_app_def dispatch_def sent_def checked_record)
  done


subsection \<open>Scopes\<close>

definition scope_agrees :: "tool \<Rightarrow> bool" where
  "scope_agrees T \<longleftrightarrow> (\<forall>A kw op req. (op, req) \<in> set (requests A T kw) \<longrightarrow>
     (\<exists>operation s. map_of OPERATIONS op = Some operation \<and> tl_scope T = Some s \<and> bo_required_scope operation = scope_value s))"

lemma scope_agreesI:
  assumes "asks T op req" "map_of OPERATIONS op = Some (snd (op_entry op sc f))" "tl_scope T = Some s" "scope_value s = sc"
  shows "scope_agrees T"
  using assms by (fastforce simp: scope_agrees_def asks_def op_entry_def)

lemma scope_server_info: "scope_agrees tool_server_info"
  by (rule scope_agreesI [OF asks_server_info to_server_info]) (simp add: tool_server_info_def, simp)
lemma scope_health_check: "scope_agrees tool_health_check"
  by (rule scope_agreesI [OF asks_health_check to_health_check]) (simp add: tool_health_check_def, simp)
lemma scope_apps_list: "scope_agrees tool_apps_list"
  by (rule scope_agreesI [OF asks_apps_list to_apps_list]) (simp add: tool_apps_list_def, simp)
lemma scope_app_info: "scope_agrees tool_app_info"
  by (rule scope_agreesI [OF asks_app_info to_app_info]) (simp add: tool_app_info_def, simp)
lemma scope_app_resources: "scope_agrees tool_app_resources"
  by (rule scope_agreesI [OF asks_app_resources to_app_resources]) (simp add: tool_app_resources_def, simp)
lemma scope_app_config_get: "scope_agrees tool_app_config_get"
  by (rule scope_agreesI [OF asks_app_config_get to_app_config_get]) (simp add: tool_app_config_get_def, simp)
lemma scope_app_setting_get: "scope_agrees tool_app_setting_get"
  by (rule scope_agreesI [OF asks_app_setting_get to_app_setting_get]) (simp add: tool_app_setting_get_def, simp)
lemma scope_diagnosis_run: "scope_agrees tool_diagnosis_run"
  by (rule scope_agreesI [OF asks_diagnosis_run to_diagnosis_run]) (simp add: tool_diagnosis_run_def, simp)
lemma scope_diagnosis_get: "scope_agrees tool_diagnosis_get"
  by (rule scope_agreesI [OF asks_diagnosis_get to_health_check]) (simp add: tool_diagnosis_get_def, simp)
lemma scope_services_list: "scope_agrees tool_services_list"
  by (rule scope_agreesI [OF asks_services_list to_service_status]) (simp add: tool_services_list_def, simp)
lemma scope_service_status: "scope_agrees tool_service_status"
  by (rule scope_agreesI [OF asks_service_status to_service_status]) (simp add: tool_service_status_def, simp)
lemma scope_domains_list: "scope_agrees tool_domains_list"
  by (rule scope_agreesI [OF asks_domains_list to_domains_list]) (simp add: tool_domains_list_def, simp)
lemma scope_domain_cert_info: "scope_agrees tool_domain_cert_info"
  by (rule scope_agreesI [OF asks_domain_cert_info to_domain_cert_info]) (simp add: tool_domain_cert_info_def, simp)
lemma scope_domain_dns_suggest: "scope_agrees tool_domain_dns_suggest"
  by (rule scope_agreesI [OF asks_domain_dns_suggest to_domain_dns_suggest]) (simp add: tool_domain_dns_suggest_def, simp)
lemma scope_domain_dns_push_preview: "scope_agrees tool_domain_dns_push_preview"
  by (rule scope_agreesI [OF asks_domain_dns_push_preview to_domain_dns_push_preview]) (simp add: tool_domain_dns_push_preview_def, simp)
lemma scope_users_list: "scope_agrees tool_users_list"
  by (rule scope_agreesI [OF asks_users_list to_users_list]) (simp add: tool_users_list_def, simp)
lemma scope_user_group_list: "scope_agrees tool_user_group_list"
  by (rule scope_agreesI [OF asks_user_group_list to_user_group_list]) (simp add: tool_user_group_list_def, simp)
lemma scope_user_permission_list: "scope_agrees tool_user_permission_list"
  by (rule scope_agreesI [OF asks_user_permission_list to_user_permission_list]) (simp add: tool_user_permission_list_def, simp)
lemma scope_user_permission_info: "scope_agrees tool_user_permission_info"
  by (rule scope_agreesI [OF asks_user_permission_info to_user_permission_info]) (simp add: tool_user_permission_info_def, simp)
lemma scope_backups_list: "scope_agrees tool_backups_list"
  by (rule scope_agreesI [OF asks_backups_list to_backups_list]) (simp add: tool_backups_list_def, simp)
lemma scope_backup_info: "scope_agrees tool_backup_info"
  by (rule scope_agreesI [OF asks_backup_info to_backup_info]) (simp add: tool_backup_info_def, simp)
lemma scope_operations_list: "scope_agrees tool_operations_list"
  by (rule scope_agreesI [OF asks_operations_list to_operations_list]) (simp add: tool_operations_list_def, simp)
lemma scope_operation_status: "scope_agrees tool_operation_status"
  by (rule scope_agreesI [OF asks_operation_status to_operation_status]) (simp add: tool_operation_status_def, simp)
lemma scope_operation_logs: "scope_agrees tool_operation_logs"
  by (rule scope_agreesI [OF asks_operation_logs to_operation_logs]) (simp add: tool_operation_logs_def, simp)
lemma scope_updates_refresh: "scope_agrees tool_updates_refresh"
  by (rule scope_agreesI [OF asks_updates_refresh to_updates_refresh]) (simp add: tool_updates_refresh_def, simp)
lemma scope_migrations_list: "scope_agrees tool_migrations_list"
  by (rule scope_agreesI [OF asks_migrations_list to_migrations_list]) (simp add: tool_migrations_list_def, simp)
lemma scope_migrations_state: "scope_agrees tool_migrations_state"
  by (rule scope_agreesI [OF asks_migrations_state to_migrations_state]) (simp add: tool_migrations_state_def, simp)
lemma scope_firewall_list: "scope_agrees tool_firewall_list"
  by (rule scope_agreesI [OF asks_firewall_list to_firewall_list]) (simp add: tool_firewall_list_def, simp)
lemma scope_firewall_is_open: "scope_agrees tool_firewall_is_open"
  by (rule scope_agreesI [OF asks_firewall_is_open to_firewall_is_open]) (simp add: tool_firewall_is_open_def, simp)
lemma scope_settings_list: "scope_agrees tool_settings_list"
  by (rule scope_agreesI [OF asks_settings_list to_settings_list]) (simp add: tool_settings_list_def, simp)
lemma scope_settings_get: "scope_agrees tool_settings_get"
  by (rule scope_agreesI [OF asks_settings_get to_settings_get]) (simp add: tool_settings_get_def, simp)
lemma scope_regenconf_pending: "scope_agrees tool_regenconf_pending"
  by (rule scope_agreesI [OF asks_regenconf_pending to_regenconf_pending]) (simp add: tool_regenconf_pending_def, simp)
lemma scope_package_inspect: "scope_agrees tool_package_inspect"
  by (rule scope_agreesI [OF asks_package_inspect to_package_inspect]) (simp add: tool_package_inspect_def, simp)
lemma scope_diagnose_app: "scope_agrees tool_diagnose_app"
  by (rule scope_agreesI [OF asks_diagnose_app to_diagnose_app]) (simp add: tool_diagnose_app_def, simp)
lemma scope_validate_server: "scope_agrees tool_validate_server"
  by (rule scope_agreesI [OF asks_validate_server to_validate_server]) (simp add: tool_validate_server_def, simp)
lemma scope_domain_add: "scope_agrees tool_domain_add"
  by (rule scope_agreesI [OF asks_domain_add to_domain_add]) (simp add: tool_domain_add_def, simp)
lemma scope_domain_cert_install: "scope_agrees tool_domain_cert_install"
  by (rule scope_agreesI [OF asks_domain_cert_install to_domain_cert_install]) (simp add: tool_domain_cert_install_def, simp)
lemma scope_domain_dns_push: "scope_agrees tool_domain_dns_push"
  by (rule scope_agreesI [OF asks_domain_dns_push to_domain_dns_push]) (simp add: tool_domain_dns_push_def, simp)
lemma scope_domain_remove: "scope_agrees tool_domain_remove"
  by (rule scope_agreesI [OF asks_domain_remove to_domain_remove]) (simp add: tool_domain_remove_def, simp)
lemma scope_user_create: "scope_agrees tool_user_create"
  by (rule scope_agreesI [OF asks_user_create to_user_create]) (simp add: tool_user_create_def, simp)
lemma scope_user_update: "scope_agrees tool_user_update"
  by (rule scope_agreesI [OF asks_user_update to_user_update]) (simp add: tool_user_update_def, simp)
lemma scope_user_delete: "scope_agrees tool_user_delete"
  by (rule scope_agreesI [OF asks_user_delete to_user_delete]) (simp add: tool_user_delete_def, simp)
lemma scope_user_group_create: "scope_agrees tool_user_group_create"
  by (rule scope_agreesI [OF asks_user_group_create to_user_group_create]) (simp add: tool_user_group_create_def, simp)
lemma scope_user_group_update: "scope_agrees tool_user_group_update"
  by (rule scope_agreesI [OF asks_user_group_update to_user_group_update]) (simp add: tool_user_group_update_def, simp)
lemma scope_user_group_delete: "scope_agrees tool_user_group_delete"
  by (rule scope_agreesI [OF asks_user_group_delete to_user_group_delete]) (simp add: tool_user_group_delete_def, simp)
lemma scope_user_permission_add: "scope_agrees tool_user_permission_add"
  by (rule scope_agreesI [OF asks_user_permission_add to_user_permission_add]) (simp add: tool_user_permission_add_def, simp)
lemma scope_user_permission_remove: "scope_agrees tool_user_permission_remove"
  by (rule scope_agreesI [OF asks_user_permission_remove to_user_permission_remove]) (simp add: tool_user_permission_remove_def, simp)
lemma scope_user_permission_update: "scope_agrees tool_user_permission_update"
  by (rule scope_agreesI [OF asks_user_permission_update to_user_permission_update]) (simp add: tool_user_permission_update_def, simp)
lemma scope_service_restart: "scope_agrees tool_service_restart"
  by (rule scope_agreesI [OF asks_service_restart to_service_restart]) (simp add: tool_service_restart_def, simp)
lemma scope_service_stop: "scope_agrees tool_service_stop"
  by (rule scope_agreesI [OF asks_service_stop to_service_stop]) (simp add: tool_service_stop_def, simp)
lemma scope_service_start: "scope_agrees tool_service_start"
  by (rule scope_agreesI [OF asks_service_start to_service_start]) (simp add: tool_service_start_def, simp)
lemma scope_backup_create: "scope_agrees tool_backup_create"
  by (rule scope_agreesI [OF asks_backup_create to_backup_create]) (simp add: tool_backup_create_def, simp)
lemma scope_backup_delete: "scope_agrees tool_backup_delete"
  by (rule scope_agreesI [OF asks_backup_delete to_backup_delete]) (simp add: tool_backup_delete_def, simp)
lemma scope_app_install: "scope_agrees tool_app_install"
  by (rule scope_agreesI [OF asks_app_install to_app_install]) (simp add: tool_app_install_def, simp)
lemma scope_app_upgrade: "scope_agrees tool_app_upgrade"
  by (rule scope_agreesI [OF asks_app_upgrade to_app_upgrade]) (simp add: tool_app_upgrade_def, simp)
lemma scope_app_remove: "scope_agrees tool_app_remove"
  by (rule scope_agreesI [OF asks_app_remove to_app_remove]) (simp add: tool_app_remove_def, simp)
lemma scope_app_change_url: "scope_agrees tool_app_change_url"
  by (rule scope_agreesI [OF asks_app_change_url to_app_change_url]) (simp add: tool_app_change_url_def, simp)
lemma scope_app_config_set: "scope_agrees tool_app_config_set"
  by (rule scope_agreesI [OF asks_app_config_set to_app_config_set]) (simp add: tool_app_config_set_def, simp)
lemma scope_app_setting_set: "scope_agrees tool_app_setting_set"
  by (rule scope_agreesI [OF asks_app_setting_set to_app_setting_set]) (simp add: tool_app_setting_set_def, simp)
lemma scope_backup_restore: "scope_agrees tool_backup_restore"
  by (rule scope_agreesI [OF asks_backup_restore to_backup_restore]) (simp add: tool_backup_restore_def, simp)
lemma scope_system_upgrade: "scope_agrees tool_system_upgrade"
  by (rule scope_agreesI [OF asks_system_upgrade to_system_upgrade]) (simp add: tool_system_upgrade_def, simp)
lemma scope_system_reboot: "scope_agrees tool_system_reboot"
  by (rule scope_agreesI [OF asks_system_reboot to_system_reboot]) (simp add: tool_system_reboot_def, simp)
lemma scope_system_shutdown: "scope_agrees tool_system_shutdown"
  by (rule scope_agreesI [OF asks_system_shutdown to_system_shutdown]) (simp add: tool_system_shutdown_def, simp)
lemma scope_migrations_run: "scope_agrees tool_migrations_run"
  by (rule scope_agreesI [OF asks_migrations_run to_migrations_run]) (simp add: tool_migrations_run_def, simp)
lemma scope_firewall_open: "scope_agrees tool_firewall_open"
  by (rule scope_agreesI [OF asks_firewall_open to_firewall_open]) (simp add: tool_firewall_open_def, simp)
lemma scope_firewall_close: "scope_agrees tool_firewall_close"
  by (rule scope_agreesI [OF asks_firewall_close to_firewall_close]) (simp add: tool_firewall_close_def, simp)
lemma scope_firewall_reload: "scope_agrees tool_firewall_reload"
  by (rule scope_agreesI [OF asks_firewall_reload to_firewall_reload]) (simp add: tool_firewall_reload_def, simp)
lemma scope_settings_set: "scope_agrees tool_settings_set"
  by (rule scope_agreesI [OF asks_settings_set to_settings_set]) (simp add: tool_settings_set_def, simp)
lemma scope_regenconf_apply: "scope_agrees tool_regenconf_apply"
  by (rule scope_agreesI [OF asks_regenconf_apply to_regenconf_apply]) (simp add: tool_regenconf_apply_def, simp)
lemma scope_repair_app: "scope_agrees tool_repair_app"
  by (rule scope_agreesI [OF asks_repair_app to_repair_app]) (simp add: tool_repair_app_def, simp)

lemma all_scopes:
  "list_all (\<lambda>T. tl_name T \<in> {''updates_check'', ''package_logs''} \<or> scope_agrees T) (READ_TOOLS @ WRITE_TOOLS)"
  by (simp add: READ_TOOLS_def WRITE_TOOLS_def tool_updates_check_def tool_package_logs_def
    scope_server_info scope_health_check scope_apps_list scope_app_info scope_app_resources scope_app_config_get
    scope_app_setting_get scope_diagnosis_run scope_diagnosis_get scope_services_list scope_service_status
    scope_domains_list scope_domain_cert_info scope_domain_dns_suggest scope_domain_dns_push_preview
    scope_users_list scope_user_group_list scope_user_permission_list scope_user_permission_info
    scope_backups_list scope_backup_info scope_operations_list scope_operation_status scope_operation_logs
    scope_updates_refresh scope_migrations_list scope_migrations_state scope_firewall_list scope_firewall_is_open
    scope_settings_list scope_settings_get scope_regenconf_pending scope_package_inspect scope_diagnose_app
    scope_validate_server scope_domain_add scope_domain_cert_install scope_domain_dns_push scope_domain_remove
    scope_user_create scope_user_update scope_user_delete scope_user_group_create scope_user_group_update
    scope_user_group_delete scope_user_permission_add scope_user_permission_remove scope_user_permission_update
    scope_service_restart scope_service_stop scope_service_start scope_backup_create scope_backup_delete
    scope_app_install scope_app_upgrade scope_app_remove scope_app_change_url scope_app_config_set
    scope_app_setting_set scope_backup_restore scope_system_upgrade scope_system_reboot scope_system_shutdown
    scope_migrations_run scope_firewall_open scope_firewall_close scope_firewall_reload scope_settings_set
    scope_regenconf_apply scope_repair_app)

subsection \<open>Confirmations\<close>

lemma hash_same:
  assumes "distinct ks" "distinct ks'" "set ks = set ks'"
  shows "hash_arguments L (sent d ks) = hash_arguments L (sent d ks')"
proof -
  let ?f = "map (map_prod id json_sorted)"
  have "mset ks = mset ks'" using assms by (simp add: set_eq_iff_mset_eq_distinct)
  then have m: "mset (?f (sent d ks')) = mset (?f (sent d ks))" by (simp add: sent_def)
  have "map fst (?f (sent d ks')) = ks'" by (simp add: sent_def comp_def)
  with assms(2) have inj: "inj_on fst (set (?f (sent d ks')))" by (metis distinct_map)
  have "sort_key fst (?f (sent d ks')) = sort_key fst (?f (sent d ks))"
  proof (rule sort_key_inj_key_eq)
    show "mset (?f (sent d ks')) = mset (sort_key fst (?f (sent d ks)))" using m by (simp only: mset_sort)
  qed (simp_all only: inj sorted_sort_key)
  then show ?thesis by (simp add: hash_arguments_def)
qed

text \<open>What the broker binds for the tool's request is what the tool's own gate bound.\<close>

definition carried :: "tool \<Rightarrow> bool" where
  "carried T \<longleftrightarrow> (\<forall>A kw op req g. tl_gate T = Some g \<and> (op, req) \<in> set (requests A T kw) \<and>
       dkeys (dpop kw ''confirmation_id'') = filter (\<lambda>p. p \<noteq> ''confirmation_id'') (map fst (tl_params T)) \<longrightarrow>
     (\<exists>key keys. tg_policy_key g (dpop kw ''confirmation_id'') = Inr key \<and> policy_name_for_operation op req = Some key \<and>
       map_of CONFIRMATION_ARGUMENT_KEYS op = Some keys \<and>
       (\<forall>L. hash_arguments L (bound_arguments keys req) = hash_arguments L (dpop kw ''confirmation_id'')) \<and>
       dget req ''confirmation_id'' = dget kw ''confirmation_id''))"

lemma keys_sent: "dkeys d = ks \<Longrightarrow> distinct ks \<Longrightarrow> d = sent d ks"
  unfolding sent_def dkeys_def by (subst map_idI [where xs = d and f = "\<lambda>p. (fst p, dget d (fst p))", symmetric])
    (auto simp: dget_def comp_def)

lemma carriedI:
  assumes "asks T op req" "tl_gate T = Some g"
    and "filter (\<lambda>p. p \<noteq> ''confirmation_id'') (map fst (tl_params T)) = ks" "distinct ks"
    and "map_of CONFIRMATION_ARGUMENT_KEYS op = Some keys" "distinct keys" "set keys = set ks"
    and "\<And>kw. bound_arguments keys (req kw) = sent kw keys"
    and "\<And>kw. \<exists>key. tg_policy_key g (sent kw ks) = Inr key \<and> policy_name_for_operation op (req kw) = Some key"
    and "\<And>kw. dget (req kw) ''confirmation_id'' = dget kw ''confirmation_id''"
  shows "carried T"
proof -
  have "\<exists>key keys. tg_policy_key g' (dpop kw ''confirmation_id'') = Inr key \<and> policy_name_for_operation op' req' = Some key \<and>
       map_of CONFIRMATION_ARGUMENT_KEYS op' = Some keys \<and>
       (\<forall>L. hash_arguments L (bound_arguments keys req') = hash_arguments L (dpop kw ''confirmation_id'')) \<and>
       dget req' ''confirmation_id'' = dget kw ''confirmation_id''"
    if r: "tl_gate T = Some g'" "(op', req') \<in> set (requests A T kw)"
      "dkeys (dpop kw ''confirmation_id'') = filter (\<lambda>p. p \<noteq> ''confirmation_id'') (map fst (tl_params T))" for A kw op' req' g'
  proof -
    from r(1,2) assms(1,2) have eq: "g' = g" "op' = op" "req' = req kw" by (auto simp: asks_def)
    have no: "''confirmation_id'' \<notin> set ks" using assms(3) by auto
    from r(3) assms(3) have "dkeys (dpop kw ''confirmation_id'') = ks" by simp
    from keys_sent [OF this assms(4)] have "dpop kw ''confirmation_id'' = sent (dpop kw ''confirmation_id'') ks" .
    also have "\<dots> = sent kw ks"
    proof -
      have "dget (dpop kw ''confirmation_id'') k = dget kw k" if "k \<in> set ks" for k
        using that no by (auto simp: dget_dpop)
      then show ?thesis by (simp add: sent_def)
    qed
    finally have d: "dpop kw ''confirmation_id'' = sent kw ks" .
    from assms(9) [of kw] obtain key where "tg_policy_key g (sent kw ks) = Inr key" "policy_name_for_operation op (req kw) = Some key" by blast
    with assms(5,8,10) hash_same [OF assms(6,4,7)] show ?thesis unfolding eq d by auto
  qed
  then show ?thesis unfolding carried_def by blast
qed

lemma carried_domain_add: "carried tool_domain_add"
  by (rule carriedI [OF asks_domain_add, where keys = "[''domain'', ''install_letsencrypt_cert'']"])
    (auto simp: tool_domain_add_def CONFIRMATION_ARGUMENT_KEYS_def bound_arguments_def policy_name_for_operation_def POLICY_NAME_BY_OPERATION_def
      sent_def policy_key_defs user_create_policy_key_def user_group_update_policy_key_def Let_def dget_eq_default)
lemma carried_domain_cert_install: "carried tool_domain_cert_install"
  by (rule carriedI [OF asks_domain_cert_install, where keys = "[''domain'', ''letsencrypt'', ''staging'']"])
    (auto simp: tool_domain_cert_install_def CONFIRMATION_ARGUMENT_KEYS_def bound_arguments_def policy_name_for_operation_def POLICY_NAME_BY_OPERATION_def
      sent_def policy_key_defs user_create_policy_key_def user_group_update_policy_key_def Let_def dget_eq_default)
lemma carried_domain_dns_push: "carried tool_domain_dns_push"
  by (rule carriedI [OF asks_domain_dns_push, where keys = "[''domain'', ''force'', ''purge'']"])
    (auto simp: tool_domain_dns_push_def CONFIRMATION_ARGUMENT_KEYS_def bound_arguments_def policy_name_for_operation_def POLICY_NAME_BY_OPERATION_def
      sent_def policy_key_defs user_create_policy_key_def user_group_update_policy_key_def Let_def dget_eq_default)
lemma carried_domain_remove: "carried tool_domain_remove"
  by (rule carriedI [OF asks_domain_remove, where keys = "[''domain'', ''remove_apps'', ''force'']"])
    (auto simp: tool_domain_remove_def CONFIRMATION_ARGUMENT_KEYS_def bound_arguments_def policy_name_for_operation_def POLICY_NAME_BY_OPERATION_def
      sent_def policy_key_defs user_create_policy_key_def user_group_update_policy_key_def Let_def dget_eq_default)
lemma carried_user_create: "carried tool_user_create"
  by (rule carriedI [OF asks_user_create, where keys = "[''username'', ''domain'', ''password'', ''fullname'', ''mailbox_quota'', ''admin'']"])
    (auto simp: tool_user_create_def CONFIRMATION_ARGUMENT_KEYS_def bound_arguments_def policy_name_for_operation_def POLICY_NAME_BY_OPERATION_def
      sent_def policy_key_defs user_create_policy_key_def user_group_update_policy_key_def Let_def dget_eq_default)
lemma carried_user_update: "carried tool_user_update"
  by (rule carriedI [OF asks_user_update, where keys = "[''username'', ''mail'', ''change_password'', ''add_mailforward'', ''remove_mailforward'', ''add_mailalias'', ''remove_mailalias'', ''mailbox_quota'', ''fullname'']"])
    (auto simp: tool_user_update_def CONFIRMATION_ARGUMENT_KEYS_def bound_arguments_def policy_name_for_operation_def POLICY_NAME_BY_OPERATION_def
      sent_def policy_key_defs user_create_policy_key_def user_group_update_policy_key_def Let_def dget_eq_default)
lemma carried_user_delete: "carried tool_user_delete"
  by (rule carriedI [OF asks_user_delete, where keys = "[''username'', ''purge'']"])
    (auto simp: tool_user_delete_def CONFIRMATION_ARGUMENT_KEYS_def bound_arguments_def policy_name_for_operation_def POLICY_NAME_BY_OPERATION_def
      sent_def policy_key_defs user_create_policy_key_def user_group_update_policy_key_def Let_def dget_eq_default)
lemma carried_user_group_create: "carried tool_user_group_create"
  by (rule carriedI [OF asks_user_group_create, where keys = "[''groupname'']"])
    (auto simp: tool_user_group_create_def CONFIRMATION_ARGUMENT_KEYS_def bound_arguments_def policy_name_for_operation_def POLICY_NAME_BY_OPERATION_def
      sent_def policy_key_defs user_create_policy_key_def user_group_update_policy_key_def Let_def dget_eq_default)
lemma carried_user_group_update: "carried tool_user_group_update"
  by (rule carriedI [OF asks_user_group_update, where keys = "[''groupname'', ''add'', ''remove'']"])
    (auto simp: tool_user_group_update_def CONFIRMATION_ARGUMENT_KEYS_def bound_arguments_def policy_name_for_operation_def POLICY_NAME_BY_OPERATION_def
      sent_def policy_key_defs user_create_policy_key_def user_group_update_policy_key_def Let_def dget_eq_default)
lemma carried_user_group_delete: "carried tool_user_group_delete"
  by (rule carriedI [OF asks_user_group_delete, where keys = "[''groupname'']"])
    (auto simp: tool_user_group_delete_def CONFIRMATION_ARGUMENT_KEYS_def bound_arguments_def policy_name_for_operation_def POLICY_NAME_BY_OPERATION_def
      sent_def policy_key_defs user_create_policy_key_def user_group_update_policy_key_def Let_def dget_eq_default)
lemma carried_user_permission_add: "carried tool_user_permission_add"
  by (rule carriedI [OF asks_user_permission_add, where keys = "[''permission'', ''names'']"])
    (auto simp: tool_user_permission_add_def CONFIRMATION_ARGUMENT_KEYS_def bound_arguments_def policy_name_for_operation_def POLICY_NAME_BY_OPERATION_def
      sent_def policy_key_defs user_create_policy_key_def user_group_update_policy_key_def Let_def dget_eq_default)
lemma carried_user_permission_remove: "carried tool_user_permission_remove"
  by (rule carriedI [OF asks_user_permission_remove, where keys = "[''permission'', ''names'']"])
    (auto simp: tool_user_permission_remove_def CONFIRMATION_ARGUMENT_KEYS_def bound_arguments_def policy_name_for_operation_def POLICY_NAME_BY_OPERATION_def
      sent_def policy_key_defs user_create_policy_key_def user_group_update_policy_key_def Let_def dget_eq_default)
lemma carried_user_permission_update: "carried tool_user_permission_update"
  by (rule carriedI [OF asks_user_permission_update, where keys = "[''permission'', ''label'', ''show_tile'', ''protected'']"])
    (auto simp: tool_user_permission_update_def CONFIRMATION_ARGUMENT_KEYS_def bound_arguments_def policy_name_for_operation_def POLICY_NAME_BY_OPERATION_def
      sent_def policy_key_defs user_create_policy_key_def user_group_update_policy_key_def Let_def dget_eq_default)
lemma carried_service_restart: "carried tool_service_restart"
  by (rule carriedI [OF asks_service_restart, where keys = "[''names'']"])
    (auto simp: tool_service_restart_def CONFIRMATION_ARGUMENT_KEYS_def bound_arguments_def policy_name_for_operation_def POLICY_NAME_BY_OPERATION_def
      sent_def policy_key_defs user_create_policy_key_def user_group_update_policy_key_def Let_def dget_eq_default)
lemma carried_service_stop: "carried tool_service_stop"
  by (rule carriedI [OF asks_service_stop, where keys = "[''names'']"])
    (auto simp: tool_service_stop_def CONFIRMATION_ARGUMENT_KEYS_def bound_arguments_def policy_name_for_operation_def POLICY_NAME_BY_OPERATION_def
      sent_def policy_key_defs user_create_policy_key_def user_group_update_policy_key_def Let_def dget_eq_default)
lemma carried_backup_create: "carried tool_backup_create"
  by (rule carriedI [OF asks_backup_create, where keys = "[''name'', ''description'', ''apps'', ''system'']"])
    (auto simp: tool_backup_create_def CONFIRMATION_ARGUMENT_KEYS_def bound_arguments_def policy_name_for_operation_def POLICY_NAME_BY_OPERATION_def
      sent_def policy_key_defs user_create_policy_key_def user_group_update_policy_key_def Let_def dget_eq_default)
lemma carried_backup_delete: "carried tool_backup_delete"
  by (rule carriedI [OF asks_backup_delete, where keys = "[''name'']"])
    (auto simp: tool_backup_delete_def CONFIRMATION_ARGUMENT_KEYS_def bound_arguments_def policy_name_for_operation_def POLICY_NAME_BY_OPERATION_def
      sent_def policy_key_defs user_create_policy_key_def user_group_update_policy_key_def Let_def dget_eq_default)
lemma carried_app_install: "carried tool_app_install"
  by (rule carriedI [OF asks_app_install, where keys = "[''app'', ''label'', ''args'', ''force'']"])
    (auto simp: tool_app_install_def CONFIRMATION_ARGUMENT_KEYS_def bound_arguments_def policy_name_for_operation_def POLICY_NAME_BY_OPERATION_def
      sent_def policy_key_defs user_create_policy_key_def user_group_update_policy_key_def Let_def dget_eq_default)
lemma carried_app_upgrade: "carried tool_app_upgrade"
  by (rule carriedI [OF asks_app_upgrade, where keys = "[''app'', ''force'', ''url'']"])
    (auto simp: tool_app_upgrade_def CONFIRMATION_ARGUMENT_KEYS_def bound_arguments_def policy_name_for_operation_def POLICY_NAME_BY_OPERATION_def
      sent_def policy_key_defs user_create_policy_key_def user_group_update_policy_key_def Let_def dget_eq_default)
lemma carried_app_remove: "carried tool_app_remove"
  by (rule carriedI [OF asks_app_remove, where keys = "[''app'', ''purge'']"])
    (auto simp: tool_app_remove_def CONFIRMATION_ARGUMENT_KEYS_def bound_arguments_def policy_name_for_operation_def POLICY_NAME_BY_OPERATION_def
      sent_def policy_key_defs user_create_policy_key_def user_group_update_policy_key_def Let_def dget_eq_default)
lemma carried_app_change_url: "carried tool_app_change_url"
  by (rule carriedI [OF asks_app_change_url, where keys = "[''app'', ''domain'', ''path'']"])
    (auto simp: tool_app_change_url_def CONFIRMATION_ARGUMENT_KEYS_def bound_arguments_def policy_name_for_operation_def POLICY_NAME_BY_OPERATION_def
      sent_def policy_key_defs user_create_policy_key_def user_group_update_policy_key_def Let_def dget_eq_default)
lemma carried_app_config_set: "carried tool_app_config_set"
  by (rule carriedI [OF asks_app_config_set, where keys = "[''app'', ''key'', ''value'']"])
    (auto simp: tool_app_config_set_def CONFIRMATION_ARGUMENT_KEYS_def bound_arguments_def policy_name_for_operation_def POLICY_NAME_BY_OPERATION_def
      sent_def policy_key_defs user_create_policy_key_def user_group_update_policy_key_def Let_def dget_eq_default)
lemma carried_app_setting_set: "carried tool_app_setting_set"
  by (rule carriedI [OF asks_app_setting_set, where keys = "[''app'', ''key'', ''value'', ''delete'']"])
    (auto simp: tool_app_setting_set_def CONFIRMATION_ARGUMENT_KEYS_def bound_arguments_def policy_name_for_operation_def POLICY_NAME_BY_OPERATION_def
      sent_def policy_key_defs user_create_policy_key_def user_group_update_policy_key_def Let_def dget_eq_default)
lemma carried_backup_restore: "carried tool_backup_restore"
  by (rule carriedI [OF asks_backup_restore, where keys = "[''name'', ''apps'', ''system'', ''force'']"])
    (auto simp: tool_backup_restore_def CONFIRMATION_ARGUMENT_KEYS_def bound_arguments_def policy_name_for_operation_def POLICY_NAME_BY_OPERATION_def
      sent_def policy_key_defs user_create_policy_key_def user_group_update_policy_key_def Let_def dget_eq_default)
lemma carried_system_upgrade: "carried tool_system_upgrade"
  by (rule carriedI [OF asks_system_upgrade, where keys = "[]"])
    (auto simp: tool_system_upgrade_def CONFIRMATION_ARGUMENT_KEYS_def bound_arguments_def policy_name_for_operation_def POLICY_NAME_BY_OPERATION_def
      sent_def policy_key_defs user_create_policy_key_def user_group_update_policy_key_def Let_def dget_eq_default)
lemma carried_system_reboot: "carried tool_system_reboot"
  by (rule carriedI [OF asks_system_reboot, where keys = "[]"])
    (auto simp: tool_system_reboot_def CONFIRMATION_ARGUMENT_KEYS_def bound_arguments_def policy_name_for_operation_def POLICY_NAME_BY_OPERATION_def
      sent_def policy_key_defs user_create_policy_key_def user_group_update_policy_key_def Let_def dget_eq_default)
lemma carried_system_shutdown: "carried tool_system_shutdown"
  by (rule carriedI [OF asks_system_shutdown, where keys = "[]"])
    (auto simp: tool_system_shutdown_def CONFIRMATION_ARGUMENT_KEYS_def bound_arguments_def policy_name_for_operation_def POLICY_NAME_BY_OPERATION_def
      sent_def policy_key_defs user_create_policy_key_def user_group_update_policy_key_def Let_def dget_eq_default)
lemma carried_migrations_run: "carried tool_migrations_run"
  by (rule carriedI [OF asks_migrations_run, where keys = "[''targets'', ''skip'', ''auto'', ''force_rerun'', ''accept_disclaimer'', ''skip_postmigrations'']"])
    (auto simp: tool_migrations_run_def CONFIRMATION_ARGUMENT_KEYS_def bound_arguments_def policy_name_for_operation_def POLICY_NAME_BY_OPERATION_def
      sent_def policy_key_defs user_create_policy_key_def user_group_update_policy_key_def Let_def dget_eq_default)
lemma carried_firewall_open: "carried tool_firewall_open"
  by (rule carriedI [OF asks_firewall_open, where keys = "[''port'', ''protocol'', ''comment'', ''upnp'', ''no_reload'']"])
    (auto simp: tool_firewall_open_def CONFIRMATION_ARGUMENT_KEYS_def bound_arguments_def policy_name_for_operation_def POLICY_NAME_BY_OPERATION_def
      sent_def policy_key_defs user_create_policy_key_def user_group_update_policy_key_def Let_def dget_eq_default)
lemma carried_firewall_close: "carried tool_firewall_close"
  by (rule carriedI [OF asks_firewall_close, where keys = "[''port'', ''protocol'', ''upnp_only'', ''no_reload'']"])
    (auto simp: tool_firewall_close_def CONFIRMATION_ARGUMENT_KEYS_def bound_arguments_def policy_name_for_operation_def POLICY_NAME_BY_OPERATION_def
      sent_def policy_key_defs user_create_policy_key_def user_group_update_policy_key_def Let_def dget_eq_default)
lemma carried_firewall_reload: "carried tool_firewall_reload"
  by (rule carriedI [OF asks_firewall_reload, where keys = "[''skip_upnp'']"])
    (auto simp: tool_firewall_reload_def CONFIRMATION_ARGUMENT_KEYS_def bound_arguments_def policy_name_for_operation_def POLICY_NAME_BY_OPERATION_def
      sent_def policy_key_defs user_create_policy_key_def user_group_update_policy_key_def Let_def dget_eq_default)
lemma carried_settings_set: "carried tool_settings_set"
  by (rule carriedI [OF asks_settings_set, where keys = "[''key'', ''value'']"])
    (auto simp: tool_settings_set_def CONFIRMATION_ARGUMENT_KEYS_def bound_arguments_def policy_name_for_operation_def POLICY_NAME_BY_OPERATION_def
      sent_def policy_key_defs user_create_policy_key_def user_group_update_policy_key_def Let_def dget_eq_default)
lemma carried_regenconf_apply: "carried tool_regenconf_apply"
  by (rule carriedI [OF asks_regenconf_apply, where keys = "[''names'', ''force'']"])
    (auto simp: tool_regenconf_apply_def CONFIRMATION_ARGUMENT_KEYS_def bound_arguments_def policy_name_for_operation_def POLICY_NAME_BY_OPERATION_def
      sent_def policy_key_defs user_create_policy_key_def user_group_update_policy_key_def Let_def dget_eq_default)

lemma all_carried:
  "list_all (\<lambda>T. tl_name T \<in> {''service_start'', ''repair_app''} \<or> carried T) WRITE_TOOLS"
  by (simp add: WRITE_TOOLS_def tool_service_start_def tool_repair_app_def
    carried_domain_add carried_domain_cert_install carried_domain_dns_push carried_domain_remove
    carried_user_create carried_user_update carried_user_delete carried_user_group_create carried_user_group_update
    carried_user_group_delete carried_user_permission_add carried_user_permission_remove carried_user_permission_update
    carried_service_restart carried_service_stop carried_backup_create carried_backup_delete carried_app_install
    carried_app_upgrade carried_app_remove carried_app_change_url carried_app_config_set carried_app_setting_set
    carried_backup_restore carried_system_upgrade carried_system_reboot carried_system_shutdown
    carried_migrations_run carried_firewall_open carried_firewall_close carried_firewall_reload
    carried_settings_set carried_regenconf_apply)

subsection \<open>One confirmation, two gates\<close>

text \<open>
  The scope a tool asks for is the scope its operation requires. Whatever a tool of the table sends
  to the broker is a registered operation whose required scope is the tool's own, so a caller that passes the
  server's check passes the broker's and the other way round. (The two exceptions are known:
  \<open>updates_check\<close> and \<open>package_logs\<close> ask the caller for less than their operation does.)
\<close>

theorem tool_scopes_agree:
  assumes "T \<in> set READ_TOOLS \<union> set WRITE_TOOLS" "tl_name T \<notin> {''updates_check'', ''package_logs''}"
    and "(op, req) \<in> set (requests A T kwargs)"
  shows "\<exists>operation s. map_of OPERATIONS op = Some operation \<and> tl_scope T = Some s \<and> bo_required_scope operation = scope_value s"
proof -
  from assms(1,2) all_scopes have "scope_agrees T" by (auto simp: list_all_iff)
  with assms(3) show ?thesis unfolding scope_agrees_def by blast
qed

theorem tool_scopes_agree_witness:
  "\<exists>operation s. map_of OPERATIONS ''user.delete'' = Some operation \<and> tl_scope tool_user_delete = Some s \<and>
     bo_required_scope operation = scope_value s"
proof -
  have t: "tool_user_delete \<in> set READ_TOOLS \<union> set WRITE_TOOLS" by (simp add: WRITE_TOOLS_def)
  have "tl_name tool_user_delete \<notin> {''updates_check'', ''package_logs''}" by (simp add: tool_user_delete_def)
  moreover have "requests (undefined :: (string \<times> dict) list adapter_env) tool_user_delete [] =
      [(''user.delete'', [(''username'', JNull), (''purge'', JNull), (''confirmation_id'', JNull)])]"
    by (simp add: requests_def tool_user_delete_def call_method_def method_user_delete BROKERED_METHODS_def bind_arguments_def
        sig_user_delete_def sg_names_def adapter_user_delete_def dispatch_def sent_def)
  ultimately show ?thesis using tool_scopes_agree [OF t, of "''user.delete''" _ undefined "[]"] by auto
qed

lemma confirmation_carries:
  assumes "T \<in> set WRITE_TOOLS" "tl_name T \<noteq> ''service_start''" "tl_gate T = Some g"
    and "(op, req) \<in> set (requests A T kwargs)"
    and "dkeys (dpop kwargs ''confirmation_id'') = filter (\<lambda>p. p \<noteq> ''confirmation_id'') (map fst (tl_params T))"
  shows "\<exists>key keys. tg_policy_key g (dpop kwargs ''confirmation_id'') = Inr key \<and> policy_name_for_operation op req = Some key \<and>
    map_of CONFIRMATION_ARGUMENT_KEYS op = Some keys \<and>
    hash_arguments L (bound_arguments keys req) = hash_arguments L (dpop kwargs ''confirmation_id'') \<and>
    dget req ''confirmation_id'' = dget kwargs ''confirmation_id''"
proof -
  have "list_all (\<lambda>T. tl_name T = ''repair_app'' \<longrightarrow> tl_gate T = None) WRITE_TOOLS"
    by (simp add: WRITE_TOOLS_def tool_domain_add_def tool_domain_cert_install_def tool_domain_dns_push_def tool_domain_remove_def
      tool_user_create_def tool_user_update_def tool_user_delete_def tool_user_group_create_def
      tool_user_group_update_def tool_user_group_delete_def tool_user_permission_add_def
      tool_user_permission_remove_def tool_user_permission_update_def tool_service_restart_def
      tool_service_stop_def tool_service_start_def tool_backup_create_def tool_backup_delete_def
      tool_app_install_def tool_app_upgrade_def tool_app_remove_def tool_app_change_url_def
      tool_app_config_set_def tool_app_setting_set_def tool_backup_restore_def tool_system_upgrade_def
      tool_system_reboot_def tool_system_shutdown_def tool_migrations_run_def tool_firewall_open_def
      tool_firewall_close_def tool_firewall_reload_def tool_settings_set_def tool_regenconf_apply_def
      tool_repair_app_def)
  with assms(1,3) have "tl_name T \<noteq> ''repair_app''" by (auto simp: list_all_iff)
  with assms(1,2) all_carried have "carried T" by (auto simp: list_all_iff)
  with assms(3-5) show ?thesis unfolding carried_def by blast
qed

text \<open>
  C13: a confirmation of a write tool names the same thing on both sides. For each of the 33 gated tools of
  \<open>WRITE_TOOLS\<close> other than \<open>service_start\<close> - the tools whose body is one adapter call - the policy key
  that the server's gate computes from the tool's arguments is the one the broker computes from the request, the
  argument hash the server binds into a ticket is the hash the broker compares, and the confirmation id arrives
  unchanged. This is not stated of \<open>service_start\<close>, which has no counterpart at the broker, nor of the twelve gated
  tools with bodies of their own: the package tests, \<open>safe_upgrade\<close>, \<open>catalog_publish\<close>, and \<open>audit_list\<close> and
  \<open>audit_get\<close>, which never reach the broker.
\<close>

theorem confirmation_carries_over:
  assumes "T \<in> set WRITE_TOOLS" "tl_name T \<noteq> ''service_start''" "tl_gate T = Some g"
    and "(op, req) \<in> set (requests A T kwargs)"
    and "dkeys (dpop kwargs ''confirmation_id'') = filter (\<lambda>p. p \<noteq> ''confirmation_id'') (map fst (tl_params T))"
  shows "\<exists>key keys. tg_policy_key g (dpop kwargs ''confirmation_id'') = Inr key \<and> policy_name_for_operation op req = Some key \<and>
    map_of CONFIRMATION_ARGUMENT_KEYS op = Some keys \<and>
    hash_arguments L (bound_arguments keys req) = hash_arguments L (dpop kwargs ''confirmation_id'') \<and>
    dget req ''confirmation_id'' = dget kwargs ''confirmation_id''"
  using assms by (rule confirmation_carries)

lemma write_gates_defer:
  assumes "T \<in> set WRITE_TOOLS" "tl_gate T = Some g"
  shows "tg_defer g"
proof -
  have "list_all (\<lambda>T. case tl_gate T of None \<Rightarrow> True | Some g \<Rightarrow> tg_defer g) WRITE_TOOLS"
    by (simp add: WRITE_TOOLS_def tool_domain_add_def tool_domain_cert_install_def tool_domain_dns_push_def tool_domain_remove_def
      tool_user_create_def tool_user_update_def tool_user_delete_def tool_user_group_create_def
      tool_user_group_update_def tool_user_group_delete_def tool_user_permission_add_def
      tool_user_permission_remove_def tool_user_permission_update_def tool_service_restart_def
      tool_service_stop_def tool_service_start_def tool_backup_create_def tool_backup_delete_def
      tool_app_install_def tool_app_upgrade_def tool_app_remove_def tool_app_change_url_def
      tool_app_config_set_def tool_app_setting_set_def tool_backup_restore_def tool_system_upgrade_def
      tool_system_reboot_def tool_system_shutdown_def tool_migrations_run_def tool_firewall_open_def
      tool_firewall_close_def tool_firewall_reload_def tool_settings_set_def tool_regenconf_apply_def
      tool_repair_app_def)
  with assms show ?thesis by (auto simp: list_all_iff)
qed

lemma dpop_dset: "dpop (dset (dpop d k) k v) k = dpop d k"
proof -
  have "dpop (dset e k v) k = e" if "k \<notin> set (dkeys e)" for e
    using that by (induction e k v rule: dset.induct) (auto simp: dpop_def dkeys_def)
  moreover have "k \<notin> set (dkeys (dpop d k))" by (auto simp: dpop_def dkeys_def)
  ultimately show ?thesis by blast
qed

text \<open>What the server found out about the ticket it lets through, when the broker is to consume it.\<close>

lemma gate_peeked:
  assumes good: "sql_good L ttl owner_ttl st" "sql_view L st [] = None"
    and rule: "cg_defer_to_broker G"
    and run: "require_confirmation_gate L (sql_api L) now new_id G (Some rq) kwargs st = (st', Inr (Run args (Some t)))"
  shows "\<exists>key. cg_policy_key G (dpop kwargs ''confirmation_id'') = Inr key \<and>
    require_confirmation (policy_get (cg_policy G) key) \<and>
    dpop args ''confirmation_id'' = dpop kwargs ''confirmation_id'' \<and>
    dget args ''confirmation_id'' = JStr (confirmation_arg kwargs) \<and>
    sql_good L ttl owner_ttl st' \<and> sql_view L st' (confirmation_arg kwargs) = Some (t, False) \<and>
    tk_pubkey t = rq_pubkey rq \<and> tk_tool t = key \<and>
    tk_arguments_hash t = hash_arguments L (dpop kwargs ''confirmation_id'') \<and>
    (require_owner_signature (policy_get (cg_policy G) key) \<longrightarrow> tk_owner_approved_by t \<noteq> None)"
proof -
  let ?cid = "confirmation_arg kwargs" and ?kw = "dpop kwargs ''confirmation_id''"
  obtain key rule where g: "gated G (Some rq) kwargs rq key rule"
    using run by (fastforce simp: require_confirmation_gate_def gated_def require_current_request_def Let_def
        split: sum.splits option.splits prod.splits if_splits)
  from gate_Run [OF g run] have p: "present_ticket L (sql_api L) now G rule ?cid (rq_pubkey rq) key ?kw st = (st', Inr t)"
    and args: "args = (if dget kwargs ''confirmation_id'' = JNull then ?kw else dset ?kw ''confirmation_id'' (dget kwargs ''confirmation_id''))"
    by auto
  from p have "snd (present_ticket L (sql_api L) now G rule ?cid (rq_pubkey rq) key ?kw st) = Inr t" by simp
  from sql.present_valid [OF good(1) this] good(2) have cid: "?cid \<noteq> []" by auto
  then have id: "dget kwargs ''confirmation_id'' = JStr ?cid" by (auto simp: confirmation_arg_def split: json.splits)
  from p cid rule obtain t' where peeked: "sql_peek L now ?cid st = (st', Inr t')" and check: "frontend_check L rule (rq_pubkey rq) key ?kw t' = Inr t"
    by (auto simp: present_ticket_def sql_api_def split: prod.splits sum.splits)
  from sql.peek [OF good(1), of now ?cid] peeked have v: "sql_good L ttl owner_ttl st'" "spec_peek now ?cid (sql_view L st) = (sql_view L st', Inr t')"
    by (auto simp: refines_def sql_api_def prod_eq_iff)
  then have "sql_view L st' ?cid = Some (t', False)" by (auto simp: spec_peek_def split: option.splits if_splits)
  moreover from check have "t' = t" "tk_pubkey t = rq_pubkey rq" "tk_tool t = key" "tk_arguments_hash t = hash_arguments L ?kw"
    "require_owner_signature rule \<longrightarrow> tk_owner_approved_by t \<noteq> None"
    by (auto simp: frontend_check_def split: if_splits)
  moreover have "dpop args ''confirmation_id'' = ?kw" "dget args ''confirmation_id'' = JStr ?cid"
    using id by (simp_all add: args dpop_dset dget_dset)
  ultimately show ?thesis using g v(1) by (auto simp: gated_def)
qed

text \<open>
  C12: an approved call of a write tool is not refused half way. If the server's gate lets a call of one of the 33
  gated tools of \<open>WRITE_TOOLS\<close> other than \<open>service_start\<close> through with a ticket that the broker is to consume, and
  the broker's hard checks pass and the ticket has not expired meanwhile, then the broker's gate accepts the
  tool's request with the same policy and store, claims that ticket, and leaves every other ticket as it was.
  This is not stated of the gated tools with bodies of their own: among these, \<open>package_run_tests\<close> and
  \<open>test_package\<close> send other arguments than were confirmed where they resolved the app id themselves, and are refused.
\<close>

theorem one_approval_both_gates:
  assumes "T \<in> set WRITE_TOOLS" "tl_name T \<noteq> ''service_start''" "tl_gate T = Some g" "ad_broker (se_adapter E) \<noteq> None"
    and "dkeys (dpop kwargs ''confirmation_id'') = filter (\<lambda>p. p \<noteq> ''confirmation_id'') (map fst (tl_params T))"
    and "sql_good L ttl owner_ttl st" "sql_view L st [] = None"
    and "require_confirmation_gate L (sql_api L) now new_id (gate_of E y g) (Some rq) kwargs st = (st', Inr (Run args (Some t)))"
    and "(op, req) \<in> set (requests A T args)"
    and "bk_confirmations bk = Some st'" "bk_policy bk = se_policy E" "be_libs env = L" "be_now env < tk_expires_at t"
    and "\<forall>rule \<in> snd ` set (bk_policy bk). hard_checks env op rule = Inr ()"
  shows "\<exists>st''. check_operation_policy env req op (rq_pubkey rq) bk =
      (bk\<lparr>bk_confirmations := Some st''\<rparr>, Inr (Some (confirmation_arg kwargs))) \<and>
    sql_view L st'' = (sql_view L st')(confirmation_arg kwargs \<mapsto> (t, True))"
proof -
  let ?cid = "confirmation_arg kwargs"
  have deferring: "cg_defer_to_broker (gate_of E y g)"
    using write_gates_defer [OF assms(1,3)] assms(4) by (simp add: gate_of_def defer_to_broker_def)
  from gate_peeked [OF assms(6,7) deferring assms(8)] obtain key where p:
    "tg_policy_key g (dpop kwargs ''confirmation_id'') = Inr key" "require_confirmation (policy_get (se_policy E) key)"
    "dpop args ''confirmation_id'' = dpop kwargs ''confirmation_id''" "dget args ''confirmation_id'' = JStr ?cid"
    "sql_good L ttl owner_ttl st'" "sql_view L st' ?cid = Some (t, False)"
    "tk_pubkey t = rq_pubkey rq" "tk_tool t = key" "tk_arguments_hash t = hash_arguments L (dpop kwargs ''confirmation_id'')"
    "require_owner_signature (policy_get (se_policy E) key) \<longrightarrow> tk_owner_approved_by t \<noteq> None"
    by (auto simp: gate_of_def)
  have "dkeys (dpop args ''confirmation_id'') = filter (\<lambda>p. p \<noteq> ''confirmation_id'') (map fst (tl_params T))"
    using assms(5) p(3) by simp
  from confirmation_carries [OF assms(1-3,9) this, of L] p(1,3,4) obtain keys where c:
    "policy_name_for_operation op req = Some key" "map_of CONFIRMATION_ARGUMENT_KEYS op = Some keys"
    "hash_arguments L (bound_arguments keys req) = hash_arguments L (dpop kwargs ''confirmation_id'')"
    "dget req ''confirmation_id'' = JStr ?cid" by auto
  obtain rule where rule: "map_of (se_policy E) key = Some rule" "require_confirmation rule"
      "require_owner_signature rule \<longrightarrow> tk_owner_approved_by t \<noteq> None"
    using p(2,10) by (auto simp: policy_get_def default_rule_def split: option.splits)
  have hard: "hard_checks env op rule = Inr ()"
    using assms(14) map_of_SomeD [OF rule(1)] unfolding assms(11) by force
  have nonempty: "\<not> store_is_false (Some st')" using p(6) by (auto simp: store_is_false_def sql_view_def)
  obtain st'' r where consumed: "sql_consume L (be_now env) ?cid (rq_pubkey rq) key (bound_arguments keys req)
      (require_owner_signature rule) True st' = (st'', r)" by fastforce
  have "spec_consume L (be_now env) ?cid (rq_pubkey rq) key (bound_arguments keys req) (require_owner_signature rule) True (sql_view L st') =
      ((sql_view L st')(?cid \<mapsto> (t, True)), Inr t)"
    using p(6-9) c(3) rule(3) assms(13) by (auto simp: spec_consume_def)
  with sql.consume [OF p(5), of "be_now env" ?cid "rq_pubkey rq" key "bound_arguments keys req" "require_owner_signature rule" True] consumed
  have "sql_view L st'' = (sql_view L st')(?cid \<mapsto> (t, True))" "r = Inr t"
    by (auto simp: refines_def sql_api_def prod_eq_iff)
  with consumed show ?thesis
    using c(1,2,4) rule nonempty hard assms(10-12) by (intro exI [of _ st'']) (simp add: check_operation_policy_def)
qed

text \<open>A confirmed reboot, from the tool to the broker.\<close>

definition reboot_server :: "(sql_store, bool) server_env" where
  "reboot_server = \<lparr>se_adapter = in_front demo_adapter, se_libs = broker_libs, se_fmt = (\<lambda>_. []), se_api = sql_api broker_libs,
     se_policy = [(''system.power'', reboot_rule)], se_now = 1000, se_backup_times = (\<lambda>_. Inr [])\<rparr>"

definition reboot_gate :: tool_gate where
  "reboot_gate = the (tl_gate tool_system_reboot)"

lemma reboot_gated: "tl_gate tool_system_reboot = Some reboot_gate" "tool_system_reboot \<in> set WRITE_TOOLS"
  by (simp_all add: reboot_gate_def tool_system_reboot_def WRITE_TOOLS_def)

lemma reboot_requests:
  "requests A tool_system_reboot [(''confirmation_id'', JStr ''c1'')] = [(''system.reboot'', [(''confirmation_id'', JStr ''c1'')])]"
  by (simp add: requests_def tool_system_reboot_def call_method_def method_system_reboot BROKERED_METHODS_def bind_arguments_def
      sig_system_reboot_def sg_names_def adapter_system_reboot_def dispatch_def sent_def)

theorem confirmation_carries_over_witness:
  "\<exists>key keys. policy_name_for_operation ''system.reboot'' [(''confirmation_id'', JStr ''c1'')] = Some key \<and>
    map_of CONFIRMATION_ARGUMENT_KEYS ''system.reboot'' = Some keys \<and> keys = []"
proof -
  have "dkeys (dpop [(''confirmation_id'', JStr ''c1'')] ''confirmation_id'') =
      filter (\<lambda>p. p \<noteq> ''confirmation_id'') (map fst (tl_params tool_system_reboot))"
    by (simp add: tool_system_reboot_def dpop_def)
  moreover have "tl_name tool_system_reboot \<noteq> ''service_start''" by (simp add: tool_system_reboot_def)
  moreover have "(''system.reboot'', [(''confirmation_id'', JStr ''c1'')]) \<in>
      set (requests undefined tool_system_reboot [(''confirmation_id'', JStr ''c1'')])" by (simp add: reboot_requests)
  ultimately obtain key keys where "policy_name_for_operation ''system.reboot'' [(''confirmation_id'', JStr ''c1'')] = Some key"
      "map_of CONFIRMATION_ARGUMENT_KEYS ''system.reboot'' = Some keys"
    using confirmation_carries_over [OF reboot_gated(2) _ reboot_gated(1)] by blast
  then show ?thesis by (simp add: CONFIRMATION_ARGUMENT_KEYS_def)
qed

theorem one_approval_both_gates_witness:
  "snd (check_operation_policy reboot_env [(''confirmation_id'', JStr ''c1'')] ''system.reboot'' (rq_pubkey reboot_caller) reboot_broker) =
     Inr (Some ''c1'')"
proof -
  let ?kw = "[(''confirmation_id'', JStr ''c1'')]"
  let ?st = "sql_init 300 (Some 900) [(''c1'', sql_row_of broker_libs reboot_ticket)]"
  have peek: "sql_peek broker_libs 1000 ''c1'' ?st = (?st, Inr reboot_ticket)"
    by (simp add: sql_peek_def sql_get_def sql_init_def sql_row_of_def sql_live_def sql_is_consumed_def reboot_ticket_def make_ticket_def)
  have "frontend_check broker_libs reboot_rule (rq_pubkey reboot_caller) ''system.power'' [] reboot_ticket = Inr reboot_ticket"
    by (simp add: frontend_check_def reboot_caller_def reboot_ticket_def make_ticket_def hash_arguments_def reboot_rule_def default_rule_def)
  with peek have run: "require_confirmation_gate broker_libs (sql_api broker_libs) 1000 [] (gate_of reboot_server True reboot_gate)
      (Some reboot_caller) ?kw ?st = (?st, Inr (Run ?kw (Some reboot_ticket)))"
    by (simp add: require_confirmation_gate_def require_current_request_def confirmation_arg_def gate_of_def reboot_gate_def
        tool_system_reboot_def reboot_server_def dpop_def policy_get_def reboot_rule_def present_ticket_def defer_to_broker_def
        sql_api_def)
  have good: "sql_good broker_libs 300 900 ?st" "sql_view broker_libs ?st [] = None"
    using reboot_good by (simp_all add: store_good_def reboot_broker_def sql_view_def sql_init_def sql_good_def)
  have broker: "bk_confirmations reboot_broker = Some ?st" "bk_policy reboot_broker = se_policy reboot_server"
    by (simp_all add: reboot_broker_def reboot_server_def)
  have hard: "\<forall>rule \<in> snd ` set (bk_policy reboot_broker). hard_checks reboot_env ''system.reboot'' rule = Inr ()"
    by (simp add: reboot_broker_def hard_checks_def check_free_space_def check_recent_backup_def reboot_rule_def default_rule_def)
  have "be_now reboot_env < tk_expires_at reboot_ticket" by (simp add: reboot_ticket_def make_ticket_def)
  moreover have "ad_broker (se_adapter reboot_server) \<noteq> None" by (simp add: reboot_server_def)
  moreover have "dkeys (dpop ?kw ''confirmation_id'') =
      filter (\<lambda>p. p \<noteq> ''confirmation_id'') (map fst (tl_params tool_system_reboot))"
    by (simp add: tool_system_reboot_def dpop_def)
  moreover have "tl_name tool_system_reboot \<noteq> ''service_start''" by (simp add: tool_system_reboot_def)
  moreover have "(''system.reboot'', ?kw) \<in> set (requests undefined tool_system_reboot ?kw)" by (simp add: reboot_requests)
  moreover have "be_libs reboot_env = broker_libs" by simp
  ultimately obtain st'' where "check_operation_policy reboot_env ?kw ''system.reboot'' (rq_pubkey reboot_caller) reboot_broker =
      (reboot_broker\<lparr>bk_confirmations := Some st''\<rparr>, Inr (Some (confirmation_arg ?kw)))"
    using one_approval_both_gates [OF reboot_gated(2) _ reboot_gated(1) _ _ good run _ broker _ _ hard] by blast
  then show ?thesis by (simp add: confirmation_arg_def)
qed

end
