(* ===== verification/Broker_Link.thy ===== *)
theory Broker_Link
  imports Broker_Gate Adapter_Transparency
begin

text \<open>
  One operation through the socket, from the adapter of the frontend to the adapter of the root helper:
  \<open>_broker_call\<close> of \<^verbatim>\<open>yunohost/adapter.py\<close>, \<^verbatim>\<open>broker/client.py\<close>, one connection of \<^verbatim>\<open>broker/helper.py\<close>, and the
  helper's adapter on the system.  The state is the helper's and the system.
\<close>

subsection \<open>The composition\<close>

text \<open>What one exchange reads: the helper's environment, the request id that the client draws, why the socket
  cannot be reached if it cannot, \<open>base64.b64encode\<close>, the peer the kernel reports, and how \<open>recv\<close> cuts the answer.\<close>

record exchange =
  ex_environment :: broker_env
  ex_request_id :: string
  ex_unreachable :: "string option"
  ex_base64 :: "string \<Rightarrow> string"
  ex_peer_uid :: int
  ex_chunks :: "string \<Rightarrow> string list"

definition helper_environment :: "exchange \<Rightarrow> 'y adapter_env \<Rightarrow> 'y \<Rightarrow> broker_env" where
  "helper_environment X A y = (ex_environment X)\<lparr>be_adapter := \<lambda>c. snd (call_method (at_root A) c y)\<rparr>"

text \<open>One connection: the helper's new state, the system after the calls it made, the bytes it sent.\<close>

definition serve :: "exchange \<Rightarrow> 'y adapter_env \<Rightarrow> string \<Rightarrow> broker \<times> 'y \<Rightarrow> (broker \<times> 'y) \<times> string" where
  "serve X A line st =
     (let cn = fst (handle_connection (helper_environment X A (snd st)) (ex_peer_uid X) line (fst st));
          made = drop (length (bk_calls (fst st))) (bk_calls (cn_server cn))
      in ((cn_server cn, fold (\<lambda>c y. fst (call_method (at_root A) c y)) made (snd st)), concat (cn_sent cn)))"

definition broker_call ::
  "'y adapter_env \<Rightarrow> exchange \<Rightarrow> authenticated_request option \<Rightarrow> string \<Rightarrow> dict \<Rightarrow> (broker \<times> 'y, json) step" where
  "broker_call A X current op arguments st =
     (let L = be_libs (ex_environment X) in
      case client_request L (ex_base64 X) current (ex_request_id X) op arguments of
        Inl e \<Rightarrow> (st, Inl e)
      | Inr r \<Rightarrow>
          (case ex_unreachable X of
             Some reason \<Rightarrow> (st, Inl (client_error (''could not reach YunoHost broker: '' @ reason)))
           | None \<Rightarrow>
               (case request_encode L r of
                  Inl e \<Rightarrow> (st, Inl e)
                | Inr line \<Rightarrow>
                    (case serve X A line st of (st', sent_bytes) \<Rightarrow>
                       (st', ebind (client_receive L (be_fmt (ex_environment X)) (ex_request_id X) (ex_chunks X sent_bytes)) (\<lambda>d. Inr (JObj d)))))))"

subsection \<open>What the helper sends\<close>

definition answers ::
  "broker_env \<Rightarrow> broker_request \<Rightarrow> broker_operation \<Rightarrow> connection \<times> (exn + unit) \<Rightarrow> bool" where
  "answers env r operation p \<longleftrightarrow>
     (case snd p of
        Inl e \<Rightarrow> cn_sent (fst p) = []
      | Inr _ \<Rightarrow> \<exists>c v line. bo_invoke operation (br_arguments r) = Inr c \<and> be_adapter env c = Inr v \<and>
          encode_response (be_libs env) (br_request_id r) (Inr (adapter_result c v)) = Inr line \<and> cn_sent (fst p) = [line])"

lemma answers_on_server:
  assumes "cn_sent cn = []" "\<And>x bk. snd (f (cn_server cn)) = Inr x \<Longrightarrow> answers env r operation (k x (cn\<lparr>cn_server := bk\<rparr>))"
  shows "answers env r operation (on_server f k cn)"
  using assms by (simp add: on_server_alt answers_def [of _ _ _ "(_, Inl _)"] split: sum.split)

lemma answers_raising:
  assumes "cn_sent cn = []" "\<And>x. m = Inr x \<Longrightarrow> answers env r operation (k x cn)"
  shows "answers env r operation (raising m k cn)"
  using assms by (simp add: raising_def answers_def [of _ _ _ "(_, Inl _)"] split: sum.split)

lemma answers_send:
  assumes "snd (invoke env operation (br_arguments r) bk) = Inr result" "cn_sent cn = []" "cn_request_id cn = br_request_id r"
  shows "answers env r operation (send env (Inr result) cn)"
  using assms by (auto simp: send_def answers_def invoke_def split: sum.splits)

lemma answers_execute:
  assumes "cn_sent cn = []" "cn_request_id cn = br_request_id r"
  shows "answers env r operation (execute_request env r operation cn)"
  unfolding execute_request_def checked_operation_def run_operation_def using assms
  by (auto intro!: answers_on_server answers_raising intro: answers_send)

definition error_line :: "broker_env \<Rightarrow> string \<Rightarrow> bool" where
  "error_line env line \<longleftrightarrow> (\<exists>rid e. encode_response (be_libs env) rid (Inl e) = Inr line)"

lemma send_error:
  "cn_sent cn = [] \<Longrightarrow> cn_sent (fst (send env (Inl e) cn)) = [] \<or>
     (\<exists>line. cn_sent (fst (send env (Inl e) cn)) = [line] \<and> error_line env line)"
  by (auto simp: send_def error_line_def split: sum.split)

lemma handle_error_sent:
  "cn_sent cn = [] \<Longrightarrow> cn_sent (fst (handle_error env e cn)) = [] \<or>
     (\<exists>line. cn_sent (fst (handle_error env e cn)) = [line] \<and> error_line env line)"
  using send_error [of "cn\<lparr>cn_error := u, cn_server := v\<rparr>" env w for u v w] by (simp add: handle_error_def Let_def)

lemma handle_try_sent:
  fixes env :: broker_env and uid :: int and bytes :: string and bk :: broker
  defines "p \<equiv> handle_try env uid bytes (connection_init bk)"
  obtains (quiet) "cn_sent (fst p) = []"
  | (error) line where "snd p = Inr ()" "cn_sent (fst p) = [line]" "error_line env line"
  | (answer) r operation c v line where "snd p = Inr ()" "receive_request (be_libs env) bytes = Inr r"
      "map_of OPERATIONS (br_operation r) = Some operation" "bo_invoke operation (br_arguments r) = Inr c" "be_adapter env c = Inr v"
      "encode_response (be_libs env) (br_request_id r) (Inr (adapter_result c v)) = Inr line" "cn_sent (fst p) = [line]"
proof (cases "uid = bk_allowed_uid bk")
  case False
  then have "p = send env (Inl (protocol_error ''forbidden peer'')) (connection_init bk)"
    by (simp add: p_def handle_try_def connection_init_def)
  then show thesis
    using send_error [of "connection_init bk" env "protocol_error ''forbidden peer''"] quiet error
    by (cases "snd p") (auto simp: connection_init_def send_def split: sum.splits)
next
  case True
  show thesis
  proof (cases "receive_request (be_libs env) bytes")
    case (Inl e)
    then show thesis using True by (intro quiet) (simp add: p_def handle_try_def raising_def connection_init_def)
  next
    case req: (Inr r)
    define cn where "cn = (connection_init bk)\<lparr>cn_request_id := br_request_id r, cn_operation := br_operation r, cn_arguments := br_arguments r\<rparr>"
    have cn: "cn_sent cn = []" "cn_request_id cn = br_request_id r" by (simp_all add: cn_def connection_init_def)
    show thesis
    proof (cases "map_of OPERATIONS (br_operation r)")
      case None
      then show thesis using True req by (intro quiet) (simp add: p_def handle_try_def raising_def connection_init_def Let_def)
    next
      case (Some operation)
      have "p = execute_request env r operation cn"
        using True req Some by (simp add: p_def handle_try_def raising_def connection_init_def Let_def cn_def)
      with answers_execute [OF cn, of env operation] have "answers env r operation p" by simp
      then show thesis using quiet answer [OF _ req Some] by (cases "snd p") (auto simp: answers_def)
    qed
  qed
qed

lemma handle_calls:
  obtains (none) "bk_calls (cn_server (fst (handle_connection env uid bytes bk))) = bk_calls bk"
  | (one) r operation rq c where "uid = bk_allowed_uid bk" "receive_request (be_libs env) bytes = Inr r" "map_of OPERATIONS (br_operation r) = Some operation"
      "snd (authorize_request env r bk) = Inr rq" "bo_invoke operation (br_arguments r) = Inr c"
      "bk_calls (cn_server (fst (handle_connection env uid bytes bk))) = bk_calls bk @ [c]"
proof -
  let ?p = "handle_try env uid bytes (connection_init bk)"
  have eq: "bk_calls (cn_server (fst (handle_connection env uid bytes bk))) = bk_calls (cn_server (fst ?p))"
    using handle_calls_eq [OF surjective_pairing] by blast
  show thesis
  proof (cases rule: handle_try_cases [of env uid bytes bk])
    case (checked r operation rq s cn)
    show thesis
    proof (cases rule: checked_operation_cases [of env r operation "rq_pubkey rq" cn])
      case refused
      then show thesis using none eq checked(7,8) by simp
    next
      case clr: (cleared bk' conf)
      then have "bk_calls (cn_server (fst ?p)) = bk_calls bk @ (case bo_invoke operation (br_arguments r) of Inl e \<Rightarrow> [] | Inr c \<Rightarrow> [c])"
        using checked(7,8) run_operation_calls by simp
      then show thesis using none one [OF checked(1-4)] eq by (cases "bo_invoke operation (br_arguments r)") auto
    qed
  qed (use none eq in \<open>simp_all add: connection_init_def\<close>)
qed

lemma handle_connection_sent:
  fixes env :: broker_env and uid :: int and bytes :: string and bk :: broker
  defines "cn \<equiv> fst (handle_connection env uid bytes bk)"
  obtains (quiet) "cn_sent cn = []"
  | (error) line where "cn_sent cn = [line]" "error_line env line"
  | (answer) r operation c v line where "receive_request (be_libs env) bytes = Inr r"
      "map_of OPERATIONS (br_operation r) = Some operation" "bo_invoke operation (br_arguments r) = Inr c" "be_adapter env c = Inr v"
      "encode_response (be_libs env) (br_request_id r) (Inr (adapter_result c v)) = Inr line" "cn_sent cn = [line]"
proof -
  let ?p = "handle_try env uid bytes (connection_init bk)"
  have cn: "cn_sent cn = cn_sent (case snd ?p of Inl e \<Rightarrow> fst (handle_error env e (fst ?p)) | Inr _ \<Rightarrow> fst ?p)"
    by (simp add: cn_def handle_connection_alt Let_def)
  show thesis
  proof (cases rule: handle_try_sent [of env uid bytes bk])
    case quiet': quiet
    show thesis
    proof (cases "snd ?p")
      case (Inl e)
      then show thesis using handle_error_sent [OF quiet', of env e] cn quiet error by auto
    qed (use quiet' quiet cn in auto)
  qed (use cn error answer in auto)
qed

text \<open>Whoever runs makes one call, and what is answered as a success is that call's result.\<close>

lemma answer_runs:
  assumes "cn_sent (fst (handle_connection env uid bytes bk)) = [line]" "\<not> error_line env line"
  shows "bk_calls (cn_server (fst (handle_connection env uid bytes bk))) \<noteq> bk_calls bk"
proof -
  let ?p = "handle_try env uid bytes (connection_init bk)"
  have eq: "bk_calls (cn_server (fst (handle_connection env uid bytes bk))) = bk_calls (cn_server (fst ?p))"
    using handle_calls_eq [OF surjective_pairing] by blast
  have sent: "cn_sent (fst (handle_connection env uid bytes bk)) =
      cn_sent (case snd ?p of Inl e \<Rightarrow> fst (handle_error env e (fst ?p)) | Inr _ \<Rightarrow> fst ?p)"
    by (simp add: handle_connection_alt Let_def)
  show ?thesis
  proof (cases rule: handle_try_sent [of env uid bytes bk])
    case quiet
    then show ?thesis using handle_error_sent [OF quiet, of env "projl (snd ?p)"] sent assms by (cases "snd ?p") auto
  next
    case (error l)
    then show ?thesis using sent assms by auto
  next
    case (answer r operation c v l)
    show ?thesis
    proof (cases rule: handle_try_cases [of env uid bytes bk])
      case refused
      then show ?thesis using answer by simp
    next
      case forbidden
      then show ?thesis using answer assms sent send_error [of "connection_init bk" env "protocol_error ''forbidden peer''"]
        by (auto simp: connection_init_def)
    next
      case (checked r' operation' rq s cn)
      show ?thesis
      proof (cases rule: checked_operation_cases [of env r' operation' "rq_pubkey rq" cn])
        case refused
        then show ?thesis using answer checked(7) by simp
      next
        case cleared
        with checked answer show ?thesis unfolding eq using run_operation_calls by simp
      qed
    qed
  qed
qed

subsection \<open>What the client makes of it\<close>

definition dumped :: "libs \<Rightarrow> dict \<Rightarrow> string" where
  "dumped L d = utf8_encode (json_text (float_text L) compact_format (JObj d))"

text \<open>\<open>json.loads\<close> reads back what \<open>json.dumps\<close> wrote for a dictionary.\<close>

definition delivers :: "libs \<Rightarrow> dict \<Rightarrow> bool" where
  "delivers L d \<longleftrightarrow> json_loads_bytes L (dumped L d) = Inr (JObj d)"

text \<open>The socket and the JSON reader: floats are written printably, \<open>recv\<close> returns the answer in non-empty pieces,
  and neither nothing nor an error response is read as an object whose \<open>ok\<close> is true.\<close>

definition sound_transport :: "exchange \<Rightarrow> bool" where
  "sound_transport X \<longleftrightarrow> (let L = be_libs (ex_environment X) in
     (\<forall>f. no_control (float_text L f)) \<and> (\<forall>s. concat (ex_chunks X s) = s \<and> [] \<notin> set (ex_chunks X s)) \<and>
     (\<forall>d. json_loads_bytes L [] = Inr (JObj d) \<longrightarrow> \<not> truthy (dget d ''ok'')) \<and>
     (\<forall>rid e d. json_loads_bytes L (dumped L (response_dict rid (Inl e))) =
        Inr (JObj d) \<longrightarrow> \<not> truthy (dget d ''ok'')))"

lemma read_line_limit:
  assumes "no_control raw" "acc @ concat chunks = raw @ [line_feed]" "[] \<notin> set chunks" "length acc \<le> 1048576"
  shows "read_line acc chunks = (if length raw < 1048576 then Inr raw else Inl (protocol_error ''broker response exceeds message limit''))"
  using assms(2-4)
proof (induction chunks arbitrary: acc)
  case Nil
  then have "Suc (length raw) \<le> 1048576" by (metis append_Nil2 concat.simps(1) length_append_singleton)
  then show ?case using Nil rstrip_framed [OF assms(1)] by simp
next
  case (Cons chunk chunks)
  have "line_feed \<notin> set (butlast (acc @ concat (chunk # chunks)))"
    using Cons.prems(1) no_control_line_feed [OF assms(1)] by simp
  moreover have "chunk @ concat chunks \<noteq> []" using Cons.prems(2) by auto
  ultimately have "line_feed \<notin> set acc" by (auto simp: butlast_append split: if_splits)
  then have unfinished: "\<not> (acc \<noteq> [] \<and> last acc = line_feed)" by (metis last_in_set)
  have "length (acc @ concat (chunk # chunks)) = Suc (length raw)" using Cons.prems(1) by simp
  then have "length (acc @ chunk) \<le> Suc (length raw)" by simp
  with Cons.IH [of "acc @ chunk"] Cons.prems unfinished show ?case by auto
qed

lemma frame_encoded:
  assumes "encode_response L rid result = Inr line" "\<forall>f. no_control (float_text L f)"
  shows "line = dumped L (response_dict rid result) @ [line_feed] \<and>
    no_control (dumped L (response_dict rid result))"
  using assms utf8_no_control [OF no_control_json [OF assms(2)]]
  by (auto simp: encode_response_def dumped_def Let_def simp del: json_text.simps split: if_splits)

lemma receive_frame:
  assumes "sound_transport X" "L = be_libs (ex_environment X)" "encode_response L rid result = Inr line"
    "client_receive L fmt i (ex_chunks X line) = Inr d"
  shows "\<exists>v. json_loads_bytes L (dumped L (response_dict rid result)) = Inr v \<and>
    check_response fmt i v = Inr d"
proof -
  let ?raw = "dumped L (response_dict rid result)"
  have "\<forall>f. no_control (float_text L f)" "concat (ex_chunks X line) = line" "[] \<notin> set (ex_chunks X line)"
    using assms(1,2) by (auto simp: sound_transport_def Let_def)
  with frame_encoded [OF assms(3)] read_line_limit [of ?raw "[]" "ex_chunks X line"]
  have "read_line [] (ex_chunks X line) = Inr ?raw \<or> (\<exists>e. read_line [] (ex_chunks X line) = Inl e)" by (simp split: if_splits)
  with assms(4) show ?thesis
    by (cases "json_loads_bytes L ?raw") (auto simp: client_receive_def)
qed

lemma check_response_ok: "check_response fmt i v = Inr d \<Longrightarrow> \<exists>b. v = JObj b \<and> truthy (dget b ''ok'') \<and> dget b ''result'' = JObj d"
  by (auto simp: check_response_def split: json.splits if_splits)

lemma error_not_received:
  assumes "sound_transport X" "L = be_libs (ex_environment X)" "encode_response L rid (Inl e) = Inr line"
  shows "client_receive L fmt i (ex_chunks X line) \<noteq> Inr d"
proof
  assume "client_receive L fmt i (ex_chunks X line) = Inr d"
  from receive_frame [OF assms this] check_response_ok [of fmt i _ d] assms(1,2) show False
    by (fastforce simp: sound_transport_def Let_def)
qed

lemma nothing_not_received:
  assumes "sound_transport X" "L = be_libs (ex_environment X)"
  shows "client_receive L fmt i (ex_chunks X []) \<noteq> Inr d"
proof
  have "ex_chunks X [] = []"
    using assms(1) by (cases "ex_chunks X []") (auto simp: sound_transport_def Let_def dest: spec [of _ "[]"])
  moreover assume "client_receive L fmt i (ex_chunks X []) = Inr d"
  ultimately obtain v where "json_loads_bytes L [] = Inr v" "check_response fmt i v = Inr d"
    by (auto simp: client_receive_def ebind_Inr rstrip_line_def split: sum.splits)
  with check_response_ok [of fmt i v d] assms show False by (auto simp: sound_transport_def Let_def)
qed

subsection \<open>The request on the wire\<close>

lemma from_to_dict: "request_from_dict (JObj (request_to_dict r)) = Inr r' \<Longrightarrow> r' = r"
proof -
  assume got: "request_from_dict (JObj (request_to_dict r)) = Inr r'"
  then have "br_request_id r \<noteq> []" "length (br_request_id r) \<le> 128" "br_operation r \<noteq> []" "length (br_operation r) \<le> 128"
    by (simp_all add: request_from_dict_def request_to_dict_def Let_def ebind_Inr guard_Inr)
  from to_from_dict [OF this] got show "r' = r" by simp
qed

lemma receive_sent:
  assumes "\<forall>f. no_control (float_text L f)" "delivers L (request_to_dict r)" "request_encode L r = Inr line"
    "receive_request L line = Inr r'"
  shows "r' = r"
proof -
  let ?raw = "dumped L (request_to_dict r)"
  have nc: "no_control ?raw" unfolding dumped_def by (intro utf8_no_control no_control_json assms(1))
  have line: "line = ?raw @ [line_feed]" "length ?raw \<le> 1048576"
    using assms(3) by (auto simp: request_encode_def dumped_def Let_def MAX_MESSAGE_BYTES_def simp del: json_text.simps split: if_splits)
  have "receive_request L line = decode_request L ?raw"
    using readline_framed [OF nc, of 1048577 "[]"] line(2) by (simp add: receive_request_def line(1) rstrip_framed [OF nc])
  with assms(2,4) show ?thesis using from_to_dict
    by (auto simp: decode_request_def delivers_def simp del: json_text.simps split: if_splits)
qed

lemma client_request_Inr:
  "client_request L b64 current rid op args = Inr r \<Longrightarrow>
     br_request_id r = rid \<and> br_operation r = op \<and> br_arguments r = args \<and>
     (\<exists>rq. current = Some rq \<and> br_authorization r = rq_authorization rq)"
  by (auto simp: client_request_def require_current_request_def ebind_Inr split: option.splits if_splits)

lemma helper_libs [simp]:
  "be_libs (helper_environment X A y) = be_libs (ex_environment X)"
  "be_tick (helper_environment X A y) = be_tick (ex_environment X)"
  "be_adapter (helper_environment X A y) c = snd (call_method (at_root A) c y)"
  by (simp_all add: helper_environment_def)

lemma root_invoke_registered:
  assumes "map_of OPERATIONS op = Some operation" "bo_invoke operation arguments = Inr c"
  shows "root_invoke A op arguments y =
    (case call_method (at_root A) c y of (s, Inl e) \<Rightarrow> (s, Inl e) | (s, Inr v) \<Rightarrow> (s, Inr (adapter_result c v)))"
  using assms by (simp add: root_invoke_def and_then_def at_root_def [symmetric] split: prod.split sum.split)

text \<open>A result that the client accepts is the result of the operation that the helper ran.\<close>

lemma received_result:
  assumes "L = be_libs (ex_environment X)" "env = helper_environment X A y" "sound_transport X"
    and "\<And>r'. receive_request L line = Inr r' \<Longrightarrow> r' = r"
    and "\<forall>v. snd (root_invoke A (br_operation r) (br_arguments r) y) = Inr v \<longrightarrow>
      delivers L (response_dict (br_request_id r) (Inr v))"
    and "client_receive L fmt (br_request_id r)
      (ex_chunks X (concat (cn_sent (fst (handle_connection env (ex_peer_uid X) line bk))))) = Inr d"
  shows "bk_calls (cn_server (fst (handle_connection env (ex_peer_uid X) line bk))) \<noteq> bk_calls bk \<and>
    snd (root_invoke A (br_operation r) (br_arguments r) y) = Inr (JObj d)"
proof -
  have env: "be_libs env = L" "be_adapter env c = snd (call_method (at_root A) c y)" for c by (simp_all add: assms(1,2))
  show ?thesis
  proof (cases rule: handle_connection_sent [of env "ex_peer_uid X" line bk])
    case quiet
    with assms(6) nothing_not_received [OF assms(3,1)] show ?thesis by simp
  next
    case (error l)
    with assms(6) error_not_received [OF assms(3,1)] show ?thesis by (auto simp: error_line_def env)
  next
    case (answer r' operation c v l)
    have r': "r' = r" using assms(4) answer(1) by (simp add: env)
    have d: "client_receive L fmt (br_request_id r) (ex_chunks X l) = Inr d" using assms(6) answer(6) by simp
    have enc: "encode_response L (br_request_id r) (Inr (adapter_result c v)) = Inr l" using answer(5) r' by (simp add: env)
    have root: "snd (root_invoke A (br_operation r) (br_arguments r) y) = Inr (adapter_result c v)"
      using root_invoke_registered [OF answer(2,3), of A y] answer(4) unfolding r' env
      by (auto split: prod.splits sum.splits)
    with assms(5) receive_frame [OF assms(3,1) enc d] have "check_response fmt (br_request_id r)
        (JObj (response_dict (br_request_id r) (Inr (adapter_result c v)))) = Inr d" by (auto simp: delivers_def)
    from check_response_ok [OF this] have "adapter_result c v = JObj d" by (simp add: response_dict_def)
    moreover have "\<not> error_line env l" using error_not_received [OF assms(3,1)] d by (auto simp: error_line_def env)
    ultimately show ?thesis using answer_runs [OF answer(6)] root by simp
  qed
qed

text \<open>
  C4: brokering an operation refines doing it. A call through the socket either is refused - then
  the helper's adapter received nothing, the system is as it was, and the caller sees an error - or the
  original request authenticated at the helper, its author has the operation's scope, the policy and the
  package-test session were satisfied, and the effect on the system is the effect of the operation at the
  root; a result that the caller sees is the operation's result.
\<close>

theorem broker_call_refines:
  assumes "L = be_libs (ex_environment X)" "env = helper_environment X A y" "store_good L bk" "sound_transport X"
    and "client_request L (ex_base64 X) current (ex_request_id X) op arguments = Inr r" "delivers L (request_to_dict r)"
    and "\<forall>v. snd (root_invoke A op arguments y) = Inr v \<longrightarrow> delivers L (response_dict (ex_request_id X) (Inr v))"
    and "broker_call A X current op arguments (bk, y) = ((bk', y'), res)"
  shows "(bk_calls bk' = bk_calls bk \<and> y' = y \<and> (\<exists>e. res = Inl e)) \<or>
    (\<exists>operation rq s. map_of OPERATIONS op = Some operation \<and> authentic env r bk rq \<and> required_scope operation = Inr s \<and>
       has_scope rq s \<and> policy_satisfied env bk r (rq_pubkey rq) \<and> session_satisfied env bk r (rq_pubkey rq) \<and>
       length (bk_calls bk') = length (bk_calls bk) + 1 \<and> y' = fst (root_invoke A op arguments y) \<and>
       (\<forall>v. res = Inr v \<longrightarrow> snd (root_invoke A op arguments y) = Inr v))"
proof (cases "ex_unreachable X \<noteq> None \<or> (\<exists>e. request_encode L r = Inl e)")
  case True
  with assms(5,8) show ?thesis by (auto simp: broker_call_def Let_def assms(1) split: option.splits sum.splits)
next
  case False
  then obtain line where line: "ex_unreachable X = None" "request_encode L r = Inr line" by (cases "request_encode L r") auto
  let ?cn = "fst (handle_connection env (ex_peer_uid X) line bk)"
  note r = client_request_Inr [OF assms(5)]
  have env: "be_libs env = L" by (simp add: assms(1,2))
  have run: "bk' = cn_server ?cn"
    "y' = fold (\<lambda>c y. fst (call_method (at_root A) c y)) (drop (length (bk_calls bk)) (bk_calls bk')) y"
    "res = ebind (client_receive L (be_fmt (ex_environment X)) (br_request_id r) (ex_chunks X (concat (cn_sent ?cn)))) (\<lambda>d. Inr (JObj d))"
    using assms(5,8) line r by (auto simp: broker_call_def serve_def Let_def assms(1,2) simp flip: assms(1,2))
  have wire: "r' = r" if "receive_request L line = Inr r'" for r'
    using receive_sent [OF _ assms(6) line(2) that] assms(1,4) by (simp add: sound_transport_def Let_def)
  have result: "bk_calls bk' \<noteq> bk_calls bk \<and> snd (root_invoke A op arguments y) = Inr v" if "res = Inr v" for v
  proof -
    from that run(3) obtain d where "v = JObj d"
      "client_receive L (be_fmt (ex_environment X)) (br_request_id r) (ex_chunks X (concat (cn_sent ?cn))) = Inr d"
      by (auto simp: ebind_Inr)
    with received_result [OF assms(1,2,4) wire] assms(7) r run(1) show ?thesis by simp
  qed
  show ?thesis
  proof (cases "bk_calls bk' = bk_calls bk")
    case True
    with run(2) result show ?thesis by (cases res) auto
  next
    case False
    with gate_passed [of env bk "ex_peer_uid X" line, OF _ surjective_pairing] assms(3) obtain r' operation rq s c where g:
      "receive_request L line = Inr r'" "map_of OPERATIONS (br_operation r') = Some operation" "authentic env r' bk rq"
      "required_scope operation = Inr s" "has_scope rq s" "policy_satisfied env bk r' (rq_pubkey rq)"
      "session_satisfied env bk r' (rq_pubkey rq)" "bo_invoke operation (br_arguments r') = Inr c"
      "bk_calls bk' = bk_calls bk @ [c]" by (auto simp: env run(1))
    have r': "r' = r" using wire g(1) by simp
    have op: "map_of OPERATIONS op = Some operation" "bo_invoke operation arguments = Inr c" using g(2,8) r r' by simp_all
    have "y' = fst (root_invoke A op arguments y)"
      using run(2) g(9) root_invoke_registered [OF op, of A y] by (simp split: prod.split sum.split)
    with g op result show ?thesis by (intro disjI2 exI [of _ operation] exI [of _ rq] exI [of _ s]) (simp add: r')
  qed
qed

subsection \<open>The replay cache of the helper\<close>

abbreviation seen :: "broker \<Rightarrow> (string \<times> real) set" where
  "seen bk \<equiv> set (rc_seen (bk_replay_cache bk))"

lemma verify_cache:
  "fst (verify_nip98_request L h meth url body skew now tick c) = c \<or>
   (\<exists>e. parse_authorization L h = Inr e \<and>
      fst (verify_nip98_request L h meth url body skew now tick c) = fst (check_and_record tick (ev_id e) c))"
  by (auto simp: verify_nip98_request_def split: sum.split prod.split)

lemma verify_seen:
  "(i, t) \<in> set (rc_seen c) \<Longrightarrow> tick < t \<Longrightarrow> (i, t) \<in> set (rc_seen (fst (verify_nip98_request L h meth url body skew now tick c)))"
  using verify_cache [of L h meth url body skew now tick c] check_and_record_seen by metis

lemma verify_ttl: "rc_ttl_seconds (fst (verify_nip98_request L h meth url body skew now tick c)) = rc_ttl_seconds c"
  using verify_cache [of L h meth url body skew now tick c] check_and_record_ttl by metis

lemma verify_records:
  assumes "snd (verify_nip98_request L h meth url body skew now tick c) = Inr n"
  shows "\<exists>e. parse_authorization L h = Inr e \<and> (\<forall>t. (ev_id e, t) \<in> set (rc_seen c) \<longrightarrow> t \<le> tick) \<and>
    (ev_id e, tick + of_int (rc_ttl_seconds c)) \<in> set (rc_seen (fst (verify_nip98_request L h meth url body skew now tick c)))"
proof -
  from assms obtain e where e: "parse_authorization L h = Inr e" "check_event L e meth url body skew now = Inr ()"
    "snd (check_and_record tick (ev_id e) c) = Inr ()" unfolding verify_nip98_Inr by blast
  then have "fst (verify_nip98_request L h meth url body skew now tick c) = fst (check_and_record tick (ev_id e) c)"
    by (auto simp: verify_nip98_request_def split: sum.splits prod.splits)
  moreover have "(ev_id e, tick + of_int (rc_ttl_seconds c)) \<in> set (rc_seen (fst (check_and_record tick (ev_id e) c)))"
    using e(3) by (auto simp: check_and_record_def replay_prune_def Let_def split: if_splits)
  ultimately show ?thesis using e(1,3) check_and_record_Inr by auto
qed

lemma authorize_seen:
  "(i, t) \<in> seen bk \<Longrightarrow> be_tick env < t \<Longrightarrow> (i, t) \<in> seen (fst (authorize_request env r bk))"
  using verify_seen [of i t "bk_replay_cache bk" "be_tick env"]
  by (auto simp: authorize_request_def split: option.split list.split sum.split prod.split) (metis fst_conv)+

lemma authorize_ttl: "rc_ttl_seconds (bk_replay_cache (fst (authorize_request env r bk))) = rc_ttl_seconds (bk_replay_cache bk)"
  using verify_ttl by (auto simp: authorize_request_def split: option.split list.split sum.split prod.split) (metis fst_conv)+

lemma authorize_records:
  assumes "snd (authorize_request env r bk) = Inr rq"
  shows "\<exists>e. parse_authorization (be_libs env) (br_authorization r) = Inr e \<and> (\<forall>t. (ev_id e, t) \<in> seen bk \<longrightarrow> t \<le> be_tick env) \<and>
    (ev_id e, be_tick env + of_int (rc_ttl_seconds (bk_replay_cache bk))) \<in> seen (fst (authorize_request env r bk))"
proof -
  from assms obtain meth url body c n where v: "verify_nip98_request (be_libs env) (br_authorization r) meth url body
      DEFAULT_CLOCK_SKEW_SECONDS (py_trunc (be_now env)) (be_tick env) (bk_replay_cache bk) = (c, Inr n)"
    "bk_replay_cache (fst (authorize_request env r bk)) = c"
    by (auto simp: authorize_request_def split: option.splits list.splits sum.splits prod.splits)
  from verify_records [of "be_libs env" "br_authorization r" meth url body DEFAULT_CLOCK_SKEW_SECONDS "py_trunc (be_now env)"
      "be_tick env" "bk_replay_cache bk" n] v show ?thesis by simp
qed

lemma session_cache [simp]:
  "bk_replay_cache (fst (check_package_test_session env r pk bk)) = bk_replay_cache bk"
  by (subst session_frame) simp

lemma run_cache [simp]:
  "bk_replay_cache (fst (invoke env op args bk)) = bk_replay_cache bk" "bk_replay_cache (fst (finalize c bk)) = bk_replay_cache bk"
  by (simp_all add: invoke_def finalize_def Let_def split: sum.split option.split prod.split)

lemma execute_cache:
  "bk_replay_cache (cn_server (fst (execute_request env r operation cn))) =
     bk_replay_cache (fst (authorize_request env r (cn_server cn)))"
  by (simp add: execute_request_def checked_operation_def run_operation_def on_server_alt raising_def split: sum.split)

lemma connection_cache:
  "bk_replay_cache (cn_server (fst (handle_connection env uid bytes bk))) =
     (if uid \<noteq> bk_allowed_uid bk then bk_replay_cache bk
      else case receive_request (be_libs env) bytes of
          Inl e \<Rightarrow> bk_replay_cache bk
        | Inr r \<Rightarrow> (case map_of OPERATIONS (br_operation r) of
              None \<Rightarrow> bk_replay_cache bk
            | Some operation \<Rightarrow> bk_replay_cache (fst (authorize_request env r bk))))"
proof -
  have "bk_replay_cache (cn_server (fst (handle_connection env uid bytes bk))) =
      bk_replay_cache (cn_server (fst (handle_try env uid bytes (connection_init bk))))"
    by (simp add: handle_connection_alt Let_def split: sum.split)
  then show ?thesis
    by (simp add: handle_try_def raising_def Let_def execute_cache connection_init_def split: sum.split option.split)
qed

text \<open>A connection forgets no unexpired id, and one that makes a call has recorded the id of its event.\<close>

lemma connection_seen:
  assumes "(i, t) \<in> seen bk" "be_tick env < t"
  shows "(i, t) \<in> seen (cn_server (fst (handle_connection env uid bytes bk)))"
  using assms authorize_seen [OF assms] by (simp add: connection_cache split: sum.split option.split)

lemma connection_ttl:
  "rc_ttl_seconds (bk_replay_cache (cn_server (fst (handle_connection env uid bytes bk)))) = rc_ttl_seconds (bk_replay_cache bk)"
  by (simp add: connection_cache authorize_ttl split: sum.split option.split)

lemma connection_records:
  assumes "bk_calls (cn_server (fst (handle_connection env uid bytes bk))) \<noteq> bk_calls bk"
  shows "\<exists>r e. receive_request (be_libs env) bytes = Inr r \<and> parse_authorization (be_libs env) (br_authorization r) = Inr e \<and>
    (\<forall>t. (ev_id e, t) \<in> seen bk \<longrightarrow> t \<le> be_tick env) \<and>
    (ev_id e, be_tick env + of_int (rc_ttl_seconds (bk_replay_cache bk))) \<in> seen (cn_server (fst (handle_connection env uid bytes bk)))"
proof (cases rule: handle_calls [of env uid bytes bk])
  case none
  with assms show ?thesis by simp
next
  case (one r operation rq c)
  then show ?thesis using authorize_records [OF one(4)] by (auto simp: connection_cache)
qed

subsection \<open>One request, one operation\<close>

text \<open>The broker calls that are made while one request is the current one, one after the other.\<close>

fun in_request ::
  "'y adapter_env \<Rightarrow> authenticated_request option \<Rightarrow> (exchange \<times> string \<times> dict) list \<Rightarrow> broker \<times> 'y \<Rightarrow>
     (broker \<times> 'y) \<times> (exn + json) list" where
  "in_request A current [] st = (st, [])"
| "in_request A current ((X, op, arguments) # rest) st =
     (let (st1, r) = broker_call A X current op arguments st; (st2, rs) = in_request A current rest st1 in (st2, r # rs))"

text \<open>The exchange of one call reads and writes with the same library as the others and the helper gets what is sent.\<close>

definition well_sent :: "libs \<Rightarrow> authenticated_request option \<Rightarrow> exchange \<times> string \<times> dict \<Rightarrow> bool" where
  "well_sent L current call \<longleftrightarrow> (case call of (X, op, arguments) \<Rightarrow>
     be_libs (ex_environment X) = L \<and> sound_transport X \<and>
     (\<forall>r. client_request L (ex_base64 X) current (ex_request_id X) op arguments = Inr r \<longrightarrow> delivers L (request_to_dict r)))"

lemma broker_call_cases:
  assumes "well_sent L current (X, op, arguments)" "broker_call A X current op arguments (bk, y) = ((bk', y'), res)"
  obtains (unsent) e where "bk' = bk" "res = Inl e"
  | (served) r line where "be_libs (helper_environment X A y) = L" "\<exists>rq. current = Some rq \<and> br_authorization r = rq_authorization rq"
      "\<And>r'. receive_request L line = Inr r' \<Longrightarrow> r' = r"
      "bk' = cn_server (fst (handle_connection (helper_environment X A y) (ex_peer_uid X) line bk))"
      "bk_calls bk' = bk_calls bk \<Longrightarrow> \<exists>e. res = Inl e"
proof -
  let ?L = "be_libs (ex_environment X)"
  have w: "?L = L" "sound_transport X"
    "\<And>r. client_request L (ex_base64 X) current (ex_request_id X) op arguments = Inr r \<Longrightarrow> delivers L (request_to_dict r)"
    using assms(1) by (auto simp: well_sent_def)
  show thesis
  proof (cases "\<exists>r line. client_request L (ex_base64 X) current (ex_request_id X) op arguments = Inr r \<and>
      ex_unreachable X = None \<and> request_encode L r = Inr line")
    case False
    then show thesis using assms(2) unsent
      by (auto simp: broker_call_def Let_def w(1) split: sum.splits option.splits)
  next
    case True
    then obtain r line where r: "client_request L (ex_base64 X) current (ex_request_id X) op arguments = Inr r"
      "ex_unreachable X = None" "request_encode L r = Inr line" by blast
    let ?cn = "fst (handle_connection (helper_environment X A y) (ex_peer_uid X) line bk)"
    have run: "bk' = cn_server ?cn"
      "res = ebind (client_receive L (be_fmt (ex_environment X)) (ex_request_id X) (ex_chunks X (concat (cn_sent ?cn)))) (\<lambda>d. Inr (JObj d))"
      using assms(2) r by (auto simp: broker_call_def serve_def Let_def w(1))
    have none: "client_receive ?L fmt i (ex_chunks X (concat (cn_sent ?cn))) \<noteq> Inr d" if "bk_calls bk' = bk_calls bk" for fmt i d
    proof (cases rule: handle_connection_sent [of "helper_environment X A y" "ex_peer_uid X" line bk])
      case quiet
      then show ?thesis using nothing_not_received [OF w(2) refl] by simp
    next
      case (error l)
      then show ?thesis using error_not_received [OF w(2) refl] by (auto simp: error_line_def)
    next
      case (answer r operation c v l)
      with that answer_runs [OF answer(6)] run(1) have "error_line (helper_environment X A y) l" by auto
      with answer(6) show ?thesis using error_not_received [OF w(2) refl] by (auto simp: error_line_def)
    qed
    have "\<exists>e. res = Inl e" if "bk_calls bk' = bk_calls bk"
      using none [OF that] run(2)
      by (cases "client_receive ?L (be_fmt (ex_environment X)) (ex_request_id X) (ex_chunks X (concat (cn_sent ?cn)))") (simp_all add: w(1))
    moreover have "r' = r" if "receive_request L line = Inr r'" for r'
      using receive_sent [OF _ w(3) r(3) that] r(1) w(1,2) by (simp add: sound_transport_def Let_def)
    ultimately show thesis using served [of r line] client_request_Inr [OF r(1)] run(1) w(1) by simp
  qed
qed

lemma spent_call:
  assumes "well_sent L current (X, op, arguments)" "broker_call A X current op arguments (bk, y) = ((bk', y'), res)"
    and "current = Some rq" "parse_authorization L (rq_authorization rq) = Inr e"
    and "(ev_id e, t) \<in> seen bk" "be_tick (ex_environment X) < t"
  shows "bk_calls bk' = bk_calls bk \<and> (ev_id e, t) \<in> seen bk' \<and> (\<exists>x. res = Inl x)"
  using assms(1,2)
proof (cases rule: broker_call_cases)
  case unsent
  then show ?thesis using assms(5) by simp
next
  case (served r line)
  have kept: "bk_calls bk' = bk_calls bk"
  proof (rule ccontr)
    assume "\<not> ?thesis"
    from connection_records [OF this [unfolded served(4)]] served(1-3) assms(3-6) show False by fastforce
  qed
  with served(5) have "\<exists>x. res = Inl x" by blast
  moreover have "(ev_id e, t) \<in> seen bk'" unfolding served(4) using assms(5,6) by (intro connection_seen) simp_all
  ultimately show ?thesis using kept by blast
qed

text \<open>Without a readable authorization nothing is ever called.\<close>

lemma calling_records:
  assumes "well_sent L current (X, op, arguments)" "broker_call A X current op arguments (bk, y) = ((bk', y'), res)"
  shows "((bk_calls bk' = bk_calls bk \<and> (\<exists>x. res = Inl x)) \<or>
    (\<exists>rq e. current = Some rq \<and> parse_authorization L (rq_authorization rq) = Inr e \<and> length (bk_calls bk') = length (bk_calls bk) + 1 \<and>
       (ev_id e, be_tick (ex_environment X) + of_int (rc_ttl_seconds (bk_replay_cache bk))) \<in> seen bk')) \<and>
    rc_ttl_seconds (bk_replay_cache bk') = rc_ttl_seconds (bk_replay_cache bk)"
  using assms
proof (cases rule: broker_call_cases)
  case (served r line)
  show ?thesis
  proof (cases "bk_calls bk' = bk_calls bk")
    case True
    with served(4,5) show ?thesis by (simp add: connection_ttl)
  next
    case False
    then have "length (bk_calls bk') = length (bk_calls bk) + 1" unfolding served(4)
      by (cases rule: handle_calls [of "helper_environment X A y" "ex_peer_uid X" line bk]) simp_all
    with connection_records [OF False [unfolded served(4)]] served(1-4) show ?thesis by (fastforce simp: connection_ttl)
  qed
qed simp

lemma spent_request:
  assumes "\<forall>c \<in> set calls'. well_sent L current c" "current = Some rq" "parse_authorization L (rq_authorization rq) = Inr e"
    and "(ev_id e, t) \<in> seen bk" "\<forall>c \<in> set calls'. be_tick (ex_environment (fst c)) < t"
    and "in_request A current calls' (bk, y) = ((bk', y'), results)"
  shows "bk_calls bk' = bk_calls bk \<and> (\<forall>r \<in> set results. \<exists>x. r = Inl x)"
  using assms(1,4-6)
proof (induction calls' arbitrary: bk y results)
  case (Cons c rest)
  obtain X op arguments where c: "c = (X, op, arguments)" by (cases c)
  obtain bk1 y1 r where one: "broker_call A X current op arguments (bk, y) = ((bk1, y1), r)" by (metis surj_pair)
  obtain rs where rs: "in_request A current rest (bk1, y1) = ((bk', y'), rs)" "results = r # rs"
    using Cons.prems(4) by (auto simp: c one split: prod.splits)
  have "well_sent L current (X, op, arguments)" "be_tick (ex_environment X) < t" using Cons.prems(1,3) c by simp_all
  from spent_call [OF this(1) one assms(2,3) Cons.prems(2) this(2)]
  have s: "bk_calls bk1 = bk_calls bk" "(ev_id e, t) \<in> seen bk1" "\<exists>x. r = Inl x" by simp_all
  from Cons.IH [OF _ s(2) _ rs(1)] Cons.prems(1,3) s(1,3) rs(2) show ?case by auto
qed simp

text \<open>
  C5: one request, one operation. However many broker calls a tool makes while it serves one signed
  request, within the lifetime of the helper's replay cache at most one of them reaches the helper's
  adapter, and at most one of them returns a result: the helper refuses the others as replays of the
  request's event.
\<close>

theorem one_request_one_operation:
  assumes "\<forall>c \<in> set exchanges. well_sent L current c"
    and "\<forall>c \<in> set exchanges. \<forall>c' \<in> set exchanges.
      be_tick (ex_environment (fst c)) < be_tick (ex_environment (fst c')) + of_int (rc_ttl_seconds (bk_replay_cache bk))"
    and "in_request A current exchanges (bk, y) = ((bk', y'), results)"
  shows "length (bk_calls bk') \<le> length (bk_calls bk) + 1 \<and> length (filter (\<lambda>r. \<exists>v. r = Inr v) results) \<le> 1"
  using assms
proof (induction exchanges arbitrary: bk y results)
  case (Cons c rest)
  obtain X op arguments where c: "c = (X, op, arguments)" by (cases c)
  obtain bk1 y1 r where one: "broker_call A X current op arguments (bk, y) = ((bk1, y1), r)" by (metis surj_pair)
  obtain rs where rs: "in_request A current rest (bk1, y1) = ((bk', y'), rs)" "results = r # rs"
    using Cons.prems(3) by (auto simp: c one split: prod.splits)
  have w: "well_sent L current (X, op, arguments)" using Cons.prems(1) c by simp
  from calling_records [OF w one] have ttl: "rc_ttl_seconds (bk_replay_cache bk1) = rc_ttl_seconds (bk_replay_cache bk)" ..
  from calling_records [OF w one, THEN conjunct1] show ?case
  proof (elim disjE exE conjE)
    fix x assume "bk_calls bk1 = bk_calls bk" "r = Inl x"
    with Cons.IH [OF _ _ rs(1)] Cons.prems(1,2) rs(2) ttl show ?thesis by simp
  next
    fix rq e
    assume e: "current = Some rq" "parse_authorization L (rq_authorization rq) = Inr e" "length (bk_calls bk1) = length (bk_calls bk) + 1"
      "(ev_id e, be_tick (ex_environment X) + of_int (rc_ttl_seconds (bk_replay_cache bk))) \<in> seen bk1"
    have "\<forall>c' \<in> set rest. be_tick (ex_environment (fst c')) < be_tick (ex_environment X) + of_int (rc_ttl_seconds (bk_replay_cache bk))"
      using Cons.prems(2) c by simp
    from spent_request [OF _ e(1,2,4) this rs(1)] Cons.prems(1) have "bk_calls bk' = bk_calls bk1" "\<forall>r \<in> set rs. \<exists>x. r = Inl x" by auto
    moreover from this(2) have "filter (\<lambda>r. \<exists>v. r = Inr v) rs = []" by (auto simp: filter_empty_conv)
    ultimately show ?thesis using e(3) rs(2) by simp
  qed
qed simp

lemma request_sent:
  assumes "client_request L b64encode (Some rq) request_id op arguments = Inr r"
  shows "r = \<lparr>br_request_id = request_id, br_operation = op, br_arguments = arguments,
     br_authorization = rq_authorization rq, br_method = rq_method rq, br_url = rq_url rq,
     br_body_sha256 = Some (sha256_bytes L (rq_body rq)), br_body_b64 = Some (b64encode (rq_body rq)), br_delegation = rq_delegation rq\<rparr>"
  using assms by (auto simp: client_request_def require_current_request_def split: if_splits)

lemma response_received:
  assumes "\<forall>f. no_control (float_text L f)" "delivers L (response_dict answered reply)"
    and "encode_response L answered reply = Inr line" "concat chunks = line" "[] \<notin> set chunks"
  shows "client_receive L fmt request_id chunks =
    (if length line > 1048576 then Inl (protocol_error ''broker response exceeds message limit'')
     else check_response fmt request_id (JObj (response_dict answered reply)))"
proof -
  let ?raw = "dumped L (response_dict answered reply)"
  from frame_encoded [OF assms(3,1)] have line: "line = ?raw @ [line_feed]" "no_control ?raw" by auto
  with read_line_limit [OF line(2), of "[]" chunks] assms(4,5)
  have "read_line [] chunks = (if length ?raw < 1048576 then Inr ?raw else Inl (protocol_error ''broker response exceeds message limit''))" by simp
  with assms(2) line(1) show ?thesis by (simp add: client_receive_def delivers_def)
qed

text \<open>
  C37: both ends agree on a request and on its answer, over the socket.  From the bytes that the client sends, and whatever
  follows them, the helper reads a request with the operation and the arguments of the call and with the caller's own
  authorization header, method, URL, delegation and body.  Of the bytes that the helper answers to this request, however they
  are cut, the client makes what was answered: the result, if it is an object, or the error with its message; and an
  answer to any other request it refuses.  (An answer that fills the helper's limit exactly is beyond the client's.)  That
  \<open>json.loads\<close> and \<open>b64decode\<close> read back what \<open>json.dumps\<close> and \<open>b64encode\<close> wrote is assumed, of these messages.
\<close>

theorem client_helper_agree:
  assumes "client_request L b64encode (Some rq) request_id op arguments = Inr r" "request_encode L r = Inr line"
    and "\<forall>f. no_control (float_text L f)" "delivers L (request_to_dict r)" "b64decode L (b64encode (rq_body rq)) = Inr (rq_body rq)"
    and "request_id \<noteq> []" "length request_id \<le> 128" "op \<noteq> []" "length op \<le> 128"
  shows "\<exists>r'. receive_request L (line @ later) = Inr r' \<and> br_request_id r' = request_id \<and> br_operation r' = op \<and> br_arguments r' = arguments \<and>
    br_authorization r' = rq_authorization rq \<and> br_method r' = rq_method rq \<and> br_url r' = rq_url rq \<and>
    br_delegation r' = rq_delegation rq \<and> decode_original_body L r' = Inr (rq_body rq) \<and>
    (\<forall>answered reply sent chunks. delivers L (response_dict answered reply) \<and> encode_response L answered reply = Inr sent \<and>
        concat chunks = sent \<and> [] \<notin> set chunks \<longrightarrow>
      client_receive L fmt request_id chunks =
        (if length sent > 1048576 then Inl (protocol_error ''broker response exceeds message limit'')
         else if answered \<noteq> br_request_id r' then Inl (client_error ''broker response protocol or request_id mismatch'')
         else case reply of
             Inr (JObj result) \<Rightarrow> Inr result
           | Inr _ \<Rightarrow> Inl (client_error ''broker result must be an object'')
           | Inl e \<Rightarrow> Inl (client_error (if exn_msg e = [] then ''broker operation failed'' else exn_msg e))))"
proof -
  note r = request_sent [OF assms(1)]
  have id: "br_request_id r = request_id" by (simp add: r)
  have "receive_request L (line @ later) = Inr r"
    using request_roundtrip [OF assms(3) assms(4) [unfolded delivers_def dumped_def] _ _ _ _ assms(2)] assms(6-9) by (simp add: r)
  moreover have "client_receive L fmt request_id chunks =
        (if length sent > 1048576 then Inl (protocol_error ''broker response exceeds message limit'')
         else if answered \<noteq> request_id then Inl (client_error ''broker response protocol or request_id mismatch'')
         else case reply of
             Inr (JObj result) \<Rightarrow> Inr result
           | Inr _ \<Rightarrow> Inl (client_error ''broker result must be an object'')
           | Inl e \<Rightarrow> Inl (client_error (if exn_msg e = [] then ''broker operation failed'' else exn_msg e)))"
    if "delivers L (response_dict answered reply)" "encode_response L answered reply = Inr sent" "concat chunks = sent" "[] \<notin> set chunks"
    for answered reply sent chunks
    unfolding response_received [OF assms(3) that, of fmt request_id]
    by (auto simp: check_response_def response_dict_def PROTOCOL_VERSION_def py_str_def split: sum.split json.split)
  ultimately show ?thesis using assms(5) unfolding id [symmetric] by (intro exI [of _ r]) (simp add: r decode_original_body_def)
qed

subsection \<open>An app removed through the socket\<close>

definition link_request :: broker_request where
  "link_request = \<lparr>br_request_id = ''r1'', br_operation = ''app.remove'', br_arguments = [(''app'', JStr ''wiki'')],
     br_authorization = Some ''nostr e'', br_method = Some ''POST'', br_url = Some ''https://h/mcp'',
     br_body_sha256 = Some ''body'', br_body_b64 = Some ''body'', br_delegation = None\<rparr>"

definition link_answer :: dict where
  "link_answer = [(''fake'', JBool False), (''operation_id'', JNull), (''app'', JStr ''wiki''), (''result'', JNull)]"

definition link_libs :: libs where
  "link_libs = example_http_libs\<lparr>json_loads_bytes := (\<lambda>s.
     if s = dumped example_libs (response_dict ''r1'' (Inr (JObj link_answer)))
     then Inr (JObj (response_dict ''r1'' (Inr (JObj link_answer))))
     else if s = dumped example_libs (request_to_dict link_request) then Inr (JObj (request_to_dict link_request))
     else Inr JNull)\<rparr>"

definition link_operator :: identity_record where
  "link_operator = example_author\<lparr>id_scopes := {APPS_REMOVE}\<rparr>"

definition link_env :: broker_env where
  "link_env = reboot_env\<lparr>be_libs := link_libs, be_lookup := \<lambda>_. Inr (Some link_operator)\<rparr>"

definition link_broker :: broker where
  "link_broker = reboot_broker\<lparr>bk_policy := []\<rparr>"

definition link_exchange :: exchange where
  "link_exchange = \<lparr>ex_environment = link_env, ex_request_id = ''r1'', ex_unreachable = None, ex_base64 = id,
     ex_peer_uid = 990, ex_chunks = (\<lambda>s. if s = [] then [] else [s])\<rparr>"

definition link_caller :: authenticated_request where
  "link_caller = reboot_caller\<lparr>rq_authorization := Some ''nostr e'', rq_method := Some ''POST'',
     rq_url := Some ''https://h/mcp'', rq_body := ''body''\<rparr>"

lemma link_dumps: "dumped link_libs d = dumped example_libs d" "float_text link_libs = (\<lambda>_. ''0.0'')"
  by (simp_all add: dumped_def link_libs_def example_http_libs_def example_libs_def del: json_text.simps)

lemma json_plain: "list_all (\<lambda>c. 32 \<le> code c \<and> code c \<noteq> 34 \<and> code c \<noteq> 92) s \<Longrightarrow> json_string False s = [char_of (34 :: nat)] @ s @ [char_of (34 :: nat)]"
  by (induction s) (auto simp: json_string_def json_escape_def Let_def)

lemma utf8_plain: "list_all (\<lambda>c. code c < 128) s \<Longrightarrow> utf8_encode s = s"
  by (induction s) (auto simp: utf8_encode_def utf8_char_def Let_def)

lemma json_chars: "show_nat (Suc 0) = ''1''" "CHR ''}'' \<noteq> char_of (34 :: nat)"
  by code_simp+

lemmas json_texts = json_plain compact_format_def code_def PROTOCOL_VERSION_def show_int_def json_optional_def json_chars

lemma link_texts:
  fixes dq :: string
  defines "dq \<equiv> [char_of (34 :: nat)]"
  shows "json_text f compact_format (JObj (request_to_dict link_request)) =
      ''{'' @ dq @ ''protocol'' @ dq @ '':1,'' @ dq @ ''request_id'' @ dq @ '':'' @ dq @ ''r1'' @ dq @ '','' @ dq @ ''operation'' @ dq @ '':'' @ dq @ ''app.remove'' @ dq @ '','' @ dq @ ''arguments'' @ dq @ '':{'' @ dq @ ''app'' @ dq @ '':'' @ dq @ ''wiki'' @ dq @ ''},'' @ dq @ ''auth'' @ dq @ '':{'' @ dq @ ''authorization'' @ dq @ '':'' @ dq @ ''nostr e'' @ dq @ '','' @ dq @ ''method'' @ dq @ '':'' @ dq @ ''POST'' @ dq @ '','' @ dq @ ''url'' @ dq @ '':'' @ dq @ ''https://h/mcp'' @ dq @ '','' @ dq @ ''body_sha256'' @ dq @ '':'' @ dq @ ''body'' @ dq @ '','' @ dq @ ''body_b64'' @ dq @ '':'' @ dq @ ''body'' @ dq @ '','' @ dq @ ''delegation'' @ dq @ '':null}}''"
    "json_text f compact_format (JObj (response_dict ''r1'' (Inr (JObj link_answer)))) =
      ''{'' @ dq @ ''protocol'' @ dq @ '':1,'' @ dq @ ''request_id'' @ dq @ '':'' @ dq @ ''r1'' @ dq @ '','' @ dq @ ''ok'' @ dq @ '':true,'' @ dq @ ''result'' @ dq @ '':{'' @ dq @ ''fake'' @ dq @ '':false,'' @ dq @ ''operation_id'' @ dq @ '':null,'' @ dq @ ''app'' @ dq @ '':'' @ dq @ ''wiki'' @ dq @ '','' @ dq @ ''result'' @ dq @ '':null}}''"
  by (simp_all add: request_to_dict_def link_request_def response_dict_def link_answer_def json_texts dq_def)

lemma link_distinct:
  "dumped example_libs (request_to_dict link_request) \<noteq> dumped example_libs (response_dict ''r1'' (Inr (JObj link_answer)))"
  and link_ends: "last (butlast (dumped example_libs (response_dict ''r1'' (Inr (JObj link_answer))))) \<noteq> char_of (34 :: nat)"
  "last (butlast (dumped example_libs (request_to_dict link_request))) \<noteq> char_of (34 :: nat)"
  "dumped example_libs (response_dict ''r1'' (Inr (JObj link_answer))) \<notin> {[], ''e''}"
  "dumped example_libs (request_to_dict link_request) \<notin> {[], ''e''}"
  by (simp_all add: dumped_def link_texts utf8_plain json_chars code_def del: json_text.simps)

lemma error_dump_end: "last (butlast (dumped L (response_dict rid (Inl e)))) = char_of (34 :: nat)"
proof -
  have "\<exists>s. json_text (float_text L) compact_format (JObj (response_dict rid (Inl e))) = s @ [char_of (34 :: nat), CHR ''}'']"
    by (auto simp: response_dict_def compact_format_def json_string_def)
  then obtain s where "dumped L (response_dict rid (Inl e)) = utf8_encode (s @ [char_of (34 :: nat), CHR ''}''])"
    by (auto simp: dumped_def simp del: json_text.simps)
  also have "\<dots> = utf8_encode s @ [char_of (34 :: nat), CHR ''}'']"
    by (simp add: utf8_encode_def utf8_char_def code_def)
  finally show ?thesis by (simp add: butlast_append)
qed

lemma link_loads:
  "json_loads_bytes link_libs (dumped link_libs (request_to_dict link_request)) = Inr (JObj (request_to_dict link_request))"
  "json_loads_bytes link_libs (dumped link_libs (response_dict ''r1'' (Inr (JObj link_answer)))) =
     Inr (JObj (response_dict ''r1'' (Inr (JObj link_answer))))"
  "json_loads_bytes link_libs [] = Inr JNull" "json_loads_bytes link_libs ''e'' = Inr JNull"
  "json_loads_bytes link_libs (dumped link_libs (response_dict rid (Inl x))) = Inr JNull"
  using link_distinct link_ends error_dump_end [of example_libs rid x] unfolding link_dumps
  by (auto simp: link_libs_def)

lemma link_libs_simps [simp]:
  "sha256_hex link_libs s = replicate 64 CHR ''a''" "sha256_bytes link_libs s = s" "b64decode link_libs s = Inr s"
  "verify_signature link_libs e = Inr True" "pydantic_event link_libs v = Inr example_http_event"
  "json_loads link_libs s = Inr JNull"
  by (simp_all add: link_libs_def example_http_libs_def)

lemma link_env_simps [simp]:
  "be_libs link_env = link_libs" "be_lookup link_env = (\<lambda>_. Inr (Some link_operator))" "be_now link_env = 1000"
  "be_tick link_env = 0" "be_sendall link_env = (\<lambda>_. Inr ())"
  by (simp_all add: link_env_def)

lemma link_exchange_simps [simp]:
  "ex_environment link_exchange = link_env" "ex_request_id link_exchange = ''r1''" "ex_unreachable link_exchange = None"
  "ex_base64 link_exchange = id" "ex_peer_uid link_exchange = 990" "ex_chunks link_exchange s = (if s = [] then [] else [s])"
  by (simp_all add: link_exchange_def)

lemma link_sound: "sound_transport link_exchange"
  using link_loads(5) by (simp add: sound_transport_def link_loads(3) link_dumps(2) code_def)

lemma link_sent: "client_request link_libs id (Some link_caller) ''r1'' ''app.remove'' [(''app'', JStr ''wiki'')] = Inr link_request"
  by (simp add: client_request_def require_current_request_def link_caller_def reboot_caller_def link_request_def)

lemma link_wire: "well_sent link_libs (Some link_caller) (link_exchange, ''app.remove'', [(''app'', JStr ''wiki'')])"
  by (simp add: well_sent_def link_sound link_sent delivers_def link_loads(1))

lemma link_good: "store_good link_libs link_broker"
  by (simp add: store_good_def link_broker_def reboot_broker_def sql_good_def sql_init_def)

lemma link_received:
  assumes "request_encode link_libs link_request = Inr line"
  shows "receive_request link_libs line = Inr link_request"
  using request_roundtrip [of link_libs link_request line "[]"] link_loads(1) assms
  by (simp add: link_dumps(2) code_def dumped_def link_request_def del: json_text.simps)

lemma link_verified:
  "\<exists>c. verify_nip98_request link_libs (Some ''nostr e'') ''POST'' ''https://h/mcp'' ''body'' 60 1000 0 (replay_init 300) =
     (c, Inr \<lparr>ni_pubkey = replicate 64 CHR ''a'', ni_event_id = replicate 64 CHR ''a'', ni_created_at = 1000\<rparr>)"
proof -
  have "parse_authorization example_http_libs (Some ''nostr e'') = parse_authorization link_libs (Some ''nostr e'')"
    by (simp add: parse_authorization_def str_partition_def model_validate_def example_http_libs_simps link_loads(4))
  then have "parse_authorization link_libs (Some ''nostr e'') = Inr example_http_event"
    using example_http_parses by simp
  moreover have "check_event link_libs example_http_event ''POST'' ''https://h/mcp'' ''body'' 60 1000 = Inr ()"
    unfolding check_event_Inr by (simp add: example_http_event_def event_tag_def compute_event_id_def)
  moreover have "check_and_record 0 (replicate 64 CHR ''a'') (replay_init 300) =
      ((replay_init 300)\<lparr>rc_seen := [(replicate 64 CHR ''a'', 300)]\<rparr>, Inr ())"
    by (simp add: check_and_record_def replay_prune_def replay_init_def)
  ultimately show ?thesis
    by (simp add: verify_nip98_request_def) (simp add: example_http_event_def)
qed

abbreviation link_helper :: broker_env where
  "link_helper \<equiv> helper_environment link_exchange demo_adapter True"

lemma link_helper_simps [simp]:
  "be_lookup link_helper = (\<lambda>_. Inr (Some link_operator))" "be_now link_helper = 1000" "be_sendall link_helper = (\<lambda>_. Inr ())"
  by (simp_all add: helper_environment_def)

lemma link_authorized: "\<exists>rq. snd (authorize_request link_helper link_request link_broker) = Inr rq \<and> rq_identity rq = Some link_operator"
proof -
  have "resolve_identity link_libs fmt (\<lambda>_. Inr (Some link_operator)) revoked now mw pubkey headers = Inr (Some link_operator)"
    for fmt revoked now mw pubkey headers
    by (simp add: resolve_identity_def is_expired_def link_operator_def example_author_def)
  moreover have "py_trunc 1000 = 1000" by (simp add: py_trunc_def)
  moreover have "bk_replay_cache link_broker = replay_init 300" by (simp add: link_broker_def reboot_broker_def)
  ultimately show ?thesis using link_verified
    by (auto simp: authorize_request_def link_request_def decode_original_body_def DEFAULT_CLOCK_SKEW_SECONDS_def)
qed

lemma link_runs:
  assumes "request_encode link_libs link_request = Inr line"
  shows "bk_calls (cn_server (fst (handle_connection link_helper 990 line link_broker))) =
    [call_of ''app_remove'' [JStr ''wiki''] [(''purge'', JBool False), (''confirmation_id'', JNull)]]"
proof -
  let ?op = "\<lparr>bo_name = ''app.remove'', bo_required_scope = ''apps.remove'', bo_invoke = app_remove\<rparr>"
  let ?bk = "fst (authorize_request link_helper link_request link_broker)"
  define cn0 where "cn0 = (connection_init link_broker)\<lparr>cn_request_id := br_request_id link_request,
     cn_operation := br_operation link_request, cn_arguments := br_arguments link_request\<rparr>"
  obtain rq where rq: "snd (authorize_request link_helper link_request link_broker) = Inr rq" "rq_identity rq = Some link_operator"
    using link_authorized by blast
  have scope: "required_scope ?op = Inr APPS_REMOVE" "has_scope rq APPS_REMOVE"
    using scope_of_value_Some [of "''apps.remove''" APPS_REMOVE] rq(2)
    by (simp_all add: required_scope_def has_scope_def request_scopes_def link_operator_def)
  have r: "br_operation link_request = ''app.remove''" "br_arguments link_request = [(''app'', JStr ''wiki'')]"
    by (simp_all add: link_request_def)
  have tried: "handle_try link_helper 990 line (connection_init link_broker) =
      checked_operation link_helper link_request ?op (rq_pubkey rq) (cn0\<lparr>cn_server := ?bk, cn_caller := rq_pubkey rq\<rparr>)"
    using link_received [OF assms] scope OPERATIONS_app_remove rq(1) r(1)
    by (simp add: handle_try_def raising_def connection_init_def Let_def cn0_def execute_request_def on_server_alt guard_def)
       (simp add: link_broker_def reboot_broker_def)
  have "bk_policy ?bk = []" by (simp add: link_broker_def)
  then have "snd (check_operation_policy link_helper (br_arguments link_request) ''app.remove'' (rq_pubkey rq) ?bk) = Inr None"
    by (simp add: check_operation_policy_def split: option.split)
  moreover have "snd (check_package_test_session link_helper link_request pk bk) = Inr ()" for pk bk
    by (simp add: check_package_test_session_def r starts_with_def)
  ultimately obtain bk where "handle_try link_helper 990 line (connection_init link_broker) =
      run_operation link_helper link_request ?op None
        (cn0\<lparr>cn_caller := rq_pubkey rq, cn_confirmation := None, cn_server := bk, cn_decision := ''allowed''\<rparr>)"
    "bk_calls bk = []"
    unfolding tried by (simp add: checked_operation_def on_server_alt) (simp add: link_broker_def reboot_broker_def)
  moreover have "bk_calls (cn_server (fst (handle_connection link_helper 990 line link_broker))) =
      bk_calls (cn_server (fst (handle_try link_helper 990 line (connection_init link_broker))))"
    using handle_calls_eq [OF surjective_pairing] by blast
  ultimately show ?thesis using run_operation_calls app_remove_accepts r(2) by simp
qed

lemma demo_removes:
  "root_invoke demo_adapter ''app.remove'' [(''app'', JStr ''wiki'')] True = (False, Inr (JObj link_answer))"
  "call_method (at_root demo_adapter) (call_of ''app_remove'' [JStr ''wiki''] [(''purge'', JBool False), (''confirmation_id'', JNull)]) True =
     (False, Inr (JObj link_answer))"
proof -
  have m: "map_of METHODS ''app_remove'' = Some (sig_app_remove, adapter_app_remove :: bool adapter_method)"
    by (rule method_at [OF method_names, where n = 58]) (simp_all add: METHODS_def)
  have same: "at_root demo_adapter = demo_adapter" by (simp add: at_root_def demo_adapter_def)
  show call: "call_method (at_root demo_adapter) (call_of ''app_remove'' [JStr ''wiki''] [(''purge'', JBool False), (''confirmation_id'', JNull)]) True =
     (False, Inr (JObj link_answer))"
    unfolding same by (simp add: call_method_def m bind_arguments_def sig_app_remove_def sg_names_def demo_methods link_answer_def)
  show "root_invoke demo_adapter ''app.remove'' [(''app'', JStr ''wiki'')] True = (False, Inr (JObj link_answer))"
    using root_invoke_registered [OF OPERATIONS_app_remove, of "[(''app'', JStr ''wiki'')]" _ demo_adapter True] app_remove_accepts call
    by (simp add: adapter_result_def)
qed

lemma link_encoded: "\<exists>line. request_encode link_libs link_request = Inr line"
  by (simp add: request_encode_def Let_def link_dumps(2) link_texts utf8_plain json_chars code_def MAX_MESSAGE_BYTES_def del: json_text.simps)

lemma link_called:
  "\<exists>bk' res. broker_call demo_adapter link_exchange (Some link_caller) ''app.remove'' [(''app'', JStr ''wiki'')] (link_broker, True) =
     ((bk', False), res) \<and> length (bk_calls bk') = 1"
proof -
  obtain line where line: "request_encode link_libs link_request = Inr line" using link_encoded by blast
  have "bk_calls link_broker = []" by (simp add: link_broker_def reboot_broker_def)
  then show ?thesis using link_runs [OF line] demo_removes(2)
    by (auto simp: broker_call_def Let_def link_sent line serve_def)
qed

theorem broker_call_refines_witness:
  "\<exists>rq. authentic link_helper link_request link_broker rq \<and> has_scope rq APPS_REMOVE \<and>
     snd (fst (broker_call demo_adapter link_exchange (Some link_caller) ''app.remove'' [(''app'', JStr ''wiki'')] (link_broker, True))) =
       fst (root_invoke demo_adapter ''app.remove'' [(''app'', JStr ''wiki'')] True)"
proof -
  obtain bk' res where run: "broker_call demo_adapter link_exchange (Some link_caller) ''app.remove'' [(''app'', JStr ''wiki'')] (link_broker, True) =
     ((bk', False), res)" "length (bk_calls bk') = 1" using link_called by blast
  have none: "bk_calls link_broker = []" by (simp add: link_broker_def reboot_broker_def)
  have "\<forall>v. snd (root_invoke demo_adapter ''app.remove'' [(''app'', JStr ''wiki'')] True) = Inr v \<longrightarrow>
      delivers link_libs (response_dict (ex_request_id link_exchange) (Inr v))"
    by (simp add: demo_removes delivers_def link_loads(2))
  moreover have "delivers link_libs (request_to_dict link_request)" by (simp add: delivers_def link_loads(1))
  ultimately obtain operation rq s where w: "map_of OPERATIONS ''app.remove'' = Some operation"
    "authentic link_helper link_request link_broker rq" "required_scope operation = Inr s" "has_scope rq s"
    "False = fst (root_invoke demo_adapter ''app.remove'' [(''app'', JStr ''wiki'')] True)"
    using broker_call_refines [of link_libs link_exchange link_helper demo_adapter True link_broker "Some link_caller" "''app.remove''"
        "[(''app'', JStr ''wiki'')]" link_request bk' False res] run link_good link_sound link_sent none by auto
  have "s = APPS_REMOVE" using w(1,3) OPERATIONS_app_remove scope_of_value_Some [of "''apps.remove''" APPS_REMOVE]
    by (auto simp: required_scope_def)
  with w run(1) show ?thesis by auto
qed

theorem one_request_one_operation_witness:
  "length (bk_calls (fst (fst (in_request demo_adapter (Some link_caller)
     [(link_exchange, ''app.remove'', [(''app'', JStr ''wiki'')]), (link_exchange, ''app.remove'', [(''app'', JStr ''wiki'')])]
     (link_broker, True))))) \<le> 1"
proof -
  let ?c = "(link_exchange, ''app.remove'', [(''app'', JStr ''wiki'')])"
  obtain bk' y' results where run: "in_request demo_adapter (Some link_caller) [?c, ?c] (link_broker, True) = ((bk', y'), results)"
    by (metis surj_pair)
  have "bk_calls link_broker = []" "rc_ttl_seconds (bk_replay_cache link_broker) = 300"
    by (simp_all add: link_broker_def reboot_broker_def replay_init_def)
  with one_request_one_operation [OF _ _ run] link_wire show ?thesis unfolding run by simp
qed

theorem client_helper_agree_witness:
  "\<exists>line r' sent. request_encode link_libs link_request = Inr line \<and> receive_request link_libs (line @ ''more'') = Inr r' \<and>
     br_authorization r' = Some ''nostr e'' \<and> decode_original_body link_libs r' = Inr ''body'' \<and>
     encode_response link_libs ''r1'' (Inr (JObj link_answer)) = Inr sent \<and>
     client_receive link_libs (\<lambda>_. []) ''r1'' [take 9 sent, drop 9 sent] = Inr link_answer"
proof -
  obtain line where line: "request_encode link_libs link_request = Inr line" using link_encoded by blast
  obtain sent where sent: "encode_response link_libs ''r1'' (Inr (JObj link_answer)) = Inr sent" "9 < length sent" "length sent \<le> 1048576"
    by (simp add: encode_response_def Let_def link_dumps(2) link_texts utf8_plain json_chars code_def MAX_MESSAGE_BYTES_def del: json_text.simps)
  then have nonempty: "sent \<noteq> []" by auto
  have floats: "\<forall>f. no_control (float_text link_libs f)" by (simp add: link_dumps(2) code_def)
  have "delivers link_libs (request_to_dict link_request)" "b64decode link_libs (id (rq_body link_caller)) = Inr (rq_body link_caller)"
    "''r1'' \<noteq> []" "length ''r1'' \<le> 128" "''app.remove'' \<noteq> []" "length ''app.remove'' \<le> 128"
    by (simp_all add: delivers_def link_loads)
  from client_helper_agree [OF link_sent line floats this, of "''more''" "\<lambda>_. []"] obtain r' where
    r': "receive_request link_libs (line @ ''more'') = Inr r'" "br_authorization r' = rq_authorization link_caller"
      "decode_original_body link_libs r' = Inr (rq_body link_caller)"
      "client_receive link_libs (\<lambda>_. []) ''r1'' [take 9 sent, drop 9 sent] = Inr link_answer"
    using sent nonempty
    by (elim exE conjE)
       (drule spec [of _ "''r1''"], drule spec [of _ "Inr (JObj link_answer)"], drule spec [of _ sent],
        drule spec [of _ "[take 9 sent, drop 9 sent]"], rule that, simp_all add: delivers_def link_loads)
  with line sent(1) show ?thesis by (intro exI [of _ line] exI [of _ r'] exI [of _ sent]) (simp add: link_caller_def)
qed

end
