(* ===== verification/Server_Flows.thy ===== *)
theory Server_Flows
  imports Server_Gates Broker_Link
begin

text \<open>
  The tools of \<open>server.py\<close> with bodies of their own, and its resources: plans of upgrades, package-test
  sessions and the cycle of tests, the audit and approval tools, \<open>safe_upgrade\<close>, \<open>whoami\<close>.  A body is a step
  on the frontend, which \<open>decorated\<close> puts under its decorators; a body that uses the confirmation store or
  the audit log is an action on the whole world.
\<close>

subsection \<open>What the bodies use\<close>

definition on_plans :: "(mem_store \<Rightarrow> mem_store \<times> (exn + 'a)) \<Rightarrow> ('y frontend, 'a) step" where
  "on_plans f fr = (case f (fr_plans fr) of (st, r) \<Rightarrow> (fr\<lparr>fr_plans := st\<rparr>, r))"

definition on_sessions :: "(session_store \<Rightarrow> session_store \<times> (exn + 'a)) \<Rightarrow> ('y frontend, 'a) step" where
  "on_sessions f fr = (case f (fr_sessions fr) of (st, r) \<Rightarrow> (fr\<lparr>fr_sessions := st\<rparr>, r))"

definition apps_upgrade_rule :: "('st, 'y) server_env \<Rightarrow> policy_rule" where
  "apps_upgrade_rule E = policy_get (se_policy E) ''apps.upgrade''"

text \<open>\<open>value[key]\<close>\<close>

definition item_of :: "json \<Rightarrow> string \<Rightarrow> exn + json" where
  "item_of v key = (case v of JObj d \<Rightarrow> (case map_of d key of None \<Rightarrow> Inl (Exn KeyError (py_repr key)) | Some x \<Rightarrow> Inr x)
     | _ \<Rightarrow> Inl (Exn TypeError ''not subscriptable''))"

subsection \<open>Plans of an upgrade\<close>

text \<open>The findings of the hard checks: a violation is a warning, any other exception is raised.\<close>

definition plan_warnings :: "exn + unit \<Rightarrow> exn + string list" where
  "plan_warnings r = (case r of Inr _ \<Rightarrow> Inr []
     | Inl e \<Rightarrow> if exn_cls e = PolicyViolation then Inr [exn_msg e] else Inl e)"

definition upgrade_plan :: "json \<Rightarrow> string list \<Rightarrow> exn + dict" where
  "upgrade_plan facts warnings = (case facts of
      JObj d \<Rightarrow> Inr (dset (dset d ''warnings'' (JList (map JStr warnings))) ''blocked'' (JBool (warnings \<noteq> [])))
    | _ \<Rightarrow> Inl (Exn TypeError ''object is not a mapping''))"

definition plan_app_upgrade_body ::
  "('st, 'y) server_env \<Rightarrow> authenticated_request option \<Rightarrow> string \<Rightarrow> dict \<Rightarrow> ('y frontend, json) step" where
  "plan_app_upgrade_body E current plan_id k =
     and_then (run_adapter (se_adapter E) (call_of ''plan_app_upgrade'' [dget k ''app''] [])) (\<lambda>facts.
     and_then (\<lambda>fr. (fr, plan_warnings (check_apps_upgrade E (fr_system fr) (apps_upgrade_rule E)))) (\<lambda>warnings.
     and_then (ret (upgrade_plan facts warnings)) (\<lambda>plan.
     and_then (ret (require_current_request current)) (\<lambda>rq.
     and_then (on_plans (mem_create (se_libs E) (se_now E) plan_id (rq_pubkey rq) ''plan.app_upgrade'' [] (JObj plan) False)) (\<lambda>t.
     answer (dset (dset plan ''plan_id'' (JStr (tk_id t))) ''expires_at'' (JFloat (tk_expires_at t))))))))"

definition tool_plan_app_upgrade :: decoration where
  "tool_plan_app_upgrade = \<lparr>tl_name = ''plan_app_upgrade'', tl_params = [(''app'', None)], tl_scope = Some APPS_READ,
     tl_audit = None, tl_sanitizer = None, tl_gate = None\<rparr>"

definition invalid_plan :: "mem_store \<times> (exn + 'a) \<Rightarrow> mem_store \<times> (exn + 'a)" where
  "invalid_plan r = (fst r, reraise (\<lambda>e. exn_cls e = ConfirmationError)
     (\<lambda>e. Exn ConfirmationError (''invalid plan_id: '' @ exn_msg e)) (snd r))"

text \<open>A plan for the control plane itself, that the caller made.\<close>

definition own_control_plane :: "authenticated_request \<Rightarrow> ticket \<Rightarrow> exn + bool" where
  "own_control_plane rq t =
     (if tk_pubkey t \<noteq> rq_pubkey rq then Inr False
      else ebind (get_or (tk_plan t) ''app'' JNull) (\<lambda>app. Inr (app = JStr CONTROL_PLANE_APP_ID)))"

text \<open>The second half: the plan is used up, the checks are made again, and the app is upgraded.\<close>

definition upgrade_planned :: "('st, 'y) server_env \<Rightarrow> authenticated_request \<Rightarrow> string \<Rightarrow> ('y frontend, json) step" where
  "upgrade_planned E rq plan_id =
     and_then (on_plans (\<lambda>st. invalid_plan (mem_consume (se_libs E) (se_now E) plan_id (rq_pubkey rq) ''plan.app_upgrade'' [] False False st))) (\<lambda>t.
     and_then (\<lambda>fr. (fr, check_apps_upgrade E (fr_system fr) (apps_upgrade_rule E))) (\<lambda>_.
     and_then (ret (item_of (tk_plan t) ''app'')) (\<lambda>app.
     run_adapter (se_adapter E) (call_of ''app_upgrade'' [] [(''app'', app)]))))"

definition execute_plan_body ::
  "('st, 'y) server_env \<Rightarrow> authenticated_request option \<Rightarrow> dict \<Rightarrow> ('y frontend, json) step" where
  "execute_plan_body E current k =
     and_then (ret (require_current_request current)) (\<lambda>rq.
     and_then (on_plans (\<lambda>st. invalid_plan (mem_peek (se_now E) (text_of (dget k ''plan_id'')) st))) (\<lambda>waiting.
     and_then (ret (own_control_plane rq waiting)) (\<lambda>control_plane.
     checked (guard (\<not> control_plane) (Exn ConfirmationError
        ''planned upgrades of yunohost_mcp must use app_upgrade(), which requires owner co-signature''))
     (upgrade_planned E rq (text_of (dget k ''plan_id''))))))"

definition tool_execute_plan :: decoration where
  "tool_execute_plan = \<lparr>tl_name = ''execute_plan'', tl_params = [(''plan_id'', None)], tl_scope = Some APPS_UPGRADE,
     tl_audit = Some ''apps.upgrade'', tl_sanitizer = None, tl_gate = None\<rparr>"

definition execute_plan ::
  "('st, 'y) server_env \<Rightarrow> string \<Rightarrow> authenticated_request option \<Rightarrow> dict \<Rightarrow> ('st, 'y frontend, json) action" where
  "execute_plan E audit_id current k = decorated E tool_execute_plan [] audit_id current (execute_plan_body E current) k"

subsection \<open>Package tests\<close>

definition package_test_prepare_body ::
  "('st, 'y) server_env \<Rightarrow> authenticated_request option \<Rightarrow> string \<Rightarrow> dict \<Rightarrow> ('y frontend, json) step" where
  "package_test_prepare_body E current session_id k =
     and_then (run_adapter (se_adapter E) (call_of ''package_inspect'' [dget k ''source''] [])) (\<lambda>manifest.
     and_then (ret (if truthy (dget k ''app'') then Inr (dget k ''app'') else get_or manifest ''id'' JNull)) (\<lambda>app_id.
     checked (guard (is_str app_id \<and> str_strip (text_of app_id) \<noteq> [])
       (Exn ToolInputError ''package manifest did not provide an app id; pass app explicitly''))
     (and_then (ret (require_current_request current)) (\<lambda>rq.
     and_then (on_sessions (session_create (se_libs E) (se_now E) session_id (rq_pubkey rq) (text_of (dget k ''source'')) (text_of app_id)))
       (\<lambda>session.
     answer [(''package_test_id'', JStr (ps_session_id session)), (''app'', JStr (ps_app_id session)),
       (''source'', JStr (ps_source session)), (''expires_at'', JFloat (ps_expires_at session)), (''manifest'', manifest)])))))"

definition tool_package_test_prepare :: decoration where
  "tool_package_test_prepare = \<lparr>tl_name = ''package_test_prepare'', tl_params = [(''source'', None), (''app'', Some JNull)],
     tl_scope = Some PACKAGES_INSPECT, tl_audit = None, tl_sanitizer = None, tl_gate = None\<rparr>"

definition package_session_of ::
  "('st, 'y) server_env \<Rightarrow> authenticated_request option \<Rightarrow> json \<Rightarrow> json \<Rightarrow> json \<Rightarrow> ('y frontend, package_session) step" where
  "package_session_of E current session_id source app =
     (if \<not> is_str session_id \<or> text_of session_id = []
      then ret (Inl (Exn ToolInputError ''session_id is required; call package_test_prepare first''))
      else and_then (ret (require_current_request current)) (\<lambda>rq.
        on_sessions (\<lambda>st. case session_get (se_libs E) (se_now E) (text_of session_id) (rq_pubkey rq) source app st of
          (st', r) \<Rightarrow> (st', reraise (\<lambda>e. exn_cls e = PackageTestSessionError) (\<lambda>e. Exn ToolInputError (exn_msg e)) r))))"

definition package_test_gate :: "(dict \<Rightarrow> dict) \<Rightarrow> tool_gate" where
  "package_test_gate plan = \<lparr>tg_policy_key = (\<lambda>_. Inr ''packages.test''), tg_checks = None, tg_defer = True,
     tg_plan = Some (\<lambda>k. Inr (JObj (plan k)))\<rparr>"

definition tool_package_install_test :: decoration where
  "tool_package_install_test = \<lparr>tl_name = ''package_install_test'', tl_params = [(''source'', None), (''session_id'', None),
     (''label'', Some JNull), (''args'', Some JNull), (''confirmation_id'', Some JNull)],
     tl_scope = Some PACKAGES_TEST, tl_audit = Some ''packages.test'', tl_sanitizer = None,
     tl_gate = Some (package_test_gate (\<lambda>k. [(''action'', JStr ''install candidate package for testing''), (''source'', dget k ''source''),
       (''package_test_id'', dget k ''session_id''), (''label'', dget k ''label''), (''has_custom_args'', JBool (dget k ''args'' \<noteq> JNull)),
       (''warning'', JStr ''Package installation runs candidate scripts with YunoHost privileges and requires owner approval.'')]))\<rparr>"

definition package_install_test_body ::
  "('st, 'y) server_env \<Rightarrow> authenticated_request option \<Rightarrow> dict \<Rightarrow> ('y frontend, json) step" where
  "package_install_test_body E current k =
     and_then (package_session_of E current (dget k ''session_id'') (dget k ''source'') JNull) (\<lambda>_.
     run_adapter (se_adapter E) (call_of ''package_install_test'' [dget k ''source''] [(''label'', dget k ''label''), (''args'', dget k ''args''),
       (''session_id'', dget k ''session_id''), (''confirmation_id'', dget k ''confirmation_id'')]))"

definition tool_package_upgrade_test :: decoration where
  "tool_package_upgrade_test = \<lparr>tl_name = ''package_upgrade_test'', tl_params = [(''app'', None), (''source'', None), (''session_id'', None),
     (''confirmation_id'', Some JNull)],
     tl_scope = Some PACKAGES_TEST, tl_audit = Some ''packages.test'', tl_sanitizer = None,
     tl_gate = Some (package_test_gate (\<lambda>k. [(''action'', JStr ''upgrade test app from candidate package''), (''app'', dget k ''app''),
       (''source'', dget k ''source''), (''package_test_id'', dget k ''session_id''),
       (''warning'', JStr ''Candidate upgrade scripts run with YunoHost privileges and require owner approval.'')]))\<rparr>"

definition package_upgrade_test_body ::
  "('st, 'y) server_env \<Rightarrow> authenticated_request option \<Rightarrow> dict \<Rightarrow> ('y frontend, json) step" where
  "package_upgrade_test_body E current k =
     and_then (package_session_of E current (dget k ''session_id'') (dget k ''source'') (dget k ''app'')) (\<lambda>_.
     run_adapter (se_adapter E) (call_of ''package_upgrade_test'' [dget k ''app'', dget k ''source'']
       [(''session_id'', dget k ''session_id''), (''confirmation_id'', dget k ''confirmation_id'')]))"

definition tool_package_backup_test :: decoration where
  "tool_package_backup_test = \<lparr>tl_name = ''package_backup_test'', tl_params = [(''app'', None), (''session_id'', None), (''confirmation_id'', Some JNull)],
     tl_scope = Some PACKAGES_TEST, tl_audit = Some ''packages.test'', tl_sanitizer = None,
     tl_gate = Some (package_test_gate (\<lambda>k. [(''action'', JStr ''backup test app''), (''app'', dget k ''app''),
       (''package_test_id'', dget k ''session_id'')]))\<rparr>"

definition package_backup_test_body ::
  "('st, 'y) server_env \<Rightarrow> authenticated_request option \<Rightarrow> dict \<Rightarrow> ('y frontend, json) step" where
  "package_backup_test_body E current k =
     and_then (package_session_of E current (dget k ''session_id'') JNull (dget k ''app'')) (\<lambda>_.
     run_adapter (se_adapter E) (call_of ''package_backup_test'' [dget k ''app'']
       [(''session_id'', dget k ''session_id''), (''confirmation_id'', dget k ''confirmation_id'')]))"

definition tool_package_restore_test :: decoration where
  "tool_package_restore_test = \<lparr>tl_name = ''package_restore_test'', tl_params = [(''app'', None), (''archive_name'', None), (''session_id'', None),
     (''confirmation_id'', Some JNull)],
     tl_scope = Some PACKAGES_TEST, tl_audit = Some ''packages.test'', tl_sanitizer = None,
     tl_gate = Some (package_test_gate (\<lambda>k. [(''action'', JStr ''restore test app''), (''app'', dget k ''app''),
       (''archive_name'', dget k ''archive_name''), (''package_test_id'', dget k ''session_id''),
       (''warning'', JStr ''Restoring an archive changes application state and requires owner approval.'')]))\<rparr>"

definition package_restore_test_body ::
  "('st, 'y) server_env \<Rightarrow> authenticated_request option \<Rightarrow> dict \<Rightarrow> ('y frontend, json) step" where
  "package_restore_test_body E current k =
     and_then (package_session_of E current (dget k ''session_id'') JNull (dget k ''app'')) (\<lambda>_.
     run_adapter (se_adapter E) (call_of ''package_restore_test'' [dget k ''app'', dget k ''archive_name'']
       [(''session_id'', dget k ''session_id''), (''confirmation_id'', dget k ''confirmation_id'')]))"

definition tool_package_change_url_test :: decoration where
  "tool_package_change_url_test = \<lparr>tl_name = ''package_change_url_test'', tl_params = [(''app'', None), (''domain'', None), (''path'', None),
     (''session_id'', None), (''confirmation_id'', Some JNull)],
     tl_scope = Some PACKAGES_TEST, tl_audit = Some ''packages.test'', tl_sanitizer = None,
     tl_gate = Some (package_test_gate (\<lambda>k. [(''action'', JStr ''change test app URL''), (''app'', dget k ''app''),
       (''domain'', dget k ''domain''), (''path'', dget k ''path''), (''package_test_id'', dget k ''session_id''),
       (''warning'', JStr ''URL changes alter reverse-proxy and app configuration and require owner approval.'')]))\<rparr>"

definition package_change_url_test_body ::
  "('st, 'y) server_env \<Rightarrow> authenticated_request option \<Rightarrow> dict \<Rightarrow> ('y frontend, json) step" where
  "package_change_url_test_body E current k =
     and_then (package_session_of E current (dget k ''session_id'') JNull (dget k ''app'')) (\<lambda>_.
     run_adapter (se_adapter E) (call_of ''package_change_url_test'' [dget k ''app'', dget k ''domain'', dget k ''path'']
       [(''session_id'', dget k ''session_id''), (''confirmation_id'', dget k ''confirmation_id'')]))"

definition tool_package_remove_test :: decoration where
  "tool_package_remove_test = \<lparr>tl_name = ''package_remove_test'', tl_params = [(''app'', None), (''session_id'', None),
     (''purge'', Some (JBool True)), (''confirmation_id'', Some JNull)],
     tl_scope = Some PACKAGES_TEST, tl_audit = Some ''packages.test'', tl_sanitizer = None,
     tl_gate = Some (package_test_gate (\<lambda>k. [(''action'', JStr ''remove test app''), (''app'', dget k ''app''),
       (''purge'', dget_default k ''purge'' (JBool True)), (''package_test_id'', dget k ''session_id''),
       (''warning'', JStr ''This removes application state and requires owner approval.'')]))\<rparr>"

definition delete_session :: "authenticated_request option \<Rightarrow> string \<Rightarrow> ('y frontend, unit) step" where
  "delete_session current session_id =
     and_then (ret (require_current_request current)) (\<lambda>rq.
     on_sessions (\<lambda>st. (session_delete session_id (rq_pubkey rq) st, Inr ())))"

definition package_remove_test_body ::
  "('st, 'y) server_env \<Rightarrow> authenticated_request option \<Rightarrow> dict \<Rightarrow> ('y frontend, json) step" where
  "package_remove_test_body E current k =
     and_then (package_session_of E current (dget k ''session_id'') JNull (dget k ''app'')) (\<lambda>_.
     and_then (run_adapter (se_adapter E) (call_of ''package_remove_test'' [dget k ''app'']
       [(''purge'', dget k ''purge''), (''session_id'', dget k ''session_id''), (''confirmation_id'', dget k ''confirmation_id'')])) (\<lambda>result.
     and_then (delete_session current (text_of (dget k ''session_id''))) (\<lambda>_.
     ret (Inr result))))"

text \<open>\<open>try: m finally: cleanup\<close>, where an exception of the clean-up takes the place of the outcome.\<close>

definition finally_do :: "('y, 'a) step \<Rightarrow> ('y, unit) step \<Rightarrow> ('y, 'a) step" where
  "finally_do m cleanup s = (case m s of (s', r) \<Rightarrow> (case cleanup s' of (s'', Inl e) \<Rightarrow> (s'', Inl e) | (s'', Inr _) \<Rightarrow> (s'', r)))"

definition execute_package_test_cycle ::
  "('st, 'y) server_env \<Rightarrow> authenticated_request option \<Rightarrow> string \<Rightarrow> dict \<Rightarrow> ('y frontend, json) step" where
  "execute_package_test_cycle E current session_id k =
     and_then (run_adapter (se_adapter E) (call_of ''package_inspect'' [dget k ''source''] [])) (\<lambda>manifest.
     and_then (ret (if truthy (dget k ''app_id'') then Inr (dget k ''app_id'') else get_or manifest ''id'' JNull)) (\<lambda>app_id.
     checked (guard (is_str app_id \<and> text_of app_id \<noteq> [])
       (Exn ToolInputError ''package manifest did not provide an app id; pass app_id explicitly''))
     (and_then (ret (require_current_request current)) (\<lambda>rq.
     and_then (on_sessions (session_create (se_libs E) (se_now E) session_id (rq_pubkey rq) (text_of (dget k ''source'')) (text_of app_id)))
       (\<lambda>session.
     finally_do
       (run_adapter (se_adapter E) (call_of ''package_run_tests'' [dget k ''source''] [(''app_id'', app_id),
          (''confirmation_id'', dget k ''confirmation_id''), (''session_id'', JStr (ps_session_id session))]))
       (delete_session current (ps_session_id session)))))))"

definition test_cycle_plan :: "dict \<Rightarrow> dict" where
  "test_cycle_plan k = [(''action'', JStr ''run package install/backup/remove/restore test cycle''), (''source'', dget k ''source''),
     (''app_id'', dget k ''app_id''),
     (''warning'', JStr ''This installs and removes the candidate app and creates a test backup on the server.'')]"

definition tool_package_run_tests :: decoration where
  "tool_package_run_tests = \<lparr>tl_name = ''package_run_tests'', tl_params = [(''source'', None), (''app_id'', Some JNull), (''confirmation_id'', Some JNull)],
     tl_scope = Some PACKAGES_TEST, tl_audit = Some ''packages.test'', tl_sanitizer = None,
     tl_gate = Some (package_test_gate test_cycle_plan)\<rparr>"

definition tool_test_package :: decoration where
  "tool_test_package = \<lparr>tl_name = ''test_package'', tl_params = [(''source'', None), (''app_id'', Some JNull), (''confirmation_id'', Some JNull)],
     tl_scope = Some PACKAGES_TEST, tl_audit = Some ''packages.test'', tl_sanitizer = None,
     tl_gate = Some (package_test_gate test_cycle_plan)\<rparr>"

subsection \<open>The audit trail\<close>

definition audit_gate :: "(dict \<Rightarrow> dict) \<Rightarrow> tool_gate" where
  "audit_gate plan = \<lparr>tg_policy_key = (\<lambda>_. Inr ''audit.read''), tg_checks = None, tg_defer = False,
     tg_plan = Some (\<lambda>k. Inr (JObj (plan k)))\<rparr>"

definition tool_audit_list :: decoration where
  "tool_audit_list = \<lparr>tl_name = ''audit_list'', tl_params = [(''limit'', Some JNull), (''confirmation_id'', Some JNull)],
     tl_scope = Some AUDIT_READ, tl_audit = None, tl_sanitizer = None,
     tl_gate = Some (audit_gate (\<lambda>k. [(''action'', JStr ''read audit trail''), (''limit'', dget k ''limit''),
       (''warning'', JStr (''The audit trail includes every identity'' @ [CHR 0x27] @ ''s tool calls, not just yours.''))]))\<rparr>"

definition list_entries :: "libs \<Rightarrow> audit_file \<Rightarrow> dict \<Rightarrow> exn + json" where
  "list_entries L trail k = Inr (JObj [(''entries'', JList (audit_list L (case dget k ''limit'' of JInt n \<Rightarrow> Some n | _ \<Rightarrow> None) trail))])"

definition run_audit_list ::
  "('st, 'y) server_env \<Rightarrow> string \<Rightarrow> authenticated_request option \<Rightarrow> dict \<Rightarrow> ('st, 'y frontend, json) action" where
  "run_audit_list E new_id current k w =
     decorated E tool_audit_list new_id [] current (\<lambda>args. ret (list_entries (se_libs E) (w_audit w) args)) k w"

definition tool_audit_get :: decoration where
  "tool_audit_get = \<lparr>tl_name = ''audit_get'', tl_params = [(''audit_id'', None), (''confirmation_id'', Some JNull)],
     tl_scope = Some AUDIT_READ, tl_audit = None, tl_sanitizer = None,
     tl_gate = Some (audit_gate (\<lambda>k. [(''action'', JStr ''read audit trail entry''), (''audit_id'', dget k ''audit_id''),
       (''warning'', JStr (''The audit trail includes every identity'' @ [CHR 0x27] @ ''s tool calls, not just yours.''))]))\<rparr>"

definition get_entry :: "('st, 'y) server_env \<Rightarrow> audit_file \<Rightarrow> dict \<Rightarrow> exn + json" where
  "get_entry E trail k =
     ebind (audit_get (se_libs E) (text_of (dget k ''audit_id'')) trail) (\<lambda>found. case found of
        None \<Rightarrow> Inl (Exn ToolInputError (''no audit entry with id '' @ py_repr_value (se_fmt E) (dget k ''audit_id'')))
      | Some entry \<Rightarrow> Inr entry)"

definition run_audit_get ::
  "('st, 'y) server_env \<Rightarrow> string \<Rightarrow> authenticated_request option \<Rightarrow> dict \<Rightarrow> ('st, 'y frontend, json) action" where
  "run_audit_get E new_id current k w =
     decorated E tool_audit_get new_id [] current (\<lambda>args. ret (get_entry E (w_audit w) args)) k w"

subsection \<open>Approvals\<close>

text \<open>The store under an action.\<close>

definition on_store :: "('st \<Rightarrow> 'st \<times> (exn + 'a)) \<Rightarrow> ('st, 'sys, 'a) action" where
  "on_store f w = (case f (w_store w) of (st, r) \<Rightarrow> (w\<lparr>w_store := st\<rparr>, r))"

definition approved_response :: "ticket \<Rightarrow> json" where
  "approved_response t = JObj [(''approved'', JBool True), (''confirmation_id'', JStr (tk_id t)), (''tool'', JStr (tk_tool t)),
     (''operation_plan'', tk_plan t), (''operation_hash'', JStr (tk_operation_hash t)),
     (''approved_by'', optional_str (tk_owner_approved_by t))]"

text \<open>The body of \<open>approve_operation\<close>; the owner is what \<open>get_owner_pubkey\<close> finds.\<close>

definition approve_body ::
  "('st, 'y) server_env \<Rightarrow> exn + string option \<Rightarrow> authenticated_request option \<Rightarrow> dict \<Rightarrow> ('st, 'sys, json) action" where
  "approve_body E owner current k =
     and_then (ret (require_current_request current)) (\<lambda>rq.
     checked (guard (rq_delegation rq = None) (confirmation_error
       (''owner co-signature must come from the owner'' @ [CHR 0x27] @ ''s own key directly, not a delegated identity'')))
     (and_then (ret owner) (\<lambda>found. case found of
         None \<Rightarrow> ret (Inl (confirmation_error (''no owner is configured for this server - set an explicit owner (admin_npub) or '' @
           ''ensure exactly one administrator identity exists before approving high-risk operations'')))
       | Some owner_pubkey \<Rightarrow>
           and_then (on_store (\<lambda>st. case api_approve (se_api E) (se_now E) (text_of (dget k ''confirmation_id'')) owner_pubkey
               (ApprovalText (text_of (dget k ''approval_event''))) st of
             (st', r) \<Rightarrow> (st', reraise (\<lambda>e. exn_cls e = ConfirmationError) (\<lambda>e. confirmation_error (''cannot approve: '' @ exn_msg e)) r))) (\<lambda>t.
           ret (Inr (approved_response t))))))"

definition approve_operation ::
  "('st, 'y) server_env \<Rightarrow> exn + string option \<Rightarrow> string \<Rightarrow> authenticated_request option \<Rightarrow> dict \<Rightarrow> ('st, 'y frontend, json) action" where
  "approve_operation E owner audit_id current k w =
     (let (w', r) = scoped (se_fmt E) OWNER_APPROVE current
            (audited_write (se_libs E) (se_now E) audit_id ''owner.approve'' None current (approve_body E owner current) k) w
      in (w', redact_response (translate_known_errors r)))"

definition visible_confirmation ::
  "('st, 'y) server_env \<Rightarrow> authenticated_request option \<Rightarrow> string \<Rightarrow> ('st, 'sys, ticket) action" where
  "visible_confirmation E current confirmation_id =
     and_then (ret (require_current_request current)) (\<lambda>rq.
     and_then (on_store (api_peek (se_api E) (se_now E) confirmation_id)) (\<lambda>t.
     ret (if tk_pubkey t \<noteq> rq_pubkey rq \<and> \<not> has_scope rq OWNER_APPROVE
          then Inl (confirmation_error ''not authorized to view this confirmation'') else Inr t)))"

definition approval_record :: "ticket \<Rightarrow> json" where
  "approval_record t = JObj [(''confirmation_id'', JStr (tk_id t)), (''tool'', JStr (tk_tool t)), (''operation_plan'', tk_plan t),
     (''operation_hash'', JStr (tk_operation_hash t)), (''requester_pubkey'', JStr (tk_pubkey t)),
     (''created_at'', JFloat (tk_created_at t)), (''expires_at'', JFloat (tk_expires_at t)),
     (''approved'', JBool (tk_owner_approved_by t \<noteq> None)), (''approved_by'', optional_str (tk_owner_approved_by t))]"

definition approval_get ::
  "('st, 'y) server_env \<Rightarrow> authenticated_request option \<Rightarrow> dict \<Rightarrow> ('st, 'y frontend, json) action" where
  "approval_get E current k w =
     (let (w', r) = and_then (visible_confirmation E current (text_of (dget k ''confirmation_id''))) (\<lambda>t. ret (Inr (approval_record t))) w
      in (w', redact_response (translate_known_errors r)))"

definition approval_state :: "ticket \<Rightarrow> json" where
  "approval_state t = JObj [(''confirmation_id'', JStr (tk_id t)), (''approved'', JBool (tk_owner_approved_by t \<noteq> None)),
     (''expires_at'', JFloat (tk_expires_at t))]"

definition approval_status ::
  "('st, 'y) server_env \<Rightarrow> authenticated_request option \<Rightarrow> dict \<Rightarrow> ('st, 'y frontend, json) action" where
  "approval_status E current k w =
     (let (w', r) = and_then (visible_confirmation E current (text_of (dget k ''confirmation_id''))) (\<lambda>t. ret (Inr (approval_state t))) w
      in (w', redact_response (translate_known_errors r)))"

subsection \<open>Safe upgrades\<close>

text \<open>\<open>backup_created_at_times\<close>, over the socket where there is one.\<close>

fun times_of :: "dict \<Rightarrow> exn + (string \<times> real) list" where
  "times_of [] = Inr []"
| "times_of ((name, v) # d) =
     ebind (case v of JFloat t \<Rightarrow> Inr t | JInt n \<Rightarrow> Inr (of_int n) | _ \<Rightarrow> Inl (Exn TypeError ''not a number'')) (\<lambda>t.
     ebind (times_of d) (\<lambda>ts. Inr ((name, t) # ts)))"

definition frontend_backup_times :: "('st, 'y) server_env \<Rightarrow> ('y frontend, (string \<times> real) list) step" where
  "frontend_backup_times E fr =
     (case ad_broker (se_adapter E) of
        None \<Rightarrow> (fr, se_backup_times E (fr_system fr))
      | Some call \<Rightarrow>
          (case call ''backups.created_at'' [] (fr_system fr) of (y, r) \<Rightarrow>
             (fr\<lparr>fr_system := y\<rparr>, ebind r (\<lambda>v. ebind (get_or v ''created_at'' (JObj [])) (\<lambda>times.
                case times of JObj d \<Rightarrow> times_of d | _ \<Rightarrow> Inl (Exn AttributeError ''object has no attribute values''))))))"

definition safe_upgrade_plan :: "dict \<Rightarrow> dict" where
  "safe_upgrade_plan k = [(''action'', JStr ''safely upgrade app''), (''app'', dget k ''app''),
     (''warning'', JStr (if dget k ''app'' = JStr CONTROL_PLANE_APP_ID
        then (''This upgrades the YunoHost MCP control plane and requires the configured owner'' @ [CHR 0x27] @ ''s co-signature.'')
        else ''This creates a safety backup, upgrades the app, and runs post-upgrade health checks.''))]"

definition tool_safe_upgrade :: decoration where
  "tool_safe_upgrade = \<lparr>tl_name = ''safe_upgrade'', tl_params = [(''app'', None), (''confirmation_id'', Some JNull)],
     tl_scope = Some APPS_UPGRADE, tl_audit = Some ''apps.upgrade'', tl_sanitizer = None,
     tl_gate = Some \<lparr>tg_policy_key = (\<lambda>k. Inr (app_upgrade_policy_key k)), tg_checks = None, tg_defer = True,
       tg_plan = Some (\<lambda>k. Inr (JObj (safe_upgrade_plan k)))\<rparr>\<rparr>"

definition safe_upgrade_body :: "('st, 'y) server_env \<Rightarrow> dict \<Rightarrow> ('y frontend, json) step" where
  "safe_upgrade_body E k =
     (let rule = policy_get (se_policy E) (app_upgrade_policy_key [(''app'', dget k ''app'')]) in
      and_then (run_adapter (se_adapter E) (call_of ''free_space_bytes'' [] [])) (\<lambda>free.
      checked (case free of JInt n \<Rightarrow> check_free_space rule n | _ \<Rightarrow> Inl (Exn TypeError ''free space is not a number''))
      (and_then (run_adapter (se_adapter E) (call_of ''safe_upgrade'' [dget k ''app''] [(''confirmation_id'', dget k ''confirmation_id'')])) (\<lambda>result.
      and_then (frontend_backup_times E) (\<lambda>times.
      checked (check_recent_backup rule times (se_now E)) (ret (Inr result)))))))"

definition run_safe_upgrade ::
  "('st, 'y) server_env \<Rightarrow> string \<Rightarrow> string \<Rightarrow> authenticated_request option \<Rightarrow> dict \<Rightarrow> ('st, 'y frontend, json) action" where
  "run_safe_upgrade E new_id audit_id current k = decorated E tool_safe_upgrade new_id audit_id current (safe_upgrade_body E) k"

subsection \<open>The caller, the server, and the resources\<close>

definition whoami_body :: "authenticated_request option \<Rightarrow> exn + json" where
  "whoami_body current = Inr (JObj (case current of
      Some rq \<Rightarrow> (case rq_identity rq of
          Some r \<Rightarrow> [(''authenticated'', JBool True), (''pubkey'', JStr (rq_pubkey rq)), (''name'', id_name r),
            (''roles'', JList (map JStr (id_roles r))),
            (''scopes'', JList (map JStr (sort (map scope_value (filter (has_scope rq) scope_members)))))]
        | None \<Rightarrow> [(''authenticated'', JBool False), (''pubkey'', JNull)])
    | None \<Rightarrow> [(''authenticated'', JBool False), (''pubkey'', JNull)]))"

definition whoami :: "authenticated_request option \<Rightarrow> ('st, 'sys, json) action" where
  "whoami current w = (w, redact_response (translate_known_errors (whoami_body current)))"

definition server_identity :: "string \<times> string \<Rightarrow> ('st, 'sys, json) action" where
  "server_identity identity w =
     (w, redact_response (translate_known_errors (Inr (JObj [(''npub'', JStr (fst identity)), (''pubkey'', JStr (snd identity))]))))"

text \<open>A resource is under \<open>redact_response\<close> and \<open>require_scope\<close> only.\<close>

definition read_resource ::
  "scope \<Rightarrow> adapter_call \<Rightarrow> ('st, 'y) server_env \<Rightarrow> authenticated_request option \<Rightarrow> ('st, 'y frontend, json) action" where
  "read_resource s c E current w =
     (let (w', r) = scoped (se_fmt E) s current (plain_body (\<lambda>_. run_adapter (se_adapter E) c) []) w in (w', redact_response r))"

definition server_resource where "server_resource = read_resource SERVER_READ (call_of ''server_info'' [] [])"
definition diagnosis_resource where "diagnosis_resource = read_resource DIAGNOSIS_READ (call_of ''health_check'' [] [])"
definition apps_resource where "apps_resource = read_resource APPS_READ (call_of ''apps_list'' [] [])"
definition app_resource where "app_resource app = read_resource APPS_READ (call_of ''app_info'' [app] [(''full'', JBool True)])"
definition services_resource where "services_resource = read_resource SERVICES_READ (call_of ''services_list'' [] [])"
definition operations_resource where "operations_resource = read_resource LOGS_READ (call_of ''operations_list'' [] [(''limit'', JInt 50)])"

subsection \<open>Lemmas\<close>

lemma locked_system:
  "w_system (fst (locked run w)) = (if w_locked w then w_system w else w_system (fst (run (w\<lparr>w_locked := True\<rparr>))))"
  "w_store (fst (locked run w)) = (if w_locked w then w_store w else w_store (fst (run (w\<lparr>w_locked := True\<rparr>))))"
  by (simp_all add: locked_def split_beta)

lemma audited_system:
  "w_system (fst (audited_write L now i tool sanitizer current fn kwargs w)) =
     (if current = None \<or> w_locked w then w_system w else w_system (fst (fn kwargs (w\<lparr>w_locked := True\<rparr>))))"
  "w_store (fst (audited_write L now i tool sanitizer current fn kwargs w)) =
     (if current = None \<or> w_locked w then w_store w else w_store (fst (fn kwargs (w\<lparr>w_locked := True\<rparr>))))"
  by (cases current, simp add: audited_write_def require_current_request_def,
      simp add: audited_write_cases locked_system Let_def split: sum.split)+

text \<open>What a write tool without a confirmation does to the frontend.\<close>

lemma decorated_audited_system:
  assumes "tl_gate T = None" "tl_audit T = Some action" "tl_scope T = Some s"
  shows "w_system (fst (decorated E T new_id i current body k w)) =
    (case current of Some rq \<Rightarrow> if has_scope rq s \<and> \<not> w_locked w then fst (body k (w_system w)) else w_system w | None \<Rightarrow> w_system w)"
  using assms by (cases current)
    (simp_all add: decorated_def scoped_def require_current_request_def audited_system plain_body_def Let_def split_beta)

lemma map_of_delete [simp]: "map_of (AList.delete k al) = (map_of al)(k := None)"
  by (simp add: AList.delete_conv')

lemma on_plans_peek:
  assumes "on_plans (\<lambda>st. invalid_plan (mem_peek now i st)) fr = (fr', r)"
  shows "fr_system fr' = fr_system fr \<and> (\<forall>t. r = Inr t \<longrightarrow> fr' = fr \<and> map_of (pending (fr_plans fr)) i = Some t \<and> now < tk_expires_at t)"
  using assms by (auto simp: on_plans_def invalid_plan_def mem_peek_def reraise_def split: option.splits if_splits)

lemma on_plans_consume:
  assumes "on_plans (\<lambda>st. invalid_plan (mem_consume L now i pk tool args owner False st)) fr = (fr', r)"
  shows "fr_system fr' = fr_system fr \<and> (\<forall>t. r = Inr t \<longrightarrow> map_of (pending (fr_plans fr)) i = Some t \<and> now < tk_expires_at t \<and>
    tk_pubkey t = pk \<and> tk_tool t = tool \<and> map_of (pending (fr_plans fr')) i = None)"
  using assms by (auto simp: on_plans_def invalid_plan_def mem_consume_def mem_del_def reraise_def split: option.splits if_splits)

lemma own_control_plane_False:
  "own_control_plane rq t = Inr False \<Longrightarrow> tk_pubkey t = rq_pubkey rq \<Longrightarrow> item_of (tk_plan t) ''app'' = Inr app \<Longrightarrow>
     app \<noteq> JStr CONTROL_PLANE_APP_ID"
  by (auto simp: own_control_plane_def get_or_def item_of_def dget_default_def split: json.splits option.splits)

lemma upgrade_planned_cases:
  assumes "upgrade_planned E rq i fr = (fr', r)"
  obtains (refused) e where "r = Inl e" "fr_system fr' = fr_system fr"
  | (executed) t app where "map_of (pending (fr_plans fr)) i = Some t" "se_now E < tk_expires_at t" "tk_pubkey t = rq_pubkey rq"
      "tk_tool t = ''plan.app_upgrade''" "item_of (tk_plan t) ''app'' = Inr app"
      "check_apps_upgrade E (fr_system fr) (apps_upgrade_rule E) = Inr ()"
      "call_method (se_adapter E) (call_of ''app_upgrade'' [] [(''app'', app)]) (fr_system fr) = (fr_system fr', r)"
      "map_of (pending (fr_plans fr')) i = None"
  using assms unfolding upgrade_planned_def
proof (cases rule: and_then_split)
  case (stopped e)
  with on_plans_consume [OF stopped(1)] show thesis using refused by blast
next
  case (went_on f t)
  note t = on_plans_consume [OF went_on(1)]
  show thesis
  proof (cases "check_apps_upgrade E (fr_system fr) (apps_upgrade_rule E)")
    case (Inl e)
    then show thesis using went_on(2) t refused by (auto simp: and_then_def)
  next
    case (Inr v)
    then have "and_then (ret (item_of (tk_plan t) ''app'')) (\<lambda>app. run_adapter (se_adapter E) (call_of ''app_upgrade'' [] [(''app'', app)])) f = (fr', r)"
      using went_on(2) t by (simp add: and_then_def)
    then show thesis
    proof (cases rule: and_then_split)
      case stopped
      then show thesis using refused t by (simp add: ret_def)
    next
      case (went_on f' app)
      then show thesis using t Inr by (intro executed [of t app]) (auto simp: ret_def run_adapter_def split: prod.splits)
    qed
  qed
qed

lemma execute_plan_body_cases:
  assumes "execute_plan_body E current k fr = (fr', r)"
  obtains (refused) e where "r = Inl e" "fr_system fr' = fr_system fr"
  | (planned) rq waiting where "current = Some rq" "map_of (pending (fr_plans fr)) (text_of (dget k ''plan_id'')) = Some waiting"
      "own_control_plane rq waiting = Inr False" "upgrade_planned E rq (text_of (dget k ''plan_id'')) fr = (fr', r)"
  using assms unfolding execute_plan_body_def checked_def
proof (elim and_then_split)
qed (use on_plans_peek planned refused in \<open>fastforce simp: ret_def guard_def require_current_request_def split: option.splits if_splits\<close>)+

text \<open>
  C15: a planned upgrade is the plan's. \<open>execute_plan\<close> touches the system only for a caller with the
  upgrade scope, while no other write runs, and only if the plan is one that this caller made, in
  time and not for the control plane itself, and the hard checks pass again; what it does is the upgrade of
  the planned app, and the plan is gone afterwards, so that it cannot be executed again.
\<close>

theorem plan_execution_sound:
  assumes "execute_plan E audit_id current k w = (w', r)" "fr_system (w_system w') \<noteq> fr_system (w_system w)"
    and "i = text_of (dget k ''plan_id'')"
  shows "\<exists>rq t app y. current = Some rq \<and> has_scope rq APPS_UPGRADE \<and> \<not> w_locked w \<and>
    map_of (pending (fr_plans (w_system w))) i = Some t \<and> se_now E < tk_expires_at t \<and> tk_pubkey t = rq_pubkey rq \<and>
    tk_tool t = ''plan.app_upgrade'' \<and> item_of (tk_plan t) ''app'' = Inr app \<and> app \<noteq> JStr CONTROL_PLANE_APP_ID \<and>
    check_apps_upgrade E (fr_system (w_system w)) (apps_upgrade_rule E) = Inr () \<and>
    fr_system (w_system w') = fst (call_method (se_adapter E) (call_of ''app_upgrade'' [] [(''app'', app)]) (fr_system (w_system w))) \<and>
    map_of (pending (fr_plans (w_system w'))) i = None"
proof -
  have "w_system w' = (case current of Some rq \<Rightarrow> if has_scope rq APPS_UPGRADE \<and> \<not> w_locked w
      then fst (execute_plan_body E current k (w_system w)) else w_system w | None \<Rightarrow> w_system w)"
    using decorated_audited_system [of tool_execute_plan "''apps.upgrade''" APPS_UPGRADE E "[]" audit_id current "execute_plan_body E current" k w]
      assms(1) by (simp add: execute_plan_def tool_execute_plan_def)
  with assms(2) obtain rq where rq: "current = Some rq" "has_scope rq APPS_UPGRADE" "\<not> w_locked w"
    and sys: "w_system w' = fst (execute_plan_body E current k (w_system w))" by (auto split: option.splits if_splits)
  obtain r1 where "execute_plan_body E current k (w_system w) = (w_system w', r1)" using sys by (metis prod.collapse)
  then show ?thesis
  proof (cases rule: execute_plan_body_cases)
    case (planned rq' waiting)
    from planned(4) show ?thesis
    proof (cases rule: upgrade_planned_cases)
      case (executed t app)
      then show ?thesis using rq planned own_control_plane_False [of rq t app] assms(3) by (intro exI [of _ rq] exI [of _ t]) auto
    qed (use assms(2) in simp)
  qed (use assms(2) in simp)
qed

subsection \<open>Approvals\<close>

lemma spec_approve_changes:
  assumes "fst (spec_approve L now cid owner approval a) c = Some (t', m)" "a c \<noteq> Some (t', m)"
  shows "c = cid \<and> \<not> m \<and> (\<exists>t e. a cid = Some (t, False) \<and> now < tk_expires_at t \<and> t' = t\<lparr>tk_owner_approved_by := Some owner\<rparr> \<and>
    parse_owner_approval L approval = Inr e \<and> approval_event L owner (tk_id t) (tk_operation_hash t) e)"
  using assms by (auto simp: spec_approve_def Let_def check_approval_Inr split: option.splits if_splits sum.splits)

lemma approve_body_store:
  "w_store (fst (approve_body E owner current k w)) =
     (case (current, owner) of
        (Some rq, Inr (Some pk)) \<Rightarrow> if rq_delegation rq = None
          then fst (api_approve (se_api E) (se_now E) (text_of (dget k ''confirmation_id'')) pk (ApprovalText (text_of (dget k ''approval_event''))) (w_store w))
          else w_store w
      | _ \<Rightarrow> w_store w)"
  by (auto simp: approve_body_def and_then_def ret_def checked_def guard_def require_current_request_def on_store_def
      split: option.split sum.split prod.split)

lemma approve_operation_store:
  "w_store (fst (approve_operation E owner audit_id current k w)) =
     (case current of None \<Rightarrow> w_store w
      | Some rq \<Rightarrow> if has_scope rq OWNER_APPROVE \<and> \<not> w_locked w then w_store (fst (approve_body E owner current k (w\<lparr>w_locked := True\<rparr>))) else w_store w)"
  by (cases current) (simp_all add: approve_operation_def scoped_def require_current_request_def audited_system Let_def split_beta)

text \<open>
  C16: what an approval takes.  Whatever \<open>approve_operation\<close> returns, a ticket that is approved
  afterwards and was not before is the ticket it names, still live and unclaimed; the caller has the scope
  for approvals and does not act by a delegation; the server has an owner; and the presented text is an
  event, signed by that owner, that names this ticket and its operation hash.  Nothing else changes in the
  ticket, and no other ticket changes.
\<close>

theorem approve_operation_sound:
  assumes "sql_good (se_libs E) ttl owner_ttl (w_store w)" "se_api E = sql_api (se_libs E)"
    and "approve_operation E owner audit_id current k w = (w', r)"
    and "sql_view (se_libs E) (w_store w') cid = Some (t', m)" "sql_view (se_libs E) (w_store w) cid \<noteq> Some (t', m)"
  shows "\<exists>rq pk t e. current = Some rq \<and> has_scope rq OWNER_APPROVE \<and> rq_delegation rq = None \<and> owner = Inr (Some pk) \<and>
    cid = text_of (dget k ''confirmation_id'') \<and> sql_view (se_libs E) (w_store w) cid = Some (t, False) \<and> se_now E < tk_expires_at t \<and>
    t' = t\<lparr>tk_owner_approved_by := Some pk\<rparr> \<and> \<not> m \<and>
    parse_owner_approval (se_libs E) (ApprovalText (text_of (dget k ''approval_event''))) = Inr e \<and>
    approval_event (se_libs E) pk (tk_id t) (tk_operation_hash t) e"
proof -
  let ?cid = "text_of (dget k ''confirmation_id'')" and ?a = "ApprovalText (text_of (dget k ''approval_event''))"
  have "w_store w' \<noteq> w_store w" using assms(4,5) by auto
  moreover have "w_store w' = w_store (fst (approve_operation E owner audit_id current k w))" by (simp add: assms(3))
  ultimately obtain rq pk where rq: "current = Some rq" "has_scope rq OWNER_APPROVE" "rq_delegation rq = None" "owner = Inr (Some pk)"
      "w_store w' = fst (sql_approve (se_libs E) (se_now E) ?cid pk ?a (w_store w))"
    unfolding approve_operation_store approve_body_store by (auto simp: assms(2) split: option.splits sum.splits if_splits)
  from sql.approve [OF assms(1)] have "sql_view (se_libs E) (w_store w') = fst (spec_approve (se_libs E) (se_now E) ?cid pk ?a (sql_view (se_libs E) (w_store w)))"
    by (simp add: refines_def rq(5))
  with spec_approve_changes [of "se_libs E" "se_now E" ?cid pk ?a "sql_view (se_libs E) (w_store w)" cid t' m] assms(4,5) rq(1-4)
  show ?thesis by auto
qed

text \<open>A caller with the scope hands in what the owner signed: the caller's key is not the owner's.\<close>

definition owner_key :: string where "owner_key = replicate 64 CHR ''c''"

definition signed_approval :: nostr_event where
  "signed_approval = \<lparr>ev_id = replicate 64 CHR ''a'', ev_pubkey = owner_key, ev_created_at = 1, ev_kind = 24243,
     ev_tags = [[''confirmation_id'', ''c1''], [''operation_hash'', replicate 64 CHR ''a'']], ev_content = [], ev_sig = replicate 128 CHR ''b''\<rparr>"

definition approving_libs :: libs where
  "approving_libs = example_libs\<lparr>sha256_hex := (\<lambda>_. replicate 64 CHR ''a''), pydantic_event := (\<lambda>_. Inr signed_approval)\<rparr>"

definition approving_ticket :: ticket where
  "approving_ticket = make_ticket approving_libs 0 900 ''c1'' ''agent'' ''apps.remove'' [] JNull"

definition approving_server :: "(sql_store, bool) server_env" where
  "approving_server = \<lparr>se_adapter = demo_adapter, se_libs = approving_libs, se_fmt = (\<lambda>_. []), se_api = sql_api approving_libs,
     se_policy = DEFAULT_POLICY, se_now = 5, se_backup_times = (\<lambda>_. Inr [])\<rparr>"

definition idle_frontend :: "bool frontend" where
  "idle_frontend = \<lparr>fr_system = False, fr_sessions = \<lparr>ss_ttl_seconds = 900, ss_sessions = []\<rparr>,
     fr_plans = mem_init 300 None, fr_catalog_plans = mem_init 300 None\<rparr>"

definition approving_world :: "(sql_store, bool frontend) world" where
  "approving_world = \<lparr>w_locked = False, w_audit = None, w_ticket = None,
     w_store = sql_init 300 (Some 900) [(''c1'', sql_row_of approving_libs approving_ticket)],
     w_system = idle_frontend, w_calls = []\<rparr>"

definition approving_call :: dict where
  "approving_call = [(''confirmation_id'', JStr ''c1''), (''approval_event'', JStr ''signed'')]"

lemma approving_libs_simps [simp]:
  "sha256_hex approving_libs s = replicate 64 CHR ''a''" "json_loads approving_libs s = Inr JNull"
  "pydantic_event approving_libs v = Inr signed_approval" "verify_signature approving_libs e = Inr True"
  by (simp_all add: approving_libs_def)

lemma approving_hex: "validate_hex32 (replicate 64 CHR ''a'')" "validate_hex32 owner_key" "validate_sig_hex (replicate 128 CHR ''b'')"
  by (simp_all add: owner_key_def valid_replicate)

lemma approving_checked: "check_approval approving_libs (ApprovalText ''signed'') owner_key approving_ticket = Inr owner_key"
proof -
  have "model_validate approving_libs JNull = Inr signed_approval" using approving_hex by (simp add: model_validate_Inr) (simp add: signed_approval_def)
  then have "parse_owner_approval approving_libs (ApprovalText ''signed'') = Inr signed_approval" by (simp add: validate_approval_def)
  moreover have "approval_event approving_libs owner_key ''c1'' (replicate 64 CHR ''a'') signed_approval"
    by (simp add: approval_event_def signed_approval_def compute_event_id_def event_tag_def)
  moreover have "tk_id approving_ticket = ''c1''" "tk_operation_hash approving_ticket = replicate 64 CHR ''a''"
    by (simp_all add: approving_ticket_def make_ticket_def operation_hash_def)
  ultimately show ?thesis by (simp add: check_approval_Inr)
qed

theorem approve_operation_sound_witness:
  "\<exists>t. sql_view approving_libs (w_store approving_world) ''c1'' = Some (t, False) \<and> tk_owner_approved_by t = None \<and>
    rq_pubkey LOCAL_STDIO_REQUEST \<noteq> owner_key"
proof -
  let ?w = "fst (approve_operation approving_server (Inr (Some owner_key)) ''m1'' (Some LOCAL_STDIO_REQUEST) approving_call approving_world)"
  let ?row = "sql_row_of approving_libs approving_ticket"
  have good: "sql_good (se_libs approving_server) 300 900 (w_store approving_world)"
    by (simp add: sql_good_def approving_server_def approving_world_def sql_init_def)
  have "has_scope LOCAL_STDIO_REQUEST OWNER_APPROVE" "rq_delegation LOCAL_STDIO_REQUEST = None"
    by (simp_all add: has_scope_def request_scopes_def LOCAL_STDIO_REQUEST_def LOCAL_STDIO_IDENTITY_def ALL_SCOPES_UNIV)
  moreover have "sql_get approving_libs ''c1'' (w_store approving_world) = Inr approving_ticket"
    by (simp add: sql_get_def approving_world_def sql_init_def sql_row_of_def approving_ticket_def make_ticket_def)
  ultimately have "w_store ?w = sql_init 300 (Some 900) [(''c1'', ?row\<lparr>row_owner_approved_by := Some owner_key\<rparr>)]"
    using approving_checked
    by (simp add: approve_operation_store approve_body_store approving_world_def approving_server_def approving_call_def sql_approve_def
        sql_live_def sql_is_consumed_def sql_update_def sql_init_def sql_row_of_def)
      (simp add: approving_ticket_def make_ticket_def)
  then have "sql_view approving_libs (w_store ?w) ''c1'' = Some (approving_ticket\<lparr>tk_owner_approved_by := Some owner_key\<rparr>, False)"
    "sql_view approving_libs (w_store approving_world) ''c1'' = Some (approving_ticket, False)"
    by (simp_all add: sql_view_def sql_init_def row_view_def sql_row_of_def approving_world_def approving_ticket_def make_ticket_def)
  moreover have "tk_owner_approved_by approving_ticket = None" by (simp add: approving_ticket_def make_ticket_def)
  moreover from this have "approving_ticket \<noteq> approving_ticket\<lparr>tk_owner_approved_by := Some owner_key\<rparr>" by (intro notI) (drule arg_cong [where f = tk_owner_approved_by], simp)
  moreover have "se_libs approving_server = approving_libs" "se_api approving_server = sql_api approving_libs" by (simp_all add: approving_server_def)
  moreover have "length (rq_pubkey LOCAL_STDIO_REQUEST) \<noteq> length owner_key"
    by (simp add: LOCAL_STDIO_REQUEST_def LOCAL_STDIO_IDENTITY_def owner_key_def)
  ultimately show ?thesis
    using approve_operation_sound [OF good _ surjective_pairing, of "Inr (Some owner_key)" "''m1''" "Some LOCAL_STDIO_REQUEST" approving_call "''c1''"]
    by auto
qed

subsection \<open>Package-test sessions\<close>

lemma run_adapter_sessions: "run_adapter A c fr = (fr', r) \<Longrightarrow> fr_sessions fr' = fr_sessions fr"
  by (auto simp: run_adapter_def split: prod.splits)

lemma session_created:
  assumes "on_sessions (session_create L now i pk source app) fr = (fr', r)"
  shows "(\<exists>e. r = Inl e \<and> fr_sessions fr' = fr_sessions fr) \<or>
    (\<exists>s. r = Inr s \<and> session_delete (ps_session_id s) pk (fr_sessions fr') = fr_sessions fr)"
  using assms by (cases "fr_sessions fr")
    (auto simp: on_sessions_def session_create_def session_delete_def Let_def list_ex_iff filter_id_conv split: if_splits)

lemma finally_deleted:
  assumes "finally_do m (delete_session (Some rq) i) fr = (fr', r)" "\<And>s' r. m fr = (s', r) \<Longrightarrow> fr_sessions s' = fr_sessions fr"
  shows "fr_sessions fr' = session_delete i (rq_pubkey rq) (fr_sessions fr)"
  using assms by (auto simp: finally_do_def delete_session_def and_then_def ret_def require_current_request_def on_sessions_def split: prod.splits)

text \<open>
  A run of the package-test cycle leaves no session behind.  Whatever the adapter does, and however the
  tests end, the table of sessions is afterwards what it was before.
\<close>

theorem package_cycle_session:
  "fr_sessions (fst (execute_package_test_cycle E current i k fr)) = fr_sessions fr"
proof -
  obtain fr' r where run: "execute_package_test_cycle E current i k fr = (fr', r)" by (metis surj_pair)
  from run have "fr_sessions fr' = fr_sessions fr" unfolding execute_package_test_cycle_def checked_def
  proof (elim and_then_split, goal_cases)
    case (6 f1 manifest f2 app_id f3 u f4 rq f5 s)
    then have same: "fr_sessions f4 = fr_sessions fr" "current = Some rq"
      by (auto simp: ret_def require_current_request_def dest: run_adapter_sessions split: option.splits)
    from session_created [OF 6(5)] have "session_delete (ps_session_id s) (rq_pubkey rq) (fr_sessions f5) = fr_sessions fr"
      using same(1) by auto
    then show ?case using finally_deleted [OF 6(6) [unfolded same(2)]] run_adapter_sessions by metis
  qed (use session_created in \<open>fastforce simp: ret_def dest: run_adapter_sessions\<close>)+
  with run show ?thesis by simp
qed

lemma package_session_split:
  assumes "and_then (package_session_of E current sid source app) rest fr = (fr', r)" "sessions_ok (se_libs E) (fr_sessions fr)"
  obtains (refused) e where "r = Inl e" "fr_system fr' = fr_system fr"
  | (bound) rq s f where "current = Some rq" "sid = JStr (ps_session_id s)" "s \<in> set (ss_sessions (fr_sessions fr))"
      "se_now E < ps_expires_at s" "ps_pubkey s = rq_pubkey rq" "source \<in> {JNull, JStr (ps_source s)}" "app \<in> {JNull, JStr (ps_app_id s)}"
      "fr_system f = fr_system fr" "rest s f = (fr', r)"
  using assms(1)
proof (cases rule: and_then_split)
  case (stopped e)
  then have "fr_system fr' = fr_system fr"
    by (auto simp: package_session_of_def and_then_def ret_def on_sessions_def split: if_splits sum.splits prod.splits)
  with stopped(2) show thesis by (rule refused)
next
  case (went_on f s)
  then obtain rq where rq: "current = Some rq" "is_str sid" by (auto simp: package_session_of_def and_then_def ret_def require_current_request_def
        split: if_splits option.splits)
  then obtain st where st: "session_get (se_libs E) (se_now E) (text_of sid) (rq_pubkey rq) source app (fr_sessions fr) = (st, Inr s)" "f = fr\<lparr>fr_sessions := st\<rparr>"
    using went_on(1) by (auto simp: package_session_of_def and_then_def ret_def require_current_request_def on_sessions_def
        split: if_splits prod.splits)
  then have "snd (session_get (se_libs E) (se_now E) (text_of sid) (rq_pubkey rq) source app (fr_sessions fr)) = Inr s" by simp
  then have "s \<in> set (ss_sessions (fr_sessions fr))" "ps_session_id s = text_of sid" "se_now E < ps_expires_at s" "ps_pubkey s = rq_pubkey rq"
    "source = JNull \<or> source = JStr (ps_source s)" "app = JNull \<or> app = JStr (ps_app_id s)"
    using session_get_Inr [OF assms(2)] by auto
  moreover have "sid = JStr (ps_session_id s)" using rq(2) calculation(2) by (cases sid) simp_all
  ultimately show thesis using rq(1) st(2) went_on(2) by (intro bound [of rq s f]) auto
qed

text \<open>The tools that name the source of their session, and those that name its app.\<close>

definition source_tools :: "('st, 'y) server_env \<Rightarrow> authenticated_request option \<Rightarrow> (dict \<Rightarrow> ('y frontend, json) step) list" where
  "source_tools E current = [package_install_test_body E current, package_upgrade_test_body E current]"

definition app_tools :: "('st, 'y) server_env \<Rightarrow> authenticated_request option \<Rightarrow> (dict \<Rightarrow> ('y frontend, json) step) list" where
  "app_tools E current = [package_upgrade_test_body E current, package_backup_test_body E current, package_restore_test_body E current,
     package_change_url_test_body E current, package_remove_test_body E current]"

lemmas package_bodies = package_install_test_body_def package_upgrade_test_body_def package_backup_test_body_def
  package_restore_test_body_def package_change_url_test_body_def package_remove_test_body_def

lemma source_tool: "body \<in> set (source_tools E current) \<Longrightarrow>
  \<exists>app rest. body k = and_then (package_session_of E current (dget k ''session_id'') (dget k ''source'') app) rest"
  by (auto simp: source_tools_def package_bodies) (intro exI, rule refl)+

lemma app_tool: "body \<in> set (app_tools E current) \<Longrightarrow>
  \<exists>source rest. body k = and_then (package_session_of E current (dget k ''session_id'') source (dget k ''app'')) rest"
  by (auto simp: app_tools_def package_bodies) (intro exI, rule refl)+

definition own_session :: "('st, 'y) server_env \<Rightarrow> authenticated_request option \<Rightarrow> json \<Rightarrow> session_store \<Rightarrow> package_session \<Rightarrow> bool" where
  "own_session E current sid st s \<longleftrightarrow> s \<in> set (ss_sessions st) \<and> sid = JStr (ps_session_id s) \<and> se_now E < ps_expires_at s \<and>
     (\<exists>rq. current = Some rq \<and> ps_pubkey s = rq_pubkey rq)"

text \<open>
  C26: package tests act under the session that was prepared for them.  A package-test tool touches the
  system only with a session of the caller that has not expired; a tool that names a source touches it only
  for the source of that session, and one that names an app only for its app.
\<close>

theorem package_tests_bound:
  assumes "sessions_ok (se_libs E) (fr_sessions fr)" "fr_system (fst (body k fr)) \<noteq> fr_system fr"
  shows "(body \<in> set (source_tools E current) \<longrightarrow>
      (\<exists>s. own_session E current (dget k ''session_id'') (fr_sessions fr) s \<and> dget k ''source'' \<in> {JNull, JStr (ps_source s)})) \<and>
    (body \<in> set (app_tools E current) \<longrightarrow>
      (\<exists>s. own_session E current (dget k ''session_id'') (fr_sessions fr) s \<and> dget k ''app'' \<in> {JNull, JStr (ps_app_id s)}))"
proof -
  have bound: "\<exists>s. own_session E current (dget k ''session_id'') (fr_sessions fr) s \<and> source \<in> {JNull, JStr (ps_source s)} \<and> app \<in> {JNull, JStr (ps_app_id s)}"
    if "body k = and_then (package_session_of E current (dget k ''session_id'') source app) rest" for source app rest
  proof -
    have "and_then (package_session_of E current (dget k ''session_id'') source app) rest fr = (fst (body k fr), snd (body k fr))"
      by (simp add: that)
    then show ?thesis using assms(1)
    proof (cases rule: package_session_split)
      case (bound rq s f)
      then show ?thesis by (auto simp: own_session_def)
    qed (use assms(2) in simp)
  qed
  show ?thesis using source_tool app_tool bound by metis
qed

subsection \<open>Reading the audit trail\<close>

lemma confirmed_read:
  "snd (confirmed L api now n g current (\<lambda>args. ret (F args)) k w) =
     (case snd (require_confirmation_gate L api now n g current k (w_store w)) of
        Inl e \<Rightarrow> Inl e | Inr (Respond response t) \<Rightarrow> Inr response | Inr (Run args tk) \<Rightarrow> F args)"
  "w_store (fst (confirmed L api now n g current (\<lambda>args. ret (F args)) k w)) =
     fst (require_confirmation_gate L api now n g current k (w_store w))"
  by (auto simp: confirmed_def ret_def set_consumed_ticket_def Let_def split: prod.split sum.split gate_result.split option.split)

lemma gate_of_audit [simp]:
  "cg_policy_key (gate_of E y (audit_gate p)) = (\<lambda>_. Inr ''audit.read'')" "cg_policy (gate_of E y (audit_gate p)) = se_policy E"
  "cg_checks (gate_of E y (audit_gate p)) = None" "\<not> cg_defer_to_broker (gate_of E y (audit_gate p))"
  by (simp_all add: gate_of_def audit_gate_def)

text \<open>A ticket that lets this call read the trail, and that the call uses up.\<close>

definition audit_ticket ::
  "('st, 'y) server_env \<Rightarrow> (libs \<Rightarrow> 'st \<Rightarrow> astore) \<Rightarrow> authenticated_request option \<Rightarrow> dict \<Rightarrow> 'st \<Rightarrow> 'st \<Rightarrow> bool" where
  "audit_ticket E view current k st st' \<longleftrightarrow>
     (\<exists>rq t claimed. current = Some rq \<and> has_scope rq AUDIT_READ \<and> view (se_libs E) st (confirmation_arg k) = Some (t, claimed) \<and>
        se_now E < tk_expires_at t \<and> tk_pubkey t = rq_pubkey rq \<and> tk_tool t = ''audit.read'' \<and>
        tk_arguments_hash t = hash_arguments (se_libs E) (dpop k ''confirmation_id'') \<and> tk_owner_approved_by t \<noteq> None \<and>
        view (se_libs E) st' (confirmation_arg k) = None)"

lemma audit_reader:
  assumes "tl_gate T = Some (audit_gate p)" "tl_audit T = None" "tl_scope T = Some AUDIT_READ"
    and "sql_good (se_libs E) ttl owner_ttl (w_store w)" "sql_view (se_libs E) (w_store w) [] = None" "se_api E = sql_api (se_libs E)"
    and "require_confirmation (policy_get (se_policy E) ''audit.read'')" "require_owner_signature (policy_get (se_policy E) ''audit.read'')"
    and run_def: "\<And>trail. run trail = decorated E T n i current (\<lambda>args. ret (F trail args)) k (w\<lparr>w_audit := trail\<rparr>)"
  shows "(\<forall>trail. snd (run trail) = snd (run trail')) \<or> audit_ticket E sql_view current k (w_store w) (w_store (fst (run trail')))"
proof (cases "\<exists>rq. current = Some rq \<and> has_scope rq AUDIT_READ")
  case False
  then have "snd (run trail) = snd (run trail')" for trail
    by (cases current) (simp_all add: run_def decorated_def scoped_def require_current_request_def assms(1-3))
  then show ?thesis by blast
next
  case True
  then obtain rq where rq: "current = Some rq" "has_scope rq AUDIT_READ" by blast
  let ?g = "gate_of E (fr_system (w_system w)) (audit_gate p)"
  let ?gate = "require_confirmation_gate (se_libs E) (sql_api (se_libs E)) (se_now E) n ?g current k (w_store w)"
  have run: "snd (run trail) = redact_response (translate_known_errors (case snd ?gate of Inl e \<Rightarrow> Inl e | Inr (Respond response t) \<Rightarrow> Inr response | Inr (Run args tk) \<Rightarrow> F trail args))"
    "w_store (fst (run trail)) = fst ?gate" for trail
    by (simp_all add: run_def decorated_def scoped_def require_current_request_def rq assms(1-3,6) split_beta confirmed_read Let_def)
  show ?thesis
  proof (cases "\<exists>args tk. snd ?gate = Inr (Run args tk)")
    case False
    then have "snd (run trail) = snd (run trail')" for trail by (auto simp: run(1) split: sum.split gate_result.split)
    then show ?thesis by blast
  next
    case True
    then obtain args tk where gate: "snd ?gate = Inr (Run args tk)" by blast
    have "gated ?g current k rq ''audit.read'' (policy_get (se_policy E) ''audit.read'')"
      by (simp add: gated_def rq assms(7))
    note gated = this
    have "sql_view (se_libs E) (fst ?gate) (confirmation_arg k) = None"
      by (rule sql.gate_consumes [OF assms(4,5) gated, where now = "se_now E" and new_id = n and args' = args and tk = tk])
        (simp_all add: prod_eq_iff gate)
    with sql.gate_run [OF assms(4,5) gated gate] rq assms(8) show ?thesis
      by (intro disjI2) (auto simp: audit_ticket_def run(2))
  qed
qed

text \<open>
  The audit trail is read with the owner's approval only.  Where the policy asks for the owner's signature, as
  the default policy does, what \<open>audit_list\<close> and \<open>audit_get\<close> answer does not depend on the trail, unless the caller
  has the scope and presents a ticket of its own for this very reading that the owner approved; the ticket is gone
  afterwards, so that one approval is one reading.
\<close>

theorem audit_read_gated:
  assumes "sql_good (se_libs E) ttl owner_ttl (w_store w)" "sql_view (se_libs E) (w_store w) [] = None" "se_api E = sql_api (se_libs E)"
    and "require_confirmation (policy_get (se_policy E) ''audit.read'')" "require_owner_signature (policy_get (se_policy E) ''audit.read'')"
    and "tool \<in> {run_audit_list, run_audit_get}"
  shows "(\<forall>trail. snd (tool E n current k (w\<lparr>w_audit := trail\<rparr>)) = snd (tool E n current k w)) \<or>
    audit_ticket E sql_view current k (w_store w) (w_store (fst (tool E n current k w)))"
proof -
  obtain p q where tools: "tl_gate tool_audit_list = Some (audit_gate p)" "tl_gate tool_audit_get = Some (audit_gate q)"
    by (simp add: tool_audit_list_def tool_audit_get_def)
  have rest: "tl_audit tool_audit_list = None" "tl_scope tool_audit_list = Some AUDIT_READ"
    "tl_audit tool_audit_get = None" "tl_scope tool_audit_get = Some AUDIT_READ"
    by (simp_all add: tool_audit_list_def tool_audit_get_def)
  show ?thesis
    using assms(6) audit_reader [OF tools(1) rest(1,2) assms(1-5) refl, of n "[]" current "list_entries (se_libs E)" k "w_audit w"]
      audit_reader [OF tools(2) rest(3,4) assms(1-5) refl, of n "[]" current "get_entry E" k "w_audit w"]
    by (auto simp: run_audit_list_def run_audit_get_def)
qed

theorem audit_read_gated_witness:
  "\<forall>trail. snd (run_audit_list approving_server ''c2'' (Some LOCAL_STDIO_REQUEST) [] (approving_world\<lparr>w_audit := trail\<rparr>)) =
   snd (run_audit_list approving_server ''c2'' (Some LOCAL_STDIO_REQUEST) [] approving_world)"
proof -
  have server: "se_libs approving_server = approving_libs" "se_api approving_server = sql_api approving_libs" "se_policy approving_server = DEFAULT_POLICY"
    by (simp_all add: approving_server_def)
  have "sql_good approving_libs 300 900 (w_store approving_world)" "sql_view approving_libs (w_store approving_world) [] = None"
    by (simp_all add: sql_good_def sql_view_def approving_world_def sql_init_def)
  moreover have "require_confirmation (policy_get DEFAULT_POLICY ''audit.read'')" "require_owner_signature (policy_get DEFAULT_POLICY ''audit.read'')"
    by (simp_all add: policy_get_def DEFAULT_POLICY_def default_rule_def)
  moreover have "confirmation_arg [] = []" by (simp add: confirmation_arg_def)
  ultimately show ?thesis
    using audit_read_gated [of approving_server 300 900 approving_world run_audit_list "''c2''" "Some LOCAL_STDIO_REQUEST" "[]"]
    by (auto simp: server audit_ticket_def)
qed

definition testing_session :: package_session where
  "testing_session = \<lparr>ps_session_id = ''s1'', ps_pubkey = ''local-stdio'', ps_source = ''/tmp/wiki_ynh'', ps_source_hash = ''/tmp/wiki_ynh'',
     ps_app_id = ''wiki'', ps_created_at = 0, ps_expires_at = 900\<rparr>"

definition testing_server :: "(sql_store, bool) server_env" where
  "testing_server = approving_server\<lparr>se_libs := example_libs, se_policy := []\<rparr>"

definition testing_frontend :: "bool frontend" where
  "testing_frontend = idle_frontend\<lparr>fr_sessions := \<lparr>ss_ttl_seconds = 900, ss_sessions = [testing_session]\<rparr>\<rparr>"

lemma testing_simps [simp]:
  "se_adapter testing_server = demo_adapter" "se_libs testing_server = example_libs" "se_now testing_server = 5"
  "fr_system testing_frontend = False" "fr_sessions testing_frontend = \<lparr>ss_ttl_seconds = 900, ss_sessions = [testing_session]\<rparr>"
  "rq_pubkey LOCAL_STDIO_REQUEST = ''local-stdio''"
  by (simp_all add: testing_server_def approving_server_def testing_frontend_def idle_frontend_def LOCAL_STDIO_REQUEST_def LOCAL_STDIO_IDENTITY_def)

lemma method_package_install_test: "map_of METHODS ''package_install_test'' = Some (sig_package_install_test, adapter_package_install_test)"
  by (rule method_at [OF method_names, where n = 70]) (simp_all add: METHODS_def)

theorem package_tests_bound_witness:
  "\<exists>s. own_session testing_server (Some LOCAL_STDIO_REQUEST) (JStr ''s1'') (fr_sessions testing_frontend) s \<and> JStr ''/tmp/wiki_ynh'' = JStr (ps_source s)"
proof -
  let ?k = "[(''source'', JStr ''/tmp/wiki_ynh''), (''session_id'', JStr ''s1'')]"
  let ?body = "package_install_test_body testing_server (Some LOCAL_STDIO_REQUEST)"
  have "sessions_ok example_libs (fr_sessions testing_frontend)" by (simp add: sessions_ok_def source_hash_def testing_session_def)
  moreover have "fr_system (fst (?body ?k testing_frontend)) \<noteq> fr_system testing_frontend"
    by (simp add: package_install_test_body_def package_session_of_def and_then_def ret_def require_current_request_def on_sessions_def session_get_def
        testing_session_def source_hash_def run_adapter_def call_method_def method_package_install_test
        sig_package_install_test_def bind_arguments_def sg_names_def guard_def demo_methods)
  moreover have "?body \<in> set (source_tools testing_server (Some LOCAL_STDIO_REQUEST))" by (simp add: source_tools_def)
  ultimately show ?thesis using package_tests_bound [of testing_server testing_frontend ?body ?k "Some LOCAL_STDIO_REQUEST"] by auto
qed

text \<open>A plan for \<open>wiki\<close> that the caller made, executed on a system that an upgrade changes.\<close>

definition wiki_plan :: ticket where
  "wiki_plan = make_ticket example_libs 0 300 ''p1'' ''local-stdio'' ''plan.app_upgrade'' [] (JObj [(''app'', JStr ''wiki'')])"

definition planning_server :: "(sql_store, bool) server_env" where
  "planning_server = testing_server\<lparr>se_adapter := demo_adapter\<lparr>ad_interpreter := (\<lambda>_ _ _. (True, Inr \<lparr>po_returncode = 0, po_stdout = [], po_stderr = []\<rparr>))\<rparr>\<rparr>"

definition planning_world :: "(sql_store, bool frontend) world" where
  "planning_world = approving_world\<lparr>w_system := idle_frontend\<lparr>fr_plans := \<lparr>ttl_seconds = 300, owner_approval_ttl_seconds = 300,
     pending = [(''p1'', wiki_plan)], in_flight = {}\<rparr>\<rparr>\<rparr>"

theorem plan_execution_sound_witness:
  "\<exists>t. map_of (pending (fr_plans (w_system planning_world))) ''p1'' = Some t \<and> tk_pubkey t = rq_pubkey LOCAL_STDIO_REQUEST \<and>
    map_of (pending (fr_plans (w_system (fst (execute_plan planning_server ''m1'' (Some LOCAL_STDIO_REQUEST) [(''plan_id'', JStr ''p1'')] planning_world))))) ''p1'' = None"
proof -
  let ?k = "[(''plan_id'', JStr ''p1'')]"
  let ?A = "se_adapter planning_server"
  let ?w = "fst (execute_plan planning_server ''m1'' (Some LOCAL_STDIO_REQUEST) ?k planning_world)"
  have server: "ad_broker ?A = None" "ad_fake ?A = False" "se_libs planning_server = example_libs" "se_now planning_server = 5"
    "se_policy planning_server = []"
    by (simp_all add: planning_server_def testing_server_def approving_server_def)
  have ready: "system_python ?A i m f kw s = (True, Inr JNull)" for i m f kw s
    by (simp add: planning_server_def system_python_def and_then_def demo_adapter_def)
  have run: "fst (call_method ?A (call_of ''app_upgrade'' [] [(''app'', JStr ''wiki'')]) s)" for s
    by (simp add: call_method_def method_app_upgrade sig_app_upgrade_def bind_arguments_def sg_names_def guard_def server demo_methods ready)
  have check: "check_apps_upgrade planning_server y (apps_upgrade_rule planning_server) = Inr ()" for y
    by (simp add: check_apps_upgrade_def defer_to_broker_def server apps_upgrade_rule_def policy_get_def adapter_free_space_bytes_def
        check_free_space_def check_recent_backup_def default_rule_def and_then_def ret_def)
      (simp add: planning_server_def testing_server_def approving_server_def demo_adapter_def check_free_space_def)
  have scope: "has_scope LOCAL_STDIO_REQUEST APPS_UPGRADE"
    by (simp add: has_scope_def request_scopes_def LOCAL_STDIO_REQUEST_def LOCAL_STDIO_IDENTITY_def ALL_SCOPES_UNIV)
  have plan: "map_of (pending (fr_plans (w_system planning_world))) ''p1'' = Some wiki_plan" "in_flight (fr_plans (w_system planning_world)) = {}"
    "tk_expires_at wiki_plan = 300" "tk_pubkey wiki_plan = ''local-stdio''" "tk_tool wiki_plan = ''plan.app_upgrade''"
    "tk_plan wiki_plan = JObj [(''app'', JStr ''wiki'')]" "tk_arguments_hash wiki_plan = hash_arguments example_libs []"
    by (simp_all add: planning_world_def wiki_plan_def make_ticket_def)
  have body: "fr_system (fst (execute_plan_body planning_server (Some LOCAL_STDIO_REQUEST) ?k (w_system planning_world)))"
    using run by (simp add: execute_plan_body_def upgrade_planned_def and_then_def ret_def require_current_request_def on_plans_def invalid_plan_def
        mem_peek_def mem_consume_def plan server own_control_plane_def get_or_def dget_default_def CONTROL_PLANE_APP_ID_def checked_def guard_def
        check item_of_def run_adapter_def split_beta)
  moreover have "w_system ?w = fst (execute_plan_body planning_server (Some LOCAL_STDIO_REQUEST) ?k (w_system planning_world))"
    using decorated_audited_system [of tool_execute_plan "''apps.upgrade''" APPS_UPGRADE planning_server "[]" "''m1''" "Some LOCAL_STDIO_REQUEST"
        "execute_plan_body planning_server (Some LOCAL_STDIO_REQUEST)" ?k planning_world] scope
    by (simp add: execute_plan_def tool_execute_plan_def) (simp add: planning_world_def approving_world_def)
  ultimately have "fr_system (w_system ?w) \<noteq> fr_system (w_system planning_world)" by (simp add: planning_world_def idle_frontend_def)
  from plan_execution_sound [OF surjective_pairing this refl] show ?thesis by auto
qed

subsection \<open>Looking at a confirmation\<close>

lemma visible_confirmation_exact:
  assumes "sql_good (se_libs E) ttl owner_ttl (w_store w)" "se_api E = sql_api (se_libs E)"
  shows "let a = sql_view (se_libs E) (w_store w); p = spec_peek (se_now E) cid a in
    \<exists>st. fst (visible_confirmation E current cid w) = w\<lparr>w_store := st\<rparr> \<and>
      sql_view (se_libs E) st = (if current = None then a else fst p) \<and>
      snd (visible_confirmation E current cid w) = ebind (require_current_request current) (\<lambda>rq. ebind (snd p) (\<lambda>t.
        if tk_pubkey t \<noteq> rq_pubkey rq \<and> \<not> has_scope rq OWNER_APPROVE
        then Inl (confirmation_error ''not authorized to view this confirmation'') else Inr t))"
proof -
  obtain st r where peek: "sql_peek (se_libs E) (se_now E) cid (w_store w) = (st, r)" by (metis surj_pair)
  obtain a q where spec: "spec_peek (se_now E) cid (sql_view (se_libs E) (w_store w)) = (a, q)" by (metis surj_pair)
  from sql.peek [OF assms(1), of "se_now E" cid] peek spec have "sql_view (se_libs E) st = a" "r = q" by (simp_all add: refines_def)
  with peek spec assms(2) show ?thesis
    by (cases current; cases r) (auto simp: visible_confirmation_def and_then_def ret_def require_current_request_def on_store_def Let_def
        intro: exI [of _ "w_store w"] exI [of _ st])
qed

text \<open>
  C28: a confirmation is shown to its requester and to holders of the scope for approvals, and to nobody else,
  exactly while it is unexpired and unclaimed, and what is shown is its record as stored.  To look changes nothing,
  but that an expired confirmation that was asked for is deleted; every other confirmation stays as it is.
\<close>

theorem approval_visible:
  assumes "sql_good (se_libs E) ttl owner_ttl (w_store w)" "se_api E = sql_api (se_libs E)"
    and "(tool, shown) \<in> {(approval_get, approval_record), (approval_status, approval_state)}" "tool E current k w = (w', r)"
  shows "let cid = text_of (dget k ''confirmation_id''); view = sql_view (se_libs E) (w_store w);
        visible = (\<lambda>t. view cid = Some (t, False) \<and> se_now E < tk_expires_at t \<and>
          (\<exists>rq. current = Some rq \<and> (tk_pubkey t = rq_pubkey rq \<or> has_scope rq OWNER_APPROVE)))
    in (\<forall>t. visible t \<longrightarrow> r = Inr (redact (shown t))) \<and> (is_ok r \<longrightarrow> (\<exists>t. visible t)) \<and>
       (\<exists>st. w' = w\<lparr>w_store := st\<rparr> \<and> (\<forall>c. c \<noteq> cid \<longrightarrow> sql_view (se_libs E) st c = view c) \<and>
          sql_view (se_libs E) st cid =
            (if current \<noteq> None \<and> (\<exists>t claimed. view cid = Some (t, claimed) \<and> tk_expires_at t \<le> se_now E) then None else view cid))"
proof -
  let ?cid = "text_of (dget k ''confirmation_id'')"
  obtain w1 r1 where v: "visible_confirmation E current ?cid w = (w1, r1)" by (metis surj_pair)
  have tool: "w' = w1" "r = redact_response (translate_known_errors (ebind r1 (\<lambda>t. Inr (shown t))))"
    using assms(3,4) v by (auto simp: approval_get_def approval_status_def and_then_def ret_def split: sum.splits)
  have shown: "redact_response (translate_known_errors (Inr (shown t))) = Inr (redact (shown t))" for t
    using assms(3) by (auto simp: approval_record_def approval_state_def redact_response_def translate_known_errors_def reraise_def)
  have failed: "\<not> is_ok (redact_response (translate_known_errors (Inl e)))" for e
    by (simp add: redact_response_def translate_known_errors_def reraise_def)
  from visible_confirmation_exact [OF assms(1,2), of ?cid current] v obtain st where
    st: "w1 = w\<lparr>w_store := st\<rparr>"
      "sql_view (se_libs E) st = (if current = None then sql_view (se_libs E) (w_store w)
         else fst (spec_peek (se_now E) ?cid (sql_view (se_libs E) (w_store w))))"
    and r1: "r1 = ebind (require_current_request current) (\<lambda>rq. ebind (snd (spec_peek (se_now E) ?cid (sql_view (se_libs E) (w_store w)))) (\<lambda>t.
        if tk_pubkey t \<noteq> rq_pubkey rq \<and> \<not> has_scope rq OWNER_APPROVE
        then Inl (confirmation_error ''not authorized to view this confirmation'') else Inr t))"
    by (auto simp: Let_def)
  show ?thesis
  proof (cases current)
    case None
    then show ?thesis using st r1 tool failed by (auto simp: require_current_request_def Let_def)
  next
    case (Some rq)
    note peek = spec_peek_def [of "se_now E" ?cid "sql_view (se_libs E) (w_store w)"]
    show ?thesis
    proof (cases "sql_view (se_libs E) (w_store w) ?cid")
      case None
      with Some st r1 tool failed show ?thesis by (auto simp: peek require_current_request_def Let_def)
    next
      case (Some x)
      with \<open>current = Some rq\<close> st r1 tool failed shown show ?thesis
        by (cases x) (auto simp: peek require_current_request_def Let_def)
    qed
  qed
qed

theorem approval_visible_witness:
  "snd (approval_get approving_server (Some LOCAL_STDIO_REQUEST) approving_call approving_world) = Inr (redact (approval_record approving_ticket)) \<and>
     sql_view approving_libs (w_store (fst (approval_get approving_server (Some LOCAL_STDIO_REQUEST) approving_call approving_world))) ''c1'' =
       Some (approving_ticket, False)"
proof -
  let ?r = "approval_get approving_server (Some LOCAL_STDIO_REQUEST) approving_call approving_world"
  have server: "se_libs approving_server = approving_libs" "se_api approving_server = sql_api approving_libs" "se_now approving_server = 5"
    by (simp_all add: approving_server_def)
  have good: "sql_good approving_libs 300 900 (w_store approving_world)" by (simp add: sql_good_def approving_world_def sql_init_def)
  have scope: "has_scope LOCAL_STDIO_REQUEST OWNER_APPROVE"
    by (simp add: has_scope_def request_scopes_def LOCAL_STDIO_REQUEST_def LOCAL_STDIO_IDENTITY_def ALL_SCOPES_UNIV)
  have "sql_view approving_libs (w_store approving_world) ''c1'' = Some (approving_ticket, False)" "tk_expires_at approving_ticket = 900"
    by (simp_all add: sql_view_def approving_world_def sql_init_def sql_row_of_def row_view_def approving_ticket_def make_ticket_def)
  with approval_visible [of approving_server 300 900 approving_world approval_get approval_record "Some LOCAL_STDIO_REQUEST" approving_call "fst ?r" "snd ?r"]
    good server scope show ?thesis by (auto simp: Let_def approving_call_def)
qed

subsection \<open>Several broker calls in one tool\<close>

text \<open>A broker that pays for one call: after it has answered one, it refuses the others.\<close>

definition answers_once :: "(string \<Rightarrow> dict \<Rightarrow> ('y, json) step) \<Rightarrow> ('y \<Rightarrow> bool) \<Rightarrow> ('y \<Rightarrow> bool) \<Rightarrow> bool" where
  "answers_once call ready used \<longleftrightarrow>
     (\<forall>op args y. (ready y \<longrightarrow> ready (fst (call op args y)) \<and> (\<forall>v. snd (call op args y) = Inr v \<longrightarrow> used (fst (call op args y)))) \<and>
        (used y \<longrightarrow> used (fst (call op args y)) \<and> (\<exists>e. snd (call op args y) = Inl e)))"

lemma broker_answers_once:
  assumes "\<And>op args. well_sent L (Some rq) (X, op, args)" "parse_authorization L (rq_authorization rq) = Inr e"
  shows "answers_once (broker_call A X (Some rq)) (\<lambda>st. 0 < rc_ttl_seconds (bk_replay_cache (fst st)))
    (\<lambda>st. \<exists>t. (ev_id e, t) \<in> seen (fst st) \<and> be_tick (ex_environment X) < t)"
proof -
  have "(0 < rc_ttl_seconds (bk_replay_cache bk) \<longrightarrow> 0 < rc_ttl_seconds (bk_replay_cache bk') \<and>
        (\<forall>v. res = Inr v \<longrightarrow> (\<exists>t. (ev_id e, t) \<in> seen bk' \<and> be_tick (ex_environment X) < t))) \<and>
      ((\<exists>t. (ev_id e, t) \<in> seen bk \<and> be_tick (ex_environment X) < t) \<longrightarrow>
        (\<exists>t. (ev_id e, t) \<in> seen bk' \<and> be_tick (ex_environment X) < t) \<and> (\<exists>x. res = Inl x))"
    if "broker_call A X (Some rq) op args (bk, y) = ((bk', y'), res)" for op args bk y bk' y' res
    using calling_records [OF assms(1) that] spent_call [OF assms(1) that refl assms(2)] assms(2) by fastforce
  then show ?thesis unfolding answers_once_def by (metis prod.collapse)
qed

lemma answers_once_first:
  assumes "answers_once call ready used" "ready y" "and_then (call op args) rest y = (y', Inr v)"
  shows "\<exists>y1 x. used y1 \<and> rest x y1 = (y', Inr v)"
  using assms(3)
proof (cases rule: and_then_split)
  case (went_on y1 x)
  then show ?thesis using assms(1,2) by (metis answers_once_def fst_conv snd_conv)
qed simp

lemma answers_once_later:
  assumes "answers_once call ready used" "used y"
  shows "\<exists>e. snd (call op args y) = Inl e"
  using assms by (simp add: answers_once_def)

lemma method_of_flows:
  "map_of METHODS ''free_space_bytes'' = Some (sig_free_space_bytes, adapter_free_space_bytes)"
  "map_of METHODS ''safe_upgrade'' = Some (sig_safe_upgrade, adapter_safe_upgrade)"
  "map_of METHODS ''package_run_tests'' = Some (sig_package_run_tests, adapter_package_run_tests)"
  by (simp_all add: METHODS_def)

text \<open>What these methods do where there is a broker.\<close>

lemma brokered_methods:
  assumes "ad_broker A = Some call"
  shows "\<exists>conv. call_method A (call_of ''free_space_bytes'' [] []) = and_then (call ''system.free_space'' [(''path'', JStr ''/'')]) (\<lambda>v. ret (conv v))"
    "call_method A (call_of ''safe_upgrade'' [app] [(''confirmation_id'', c)]) = call ''safe.upgrade'' [(''app'', app), (''confirmation_id'', c)]"
    "call_method A (call_of ''package_inspect'' [source] []) = call ''package.inspect'' [(''source'', source)]"
    "call_method A (call_of ''package_run_tests'' [source] [(''app_id'', app), (''confirmation_id'', c), (''session_id'', s)]) =
       call ''package.run_tests'' [(''source'', source), (''app_id'', app), (''confirmation_id'', c), (''session_id'', s)]"
  using assms
  by (auto intro!: exI simp: call_method_def BROKERED_METHODS_def method_of_flows method_package_inspect bind_arguments_def sg_names_def guard_def sent_def fun_eq_iff
      sig_free_space_bytes_def sig_safe_upgrade_def sig_package_inspect_def sig_package_run_tests_def
      adapter_free_space_bytes_def adapter_safe_upgrade_def adapter_package_inspect_def adapter_package_run_tests_def dispatch_def)

text \<open>The first call that returns a result uses the broker up, and the next one fails.\<close>

lemma first_call_uses:
  assumes "answers_once call ready used" "ready (fr_system fr)" "run_adapter A c fr = (fr', Inr v)"
    and "call_method A c = and_then (call op args) (\<lambda>v. ret (conv v)) \<or> call_method A c = call op args"
  shows "used (fr_system fr')"
proof -
  have once: "used (fst (call op args (fr_system fr)))" if "snd (call op args (fr_system fr)) = Inr x" for x
    using assms(1,2) that by (auto simp: answers_once_def)
  from assms(3) obtain y where y: "call_method A c (fr_system fr) = (y, Inr v)" "fr_system fr' = y" by (auto simp: run_adapter_def split: prod.splits)
  from assms(4) show ?thesis
  proof
    assume "call_method A c = and_then (call op args) (\<lambda>v. ret (conv v))"
    with y once show ?thesis by (auto simp: and_then_def ret_def split: prod.splits sum.splits)
  next
    assume "call_method A c = call op args"
    with y once show ?thesis by simp
  qed
qed

lemma next_call_fails:
  assumes "answers_once call ready used" "used (fr_system fr)" "call_method A c = call op args"
  shows "\<exists>e. snd (run_adapter A c fr) = Inl e"
  using assms by (auto simp: run_adapter_def answers_once_def split: prod.split) (metis snd_conv)

text \<open>
  Through a broker \<open>safe_upgrade\<close> never returns a report: the first of its calls uses the signed request up.
\<close>

theorem safe_upgrade_unfinished:
  assumes "ad_broker (se_adapter E) = Some call" "answers_once call ready used" "ready (fr_system fr)"
  shows "\<exists>e. snd (safe_upgrade_body E k fr) = Inl e"
proof (rule ccontr)
  assume "\<not> ?thesis"
  then obtain fr' v where "safe_upgrade_body E k fr = (fr', Inr v)" by (metis prod.collapse sum.exhaust)
  then show False unfolding safe_upgrade_body_def Let_def checked_def
  proof (elim and_thenE, goal_cases)
    case (1 free f1 u f2 result f3 times f4 u' f5)
    from brokered_methods(1) [OF assms(1)] obtain conv where
      "call_method (se_adapter E) (call_of ''free_space_bytes'' [] []) = and_then (call ''system.free_space'' [(''path'', JStr ''/'')]) (\<lambda>v. ret (conv v))" by blast
    with first_call_uses [OF assms(2,3) 1(1)] have "used (fr_system f1)" by blast
    moreover have "f2 = f1" using 1(2) by (simp add: ret_def)
    ultimately have "used (fr_system f2)" by simp
    from next_call_fails [OF assms(2) this brokered_methods(2) [OF assms(1)]] 1(3) show False by (metis snd_conv sum.distinct(1))
  qed
qed

lemma finally_fails: "\<exists>e. snd (m s) = Inl e \<Longrightarrow> finally_do m cleanup s \<noteq> (s', Inr v)"
  by (auto simp: finally_do_def split: prod.splits sum.splits)

theorem package_cycle_unfinished:
  assumes "ad_broker (se_adapter E) = Some call" "answers_once call ready used" "ready (fr_system fr)"
  shows "\<exists>e. snd (execute_package_test_cycle E current i k fr) = Inl e"
proof (rule ccontr)
  assume "\<not> ?thesis"
  then obtain fr' v where "execute_package_test_cycle E current i k fr = (fr', Inr v)" by (metis prod.collapse sum.exhaust)
  then show False unfolding execute_package_test_cycle_def checked_def
  proof (elim and_thenE, goal_cases)
    case (1 manifest f1 app f2 u f3 rq f4 s f5)
    have "used (fr_system f1)" by (rule first_call_uses [OF assms(2,3) 1(1)], rule disjI2, rule brokered_methods(3) [OF assms(1)])
    moreover have "fr_system f5 = fr_system f1" using 1(2-5) by (auto simp: ret_def on_sessions_def split: prod.splits)
    ultimately have "used (fr_system f5)" by simp
    have "\<exists>e. snd (run_adapter (se_adapter E) (call_of ''package_run_tests'' [dget k ''source''] [(''app_id'', app),
        (''confirmation_id'', dget k ''confirmation_id''), (''session_id'', JStr (ps_session_id s))]) f5) = Inl e"
      by (rule next_call_fails [OF assms(2) \<open>used (fr_system f5)\<close>]) (rule brokered_methods(4) [OF assms(1)])
    note fails = this
    show False by (rule notE [OF finally_fails 1(6)]) (rule fails)
  qed
qed

text \<open>The same over the socket of the helper, whose replay cache has a positive lifetime.\<close>

theorem several_calls_unfinished:
  assumes "ad_broker (se_adapter E) = Some (broker_call A X (Some rq))" "\<And>op args. well_sent L (Some rq) (X, op, args)"
    and "parse_authorization L (rq_authorization rq) = Inr e" "0 < rc_ttl_seconds (bk_replay_cache (fst (fr_system fr)))"
  shows "(\<exists>x. snd (safe_upgrade_body E k fr) = Inl x) \<and> (\<exists>x. snd (execute_package_test_cycle E current i k fr) = Inl x)"
  using safe_upgrade_unfinished [OF assms(1) broker_answers_once [OF assms(2,3)] assms(4)]
    package_cycle_unfinished [OF assms(1) broker_answers_once [OF assms(2,3)] assms(4)] by blast

end
