(* ===== verification/Armada.thy ===== *)
theory Armada
  imports Server_Flows Concord_Routing Concord_Drafts Concord_Reader
begin

text \<open>
  \<^verbatim>\<open>src/yunohost_mcp/concord_credentials.py\<close> and the Armada tools of \<^verbatim>\<open>server.py\<close>: announcements and joins, signed
  with a key that the server holds, or drafted for the caller to sign and submitted afterwards.  The tools
  share the table of deliveries and the table of drafts; relays, files and the clock are read through the
  environment.
\<close>

subsection \<open>Credential files\<close>

text \<open>What \<open>lstat\<close> and the path say of a file, and its text; \<open>None\<close> where it cannot be read or is not UTF-8.\<close>

record file_status =
  fs_regular :: bool
  fs_symlink :: bool
  fs_mode :: nat
  fs_owner :: int
  fs_size :: int

record credential_file =
  cf_status :: "file_status option"
  cf_text :: "string option"

definition credential_error :: "string \<Rightarrow> exn" where
  "credential_error msg = Exn CredentialFileError msg"

text \<open>\<open>mode & 0o077\<close>: the bits of the group and of the world.\<close>

definition group_or_world :: "nat \<Rightarrow> bool" where
  "group_or_world m = (m mod 64 \<noteq> 0)"

definition read_credential_file :: "int \<Rightarrow> credential_file \<Rightarrow> string \<Rightarrow> int \<Rightarrow> exn + string" where
  "read_credential_file uid f label max_bytes =
     ebind (guard (0 < max_bytes) (Exn ValueError ''max_bytes must be positive'')) (\<lambda>_.
     case cf_status f of
       None \<Rightarrow> Inl (credential_error (label @ '' credential file is unavailable''))
     | Some st \<Rightarrow>
         ebind (guard (fs_regular st \<and> \<not> fs_symlink st) (credential_error (label @ '' credential path must be a regular file''))) (\<lambda>_.
         ebind (guard (\<not> group_or_world (fs_mode st)) (credential_error (label @ '' credential file must not be group/world accessible''))) (\<lambda>_.
         ebind (guard (fs_owner st \<in> {0, uid}) (credential_error (label @ '' credential file has an unexpected owner''))) (\<lambda>_.
         ebind (guard (fs_size st \<le> max_bytes) (credential_error (label @ '' credential file is too large''))) (\<lambda>_.
         case cf_text f of
           None \<Rightarrow> Inl (credential_error (label @ '' credential file cannot be read''))
         | Some text \<Rightarrow>
             let v = str_strip text in
             if v = [] \<or> CHR 0x0A \<in> set v \<or> CHR 0x0D \<in> set v
             then Inl (credential_error (label @ '' credential file must contain one non-empty value''))
             else Inr v)))))"

text \<open>The key parser is third-party; every failure of it is the same error.\<close>

definition load_bot_private_key :: "(string \<Rightarrow> string + string) \<Rightarrow> int \<Rightarrow> credential_file \<Rightarrow> exn + string" where
  "load_bot_private_key from_key_string uid f =
     ebind (read_credential_file uid f ''Concord bot'' 16384) (\<lambda>v.
     case from_key_string v of
       Inl _ \<Rightarrow> Inl (credential_error ''Concord bot credential is not a valid private key'')
     | Inr key \<Rightarrow> Inr key)"

subsection \<open>The environment and the state\<close>

text \<open>The parts that talk to relays are a record of their own, for statements about calls that do not use them.\<close>

record network =
  nw_relays :: relay_libs
  nw_send :: "nostr_event \<Rightarrow> string list \<Rightarrow> exn + unit"
  nw_files :: "string \<Rightarrow> credential_file"

record armada_env =
  ae_enabled :: bool
  ae_libs :: libs
  ae_crypto :: crypto_libs
  ae_keys :: key_libs
  ae_sign :: sign_libs
  ae_invites :: invite_libs
  ae_coerce :: "json \<Rightarrow> string + unsigned_event"
  ae_event_json :: "string \<Rightarrow> string + nostr_event"
  ae_fmt :: "json \<Rightarrow> string"
  ae_key_string :: "string \<Rightarrow> string + string"
  ae_uid :: int
  ae_bot_key_path :: string
  ae_invite_path :: string
  ae_timeout :: real
  ae_now :: real
  ae_now_ms :: int
  ae_ephemeral :: string
  ae_network :: network

record armada =
  ar_deliveries :: delivery_store
  ar_drafts :: pending_store

type_synonym 'a armada_step = "armada \<Rightarrow> armada \<times> (exn + 'a)"

definition armada_key_path_for :: "armada_env \<Rightarrow> authenticated_request \<Rightarrow> string" where
  "armada_key_path_for E rq = (case rq_identity rq of
      Some r \<Rightarrow> (case id_armada_key_path r of Some p \<Rightarrow> p | None \<Rightarrow> ae_bot_key_path E)
    | None \<Rightarrow> ae_bot_key_path E)"

definition bot_key_of :: "armada_env \<Rightarrow> authenticated_request \<Rightarrow> exn + string" where
  "bot_key_of E rq = load_bot_private_key (ae_key_string E) (ae_uid E) (nw_files (ae_network E) (armada_key_path_for E rq))"

definition invite_url_of :: "armada_env \<Rightarrow> exn + string" where
  "invite_url_of E = read_credential_file (ae_uid E) (nw_files (ae_network E) (ae_invite_path E)) ''Armada invite'' 16384"

definition publisher_of :: "armada_env \<Rightarrow> nostr_event \<Rightarrow> string list \<Rightarrow> exn + publish_result" where
  "publisher_of E = publish_signed_event (nw_send (ae_network E)) (ae_timeout E)"

definition load_bundle :: "armada_env \<Rightarrow> string \<Rightarrow> exn + invite_bundle" where
  "load_bundle E invite_url =
     load_invite_bundle (ae_libs E) (ae_invites E) (fetch_invite_events (nw_relays (ae_network E)) (ae_timeout E)) (ae_now_ms E) invite_url"

definition load_rumors :: "armada_env \<Rightarrow> invite_bundle \<Rightarrow> exn + dict list" where
  "load_rumors E b =
     load_control_rumors (ae_libs E) (ae_crypto E) (ae_keys E) (ae_coerce E) (fetch_control_events (nw_relays (ae_network E)) (ae_timeout E)) b"

subsection \<open>Responses\<close>

text \<open>\<open>draft.__dict__\<close>, \<open>seal_template.__dict__\<close> and the stream key as they are stored and sent.\<close>

definition announcement_dict :: "announcement_draft \<Rightarrow> dict" where
  "announcement_dict d = [(''idempotency_key'', JStr (ad_idempotency_key d)), (''repository_name'', JStr (ad_repository_name d)),
     (''app_id'', optional_str (ad_app_id d)), (''version'', optional_str (ad_version d)),
     (''catalogue_reference'', optional_str (ad_catalogue_reference d)), (''text'', JStr (ad_text d))]"

definition template_dict :: "seal_template \<Rightarrow> dict" where
  "template_dict t = [(''pubkey'', JStr (tm_pubkey t)), (''kind'', JInt (tm_kind t)),
     (''tags'', JList (map (\<lambda>tag. JList (map JStr tag)) (tm_tags t))), (''content'', JStr (tm_content t)), (''created_at'', JInt (tm_created_at t))]"

definition key_dict :: "group_key \<Rightarrow> dict" where
  "key_dict k = [(''secret_hex'', JStr (hex_of (gk_secret k))), (''pubkey_hex'', JStr (gk_pubkey k))]"

definition publication_dict :: "publish_result \<Rightarrow> json" where
  "publication_dict p = JObj [(''event_id'', JStr (pub_event_id p)), (''relays'', JList (map JStr (pub_relays p)))]"

definition disabled_response :: "string \<Rightarrow> json" where
  "disabled_response warning = JObj [(''status'', JStr ''disabled''), (''warning'', JStr warning)]"

definition unavailable_response :: "exn \<Rightarrow> json" where
  "unavailable_response e = JObj [(''status'', JStr ''unavailable''), (''warning'', JStr (exn_msg e))]"

definition already_published :: "dict \<Rightarrow> delivery_record \<Rightarrow> json" where
  "already_published draft r = JObj [(''status'', JStr ''already_published''), (''draft'', JObj draft),
     (''publication'', JObj [(''event_id'', JStr (dr_event_id r))])]"

text \<open>\<open>except (Concord..., ValueError)\<close>: all of these classes are subclasses of \<open>ValueError\<close>.\<close>

definition or_unavailable :: "json armada_step \<Rightarrow> json armada_step" where
  "or_unavailable run st = (case run st of
      (st', Inl e) \<Rightarrow> (st', if is_value_error e then Inr (unavailable_response e) else Inl e)
    | (st', Inr v) \<Rightarrow> (st', Inr v))"

text \<open>\<open>except CredentialFileError\<close> around the reading of the files.\<close>

definition with_credentials :: "exn + 'a \<Rightarrow> ('a \<Rightarrow> json armada_step) \<Rightarrow> json armada_step" where
  "with_credentials r run st = (case r of
      Inl e \<Rightarrow> (st, if exn_cls e = CredentialFileError then Inr (unavailable_response e) else Inl e)
    | Inr x \<Rightarrow> run x st)"

definition confirmed_publication :: "armada_env \<Rightarrow> json \<Rightarrow> exn + dict" where
  "confirmed_publication E text =
     (case json_loads (ae_libs E) (text_of text) of
        Inr (JObj d) \<Rightarrow>
          if dget d ''published'' = JBool True then Inr d
          else Inl (Exn ToolInputError ''catalogue_publication must confirm a successful publication'')
      | _ \<Rightarrow> Inl (Exn ToolInputError ''catalogue_publication must be a JSON object''))"

subsection \<open>Announcements with a key of the server\<close>

text \<open>The response for a result of the announcement; a publication that succeeded is recorded first.\<close>

definition announce_response :: "armada_env \<Rightarrow> announcement_result \<Rightarrow> json armada_step" where
  "announce_response E result st =
     (let st' = (case an_publication result of
            Some p \<Rightarrow> if an_status result = ''published''
              then st\<lparr>ar_deliveries := fst (deliver_record (ae_now E) (ad_idempotency_key (an_draft result)) (pub_event_id p) (ar_deliveries st))\<rparr> else st
          | None \<Rightarrow> st)
      in (st', Inr (JObj ([(''status'', JStr (an_status result)), (''draft'', JObj (announcement_dict (an_draft result)))] @
           (case an_reason result of None \<Rightarrow> [] | Some reason \<Rightarrow> if reason = [] then [] else [(''warning'', JStr reason)]) @
           (case an_publication result of None \<Rightarrow> [] | Some p \<Rightarrow> [(''publication'', publication_dict p)])))))"

definition catalog_announce_run :: "armada_env \<Rightarrow> string \<Rightarrow> dict \<Rightarrow> string \<times> string \<Rightarrow> json armada_step" where
  "catalog_announce_run E source publication credentials =
     and_then (ret (ebind (load_bundle E (snd credentials)) (\<lambda>b.
        ebind (load_rumors E b) (\<lambda>rumors.
        publish_package_announcement (ae_libs E) (ae_crypto E) (ae_keys E) (ae_sign E) (ae_fmt E) (ae_now E) (publisher_of E) (ae_ephemeral E)
          source publication b (map JObj rumors) (fst credentials) (py_trunc (ae_now E)) 0)))) (announce_response E)"

text \<open>What both flows do before they touch the network: the publication is checked, and an announcement that
  was delivered already is reported.\<close>

definition new_announcement ::
  "armada_env \<Rightarrow> json \<Rightarrow> json \<Rightarrow> (string \<Rightarrow> dict \<Rightarrow> announcement_draft \<Rightarrow> json armada_step) \<Rightarrow> json armada_step" where
  "new_announcement E source text announce =
     and_then (ret (confirmed_publication E text)) (\<lambda>publication.
     and_then (ret (build_announcement_draft (ae_libs E) (ae_fmt E) (text_of source) publication)) (\<lambda>draft st.
     case delivery_get (ad_idempotency_key draft) (ar_deliveries st) of
       Some existing \<Rightarrow> (st, Inr (already_published (announcement_dict draft) existing))
     | None \<Rightarrow> announce (text_of source) publication draft st))"

definition catalog_announce_impl :: "armada_env \<Rightarrow> authenticated_request option \<Rightarrow> dict \<Rightarrow> json armada_step" where
  "catalog_announce_impl E current k =
     (if \<not> ae_enabled E then ret (Inr (disabled_response ''Armada announcements are disabled''))
      else and_then (ret (require_current_request current)) (\<lambda>rq.
        new_announcement E (dget k ''source'') (dget k ''catalogue_publication'') (\<lambda>source publication draft.
        with_credentials (ebind (bot_key_of E rq) (\<lambda>key. ebind (invite_url_of E) (\<lambda>url. Inr (key, url)))) (\<lambda>credentials.
        or_unavailable (catalog_announce_run E source publication credentials)))))"

definition valid_idempotency_key :: "string \<Rightarrow> bool" where
  "valid_idempotency_key key \<longleftrightarrow> length key = 10 + 32 \<and> starts_with key ''catalogue:'' \<and> str_lower (drop 10 key) = drop 10 key \<and>
     fromhex_ok (drop 10 key)"

definition catalog_announcement_status :: "dict \<Rightarrow> json armada_step" where
  "catalog_announcement_status k =
     (let key = text_of (dget k ''idempotency_key'') in
      checked (guard (valid_idempotency_key key) (Exn ToolInputError ''idempotency_key must use the catalogue:<32-hex> format''))
      (\<lambda>st. (st, Inr (JObj (case delivery_get key (ar_deliveries st) of
          None \<Rightarrow> [(''status'', JStr ''not_found''), (''idempotency_key'', JStr key)]
        | Some r \<Rightarrow> [(''status'', JStr ''published''), (''idempotency_key'', JStr (dr_idempotency_key r)),
            (''event_id'', JStr (dr_event_id r)), (''recorded_at'', JInt (dr_recorded_at r))])))))"

subsection \<open>Joins with a key of the server\<close>

definition join_response :: "join_publish_result \<Rightarrow> json" where
  "join_response r = JObj [(''status'', JStr (jp_status r)), (''community_id'', JStr (jp_community_id r)), (''verified'', JBool (jp_verified r)),
     (''publication'', publication_dict (jp_publication r))]"

definition armada_join_run :: "armada_env \<Rightarrow> string \<times> string \<Rightarrow> exn + json" where
  "armada_join_run E credentials =
     ebind (load_bundle E (snd credentials)) (\<lambda>b.
     ebind (publish_join (ae_libs E) (ae_crypto E) (ae_keys E) (ae_sign E) (ae_coerce E) (ae_now E) (ae_now_ms E) (publisher_of E)
        (fetch_guestbook_events (nw_relays (ae_network E)) 30) b (fst credentials) (ae_ephemeral E) (py_trunc (ae_now E)) 0) (\<lambda>r.
     Inr (join_response r)))"

definition armada_join :: "armada_env \<Rightarrow> authenticated_request option \<Rightarrow> json armada_step" where
  "armada_join E current =
     (if \<not> ae_enabled E then ret (Inr (disabled_response ''Armada integration is disabled''))
      else and_then (ret (require_current_request current)) (\<lambda>rq.
        with_credentials (ebind (bot_key_of E rq) (\<lambda>key. ebind (invite_url_of E) (\<lambda>url. Inr (key, url)))) (\<lambda>credentials.
        or_unavailable (ret (armada_join_run E credentials)))))"

subsection \<open>Drafts for the caller to sign\<close>

definition draft_ready :: "string \<Rightarrow> seal_template \<Rightarrow> json" where
  "draft_ready draft_id t = JObj [(''status'', JStr ''draft_ready''), (''draft_id'', JStr draft_id), (''unsigned_event'', JObj (template_dict t))]"

text \<open>The draft of an announcement is stored with everything that is needed to finish it.\<close>

definition store_announcement :: "armada_env \<Rightarrow> string \<Rightarrow> string \<Rightarrow> announcement_result + prepared_envelope \<Rightarrow> json armada_step" where
  "store_announcement E draft_id pubkey r st =
     (case r of
        Inl result \<Rightarrow> (st, Inr (JObj ([(''status'', JStr (an_status result)), (''draft'', JObj (announcement_dict (an_draft result)))] @
           (case an_reason result of None \<Rightarrow> [] | Some reason \<Rightarrow> if reason = [] then [] else [(''warning'', JStr reason)]))))
      | Inr prepared \<Rightarrow>
          (case pending_create (ae_libs E) (ae_now E) draft_id pubkey ''catalog_announce'' (unsigned_dump (pe_rumor prepared))
                  (template_dict (pe_seal_template prepared)) (key_dict (pe_stream_key prepared))
                  [(''draft'', JObj (announcement_dict (pe_draft prepared))), (''relays'', JList (map JStr (pe_relays prepared)))] (ar_drafts st) of
             (drafts, p) \<Rightarrow> (st\<lparr>ar_drafts := drafts\<rparr>, Inr (draft_ready (pd_draft_id p) (pe_seal_template prepared)))))"

definition catalog_announce_draft_run :: "armada_env \<Rightarrow> string \<Rightarrow> string \<Rightarrow> string \<Rightarrow> dict \<Rightarrow> string \<Rightarrow> json armada_step" where
  "catalog_announce_draft_run E draft_id pubkey source publication invite_url =
     and_then (ret (ebind (load_bundle E invite_url) (\<lambda>b. ebind (load_rumors E b) (\<lambda>rumors.
        prepare_announcement_envelope (ae_libs E) (ae_crypto E) (ae_keys E) (ae_fmt E) source publication b (map JObj rumors) pubkey
          (py_trunc (ae_now E)) 0)))) (store_announcement E draft_id pubkey)"

definition catalog_announce_draft :: "armada_env \<Rightarrow> string \<Rightarrow> authenticated_request option \<Rightarrow> dict \<Rightarrow> json armada_step" where
  "catalog_announce_draft E draft_id current k =
     and_then (ret (require_current_request current)) (\<lambda>rq.
     if \<not> ae_enabled E then ret (Inr (disabled_response ''Armada announcements are disabled''))
     else new_announcement E (dget k ''source'') (dget k ''catalogue_publication'') (\<lambda>source publication draft.
       with_credentials (invite_url_of E) (\<lambda>url.
       or_unavailable (catalog_announce_draft_run E draft_id (rq_pubkey rq) source publication url))))"

definition armada_join_draft_run :: "armada_env \<Rightarrow> string \<Rightarrow> string \<Rightarrow> string \<Rightarrow> json armada_step" where
  "armada_join_draft_run E draft_id pubkey invite_url =
     and_then (ret (ebind (load_bundle E invite_url) (\<lambda>b. ebind (fromhex_exn (ib_community_id b)) (\<lambda>identifier.
        ebind (build_join_rumor_and_seal_template (ae_libs E) (ae_crypto E) (ae_keys E) pubkey (ib_community_root b) identifier (ib_root_epoch b)
          (py_trunc (ae_now E)) 0 None None) (\<lambda>parts. Inr (b, parts)))))) (\<lambda>(b, rumor, template, key) st.
     case pending_create (ae_libs E) (ae_now E) draft_id pubkey ''armada_join'' (unsigned_dump rumor) (template_dict template) (key_dict key)
            [(''community_id'', JStr (ib_community_id b)), (''relays'', JList (map JStr (ib_relays b)))] (ar_drafts st) of
       (drafts, p) \<Rightarrow> (st\<lparr>ar_drafts := drafts\<rparr>, Inr (draft_ready (pd_draft_id p) template)))"

definition armada_join_draft :: "armada_env \<Rightarrow> string \<Rightarrow> authenticated_request option \<Rightarrow> json armada_step" where
  "armada_join_draft E draft_id current =
     and_then (ret (require_current_request current)) (\<lambda>rq.
     if \<not> ae_enabled E then ret (Inr (disabled_response ''Armada integration is disabled''))
     else with_credentials (invite_url_of E) (\<lambda>url. or_unavailable (armada_join_draft_run E draft_id (rq_pubkey rq) url)))"

subsection \<open>Submissions\<close>

definition parse_signed_event :: "armada_env \<Rightarrow> json \<Rightarrow> exn + nostr_event" where
  "parse_signed_event E v = (case ae_event_json E (text_of v) of
      Inl _ \<Rightarrow> Inl (Exn ToolInputError ''signed_event must be a JSON-encoded Nostr event'') | Inr e \<Rightarrow> Inr e)"

definition consume_draft :: "armada_env \<Rightarrow> string \<Rightarrow> string \<Rightarrow> string \<Rightarrow> pending_signature armada_step" where
  "consume_draft E draft_id pubkey purpose st =
     (case pending_consume (ae_libs E) (ae_now E) draft_id pubkey purpose (ar_drafts st) of
        (drafts, r) \<Rightarrow> (st\<lparr>ar_drafts := drafts\<rparr>, reraise (\<lambda>e. exn_cls e = PendingSignatureError) (\<lambda>e. Exn ToolInputError (exn_msg e)) r))"

text \<open>Reading back what a draft keeps: \<open>value[key]\<close> of a dictionary, and the records of its parts.\<close>

definition field_of :: "json \<Rightarrow> string \<Rightarrow> exn + json" where
  "field_of v key = (case v of JObj d \<Rightarrow> (case map_of d key of None \<Rightarrow> Inl (Exn KeyError (py_repr key)) | Some x \<Rightarrow> Inr x)
     | _ \<Rightarrow> Inl (Exn TypeError ''not subscriptable''))"

fun strings_of :: "json \<Rightarrow> string list" where
  "strings_of (JList vs) = map text_of vs"
| "strings_of _ = []"

fun int_of :: "json \<Rightarrow> int" where
  "int_of (JInt i) = i"
| "int_of _ = 0"

definition keyword_args :: "json \<Rightarrow> string list \<Rightarrow> exn + dict" where
  "keyword_args v names = (case v of
      JObj d \<Rightarrow> if set (dkeys d) = set names then Inr d else Inl (Exn TypeError ''unexpected or missing arguments'')
    | _ \<Rightarrow> Inl (Exn TypeError ''argument after ** must be a mapping''))"

definition template_of :: "json \<Rightarrow> exn + seal_template" where
  "template_of v = ebind (keyword_args v [''pubkey'', ''kind'', ''tags'', ''content'', ''created_at'']) (\<lambda>d.
     Inr \<lparr>tm_pubkey = text_of (dget d ''pubkey''), tm_kind = int_of (dget d ''kind''),
       tm_tags = (case dget d ''tags'' of JList tags \<Rightarrow> map strings_of tags | _ \<Rightarrow> []),
       tm_content = text_of (dget d ''content''), tm_created_at = int_of (dget d ''created_at'')\<rparr>)"

definition stream_key_of :: "json \<Rightarrow> exn + group_key" where
  "stream_key_of v = ebind (field_of v ''secret_hex'') (\<lambda>s. ebind (fromhex_exn (text_of s)) (\<lambda>secret.
     ebind (field_of v ''pubkey_hex'') (\<lambda>pk. Inr \<lparr>gk_secret = secret, gk_pubkey = text_of pk\<rparr>)))"

definition announcement_of :: "json \<Rightarrow> exn + announcement_draft" where
  "announcement_of v =
     ebind (keyword_args v [''idempotency_key'', ''repository_name'', ''app_id'', ''version'', ''catalogue_reference'', ''text'']) (\<lambda>d.
     Inr \<lparr>ad_idempotency_key = text_of (dget d ''idempotency_key''), ad_repository_name = text_of (dget d ''repository_name''),
       ad_app_id = text_or_none (dget d ''app_id''), ad_version = text_or_none (dget d ''version''),
       ad_catalogue_reference = text_or_none (dget d ''catalogue_reference''), ad_text = text_of (dget d ''text'')\<rparr>)"

definition rumor_of :: "armada_env \<Rightarrow> json \<Rightarrow> exn + unsigned_event" where
  "rumor_of E v = (case ae_coerce E v of Inl msg \<Rightarrow> Inl (Exn ValueError msg) | Inr u \<Rightarrow> Inr u)"

definition draft_parts :: "armada_env \<Rightarrow> pending_signature \<Rightarrow> exn + unsigned_event \<times> seal_template \<times> group_key" where
  "draft_parts E p =
     ebind (rumor_of E (pd_rumor p)) (\<lambda>rumor. ebind (template_of (pd_seal_template p)) (\<lambda>template.
     ebind (stream_key_of (pd_stream_key p)) (\<lambda>key. Inr (rumor, template, key))))"

text \<open>The result of a submitted announcement; a publication is recorded.\<close>

definition submitted_response :: "armada_env \<Rightarrow> announcement_result \<Rightarrow> json armada_step" where
  "submitted_response E result st =
     (case (if an_status result = ''published'' then an_publication result else None) of
        Some p \<Rightarrow> (st\<lparr>ar_deliveries := fst (deliver_record (ae_now E) (ad_idempotency_key (an_draft result)) (pub_event_id p) (ar_deliveries st))\<rparr>,
          Inr (JObj [(''status'', JStr (an_status result)), (''draft'', JObj (announcement_dict (an_draft result))), (''publication'', publication_dict p)]))
      | None \<Rightarrow> (st, Inr (JObj [(''status'', JStr (an_status result)), (''draft'', JObj (announcement_dict (an_draft result)))])))"

definition envelope_refused :: "exn \<Rightarrow> bool" where
  "envelope_refused e \<longleftrightarrow> exn_cls e \<in> {ConcordEnvelopeError, NostrEventError}"

definition catalog_announce_submit :: "armada_env \<Rightarrow> authenticated_request option \<Rightarrow> dict \<Rightarrow> json armada_step" where
  "catalog_announce_submit E current k =
     and_then (ret (require_current_request current)) (\<lambda>rq.
     and_then (ret (parse_signed_event E (dget k ''signed_event''))) (\<lambda>signed_seal.
     and_then (consume_draft E (text_of (dget k ''draft_id'')) (rq_pubkey rq) ''catalog_announce'') (\<lambda>p.
     and_then (ret (draft_parts E p)) (\<lambda>(rumor, template, key).
     and_then (ret (field_of (pd_context p) ''draft'')) (\<lambda>draft_dict.
     and_then (ret (field_of draft_dict ''idempotency_key'')) (\<lambda>idempotency_key st.
     case delivery_get (text_of idempotency_key) (ar_deliveries st) of
       Some existing \<Rightarrow> (st, Inr (already_published (case draft_dict of JObj d \<Rightarrow> d | _ \<Rightarrow> []) existing))
     | None \<Rightarrow>
         and_then (ret (ebind (announcement_of draft_dict) (\<lambda>draft. ebind (field_of (pd_context p) ''relays'') (\<lambda>relays.
            Inr \<lparr>pe_rumor = rumor, pe_seal_template = template, pe_stream_key = key, pe_draft = draft, pe_relays = strings_of relays\<rparr>)))) (\<lambda>prepared.
         and_then (ret (reraise envelope_refused (\<lambda>e. Exn ToolInputError (exn_msg e))
            (finish_announcement_envelope (ae_libs E) (ae_crypto E) (ae_sign E) (ae_now E) (publisher_of E) (ae_ephemeral E) prepared signed_seal)))
         (submitted_response E)) st))))))"

definition armada_join_submit :: "armada_env \<Rightarrow> authenticated_request option \<Rightarrow> dict \<Rightarrow> json armada_step" where
  "armada_join_submit E current k =
     and_then (ret (require_current_request current)) (\<lambda>rq.
     and_then (ret (parse_signed_event E (dget k ''signed_event''))) (\<lambda>signed_seal.
     and_then (consume_draft E (text_of (dget k ''draft_id'')) (rq_pubkey rq) ''armada_join'') (\<lambda>p.
     and_then (ret (draft_parts E p)) (\<lambda>(rumor, template, key).
     and_then (ret (field_of (pd_context p) ''relays'')) (\<lambda>relays.
     and_then (ret (field_of (pd_context p) ''community_id'')) (\<lambda>community_id.
     ret (ebind (reraise envelope_refused (\<lambda>e. Exn ToolInputError (exn_msg e))
             (finish_join_envelope (ae_libs E) (ae_crypto E) (ae_sign E) (ae_now E) rumor template signed_seal key (ae_ephemeral E) (tm_created_at template)))
           (\<lambda>(_, _, wrap).
          ebind (publisher_of E wrap (strings_of relays)) (\<lambda>publication.
          ebind (verify_join_publication (ae_libs E) (ae_crypto E) (ae_coerce E) (ae_now_ms E)
                   (fetch_guestbook_events (nw_relays (ae_network E)) (ae_timeout E)) key (text_of community_id) (strings_of relays) (rq_pubkey rq) publication) (\<lambda>r.
          Inr (join_response r)))))))))))"

subsection \<open>The tools\<close>

text \<open>The Armada tools under their decorators: a scope, and an audit entry for all but the status.\<close>

definition tool_catalog_announce :: decoration where
  "tool_catalog_announce = \<lparr>tl_name = ''catalog_announce'', tl_params = [(''source'', None), (''catalogue_publication'', None)],
     tl_scope = Some ARMADA_WRITE, tl_audit = Some ''communications.armada.publish'', tl_sanitizer = None, tl_gate = None\<rparr>"

definition tool_catalog_announcement_status :: decoration where
  "tool_catalog_announcement_status = \<lparr>tl_name = ''catalog_announcement_status'', tl_params = [(''idempotency_key'', None)],
     tl_scope = Some ARMADA_WRITE, tl_audit = None, tl_sanitizer = None, tl_gate = None\<rparr>"

definition tool_armada_join :: decoration where
  "tool_armada_join = \<lparr>tl_name = ''armada_join'', tl_params = [],
     tl_scope = Some ARMADA_WRITE, tl_audit = Some ''communications.armada.join'', tl_sanitizer = None, tl_gate = None\<rparr>"

definition tool_catalog_announce_draft :: decoration where
  "tool_catalog_announce_draft = \<lparr>tl_name = ''catalog_announce_draft'', tl_params = [(''source'', None), (''catalogue_publication'', None)],
     tl_scope = Some ARMADA_WRITE, tl_audit = Some ''communications.armada.publish'', tl_sanitizer = None, tl_gate = None\<rparr>"

definition tool_catalog_announce_submit :: decoration where
  "tool_catalog_announce_submit = \<lparr>tl_name = ''catalog_announce_submit'', tl_params = [(''draft_id'', None), (''signed_event'', None)],
     tl_scope = Some ARMADA_WRITE, tl_audit = Some ''communications.armada.publish'', tl_sanitizer = None, tl_gate = None\<rparr>"

definition tool_armada_join_draft :: decoration where
  "tool_armada_join_draft = \<lparr>tl_name = ''armada_join_draft'', tl_params = [],
     tl_scope = Some ARMADA_WRITE, tl_audit = Some ''communications.armada.join'', tl_sanitizer = None, tl_gate = None\<rparr>"

definition tool_armada_join_submit :: decoration where
  "tool_armada_join_submit = \<lparr>tl_name = ''armada_join_submit'', tl_params = [(''draft_id'', None), (''signed_event'', None)],
     tl_scope = Some ARMADA_WRITE, tl_audit = Some ''communications.armada.join'', tl_sanitizer = None, tl_gate = None\<rparr>"

definition run_catalog_announce where
  "run_catalog_announce E audit_id current = ungated (ae_libs E) (ae_fmt E) (ae_now E) tool_catalog_announce audit_id current (catalog_announce_impl E current)"

definition run_catalog_announcement_status where
  "run_catalog_announcement_status E current = ungated (ae_libs E) (ae_fmt E) (ae_now E) tool_catalog_announcement_status [] current (catalog_announcement_status)"

definition run_armada_join where
  "run_armada_join E audit_id current = ungated (ae_libs E) (ae_fmt E) (ae_now E) tool_armada_join audit_id current (\<lambda>_. armada_join E current)"

definition run_catalog_announce_draft where
  "run_catalog_announce_draft E audit_id draft_id current = ungated (ae_libs E) (ae_fmt E) (ae_now E) tool_catalog_announce_draft audit_id current (catalog_announce_draft E draft_id current)"

definition run_catalog_announce_submit where
  "run_catalog_announce_submit E audit_id current = ungated (ae_libs E) (ae_fmt E) (ae_now E) tool_catalog_announce_submit audit_id current (catalog_announce_submit E current)"

definition run_armada_join_draft where
  "run_armada_join_draft E audit_id draft_id current = ungated (ae_libs E) (ae_fmt E) (ae_now E) tool_armada_join_draft audit_id current (\<lambda>_. armada_join_draft E draft_id current)"

definition run_armada_join_submit where
  "run_armada_join_submit E audit_id current = ungated (ae_libs E) (ae_fmt E) (ae_now E) tool_armada_join_submit audit_id current (armada_join_submit E current)"

subsection \<open>Deliveries\<close>

text \<open>A recorded delivery is never changed.\<close>

definition keeps :: "string \<Rightarrow> delivery_record \<Rightarrow> 'a armada_step \<Rightarrow> bool" where
  "keeps key r run \<longleftrightarrow> (\<forall>st. delivery_get key (ar_deliveries st) = Some r \<longrightarrow> delivery_get key (ar_deliveries (fst (run st))) = Some r)"

lemma keeps_ret [simp]: "keeps key r (ret x)"
  by (simp add: keeps_def ret_def)

lemma keeps_then: "keeps key r m \<Longrightarrow> (\<And>x. keeps key r (k x)) \<Longrightarrow> keeps key r (and_then m k)"
  by (auto simp: keeps_def and_then_def split: prod.split sum.split)

lemma keeps_known: "keeps key r run \<Longrightarrow> keeps key r (\<lambda>st. case delivery_get i (ar_deliveries st) of Some e \<Rightarrow> (st, x e) | None \<Rightarrow> run st)"
  by (auto simp: keeps_def split: option.split)

lemma keeps_parts:
  "keeps key r (announce_response E result)" "keeps key r (store_announcement E i pk s)" "keeps key r (consume_draft E i pk purpose)"
  "keeps key r (submitted_response E result)"
  by (auto simp: keeps_def announce_response_def store_announcement_def consume_draft_def submitted_response_def Let_def deliver_record_get
      split: option.split sum.split prod.split)

lemma keeps_wrapped:
  "keeps key r run \<Longrightarrow> keeps key r (or_unavailable run)"
  "(\<And>x. keeps key r (run' x)) \<Longrightarrow> keeps key r (with_credentials c run')"
  "(\<And>s d a. keeps key r (run3 s d a)) \<Longrightarrow> keeps key r (new_announcement E source text run3)"
  by (auto simp: keeps_def or_unavailable_def with_credentials_def new_announcement_def and_then_def ret_def
      split: prod.split sum.split option.split)

inductive armada_step :: "armada \<Rightarrow> armada \<Rightarrow> bool" where
  announce: "catalog_announce_impl E current k st = (st', r) \<Longrightarrow> armada_step st st'"
| status: "catalog_announcement_status k st = (st', r) \<Longrightarrow> armada_step st st'"
| join: "armada_join E current st = (st', r) \<Longrightarrow> armada_step st st'"
| announce_draft: "catalog_announce_draft E i current k st = (st', r) \<Longrightarrow> armada_step st st'"
| announce_submit: "catalog_announce_submit E current k st = (st', r) \<Longrightarrow> armada_step st st'"
| join_draft: "armada_join_draft E i current st = (st', r) \<Longrightarrow> armada_step st st'"
| join_submit: "armada_join_submit E current k st = (st', r) \<Longrightarrow> armada_step st st'"

lemma keeps_tools:
  "keeps key r (catalog_announce_impl E current k)" "keeps key r (catalog_announcement_status k)" "keeps key r (armada_join E current)"
  "keeps key r (catalog_announce_draft E i current k)" "keeps key r (armada_join_draft E i current)"
  "keeps key r (armada_join_submit E current k)" "keeps key r (catalog_announce_submit E current k)"
proof -
  show "keeps key r (catalog_announce_impl E current k)"
    by (auto simp: catalog_announce_impl_def catalog_announce_run_def intro!: keeps_then keeps_wrapped keeps_parts)
  show "keeps key r (catalog_announcement_status k)"
    by (auto simp: keeps_def catalog_announcement_status_def checked_def and_then_def ret_def Let_def split: sum.split)
  show "keeps key r (armada_join E current)" by (auto simp: armada_join_def intro!: keeps_then keeps_wrapped)
  show "keeps key r (catalog_announce_draft E i current k)"
    by (auto simp: catalog_announce_draft_def catalog_announce_draft_run_def intro!: keeps_then keeps_wrapped keeps_parts)
  show "keeps key r (armada_join_draft E i current)"
    by (auto simp: armada_join_draft_def armada_join_draft_run_def intro!: keeps_then keeps_wrapped) (simp add: keeps_def split: prod.split)
  show "keeps key r (armada_join_submit E current k)"
    by (auto simp: armada_join_submit_def intro!: keeps_then keeps_parts)
  show "keeps key r (catalog_announce_submit E current k)"
    by (auto simp: catalog_announce_submit_def intro!: keeps_then keeps_parts keeps_known)
qed

lemma armada_steps_keep:
  assumes "armada_step\<^sup>*\<^sup>* st st'" "delivery_get key (ar_deliveries st) = Some r"
  shows "delivery_get key (ar_deliveries st') = Some r"
  using assms
proof (induction rule: rtranclp_induct)
  case (step y z)
  have "delivery_get key (ar_deliveries y) = Some r" using step by blast
  with step.hyps(2) show ?case using keeps_tools unfolding keeps_def by cases (metis fst_conv)+
qed

text \<open>What an announcement is about: the publication and the draft of the arguments.\<close>

lemma prepare_draft:
  assumes "prepare_announcement_envelope L C K fmt source publication b rumors pk created_at ms = Inr res"
  shows "\<exists>draft. build_announcement_draft L fmt source publication = Inr draft \<and>
    (case res of Inl result \<Rightarrow> an_draft result = draft \<and> an_publication result = None \<and> an_status result \<noteq> ''published''
       | Inr prepared \<Rightarrow> pe_draft prepared = draft)"
  using assms by (auto simp: prepare_announcement_envelope_def prepare_announcement_def ebind_Inr Let_def split: option.splits sum.splits prod.splits if_splits)

lemma publish_draft:
  assumes "publish_package_announcement L C K G fmt now publisher eph source publication b rumors key created_at ms = Inr result"
  shows "build_announcement_draft L fmt source publication = Inr (an_draft result) \<and> (an_publication result = None \<longrightarrow> an_status result \<noteq> ''published'')"
proof -
  from assms obtain res where res: "prepare_announcement_envelope L C K fmt source publication b rumors (key_pubkey G key) created_at ms = Inr res"
    "(case res of Inl x \<Rightarrow> Inr x | Inr prepared \<Rightarrow> ebind (sign_template G now key (pe_seal_template prepared)) (\<lambda>signed_seal.
        finish_announcement_envelope L C G now publisher eph prepared signed_seal)) = Inr result"
    by (auto simp: publish_package_announcement_def ebind_Inr)
  from prepare_draft [OF res(1)] res(2) show ?thesis
    by (cases res) (auto simp: finish_announcement_envelope_def ebind_Inr)
qed

lemma announce_published:
  assumes "catalog_announce_impl E current k st = (st', Inr (JObj d))" "dget d ''status'' = JStr ''published''"
  shows "\<exists>publication draft p. confirmed_publication E (dget k ''catalogue_publication'') = Inr publication \<and>
    build_announcement_draft (ae_libs E) (ae_fmt E) (text_of (dget k ''source'')) publication = Inr draft \<and>
    dget d ''publication'' = publication_dict p \<and> dget d ''draft'' = JObj (announcement_dict draft) \<and>
    delivery_get (ad_idempotency_key draft) (ar_deliveries st') =
      Some \<lparr>dr_idempotency_key = ad_idempotency_key draft, dr_event_id = pub_event_id p, dr_recorded_at = py_trunc (ae_now E)\<rparr>"
proof -
  from assms obtain publication draft credentials where run: "confirmed_publication E (dget k ''catalogue_publication'') = Inr publication"
    "build_announcement_draft (ae_libs E) (ae_fmt E) (text_of (dget k ''source'')) publication = Inr draft"
    "delivery_get (ad_idempotency_key draft) (ar_deliveries st) = None"
    "or_unavailable (catalog_announce_run E (text_of (dget k ''source'')) publication credentials) st = (st', Inr (JObj d))"
    by (auto simp: catalog_announce_impl_def new_announcement_def with_credentials_def and_then_def ret_def disabled_response_def
        already_published_def unavailable_response_def split: if_splits sum.splits option.splits)
  then have "catalog_announce_run E (text_of (dget k ''source'')) publication credentials st = (st', Inr (JObj d))"
    using assms(2) by (auto simp: or_unavailable_def unavailable_response_def split: prod.splits sum.splits if_splits)
  then obtain b rumors result where result: "publish_package_announcement (ae_libs E) (ae_crypto E) (ae_keys E) (ae_sign E) (ae_fmt E) (ae_now E)
      (publisher_of E) (ae_ephemeral E) (text_of (dget k ''source'')) publication b (map JObj rumors) (fst credentials) (py_trunc (ae_now E)) 0 = Inr result"
    "announce_response E result st = (st', Inr (JObj d))"
    by (auto simp: catalog_announce_run_def and_then_def ret_def ebind_Inr split: sum.splits)
  have status: "an_status result = ''published''" using result(2) assms(2) by (auto simp: announce_response_def Let_def)
  with publish_draft [OF result(1)] obtain p where p: "an_publication result = Some p" "an_draft result = draft" using run(2) by auto
  with result(2) status show ?thesis using run(1-3)
    by (intro exI [of _ publication] exI [of _ draft] exI [of _ p]) (auto simp: announce_response_def Let_def deliver_record_get split: option.splits if_splits)
qed

subsection \<open>Submissions\<close>

lemma finish_signed:
  assumes "finish_announcement_envelope L C G now publisher eph prepared seal = Inr result"
  shows "seal_matches (pe_seal_template prepared) seal \<and> verify_event L seal = Inr () \<and> an_status result = ''published'' \<and>
    an_draft result = pe_draft prepared \<and> (\<exists>wrap p. publisher wrap (pe_relays prepared) = Inr p \<and> an_publication result = Some p)"
  using assms by (auto simp: finish_announcement_envelope_def finish_chat_envelope_def ebind_Inr guard_def split: if_splits)

lemma consume_draft_Inr:
  assumes "consume_draft E i pk purpose st = (st', Inr p)"
  shows "\<exists>row. pending_select i (ar_drafts st) = Some row \<and> pr_pubkey row = pk \<and> pr_purpose row = purpose \<and> ae_now E < pr_expires_at row \<and>
    loads (ae_libs E) (pr_seal_template row) = Inr (pd_seal_template p) \<and> st' = st\<lparr>ar_drafts := pending_delete i (ar_drafts st)\<rparr>"
  using assms by (auto simp: consume_draft_def pending_consume_def pending_check_def ebind_Inr guard_def split: option.splits prod.splits if_splits)

lemma keyword_args_Inr: "keyword_args v names = Inr d \<Longrightarrow> v = JObj d"
  by (auto simp only: keyword_args_def split: json.splits if_splits)

lemma announcement_key:
  assumes "announcement_of v = Inr draft" "field_of v ''idempotency_key'' = Inr key"
  shows "ad_idempotency_key draft = text_of key"
proof -
  from assms(1) obtain d where "v = JObj d" "ad_idempotency_key draft = text_of (dget d ''idempotency_key'')"
    unfolding announcement_of_def ebind_Inr by (metis Inr_inject keyword_args_Inr announcement_draft.select_convs(1))
  with assms(2) show ?thesis by (simp add: field_of_def dget_def split: option.splits)
qed

lemma submit_published:
  assumes "catalog_announce_submit E current k st = (st', Inr (JObj d))" "dget d ''status'' = JStr ''published''"
  obtains rq seal mid p rumor template key prepared result where "current = Some rq"
    "ae_event_json E (text_of (dget k ''signed_event'')) = Inr seal"
    "consume_draft E (text_of (dget k ''draft_id'')) (rq_pubkey rq) ''catalog_announce'' st = (mid, Inr p)"
    "draft_parts E p = Inr (rumor, template, key)" "pe_seal_template prepared = template"
    "finish_announcement_envelope (ae_libs E) (ae_crypto E) (ae_sign E) (ae_now E) (publisher_of E) (ae_ephemeral E) prepared seal = Inr result"
    "submitted_response E result mid = (st', Inr (JObj d))" "delivery_get (ad_idempotency_key (pe_draft prepared)) (ar_deliveries mid) = None"
proof -
  from assms(1) obtain rq seal mid p parts draft_dict key s0 s1 s2 s3 s4 where raw: "ret (require_current_request current) st = (s0, Inr rq)"
    "ret (parse_signed_event E (dget k ''signed_event'')) s0 = (s1, Inr seal)"
    "consume_draft E (text_of (dget k ''draft_id'')) (rq_pubkey rq) ''catalog_announce'' s1 = (mid, Inr p)" "ret (draft_parts E p) mid = (s2, Inr parts)"
    "ret (field_of (pd_context p) ''draft'') s2 = (s3, Inr draft_dict)" "ret (field_of draft_dict ''idempotency_key'') s3 = (s4, Inr key)"
    and tail: "(case delivery_get (text_of key) (ar_deliveries s4) of
       Some existing \<Rightarrow> (s4, Inr (already_published (case draft_dict of JObj d \<Rightarrow> d | _ \<Rightarrow> []) existing))
     | None \<Rightarrow>
         and_then (ret (ebind (announcement_of draft_dict) (\<lambda>draft. ebind (field_of (pd_context p) ''relays'') (\<lambda>relays.
            Inr \<lparr>pe_rumor = fst parts, pe_seal_template = fst (snd parts), pe_stream_key = snd (snd parts), pe_draft = draft, pe_relays = strings_of relays\<rparr>)))) (\<lambda>prepared.
         and_then (ret (reraise envelope_refused (\<lambda>e. Exn ToolInputError (exn_msg e))
            (finish_announcement_envelope (ae_libs E) (ae_crypto E) (ae_sign E) (ae_now E) (publisher_of E) (ae_ephemeral E) prepared seal)))
         (submitted_response E)) s4) = (st', Inr (JObj d))"
    unfolding catalog_announce_submit_def split_beta by (elim and_thenE) (rule that)
  then have run: "current = Some rq" "ae_event_json E (text_of (dget k ''signed_event'')) = Inr seal"
    "consume_draft E (text_of (dget k ''draft_id'')) (rq_pubkey rq) ''catalog_announce'' st = (mid, Inr p)" "draft_parts E p = Inr parts"
    "field_of draft_dict ''idempotency_key'' = Inr key" and "s4 = mid"
    by (auto simp: ret_def require_current_request_def parse_signed_event_def split: option.splits sum.splits)
  with tail assms(2) obtain prepared result where fin: "delivery_get (ad_idempotency_key (pe_draft prepared)) (ar_deliveries mid) = None" "pe_seal_template prepared = fst (snd parts)"
    "finish_announcement_envelope (ae_libs E) (ae_crypto E) (ae_sign E) (ae_now E) (publisher_of E) (ae_ephemeral E) prepared seal = Inr result"
    "submitted_response E result mid = (st', Inr (JObj d))"
    by (auto simp: already_published_def and_then_def ret_def ebind_Inr reraise_Inr split: option.splits sum.splits) (rule that [rotated 2], assumption, assumption, simp_all add: announcement_key)
  show thesis using that [of rq seal mid p "fst parts" "fst (snd parts)" "snd (snd parts)" prepared result] run fin by simp
qed

text \<open>
  C25: what is announced for a caller, the caller signed.  \<open>catalog_announce_submit\<close> reports a publication only if the
  draft it names was issued to this caller for an announcement and has not expired, and the submitted event is the
  issued template, field by field, with an id and a signature that verify; the draft is gone afterwards.
\<close>

theorem submit_requires_signature:
  assumes "catalog_announce_submit E current k st = (st', Inr (JObj d))" "dget d ''status'' = JStr ''published''"
    and "i = text_of (dget k ''draft_id'')"
  shows "\<exists>rq seal row template v. current = Some rq \<and> ae_event_json E (text_of (dget k ''signed_event'')) = Inr seal \<and>
    pending_select i (ar_drafts st) = Some row \<and> pr_pubkey row = rq_pubkey rq \<and> pr_purpose row = ''catalog_announce'' \<and>
    ae_now E < pr_expires_at row \<and> loads (ae_libs E) (pr_seal_template row) = Inr v \<and> template_of v = Inr template \<and>
    seal_matches template seal \<and> ev_id seal = compute_event_id (ae_libs E) seal \<and> verify_signature (ae_libs E) seal = Inr True \<and>
    pending_select i (ar_drafts st') = None"
proof -
  from submit_published [OF assms(1,2)] obtain rq seal mid p rumor template key prepared result where run: "current = Some rq"
    "ae_event_json E (text_of (dget k ''signed_event'')) = Inr seal" "consume_draft E i (rq_pubkey rq) ''catalog_announce'' st = (mid, Inr p)"
    "draft_parts E p = Inr (rumor, template, key)" "pe_seal_template prepared = template"
    and fin: "finish_announcement_envelope (ae_libs E) (ae_crypto E) (ae_sign E) (ae_now E) (publisher_of E) (ae_ephemeral E) prepared seal = Inr result"
    "submitted_response E result mid = (st', Inr (JObj d))" unfolding assms(3) by metis
  have "ar_drafts st' = ar_drafts mid" using fin(2) by (auto simp: submitted_response_def split: option.splits)
  with consume_draft_Inr [OF run(3)] finish_signed [OF fin(1)] run show ?thesis
    by (auto simp: draft_parts_def ebind_Inr pending_select_delete)
qed

subsection \<open>What a draft keeps\<close>

lemma optional_read [simp]: "text_or_none (optional_str s) = s"
  by (simp add: optional_str_def split: option.split)

lemma strings_read [simp]: "strings_of (JList (map JStr xs)) = xs" "map (text_of \<circ> JStr) xs = xs"
  by (simp_all add: comp_def)

lemma template_read: "template_of (JObj (template_dict t)) = Inr t"
  by (simp add: template_of_def keyword_args_def template_dict_def dget_def comp_def)

lemma announcement_read: "announcement_of (JObj (announcement_dict d)) = Inr d"
  by (simp add: announcement_of_def keyword_args_def announcement_dict_def dget_def)

lemma digit_read: "n < 16 \<Longrightarrow> is_hex_digit (hex_digit n) \<and> \<not> is_ascii_space (hex_digit n) \<and> hex_value (hex_digit n) = n"
  by (auto simp: hex_digit_def is_hex_digit_def is_ascii_space_def is_decimal_def hex_value_def code_char_of Let_def)

lemma hex_read: "fromhex (hex_of b) = Some b"
proof (induction b)
  case (Cons c b)
  have "code c div 16 < 16" "code c mod 16 < 16" using code_less [of c] by simp_all
  with Cons digit_read show ?case by (simp add: hex_of_def code_char)
qed (simp add: hex_of_def)

lemma key_read: "stream_key_of (JObj (key_dict k)) = Inr k"
  by (simp add: stream_key_of_def key_dict_def field_of_def fromhex_exn_def hex_read)

lemma draft_resumed:
  assumes "store_announcement E i (rq_pubkey rq) (Inr prepared) st = (st1, told)" "pending_select i (ar_drafts st) = None"
    and "reads_back (ae_libs E) (JObj (unsigned_dump (pe_rumor prepared)))" "reads_back (ae_libs E) (JObj (template_dict (pe_seal_template prepared)))"
    and "reads_back (ae_libs E) (JObj (key_dict (pe_stream_key prepared)))"
    and "reads_back (ae_libs E) (JObj [(''draft'', JObj (announcement_dict (pe_draft prepared))), (''relays'', JList (map JStr (pe_relays prepared)))])"
    and "ae_coerce E' (JObj (unsigned_dump (pe_rumor prepared))) = Inr (pe_rumor prepared)" "ae_libs E' = ae_libs E"
    and "ae_now E' < ae_now E + of_int (ps_ttl_seconds (ar_drafts st))" "delivery_get (ad_idempotency_key (pe_draft prepared)) (ar_deliveries st) = None"
    and "ae_event_json E' (text_of (dget k ''signed_event'')) = Inr seal" "dget k ''draft_id'' = JStr i"
  shows "catalog_announce_submit E' (Some rq) k st1 =
     and_then (ret (reraise envelope_refused (\<lambda>e. Exn ToolInputError (exn_msg e))
        (finish_announcement_envelope (ae_libs E') (ae_crypto E') (ae_sign E') (ae_now E') (publisher_of E') (ae_ephemeral E') prepared seal)))
       (submitted_response E') (st1\<lparr>ar_drafts := pending_delete i (ar_drafts st1)\<rparr>)"
proof -
  let ?ctxt = "[(''draft'', JObj (announcement_dict (pe_draft prepared))), (''relays'', JList (map JStr (pe_relays prepared)))]"
  from assms(1) have st1: "ar_deliveries st1 = ar_deliveries st" "ar_drafts st1 = fst (pending_create (ae_libs E) (ae_now E) i (rq_pubkey rq) ''catalog_announce''
     (unsigned_dump (pe_rumor prepared)) (template_dict (pe_seal_template prepared)) (key_dict (pe_stream_key prepared)) ?ctxt (ar_drafts st))"
    by (auto simp: store_announcement_def split: prod.splits)
  obtain p where p: "consume_draft E' i (rq_pubkey rq) ''catalog_announce'' st1 = (st1\<lparr>ar_drafts := pending_delete i (ar_drafts st1)\<rparr>, Inr p)"
    "pd_rumor p = JObj (unsigned_dump (pe_rumor prepared))" "pd_seal_template p = JObj (template_dict (pe_seal_template prepared))"
    "pd_stream_key p = JObj (key_dict (pe_stream_key prepared))" "pd_context p = JObj ?ctxt"
    using assms(3-6,9) unfolding consume_draft_def pending_consume_def st1(2) pending_select_create [OF assms(2)]
    by (simp add: pending_check_def loads_def reads_back_def assms(8) guard_def)
  have parts: "draft_parts E' p = Inr (pe_rumor prepared, pe_seal_template prepared, pe_stream_key prepared)"
    by (simp add: draft_parts_def p rumor_of_def assms(7) template_read key_read)
  have d: "field_of (pd_context p) ''draft'' = Inr (JObj (announcement_dict (pe_draft prepared)))" "field_of (pd_context p) ''relays'' = Inr (JList (map JStr (pe_relays prepared)))"
    "field_of (JObj (announcement_dict (pe_draft prepared))) ''idempotency_key'' = Inr (JStr (ad_idempotency_key (pe_draft prepared)))"
    by (simp_all add: p field_of_def announcement_dict_def)
  have eta: "\<lparr>pe_rumor = pe_rumor prepared, pe_seal_template = pe_seal_template prepared, pe_stream_key = pe_stream_key prepared,
    pe_draft = pe_draft prepared, pe_relays = pe_relays prepared\<rparr> = prepared" by simp
  show ?thesis
    by (simp add: catalog_announce_submit_def require_current_request_def parse_signed_event_def assms(10-12) p(1) parts d st1(1)
        announcement_read and_then_def ret_def eta)
qed

text \<open>
  C27: a draft loses nothing.  When an announcement was prepared and stored as a draft, the submission of its
  author goes on exactly as the finishing of what was prepared: the same rumor, template, stream key,
  announcement and relays, whatever was written to the database and read back; only the draft is gone.
\<close>

theorem submit_resumes_draft:
  assumes "store_announcement E i (rq_pubkey rq) (Inr prepared) st = (st1, told)" "pending_select i (ar_drafts st) = None"
    and "reads_back (ae_libs E) (JObj (unsigned_dump (pe_rumor prepared)))" "reads_back (ae_libs E) (JObj (template_dict (pe_seal_template prepared)))"
    and "reads_back (ae_libs E) (JObj (key_dict (pe_stream_key prepared)))"
    and "reads_back (ae_libs E) (JObj [(''draft'', JObj (announcement_dict (pe_draft prepared))), (''relays'', JList (map JStr (pe_relays prepared)))])"
    and "ae_coerce E' (JObj (unsigned_dump (pe_rumor prepared))) = Inr (pe_rumor prepared)" "ae_libs E' = ae_libs E"
    and "ae_now E' < ae_now E + of_int (ps_ttl_seconds (ar_drafts st))" "delivery_get (ad_idempotency_key (pe_draft prepared)) (ar_deliveries st) = None"
    and "ae_event_json E' (text_of (dget k ''signed_event'')) = Inr seal" "dget k ''draft_id'' = JStr i"
  shows "catalog_announce_submit E' (Some rq) k st1 =
     and_then (ret (reraise envelope_refused (\<lambda>e. Exn ToolInputError (exn_msg e))
        (finish_announcement_envelope (ae_libs E') (ae_crypto E') (ae_sign E') (ae_now E') (publisher_of E') (ae_ephemeral E') prepared seal)))
       (submitted_response E') (st1\<lparr>ar_drafts := pending_delete i (ar_drafts st1)\<rparr>)"
  using assms by (rule draft_resumed)

lemma submit_recorded:
  assumes "catalog_announce_submit E current k st = (st', Inr (JObj d))" "dget d ''status'' = JStr ''published''"
  shows "\<exists>draft p. dget d ''publication'' = publication_dict p \<and> dget d ''draft'' = JObj (announcement_dict draft) \<and>
    delivery_get (ad_idempotency_key draft) (ar_deliveries st') =
      Some \<lparr>dr_idempotency_key = ad_idempotency_key draft, dr_event_id = pub_event_id p, dr_recorded_at = py_trunc (ae_now E)\<rparr>"
proof -
  from submit_published [OF assms] obtain prepared result seal mid where
    fin: "finish_announcement_envelope (ae_libs E) (ae_crypto E) (ae_sign E) (ae_now E) (publisher_of E) (ae_ephemeral E) prepared seal = Inr result"
    "submitted_response E result mid = (st', Inr (JObj d))" "delivery_get (ad_idempotency_key (pe_draft prepared)) (ar_deliveries mid) = None" by metis
  from finish_signed [OF fin(1)] obtain p where "an_publication result = Some p" "an_status result = ''published''" "an_draft result = pe_draft prepared"
    by blast
  with fin(2,3) show ?thesis
    by (intro exI [of _ "pe_draft prepared"] exI [of _ p]) (auto simp: submitted_response_def deliver_record_get)
qed

text \<open>
  C24: a package is announced once.  After an announcement was reported as published, signed by a key of the server
  (\<open>catalog_announce\<close>) or by the caller (\<open>catalog_announce_submit\<close>), whatever Armada tools run in between, for
  whatever callers, every later announcement under that idempotency key, by the tool or drafted for a caller, reports the
  event of the first and changes nothing.  It is decided before the network or a key is used, so nothing is sent again.
\<close>

theorem announced_once:
  assumes "catalog_announce_impl E current k st = (st1, Inr (JObj d)) \<or> catalog_announce_submit E current k st = (st1, Inr (JObj d))"
    and "dget d ''status'' = JStr ''published''" "dget d ''draft'' = JObj told" "armada_step\<^sup>*\<^sup>* st1 st2" "ae_enabled E'"
    and "confirmed_publication E' (dget k' ''catalogue_publication'') = Inr publication"
    and "build_announcement_draft (ae_libs E') (ae_fmt E') (text_of (dget k' ''source'')) publication = Inr draft"
    and "dget told ''idempotency_key'' = JStr (ad_idempotency_key draft)"
  shows "\<exists>r p. dget d ''publication'' = publication_dict p \<and> dr_event_id r = pub_event_id p \<and>
    catalog_announce_impl E' (Some rq) k' st2 = (st2, Inr (already_published (announcement_dict draft) r)) \<and>
    catalog_announce_draft E' i (Some rq) k' st2 = (st2, Inr (already_published (announcement_dict draft) r))"
proof -
  have "\<exists>draft p. dget d ''publication'' = publication_dict p \<and> dget d ''draft'' = JObj (announcement_dict draft) \<and>
    delivery_get (ad_idempotency_key draft) (ar_deliveries st1) =
      Some \<lparr>dr_idempotency_key = ad_idempotency_key draft, dr_event_id = pub_event_id p, dr_recorded_at = py_trunc (ae_now E)\<rparr>"
    using assms(1) announce_published [OF _ assms(2)] submit_recorded [OF _ assms(2)] by blast
  then obtain first p where first: "dget d ''publication'' = publication_dict p" "told = announcement_dict first"
    "delivery_get (ad_idempotency_key first) (ar_deliveries st1) =
      Some \<lparr>dr_idempotency_key = ad_idempotency_key first, dr_event_id = pub_event_id p, dr_recorded_at = py_trunc (ae_now E)\<rparr>"
    using assms(3) by auto
  let ?r = "\<lparr>dr_idempotency_key = ad_idempotency_key first, dr_event_id = pub_event_id p, dr_recorded_at = py_trunc (ae_now E)\<rparr>"
  have "ad_idempotency_key draft = ad_idempotency_key first" using assms(8) first(2) by (simp add: announcement_dict_def dget_def)
  then have "new_announcement E' (dget k' ''source'') (dget k' ''catalogue_publication'') announce st2 =
      (st2, Inr (already_published (announcement_dict draft) ?r))" for announce
    using armada_steps_keep [OF assms(4) first(3)] by (simp add: new_announcement_def and_then_def ret_def assms(6,7))
  then have "catalog_announce_impl E' (Some rq) k' st2 = (st2, Inr (already_published (announcement_dict draft) ?r))"
    "catalog_announce_draft E' i (Some rq) k' st2 = (st2, Inr (already_published (announcement_dict draft) ?r))"
    using assms(5) by (simp_all add: catalog_announce_impl_def catalog_announce_draft_def and_then_def ret_def require_current_request_def)
  with first(1) show ?thesis by (intro exI [of _ ?r] exI [of _ p]) simp
qed

subsection \<open>An example\<close>

definition submitting_libs :: libs where
  "submitting_libs = joining_libs\<lparr>json_loads := (\<lambda>s. Inr (JObj
     (if s ! 2 = CHR ''i'' then unsigned_dump joining_rumor
      else if s ! 2 = CHR ''p'' then template_dict \<lparr>tm_pubkey = example_pk, tm_kind = 20013, tm_tags = [], tm_content = ''rumor'', tm_created_at = 100\<rparr>
      else if s ! 2 = CHR ''s'' then key_dict joining_key
      else [(''draft'', JObj (announcement_dict \<lparr>ad_idempotency_key = ''catalogue:'' @ replicate 32 CHR ''a'', ad_repository_name = ''app'',
                ad_app_id = None, ad_version = None, ad_catalogue_reference = None, ad_text = ''Published app to the YunoHost catalogue''\<rparr>)),
            (''relays'', JList (map JStr [''wss://one'', ''wss://two'']))])))\<rparr>"

definition submitting_prepared :: prepared_envelope where
  "submitting_prepared = \<lparr>pe_rumor = joining_rumor,
     pe_seal_template = \<lparr>tm_pubkey = example_pk, tm_kind = 20013, tm_tags = [], tm_content = ''rumor'', tm_created_at = 100\<rparr>,
     pe_stream_key = joining_key,
     pe_draft = \<lparr>ad_idempotency_key = ''catalogue:'' @ replicate 32 CHR ''a'', ad_repository_name = ''app'', ad_app_id = None, ad_version = None,
       ad_catalogue_reference = None, ad_text = ''Published app to the YunoHost catalogue''\<rparr>,
     pe_relays = [''wss://one'', ''wss://two'']\<rparr>"

definition submitting_env :: armada_env where
  "submitting_env = \<lparr>ae_enabled = True, ae_libs = submitting_libs, ae_crypto = joining_crypto, ae_keys = joining_keys,
     ae_sign = joining_signer, ae_invites = inviting_crypto, ae_coerce = (\<lambda>_. Inr joining_rumor), ae_event_json = (\<lambda>_. Inr joining_seal),
     ae_fmt = (\<lambda>_. []), ae_key_string = Inr, ae_uid = 0, ae_bot_key_path = ''bot'', ae_invite_path = ''invite'', ae_timeout = 5, ae_now = 0,
     ae_now_ms = 0, ae_ephemeral = ''eph'', ae_network = \<lparr>nw_relays = example_relays, nw_send = (\<lambda>_ _. Inr ()),
       nw_files = (\<lambda>_. \<lparr>cf_status = None, cf_text = None\<rparr>)\<rparr>\<rparr>"

definition submitting_caller :: authenticated_request where
  "submitting_caller = link_caller\<lparr>rq_pubkey := example_pk\<rparr>"

definition submitting_args :: dict where
  "submitting_args = [(''draft_id'', JStr ''d''), (''signed_event'', JStr ''e'')]"

definition empty_armada :: armada where
  "empty_armada = \<lparr>ar_deliveries = [], ar_drafts = \<lparr>ps_ttl_seconds = 300, ps_rows = []\<rparr>\<rparr>"

lemma dumps_second:
  assumes "32 \<le> code c" "code c < 127" "code c \<noteq> 34" "code c \<noteq> 92"
  shows "dumps L (JObj ((c # k, v) # d)) ! 2 = c"
  using assms by (cases d) (simp_all add: dumps_def default_format_def json_string_def json_escape_def Let_def)

lemma submitting_reads:
  "reads_back submitting_libs (JObj (unsigned_dump (pe_rumor submitting_prepared)))"
  "reads_back submitting_libs (JObj (template_dict (pe_seal_template submitting_prepared)))"
  "reads_back submitting_libs (JObj (key_dict (pe_stream_key submitting_prepared)))"
  "reads_back submitting_libs (JObj [(''draft'', JObj (announcement_dict (pe_draft submitting_prepared))), (''relays'', JList (map JStr (pe_relays submitting_prepared)))])"
  by (simp_all add: reads_back_def submitting_libs_def submitting_prepared_def unsigned_dump_def template_dict_def key_dict_def dumps_second code_def)

definition submitted_publication :: publish_result where
  "submitted_publication = \<lparr>pub_event_id = example_id, pub_relays = [''wss://one'', ''wss://two'']\<rparr>"

lemma submitting_publisher: "publisher_of submitting_env e [''wss://one'', ''wss://two''] = Inr \<lparr>pub_event_id = ev_id e, pub_relays = [''wss://one'', ''wss://two'']\<rparr>"
  by (simp add: publisher_of_def publish_signed_event_def submitting_env_def example_normalized guard_def)

lemma submitting_finish:
  "finish_announcement_envelope submitting_libs joining_crypto joining_signer 0 (publisher_of submitting_env) ''eph'' submitting_prepared joining_seal =
     Inr \<lparr>an_status = ''published'', an_draft = pe_draft submitting_prepared, an_publication = Some submitted_publication, an_reason = None\<rparr>"
proof -
  have L: "compute_event_id submitting_libs e = example_id" "verify_signature submitting_libs e = Inr True" for e
    by (simp_all add: submitting_libs_def compute_event_id_def joining_libs_def)
  show ?thesis
    by (simp add: finish_announcement_envelope_def finish_chat_envelope_def submitting_prepared_def self_conversation_encryptor_def joining_crypto_def
        seal_matches_def joining_seal_def verify_event_def L sign_wrap_def sdk_error_def joining_key_def joining_sign guard_def
        submitting_publisher submitted_publication_def)
      (simp add: joining_signer_def)
qed

lemma submitting_state:
  "pending_select ''d'' (ar_drafts empty_armada) = None" "delivery_get key (ar_deliveries empty_armada) = None" "ps_ttl_seconds (ar_drafts empty_armada) = 300"
  "rq_pubkey submitting_caller = example_pk" "dget submitting_args ''draft_id'' = JStr ''d''"
  by (simp_all add: empty_armada_def pending_select_def delivery_get_def submitting_caller_def submitting_args_def dget_def)

lemma submitting_env_parts:
  "ae_libs submitting_env = submitting_libs" "ae_crypto submitting_env = joining_crypto" "ae_sign submitting_env = joining_signer"
  "ae_now submitting_env = 0" "ae_ephemeral submitting_env = ''eph''" "ae_coerce submitting_env v = Inr joining_rumor"
  "ae_event_json submitting_env s = Inr joining_seal" "ae_enabled submitting_env"
  by (simp_all add: submitting_env_def)

lemmas submitting = submitting_reads submitting_state submitting_env_parts

definition submitting_draft :: armada where
  "submitting_draft = fst (store_announcement submitting_env ''d'' example_pk (Inr submitting_prepared) empty_armada)"

definition submitting_response :: dict where
  "submitting_response = [(''status'', JStr ''published''), (''draft'', JObj (announcement_dict (pe_draft submitting_prepared))),
     (''publication'', publication_dict submitted_publication)]"

lemma submitting_stored:
  "\<exists>told. store_announcement submitting_env ''d'' example_pk (Inr submitting_prepared) empty_armada = (submitting_draft, told)"
  by (simp add: submitting_draft_def prod_eq_iff)

lemma submitting_run: "\<exists>st. catalog_announce_submit submitting_env (Some submitting_caller) submitting_args submitting_draft = (st, Inr (JObj submitting_response))"
proof -
  have p: "pe_rumor submitting_prepared = joining_rumor" by (simp add: submitting_prepared_def)
  have rumor: "reads_back submitting_libs (JObj (unsigned_dump joining_rumor))" using submitting_reads(1) p by simp
  obtain told where "store_announcement submitting_env ''d'' (rq_pubkey submitting_caller) (Inr submitting_prepared) empty_armada = (submitting_draft, told)"
    using submitting_stored by (auto simp: submitting)
  from draft_resumed [OF this, of submitting_env submitting_args joining_seal]
  have "catalog_announce_submit submitting_env (Some submitting_caller) submitting_args submitting_draft =
     submitted_response submitting_env \<lparr>an_status = ''published'', an_draft = pe_draft submitting_prepared, an_publication = Some submitted_publication, an_reason = None\<rparr>
       (submitting_draft\<lparr>ar_drafts := pending_delete ''d'' (ar_drafts submitting_draft)\<rparr>)"
    by (simp add: submitting p rumor submitting_finish and_then_def ret_def)
  then show ?thesis by (simp add: submitted_response_def submitting_response_def)
qed

theorem submit_resumes_draft_witness:
  "catalog_announce_submit submitting_env (Some submitting_caller) submitting_args submitting_draft =
     and_then (ret (reraise envelope_refused (\<lambda>e. Exn ToolInputError (exn_msg e))
        (finish_announcement_envelope submitting_libs joining_crypto joining_signer 0 (publisher_of submitting_env) ''eph'' submitting_prepared joining_seal)))
       (submitted_response submitting_env) (submitting_draft\<lparr>ar_drafts := pending_delete ''d'' (ar_drafts submitting_draft)\<rparr>)"
proof -
  have p: "pe_rumor submitting_prepared = joining_rumor" by (simp add: submitting_prepared_def)
  have rumor: "reads_back submitting_libs (JObj (unsigned_dump joining_rumor))" using submitting_reads(1) p by simp
  obtain told where "store_announcement submitting_env ''d'' (rq_pubkey submitting_caller) (Inr submitting_prepared) empty_armada = (submitting_draft, told)"
    using submitting_stored by (auto simp: submitting)
  from submit_resumes_draft [OF this, of submitting_env submitting_args joining_seal] show ?thesis by (simp add: submitting p rumor)
qed

theorem submit_requires_signature_witness:
  "\<exists>row. pending_select ''d'' (ar_drafts submitting_draft) = Some row \<and> pr_pubkey row = example_pk \<and> pr_purpose row = ''catalog_announce'' \<and>
    ev_id joining_seal = compute_event_id submitting_libs joining_seal"
proof -
  from submitting_run obtain st where run: "catalog_announce_submit submitting_env (Some submitting_caller) submitting_args submitting_draft = (st, Inr (JObj submitting_response))"
    by blast
  have "dget submitting_response ''status'' = JStr ''published''" "''d'' = text_of (dget submitting_args ''draft_id'')"
    by (simp_all only: submitting text_of.simps) (simp add: submitting_response_def dget_def)
  from submit_requires_signature [OF run this] show ?thesis by (auto simp: submitting)
qed

text \<open>The later announcement reads a publication of the same repository.\<close>

definition announcing_again :: armada_env where
  "announcing_again = submitting_env\<lparr>ae_libs := joining_libs\<lparr>json_loads := (\<lambda>_. Inr (JObj [(''published'', JBool True)]))\<rparr>\<rparr>"

theorem announced_once_witness:
  "\<exists>st draft r. catalog_announce_impl announcing_again (Some submitting_caller) [(''source'', JStr ''app''), (''catalogue_publication'', JStr ''{}'')] st =
      (st, Inr (already_published (announcement_dict draft) r)) \<and> dr_event_id r = example_id"
proof -
  let ?k = "[(''source'', JStr ''app''), (''catalogue_publication'', JStr ''{}'')]"
  from submitting_run obtain st where run: "catalog_announce_submit submitting_env (Some submitting_caller) submitting_args submitting_draft = (st, Inr (JObj submitting_response))"
    by blast
  have response: "dget submitting_response ''status'' = JStr ''published''"
    "dget submitting_response ''draft'' = JObj (announcement_dict (pe_draft submitting_prepared))"
    "dget submitting_response ''publication'' = publication_dict submitted_publication"
    "dget (announcement_dict (pe_draft submitting_prepared)) ''idempotency_key'' = JStr (''catalogue:'' @ replicate 32 CHR ''a'')"
    by (simp_all add: submitting_response_def announcement_dict_def submitting_prepared_def dget_def)
  have confirmed: "confirmed_publication announcing_again (dget ?k ''catalogue_publication'') = Inr [(''published'', JBool True)]"
    by (simp add: confirmed_publication_def announcing_again_def dget_def)
  have name: "repository_name ''app'' = Inr ''app''" by code_simp
  have "sha256_hex (ae_libs announcing_again) s = example_id" for s by (simp add: announcing_again_def joining_libs_def)
  then obtain draft where draft: "build_announcement_draft (ae_libs announcing_again) (ae_fmt announcing_again) (text_of (dget ?k ''source'')) [(''published'', JBool True)] = Inr draft"
    "ad_idempotency_key draft = ''catalogue:'' @ replicate 32 CHR ''a''"
    by (simp add: build_announcement_draft_def name dget_def value_or_tag_def event_value_def Let_def example_id_def)
  have key: "dget (announcement_dict (pe_draft submitting_prepared)) ''idempotency_key'' = JStr (ad_idempotency_key draft)" using response(4) draft(2) by simp
  have on: "ae_enabled announcing_again" by (simp add: announcing_again_def submitting_env_def)
  obtain r p where r: "dget submitting_response ''publication'' = publication_dict p" "dr_event_id r = pub_event_id p"
    "catalog_announce_impl announcing_again (Some submitting_caller) ?k st = (st, Inr (already_published (announcement_dict draft) r))"
    using announced_once [OF disjI2 [OF run] response(1,2) rtranclp.rtrancl_refl on confirmed draft(1) key] by blast
  moreover from r(1) response(3) have "pub_event_id p = example_id" by (simp add: publication_dict_def submitted_publication_def)
  ultimately show ?thesis by auto
qed

end
