(* ===== verification/Memory.thy ===== *)
theory Memory
  imports Server_Tools Url
begin

text \<open>
  The memory tools of \<^verbatim>\<open>server.py\<close>, the \<open>memory_*\<close> methods of \<^verbatim>\<open>yunohost/adapter.py\<close> and \<^verbatim>\<open>src/yunohost_mcp/polypack.py\<close>,
  which forwards them to a Polypack service on the loopback interface.  The service is a state of its own with
  a step for a tool call; what the call returns, or why the connection failed, is its business.
\<close>

subsection \<open>The service and its settings\<close>

text \<open>A tool result: the error flag, the structured content, and the texts of the content items.\<close>

record service_result =
  sr_is_error :: bool
  sr_structured :: json
  sr_texts :: "string list"

record 'm polypack =
  pk_url :: "string option"
  pk_in_event_loop :: bool
  pk_service :: "string \<Rightarrow> dict \<Rightarrow> 'm \<Rightarrow> 'm \<times> (string + service_result)"
  pk_loads :: "string \<Rightarrow> string + json"
  pk_max_content_chars :: int
  pk_max_query_chars :: int
  pk_max_response_items :: int
  pk_server_name :: string

text \<open>\<open>PolypackUnavailableError\<close> is a subclass of \<open>YunohostUnavailableError\<close> that nothing tells apart.\<close>

definition polypack_unavailable :: "string \<Rightarrow> exn" where
  "polypack_unavailable msg = Exn YunohostUnavailableError msg"

definition tool_input :: "string \<Rightarrow> exn" where
  "tool_input msg = Exn ToolInputError msg"

subsection \<open>The address\<close>

text \<open>\<open>hostname\<close>, \<open>username\<close> and \<open>password\<close> of a split URL, as the standard library reads the network location.\<close>

definition host_info :: "string \<Rightarrow> string" where
  "host_info netloc = rev (takeWhile (\<lambda>c. c \<noteq> CHR ''@'') (rev netloc))"

definition user_info :: "string \<Rightarrow> string option" where
  "user_info netloc = (if CHR ''@'' \<in> set netloc then Some (take (length netloc - length (host_info netloc) - 1) netloc) else None)"

definition url_hostname :: "string \<Rightarrow> string option" where
  "url_hostname netloc =
     (let info = host_info netloc;
          host = (if CHR ''['' \<in> set info then fst (str_partition (snd (str_partition info (CHR ''[''))) (CHR '']''))
                  else fst (str_partition info (CHR '':'')));
          (name, zone) = str_partition host (CHR ''%'')
      in if host = [] then None else Some (str_lower name @ (if CHR ''%'' \<in> set host then CHR ''%'' # zone else [])))"

definition url_username :: "string \<Rightarrow> string option" where
  "url_username netloc = map_option (\<lambda>u. fst (str_partition u (CHR '':''))) (user_info netloc)"

definition url_password :: "string \<Rightarrow> string option" where
  "url_password netloc = (case user_info netloc of None \<Rightarrow> None
     | Some u \<Rightarrow> if CHR '':'' \<in> set u then Some (snd (str_partition u (CHR '':''))) else None)"

definition absent :: "string option \<Rightarrow> bool" where
  "absent s \<longleftrightarrow> s = None \<or> s = Some []"

definition loopback_url :: "string \<Rightarrow> exn + string" where
  "loopback_url url =
     (case urlsplit_parts url of
        Inl _ \<Rightarrow> Inl (tool_input ''polypack_url is not a valid URL'')
      | Inr u \<Rightarrow>
          ebind (guard (url_scheme u \<in> {''http'', ''https''} \<and> url_hostname (url_netloc u) \<in> {Some ''127.0.0.1'', Some ''::1'', Some ''localhost''})
            (tool_input ''polypack_url must use an HTTP(S) loopback endpoint'')) (\<lambda>_.
          ebind (guard (absent (url_username (url_netloc u)) \<and> absent (url_password (url_netloc u)) \<and> url_query u = [] \<and> url_fragment u = [])
            (tool_input ''polypack_url must not contain credentials, query parameters, or fragments'')) (\<lambda>_.
          ebind (guard (url_path u \<noteq> []) (tool_input ''polypack_url must include the Polypack MCP path'')) (\<lambda>_.
          Inr url))))"

subsection \<open>A call of the service\<close>

definition result_value :: "(string \<Rightarrow> string + json) \<Rightarrow> service_result \<Rightarrow> exn + json" where
  "result_value loads r =
     (let texts = filter (\<lambda>t. t \<noteq> []) (sr_texts r)
      in if sr_is_error r then Inl (polypack_unavailable (if texts = [] then ''unknown Polypack tool error'' else str_join ''; '' texts))
         else case sr_structured r of
           JObj d \<Rightarrow> Inr (JObj d)
         | _ \<Rightarrow>
             (case (case sr_texts r of [t] \<Rightarrow> loads t | _ \<Rightarrow> Inl []) of
                Inr (JObj d) \<Rightarrow> Inr (JObj d)
              | _ \<Rightarrow> Inr (JObj [(''content'', JList (map JStr texts))])))"

definition polypack_call :: "'m polypack \<Rightarrow> string \<Rightarrow> dict \<Rightarrow> ('m, json) step" where
  "polypack_call P tool_name arguments m =
     (case pk_url P of
        None \<Rightarrow> (m, Inl (polypack_unavailable ''Polypack integration is not configured; set YUNOHOST_MCP_POLYPACK_URL to the local /mcp/ endpoint''))
      | Some url \<Rightarrow>
          if url = [] then (m, Inl (polypack_unavailable ''Polypack integration is not configured; set YUNOHOST_MCP_POLYPACK_URL to the local /mcp/ endpoint''))
          else (case loopback_url url of
             Inl e \<Rightarrow> (m, Inl e)
           | Inr _ \<Rightarrow>
               if pk_in_event_loop P then (m, Inl (polypack_unavailable ''Polypack calls must run outside the MCP event loop''))
               else (case pk_service P tool_name arguments m of
                  (m', Inl msg) \<Rightarrow> (m', Inl (polypack_unavailable (''Polypack endpoint unavailable: '' @ msg)))
                | (m', Inr r) \<Rightarrow> (m', result_value (pk_loads P) r))))"

subsection \<open>Checks on arguments\<close>

definition POLYPACK_MEMORY_CLASSES :: "string list" where
  "POLYPACK_MEMORY_CLASSES = [''entity'', ''episodic'', ''procedural'', ''semantic'']"

definition POLYPACK_EDGE_TYPES :: "string list" where
  "POLYPACK_EDGE_TYPES = [''CONSOLIDATED_FROM'', ''RESPONDS_TO'', ''SUPERSEDED_BY'', ''SUPERSEDES'']"

definition polypack_text :: "json \<Rightarrow> string \<Rightarrow> int \<Rightarrow> bool \<Rightarrow> exn + json" where
  "polypack_text v name limit required =
     (if v = JNull \<and> \<not> required then Inr JNull
      else if \<not> is_str v \<or> (required \<and> str_strip (text_of v) = []) then Inl (tool_input (name @ '' must be a non-empty string''))
      else if limit < int (length (text_of v)) then Inl (tool_input (name @ '' must be at most '' @ show_int limit @ '' characters''))
      else Inr v)"

definition polypack_integer :: "json \<Rightarrow> string \<Rightarrow> int \<Rightarrow> int \<Rightarrow> exn + json" where
  "polypack_integer v name minimum maximum =
     (case v of
        JInt i \<Rightarrow> if minimum \<le> i \<and> i \<le> maximum then Inr v
          else Inl (tool_input (name @ '' must be between '' @ show_int minimum @ '' and '' @ show_int maximum))
      | _ \<Rightarrow> Inl (tool_input (name @ '' must be between '' @ show_int minimum @ '' and '' @ show_int maximum)))"

text \<open>\<open>all(edge in TYPES for edge in edges)\<close>, where a list or a dictionary cannot be looked up in a set.\<close>

fun edges_known :: "json list \<Rightarrow> exn + bool" where
  "edges_known [] = Inr True"
| "edges_known (v # vs) = (case v of
      JStr e \<Rightarrow> if e \<in> set POLYPACK_EDGE_TYPES then edges_known vs else Inr False
    | JList _ \<Rightarrow> Inl (Exn TypeError ''unhashable type'')
    | JObj _ \<Rightarrow> Inl (Exn TypeError ''unhashable type'')
    | _ \<Rightarrow> Inr False)"

definition check_edges :: "json \<Rightarrow> exn + unit" where
  "check_edges v = (case v of
      JNull \<Rightarrow> Inr ()
    | JList vs \<Rightarrow> ebind (edges_known vs) (\<lambda>good.
        guard good (tool_input (''edge_types must contain only '' @ py_repr_list POLYPACK_EDGE_TYPES)))
    | _ \<Rightarrow> Inl (tool_input (''edge_types must contain only '' @ py_repr_list POLYPACK_EDGE_TYPES)))"

definition check_class :: "json \<Rightarrow> exn + unit" where
  "check_class v = (case v of
      JList _ \<Rightarrow> Inl (Exn TypeError ''unhashable type'')
    | JObj _ \<Rightarrow> Inl (Exn TypeError ''unhashable type'')
    | _ \<Rightarrow> guard (is_str v \<and> text_of v \<in> set POLYPACK_MEMORY_CLASSES)
        (tool_input (''memory_class must be one of '' @ py_repr_list POLYPACK_MEMORY_CLASSES)))"

definition check_confidence :: "json \<Rightarrow> exn + unit" where
  "check_confidence v = (case v of
      JNull \<Rightarrow> Inr ()
    | JInt i \<Rightarrow> guard (0 \<le> i \<and> i \<le> 1) (tool_input ''confidence must be between 0 and 1'')
    | JFloat r \<Rightarrow> guard (0 \<le> r \<and> r \<le> 1) (tool_input ''confidence must be between 0 and 1'')
    | _ \<Rightarrow> Inl (tool_input ''confidence must be between 0 and 1''))"

definition check_metadata :: "json \<Rightarrow> exn + dict" where
  "check_metadata v = (case v of
      JNull \<Rightarrow> Inr []
    | JObj d \<Rightarrow> if length d \<le> 64 then Inr d else Inl (tool_input ''metadata must be an object with at most 64 keys'')
    | _ \<Rightarrow> Inl (tool_input ''metadata must be an object with at most 64 keys''))"

definition given_entry :: "string \<Rightarrow> json \<Rightarrow> dict" where
  "given_entry key v = (if v = JNull then [] else [(key, v)])"

subsection \<open>The methods of the adapter\<close>

definition adapter_memory_get :: "'m polypack \<Rightarrow> dict \<Rightarrow> ('m, json) step" where
  "adapter_memory_get P b =
     and_then (ret (polypack_text (dget b ''memory_id'') ''memory_id'' 128 True)) (\<lambda>memory_id.
     polypack_call P ''memory_get'' [(''memory_id'', memory_id)])"

definition adapter_memory_list_contexts :: "'m polypack \<Rightarrow> dict \<Rightarrow> ('m, json) step" where
  "adapter_memory_list_contexts P b = polypack_call P ''memory_list_contexts'' []"

definition adapter_memory_recall :: "'m polypack \<Rightarrow> dict \<Rightarrow> ('m, json) step" where
  "adapter_memory_recall P b =
     and_then (ret (polypack_text (dget b ''query'') ''query'' (pk_max_query_chars P) True)) (\<lambda>query.
     and_then (ret (polypack_text (dget b ''context'') ''context'' 256 False)) (\<lambda>ctxt.
     and_then (ret (polypack_integer (dget b ''depth'') ''depth'' 0 3)) (\<lambda>depth.
     and_then (ret (polypack_integer (dget b ''neighbor_limit'') ''neighbor_limit'' 0 100)) (\<lambda>neighbor_limit.
     and_then (ret (polypack_integer (dget b ''limit'') ''limit'' 1 (pk_max_response_items P))) (\<lambda>limit.
     and_then (ret (polypack_integer (dget b ''token_budget'') ''token_budget'' 1 50000)) (\<lambda>token_budget.
     checked (check_edges (dget b ''edge_types''))
     (polypack_call P ''memory_recall'' ([(''query'', query), (''include_neighbors'', dget b ''include_neighbors''), (''depth'', depth),
        (''neighbor_limit'', neighbor_limit), (''limit'', limit), (''token_budget'', token_budget)] @
        given_entry ''context'' ctxt @ given_entry ''edge_types'' (dget b ''edge_types'')))))))))"

definition adapter_memory_context :: "'m polypack \<Rightarrow> dict \<Rightarrow> ('m, json) step" where
  "adapter_memory_context P b =
     and_then (ret (polypack_text (dget b ''context'') ''context'' 256 True)) (\<lambda>ctxt.
     and_then (ret (polypack_integer (dget b ''limit'') ''limit'' 1 (pk_max_response_items P))) (\<lambda>limit.
     and_then (ret (polypack_integer (dget b ''token_budget'') ''token_budget'' 1 50000)) (\<lambda>token_budget.
     polypack_call P ''memory_context'' [(''context'', ctxt), (''strict_context'', dget b ''strict_context''), (''limit'', limit),
       (''token_budget'', token_budget)])))"

definition adapter_memory_thread :: "'m polypack \<Rightarrow> dict \<Rightarrow> ('m, json) step" where
  "adapter_memory_thread P b =
     and_then (ret (polypack_text (dget b ''start_id'') ''start_id'' 128 True)) (\<lambda>start_id.
     and_then (ret (polypack_integer (dget b ''max_depth'') ''max_depth'' 1 100)) (\<lambda>max_depth.
     polypack_call P ''memory_thread'' [(''start_id'', start_id), (''max_depth'', max_depth)]))"

definition adapter_memory_store :: "'m polypack \<Rightarrow> dict \<Rightarrow> ('m, json) step" where
  "adapter_memory_store P b =
     and_then (ret (polypack_text (dget b ''content'') ''content'' (pk_max_content_chars P) True)) (\<lambda>content.
     and_then (ret (polypack_text (dget b ''context'') ''context'' 256 False)) (\<lambda>ctxt.
     checked (check_class (dget b ''memory_class''))
     (checked (check_confidence (dget b ''confidence''))
     (and_then (ret (check_metadata (dget b ''metadata''))) (\<lambda>metadata.
     checked (guard (is_dict (dget b ''provenance'')) (tool_input ''provenance must be an object''))
     (checked (guard (\<not> list_ex (\<lambda>key. starts_with key ''_yunohost_'') (dkeys metadata))
        (tool_input ''metadata keys beginning with _yunohost_ are reserved''))
     (polypack_call P ''memory_store'' ([(''content'', content), (''memory_class'', dget b ''memory_class''), (''metadata'', JObj metadata),
        (''provenance'', dget b ''provenance'')] @ given_entry ''context'' ctxt @ given_entry ''confidence'' (dget b ''confidence'')))))))))"

definition adapter_memory_feedback :: "'m polypack \<Rightarrow> dict \<Rightarrow> ('m, json) step" where
  "adapter_memory_feedback P b =
     and_then (ret (polypack_text (dget b ''memory_id'') ''memory_id'' 128 True)) (\<lambda>memory_id.
     checked (guard (is_bool (dget b ''useful'')) (tool_input ''useful must be a boolean''))
     (and_then (ret (polypack_text (dget b ''agent_id'') ''agent_id'' 128 True)) (\<lambda>agent_id.
     polypack_call P ''memory_feedback'' [(''memory_id'', memory_id), (''useful'', dget b ''useful''), (''agent_id'', agent_id)])))"

subsection \<open>The tools\<close>

text \<open>The provenance that the server writes: reserved keys, from the authenticated request.\<close>

definition memory_provenance :: "'m polypack \<Rightarrow> authenticated_request \<Rightarrow> string \<Rightarrow> dict" where
  "memory_provenance P rq tool_name =
     [(''_yunohost_source'', JStr ''yunohost-mcp''), (''_yunohost_server'', JStr (pk_server_name P)), (''_yunohost_tool'', JStr tool_name),
      (''_yunohost_caller_pubkey'', JStr (rq_pubkey rq)), (''_yunohost_request_id'', JStr (rq_event_id rq))]"

definition memory_audit_arguments :: "libs \<Rightarrow> dict \<Rightarrow> json" where
  "memory_audit_arguments L arguments = JObj (map (\<lambda>(key, v). (key,
     if key \<in> {''content'', ''query''} \<and> is_str v
     then JObj [(''length'', JInt (int (length (text_of v)))), (''sha256'', JStr (sha256_hex L (text_of v)))]
     else if key \<in> {''metadata'', ''provenance''} \<and> is_dict v
     then (case v of JObj d \<Rightarrow> JObj [(''keys'', JList (map JStr (sort (dkeys d))))] | _ \<Rightarrow> v)
     else v)) arguments)"

definition tool_memory_get :: decoration where
  "tool_memory_get = \<lparr>tl_name = ''memory_get'', tl_params = [(''memory_id'', None)],
     tl_scope = Some MEMORY_READ, tl_audit = None, tl_sanitizer = None, tl_gate = None\<rparr>"

definition tool_memory_list_contexts :: decoration where
  "tool_memory_list_contexts = \<lparr>tl_name = ''memory_list_contexts'', tl_params = [],
     tl_scope = Some MEMORY_READ, tl_audit = None, tl_sanitizer = None, tl_gate = None\<rparr>"

definition tool_memory_recall :: decoration where
  "tool_memory_recall = \<lparr>tl_name = ''memory_recall'', tl_params = [(''query'', None), (''context'', Some JNull),
     (''include_neighbors'', Some (JBool False)), (''edge_types'', Some JNull), (''depth'', Some (JInt 1)), (''neighbor_limit'', Some (JInt 3)),
     (''limit'', Some (JInt 20)), (''token_budget'', Some (JInt 4000))],
     tl_scope = Some MEMORY_READ, tl_audit = None, tl_sanitizer = None, tl_gate = None\<rparr>"

definition tool_memory_context :: decoration where
  "tool_memory_context = \<lparr>tl_name = ''memory_context'', tl_params = [(''context'', None), (''strict_context'', Some (JBool False)),
     (''limit'', Some (JInt 20)), (''token_budget'', Some (JInt 4000))],
     tl_scope = Some MEMORY_READ, tl_audit = None, tl_sanitizer = None, tl_gate = None\<rparr>"

definition tool_memory_thread :: decoration where
  "tool_memory_thread = \<lparr>tl_name = ''memory_thread'', tl_params = [(''start_id'', None), (''max_depth'', Some (JInt 20))],
     tl_scope = Some MEMORY_READ, tl_audit = None, tl_sanitizer = None, tl_gate = None\<rparr>"

definition tool_memory_store :: "libs \<Rightarrow> decoration" where
  "tool_memory_store L = \<lparr>tl_name = ''memory_store'', tl_params = [(''content'', None), (''context'', Some JNull),
     (''memory_class'', Some (JStr ''semantic'')), (''confidence'', Some JNull), (''metadata'', Some JNull)],
     tl_scope = Some MEMORY_WRITE, tl_audit = Some ''memory.store'', tl_sanitizer = Some (memory_audit_arguments L), tl_gate = None\<rparr>"

definition tool_memory_feedback :: "libs \<Rightarrow> decoration" where
  "tool_memory_feedback L = \<lparr>tl_name = ''memory_feedback'', tl_params = [(''memory_id'', None), (''useful'', None)],
     tl_scope = Some MEMORY_FEEDBACK, tl_audit = Some ''memory.feedback'', tl_sanitizer = Some (memory_audit_arguments L), tl_gate = None\<rparr>"

definition memory_store_body :: "'m polypack \<Rightarrow> authenticated_request option \<Rightarrow> dict \<Rightarrow> ('m, json) step" where
  "memory_store_body P current k =
     and_then (ret (require_current_request current)) (\<lambda>rq.
     adapter_memory_store P [(''content'', dget k ''content''), (''context'', dget k ''context''), (''memory_class'', dget k ''memory_class''),
       (''confidence'', dget k ''confidence''), (''metadata'', dget k ''metadata''),
       (''provenance'', JObj (memory_provenance P rq ''memory.store''))])"

definition memory_feedback_body :: "'m polypack \<Rightarrow> authenticated_request option \<Rightarrow> dict \<Rightarrow> ('m, json) step" where
  "memory_feedback_body P current k =
     and_then (ret (require_current_request current)) (\<lambda>rq.
     adapter_memory_feedback P [(''memory_id'', dget k ''memory_id''), (''useful'', dget k ''useful''), (''agent_id'', JStr (rq_pubkey rq))])"

text \<open>The other tools pass their arguments on.\<close>

definition run_memory_read ::
  "libs \<Rightarrow> (json \<Rightarrow> string) \<Rightarrow> real \<Rightarrow> decoration \<Rightarrow> (dict \<Rightarrow> ('m, json) step) \<Rightarrow> authenticated_request option \<Rightarrow> dict \<Rightarrow> ('st, 'm, json) action" where
  "run_memory_read L fmt now T call current k = ungated L fmt now T [] current call k"

definition run_memory_get where "run_memory_get L fmt now P = run_memory_read L fmt now tool_memory_get (adapter_memory_get P)"

definition run_memory_list_contexts where
  "run_memory_list_contexts L fmt now P = run_memory_read L fmt now tool_memory_list_contexts (adapter_memory_list_contexts P)"

definition run_memory_recall where "run_memory_recall L fmt now P = run_memory_read L fmt now tool_memory_recall (adapter_memory_recall P)"

definition run_memory_context where "run_memory_context L fmt now P = run_memory_read L fmt now tool_memory_context (adapter_memory_context P)"

definition run_memory_thread where "run_memory_thread L fmt now P = run_memory_read L fmt now tool_memory_thread (adapter_memory_thread P)"

definition run_memory_store ::
  "libs \<Rightarrow> (json \<Rightarrow> string) \<Rightarrow> real \<Rightarrow> 'm polypack \<Rightarrow> string \<Rightarrow> authenticated_request option \<Rightarrow> dict \<Rightarrow> ('st, 'm, json) action" where
  "run_memory_store L fmt now P audit_id current k = ungated L fmt now (tool_memory_store L) audit_id current (memory_store_body P current) k"

definition run_memory_feedback ::
  "libs \<Rightarrow> (json \<Rightarrow> string) \<Rightarrow> real \<Rightarrow> 'm polypack \<Rightarrow> string \<Rightarrow> authenticated_request option \<Rightarrow> dict \<Rightarrow> ('st, 'm, json) action" where
  "run_memory_feedback L fmt now P audit_id current k = ungated L fmt now (tool_memory_feedback L) audit_id current (memory_feedback_body P current) k"

subsection \<open>What reaches the service\<close>

text \<open>The address of the service as the settings must have it: on this host, without credentials.\<close>

definition local_address :: "string \<Rightarrow> bool" where
  "local_address url \<longleftrightarrow> (\<exists>u. urlsplit_parts url = Inr u \<and> url_scheme u \<in> {''http'', ''https''} \<and>
     url_hostname (url_netloc u) \<in> {Some ''127.0.0.1'', Some ''::1'', Some ''localhost''} \<and> absent (url_username (url_netloc u)) \<and>
     absent (url_password (url_netloc u)) \<and> url_query u = [] \<and> url_fragment u = [] \<and> url_path u \<noteq> [])"

lemma loopback_Inr: "loopback_url url = Inr v \<longleftrightarrow> local_address url \<and> v = url"
  by (auto simp: loopback_url_def local_address_def ebind_Inr split: sum.splits)

lemma polypack_call_moves:
  assumes "polypack_call P name arguments m = (m', r)" "m' \<noteq> m"
  shows "\<exists>url. pk_url P = Some url \<and> local_address url \<and> m' = fst (pk_service P name arguments m)"
proof -
  from assms obtain url where url: "pk_url P = Some url" "loopback_url url = Inr url" "m' = fst (pk_service P name arguments m)"
    by (auto simp: polypack_call_def loopback_Inr split: option.splits if_splits sum.splits prod.splits)
  then show ?thesis by (auto simp: loopback_Inr)
qed

text \<open>A step that only asks the service moves it only through one call.\<close>

definition asks :: "'m polypack \<Rightarrow> string \<Rightarrow> (dict \<Rightarrow> bool) \<Rightarrow> ('m, json) step \<Rightarrow> bool" where
  "asks P name good run \<longleftrightarrow> (\<forall>m. fst (run m) \<noteq> m \<longrightarrow>
     (\<exists>url arguments. pk_url P = Some url \<and> local_address url \<and> good arguments \<and> fst (run m) = fst (pk_service P name arguments m)))"

lemma asks_call: "good arguments \<Longrightarrow> asks P name good (polypack_call P name arguments)"
  unfolding asks_def by (metis polypack_call_moves prod.collapse)

lemma asks_then: "(\<And>x. r = Inr x \<Longrightarrow> asks P name good (k x)) \<Longrightarrow> asks P name good (and_then (ret r) k)"
  by (cases r) (auto simp: asks_def and_then_def ret_def)

lemma asks_checked: "(c = Inr () \<Longrightarrow> asks P name good m) \<Longrightarrow> asks P name good (checked c m)"
  unfolding checked_def by (rule asks_then) auto

lemma ungated_asks:
  assumes "ungated L fmt now T audit_id current body k w = (w', r)" "w_system w' \<noteq> w_system w" "tl_scope T = Some s"
    and "\<And>rq. current = Some rq \<Longrightarrow> asks P name (good rq) (body k)"
  shows "\<exists>rq url arguments. current = Some rq \<and> has_scope rq s \<and> (tl_audit T \<noteq> None \<longrightarrow> \<not> w_locked w) \<and> pk_url P = Some url \<and> local_address url \<and>
    good rq arguments \<and> w_system w' = fst (pk_service P name arguments (w_system w))"
proof -
  from ungated_system [OF assms(3), of L fmt now audit_id current body k w] assms(1,2)
  obtain rq where rq: "current = Some rq" "has_scope rq s" "tl_audit T \<noteq> None \<longrightarrow> \<not> w_locked w" "w_system w' = fst (body k (w_system w))"
    by (auto split: option.splits if_splits)
  with assms(2,4) show ?thesis unfolding asks_def by metis
qed

subsection \<open>Memories carry their author\<close>

definition bounded_text :: "json \<Rightarrow> int \<Rightarrow> bool" where
  "bounded_text v limit \<longleftrightarrow> is_str v \<and> str_strip (text_of v) \<noteq> [] \<and> int (length (text_of v)) \<le> limit"

definition bounded_integer :: "json \<Rightarrow> int \<Rightarrow> int \<Rightarrow> bool" where
  "bounded_integer v minimum maximum \<longleftrightarrow> (\<exists>i. v = JInt i \<and> minimum \<le> i \<and> i \<le> maximum)"

lemma polypack_text_Inr: "polypack_text v name limit True = Inr x \<Longrightarrow> bounded_text x limit"
  by (auto simp: polypack_text_def bounded_text_def split: if_splits)

lemma polypack_integer_Inr: "polypack_integer v name minimum maximum = Inr x \<Longrightarrow> bounded_integer x minimum maximum"
  by (auto simp: polypack_integer_def bounded_integer_def split: json.splits if_splits)

definition authored :: "'m polypack \<Rightarrow> authenticated_request \<Rightarrow> dict \<Rightarrow> bool" where
  "authored P rq arguments \<longleftrightarrow> dget arguments ''provenance'' = JObj (memory_provenance P rq ''memory.store'') \<and>
     bounded_text (dget arguments ''content'') (pk_max_content_chars P) \<and>
     (\<exists>metadata. dget arguments ''metadata'' = JObj metadata \<and> length metadata \<le> 64 \<and> (\<forall>key \<in> set (dkeys metadata). \<not> starts_with key ''_yunohost_''))"

lemma store_asks: "asks P ''memory_store'' (authored P rq) (memory_store_body P (Some rq) k)"
  unfolding memory_store_body_def adapter_memory_store_def
proof (intro asks_then asks_checked asks_call, goal_cases)
  case (1 q content ctxt metadata)
  then show ?case
    by (auto simp: authored_def dget_def require_current_request_def polypack_text_Inr check_metadata_def list_ex_iff Let_def
        dest!: polypack_text_Inr split: json.splits if_splits)
qed

text \<open>
  C22: durable memories carry their author.  Whatever a caller passes to \<open>memory_store\<close>, the Polypack service is asked at
  most once, only on a loopback address, only for a caller with the scope and under the write lock, and what it is
  asked to store has the provenance that the server wrote for that caller; the content is within its limit and no key
  of the metadata can pass for provenance.
\<close>

theorem memory_store_authentic:
  assumes "run_memory_store L fmt now P audit_id current k w = (w', r)" "w_system w' \<noteq> w_system w"
  shows "\<exists>rq url arguments metadata. current = Some rq \<and> has_scope rq MEMORY_WRITE \<and> \<not> w_locked w \<and> pk_url P = Some url \<and> local_address url \<and>
    w_system w' = fst (pk_service P ''memory_store'' arguments (w_system w)) \<and>
    dget arguments ''provenance'' = JObj (memory_provenance P rq ''memory.store'') \<and>
    bounded_text (dget arguments ''content'') (pk_max_content_chars P) \<and> dget arguments ''metadata'' = JObj metadata \<and>
    length metadata \<le> 64 \<and> (\<forall>key \<in> set (dkeys metadata). \<not> starts_with key ''_yunohost_'')"
proof -
  have "\<exists>rq url arguments. current = Some rq \<and> has_scope rq MEMORY_WRITE \<and> (tl_audit (tool_memory_store L) \<noteq> None \<longrightarrow> \<not> w_locked w) \<and>
      pk_url P = Some url \<and> local_address url \<and> authored P rq arguments \<and> w_system w' = fst (pk_service P ''memory_store'' arguments (w_system w))"
    by (rule ungated_asks [OF assms(1) [unfolded run_memory_store_def] assms(2)]) (auto simp: tool_memory_store_def store_asks)
  then show ?thesis by (auto simp: authored_def tool_memory_store_def)
qed

text \<open>
  Recall is bounded.  What \<open>memory_recall\<close> asks the service for has a query within its limit, a depth of at most 3, at
  most 100 neighbours, no more items than the settings allow and at most 50000 tokens.
\<close>

theorem memory_recall_bounded:
  assumes "run_memory_recall L fmt now P current k w = (w', r)" "w_system w' \<noteq> w_system w"
  shows "\<exists>rq url arguments. current = Some rq \<and> has_scope rq MEMORY_READ \<and> pk_url P = Some url \<and> local_address url \<and>
    w_system w' = fst (pk_service P ''memory_recall'' arguments (w_system w)) \<and> bounded_text (dget arguments ''query'') (pk_max_query_chars P) \<and>
    bounded_integer (dget arguments ''depth'') 0 3 \<and> bounded_integer (dget arguments ''neighbor_limit'') 0 100 \<and>
    bounded_integer (dget arguments ''limit'') 1 (pk_max_response_items P) \<and> bounded_integer (dget arguments ''token_budget'') 1 50000"
proof -
  let ?good = "\<lambda>rq :: authenticated_request. \<lambda>arguments. bounded_text (dget arguments ''query'') (pk_max_query_chars P) \<and>
    bounded_integer (dget arguments ''depth'') 0 3 \<and> bounded_integer (dget arguments ''neighbor_limit'') 0 100 \<and>
    bounded_integer (dget arguments ''limit'') 1 (pk_max_response_items P) \<and> bounded_integer (dget arguments ''token_budget'') 1 50000"
  have "asks P ''memory_recall'' (?good rq) (adapter_memory_recall P k)" for rq
    unfolding adapter_memory_recall_def
    by (intro asks_then asks_checked asks_call) (auto simp: dget_def dest!: polypack_text_Inr polypack_integer_Inr)
  from ungated_asks [OF assms(1) [unfolded run_memory_recall_def run_memory_read_def] assms(2) _ this] show ?thesis
    by (auto simp: tool_memory_recall_def)
qed

text \<open>The audit entry shows of a text only its length and digest, of metadata only the keys.\<close>

lemma memory_audit_hides:
  assumes "list_all2 (\<lambda>(key, v) (key', v'). key = key' \<and> (v = v' \<or> (\<exists>s s'. key \<in> {''content'', ''query''} \<and> v = JStr s \<and> v' = JStr s' \<and> length s = length s' \<and> sha256_hex L s = sha256_hex L s')
     \<or> (\<exists>d d'. key \<in> {''metadata'', ''provenance''} \<and> v = JObj d \<and> v' = JObj d' \<and> sort (dkeys d) = sort (dkeys d')))) k k'"
  shows "write_fields name (Some (memory_audit_arguments L)) rq k r tk = write_fields name (Some (memory_audit_arguments L)) rq k' r tk"
proof -
  have "memory_audit_arguments L k = memory_audit_arguments L k'"
    using assms by (induction rule: list_all2_induct) (auto simp: memory_audit_arguments_def)
  then show ?thesis by (simp add: write_fields_def)
qed

subsection \<open>An example\<close>

text \<open>A service that counts its calls.\<close>

definition counting :: "nat polypack" where
  "counting = \<lparr>pk_url = Some ''http://127.0.0.1:8100/mcp/'', pk_in_event_loop = False, pk_service = (\<lambda>_ _ n. (Suc n, Inl ''gone'')),
     pk_loads = (\<lambda>_. Inl ''x''), pk_max_content_chars = 100000, pk_max_query_chars = 4000, pk_max_response_items = 100, pk_server_name = ''s''\<rparr>"

definition remembering_world :: "(unit, nat) world" where
  "remembering_world = \<lparr>w_locked = False, w_audit = None, w_ticket = None, w_store = (), w_system = 0, w_calls = []\<rparr>"

lemma counting_call: "polypack_call counting name arguments n = (Suc n, Inl (polypack_unavailable ''Polypack endpoint unavailable: gone''))"
proof -
  have "loopback_url ''http://127.0.0.1:8100/mcp/'' = Inr ''http://127.0.0.1:8100/mcp/''" by code_simp
  then show ?thesis by (simp add: polypack_call_def counting_def)
qed

definition remembered :: dict where
  "remembered = [(''content'', JStr ''a''), (''context'', JNull), (''memory_class'', JStr ''semantic''), (''confidence'', JNull), (''metadata'', JNull)]"

theorem memory_store_authentic_witness:
  "\<exists>arguments. dget arguments ''provenance'' = JObj (memory_provenance counting LOCAL_STDIO_REQUEST ''memory.store'') \<and>
    w_system (fst (run_memory_store example_libs (\<lambda>_. []) 0 counting ''m'' (Some LOCAL_STDIO_REQUEST) remembered remembering_world)) =
    fst (pk_service counting ''memory_store'' arguments 0)"
proof -
  let ?run = "run_memory_store example_libs (\<lambda>_. []) 0 counting ''m'' (Some LOCAL_STDIO_REQUEST) remembered remembering_world"
  have strip: "str_strip ''a'' \<noteq> []" "pk_max_content_chars counting = 100000" by (code_simp, simp add: counting_def)
  have "has_scope LOCAL_STDIO_REQUEST MEMORY_WRITE" by code_simp
  then have "w_system (fst ?run) = fst (memory_store_body counting (Some LOCAL_STDIO_REQUEST) remembered 0)"
    unfolding run_memory_store_def by (subst ungated_system [of _ MEMORY_WRITE]) (simp_all add: tool_memory_store_def remembering_world_def)
  also have "\<dots> = 1"
    using strip by (simp add: memory_store_body_def adapter_memory_store_def counting_call and_then_def ret_def checked_def require_current_request_def remembered_def
        polypack_text_def dget_def check_class_def POLYPACK_MEMORY_CLASSES_def check_confidence_def check_metadata_def guard_def dkeys_def)
  finally have "w_system (fst ?run) \<noteq> w_system remembering_world" by (simp add: remembering_world_def)
  from memory_store_authentic [OF prod.collapse [symmetric] this] show ?thesis by (auto simp: remembering_world_def)
qed

end
