(* ===== verification/Lookups.thy ===== *)
theory Lookups
  imports Identity Nostr
begin

text \<open>
  \<^verbatim>\<open>src/yunohost_mcp/auth/nostr_auth_lookup.py\<close>, \<^verbatim>\<open>auth/nostr_auth_relay_lookup.py\<close> and the choice of the identity backend in
  \<^verbatim>\<open>auth/groups.py\<close>: the two clients of nostr_auth's private sockets.  The socket is a parameter: for the line that is
  sent, the pieces of the answer in the order of \<open>recv\<close>, or the text of an \<open>OSError\<close>; the decoding of bytes and of
  JSON are parameters too.
\<close>

record lookup_libs =
  lk_exchange :: "string \<Rightarrow> string + string list"
  lk_utf8 :: "string \<Rightarrow> string option"
  lk_loads :: "string \<Rightarrow> string + json"

subsection \<open>One exchange\<close>

definition ends_line :: "string \<Rightarrow> bool" where
  "ends_line raw \<longleftrightarrow> raw \<noteq> [] \<and> code (last raw) = 10"

text \<open>\<open>while not raw.endswith(...)\<close>: an empty piece is the end of the stream.\<close>

fun read_answer :: "string \<Rightarrow> string list \<Rightarrow> string" where
  "read_answer raw [] = raw"
| "read_answer raw (piece # pieces) = (if ends_line raw \<or> piece = [] then raw else read_answer (raw @ piece) pieces)"

definition lookup_request :: "string \<Rightarrow> string" where
  "lookup_request pubkey = json_text (\<lambda>_. []) (default_format\<lparr>item_separator := '','', key_separator := '':''\<rparr>) (JObj [(''pubkey'', JStr pubkey)]) @
     [char_of (10 :: nat)]"

text \<open>\<open>json.loads\<close> of bytes: bytes that are no UTF-8 are a \<open>UnicodeDecodeError\<close>, which no handler takes.\<close>

definition loads_bytes :: "lookup_libs \<Rightarrow> (string \<Rightarrow> exn) \<Rightarrow> string \<Rightarrow> exn + json" where
  "loads_bytes K invalid raw = (case lk_utf8 K raw of
      None \<Rightarrow> Inl (Exn ValueError ''invalid start byte'')
    | Some text \<Rightarrow> (case lk_loads K text of Inl msg \<Rightarrow> Inl (invalid msg) | Inr v \<Rightarrow> Inr v))"

text \<open>\<open>key in response\<close>, and what \<open>get\<close> finds: only a dictionary has one.\<close>

definition has_member :: "string \<Rightarrow> json \<Rightarrow> exn + bool" where
  "has_member key v = (case v of
      JObj d \<Rightarrow> Inr (dhas d key)
    | JList vs \<Rightarrow> Inr (JStr key \<in> set vs)
    | JStr s \<Rightarrow> Inr (contains s key)
    | _ \<Rightarrow> Inl (Exn TypeError ''argument is not iterable''))"

definition member_of :: "json \<Rightarrow> string \<Rightarrow> exn + json" where
  "member_of v key = (case v of JObj d \<Rightarrow> Inr (dget d key) | _ \<Rightarrow> Inl (Exn AttributeError ''object has no attribute get''))"

definition error_member :: "(json \<Rightarrow> string) \<Rightarrow> json \<Rightarrow> exn + string" where
  "error_member fmt v = (case v of JObj d \<Rightarrow> Inr (py_str fmt (dget d ''error'')) | _ \<Rightarrow> Inl (Exn TypeError ''indices must be integers''))"

text \<open>What both clients do before they look at the answer.\<close>

definition exchange :: "lookup_libs \<Rightarrow> (json \<Rightarrow> string) \<Rightarrow> (string \<Rightarrow> exn) \<Rightarrow> string \<Rightarrow> string \<Rightarrow> exn + json" where
  "exchange K fmt failed what pubkey =
     (case lk_exchange K (lookup_request pubkey) of
        Inl msg \<Rightarrow> Inl (failed (''could not reach nostr_auth '' @ what @ '' service: '' @ msg))
      | Inr pieces \<Rightarrow>
          ebind (loads_bytes K (\<lambda>msg. failed (''nostr_auth '' @ what @ '' returned invalid output: '' @ msg)) (read_answer [] pieces)) (\<lambda>response.
          ebind (has_member ''error'' response) (\<lambda>refused.
          if refused then ebind (error_member fmt response) (\<lambda>msg. Inl (failed (''nostr_auth '' @ what @ '' failed: '' @ msg)))
          else Inr response)))"

subsection \<open>The linked account\<close>

definition lookup_error :: "string \<Rightarrow> exn" where
  "lookup_error msg = Exn NostrAuthLookupError msg"

definition lookup_linked_username :: "lookup_libs \<Rightarrow> (json \<Rightarrow> string) \<Rightarrow> bool \<Rightarrow> string \<Rightarrow> exn + string option" where
  "lookup_linked_username K fmt configured pubkey =
     (if \<not> configured then Inr None
      else ebind (exchange K fmt lookup_error ''lookup'' pubkey) (\<lambda>response.
        ebind (member_of response ''linked'') (\<lambda>linked.
        ebind (guard (is_bool linked) (lookup_error ''nostr_auth lookup returned an invalid linked flag'')) (\<lambda>_.
        ebind (member_of response ''username'') (\<lambda>username.
        ebind (guard (username = JNull \<or> is_str username) (lookup_error ''nostr_auth lookup returned an invalid username'')) (\<lambda>_.
        Inr (if linked = JBool True \<and> is_str username then Some (text_of username) else None)))))))"

subsection \<open>The relays of the account\<close>

definition relay_lookup_error :: "string \<Rightarrow> exn" where
  "relay_lookup_error msg = Exn NostrAuthRelayLookupError msg"

text \<open>\<open>[entry["url"] for entry in relays]\<close>\<close>

fun entry_urls :: "json list \<Rightarrow> exn + json list" where
  "entry_urls [] = Inr []"
| "entry_urls (v # vs) = (case v of
      JObj d \<Rightarrow> if dhas d ''url'' then ebind (entry_urls vs) (\<lambda>urls. Inr (dget d ''url'' # urls)) else Inl (Exn KeyError ''url'')
    | _ \<Rightarrow> Inl (Exn TypeError ''not subscriptable''))"

definition lookup_linked_relays :: "lookup_libs \<Rightarrow> (json \<Rightarrow> string) \<Rightarrow> bool \<Rightarrow> string \<Rightarrow> exn + string list" where
  "lookup_linked_relays K fmt configured pubkey =
     (if \<not> configured then Inr []
      else ebind (exchange K fmt relay_lookup_error ''relay-lookup'' pubkey) (\<lambda>response.
        ebind (member_of response ''linked'') (\<lambda>linked.
        ebind (member_of response ''relays'') (\<lambda>relays.
        case (linked, relays) of
          (JBool b, JList entries) \<Rightarrow>
            if \<not> b then Inr []
            else ebind (reraise (\<lambda>e. exn_cls e \<in> {KeyError, TypeError}) (\<lambda>_. relay_lookup_error ''nostr_auth relay-lookup returned an invalid relay entry'')
                (entry_urls entries)) (\<lambda>urls.
              ebind (guard (list_all is_str urls) (relay_lookup_error ''nostr_auth relay-lookup returned a non-string relay URL'')) (\<lambda>_.
              Inr (map text_of urls)))
        | _ \<Rightarrow> Inl (relay_lookup_error ''nostr_auth relay-lookup returned an invalid response'')))))"

subsection \<open>The backend of identities\<close>

definition identity_store_for_settings ::
  "libs \<Rightarrow> (json \<Rightarrow> string) \<Rightarrow> toml_file \<Rightarrow> string \<Rightarrow> unix_accounts \<Rightarrow> lookup_libs \<Rightarrow> bool \<Rightarrow> string \<Rightarrow>
     exn + (string \<Rightarrow> exn + identity_record option)" where
  "identity_store_for_settings L fmt file path db K configured backend =
     (if backend = ''toml'' then Inr (identity_lookup L fmt file (LiveStore path))
      else if backend = ''yunohost_groups'' then Inr (group_lookup L db (lookup_linked_username K fmt configured) DEFAULT_GROUP_ROLES)
      else Inl (Exn ValueError (''unknown YUNOHOST_MCP_IDENTITY_BACKEND: '' @ py_repr backend)))"

subsection \<open>What a lookup tells\<close>

text \<open>The answer that the service gave, as it was read.\<close>

definition answered :: "lookup_libs \<Rightarrow> string \<Rightarrow> dict \<Rightarrow> bool" where
  "answered K pubkey d \<longleftrightarrow> (\<exists>pieces text. lk_exchange K (lookup_request pubkey) = Inr pieces \<and> lk_utf8 K (read_answer [] pieces) = Some text \<and>
     lk_loads K text = Inr (JObj d) \<and> \<not> dhas d ''error'')"

lemma exchange_Inr:
  assumes "exchange K fmt failed what pubkey = Inr v" "member_of v key = Inr x"
  shows "\<exists>d. v = JObj d \<and> answered K pubkey d \<and> x = dget d key"
  using assms by (auto simp: exchange_def ebind_Inr loads_bytes_def has_member_def member_of_def answered_def split: sum.splits option.splits json.splits if_splits)

lemma username_Inr:
  assumes "lookup_linked_username K fmt configured pubkey = Inr (Some name)"
  shows "configured \<and> (\<exists>d. answered K pubkey d \<and> dget d ''linked'' = JBool True \<and> dget d ''username'' = JStr name)"
proof -
  from assms obtain v linked username where v: "configured" "exchange K fmt lookup_error ''lookup'' pubkey = Inr v" "member_of v ''linked'' = Inr linked"
    "member_of v ''username'' = Inr username" "linked = JBool True" "is_str username" "name = text_of username"
    by (auto simp: lookup_linked_username_def ebind_Inr split: if_splits)
  have name: "username = JStr name" using v(6,7) by (cases username) simp_all
  from exchange_Inr [OF v(2,3)] obtain d where d: "v = JObj d" "answered K pubkey d" "linked = dget d ''linked''" by blast
  have "username = dget d ''username''" using v(4) d(1) by (simp add: member_of_def)
  with d v(1,5) name show ?thesis by auto
qed

text \<open>
  C23: with the backend of accounts, access is the account's.  A public key resolves to a record only if nostr_auth, asked
  for that key, answered that it is linked to an account, and the account is in a group that has a role; the record's
  roles are those of the account's groups, and its scopes those of the roles.
\<close>

theorem group_access_sound:
  assumes "identity_store_for_settings L fmt file path db K configured ''yunohost_groups'' = Inr lookup" "lookup pk = Inr (Some r)"
  shows "\<exists>pubkey d name. resolve_key_to_hex L pk = Inr pubkey \<and> configured \<and> answered K pubkey d \<and> dget d ''linked'' = JBool True \<and>
    dget d ''username'' = JStr name \<and> id_pubkey r = pubkey \<and>
    id_roles r = map snd (filter (\<lambda>p. fst p \<in> groups_for_user db name) DEFAULT_GROUP_ROLES) \<and> id_roles r \<noteq> [] \<and>
    id_scopes r = (\<Union>role \<in> set (id_roles r). role_scope_set role)"
proof -
  from assms have "group_lookup L db (lookup_linked_username K fmt configured) DEFAULT_GROUP_ROLES pk = Inr (Some r)"
    by (simp add: identity_store_for_settings_def)
  then obtain pubkey name where r: "resolve_key_to_hex L pk = Inr pubkey" "lookup_linked_username K fmt configured pubkey = Inr (Some name)"
    "id_pubkey r = pubkey" "id_roles r = map snd (filter (\<lambda>p. fst p \<in> groups_for_user db name) DEFAULT_GROUP_ROLES)" "id_roles r \<noteq> []"
    "scopes_for_roles (id_roles r) = Inr (id_scopes r)"
    by (auto simp: group_lookup_def ebind_Inr Let_def split: sum.splits option.splits if_splits)
  from r(6) have "id_scopes r = (\<Union>role \<in> set (id_roles r). role_scope_set role)" by (simp add: scopes_for_roles_Inr)
  with r username_Inr [OF r(2)] show ?thesis by blast
qed

text \<open>A lookup is not only refused with its own error: an answer that is a number leaves as another exception, which the
  callers of the lookup do not take.\<close>

lemma lookup_other_errors:
  assumes "lk_exchange K (lookup_request pubkey) = Inr pieces" "lk_utf8 K (read_answer [] pieces) = Some text" "lk_loads K text = Inr (JInt i)"
  shows "lookup_linked_relays K fmt True pubkey = Inl (Exn TypeError ''argument is not iterable'')"
  using assms by (simp add: lookup_linked_relays_def exchange_def loads_bytes_def has_member_def)

subsection \<open>An example\<close>

definition linked_service :: lookup_libs where
  "linked_service = \<lparr>lk_exchange = (\<lambda>_. Inr [''{...}'', [char_of (10 :: nat)]]), lk_utf8 = Some,
     lk_loads = (\<lambda>_. Inr (JObj [(''linked'', JBool True), (''username'', JStr ''ann'')]))\<rparr>"

definition linked_accounts :: unix_accounts where
  "linked_accounts = \<lparr>passwd_gid = (\<lambda>_. Some 1), unix_groups = [(7, ''yunohost-mcp-readonly'', [''ann''])]\<rparr>"

theorem group_access_sound_witness:
  "\<exists>r. group_lookup example_libs linked_accounts (lookup_linked_username linked_service (\<lambda>_. []) True) DEFAULT_GROUP_ROLES example_key = Inr (Some r) \<and>
    id_roles r = [''readonly''] \<and> id_scopes r = role_scope_set ''readonly''"
proof -
  let ?lookup = "group_lookup example_libs linked_accounts (lookup_linked_username linked_service (\<lambda>_. []) True) DEFAULT_GROUP_ROLES"
  let ?pk = example_key
  have key: "resolve_key_to_hex example_libs ?pk = Inr ?pk" by (rule example_key_resolves)
  have name: "lookup_linked_username linked_service (\<lambda>_. []) True ?pk = Inr (Some ''ann'')"
    by (simp add: lookup_linked_username_def exchange_def loads_bytes_def linked_service_def has_member_def member_of_def dget_def dhas_def dkeys_def)
  have groups: "groups_for_user linked_accounts ''ann'' = {''yunohost-mcp-readonly''}"
    by (simp add: groups_for_user_def linked_accounts_def)
  have scopes: "scopes_for_roles [''readonly''] = Inr (role_scope_set ''readonly'')" by (simp add: scopes_for_roles_Inr) code_simp
  have found: "?lookup ?pk = Inr (Some \<lparr>id_pubkey = ?pk, id_name = JStr ''ann'', id_roles = [''readonly''], id_scopes = role_scope_set ''readonly'',
      id_expires = None, id_armada_key_path = None\<rparr>)" (is "_ = Inr (Some ?r)")
    by (simp add: group_lookup_def key name groups scopes DEFAULT_GROUP_ROLES_def)
  have "identity_store_for_settings example_libs (\<lambda>_. []) TomlMissing [] linked_accounts linked_service True ''yunohost_groups'' = Inr ?lookup"
    by (simp add: identity_store_for_settings_def)
  from group_access_sound [OF this found] found show ?thesis by auto
qed

end
