(* ===== verification/Catalogue.thy ===== *)
theory Catalogue
  imports Armada Lookups
begin

text \<open>
  The catalogue methods of \<^verbatim>\<open>yunohost/adapter.py\<close> and the catalogue tools of \<^verbatim>\<open>server.py\<close>: packages are inspected, declared
  and verified by the command-line tool of the Nostr catalogue.  That tool is a parameter: a step that is given its
  arguments and the content of the temporary file, if there is one.  Files and directories are read through the
  environment.
\<close>

subsection \<open>The environment\<close>

datatype cli_outcome = Cli_Timeout | Cli_Exit int string string

text \<open>What the key file is: whether it and the link to it are what they should be, and the mode.\<close>

record key_status =
  ks_regular :: bool
  ks_symlink :: bool
  ks_mode :: nat

record 'y catalogue_env =
  ct_adapter :: "'y adapter_env"
  ct_relays :: string
  ct_trusted_publishers :: string
  ct_env_file :: "string option"
  ct_require_remote_ref :: bool
  ct_directory :: "string \<Rightarrow> bool"
  ct_resolve :: "string \<Rightarrow> string"
  ct_relay_lookup :: "(string \<Rightarrow> exn + string list) option"
  ct_current :: "authenticated_request option"
  ct_cli_path :: string
  ct_cli_executable :: bool
  ct_key_path :: string
  ct_key :: key_status
  ct_temp_path :: string
  ct_cli :: "string list \<Rightarrow> json option \<Rightarrow> 'y \<Rightarrow> 'y \<times> cli_outcome"

subsection \<open>Relays and publishers\<close>

definition items_of :: "string \<Rightarrow> string list" where
  "items_of s = filter (\<lambda>r. r \<noteq> []) (map str_strip (str_split s (CHR '','')))"

text \<open>\<open>_read_nostr_catalog_ynh_env\<close>: the first line of the file that sets the key.\<close>

definition catalog_env_items :: "'y catalogue_env \<Rightarrow> string \<Rightarrow> string list" where
  "catalog_env_items C key = (case ct_env_file C of
      None \<Rightarrow> []
    | Some entire \<Rightarrow> (case find (\<lambda>line. starts_with line (key @ ''='')) (splitlines entire) of
        None \<Rightarrow> []
      | Some line \<Rightarrow> items_of (str_strip (drop (length key + 1) line))))"

text \<open>\<open>_read_nostr_catalog_ynh_setting\<close>: every failure to ask YunoHost is an empty list.\<close>

definition setting_items :: "json \<Rightarrow> string list" where
  "setting_items v = (case v of
      JStr s \<Rightarrow> filter (\<lambda>r. r \<noteq> []) (map str_strip (str_split (map (\<lambda>c. if code c = 10 then CHR '','' else c) s) (CHR '','')))
    | _ \<Rightarrow> [])"

definition catalog_setting_items :: "'y catalogue_env \<Rightarrow> string \<Rightarrow> ('y, string list) step" where
  "catalog_setting_items C key y =
     (if ad_fake (ct_adapter C) then (y, Inr [])
      else case system_python (ct_adapter C) ''api'' ''yunohost.app'' ''app_setting_get'' [(''app'', JStr ''nostr_catalog''), (''key'', JStr key)] y of
          (y', Inl _) \<Rightarrow> (y', Inr [])
        | (y', Inr v) \<Rightarrow> (y', Inr (setting_items v)))"

text \<open>The relays of the caller come after the configured ones, without copies.\<close>

definition merge_relays :: "string list \<Rightarrow> string list \<Rightarrow> string list" where
  "merge_relays relays caller_relays = fold (\<lambda>url merged. if url \<in> set merged then merged else merged @ [url]) caller_relays relays"

definition widen_with_caller_relays :: "'y catalogue_env \<Rightarrow> string list \<Rightarrow> exn + string list" where
  "widen_with_caller_relays C relays = (case (ct_relay_lookup C, ct_current C) of
      (Some lookup, Some rq) \<Rightarrow>
        if rq_pubkey rq = id_pubkey LOCAL_STDIO_IDENTITY then Inr relays
        else (case lookup (rq_pubkey rq) of
            Inl e \<Rightarrow> if exn_cls e = NostrAuthRelayLookupError then Inr relays else Inl e
          | Inr caller_relays \<Rightarrow> Inr (merge_relays relays caller_relays))
    | _ \<Rightarrow> Inr relays)"

definition first_nonempty :: "string list \<Rightarrow> ('y, string list) step \<Rightarrow> ('y, string list) step" where
  "first_nonempty xs other = (if xs \<noteq> [] then ret (Inr xs) else other)"

definition catalog_relays_of :: "'y catalogue_env \<Rightarrow> ('y, string list) step" where
  "catalog_relays_of C =
     and_then (first_nonempty (items_of (ct_relays C)) (first_nonempty (catalog_env_items C ''NOSTR_YNH_RELAYS'') (catalog_setting_items C ''relays'')))
       (\<lambda>relays. ret (widen_with_caller_relays C relays))"

definition catalog_trusted_of :: "'y catalogue_env \<Rightarrow> ('y, string list) step" where
  "catalog_trusted_of C = first_nonempty (items_of (ct_trusted_publishers C))
     (first_nonempty (catalog_env_items C ''NOSTR_YNH_TRUSTED_PUBLISHERS'') (catalog_setting_items C ''trusted_publishers''))"

subsection \<open>The source and the tool\<close>

definition validate_catalog_source :: "'y catalogue_env \<Rightarrow> string \<Rightarrow> json \<Rightarrow> exn + unit" where
  "validate_catalog_source C source ref =
     (if ref \<noteq> JNull then
        ebind (guard (starts_with source ''https://'') (Exn ToolInputError ''a ref may only be used with an HTTPS remote repository'')) (\<lambda>_.
        guard (str_strip (text_of ref) \<noteq> []) (Exn ToolInputError ''remote repository ref must not be empty''))
      else if starts_with source ''https://'' \<or> starts_with source ''http://'' then
        ebind (guard (starts_with source ''https://'') (Exn ToolInputError ''remote catalogue package sources must use HTTPS'')) (\<lambda>_.
        guard (\<not> ct_require_remote_ref C) (Exn ToolInputError ''an explicit ref is required for remote catalogue sources''))
      else guard (ct_directory C source) (Exn ToolInputError ''local catalogue source must be an existing directory''))"

definition check_publisher_key :: "'y catalogue_env \<Rightarrow> exn + unit" where
  "check_publisher_key C =
     ebind (guard (ks_regular (ct_key C) \<and> \<not> ks_symlink (ct_key C))
       (Exn YunohostUnavailableError (''catalog publisher key is not a regular file: '' @ ct_key_path C))) (\<lambda>_.
     guard (\<not> group_or_world (ks_mode (ct_key C)))
       (Exn YunohostUnavailableError (''catalog publisher key is not owner-only (expected mode 0600): '' @ ct_key_path C)))"

definition cli_result :: "'y catalogue_env \<Rightarrow> cli_outcome \<Rightarrow> exn + json" where
  "cli_result C out = (case out of
      Cli_Timeout \<Rightarrow> Inl (Exn YunohostUnavailableError ''catalog CLI timed out'')
    | Cli_Exit status stdout stderr \<Rightarrow>
        ebind (guard (length stdout \<le> 2000000) (Exn YunohostUnavailableError ''catalog CLI output exceeded the configured limit'')) (\<lambda>_.
        case json_loads (ad_libs (ct_adapter C)) stdout of
          Inl _ \<Rightarrow> Inl (Exn YunohostUnavailableError (''catalog CLI produced invalid JSON (exit '' @ show_int status @ ''): '' @ last_chars 2000 stderr))
        | Inr v \<Rightarrow>
            ebind (guard (status = 0) (Exn YunohostUnavailableError (''catalog CLI failed (exit '' @ show_int status @ ''): '' @ last_chars 2000 stderr))) (\<lambda>_.
            ebind (guard (is_dict v) (Exn YunohostUnavailableError ''catalog CLI JSON result must be an object'')) (\<lambda>_. Inr v))))"

definition run_catalog_json :: "'y catalogue_env \<Rightarrow> string list \<Rightarrow> json option \<Rightarrow> bool \<Rightarrow> ('y, json) step" where
  "run_catalog_json C args temp requires_key =
     and_then (ret (guard (ct_cli_executable C) (Exn YunohostUnavailableError (''catalog CLI is not executable: '' @ ct_cli_path C)))) (\<lambda>_.
     and_then (ret (if requires_key then check_publisher_key C else Inr ())) (\<lambda>_ y.
     case ct_cli C args temp y of (y', out) \<Rightarrow> (y', cli_result C out)))"

text \<open>\<open>_ci_result_arg\<close>: the result of a CI run goes into a temporary file whose path is an argument.\<close>

definition ci_result_args :: "'y catalogue_env \<Rightarrow> json \<Rightarrow> json \<Rightarrow> json \<Rightarrow> string list" where
  "ci_result_args C ci_result ci_provider ci_ref =
     (if ci_result = JNull then []
      else [''--ci-result'', ct_temp_path C] @ (if truthy ci_provider then [''--ci-provider'', text_of ci_provider] else []) @
        (if truthy ci_ref then [''--ci-ref'', text_of ci_ref] else []))"

definition ci_result_file :: "json \<Rightarrow> json option" where
  "ci_result_file ci_result = (if ci_result = JNull then None else Some ci_result)"

definition source_args :: "string \<Rightarrow> json \<Rightarrow> string list" where
  "source_args source ref = (if ref \<noteq> JNull then [''--repository-url'', source, ''--ref'', text_of ref] else [''--repo'', source])"

definition json_strings :: "string list \<Rightarrow> json" where
  "json_strings ss = JList (map JStr ss)"

subsection \<open>The methods\<close>

definition example_hashes :: dict where
  "example_hashes = [(''version'', JStr ''1.0~ynh1''), (''commit'', JStr (replicate 40 CHR ''a'')),
     (''manifest_hash'', JStr (''sha256:'' @ replicate 64 CHR ''0'')), (''content_hash'', JStr (''sha256:'' @ replicate 64 CHR ''1''))]"

definition adapter_catalog_package_inspect :: "'y catalogue_env \<Rightarrow> dict \<Rightarrow> ('y, json) step" where
  "adapter_catalog_package_inspect C b =
     (let source = text_of (dget b ''source''); ref = dget b ''ref'' in
      checked (validate_catalog_source C source ref)
      (dispatch (ct_adapter C) ''catalog.package_inspect'' (sent b [''source'', ''ref''])
        ([(''fake'', JBool True), (''source'', JStr source), (''ref'', ref), (''id'', JStr ''example'')] @ example_hashes)
        (if ref \<noteq> JNull \<or> starts_with source ''https://'' \<or> starts_with source ''http://'' then
           checked (guard (starts_with source ''https://'') (Exn ToolInputError ''remote catalogue package sources must use HTTPS''))
           (and_then (run_catalog_json C ([''preview''] @ (if truthy ref then [''--ref'', text_of ref] else []) @ [source]) None False)
              (spread [(''fake'', JBool False)]))
         else and_then (adapter_package_inspect (ct_adapter C) [(''source'', JStr source)])
              (spread [(''fake'', JBool False), (''source'', JStr (ct_resolve C source))]))))"

text \<open>\<open>{tag[0]: tag[1] for tag in tags if len(tag) >= 2}\<close>, of which only textual keys are looked up; the last
  of several tags of one name is found.\<close>

fun tag_table :: "json list \<Rightarrow> exn + dict" where
  "tag_table [] = Inr []"
| "tag_table (v # vs) = (case v of
      JList (JStr k # x # _) \<Rightarrow> ebind (tag_table vs) (\<lambda>d. Inr (if dhas d k then d else (k, x) # d))
    | JList (JList _ # _ # _) \<Rightarrow> Inl (Exn TypeError ''unhashable type'')
    | JList (JObj _ # _ # _) \<Rightarrow> Inl (Exn TypeError ''unhashable type'')
    | JList _ \<Rightarrow> tag_table vs
    | JStr (a # c # _) \<Rightarrow> ebind (tag_table vs) (\<lambda>d. Inr (if dhas d [a] then d else ([a], JStr [c]) # d))
    | JStr _ \<Rightarrow> tag_table vs
    | JObj d \<Rightarrow> if length d < 2 then tag_table vs else Inl (Exn KeyError ''0'')
    | _ \<Rightarrow> Inl (Exn TypeError ''object has no len()''))"

definition declared_tags :: "json \<Rightarrow> exn + dict" where
  "declared_tags result =
     ebind (get_or result ''event'' (JObj [])) (\<lambda>event. ebind (get_or event ''tags'' (JList [])) (\<lambda>tags.
     ebind (py_tuple tags) tag_table))"

definition adapter_catalog_publish_plan :: "'y catalogue_env \<Rightarrow> dict \<Rightarrow> ('y, json) step" where
  "adapter_catalog_publish_plan C b =
     (let source = text_of (dget b ''source''); ref = dget b ''ref''; ci_result = dget b ''ci_result'';
          echo = [(''ci_result'', ci_result), (''ci_provider'', dget b ''ci_provider''), (''ci_ref'', dget b ''ci_ref'')] in
      checked (validate_catalog_source C source ref)
      (and_then (catalog_relays_of C) (\<lambda>relays.
       dispatch (ct_adapter C) ''catalog.publish_plan'' (sent b [''source'', ''ref'', ''ci_result'', ''ci_provider'', ''ci_ref''])
         ([(''fake'', JBool True), (''source'', JStr source), (''ref'', ref), (''relays'', json_strings relays), (''app_id'', JStr ''example'')] @
            example_hashes @ [(''naddr'', JStr ''naddr1qqxyz''), (''event'', JObj [(''id'', JStr (replicate 64 CHR ''0'')), (''kind'', JInt 30078)])] @ echo @
            (if ci_result = JNull then [] else [(''attestation'', JObj [(''event'', JObj [(''id'', JStr (replicate 64 CHR ''1'')), (''kind'', JInt 30080)]),
               (''naddr'', JStr ''naddr1qqxyz-attest''), (''published'', JBool False)])]))
         (and_then (run_catalog_json C ([''publish'', ''--json'', ''--dry-run'', ''--private-key-file'', ct_key_path C] @
              (if relays = [] then [] else [''--relays'', str_join '','' relays]) @ source_args source ref @
              ci_result_args C ci_result (dget b ''ci_provider'') (dget b ''ci_ref'')) (ci_result_file ci_result) True) (\<lambda>result.
          and_then (ret (declared_tags result)) (\<lambda>tags.
          spread ([(''fake'', JBool False), (''source'', JStr source), (''ref'', ref), (''relays'', json_strings relays), (''app_id'', dget tags ''d''),
             (''version'', dget tags ''version''), (''commit'', dget tags ''commit''), (''manifest_hash'', dget tags ''manifest''),
             (''content_hash'', dget tags ''content'')] @ echo) result))))))"

definition adapter_catalog_verify :: "'y catalogue_env \<Rightarrow> dict \<Rightarrow> ('y, json) step" where
  "adapter_catalog_verify C b =
     (let value = text_of (dget b ''event_or_naddr'') in
      dispatch (ct_adapter C) ''catalog.verify'' (sent b [''event_or_naddr''])
        [(''fake'', JBool True), (''valid'', JBool True), (''value'', JStr value)]
        (if starts_with value ''naddr'' then and_then (run_catalog_json C [''inspect'', ''--json'', value] None False) (spread [(''fake'', JBool False)])
         else case json_loads (ad_libs (ct_adapter C)) value of
             Inl _ \<Rightarrow> ret (Inl (Exn ToolInputError ''event_or_naddr must be a JSON event or naddr''))
           | Inr event \<Rightarrow> and_then (run_catalog_json C [''verify'', ''--json'', ct_temp_path C] (Some event) False) (spread [(''fake'', JBool False)])))"

text \<open>A published event is verified again, and the report is part of the result.\<close>

definition verified_result :: "'y catalogue_env \<Rightarrow> json \<Rightarrow> ('y, json) step" where
  "verified_result C result = (case result of
      JObj d \<Rightarrow>
        if truthy (dget d ''published'') \<and> is_dict (dget d ''event'') then
          and_then (adapter_catalog_verify C [(''event_or_naddr'', JStr (dumps (ad_libs (ct_adapter C)) (dget d ''event'')))]) (\<lambda>v.
          ret (Inr (JObj (dset d ''verification'' v))))
        else ret (Inr result)
    | _ \<Rightarrow> ret (Inr result))"

definition publish_reports :: "string list \<Rightarrow> json" where
  "publish_reports relays = JList (map (\<lambda>r. JObj [(''relay'', JStr r), (''published'', JBool True)]) relays)"

definition adapter_catalog_publish :: "'y catalogue_env \<Rightarrow> dict \<Rightarrow> ('y, json) step" where
  "adapter_catalog_publish C b =
     (let source = text_of (dget b ''source''); ref = dget b ''ref''; ci_result = dget b ''ci_result'' in
      checked (validate_catalog_source C source ref)
      (and_then (catalog_relays_of C) (\<lambda>relays.
       checked (guard (relays \<noteq> []) (Exn ToolInputError ''catalog_relays must contain at least one relay URL''))
       (dispatch (ct_adapter C) ''catalog.publish'' (sent b [''source'', ''ref'', ''confirmation_id'', ''plan_id'', ''ci_result'', ''ci_provider'', ''ci_ref''])
         ([(''fake'', JBool True), (''source'', JStr source), (''ref'', ref), (''relays'', publish_reports relays), (''published'', JBool True),
           (''naddr'', JStr ''naddr1qqxyz''), (''event'', JObj [(''id'', JStr (replicate 64 CHR ''0'')), (''kind'', JInt 30078)]),
           (''verification'', JObj [(''valid'', JBool True), (''mode'', JStr ''local-event'')])] @
           (if ci_result = JNull then [] else [(''attestation'', JObj [(''event'', JObj [(''id'', JStr (replicate 64 CHR ''1'')), (''kind'', JInt 30080)]),
              (''naddr'', JStr ''naddr1qqxyz-attest''), (''published'', JBool True), (''relays'', publish_reports relays)])]))
         (and_then (run_catalog_json C ([''publish'', ''--json'', ''--private-key-file'', ct_key_path C, ''--relays'', str_join '','' relays] @
              source_args source ref @ ci_result_args C ci_result (dget b ''ci_provider'') (dget b ''ci_ref'')) (ci_result_file ci_result) True) (\<lambda>result.
          and_then (verified_result C result) (spread [(''fake'', JBool False)])))))))"

definition adapter_catalog_list :: "'y catalogue_env \<Rightarrow> dict \<Rightarrow> ('y, json) step" where
  "adapter_catalog_list C b =
     and_then (catalog_relays_of C) (\<lambda>relays.
     dispatch (ct_adapter C) ''catalog.list'' []
       [(''fake'', JBool True), (''relays'', json_strings relays),
        (''apps'', JObj [(''example'', JObj [(''id'', JStr ''example''), (''name'', JStr ''Example''), (''version'', JStr ''1.0~ynh1'')])])]
       (checked (guard (relays \<noteq> []) (Exn ToolInputError ''catalog_relays must contain at least one relay URL''))
        (and_then (catalog_trusted_of C) (\<lambda>publishers.
         and_then (run_catalog_json C ([''catalog'', ''--relays'', str_join '','' relays] @
              (if publishers = [] then [] else [''--trusted-publishers'', str_join '','' publishers])) None False) (\<lambda>result.
         spread [(''fake'', JBool False), (''relays'', json_strings relays)] result)))))"

end
