(* ===== verification/Catalogue_Tools.thy ===== *)
theory Catalogue_Tools
  imports Catalogue
begin

text \<open>
  The catalogue tools of \<^verbatim>\<open>server.py\<close>: the reading tools, the plan of a publication, and the publication, which redeems
  a plan, publishes through the adapter, and may announce the result through the Armada tools.
\<close>

subsection \<open>Reading tools\<close>

definition on_system :: "('y, 'a) step \<Rightarrow> ('y frontend, 'a) step" where
  "on_system m fr = (case m (fr_system fr) of (y, r) \<Rightarrow> (fr\<lparr>fr_system := y\<rparr>, r))"

definition on_catalog_plans :: "(mem_store \<Rightarrow> mem_store \<times> (exn + 'a)) \<Rightarrow> ('y frontend, 'a) step" where
  "on_catalog_plans f fr = (case f (fr_catalog_plans fr) of (st, r) \<Rightarrow> (fr\<lparr>fr_catalog_plans := st\<rparr>, r))"

definition tool_catalog_package_inspect :: decoration where
  "tool_catalog_package_inspect = \<lparr>tl_name = ''catalog_package_inspect'', tl_params = [(''source'', None), (''ref'', Some JNull)],
     tl_scope = Some CATALOG_INSPECT, tl_audit = None, tl_sanitizer = None, tl_gate = None\<rparr>"

definition tool_catalog_verify :: decoration where
  "tool_catalog_verify = \<lparr>tl_name = ''catalog_verify'', tl_params = [(''event_or_naddr'', None)],
     tl_scope = Some CATALOG_VERIFY, tl_audit = None, tl_sanitizer = None, tl_gate = None\<rparr>"

definition tool_catalog_list :: decoration where
  "tool_catalog_list = \<lparr>tl_name = ''catalog_list'', tl_params = [],
     tl_scope = Some CATALOG_INSPECT, tl_audit = None, tl_sanitizer = None, tl_gate = None\<rparr>"

definition run_catalog_package_inspect where
  "run_catalog_package_inspect E C current =
     decorated E tool_catalog_package_inspect [] [] current (\<lambda>k. on_system (adapter_catalog_package_inspect (C\<lparr>ct_current := current\<rparr>) k))"

definition run_catalog_verify where
  "run_catalog_verify E C current = decorated E tool_catalog_verify [] [] current (\<lambda>k. on_system (adapter_catalog_verify (C\<lparr>ct_current := current\<rparr>) k))"

definition run_catalog_list where
  "run_catalog_list E C current = decorated E tool_catalog_list [] [] current (\<lambda>k. on_system (adapter_catalog_list (C\<lparr>ct_current := current\<rparr>) k))"

subsection \<open>Plans\<close>

definition PLAN_FIELDS :: "string list" where
  "PLAN_FIELDS = [''source'', ''ref'', ''ci_result'', ''ci_provider'', ''ci_ref'']"

definition catalog_publish_plan_body ::
  "('st, 'y) server_env \<Rightarrow> 'y catalogue_env \<Rightarrow> authenticated_request option \<Rightarrow> string \<Rightarrow> dict \<Rightarrow> ('y frontend, json) step" where
  "catalog_publish_plan_body E C current plan_id k =
     and_then (on_system (adapter_catalog_publish_plan (C\<lparr>ct_current := current\<rparr>) k)) (\<lambda>plan.
     and_then (ret (require_current_request current)) (\<lambda>rq.
     and_then (on_catalog_plans (mem_create (se_libs E) (se_now E) plan_id (rq_pubkey rq) ''catalog.publish'' (sent k PLAN_FIELDS) plan False)) (\<lambda>t.
     case plan of
       JObj d \<Rightarrow> answer (dset (dset d ''plan_id'' (JStr (tk_id t))) ''expires_at'' (JFloat (tk_expires_at t)))
     | _ \<Rightarrow> ret (Inl (Exn TypeError ''object is not a mapping'')))))"

definition tool_catalog_publish_plan :: decoration where
  "tool_catalog_publish_plan = \<lparr>tl_name = ''catalog_publish_plan'', tl_params = [(''source'', None), (''ref'', Some JNull),
     (''ci_result'', Some JNull), (''ci_provider'', Some JNull), (''ci_ref'', Some JNull)],
     tl_scope = Some CATALOG_INSPECT, tl_audit = None, tl_sanitizer = None, tl_gate = None\<rparr>"

definition run_catalog_publish_plan where
  "run_catalog_publish_plan E C plan_id current =
     decorated E tool_catalog_publish_plan [] [] current (catalog_publish_plan_body E C current plan_id)"

subsection \<open>Publication\<close>

text \<open>The arguments that the stored plan implies.\<close>

definition planned_arguments :: "json \<Rightarrow> exn + dict" where
  "planned_arguments plan = emap (\<lambda>key. ebind (get_or plan key JNull) (\<lambda>v. Inr (key, v))) PLAN_FIELDS"

definition redeem_plan :: "libs \<Rightarrow> real \<Rightarrow> authenticated_request \<Rightarrow> string \<Rightarrow> mem_store \<Rightarrow> mem_store \<times> (exn + ticket)" where
  "redeem_plan L now rq plan_id st = (case mem_peek now plan_id st of
      (st1, Inl e) \<Rightarrow> (st1, Inl e)
    | (st1, Inr waiting) \<Rightarrow> (case planned_arguments (tk_plan waiting) of
        Inl e \<Rightarrow> (st1, Inl e)
      | Inr arguments \<Rightarrow> mem_consume L now plan_id (rq_pubkey rq) ''catalog.publish'' arguments False False st1))"

definition invalid_catalog_plan :: "mem_store \<times> (exn + 'a) \<Rightarrow> mem_store \<times> (exn + 'a)" where
  "invalid_catalog_plan r = (fst r, reraise (\<lambda>e. exn_cls e \<in> {ConfirmationError, KeyError})
     (\<lambda>e. Exn ConfirmationError (''invalid catalog plan_id: '' @ exn_msg e)) (snd r))"

text \<open>The call of the adapter for a plan, with the ids of this call.\<close>

definition publication_call :: "json \<Rightarrow> dict \<Rightarrow> exn + dict" where
  "publication_call plan k =
     ebind (item_of plan ''source'') (\<lambda>source. ebind (get_or plan ''ref'' JNull) (\<lambda>ref.
     ebind (get_or plan ''ci_result'' JNull) (\<lambda>ci_result. ebind (get_or plan ''ci_provider'' JNull) (\<lambda>ci_provider.
     ebind (get_or plan ''ci_ref'' JNull) (\<lambda>ci_ref.
     Inr [(''source'', source), (''ref'', ref), (''confirmation_id'', dget k ''confirmation_id''), (''plan_id'', dget k ''plan_id''),
          (''ci_result'', ci_result), (''ci_provider'', ci_provider), (''ci_ref'', ci_ref)])))))"

definition publish_planned ::
  "('st, 'y) server_env \<Rightarrow> 'y catalogue_env \<Rightarrow> authenticated_request option \<Rightarrow> dict \<Rightarrow> ('y frontend, json \<times> json) step" where
  "publish_planned E C current k =
     and_then (ret (require_current_request current)) (\<lambda>rq.
     and_then (on_catalog_plans (\<lambda>st. invalid_catalog_plan (redeem_plan (se_libs E) (se_now E) rq (text_of (dget k ''plan_id'')) st))) (\<lambda>t.
     and_then (ret (publication_call (tk_plan t) k)) (\<lambda>b.
     and_then (on_system (adapter_catalog_publish (C\<lparr>ct_current := current\<rparr>) b)) (\<lambda>result.
     ret (Inr (dget b ''source'', result))))))"

text \<open>The optional announcement, whose failure is a part of the result.\<close>

definition announcement_failed :: json where
  "announcement_failed = JObj [(''status'', JStr ''unavailable''), (''warning'', JStr ''Armada announcement failed after catalogue publication'')]"

definition with_announcement ::
  "bool \<Rightarrow> armada_env \<Rightarrow> authenticated_request option \<Rightarrow> json \<Rightarrow> json \<Rightarrow> json armada_step" where
  "with_announcement auto_announce M current source result st =
     (if \<not> (ae_enabled M \<and> auto_announce) then (st, Inr result)
      else case result of
        JObj d \<Rightarrow>
          if dget d ''published'' \<noteq> JBool True then (st, Inr result)
          else (case catalog_announce_impl M current [(''source'', source), (''catalogue_publication'',
                    JStr (json_text (float_text (ae_libs M)) (default_format\<lparr>item_separator := '','', key_separator := '':''\<rparr>) (JObj d)))] st of
              (st', Inl _) \<Rightarrow> (st', Inr (JObj (dset d ''announcement'' announcement_failed)))
            | (st', Inr v) \<Rightarrow> (st', Inr (JObj (dset d ''announcement'' v))))
      | _ \<Rightarrow> (st, Inl (Exn AttributeError ''object has no attribute get'')))"

definition catalog_publish_body ::
  "('st, 'y) server_env \<Rightarrow> 'y catalogue_env \<Rightarrow> bool \<Rightarrow> armada_env \<Rightarrow> authenticated_request option \<Rightarrow> dict \<Rightarrow> ('y frontend \<times> armada, json) step" where
  "catalog_publish_body E C auto_announce M current k s =
     (case publish_planned E C current k (fst s) of
        (fr, Inl e) \<Rightarrow> ((fr, snd s), Inl e)
      | (fr, Inr (source, result)) \<Rightarrow>
          (case with_announcement auto_announce M current source result (snd s) of (ar, r) \<Rightarrow> ((fr, ar), r)))"

definition catalog_publish_gate :: "('st, 'y) server_env \<Rightarrow> confirmation_gate" where
  "catalog_publish_gate E = \<lparr>cg_policy_key = (\<lambda>_. Inr ''catalog.publish''), cg_policy = se_policy E, cg_checks = None,
     cg_plan_builder = Some (\<lambda>k. Inr (JObj [(''action'', JStr ''publish YunoHost package declaration to configured Nostr relays''),
       (''plan_id'', dget k ''plan_id''), (''warning'', JStr ''This publishes externally visible catalogue metadata.'')])),
     cg_defer_to_broker = defer_to_broker E\<rparr>"

definition run_catalog_publish ::
  "('st, 'y) server_env \<Rightarrow> 'y catalogue_env \<Rightarrow> bool \<Rightarrow> armada_env \<Rightarrow> string \<Rightarrow> string \<Rightarrow> authenticated_request option \<Rightarrow> dict \<Rightarrow>
     ('st, 'y frontend \<times> armada, json) action" where
  "run_catalog_publish E C auto_announce M new_id audit_id current k =
     write_tool (se_libs E) (se_fmt E) (se_api E) (se_now E) new_id audit_id CATALOG_PUBLISH ''catalog.publish'' None (catalog_publish_gate E) current
       (catalog_publish_body E C auto_announce M current) k"

subsection \<open>What a publication needs\<close>

lemma redeem_plan_Inr:
  assumes "redeem_plan L now rq i st = (st', Inr t)"
  shows "map_of (pending st) i = Some t \<and> now < tk_expires_at t \<and> tk_pubkey t = rq_pubkey rq \<and> tk_tool t = ''catalog.publish'' \<and>
    (\<exists>arguments. planned_arguments (tk_plan t) = Inr arguments \<and> tk_arguments_hash t = hash_arguments L arguments) \<and> map_of (pending st') i = None"
  using assms by (auto simp: redeem_plan_def mem_peek_def mem_consume_def mem_del_def split: option.splits if_splits sum.splits)

lemma on_catalog_plans_system:
  "on_catalog_plans f fr = (fr', r) \<Longrightarrow> fr_system fr' = fr_system fr \<and> f (fr_catalog_plans fr) = (fr_catalog_plans fr', r)"
  by (auto simp: on_catalog_plans_def split: prod.splits)

lemma on_system_parts:
  "on_system m fr = (fr', r) \<Longrightarrow> m (fr_system fr) = (fr_system fr', r) \<and> fr_catalog_plans fr' = fr_catalog_plans fr"
  by (auto simp: on_system_def split: prod.splits)

lemma invalid_catalog_plan_Inr: "invalid_catalog_plan x = (st', Inr t) \<longleftrightarrow> x = (st', Inr t)"
  by (cases x) (auto simp: invalid_catalog_plan_def)

lemma publish_planned_cases:
  assumes "publish_planned E C current k fr = (fr', r)"
  obtains (refused) e where "r = Inl e" "fr_system fr' = fr_system fr"
  | (published) rq t b where "current = Some rq" "redeem_plan (se_libs E) (se_now E) rq (text_of (dget k ''plan_id'')) (fr_catalog_plans fr) = (fr_catalog_plans fr', Inr t)"
      "publication_call (tk_plan t) k = Inr b" "adapter_catalog_publish (C\<lparr>ct_current := current\<rparr>) b (fr_system fr) = (fr_system fr', map_sum id snd r)"
proof -
  from assms have run: "and_then (ret (require_current_request current)) (\<lambda>rq.
     and_then (on_catalog_plans (\<lambda>st. invalid_catalog_plan (redeem_plan (se_libs E) (se_now E) rq (text_of (dget k ''plan_id'')) st))) (\<lambda>t.
     and_then (ret (publication_call (tk_plan t) k)) (\<lambda>b.
     and_then (on_system (adapter_catalog_publish (C\<lparr>ct_current := current\<rparr>) b)) (\<lambda>result. ret (Inr (dget b ''source'', result)))))) fr = (fr', r)"
    by (simp add: publish_planned_def)
  then show thesis
  proof (cases rule: and_then_split)
    case (stopped e)
    then show thesis using refused by (auto simp: ret_def)
  next
    case (went_on fr0 rq)
    then have fr0: "fr0 = fr" and rq: "current = Some rq" by (auto simp: ret_def require_current_request_def split: option.splits)
    from went_on(2) show thesis
    proof (cases rule: and_then_split)
      case (stopped e)
      then show thesis using refused on_catalog_plans_system fr0 by blast
    next
      case (went_on fr1 t)
      note plans = on_catalog_plans_system [OF went_on(1)]
      then have t: "redeem_plan (se_libs E) (se_now E) rq (text_of (dget k ''plan_id'')) (fr_catalog_plans fr) = (fr_catalog_plans fr1, Inr t)"
        "fr_system fr1 = fr_system fr" by (simp_all add: invalid_catalog_plan_Inr fr0)
      from went_on(2) show thesis
      proof (cases rule: and_then_split)
        case (stopped e)
        then show thesis using refused t(2) by (auto simp: ret_def)
      next
        case (went_on fr2 b)
        then have b: "publication_call (tk_plan t) k = Inr b" "fr2 = fr1" by (auto simp: ret_def)
        show thesis
        proof (cases "adapter_catalog_publish (C\<lparr>ct_current := current\<rparr>) b (fr_system fr)")
          case (Pair y q)
          with went_on(2) b(2) t(2) have "fr' = fr1\<lparr>fr_system := y\<rparr>" "q = map_sum id snd r"
            by (auto simp: and_then_def on_system_def ret_def split: sum.splits)
          with Pair published [OF rq _ b(1)] t show thesis by simp
        qed
      qed
    qed
  qed
qed

lemma publish_body_planned:
  assumes "catalog_publish_body E C auto_announce M current k (fr, ar) = ((fr', ar'), r)" "fr_system fr' \<noteq> fr_system fr"
    and "i = text_of (dget k ''plan_id'')"
  shows "\<exists>rq t arguments b. current = Some rq \<and> map_of (pending (fr_catalog_plans fr)) i = Some t \<and> se_now E < tk_expires_at t \<and>
    tk_pubkey t = rq_pubkey rq \<and> tk_tool t = ''catalog.publish'' \<and> planned_arguments (tk_plan t) = Inr arguments \<and>
    tk_arguments_hash t = hash_arguments (se_libs E) arguments \<and> publication_call (tk_plan t) k = Inr b \<and>
    fr_system fr' = fst (adapter_catalog_publish (C\<lparr>ct_current := current\<rparr>) b (fr_system fr)) \<and> map_of (pending (fr_catalog_plans fr')) i = None"
proof -
  obtain r0 where "publish_planned E C current k fr = (fr', r0)"
    using assms(1) by (auto simp: catalog_publish_body_def split: prod.splits sum.splits)
  then show ?thesis
  proof (cases rule: publish_planned_cases)
    case (published rq t b)
    with redeem_plan_Inr [OF published(2)] assms(3) show ?thesis by (auto intro!: exI [of _ rq] exI [of _ t] exI [of _ b])
  qed (use assms(2) in simp)
qed

text \<open>A guarded tool moves the system only by the body, on the arguments that the gate lets through.\<close>

lemma write_tool_system:
  "w_system (fst (write_tool L fmt api now new_id i s tool sanitizer g current body k w)) =
     (case current of
        Some rq \<Rightarrow> if has_scope rq s \<and> \<not> w_locked w then
            (case snd (require_confirmation_gate L api now new_id g current k (w_store w)) of
               Inr (Run args tk) \<Rightarrow> fst (body args (w_system w)) | _ \<Rightarrow> w_system w)
          else w_system w
      | None \<Rightarrow> w_system w)"
proof (cases current)
  case (Some rq)
  have "w_system (fst (confirmed L api now new_id g current body k v)) =
      (case snd (require_confirmation_gate L api now new_id g current k (w_store v)) of
         Inr (Run args tk) \<Rightarrow> fst (body args (w_system v)) | _ \<Rightarrow> w_system v)" for v
    by (auto simp: confirmed_def set_consumed_ticket_def Let_def split: prod.splits sum.splits gate_result.splits option.splits)
  then show ?thesis by (simp add: Some write_tool_def scoped_def require_current_request_def audited_system split_beta Let_def
        split: sum.split gate_result.split)
qed (simp add: write_tool_def scoped_def require_current_request_def)

lemma gate_keeps_arguments:
  assumes "snd (require_confirmation_gate L api now new_id g current k st) = Inr (Run args tk)" "key \<noteq> ''confirmation_id''"
  shows "dget args key = dget k key"
  using assms
  by (auto simp: require_confirmation_gate_def Let_def dget_dset dget_dpop issue_ticket_not_run split: sum.splits prod.splits if_splits)

text \<open>
  C17: only what was planned is published.  \<open>catalog_publish\<close> moves the system only for a caller with the publication scope,
  while no other write runs and after its gate has let the call through, and only if its plan is one that this caller
  made with \<open>catalog_publish_plan\<close>, in time, for exactly the source, revision and CI result that the plan records; the
  adapter is called with these, once, and the plan is gone afterwards.
\<close>

theorem publication_planned:
  assumes "run_catalog_publish E C auto_announce M new_id audit_id current k w = (w', r)"
    and "fr_system (fst (w_system w')) \<noteq> fr_system (fst (w_system w))" "i = text_of (dget k ''plan_id'')"
  shows "\<exists>rq args tk t arguments b. current = Some rq \<and> has_scope rq CATALOG_PUBLISH \<and> \<not> w_locked w \<and>
    snd (require_confirmation_gate (se_libs E) (se_api E) (se_now E) new_id (catalog_publish_gate E) current k (w_store w)) = Inr (Run args tk) \<and>
    map_of (pending (fr_catalog_plans (fst (w_system w)))) i = Some t \<and> se_now E < tk_expires_at t \<and>
    tk_pubkey t = rq_pubkey rq \<and> tk_tool t = ''catalog.publish'' \<and> planned_arguments (tk_plan t) = Inr arguments \<and>
    tk_arguments_hash t = hash_arguments (se_libs E) arguments \<and> publication_call (tk_plan t) args = Inr b \<and>
    fr_system (fst (w_system w')) = fst (adapter_catalog_publish (C\<lparr>ct_current := current\<rparr>) b (fr_system (fst (w_system w)))) \<and>
    map_of (pending (fr_catalog_plans (fst (w_system w')))) i = None"
proof -
  note sys = write_tool_system [of "se_libs E" "se_fmt E" "se_api E" "se_now E" new_id audit_id CATALOG_PUBLISH "''catalog.publish''" None
      "catalog_publish_gate E" current "catalog_publish_body E C auto_announce M current" k w]
  with assms(1,2) obtain rq args tk where run: "current = Some rq" "has_scope rq CATALOG_PUBLISH" "\<not> w_locked w"
      "snd (require_confirmation_gate (se_libs E) (se_api E) (se_now E) new_id (catalog_publish_gate E) current k (w_store w)) = Inr (Run args tk)"
    by (auto simp: run_catalog_publish_def split: option.splits if_splits sum.splits gate_result.splits)
  then have body: "w_system w' = fst (catalog_publish_body E C auto_announce M current args (w_system w))"
    using sys assms(1) by (simp add: run_catalog_publish_def)
  have i: "i = text_of (dget args ''plan_id'')" using gate_keeps_arguments [OF run(4), of "''plan_id''"] assms(3) by simp
  obtain fr ar fr' ar' where parts: "w_system w = (fr, ar)" "w_system w' = (fr', ar')" by fastforce
  then obtain q where "catalog_publish_body E C auto_announce M current args (fr, ar) = ((fr', ar'), q)" using body by (metis prod.collapse)
  from publish_body_planned [OF this _ i] assms(2) parts show ?thesis using run by simp
qed

text \<open>
  C18: an announcement is best effort.  The publication does with Armada exactly what it does without: the same plans, the
  same system, and the same result or error; with Armada the result may have one more entry, whether the announcement
  was made, was refused or failed with any exception.  The deliveries change only as by the tool \<open>catalog_announce\<close>.
\<close>

theorem announcement_best_effort:
  "case (catalog_publish_body E C auto_announce (M\<lparr>ae_enabled := False\<rparr>) current k (fr, ar), catalog_publish_body E C auto_announce M current k (fr, ar)) of
     (((fr0, ar0), r0), ((fr1, ar1), r1)) \<Rightarrow> fr1 = fr0 \<and> ar0 = ar \<and> armada_step\<^sup>*\<^sup>* ar ar1 \<and>
       (case r0 of Inl e \<Rightarrow> r1 = Inl e \<and> ar1 = ar
        | Inr (JObj d) \<Rightarrow> r1 = Inr (JObj d) \<and> ar1 = ar \<or>
            ae_enabled M \<and> auto_announce \<and> dget d ''published'' = JBool True \<and> (\<exists>told. r1 = Inr (JObj (dset d ''announcement'' told)))
        | _ \<Rightarrow> ar1 = ar)"
proof -
  have silent: "with_announcement auto_announce (M\<lparr>ae_enabled := False\<rparr>) current source result ar = (ar, Inr result)" for source result
    by (simp add: with_announcement_def)
  have told: "armada_step\<^sup>*\<^sup>* ar ar1 \<and> (case result of JObj d \<Rightarrow> r1 = Inr (JObj d) \<and> ar1 = ar \<or>
            ae_enabled M \<and> auto_announce \<and> dget d ''published'' = JBool True \<and> (\<exists>told. r1 = Inr (JObj (dset d ''announcement'' told)))
        | _ \<Rightarrow> ar1 = ar)"
    if "with_announcement auto_announce M current source result ar = (ar1, r1)" for source result ar1 r1
    using that by (auto simp: with_announcement_def split: if_splits json.splits prod.splits sum.splits intro: armada_step.announce)
  show ?thesis
    using told by (auto simp: catalog_publish_body_def silent split: prod.splits sum.splits json.splits)
qed

subsection \<open>Relays\<close>

text \<open>Widening never drops a configured relay or changes their order, and adds exactly the caller's others.\<close>

lemma merge_relays_widens:
  "take (length relays) (merge_relays relays urls) = relays \<and> set (merge_relays relays urls) = set relays \<union> set urls \<and>
   (distinct relays \<longrightarrow> distinct (merge_relays relays urls))"
proof (induction urls arbitrary: relays)
  case (Cons u urls)
  have step: "merge_relays relays (u # urls) = merge_relays (if u \<in> set relays then relays else relays @ [u]) urls"
    by (simp add: merge_relays_def)
  show ?case
  proof (cases "u \<in> set relays")
    case True
    with Cons [of relays] step show ?thesis by auto
  next
    case False
    have "take (length relays) (take (length (relays @ [u])) xs) = take (length relays) xs" for xs :: "string list" by (simp add: min_def)
    with Cons [of "relays @ [u]"] have "take (length relays) (merge_relays (relays @ [u]) urls) = relays" by (metis append_eq_conv_conj)
    with Cons [of "relays @ [u]"] False step show ?thesis by auto
  qed
qed (simp add: merge_relays_def)

subsection \<open>An example\<close>

text \<open>A plan for a local package, whose publication goes to a broker that counts the calls.\<close>

definition wiki_arguments :: dict where
  "wiki_arguments = (''source'', JStr ''/tmp/wiki_ynh'') # map (\<lambda>key. (key, JNull)) (tl PLAN_FIELDS)"

definition wiki_publication :: ticket where
  "wiki_publication = make_ticket example_libs 0 300 ''p1'' ''local-stdio'' ''catalog.publish'' wiki_arguments (JObj wiki_arguments)"

definition publishing_server :: "(sql_store, bool) server_env" where
  "publishing_server = testing_server\<lparr>se_adapter := demo_adapter\<lparr>ad_broker := Some (\<lambda>_ _ _. (True, Inr (JObj [(''published'', JBool True)])))\<rparr>,
     se_policy := [(''catalog.publish'', default_rule\<lparr>require_confirmation := False\<rparr>)]\<rparr>"

definition publishing_catalogue :: "bool catalogue_env" where
  "publishing_catalogue = \<lparr>ct_adapter = se_adapter publishing_server, ct_relays = ''wss://r'', ct_trusted_publishers = [], ct_env_file = None,
     ct_require_remote_ref = False, ct_directory = (\<lambda>_. True), ct_resolve = id, ct_relay_lookup = None, ct_current = None,
     ct_cli_path = ''/usr/bin/nostr-ynh'', ct_cli_executable = True, ct_key_path = ''/etc/key'',
     ct_key = \<lparr>ks_regular = True, ks_symlink = False, ks_mode = 384\<rparr>, ct_temp_path = ''/tmp/x.json'', ct_cli = (\<lambda>_ _ y. (y, Cli_Timeout))\<rparr>"

definition publishing_world :: "(sql_store, bool frontend \<times> armada) world" where
  "publishing_world = \<lparr>w_locked = False, w_audit = None, w_ticket = None, w_store = w_store approving_world,
     w_system = (idle_frontend\<lparr>fr_catalog_plans := \<lparr>ttl_seconds = 300, owner_approval_ttl_seconds = 300, pending = [(''p1'', wiki_publication)], in_flight = {}\<rparr>\<rparr>,
       submitting_draft), w_calls = []\<rparr>"

theorem publication_planned_witness:
  "map_of (pending (fr_catalog_plans (fst (w_system (fst (run_catalog_publish publishing_server publishing_catalogue False submitting_env ''n1'' ''m1''
     (Some LOCAL_STDIO_REQUEST) [(''plan_id'', JStr ''p1'')] publishing_world)))))) ''p1'' = None"
proof -
  let ?k = "[(''plan_id'', JStr ''p1'')]"
  let ?body = "catalog_publish_body publishing_server publishing_catalogue False submitting_env (Some LOCAL_STDIO_REQUEST)"
  let ?w = "fst (run_catalog_publish publishing_server publishing_catalogue False submitting_env ''n1'' ''m1'' (Some LOCAL_STDIO_REQUEST) ?k publishing_world)"
  have server: "se_libs publishing_server = example_libs" "se_now publishing_server = 5"
    "\<not> require_confirmation (policy_get (se_policy publishing_server) ''catalog.publish'')"
    by (simp_all add: publishing_server_def testing_server_def approving_server_def policy_get_def)
  have scope: "has_scope LOCAL_STDIO_REQUEST CATALOG_PUBLISH"
    by (simp add: has_scope_def request_scopes_def LOCAL_STDIO_REQUEST_def LOCAL_STDIO_IDENTITY_def ALL_SCOPES_UNIV)
  have gate: "snd (require_confirmation_gate (se_libs publishing_server) api now n1 (catalog_publish_gate publishing_server) (Some LOCAL_STDIO_REQUEST) ?k st) =
      Inr (Run ?k None)" for api now n1 st
    using server(3) by (simp add: require_confirmation_gate_def catalog_publish_gate_def require_current_request_def dget_def dpop_def Let_def)
  have fields: "tl PLAN_FIELDS = [''ref'', ''ci_result'', ''ci_provider'', ''ci_ref'']" by (simp add: PLAN_FIELDS_def)
  have plan: "tk_expires_at wiki_publication = 300" "tk_pubkey wiki_publication = ''local-stdio''" "tk_tool wiki_publication = ''catalog.publish''"
    "tk_plan wiki_publication = JObj wiki_arguments" "tk_arguments_hash wiki_publication = hash_arguments example_libs wiki_arguments"
    by (simp_all add: wiki_publication_def make_ticket_def)
  have planned: "planned_arguments (JObj wiki_arguments) = Inr wiki_arguments"
    by (simp add: planned_arguments_def PLAN_FIELDS_def wiki_arguments_def fields get_or_def dget_default_def)
  have call: "publication_call (JObj wiki_arguments) ?k = Inr [(''source'', JStr ''/tmp/wiki_ynh''), (''ref'', JNull), (''confirmation_id'', JNull),
      (''plan_id'', JStr ''p1''), (''ci_result'', JNull), (''ci_provider'', JNull), (''ci_ref'', JNull)]"
    by (simp add: publication_call_def wiki_arguments_def fields get_or_def dget_default_def item_of_def dget_def)
  have relays: "items_of ''wss://r'' = [''wss://r'']" "\<not> starts_with ''/tmp/wiki_ynh'' ''https://''" "\<not> starts_with ''/tmp/wiki_ynh'' ''http://''"
    by code_simp+
  have "fr_system (fst (fst (?body ?k (w_system publishing_world))))"
    by (simp add: catalog_publish_body_def publish_planned_def and_then_def ret_def require_current_request_def on_catalog_plans_def invalid_catalog_plan_def
        redeem_plan_def publishing_world_def mem_peek_def mem_consume_def plan planned server call on_system_def)
      (simp add: adapter_catalog_publish_def validate_catalog_source_def relays publishing_catalogue_def catalog_relays_of_def first_nonempty_def
        widen_with_caller_relays_def checked_def guard_def and_then_def ret_def dispatch_def publishing_server_def dget_def Let_def split_beta)
  moreover have "w_system ?w = fst (?body ?k (w_system publishing_world))"
    using scope by (simp add: run_catalog_publish_def write_tool_system gate) (simp add: publishing_world_def)
  ultimately have "fr_system (fst (w_system ?w)) \<noteq> fr_system (fst (w_system publishing_world))" by (simp add: publishing_world_def idle_frontend_def)
  from publication_planned [OF surjective_pairing this refl] show ?thesis by (auto simp: dget_def)
qed

end
