(* ===== verification/Client_Signing.thy ===== *)
theory Client_Signing
  imports Nip98 Delegation Rules Concord_Envelope Concord_Drafts "HOL-Library.AList"
begin

text \<open>
  The signing side of the clients: \<^verbatim>\<open>auth/signing.py\<close>, the private halves of \<^verbatim>\<open>auth/npub.py\<close>, the keys, the request
  signatures and the local signing tool of \<^verbatim>\<open>bridge.py\<close>, and \<^verbatim>\<open>delegate.py\<close>.  The key parsers of \<open>nostr_sdk\<close>, its
  signer, \<open>base64\<close> and the random source are parameters.
\<close>

subsection \<open>Keys\<close>

text \<open>
  \<open>cl_parse_key\<close> is \<open>Keys.parse\<close>, whose result stands for the key; \<open>cl_parse_secret\<close> is \<open>SecretKey.parse\<close> followed by \<open>to_hex\<close>;
  \<open>cl_npub\<close> is \<open>PublicKey.parse\<close> followed by \<open>to_bech32\<close>; \<open>cl_float_kind\<close> is what the SDK takes a float for as a kind.
\<close>

record client_libs =
  cl_sign :: sign_libs
  cl_parse_key :: "string \<Rightarrow> string + string"
  cl_parse_secret :: "string \<Rightarrow> string option"
  cl_npub :: "string \<Rightarrow> string option"
  cl_base64 :: "string \<Rightarrow> string"
  cl_float_kind :: "real \<Rightarrow> exn + int"

record client_identity =
  ci_private_key :: string
  ci_pubkey_hex :: string

definition nsec_to_hex :: "client_libs \<Rightarrow> string \<Rightarrow> exn + string" where
  "nsec_to_hex K nsec =
     (let bad = Exn Bech32Error (''not a valid nsec: '' @ py_repr nsec)
      in if \<not> starts_with nsec ''nsec1'' then Inl bad
         else (case cl_parse_secret K nsec of None \<Rightarrow> Inl bad | Some h \<Rightarrow> Inr h))"

definition hex_to_npub :: "client_libs \<Rightarrow> string \<Rightarrow> exn + string" where
  "hex_to_npub K pubkey_hex =
     (case cl_npub K pubkey_hex of
        None \<Rightarrow> Inl (Exn Bech32Error (''not a valid hex pubkey: '' @ py_repr pubkey_hex))
      | Some npub \<Rightarrow> Inr npub)"

definition from_key_string :: "client_libs \<Rightarrow> string \<Rightarrow> exn + client_identity" where
  "from_key_string K key0 =
     (let key = str_strip key0 in
      ebind (if starts_with key ''nsec1'' then reraise (\<lambda>e. exn_cls e = Bech32Error) (\<lambda>e. Exn KeyLoadError (exn_msg e)) (nsec_to_hex K key)
             else Inr key) (\<lambda>hex_key.
      case cl_parse_key K hex_key of
        Inl exc \<Rightarrow> Inl (Exn KeyLoadError (''not a valid hex or nsec private key: '' @ exc))
      | Inr k \<Rightarrow> Inr \<lparr>ci_private_key = k, ci_pubkey_hex = key_pubkey (cl_sign K) k\<rparr>))"

definition bridge_error :: "string \<Rightarrow> exn" where
  "bridge_error msg = Exn BridgeConfigError msg"

text \<open>A key file: its text, or the error of reading it, which is not caught.\<close>

definition load_identity_from_key_file :: "client_libs \<Rightarrow> exn + string \<Rightarrow> exn + client_identity" where
  "load_identity_from_key_file K file =
     ebind file (\<lambda>text. reraise (\<lambda>e. exn_cls e = KeyLoadError) (\<lambda>e. bridge_error (exn_msg e)) (from_key_string K (str_strip text)))"

text \<open>\<open>a or b\<close> of two optional texts, and its truth.\<close>

definition or_text :: "string option \<Rightarrow> string option \<Rightarrow> string option" where
  "or_text a b = (case a of Some s \<Rightarrow> if s \<noteq> [] then Some s else b | None \<Rightarrow> b)"

definition given :: "string option \<Rightarrow> bool" where
  "given a = (a \<noteq> None \<and> a \<noteq> Some [])"

text \<open>Arguments first, then the environment; a file wins over a key.\<close>

definition load_identity ::
  "client_libs \<Rightarrow> (string \<Rightarrow> exn + string) \<Rightarrow> string option \<Rightarrow> string option \<Rightarrow> (string \<Rightarrow> string option) \<Rightarrow> exn + client_identity" where
  "load_identity K read_text arg_key arg_key_file environ =
     (let key = or_text arg_key (environ ''YUNOHOST_MCP_CLIENT_KEY'');
          key_file = or_text arg_key_file (environ ''YUNOHOST_MCP_CLIENT_KEY_FILE'')
      in if given key_file then load_identity_from_key_file K (read_text (the key_file))
         else if \<not> given key then Inl (bridge_error (''no private key given - pass --key/--key-file, or set '' @
           ''YUNOHOST_MCP_CLIENT_KEY/YUNOHOST_MCP_CLIENT_KEY_FILE. A key file is preferred: '' @
           ''--key/YUNOHOST_MCP_CLIENT_KEY put a private key in a process'' @ [char_of (39 :: nat)] @ ''s argv/environment, '' @
           ''both readable by anything else running as this user.''))
         else reraise (\<lambda>e. exn_cls e = KeyLoadError) (\<lambda>e. bridge_error (exn_msg e)) (from_key_string K (the key)))"

text \<open>\<open>generate_key\<close>: draws until a draw is a key, then writes it with mode 0600; an existing file is kept.\<close>

partial_function (option) draw_key :: "client_libs \<Rightarrow> (nat \<Rightarrow> string) \<Rightarrow> nat \<Rightarrow> (string \<times> client_identity) option" where
  "draw_key K draws n =
     (case from_key_string K (draws n) of Inl e \<Rightarrow> draw_key K draws (Suc n) | Inr i \<Rightarrow> Some (draws n, i))"

type_synonym file_system = "string \<rightharpoonup> string \<times> nat"

definition generate_key ::
  "client_libs \<Rightarrow> (nat \<Rightarrow> string) \<Rightarrow> string \<Rightarrow> file_system \<Rightarrow> (file_system \<times> (exn + client_identity)) option" where
  "generate_key K draws path files =
     (if files path \<noteq> None then Some (files, Inl (bridge_error (''refusing to overwrite an existing key file: '' @ path)))
      else (case draw_key K draws 0 of
          None \<Rightarrow> None
        | Some (hex_key, i) \<Rightarrow> Some (files(path \<mapsto> (hex_key @ [char_of (10 :: nat)], 384)), Inr i)))"

subsection \<open>Requests\<close>

definition nip98_tags :: "libs \<Rightarrow> string \<Rightarrow> string \<Rightarrow> string \<Rightarrow> string \<Rightarrow> string list list" where
  "nip98_tags L nonce meth url body =
     [[''u'', url], [''method'', str_upper meth], [''nonce'', nonce]] @ (if body \<noteq> [] then [[''payload'', sha256_bytes L body]] else [])"

definition encode_event :: "libs \<Rightarrow> client_libs \<Rightarrow> nostr_event \<Rightarrow> string" where
  "encode_event L K event = cl_base64 K (dumps L (JObj (event_dump event)))"

definition nip98_event ::
  "libs \<Rightarrow> client_libs \<Rightarrow> real \<Rightarrow> string \<Rightarrow> client_identity \<Rightarrow> string \<Rightarrow> string \<Rightarrow> string \<Rightarrow> exn + nostr_event" where
  "nip98_event L K now nonce i meth url body =
     sign_event (cl_sign K) now (ci_private_key i) (ci_pubkey_hex i) NIP98_KIND (nip98_tags L nonce meth url body) [] (Some (py_trunc now))"

definition sign_nip98 ::
  "libs \<Rightarrow> client_libs \<Rightarrow> real \<Rightarrow> string \<Rightarrow> client_identity \<Rightarrow> string \<Rightarrow> string \<Rightarrow> string \<Rightarrow> exn + string" where
  "sign_nip98 L K now nonce i meth url body =
     ebind (nip98_event L K now nonce i meth url body) (\<lambda>event. Inr (''Nostr '' @ encode_event L K event))"

text \<open>\<open>Nip98BridgeAuth.auth_flow\<close>: the headers of a request that goes out.\<close>

definition auth_flow ::
  "libs \<Rightarrow> client_libs \<Rightarrow> real \<Rightarrow> string \<Rightarrow> client_identity \<Rightarrow> string option \<Rightarrow> string \<Rightarrow> string \<Rightarrow> string \<Rightarrow> (string \<times> string) list \<Rightarrow>
     exn + (string \<times> string) list" where
  "auth_flow L K now nonce i delegation_header meth url body headers =
     ebind (sign_nip98 L K now nonce i meth url body) (\<lambda>authorization.
     let signed = AList.update ''Authorization'' authorization headers
     in Inr (if given delegation_header then AList.update ''X-Nostr-Delegation'' (the delegation_header) signed else signed))"

definition load_delegation_header ::
  "client_libs \<Rightarrow> (string \<Rightarrow> exn + string) \<Rightarrow> string option \<Rightarrow> (string \<Rightarrow> string option) \<Rightarrow> exn + string option" where
  "load_delegation_header K read_bytes arg_file environ =
     (let delegation_file = or_text arg_file (environ ''YUNOHOST_MCP_CLIENT_DELEGATION_FILE'')
      in if \<not> given delegation_file then Inr None
         else ebind (read_bytes (the delegation_file)) (\<lambda>raw. Inr (Some (cl_base64 K raw))))"

subsection \<open>The local signing tool\<close>

record call_result =
  cr_texts :: "string list"
  cr_structured :: "dict option"
  cr_is_error :: bool

definition error_result :: "string \<Rightarrow> call_result" where
  "error_result msg = \<lparr>cr_texts = [msg], cr_structured = None, cr_is_error = True\<rparr>"

text \<open>\<open>kind in _SIGNABLE_KINDS\<close> hashes the value; numbers are equal across types.\<close>

fun signable_kind :: "client_libs \<Rightarrow> json \<Rightarrow> exn + (exn + int) option" where
  "signable_kind K (JInt n) = Inr (if n = 20013 then Some (Inr n) else None)"
| "signable_kind K (JFloat r) = Inr (if r = 20013 then Some (cl_float_kind K r) else None)"
| "signable_kind K (JList _) = Inl (Exn TypeError ''unhashable type'')"
| "signable_kind K (JObj _) = Inl (Exn TypeError ''unhashable type'')"
| "signable_kind K _ = Inr None"

text \<open>Tags that are no lists of texts are refused by the SDK or by \<open>pydantic\<close>.\<close>

definition text_tags :: "json list \<Rightarrow> exn + string list list" where
  "text_tags tags = emap (\<lambda>t. case t of
      JList vs \<Rightarrow> if list_all is_str vs then Inr (map text_of vs) else Inl (Exn OtherError ''invalid tag'')
    | _ \<Rightarrow> Inl (Exn OtherError ''invalid tag'')) tags"

fun list_value :: "json \<Rightarrow> json list option" where
  "list_value (JList vs) = Some vs"
| "list_value _ = None"

fun created_int :: "json \<Rightarrow> int option" where
  "created_int (JInt n) = Some n"
| "created_int (JBool b) = Some (if b then 1 else 0)"
| "created_int _ = None"

definition sign_nostr_event :: "libs \<Rightarrow> client_libs \<Rightarrow> real \<Rightarrow> (json \<Rightarrow> string) \<Rightarrow> client_identity \<Rightarrow> dict \<Rightarrow> exn + call_result" where
  "sign_nostr_event L K now fmt i arguments =
     ebind (signable_kind K (dget arguments ''kind'')) (\<lambda>signable.
     case signable of
       None \<Rightarrow> Inr (error_result (''sign_nostr_event only signs kind [20013], got '' @ py_repr_value fmt (dget arguments ''kind'')))
     | Some kind \<Rightarrow>
         (case (list_value (dget arguments ''tags''), created_int (dget arguments ''created_at'')) of
            (Some tags, Some created_at) \<Rightarrow>
              if \<not> is_str (dget arguments ''content'') then Inr (error_result ''sign_nostr_event requires kind, tags, content, created_at'')
              else ebind kind (\<lambda>k. ebind (text_tags tags) (\<lambda>ts.
                ebind (sign_event (cl_sign K) now (ci_private_key i) (ci_pubkey_hex i) k ts (text_of (dget arguments ''content'')) (Some created_at)) (\<lambda>signed.
                Inr \<lparr>cr_texts = [dumps L (JObj (event_dump signed))], cr_structured = Some (event_dump signed), cr_is_error = False\<rparr>)))
          | _ \<Rightarrow> Inr (error_result ''sign_nostr_event requires kind, tags, content, created_at'')))"

subsection \<open>Delegations\<close>

text \<open>\<open>delegate.py\<close>'s own \<open>_parse_duration\<close>: hours without a unit.\<close>

definition delegation_duration :: "string \<Rightarrow> exn + int" where
  "delegation_duration value =
     (case match_quantity value of
        None \<Rightarrow> Inl (bridge_error (''not a duration (e.g. '' @ py_repr ''24h'' @ '', '' @ py_repr ''7d'' @ ''): '' @ py_repr value))
      | Some (number, unit0) \<Rightarrow>
          (let unit = (if str_lower unit0 = [] then ''h'' else str_lower unit0)
           in case map_of DURATION_UNITS unit of
             None \<Rightarrow> Inl (bridge_error (''unknown duration unit '' @ py_repr unit @ '' in '' @ py_repr value @ '' (use s/m/h/d)''))
           | Some multiplier \<Rightarrow> Inr (digits_int number * multiplier)))"

definition resolve_pubkey :: "libs \<Rightarrow> string \<Rightarrow> string \<Rightarrow> exn + string" where
  "resolve_pubkey L what raw0 =
     (let raw = str_strip raw0 in
      if starts_with raw ''npub1'' then
        reraise (\<lambda>e. exn_cls e = Bech32Error) (\<lambda>e. bridge_error (what @ '': '' @ exn_msg e)) (npub_to_hex L raw)
      else if starts_with raw ''nsec1'' then
        Inl (bridge_error (what @ '': looks like a private key (nsec1...) - this must be a public key''))
      else Inr (str_lower raw))"

text \<open>The requested scopes by role and by name, sorted, without copies.\<close>

fun role_scopes_of :: "string list \<Rightarrow> exn + string list" where
  "role_scopes_of [] = Inr []"
| "role_scopes_of (role # roles) =
     (if role \<notin> set known_roles then Inl (bridge_error (''unknown role '' @ py_repr role @ ''; known roles: '' @ py_repr_list (sort known_roles)))
      else ebind (role_scopes_of roles) (\<lambda>rest. Inr (map scope_value (filter (\<lambda>s. s \<in> role_scope_set role) scope_members) @ rest)))"

fun named_scopes_of :: "string list \<Rightarrow> exn + string list" where
  "named_scopes_of [] = Inr []"
| "named_scopes_of (scope # scopes) = (case scope_of_value scope of
      None \<Rightarrow> Inl (bridge_error (''unknown scope '' @ py_repr scope @ ''; known scopes: '' @ py_repr_list (sort (map scope_value scope_members))))
    | Some s \<Rightarrow> ebind (named_scopes_of scopes) (\<lambda>rest. Inr (scope_value s # rest)))"

definition resolve_scopes :: "string list \<Rightarrow> string list \<Rightarrow> exn + string list" where
  "resolve_scopes roles scopes =
     ebind (role_scopes_of roles) (\<lambda>by_role. ebind (named_scopes_of scopes) (\<lambda>by_name.
     ebind (guard (by_role @ by_name \<noteq> []) (bridge_error ''nothing to delegate - pass --scope and/or --role at least once'')) (\<lambda>_.
     Inr (sort (remdups (by_role @ by_name))))))"

definition delegation_tags :: "string \<Rightarrow> string \<Rightarrow> int \<Rightarrow> string list \<Rightarrow> string list list" where
  "delegation_tags delegate server expires_at scopes =
     [[''p'', delegate], [''server'', server], [''expiry'', show_int expires_at]] @ map (\<lambda>s. [''scope'', s]) scopes"

text \<open>A public key that the server answered is used in a tag as it is; only a text can be one.\<close>

definition text_value :: "json \<Rightarrow> exn + string" where
  "text_value v = (case v of JStr s \<Rightarrow> Inr s | _ \<Rightarrow> Inl (Exn OtherError ''invalid tag''))"

definition sign_delegation ::
  "client_libs \<Rightarrow> real \<Rightarrow> client_identity \<Rightarrow> string \<Rightarrow> json \<Rightarrow> string list \<Rightarrow> int \<Rightarrow> exn + nostr_event" where
  "sign_delegation K now i delegate server_value scopes ttl =
     ebind (guard (\<not> ttl > DEFAULT_MAX_LIFETIME_SECONDS)
       (bridge_error (''--ttl of '' @ show_int ttl @ ''s exceeds the maximum a server will accept ('' @
          show_int DEFAULT_MAX_LIFETIME_SECONDS @ ''s / 30d) - use a shorter --ttl''))) (\<lambda>_.
     ebind (text_value server_value) (\<lambda>server.
     sign_event (cl_sign K) now (ci_private_key i) (ci_pubkey_hex i) DELEGATION_KIND
       (delegation_tags delegate server (py_trunc now + ttl) scopes) [] (Some (py_trunc now))))"

text \<open>
  \<open>_fetch_server_context\<close>: the structured contents of \<open>server_identity\<close> and \<open>whoami\<close>, asked of the server as this owner.
\<close>

definition fetch_server_context :: "(json \<Rightarrow> string) \<Rightarrow> dict \<Rightarrow> dict \<Rightarrow> exn + json \<times> json list" where
  "fetch_server_context fmt server_data who_data =
     ebind (guard (truthy (dget server_data ''pubkey''))
       (bridge_error (''server_identity did not return a pubkey: '' @ py_repr_value fmt (JObj server_data)))) (\<lambda>_.
     ebind (guard (truthy (dget who_data ''authenticated''))
       (bridge_error (''server rejected this key'' @ [char_of (39 :: nat)] @ ''s own identity (whoami returned unauthenticated) - '' @
          ''you need your own identity.toml entry before you can delegate anything''))) (\<lambda>_.
     ebind (py_tuple (dget_default who_data ''scopes'' (JList []))) (\<lambda>own_scopes.
     Inr (dget server_data ''pubkey'', own_scopes))))"

record delegate_args =
  da_delegate :: string
  da_server :: "string option"
  da_remote_url :: "string option"
  da_roles :: "string list"
  da_scopes :: "string list"
  da_ttl :: string
  da_out :: "string option"

record delegate_state =
  ds_files :: file_system
  ds_stdout :: string

record delegate_report =
  dr_excess :: "string list"
  dr_delegate_npub :: string
  dr_server_npub :: string
  dr_scopes :: "string list"
  dr_event :: nostr_event
  dr_header :: string

text \<open>
  \<open>_async_main\<close>, after the identity is loaded: the event goes to the file (mode 0600) or to the output before the report
  is made.  The remote server is what its two tools answer.  \<open>indented\<close> is \<open>json.dumps(indent=2)\<close>.
\<close>

definition delegation_server ::
  "libs \<Rightarrow> (string \<Rightarrow> exn + json \<times> json list) \<Rightarrow> delegate_args \<Rightarrow> exn + json \<times> json list option" where
  "delegation_server L contact args =
     (if given (da_server args) then ebind (resolve_pubkey L ''--server'' (the (da_server args))) (\<lambda>pk. Inr (JStr pk, None))
      else if \<not> given (da_remote_url args) then
        Inl (bridge_error (''no --server given - pass --server explicitly, or --remote-url '' @
          ''(or $YUNOHOST_MCP_CLIENT_REMOTE_URL) to fetch it from the server''))
      else ebind (contact (the (da_remote_url args))) (\<lambda>(pk, own). Inr (pk, Some own)))"

definition excess_scopes :: "string list \<Rightarrow> json list option \<Rightarrow> string list" where
  "excess_scopes scopes own = (case own of None \<Rightarrow> [] | Some vs \<Rightarrow> filter (\<lambda>s. JStr s \<notin> set vs) scopes)"

definition delegation_of ::
  "libs \<Rightarrow> client_libs \<Rightarrow> real \<Rightarrow> (string \<Rightarrow> exn + json \<times> json list) \<Rightarrow> client_identity \<Rightarrow> delegate_args \<Rightarrow>
     exn + nostr_event \<times> string list \<times> string list \<times> string \<times> string" where
  "delegation_of L K now contact i args =
     ebind (resolve_pubkey L ''--delegate'' (da_delegate args)) (\<lambda>delegate.
     ebind (resolve_scopes (da_roles args) (da_scopes args)) (\<lambda>scopes.
     ebind (delegation_server L contact args) (\<lambda>(server_value, own).
     ebind (delegation_duration (da_ttl args)) (\<lambda>ttl.
     ebind (sign_delegation K now i delegate server_value scopes ttl) (\<lambda>event.
     Inr (event, scopes, excess_scopes scopes own, delegate, text_of server_value))))))"

definition write_delegation :: "string \<Rightarrow> string option \<Rightarrow> delegate_state \<Rightarrow> delegate_state" where
  "write_delegation payload out st =
     (if given out then st\<lparr>ds_files := (ds_files st)(the out \<mapsto> (payload, 384))\<rparr> else st\<lparr>ds_stdout := ds_stdout st @ payload\<rparr>)"

definition delegate_main ::
  "libs \<Rightarrow> client_libs \<Rightarrow> (json \<Rightarrow> string) \<Rightarrow> real \<Rightarrow> (string \<Rightarrow> exn + json \<times> json list) \<Rightarrow> client_identity \<Rightarrow> delegate_args \<Rightarrow>
     delegate_state \<Rightarrow> delegate_state \<times> (exn + delegate_report)" where
  "delegate_main L K indented now contact i args st =
     (case delegation_of L K now contact i args of
        Inl e \<Rightarrow> (st, Inl e)
      | Inr (event, scopes, excess, delegate, server) \<Rightarrow>
          (write_delegation (indented (JObj (event_dump event)) @ [char_of (10 :: nat)]) (da_out args) st,
           ebind (hex_to_npub K delegate) (\<lambda>delegate_npub. ebind (hex_to_npub K server) (\<lambda>server_npub.
           Inr \<lparr>dr_excess = excess, dr_delegate_npub = delegate_npub, dr_server_npub = server_npub, dr_scopes = scopes,
                dr_event = event, dr_header = encode_event L K event\<rparr>))))"

subsection \<open>Lemmas\<close>

lemma upper_idem: "str_upper (str_upper s) = str_upper s"
proof -
  have "upper_char (upper_char c) = upper_char c" for c
  proof (cases "is_lower c")
    case True
    then have "code c - 32 < 256" "\<not> (97 \<le> code c - 32 \<and> code c - 32 \<le> 122)" by (auto simp: is_lower_def)
    then show ?thesis by (auto simp: upper_char_def is_lower_def code_char_of)
  qed (simp add: upper_char_def)
  then show ?thesis by (simp add: str_upper_def)
qed

lemma strip_stable:
  "is_space c \<Longrightarrow> str_strip (s @ [c]) = str_strip s" "str_strip (str_strip s) = str_strip s"
proof -
  have tail: "rev (dropWhile is_space (rev (dropWhile is_space (s @ [c])))) = rev (dropWhile is_space (rev (dropWhile is_space s)))"
    if "is_space c" for s
  proof (cases "dropWhile is_space s = []")
    case True
    then have "\<forall>x \<in> set s. is_space x" by (simp add: dropWhile_eq_Nil_conv)
    with that show ?thesis by (auto simp: dropWhile_append dest: set_dropWhileD)
  next
    case False
    then obtain x where "x \<in> set s" "\<not> is_space x" by (auto simp: dropWhile_eq_Nil_conv)
    then show ?thesis by (simp add: dropWhile_append1 that)
  qed
  then show "is_space c \<Longrightarrow> str_strip (s @ [c]) = str_strip s" by (simp add: str_strip_def)
  let ?t = "str_strip s"
  have "hd ?t = hd (dropWhile is_space s)" if "?t \<noteq> []"
  proof -
    let ?d = "dropWhile is_space s"
    have "?d = ?t @ rev (takeWhile is_space (rev ?d))"
      unfolding str_strip_def by (metis rev_append rev_rev_ident takeWhile_dropWhile_id)
    with that show ?thesis by (metis hd_append2)
  qed
  moreover have "?t \<noteq> [] \<Longrightarrow> dropWhile is_space s \<noteq> []" by (auto simp: str_strip_def dest: set_dropWhileD)
  ultimately have "dropWhile is_space ?t = ?t"
    by (cases "?t = []") (auto simp: dropWhile_eq_self_iff hd_dropWhile)
  moreover have "dropWhile is_space (rev ?t) = rev ?t" by (simp add: str_strip_def dropWhile_idem)
  ultimately show "str_strip ?t = ?t" by (simp add: str_strip_def [of ?t])
qed

lemma nip98_tag_values:
  assumes "ev_tags e = nip98_tags L nonce meth url body"
  shows "event_tag e ''u'' = Some url" "event_tag e ''method'' = Some (str_upper meth)"
    "event_tag e ''payload'' = (if body = [] then None else Some (sha256_bytes L body))"
  by (simp_all add: event_tag_def assms nip98_tags_def)

lemma delegation_tag_values:
  assumes "ev_tags e = delegation_tags delegate server x scopes"
  shows "event_tag e ''p'' = Some delegate" "event_tag e ''server'' = Some server" "event_tag e ''expiry'' = Some (show_int x)"
    "tag_values ''scope'' (ev_tags e) = scopes"
proof -
  have "tag_values ''scope'' (map (\<lambda>s. [''scope'', s]) scopes) = scopes" by (induction scopes) simp_all
  then show "event_tag e ''p'' = Some delegate" "event_tag e ''server'' = Some server" "event_tag e ''expiry'' = Some (show_int x)"
    "tag_values ''scope'' (ev_tags e) = scopes" by (simp_all add: event_tag_def assms delegation_tags_def)
qed

lemma scopes_of_set: "set (map scope_value (filter (\<lambda>s. s \<in> A) scope_members)) = scope_value ` A"
  by (auto simp: scope_members_complete)

lemma role_scopes_of_Inr:
  "role_scopes_of roles = Inr ss \<Longrightarrow> set ss = scope_value ` (\<Union>r \<in> set roles. role_scope_set r) \<and> set roles \<subseteq> set known_roles"
  by (induction roles arbitrary: ss) (auto simp: scopes_of_set image_Un simp del: set_map set_filter split: if_splits, blast)

lemma named_scopes_of_Inr:
  "named_scopes_of names = Inr ss \<Longrightarrow> ss = names \<and> (\<forall>n \<in> set names. \<exists>s. scope_value s = n)"
  by (induction names arbitrary: ss) (auto simp: scope_of_value_Some split: option.splits)

lemma resolve_scopes_Inr:
  assumes "resolve_scopes roles names = Inr ss"
  shows "set ss = scope_value ` (\<Union>r \<in> set roles. role_scope_set r) \<union> set names" "ss \<noteq> []" "\<forall>v \<in> set ss. \<exists>s. scope_value s = v" "sorted ss" "distinct ss"
proof -
  obtain a b where ab: "role_scopes_of roles = Inr a" "named_scopes_of names = Inr b" "a @ b \<noteq> []" "ss = sort (remdups (a @ b))"
    using assms by (auto simp: resolve_scopes_def ebind_Inr)
  then show "set ss = scope_value ` (\<Union>r \<in> set roles. role_scope_set r) \<union> set names" "ss \<noteq> []" "\<forall>v \<in> set ss. \<exists>s. scope_value s = v" "sorted ss" "distinct ss"
    using role_scopes_of_Inr [OF ab(1)] named_scopes_of_Inr [OF ab(2)] by (auto simp: set_eq_iff simp flip: set_empty)
qed

subsection \<open>Properties\<close>

text \<open>The header survives the way to the server: the decoders there invert the encoders here, on this event.\<close>

definition carries :: "libs \<Rightarrow> client_libs \<Rightarrow> nostr_event \<Rightarrow> bool" where
  "carries L K e \<longleftrightarrow> encode_event L K e \<noteq> [] \<and>
     (\<exists>decoded raw. b64decode L (encode_event L K e) = Inr decoded \<and> json_loads_bytes L decoded = Inr raw \<and> pydantic_event L raw = Inr e)"

lemma carried_header:
  assumes "carries L K e" "sign_event G now k p kind tags content (Some t) = Inr e"
  shows "parse_authorization L (Some (''Nostr '' @ encode_event L K e)) = Inr e"
proof -
  obtain decoded raw where c: "b64decode L (encode_event L K e) = Inr decoded" "json_loads_bytes L decoded = Inr raw" "pydantic_event L raw = Inr e"
    using assms(1) by (auto simp: carries_def)
  have "model_validate L raw = Inr e" by (rule signed_valid [OF assms(2) c(3)])
  moreover have "str_lower ''Nostr'' = ''nostr''" by code_simp
  ultimately show ?thesis
    using assms(1) c unfolding parse_authorization_Inr
    by (intro exI [of _ "''Nostr''"] exI [of _ "encode_event L K e"] exI [of _ decoded] exI [of _ raw]) (simp add: carries_def)
qed

text \<open>
  C19: a signed request is accepted, as itself only.  The header that the bridge puts on a request authenticates, at a server
  whose SDK verifies what the client's SDK signs, exactly the requests with the same URL and method and a body of the same
  hash, or none, within the clock skew and once; and it authenticates them as the public key of the client.
\<close>

theorem signed_request_exact:
  assumes "faithful_signer L (cl_sign K)" "nip98_event L K now nonce i meth url body = Inr e" "carries L K e"
  shows "sign_nip98 L K now nonce i meth url body = Inr (''Nostr '' @ encode_event L K e) \<and>
    (snd (verify_nip98_request L (Some (''Nostr '' @ encode_event L K e)) meth' url' body' skew now' tick cache) =
       Inr \<lparr>ni_pubkey = ci_pubkey_hex i, ni_event_id = ev_id e, ni_created_at = py_trunc now\<rparr> \<longleftrightarrow>
     url' = url \<and> str_upper meth' = str_upper meth \<and> (body' = [] \<or> body \<noteq> [] \<and> sha256_bytes L body = sha256_bytes L body') \<and>
     \<bar>now' - py_trunc now\<bar> \<le> skew \<and> (\<forall>t. (ev_id e, t) \<in> set (rc_seen cache) \<longrightarrow> t \<le> tick))"
proof -
  note signed = assms(2) [unfolded nip98_event_def]
  have e: "ev_pubkey e = ci_pubkey_hex i" "ev_created_at e = py_trunc now" "ev_kind e = NIP98_KIND" "ev_tags e = nip98_tags L nonce meth url body"
    using sign_event_Inr [OF signed] by (metis nostr_event.select_convs)+
  have "verify_event L e = Inr ()" by (rule signed_verifies [OF assms(1) signed])
  then have "check_event L e meth' url' body' skew now' = Inr () \<longleftrightarrow>
     url' = url \<and> str_upper meth' = str_upper meth \<and> (body' = [] \<or> body \<noteq> [] \<and> sha256_bytes L body = sha256_bytes L body') \<and>
     \<bar>now' - py_trunc now\<bar> \<le> skew"
    using e(2,3) nip98_tag_values [OF e(4)] by (auto simp: check_event_Inr NIP98_KIND_def upper_idem)
  then show ?thesis
    using e(1,2) assms(2) carried_header [OF assms(3) signed]
    by (simp add: sign_nip98_def verify_nip98_Inr check_and_record_Inr)
qed

text \<open>
  C20: a signed delegation is the delegation that was asked for.  What \<open>yunohost-mcp-delegate\<close> signs, the server accepts from
  the named delegate exactly while it is unrevoked, from the time of signing (less the clock skew, and for a lifetime of
  nearly thirty days not before that time) until it expires, and as granting exactly the scopes of the given roles and names.
\<close>

theorem delegation_round_trip:
  assumes "faithful_signer L (cl_sign K)" "resolve_scopes roles names = Inr scopes" "0 \<le> now" "0 \<le> ttl"
    and "sign_delegation K now i delegate (JStr server) scopes ttl = Inr e"
  shows "ttl \<le> 2592000 \<and>
    (verify_delegation_event L e delegate server revoked now' = Inr c \<longleftrightarrow>
       \<not> revoked (ev_id e) \<and> py_trunc now \<le> now' + 300 \<and> py_trunc now + ttl - 2592000 \<le> now' \<and> now' < py_trunc now + ttl \<and>
       c = \<lparr>dc_event_id = ev_id e, dc_delegator_pubkey = ci_pubkey_hex i, dc_delegate_pubkey = delegate,
            dc_requested_scopes = (\<Union>r \<in> set roles. role_scope_set r) \<union> {s. scope_value s \<in> set names},
            dc_server_pubkey = server, dc_expires_at = py_trunc now + ttl\<rparr>)"
proof -
  let ?x = "py_trunc now + ttl"
  have ttl: "ttl \<le> 2592000"
    and signed: "sign_event (cl_sign K) now (ci_private_key i) (ci_pubkey_hex i) DELEGATION_KIND
      (delegation_tags delegate server ?x scopes) [] (Some (py_trunc now)) = Inr e"
    using assms(5) by (auto simp: sign_delegation_def ebind_Inr text_value_def DEFAULT_MAX_LIFETIME_SECONDS_def)
  have e: "ev_pubkey e = ci_pubkey_hex i" "ev_created_at e = py_trunc now" "ev_kind e = DELEGATION_KIND"
    "ev_tags e = delegation_tags delegate server ?x scopes"
    using sign_event_Inr [OF signed] by (metis nostr_event.select_convs)+
  note tags = delegation_tag_values [OF e(4)]
  have "0 \<le> py_trunc now" using assms(3) by (simp add: py_trunc_def)
  then have "parse_int (show_int ?x) = Some ?x" using parse_int_show_nat [of ?x] assms(4) by simp
  moreover note scopes = resolve_scopes_Inr [OF assms(2)]
  moreover have "{s. scope_value s \<in> set scopes} = (\<Union>r \<in> set roles. role_scope_set r) \<union> {s. scope_value s \<in> set names}"
    using scope_value_inj by (auto simp: scopes(1) inj_def)
  moreover have "verify_event L e = Inr ()" by (rule signed_verifies [OF assms(1) signed])
  ultimately show ?thesis
    using ttl e(1-3) tags by (cases c) (auto simp: verify_delegation_event_Inr delegation_accepted_def DELEGATION_KIND_def)
qed

text \<open>
  C21: the local tool signs seals and nothing else.  What \<open>sign_nostr_event\<close> signs is of kind 20013 and carries the key of the
  bridge, so that whatever a remote server talked the agent into signing authenticates no request, delegates nothing and
  approves nothing.
\<close>

theorem signing_tool_limited:
  assumes "sign_nostr_event L K now fmt i arguments = Inr res" "\<not> cr_is_error res" "\<And>r k. cl_float_kind K r = Inr k \<Longrightarrow> of_int k = r"
  shows "\<exists>e. cr_structured res = Some (event_dump e) \<and> ev_kind e = 20013 \<and> ev_pubkey e = ci_pubkey_hex i \<and>
    (\<forall>meth url body skew t. check_event L e meth url body skew t \<noteq> Inr ()) \<and>
    (\<forall>delegate server revoked t c. verify_delegation_event L e delegate server revoked t \<noteq> Inr c) \<and>
    (\<forall>owner cid op_hash p. verify_owner_approval L e owner cid op_hash \<noteq> Inr p)"
proof -
  have kind: "n = 20013" if "signable_kind K v = Inr (Some (Inr n))" for v n
    using that assms(3) [of 20013 n] by (cases v) (auto split: if_splits)
  obtain signable where sk: "signable_kind K (dget arguments ''kind'') = Inr signable"
    using assms(1) by (auto simp: sign_nostr_event_def ebind_Inr)
  then obtain kind0 where "signable = Some kind0"
    using assms(1,2) by (cases signable) (auto simp: sign_nostr_event_def error_result_def)
  with sk assms(1,2) obtain k content created_at ts e where "signable_kind K (dget arguments ''kind'') = Inr (Some (Inr k))"
      "sign_event (cl_sign K) now (ci_private_key i) (ci_pubkey_hex i) k ts content (Some created_at) = Inr e"
      "res = \<lparr>cr_texts = [dumps L (JObj (event_dump e))], cr_structured = Some (event_dump e), cr_is_error = False\<rparr>"
    by (auto simp: sign_nostr_event_def error_result_def ebind_Inr split: option.splits if_splits)
  moreover from this(1) have "k = 20013" by (rule kind)
  moreover from calculation(2) sign_event_Inr have "ev_kind e = k" "ev_pubkey e = ci_pubkey_hex i" by (metis nostr_event.select_convs)+
  ultimately show ?thesis
    by (intro exI [of _ e]) (simp add: check_event_Inr verify_delegation_event_Inr delegation_accepted_def verify_owner_approval_Inr approval_event_def)
qed

text \<open>A generated key is written to a file that did not exist, is private, and loads as the same identity.\<close>

lemma draw_key_Some:
  assumes "draw_key K draws n = Some p"
  shows "from_key_string K (fst p) = Inr (snd p)"
  by (rule draw_key.raw_induct [where P = "\<lambda>K draws n p. from_key_string K (fst p) = Inr (snd p)", OF _ assms])
     (auto split: sum.splits)

lemma from_key_string_strip: "is_space c \<Longrightarrow> from_key_string K (str_strip (s @ [c])) = from_key_string K s"
  by (simp only: from_key_string_def strip_stable)

lemma draw_key_finds:
  assumes "from_key_string K (draws m) = Inr i" "n \<le> m"
  shows "\<exists>h j. draw_key K draws n = Some (h, j)"
  using assms(2)
proof (induction n rule: inc_induct)
  case base
  show ?case by (subst draw_key.simps) (simp add: assms(1))
next
  case (step n)
  then show ?case by (subst draw_key.simps) (simp split: sum.split)
qed

theorem generated_key_loads:
  assumes "from_key_string K (draws m) = Inr j"
  shows "\<exists>files' r. generate_key K draws path files = Some (files', r) \<and>
    (if files path \<noteq> None then files' = files \<and> r = Inl (bridge_error (''refusing to overwrite an existing key file: '' @ path))
     else \<exists>text i. files' = files(path \<mapsto> (text, 384)) \<and> r = Inr i \<and> load_identity_from_key_file K (Inr text) = Inr i)"
proof (cases "files path")
  case None
  obtain h i where draw: "draw_key K draws 0 = Some (h, i)" using draw_key_finds [of K draws m j 0] assms by auto
  have "is_space (char_of (10 :: nat))" by (simp add: is_space_def code_def)
  then have "load_identity_from_key_file K (Inr (h @ [char_of (10 :: nat)])) = Inr i"
    using draw_key_Some [OF draw] by (simp add: load_identity_from_key_file_def from_key_string_strip)
  with None draw show ?thesis by (auto simp: generate_key_def)
qed (simp add: generate_key_def)

subsection \<open>Examples\<close>

definition signing_client :: client_libs where
  "signing_client = \<lparr>cl_sign = joining_signer, cl_parse_key = Inr, cl_parse_secret = Some, cl_npub = Some, cl_base64 = id,
     cl_float_kind = (\<lambda>_. Inl (Exn TypeError ''float''))\<rparr>"

definition signing_identity :: client_identity where
  "signing_identity = \<lparr>ci_private_key = ''k'', ci_pubkey_hex = example_pk\<rparr>"

lemma signing_client_simps [simp]:
  "cl_sign signing_client = joining_signer" "cl_base64 signing_client s = s" "ci_private_key signing_identity = ''k''"
  "ci_pubkey_hex signing_identity = example_pk" "cl_float_kind signing_client r = Inl (Exn TypeError ''float'')" "cl_parse_key signing_client s = Inr s"
  by (simp_all add: signing_client_def signing_identity_def)

definition posted_event :: nostr_event where
  "posted_event = \<lparr>ev_id = example_id, ev_pubkey = example_pk, ev_created_at = 100, ev_kind = 27235,
     ev_tags = [[''u'', ''https://s/mcp''], [''method'', ''POST''], [''nonce'', ''n''], [''payload'', ''{}'']], ev_content = [], ev_sig = example_sig\<rparr>"

definition signing_libs :: libs where
  "signing_libs = joining_libs\<lparr>json_loads_bytes := (\<lambda>_. Inr JNull), pydantic_event := (\<lambda>_. Inr posted_event)\<rparr>"

lemma signing_libs_simps [simp]:
  "sha256_bytes signing_libs s = s" "sha256_hex signing_libs s = example_id" "b64decode signing_libs s = Inr s" "json_loads_bytes signing_libs s = Inr JNull"
  "pydantic_event signing_libs v = Inr posted_event" "verify_signature signing_libs e = Inr True"
  by (simp_all add: signing_libs_def joining_libs_def)

lemma signing_faithful: "faithful_signer signing_libs joining_signer"
  by (simp add: faithful_signer_def joining_signer_def compute_event_id_def)

theorem signed_request_exact_witness:
  "snd (verify_nip98_request signing_libs (Some (''Nostr '' @ encode_event signing_libs signing_client posted_event)) ''post'' ''https://s/mcp'' ''{}'' 60 130 7
     (replay_init 300)) = Inr \<lparr>ni_pubkey = example_pk, ni_event_id = example_id, ni_created_at = 100\<rparr>"
proof -
  have upper: "str_upper ''post'' = ''POST''" by code_simp
  have event: "nip98_event signing_libs signing_client 100 ''n'' signing_identity ''post'' ''https://s/mcp'' ''{}'' = Inr posted_event"
    by (simp add: nip98_event_def joining_sign posted_event_def nip98_tags_def upper NIP98_KIND_def py_trunc_def)
  have "carries signing_libs signing_client posted_event" by (simp add: carries_def encode_event_def dumps_def)
  from signed_request_exact [OF _ event this, of "''post''" "''https://s/mcp''" "''{}''" 60 130 7 "replay_init 300"] signing_faithful
  show ?thesis by (simp add: replay_init_def posted_event_def py_trunc_def)
qed

theorem delegation_round_trip_witness:
  "\<exists>scopes e c. resolve_scopes [''readonly''] [''owner.approve''] = Inr scopes \<and>
     sign_delegation signing_client 100 signing_identity ''agent'' (JStr ''srv'') scopes 3600 = Inr e \<and>
     verify_delegation_event signing_libs e ''agent'' ''srv'' (\<lambda>_. False) 200 = Inr c \<and>
     dc_requested_scopes c = insert OWNER_APPROVE (role_scope_set ''readonly'')"
proof -
  obtain scopes where scopes: "resolve_scopes [''readonly''] [''owner.approve''] = Inr scopes"
  proof -
    have "''readonly'' \<in> set known_roles" "scope_of_value ''owner.approve'' = Some OWNER_APPROVE" by code_simp+
    then show thesis using that by (simp add: resolve_scopes_def)
  qed
  obtain e where e: "sign_delegation signing_client 100 signing_identity ''agent'' (JStr ''srv'') scopes 3600 = Inr e" "ev_id e = example_id"
    by (simp add: sign_delegation_def DEFAULT_MAX_LIFETIME_SECONDS_def text_value_def joining_sign)
  have "{s. scope_value s = ''owner.approve''} = {OWNER_APPROVE}" using scope_value_inj [of _ OWNER_APPROVE] by auto
  with delegation_round_trip [OF _ scopes _ _ e(1), where L = signing_libs and revoked = "\<lambda>_. False" and now' = 200]
  show ?thesis using scopes e by (simp add: signing_faithful py_trunc_def)
qed

theorem signing_tool_limited_witness:
  "\<exists>res. sign_nostr_event signing_libs signing_client 100 (\<lambda>_. []) signing_identity
     [(''kind'', JInt 20013), (''tags'', JList []), (''content'', JStr ''c''), (''created_at'', JInt 100)] = Inr res \<and>
     (\<exists>e. cr_structured res = Some (event_dump e) \<and> ev_kind e = 20013 \<and> ev_pubkey e = example_pk)"
proof -
  let ?args = "[(''kind'', JInt 20013), (''tags'', JList []), (''content'', JStr ''c''), (''created_at'', JInt 100)]"
  obtain res where res: "sign_nostr_event signing_libs signing_client 100 (\<lambda>_. []) signing_identity ?args = Inr res" "\<not> cr_is_error res"
    by (simp add: sign_nostr_event_def dget_def text_tags_def joining_sign)
  from signing_tool_limited [OF this] res(1) show ?thesis by fastforce
qed

theorem generated_key_loads_witness:
  "\<exists>r. generate_key signing_client (\<lambda>_. ''0f'') ''/k'' Map.empty = Some ([''/k'' \<mapsto> (''0f'' @ [char_of (10 :: nat)], 384)], r)"
proof -
  have parsed: "str_strip ''0f'' = ''0f''" "\<not> starts_with ''0f'' ''nsec1''" by code_simp+
  have load: "from_key_string signing_client ''0f'' = Inr \<lparr>ci_private_key = ''0f'', ci_pubkey_hex = key_pubkey joining_signer ''0f''\<rparr>"
    by (simp add: from_key_string_def parsed Let_def)
  have "draw_key signing_client (\<lambda>_. ''0f'') 0 = Some (''0f'', \<lparr>ci_private_key = ''0f'', ci_pubkey_hex = key_pubkey joining_signer ''0f''\<rparr>)"
    by (subst draw_key.simps) (simp add: load)
  with generated_key_loads [where draws = "\<lambda>_. ''0f''" and m = 0, OF load, of "''/k''" Map.empty] show ?thesis
    by (auto simp: generate_key_def)
qed

end
