(* ===== verification/Spec2Isabelle.thy ===== *)
theory Spec2Isabelle
  imports Broker_Gate Write_Tools Concord_Roster Concord_Channels Concord_Drafts Concord_Routing Server_Flows Armada Memory Catalogue_Tools Client_Signing
begin

text \<open>
  A model of yunohost-mcp, the control plane that lets remote agents administer a YunoHost server.

  The program.  An HTTP frontend (\<^verbatim>\<open>src/yunohost_mcp/server.py\<close>) authenticates each request by a signed
  Nostr event, resolves the caller to an identity with scopes, and runs tools behind decorators that
  check the scope, the policy and a confirmation, hold a write lock and write an audit entry.  It has
  no privileges itself: a privileged operation is sent over a Unix socket to a helper that runs as
  root (\<^verbatim>\<open>broker/helper.py\<close>).  The helper repeats authentication, authorization, policy and confirmation
  on the original request, runs the operation through its adapter, and keeps its own audit entry.

  Theories, in the order of the imports, with the files of \<^verbatim>\<open>src/yunohost_mcp/\<close> they model.
    \<^item> \<open>Prelude\<close>: Python values, strings, results with an exception value.
    \<^item> \<open>Scopes\<close>, \<open>Roles\<close>: \<^verbatim>\<open>policy/scopes.py\<close>, \<^verbatim>\<open>policy/roles.py\<close>.
    \<^item> \<open>Rules\<close>: \<^verbatim>\<open>policy/rules.py\<close>; the default table is written out entry by entry.
    \<^item> \<open>Nostr\<close>: \<^verbatim>\<open>auth/nostr.py\<close>, \<^verbatim>\<open>json.dumps\<close>, and the record \<open>libs\<close> of third-party functions.
    \<^item> \<open>Ticket_Spec\<close>, \<open>Store_Contract\<close>, \<open>Confirmation\<close>: \<^verbatim>\<open>policy/confirmation.py\<close>.  The first states the
      abstract store (a finite map from ids to a ticket and a flag that it is being used), the second
      the locale that a store implements, the third both stores and their interpretations.
    \<^item> \<open>Identity\<close>: \<^verbatim>\<open>auth/identity.py\<close>, \<^verbatim>\<open>auth/groups.py\<close>, \<^verbatim>\<open>auth/owner.py\<close>, \<^verbatim>\<open>auth/npub.py\<close>.
    \<^item> \<open>Delegation\<close>: \<^verbatim>\<open>auth/revocation.py\<close>, \<^verbatim>\<open>auth/delegation.py\<close>.
    \<^item> \<open>Nip98\<close>: \<^verbatim>\<open>auth/replay.py\<close>, \<^verbatim>\<open>auth/nip98.py\<close>.
    \<^item> \<open>Url\<close>: \<^verbatim>\<open>urlsplit\<close> of the standard library.
    \<^item> \<open>Middleware\<close>: \<^verbatim>\<open>auth/middleware.py\<close>.
    \<^item> \<open>Enforcement\<close>: \<^verbatim>\<open>policy/enforcement.py\<close>.
    \<^item> \<open>Redaction\<close>, \<open>Audit_Log\<close>: \<^verbatim>\<open>redaction.py\<close>, \<^verbatim>\<open>audit/log.py\<close>.
    \<^item> \<open>Write_Tools\<close>: \<^verbatim>\<open>audit/decorator.py\<close>, \<^verbatim>\<open>policy/locks.py\<close> and the stack of decorators of a write tool.
    \<^item> \<open>Package_Sessions\<close>: \<^verbatim>\<open>policy/package_sessions.py\<close>.
    \<^item> \<open>Operations\<close>: \<^verbatim>\<open>broker/operations.py\<close>, every entry of the registry.
    \<^item> \<open>Protocol\<close>: \<^verbatim>\<open>broker/protocol.py\<close>, \<^verbatim>\<open>broker/client.py\<close>.
    \<^item> \<open>Broker\<close>, \<open>Broker_Gate\<close>: \<^verbatim>\<open>broker/helper.py\<close>; the definitions and what each part keeps, and
      what a connection may do.
    \<^item> \<open>Concord_Json\<close>: what the Concord modules share, reading decoded JSON and hexadecimal bytes.
    \<^item> \<open>Concord_Control\<close>, \<open>Concord_Channels\<close>, \<open>Concord_Roster\<close>: \<^verbatim>\<open>concord_control.py\<close>, its definitions, the
      fold of channels and the authority of the roster.
    \<^item> \<open>Concord_Guestbook\<close>: \<^verbatim>\<open>concord_guestbook.py\<close>.
    \<^item> \<open>Concord_Keys\<close>: \<^verbatim>\<open>concord_keys.py\<close>.
    \<^item> \<open>Concord_Drafts\<close>: \<^verbatim>\<open>concord_pending_signature.py\<close>.
    \<^item> \<open>Concord_Envelope\<close>: \<^verbatim>\<open>concord_envelope.py\<close>, \<^verbatim>\<open>concord_membership.py\<close>, \<^verbatim>\<open>concord_crypto.py\<close>.
    \<^item> \<open>Concord_Bundle\<close>: \<^verbatim>\<open>concord_bundle.py\<close>.
    \<^item> \<open>Concord_Transport\<close>: \<^verbatim>\<open>concord_transport.py\<close>.
    \<^item> \<open>Concord_Invites\<close>: \<^verbatim>\<open>concord_invites.py\<close>, \<^verbatim>\<open>concord_invite_event.py\<close>.
    \<^item> \<open>Concord_Reader\<close>: \<^verbatim>\<open>concord_control_crypto.py\<close>, \<^verbatim>\<open>concord_control_reader.py\<close>, \<^verbatim>\<open>concord_join.py\<close>.
    \<^item> \<open>Concord_Routing\<close>: \<^verbatim>\<open>concord_routing.py\<close>, \<^verbatim>\<open>concord_announcements.py\<close>, \<^verbatim>\<open>concord_announcement_publish.py\<close>,
      \<^verbatim>\<open>concord_delivery.py\<close>.
    \<^item> \<open>Adapter\<close>, \<open>Adapter_Reads\<close>, \<open>Adapter_Writes\<close>, \<open>Adapter_Workflows\<close>: the methods of \<^verbatim>\<open>yunohost/adapter.py\<close> as steps on
      a system, those that read, those that write, and those that call other methods.
    \<^item> \<open>Adapter_Dispatch\<close>, \<open>Adapter_Transparency\<close>: the signatures and the table of methods, the guard that broker
      mode puts on the others, what the root helper invokes; a call through the broker against a direct call.
    \<^item> \<open>Broker_Link\<close>: one operation through the socket, composed from the client, the connection and the helper's
      adapter; what it returns, and how many operations one signed request pays for.
    \<^item> \<open>Server_Tools\<close>, \<open>Server_Gates\<close>: the tools of \<^verbatim>\<open>server.py\<close> that make one adapter call, under their decorators;
      the server's scope check and confirmation gate against the broker's.
    \<^item> \<open>Server_Flows\<close>: the tools of \<^verbatim>\<open>server.py\<close> with bodies of their own (upgrade plans, package-test sessions,
      audit and approval tools, the composite upgrade, identity) and the resources.
    \<^item> \<open>Armada\<close>: \<^verbatim>\<open>concord_credentials.py\<close> and the announcement and join tools of \<^verbatim>\<open>server.py\<close>, over the Concord theories.
    \<^item> \<open>Memory\<close>: \<^verbatim>\<open>polypack.py\<close>, the memory methods of the adapter and the memory tools.
    \<^item> \<open>Lookups\<close>: \<^verbatim>\<open>auth/nostr_auth_lookup.py\<close>, \<^verbatim>\<open>auth/nostr_auth_relay_lookup.py\<close> and the group store on top of them.
    \<^item> \<open>Catalogue\<close>, \<open>Catalogue_Tools\<close>: the catalogue methods of the adapter, and the catalogue tools, whose publication
      composes the plan store, the adapter and the announcement.
    \<^item> \<open>Client_Signing\<close>: \<^verbatim>\<open>auth/signing.py\<close>, \<^verbatim>\<open>delegate.py\<close>, and of \<^verbatim>\<open>bridge.py\<close> the keys, the request signatures and the
      local signing tool; what the clients sign against what the server accepts.

  How the model corresponds to the code.  A class is a record, a method a function from the record to
  the record and its result, an exception the left value of a sum (\<open>Exn\<close> class message).  Time, the
  free disk space, the contents of configuration files, the adapter's answers and the socket are
  arguments: each call is one step with the values it reads.  SQLite statements of one method run in
  one transaction, so a method is one step.  Third-party code (sha256, signature verification, base64,
  JSON parsing, pydantic's coercion, TOML, bech32) is a parameter.

  What the lemmas show.  Both confirmation stores refine the abstract store, whose theorems about
  binding and single use they inherit.  The authentication theorems give the exact condition under
  which a request is accepted and that it is not accepted twice.  The authorization theorems
  show that every scope comes from a configured role of the request's author, or of whoever delegated it to the
  author by an unrevoked event.  The audit theorems show the hash chain of undisturbed records, what tampering it
  reveals, and that every authorized write is recorded once, with its caller, its outcome and its approver.  The
  broker theorems compose them: an operation runs as root only for an authenticated, authorized
  request with an unspent ticket for its policy key and arguments, and no ticket pays twice.  A call through
  the socket that returns a result has run exactly that operation in the helper, with that result, and one
  signed request makes the helper run at most one operation.  Both ends read from the bytes of the other what was meant.

  The adapter theorems show that a method does in front of the broker what it does as root, that the
  package-test cycle ends with a removal of what it installed, that an upgrade follows a backup and that a repair
  restarts only declared services, each of them also where the method raises.  The gate theorems are about the tools that
  make one adapter call: the server and the broker ask for the same scope and bind the same confirmation, and a ticket
  let through by the first gate satisfies the second.  The
  theorems on single tools show what each guards: a plan runs once and for its author, a package test stays
  within its session, an approval carries the owner's signature, an announcement is sent once and only with
  the author's signature, a publication is the planned one and does not depend on the announcement, and a stored
  memory carries the caller that the server authenticated.  What a client signs, the server accepts for exactly that request
  or delegation, and the local tool that signs for an agent signs nothing that authenticates, delegates or approves.

  Bounds.  No definition uses fuel; loops recurse on their input.  Limits of the code (message
  size, field lengths, file size read) appear with their values.  A float of a JSON value is a real number, so the
  infinities that \<^verbatim>\<open>json.loads\<close> reads from an overflowing literal are not represented.  A connection of the helper, and a
  method of a store, is one step: what other threads do between its statements is not represented.

  Not modelled: the methods of the adapter that read logs and files or run programs (\<open>service_logs\<close>,
  \<open>journal_query\<close>, \<open>web_logs\<close>, the snapshots, \<open>http_probe\<close>, \<open>package_lint\<close>) and their tools;
  the start-up of the server; the proxy and the sessions of \<^verbatim>\<open>bridge.py\<close>, the interactive clients
  (\<^verbatim>\<open>onboarding.py\<close>, \<^verbatim>\<open>approve.py\<close>), push approvals and notifications, a hook of the confirmation gate that raises; asynchronous timeouts and thread interleaving inside one method.
\<close>

end
